(* ===== verification/Prelude.thy ===== *)
theory Prelude
  imports Main "HOL-Library.Word"
begin

text \<open>
  Shared vocabulary of the development: the machine integer types of the driver, the
  IOKit result codes, the bit tricks the sources use over and over (power-of-two test,
  rounding up to an alignment, little-endian reads), and the lemmas that move a claim
  about words to natural numbers.
\<close>

unbundle bit_operations_syntax

section \<open>Types and result codes\<close>

type_synonym u8 = "8 word"
type_synonym u16 = "16 word"
type_synonym u32 = "32 word"
type_synonym u64 = "64 word"
type_synonym i64 = "64 word" \<comment> \<open>two's complement; \<open>sint\<close> reads it\<close>

text \<open>The \<^verbatim>\<open>kern_return_t\<close> values the modelled code returns, by their IOKit names.\<close>

datatype kern_return =
    kIOReturnSuccess | kIOReturnError | kIOReturnBadArgument | kIOReturnNotReady
  | kIOReturnBusy | kIOReturnNoSpace | kIOReturnNoMemory | kIOReturnNotAligned
  | kIOReturnIOError | kIOReturnNotAttached | kIOReturnInvalid | kIOReturnUnsupported
  | kIOReturnTimeout | kIOReturnNotPermitted | kIOReturnExclusiveAccess
  | kIOReturnInternalError

named_theorems word_nat \<comment> \<open>equations that read a word operation as one on \<open>nat\<close>\<close>
named_theorems wf_intros \<comment> \<open>preservation facts of the components' invariants\<close>

section \<open>Words as natural numbers\<close>

lemma unat_lt_64 [simp]: "unat (x :: u64) < 18446744073709551616"
  using unsigned_less [of x] by simp

lemma unat_lt_32 [simp]: "unat (x :: u32) < 4294967296"
  using unsigned_less [of x] by simp

lemma unat_lt_16 [simp]: "unat (x :: u16) < 65536"
  using unsigned_less [of x] by simp

lemma unat_lt_8 [simp]: "unat (x :: u8) < 256"
  using unsigned_less [of x] by simp

lemma unat_below: "unat (x :: 'a::len word) < 2 ^ LENGTH('a)"
  by (rule unsigned_less)

lemma unat_max: "unat (- 1 :: 'a::len word) = 2 ^ LENGTH('a) - 1"
  by (simp add: unsigned_minus_1_eq_mask mask_eq_exp_minus_1)

lemma unat_two_power: "k < LENGTH('a) \<Longrightarrow> unat (2 ^ k :: 'a::len word) = 2 ^ k"
proof -
  assume "k < LENGTH('a)"
  then have "(2::nat) ^ k < 2 ^ LENGTH('a)" by simp
  moreover have "(2 ^ k :: 'a word) = word_of_nat (2 ^ k)" by simp
  ultimately show ?thesis by (simp only: unat_of_nat mod_less)
qed

lemma unat_pred: "0 < unat a \<Longrightarrow> unat (a - 1) = unat (a :: 'a::len word) - 1"
  by (metis unat_minus_one unat_0 less_irrefl)

lemma unat_add64 [word_nat]:
  "unat x + unat y < 2 ^ 64 \<Longrightarrow> unat (x + y :: u64) = unat x + unat y"
  by (simp add: unat_word_ariths)

lemma unat_sub64 [word_nat]: "y \<le> x \<Longrightarrow> unat (x - y :: u64) = unat x - unat y"
  by (simp add: unat_sub)

lemma unat_inc64:
  assumes "x \<noteq> 0xFFFFFFFFFFFFFFFF"
  shows "unat (x + 1 :: u64) = unat x + 1"
proof -
  have "unat x \<noteq> unat (0xFFFFFFFFFFFFFFFF :: u64)" using assms by (simp add: word_unat_eq_iff)
  then have "unat x \<noteq> 18446744073709551615" by simp
  then have "unat x + 1 < 18446744073709551616" using unat_lt_64 [of x] by linarith
  then have "unat x + unat (1 :: u64) < 2 ^ 64" by simp
  from unat_add64 [OF this] show ?thesis by simp
qed

lemma unat_inc32: "x \<noteq> 0xFFFFFFFF \<Longrightarrow> unat (x + 1) = Suc (unat (x :: u32))"
proof -
  assume "x \<noteq> 0xFFFFFFFF"
  then have "unat x \<noteq> unat (0xFFFFFFFF :: u32)" by (simp add: word_unat_eq_iff)
  then have "unat x \<noteq> 4294967295" by simp
  then have "unat x + 1 < 4294967296" using unat_lt_32 [of x] by linarith
  then show ?thesis by (simp add: unat_word_ariths)
qed

lemma unat_dec32: "x \<noteq> 0 \<Longrightarrow> unat (x - 1) = unat (x :: u32) - 1"
  by (rule unat_minus_one)

lemma unat_widen: "unat (ucast (n :: u32) :: u64) = unat n"
proof -
  have "unat n mod 18446744073709551616 = unat n" using unat_lt_32 [of n] by (intro mod_less) linarith
  then show ?thesis by (simp only: unsigned_ucast_eq take_bit_eq_mod) simp
qed

lemma narrow_widen [simp]: "ucast (ucast (n :: u32) :: u64) = n"
proof -
  have "unat (ucast (ucast n :: u64) :: u32) = unat n mod 4294967296"
    by (simp only: unsigned_ucast_eq [of "ucast n :: u64"] unat_widen take_bit_eq_mod) simp
  then show ?thesis using unat_lt_32 [of n] by (simp add: word_unat_eq_iff)
qed

lemma unat_eq_word: "unat x = unat y \<longleftrightarrow> x = (y :: 'a::len word)"
  by (simp add: word_unat_eq_iff)

text \<open>
  The overflow guard of the sources, \<^verbatim>\<open>x > UINT64_MAX - y\<close>, says exactly that the sum
  does not fit.
\<close>

lemma add_guard_nat: "x \<le> (- 1) - y \<longleftrightarrow> unat x + unat y < 2 ^ LENGTH('a)"
  for x y :: "'a::len word"
proof -
  have "unat (- 1 - y) = (2 ^ LENGTH('a) - 1) - unat y"
    by (subst unat_sub) (simp_all add: unat_max)
  moreover have "unat y < 2 ^ LENGTH('a)" by (rule unat_below)
  ultimately show ?thesis
    by (subst word_le_nat_alt) linarith
qed

lemma add_guard64: "x \<le> (- 1) - y \<longleftrightarrow> unat x + unat y < 18446744073709551616"
  for x y :: u64
  using add_guard_nat [of x y] by simp

lemma add_guard64_max:
  "x \<le> 0xFFFFFFFFFFFFFFFF - y \<longleftrightarrow> unat x + unat y < 18446744073709551616" for x y :: u64
proof -
  have "(0xFFFFFFFFFFFFFFFF :: u64) = - 1" by simp
  then show ?thesis by (simp only: add_guard64)
qed

section \<open>Powers of two\<close>

text \<open>The sources test a power of two by \<^verbatim>\<open>a & (a - 1)\<close> being zero.\<close>

definition is_pow2 :: "'a::len word \<Rightarrow> bool" where
  "is_pow2 a \<longleftrightarrow> a \<noteq> 0 \<and> a AND (a - 1) = 0"

lemma and_pred_even_nat:
  assumes "0 < m"
  shows "(2 * m) AND (2 * m - 1) = 2 * (m AND (m - 1 :: nat))"
proof -
  have "2 * m - 1 = Suc (2 * (m - 1))" using assms by simp
  then show ?thesis by (simp add: and_nat_rec [of "2 * m"])
qed

lemma and_pred_pow2_nat: "0 < x \<Longrightarrow> x AND (x - 1) = 0 \<Longrightarrow> \<exists>k. (x::nat) = 2 ^ k"
proof (induction x rule: less_induct)
  case (less x)
  show ?case
  proof (cases "even x")
    case True
    then obtain m where m: "x = 2 * m" by blast
    with less.prems have "0 < m" by simp
    with less.prems(2) m have "2 * (m AND (m - 1)) = 0" by (simp only: and_pred_even_nat)
    then have "m AND (m - 1) = 0" by simp
    with less.IH [of m] m \<open>0 < m\<close> obtain k where "m = 2 ^ k" by auto
    with m have "x = 2 ^ Suc k" by simp
    then show ?thesis by blast
  next
    case False
    then obtain m where m: "x = Suc (2 * m)" by (metis oddE Suc_eq_plus1)
    have "Suc (2 * m) AND (2 * m) = 2 * m"
      by (simp add: and_nat_rec [of "Suc (2 * m)"])
    with less.prems m have "m = 0" by simp
    with m have "x = 2 ^ 0" by simp
    then show ?thesis by blast
  qed
qed

lemma is_pow2D:
  fixes a :: "'a::len word"
  assumes "is_pow2 a"
  obtains k where "k < LENGTH('a)" "unat a = 2 ^ k"
proof -
  have "0 < unat a" using assms by (simp add: is_pow2_def unat_gt_0)
  moreover have "unat a AND (unat a - 1) = 0"
  proof -
    have "unat (a AND (a - 1)) = unat a AND unat (a - 1)" by (simp add: unsigned_and_eq)
    moreover have "unat (a - 1) = unat a - 1"
      using \<open>0 < unat a\<close> by (rule unat_pred)
    ultimately show ?thesis using assms by (simp add: is_pow2_def)
  qed
  ultimately obtain k where k: "unat a = 2 ^ k" using and_pred_pow2_nat by blast
  have "2 ^ k < (2::nat) ^ LENGTH('a)" using unat_below [of a] k by simp
  then have "k < LENGTH('a)" by simp
  with k show ?thesis by (rule that[rotated])
qed

lemma and_not_pred_pow2:
  fixes x a :: "'a::len word"
  assumes "unat a = 2 ^ k" "k < LENGTH('a)"
  shows "unat (x AND NOT (a - 1)) = unat x div 2 ^ k * 2 ^ k"
proof -
  have "a = 2 ^ k" using assms by (simp add: word_unat_eq_iff unat_two_power)
  then have "a - 1 = mask k" by (simp add: mask_eq_exp_minus_1)
  then have "x AND NOT (a - 1) = push_bit k (drop_bit k x)"
    by (auto intro!: bit_eqI simp: bit_simps)
  also have "unat \<dots> = unat x div 2 ^ k * 2 ^ k mod 2 ^ LENGTH('a)"
    by (simp only: unsigned_push_bit_eq unsigned_drop_bit_eq)
      (simp only: drop_bit_eq_div push_bit_eq_mult take_bit_eq_mod mod_less [OF unat_below])
  also have "\<dots> = unat x div 2 ^ k * 2 ^ k"
  proof -
    have "unat x div 2 ^ k * 2 ^ k \<le> unat x" by (rule div_times_less_eq_dividend)
    then have "unat x div 2 ^ k * 2 ^ k < 2 ^ LENGTH('a)"
      using unat_below [of x] by (rule le_less_trans)
    then show ?thesis by (rule mod_less)
  qed
  finally show ?thesis .
qed

lemma and_pred_pow2:
  fixes x a :: "'a::len word"
  assumes "unat a = 2 ^ k" "k < LENGTH('a)"
  shows "unat (x AND (a - 1)) = unat x mod 2 ^ k"
proof -
  have "a = 2 ^ k" using assms by (simp add: word_unat_eq_iff unat_two_power)
  then have "a - 1 = mask k" by (simp add: mask_eq_exp_minus_1)
  then show ?thesis
    by (simp only: take_bit_eq_mask [symmetric] unsigned_take_bit_eq) (simp only: take_bit_eq_mod)
qed

section \<open>Rounding up to an alignment\<close>

text \<open>\<^verbatim>\<open>(x + a - 1) & ~(a - 1)\<close>, as the allocators round sizes and addresses.\<close>

definition align_up :: "'a::len word \<Rightarrow> 'a word \<Rightarrow> 'a word" where
  "align_up x a = (x + a - 1) AND NOT (a - 1)"

definition round_up :: "nat \<Rightarrow> nat \<Rightarrow> nat" where
  "round_up x a = (x + a - 1) div a * a"

lemma round_up_ge: "0 < a \<Longrightarrow> x \<le> round_up x a"
  unfolding round_up_def
  using div_mult_mod_eq [of "x + a - 1" a] mod_less_divisor [of a "x + a - 1"] by linarith

lemma round_up_lt: "0 < a \<Longrightarrow> round_up x a < x + a"
  unfolding round_up_def
  using div_times_less_eq_dividend [of "x + a - 1" a] by linarith

lemma round_up_dvd [simp]: "a dvd round_up x a"
  by (simp add: round_up_def)

lemma round_up_least:
  assumes "0 < a" "a dvd y" "x \<le> y"
  shows "round_up x a \<le> y"
proof -
  obtain m where m: "y = a * m" using assms(2) by blast
  have "x + a - 1 < a * Suc m" using assms(1,3) m by simp
  then have "(x + a - 1) div a < Suc m" by (simp add: less_mult_imp_div_less mult.commute)
  then show ?thesis unfolding round_up_def m using assms(1) by (simp add: mult.commute)
qed

lemma round_up_mono: "x \<le> y \<Longrightarrow> round_up x a \<le> round_up y a"
  by (simp add: round_up_def div_le_mono)

lemma round_up_id: "0 < a \<Longrightarrow> a dvd x \<Longrightarrow> round_up x a = x"
  using round_up_ge [of a x] round_up_least [of a x x] by simp

lemma round_up_pos: "0 < a \<Longrightarrow> 0 < x \<Longrightarrow> 0 < round_up x a"
  using round_up_ge [of a x] by linarith

lemma unat_align_up:
  fixes x a :: "'a::len word"
  assumes "is_pow2 a" "unat x + (unat a - 1) < 2 ^ LENGTH('a)"
  shows "unat (align_up x a) = round_up (unat x) (unat a)"
proof -
  from assms(1) obtain k where k: "k < LENGTH('a)" "unat a = 2 ^ k" by (rule is_pow2D)
  have pos: "0 < unat a" using k by simp
  have "unat (a - 1) = unat a - 1" using pos by (rule unat_pred)
  then have "unat (x + (a - 1)) = unat x + (unat a - 1)"
    using assms(2) by (simp add: unat_word_ariths)
  then have "unat (x + a - 1) = unat x + unat a - 1" using pos by (simp add: add_diff_eq)
  then show ?thesis
    unfolding align_up_def round_up_def
    by (simp only: and_not_pred_pow2 [OF k(2,1)] k(2) [symmetric])
qed

lemma low_bits_zero_dvd:
  fixes x :: "'a::len word"
  assumes "is_pow2 a" "x AND (a - 1) = 0"
  shows "unat a dvd unat x"
proof -
  from assms(1) obtain k where k: "k < LENGTH('a)" "unat a = 2 ^ k" by (rule is_pow2D)
  from and_pred_pow2 [OF k(2,1), of x] assms(2) have "unat x mod 2 ^ k = 0" by simp
  with k show ?thesis by (simp add: mod_eq_0_iff_dvd)
qed

lemma dvd_low_bits_zero:
  fixes x :: "'a::len word"
  assumes "is_pow2 a" "unat a dvd unat x"
  shows "x AND (a - 1) = 0"
proof -
  from assms(1) obtain k where k: "k < LENGTH('a)" "unat a = 2 ^ k" by (rule is_pow2D)
  from and_pred_pow2 [OF k(2,1), of x] assms(2) k(2) have "unat (x AND (a - 1)) = 0"
    by (simp add: mod_eq_0_iff_dvd)
  then show ?thesis by (simp add: unat_eq_zero)
qed

lemma and_mask_dvd:
  fixes x :: "'a::len word"
  assumes "is_pow2 a"
  shows "x AND (a - 1) = 0 \<longleftrightarrow> unat a dvd unat x"
  using low_bits_zero_dvd [OF assms, of x] dvd_low_bits_zero [OF assms, of x] by blast

lemma and_4095_dvd: "x AND 4095 = 0 \<longleftrightarrow> 4096 dvd unat (x :: u64)"
proof -
  have "is_pow2 (4096 :: u64)" by (simp add: is_pow2_def)
  from and_mask_dvd [OF this, of x] show ?thesis by simp
qed

text \<open>
  Where \<open>lo + (al - 1)\<close> does not fit 64 bits, no aligned address lies at or above \<open>lo\<close>: the early
  exits of the allocators' searches lose nothing.
\<close>

lemma aligned_top:
  assumes "al = 2 ^ k" "k < 64" "2 ^ 64 \<le> lo + (al - 1)" "lo \<le> a" "al dvd a"
  shows "2 ^ 64 \<le> (a :: nat)"
proof (rule ccontr)
  assume "\<not> 2 ^ 64 \<le> a"
  then have "a < 2 ^ 64" by simp
  have top: "(2::nat) ^ 64 = al * 2 ^ (64 - k)" using assms(1,2) by (simp add: power_add [symmetric])
  obtain j where j: "a = al * j" using assms(5) by blast
  with \<open>a < 2 ^ 64\<close> top have "j < 2 ^ (64 - k)" by (metis mult_less_cancel1)
  then have "al * (j + 1) \<le> al * 2 ^ (64 - k)" by (intro mult_le_mono) simp_all
  then have "a + al \<le> 2 ^ 64" using j top by simp
  moreover have "0 < al" using assms(1) by simp
  ultimately show False using assms(3,4) by linarith
qed

section \<open>Little-endian bytes\<close>

text \<open>
  \<^verbatim>\<open>memcpy\<close> of a word from byte \<open>i\<close> of a buffer on the little-endian host. A byte past the end reads
  as zero here; the callers' range checks keep such reads out.
\<close>

definition byte_at :: "u8 list \<Rightarrow> nat \<Rightarrow> u8" where
  "byte_at bs i = (if i < length bs then bs ! i else 0)"

definition le16 :: "u8 list \<Rightarrow> nat \<Rightarrow> u16" where
  "le16 bs i = ucast (byte_at bs i) OR push_bit 8 (ucast (byte_at bs (i + 1)))"

definition le32 :: "u8 list \<Rightarrow> nat \<Rightarrow> u32" where
  "le32 bs i = ucast (byte_at bs i) OR push_bit 8 (ucast (byte_at bs (i + 1))) OR
     push_bit 16 (ucast (byte_at bs (i + 2))) OR push_bit 24 (ucast (byte_at bs (i + 3)))"

definition le64 :: "u8 list \<Rightarrow> nat \<Rightarrow> u64" where
  "le64 bs i = ucast (le32 bs i) OR push_bit 32 (ucast (le32 bs (i + 4)))"

definition bytes32 :: "u32 \<Rightarrow> u8 list" where
  "bytes32 v = [ucast v, ucast (drop_bit 8 v), ucast (drop_bit 16 v), ucast (drop_bit 24 v)]"

definition bytes64 :: "u64 \<Rightarrow> u8 list" where
  "bytes64 v = bytes32 (ucast v) @ bytes32 (ucast (drop_bit 32 v))"

lemma le32_bytes32 [simp]: "le32 (bytes32 v @ rest) 0 = v"
proof (rule bit_word_eqI)
  fix n assume n: "n < LENGTH(32)"
  consider "n < 8" | "8 \<le> n" "n < 16" | "16 \<le> n" "n < 24" | "24 \<le> n" using n by linarith
  then show "bit (le32 (bytes32 v @ rest) 0) n = bit v n"
    using n by cases (auto simp: le32_def bytes32_def byte_at_def bit_simps)
qed

lemma le32_append: "le32 (xs @ ys) (length xs + i) = le32 ys i"
  by (simp add: le32_def byte_at_def nth_append add.assoc)

lemma length_bytes32 [simp]: "length (bytes32 v) = 4"
  by (simp add: bytes32_def)

lemma length_bytes64 [simp]: "length (bytes64 v) = 8"
  by (simp add: bytes64_def)

lemma le64_bytes64 [simp]: "le64 (bytes64 v @ rest) 0 = v"
proof -
  have "le32 (bytes64 v @ rest) 0 = ucast v" by (simp add: bytes64_def)
  moreover have "le32 (bytes64 v @ rest) 4 = ucast (drop_bit 32 v)"
    using le32_append [of "bytes32 (ucast v)" "bytes32 (ucast (drop_bit 32 v)) @ rest" 0]
    by (simp add: bytes64_def)
  ultimately have "le64 (bytes64 v @ rest) 0 = ucast (ucast v :: u32) OR push_bit 32 (ucast (ucast (drop_bit 32 v) :: u32))"
    by (simp add: le64_def)
  also have "\<dots> = v"
    by (rule bit_word_eqI) (auto simp: bit_simps)
  finally show ?thesis .
qed

text \<open>A 64-bit value as two dwords, and an array of dwords as bytes.\<close>

definition dw64 :: "u64 \<Rightarrow> u32 list" where
  "dw64 v = [ucast v, ucast (drop_bit 32 v)]"

definition dw_bytes :: "u32 list \<Rightarrow> u8 list" where
  "dw_bytes ws = concat (map bytes32 ws)"

lemma dw_bytes_simps [simp]: "dw_bytes [] = []" "dw_bytes (w # ws) = bytes32 w @ dw_bytes ws"
  by (simp_all add: dw_bytes_def)

lemma length_dw_bytes [simp]: "length (dw_bytes ws) = 4 * length ws"
  by (induction ws) simp_all

lemma length_dw64 [simp]: "length (dw64 v) = 2"
  by (simp add: dw64_def)

lemma bytes64_dw64: "bytes64 v = dw_bytes (dw64 v)"
  by (simp add: bytes64_def dw64_def)

lemma le32_dw_bytes: "k < length ws \<Longrightarrow> le32 (dw_bytes ws) (4 * k) = ws ! k"
proof (induction ws arbitrary: k)
  case (Cons w ws)
  show ?case
  proof (cases k)
    case 0
    then show ?thesis by simp
  next
    case (Suc j)
    then have "le32 (dw_bytes (w # ws)) (4 * k) = le32 (dw_bytes ws) (4 * j)"
      using le32_append [of "bytes32 w" "dw_bytes ws" "4 * j"] by simp
    with Suc Cons show ?thesis by simp
  qed
qed simp

lemma dw64_join: "ucast (ucast v :: u32) OR push_bit 32 (ucast (ucast (drop_bit 32 v) :: u32)) = (v :: u64)"
  by (rule bit_word_eqI) (auto simp: bit_simps)

section \<open>Early return\<close>

text \<open>
  \<^verbatim>\<open>r = f(...); if (r != kIOReturnSuccess) return r;\<close> over a state \<open>'s\<close> of the driver and the device;
  \<open>None\<close> is a call that does not return.
\<close>

type_synonym ('s, 'd) outcome = "((kern_return \<times> 's) \<times> 'd) option"

definition and_then :: "('s, 'd) outcome \<Rightarrow> ('s \<Rightarrow> 'd \<Rightarrow> ('s, 'd) outcome) \<Rightarrow> ('s, 'd) outcome" where
  "and_then m k = (case m of
       None \<Rightarrow> None
     | Some ((r, s), d) \<Rightarrow> if r \<noteq> kIOReturnSuccess then Some ((r, s), d) else k s d)"

text \<open>A call that works on the first of two contexts.\<close>

definition on_fst :: "('s, 'd) outcome \<Rightarrow> 't \<Rightarrow> ('s \<times> 't, 'd) outcome" where
  "on_fst m t = map_option (\<lambda>((r, s), d). ((r, s, t), d)) m"

lemma and_then_simps [simp]:
  "and_then None k = None"
  "and_then (Some ((kIOReturnSuccess, s), d)) k = k s d"
  "r \<noteq> kIOReturnSuccess \<Longrightarrow> and_then (Some ((r, s), d)) k = Some ((r, s), d)"
  by (simp_all add: and_then_def)

lemma and_then_cases:
  assumes "and_then m k = Some ((r, t), d)"
  obtains (stop) "m = Some ((r, t), d)" "r \<noteq> kIOReturnSuccess"
  | (go) s e where "m = Some ((kIOReturnSuccess, s), e)" "k s e = Some ((r, t), d)"
  using assms by (auto simp: and_then_def split: option.splits prod.splits if_splits)

lemma and_then_ok:
  assumes "and_then m k = Some ((kIOReturnSuccess, t), d)"
  obtains s e where "m = Some ((kIOReturnSuccess, s), e)" "k s e = Some ((kIOReturnSuccess, t), d)"
  using assms by (rule and_then_cases) auto

lemma and_then_returns:
  assumes "m \<noteq> None" "\<And>s d. k s d \<noteq> None"
  shows "and_then m k \<noteq> None"
  using assms by (auto simp: and_then_def split: option.splits prod.splits)

lemma on_fst_eq [simp]:
  "on_fst m t = Some ((r, s, t'), d) \<longleftrightarrow> m = Some ((r, s), d) \<and> t' = t"
  "on_fst m t = None \<longleftrightarrow> m = None"
  by (auto simp: on_fst_def)

end
