(* ===== verification/Range_Contract.thy ===== *)
theory Range_Contract
  imports Prelude
begin

text \<open>
  The contract that the driver's two range allocators share: the VRAM free-list allocator
  (\<^verbatim>\<open>amdgpu_vram.h\<close>) and the GART aperture allocator (\<^verbatim>\<open>amdgpu_gart_allocator.h\<close>). A
  provider hands out address ranges that are disjoint from every range still live, and takes
  them back. The clients of the contract only see the list of live ranges, which the model
  carries beside the provider's own state.
\<close>

section \<open>Sessions: sequences of reservations and releases\<close>

datatype 'q range_cmd = Reserve 'q | Release nat

text \<open>
  One request of a session: a reservation that the provider refuses changes nothing, a
  release gives back the \<open>n\<close>-th live range (a number out of range gives back nothing).
\<close>

fun session_step ::
  "('s \<Rightarrow> 'q \<Rightarrow> ('r \<times> 's) option) \<Rightarrow> ('s \<Rightarrow> 'r \<Rightarrow> 's) \<Rightarrow> 's \<times> 'r list \<Rightarrow> 'q range_cmd \<Rightarrow> 's \<times> 'r list"
where
  "session_step rsv rel (s, live) (Reserve q) =
     (case rsv s q of None \<Rightarrow> (s, live) | Some (r, s') \<Rightarrow> (s', r # live))"
| "session_step rsv rel (s, live) (Release n) =
     (if n < length live then (rel s (live ! n), remove1 (live ! n) live) else (s, live))"

definition session ::
  "('s \<Rightarrow> 'q \<Rightarrow> ('r \<times> 's) option) \<Rightarrow> ('s \<Rightarrow> 'r \<Rightarrow> 's) \<Rightarrow> 's \<times> 'r list \<Rightarrow> 'q range_cmd list \<Rightarrow> 's \<times> 'r list"
where
  "session rsv rel = foldl (session_step rsv rel)"

lemma session_simps [simp]:
  "session rsv rel st [] = st"
  "session rsv rel st (c # cs) = session rsv rel (session_step rsv rel st c) cs"
  by (simp_all add: session_def)

section \<open>Disjoint spans\<close>

definition disjoint_spans :: "('r \<Rightarrow> nat set) \<Rightarrow> 'r list \<Rightarrow> bool" where
  "disjoint_spans span rs \<longleftrightarrow> sorted_wrt (\<lambda>x y. span x \<inter> span y = {}) rs"

lemma disjoint_spans_simps [simp]:
  "disjoint_spans span []"
  "disjoint_spans span (r # rs) \<longleftrightarrow>
     (\<forall>x \<in> set rs. span r \<inter> span x = {}) \<and> disjoint_spans span rs"
  by (simp_all add: disjoint_spans_def)

lemma disjoint_spans_nth:
  assumes "disjoint_spans span rs" "i < length rs" "j < length rs" "i \<noteq> j"
  shows "span (rs ! i) \<inter> span (rs ! j) = {}"
  using assms unfolding disjoint_spans_def sorted_wrt_iff_nth_less
  by (metis inf_commute linorder_neqE_nat)

lemma disjoint_spans_remove1: "disjoint_spans span rs \<Longrightarrow> disjoint_spans span (remove1 x rs)"
proof (induction rs)
  case (Cons r rs)
  have "set (remove1 x rs) \<subseteq> set rs" by (rule set_remove1_subset)
  with Cons show ?case by (cases "x = r") auto
qed simp

lemma disjoint_spans_remove1_disjoint:
  assumes "disjoint_spans span rs" "x \<in> set rs" "y \<in> set (remove1 x rs)"
  shows "span x \<inter> span y = {}"
  using assms
proof (induction rs)
  case (Cons r rs)
  then show ?case
    by (cases "r = x") (auto dest: set_remove1_subset [THEN subsetD] split: if_splits)
qed simp

lemma card_disjoint_spans:
  assumes "disjoint_spans span rs" "\<And>r. r \<in> set rs \<Longrightarrow> finite (span r)"
  shows "card (\<Union>r \<in> set rs. span r) = sum_list (map (\<lambda>r. card (span r)) rs)"
  using assms
proof (induction rs)
  case (Cons r rs)
  have "card (span r \<union> (\<Union>x \<in> set rs. span x)) = card (span r) + card (\<Union>x \<in> set rs. span x)"
    using Cons.prems by (intro card_Un_disjoint) auto
  with Cons show ?case by simp
qed simp

section \<open>The contract\<close>

locale range_allocator =
  fixes inv :: "'s \<Rightarrow> 'r list \<Rightarrow> bool"
    and span :: "'r \<Rightarrow> nat set"
    and arena :: "'s \<Rightarrow> nat set"
    and reserve :: "'s \<Rightarrow> 'q \<Rightarrow> ('r \<times> 's) option"
    and release :: "'s \<Rightarrow> 'r \<Rightarrow> 's"
  assumes reserve_inv: "inv s live \<Longrightarrow> reserve s q = Some (r, s') \<Longrightarrow> inv s' (r # live)"
    and reserve_arena: "inv s live \<Longrightarrow> reserve s q = Some (r, s') \<Longrightarrow> arena s' = arena s"
    and release_inv: "inv s live \<Longrightarrow> r \<in> set live \<Longrightarrow> inv (release s r) (remove1 r live)"
    and release_arena: "inv s live \<Longrightarrow> r \<in> set live \<Longrightarrow> arena (release s r) = arena s"
    and live_disjoint: "inv s live \<Longrightarrow> disjoint_spans span live"
    and live_arena: "inv s live \<Longrightarrow> r \<in> set live \<Longrightarrow> span r \<subseteq> arena s"
begin

text \<open>A reservation never overlaps a range that is still live.\<close>

lemma reserve_fresh:
  assumes "inv s live" "reserve s q = Some (r, s')" "x \<in> set live"
  shows "span r \<inter> span x = {}"
  using live_disjoint [OF reserve_inv [OF assms(1,2)]] assms(3) by simp

lemma step_inv:
  assumes "inv s live" "session_step reserve release (s, live) c = (s', live')"
  shows "inv s' live' \<and> arena s' = arena s"
proof (cases c)
  case (Reserve q)
  show ?thesis
  proof (cases "reserve s q")
    case None
    with Reserve assms show ?thesis by simp
  next
    case (Some p)
    obtain r t where "p = (r, t)" by fastforce
    with Some Reserve assms(2) have "reserve s q = Some (r, s')" "live' = r # live" by simp_all
    with reserve_inv [OF assms(1)] reserve_arena [OF assms(1)] show ?thesis by blast
  qed
next
  case (Release n)
  with assms show ?thesis
    using release_inv [OF assms(1)] release_arena [OF assms(1)]
    by (simp add: nth_mem split: if_splits) (metis nth_mem)
qed

lemma session_inv:
  assumes "inv s live" "session reserve release (s, live) cs = (s', live')"
  shows "inv s' live' \<and> arena s' = arena s"
  using assms
proof (induction cs arbitrary: s live)
  case Nil
  then show ?case by simp
next
  case (Cons c cs)
  obtain s1 live1 where st: "session_step reserve release (s, live) c = (s1, live1)" by fastforce
  with step_inv [OF Cons.prems(1) st] Cons.IH [of s1 live1] Cons.prems(2) show ?case by simp
qed

text \<open>
  The client's view: after any session, two different live ranges never overlap and every
  live range lies in the arena the session started with.
\<close>

lemma session_disjoint:
  assumes "inv s []" "session reserve release (s, []) cs = (s', live)"
    "i < length live" "j < length live" "i \<noteq> j"
  shows "span (live ! i) \<inter> span (live ! j) = {}"
  using session_inv [OF assms(1,2)] assms(3-) live_disjoint disjoint_spans_nth by blast

lemma session_arena:
  assumes "inv s []" "session reserve release (s, []) cs = (s', live)" "r \<in> set live"
  shows "span r \<subseteq> arena s"
  using session_inv [OF assms(1,2)] assms(3) live_arena by blast

end

end
