(* ===== verification/Free_List.thy ===== *)
theory Free_List
  imports Range_Contract
begin

text \<open>
  The abstract specification of the VRAM allocator: a list of free ranges \<open>(start, length)\<close>
  on natural numbers, sorted by start, never adjacent (coalesced), with first-fit allocation
  and a free that merges with both neighbours. \<open>Vram\<close> shows that the node pool and index links
  of \<^verbatim>\<open>VRAMBumpAllocator\<close> implement exactly these functions.
\<close>

type_synonym free_list = "(nat \<times> nat) list"

definition fset_of :: "free_list \<Rightarrow> nat set" where
  "fset_of fl = (\<Union>(b, l) \<in> set fl. {b ..< b + l})"

lemma fset_of_simps [simp]:
  "fset_of [] = {}"
  "fset_of ((b, l) # fl) = {b ..< b + l} \<union> fset_of fl"
  "fset_of (xs @ ys) = fset_of xs \<union> fset_of ys"
  by (auto simp: fset_of_def)

text \<open>Sorted, non-empty, and with at least one address between two free ranges.\<close>

fun fl_wf :: "nat \<Rightarrow> free_list \<Rightarrow> bool" where
  "fl_wf lo [] = True"
| "fl_wf lo ((b, l) # fl) = (lo \<le> b \<and> 0 < l \<and> fl_wf (Suc (b + l)) fl)"

definition carve :: "nat \<times> nat \<Rightarrow> nat \<Rightarrow> nat \<Rightarrow> free_list" where
  "carve = (\<lambda>(b, l) pad r.
     (if pad = 0 then [] else [(b, pad)]) @
     (if l = pad + r then [] else [(b + pad + r, l - pad - r)]))"

fun fl_alloc :: "nat \<Rightarrow> nat \<Rightarrow> free_list \<Rightarrow> (nat \<times> free_list) option" where
  "fl_alloc al r [] = None"
| "fl_alloc al r ((b, l) # fl) =
     (let pad = round_up b al - b in
      if pad + r \<le> l then Some (b + pad, carve (b, l) pad r @ fl)
      else map_option (\<lambda>(a, fl'). (a, (b, l) # fl')) (fl_alloc al r fl))"

fun fl_free :: "nat \<Rightarrow> nat \<Rightarrow> free_list \<Rightarrow> free_list" where
  "fl_free off len [] = [(off, len)]"
| "fl_free off len ((b, l) # fl) =
     (if off \<le> b then (if off + len = b then (off, len + l) # fl else (off, len) # (b, l) # fl)
      else if b + l = off then
        (case fl of [] \<Rightarrow> [(b, l + len)]
         | (b2, l2) # fl2 \<Rightarrow> (if off + len = b2 then (b, l + len + l2) # fl2 else (b, l + len) # fl))
      else (b, l) # fl_free off len fl)"

section \<open>Well-formedness\<close>

lemma fl_wf_mono: "fl_wf lo fl \<Longrightarrow> lo' \<le> lo \<Longrightarrow> fl_wf lo' fl"
  by (cases fl) auto

lemma fl_wf_lower: "fl_wf lo fl \<Longrightarrow> x \<in> fset_of fl \<Longrightarrow> lo \<le> x"
proof (induction lo fl rule: fl_wf.induct)
  case (2 lo b l fl)
  then show ?case by fastforce
qed simp

lemma fl_wf_pos: "fl_wf lo fl \<Longrightarrow> (b, l) \<in> set fl \<Longrightarrow> 0 < l"
  by (induction lo fl rule: fl_wf.induct) auto

lemma fl_wf_mem: "fl_wf lo fl \<Longrightarrow> (b, l) \<in> set fl \<Longrightarrow> b \<in> fset_of fl"
  using fl_wf_pos by (fastforce simp: fset_of_def)

lemma fl_wf_append:
  "fl_wf lo (xs @ ys) \<longleftrightarrow>
     fl_wf lo xs \<and> (if xs = [] then fl_wf lo ys else fl_wf (Suc (fst (last xs) + snd (last xs))) ys)"
  by (induction lo xs rule: fl_wf.induct) auto

section \<open>Allocation\<close>

lemma fl_alloc_sound:
  assumes "fl_wf lo fl" "fl_alloc al r fl = Some (a, fl')" "0 < al" "0 < r"
  shows "{a ..< a + r} \<subseteq> fset_of fl \<and> fset_of fl' = fset_of fl - {a ..< a + r} \<and>
         fl_wf lo fl' \<and> al dvd a"
  using assms
proof (induction lo fl arbitrary: a fl' rule: fl_wf.induct)
  case (1 lo)
  then show ?case by simp
next
  case (2 lo b l fl)
  define pad where "pad = round_up b al - b"
  have le: "b \<le> round_up b al" using 2(4) by (rule round_up_ge)
  show ?case
  proof (cases "pad + r \<le> l")
    case True
    with 2(3) have a: "a = b + pad" and fl': "fl' = carve (b, l) pad r @ fl"
      by (auto simp: pad_def Let_def)
    have low: "Suc (b + l) \<le> x" if "x \<in> fset_of fl" for x
      using fl_wf_lower [of "Suc (b + l)" fl x] that 2(2) by simp
    have "fset_of (carve (b, l) pad r) = {b ..< b + l} - {a ..< a + r}"
      using True \<open>0 < r\<close> by (auto simp: carve_def a)
    moreover have "{a ..< a + r} \<inter> fset_of fl = {}"
      using True low by (fastforce simp: a)
    ultimately have "fset_of fl' = fset_of ((b, l) # fl) - {a ..< a + r}"
      by (auto simp: fl')
    moreover have "fl_wf lo fl'"
    proof -
      have wf: "fl_wf (Suc (b + l)) fl" "lo \<le> b" using 2(2) by simp_all
      have "fl_wf (Suc (b + pad)) fl" using wf(1) by (rule fl_wf_mono) (use True in simp)
      moreover have "fl_wf lo fl" using wf(1) by (rule fl_wf_mono) (use wf(2) in simp)
      moreover have "fl_wf (Suc (b + pad + r + (l - pad - r))) fl" using wf(1) True by simp
      moreover have "l \<noteq> pad + r \<Longrightarrow> pad + r < l" using True by simp
      ultimately show ?thesis using wf \<open>0 < r\<close> by (auto simp: fl' carve_def)
    qed
    moreover have "al dvd a" using le by (simp add: a pad_def)
    moreover have "{a ..< a + r} \<subseteq> fset_of ((b, l) # fl)" using True by (auto simp: a)
    ultimately show ?thesis by blast
  next
    case False
    with 2(3) obtain fl2 where r: "fl_alloc al r fl = Some (a, fl2)" and fl': "fl' = (b, l) # fl2"
      by (auto simp: pad_def [symmetric])
    from 2(2) have wf: "fl_wf (Suc (b + l)) fl" by simp
    note IH = 2(1) [OF wf r 2(4,5)]
    have "{b ..< b + l} \<inter> {a ..< a + r} = {}"
      using IH fl_wf_lower [OF wf] by fastforce
    with IH 2(2) show ?thesis by (auto simp: fl')
  qed
qed

text \<open>
  First fit is complete: it fails only when no aligned block of the requested size lies in
  the free addresses at all (the ranges are coalesced, so such a block would lie in one of
  them), and it returns the lowest such block.
\<close>

lemma block_in_one:
  assumes "fl_wf lo ((b, l) # fl)" "{x ..< x + r} \<subseteq> fset_of ((b, l) # fl)" "0 < r"
  shows "(b \<le> x \<and> x + r \<le> b + l) \<or> (b + l < x \<and> {x ..< x + r} \<subseteq> fset_of fl)"
proof -
  from assms(1) have wf: "fl_wf (Suc (b + l)) fl" and "0 < l" by simp_all
  have low: "b + l < y" if "y \<in> fset_of fl" for y using fl_wf_lower [OF wf that] by simp
  have "x \<in> {x ..< x + r}" using assms(3) by simp
  with assms(2) have x: "x \<in> fset_of ((b, l) # fl)" by (rule subsetD)
  show ?thesis
  proof (cases "x < b + l")
    case True
    with x low have "b \<le> x" by fastforce
    moreover have "x + r \<le> b + l"
    proof (rule ccontr)
      assume "\<not> x + r \<le> b + l"
      with True have "b + l \<in> {x ..< x + r}" by simp
      with assms(2) have "b + l \<in> fset_of ((b, l) # fl)" by blast
      with low show False by fastforce
    qed
    ultimately show ?thesis by simp
  next
    case False
    with x have "b + l < x" using low by fastforce
    moreover have "{x ..< x + r} \<subseteq> fset_of fl" using assms(2) False by fastforce
    ultimately show ?thesis by simp
  qed
qed

lemma fl_alloc_lowest:
  assumes "fl_wf lo fl" "{x ..< x + r} \<subseteq> fset_of fl" "al dvd x" "0 < al" "0 < r"
  shows "\<exists>a fl'. fl_alloc al r fl = Some (a, fl') \<and> a \<le> x"
  using assms
proof (induction lo fl rule: fl_wf.induct)
  case (1 lo)
  then show ?case by simp
next
  case (2 lo b l fl)
  define pad where "pad = round_up b al - b"
  have ge: "b \<le> round_up b al" using 2(5) by (rule round_up_ge)
  consider (here) "b \<le> x" "x + r \<le> b + l" | (later) "b + l < x" "{x ..< x + r} \<subseteq> fset_of fl"
    using block_in_one [OF 2(2,3,6)] by blast
  then show ?case
  proof cases
    case here
    then have "round_up b al \<le> x" using 2(4,5) by (intro round_up_least)
    with here ge have "pad + r \<le> l" "b + pad \<le> x" by (simp_all add: pad_def)
    then show ?thesis by (simp add: pad_def Let_def)
  next
    case later
    then obtain a fl' where IH: "fl_alloc al r fl = Some (a, fl')" "a \<le> x"
      using 2 by (auto simp del: fset_of_simps)
    show ?thesis
    proof (cases "pad + r \<le> l")
      case True
      with later ge show ?thesis by (simp add: pad_def)
    next
      case False
      with IH show ?thesis by (simp add: pad_def [symmetric])
    qed
  qed
qed

lemma fl_alloc_none_iff:
  assumes "fl_wf lo fl" "0 < al" "0 < r"
  shows "fl_alloc al r fl = None \<longleftrightarrow> \<not> (\<exists>x. al dvd x \<and> {x ..< x + r} \<subseteq> fset_of fl)"
proof
  assume "fl_alloc al r fl = None"
  then show "\<not> (\<exists>x. al dvd x \<and> {x ..< x + r} \<subseteq> fset_of fl)"
    using fl_alloc_lowest [OF assms(1) _ _ assms(2,3)] by fastforce
next
  assume "\<not> (\<exists>x. al dvd x \<and> {x ..< x + r} \<subseteq> fset_of fl)"
  then show "fl_alloc al r fl = None"
  proof (rule contrapos_np)
    assume "fl_alloc al r fl \<noteq> None"
    then obtain a fl' where "fl_alloc al r fl = Some (a, fl')" by auto
    from fl_alloc_sound [OF assms(1) this assms(2,3)]
    show "\<exists>x. al dvd x \<and> {x ..< x + r} \<subseteq> fset_of fl" by blast
  qed
qed

section \<open>Release\<close>

lemma fl_free_sound:
  assumes "fl_wf lo fl" "{off ..< off + len} \<inter> fset_of fl = {}" "0 < len" "lo \<le> off"
  shows "fset_of (fl_free off len fl) = fset_of fl \<union> {off ..< off + len} \<and>
         fl_wf lo (fl_free off len fl)"
  using assms
proof (induction lo fl rule: fl_wf.induct)
  case (1 lo)
  then show ?case by simp
next
  case (2 lo b l fl)
  from 2(2) have wf: "fl_wf (Suc (b + l)) fl" and "0 < l" "lo \<le> b" by simp_all
  show ?case
  proof (cases "off \<le> b")
    case True
    have "b \<notin> {off ..< off + len}" using 2(3) \<open>0 < l\<close> by auto
    with True have le: "off + len \<le> b" by simp
    show ?thesis
    proof (cases "off + len = b")
      case eq: True
      have "{off ..< off + (len + l)} = {off ..< off + len} \<union> {b ..< b + l}" using eq by auto
      moreover have "fl_wf (Suc (off + (len + l))) fl"
        using wf eq by (simp only: add.assoc [symmetric])
      ultimately show ?thesis using True eq 2(4,5) by (simp add: Un_ac)
    next
      case False
      with True le wf 2(4,5) \<open>0 < l\<close> show ?thesis by (simp add: Un_ac)
    qed
  next
    case False
    have "off \<in> {off ..< off + len}" using 2(4) by simp
    with 2(3) have "off \<notin> fset_of ((b, l) # fl)" by blast
    then have "off \<notin> {b ..< b + l}" by simp
    with False have end_le: "b + l \<le> off" by simp
    show ?thesis
    proof (cases "b + l = off")
      case True
      show ?thesis
      proof (cases fl)
        case Nil
        with True False 2(4) \<open>0 < l\<close> \<open>lo \<le> b\<close> show ?thesis by auto
      next
        case (Cons p fl2)
        obtain b2 l2 where p: "p = (b2, l2)" by fastforce
        from wf Cons p have "off < b2" "0 < l2" "fl_wf (Suc (b2 + l2)) fl2" using True by auto
        moreover have "b2 \<notin> {off ..< off + len}" using 2(3) Cons p \<open>0 < l2\<close> by auto
        ultimately show ?thesis
          using True False 2(4) \<open>0 < l\<close> \<open>lo \<le> b\<close> Cons p by (auto simp: add.assoc)
      qed
    next
      case neq: False
      have "{off ..< off + len} \<inter> fset_of fl = {}" using 2(3) by auto
      moreover have "Suc (b + l) \<le> off" using end_le neq by simp
      ultimately have "fset_of (fl_free off len fl) = fset_of fl \<union> {off ..< off + len} \<and>
         fl_wf (Suc (b + l)) (fl_free off len fl)"
        using 2(1) wf 2(4) by blast
      with False neq \<open>0 < l\<close> \<open>lo \<le> b\<close> show ?thesis by auto
    qed
  qed
qed

section \<open>How many free ranges there can be\<close>

text \<open>
  Two neighbouring free ranges are separated by at least one live block, so the number of
  free ranges is at most one more than the number of live blocks. This is the bound that
  makes the node pool of the allocator large enough.
\<close>

lemma fl_wf_gap_end: "fl_wf lo fl \<Longrightarrow> (b, l) \<in> set fl \<Longrightarrow> b + l \<notin> fset_of fl"
proof (induction lo fl rule: fl_wf.induct)
  case (2 lo c m fl)
  then have wf: "fl_wf (Suc (c + m)) fl" by simp
  show ?case
  proof (cases "(b, l) = (c, m)")
    case True
    then show ?thesis using fl_wf_lower [OF wf, of "b + l"] by auto
  next
    case False
    with 2 have mem: "(b, l) \<in> set fl" by auto
    have "b \<in> fset_of fl" using wf mem by (rule fl_wf_mem)
    then have "Suc (c + m) \<le> b" using fl_wf_lower [OF wf] by simp
    with 2 mem wf show ?thesis by auto
  qed
qed simp

lemma separating_blocks:
  fixes live :: "'r list" and span :: "'r \<Rightarrow> nat set"
  assumes "fl_wf lo fl" "fl \<noteq> []"
    and convex: "\<And>r x y z. r \<in> set live \<Longrightarrow> x \<in> span r \<Longrightarrow> z \<in> span r \<Longrightarrow> x \<le> y \<Longrightarrow> y \<le> z \<Longrightarrow> y \<in> span r"
    and disj: "\<And>r. r \<in> set live \<Longrightarrow> span r \<inter> fset_of fl = {}"
    and cover: "\<And>x. lo \<le> x \<Longrightarrow> x < fst (last fl) \<Longrightarrow> x \<notin> fset_of fl \<Longrightarrow> \<exists>r \<in> set live. x \<in> span r"
  shows "\<exists>rs. set rs \<subseteq> set live \<and> distinct rs \<and> length fl = Suc (length rs) \<and>
         (\<forall>r \<in> set rs. \<exists>x \<in> span r. fst (hd fl) \<le> x)"
  using assms
proof (induction lo fl rule: fl_wf.induct)
  case (1 lo)
  from 1(2) show ?case by simp
next
  case (2 lo b l fl)
  from 2(2) have wf: "fl_wf (Suc (b + l)) fl" and "0 < l" "lo \<le> b" by simp_all
  show ?case
  proof (cases fl)
    case Nil
    then show ?thesis by (intro exI [of _ "[]"]) simp
  next
    case (Cons p fl2)
    obtain b2 l2 where p: "p = (b2, l2)" by fastforce
    from wf Cons p have gap: "b + l < b2" "0 < l2" by auto
    have last_ge: "b2 \<le> fst (last fl)"
    proof -
      have "fst (last fl) \<in> fset_of fl"
        using fl_wf_mem [OF wf] last_in_set [of fl] Cons by (cases "last fl") simp
      then have "fst (last fl) \<in> fset_of ((b2, l2) # fl2)" using Cons p by simp
      moreover from wf Cons p have "fl_wf b2 ((b2, l2) # fl2)" by simp
      ultimately show ?thesis using fl_wf_lower by blast
    qed
    have "\<exists>rs. set rs \<subseteq> set live \<and> distinct rs \<and> length fl = Suc (length rs) \<and>
         (\<forall>r \<in> set rs. \<exists>x \<in> span r. fst (hd fl) \<le> x)"
    proof (rule 2(1))
      show "fl_wf (Suc (b + l)) fl" "fl \<noteq> []" using wf Cons by simp_all
      show "\<And>r x y z. r \<in> set live \<Longrightarrow> x \<in> span r \<Longrightarrow> z \<in> span r \<Longrightarrow> x \<le> y \<Longrightarrow> y \<le> z \<Longrightarrow> y \<in> span r"
        by (rule 2(4))
      show "\<And>r. r \<in> set live \<Longrightarrow> span r \<inter> fset_of fl = {}" using 2(5) by fastforce
      fix x assume "Suc (b + l) \<le> x" "x < fst (last fl)" "x \<notin> fset_of fl"
      then show "\<exists>r \<in> set live. x \<in> span r" using 2(6) [of x] \<open>lo \<le> b\<close> Cons by auto
    qed
    then obtain rs where rs: "set rs \<subseteq> set live" "distinct rs" "length fl = Suc (length rs)"
      "\<forall>r \<in> set rs. \<exists>x \<in> span r. b2 \<le> x" using Cons p by auto
    have "b + l \<notin> fset_of ((b, l) # fl)" using fl_wf_gap_end [OF 2(2)] by simp
    then obtain r where r: "r \<in> set live" "b + l \<in> span r"
      using 2(6) [of "b + l"] gap last_ge Cons \<open>lo \<le> b\<close> by auto
    have "r \<notin> set rs"
    proof
      assume "r \<in> set rs"
      with rs(4) obtain x where "x \<in> span r" "b2 \<le> x" by blast
      with r gap have "b2 \<in> span r" by (intro 2(4) [OF r(1) r(2), of x b2]) simp_all
      moreover have "b2 \<in> fset_of ((b, l) # fl)" using Cons p gap by auto
      ultimately show False using 2(5) [OF r(1)] by blast
    qed
    moreover have "\<exists>x \<in> span r. b \<le> x" using r(2) by (intro bexI [of _ "b + l"]) simp_all
    moreover have "\<forall>r \<in> set rs. \<exists>x \<in> span r. b \<le> x" using rs(4) gap by (meson le_trans less_imp_le add_leE)
    ultimately show ?thesis using rs r(1) by (intro exI [of _ "r # rs"]) simp
  qed
qed

lemma free_ranges_bound:
  fixes live :: "'r list" and span :: "'r \<Rightarrow> nat set"
  assumes "fl_wf lo fl"
    and "\<And>r x y z. r \<in> set live \<Longrightarrow> x \<in> span r \<Longrightarrow> z \<in> span r \<Longrightarrow> x \<le> y \<Longrightarrow> y \<le> z \<Longrightarrow> y \<in> span r"
    and "\<And>r. r \<in> set live \<Longrightarrow> span r \<inter> fset_of fl = {}"
    and "\<And>x. lo \<le> x \<Longrightarrow> (\<exists>y \<in> fset_of fl. x \<le> y) \<Longrightarrow> x \<notin> fset_of fl \<Longrightarrow> \<exists>r \<in> set live. x \<in> span r"
  shows "length fl \<le> Suc (length live)"
proof (cases "fl = []")
  case False
  have "fst (last fl) \<in> fset_of fl"
    using fl_wf_mem [OF assms(1)] last_in_set [OF False] by (cases "last fl") simp
  then have cover: "\<exists>r \<in> set live. x \<in> span r"
    if "lo \<le> x" "x < fst (last fl)" "x \<notin> fset_of fl" for x
    using assms(4) [of x] that less_imp_le by blast
  have "\<exists>rs. set rs \<subseteq> set live \<and> distinct rs \<and> length fl = Suc (length rs) \<and>
      (\<forall>r \<in> set rs. \<exists>x \<in> span r. fst (hd fl) \<le> x)"
    by (rule separating_blocks [OF assms(1) False]) (fact assms(2), fact assms(3), fact cover)
  then obtain rs where "set rs \<subseteq> set live" "distinct rs" "length fl = Suc (length rs)"
    by blast
  then show ?thesis
    by (metis Suc_le_mono card_length card_mono distinct_card finite_set le_trans)
qed simp

end
