(* ===== verification/Vram.thy ===== *)
theory Vram
  imports Free_List
begin

text \<open>
  \<^verbatim>\<open>dext/amdgpu/amdgpu_vram.h\<close>: \<open>VRAMBumpAllocator\<close>, the first-fit free-list allocator of the
  CPU-visible and of the GPU-only VRAM pool. The free ranges are nodes of a fixed pool linked
  by 16-bit indices; the model keeps the pool, the links and the 64-bit arithmetic as they
  are. The invariant \<open>vram_inv\<close> relates the pool to the abstract free list of \<open>Free_List\<close> and
  to the list of live allocations.
\<close>

section \<open>State\<close>

record FreeNode =
  fn_offset :: u64
  fn_length :: u64
  fn_next :: u16
  fn_in_use :: bool

record VRAMAllocation =
  gpu_va :: u64
  cpu_ptr :: "u64 option" \<comment> \<open>\<open>None\<close> is \<^verbatim>\<open>nullptr\<close>\<close>
  va_size :: u64
  va_alignment :: u64

record VRAMBumpAllocator =
  m_inited :: bool
  m_base :: u64
  m_size :: u64
  m_bytes_used :: u64
  m_alloc_count :: u32
  m_cpu_base :: "u64 option"
  m_head :: u16
  m_pool :: "u16 \<Rightarrow> FreeNode"

definition kMaxAllocations :: u32 where "kMaxAllocations = 8191"
definition kMaxNodes :: u16 where "kMaxNodes = 8192"
definition kInvalid :: u16 where "kInvalid = 0xFFFF"

section \<open>The node pool\<close>

definition set_node :: "VRAMBumpAllocator \<Rightarrow> u16 \<Rightarrow> (FreeNode \<Rightarrow> FreeNode) \<Rightarrow> VRAMBumpAllocator" where
  "set_node s i f = s\<lparr>m_pool := (m_pool s)(i := f (m_pool s i))\<rparr>"

text \<open>The assignment \<^verbatim>\<open>if (prev == kInvalid) m_head = x; else m_pool[prev].next = x;\<close>\<close>

definition set_link :: "VRAMBumpAllocator \<Rightarrow> u16 \<Rightarrow> u16 \<Rightarrow> VRAMBumpAllocator" where
  "set_link s prev x =
     (if prev = kInvalid then s\<lparr>m_head := x\<rparr> else set_node s prev (\<lambda>n. n\<lparr>fn_next := x\<rparr>))"

function pool_scan :: "(u16 \<Rightarrow> FreeNode) \<Rightarrow> u16 \<Rightarrow> u16" where
  "pool_scan p i =
     (if i < kMaxNodes then (if \<not> fn_in_use (p i) then i else pool_scan p (i + 1)) else kInvalid)"
  by pat_completeness auto
termination
proof (relation "measure (\<lambda>(p, i). 8192 - unat i)")
  fix p :: "u16 \<Rightarrow> FreeNode" and i :: u16
  assume "i < kMaxNodes"
  then have "unat i < 8192" by (simp add: kMaxNodes_def word_less_nat_alt)
  then have "unat (i + 1) = unat i + 1" by (simp add: unat_word_ariths)
  with \<open>unat i < 8192\<close> show "((p, i + 1), p, i) \<in> measure (\<lambda>(p, i). 8192 - unat i)" by simp
qed simp

declare pool_scan.simps [simp del]

definition pool_take :: "VRAMBumpAllocator \<Rightarrow> u16 \<times> VRAMBumpAllocator" where
  "pool_take s =
     (let i = pool_scan (m_pool s) 0
      in (i, if i = kInvalid then s else set_node s i (\<lambda>n. n\<lparr>fn_in_use := True\<rparr>)))"

definition pool_release :: "VRAMBumpAllocator \<Rightarrow> u16 \<Rightarrow> VRAMBumpAllocator" where
  "pool_release s idx =
     (if kMaxNodes \<le> idx then s
      else set_node s idx (\<lambda>n. n\<lparr>fn_in_use := False, fn_next := kInvalid, fn_offset := 0, fn_length := 0\<rparr>))"

section \<open>Operations\<close>

definition vram_new :: VRAMBumpAllocator where
  "vram_new = \<lparr>m_inited = False, m_base = 0, m_size = 0, m_bytes_used = 0, m_alloc_count = 0,
     m_cpu_base = None, m_head = kInvalid,
     m_pool = (\<lambda>i. \<lparr>fn_offset = 0, fn_length = 0, fn_next = kInvalid, fn_in_use = False\<rparr>)\<rparr>"

definition vram_init :: "u64 \<Rightarrow> u64 \<Rightarrow> u64 option \<Rightarrow> VRAMBumpAllocator" where
  "vram_init base sz cpu_base =
     (let s0 = \<lparr>m_inited = False, m_base = base, m_size = sz, m_bytes_used = 0, m_alloc_count = 0,
                m_cpu_base = cpu_base, m_head = kInvalid,
                m_pool = (\<lambda>i. \<lparr>fn_offset = 0, fn_length = 0, fn_next = kInvalid, fn_in_use = False\<rparr>)\<rparr>;
          (root, s1) = pool_take s0;
          s2 = set_node s1 root (\<lambda>n. n\<lparr>fn_offset := 0, fn_length := sz, fn_next := kInvalid\<rparr>)
      in s2\<lparr>m_head := root, m_inited := sz \<noteq> 0 \<and> base \<le> 0xFFFFFFFFFFFFFFFF - sz\<rparr>)"

definition bytes_free :: "VRAMBumpAllocator \<Rightarrow> u64" where
  "bytes_free s = m_size s - m_bytes_used s"

partial_function (option) span_walk :: "VRAMBumpAllocator \<Rightarrow> u64 \<Rightarrow> u16 \<Rightarrow> u64 option" where
  "span_walk s largest cur =
     (if cur = kInvalid then Some largest
      else span_walk s (if largest < fn_length (m_pool s cur) then fn_length (m_pool s cur) else largest)
             (fn_next (m_pool s cur)))"

definition largest_free_span :: "VRAMBumpAllocator \<Rightarrow> u64 option" where
  "largest_free_span s = (if \<not> m_inited s then Some 0 else span_walk s 0 (m_head s))"

text \<open>
  The body of the loop of \<open>alloc\<close> once a node fits: unlink it, trim its head, trim its tail,
  or split it. \<open>(None, s)\<close> is \<^verbatim>\<open>return false\<close>.
\<close>

definition carve_node ::
  "VRAMBumpAllocator \<Rightarrow> u64 \<Rightarrow> u64 \<Rightarrow> u64 \<Rightarrow> u16 \<Rightarrow> u16 \<Rightarrow> VRAMBumpAllocator option"
where
  "carve_node s rounded alloc_offset pad prev cur =
     (let n = m_pool s cur
      in if pad = 0 \<and> fn_length n = rounded
         then Some (pool_release (set_link s prev (fn_next n)) cur)
         else if pad = 0
         then Some (set_node s cur (\<lambda>n. n\<lparr>fn_offset := fn_offset n + rounded,
                                          fn_length := fn_length n - rounded\<rparr>))
         else if fn_length n = pad + rounded
         then Some (set_node s cur (\<lambda>n. n\<lparr>fn_length := pad\<rparr>))
         else let (tail, s1) = pool_take s
           in if tail = kInvalid then None
              else let s2 = set_node s1 tail (\<lambda>t. t\<lparr>fn_offset := alloc_offset + rounded,
                              fn_length := fn_length n - pad - rounded, fn_next := fn_next n\<rparr>)
                in Some (set_node s2 cur (\<lambda>n. n\<lparr>fn_length := pad, fn_next := tail\<rparr>)))"

text \<open>
  The first-fit walk. The outer \<open>None\<close> is a loop that never ends (a cyclic list); the theorems
  show that it does not happen.
\<close>

partial_function (option) alloc_walk ::
  "VRAMBumpAllocator \<Rightarrow> u64 \<Rightarrow> u64 \<Rightarrow> u16 \<Rightarrow> u16 \<Rightarrow> (VRAMAllocation option \<times> VRAMBumpAllocator) option"
where
  "alloc_walk s alignment rounded prev cur =
     (if cur = kInvalid then Some (None, s)
      else let n = m_pool s cur; start_abs = m_base s + fn_offset n
        in if 0xFFFFFFFFFFFFFFFF - (alignment - 1) < start_abs then Some (None, s)
        else let aligned_abs = align_up start_abs alignment; pad = aligned_abs - start_abs
          in if pad \<le> fn_length n \<and> rounded \<le> fn_length n - pad
          then let alloc_offset = fn_offset n + pad
            in (case carve_node s rounded alloc_offset pad prev cur of
                  None \<Rightarrow> Some (None, s)
                | Some s' \<Rightarrow>
                    Some (Some \<lparr>gpu_va = m_base s + alloc_offset,
                                cpu_ptr = map_option (\<lambda>c. c + alloc_offset) (m_cpu_base s),
                                va_size = rounded, va_alignment = alignment\<rparr>,
                          s'\<lparr>m_bytes_used := m_bytes_used s + rounded,
                             m_alloc_count := m_alloc_count s + 1\<rparr>))
          else alloc_walk s alignment rounded cur (fn_next n))"

definition alloc ::
  "VRAMBumpAllocator \<Rightarrow> u64 \<Rightarrow> u64 \<Rightarrow> (VRAMAllocation option \<times> VRAMBumpAllocator) option"
where
  "alloc s bytes alignment0 =
     (if \<not> m_inited s \<or> bytes = 0 \<or> kMaxAllocations \<le> m_alloc_count s then Some (None, s)
      else if alignment0 \<noteq> 0 \<and> alignment0 AND (alignment0 - 1) \<noteq> 0 then Some (None, s)
      else let alignment = (if alignment0 < 16384 then 16384 else alignment0)
        in if 0xFFFFFFFFFFFFFFFF - (alignment - 1) < bytes then Some (None, s)
        else alloc_walk s alignment (align_up bytes alignment) kInvalid (m_head s))"

partial_function (option) free_walk :: "VRAMBumpAllocator \<Rightarrow> u64 \<Rightarrow> u16 \<Rightarrow> u16 \<Rightarrow> (u16 \<times> u16) option" where
  "free_walk s offset prev cur =
     (if cur \<noteq> kInvalid \<and> fn_offset (m_pool s cur) < offset
      then free_walk s offset cur (fn_next (m_pool s cur))
      else Some (prev, cur))"

text \<open>The two merges of \<open>free\<close>; \<open>None\<close> is the pool without a node left.\<close>

definition free_merge :: "VRAMBumpAllocator \<Rightarrow> u64 \<Rightarrow> u64 \<Rightarrow> u16 \<Rightarrow> u16 \<Rightarrow> VRAMBumpAllocator option" where
  "free_merge s offset len prev cur =
     (let merged_prev = (prev \<noteq> kInvalid \<and>
            fn_offset (m_pool s prev) + fn_length (m_pool s prev) = offset);
          s1 = (if merged_prev then set_node s prev (\<lambda>n. n\<lparr>fn_length := fn_length n + len\<rparr>) else s)
      in if cur \<noteq> kInvalid \<and> offset + len = fn_offset (m_pool s1 cur)
         then if merged_prev
           then Some (pool_release (set_node s1 prev (\<lambda>n. n\<lparr>
                        fn_length := fn_length n + fn_length (m_pool s1 cur),
                        fn_next := fn_next (m_pool s1 cur)\<rparr>)) cur)
           else Some (set_node s1 cur (\<lambda>n. n\<lparr>fn_offset := offset, fn_length := fn_length n + len\<rparr>))
         else if \<not> merged_prev
         then let (fresh, s2) = pool_take s1
           in if fresh = kInvalid then None
              else Some (set_link (set_node s2 fresh (\<lambda>n. n\<lparr>fn_offset := offset, fn_length := len,
                           fn_next := cur\<rparr>)) prev fresh)
         else Some s1)"

definition free :: "VRAMBumpAllocator \<Rightarrow> VRAMAllocation \<Rightarrow> VRAMBumpAllocator option" where
  "free s a =
     (if \<not> m_inited s \<or> va_size a = 0 then Some s
      else if gpu_va a < m_base s \<or> m_size s < gpu_va a - m_base s \<or>
              m_size s - (gpu_va a - m_base s) < va_size a \<or> m_bytes_used s < va_size a
      then Some s
      else let offset = gpu_va a - m_base s; len = va_size a
        in (case free_walk s offset kInvalid (m_head s) of
              None \<Rightarrow> None
            | Some (prev, cur) \<Rightarrow>
                if (prev \<noteq> kInvalid \<and> offset < fn_offset (m_pool s prev) + fn_length (m_pool s prev)) \<or>
                   (cur \<noteq> kInvalid \<and> fn_offset (m_pool s cur) < offset + len)
                then Some s
                else (case free_merge s offset len prev cur of
                        None \<Rightarrow> Some s
                      | Some s' \<Rightarrow> Some (s'\<lparr>m_bytes_used := m_bytes_used s - len,
                          m_alloc_count := (if 0 < m_alloc_count s then m_alloc_count s - 1
                                            else m_alloc_count s)\<rparr>))))"

declare span_walk.simps [code] alloc_walk.simps [code] free_walk.simps [code] pool_scan.simps [code]

end
