(* ===== verification/Vram_Pool.thy ===== *)
theory Vram_Pool
  imports Vram
begin

text \<open>
  The node pool of the VRAM allocator as a linked list: segments of the index chain, the
  representation predicate \<open>vram_rep\<close> (which nodes are in use and in which order), and the
  three changes the code makes to the chain: unlink a node, insert a fresh one, and change
  the payload of a node.
\<close>

section \<open>Chains of node indices\<close>

fun lseg :: "(u16 \<Rightarrow> FreeNode) \<Rightarrow> u16 \<Rightarrow> u16 list \<Rightarrow> u16 \<Rightarrow> bool" where
  "lseg p h [] e = (h = e)"
| "lseg p h (i # ns) e = (h = i \<and> i < kMaxNodes \<and> lseg p (fn_next (p i)) ns e)"

definition prev_of :: "u16 list \<Rightarrow> u16" where
  "prev_of xs = (if xs = [] then kInvalid else last xs)"

definition hd_of :: "u16 list \<Rightarrow> u16" where
  "hd_of ys = (case ys of [] \<Rightarrow> kInvalid | y # _ \<Rightarrow> y)"

lemma prev_of_simps [simp]: "prev_of [] = kInvalid" "prev_of (xs @ [x]) = x"
  by (simp_all add: prev_of_def)

lemma hd_of_simps [simp]: "hd_of [] = kInvalid" "hd_of (y # ys) = y"
  by (simp_all add: hd_of_def)

lemma kInvalid_above [simp]: "\<not> kInvalid < kMaxNodes" "kMaxNodes \<noteq> kInvalid"
  by (simp_all add: kInvalid_def kMaxNodes_def)

lemma below_not_kInvalid: "i < kMaxNodes \<Longrightarrow> i \<noteq> kInvalid"
  by auto

lemma lseg_append: "lseg p h (xs @ ys) e \<longleftrightarrow> (\<exists>m. lseg p h xs m \<and> lseg p m ys e)"
  by (induction xs arbitrary: h) auto

lemma lseg_below: "lseg p h ns e \<Longrightarrow> i \<in> set ns \<Longrightarrow> i < kMaxNodes"
  by (induction ns arbitrary: h) auto

lemma lseg_cong:
  "(\<And>i. i \<in> set ns \<Longrightarrow> fn_next (p i) = fn_next (q i)) \<Longrightarrow> lseg p h ns e = lseg q h ns e"
  by (induction ns arbitrary: h) auto

lemma lseg_hd_of: "lseg p h ns kInvalid \<Longrightarrow> h = hd_of ns"
  by (cases ns) auto

section \<open>The representation predicate\<close>

definition vram_rep :: "VRAMBumpAllocator \<Rightarrow> u16 list \<Rightarrow> bool" where
  "vram_rep s ns \<longleftrightarrow> lseg (m_pool s) (m_head s) ns kInvalid \<and> distinct ns \<and>
     (\<forall>i < kMaxNodes. fn_in_use (m_pool s i) \<longleftrightarrow> i \<in> set ns)"

lemma vram_repD:
  assumes "vram_rep s ns"
  shows "lseg (m_pool s) (m_head s) ns kInvalid" "distinct ns"
    "i < kMaxNodes \<Longrightarrow> fn_in_use (m_pool s i) \<longleftrightarrow> i \<in> set ns"
    "i \<in> set ns \<Longrightarrow> i < kMaxNodes" "m_head s = hd_of ns"
  using assms lseg_below lseg_hd_of unfolding vram_rep_def by blast+

lemma vram_rep_split:
  assumes "vram_rep s (xs @ ys)"
  shows "lseg (m_pool s) (m_head s) xs (hd_of ys)" "lseg (m_pool s) (hd_of ys) ys kInvalid"
  using vram_repD(1) [OF assms] lseg_hd_of by (auto simp: lseg_append)

lemma vram_rep_next: "vram_rep s (xs @ c # ys) \<Longrightarrow> fn_next (m_pool s c) = hd_of ys"
  using vram_rep_split(2) [of s xs "c # ys"] lseg_hd_of by auto

text \<open>The chain, walked with a fuel the distinct indices below \<open>kMaxNodes\<close> can never use up.\<close>

fun collect :: "nat \<Rightarrow> (u16 \<Rightarrow> FreeNode) \<Rightarrow> u16 \<Rightarrow> u16 list" where
  "collect 0 p h = []"
| "collect (Suc k) p h = (if h = kInvalid then [] else h # collect k p (fn_next (p h)))"

definition free_nodes :: "VRAMBumpAllocator \<Rightarrow> u16 list" where
  "free_nodes s = collect 8192 (m_pool s) (m_head s)"

lemma collect_lseg: "lseg p h ns kInvalid \<Longrightarrow> length ns \<le> k \<Longrightarrow> collect k p h = ns"
proof (induction k arbitrary: h ns)
  case (Suc k)
  then show ?case by (cases ns) (auto dest: below_not_kInvalid)
qed simp

lemma card_below_max: "card {i. i < kMaxNodes} = 8192"
proof -
  have "unat ` {i. i < kMaxNodes} = {..< 8192}"
  proof
    show "unat ` {i. i < kMaxNodes} \<subseteq> {..< 8192}" by (auto simp: kMaxNodes_def word_less_nat_alt)
    show "{..< 8192} \<subseteq> unat ` {i. i < kMaxNodes}"
    proof
      fix n :: nat
      assume "n \<in> {..< 8192}"
      then have "unat (word_of_nat n :: u16) = n" by (simp add: unat_of_nat)
      with \<open>n \<in> {..< 8192}\<close> show "n \<in> unat ` {i. i < kMaxNodes}"
        by (intro image_eqI [of _ _ "word_of_nat n"]) (simp_all add: kMaxNodes_def word_less_nat_alt)
    qed
  qed
  then have "card (unat ` {i. i < kMaxNodes}) = 8192" by simp
  then show ?thesis by (simp add: card_image inj_on_def unat_eq_word)
qed

lemma vram_rep_length:
  assumes "vram_rep s ns"
  shows "length ns \<le> 8192"
proof -
  have "set ns \<subseteq> {i. i < kMaxNodes}" using vram_repD(4) [OF assms] by blast
  then have "card (set ns) \<le> 8192" using card_below_max card_mono [of "{i. i < kMaxNodes}"] by fastforce
  then show ?thesis using distinct_card [OF vram_repD(2) [OF assms]] by simp
qed

lemma free_nodes_rep: "vram_rep s ns \<Longrightarrow> free_nodes s = ns"
  unfolding free_nodes_def
  by (rule collect_lseg) (simp_all add: vram_repD(1) vram_rep_length)

section \<open>Taking a node\<close>

lemma pool_scan_spec:
  "(pool_scan p i = kInvalid \<and> (\<forall>j. i \<le> j \<longrightarrow> j < kMaxNodes \<longrightarrow> fn_in_use (p j))) \<or>
   (pool_scan p i < kMaxNodes \<and> \<not> fn_in_use (p (pool_scan p i)))"
proof (induction p i rule: pool_scan.induct)
  case (1 p i)
  show ?case
  proof (cases "i < kMaxNodes \<and> fn_in_use (p i)")
    case True
    have "j = i \<or> i + 1 \<le> j" if "i \<le> j" "j < kMaxNodes" for j
    proof (rule disjCI)
      assume "\<not> i + 1 \<le> j"
      moreover have "unat (i + 1) = unat i + 1"
        using True by (simp add: unat_word_ariths kMaxNodes_def word_less_nat_alt)
      ultimately show "j = i" using that(1) by (simp add: word_le_nat_alt unat_eq_word [symmetric])
    qed
    with True 1 show ?thesis by (subst (1 2 3) pool_scan.simps) auto
  next
    case False
    then show ?thesis by (subst (1 2 3) pool_scan.simps) auto
  qed
qed

lemma pool_take_cases:
  assumes "pool_take s = (t, s')" "vram_rep s ns"
  obtains (full) "t = kInvalid" "s' = s" "length ns = 8192"
  | (taken) "t < kMaxNodes" "t \<notin> set ns" "s' = set_node s t (\<lambda>n. n\<lparr>fn_in_use := True\<rparr>)"
proof (cases "t = kInvalid")
  case True
  with assms(1) have "pool_scan (m_pool s) 0 = kInvalid" "s' = s"
    by (simp_all add: pool_take_def Let_def split: if_splits)
  then have "\<forall>j < kMaxNodes. fn_in_use (m_pool s j)"
    using pool_scan_spec [of "m_pool s" 0] by auto
  then have "{i. i < kMaxNodes} \<subseteq> set ns" using vram_repD(3) [OF assms(2)] by blast
  then have "8192 \<le> card (set ns)" using card_mono [of "set ns"] by (simp add: card_below_max [symmetric])
  then have "length ns = 8192"
    using distinct_card [OF vram_repD(2) [OF assms(2)]] vram_rep_length [OF assms(2)] by simp
  with True \<open>s' = s\<close> show thesis by (rule full)
next
  case False
  with assms(1) have t: "t = pool_scan (m_pool s) 0"
    and s': "s' = set_node s t (\<lambda>n. n\<lparr>fn_in_use := True\<rparr>)"
    by (auto simp: pool_take_def Let_def split: if_splits)
  have "t < kMaxNodes" "\<not> fn_in_use (m_pool s t)"
    using pool_scan_spec [of "m_pool s" 0] False t by auto
  with vram_repD(3) [OF assms(2), of t] have "t \<notin> set ns" by simp
  with \<open>t < kMaxNodes\<close> s' show thesis by (intro taken)
qed

section \<open>Changes to the chain\<close>

lemma set_node_simps [simp]:
  "m_inited (set_node s i f) = m_inited s" "m_base (set_node s i f) = m_base s"
  "m_size (set_node s i f) = m_size s" "m_bytes_used (set_node s i f) = m_bytes_used s"
  "m_alloc_count (set_node s i f) = m_alloc_count s" "m_cpu_base (set_node s i f) = m_cpu_base s"
  "m_head (set_node s i f) = m_head s"
  "m_pool (set_node s i f) = (m_pool s)(i := f (m_pool s i))"
  by (simp_all add: set_node_def)

lemma set_link_simps [simp]:
  "m_inited (set_link s i x) = m_inited s" "m_base (set_link s i x) = m_base s"
  "m_size (set_link s i x) = m_size s" "m_bytes_used (set_link s i x) = m_bytes_used s"
  "m_alloc_count (set_link s i x) = m_alloc_count s" "m_cpu_base (set_link s i x) = m_cpu_base s"
  "fn_offset (m_pool (set_link s i x) j) = fn_offset (m_pool s j)"
  "fn_length (m_pool (set_link s i x) j) = fn_length (m_pool s j)"
  "fn_in_use (m_pool (set_link s i x) j) = fn_in_use (m_pool s j)"
  by (simp_all add: set_link_def)

lemma pool_release_simps [simp]:
  "m_inited (pool_release s i) = m_inited s" "m_base (pool_release s i) = m_base s"
  "m_size (pool_release s i) = m_size s" "m_bytes_used (pool_release s i) = m_bytes_used s"
  "m_alloc_count (pool_release s i) = m_alloc_count s" "m_cpu_base (pool_release s i) = m_cpu_base s"
  "m_head (pool_release s i) = m_head s"
  "i < kMaxNodes \<Longrightarrow> m_pool (pool_release s i) = (m_pool s)(i := (m_pool s i)
     \<lparr>fn_in_use := False, fn_next := kInvalid, fn_offset := 0, fn_length := 0\<rparr>)"
  by (auto simp: pool_release_def dest: leD)

lemma set_link_lseg:
  assumes "lseg (m_pool s) (m_head s) xs m" "distinct xs"
  shows "lseg (m_pool (set_link s (prev_of xs) x)) (m_head (set_link s (prev_of xs) x)) xs x"
proof (cases xs rule: rev_cases)
  case Nil
  then show ?thesis by (simp add: set_link_def)
next
  case (snoc ws w)
  have "lseg (m_pool s) (m_head s) ws w" "w < kMaxNodes" using assms snoc by (auto simp: lseg_append)
  moreover have "lseg (m_pool s) h ws w = lseg (m_pool (set_link s w x)) h ws w" for h
    using assms(2) snoc by (intro lseg_cong) (auto simp: set_link_def)
  ultimately show ?thesis
    using snoc by (auto simp: lseg_append set_link_def dest: below_not_kInvalid)
qed

lemma set_link_lseg_other:
  assumes "lseg (m_pool s) h ys e" "prev_of xs \<notin> set ys"
  shows "lseg (m_pool (set_link s (prev_of xs) x)) h ys e"
proof -
  have "lseg (m_pool s) h ys e = lseg (m_pool (set_link s (prev_of xs) x)) h ys e"
    using assms(2) by (intro lseg_cong) (auto simp: set_link_def)
  with assms(1) show ?thesis by simp
qed

lemma prev_of_notin:
  assumes "distinct (xs @ ys)" "\<forall>i \<in> set ys. i < kMaxNodes"
  shows "prev_of xs \<notin> set ys"
  using assms by (cases xs rule: rev_cases) auto

lemma rep_payload:
  assumes "vram_rep s ns" "\<And>n. fn_next (f n) = fn_next n" "\<And>n. fn_in_use (f n) = fn_in_use n"
  shows "vram_rep (set_node s i f) ns"
proof -
  have "lseg (m_pool s) h ns kInvalid = lseg (m_pool (set_node s i f)) h ns kInvalid" for h
    by (rule lseg_cong) (simp add: assms(2))
  with assms show ?thesis by (auto simp: vram_rep_def)
qed

text \<open>Where the code writes a link and a length in one go, the link comes first.\<close>

lemma set_node_link:
  assumes "c \<noteq> kInvalid"
  shows "set_node s c (\<lambda>n. n\<lparr>fn_length := g (fn_length n), fn_next := t\<rparr>) =
         set_node (set_link s c t) c (\<lambda>n. n\<lparr>fn_length := g (fn_length n)\<rparr>)"
  using assms by (cases "m_pool s c") (simp add: set_link_def set_node_def)

lemma set_node_link':
  assumes "c \<noteq> kInvalid"
  shows "set_node s c (\<lambda>n. n\<lparr>fn_length := g (fn_length n), fn_next := t\<rparr>) =
         set_link (set_node s c (\<lambda>n. n\<lparr>fn_length := g (fn_length n)\<rparr>)) c t"
  using assms by (cases "m_pool s c") (simp add: set_link_def set_node_def)

lemma rep_unlink:
  assumes rep: "vram_rep s (xs @ c # ys)"
  shows "vram_rep (pool_release (set_link s (prev_of xs) (fn_next (m_pool s c))) c) (xs @ ys)"
proof -
  let ?s1 = "set_link s (prev_of xs) (hd_of ys)"
  have nx: "fn_next (m_pool s c) = hd_of ys" using rep by (rule vram_rep_next)
  have c: "c < kMaxNodes" and dist: "distinct (xs @ c # ys)" using vram_repD [OF rep] by auto
  have below: "\<forall>i \<in> set (c # ys). i < kMaxNodes" using vram_repD(4) [OF rep] by auto
  have "lseg (m_pool ?s1) (m_head ?s1) xs (hd_of ys)"
    using vram_rep_split(1) [OF rep] dist by (intro set_link_lseg) auto
  moreover have "lseg (m_pool ?s1) (hd_of ys) ys kInvalid"
    using vram_rep_split(2) [OF rep] nx prev_of_notin [OF dist below]
    by (intro set_link_lseg_other) auto
  ultimately have "lseg (m_pool ?s1) (m_head ?s1) (xs @ ys) kInvalid" by (auto simp: lseg_append)
  also have "lseg (m_pool ?s1) (m_head ?s1) (xs @ ys) kInvalid =
      lseg (m_pool (pool_release ?s1 c)) (m_head ?s1) (xs @ ys) kInvalid"
    using dist c by (intro lseg_cong) auto
  finally show ?thesis
    using dist c vram_repD(3) [OF rep] by (auto simp: vram_rep_def nx)
qed

lemma rep_insert:
  assumes rep: "vram_rep s (xs @ ys)" and take: "pool_take s = (t, s1)" "t \<noteq> kInvalid"
    and f: "\<And>n. fn_next (f n) = hd_of ys" "\<And>n. fn_in_use (f n) = fn_in_use n"
  shows "vram_rep (set_link (set_node s1 t f) (prev_of xs) t) (xs @ t # ys)"
proof -
  from take rep obtain t: "t < kMaxNodes" "t \<notin> set (xs @ ys)"
    and s1: "s1 = set_node s t (\<lambda>n. n\<lparr>fn_in_use := True\<rparr>)"
    by (metis pool_take_cases)
  let ?s2 = "set_node s1 t f"
  let ?s3 = "set_link ?s2 (prev_of xs) t"
  have dist: "distinct (xs @ ys)" and below: "\<forall>i \<in> set ys. i < kMaxNodes"
    using vram_repD [OF rep] by auto
  have "lseg (m_pool s) h zs e = lseg (m_pool ?s2) h zs e" if "set zs \<subseteq> set (xs @ ys)" for h zs e
    using t that by (intro lseg_cong) (auto simp: s1)
  with vram_rep_split [OF rep] have segs: "lseg (m_pool ?s2) (m_head ?s2) xs (hd_of ys)"
    "lseg (m_pool ?s2) (hd_of ys) ys kInvalid" by (auto simp: s1)
  have "lseg (m_pool ?s3) (m_head ?s3) xs t"
    using segs(1) dist by (intro set_link_lseg) auto
  moreover have "lseg (m_pool ?s3) t (t # ys) kInvalid"
  proof -
    have "distinct (xs @ t # ys)" "\<forall>i \<in> set (t # ys). i < kMaxNodes" using dist t below by auto
    then have "prev_of xs \<notin> set (t # ys)" by (rule prev_of_notin)
    then show ?thesis
      using segs(2) t f by (intro set_link_lseg_other) (simp_all add: s1)
  qed
  ultimately have "lseg (m_pool ?s3) (m_head ?s3) (xs @ t # ys) kInvalid"
    by (auto simp: lseg_append)
  moreover have "\<forall>i < kMaxNodes. fn_in_use (m_pool ?s3 i) \<longleftrightarrow> i \<in> set (xs @ t # ys)"
    using vram_repD(3) [OF rep] f by (auto simp: s1)
  ultimately show ?thesis using dist t by (simp add: vram_rep_def)
qed

end
