(* ===== verification/Vram_Correct.thy ===== *)
theory Vram_Correct
  imports Vram_Pool
begin

text \<open>
  The VRAM allocator against its specification: the invariant \<open>vram_inv\<close>, the refinement of the
  abstract free list by \<open>alloc\<close> and \<open>free\<close>, and the range-allocator contract interpreted on the
  code's own operations.
\<close>

section \<open>Reading the pool as a free list\<close>

definition node_rng :: "VRAMBumpAllocator \<Rightarrow> u16 \<Rightarrow> nat \<times> nat" where
  "node_rng s i = (unat (m_base s) + unat (fn_offset (m_pool s i)), unat (fn_length (m_pool s i)))"

definition free_ranges :: "VRAMBumpAllocator \<Rightarrow> free_list" where
  "free_ranges s = map (node_rng s) (free_nodes s)"

definition vram_arena :: "VRAMBumpAllocator \<Rightarrow> nat set" where
  "vram_arena s = {unat (m_base s) ..< unat (m_base s) + unat (m_size s)}"

definition same_header :: "VRAMBumpAllocator \<Rightarrow> VRAMBumpAllocator \<Rightarrow> bool" where
  "same_header s t \<longleftrightarrow> m_inited t = m_inited s \<and> m_base t = m_base s \<and> m_size t = m_size s \<and>
     m_bytes_used t = m_bytes_used s \<and> m_alloc_count t = m_alloc_count s \<and> m_cpu_base t = m_cpu_base s"

lemma same_header_simps [simp]:
  "same_header s (set_node s i f)" "same_header s (set_link s i x)" "same_header s (pool_release s i)"
  "same_header s s"
  by (simp_all add: same_header_def)

lemma same_header_trans [trans]: "same_header s t \<Longrightarrow> same_header t u \<Longrightarrow> same_header s u"
  by (simp add: same_header_def)

lemma pool_take_header: "pool_take s = (t, s') \<Longrightarrow> same_header s s'"
  by (auto simp: pool_take_def Let_def split: if_splits)

lemma node_rng_eqI:
  assumes "same_header s t" "fn_offset (m_pool t i) = fn_offset (m_pool s i)"
    "fn_length (m_pool t i) = fn_length (m_pool s i)"
  shows "node_rng t i = node_rng s i"
  using assms by (simp add: node_rng_def same_header_def)

text \<open>The nodes a segment shares with the arena: no 64-bit sum of the code wraps on them.\<close>

definition in_bounds :: "VRAMBumpAllocator \<Rightarrow> u16 \<Rightarrow> bool" where
  "in_bounds s i \<longleftrightarrow> unat (fn_offset (m_pool s i)) + unat (fn_length (m_pool s i)) \<le> unat (m_size s)"

definition arena_ok :: "VRAMBumpAllocator \<Rightarrow> bool" where
  "arena_ok s \<longleftrightarrow> unat (m_base s) + unat (m_size s) < 18446744073709551616"

lemma in_bounds_iff:
  assumes "node_rng s i = (b, l)"
  shows "in_bounds s i \<longleftrightarrow> b + l \<le> unat (m_base s) + unat (m_size s)"
  using assms by (auto simp: in_bounds_def node_rng_def)

lemma ranges_in_bounds:
  assumes "fl_wf lo (map (node_rng s) ns)" "fset_of (map (node_rng s) ns) \<subseteq> vram_arena s" "i \<in> set ns"
  shows "in_bounds s i"
proof -
  obtain b l where bl: "node_rng s i = (b, l)" by fastforce
  with assms(3) have mem: "(b, l) \<in> set (map (node_rng s) ns)" by (metis image_eqI list.set_map)
  then have "0 < l" using fl_wf_pos [OF assms(1)] by blast
  then have "b + l - 1 \<in> {b ..< b + l}" by auto
  with mem have "b + l - 1 \<in> fset_of (map (node_rng s) ns)" unfolding fset_of_def by fastforce
  with assms(2) have "b + l - 1 < unat (m_base s) + unat (m_size s)" by (auto simp: vram_arena_def)
  then show ?thesis using \<open>0 < l\<close> by (simp add: in_bounds_iff [OF bl])
qed

section \<open>Carving an allocation out of a node\<close>

lemma carve_spec:
  assumes rep: "vram_rep s (xs @ c # ys)" and len: "length (xs @ c # ys) < 8192"
    and ok: "in_bounds s c" "arena_ok s"
    and fits: "unat pad + unat r \<le> unat (fn_length (m_pool s c))" "0 < unat r"
    and off: "off = fn_offset (m_pool s c) + pad"
  shows "\<exists>s' zs. carve_node s r off pad (prev_of xs) c = Some s' \<and> vram_rep s' (xs @ zs @ ys) \<and>
     map (node_rng s') zs = carve (node_rng s c) (unat pad) (unat r) \<and> same_header s s' \<and>
     (\<forall>i \<in> set (xs @ ys). node_rng s' i = node_rng s i)"
proof -
  let ?n = "m_pool s c"
  have c: "c < kMaxNodes" and dist: "distinct (xs @ c # ys)" using vram_repD [OF rep] by auto
  have nowrap: "unat (fn_offset ?n) + unat (fn_length ?n) < 18446744073709551616"
    using ok by (simp add: in_bounds_def arena_ok_def)
  have sums: "unat (pad + r) = unat pad + unat r"
      "unat (fn_offset ?n + r) = unat (fn_offset ?n) + unat r"
      "unat (fn_offset ?n + pad) = unat (fn_offset ?n) + unat pad"
      "unat (fn_offset ?n + pad + r) = unat (fn_offset ?n) + unat pad + unat r"
    using fits nowrap by (simp_all add: word_nat)
  have le: "r \<le> fn_length ?n" "pad \<le> fn_length ?n" "r \<le> fn_length ?n - pad"
    using fits by (simp_all add: word_le_nat_alt unat_sub)
  have exact: "fn_length ?n = pad + r \<longleftrightarrow> unat (fn_length ?n) = unat pad + unat r"
    by (simp add: unat_eq_word [symmetric] sums)
  consider (unlink) "pad = 0" "fn_length ?n = r" | (head) "pad = 0" "fn_length ?n \<noteq> r"
    | (tail) "pad \<noteq> 0" "fn_length ?n = pad + r" | (split) "pad \<noteq> 0" "fn_length ?n \<noteq> pad + r" by blast
  then show ?thesis
  proof cases
    case unlink
    let ?s' = "pool_release (set_link s (prev_of xs) (fn_next ?n)) c"
    have hd: "same_header s ?s'" by (rule same_header_trans [of _ "set_link s (prev_of xs) (fn_next ?n)"]) simp_all
    show ?thesis
    proof (intro exI conjI)
      show "carve_node s r off pad (prev_of xs) c = Some ?s'" using unlink by (simp add: carve_node_def)
      show "vram_rep ?s' (xs @ [] @ ys)" using rep_unlink [OF rep] by simp
      show "map (node_rng ?s') [] = carve (node_rng s c) (unat pad) (unat r)"
        using unlink by (simp add: carve_def node_rng_def)
      show "\<forall>i \<in> set (xs @ ys). node_rng ?s' i = node_rng s i"
        using dist c by (auto intro!: node_rng_eqI [OF hd])
    qed (rule hd)
  next
    case head
    let ?s' = "set_node s c (\<lambda>n. n\<lparr>fn_offset := fn_offset n + r, fn_length := fn_length n - r\<rparr>)"
    show ?thesis
    proof (intro exI conjI)
      show "carve_node s r off pad (prev_of xs) c = Some ?s'" using head by (simp add: carve_node_def)
      show "vram_rep ?s' (xs @ [c] @ ys)" using rep_payload [OF rep] by simp
      show "map (node_rng ?s') [c] = carve (node_rng s c) (unat pad) (unat r)"
        using head le by (simp add: carve_def node_rng_def sums unat_sub unat_eq_word)
      show "\<forall>i \<in> set (xs @ ys). node_rng ?s' i = node_rng s i"
        using dist by (auto intro!: node_rng_eqI)
    qed simp
  next
    case tail
    let ?s' = "set_node s c (\<lambda>n. n\<lparr>fn_length := pad\<rparr>)"
    have "r \<noteq> 0" using fits(2) by auto
    show ?thesis
    proof (intro exI conjI)
      show "carve_node s r off pad (prev_of xs) c = Some ?s'" using tail by (simp add: carve_node_def)
      show "vram_rep ?s' (xs @ [c] @ ys)" using rep_payload [OF rep] by simp
      show "map (node_rng ?s') [c] = carve (node_rng s c) (unat pad) (unat r)"
        using tail exact by (simp add: carve_def node_rng_def unat_eq_zero)
      show "\<forall>i \<in> set (xs @ ys). node_rng ?s' i = node_rng s i"
        using dist by (auto intro!: node_rng_eqI)
    qed simp
  next
    case split
    obtain t s1 where take: "pool_take s = (t, s1)" by fastforce
    let ?f = "\<lambda>t. t\<lparr>fn_offset := off + r, fn_length := fn_length ?n - pad - r, fn_next := fn_next ?n\<rparr>"
    let ?s2 = "set_node s1 t ?f"
    let ?s3 = "set_link ?s2 (prev_of (xs @ [c])) t"
    let ?s' = "set_node ?s3 c (\<lambda>n. n\<lparr>fn_length := pad\<rparr>)"
    from take rep have t: "t \<noteq> kInvalid" "t \<notin> set (xs @ c # ys)" and s1: "s1 = set_node s t (\<lambda>n. n\<lparr>fn_in_use := True\<rparr>)"
      using len by (metis pool_take_cases less_irrefl below_not_kInvalid)+
    have cI: "c \<noteq> kInvalid" using c by (rule below_not_kInvalid)
    have "vram_rep ?s3 ((xs @ [c]) @ t # ys)"
      using rep take t vram_rep_next [OF rep] by (intro rep_insert) simp_all
    then have rep': "vram_rep ?s' (xs @ [c, t] @ ys)" using rep_payload by simp
    have eq: "set_node ?s2 c (\<lambda>n. n\<lparr>fn_length := pad, fn_next := t\<rparr>) = ?s'"
      using set_node_link [OF cI, where s = ?s2 and g = "\<lambda>_. pad"] by simp
    have hd: "same_header s ?s'" using pool_take_header [OF take] by (simp add: same_header_def)
    show ?thesis
    proof (intro exI conjI)
      show "carve_node s r off pad (prev_of xs) c = Some ?s'"
        using split t(1) by (simp only: carve_node_def Let_def take split_beta fst_conv snd_conv eq simp_thms if_False)
      show "vram_rep ?s' (xs @ [c, t] @ ys)" by (rule rep')
      show "map (node_rng ?s') [c, t] = carve (node_rng s c) (unat pad) (unat r)"
        using split exact le t(2) hd
        by (auto simp: carve_def node_rng_def same_header_def s1 off sums unat_sub unat_eq_zero)
      show "\<forall>i \<in> set (xs @ ys). node_rng ?s' i = node_rng s i"
      proof
        fix i assume "i \<in> set (xs @ ys)"
        then have "i \<noteq> c" "i \<noteq> t" using dist t(2) by auto
        then show "node_rng ?s' i = node_rng s i" by (intro node_rng_eqI [OF hd]) (simp_all add: s1)
      qed
    qed (rule hd)
  qed
qed

section \<open>The first-fit walk\<close>

text \<open>
  Where \<^verbatim>\<open>start_abs + alignment - 1\<close> would wrap, no aligned address is left below the end of
  the arena, so giving up at once loses nothing.
\<close>

lemma give_up_complete:
  assumes wf: "fl_wf lo fl" and sub: "fset_of fl \<subseteq> {..< m}" and m: "m \<le> 2 ^ 64"
    and al: "al = 2 ^ k" "k < 64" and r: "0 < r" and lo: "2 ^ 64 \<le> lo + (al - 1)"
  shows "fl_alloc al r fl = None"
proof (rule ccontr)
  assume "fl_alloc al r fl \<noteq> None"
  then obtain a fl' where a: "fl_alloc al r fl = Some (a, fl')" by auto
  have pos: "0 < al" using al by simp
  note sound = fl_alloc_sound [OF wf a pos r]
  then have mem: "a \<in> fset_of fl" using r by auto
  then have "lo \<le> a" "a < 2 ^ 64" using fl_wf_lower [OF wf] sub m by auto
  then show False using aligned_top [OF al lo, of a] sound by simp
qed

definition allocated :: "VRAMBumpAllocator \<Rightarrow> nat \<Rightarrow> u64 \<Rightarrow> u64 \<Rightarrow> VRAMAllocation" where
  "allocated s a r al = \<lparr>gpu_va = word_of_nat a,
     cpu_ptr = map_option (\<lambda>c. c + (word_of_nat a - m_base s)) (m_cpu_base s),
     va_size = r, va_alignment = al\<rparr>"

definition count_alloc :: "VRAMBumpAllocator \<Rightarrow> u64 \<Rightarrow> VRAMBumpAllocator \<Rightarrow> VRAMBumpAllocator" where
  "count_alloc s r s' = s'\<lparr>m_bytes_used := m_bytes_used s + r, m_alloc_count := m_alloc_count s + 1\<rparr>"

lemma alloc_walk_spec:
  assumes "vram_rep s (xs @ ys)" "length (xs @ ys) < 8192" "arena_ok s" "is_pow2 al" "0 < unat r"
    "fl_wf lo (map (node_rng s) ys)" "fset_of (map (node_rng s) ys) \<subseteq> vram_arena s"
  shows "case fl_alloc (unat al) (unat r) (map (node_rng s) ys) of
      None \<Rightarrow> alloc_walk s al r (prev_of xs) (hd_of ys) = Some (None, s)
    | Some (a, fl') \<Rightarrow> \<exists>s' zs.
        alloc_walk s al r (prev_of xs) (hd_of ys) = Some (Some (allocated s a r al), count_alloc s r s') \<and>
        vram_rep s' (xs @ zs) \<and> map (node_rng s') zs = fl' \<and> same_header s s' \<and>
        (\<forall>i \<in> set xs. node_rng s' i = node_rng s i)"
  using assms
proof (induction ys arbitrary: xs lo)
  case Nil
  then show ?case by (simp add: alloc_walk.simps)
next
  case (Cons c ys)
  note rep = Cons.prems(1) and wf = Cons.prems(6) and sub = Cons.prems(7)
  let ?n = "m_pool s c" and ?st = "m_base s + fn_offset (m_pool s c)"
  obtain k where k: "k < 64" "unat al = 2 ^ k" using is_pow2D [OF Cons.prems(4)] by auto
  have c: "c < kMaxNodes" using vram_repD(4) [OF rep, of c] by simp
  then have cI: "c \<noteq> kInvalid" by (rule below_not_kInvalid)
  have inb: "in_bounds s c" using ranges_in_bounds [OF wf sub] by simp
  have st: "unat ?st = unat (m_base s) + unat (fn_offset ?n)"
    using inb Cons.prems(3) by (simp add: in_bounds_def arena_ok_def word_nat)
  have rng: "node_rng s c = (unat ?st, unat (fn_length ?n))" by (simp add: node_rng_def st)
  have alpos: "0 < unat al" using k by simp
  have pred: "unat (al - 1) = unat al - 1" using alpos by (rule unat_pred)
  have nxt: "fn_next ?n = hd_of ys" using rep by (rule vram_rep_next)
  show ?case
  proof (cases "0xFFFFFFFFFFFFFFFF - (al - 1) < ?st")
    case True
    then have "2 ^ 64 \<le> unat ?st + (unat al - 1)"
      unfolding not_le [symmetric] add_guard64_max pred by simp
    moreover have "fl_wf (unat ?st) (map (node_rng s) (c # ys))" using wf by (simp add: rng)
    moreover have "fset_of (map (node_rng s) (c # ys)) \<subseteq> {..< unat (m_base s) + unat (m_size s)}"
      using sub by (auto simp: vram_arena_def)
    moreover have "unat (m_base s) + unat (m_size s) \<le> 2 ^ 64"
      using Cons.prems(3) unfolding arena_ok_def by (intro less_imp_le) simp
    ultimately have "fl_alloc (unat al) (unat r) (map (node_rng s) (c # ys)) = None"
      using Cons.prems(5) k give_up_complete by blast
    with True cI show ?thesis by (simp add: alloc_walk.simps Let_def)
  next
    case False
    define pad where "pad = align_up ?st al - ?st"
    have nw: "unat ?st + (unat al - 1) < 18446744073709551616"
      using False unfolding not_less add_guard64_max pred .
    then have up: "unat (align_up ?st al) = round_up (unat ?st) (unat al)"
      using unat_align_up [OF Cons.prems(4)] by simp
    have pad: "unat pad = round_up (unat ?st) (unat al) - unat ?st"
      using round_up_ge [OF alpos, of "unat ?st"] by (simp add: pad_def word_nat word_le_nat_alt up)
    have fits: "pad \<le> fn_length ?n \<and> r \<le> fn_length ?n - pad \<longleftrightarrow> unat pad + unat r \<le> unat (fn_length ?n)"
      by (auto simp: word_le_nat_alt unat_sub)
    show ?thesis
    proof (cases "unat pad + unat r \<le> unat (fn_length ?n)")
      case True
      let ?off = "fn_offset ?n + pad"
      from carve_spec [OF rep Cons.prems(2) inb Cons.prems(3) True Cons.prems(5) refl]
      obtain s' zs where s': "carve_node s r ?off pad (prev_of xs) c = Some s'" "vram_rep s' (xs @ zs @ ys)"
        "map (node_rng s') zs = carve (node_rng s c) (unat pad) (unat r)" "same_header s s'"
        "\<forall>i \<in> set (xs @ ys). node_rng s' i = node_rng s i" by blast
      have va: "word_of_nat (unat ?st + unat pad) = m_base s + ?off"
        by (simp add: algebra_simps)
      have "alloc_walk s al r (prev_of xs) (hd_of (c # ys)) =
          Some (Some (allocated s (unat ?st + unat pad) r al), count_alloc s r s')"
        using False fits True cI s'(1)
        by (subst alloc_walk.simps) (simp add: Let_def pad_def [symmetric] allocated_def count_alloc_def va)
      moreover have "fl_alloc (unat al) (unat r) (map (node_rng s) (c # ys)) =
          Some (unat ?st + unat pad, carve (node_rng s c) (unat pad) (unat r) @ map (node_rng s) ys)"
        using True by (simp add: rng pad Let_def)
      ultimately show ?thesis using s' by (auto intro!: exI [of _ s'] exI [of _ "zs @ ys"])
    next
      case nofit: False
      have walk: "alloc_walk s al r (prev_of xs) (hd_of (c # ys)) = alloc_walk s al r c (hd_of ys)"
        using False fits nofit cI
        by (subst alloc_walk.simps) (auto simp: Let_def pad_def [symmetric] nxt)
      have fl: "fl_alloc (unat al) (unat r) (map (node_rng s) (c # ys)) =
          map_option (\<lambda>(a, fl'). (a, node_rng s c # fl')) (fl_alloc (unat al) (unat r) (map (node_rng s) ys))"
        using nofit by (simp add: rng pad)
      have IH: "case fl_alloc (unat al) (unat r) (map (node_rng s) ys) of
          None \<Rightarrow> alloc_walk s al r (prev_of (xs @ [c])) (hd_of ys) = Some (None, s)
        | Some (a, fl') \<Rightarrow> \<exists>s' zs.
            alloc_walk s al r (prev_of (xs @ [c])) (hd_of ys) = Some (Some (allocated s a r al), count_alloc s r s') \<and>
            vram_rep s' ((xs @ [c]) @ zs) \<and> map (node_rng s') zs = fl' \<and> same_header s s' \<and>
            (\<forall>i \<in> set (xs @ [c]). node_rng s' i = node_rng s i)"
        using rep Cons.prems(2-5) wf sub
        by (intro Cons.IH [of "xs @ [c]" "Suc (unat ?st + unat (fn_length ?n))"]) (simp_all add: rng)
      show ?thesis
      proof (cases "fl_alloc (unat al) (unat r) (map (node_rng s) ys)")
        case None
        with IH walk fl show ?thesis by simp
      next
        case (Some p)
        obtain a fl' where p: "p = (a, fl')" by fastforce
        from IH Some p obtain s' zs where
          "alloc_walk s al r c (hd_of ys) = Some (Some (allocated s a r al), count_alloc s r s')"
          "vram_rep s' ((xs @ [c]) @ zs)" "map (node_rng s') zs = fl'" "same_header s s'"
          "\<forall>i \<in> set (xs @ [c]). node_rng s' i = node_rng s i" by auto
        with Some p walk fl show ?thesis by (auto intro!: exI [of _ s'] exI [of _ "c # zs"])
      qed
    qed
  qed
qed

section \<open>Merging a freed range\<close>

lemma free_walk_spec:
  assumes "vram_rep s (xs @ ys)"
  shows "\<exists>us vs. free_walk s off (prev_of xs) (hd_of ys) = Some (prev_of (xs @ us), hd_of vs) \<and>
     ys = us @ vs \<and> (\<forall>i \<in> set us. fn_offset (m_pool s i) < off) \<and>
     (vs \<noteq> [] \<longrightarrow> off \<le> fn_offset (m_pool s (hd vs)))"
  using assms
proof (induction ys arbitrary: xs)
  case Nil
  then show ?case by (simp add: free_walk.simps)
next
  case (Cons c ys)
  have c: "c \<noteq> kInvalid" using vram_repD(4) [OF Cons.prems, of c] by (simp add: below_not_kInvalid)
  show ?case
  proof (cases "fn_offset (m_pool s c) < off")
    case True
    have "free_walk s off (prev_of xs) (hd_of (c # ys)) = free_walk s off (prev_of (xs @ [c])) (hd_of ys)"
      using True c vram_rep_next [OF Cons.prems] by (subst free_walk.simps) simp
    moreover obtain us vs where "free_walk s off (prev_of (xs @ [c])) (hd_of ys) =
        Some (prev_of ((xs @ [c]) @ us), hd_of vs)" "ys = us @ vs"
      "\<forall>i \<in> set us. fn_offset (m_pool s i) < off" "vs \<noteq> [] \<longrightarrow> off \<le> fn_offset (m_pool s (hd vs))"
      using Cons.IH [of "xs @ [c]"] Cons.prems by auto
    ultimately show ?thesis using True by (intro exI [of _ "c # us"] exI [of _ vs]) simp
  next
    case False
    then show ?thesis using c by (intro exI [of _ "[]"] exI [of _ "c # ys"]) (subst free_walk.simps, simp)
  qed
qed

text \<open>What \<open>fl_free\<close> does around the place where the freed range goes in.\<close>

definition merge_at :: "nat \<Rightarrow> nat \<Rightarrow> free_list \<Rightarrow> free_list \<Rightarrow> free_list" where
  "merge_at off len pre suf =
     (let before = (pre \<noteq> [] \<and> fst (last pre) + snd (last pre) = off);
          after = (suf \<noteq> [] \<and> off + len = fst (hd suf));
          lo = (if before then fst (last pre) else off);
          plen = (if before then snd (last pre) else 0);
          slen = (if after then snd (hd suf) else 0)
      in (if before then butlast pre else pre) @ (lo, plen + len + slen) #
         (if after then tl suf else suf))"

lemma fl_free_merge_at:
  assumes "fl_wf lo (pre @ suf)" "\<forall>p \<in> set pre. fst p < off" "suf \<noteq> [] \<longrightarrow> off \<le> fst (hd suf)"
  shows "fl_free off len (pre @ suf) = merge_at off len pre suf"
  using assms
proof (induction pre arbitrary: lo)
  case Nil
  then show ?case by (cases suf) (auto simp: merge_at_def)
next
  case (Cons p pre)
  note prems = Cons.prems
  obtain b l where p: "p = (b, l)" by fastforce
  show ?case
  proof (cases pre)
    case Nil
    have b: "b < off" using Cons.prems p by simp
    show ?thesis
    proof (cases suf)
      case Nil
      with b \<open>pre = []\<close> p show ?thesis by (simp add: merge_at_def)
    next
      case (Cons q qs)
      obtain c m where q: "q = (c, m)" by fastforce
      have "off \<le> c" using prems(3) Cons q by simp
      moreover have "b + l < c" using prems(1) \<open>pre = []\<close> p Cons q by simp
      ultimately show ?thesis using b \<open>pre = []\<close> p q Cons by (auto simp: merge_at_def)
    qed
  next
    case (Cons q qs)
    obtain c m where q: "q = (c, m)" by fastforce
    have "b + l \<noteq> off" "b < off" using Cons.prems p Cons q by auto
    moreover have "fl_free off len (pre @ suf) = merge_at off len pre suf"
      using Cons.prems p by (intro Cons.IH [of "Suc (b + l)"]) auto
    ultimately show ?thesis using p Cons q by (auto simp: merge_at_def Let_def)
  qed
qed

lemma map_node_rng_cong:
  "(\<And>i. i \<in> set ns \<Longrightarrow> node_rng t i = node_rng s i) \<Longrightarrow> map (node_rng t) ns = map (node_rng s) ns"
  by simp

text \<open>
  \<open>free_merge\<close> between the node before (\<open>xs\<close>'s last) and the node after (\<open>ys\<close>'s first) the freed
  range, in its four outcomes: both neighbours touch it, one does, none does.
\<close>

lemma merge_both:
  assumes rep: "vram_rep s ((ws @ [w]) @ c # vs)"
    and p: "fn_offset (m_pool s w) + fn_length (m_pool s w) = off" and c: "off + len = fn_offset (m_pool s c)"
    and nw: "unat (fn_length (m_pool s w)) + unat len + unat (fn_length (m_pool s c)) < 18446744073709551616"
  shows "\<exists>s'. free_merge s off len w c = Some s' \<and> vram_rep s' ((ws @ [w]) @ vs) \<and> same_header s s' \<and>
     map (node_rng s') ((ws @ [w]) @ vs) = map (node_rng s) ws @
       (fst (node_rng s w), snd (node_rng s w) + unat len + snd (node_rng s c)) # map (node_rng s) vs"
proof -
  have dist: "distinct ((ws @ [w]) @ c # vs)" and I: "w \<noteq> kInvalid" "c \<noteq> kInvalid" "c < kMaxNodes"
    using vram_repD [OF rep] by (auto dest: below_not_kInvalid)
  let ?s1 = "set_node s w (\<lambda>n. n\<lparr>fn_length := fn_length n + len\<rparr>)"
  have cw: "c \<noteq> w" using dist by auto
  let ?s2 = "set_node ?s1 w (\<lambda>n. n\<lparr>fn_length := fn_length n + fn_length (m_pool s c)\<rparr>)"
  let ?s' = "pool_release (set_link ?s2 w (fn_next (m_pool s c))) c"
  have "free_merge s off len w c = Some ?s'"
    using I cw p c set_node_link' [OF I(1), where s = ?s1 and g = "\<lambda>l. l + fn_length (m_pool s c)"]
    by (simp add: free_merge_def Let_def)
  moreover have "vram_rep ?s2 ((ws @ [w]) @ c # vs)" using rep by (intro rep_payload) simp_all
  from rep_unlink [OF this] have "vram_rep ?s' ((ws @ [w]) @ vs)" using cw by simp
  moreover have hd: "same_header s ?s'" by (simp add: same_header_def)
  moreover have "node_rng ?s' i = node_rng s i" if "i \<in> set ws \<union> set vs" for i
    using that dist I by (intro node_rng_eqI [OF hd]) auto
  moreover have "node_rng ?s' w = (fst (node_rng s w), snd (node_rng s w) + unat len + snd (node_rng s c))"
    using dist I nw by (simp add: node_rng_def word_nat)
  ultimately show ?thesis by (intro exI [of _ ?s']) simp
qed

lemma merge_prev:
  assumes rep: "vram_rep s ((ws @ [w]) @ ys)"
    and p: "fn_offset (m_pool s w) + fn_length (m_pool s w) = off"
    and c: "ys \<noteq> [] \<Longrightarrow> off + len \<noteq> fn_offset (m_pool s (hd ys))"
    and nw: "unat (fn_length (m_pool s w)) + unat len < 18446744073709551616"
  shows "\<exists>s'. free_merge s off len w (hd_of ys) = Some s' \<and> vram_rep s' ((ws @ [w]) @ ys) \<and> same_header s s' \<and>
     map (node_rng s') ((ws @ [w]) @ ys) = map (node_rng s) ws @
       (fst (node_rng s w), snd (node_rng s w) + unat len) # map (node_rng s) ys"
proof -
  have dist: "distinct ((ws @ [w]) @ ys)" and I: "w \<noteq> kInvalid"
    using vram_repD [OF rep] by (auto dest: below_not_kInvalid)
  let ?s' = "set_node s w (\<lambda>n. n\<lparr>fn_length := fn_length n + len\<rparr>)"
  have "\<not> (hd_of ys \<noteq> kInvalid \<and> off + len = fn_offset (m_pool ?s' (hd_of ys)))"
    using c dist by (cases ys) auto
  moreover have "w \<noteq> kInvalid \<and> fn_offset (m_pool s w) + fn_length (m_pool s w) = off" using I p by simp
  ultimately have "free_merge s off len w (hd_of ys) = Some ?s'"
    by (simp only: free_merge_def Let_def if_False if_True simp_thms)
  moreover have "vram_rep ?s' ((ws @ [w]) @ ys)" using rep by (intro rep_payload) simp_all
  moreover have hd: "same_header s ?s'" by simp
  moreover have "node_rng ?s' i = node_rng s i" if "i \<in> set ws \<union> set ys" for i
    using that dist by (intro node_rng_eqI [OF hd]) auto
  moreover have "node_rng ?s' w = (fst (node_rng s w), snd (node_rng s w) + unat len)"
    using nw by (simp add: node_rng_def word_nat)
  ultimately show ?thesis by (intro exI [of _ ?s']) simp
qed

lemma merge_next:
  assumes rep: "vram_rep s (xs @ c # vs)"
    and p: "xs \<noteq> [] \<Longrightarrow> fn_offset (m_pool s (last xs)) + fn_length (m_pool s (last xs)) \<noteq> off"
    and c: "off + len = fn_offset (m_pool s c)"
    and nw: "unat (fn_length (m_pool s c)) + unat len < 18446744073709551616"
  shows "\<exists>s'. free_merge s off len (prev_of xs) c = Some s' \<and> vram_rep s' (xs @ c # vs) \<and> same_header s s' \<and>
     map (node_rng s') (xs @ c # vs) = map (node_rng s) xs @
       (unat (m_base s) + unat off, unat len + snd (node_rng s c)) # map (node_rng s) vs"
proof -
  have dist: "distinct (xs @ c # vs)" and I: "c \<noteq> kInvalid"
    using vram_repD [OF rep] by (auto dest: below_not_kInvalid)
  let ?s' = "set_node s c (\<lambda>n. n\<lparr>fn_offset := off, fn_length := fn_length n + len\<rparr>)"
  have "\<not> (prev_of xs \<noteq> kInvalid \<and>
      fn_offset (m_pool s (prev_of xs)) + fn_length (m_pool s (prev_of xs)) = off)"
    using p by (simp add: prev_of_def)
  then have "free_merge s off len (prev_of xs) c = Some ?s'"
    using I c by (simp only: free_merge_def Let_def if_False if_True simp_thms)
  moreover have "vram_rep ?s' (xs @ c # vs)" using rep by (intro rep_payload) simp_all
  moreover have hd: "same_header s ?s'" by simp
  moreover have "node_rng ?s' i = node_rng s i" if "i \<in> set xs \<union> set vs" for i
    using that dist by (intro node_rng_eqI [OF hd]) auto
  moreover have "node_rng ?s' c = (unat (m_base s) + unat off, unat len + snd (node_rng s c))"
    using nw by (simp add: node_rng_def word_nat)
  ultimately show ?thesis by (intro exI [of _ ?s']) simp
qed

lemma merge_none:
  assumes rep: "vram_rep s (xs @ ys)" and room: "length (xs @ ys) < 8192"
    and p: "xs \<noteq> [] \<Longrightarrow> fn_offset (m_pool s (last xs)) + fn_length (m_pool s (last xs)) \<noteq> off"
    and c: "ys \<noteq> [] \<Longrightarrow> off + len \<noteq> fn_offset (m_pool s (hd ys))"
  shows "\<exists>s' t. free_merge s off len (prev_of xs) (hd_of ys) = Some s' \<and> vram_rep s' (xs @ t # ys) \<and>
     same_header s s' \<and> map (node_rng s') (xs @ t # ys) = map (node_rng s) xs @
       (unat (m_base s) + unat off, unat len) # map (node_rng s) ys"
proof -
  obtain t s1 where take: "pool_take s = (t, s1)" by fastforce
  from take rep have t: "t \<noteq> kInvalid" "t \<notin> set (xs @ ys)"
    and s1: "s1 = set_node s t (\<lambda>n. n\<lparr>fn_in_use := True\<rparr>)"
    using room by (metis pool_take_cases less_irrefl below_not_kInvalid)+
  let ?s2 = "set_node s1 t (\<lambda>n. n\<lparr>fn_offset := off, fn_length := len, fn_next := hd_of ys\<rparr>)"
  let ?s' = "set_link ?s2 (prev_of xs) t"
  have "\<not> (prev_of xs \<noteq> kInvalid \<and>
      fn_offset (m_pool s (prev_of xs)) + fn_length (m_pool s (prev_of xs)) = off)"
    "\<not> (hd_of ys \<noteq> kInvalid \<and> off + len = fn_offset (m_pool s (hd_of ys)))"
    using p c by (auto simp: prev_of_def hd_of_def split: list.splits)
  then have "free_merge s off len (prev_of xs) (hd_of ys) = Some ?s'"
    using t(1) by (simp only: free_merge_def Let_def if_False if_True simp_thms take split_beta fst_conv snd_conv)
  moreover have "vram_rep ?s' (xs @ t # ys)" using rep take t(1) by (intro rep_insert) simp_all
  moreover have hd: "same_header s ?s'" using pool_take_header [OF take] by (simp add: same_header_def)
  moreover have "node_rng ?s' i = node_rng s i" if "i \<in> set xs \<union> set ys" for i
    using that t(2) by (intro node_rng_eqI [OF hd]) (auto simp: s1)
  moreover have "node_rng ?s' t = (unat (m_base s) + unat off, unat len)"
    using hd by (simp add: node_rng_def s1)
  ultimately show ?thesis by (intro exI [of _ ?s'] exI [of _ t]) simp
qed

text \<open>The overlap test of \<open>free\<close>, which looks at the two neighbours only, sees every overlap.\<close>

lemma fl_wf_upper: "fl_wf lo fl \<Longrightarrow> x \<in> fset_of fl \<Longrightarrow> x < fst (last fl) + snd (last fl)"
proof (induction lo fl rule: fl_wf.induct)
  case (2 lo b l fl)
  show ?case
  proof (cases "fl = []")
    case False
    then have "last fl \<in> set fl" by (rule last_in_set)
    then have "fst (last fl) \<in> fset_of fl"
      using fl_wf_mem [of "Suc (b + l)" fl "fst (last fl)" "snd (last fl)"] 2(2) by simp
    then have "Suc (b + l) \<le> fst (last fl)" using fl_wf_lower [of "Suc (b + l)" fl] 2(2) by simp
    then show ?thesis using 2 False by fastforce
  qed (use 2 in simp)
qed simp

lemma overlap_iff:
  assumes "fl_wf lo (pre @ suf)" "\<forall>p \<in> set pre. fst p < off" "suf \<noteq> [] \<longrightarrow> off \<le> fst (hd suf)" "0 < len"
  shows "{off ..< off + len} \<inter> fset_of (pre @ suf) \<noteq> {} \<longleftrightarrow>
    (pre \<noteq> [] \<and> off < fst (last pre) + snd (last pre)) \<or> (suf \<noteq> [] \<and> fst (hd suf) < off + len)"
    (is "?L \<longleftrightarrow> ?R")
proof
  assume ?L
  then have "\<exists>x. off \<le> x \<and> x < off + len \<and> (x \<in> fset_of pre \<or> x \<in> fset_of suf)" by auto
  then obtain x where x: "off \<le> x" "x < off + len" "x \<in> fset_of pre \<or> x \<in> fset_of suf" by blast
  from x(3) show ?R
  proof
    assume "x \<in> fset_of pre"
    moreover from this have "pre \<noteq> []" by auto
    ultimately show ?R using fl_wf_upper [of lo pre x] assms(1) x(1) by (auto simp: fl_wf_append)
  next
    assume s: "x \<in> fset_of suf"
    then obtain b l suf' where suf: "suf = (b, l) # suf'" by (cases suf) auto
    then have "fl_wf b suf" using assms(1) by (auto simp: fl_wf_append split: if_splits)
    then have "b \<le> x" using s by (rule fl_wf_lower)
    then show ?R using suf x(2) by simp
  qed
next
  assume ?R
  then show ?L
  proof
    assume R: "pre \<noteq> [] \<and> off < fst (last pre) + snd (last pre)"
    obtain b l where bl: "last pre = (b, l)" by fastforce
    with R have mem: "(b, l) \<in> set pre" using last_in_set [of pre] by simp
    then have "off \<in> {b ..< b + l}" using assms(2) R bl by fastforce
    with mem have "off \<in> fset_of pre" unfolding fset_of_def by blast
    then have "off \<in> {off ..< off + len} \<inter> fset_of (pre @ suf)" using assms(4) by simp
    then show ?L by blast
  next
    assume R: "suf \<noteq> [] \<and> fst (hd suf) < off + len"
    then obtain b l suf' where suf: "suf = (b, l) # suf'" by (cases suf) auto
    then have "b \<in> fset_of (pre @ suf)" using fl_wf_mem [OF assms(1), of b l] suf by simp
    then show ?L using assms(3) R suf by auto
  qed
qed

definition count_free :: "VRAMBumpAllocator \<Rightarrow> u64 \<Rightarrow> VRAMBumpAllocator \<Rightarrow> VRAMBumpAllocator" where
  "count_free s len s' = s'\<lparr>m_bytes_used := m_bytes_used s - len,
     m_alloc_count := (if 0 < m_alloc_count s then m_alloc_count s - 1 else m_alloc_count s)\<rparr>"

lemma free_merge_spec:
  assumes rep: "vram_rep s (us @ vs)"
    and end_us: "\<And>i. i \<in> set (us @ vs) \<Longrightarrow> unat (fn_offset (m_pool s i) + fn_length (m_pool s i)) =
      unat (fn_offset (m_pool s i)) + unat (fn_length (m_pool s i))"
    and end_off: "unat (off + len) = unat off + unat len"
    and room: "length (merge_at (unat (m_base s) + unat off) (unat len) (map (node_rng s) us) (map (node_rng s) vs)) \<le> 8192"
  shows "\<exists>s' zs. free_merge s off len (prev_of us) (hd_of vs) = Some s' \<and> vram_rep s' zs \<and> same_header s s' \<and>
    map (node_rng s') zs =
      merge_at (unat (m_base s) + unat off) (unat len) (map (node_rng s) us) (map (node_rng s) vs)"
proof -
  have eq_off: "fn_offset (m_pool s i) + fn_length (m_pool s i) = off \<longleftrightarrow>
      fst (node_rng s i) + snd (node_rng s i) = unat (m_base s) + unat off" if "i \<in> set (us @ vs)" for i
    using end_us [OF that] by (simp add: node_rng_def unat_eq_word [symmetric])
  have eq_end: "off + len = fn_offset (m_pool s i) \<longleftrightarrow>
      unat (m_base s) + unat off + unat len = fst (node_rng s i)" for i
    using end_off by (simp add: node_rng_def unat_eq_word [symmetric])
  have sum_lt: "unat x + unat y < 18446744073709551616" if "unat (x + y) = unat x + unat y" for x y :: u64
    using unat_lt_64 [of "x + y"] that by simp
  show ?thesis
  proof (cases "us \<noteq> [] \<and> fn_offset (m_pool s (last us)) + fn_length (m_pool s (last us)) = off")
    case True
    then obtain ws w where us: "us = ws @ [w]" by (metis rev_exhaust)
    have p: "fn_offset (m_pool s w) + fn_length (m_pool s w) = off" using True us by simp
    have w: "w \<in> set (us @ vs)" using us by simp
    have off: "unat off = unat (fn_offset (m_pool s w)) + unat (fn_length (m_pool s w))"
      using p end_us [OF w] by simp
    note before = p eq_off [OF w]
    show ?thesis
    proof (cases "vs \<noteq> [] \<and> off + len = fn_offset (m_pool s (hd vs))")
      case c: True
      then obtain c cs where vs: "vs = c # cs" by (metis list.exhaust)
      have "unat (fn_length (m_pool s w)) + unat len + unat (fn_length (m_pool s c)) < 18446744073709551616"
        using sum_lt [OF end_us [of c]] c vs end_off off by auto
      from merge_both [OF rep [unfolded us vs] p _ this] c vs
      obtain s' where "free_merge s off len w c = Some s'" "vram_rep s' ((ws @ [w]) @ cs)" "same_header s s'"
        "map (node_rng s') ((ws @ [w]) @ cs) = map (node_rng s) ws @
          (fst (node_rng s w), snd (node_rng s w) + unat len + snd (node_rng s c)) # map (node_rng s) cs" by auto
      then show ?thesis using before c eq_end [of c]
        by (intro exI [of _ s'] exI [of _ "(ws @ [w]) @ cs"]) (auto simp: merge_at_def Let_def us vs)
    next
      case c: False
      have "unat (fn_length (m_pool s w)) + unat len < 18446744073709551616"
        using sum_lt [OF end_off] off by simp
      from merge_prev [OF rep [unfolded us] p _ this] c
      obtain s' where "free_merge s off len w (hd_of vs) = Some s'" "vram_rep s' ((ws @ [w]) @ vs)" "same_header s s'"
        "map (node_rng s') ((ws @ [w]) @ vs) = map (node_rng s) ws @
          (fst (node_rng s w), snd (node_rng s w) + unat len) # map (node_rng s) vs" by auto
      then show ?thesis using before c eq_end [of "hd vs"]
        by (intro exI [of _ s'] exI [of _ "(ws @ [w]) @ vs"]) (auto simp: merge_at_def Let_def us hd_map)
    qed
  next
    case np: False
    have before: "\<not> (us \<noteq> [] \<and> fst (last (map (node_rng s) us)) + snd (last (map (node_rng s) us)) =
        unat (m_base s) + unat off)"
      using np eq_off [of "last us"] by (auto simp: last_map)
    show ?thesis
    proof (cases "vs \<noteq> [] \<and> off + len = fn_offset (m_pool s (hd vs))")
      case c: True
      then obtain c cs where vs: "vs = c # cs" by (metis list.exhaust)
      have "unat (fn_length (m_pool s c)) + unat len < 18446744073709551616"
        using sum_lt [OF end_us [of c]] c vs end_off by auto
      from merge_next [OF rep [unfolded vs] _ _ this, of off] np c vs
      obtain s' where "free_merge s off len (prev_of us) c = Some s'" "vram_rep s' (us @ c # cs)" "same_header s s'"
        "map (node_rng s') (us @ c # cs) = map (node_rng s) us @
          (unat (m_base s) + unat off, unat len + snd (node_rng s c)) # map (node_rng s) cs" by auto
      then show ?thesis using before c eq_end [of c]
        by (intro exI [of _ s'] exI [of _ "us @ c # cs"]) (auto simp: merge_at_def Let_def vs)
    next
      case c: False
      have spec: "merge_at (unat (m_base s) + unat off) (unat len) (map (node_rng s) us) (map (node_rng s) vs) =
          map (node_rng s) us @ (unat (m_base s) + unat off, unat len) # map (node_rng s) vs"
        using before c eq_end [of "hd vs"] by (auto simp: merge_at_def Let_def hd_map)
      then have "length (us @ vs) < 8192" using room by simp
      from merge_none [OF rep this, of off len] np c
      obtain s' t where "free_merge s off len (prev_of us) (hd_of vs) = Some s'" "vram_rep s' (us @ t # vs)"
        "same_header s s'" "map (node_rng s') (us @ t # vs) = map (node_rng s) us @
          (unat (m_base s) + unat off, unat len) # map (node_rng s) vs" by auto
      then show ?thesis using spec by (intro exI [of _ s'] exI [of _ "us @ t # vs"]) simp
    qed
  qed
qed

text \<open>\<open>free\<close> on a range inside the arena: refused when it meets a free range, merged otherwise.\<close>

lemma free_step:
  assumes rep: "vram_rep s ns" and wf: "fl_wf (unat (m_base s)) (map (node_rng s) ns)"
    and sub: "fset_of (map (node_rng s) ns) \<subseteq> vram_arena s"
    and ok: "m_inited s" "arena_ok s" "0 < unat (va_size a)"
    and mine: "live_lo = unat (gpu_va a)" "unat (m_base s) \<le> live_lo"
      "live_lo + unat (va_size a) \<le> unat (m_base s) + unat (m_size s)"
      "va_size a \<le> m_bytes_used s"
  shows "if {live_lo ..< live_lo + unat (va_size a)} \<inter> fset_of (map (node_rng s) ns) \<noteq> {}
    then free s a = Some s
    else length (fl_free live_lo (unat (va_size a)) (map (node_rng s) ns)) \<le> 8192 \<longrightarrow>
      (\<exists>s' zs. free s a = Some (count_free s (va_size a) s') \<and> vram_rep s' zs \<and> same_header s s' \<and>
         map (node_rng s') zs = fl_free live_lo (unat (va_size a)) (map (node_rng s) ns))"
proof -
  let ?off = "gpu_va a - m_base s" and ?len = "va_size a" and ?N = "18446744073709551616 :: nat"
  have off: "unat ?off = live_lo - unat (m_base s)" using mine by (simp add: word_nat word_le_nat_alt)
  then have lo: "live_lo = unat (m_base s) + unat ?off" using mine by simp
  have guards: "\<not> (\<not> m_inited s \<or> ?len = 0)"
    "\<not> (gpu_va a < m_base s \<or> m_size s < ?off \<or> m_size s - ?off < ?len \<or> m_bytes_used s < ?len)"
    using ok mine off by (auto simp: word_less_nat_alt word_le_nat_alt unat_sub not_less)
  have nw: "unat ?off + unat ?len < ?N" using mine ok off by (simp add: arena_ok_def)
  have bounds: "in_bounds s i" if "i \<in> set ns" for i using ranges_in_bounds [OF wf sub that] .
  have endw: "unat (fn_offset (m_pool s i) + fn_length (m_pool s i)) =
      unat (fn_offset (m_pool s i)) + unat (fn_length (m_pool s i))" if "i \<in> set ns" for i
    using bounds [OF that] ok by (simp add: in_bounds_def arena_ok_def word_nat)
  obtain us vs where walk: "free_walk s ?off kInvalid (m_head s) = Some (prev_of us, hd_of vs)"
    and ns: "ns = us @ vs" and us: "\<forall>i \<in> set us. fn_offset (m_pool s i) < ?off"
    and vs: "vs \<noteq> [] \<longrightarrow> ?off \<le> fn_offset (m_pool s (hd vs))"
    using free_walk_spec [of s "[]" ns ?off] rep vram_repD(5) [OF rep] by auto
  let ?pre = "map (node_rng s) us" and ?suf = "map (node_rng s) vs"
  have split: "fl_wf (unat (m_base s)) (?pre @ ?suf)" "\<forall>p \<in> set ?pre. fst p < live_lo"
    "?suf \<noteq> [] \<longrightarrow> live_lo \<le> fst (hd ?suf)"
    using wf us vs by (auto simp: ns node_rng_def lo word_less_nat_alt word_le_nat_alt hd_map)
  let ?clash = "(prev_of us \<noteq> kInvalid \<and> ?off < fn_offset (m_pool s (prev_of us)) + fn_length (m_pool s (prev_of us))) \<or>
     (hd_of vs \<noteq> kInvalid \<and> fn_offset (m_pool s (hd_of vs)) < ?off + ?len)"
  have notI: "i \<noteq> kInvalid" if "i \<in> set ns" for i
    using vram_repD(4) [OF rep that] by (rule below_not_kInvalid)
  have L: "us \<noteq> [] \<and> live_lo < fst (last ?pre) + snd (last ?pre) \<longleftrightarrow>
      prev_of us \<noteq> kInvalid \<and> ?off < fn_offset (m_pool s (prev_of us)) + fn_length (m_pool s (prev_of us))"
    using notI [of "last us"] endw [of "last us"]
    by (auto simp: ns prev_of_def last_map node_rng_def lo word_less_nat_alt)
  have R: "vs \<noteq> [] \<and> fst (hd ?suf) < live_lo + unat ?len \<longleftrightarrow>
      hd_of vs \<noteq> kInvalid \<and> fn_offset (m_pool s (hd_of vs)) < ?off + ?len"
    using notI [of "hd vs"] nw
    by (cases vs) (auto simp: ns node_rng_def lo word_less_nat_alt word_nat)
  have clash: "?clash \<longleftrightarrow> {live_lo ..< live_lo + unat ?len} \<inter> fset_of (map (node_rng s) ns) \<noteq> {}"
    using overlap_iff [OF split ok(3)] L R by (simp add: ns)
  have code: "free s a = (if ?clash then Some s else (case free_merge s ?off ?len (prev_of us) (hd_of vs) of
      None \<Rightarrow> Some s | Some s' \<Rightarrow> Some (count_free s ?len s')))"
    unfolding free_def Let_def if_not_P [OF guards(1)] if_not_P [OF guards(2)] walk count_free_def by simp
  show ?thesis
  proof (cases ?clash)
    case True
    then show ?thesis using clash code by simp
  next
    case False
    have spec: "fl_free live_lo (unat ?len) (map (node_rng s) ns) = merge_at live_lo (unat ?len) ?pre ?suf"
      using fl_free_merge_at [OF split] by (simp add: ns)
    have "unat (?off + ?len) = unat ?off + unat ?len" using nw by (simp add: word_nat)
    from free_merge_spec [OF rep [unfolded ns] _ this] endw
    have "length (merge_at live_lo (unat ?len) ?pre ?suf) \<le> 8192 \<longrightarrow> (\<exists>s' zs.
        free_merge s ?off ?len (prev_of us) (hd_of vs) = Some s' \<and> vram_rep s' zs \<and> same_header s s' \<and>
        map (node_rng s') zs = merge_at live_lo (unat ?len) ?pre ?suf)"
      unfolding ns lo by blast
    then have "length (fl_free live_lo (unat ?len) (map (node_rng s) ns)) \<le> 8192 \<longrightarrow>
      (\<exists>s' zs. free s a = Some (count_free s ?len s') \<and> vram_rep s' zs \<and> same_header s s' \<and>
         map (node_rng s') zs = fl_free live_lo (unat ?len) (map (node_rng s) ns))"
      unfolding spec code if_not_P [OF False] by fastforce
    then show ?thesis using False clash by simp
  qed
qed

section \<open>The invariant\<close>

definition live_span :: "VRAMAllocation \<Rightarrow> nat set" where
  "live_span a = {unat (gpu_va a) ..< unat (gpu_va a) + unat (va_size a)}"

definition live_bytes :: "VRAMAllocation list \<Rightarrow> nat" where
  "live_bytes live = sum_list (map (\<lambda>a. unat (va_size a)) live)"

text \<open>
  The chain is well formed, its ranges are sorted, non-empty and never adjacent, the live
  allocations are disjoint, live and free addresses together are exactly the arena, and the
  byte and allocation counters count the live allocations.
\<close>

definition vram_inv :: "VRAMBumpAllocator \<Rightarrow> VRAMAllocation list \<Rightarrow> bool" where
  "vram_inv s live \<longleftrightarrow> m_inited s \<and> arena_ok s \<and> vram_rep s (free_nodes s) \<and>
     fl_wf (unat (m_base s)) (free_ranges s) \<and>
     (\<forall>a \<in> set live. 16384 \<le> unat (va_size a)) \<and> disjoint_spans live_span live \<and>
     (\<forall>a \<in> set live. live_span a \<inter> fset_of (free_ranges s) = {}) \<and>
     fset_of (free_ranges s) \<union> (\<Union>a \<in> set live. live_span a) = vram_arena s \<and>
     unat (m_bytes_used s) = live_bytes live \<and> unat (m_alloc_count s) = length live \<and>
     length live \<le> 8191"

lemma vram_invD:
  assumes "vram_inv s live"
  shows "m_inited s" "arena_ok s" "vram_rep s (free_nodes s)" "fl_wf (unat (m_base s)) (free_ranges s)"
    "a \<in> set live \<Longrightarrow> 16384 \<le> unat (va_size a)" "disjoint_spans live_span live"
    "a \<in> set live \<Longrightarrow> live_span a \<inter> fset_of (free_ranges s) = {}"
    "fset_of (free_ranges s) \<union> (\<Union>a \<in> set live. live_span a) = vram_arena s"
    "unat (m_bytes_used s) = live_bytes live" "unat (m_alloc_count s) = length live" "length live \<le> 8191"
  using assms unfolding vram_inv_def by blast+

lemma vram_inv_free_arena: "vram_inv s live \<Longrightarrow> fset_of (free_ranges s) \<subseteq> vram_arena s"
  using vram_invD(8) by blast

lemma vram_inv_live_arena: "vram_inv s live \<Longrightarrow> a \<in> set live \<Longrightarrow> live_span a \<subseteq> vram_arena s"
  using vram_invD(8) by blast

lemma vram_inv_free_bound:
  assumes "vram_inv s live"
  shows "length (free_ranges s) \<le> Suc (length live)"
proof (rule free_ranges_bound [OF vram_invD(4) [OF assms], of live live_span])
  show "\<And>r x y z. r \<in> set live \<Longrightarrow> x \<in> live_span r \<Longrightarrow> z \<in> live_span r \<Longrightarrow> x \<le> y \<Longrightarrow> y \<le> z \<Longrightarrow> y \<in> live_span r"
    by (auto simp: live_span_def)
  show "\<And>r. r \<in> set live \<Longrightarrow> live_span r \<inter> fset_of (free_ranges s) = {}"
    using vram_invD(7) [OF assms] .
  fix x assume x: "unat (m_base s) \<le> x" "\<exists>y \<in> fset_of (free_ranges s). x \<le> y" "x \<notin> fset_of (free_ranges s)"
  then have "x \<in> vram_arena s" using vram_inv_free_arena [OF assms] by (fastforce simp: vram_arena_def)
  then show "\<exists>r \<in> set live. x \<in> live_span r" using x(3) vram_invD(8) [OF assms] by blast
qed

text \<open>Counters: the live bytes fit in the arena, so the byte counter never wraps.\<close>

lemma live_bytes_card:
  "disjoint_spans live_span live \<Longrightarrow> card (\<Union>a \<in> set live. live_span a) = live_bytes live"
  using card_disjoint_spans [of live_span live] by (simp add: live_bytes_def live_span_def)

lemma live_bytes_le_arena:
  assumes "disjoint_spans live_span live" "\<And>a. a \<in> set live \<Longrightarrow> live_span a \<subseteq> vram_arena s"
  shows "live_bytes live \<le> unat (m_size s)"
proof -
  have "card (\<Union>a \<in> set live. live_span a) \<le> card (vram_arena s)"
    using assms(2) by (intro card_mono) (auto simp: vram_arena_def)
  then show ?thesis using live_bytes_card [OF assms(1)] by (simp add: vram_arena_def)
qed

lemma vram_init_inv:
  assumes "0 < sz" "unat base + unat sz < 18446744073709551616"
  shows "vram_inv (vram_init base sz cpu) []"
proof -
  let ?s = "vram_init base sz cpu"
  have scan: "pool_scan (\<lambda>i. \<lparr>fn_offset = 0, fn_length = 0, fn_next = kInvalid, fn_in_use = False\<rparr>) 0 = 0"
    by (subst pool_scan.simps) (simp add: kMaxNodes_def)
  have z: "(0 :: u16) \<noteq> kInvalid" "(0 :: u16) < kMaxNodes" by (simp_all add: kInvalid_def kMaxNodes_def)
  have s: "m_inited ?s" "m_base ?s = base" "m_size ?s = sz" "m_bytes_used ?s = 0" "m_alloc_count ?s = 0"
    "m_head ?s = 0" "fn_next (m_pool ?s 0) = kInvalid" "fn_offset (m_pool ?s 0) = 0" "fn_length (m_pool ?s 0) = sz"
    "\<And>i. fn_in_use (m_pool ?s i) \<longleftrightarrow> i = 0"
    using assms add_guard64_max [of base sz] z
    by (auto simp: vram_init_def Let_def pool_take_def scan)
  have rep: "vram_rep ?s [0]" using s z by (auto simp: vram_rep_def)
  then have nodes: "free_nodes ?s = [0]" by (rule free_nodes_rep)
  then have fr: "free_ranges ?s = [(unat base, unat sz)]"
    by (simp add: free_ranges_def node_rng_def s)
  have "0 < unat sz" using assms(1) by (simp add: unat_gt_0 word_neq_0_conv)
  then show ?thesis
    using assms(2) rep by (simp add: vram_inv_def nodes fr s arena_ok_def vram_arena_def live_bytes_def)
qed

lemma count_simps [simp]:
  "vram_rep (count_alloc s r t) ns = vram_rep t ns" "free_nodes (count_alloc s r t) = free_nodes t"
  "node_rng (count_alloc s r t) = node_rng t" "m_inited (count_alloc s r t) = m_inited t"
  "m_base (count_alloc s r t) = m_base t" "m_size (count_alloc s r t) = m_size t"
  "arena_ok (count_alloc s r t) = arena_ok t" "vram_arena (count_alloc s r t) = vram_arena t"
  "m_bytes_used (count_alloc s r t) = m_bytes_used s + r"
  "m_alloc_count (count_alloc s r t) = m_alloc_count s + 1"
  "vram_rep (count_free s r t) ns = vram_rep t ns" "free_nodes (count_free s r t) = free_nodes t"
  "node_rng (count_free s r t) = node_rng t" "m_inited (count_free s r t) = m_inited t"
  "m_base (count_free s r t) = m_base t" "m_size (count_free s r t) = m_size t"
  "arena_ok (count_free s r t) = arena_ok t" "vram_arena (count_free s r t) = vram_arena t"
  "m_bytes_used (count_free s r t) = m_bytes_used s - r"
  "m_alloc_count (count_free s r t) = (if 0 < m_alloc_count s then m_alloc_count s - 1 else m_alloc_count s)"
  by (simp_all add: count_alloc_def count_free_def vram_rep_def free_nodes_def node_rng_def fun_eq_iff
      arena_ok_def vram_arena_def)

lemma same_headerD:
  assumes "same_header s t"
  shows "m_inited t = m_inited s" "m_base t = m_base s" "m_size t = m_size s"
    "m_bytes_used t = m_bytes_used s" "m_alloc_count t = m_alloc_count s" "m_cpu_base t = m_cpu_base s"
    "arena_ok t = arena_ok s" "vram_arena t = vram_arena s"
  using assms by (simp_all add: same_header_def arena_ok_def vram_arena_def)

section \<open>Allocation\<close>

definition eff_alignment :: "u64 \<Rightarrow> u64" where
  "eff_alignment al = (if al < 16384 then 16384 else al)"

text \<open>The requests \<open>alloc\<close> takes to the walk; every other one is refused at once.\<close>

definition alloc_guard :: "VRAMBumpAllocator \<Rightarrow> u64 \<Rightarrow> u64 \<Rightarrow> bool" where
  "alloc_guard s bytes al \<longleftrightarrow> m_inited s \<and> bytes \<noteq> 0 \<and> m_alloc_count s < 8191 \<and>
     (al = 0 \<or> is_pow2 al) \<and> unat bytes + (unat (eff_alignment al) - 1) < 18446744073709551616"

lemma eff_alignment_pow2:
  assumes "al = 0 \<or> is_pow2 al"
  shows "is_pow2 (eff_alignment al)"
  using assms by (auto simp: eff_alignment_def is_pow2_def)

lemma eff_alignment_ge: "16384 \<le> unat (eff_alignment al)"
  by (simp add: eff_alignment_def not_less word_le_nat_alt)

lemma rounded_facts:
  assumes "alloc_guard s bytes al"
  shows "unat (align_up bytes (eff_alignment al)) = round_up (unat bytes) (unat (eff_alignment al))"
    "16384 \<le> unat (align_up bytes (eff_alignment al))" "unat bytes \<le> unat (align_up bytes (eff_alignment al))"
proof -
  let ?al = "eff_alignment al"
  have p2: "is_pow2 ?al" using assms by (intro eff_alignment_pow2) (simp add: alloc_guard_def)
  show eq: "unat (align_up bytes ?al) = round_up (unat bytes) (unat ?al)"
    using assms by (intro unat_align_up [OF p2]) (simp add: alloc_guard_def)
  have "0 < unat bytes" using assms by (simp add: alloc_guard_def unat_gt_0)
  moreover have pos: "0 < unat ?al" using eff_alignment_ge [of al] by linarith
  ultimately have "0 < round_up (unat bytes) (unat ?al)" by (intro round_up_pos)
  then have "unat ?al \<le> round_up (unat bytes) (unat ?al)" by (intro dvd_imp_le) simp_all
  then show "16384 \<le> unat (align_up bytes ?al)" using eff_alignment_ge [of al] eq by linarith
  show "unat bytes \<le> unat (align_up bytes ?al)" unfolding eq using pos by (rule round_up_ge)
qed

lemma alloc_refused:
  assumes "\<not> alloc_guard s bytes al"
  shows "alloc s bytes al = Some (None, s)"
proof (cases "\<not> m_inited s \<or> bytes = 0 \<or> kMaxAllocations \<le> m_alloc_count s \<or> \<not> (al = 0 \<or> is_pow2 al)")
  case True
  then show ?thesis by (auto simp: alloc_def is_pow2_def)
next
  case False
  have "eff_alignment al \<noteq> 0" using eff_alignment_ge [of al] by auto
  then have "unat (eff_alignment al - 1) = unat (eff_alignment al) - 1"
    by (intro unat_pred) (simp add: unat_gt_0)
  moreover have "\<not> unat bytes + (unat (eff_alignment al) - 1) < 18446744073709551616"
    using False assms by (auto simp: alloc_guard_def kMaxAllocations_def)
  ultimately have "0xFFFFFFFFFFFFFFFF - (eff_alignment al - 1) < bytes"
    unfolding not_le [symmetric] add_guard64_max by simp
  with False show ?thesis by (simp add: alloc_def is_pow2_def eff_alignment_def Let_def split: if_splits)
qed

lemma alloc_walks:
  assumes "alloc_guard s bytes al"
  shows "alloc s bytes al =
    alloc_walk s (eff_alignment al) (align_up bytes (eff_alignment al)) kInvalid (m_head s)"
proof -
  have "eff_alignment al \<noteq> 0" using eff_alignment_ge [of al] by auto
  then have "unat (eff_alignment al - 1) = unat (eff_alignment al) - 1"
    by (intro unat_pred) (simp add: unat_gt_0)
  then have "\<not> 0xFFFFFFFFFFFFFFFF - (eff_alignment al - 1) < bytes"
    unfolding not_less add_guard64_max using assms by (simp add: alloc_guard_def)
  with assms show ?thesis
    by (auto simp: alloc_def alloc_guard_def is_pow2_def eff_alignment_def Let_def kMaxAllocations_def not_le)
qed

lemma alloc_spec:
  assumes inv: "vram_inv s live" and guard: "alloc_guard s bytes al"
  shows "case fl_alloc (unat (eff_alignment al)) (unat (align_up bytes (eff_alignment al))) (free_ranges s) of
      None \<Rightarrow> alloc s bytes al = Some (None, s)
    | Some (a, fl') \<Rightarrow> \<exists>s'. alloc s bytes al =
          Some (Some (allocated s a (align_up bytes (eff_alignment al)) (eff_alignment al)), s') \<and>
        free_ranges s' = fl' \<and> vram_arena s' = vram_arena s \<and> a < 18446744073709551616 \<and>
        vram_inv s' (allocated s a (align_up bytes (eff_alignment al)) (eff_alignment al) # live) \<and>
        m_inited s' = m_inited s \<and> m_base s' = m_base s \<and> m_size s' = m_size s \<and>
        m_cpu_base s' = m_cpu_base s \<and> m_alloc_count s' = m_alloc_count s + 1 \<and>
        m_bytes_used s' = m_bytes_used s + align_up bytes (eff_alignment al)"
proof -
  let ?al = "eff_alignment al" and ?r = "align_up bytes (eff_alignment al)"
  note D = vram_invD [OF inv]
  have p2: "is_pow2 ?al" using guard by (intro eff_alignment_pow2) (simp add: alloc_guard_def)
  have r: "16384 \<le> unat ?r" by (rule rounded_facts(2) [OF guard])
  have pos: "0 < unat ?al" "0 < unat ?r" using r eff_alignment_ge [of al] by linarith+
  have cnt: "length live < 8191" using guard D(10) by (simp add: alloc_guard_def word_less_nat_alt)
  have len: "length (free_nodes s) < 8192"
    using vram_inv_free_bound [OF inv] cnt by (simp add: free_ranges_def)
  have walk: "alloc s bytes al = alloc_walk s ?al ?r (prev_of []) (hd_of (free_nodes s))"
    using alloc_walks [OF guard] vram_repD(5) [OF D(3)] by simp
  note spec = alloc_walk_spec [of s "[]" "free_nodes s" ?al ?r, unfolded append_Nil, OF D(3) len D(2) p2 pos(2)
    D(4) [unfolded free_ranges_def] vram_inv_free_arena [OF inv, unfolded free_ranges_def],
    folded walk free_ranges_def]
  show ?thesis
  proof (cases "fl_alloc (unat ?al) (unat ?r) (free_ranges s)")
    case None
    with spec show ?thesis by simp
  next
    case (Some p)
    obtain a fl' where p: "p = (a, fl')" by fastforce
    let ?A = "allocated s a ?r ?al"
    note fl = Some [unfolded p]
    from spec fl obtain s' zs where s': "alloc s bytes al = Some (Some ?A, count_alloc s ?r s')"
      "vram_rep s' zs" "map (node_rng s') zs = fl'" "same_header s s'" by auto
    note H = same_headerD [OF s'(4)]
    note sound = fl_alloc_sound [OF D(4) fl pos]
    have fr: "free_ranges (count_alloc s ?r s') = fl'"
      using s'(3) free_nodes_rep [OF s'(2)] by (simp add: free_ranges_def)
    have inA: "{a ..< a + unat ?r} \<subseteq> vram_arena s" using sound vram_inv_free_arena [OF inv] by blast
    then have "a \<in> vram_arena s" using pos by auto
    then have a: "a < 18446744073709551616" using D(2) by (simp add: vram_arena_def arena_ok_def)
    then have va: "unat (gpu_va ?A) = a" by (simp add: allocated_def unat_of_nat)
    have span: "live_span ?A = {a ..< a + unat ?r}" using va by (simp add: live_span_def allocated_def)
    have disj: "live_span ?A \<inter> live_span x = {}" if "x \<in> set live" for x
      using D(7) [OF that] sound span by blast
    have ds: "disjoint_spans live_span (?A # live)" using disj D(6) by simp
    have cover: "fset_of fl' \<union> (\<Union>x \<in> set (?A # live). live_span x) = vram_arena s"
      using sound span D(8) by auto
    have "live_bytes (?A # live) \<le> unat (m_size s)"
      using ds inA span vram_inv_live_arena [OF inv] by (intro live_bytes_le_arena) auto
    moreover have lb: "live_bytes (?A # live) = unat ?r + live_bytes live"
      by (simp add: live_bytes_def allocated_def)
    ultimately have used: "unat (m_bytes_used s + ?r) = live_bytes (?A # live)"
      using D(9) le_less_trans [OF _ unat_lt_64 [of "m_size s"]] by (simp add: word_nat)
    have count: "unat (m_alloc_count s + 1) = Suc (length live)"
      using D(10) cnt by (simp add: unat_word_ariths)
    have "vram_inv (count_alloc s ?r s') (?A # live)"
      unfolding vram_inv_def fr using s'(2) free_nodes_rep [OF s'(2)] H D ds cover used count cnt sound span r
      by (auto simp: allocated_def)
    moreover have "m_inited (count_alloc s ?r s') = m_inited s \<and> m_base (count_alloc s ?r s') = m_base s \<and>
        m_size (count_alloc s ?r s') = m_size s \<and> m_cpu_base (count_alloc s ?r s') = m_cpu_base s \<and>
        m_alloc_count (count_alloc s ?r s') = m_alloc_count s + 1 \<and>
        m_bytes_used (count_alloc s ?r s') = m_bytes_used s + ?r"
      using H by (simp add: count_alloc_def)
    ultimately show ?thesis using fl s'(1) fr H a by simp
  qed
qed

section \<open>Release\<close>

lemma disjoint_spans_mem:
  assumes "disjoint_spans live_span live" "a \<in> set live" "x \<in> set live" "live_span a \<inter> live_span x \<noteq> {}"
  shows "a = x"
  using assms by (induction live) auto

lemma live_bytes_remove1:
  "a \<in> set live \<Longrightarrow> live_bytes live = unat (va_size a) + live_bytes (remove1 a live)"
  unfolding live_bytes_def by (rule sum_list_map_remove1)

lemma union_remove1:
  assumes "a \<in> set live"
  shows "live_span a \<union> (\<Union>x \<in> set (remove1 a live). live_span x) = (\<Union>x \<in> set live. live_span x)"
  using assms set_remove1_subset [of a live] by (auto simp: in_set_remove1) (metis in_set_remove1)

lemma free_spec:
  assumes inv: "vram_inv s live" and a: "a \<in> set live"
  shows "\<exists>s'. free s a = Some s' \<and> vram_inv s' (remove1 a live) \<and> vram_arena s' = vram_arena s \<and>
    free_ranges s' = fl_free (unat (gpu_va a)) (unat (va_size a)) (free_ranges s)"
proof -
  note D = vram_invD [OF inv]
  let ?lo = "unat (gpu_va a)" and ?len = "unat (va_size a)"
  let ?fl = "fl_free ?lo ?len (free_ranges s)"
  have len: "0 < ?len" using D(5) [OF a] by linarith
  have arena: "live_span a \<subseteq> vram_arena s" using vram_inv_live_arena [OF inv a] .
  then have lo: "unat (m_base s) \<le> ?lo" "?lo + ?len \<le> unat (m_base s) + unat (m_size s)"
    using len by (simp_all add: live_span_def vram_arena_def)
  have disj: "{?lo ..< ?lo + ?len} \<inter> fset_of (free_ranges s) = {}" using D(7) [OF a] by (simp add: live_span_def)
  have used: "va_size a \<le> m_bytes_used s"
    using D(9) live_bytes_remove1 [OF a] by (simp add: word_le_nat_alt)
  note sound = fl_free_sound [OF D(4) disj len lo(1)]
  let ?live = "remove1 a live"
  have others: "live_span a \<inter> live_span x = {}" if "x \<in> set ?live" for x
    using disjoint_spans_remove1_disjoint [OF D(6) a that] .
  have sub: "x \<in> set live" if "x \<in> set ?live" for x using that set_remove1_subset by fastforce
  have disj': "live_span x \<inter> fset_of ?fl = {}" if "x \<in> set ?live" for x
    using sound D(7) [OF sub [OF that]] others [OF that] by (auto simp: live_span_def)
  have "fset_of ?fl = fset_of (free_ranges s) \<union> live_span a" using sound by (simp add: live_span_def)
  then have cover: "fset_of ?fl \<union> (\<Union>x \<in> set ?live. live_span x) = vram_arena s"
    by (simp only: Un_assoc union_remove1 [OF a] D(8))
  have bound: "length ?fl \<le> Suc (length ?live)"
  proof (rule free_ranges_bound [of "unat (m_base s)" _ ?live live_span])
    show "fl_wf (unat (m_base s)) ?fl" using sound by blast
    show "\<And>r x y z. r \<in> set ?live \<Longrightarrow> x \<in> live_span r \<Longrightarrow> z \<in> live_span r \<Longrightarrow> x \<le> y \<Longrightarrow> y \<le> z \<Longrightarrow> y \<in> live_span r"
      by (auto simp: live_span_def)
    show "\<And>r. r \<in> set ?live \<Longrightarrow> live_span r \<inter> fset_of ?fl = {}" by (rule disj')
    fix x assume x: "unat (m_base s) \<le> x" "\<exists>y \<in> fset_of ?fl. x \<le> y" "x \<notin> fset_of ?fl"
    then obtain y where "y \<in> fset_of ?fl" "x \<le> y" by blast
    moreover from this(1) have "y \<in> vram_arena s" using cover by blast
    ultimately have "x \<in> vram_arena s" using x(1) by (simp add: vram_arena_def)
    then show "\<exists>r \<in> set ?live. x \<in> live_span r" using x(3) cover by blast
  qed
  have n: "Suc (length ?live) = length live" "length live \<noteq> 0"
    using a length_pos_if_in_set [OF a] by (auto simp: length_remove1)
  have room: "length ?fl \<le> 8192" using bound n D(11) by linarith
  have "length (fl_free ?lo ?len (map (node_rng s) (free_nodes s))) \<le> 8192 \<longrightarrow>
      (\<exists>s' zs. free s a = Some (count_free s (va_size a) s') \<and> vram_rep s' zs \<and> same_header s s' \<and>
         map (node_rng s') zs = fl_free ?lo ?len (map (node_rng s) (free_nodes s)))"
    using free_step [OF D(3) D(4) [unfolded free_ranges_def] vram_inv_free_arena [OF inv, unfolded free_ranges_def]
        D(1,2) len refl lo used] disj by (simp add: free_ranges_def)
  then obtain s' zs where s': "free s a = Some (count_free s (va_size a) s')" "vram_rep s' zs" "same_header s s'"
    "map (node_rng s') zs = ?fl" using room by (auto simp: free_ranges_def)
  note H = same_headerD [OF s'(3)]
  have fr: "free_ranges (count_free s (va_size a) s') = ?fl"
    using s'(4) free_nodes_rep [OF s'(2)] by (simp add: free_ranges_def)
  have b: "unat (m_bytes_used s - va_size a) = live_bytes ?live"
    using D(9) live_bytes_remove1 [OF a] used by (simp add: word_nat)
  have cpos: "0 < m_alloc_count s" using D(10) n by (simp add: word_less_nat_alt)
  then have c: "unat (m_alloc_count s - 1) = length ?live"
    using D(10) n(1) by (simp add: unat_pred word_less_nat_alt)
  have "vram_inv (count_free s (va_size a) s') ?live"
    unfolding vram_inv_def fr
    using s'(2) free_nodes_rep [OF s'(2)] H D(1,2,5,11) sub disj' cover b c cpos n(1)
      disjoint_spans_remove1 [OF D(6)] sound by auto
  with s'(1) fr H show ?thesis by simp
qed

lemma free_refused:
  assumes inv: "vram_inv s live" and notlive: "\<not> live_span a \<subseteq> (\<Union>x \<in> set live. live_span x) \<or> va_size a = 0"
  shows "free s a = Some s"
proof (cases "va_size a = 0 \<or> gpu_va a < m_base s \<or> m_size s < gpu_va a - m_base s \<or>
      m_size s - (gpu_va a - m_base s) < va_size a \<or> m_bytes_used s < va_size a")
  case True
  then show ?thesis by (auto simp: free_def)
next
  case False
  note D = vram_invD [OF inv]
  let ?lo = "unat (gpu_va a)" and ?len = "unat (va_size a)"
  have len: "0 < ?len" using False by (simp add: unat_gt_0)
  have lo: "unat (m_base s) \<le> ?lo" using False by (simp add: word_less_nat_alt)
  have hi: "?lo + ?len \<le> unat (m_base s) + unat (m_size s)"
    using False by (auto simp: word_less_nat_alt not_less unat_sub word_le_nat_alt)
  have "live_span a \<subseteq> vram_arena s" using lo hi by (auto simp: live_span_def vram_arena_def)
  then have "live_span a \<inter> fset_of (free_ranges s) \<noteq> {}" using notlive False D(8) by blast
  then have "{?lo ..< ?lo + ?len} \<inter> fset_of (map (node_rng s) (free_nodes s)) \<noteq> {}"
    by (simp add: live_span_def free_ranges_def)
  then show ?thesis
    using free_step [OF D(3) D(4) [unfolded free_ranges_def] vram_inv_free_arena [OF inv, unfolded free_ranges_def]
        D(1,2) len refl lo hi] False by (simp add: not_less)
qed

section \<open>The contract of a range allocator\<close>

definition vram_reserve :: "VRAMBumpAllocator \<Rightarrow> u64 \<times> u64 \<Rightarrow> (VRAMAllocation \<times> VRAMBumpAllocator) option" where
  "vram_reserve s q = (case alloc s (fst q) (snd q) of
     Some (Some a, s') \<Rightarrow> Some (a, s') | _ \<Rightarrow> None)"

definition vram_release :: "VRAMBumpAllocator \<Rightarrow> VRAMAllocation \<Rightarrow> VRAMBumpAllocator" where
  "vram_release s a = (case free s a of Some s' \<Rightarrow> s' | None \<Rightarrow> s)"

lemma vram_reserve_spec:
  assumes inv: "vram_inv s live" and ok: "vram_reserve s q = Some (a, s')"
  shows "vram_inv s' (a # live)" "vram_arena s' = vram_arena s"
proof -
  have "alloc s (fst q) (snd q) = Some (Some a, s')"
    using ok by (auto simp: vram_reserve_def split: option.splits)
  note a = this
  then have guard: "alloc_guard s (fst q) (snd q)" using alloc_refused by fastforce
  note spec = alloc_spec [OF inv guard]
  have "vram_inv s' (a # live) \<and> vram_arena s' = vram_arena s"
  proof (cases "fl_alloc (unat (eff_alignment (snd q))) (unat (align_up (fst q) (eff_alignment (snd q))))
      (free_ranges s)")
    case None
    with spec a show ?thesis by simp
  next
    case (Some p)
    with spec a show ?thesis by (cases p) auto
  qed
  then show "vram_inv s' (a # live)" "vram_arena s' = vram_arena s" by blast+
qed

interpretation vram: range_allocator vram_inv live_span vram_arena vram_reserve vram_release
proof unfold_locales
  fix s live q r s'
  assume "vram_inv s live" "vram_reserve s q = Some (r, s')"
  then show "vram_inv s' (r # live)" "vram_arena s' = vram_arena s" by (rule vram_reserve_spec)+
next
  fix s live r
  assume "vram_inv s live" "r \<in> set live"
  from free_spec [OF this] obtain s' where "free s r = Some s'" "vram_inv s' (remove1 r live)"
    "vram_arena s' = vram_arena s" by blast
  then show "vram_inv (vram_release s r) (remove1 r live)" "vram_arena (vram_release s r) = vram_arena s"
    by (simp_all add: vram_release_def)
next
  fix s live
  assume "vram_inv s live"
  then show "disjoint_spans live_span live" by (rule vram_invD)
next
  fix s live r
  assume "vram_inv s live" "r \<in> set live"
  then show "live_span r \<subseteq> vram_arena s" by (rule vram_inv_live_arena)
qed

end
