(* ===== verification/Vram_Properties.thy ===== *)
theory Vram_Properties
  imports Vram_Correct
begin

text \<open>
  What the VRAM allocator promises its callers, stated on the code's operations: first-fit
  refinement, completeness, coalescing, the refusal of double frees, disjointness over whole
  sessions, and the accounting queries.
\<close>

section \<open>Canonical free lists\<close>

text \<open>A coalesced list is determined by the addresses it covers.\<close>

lemma fl_wf_head_least:
  assumes "fl_wf lo ((b, l) # fl)"
  shows "b \<in> fset_of ((b, l) # fl)" "x \<in> fset_of ((b, l) # fl) \<Longrightarrow> b \<le> x"
proof -
  have "fl_wf b ((b, l) # fl)" using assms by simp
  then show "x \<in> fset_of ((b, l) # fl) \<Longrightarrow> b \<le> x" by (rule fl_wf_lower)
  show "b \<in> fset_of ((b, l) # fl)" using assms by simp
qed

lemma fl_wf_canonical:
  assumes "fl_wf lo xs" "fl_wf lo' ys" "fset_of xs = fset_of ys"
  shows "xs = ys"
  using assms
proof (induction lo xs arbitrary: lo' ys rule: fl_wf.induct)
  case (1 lo)
  then show ?case by (cases ys) auto
next
  case (2 lo b l fl)
  note wx = 2(2) and wy = 2(3) and eq = 2(4)
  obtain c m ys' where ys: "ys = (c, m) # ys'" using eq wx by (cases ys) auto
  have "c = b"
    using fl_wf_head_least [OF wx] fl_wf_head_least [OF wy [unfolded ys]] eq [unfolded ys] by (metis le_antisym)
  have gx: "b + l \<notin> fset_of ((b, l) # fl)" by (rule fl_wf_gap_end [OF wx]) simp
  have gy: "c + m \<notin> fset_of ((c, m) # ys')" using wy ys by (intro fl_wf_gap_end) auto
  have "l = m"
  proof (rule linorder_cases [of l m])
    assume "l < m"
    then have "b + l \<in> fset_of ((c, m) # ys')" using \<open>c = b\<close> by simp
    with gx eq ys show ?thesis by blast
  next
    assume "m < l"
    then have "c + m \<in> fset_of ((b, l) # fl)" using \<open>c = b\<close> by simp
    with gy eq ys show ?thesis by blast
  qed
  have "fl_wf (Suc (b + l)) fl" "fl_wf (Suc (b + l)) ys'" using wx wy ys \<open>c = b\<close> \<open>l = m\<close> by simp_all
  moreover have "fset_of fl = fset_of ys'"
  proof -
    have "fset_of zs = fset_of ((b, l) # zs) - {b ..< b + l}" if "fl_wf (Suc (b + l)) zs" for zs
      using fl_wf_lower [OF that] by fastforce
    with calculation eq ys \<open>c = b\<close> \<open>l = m\<close> show ?thesis by metis
  qed
  ultimately have "fl = ys'" by (rule 2(1))
  with ys \<open>c = b\<close> \<open>l = m\<close> show ?case by simp
qed

section \<open>A concrete allocator\<close>

text \<open>The device pool of a 1 MB arena at \<open>0x8000000000\<close>, for the witnesses.\<close>

definition demo :: VRAMBumpAllocator where
  "demo = vram_init 0x8000000000 0x100000 None"

lemma demo_inv: "vram_inv demo []"
  unfolding demo_def by (rule vram_init_inv) simp_all

definition demo_block :: VRAMAllocation where
  "demo_block = \<lparr>gpu_va = 0x8000000000, cpu_ptr = None, va_size = 16384, va_alignment = 16384\<rparr>"

definition demo1 :: VRAMBumpAllocator where
  "demo1 = (case alloc demo 5000 0 of Some (_, s) \<Rightarrow> s | None \<Rightarrow> demo)"

lemma demo_alloc: "alloc demo 5000 0 = Some (Some demo_block, demo1)"
proof -
  have "\<exists>s. alloc demo 5000 0 = Some (Some demo_block, s)"
  proof -
    have "map_option fst (alloc demo 5000 0) = Some (Some demo_block)" by code_simp
    then show ?thesis by (cases "alloc demo 5000 0") (auto simp: prod_eq_iff)
  qed
  then show ?thesis by (auto simp: demo1_def)
qed

lemma demo1_inv: "vram_inv demo1 [demo_block]"
proof -
  have "vram_reserve demo (5000, 0) = Some (demo_block, demo1)" by (simp add: vram_reserve_def demo_alloc)
  with demo_inv show ?thesis by (rule vram_reserve_spec)
qed

lemma demo1_header: "m_inited demo1" "m_base demo1 = 0x8000000000" "m_size demo1 = 0x100000"
proof -
  have g: "alloc_guard demo 5000 0" using alloc_refused demo_alloc by fastforce
  have h: "m_inited demo" "m_base demo = 0x8000000000" "m_size demo = 0x100000" by code_simp+
  show "m_inited demo1" "m_base demo1 = 0x8000000000" "m_size demo1 = 0x100000"
    using alloc_spec [OF demo_inv g] h by (auto simp: demo_alloc split: option.splits)
qed

section \<open>Properties\<close>

text \<open>
  C1. \<open>alloc\<close> always returns and is first fit. A request the guards refuse, and one no free range
  fits, returns no block and leaves the allocator exactly as it was, counters and pool included.
  Every other request gets the block the specification \<open>fl_alloc\<close> finds on the free ranges for the
  effective alignment and the rounded size: its address, its size, its alignment and its CPU pointer
  are stated, and so are the free ranges left over and both counters.
\<close>

theorem alloc_refines_first_fit:
  assumes "vram_inv s live"
  shows "case (if alloc_guard s bytes al
               then fl_alloc (unat (eff_alignment al)) (round_up (unat bytes) (unat (eff_alignment al)))
                      (free_ranges s) else None) of
      None \<Rightarrow> alloc s bytes al = Some (None, s)
    | Some (a, fl') \<Rightarrow> \<exists>blk s'. alloc s bytes al = Some (Some blk, s') \<and>
        unat (gpu_va blk) = a \<and>
        unat (va_size blk) = round_up (unat bytes) (unat (eff_alignment al)) \<and>
        va_alignment blk = eff_alignment al \<and>
        cpu_ptr blk = map_option (\<lambda>c. c + (gpu_va blk - m_base s)) (m_cpu_base s) \<and>
        free_ranges s' = fl' \<and> m_bytes_used s' = m_bytes_used s + va_size blk \<and>
        m_alloc_count s' = m_alloc_count s + 1 \<and> m_inited s' = m_inited s \<and>
        m_base s' = m_base s \<and> m_size s' = m_size s \<and> m_cpu_base s' = m_cpu_base s"
proof (cases "alloc_guard s bytes al")
  case True
  note spec = alloc_spec [OF assms True]
  show ?thesis
  proof (cases "fl_alloc (unat (eff_alignment al)) (round_up (unat bytes) (unat (eff_alignment al))) (free_ranges s)")
    case None
    with spec True show ?thesis by (simp add: rounded_facts(1))
  next
    case (Some p)
    obtain a fl' where "p = (a, fl')" by fastforce
    with Some spec True show ?thesis by (auto simp: allocated_def unat_of_nat rounded_facts(1))
  qed
qed (simp add: alloc_refused)

lemma alloc_refines_first_fit_witness:
  "unat (va_size demo_block) = round_up (unat (5000 :: u64)) (unat (eff_alignment 0)) \<and>
    va_alignment demo_block = eff_alignment 0 \<and> m_bytes_used demo1 = m_bytes_used demo + va_size demo_block \<and>
    m_alloc_count demo1 = m_alloc_count demo + 1"
proof -
  let ?q = "if alloc_guard demo 5000 0
      then fl_alloc (unat (eff_alignment 0)) (round_up (unat (5000 :: u64)) (unat (eff_alignment 0)))
             (free_ranges demo) else None"
  note spec = alloc_refines_first_fit [OF demo_inv, of 5000 0]
  show ?thesis
  proof (cases ?q)
    case None
    with spec demo_alloc show ?thesis unfolding None option.case by simp
  next
    case (Some p)
    obtain a fl where p: "p = (a, fl)" by fastforce
    show ?thesis using spec unfolding Some p option.case prod.case demo_alloc by blast
  qed
qed

text \<open>
  C2. A successful \<open>alloc\<close> keeps the invariant with the new allocation live: it overlaps no live
  allocation, lies in the arena, covers the request, and is aligned as asked.
\<close>

theorem alloc_sound:
  assumes "vram_inv s live" "alloc s bytes al = Some (Some a, s')"
  shows "vram_inv s' (a # live) \<and> unat bytes \<le> unat (va_size a) \<and> live_span a \<subseteq> vram_arena s \<and>
    unat (eff_alignment al) dvd unat (gpu_va a) \<and> unat (eff_alignment al) dvd unat (va_size a)"
proof -
  have guard: "alloc_guard s bytes al" using assms(2) alloc_refused by fastforce
  note r = rounded_facts [OF guard] and spec = alloc_spec [OF assms(1) guard]
  obtain x fl' where fl: "fl_alloc (unat (eff_alignment al)) (unat (align_up bytes (eff_alignment al)))
      (free_ranges s) = Some (x, fl')"
    using spec assms(2) by (cases "fl_alloc (unat (eff_alignment al))
      (unat (align_up bytes (eff_alignment al))) (free_ranges s)") auto
  have pos: "0 < unat (eff_alignment al)" "0 < unat (align_up bytes (eff_alignment al))"
    using eff_alignment_ge [of al] r(2) by linarith+
  have a: "a = allocated s x (align_up bytes (eff_alignment al)) (eff_alignment al)"
    and inv: "vram_inv s' (a # live)" "vram_arena s' = vram_arena s" and x: "x < 18446744073709551616"
    using spec fl assms(2) by auto
  have "unat (gpu_va a) = x" using x by (simp add: a allocated_def unat_of_nat)
  then have "unat (eff_alignment al) dvd unat (gpu_va a)"
    using fl_alloc_sound [OF vram_invD(4) [OF assms(1)] fl pos] by simp
  moreover have "unat (eff_alignment al) dvd unat (va_size a)" by (simp add: a allocated_def r(1))
  moreover have "live_span a \<subseteq> vram_arena s" using vram_inv_live_arena [OF inv(1)] inv(2) by simp
  ultimately show ?thesis using inv(1) r(3) by (simp add: a allocated_def)
qed

lemma alloc_sound_witness:
  "vram_inv demo1 [demo_block] \<and> unat (5000 :: u64) \<le> unat (va_size demo_block) \<and>
    live_span demo_block \<subseteq> vram_arena demo \<and>
    unat (eff_alignment 0) dvd unat (gpu_va demo_block) \<and> unat (eff_alignment 0) dvd unat (va_size demo_block)"
  by (rule alloc_sound [OF demo_inv demo_alloc])

text \<open>
  C3. First fit is complete: a request that passes the guards fails only when no aligned block of
  the rounded size is free of live allocations anywhere in the arena. Neither the node pool nor the
  64-bit bound of the address computation ever refuses a block that is there.
\<close>

theorem alloc_complete:
  assumes "vram_inv s live" "alloc_guard s bytes al"
  shows "alloc s bytes al = Some (None, s) \<longleftrightarrow>
    \<not> (\<exists>x. unat (eff_alignment al) dvd x \<and>
        {x ..< x + round_up (unat bytes) (unat (eff_alignment al))} \<subseteq>
          vram_arena s - (\<Union>a \<in> set live. live_span a))"
proof -
  let ?al = "unat (eff_alignment al)" and ?r = "round_up (unat bytes) (unat (eff_alignment al))"
  note r = rounded_facts [OF assms(2)] and D = vram_invD [OF assms(1)]
  note spec = alloc_spec [OF assms, unfolded r(1)]
  have pos: "0 < ?al" "0 < ?r" using eff_alignment_ge [of al] r by linarith+
  have free: "fset_of (free_ranges s) = vram_arena s - (\<Union>a \<in> set live. live_span a)"
    using D(7,8) by blast
  have "alloc s bytes al = Some (None, s) \<longleftrightarrow> fl_alloc ?al ?r (free_ranges s) = None"
    using spec by (cases "fl_alloc ?al ?r (free_ranges s)") auto
  then show ?thesis using fl_alloc_none_iff [OF D(4) pos] free by simp
qed

lemma alloc_complete_witness:
  "alloc demo1 0x100000 0 = Some (None, demo1) \<longleftrightarrow>
    \<not> (\<exists>x. unat (eff_alignment 0) dvd x \<and>
        {x ..< x + round_up (unat (0x100000 :: u64)) (unat (eff_alignment 0))} \<subseteq>
          vram_arena demo1 - (\<Union>a \<in> set [demo_block]. live_span a))"
proof (rule alloc_complete [OF demo1_inv])
  have "m_inited demo1" "unat (m_alloc_count demo1) = 1" using vram_invD [OF demo1_inv] by simp_all
  then show "alloc_guard demo1 0x100000 0"
    by (simp add: alloc_guard_def eff_alignment_def word_less_nat_alt)
qed

text \<open>
  C4. \<open>free\<close> of a live allocation always returns, gives back exactly its range by the coalescing
  specification \<open>fl_free\<close>, and keeps the invariant without it. In particular the node it may need
  is always there.
\<close>

theorem free_refines_coalescing:
  assumes "vram_inv s live" "a \<in> set live"
  shows "\<exists>s'. free s a = Some s' \<and> vram_inv s' (remove1 a live) \<and> vram_arena s' = vram_arena s \<and>
    free_ranges s' = fl_free (unat (gpu_va a)) (unat (va_size a)) (free_ranges s)"
  using assms by (rule free_spec)

lemma free_refines_coalescing_witness:
  "\<exists>s'. free demo1 demo_block = Some s' \<and> vram_inv s' (remove1 demo_block [demo_block]) \<and>
    vram_arena s' = vram_arena demo1 \<and>
    free_ranges s' = fl_free (unat (gpu_va demo_block)) (unat (va_size demo_block)) (free_ranges demo1)"
  by (rule free_refines_coalescing [OF demo1_inv]) simp

text \<open>
  C5. A range that is not entirely allocated (a double free, a range outside the arena, a range that
  reaches into free space, a range whose end wraps past 64 bits, an empty one) is not given back:
  \<open>free\<close> returns the allocator unchanged.
\<close>

theorem free_of_unallocated_unchanged:
  assumes "vram_inv s live"
    "\<not> live_span a \<subseteq> (\<Union>x \<in> set live. live_span x) \<or> va_size a = 0"
  shows "free s a = Some s"
  using assms by (rule free_refused)

lemma free_of_unallocated_unchanged_witness: "free demo demo_block = Some demo"
proof (rule free_of_unallocated_unchanged [OF demo_inv])
  show "\<not> live_span demo_block \<subseteq> (\<Union>x \<in> set []. live_span x) \<or> va_size demo_block = 0"
    by (simp add: live_span_def demo_block_def)
qed

text \<open>
  C6. Allocating and freeing again restores the free list range by range, and both counters.
\<close>

theorem alloc_free_round_trip:
  assumes "vram_inv s live" "alloc s bytes al = Some (Some a, s')"
  shows "\<exists>t. free s' a = Some t \<and> free_ranges t = free_ranges s \<and>
    m_bytes_used t = m_bytes_used s \<and> m_alloc_count t = m_alloc_count s"
proof -
  have guard: "alloc_guard s bytes al" using assms(2) alloc_refused by fastforce
  have "vram_reserve s (bytes, al) = Some (a, s')" by (simp add: vram_reserve_def assms(2))
  note inv = vram_reserve_spec [OF assms(1) this]
  obtain t where t: "free s' a = Some t" "vram_inv t live" "vram_arena t = vram_arena s"
    using free_spec [OF inv(1), of a] inv(2) by auto
  have "fset_of (free_ranges t) = fset_of (free_ranges s)"
    using vram_invD(7,8) [OF t(2)] vram_invD(7,8) [OF assms(1)] t(3) by blast
  then have "free_ranges t = free_ranges s"
    using fl_wf_canonical [OF vram_invD(4) [OF t(2)] vram_invD(4) [OF assms(1)]] by simp
  moreover have "m_bytes_used t = m_bytes_used s" "m_alloc_count t = m_alloc_count s"
    using vram_invD(9,10) [OF t(2)] vram_invD(9,10) [OF assms(1)] by (simp_all add: unat_eq_word [symmetric])
  ultimately show ?thesis using t(1) by blast
qed

lemma alloc_free_round_trip_witness:
  "\<exists>t. free demo1 demo_block = Some t \<and> free_ranges t = free_ranges demo \<and>
    m_bytes_used t = m_bytes_used demo \<and> m_alloc_count t = m_alloc_count demo"
  by (rule alloc_free_round_trip [OF demo_inv demo_alloc])

text \<open>
  C7. Over any sequence of allocations and releases from \<open>init\<close>, live allocations never overlap and
  stay in the arena, and when the last one has been released the arena is one free range again: the
  allocator leaks nothing and does not stay fragmented.
\<close>

theorem vram_session_sound:
  assumes "0 < sz" "unat base + unat sz < 18446744073709551616"
    "session vram_reserve vram_release (vram_init base sz cpu, []) cs = (s, live)"
  shows "disjoint_spans live_span live \<and>
    (\<forall>a \<in> set live. live_span a \<subseteq> {unat base ..< unat base + unat sz}) \<and>
    (live = [] \<longrightarrow> free_ranges s = [(unat base, unat sz)] \<and> m_bytes_used s = 0)"
proof -
  let ?s0 = "vram_init base sz cpu"
  have arena0: "vram_arena ?s0 = {unat base ..< unat base + unat sz}"
    by (simp add: vram_arena_def vram_init_def Let_def pool_take_def)
  note inv = vram.session_inv [OF vram_init_inv [OF assms(1,2)] assms(3)]
  have pos: "0 < unat sz" using assms(1) by (simp add: unat_gt_0 word_neq_0_conv)
  have "free_ranges s = [(unat base, unat sz)] \<and> m_bytes_used s = 0" if "live = []"
  proof
    have i: "vram_inv s []" using inv that by simp
    have "fset_of (free_ranges s) = fset_of [(unat base, unat sz)]"
      using vram_invD(8) [OF i] inv arena0 by simp
    moreover have "fl_wf 0 [(unat base, unat sz)]" using pos by simp
    ultimately show "free_ranges s = [(unat base, unat sz)]"
      using fl_wf_canonical [OF vram_invD(4) [OF i]] by blast
    show "m_bytes_used s = 0" using vram_invD(9) [OF i] by (simp add: live_bytes_def unat_eq_zero)
  qed
  moreover have "\<forall>a \<in> set live. live_span a \<subseteq> {unat base ..< unat base + unat sz}"
    using inv arena0 vram_inv_live_arena [of s live] by simp
  ultimately show ?thesis using inv vram_invD(6) [of s live] by simp
qed

lemma vram_session_sound_witness:
  "\<exists>s live. disjoint_spans live_span live \<and>
    (\<forall>a \<in> set live. live_span a \<subseteq> {unat (0x8000000000 :: u64) ..< unat (0x8000000000 :: u64) + unat (0x100000 :: u64)}) \<and>
    (live = [] \<longrightarrow> free_ranges s = [(unat (0x8000000000 :: u64), unat (0x100000 :: u64))] \<and> m_bytes_used s = 0)"
proof -
  obtain s live where run: "session vram_reserve vram_release (vram_init 0x8000000000 0x100000 None, [])
      [Reserve (5000, 0), Reserve (70000, 65536), Release 1, Release 0] = (s, live)" by fastforce
  show ?thesis by (intro exI) (rule vram_session_sound [OF _ _ run]; simp)
qed

section \<open>Accounting queries\<close>

lemma span_walk_spec:
  assumes "lseg (m_pool s) h ns kInvalid"
  shows "span_walk s m h = Some (foldl (\<lambda>m i. max m (fn_length (m_pool s i))) m ns)"
  using assms
proof (induction ns arbitrary: h m)
  case Nil
  then show ?case by (simp add: span_walk.simps)
next
  case (Cons i ns)
  then have "h = i" "i \<noteq> kInvalid" by (auto dest: below_not_kInvalid)
  moreover have "(if m < x then x else m) = max m x" for x :: u64 by (auto simp: max_def)
  ultimately show ?case using Cons by (subst span_walk.simps) simp
qed

lemma foldl_max_Max:
  "unat (foldl (\<lambda>m i. max m (f i)) (m :: u64) ns) = Max (insert (unat m) (set (map (\<lambda>i. unat (f i)) ns)))"
proof (induction ns arbitrary: m)
  case (Cons i ns)
  have "unat (max m (f i)) = max (unat m) (unat (f i))" by (simp add: max_def word_le_nat_alt)
  then show ?case unfolding foldl_Cons Cons.IH
    by (cases "ns = []") (simp_all add: Max_insert max.assoc)
qed simp

lemma vram_bytes_free:
  assumes "vram_inv s live"
  shows "unat (bytes_free s) = card (fset_of (free_ranges s))"
proof -
  note D = vram_invD [OF assms]
  let ?L = "\<Union>a \<in> set live. live_span a"
  have le: "live_bytes live \<le> unat (m_size s)"
    using live_bytes_le_arena [OF D(6)] vram_inv_live_arena [OF assms] by blast
  have "finite ?L" by (simp add: live_span_def)
  moreover have "?L \<subseteq> vram_arena s" "fset_of (free_ranges s) = vram_arena s - ?L" using D(7,8) by blast+
  ultimately have "card (fset_of (free_ranges s)) = card (vram_arena s) - card ?L"
    by (simp add: card_Diff_subset)
  then show ?thesis
    using live_bytes_card [OF D(6)] D(9) le by (simp add: bytes_free_def vram_arena_def word_nat word_le_nat_alt)
qed

text \<open>
  C8. The accounting queries are exact: \<open>bytes_free\<close> is the number of addresses no live allocation
  covers, and \<open>largest_free_span\<close> (whose walk always ends) is the longest free range.
\<close>

theorem vram_queries_exact:
  assumes "vram_inv s live"
  shows "unat (bytes_free s) = card (vram_arena s - (\<Union>a \<in> set live. live_span a)) \<and>
    (\<exists>m. largest_free_span s = Some m \<and> unat m = Max (insert 0 (set (map snd (free_ranges s)))))"
proof -
  note D = vram_invD [OF assms]
  have "fset_of (free_ranges s) = vram_arena s - (\<Union>a \<in> set live. live_span a)" using D(7,8) by blast
  moreover have "largest_free_span s =
      Some (foldl (\<lambda>m i. max m (fn_length (m_pool s i))) 0 (free_nodes s))"
    using span_walk_spec [OF vram_repD(1) [OF D(3)]] D(1) by (simp add: largest_free_span_def)
  ultimately show ?thesis
    using vram_bytes_free [OF assms]
    by (simp add: foldl_max_Max free_ranges_def node_rng_def image_image)
qed

lemma vram_queries_exact_witness:
  "unat (bytes_free demo1) = card (vram_arena demo1 - (\<Union>a \<in> set [demo_block]. live_span a)) \<and>
    (\<exists>m. largest_free_span demo1 = Some m \<and> unat m = Max (insert 0 (set (map snd (free_ranges demo1)))))"
  by (rule vram_queries_exact [OF demo1_inv])

end
