(* ===== verification/Vram_Accounting.thy ===== *)
theory Vram_Accounting
  imports Vram_Properties
begin

text \<open>
  \<^verbatim>\<open>dext/amdgpu/amdgpu_vram_accounting.h\<close>: the memory snapshot the driver hands to its clients,
  its validity test, and the proof that the snapshot of two pools in the allocator's invariant is
  exact.
\<close>

section \<open>The snapshot\<close>

text \<open>The enumeration \<open>Field\<close>: the indices of the fifteen scalars.\<close>

definition Version :: nat where "Version = 0"
definition Flags :: nat where "Flags = 1"
definition UsableBytes :: nat where "UsableBytes = 2"
definition VisibleBytes :: nat where "VisibleBytes = 3"
definition ExcludedBytes :: nat where "ExcludedBytes = 4"
definition VisibleCapacity :: nat where "VisibleCapacity = 5"
definition DeviceCapacity :: nat where "DeviceCapacity = 10"
definition FieldCount :: nat where "FieldCount = 15"

lemmas field_index = Version_def Flags_def UsableBytes_def VisibleBytes_def ExcludedBytes_def
  VisibleCapacity_def DeviceCapacity_def FieldCount_def

type_synonym Snapshot = "nat \<Rightarrow> u64"

definition pool_valid :: "Snapshot \<Rightarrow> nat \<Rightarrow> bool" where
  "pool_valid v i \<longleftrightarrow> \<not> (v i < v (i + 1) \<or> v (i + 2) \<noteq> v i - v (i + 1) \<or> v (i + 2) < v (i + 3) \<or>
     v (i + 1) div 16384 < v (i + 4))"

definition snapshot_valid :: "Snapshot \<Rightarrow> bool" where
  "snapshot_valid v \<longleftrightarrow>
     (if v Version \<noteq> 1 \<or> v Flags AND NOT 1 \<noteq> 0 then False
      else if v Flags AND 1 = 0 then list_all (\<lambda>i. v i = 0) [UsableBytes ..< FieldCount]
      else if v UsableBytes = 0 \<or> v VisibleBytes = 0 \<or> v UsableBytes < v VisibleBytes \<or>
              v VisibleBytes < v VisibleCapacity \<or> v UsableBytes - v VisibleBytes < v DeviceCapacity then False
      else if \<not> pool_valid v VisibleCapacity \<or> \<not> pool_valid v DeviceCapacity then False
      else v ExcludedBytes = v UsableBytes - v VisibleCapacity - v DeviceCapacity)"

text \<open>The five scalars of one pool from index \<open>i\<close> on.\<close>

definition put_pool :: "nat \<Rightarrow> VRAMBumpAllocator \<Rightarrow> Snapshot \<Rightarrow> Snapshot option" where
  "put_pool i pool v =
     (case largest_free_span pool of
        None \<Rightarrow> None
      | Some largest \<Rightarrow> Some (v(i := m_size pool, i + 1 := m_bytes_used pool, i + 2 := bytes_free pool,
            i + 3 := largest, i + 4 := ucast (m_alloc_count pool))))"

definition empty_snapshot :: Snapshot where
  "empty_snapshot = (\<lambda>_. 0)(Version := 1)"

definition snapshot ::
  "bool \<Rightarrow> u64 \<Rightarrow> u64 \<Rightarrow> u64 \<Rightarrow> VRAMBumpAllocator \<Rightarrow> VRAMBumpAllocator \<Rightarrow> Snapshot option"
where
  "snapshot ready base usable visible low high =
     (if \<not> ready \<or> usable = 0 \<or> visible = 0 \<or> usable < visible \<or> 0xFFFFFFFFFFFFFFFF - usable < base \<or>
         \<not> m_inited low \<or> m_base low < base \<or> visible < m_base low - base \<or>
         visible - (m_base low - base) < m_size low then Some empty_snapshot
      else if m_size high \<noteq> 0 \<and> (\<not> m_inited high \<or> m_base high < base + visible \<or>
         usable < m_base high - base \<or> usable - (m_base high - base) < m_size high) then Some empty_snapshot
      else (case put_pool VisibleCapacity low (empty_snapshot(Flags := 1, UsableBytes := usable,
               VisibleBytes := visible, ExcludedBytes := usable - m_size low - m_size high)) of
              None \<Rightarrow> None
            | Some v \<Rightarrow>
                (case put_pool DeviceCapacity high v of
                   None \<Rightarrow> None
                 | Some v \<Rightarrow> Some (if \<not> snapshot_valid v then empty_snapshot else v))))"

section \<open>The pools\<close>

text \<open>A pool the driver uses: in the allocator's invariant, or never initialised because it is empty.\<close>

definition pool_ok :: "VRAMBumpAllocator \<Rightarrow> VRAMAllocation list \<Rightarrow> bool" where
  "pool_ok p live \<longleftrightarrow> vram_inv p live \<or>
     (\<not> m_inited p \<and> m_size p = 0 \<and> m_bytes_used p = 0 \<and> m_alloc_count p = 0 \<and> live = [])"

lemma live_bytes_ge: "(\<And>a. a \<in> set live \<Longrightarrow> 16384 \<le> unat (va_size a)) \<Longrightarrow> 16384 * length live \<le> live_bytes live"
proof (induction live)
  case (Cons a live)
  then have "16384 * length live \<le> live_bytes live" "16384 \<le> unat (va_size a)" by simp_all
  then show ?case by (simp add: live_bytes_def)
qed (simp add: live_bytes_def)

lemma range_le_free: "(x, n) \<in> set rs \<Longrightarrow> n \<le> card (fset_of rs)"
proof -
  assume "(x, n) \<in> set rs"
  then have "{x ..< x + n} \<subseteq> fset_of rs" by (auto simp: fset_of_def)
  moreover have "finite (fset_of rs)" by (auto simp: fset_of_def)
  ultimately have "card {x ..< x + n} \<le> card (fset_of rs)" by (rule card_mono [rotated])
  then show ?thesis by simp
qed

text \<open>What the queries of a pool answer; the span is at most the free bytes.\<close>

lemma pool_queries:
  assumes "pool_ok p live"
  shows "\<exists>l. largest_free_span p = Some l \<and> unat l \<le> unat (bytes_free p) \<and>
      (vram_inv p live \<longrightarrow> unat l = Max (insert 0 (set (map snd (free_ranges p)))))"
    "unat (m_bytes_used p) = live_bytes live" "unat (m_alloc_count p) = length live"
    "m_bytes_used p \<le> m_size p" "16384 * length live \<le> unat (m_bytes_used p)"
proof -
  have "(\<exists>l. largest_free_span p = Some l \<and> unat l \<le> unat (bytes_free p) \<and>
      (vram_inv p live \<longrightarrow> unat l = Max (insert 0 (set (map snd (free_ranges p)))))) \<and>
    unat (m_bytes_used p) = live_bytes live \<and> unat (m_alloc_count p) = length live \<and>
    m_bytes_used p \<le> m_size p \<and> 16384 * length live \<le> unat (m_bytes_used p)"
  proof (cases "vram_inv p live")
    case False
    then have "\<not> m_inited p" "m_size p = 0" "m_bytes_used p = 0" "m_alloc_count p = 0" "live = []"
      using assms by (auto simp: pool_ok_def)
    then show ?thesis using False by (simp add: largest_free_span_def live_bytes_def)
  next
    case inv: True
    note D = vram_invD [OF inv]
    let ?m = "foldl (\<lambda>m i. max m (fn_length (m_pool p i))) 0 (free_nodes p)"
    have "largest_free_span p = Some ?m"
      using span_walk_spec [OF vram_repD(1) [OF D(3)]] D(1) by (simp add: largest_free_span_def)
    moreover have m: "unat ?m = Max (insert 0 (set (map snd (free_ranges p))))"
      by (simp add: foldl_max_Max free_ranges_def node_rng_def image_image)
    moreover have "unat ?m \<le> unat (bytes_free p)"
      unfolding m vram_bytes_free [OF inv] by (rule Max.boundedI) (auto intro: range_le_free)
    moreover have "live_bytes live \<le> unat (m_size p)"
      using live_bytes_le_arena [OF D(6)] vram_inv_live_arena [OF inv] by blast
    moreover have "16384 * length live \<le> live_bytes live" using D(5) by (rule live_bytes_ge)
    ultimately show ?thesis using D(9,10) by (simp add: word_le_nat_alt)
  qed
  then show "\<exists>l. largest_free_span p = Some l \<and> unat l \<le> unat (bytes_free p) \<and>
      (vram_inv p live \<longrightarrow> unat l = Max (insert 0 (set (map snd (free_ranges p)))))"
    "unat (m_bytes_used p) = live_bytes live" "unat (m_alloc_count p) = length live"
    "m_bytes_used p \<le> m_size p" "16384 * length live \<le> unat (m_bytes_used p)" by blast+
qed

lemma pool_values_valid:
  assumes ok: "pool_ok p live" and v: "v i = m_size p" "v (i + 1) = m_bytes_used p" "v (i + 2) = bytes_free p"
      "largest_free_span p = Some (v (i + 3))" "v (i + 4) = ucast (m_alloc_count p)"
  shows "pool_valid v i"
proof -
  note Q = pool_queries [OF ok]
  have "v (i + 3) \<le> bytes_free p" using Q(1) v(4) by (simp add: word_le_nat_alt)
  moreover have "ucast (m_alloc_count p) \<le> m_bytes_used p div 16384"
  proof -
    have "length live \<le> unat (m_bytes_used p) div 16384" using Q(5) by linarith
    then show ?thesis using Q(3) by (simp add: word_le_nat_alt unat_widen unat_div)
  qed
  ultimately show ?thesis using Q(4) unfolding pool_valid_def v(1,2,3,5) bytes_free_def by (simp add: not_less)
qed

section \<open>Exactness\<close>

definition geometry :: "u64 \<Rightarrow> u64 \<Rightarrow> u64 \<Rightarrow> VRAMBumpAllocator \<Rightarrow> VRAMBumpAllocator \<Rightarrow> bool" where
  "geometry base usable visible low high \<longleftrightarrow> 0 < unat visible \<and> unat visible \<le> unat usable \<and>
     unat base + unat usable < 2 ^ 64 \<and> m_inited low \<and> unat base \<le> unat (m_base low) \<and>
     unat (m_base low) + unat (m_size low) \<le> unat base + unat visible \<and>
     (m_size high \<noteq> 0 \<longrightarrow> m_inited high \<and> unat base + unat visible \<le> unat (m_base high) \<and>
        unat (m_base high) + unat (m_size high) \<le> unat base + unat usable)"

text \<open>\<^verbatim>\<open>x - lo <= w && n <= w - (x - lo)\<close> is containment of \<open>x, n\<close> in the \<open>w\<close> bytes from \<open>lo\<close>.\<close>

lemma inside_nat:
  assumes "lo \<le> x"
  shows "\<not> (w < x - lo \<or> w - (x - lo) < n) \<longleftrightarrow> unat x + unat n \<le> unat lo + unat (w :: u64)"
proof -
  have d: "unat (x - lo) = unat x - unat lo" "unat lo \<le> unat x" using assms by (simp_all add: unat_sub word_le_nat_alt)
  have "\<not> (w < x - lo \<or> w - (x - lo) < n) \<longleftrightarrow> x - lo \<le> w \<and> n \<le> w - (x - lo)" by (simp add: not_less)
  also have "\<dots> \<longleftrightarrow> unat (x - lo) \<le> unat w \<and> unat n \<le> unat w - unat (x - lo)"
    by (auto simp: word_le_nat_alt unat_sub)
  also have "\<dots> \<longleftrightarrow> unat x + unat n \<le> unat lo + unat w" using d by auto
  finally show ?thesis .
qed

lemma geometry_guards:
  "geometry base usable visible low high \<longleftrightarrow>
     \<not> (usable = 0 \<or> visible = 0 \<or> usable < visible \<or> 0xFFFFFFFFFFFFFFFF - usable < base \<or>
        \<not> m_inited low \<or> m_base low < base \<or> visible < m_base low - base \<or>
        visible - (m_base low - base) < m_size low) \<and>
     \<not> (m_size high \<noteq> 0 \<and> (\<not> m_inited high \<or> m_base high < base + visible \<or>
         usable < m_base high - base \<or> usable - (m_base high - base) < m_size high))"
    (is "?g \<longleftrightarrow> \<not> ?a \<and> \<not> ?b")
proof (cases "visible \<noteq> 0 \<and> visible \<le> usable \<and> base \<le> 0xFFFFFFFFFFFFFFFF - usable \<and> base \<le> m_base low")
  case False
  have "?a" using False by (auto simp: not_le)
  moreover have "\<not> ?g"
  proof
    assume g: ?g
    have "visible \<noteq> 0" "visible \<le> usable" "base \<le> m_base low"
      using g by (auto simp: geometry_def word_le_nat_alt)
    moreover have "base \<le> 0xFFFFFFFFFFFFFFFF - usable"
      using g add_guard64_max [of base usable] by (simp add: geometry_def)
    ultimately show False using False by blast
  qed
  ultimately show ?thesis by blast
next
  case True
  then have b: "unat base + unat usable < 2 ^ 64" "unat visible \<le> unat usable"
    using add_guard64_max [of base usable] by (simp, simp add: word_le_nat_alt)
  then have bv: "unat (base + visible) = unat base + unat visible" by (intro unat_add64) linarith
  have "\<not> ?a \<longleftrightarrow> m_inited low \<and> unat (m_base low) + unat (m_size low) \<le> unat base + unat visible"
    using True inside_nat [of base "m_base low" visible "m_size low"] by (auto simp: not_less not_le)
  moreover have "\<not> ?b \<longleftrightarrow> (m_size high \<noteq> 0 \<longrightarrow> m_inited high \<and> unat base + unat visible \<le> unat (m_base high) \<and>
        unat (m_base high) + unat (m_size high) \<le> unat base + unat usable)"
  proof (cases "base + visible \<le> m_base high")
    case h: True
    then have "base \<le> m_base high" using bv by (simp add: word_le_nat_alt)
    from inside_nat [OF this, of usable "m_size high"] h bv show ?thesis by (auto simp: not_less word_le_nat_alt)
  next
    case False
    then show ?thesis using bv by (auto simp: word_le_nat_alt not_le word_less_nat_alt)
  qed
  moreover have "0 < unat visible" "unat base \<le> unat (m_base low)" using True by (simp_all add: unat_gt_0 word_le_nat_alt)
  ultimately show ?thesis using b by (auto simp: geometry_def)
qed

text \<open>
  C24. The snapshot of two pools in use always returns and always passes its own validity test. It is
  marked valid exactly when the driver is ready and the pools lie in their parts of VRAM, and then
  every one of its 15 scalars is exact: the version, the flag, the usable and the visible bytes as given,
  the size of each pool, its bytes used, free and allocations, which are those of its live allocations,
  its largest free block, and the excluded bytes, which are the rest of the usable memory. Otherwise
  only the version is set.
\<close>

theorem snapshot_exact:
  assumes "pool_ok low la" "pool_ok high lb"
  shows "\<exists>v. snapshot ready base usable visible low high = Some v \<and> snapshot_valid v \<and>
    (if ready \<and> geometry base usable visible low high
     then v Version = 1 \<and> v Flags = 1 \<and> v UsableBytes = usable \<and> v VisibleBytes = visible \<and>
       v 5 = m_size low \<and> v 10 = m_size high \<and> unat (v 6) = live_bytes la \<and> unat (v 7) = unat (m_size low) - live_bytes la \<and>
       unat (v 9) = length la \<and> largest_free_span low = Some (v 8) \<and>
       unat (v 11) = live_bytes lb \<and> unat (v 12) = unat (m_size high) - live_bytes lb \<and>
       unat (v 14) = length lb \<and> largest_free_span high = Some (v 13) \<and>
       unat (v ExcludedBytes) + unat (m_size low) + unat (m_size high) = unat usable
     else \<forall>i < 15. v i = (if i = Version then 1 else 0))"
proof (cases "ready \<and> geometry base usable visible low high")
  case False
  then have "snapshot ready base usable visible low high = Some empty_snapshot"
    unfolding geometry_guards by (auto simp: snapshot_def)
  moreover have "snapshot_valid empty_snapshot"
    by (simp add: snapshot_valid_def empty_snapshot_def field_index upt_rec)
  moreover have "\<forall>i < 15. empty_snapshot i = (if i = Version then 1 else 0)"
    by (simp add: empty_snapshot_def field_index)
  ultimately show ?thesis using False by auto
next
  case True
  then have ready: ready and g: "geometry base usable visible low high" by simp_all
  obtain x where x: "largest_free_span low = Some x" using pool_queries(1) [OF assms(1)] by blast
  obtain y where y: "largest_free_span high = Some y" using pool_queries(1) [OF assms(2)] by blast
  note A = pool_queries(2-4) [OF assms(1)]
  note B = pool_queries(2-4) [OF assms(2)]
  define v where "v = (empty_snapshot(Flags := 1, UsableBytes := usable, VisibleBytes := visible,
       ExcludedBytes := usable - m_size low - m_size high))
     (5 := m_size low, 6 := m_bytes_used low, 7 := bytes_free low, 8 := x, 9 := ucast (m_alloc_count low),
      10 := m_size high, 11 := m_bytes_used high, 12 := bytes_free high, 13 := y, 14 := ucast (m_alloc_count high))"
  from g [unfolded geometry_guards]
  have G0: "\<not> (usable = 0 \<or> visible = 0 \<or> usable < visible \<or> 0xFFFFFFFFFFFFFFFF - usable < base \<or>
        \<not> m_inited low \<or> m_base low < base \<or> visible < m_base low - base \<or>
        visible - (m_base low - base) < m_size low)"
    and G1: "\<not> (m_size high \<noteq> 0 \<and> (\<not> m_inited high \<or> m_base high < base + visible \<or>
         usable < m_base high - base \<or> usable - (m_base high - base) < m_size high))" by blast+
  have run: "snapshot ready base usable visible low high = Some (if \<not> snapshot_valid v then empty_snapshot else v)"
    unfolding snapshot_def
    by (simp only: ready G0 G1 simp_thms if_False) (simp add: put_pool_def x y v_def field_index)
  have vals: "v 0 = 1" "v 1 = 1" "v 2 = usable" "v 3 = visible" "v 4 = usable - m_size low - m_size high"
    "v 5 = m_size low" "v 6 = m_bytes_used low" "v 7 = bytes_free low" "v 8 = x" "v 9 = ucast (m_alloc_count low)"
    "v 10 = m_size high" "v 11 = m_bytes_used high" "v 12 = bytes_free high" "v 13 = y" "v 14 = ucast (m_alloc_count high)"
    by (simp_all add: v_def empty_snapshot_def field_index)
  have G: "0 < unat visible" "unat visible \<le> unat usable" "unat (m_size low) \<le> unat visible"
    "unat (m_size high) \<le> unat usable - unat visible"
    using g by (auto simp: geometry_def)
  have sizes: "\<not> visible < m_size low" "\<not> usable - visible < m_size high" "usable \<noteq> 0" "visible \<noteq> 0" "\<not> usable < visible"
    using G by (auto simp: word_less_nat_alt unat_sub word_le_nat_alt)
  have "pool_valid v 5" by (rule pool_values_valid [OF assms(1)]) (simp_all add: vals x)
  moreover have "pool_valid v 10" by (rule pool_values_valid [OF assms(2)]) (simp_all add: vals y)
  moreover have one: "v (Suc 0) = 1" using vals(2) by simp
  ultimately have "snapshot_valid v" using sizes by (simp add: snapshot_valid_def field_index vals)
  moreover have "m_size low \<le> usable" "m_size high \<le> usable - m_size low"
    using G by (simp_all add: word_le_nat_alt unat_sub)
  then have "unat (usable - m_size low - m_size high) + unat (m_size low) + unat (m_size high) = unat usable"
    using G by (simp add: unat_sub)
  ultimately show ?thesis using run True A B
    by (simp add: vals one x y bytes_free_def unat_sub unat_widen field_index)
qed

lemma snapshot_exact_witness:
  "\<exists>v. snapshot True 0x8000000000 0x400000 0x200000 demo1 vram_new = Some v \<and> snapshot_valid v \<and>
    v VisibleBytes = 0x200000 \<and> unat (v 9) = 1"
proof -
  have "pool_ok demo1 [demo_block]" "pool_ok vram_new []"
    using demo1_inv by (simp_all add: pool_ok_def vram_new_def)
  note spec = snapshot_exact [OF this, of True "0x8000000000" "0x400000" "0x200000"]
  have "geometry 0x8000000000 0x400000 0x200000 demo1 vram_new"
    by (simp add: geometry_def demo1_header vram_new_def)
  with spec show ?thesis by (auto simp: field_index)
qed

end
