(* ===== verification/Gart_Aperture.thy ===== *)
theory Gart_Aperture
  imports Range_Contract "HOL-Library.Multiset"
begin

text \<open>
  \<^verbatim>\<open>dext/amdgpu/amdgpu_gart_allocator.h\<close>: \<open>GARTApertureAllocator\<close>, an unsorted array of 128
  reservations of GPU address space. A reservation is found by a bounded number of passes over
  the array, and is given back by its session-unique id together with its exact range.
\<close>

section \<open>State and operations\<close>

record GARTReservation =
  gr_offset :: u64
  gr_size :: u64
  gr_id :: u64

record GARTApertureAllocator =
  ga_records :: "GARTReservation list" \<comment> \<open>the array \<open>records[capacity]\<close>\<close>
  ga_base :: u64
  ga_size :: u64
  ga_lastID :: u64
  ga_initialized :: bool

definition gart_capacity :: nat where "gart_capacity = 128"

definition gart_empty_record :: GARTReservation where
  "gart_empty_record = \<lparr>gr_offset = 0, gr_size = 0, gr_id = 0\<rparr>"

definition gart_new :: GARTApertureAllocator where
  "gart_new = \<lparr>ga_records = replicate gart_capacity gart_empty_record, ga_base = 0, ga_size = 0,
               ga_lastID = 0, ga_initialized = False\<rparr>"

definition gart_alloc_init ::
  "GARTApertureAllocator \<Rightarrow> u64 \<Rightarrow> u64 \<Rightarrow> bool \<times> GARTApertureAllocator"
where
  "gart_alloc_init a apertureBase apertureSize =
     (if apertureSize = 0 \<or> apertureBase AND 4095 \<noteq> 0 \<or> apertureSize AND 4095 \<noteq> 0 \<or>
         0xFFFFFFFFFFFFFFFF - apertureSize < apertureBase then (False, a)
      else if ga_initialized a then (ga_base a = apertureBase \<and> ga_size a = apertureSize, a)
      else (True, a\<lparr>ga_base := apertureBase, ga_size := apertureSize, ga_initialized := True\<rparr>))"

text \<open>The first record without an id.\<close>

fun gart_slot :: "nat \<Rightarrow> GARTReservation list \<Rightarrow> nat option" where
  "gart_slot i [] = None"
| "gart_slot i (r # rs) = (if gr_id r = 0 then Some i else gart_slot (Suc i) rs)"

text \<open>One pass: the highest end of the records that the candidate collides with.\<close>

definition gart_next :: "GARTReservation list \<Rightarrow> u64 \<Rightarrow> u64 \<Rightarrow> u64" where
  "gart_next rs candidate bytes =
     foldl (\<lambda>next r. if gr_id r \<noteq> 0 \<and> candidate < gr_offset r + gr_size r \<and>
                        gr_offset r < candidate + bytes \<and> next < gr_offset r + gr_size r
                     then gr_offset r + gr_size r else next) candidate rs"

text \<open>The passes, \<open>n\<close> of them left; running out is the \<^verbatim>\<open>return false\<close> after the loop.\<close>

fun gart_passes :: "GARTApertureAllocator \<Rightarrow> u64 \<Rightarrow> u64 \<Rightarrow> nat \<Rightarrow> u64 \<Rightarrow> u64 option" where
  "gart_passes a bytes alignment 0 candidate = None"
| "gart_passes a bytes alignment (Suc n) candidate =
     (let address = ga_base a + candidate
      in if 0xFFFFFFFFFFFFFFFF - (alignment - 1) < address then None
      else let candidate = align_up address alignment - ga_base a
        in if ga_size a < candidate \<or> ga_size a - candidate < bytes then None
        else let next = gart_next (ga_records a) candidate bytes
          in if next = candidate then Some candidate else gart_passes a bytes alignment n next)"

definition gart_find :: "GARTApertureAllocator \<Rightarrow> u64 \<Rightarrow> u64 \<Rightarrow> (u64 \<times> nat) option" where
  "gart_find a bytes alignment =
     (if \<not> ga_initialized a \<or> bytes = 0 \<or> bytes AND 4095 \<noteq> 0 \<or> alignment < 4096 \<or>
         alignment AND (alignment - 1) \<noteq> 0 \<or> ga_size a < bytes \<or> ga_lastID a = 0xFFFFFFFFFFFFFFFF
      then None
      else (case gart_slot 0 (ga_records a) of
              None \<Rightarrow> None
            | Some slot \<Rightarrow>
                (case gart_passes a bytes alignment (Suc gart_capacity) 0 of
                   None \<Rightarrow> None | Some offset \<Rightarrow> Some (offset, slot))))"

definition gart_reserve ::
  "GARTApertureAllocator \<Rightarrow> u64 \<times> u64 \<Rightarrow> (GARTReservation \<times> GARTApertureAllocator) option"
where
  "gart_reserve a q =
     (case gart_find a (fst q) (snd q) of
        None \<Rightarrow> None
      | Some (offset, slot) \<Rightarrow>
          let out = \<lparr>gr_offset = offset, gr_size = fst q, gr_id = ga_lastID a + 1\<rparr>
          in Some (out, a\<lparr>ga_records := (ga_records a)[slot := out], ga_lastID := ga_lastID a + 1\<rparr>))"

definition gart_matches :: "u64 \<Rightarrow> u64 \<Rightarrow> u64 \<Rightarrow> GARTReservation \<Rightarrow> bool" where
  "gart_matches i offset bytes r \<longleftrightarrow> gr_id r = i \<and> gr_offset r = offset \<and> gr_size r = bytes"

definition gart_owns :: "GARTApertureAllocator \<Rightarrow> u64 \<Rightarrow> u64 \<Rightarrow> u64 \<Rightarrow> bool" where
  "gart_owns a i offset bytes \<longleftrightarrow>
     i \<noteq> 0 \<and> ga_initialized a \<and> list_ex (gart_matches i offset bytes) (ga_records a)"

fun gart_clear :: "u64 \<Rightarrow> u64 \<Rightarrow> u64 \<Rightarrow> GARTReservation list \<Rightarrow> GARTReservation list option" where
  "gart_clear i offset bytes [] = None"
| "gart_clear i offset bytes (r # rs) =
     (if gart_matches i offset bytes r then Some (gart_empty_record # rs)
      else map_option (Cons r) (gart_clear i offset bytes rs))"

definition gart_release ::
  "GARTApertureAllocator \<Rightarrow> u64 \<Rightarrow> u64 \<Rightarrow> u64 \<Rightarrow> bool \<times> GARTApertureAllocator"
where
  "gart_release a i offset bytes =
     (if i = 0 \<or> \<not> ga_initialized a then (False, a)
      else (case gart_clear i offset bytes (ga_records a) of
              None \<Rightarrow> (False, a) | Some rs \<Rightarrow> (True, a\<lparr>ga_records := rs\<rparr>)))"

definition gart_bytes_used :: "GARTApertureAllocator \<Rightarrow> u64" where
  "gart_bytes_used a =
     foldl (\<lambda>used r. if gr_id r \<noteq> 0 then used + gr_size r else used) 0 (ga_records a)"

section \<open>The invariant\<close>

definition gr_span :: "GARTReservation \<Rightarrow> nat set" where
  "gr_span r = {unat (gr_offset r) ..< unat (gr_offset r) + unat (gr_size r)}"

definition gart_arena :: "GARTApertureAllocator \<Rightarrow> nat set" where
  "gart_arena a = {..< unat (ga_size a)}"

definition gart_live :: "GARTApertureAllocator \<Rightarrow> GARTReservation list" where
  "gart_live a = filter (\<lambda>r. gr_id r \<noteq> 0) (ga_records a)"

text \<open>A record with an id is a non-empty, page-aligned range inside the aperture.\<close>

definition gr_ok :: "GARTApertureAllocator \<Rightarrow> GARTReservation \<Rightarrow> bool" where
  "gr_ok a r \<longleftrightarrow> 0 < unat (gr_size r) \<and> unat (gr_offset r) + unat (gr_size r) \<le> unat (ga_size a) \<and>
     4096 dvd unat (gr_offset r) \<and> 4096 dvd unat (gr_size r) \<and> gr_id r \<noteq> 0 \<and> gr_id r \<le> ga_lastID a"

definition gart_inv :: "GARTApertureAllocator \<Rightarrow> GARTReservation list \<Rightarrow> bool" where
  "gart_inv a live \<longleftrightarrow> ga_initialized a \<and> length (ga_records a) = 128 \<and>
     unat (ga_base a) + unat (ga_size a) < 18446744073709551616 \<and>
     4096 dvd unat (ga_base a) \<and> 4096 dvd unat (ga_size a) \<and>
     mset live = mset (gart_live a) \<and> (\<forall>r \<in> set live. gr_ok a r) \<and>
     disjoint_spans gr_span live \<and> distinct (map gr_id live)"

lemma gart_invD:
  assumes "gart_inv a live"
  shows "ga_initialized a" "length (ga_records a) = 128"
    "unat (ga_base a) + unat (ga_size a) < 18446744073709551616"
    "4096 dvd unat (ga_base a)" "4096 dvd unat (ga_size a)"
    "mset live = mset (gart_live a)" "r \<in> set live \<Longrightarrow> gr_ok a r" "disjoint_spans gr_span live"
    "distinct (map gr_id live)" "set live = {r \<in> set (ga_records a). gr_id r \<noteq> 0}"
proof -
  show m: "mset live = mset (gart_live a)" using assms by (simp add: gart_inv_def)
  have "set live = set (gart_live a)" using m by (rule mset_eq_setD)
  then show "set live = {r \<in> set (ga_records a). gr_id r \<noteq> 0}" by (auto simp: gart_live_def)
qed (use assms in \<open>simp_all add: gart_inv_def\<close>)

section \<open>The search\<close>

text \<open>A placement: aligned, inside the aperture, clear of every live record.\<close>

definition gart_fits :: "GARTApertureAllocator \<Rightarrow> nat \<Rightarrow> nat \<Rightarrow> nat \<Rightarrow> bool" where
  "gart_fits a bytes al x \<longleftrightarrow> al dvd unat (ga_base a) + x \<and> x + bytes \<le> unat (ga_size a) \<and>
     (\<forall>r \<in> set (ga_records a). gr_id r \<noteq> 0 \<longrightarrow>
        unat (gr_offset r) + unat (gr_size r) \<le> x \<or> x + bytes \<le> unat (gr_offset r))"

definition recs_in :: "GARTApertureAllocator \<Rightarrow> bool" where
  "recs_in a \<longleftrightarrow> (\<forall>r \<in> set (ga_records a). gr_id r \<noteq> 0 \<longrightarrow>
     unat (gr_offset r) + unat (gr_size r) \<le> unat (ga_size a))"

lemma gart_next_fold:
  "foldl (\<lambda>next r. if P r \<and> next < e r then e r else next) c rs =
     foldl max c (map e (filter P rs))" for c :: "'b::linorder"
  by (induction rs arbitrary: c) (auto simp: max_def)

lemma foldl_max_cases: "foldl max c xs = c \<or> foldl max c xs \<in> set xs" for c :: "'b::linorder"
proof (induction xs arbitrary: c)
  case (Cons x xs)
  from Cons [of "max c x"] show ?case by (auto simp: max_def)
qed simp

lemma foldl_max_ge: "c \<le> foldl max c xs \<and> (\<forall>x \<in> set xs. x \<le> foldl max c xs)" for c :: "'b::linorder"
proof (induction xs arbitrary: c)
  case (Cons x xs)
  from Cons [of "max c x"] show ?case by auto
qed simp

definition collides :: "u64 \<Rightarrow> u64 \<Rightarrow> GARTReservation \<Rightarrow> bool" where
  "collides c bytes r \<longleftrightarrow> gr_id r \<noteq> 0 \<and> c < gr_offset r + gr_size r \<and> gr_offset r < c + bytes"

lemma gart_next_max:
  "gart_next rs c bytes = foldl max c (map (\<lambda>r. gr_offset r + gr_size r) (filter (collides c bytes) rs))"
  unfolding gart_next_fold [symmetric] gart_next_def by (simp add: collides_def conj_assoc)

lemma gart_next_cases:
  obtains (clear) "gart_next rs c bytes = c" "\<forall>r \<in> set rs. \<not> collides c bytes r"
  | (hit) r where "r \<in> set rs" "collides c bytes r" "gart_next rs c bytes = gr_offset r + gr_size r"
      "c < gart_next rs c bytes"
proof (cases "\<exists>r \<in> set rs. collides c bytes r")
  case True
  then obtain q where q: "q \<in> set rs" "collides c bytes q" by blast
  let ?es = "map (\<lambda>r. gr_offset r + gr_size r) (filter (collides c bytes) rs)"
  have "gr_offset q + gr_size q \<le> gart_next rs c bytes"
    using foldl_max_ge [of c ?es] q by (auto simp: gart_next_max)
  moreover have "c < gr_offset q + gr_size q" using q by (simp add: collides_def)
  ultimately have lt: "c < gart_next rs c bytes" by (rule less_le_trans [rotated])
  then have "gart_next rs c bytes \<in> set ?es"
    using foldl_max_cases [of c ?es] by (auto simp: gart_next_max)
  with lt show thesis by (auto intro: hit)
next
  case False
  then have "filter (collides c bytes) rs = []" by (auto simp: filter_empty_conv)
  with False show thesis by (intro clear) (simp_all add: gart_next_max)
qed

lemma filter_shrinks:
  assumes "\<And>x. x \<in> set xs \<Longrightarrow> P x \<Longrightarrow> Q x" "r \<in> set xs" "Q r" "\<not> P r"
  shows "length (filter P xs) < length (filter Q xs)"
proof -
  have "filter P xs = filter P (filter Q xs)" using assms(1) by (auto intro: filter_cong)
  moreover have "length (filter P (filter Q xs)) < length (filter Q xs)"
    using assms by (intro length_filter_less [of r]) auto
  ultimately show ?thesis by simp
qed

text \<open>The records that can still get in the way of candidates from \<open>c\<close> on.\<close>

definition ahead :: "GARTApertureAllocator \<Rightarrow> u64 \<Rightarrow> nat" where
  "ahead a c = length (filter (\<lambda>r. gr_id r \<noteq> 0 \<and> c < gr_offset r + gr_size r) (ga_records a))"

lemma rec_end:
  assumes "recs_in a" "r \<in> set (ga_records a)" "gr_id r \<noteq> 0"
  shows "unat (gr_offset r + gr_size r) = unat (gr_offset r) + unat (gr_size r)"
    "unat (gr_offset r) + unat (gr_size r) \<le> unat (ga_size a)"
proof -
  show le: "unat (gr_offset r) + unat (gr_size r) \<le> unat (ga_size a)" using assms by (simp add: recs_in_def)
  then show "unat (gr_offset r + gr_size r) = unat (gr_offset r) + unat (gr_size r)"
    using le_less_trans [OF le unat_lt_64] by (simp add: word_nat)
qed

text \<open>
  With more passes left than records ahead, the search returns the lowest placement from the
  candidate on, or there is none.
\<close>

lemma gart_passes_spec:
  assumes "recs_in a" "unat (ga_base a) + unat (ga_size a) < 18446744073709551616" "is_pow2 al"
    "0 < unat bytes" "unat c \<le> unat (ga_size a)" "ahead a c < n"
  shows "case gart_passes a bytes al n c of
      None \<Rightarrow> \<not> (\<exists>y. unat c \<le> y \<and> gart_fits a (unat bytes) (unat al) y)
    | Some x \<Rightarrow> gart_fits a (unat bytes) (unat al) (unat x) \<and>
        (\<forall>y. unat c \<le> y \<longrightarrow> gart_fits a (unat bytes) (unat al) y \<longrightarrow> unat x \<le> y)"
  using assms(5,6)
proof (induction n arbitrary: c)
  case 0
  then show ?case by simp
next
  case (Suc n)
  obtain k where k: "k < 64" "unat al = 2 ^ k" using is_pow2D [OF assms(3)] by auto
  have alpos: "0 < unat al" using k by simp
  let ?ad = "ga_base a + c" and ?B = "unat (ga_base a)"
  have ad: "unat ?ad = ?B + unat c" using Suc.prems(1) assms(2) by (simp add: word_nat)
  have pred: "unat (al - 1) = unat al - 1" using alpos by (rule unat_pred)
  show ?case
  proof (cases "0xFFFFFFFFFFFFFFFF - (al - 1) < ?ad")
    case True
    then have top: "2 ^ 64 \<le> ?B + unat c + (unat al - 1)"
      unfolding not_le [symmetric] add_guard64_max pred ad by simp
    have "\<not> gart_fits a (unat bytes) (unat al) y" if "unat c \<le> y" for y
    proof
      assume y: "gart_fits a (unat bytes) (unat al) y"
      then have "2 ^ 64 \<le> ?B + y" using aligned_top [OF k(2,1) top] that by (simp add: gart_fits_def)
      moreover have "?B + y < 18446744073709551616" using y assms(2) by (simp add: gart_fits_def)
      ultimately show False by simp
    qed
    with True show ?thesis by (auto simp: Let_def)
  next
    case False
    define d where "d = align_up ?ad al - ga_base a"
    have nw: "unat ?ad + (unat al - 1) < 18446744073709551616"
      using False unfolding not_less add_guard64_max pred .
    then have up: "unat (align_up ?ad al) = round_up (?B + unat c) (unat al)"
      using unat_align_up [OF assms(3), of ?ad] by (simp add: ad)
    have ge: "?B + unat c \<le> round_up (?B + unat c) (unat al)" using alpos by (rule round_up_ge)
    then have d: "unat d = round_up (?B + unat c) (unat al) - ?B"
      by (simp add: d_def word_nat word_le_nat_alt up)
    have dvd: "unat al dvd ?B + unat d" using ge by (simp add: d)
    have least: "unat d \<le> y" if "unat c \<le> y" "gart_fits a (unat bytes) (unat al) y" for y
      using round_up_least [of "unat al" "?B + y" "?B + unat c"] that alpos by (simp add: d gart_fits_def)
    have step: "gart_passes a bytes al (Suc n) c = (if ga_size a < d \<or> ga_size a - d < bytes then None
        else if gart_next (ga_records a) d bytes = d then Some d
        else gart_passes a bytes al n (gart_next (ga_records a) d bytes))"
      using False by (simp add: Let_def d_def [symmetric])
    have room: "\<not> (ga_size a < d \<or> ga_size a - d < bytes) \<longleftrightarrow> unat d + unat bytes \<le> unat (ga_size a)"
      by (auto simp: not_less word_le_nat_alt word_less_nat_alt unat_sub)
    show ?thesis
    proof (cases "unat d + unat bytes \<le> unat (ga_size a)")
      case False
      then have "\<not> (\<exists>y. unat c \<le> y \<and> gart_fits a (unat bytes) (unat al) y)"
        using least by (fastforce simp: gart_fits_def)
      with False room step show ?thesis by auto
    next
      case fits: True
      then have top: "unat (d + bytes) = unat d + unat bytes"
        using le_less_trans [OF _ unat_lt_64 [of "ga_size a"]] by (simp add: word_nat)
      have coll: "collides d bytes r \<longleftrightarrow> unat d < unat (gr_offset r) + unat (gr_size r) \<and>
          unat (gr_offset r) < unat d + unat bytes" if "r \<in> set (ga_records a)" "gr_id r \<noteq> 0" for r
        using rec_end(1) [OF assms(1) that] that(2) by (simp add: collides_def word_less_nat_alt top)
      show ?thesis
      proof (cases rule: gart_next_cases [of "ga_records a" d bytes])
        case clear
        have "gart_fits a (unat bytes) (unat al) (unat d)"
          unfolding gart_fits_def using dvd fits clear(2) coll by (meson not_le)
        with clear step room fits least show ?thesis by auto
      next
        case (hit r)
        let ?e = "gart_next (ga_records a) d bytes"
        have id: "gr_id r \<noteq> 0" using hit by (simp add: collides_def)
        note re = rec_end [OF assms(1) hit(1) id]
        have e: "unat ?e = unat (gr_offset r) + unat (gr_size r)" using hit(3) re by simp
        have past: "unat ?e \<le> y" if "unat c \<le> y" "gart_fits a (unat bytes) (unat al) y" for y
        proof -
          have "unat (gr_offset r) < y + unat bytes"
            using least [OF that] coll [OF hit(1) id] hit(2) by linarith
          then show ?thesis using that(2) hit(1) id e by (auto simp: gart_fits_def)
        qed
        have cd: "c \<le> d" using ge by (simp add: word_le_nat_alt d)
        have "ahead a ?e < ahead a c"
          unfolding ahead_def using hit cd id
          by (intro filter_shrinks [of _ _ _ r]) (auto simp: collides_def dest: less_trans le_less_trans)
        then have "ahead a ?e < n" using Suc.prems(2) by linarith
        moreover have "unat ?e \<le> unat (ga_size a)" using e re by simp
        ultimately have IH: "case gart_passes a bytes al n ?e of
            None \<Rightarrow> \<not> (\<exists>y. unat ?e \<le> y \<and> gart_fits a (unat bytes) (unat al) y)
          | Some x \<Rightarrow> gart_fits a (unat bytes) (unat al) (unat x) \<and>
              (\<forall>y. unat ?e \<le> y \<longrightarrow> gart_fits a (unat bytes) (unat al) y \<longrightarrow> unat x \<le> y)"
          using Suc.IH by blast
        have run: "gart_passes a bytes al (Suc n) c = gart_passes a bytes al n ?e"
          using step room fits hit(4) by auto
        show ?thesis unfolding run
          using IH past by (cases "gart_passes a bytes al n ?e") auto
      qed
    qed
  qed
qed

section \<open>Preservation\<close>

lemma gart_slot_spec:
  "gart_slot i rs = Some k \<Longrightarrow> i \<le> k \<and> k - i < length rs \<and> gr_id (rs ! (k - i)) = 0"
  "gart_slot i rs = None \<longleftrightarrow> (\<forall>r \<in> set rs. gr_id r \<noteq> 0)"
proof -
  show "gart_slot i rs = Some k \<Longrightarrow> i \<le> k \<and> k - i < length rs \<and> gr_id (rs ! (k - i)) = 0"
  proof (induction rs arbitrary: i)
    case (Cons r rs)
    show ?case
    proof (cases "gr_id r = 0")
      case False
      with Cons have "Suc i \<le> k \<and> k - Suc i < length rs \<and> gr_id (rs ! (k - Suc i)) = 0" by simp
      then show ?thesis by (auto simp: nth_Cons' Suc_diff_Suc)
    qed (use Cons.prems in simp)
  qed simp
  show "gart_slot i rs = None \<longleftrightarrow> (\<forall>r \<in> set rs. gr_id r \<noteq> 0)"
    by (induction rs arbitrary: i) auto
qed

lemma gart_slot_first:
  "gart_slot i rs = Some k \<Longrightarrow> j < k - i \<Longrightarrow> gr_id (rs ! j) \<noteq> 0"
proof (induction rs arbitrary: i j)
  case (Cons r rs)
  then have "gr_id r \<noteq> 0" "gart_slot (Suc i) rs = Some k" by (auto split: if_splits)
  with Cons show ?case by (cases j) auto
qed simp

lemma filter_update_fresh:
  "k < length rs \<Longrightarrow> \<not> P (rs ! k) \<Longrightarrow> P x \<Longrightarrow>
     mset (filter P (rs[k := x])) = add_mset x (mset (filter P rs))"
  by (induction rs arbitrary: k) (auto simp: nth_Cons' split: nat.splits)

lemma gart_inv_recs_in:
  assumes "gart_inv a live"
  shows "recs_in a"
  unfolding recs_in_def
proof (intro ballI impI)
  fix r assume "r \<in> set (ga_records a)" "gr_id r \<noteq> 0"
  then have "r \<in> set live" using gart_invD(10) [OF assms] by blast
  then show "unat (gr_offset r) + unat (gr_size r) \<le> unat (ga_size a)"
    using gart_invD(7) [OF assms] by (simp add: gr_ok_def)
qed

lemma gart_fits_live:
  assumes "gart_inv a live"
  shows "gart_fits a bytes al x \<longleftrightarrow> al dvd unat (ga_base a) + x \<and> x + bytes \<le> unat (ga_size a) \<and>
     (\<forall>r \<in> set live. unat (gr_offset r) + unat (gr_size r) \<le> x \<or> x + bytes \<le> unat (gr_offset r))"
  unfolding gart_fits_def gart_invD(10) [OF assms] by blast

text \<open>The requests that reach the search.\<close>

definition gart_guard :: "GARTApertureAllocator \<Rightarrow> u64 \<Rightarrow> u64 \<Rightarrow> bool" where
  "gart_guard a bytes al \<longleftrightarrow> ga_initialized a \<and> bytes \<noteq> 0 \<and> 4096 dvd unat bytes \<and> 4096 \<le> unat al \<and>
     is_pow2 al \<and> unat bytes \<le> unat (ga_size a) \<and> ga_lastID a \<noteq> 0xFFFFFFFFFFFFFFFF"

lemma gart_find_guard:
  "gart_find a bytes al = (if gart_guard a bytes al
     then (case gart_slot 0 (ga_records a) of None \<Rightarrow> None
           | Some slot \<Rightarrow> map_option (\<lambda>x. (x, slot)) (gart_passes a bytes al 129 0))
     else None)"
proof -
  have "al AND (al - 1) = 0 \<longleftrightarrow> is_pow2 al" if "\<not> al < 4096"
    using that by (auto simp: is_pow2_def)
  then have "(\<not> ga_initialized a \<or> bytes = 0 \<or> bytes AND 4095 \<noteq> 0 \<or> al < 4096 \<or>
      al AND (al - 1) \<noteq> 0 \<or> ga_size a < bytes \<or> ga_lastID a = 0xFFFFFFFFFFFFFFFF) = (\<not> gart_guard a bytes al)"
    by (auto simp: gart_guard_def and_4095_dvd word_less_nat_alt not_less)
  then show ?thesis
    by (simp add: gart_find_def gart_capacity_def eval_nat_numeral split: option.splits)
qed

lemma gart_slot_room:
  assumes "gart_inv a live"
  shows "gart_slot 0 (ga_records a) = None \<longleftrightarrow> length live = 128"
proof -
  have len: "length live = length (gart_live a)"
    using arg_cong [OF gart_invD(6) [OF assms], of size] by simp
  show ?thesis
  proof (cases "\<forall>r \<in> set (ga_records a). gr_id r \<noteq> 0")
    case True
    then have "gart_live a = ga_records a" by (simp add: gart_live_def filter_id_conv)
    with True show ?thesis using len gart_invD(2) [OF assms] by (simp add: gart_slot_spec(2))
  next
    case False
    then have "length (gart_live a) < length (ga_records a)"
      unfolding gart_live_def by (auto intro: length_filter_less)
    with False show ?thesis using len gart_invD(2) [OF assms] by (auto simp: gart_slot_spec(2))
  qed
qed

lemma gart_find_spec:
  assumes inv: "gart_inv a live" and guard: "gart_guard a bytes al"
  shows "case gart_find a bytes al of
      None \<Rightarrow> length live = 128 \<or> \<not> (\<exists>y. gart_fits a (unat bytes) (unat al) y)
    | Some (x, slot) \<Rightarrow> gart_fits a (unat bytes) (unat al) (unat x) \<and>
        (\<forall>y. gart_fits a (unat bytes) (unat al) y \<longrightarrow> unat x \<le> y) \<and> length live \<noteq> 128 \<and>
        slot < 128 \<and> gr_id (ga_records a ! slot) = 0 \<and> (\<forall>j < slot. gr_id (ga_records a ! j) \<noteq> 0)"
proof (cases "gart_slot 0 (ga_records a)")
  case None
  with guard show ?thesis using gart_slot_room [OF inv] by (simp add: gart_find_guard)
next
  case (Some slot)
  note sl = gart_slot_spec(1) [OF Some, simplified] and first = gart_slot_first [OF Some, simplified]
  have room: "length live \<noteq> 128" using Some gart_slot_room [OF inv] by simp
  have "ahead a 0 \<le> length (ga_records a)" by (simp add: ahead_def)
  then have ahead: "ahead a 0 < 129" using gart_invD(2) [OF inv] by simp
  have "0 < unat bytes" "is_pow2 al" using guard by (simp_all add: gart_guard_def unat_gt_0)
  note spec = gart_passes_spec [OF gart_inv_recs_in [OF inv] gart_invD(3) [OF inv] this(2,1) _ ahead]
  show ?thesis
    using spec Some guard sl first room gart_invD(2) [OF inv]
    by (cases "gart_passes a bytes al 129 0") (auto simp: gart_find_guard)
qed

lemma gart_reserve_spec:
  assumes inv: "gart_inv a live" and ok: "gart_reserve a q = Some (r, a')"
  shows "gart_inv a' (r # live)" "gart_arena a' = gart_arena a"
    "gart_guard a (fst q) (snd q)" "gr_size r = fst q"
    "gart_fits a (unat (fst q)) (unat (snd q)) (unat (gr_offset r))"
    "\<And>y. gart_fits a (unat (fst q)) (unat (snd q)) y \<Longrightarrow> unat (gr_offset r) \<le> y"
proof -
  obtain x slot where f: "gart_find a (fst q) (snd q) = Some (x, slot)"
    and r: "r = \<lparr>gr_offset = x, gr_size = fst q, gr_id = ga_lastID a + 1\<rparr>"
    and a': "a' = a\<lparr>ga_records := (ga_records a)[slot := r], ga_lastID := ga_lastID a + 1\<rparr>"
    using ok by (auto simp: gart_reserve_def Let_def split: option.splits)
  show guard: "gart_guard a (fst q) (snd q)" using f by (simp add: gart_find_guard split: if_splits)
  note D = gart_invD [OF inv]
  from gart_find_spec [OF inv guard] f
  have x: "gart_fits a (unat (fst q)) (unat (snd q)) (unat x)"
    "\<And>y. gart_fits a (unat (fst q)) (unat (snd q)) y \<Longrightarrow> unat x \<le> y"
    and slot: "slot < 128" "gr_id (ga_records a ! slot) = 0" by auto
  then show "gart_fits a (unat (fst q)) (unat (snd q)) (unat (gr_offset r))" "gr_size r = fst q"
    "\<And>y. gart_fits a (unat (fst q)) (unat (snd q)) y \<Longrightarrow> unat (gr_offset r) \<le> y"
    by (simp_all add: r)
  have "unat (ga_lastID a + 1) = unat (ga_lastID a) + 1"
    using guard by (intro unat_inc64) (simp add: gart_guard_def)
  then have lt: "ga_lastID a < ga_lastID a + 1" by (simp add: word_less_nat_alt)
  then have id0: "gr_id r \<noteq> 0" and older: "i \<le> ga_lastID a \<Longrightarrow> i \<noteq> gr_id r \<and> i \<le> ga_lastID a + 1" for i
    by (auto simp: r)
  have "\<exists>j. unat (snd q) = 4096 * j"
  proof -
    obtain k where k: "unat (snd q) = 2 ^ k" using is_pow2D [of "snd q"] guard by (auto simp: gart_guard_def)
    then have "(2::nat) ^ 12 \<le> 2 ^ k" using guard by (simp add: gart_guard_def)
    then have "12 \<le> k" by (rule power_le_imp_le_exp [rotated]) simp
    then have "(2::nat) ^ k = 2 ^ 12 * 2 ^ (k - 12)" by (metis power_add le_add_diff_inverse)
    then have "unat (snd q) = 4096 * 2 ^ (k - 12)" using k by simp
    then show ?thesis by blast
  qed
  then have "4096 dvd unat (ga_base a) + unat x"
    using x(1) by (auto simp: gart_fits_def intro: dvd_trans)
  then have page: "4096 dvd unat x" using D(4) by (simp add: dvd_add_right_iff)
  have "mset (gart_live a') = add_mset r (mset (gart_live a))"
    unfolding gart_live_def a'
    using slot D(2) id0 filter_update_fresh [of slot "ga_records a" "\<lambda>r. gr_id r \<noteq> 0" r] by simp
  moreover have "gr_ok a' s" if "s \<in> set live" for s
    using D(7) [OF that] older by (simp add: gr_ok_def a')
  moreover have "gr_ok a' r"
    using x(1) page guard id0 by (auto simp: gr_ok_def a' r gart_fits_def gart_guard_def unat_gt_0)
  moreover have "gr_span r \<inter> gr_span s = {}" if "s \<in> set live" for s
    using x(1) that by (auto simp: gart_fits_live [OF inv] gr_span_def r)
  moreover have "gr_id r \<notin> gr_id ` set live"
    using D(7) older by (fastforce simp: gr_ok_def)
  ultimately show "gart_inv a' (r # live)"
    using D by (simp add: gart_inv_def a')
  show "gart_arena a' = gart_arena a" by (simp add: gart_arena_def a')
qed

lemma gart_clear_spec:
  "gart_clear i offset bytes rs = Some rs' \<Longrightarrow>
     \<exists>k < length rs. gart_matches i offset bytes (rs ! k) \<and> rs' = rs[k := gart_empty_record]"
  "gart_clear i offset bytes rs = None \<longleftrightarrow> \<not> list_ex (gart_matches i offset bytes) rs"
proof -
  show "gart_clear i offset bytes rs = Some rs' \<Longrightarrow>
     \<exists>k < length rs. gart_matches i offset bytes (rs ! k) \<and> rs' = rs[k := gart_empty_record]"
  proof (induction rs arbitrary: rs')
    case (Cons r rs)
    show ?case
    proof (cases "gart_matches i offset bytes r")
      case True
      with Cons.prems show ?thesis by (intro exI [of _ 0]) simp
    next
      case False
      with Cons.prems obtain us where us: "gart_clear i offset bytes rs = Some us" "rs' = r # us" by auto
      with Cons.IH [OF us(1)] obtain k where "k < length rs" "gart_matches i offset bytes (rs ! k)"
        "us = rs[k := gart_empty_record]" by blast
      with us show ?thesis by (intro exI [of _ "Suc k"]) simp
    qed
  qed simp
  show "gart_clear i offset bytes rs = None \<longleftrightarrow> \<not> list_ex (gart_matches i offset bytes) rs"
    by (induction rs) auto
qed

lemma filter_update_gone:
  "k < length rs \<Longrightarrow> P (rs ! k) \<Longrightarrow> \<not> P x \<Longrightarrow>
     mset (filter P (rs[k := x])) = mset (filter P rs) - {#rs ! k#}"
  by (induction rs arbitrary: k) (auto simp: nth_Cons' split: nat.splits)

text \<open>
  Ids are unique among the live records, so at most one record answers to an id and a range.
\<close>

lemma gart_release_spec:
  assumes inv: "gart_inv a live"
  shows "gart_release a i offset bytes =
    (if gart_owns a i offset bytes then (True, snd (gart_release a i offset bytes)) else (False, a))"
    "gart_owns a i offset bytes \<longleftrightarrow> \<lparr>gr_offset = offset, gr_size = bytes, gr_id = i\<rparr> \<in> set live"
    "r \<in> set live \<Longrightarrow> gart_inv (snd (gart_release a (gr_id r) (gr_offset r) (gr_size r))) (remove1 r live)"
    "gart_arena (snd (gart_release a i offset bytes)) = gart_arena a"
proof -
  note D = gart_invD [OF inv]
  show "gart_release a i offset bytes =
    (if gart_owns a i offset bytes then (True, snd (gart_release a i offset bytes)) else (False, a))"
    using gart_clear_spec(2) [of i offset bytes "ga_records a"]
    by (cases "gart_clear i offset bytes (ga_records a)") (simp_all add: gart_release_def gart_owns_def)
  have live: "r \<in> set live \<longleftrightarrow> r \<in> set (ga_records a) \<and> gr_id r \<noteq> 0" for r using D(10) by auto
  have rec: "gart_matches i offset bytes r \<longleftrightarrow> r = \<lparr>gr_offset = offset, gr_size = bytes, gr_id = i\<rparr>"
    for i offset bytes r by (cases r) (auto simp: gart_matches_def)
  show owns: "gart_owns a i offset bytes \<longleftrightarrow> \<lparr>gr_offset = offset, gr_size = bytes, gr_id = i\<rparr> \<in> set live" for i offset bytes
    using D(1) by (auto simp: gart_owns_def list_ex_iff live rec)
  show "gart_arena (snd (gart_release a i offset bytes)) = gart_arena a"
    by (simp add: gart_release_def gart_arena_def split: option.splits)
  assume r: "r \<in> set live"
  let ?rel = "gart_release a (gr_id r) (gr_offset r) (gr_size r)"
  have "r \<in> set (ga_records a)" "gr_id r \<noteq> 0" using r live by auto
  then have "gart_clear (gr_id r) (gr_offset r) (gr_size r) (ga_records a) \<noteq> None"
    unfolding gart_clear_spec(2) by (auto simp: list_ex_iff gart_matches_def)
  then obtain rs where rs: "gart_clear (gr_id r) (gr_offset r) (gr_size r) (ga_records a) = Some rs" by blast
  obtain k where k: "k < length (ga_records a)" "ga_records a ! k = r" "rs = (ga_records a)[k := gart_empty_record]"
    using gart_clear_spec(1) [OF rs] rec by (metis (full_types) GARTReservation.surjective old.unit.exhaust
      GARTReservation.select_convs(1-3))
  have a': "snd ?rel = a\<lparr>ga_records := rs\<rparr>"
    using rs \<open>gr_id r \<noteq> 0\<close> D(1) by (simp add: gart_release_def)
  have "mset (gart_live (snd ?rel)) = mset (gart_live a) - {#r#}"
    unfolding a' gart_live_def using k \<open>gr_id r \<noteq> 0\<close> filter_update_gone [of k "ga_records a" "\<lambda>r. gr_id r \<noteq> 0"]
    by (simp add: gart_empty_record_def)
  moreover have "distinct (map gr_id (remove1 r live))"
    using D(9) by (simp add: distinct_map inj_on_def notin_set_remove1)
  moreover have "set (remove1 r live) \<subseteq> set live" by (rule set_remove1_subset)
  ultimately show "gart_inv (snd ?rel) (remove1 r live)"
    using D k disjoint_spans_remove1 [OF D(8)] unfolding gart_inv_def
    by (auto simp: a' gr_ok_def dest!: subsetD)
qed

section \<open>The contract of a range allocator\<close>

interpretation gart: range_allocator gart_inv gr_span gart_arena gart_reserve
  "\<lambda>a r. snd (gart_release a (gr_id r) (gr_offset r) (gr_size r))"
proof unfold_locales
  fix a live q r a'
  assume "gart_inv a live" "gart_reserve a q = Some (r, a')"
  then show "gart_inv a' (r # live)" "gart_arena a' = gart_arena a" by (rule gart_reserve_spec)+
next
  fix a live r
  assume inv: "gart_inv a live" and r: "r \<in> set live"
  show "gart_inv (snd (gart_release a (gr_id r) (gr_offset r) (gr_size r))) (remove1 r live)"
    using inv r by (rule gart_release_spec(3))
  show "gart_arena (snd (gart_release a (gr_id r) (gr_offset r) (gr_size r))) = gart_arena a"
    using inv by (rule gart_release_spec(4))
next
  fix a live
  assume "gart_inv a live"
  then show "disjoint_spans gr_span live" by (rule gart_invD)
next
  fix a live r
  assume "gart_inv a live" "r \<in> set live"
  then have "gr_ok a r" by (rule gart_invD)
  then show "gr_span r \<subseteq> gart_arena a" by (auto simp: gr_ok_def gr_span_def gart_arena_def)
qed

lemma gart_init_inv:
  assumes "gart_alloc_init gart_new base sz = (True, a)"
  shows "gart_inv a [] \<and> ga_base a = base \<and> ga_size a = sz"
proof -
  from assms have g: "sz \<noteq> 0" "base AND 4095 = 0" "sz AND 4095 = 0"
      "\<not> 0xFFFFFFFFFFFFFFFF - sz < base"
    and a: "a = gart_new\<lparr>ga_base := base, ga_size := sz, ga_initialized := True\<rparr>"
    by (auto simp: gart_alloc_init_def gart_new_def split: if_splits)
  have "unat base + unat sz < 18446744073709551616" using g(4) unfolding not_less add_guard64_max .
  then show ?thesis
    using g by (auto simp: gart_inv_def a gart_new_def gart_live_def gart_capacity_def
        gart_empty_record_def and_4095_dvd filter_empty_conv)
qed

section \<open>Properties\<close>

definition demo_gart :: GARTApertureAllocator where
  "demo_gart = snd (gart_alloc_init gart_new 0x100000000 0x200000)"

lemma demo_gart_init: "gart_alloc_init gart_new 0x100000000 0x200000 = (True, demo_gart)"
  by (simp add: demo_gart_def gart_alloc_init_def gart_new_def)

lemma demo_gart_inv: "gart_inv demo_gart []"
  using gart_init_inv [OF demo_gart_init] by blast

text \<open>
  C9. The search with its \<open>capacity + 1\<close> passes is exact for every request. It fails exactly when the
  request breaks a guard (\<open>gart_guard\<close>: an empty or unaligned size, an alignment below a page or no
  power of two, a size above the aperture, exhausted ids), when all 128 records are taken, or when no
  aligned offset of the aperture clears every live reservation. Otherwise it answers the lowest such
  offset and the first record without an id.
\<close>

theorem gart_find_lowest:
  assumes "gart_inv a live"
  shows "(gart_find a bytes al = None \<longleftrightarrow> \<not> gart_guard a bytes al \<or> length live = 128 \<or>
      \<not> (\<exists>y. gart_fits a (unat bytes) (unat al) y)) \<and>
    (\<forall>x slot. gart_find a bytes al = Some (x, slot) \<longrightarrow>
      gart_fits a (unat bytes) (unat al) (unat x) \<and>
      (\<forall>y. gart_fits a (unat bytes) (unat al) y \<longrightarrow> unat x \<le> y) \<and>
      slot < 128 \<and> gr_id (ga_records a ! slot) = 0 \<and> (\<forall>j < slot. gr_id (ga_records a ! j) \<noteq> 0))"
proof (cases "gart_guard a bytes al")
  case True
  with gart_find_spec [OF assms True] show ?thesis by (cases "gart_find a bytes al") auto
qed (simp add: gart_find_guard)

lemma gart_find_lowest_witness:
  "gart_find demo_gart 0x4000 0x4000 = Some (0, 0) \<and>
    gart_fits demo_gart 0x4000 0x4000 0 \<and> gart_find demo_gart 0x1001 0x1000 = None"
proof -
  have f: "gart_find demo_gart 0x4000 0x4000 = Some (0, 0)" "gart_find demo_gart 0x1001 0x1000 = None"
    by code_simp+
  with gart_find_lowest [OF demo_gart_inv, of "0x4000" "0x4000"] show ?thesis by simp
qed

text \<open>
  C10. Over any sequence of reservations and releases on a fresh aperture, live reservations never
  overlap, each is page aligned inside the aperture, and no two ever carry the same id.
\<close>

theorem gart_session_sound:
  assumes "gart_alloc_init gart_new base sz = (True, a0)"
    "session gart_reserve (\<lambda>a r. snd (gart_release a (gr_id r) (gr_offset r) (gr_size r))) (a0, []) cs = (a, live)"
  shows "disjoint_spans gr_span live \<and> distinct (map gr_id live) \<and>
    (\<forall>r \<in> set live. gr_span r \<subseteq> {..< unat sz} \<and> 4096 dvd unat (gr_offset r) \<and> gr_id r \<noteq> 0)"
proof -
  note init = gart_init_inv [OF assms(1)]
  then have "gart_inv a live" "gart_arena a = gart_arena a0"
    using gart.session_inv [OF _ assms(2)] by blast+
  moreover have "gart_arena a0 = {..< unat sz}" using init by (simp add: gart_arena_def)
  ultimately show ?thesis
    using gart.live_arena [of a live] gart_invD(7,8,9) [of a live] by (auto simp: gr_ok_def)
qed

lemma gart_session_sound_witness:
  "\<exists>a live. disjoint_spans gr_span live \<and> distinct (map gr_id live) \<and>
    (\<forall>r \<in> set live. gr_span r \<subseteq> {..< unat (0x200000 :: u64)} \<and> 4096 dvd unat (gr_offset r) \<and> gr_id r \<noteq> 0)"
proof -
  obtain a live where run: "session gart_reserve (\<lambda>a r. snd (gart_release a (gr_id r) (gr_offset r) (gr_size r)))
      (demo_gart, []) [Reserve (0x4000, 0x4000), Reserve (0x1000, 0x1000), Release 1] = (a, live)" by fastforce
  show ?thesis by (intro exI) (rule gart_session_sound [OF demo_gart_init run])
qed

text \<open>
  C11. \<open>release\<close> answers true exactly for the id and range of a live reservation and then removes
  that one; a stale or copied handle (the id was released, or the range differs) changes nothing.
\<close>

theorem gart_release_exact:
  assumes "gart_inv a live"
  shows "if \<lparr>gr_offset = offset, gr_size = bytes, gr_id = i\<rparr> \<in> set live
    then \<exists>a'. gart_release a i offset bytes = (True, a') \<and>
      gart_inv a' (remove1 \<lparr>gr_offset = offset, gr_size = bytes, gr_id = i\<rparr> live)
    else gart_release a i offset bytes = (False, a)"
proof (cases "\<lparr>gr_offset = offset, gr_size = bytes, gr_id = i\<rparr> \<in> set live")
  case True
  from gart_release_spec(3) [OF assms True]
  have "gart_inv (snd (gart_release a i offset bytes)) (remove1 \<lparr>gr_offset = offset, gr_size = bytes, gr_id = i\<rparr> live)"
    by simp
  moreover have "fst (gart_release a i offset bytes)"
    using gart_release_spec(1) [OF assms, of i offset bytes] True gart_release_spec(2) [OF assms]
    by (metis fst_conv)
  ultimately show ?thesis using True by (cases "gart_release a i offset bytes") auto
next
  case False
  then show ?thesis using gart_release_spec(1,2) [OF assms, of i offset bytes] by simp
qed

lemma gart_release_exact_witness:
  "if \<lparr>gr_offset = 0, gr_size = 0x1000, gr_id = 1\<rparr> \<in> set ([] :: GARTReservation list)
    then \<exists>a'. gart_release demo_gart 1 0 0x1000 = (True, a') \<and>
      gart_inv a' (remove1 \<lparr>gr_offset = 0, gr_size = 0x1000, gr_id = 1\<rparr> [])
    else gart_release demo_gart 1 0 0x1000 = (False, demo_gart)"
  by (rule gart_release_exact [OF demo_gart_inv])

end
