(* ===== verification/Field_Defs.thy ===== *)
theory Field_Defs
  imports Prelude
begin

text \<open>
  \<^verbatim>\<open>dext/amdgpu/amdgpu_field_defs.h\<close>: the bit fields of the MMHUB/GFXHUB registers the driver
  programs, each as its mask and shift, and \<open>REG_SET_FIELD\<close> of \<^verbatim>\<open>amdgpu_regs.h\<close>, which replaces one
  field of a register value. The GFXHUB names of the header are aliases of the MMHUB ones.
\<close>

section \<open>Fields\<close>

type_synonym field = "u32 \<times> nat" \<comment> \<open>mask, shift\<close>

definition REG_SET_FIELD :: "u32 \<Rightarrow> field \<Rightarrow> u32 \<Rightarrow> u32" where
  "REG_SET_FIELD value f val = (value AND NOT (fst f)) OR (push_bit (snd f) val AND fst f)"

definition REG_GET_FIELD :: "u32 \<Rightarrow> field \<Rightarrow> u32" where
  "REG_GET_FIELD value f = drop_bit (snd f) (value AND fst f)"

text \<open>A run of \<open>REG_SET_FIELD\<close> on one register value.\<close>

definition set_fields :: "u32 \<Rightarrow> (field \<times> u32) list \<Rightarrow> u32" where
  "set_fields = foldl (\<lambda>v (f, x). REG_SET_FIELD v f x)"

definition MMMC_VM_MX_L1_TLB_CNTL__ENABLE_L1_TLB :: field where "MMMC_VM_MX_L1_TLB_CNTL__ENABLE_L1_TLB = (0x00000001, 0)"

definition MMMC_VM_MX_L1_TLB_CNTL__SYSTEM_ACCESS_MODE :: field where "MMMC_VM_MX_L1_TLB_CNTL__SYSTEM_ACCESS_MODE = (0x00000018, 3)"

definition MMMC_VM_MX_L1_TLB_CNTL__SYSTEM_APERTURE_UNMAPPED_ACCESS :: field where "MMMC_VM_MX_L1_TLB_CNTL__SYSTEM_APERTURE_UNMAPPED_ACCESS = (0x00000020, 5)"

definition MMMC_VM_MX_L1_TLB_CNTL__ENABLE_ADVANCED_DRIVER_MODEL :: field where "MMMC_VM_MX_L1_TLB_CNTL__ENABLE_ADVANCED_DRIVER_MODEL = (0x00000040, 6)"

definition MMMC_VM_MX_L1_TLB_CNTL__ECO_BITS :: field where "MMMC_VM_MX_L1_TLB_CNTL__ECO_BITS = (0x00000780, 7)"

definition MMMC_VM_MX_L1_TLB_CNTL__MTYPE :: field where "MMMC_VM_MX_L1_TLB_CNTL__MTYPE = (0x00001800, 11)"

definition MMVM_L2_CNTL__ENABLE_L2_CACHE :: field where "MMVM_L2_CNTL__ENABLE_L2_CACHE = (0x00000001, 0)"

definition MMVM_L2_CNTL__ENABLE_L2_FRAGMENT_PROCESSING :: field where "MMVM_L2_CNTL__ENABLE_L2_FRAGMENT_PROCESSING = (0x00000002, 1)"

definition MMVM_L2_CNTL__L2_PDE0_CACHE_TAG_GENERATION_MODE :: field where "MMVM_L2_CNTL__L2_PDE0_CACHE_TAG_GENERATION_MODE = (0x00000100, 8)"

definition MMVM_L2_CNTL__ENABLE_DEFAULT_PAGE_OUT_TO_SYSTEM_MEMORY :: field where "MMVM_L2_CNTL__ENABLE_DEFAULT_PAGE_OUT_TO_SYSTEM_MEMORY = (0x00000800, 11)"

definition MMVM_L2_CNTL__PDE_FAULT_CLASSIFICATION :: field where "MMVM_L2_CNTL__PDE_FAULT_CLASSIFICATION = (0x00040000, 18)"

definition MMVM_L2_CNTL__CONTEXT1_IDENTITY_ACCESS_MODE :: field where "MMVM_L2_CNTL__CONTEXT1_IDENTITY_ACCESS_MODE = (0x00180000, 19)"

definition MMVM_L2_CNTL__IDENTITY_MODE_FRAGMENT_SIZE :: field where "MMVM_L2_CNTL__IDENTITY_MODE_FRAGMENT_SIZE = (0x03E00000, 21)"

definition MMVM_L2_CNTL2__INVALIDATE_ALL_L1_TLBS :: field where "MMVM_L2_CNTL2__INVALIDATE_ALL_L1_TLBS = (0x00000001, 0)"

definition MMVM_L2_CNTL2__INVALIDATE_L2_CACHE :: field where "MMVM_L2_CNTL2__INVALIDATE_L2_CACHE = (0x00000002, 1)"

definition MMVM_L2_CNTL3__BANK_SELECT :: field where "MMVM_L2_CNTL3__BANK_SELECT = (0x0000003F, 0)"

definition MMVM_L2_CNTL3__L2_CACHE_BIGK_FRAGMENT_SIZE :: field where "MMVM_L2_CNTL3__L2_CACHE_BIGK_FRAGMENT_SIZE = (0x000F8000, 15)"

definition MMVM_L2_CNTL4__VMC_TAP_PDE_REQUEST_PHYSICAL :: field where "MMVM_L2_CNTL4__VMC_TAP_PDE_REQUEST_PHYSICAL = (0x00000040, 6)"

definition MMVM_L2_CNTL4__VMC_TAP_PTE_REQUEST_PHYSICAL :: field where "MMVM_L2_CNTL4__VMC_TAP_PTE_REQUEST_PHYSICAL = (0x00000080, 7)"

definition MMVM_L2_CNTL5__L2_CACHE_SMALLK_FRAGMENT_SIZE :: field where "MMVM_L2_CNTL5__L2_CACHE_SMALLK_FRAGMENT_SIZE = (0x0000001F, 0)"

definition MMVM_CONTEXT0_CNTL__ENABLE_CONTEXT :: field where "MMVM_CONTEXT0_CNTL__ENABLE_CONTEXT = (0x00000001, 0)"

definition MMVM_CONTEXT0_CNTL__PAGE_TABLE_DEPTH :: field where "MMVM_CONTEXT0_CNTL__PAGE_TABLE_DEPTH = (0x00000006, 1)"

definition MMVM_CONTEXT0_CNTL__PAGE_TABLE_BLOCK_SIZE :: field where "MMVM_CONTEXT0_CNTL__PAGE_TABLE_BLOCK_SIZE = (0x000000F0, 4)"

definition MMVM_CONTEXT0_CNTL__RETRY_PERMISSION_OR_INVALID_PAGE_FAULT :: field where "MMVM_CONTEXT0_CNTL__RETRY_PERMISSION_OR_INVALID_PAGE_FAULT = (0x00000100, 8)"

definition MMVM_CONTEXT0_CNTL__RANGE_PROTECTION_FAULT_ENABLE_DEFAULT :: field where "MMVM_CONTEXT0_CNTL__RANGE_PROTECTION_FAULT_ENABLE_DEFAULT = (0x00000800, 11)"

definition MMVM_CONTEXT0_CNTL__DUMMY_PAGE_PROTECTION_FAULT_ENABLE_DEFAULT :: field where "MMVM_CONTEXT0_CNTL__DUMMY_PAGE_PROTECTION_FAULT_ENABLE_DEFAULT = (0x00002000, 13)"

definition MMVM_CONTEXT0_CNTL__PDE0_PROTECTION_FAULT_ENABLE_DEFAULT :: field where "MMVM_CONTEXT0_CNTL__PDE0_PROTECTION_FAULT_ENABLE_DEFAULT = (0x00008000, 15)"

definition MMVM_CONTEXT0_CNTL__VALID_PROTECTION_FAULT_ENABLE_DEFAULT :: field where "MMVM_CONTEXT0_CNTL__VALID_PROTECTION_FAULT_ENABLE_DEFAULT = (0x00020000, 17)"

definition MMVM_CONTEXT0_CNTL__READ_PROTECTION_FAULT_ENABLE_DEFAULT :: field where "MMVM_CONTEXT0_CNTL__READ_PROTECTION_FAULT_ENABLE_DEFAULT = (0x00080000, 19)"

definition MMVM_CONTEXT0_CNTL__WRITE_PROTECTION_FAULT_ENABLE_DEFAULT :: field where "MMVM_CONTEXT0_CNTL__WRITE_PROTECTION_FAULT_ENABLE_DEFAULT = (0x00200000, 21)"

definition MMVM_CONTEXT0_CNTL__EXECUTE_PROTECTION_FAULT_ENABLE_DEFAULT :: field where "MMVM_CONTEXT0_CNTL__EXECUTE_PROTECTION_FAULT_ENABLE_DEFAULT = (0x00800000, 23)"

definition MMVM_L2_PROTECTION_FAULT_CNTL__RANGE_PROTECTION_FAULT_ENABLE_DEFAULT :: field where "MMVM_L2_PROTECTION_FAULT_CNTL__RANGE_PROTECTION_FAULT_ENABLE_DEFAULT = (0x00000004, 2)"

definition MMVM_L2_PROTECTION_FAULT_CNTL__PDE0_PROTECTION_FAULT_ENABLE_DEFAULT :: field where "MMVM_L2_PROTECTION_FAULT_CNTL__PDE0_PROTECTION_FAULT_ENABLE_DEFAULT = (0x00000008, 3)"

definition MMVM_L2_PROTECTION_FAULT_CNTL__PDE1_PROTECTION_FAULT_ENABLE_DEFAULT :: field where "MMVM_L2_PROTECTION_FAULT_CNTL__PDE1_PROTECTION_FAULT_ENABLE_DEFAULT = (0x00000010, 4)"

definition MMVM_L2_PROTECTION_FAULT_CNTL__PDE2_PROTECTION_FAULT_ENABLE_DEFAULT :: field where "MMVM_L2_PROTECTION_FAULT_CNTL__PDE2_PROTECTION_FAULT_ENABLE_DEFAULT = (0x00000020, 5)"

definition MMVM_L2_PROTECTION_FAULT_CNTL__TRANSLATE_FURTHER_PROTECTION_FAULT_ENABLE_DEFAULT :: field where "MMVM_L2_PROTECTION_FAULT_CNTL__TRANSLATE_FURTHER_PROTECTION_FAULT_ENABLE_DEFAULT = (0x00000040, 6)"

definition MMVM_L2_PROTECTION_FAULT_CNTL__NACK_PROTECTION_FAULT_ENABLE_DEFAULT :: field where "MMVM_L2_PROTECTION_FAULT_CNTL__NACK_PROTECTION_FAULT_ENABLE_DEFAULT = (0x00000080, 7)"

definition MMVM_L2_PROTECTION_FAULT_CNTL__DUMMY_PAGE_PROTECTION_FAULT_ENABLE_DEFAULT :: field where "MMVM_L2_PROTECTION_FAULT_CNTL__DUMMY_PAGE_PROTECTION_FAULT_ENABLE_DEFAULT = (0x00000100, 8)"

definition MMVM_L2_PROTECTION_FAULT_CNTL__VALID_PROTECTION_FAULT_ENABLE_DEFAULT :: field where "MMVM_L2_PROTECTION_FAULT_CNTL__VALID_PROTECTION_FAULT_ENABLE_DEFAULT = (0x00000200, 9)"

definition MMVM_L2_PROTECTION_FAULT_CNTL__READ_PROTECTION_FAULT_ENABLE_DEFAULT :: field where "MMVM_L2_PROTECTION_FAULT_CNTL__READ_PROTECTION_FAULT_ENABLE_DEFAULT = (0x00000400, 10)"

definition MMVM_L2_PROTECTION_FAULT_CNTL__WRITE_PROTECTION_FAULT_ENABLE_DEFAULT :: field where "MMVM_L2_PROTECTION_FAULT_CNTL__WRITE_PROTECTION_FAULT_ENABLE_DEFAULT = (0x00000800, 11)"

definition MMVM_L2_PROTECTION_FAULT_CNTL__EXECUTE_PROTECTION_FAULT_ENABLE_DEFAULT :: field where "MMVM_L2_PROTECTION_FAULT_CNTL__EXECUTE_PROTECTION_FAULT_ENABLE_DEFAULT = (0x00001000, 12)"

definition MMVM_L2_PROTECTION_FAULT_CNTL__CRASH_ON_NO_RETRY_FAULT :: field where "MMVM_L2_PROTECTION_FAULT_CNTL__CRASH_ON_NO_RETRY_FAULT = (0x40000000, 30)"

definition MMVM_L2_PROTECTION_FAULT_CNTL__CRASH_ON_RETRY_FAULT :: field where "MMVM_L2_PROTECTION_FAULT_CNTL__CRASH_ON_RETRY_FAULT = (0x80000000, 31)"

definition MMVM_L2_PROTECTION_FAULT_CNTL2__ACTIVE_PAGE_MIGRATION_PTE_READ_RETRY :: field where "MMVM_L2_PROTECTION_FAULT_CNTL2__ACTIVE_PAGE_MIGRATION_PTE_READ_RETRY = (0x00040000, 18)"

definition MMVM_INVALIDATE_ENG0_REQ__PER_VMID_INVALIDATE_REQ :: field where "MMVM_INVALIDATE_ENG0_REQ__PER_VMID_INVALIDATE_REQ = (0x0000FFFF, 0)"

definition MMVM_INVALIDATE_ENG0_REQ__FLUSH_TYPE :: field where "MMVM_INVALIDATE_ENG0_REQ__FLUSH_TYPE = (0x00070000, 16)"

definition MMVM_INVALIDATE_ENG0_REQ__INVALIDATE_L2_PTES :: field where "MMVM_INVALIDATE_ENG0_REQ__INVALIDATE_L2_PTES = (0x00080000, 19)"

definition MMVM_INVALIDATE_ENG0_REQ__INVALIDATE_L2_PDE0 :: field where "MMVM_INVALIDATE_ENG0_REQ__INVALIDATE_L2_PDE0 = (0x00100000, 20)"

definition MMVM_INVALIDATE_ENG0_REQ__INVALIDATE_L2_PDE1 :: field where "MMVM_INVALIDATE_ENG0_REQ__INVALIDATE_L2_PDE1 = (0x00200000, 21)"

definition MMVM_INVALIDATE_ENG0_REQ__INVALIDATE_L2_PDE2 :: field where "MMVM_INVALIDATE_ENG0_REQ__INVALIDATE_L2_PDE2 = (0x00400000, 22)"

definition MMVM_INVALIDATE_ENG0_REQ__INVALIDATE_L1_PTES :: field where "MMVM_INVALIDATE_ENG0_REQ__INVALIDATE_L1_PTES = (0x00800000, 23)"

definition MMVM_INVALIDATE_ENG0_REQ__CLEAR_PROTECTION_FAULT_STATUS_ADDR :: field where "MMVM_INVALIDATE_ENG0_REQ__CLEAR_PROTECTION_FAULT_STATUS_ADDR = (0x01000000, 24)"

definition MMHUB_MTYPE_UC :: u32 where "MMHUB_MTYPE_UC = 2"

section \<open>The registers\<close>

definition MMMC_VM_MX_L1_TLB_CNTL_fields :: "field list" where
  "MMMC_VM_MX_L1_TLB_CNTL_fields = [MMMC_VM_MX_L1_TLB_CNTL__ENABLE_L1_TLB,
     MMMC_VM_MX_L1_TLB_CNTL__SYSTEM_ACCESS_MODE,
     MMMC_VM_MX_L1_TLB_CNTL__SYSTEM_APERTURE_UNMAPPED_ACCESS,
     MMMC_VM_MX_L1_TLB_CNTL__ENABLE_ADVANCED_DRIVER_MODEL,
     MMMC_VM_MX_L1_TLB_CNTL__ECO_BITS,
     MMMC_VM_MX_L1_TLB_CNTL__MTYPE]"

definition MMVM_L2_CNTL_fields :: "field list" where
  "MMVM_L2_CNTL_fields = [MMVM_L2_CNTL__ENABLE_L2_CACHE,
     MMVM_L2_CNTL__ENABLE_L2_FRAGMENT_PROCESSING,
     MMVM_L2_CNTL__L2_PDE0_CACHE_TAG_GENERATION_MODE,
     MMVM_L2_CNTL__ENABLE_DEFAULT_PAGE_OUT_TO_SYSTEM_MEMORY,
     MMVM_L2_CNTL__PDE_FAULT_CLASSIFICATION,
     MMVM_L2_CNTL__CONTEXT1_IDENTITY_ACCESS_MODE,
     MMVM_L2_CNTL__IDENTITY_MODE_FRAGMENT_SIZE]"

definition MMVM_L2_CNTL2_fields :: "field list" where
  "MMVM_L2_CNTL2_fields = [MMVM_L2_CNTL2__INVALIDATE_ALL_L1_TLBS,
     MMVM_L2_CNTL2__INVALIDATE_L2_CACHE]"

definition MMVM_L2_CNTL3_fields :: "field list" where
  "MMVM_L2_CNTL3_fields = [MMVM_L2_CNTL3__BANK_SELECT,
     MMVM_L2_CNTL3__L2_CACHE_BIGK_FRAGMENT_SIZE]"

definition MMVM_L2_CNTL4_fields :: "field list" where
  "MMVM_L2_CNTL4_fields = [MMVM_L2_CNTL4__VMC_TAP_PDE_REQUEST_PHYSICAL,
     MMVM_L2_CNTL4__VMC_TAP_PTE_REQUEST_PHYSICAL]"

definition MMVM_L2_CNTL5_fields :: "field list" where
  "MMVM_L2_CNTL5_fields = [MMVM_L2_CNTL5__L2_CACHE_SMALLK_FRAGMENT_SIZE]"

definition MMVM_CONTEXT0_CNTL_fields :: "field list" where
  "MMVM_CONTEXT0_CNTL_fields = [MMVM_CONTEXT0_CNTL__ENABLE_CONTEXT,
     MMVM_CONTEXT0_CNTL__PAGE_TABLE_DEPTH,
     MMVM_CONTEXT0_CNTL__PAGE_TABLE_BLOCK_SIZE,
     MMVM_CONTEXT0_CNTL__RETRY_PERMISSION_OR_INVALID_PAGE_FAULT,
     MMVM_CONTEXT0_CNTL__RANGE_PROTECTION_FAULT_ENABLE_DEFAULT,
     MMVM_CONTEXT0_CNTL__DUMMY_PAGE_PROTECTION_FAULT_ENABLE_DEFAULT,
     MMVM_CONTEXT0_CNTL__PDE0_PROTECTION_FAULT_ENABLE_DEFAULT,
     MMVM_CONTEXT0_CNTL__VALID_PROTECTION_FAULT_ENABLE_DEFAULT,
     MMVM_CONTEXT0_CNTL__READ_PROTECTION_FAULT_ENABLE_DEFAULT,
     MMVM_CONTEXT0_CNTL__WRITE_PROTECTION_FAULT_ENABLE_DEFAULT,
     MMVM_CONTEXT0_CNTL__EXECUTE_PROTECTION_FAULT_ENABLE_DEFAULT]"

definition MMVM_L2_PROTECTION_FAULT_CNTL_fields :: "field list" where
  "MMVM_L2_PROTECTION_FAULT_CNTL_fields = [MMVM_L2_PROTECTION_FAULT_CNTL__RANGE_PROTECTION_FAULT_ENABLE_DEFAULT,
     MMVM_L2_PROTECTION_FAULT_CNTL__PDE0_PROTECTION_FAULT_ENABLE_DEFAULT,
     MMVM_L2_PROTECTION_FAULT_CNTL__PDE1_PROTECTION_FAULT_ENABLE_DEFAULT,
     MMVM_L2_PROTECTION_FAULT_CNTL__PDE2_PROTECTION_FAULT_ENABLE_DEFAULT,
     MMVM_L2_PROTECTION_FAULT_CNTL__TRANSLATE_FURTHER_PROTECTION_FAULT_ENABLE_DEFAULT,
     MMVM_L2_PROTECTION_FAULT_CNTL__NACK_PROTECTION_FAULT_ENABLE_DEFAULT,
     MMVM_L2_PROTECTION_FAULT_CNTL__DUMMY_PAGE_PROTECTION_FAULT_ENABLE_DEFAULT,
     MMVM_L2_PROTECTION_FAULT_CNTL__VALID_PROTECTION_FAULT_ENABLE_DEFAULT,
     MMVM_L2_PROTECTION_FAULT_CNTL__READ_PROTECTION_FAULT_ENABLE_DEFAULT,
     MMVM_L2_PROTECTION_FAULT_CNTL__WRITE_PROTECTION_FAULT_ENABLE_DEFAULT,
     MMVM_L2_PROTECTION_FAULT_CNTL__EXECUTE_PROTECTION_FAULT_ENABLE_DEFAULT,
     MMVM_L2_PROTECTION_FAULT_CNTL__CRASH_ON_NO_RETRY_FAULT,
     MMVM_L2_PROTECTION_FAULT_CNTL__CRASH_ON_RETRY_FAULT]"

definition MMVM_L2_PROTECTION_FAULT_CNTL2_fields :: "field list" where
  "MMVM_L2_PROTECTION_FAULT_CNTL2_fields = [MMVM_L2_PROTECTION_FAULT_CNTL2__ACTIVE_PAGE_MIGRATION_PTE_READ_RETRY]"

definition MMVM_INVALIDATE_ENG0_REQ_fields :: "field list" where
  "MMVM_INVALIDATE_ENG0_REQ_fields = [MMVM_INVALIDATE_ENG0_REQ__PER_VMID_INVALIDATE_REQ,
     MMVM_INVALIDATE_ENG0_REQ__FLUSH_TYPE,
     MMVM_INVALIDATE_ENG0_REQ__INVALIDATE_L2_PTES,
     MMVM_INVALIDATE_ENG0_REQ__INVALIDATE_L2_PDE0,
     MMVM_INVALIDATE_ENG0_REQ__INVALIDATE_L2_PDE1,
     MMVM_INVALIDATE_ENG0_REQ__INVALIDATE_L2_PDE2,
     MMVM_INVALIDATE_ENG0_REQ__INVALIDATE_L1_PTES,
     MMVM_INVALIDATE_ENG0_REQ__CLEAR_PROTECTION_FAULT_STATUS_ADDR]"

lemmas field_defs =
  MMMC_VM_MX_L1_TLB_CNTL__ENABLE_L1_TLB_def
  MMMC_VM_MX_L1_TLB_CNTL__SYSTEM_ACCESS_MODE_def
  MMMC_VM_MX_L1_TLB_CNTL__SYSTEM_APERTURE_UNMAPPED_ACCESS_def
  MMMC_VM_MX_L1_TLB_CNTL__ENABLE_ADVANCED_DRIVER_MODEL_def
  MMMC_VM_MX_L1_TLB_CNTL__ECO_BITS_def
  MMMC_VM_MX_L1_TLB_CNTL__MTYPE_def
  MMVM_L2_CNTL__ENABLE_L2_CACHE_def
  MMVM_L2_CNTL__ENABLE_L2_FRAGMENT_PROCESSING_def
  MMVM_L2_CNTL__L2_PDE0_CACHE_TAG_GENERATION_MODE_def
  MMVM_L2_CNTL__ENABLE_DEFAULT_PAGE_OUT_TO_SYSTEM_MEMORY_def
  MMVM_L2_CNTL__PDE_FAULT_CLASSIFICATION_def
  MMVM_L2_CNTL__CONTEXT1_IDENTITY_ACCESS_MODE_def
  MMVM_L2_CNTL__IDENTITY_MODE_FRAGMENT_SIZE_def
  MMVM_L2_CNTL2__INVALIDATE_ALL_L1_TLBS_def
  MMVM_L2_CNTL2__INVALIDATE_L2_CACHE_def
  MMVM_L2_CNTL3__BANK_SELECT_def
  MMVM_L2_CNTL3__L2_CACHE_BIGK_FRAGMENT_SIZE_def
  MMVM_L2_CNTL4__VMC_TAP_PDE_REQUEST_PHYSICAL_def
  MMVM_L2_CNTL4__VMC_TAP_PTE_REQUEST_PHYSICAL_def
  MMVM_L2_CNTL5__L2_CACHE_SMALLK_FRAGMENT_SIZE_def
  MMVM_CONTEXT0_CNTL__ENABLE_CONTEXT_def
  MMVM_CONTEXT0_CNTL__PAGE_TABLE_DEPTH_def
  MMVM_CONTEXT0_CNTL__PAGE_TABLE_BLOCK_SIZE_def
  MMVM_CONTEXT0_CNTL__RETRY_PERMISSION_OR_INVALID_PAGE_FAULT_def
  MMVM_CONTEXT0_CNTL__RANGE_PROTECTION_FAULT_ENABLE_DEFAULT_def
  MMVM_CONTEXT0_CNTL__DUMMY_PAGE_PROTECTION_FAULT_ENABLE_DEFAULT_def
  MMVM_CONTEXT0_CNTL__PDE0_PROTECTION_FAULT_ENABLE_DEFAULT_def
  MMVM_CONTEXT0_CNTL__VALID_PROTECTION_FAULT_ENABLE_DEFAULT_def
  MMVM_CONTEXT0_CNTL__READ_PROTECTION_FAULT_ENABLE_DEFAULT_def
  MMVM_CONTEXT0_CNTL__WRITE_PROTECTION_FAULT_ENABLE_DEFAULT_def
  MMVM_CONTEXT0_CNTL__EXECUTE_PROTECTION_FAULT_ENABLE_DEFAULT_def
  MMVM_L2_PROTECTION_FAULT_CNTL__RANGE_PROTECTION_FAULT_ENABLE_DEFAULT_def
  MMVM_L2_PROTECTION_FAULT_CNTL__PDE0_PROTECTION_FAULT_ENABLE_DEFAULT_def
  MMVM_L2_PROTECTION_FAULT_CNTL__PDE1_PROTECTION_FAULT_ENABLE_DEFAULT_def
  MMVM_L2_PROTECTION_FAULT_CNTL__PDE2_PROTECTION_FAULT_ENABLE_DEFAULT_def
  MMVM_L2_PROTECTION_FAULT_CNTL__TRANSLATE_FURTHER_PROTECTION_FAULT_ENABLE_DEFAULT_def
  MMVM_L2_PROTECTION_FAULT_CNTL__NACK_PROTECTION_FAULT_ENABLE_DEFAULT_def
  MMVM_L2_PROTECTION_FAULT_CNTL__DUMMY_PAGE_PROTECTION_FAULT_ENABLE_DEFAULT_def
  MMVM_L2_PROTECTION_FAULT_CNTL__VALID_PROTECTION_FAULT_ENABLE_DEFAULT_def
  MMVM_L2_PROTECTION_FAULT_CNTL__READ_PROTECTION_FAULT_ENABLE_DEFAULT_def
  MMVM_L2_PROTECTION_FAULT_CNTL__WRITE_PROTECTION_FAULT_ENABLE_DEFAULT_def
  MMVM_L2_PROTECTION_FAULT_CNTL__EXECUTE_PROTECTION_FAULT_ENABLE_DEFAULT_def
  MMVM_L2_PROTECTION_FAULT_CNTL__CRASH_ON_NO_RETRY_FAULT_def
  MMVM_L2_PROTECTION_FAULT_CNTL__CRASH_ON_RETRY_FAULT_def
  MMVM_L2_PROTECTION_FAULT_CNTL2__ACTIVE_PAGE_MIGRATION_PTE_READ_RETRY_def
  MMVM_INVALIDATE_ENG0_REQ__PER_VMID_INVALIDATE_REQ_def
  MMVM_INVALIDATE_ENG0_REQ__FLUSH_TYPE_def
  MMVM_INVALIDATE_ENG0_REQ__INVALIDATE_L2_PTES_def
  MMVM_INVALIDATE_ENG0_REQ__INVALIDATE_L2_PDE0_def
  MMVM_INVALIDATE_ENG0_REQ__INVALIDATE_L2_PDE1_def
  MMVM_INVALIDATE_ENG0_REQ__INVALIDATE_L2_PDE2_def
  MMVM_INVALIDATE_ENG0_REQ__INVALIDATE_L1_PTES_def
  MMVM_INVALIDATE_ENG0_REQ__CLEAR_PROTECTION_FAULT_STATUS_ADDR_def

lemmas register_defs = MMMC_VM_MX_L1_TLB_CNTL_fields_def MMVM_L2_CNTL_fields_def MMVM_L2_CNTL2_fields_def MMVM_L2_CNTL3_fields_def MMVM_L2_CNTL4_fields_def MMVM_L2_CNTL5_fields_def MMVM_CONTEXT0_CNTL_fields_def MMVM_L2_PROTECTION_FAULT_CNTL_fields_def MMVM_L2_PROTECTION_FAULT_CNTL2_fields_def MMVM_INVALIDATE_ENG0_REQ_fields_def

definition registers :: "field list list" where
  "registers = [MMMC_VM_MX_L1_TLB_CNTL_fields, MMVM_L2_CNTL_fields, MMVM_L2_CNTL2_fields,
     MMVM_L2_CNTL3_fields, MMVM_L2_CNTL4_fields, MMVM_L2_CNTL5_fields, MMVM_CONTEXT0_CNTL_fields,
     MMVM_L2_PROTECTION_FAULT_CNTL_fields, MMVM_L2_PROTECTION_FAULT_CNTL2_fields,
     MMVM_INVALIDATE_ENG0_REQ_fields]"

section \<open>Setting a field\<close>

text \<open>A mask with no bit below its shift, so that the shifted value can fill the field.\<close>

definition field_ok :: "field \<Rightarrow> bool" where
  "field_ok f \<longleftrightarrow> fst f = push_bit (snd f) (drop_bit (snd f) (fst f))"

definition disjoint_fields :: "field list \<Rightarrow> bool" where
  "disjoint_fields fs \<longleftrightarrow> sorted_wrt (\<lambda>f g. fst f AND fst g = 0) fs"

lemma registers_ok: "list_all (\<lambda>fs. list_all field_ok fs \<and> disjoint_fields fs) registers"
  by code_simp

lemma get_set_same: "REG_GET_FIELD (REG_SET_FIELD v f x) f = x AND drop_bit (snd f) (fst f)"
  if "field_ok f"
proof (rule bit_word_eqI)
  fix n assume "n < LENGTH(32)"
  have "bit (fst f) m \<Longrightarrow> snd f \<le> m" for m
    using that unfolding field_ok_def by (metis bit_push_bit_iff)
  moreover have "bit (fst f) m \<Longrightarrow> m < 32" for m using bit_imp_le_length [of "fst f" m] by simp
  ultimately show "bit (REG_GET_FIELD (REG_SET_FIELD v f x) f) n = bit (x AND drop_bit (snd f) (fst f)) n"
    by (fastforce simp: REG_GET_FIELD_def REG_SET_FIELD_def bit_simps)
qed

lemma get_set_other:
  assumes "fst f AND fst g = 0"
  shows "REG_GET_FIELD (REG_SET_FIELD v f x) g = REG_GET_FIELD v g"
proof (rule bit_word_eqI)
  fix n assume "n < LENGTH(32)"
  have "\<not> (bit (fst f) m \<and> bit (fst g) m)" for m
    using arg_cong [OF assms, of "\<lambda>w. bit w m"] by (simp add: bit_simps)
  then show "bit (REG_GET_FIELD (REG_SET_FIELD v f x) g) n = bit (REG_GET_FIELD v g) n"
    by (auto simp: REG_GET_FIELD_def REG_SET_FIELD_def bit_simps dest: bit_imp_le_length)
qed

lemma set_field_outside:
  "\<not> bit (fst f) n \<Longrightarrow> bit (REG_SET_FIELD v f x) n = bit v n"
  by (auto simp: REG_SET_FIELD_def bit_simps dest: bit_imp_le_length)

lemma disjoint_fields_pair:
  "disjoint_fields fs \<Longrightarrow> f \<in> set fs \<Longrightarrow> g \<in> set fs \<Longrightarrow> f \<noteq> g \<Longrightarrow> fst f AND fst g = 0"
  unfolding disjoint_fields_def by (induction fs) (auto simp: and.commute)

text \<open>
  C13. \<open>REG_SET_FIELD\<close> changes exactly its field: reading the field back gives the value cut to the
  field's width, and every other field the header declares for that register is untouched.
\<close>

theorem reg_set_field_exact:
  assumes "fs \<in> set registers" "f \<in> set fs"
  shows "REG_GET_FIELD (REG_SET_FIELD v f x) f = x AND drop_bit (snd f) (fst f) \<and>
    (\<forall>g \<in> set fs. g \<noteq> f \<longrightarrow> REG_GET_FIELD (REG_SET_FIELD v f x) g = REG_GET_FIELD v g)"
proof -
  have "field_ok f" "disjoint_fields fs" using registers_ok assms by (auto simp: list_all_iff)
  then show ?thesis using get_set_same get_set_other disjoint_fields_pair assms(2) by metis
qed

lemma reg_set_field_exact_witness:
  "REG_GET_FIELD (REG_SET_FIELD 7 MMVM_L2_CNTL3__BANK_SELECT 9) MMVM_L2_CNTL3__BANK_SELECT =
     9 AND drop_bit (snd MMVM_L2_CNTL3__BANK_SELECT) (fst MMVM_L2_CNTL3__BANK_SELECT) \<and>
   REG_GET_FIELD (REG_SET_FIELD 7 MMVM_L2_CNTL3__BANK_SELECT 9) MMVM_L2_CNTL3__L2_CACHE_BIGK_FRAGMENT_SIZE =
     REG_GET_FIELD 7 MMVM_L2_CNTL3__L2_CACHE_BIGK_FRAGMENT_SIZE"
proof -
  have "MMVM_L2_CNTL3_fields \<in> set registers" "MMVM_L2_CNTL3__BANK_SELECT \<in> set MMVM_L2_CNTL3_fields"
    by (simp_all add: registers_def MMVM_L2_CNTL3_fields_def)
  note exact = reg_set_field_exact [OF this, of 7 9]
  have "MMVM_L2_CNTL3__L2_CACHE_BIGK_FRAGMENT_SIZE \<in> set MMVM_L2_CNTL3_fields"
    "MMVM_L2_CNTL3__L2_CACHE_BIGK_FRAGMENT_SIZE \<noteq> MMVM_L2_CNTL3__BANK_SELECT"
    by (simp_all add: MMVM_L2_CNTL3_fields_def MMVM_L2_CNTL3__BANK_SELECT_def
        MMVM_L2_CNTL3__L2_CACHE_BIGK_FRAGMENT_SIZE_def)
  with exact show ?thesis by blast
qed

end
