(* ===== verification/Device.thy ===== *)
theory Device
  imports Field_Defs
begin

text \<open>
  The device the driver talks to. \<^verbatim>\<open>amdgpu_ip.h\<close>: IP versions and the table of register bases;
  \<^verbatim>\<open>amdgpu_regs.h\<close>: register and VRAM access primitives and the polls; \<^verbatim>\<open>amdgpu_vram_io.h\<close>: verified
  VRAM writes. PCIDriverKit, the uptime clock and \<open>IOSleep\<close> are not in the repository: they are the
  functions of a \<open>pci\<close> record over an abstract device state \<open>'d\<close>, a parameter of everything here.
\<close>

section \<open>IP versions\<close>

datatype IPVersion = IPVersion (ip_major: u8) (ip_minor: u8) (ip_rev: u8)

text \<open>Versions are ordered lexicographically; \<open>isVersionRange\<close> compares packed words instead.\<close>

instantiation IPVersion :: linorder
begin

definition less_eq_IPVersion :: "IPVersion \<Rightarrow> IPVersion \<Rightarrow> bool" where
  "less_eq_IPVersion v w \<longleftrightarrow> ip_major v < ip_major w \<or> ip_major v = ip_major w \<and>
     (ip_minor v < ip_minor w \<or> ip_minor v = ip_minor w \<and> ip_rev v \<le> ip_rev w)"

definition less_IPVersion :: "IPVersion \<Rightarrow> IPVersion \<Rightarrow> bool" where
  "less_IPVersion v w \<longleftrightarrow> ip_major v < ip_major w \<or> ip_major v = ip_major w \<and>
     (ip_minor v < ip_minor w \<or> ip_minor v = ip_minor w \<and> ip_rev v < ip_rev w)"

instance
proof
  fix u v w :: IPVersion
  show "v < w \<longleftrightarrow> v \<le> w \<and> \<not> w \<le> v" by (auto simp: less_eq_IPVersion_def less_IPVersion_def)
  show "v \<le> v" by (simp add: less_eq_IPVersion_def)
  show "u \<le> v \<Longrightarrow> v \<le> w \<Longrightarrow> u \<le> w" by (auto simp: less_eq_IPVersion_def)
  show "v \<le> w \<Longrightarrow> w \<le> v \<Longrightarrow> v = w"
    by (cases v; cases w) (auto simp: less_eq_IPVersion_def)
  show "v \<le> w \<or> w \<le> v" by (auto simp: less_eq_IPVersion_def)
qed

end

definition ip_pack :: "IPVersion \<Rightarrow> u32" where
  "ip_pack v = push_bit 16 (ucast (ip_major v)) OR push_bit 8 (ucast (ip_minor v)) OR ucast (ip_rev v)"

section \<open>IP blocks and their register bases\<close>

datatype IPBlock =
    GC | HDP | SDMA0 | SDMA1 | MP0 | MP1 | NBIO | OSSSYS | GMC | MMHUB | SMUIO

record GCDiscoveryInfo =
  gc_valid :: bool
  max_shader_engines :: u32
  max_sh_per_se :: u32
  max_cu_per_sh :: u32
  max_backends_per_se :: u32
  wave_front_size :: u32
  max_waves_per_simd :: u32
  max_scratch_slots_per_cu :: u32
  lds_size_kib :: u32

record IPBaseTable =
  ip_gfx :: GCDiscoveryInfo
  ip_base :: "IPBlock \<Rightarrow> nat \<Rightarrow> u32" \<comment> \<open>the array \<open>base[Count][kMaxBaseSegments]\<close>\<close>
  ip_version :: "IPBlock \<Rightarrow> IPVersion"

definition kMaxBaseSegments :: int where "kMaxBaseSegments = 8"

definition gc_none :: GCDiscoveryInfo where
  "gc_none = \<lparr>gc_valid = False, max_shader_engines = 0, max_sh_per_se = 0, max_cu_per_sh = 0,
     max_backends_per_se = 0, wave_front_size = 0, max_waves_per_simd = 0,
     max_scratch_slots_per_cu = 0, lds_size_kib = 0\<rparr>"

definition ip_new :: IPBaseTable where
  "ip_new = \<lparr>ip_gfx = gc_none, ip_base = (\<lambda>b i. 0xFFFFFFFF), ip_version = (\<lambda>b. IPVersion 0 0 0)\<rparr>"

definition ip_isResolvedIdx :: "IPBaseTable \<Rightarrow> IPBlock \<Rightarrow> int \<Rightarrow> bool" where
  "ip_isResolvedIdx t b i \<longleftrightarrow>
     \<not> (i < 0 \<or> kMaxBaseSegments \<le> i) \<and> ip_base t b (nat i) \<noteq> 0xFFFFFFFF \<and> ip_base t b (nat i) \<noteq> 0"

definition ip_isResolved :: "IPBaseTable \<Rightarrow> IPBlock \<Rightarrow> bool" where
  "ip_isResolved t b \<longleftrightarrow> ip_base t b 0 \<noteq> 0xFFFFFFFF \<and> ip_base t b 0 \<noteq> 0"

definition ip_get :: "IPBaseTable \<Rightarrow> IPBlock \<Rightarrow> u32" where
  "ip_get t b = ip_base t b 0"

definition ip_set :: "IPBaseTable \<Rightarrow> IPBlock \<Rightarrow> u32 \<Rightarrow> IPBaseTable" where
  "ip_set t b x = t\<lparr>ip_base := (ip_base t)(b := (ip_base t b)(0 := x))\<rparr>"

definition ip_getBase :: "IPBaseTable \<Rightarrow> IPBlock \<Rightarrow> int \<Rightarrow> u32" where
  "ip_getBase t b i = (if i < 0 \<or> kMaxBaseSegments \<le> i then 0xFFFFFFFF else ip_base t b (nat i))"

definition ip_setBase :: "IPBaseTable \<Rightarrow> IPBlock \<Rightarrow> int \<Rightarrow> u32 \<Rightarrow> IPBaseTable" where
  "ip_setBase t b i x =
     (if i < 0 \<or> kMaxBaseSegments \<le> i then t
      else t\<lparr>ip_base := (ip_base t)(b := (ip_base t b)(nat i := x))\<rparr>)"

definition ip_setVersion :: "IPBaseTable \<Rightarrow> IPBlock \<Rightarrow> IPVersion \<Rightarrow> IPBaseTable" where
  "ip_setVersion t b v = t\<lparr>ip_version := (ip_version t)(b := v)\<rparr>"

definition ip_isVersion :: "IPBaseTable \<Rightarrow> IPBlock \<Rightarrow> u8 \<Rightarrow> u8 \<Rightarrow> u8 \<Rightarrow> bool" where
  "ip_isVersion t b maj mi rv \<longleftrightarrow>
     ip_major (ip_version t b) = maj \<and> ip_minor (ip_version t b) = mi \<and> ip_rev (ip_version t b) = rv"

definition ip_isVersionRange :: "IPBaseTable \<Rightarrow> IPBlock \<Rightarrow> IPVersion \<Rightarrow> IPVersion \<Rightarrow> bool" where
  "ip_isVersionRange t b lo hi \<longleftrightarrow>
     ip_pack lo \<le> ip_pack (ip_version t b) \<and> ip_pack (ip_version t b) \<le> ip_pack hi"

section \<open>The device\<close>

record 'd pci =
  MemoryRead32 :: "u8 \<Rightarrow> u64 \<Rightarrow> 'd \<Rightarrow> u32 \<times> 'd"
  MemoryWrite32 :: "u8 \<Rightarrow> u64 \<Rightarrow> u32 \<Rightarrow> 'd \<Rightarrow> 'd"
  MemoryRead64 :: "u8 \<Rightarrow> u64 \<Rightarrow> 'd \<Rightarrow> u64 \<times> 'd"
  MemoryWrite64 :: "u8 \<Rightarrow> u64 \<Rightarrow> u64 \<Rightarrow> 'd \<Rightarrow> 'd"
  uptime_ns :: "'d \<Rightarrow> u64 \<times> 'd"
  IOSleep :: "u64 \<Rightarrow> 'd \<Rightarrow> 'd"

text \<open>Doorbells: the slots of the BAR2 aperture, per ring.\<close>

record DoorbellIndex =
  db_gfx_ring0 :: u32
  db_gfx_ring1 :: u32
  db_sdma_engine :: "nat \<Rightarrow> u32"
  db_ih :: u32
  db_mes_ring0 :: u32
  db_compute :: u32
  db_max_assignment :: u32

record DoorbellState =
  db_base :: u64
  db_size :: u64
  num_kernel_doorbells :: u32
  db_index :: DoorbellIndex

definition doorbell_zero :: DoorbellState where
  "doorbell_zero = \<lparr>db_base = 0, db_size = 0, num_kernel_doorbells = 0,
     db_index = \<lparr>db_gfx_ring0 = 0, db_gfx_ring1 = 1, db_sdma_engine = (\<lambda>i. 2 + word_of_nat i),
       db_ih = 6, db_mes_ring0 = 7, db_compute = 8, db_max_assignment = 8\<rparr>\<rparr>"

record 'd DeviceContext =
  pci :: "'d pci option" \<comment> \<open>\<open>None\<close> is a null \<^verbatim>\<open>IOPCIDevice\<close>\<close>
  bar0MemIndex :: u8
  bar2MemIndex :: u8
  bar5MemIndex :: u8
  bar0Size :: u64
  bar2Size :: u64
  dev_ip :: IPBaseTable
  psoCAlive :: bool
  smuOnline :: bool
  smuMessagePending :: bool
  gmcReady :: bool
  dev_doorbell :: DoorbellState
  doorbell_works :: bool

text \<open>A call through a null \<open>pci\<close> would crash; the model leaves the device alone and reads zero.\<close>

definition rd32 :: "'d DeviceContext \<Rightarrow> u8 \<Rightarrow> u64 \<Rightarrow> 'd \<Rightarrow> u32 \<times> 'd" where
  "rd32 dev bar off d = (case pci dev of None \<Rightarrow> (0, d) | Some p \<Rightarrow> MemoryRead32 p bar off d)"

definition wr32 :: "'d DeviceContext \<Rightarrow> u8 \<Rightarrow> u64 \<Rightarrow> u32 \<Rightarrow> 'd \<Rightarrow> 'd" where
  "wr32 dev bar off v d = (case pci dev of None \<Rightarrow> d | Some p \<Rightarrow> MemoryWrite32 p bar off v d)"

definition rd64 :: "'d DeviceContext \<Rightarrow> u8 \<Rightarrow> u64 \<Rightarrow> 'd \<Rightarrow> u64 \<times> 'd" where
  "rd64 dev bar off d = (case pci dev of None \<Rightarrow> (0, d) | Some p \<Rightarrow> MemoryRead64 p bar off d)"

definition wr64 :: "'d DeviceContext \<Rightarrow> u8 \<Rightarrow> u64 \<Rightarrow> u64 \<Rightarrow> 'd \<Rightarrow> 'd" where
  "wr64 dev bar off v d = (case pci dev of None \<Rightarrow> d | Some p \<Rightarrow> MemoryWrite64 p bar off v d)"

definition now_ns :: "'d DeviceContext \<Rightarrow> 'd \<Rightarrow> u64 \<times> 'd" where
  "now_ns dev d = (case pci dev of None \<Rightarrow> (0, d) | Some p \<Rightarrow> uptime_ns p d)"

definition sleep_ms :: "'d DeviceContext \<Rightarrow> u64 \<Rightarrow> 'd \<Rightarrow> 'd" where
  "sleep_ms dev ms d = (case pci dev of None \<Rightarrow> d | Some p \<Rightarrow> IOSleep p ms d)"

section \<open>Registers\<close>

definition SOC15_REG_OFFSET :: "'d DeviceContext \<Rightarrow> IPBlock \<Rightarrow> u32 \<Rightarrow> u32" where
  "SOC15_REG_OFFSET dev b reg = ip_get (dev_ip dev) b + reg"

definition SOC15_REG_OFFSET_BIDX :: "'d DeviceContext \<Rightarrow> IPBlock \<Rightarrow> int \<Rightarrow> u32 \<Rightarrow> u32" where
  "SOC15_REG_OFFSET_BIDX dev b i reg = ip_getBase (dev_ip dev) b i + reg"

definition RREG32 :: "'d DeviceContext \<Rightarrow> u32 \<Rightarrow> 'd \<Rightarrow> u32 \<times> 'd" where
  "RREG32 dev reg = rd32 dev (bar5MemIndex dev) (ucast reg * 4)"

definition WREG32 :: "'d DeviceContext \<Rightarrow> u32 \<Rightarrow> u32 \<Rightarrow> 'd \<Rightarrow> 'd" where
  "WREG32 dev reg v = wr32 dev (bar5MemIndex dev) (ucast reg * 4) v"

definition RREG32_abs :: "'d DeviceContext \<Rightarrow> u32 \<Rightarrow> 'd \<Rightarrow> u32 \<times> 'd" where
  "RREG32_abs dev reg = rd32 dev (bar5MemIndex dev) (ucast reg * 4)"

definition RBAR2_32 :: "'d DeviceContext \<Rightarrow> u64 \<Rightarrow> 'd \<Rightarrow> u32 \<times> 'd" where
  "RBAR2_32 dev off = rd32 dev (bar0MemIndex dev) off"

definition WBAR0_32 :: "'d DeviceContext \<Rightarrow> u64 \<Rightarrow> u32 \<Rightarrow> 'd \<Rightarrow> 'd" where
  "WBAR0_32 dev off v = wr32 dev (bar0MemIndex dev) off v"

definition amdgpu_hdp_flush :: "'d DeviceContext \<Rightarrow> 'd \<Rightarrow> 'd" where
  "amdgpu_hdp_flush dev d =
     (let d = wr32 dev (bar5MemIndex dev) 0x44000 0 d
      in snd (rd32 dev (bar5MemIndex dev) (0x0DE3 * 4) d))"

definition indirect_read :: "'d DeviceContext \<Rightarrow> u64 \<Rightarrow> u64 \<Rightarrow> u32 \<Rightarrow> 'd \<Rightarrow> u32 \<times> 'd" where
  "indirect_read dev idx_byte dat_byte addr_byte d =
     (let d = wr32 dev (bar5MemIndex dev) idx_byte addr_byte d;
          d = snd (rd32 dev (bar5MemIndex dev) idx_byte d)
      in rd32 dev (bar5MemIndex dev) dat_byte d)"

definition indirect_write :: "'d DeviceContext \<Rightarrow> u64 \<Rightarrow> u64 \<Rightarrow> u32 \<Rightarrow> u32 \<Rightarrow> 'd \<Rightarrow> 'd" where
  "indirect_write dev idx_byte dat_byte addr_byte v d =
     (let d = wr32 dev (bar5MemIndex dev) idx_byte addr_byte d;
          d = snd (rd32 dev (bar5MemIndex dev) idx_byte d);
          d = wr32 dev (bar5MemIndex dev) dat_byte v d
      in snd (rd32 dev (bar5MemIndex dev) dat_byte d))"

definition SMN_RREG32 :: "'d DeviceContext \<Rightarrow> u32 \<Rightarrow> 'd \<Rightarrow> u32 \<times> 'd" where
  "SMN_RREG32 dev reg = indirect_read dev (0x000E * 4) (0x000F * 4) (push_bit 2 reg)"

definition SMN_WREG32 :: "'d DeviceContext \<Rightarrow> u32 \<Rightarrow> u32 \<Rightarrow> 'd \<Rightarrow> 'd" where
  "SMN_WREG32 dev reg v = indirect_write dev (0x000E * 4) (0x000F * 4) (push_bit 2 reg) v"

definition PCIE_PORT_RREG32 :: "'d DeviceContext \<Rightarrow> u32 \<Rightarrow> 'd \<Rightarrow> u32 \<times> 'd" where
  "PCIE_PORT_RREG32 dev reg =
     indirect_read dev (ucast (SOC15_REG_OFFSET_BIDX dev NBIO 1 0x0000) * 4)
       (ucast (SOC15_REG_OFFSET_BIDX dev NBIO 1 0x0001) * 4) (push_bit 2 reg)"

definition PCIE_PORT_WREG32 :: "'d DeviceContext \<Rightarrow> u32 \<Rightarrow> u32 \<Rightarrow> 'd \<Rightarrow> 'd" where
  "PCIE_PORT_WREG32 dev reg v =
     indirect_write dev (ucast (SOC15_REG_OFFSET_BIDX dev NBIO 1 0x0000) * 4)
       (ucast (SOC15_REG_OFFSET_BIDX dev NBIO 1 0x0001) * 4) (push_bit 2 reg) v"

definition RVRAM32_via_mm :: "'d DeviceContext \<Rightarrow> u64 \<Rightarrow> 'd \<Rightarrow> u32 \<times> 'd" where
  "RVRAM32_via_mm dev pos d =
     (let d = WREG32 dev 0x0 (ucast pos OR 0x80000000) d;
          d = WREG32 dev 0x6 (ucast (drop_bit 31 pos)) d
      in RREG32 dev 0x1 d)"

section \<open>Polls\<close>

text \<open>
  A poll reads the register at least once and gives up at the first read at or after the
  deadline. Nothing in the code bounds the number of reads, only the clock does: \<open>None\<close> is a poll
  that never returns.
\<close>

partial_function (option) poll_loop ::
  "'d DeviceContext \<Rightarrow> u32 \<Rightarrow> u32 \<Rightarrow> u32 \<Rightarrow> u64 \<Rightarrow> u64 \<Rightarrow> 'd \<Rightarrow> ((bool \<times> u32) \<times> 'd) option"
where
  "poll_loop dev reg msk expected timeout_us start d =
     (let (v, d) = RREG32 dev reg d
      in if v = 0xFFFFFFFF then Some ((False, v), d)
      else if v AND msk = expected then Some ((True, v), d)
      else let (now, d) = now_ns dev d
        in if timeout_us \<le> (now - start) div 1000 then Some ((False, v), d)
        else poll_loop dev reg msk expected timeout_us start (sleep_ms dev 1 d))"

definition poll_reg ::
  "'d DeviceContext \<Rightarrow> u32 \<Rightarrow> u32 \<Rightarrow> u32 \<Rightarrow> u64 \<Rightarrow> 'd \<Rightarrow> ((bool \<times> u32) \<times> 'd) option"
where
  "poll_reg dev reg msk expected timeout_us d =
     (let (start, d) = now_ns dev d in poll_loop dev reg msk expected timeout_us start d)"

partial_function (option) psp_poll_loop ::
  "'d DeviceContext \<Rightarrow> u32 \<Rightarrow> u32 \<Rightarrow> u32 \<Rightarrow> u64 \<Rightarrow> u64 \<Rightarrow> 'd \<Rightarrow> ((kern_return \<times> u32) \<times> 'd) option"
where
  "psp_poll_loop dev reg msk expected timeout_us start d =
     (let (v, d) = RREG32 dev reg d
      in if v = 0xFFFFFFFF then Some ((kIOReturnNotAttached, v), d)
      else if v AND 0x80000000 \<noteq> 0 \<and> v AND 0x0000FFFF \<noteq> 0 then Some ((kIOReturnIOError, v), d)
      else if v AND msk = expected then Some ((kIOReturnSuccess, v), d)
      else let (now, d) = now_ns dev d
        in if timeout_us \<le> (now - start) div 1000 then Some ((kIOReturnTimeout, v), d)
        else psp_poll_loop dev reg msk expected timeout_us start (sleep_ms dev 1 d))"

definition poll_psp_response ::
  "'d DeviceContext \<Rightarrow> u32 \<Rightarrow> u32 \<Rightarrow> u32 \<Rightarrow> u64 \<Rightarrow> 'd \<Rightarrow> ((kern_return \<times> u32) \<times> 'd) option"
where
  "poll_psp_response dev reg msk expected timeout_us d =
     (let (start, d) = now_ns dev d in psp_poll_loop dev reg msk expected timeout_us start d)"

declare poll_loop.simps [code] psp_poll_loop.simps [code]

section \<open>Documented behaviour of the device\<close>

text \<open>
  What the theorems assume of PCIDriverKit and the clock, where they assume anything. \<open>mem\<close> is VRAM
  as the BAR0 window shows it: a BAR0 read returns its dword, no read changes it, and a write
  changes at most the VRAM dword it names (it may also be lost). Registers are not assumed to keep what is
  written to them. The clock never runs backwards, sleeping moves it on, and no single call takes
  more than \<open>2 ^ 40\<close> ns.
\<close>

definition reads_memory :: "'d DeviceContext \<Rightarrow> ('d \<Rightarrow> u64 \<Rightarrow> u32) \<Rightarrow> bool" where
  "reads_memory dev mem \<longleftrightarrow>
     (\<forall>off d. fst (rd32 dev (bar0MemIndex dev) off d) = mem d off) \<and>
     (\<forall>bar off d. mem (snd (rd32 dev bar off d)) = mem d)"

definition writes_local :: "'d DeviceContext \<Rightarrow> ('d \<Rightarrow> u64 \<Rightarrow> u32) \<Rightarrow> bool" where
  "writes_local dev mem \<longleftrightarrow>
     (\<forall>bar off v d x. bar = bar0MemIndex dev \<and> x = off \<or> mem (wr32 dev bar off v d) x = mem d x)"

definition waits_keep_memory :: "'d DeviceContext \<Rightarrow> ('d \<Rightarrow> u64 \<Rightarrow> u32) \<Rightarrow> bool" where
  "waits_keep_memory dev mem \<longleftrightarrow>
     (\<forall>d ms. mem (snd (now_ns dev d)) = mem d \<and> mem (sleep_ms dev ms d) = mem d)"

definition clock_runs :: "'d DeviceContext \<Rightarrow> ('d \<Rightarrow> nat) \<Rightarrow> bool" where
  "clock_runs dev T \<longleftrightarrow>
     (\<forall>d. fst (now_ns dev d) = word_of_nat (T d) \<and>
        T d \<le> T (snd (now_ns dev d)) \<and> T (snd (now_ns dev d)) \<le> T d + 2 ^ 40 \<and>
        T d < T (sleep_ms dev 1 d) \<and> T (sleep_ms dev 1 d) \<le> T d + 2 ^ 40 \<and>
        (\<forall>bar off. T d \<le> T (snd (rd32 dev bar off d)) \<and> T (snd (rd32 dev bar off d)) \<le> T d + 2 ^ 40 \<and>
           T d \<le> T (snd (rd64 dev bar off d)) \<and> T (snd (rd64 dev bar off d)) \<le> T d + 2 ^ 40))"

text \<open>A memory with a clock, for the witnesses.\<close>

type_synonym ram = "(u8 \<Rightarrow> u64 \<Rightarrow> u32) \<times> nat"

definition ram_pci :: "ram pci" where
  "ram_pci = \<lparr>MemoryRead32 = (\<lambda>bar off d. (fst d bar off, d)),
     MemoryWrite32 = (\<lambda>bar off v d. ((fst d)(bar := (fst d bar)(off := v)), snd d)),
     MemoryRead64 = (\<lambda>bar off d. (ucast (fst d bar off) OR push_bit 32 (ucast (fst d bar (off + 4))), d)),
     MemoryWrite64 = (\<lambda>bar off v d. ((fst d)(bar := (fst d bar)(off := ucast v, off + 4 := ucast (drop_bit 32 v))), snd d)),
     uptime_ns = (\<lambda>d. (word_of_nat (snd d), d)),
     IOSleep = (\<lambda>ms d. (fst d, snd d + 1000000))\<rparr>"

definition ram_dev :: "ram DeviceContext" where
  "ram_dev = \<lparr>pci = Some ram_pci, bar0MemIndex = 0, bar2MemIndex = 1, bar5MemIndex = 2,
     bar0Size = 0x10000000, bar2Size = 0x200000,
     dev_ip = ip_new\<lparr>ip_base := (\<lambda>b i. 0x1000)\<rparr>, psoCAlive = False, smuOnline = False,
     smuMessagePending = False, gmcReady = False, dev_doorbell = doorbell_zero, doorbell_works = False\<rparr>"

lemmas access_defs = rd32_def wr32_def rd64_def wr64_def now_ns_def sleep_ms_def

definition ram_mem :: "ram \<Rightarrow> u64 \<Rightarrow> u32" where "ram_mem d = fst d 0"

lemma ram_dev_ok:
  "reads_memory ram_dev ram_mem" "writes_local ram_dev ram_mem" "waits_keep_memory ram_dev ram_mem"
  "clock_runs ram_dev snd"
  by (auto simp: reads_memory_def writes_local_def waits_keep_memory_def clock_runs_def access_defs
      ram_dev_def ram_pci_def ram_mem_def)

section \<open>Correctness of the polls\<close>

lemma elapsed_word:
  assumes "S \<le> t" "t - S < 18446744073709551616"
  shows "unat (word_of_nat t - word_of_nat S :: u64) = t - S"
proof -
  have "(word_of_nat t - word_of_nat S :: u64) = word_of_nat (t - S)"
    using assms(1) by (simp add: of_nat_diff)
  then show ?thesis using assms(2) by (simp add: unat_of_nat)
qed

lemma poll_loop_returns:
  assumes clk: "clock_runs dev T" and small: "unat timeout_us * 1000 + 2 ^ 42 < (2::nat) ^ 64"
    and "S \<le> T d" "T d - S < unat timeout_us * 1000 + 2 ^ 41"
  shows "\<exists>r. poll_loop dev reg msk expected timeout_us (word_of_nat S) d = Some r"
  using assms(3,4)
proof (induction "S + unat timeout_us * 1000 + 2 ^ 42 - T d" arbitrary: d rule: less_induct)
  case less
  obtain v d1 where r1: "RREG32 dev reg d = (v, d1)" by fastforce
  obtain now d2 where r2: "now_ns dev d1 = (now, d2)" by fastforce
  let ?d3 = "sleep_ms dev 1 d2"
  have t1: "T d \<le> T d1" "T d1 \<le> T d + 2 ^ 40"
    using clk r1 by (auto simp: clock_runs_def RREG32_def) (metis snd_conv)+
  have t2: "now = word_of_nat (T d1)" "T d1 \<le> T d2" "T d2 \<le> T d1 + 2 ^ 40"
    using clk r2 by (auto simp: clock_runs_def) (metis fst_conv snd_conv)+
  have t3: "T d2 < T ?d3" "T ?d3 \<le> T d2 + 2 ^ 40" using clk by (auto simp: clock_runs_def)
  show ?case
  proof (cases "v = 0xFFFFFFFF \<or> v AND msk = expected \<or> timeout_us \<le> (now - word_of_nat S) div 1000")
    case True
    then show ?thesis by (subst poll_loop.simps) (auto simp: r1 r2)
  next
    case False
    have el: "unat (now - word_of_nat S) = T d1 - S"
      using less.prems t1 small by (simp add: t2(1) elapsed_word)
    have "unat ((now - word_of_nat S) div 1000) = (T d1 - S) div 1000"
      by (simp add: unat_div el)
    then have "(T d1 - S) div 1000 < unat timeout_us" using False by (simp add: word_le_nat_alt)
    then have lt: "T d1 - S < unat timeout_us * 1000" by (simp add: div_less_iff_less_mult)
    have "\<exists>r. poll_loop dev reg msk expected timeout_us (word_of_nat S) ?d3 = Some r"
    proof (rule less.hyps)
      show "S + unat timeout_us * 1000 + 2 ^ 42 - T ?d3 < S + unat timeout_us * 1000 + 2 ^ 42 - T d"
        using less.prems t1 t2 t3 by simp
      show "S \<le> T ?d3" using less.prems t1 t2 t3 by simp
      show "T ?d3 - S < unat timeout_us * 1000 + 2 ^ 41" using lt less.prems t1 t2 t3 by simp
    qed
    then show ?thesis using False by (subst poll_loop.simps) (simp add: r1 r2)
  qed
qed

lemma poll_reg_returns:
  assumes "clock_runs dev T" "unat timeout_us * 1000 + 2 ^ 42 < (2::nat) ^ 64"
  shows "\<exists>r. poll_reg dev reg msk expected timeout_us d = Some r"
proof -
  obtain start d1 where r: "now_ns dev d = (start, d1)" by fastforce
  then have "start = word_of_nat (T d)" "T d \<le> T d1" "T d1 \<le> T d + 2 ^ 40"
    using assms(1) by (auto simp: clock_runs_def) (metis fst_conv snd_conv)+
  then show ?thesis
    using poll_loop_returns [OF assms, of "T d" d1] by (simp add: poll_reg_def r)
qed

text \<open>What a poll's answer says about the last value it read.\<close>

lemma poll_loop_answer:
  assumes "poll_loop dev reg msk expected timeout_us start d = Some y"
  shows "fst (fst y) \<longleftrightarrow> snd (fst y) \<noteq> 0xFFFFFFFF \<and> snd (fst y) AND msk = expected"
  by (rule poll_loop.raw_induct [where P = "\<lambda>dev reg msk expected timeout_us start d y.
        fst (fst y) \<longleftrightarrow> snd (fst y) \<noteq> 0xFFFFFFFF \<and> snd (fst y) AND msk = expected", OF _ assms])
    (auto split: prod.splits if_splits)

lemma poll_reg_answer:
  assumes "poll_reg dev reg msk expected timeout_us d = Some ((ok, v), d')"
  shows "ok \<longleftrightarrow> v \<noteq> 0xFFFFFFFF \<and> v AND msk = expected"
proof -
  obtain start d1 where "now_ns dev d = (start, d1)" by fastforce
  then have "poll_loop dev reg msk expected timeout_us start d1 = Some ((ok, v), d')"
    using assms by (simp add: poll_reg_def)
  from poll_loop_answer [OF this] show ?thesis by simp
qed

text \<open>A poll only reads: the memory is as before.\<close>

lemma poll_loop_mem:
  assumes "reads_memory dev mem" "waits_keep_memory dev mem"
    "poll_loop dev reg msk expected timeout_us start d = Some y"
  shows "mem (snd y) = mem d"
proof -
  have rd: "mem d1 = mem d" if "RREG32 dev reg d = (v, d1)" for reg v d d1
    using assms(1) that unfolding reads_memory_def RREG32_def by (metis snd_conv)
  have now: "mem d1 = mem d" if "now_ns dev d = (v, d1)" for v d d1
    using assms(2) that unfolding waits_keep_memory_def by (metis snd_conv)
  have sl: "mem (sleep_ms dev ms d) = mem d" for ms d using assms(2) by (simp add: waits_keep_memory_def)
  have "dev = dev \<longrightarrow> mem (snd y) = mem d"
  proof (rule poll_loop.raw_induct [where P = "\<lambda>dev' reg msk expected timeout_us start d y.
        dev' = dev \<longrightarrow> mem (snd y) = mem d", OF _ assms(3)])
    fix poll dev' reg msk expected timeout_us start d and y :: "(bool \<times> u32) \<times> 'a"
    assume IH: "\<And>dev' reg msk expected timeout_us start d y.
        poll dev' reg msk expected timeout_us start d = Some y \<Longrightarrow> dev' = dev \<longrightarrow> mem (snd y) = mem d"
      and run: "(let (v, d) = RREG32 dev' reg d
        in if v = 0xFFFFFFFF then Some ((False, v), d)
        else if v AND msk = expected then Some ((True, v), d)
        else let (now, d) = now_ns dev' d
          in if timeout_us \<le> (now - start) div 1000 then Some ((False, v), d)
          else poll dev' reg msk expected timeout_us start (sleep_ms dev' 1 d)) = Some y"
    show "dev' = dev \<longrightarrow> mem (snd y) = mem d"
    proof
      assume "dev' = dev"
      with run show "mem (snd y) = mem d"
        by (auto split: prod.splits if_splits dest!: rd now IH simp: sl)
    qed
  qed
  then show ?thesis by simp
qed

lemma poll_reg_mem:
  assumes "reads_memory dev mem" "waits_keep_memory dev mem"
    "poll_reg dev reg msk expected timeout_us d = Some y"
  shows "mem (snd y) = mem d"
proof -
  obtain start d1 where n: "now_ns dev d = (start, d1)" by fastforce
  then have "poll_loop dev reg msk expected timeout_us start d1 = Some y"
    using assms(3) by (simp add: poll_reg_def)
  then have "mem (snd y) = mem d1" by (rule poll_loop_mem [OF assms(1,2)])
  moreover have "mem d1 = mem d" using assms(2) n unfolding waits_keep_memory_def by (metis snd_conv)
  ultimately show ?thesis by simp
qed

end
