(* ===== verification/Vram_IO.thy ===== *)
theory Vram_IO
  imports Device
begin

text \<open>
  Access to VRAM through the BAR0 window: the bulk copies of \<^verbatim>\<open>amdgpu_regs.h\<close> and the verified
  writes of \<^verbatim>\<open>amdgpu_vram_io.h\<close>. PCIDriverKit's accessors report no error, so a verified write reads
  everything back before it reports success.
\<close>

section \<open>Bulk copies\<close>

text \<open>The three loops of \<open>bar0_memcpy_to_vram\<close>: 32-bit lead-in, 64-bit bulk, 32-bit tail.\<close>

function copy_lead :: "'d DeviceContext \<Rightarrow> u64 \<Rightarrow> u8 list \<Rightarrow> nat \<Rightarrow> 'd \<Rightarrow> nat \<times> 'd" where
  "copy_lead dev vo src off d =
     (if (vo + word_of_nat off) mod 8 \<noteq> 0 \<and> off + 4 \<le> length src
      then copy_lead dev vo src (off + 4) (WBAR0_32 dev (vo + word_of_nat off) (le32 src off) d)
      else (off, d))"
  by pat_completeness auto
termination by (relation "measure (\<lambda>(dev, vo, src, off, d). length src - off)") auto

function copy_bulk :: "'d DeviceContext \<Rightarrow> u64 \<Rightarrow> u8 list \<Rightarrow> nat \<Rightarrow> 'd \<Rightarrow> nat \<times> 'd" where
  "copy_bulk dev vo src off d =
     (if off + 8 \<le> length src
      then copy_bulk dev vo src (off + 8)
             (wr64 dev (bar0MemIndex dev) (vo + word_of_nat off) (le64 src off) d)
      else (off, d))"
  by pat_completeness auto
termination by (relation "measure (\<lambda>(dev, vo, src, off, d). length src - off)") auto

function copy_tail :: "'d DeviceContext \<Rightarrow> u64 \<Rightarrow> u8 list \<Rightarrow> nat \<Rightarrow> 'd \<Rightarrow> nat \<times> 'd" where
  "copy_tail dev vo src off d =
     (if off + 4 \<le> length src
      then copy_tail dev vo src (off + 4) (WBAR0_32 dev (vo + word_of_nat off) (le32 src off) d)
      else (off, d))"
  by pat_completeness auto
termination by (relation "measure (\<lambda>(dev, vo, src, off, d). length src - off)") auto

declare copy_lead.simps [simp del] copy_bulk.simps [simp del] copy_tail.simps [simp del]

text \<open>A last partial dword is padded with zeros, as \<open>byte_at\<close> reads past the end.\<close>

definition bar0_memcpy_to_vram :: "'d DeviceContext \<Rightarrow> u64 \<Rightarrow> u8 list \<Rightarrow> 'd \<Rightarrow> 'd" where
  "bar0_memcpy_to_vram dev vo src d =
     (let (off, d) = copy_lead dev vo src 0 d;
          (off, d) = copy_bulk dev vo src off d;
          (off, d) = copy_tail dev vo src off d
      in if off < length src then WBAR0_32 dev (vo + word_of_nat off) (le32 src off) d else d)"

function fill_lead :: "'d DeviceContext \<Rightarrow> u64 \<Rightarrow> u32 \<Rightarrow> nat \<Rightarrow> nat \<Rightarrow> 'd \<Rightarrow> nat \<times> 'd" where
  "fill_lead dev vo pat n off d =
     (if (vo + word_of_nat off) mod 8 \<noteq> 0 \<and> off + 4 \<le> n
      then fill_lead dev vo pat n (off + 4) (WBAR0_32 dev (vo + word_of_nat off) pat d)
      else (off, d))"
  by pat_completeness auto
termination by (relation "measure (\<lambda>(dev, vo, pat, n, off, d). n - off)") auto

function fill_bulk :: "'d DeviceContext \<Rightarrow> u64 \<Rightarrow> u64 \<Rightarrow> nat \<Rightarrow> nat \<Rightarrow> 'd \<Rightarrow> nat \<times> 'd" where
  "fill_bulk dev vo pat n off d =
     (if off + 8 \<le> n
      then fill_bulk dev vo pat n (off + 8) (wr64 dev (bar0MemIndex dev) (vo + word_of_nat off) pat d)
      else (off, d))"
  by pat_completeness auto
termination by (relation "measure (\<lambda>(dev, vo, pat, n, off, d). n - off)") auto

function fill_tail :: "'d DeviceContext \<Rightarrow> u64 \<Rightarrow> u32 \<Rightarrow> nat \<Rightarrow> nat \<Rightarrow> 'd \<Rightarrow> nat \<times> 'd" where
  "fill_tail dev vo pat n off d =
     (if off + 4 \<le> n
      then fill_tail dev vo pat n (off + 4) (WBAR0_32 dev (vo + word_of_nat off) pat d)
      else (off, d))"
  by pat_completeness auto
termination by (relation "measure (\<lambda>(dev, vo, pat, n, off, d). n - off)") auto

declare fill_lead.simps [simp del] fill_bulk.simps [simp del] fill_tail.simps [simp del]

definition bar0_memset_vram :: "'d DeviceContext \<Rightarrow> u64 \<Rightarrow> u32 \<Rightarrow> nat \<Rightarrow> 'd \<Rightarrow> 'd" where
  "bar0_memset_vram dev vo pat n d =
     (let pattern64 = push_bit 32 (ucast pat) OR ucast pat;
          (off, d) = fill_lead dev vo pat n 0 d;
          (off, d) = fill_bulk dev vo pattern64 n off d
      in snd (fill_tail dev vo pat n off d))"

section \<open>Verified writes\<close>

definition vram_io_range :: "'d DeviceContext \<Rightarrow> u64 \<Rightarrow> u64 \<Rightarrow> bool" where
  "vram_io_range dev off bytes \<longleftrightarrow> bytes \<noteq> 0 \<and> off AND 3 = 0 \<and> bytes AND 3 = 0 \<and>
     off \<le> bar0Size dev \<and> bytes \<le> bar0Size dev - off"

text \<open>The loops \<^verbatim>\<open>for (i = 0; i < bytes; i += 4)\<close>, by the number of dwords left.\<close>

fun vram_put :: "'d DeviceContext \<Rightarrow> u64 \<Rightarrow> u8 list \<Rightarrow> nat \<Rightarrow> nat \<Rightarrow> 'd \<Rightarrow> 'd" where
  "vram_put dev off src i 0 d = d"
| "vram_put dev off src i (Suc n) d =
     vram_put dev off src (i + 4) n (WBAR0_32 dev (off + word_of_nat i) (le32 src i) d)"

fun vram_verify :: "'d DeviceContext \<Rightarrow> u64 \<Rightarrow> u8 list \<Rightarrow> nat \<Rightarrow> nat \<Rightarrow> 'd \<Rightarrow> bool \<times> 'd" where
  "vram_verify dev off src i 0 d = (True, d)"
| "vram_verify dev off src i (Suc n) d =
     (let (observed, d) = rd32 dev (bar0MemIndex dev) (off + word_of_nat i) d
      in if observed \<noteq> le32 src i then (False, d) else vram_verify dev off src (i + 4) n d)"

definition vram_write_verified ::
  "'d DeviceContext \<Rightarrow> u64 \<Rightarrow> u8 list option \<Rightarrow> u64 \<Rightarrow> 'd \<Rightarrow> kern_return \<times> 'd"
where
  "vram_write_verified dev off source bytes d =
     (if pci dev = None then (kIOReturnNotAttached, d)
      else (case source of
          None \<Rightarrow> (kIOReturnBadArgument, d)
        | Some src \<Rightarrow>
            if \<not> vram_io_range dev off bytes then (kIOReturnBadArgument, d)
            else let n = unat bytes div 4;
                     (ok, d) = vram_verify dev off src 0 n (vram_put dev off src 0 n d)
              in (if ok then kIOReturnSuccess else kIOReturnIOError, d)))"

definition vram_read_fence64 :: "'d DeviceContext \<Rightarrow> u64 \<Rightarrow> 'd \<Rightarrow> (kern_return \<times> u64) \<times> 'd" where
  "vram_read_fence64 dev off d =
     (if pci dev = None then ((kIOReturnNotAttached, 0), d)
      else if off AND 7 \<noteq> 0 \<or> \<not> vram_io_range dev off 8 then ((kIOReturnBadArgument, 0), d)
      else let (v, d) = rd64 dev (bar0MemIndex dev) off d
        in ((if v = 0xFFFFFFFFFFFFFFFF then kIOReturnNotAttached else kIOReturnSuccess, v), d))"

definition vram_read_fence32 :: "'d DeviceContext \<Rightarrow> u64 \<Rightarrow> 'd \<Rightarrow> (kern_return \<times> u32) \<times> 'd" where
  "vram_read_fence32 dev off d =
     (if pci dev = None then ((kIOReturnNotAttached, 0), d)
      else if \<not> vram_io_range dev off 4 then ((kIOReturnBadArgument, 0), d)
      else let (v, d) = rd32 dev (bar0MemIndex dev) off d
        in ((if v = 0xFFFFFFFF then kIOReturnNotAttached else kIOReturnSuccess, v), d))"

text \<open>\<^verbatim>\<open>while (bytes)\<close> in chunks of at most the 256 zero bytes of the local array.\<close>

function vram_clear_loop :: "'d DeviceContext \<Rightarrow> u64 \<Rightarrow> u64 \<Rightarrow> 'd \<Rightarrow> kern_return \<times> 'd" where
  "vram_clear_loop dev off bytes d =
     (if bytes = 0 then (kIOReturnSuccess, d)
      else let chunk = (if bytes < 256 then bytes else 256);
               (r, d) = vram_write_verified dev off (Some (replicate 256 0)) chunk d
        in if r \<noteq> kIOReturnSuccess then (r, d) else vram_clear_loop dev (off + chunk) (bytes - chunk) d)"
  by pat_completeness auto
termination
proof (relation "measure (\<lambda>(dev, off, bytes, d). unat bytes)", goal_cases)
  case (2 dev off bytes d chunk rd r e)
  then have "0 < unat bytes" by (simp add: unat_gt_0)
  moreover have "chunk \<le> bytes" "0 < unat chunk" using 2 by (auto simp: unat_gt_0 not_less)
  ultimately show ?case by (simp add: word_nat)
qed simp

declare vram_clear_loop.simps [simp del]

definition vram_clear_verified :: "'d DeviceContext \<Rightarrow> u64 \<Rightarrow> u64 \<Rightarrow> 'd \<Rightarrow> kern_return \<times> 'd" where
  "vram_clear_verified dev off bytes d =
     (if pci dev = None then (kIOReturnNotAttached, d)
      else if \<not> vram_io_range dev off bytes then (kIOReturnBadArgument, d)
      else vram_clear_loop dev off bytes d)"

section \<open>What a verified write means\<close>

lemma rd32_mem:
  assumes "reads_memory dev mem" "rd32 dev bar off d = (v, d')"
  shows "bar = bar0MemIndex dev \<Longrightarrow> v = mem d off" "mem d' = mem d"
  using assms unfolding reads_memory_def by (metis fst_conv, metis snd_conv)

lemma vram_put_frame:
  assumes "writes_local dev mem"
    "\<forall>k < n. x \<noteq> off + word_of_nat (i + 4 * k)"
  shows "mem (vram_put dev off src i n d) x = mem d x"
  using assms(2)
proof (induction n arbitrary: i d)
  case (Suc n)
  have "mem (vram_put dev off src (i + 4) n (WBAR0_32 dev (off + word_of_nat i) (le32 src i) d)) x =
      mem (WBAR0_32 dev (off + word_of_nat i) (le32 src i) d) x"
  proof (rule Suc.IH)
    show "\<forall>k < n. x \<noteq> off + word_of_nat (i + 4 + 4 * k)"
      using Suc.prems by (metis Suc_mono add.assoc mult_Suc_right)
  qed
  also have "\<dots> = mem d x"
  proof -
    have "x \<noteq> off + word_of_nat (i + 4 * 0)" using Suc.prems by blast
    then have "x \<noteq> off + word_of_nat i" by simp
    then show ?thesis using assms(1) unfolding writes_local_def WBAR0_32_def by blast
  qed
  finally show ?case by simp
qed simp

lemma vram_verify_spec:
  assumes "reads_memory dev mem" "vram_verify dev off src i n d = (ok, d')"
  shows "mem d' = mem d \<and>
    (ok \<longrightarrow> (\<forall>k < n. mem d (off + word_of_nat (i + 4 * k)) = le32 src (i + 4 * k)))"
  using assms(2)
proof (induction n arbitrary: i d)
  case (Suc n)
  obtain v d1 where r: "rd32 dev (bar0MemIndex dev) (off + word_of_nat i) d = (v, d1)" by fastforce
  note m = rd32_mem [OF assms(1) r]
  show ?case
  proof (cases "v = le32 src i")
    case True
    then have "vram_verify dev off src (i + 4) n d1 = (ok, d')" using Suc.prems r by simp
    note IH = Suc.IH [OF this]
    have "mem d (off + word_of_nat (i + 4 * k)) = le32 src (i + 4 * k)"
      if "ok" "k < Suc n" for k
    proof (cases k)
      case 0
      with m True show ?thesis by simp
    next
      case (Suc j)
      then show ?thesis using IH that m(2) by (simp add: add.assoc)
    qed
    with IH m show ?thesis by simp
  next
    case False
    with Suc.prems r m show ?thesis by auto
  qed
qed simp

text \<open>The dwords a range of VRAM holds.\<close>

definition vram_holds ::
  "'d DeviceContext \<Rightarrow> ('d \<Rightarrow> u64 \<Rightarrow> u32) \<Rightarrow> 'd \<Rightarrow> u64 \<Rightarrow> (nat \<Rightarrow> u32) \<Rightarrow> nat \<Rightarrow> bool"
where
  "vram_holds dev mem d off f n \<longleftrightarrow>
     (\<forall>k < n. mem d (off + word_of_nat (4 * k)) = f k)"

lemma vram_write_verified_ok:
  assumes "vram_write_verified dev off source bytes d = (kIOReturnSuccess, d')"
  obtains src where "source = Some src" "vram_io_range dev off bytes"
    "vram_verify dev off src 0 (unat bytes div 4) (vram_put dev off src 0 (unat bytes div 4) d) = (True, d')"
  using assms
  by (auto simp: vram_write_verified_def Let_def split: if_splits option.splits prod.splits)

lemma vram_write_stores:
  assumes "reads_memory dev mem" "vram_write_verified dev off (Some src) bytes d = (kIOReturnSuccess, d')"
  shows "vram_io_range dev off bytes \<and> vram_holds dev mem d' off (\<lambda>k. le32 src (4 * k)) (unat bytes div 4)"
proof -
  from assms(2) obtain src' where s: "Some src = Some src'" "vram_io_range dev off bytes"
    "vram_verify dev off src' 0 (unat bytes div 4) (vram_put dev off src' 0 (unat bytes div 4) d) = (True, d')"
    by (rule vram_write_verified_ok)
  show ?thesis
    using vram_verify_spec [OF assms(1) s(3)] s(1,2) by (simp add: vram_holds_def)
qed

text \<open>
  C12. If \<open>vram_write_verified\<close> reports success, the range holds the data, whatever the writes did:
  writes may be lost on the way, only reads have to be honest.
\<close>

theorem vram_write_verified_holds:
  assumes "reads_memory dev mem" "vram_write_verified dev off (Some src) bytes d = (kIOReturnSuccess, d')"
  shows "vram_io_range dev off bytes \<and> vram_holds dev mem d' off (\<lambda>k. le32 src (4 * k)) (unat bytes div 4)"
  using assms by (rule vram_write_stores)

lemma vram_write_verified_holds_witness:
  "\<exists>d'. vram_write_verified ram_dev 64 (Some [1, 2, 3, 4]) 4 ((\<lambda>_ _. 0), 0) = (kIOReturnSuccess, d') \<and>
    vram_io_range ram_dev 64 4 \<and> vram_holds ram_dev ram_mem d' 64 (\<lambda>k. le32 [1, 2, 3, 4] (4 * k)) (unat (4 :: u64) div 4)"
proof -
  have "fst (vram_write_verified ram_dev 64 (Some [1, 2, 3, 4]) 4 ((\<lambda>_ _. 0), 0)) = kIOReturnSuccess"
    by (simp add: vram_write_verified_def vram_io_range_def ram_dev_def ram_pci_def access_defs WBAR0_32_def)
  then obtain d' where "vram_write_verified ram_dev 64 (Some [1, 2, 3, 4]) 4 ((\<lambda>_ _. 0), 0) = (kIOReturnSuccess, d')"
    by (metis prod.collapse)
  with vram_write_verified_holds [OF ram_dev_ok(1) this] show ?thesis by blast
qed

section \<open>Verified clearing\<close>

lemma vram_io_range_bounds:
  assumes "vram_io_range dev off bytes"
  shows "unat off + unat bytes \<le> unat (bar0Size dev)" "4 dvd unat off" "4 dvd unat bytes"
    "0 < unat bytes" "unat off + unat bytes < 18446744073709551616"
proof -
  have p4: "is_pow2 (4 :: u64)" by (simp add: is_pow2_def)
  show "4 dvd unat off" "4 dvd unat bytes"
    using assms and_mask_dvd [OF p4, of off] and_mask_dvd [OF p4, of bytes] by (simp_all add: vram_io_range_def)
  show "0 < unat bytes" using assms by (simp add: vram_io_range_def unat_gt_0)
  have "off \<le> bar0Size dev" "unat bytes \<le> unat (bar0Size dev - off)"
    using assms by (simp_all add: vram_io_range_def word_le_nat_alt)
  then show le: "unat off + unat bytes \<le> unat (bar0Size dev)"
    by (simp add: word_nat word_le_nat_alt)
  show "unat off + unat bytes < 18446744073709551616"
    using le unat_lt_64 by (rule le_less_trans)
qed

lemma range_addr:
  assumes "unat off + unat bytes < 18446744073709551616" "i < unat bytes"
  shows "unat (off + word_of_nat i :: u64) = unat off + i"
proof -
  have "unat (word_of_nat i :: u64) = i" using assms by (simp add: unat_of_nat)
  then show ?thesis using assms by (simp add: word_nat)
qed

lemma vram_write_frame:
  assumes mem: "reads_memory dev mem" "writes_local dev mem"
    and run: "vram_write_verified dev off source bytes d = (r, d')"
    and away: "vram_io_range dev off bytes \<Longrightarrow>
      unat x < unat off \<or> unat off + unat bytes \<le> unat x"
  shows "mem d' x = mem d x"
proof (cases "pci dev = None \<or> source = None \<or> \<not> vram_io_range dev off bytes")
  case True
  with run show ?thesis by (auto simp: vram_write_verified_def split: option.splits if_splits)
next
  case False
  then obtain src where src: "source = Some src" and io: "vram_io_range dev off bytes" by auto
  let ?n = "unat bytes div 4"
  obtain ok where v: "vram_verify dev off src 0 ?n (vram_put dev off src 0 ?n d) = (ok, d')"
    using run False src by (auto simp: vram_write_verified_def Let_def split: prod.splits)
  note B = vram_io_range_bounds [OF io]
  have "mem d' = mem (vram_put dev off src 0 ?n d)" using vram_verify_spec [OF mem(1) v] by blast
  moreover have "mem (vram_put dev off src 0 ?n d) x = mem d x"
  proof (rule vram_put_frame [OF mem(2)])
    have x: "unat x < unat off \<or> unat off + unat bytes \<le> unat x" using away io by blast
    show "\<forall>k < ?n. x \<noteq> off + word_of_nat (0 + 4 * k)"
    proof (intro allI impI notI)
      fix k assume k: "k < ?n" and eq: "x = off + word_of_nat (0 + 4 * k)"
      from k have "4 * k < unat bytes" by linarith
      then have "unat x = unat off + 4 * k" unfolding eq add_0 by (rule range_addr [OF B(5)])
      with x \<open>4 * k < unat bytes\<close> show False by linarith
    qed
  qed
  ultimately show ?thesis by simp
qed

lemma le32_zeros: "le32 (replicate n 0) i = 0"
  by (simp add: le32_def byte_at_def)

lemma vram_holds_mem:
  "mem d = mem d' \<Longrightarrow> vram_holds dev mem d off f n = vram_holds dev mem d' off f n"
  by (simp add: vram_holds_def)

lemma vram_clear_loop_spec:
  assumes mem: "reads_memory dev mem" "writes_local dev mem"
    and run: "vram_clear_loop dev off bytes d = (kIOReturnSuccess, d')"
    and B: "unat off + unat bytes < 18446744073709551616" "4 dvd unat bytes"
  shows "vram_holds dev mem d' off (\<lambda>_. 0) (unat bytes div 4) \<and>
    (\<forall>x. unat x < unat off \<or> unat off + unat bytes \<le> unat x \<longrightarrow>
       mem d' x = mem d x)"
  using run B mem
proof (induction dev off bytes d rule: vram_clear_loop.induct)
  case (1 dev off bytes d)
  note mem = 1(5,6)
  show ?case
  proof (cases "bytes = 0")
    case True
    with 1(2) show ?thesis by (simp add: vram_clear_loop.simps vram_holds_def)
  next
    case False
    define chunk where "chunk = (if bytes < 256 then bytes else (256 :: u64))"
    obtain r d1 where w: "vram_write_verified dev off (Some (replicate 256 0)) chunk d = (r, d1)" by fastforce
    have r: "r = kIOReturnSuccess" and rest: "vram_clear_loop dev (off + chunk) (bytes - chunk) d1 = (kIOReturnSuccess, d')"
      using 1(2) False w by (auto simp: vram_clear_loop.simps [of dev off bytes] Let_def chunk_def split: if_splits)
    have c: "unat chunk \<le> unat bytes" "4 dvd unat chunk" "chunk \<le> bytes"
      using 1(4) by (auto simp: chunk_def word_less_nat_alt word_le_nat_alt)
    have addr: "unat (off + chunk) = unat off + unat chunk" using c 1(3) by (simp add: word_nat)
    have len: "unat (bytes - chunk) = unat bytes - unat chunk" using c(3) by (rule unat_sub64)
    have IH: "vram_holds dev mem d' (off + chunk) (\<lambda>_. 0) (unat (bytes - chunk) div 4) \<and>
      (\<forall>x. unat x < unat (off + chunk) \<or>
         unat (off + chunk) + unat (bytes - chunk) \<le> unat x \<longrightarrow> mem d' x = mem d1 x)"
    proof (rule 1(1) [OF False chunk_def refl w [symmetric] _ rest _ _ mem])
      show "\<not> r \<noteq> kIOReturnSuccess" using r by simp
      show "unat (off + chunk) + unat (bytes - chunk) < 18446744073709551616" using addr len c 1(3) by simp
      show "4 dvd unat (bytes - chunk)" using len c 1(4) by (simp add: dvd_diff_nat)
    qed
    have here: "vram_holds dev mem d1 off (\<lambda>_. 0) (unat chunk div 4)"
      using vram_write_stores [OF mem(1) w [unfolded r]] by (simp add: le32_zeros)
    have "mem d' (off + word_of_nat (4 * k)) = 0" if "k < unat bytes div 4" for k
    proof (cases "k < unat chunk div 4")
      case True
      then have "4 * k < unat bytes" "4 * k < unat chunk" using c by linarith+
      then have "unat (off + word_of_nat (4 * k)) < unat (off + chunk)"
        unfolding addr range_addr [OF 1(3) \<open>4 * k < unat bytes\<close>] by simp
      then show ?thesis using IH here True by (simp add: vram_holds_def)
    next
      case no: False
      obtain q where q: "unat chunk = 4 * q" using c(2) by blast
      define j where "j = k - q"
      have j: "4 * k = unat chunk + 4 * j" using no q by (simp add: j_def)
      have "off + word_of_nat (4 * k) = off + chunk + word_of_nat (4 * j)"
        unfolding j by (simp add: add.assoc)
      moreover have "j < unat (bytes - chunk) div 4" using j that len by linarith
      then have "mem d' (off + chunk + word_of_nat (4 * j)) = 0"
        using IH unfolding vram_holds_def by blast
      ultimately show ?thesis by (simp only:)
    qed
    moreover have "mem d' x = mem d x"
      if away: "unat x < unat off \<or> unat off + unat bytes \<le> unat x" for x
    proof -
      have "mem d1 x = mem d x"
        using away c by (intro vram_write_frame [OF mem w]) auto
      then show ?thesis using IH away addr len c by auto
    qed
    ultimately show ?thesis by (simp add: vram_holds_def)
  qed
qed

lemma vram_clear_spec:
  assumes mem: "reads_memory dev mem" "writes_local dev mem"
    and run: "vram_clear_verified dev off bytes d = (kIOReturnSuccess, d')"
  shows "vram_io_range dev off bytes \<and> vram_holds dev mem d' off (\<lambda>_. 0) (unat bytes div 4) \<and>
    (\<forall>x. unat x < unat off \<or> unat off + unat bytes \<le> unat x \<longrightarrow>
       mem d' x = mem d x)"
proof -
  have io: "vram_io_range dev off bytes" and loop: "vram_clear_loop dev off bytes d = (kIOReturnSuccess, d')"
    using run by (auto simp: vram_clear_verified_def split: if_splits)
  show ?thesis
    using vram_clear_loop_spec [OF mem loop] vram_io_range_bounds [OF io] io by simp
qed

end
