(* ===== verification/Gmc.thy ===== *)
theory Gmc
  imports Vram_IO Vram Gart_Aperture
begin

text \<open>
  The memory controller: \<^verbatim>\<open>amdgpu_gmc_address.h\<close> (placement of the GART window), the pool split of
  \<^verbatim>\<open>amdgpu_buffer_io.h\<close>, and \<^verbatim>\<open>gmc_v12_0.cpp\<close> (geometry from the device, the two VRAM pools, the hub
  register tables and their programming, the TLB flush and the firmware bind). Log lines are
  left out. Buffer and DMA objects are DriverKit's: functions of an \<open>os\<close> record.
\<close>

section \<open>Address helpers\<close>

definition gfx12_host_window_valid :: "u64 \<Rightarrow> u64 \<Rightarrow> u64 \<Rightarrow> u64 \<Rightarrow> bool" where
  "gfx12_host_window_valid base sz fbStart fbEnd \<longleftrightarrow>
     sz \<noteq> 0 \<and> sz AND (sz - 1) = 0 \<and> 0x100000000 \<le> base \<and> base AND (sz - 1) = 0 \<and>
     base < 0x800000000000 \<and> sz \<le> 0x800000000000 - base \<and>
     fbStart \<le> fbEnd \<and> (fbEnd < base \<or> base + sz \<le> fbStart)"

definition gfx12_vram_walker_address :: "u64 \<Rightarrow> u64 \<Rightarrow> u64 \<Rightarrow> u64" where
  "gfx12_vram_walker_address mcAddress vramStart vramBaseOffset = mcAddress - vramStart + vramBaseOffset"

definition gfx12_gart_location_low :: "u64 \<Rightarrow> u64 \<Rightarrow> u64 \<Rightarrow> u64 option" where
  "gfx12_gart_location_low fbStart fbEnd sz =
     (if sz = 0 \<or> sz AND 0xfff \<noteq> 0 \<or> fbEnd < fbStart \<or> 0x800000000000 \<le> fbEnd then None
      else let candidate = (if sz \<le> fbStart then 0
                            else (fbEnd + 1 + 0x100000000 - 1) AND NOT (0x100000000 - 1))
        in if 0x800000000000 \<le> candidate \<or> 0x800000000000 - candidate < sz then None
           else Some candidate)"

definition kASPageSize :: u64 where "kASPageSize = 16384"

text \<open>
  \<open>None\<close> is \<^verbatim>\<open>return false\<close>; the pair is \<open>(poolBase, poolBytes)\<close>, both zero where the BAR covers all.
\<close>

definition buffer_device_pool :: "u64 \<Rightarrow> u64 \<Rightarrow> u64 \<Rightarrow> (u64 \<times> u64) option" where
  "buffer_device_pool base visible usable =
     (if visible = 0 \<or> usable < visible \<or> 0x1000000000000 \<le> base \<or>
         0x1000000000000 - base < usable \<or> base AND (16384 - 1) \<noteq> 0 then None
      else if usable \<le> 0x100000 \<or> 0xFFFFFFFFFFFFFFFF - (16384 - 1) < visible then Some (0, 0)
      else let start = align_up visible 16384;
               stop = (usable - 0x100000) AND NOT (16384 - 1)
        in if stop \<le> start then Some (0, 0) else Some (base + start, stop - start))"

section \<open>State\<close>

record HubContext =
  hub_inited :: bool
  ctx0_pt_base_lo :: u32
  ctx0_pt_base_hi :: u32
  ctx0_pt_start_lo :: u32
  ctx0_pt_start_hi :: u32
  ctx0_pt_end_lo :: u32
  ctx0_pt_end_hi :: u32
  ctx1_pt_start_lo :: u32
  ctx1_pt_start_hi :: u32
  ctx1_pt_end_lo :: u32
  ctx1_pt_end_hi :: u32
  ctx0_cntl :: u32
  ctx1_cntl :: u32
  vm_l2_cntl :: u32
  vm_l2_cntl2 :: u32
  vm_l2_cntl3 :: u32
  vm_l2_cntl4 :: u32
  vm_l2_cntl5 :: u32
  vm_l2_protection_fault_cntl :: u32
  vm_l2_protection_fault_cntl2 :: u32
  vm_l2_protection_fault_default_addr_lo32 :: u32
  vm_l2_protection_fault_default_addr_hi32 :: u32
  vm_l2_ctx1_identity_aperture_low_lo32 :: u32
  vm_l2_ctx1_identity_aperture_low_hi32 :: u32
  vm_l2_ctx1_identity_aperture_high_lo32 :: u32
  vm_l2_ctx1_identity_aperture_high_hi32 :: u32
  vm_l2_ctx_identity_physical_offset_lo32 :: u32
  vm_l2_ctx_identity_physical_offset_hi32 :: u32
  vm_l1_tlb_cntl :: u32
  vm_invalidate_eng0_req :: u32
  vm_invalidate_eng0_ack :: u32
  vm_invalidate_eng0_sem :: u32
  vm_l2_bank_select_reserved_cid2 :: u32
  vm_invalidate_eng0_addr_range_lo32 :: u32
  vm_invalidate_eng0_addr_range_hi32 :: u32
  vm_system_aperture_low_addr :: u32
  vm_system_aperture_high_addr :: u32
  vm_system_aperture_default_addr_lo :: u32
  vm_system_aperture_default_addr_hi :: u32
  vm_agp_base :: u32
  vm_agp_top :: u32
  vm_agp_bot :: u32
  vm_fb_location_base :: u32
  vm_fb_location_top :: u32
  vm_fb_offset :: u32
  ctx_distance :: u32
  ctx_addr_distance :: u32
  eng_distance :: u32
  eng_addr_distance :: u32
  hub_ip :: IPBlock

record GMCContext =
  gmc_inited :: bool
  real_vram_size :: u64
  visible_vram_size :: u64
  vram_start :: u64
  vram_end :: u64
  gart_size :: u64
  gart_start :: u64
  gart_end :: u64
  fb_start :: u64
  fb_end :: u64
  agp_start :: u64
  agp_end :: u64
  num_level :: u32
  block_size :: u32
  max_pfn :: u64
  vram_base_offset :: u64
  vram_alloc :: VRAMBumpAllocator
  device_vram_alloc :: VRAMBumpAllocator
  gart_pt_bus :: u64
  gart_pt_size :: u64
  dummy_page :: "(u64 \<times> u64) option" \<comment> \<open>buffer and DMA handle of the dummy page\<close>
  dummy_page_bus :: u64
  mem_scratch_bus :: u64
  gart_allocator :: GARTApertureAllocator
  mmhub :: HubContext
  gfxhub :: HubContext

text \<open>The zero-initialised contexts the driver starts from.\<close>

definition hub_zero :: HubContext where
  "hub_zero = \<lparr>
    hub_inited = False, ctx0_pt_base_lo = 0, ctx0_pt_base_hi = 0, ctx0_pt_start_lo = 0,
     ctx0_pt_start_hi = 0, ctx0_pt_end_lo = 0, ctx0_pt_end_hi = 0, ctx1_pt_start_lo = 0,
     ctx1_pt_start_hi = 0, ctx1_pt_end_lo = 0, ctx1_pt_end_hi = 0, ctx0_cntl = 0, ctx1_cntl = 0,
     vm_l2_cntl = 0, vm_l2_cntl2 = 0, vm_l2_cntl3 = 0, vm_l2_cntl4 = 0, vm_l2_cntl5 = 0,
     vm_l2_protection_fault_cntl = 0, vm_l2_protection_fault_cntl2 = 0,
     vm_l2_protection_fault_default_addr_lo32 = 0, vm_l2_protection_fault_default_addr_hi32 = 0,
     vm_l2_ctx1_identity_aperture_low_lo32 = 0, vm_l2_ctx1_identity_aperture_low_hi32 = 0,
     vm_l2_ctx1_identity_aperture_high_lo32 = 0, vm_l2_ctx1_identity_aperture_high_hi32 = 0,
     vm_l2_ctx_identity_physical_offset_lo32 = 0, vm_l2_ctx_identity_physical_offset_hi32 = 0,
     vm_l1_tlb_cntl = 0, vm_invalidate_eng0_req = 0, vm_invalidate_eng0_ack = 0,
     vm_invalidate_eng0_sem = 0, vm_l2_bank_select_reserved_cid2 = 0,
     vm_invalidate_eng0_addr_range_lo32 = 0, vm_invalidate_eng0_addr_range_hi32 = 0,
     vm_system_aperture_low_addr = 0, vm_system_aperture_high_addr = 0,
     vm_system_aperture_default_addr_lo = 0, vm_system_aperture_default_addr_hi = 0,
     vm_agp_base = 0, vm_agp_top = 0, vm_agp_bot = 0, vm_fb_location_base = 0,
     vm_fb_location_top = 0, vm_fb_offset = 0, ctx_distance = 0, ctx_addr_distance = 0,
     eng_distance = 0, eng_addr_distance = 0, hub_ip = GC\<rparr>"

definition gmc_zero :: GMCContext where
  "gmc_zero = \<lparr>
    gmc_inited = False, real_vram_size = 0, visible_vram_size = 0, vram_start = 0, vram_end = 0,
     gart_size = 0, gart_start = 0, gart_end = 0, fb_start = 0, fb_end = 0, agp_start = 0,
     agp_end = 0, num_level = 0, block_size = 0, max_pfn = 0, vram_base_offset = 0,
     vram_alloc = vram_new, device_vram_alloc = vram_new, gart_pt_bus = 0, gart_pt_size = 0,
     dummy_page = None, dummy_page_bus = 0, mem_scratch_bus = 0, gart_allocator = gart_new,
     mmhub = hub_zero, gfxhub = hub_zero\<rparr>"

section \<open>Hub register tables\<close>

text \<open>The tables assign every field of the context, but for the reserved bank select of the GFXHUB.\<close>

definition gmc_mmhub_offsets :: HubContext where
  "gmc_mmhub_offsets = \<lparr>
    hub_inited = True, ctx0_pt_base_lo = 0x05cf, ctx0_pt_base_hi = 0x05d0,
     ctx0_pt_start_lo = 0x05ef, ctx0_pt_start_hi = 0x05f0, ctx0_pt_end_lo = 0x060f,
     ctx0_pt_end_hi = 0x0610, ctx1_pt_start_lo = 0x05f1, ctx1_pt_start_hi = 0x05f2,
     ctx1_pt_end_lo = 0x0611, ctx1_pt_end_hi = 0x0612, ctx0_cntl = 0x0564, ctx1_cntl = 0x0565,
     vm_l2_cntl = 0x04e4, vm_l2_cntl2 = 0x04e5, vm_l2_cntl3 = 0x04e6, vm_l2_cntl4 = 0x04fd,
     vm_l2_cntl5 = 0x0503, vm_l2_protection_fault_cntl = 0x04ec,
     vm_l2_protection_fault_cntl2 = 0x04ed, vm_l2_protection_fault_default_addr_lo32 = 0x04f4,
     vm_l2_protection_fault_default_addr_hi32 = 0x04f5,
     vm_l2_ctx1_identity_aperture_low_lo32 = 0x04f7,
     vm_l2_ctx1_identity_aperture_low_hi32 = 0x04f8,
     vm_l2_ctx1_identity_aperture_high_lo32 = 0x04f9,
     vm_l2_ctx1_identity_aperture_high_hi32 = 0x04fa,
     vm_l2_ctx_identity_physical_offset_lo32 = 0x04fb,
     vm_l2_ctx_identity_physical_offset_hi32 = 0x04fc, vm_l1_tlb_cntl = 0x055b,
     vm_invalidate_eng0_req = 0x0587, vm_invalidate_eng0_ack = 0x0599,
     vm_invalidate_eng0_sem = 0x0575, vm_l2_bank_select_reserved_cid2 = 0x0500,
     vm_invalidate_eng0_addr_range_lo32 = 0x05ab, vm_invalidate_eng0_addr_range_hi32 = 0x05ac,
     vm_system_aperture_low_addr = 0x0559, vm_system_aperture_high_addr = 0x055a,
     vm_system_aperture_default_addr_lo = 0x04c8, vm_system_aperture_default_addr_hi = 0x04c9,
     vm_agp_base = 0x0558, vm_agp_top = 0x0556, vm_agp_bot = 0x0557, vm_fb_location_base = 0x0554,
     vm_fb_location_top = 0x0555, vm_fb_offset = 0x04c7, ctx_distance = 1, ctx_addr_distance = 2,
     eng_distance = 1, eng_addr_distance = 2, hub_ip = MMHUB\<rparr>"

definition gmc_gfxhub_offsets :: "HubContext \<Rightarrow> HubContext" where
  "gmc_gfxhub_offsets h = \<lparr>
    hub_inited = True, ctx0_pt_base_lo = 0x168f, ctx0_pt_base_hi = 0x1690,
     ctx0_pt_start_lo = 0x16af, ctx0_pt_start_hi = 0x16b0, ctx0_pt_end_lo = 0x16cf,
     ctx0_pt_end_hi = 0x16d0, ctx1_pt_start_lo = 0x16b1, ctx1_pt_start_hi = 0x16b2,
     ctx1_pt_end_lo = 0x16d1, ctx1_pt_end_hi = 0x16d2, ctx0_cntl = 0x1624, ctx1_cntl = 0x1625,
     vm_l2_cntl = 0x15c4, vm_l2_cntl2 = 0x15c5, vm_l2_cntl3 = 0x15c6, vm_l2_cntl4 = 0x15dd,
     vm_l2_cntl5 = 0x15e3, vm_l2_protection_fault_cntl = 0x15cc,
     vm_l2_protection_fault_cntl2 = 0x15cd, vm_l2_protection_fault_default_addr_lo32 = 0x15d4,
     vm_l2_protection_fault_default_addr_hi32 = 0x15d5,
     vm_l2_ctx1_identity_aperture_low_lo32 = 0x15d7,
     vm_l2_ctx1_identity_aperture_low_hi32 = 0x15d8,
     vm_l2_ctx1_identity_aperture_high_lo32 = 0x15d9,
     vm_l2_ctx1_identity_aperture_high_hi32 = 0x15da,
     vm_l2_ctx_identity_physical_offset_lo32 = 0x15db,
     vm_l2_ctx_identity_physical_offset_hi32 = 0x15dc, vm_l1_tlb_cntl = 0x161b,
     vm_invalidate_eng0_req = 0x1647, vm_invalidate_eng0_ack = 0x1659,
     vm_invalidate_eng0_sem = 0x1635,
     vm_l2_bank_select_reserved_cid2 = vm_l2_bank_select_reserved_cid2 h,
     vm_invalidate_eng0_addr_range_lo32 = 0x166b, vm_invalidate_eng0_addr_range_hi32 = 0x166c,
     vm_system_aperture_low_addr = 0x1619, vm_system_aperture_high_addr = 0x161a,
     vm_system_aperture_default_addr_lo = 0x15a8, vm_system_aperture_default_addr_hi = 0x15a9,
     vm_agp_base = 0x1618, vm_agp_top = 0x1616, vm_agp_bot = 0x1617, vm_fb_location_base = 0x1614,
     vm_fb_location_top = 0x1615, vm_fb_offset = 0x15a7, ctx_distance = 1, ctx_addr_distance = 2,
     eng_distance = 1, eng_addr_distance = 2, hub_ip = GC\<rparr>"

definition gmc_mmhub_offsets_init :: "GMCContext \<Rightarrow> kern_return \<times> GMCContext" where
  "gmc_mmhub_offsets_init gmc =
     (if hub_inited (mmhub gmc) then (kIOReturnSuccess, gmc)
      else (kIOReturnSuccess, gmc\<lparr>mmhub := gmc_mmhub_offsets\<rparr>))"

definition gmc_gfxhub_offsets_init :: "GMCContext \<Rightarrow> kern_return \<times> GMCContext" where
  "gmc_gfxhub_offsets_init gmc =
     (if hub_inited (gfxhub gmc) then (kIOReturnSuccess, gmc)
      else (kIOReturnSuccess, gmc\<lparr>gfxhub := gmc_gfxhub_offsets (gfxhub gmc)\<rparr>))"

section \<open>Geometry\<close>

text \<open>
  \<open>kGARTInitialSize\<close> is 256 MB, \<open>kPspReservedTopBytes\<close> 24 MB; \<open>BootstrapRegs::RCC_CONFIG_MEMSIZE\<close>
  is dword \<open>0x0DE3\<close>, the MMHUB registers are at \<open>0x0554\<close> and \<open>0x04c7\<close>.
\<close>

definition gmc_mc_init :: "'d DeviceContext \<Rightarrow> GMCContext \<Rightarrow> 'd \<Rightarrow> (kern_return \<times> GMCContext) \<times> 'd" where
  "gmc_mc_init dev gmc d =
     (if gmc_inited gmc then ((kIOReturnSuccess, gmc), d)
      else if pci dev = None \<or> \<not> ip_isResolved (dev_ip dev) MMHUB \<or> bar0Size dev = 0
      then ((kIOReturnNotReady, gmc), d)
      else let (vramMB, d) = RREG32_abs dev 0x0DE3 d
        in if vramMB = 0 \<or> vramMB = 0xffffffff then ((kIOReturnNotReady, gmc), d)
        else let rvs = push_bit 20 (ucast vramMB :: u64);
                 gmc = gmc\<lparr>real_vram_size := rvs,
                           visible_vram_size := (if bar0Size dev < rvs then bar0Size dev else rvs)\<rparr>;
                 mmhub_base = ip_get (dev_ip dev) MMHUB;
                 (fb_base_raw, d) = RREG32 dev (mmhub_base + 0x0554) d
          in if fb_base_raw = 0xffffffff then ((kIOReturnNotReady, gmc), d)
          else let vs = push_bit 24 (ucast (fb_base_raw AND 0x00FFFFFF) :: u64);
                   (fb_offset_raw, d) = RREG32 dev (mmhub_base + 0x04c7) d
            in if fb_offset_raw = 0xffffffff then ((kIOReturnNotReady, gmc), d)
            else let ve = vs + rvs - 1;
                     gmc = gmc\<lparr>vram_start := vs, vram_end := ve, fb_start := vs, fb_end := ve,
                               vram_base_offset := push_bit 24 (ucast fb_offset_raw),
                               gart_size := 0x10000000\<rparr>
              in (case gfx12_gart_location_low vs ve 0x10000000 of
                    None \<Rightarrow> ((kIOReturnNoSpace, gmc), d)
                  | Some gs \<Rightarrow>
                      ((kIOReturnSuccess,
                        gmc\<lparr>gart_start := gs, gart_end := gs + 0x10000000 - 1,
                            num_level := 3, block_size := 9, max_pfn := 0x1000000000,
                            agp_start := 0xFFFFFFFFFFFF, agp_end := 0, gmc_inited := True\<rparr>), d)))"

definition kPspReservedTopBytes :: u64 where "kPspReservedTopBytes = 0x01800000"

definition gmc_vram_alloc_init :: "GMCContext \<Rightarrow> kern_return \<times> GMCContext" where
  "gmc_vram_alloc_init gmc =
     (if \<not> gmc_inited gmc then (kIOReturnNotReady, gmc)
      else if m_inited (vram_alloc gmc) then (kIOReturnSuccess, gmc)
      else (case buffer_device_pool (vram_start gmc) (visible_vram_size gmc) (real_vram_size gmc) of
              None \<Rightarrow> (kIOReturnBadArgument, gmc)
            | Some (deviceBase, deviceBytes) \<Rightarrow>
                if visible_vram_size gmc \<le> kPspReservedTopBytes then (kIOReturnNoMemory, gmc)
                else (kIOReturnSuccess,
                      gmc\<lparr>vram_alloc := vram_init (vram_start gmc + kPspReservedTopBytes)
                            (visible_vram_size gmc - kPspReservedTopBytes) None,
                          device_vram_alloc := vram_init deviceBase deviceBytes None\<rparr>)))"

end
