(* ===== verification/Hub.thy ===== *)
theory Hub
  imports Gmc
begin

text \<open>
  The register programming of one hub (\<^verbatim>\<open>gmc_v12_0.cpp\<close>, MMHUB and GFXHUB share it), the TLB flush and
  the GART window. The statement about register contents reads the translation contexts of a hub as a
  register file: \<open>regs d\<close> is what the BAR5 registers hold, and \<open>latches K\<close> says that the registers of
  \<open>K\<close>, plain configuration registers, keep what is written to them. Nothing is assumed of the other
  registers, whose bits may clear themselves, and the flush assumes none of it.
\<close>

section \<open>Programming a hub\<close>

definition hub_reg :: "'d DeviceContext \<Rightarrow> HubContext \<Rightarrow> u32 \<Rightarrow> u32" where
  "hub_reg dev h r = SOC15_REG_OFFSET dev (hub_ip h) r"

text \<open>A register read, changed and written back.\<close>

definition update_reg :: "'d DeviceContext \<Rightarrow> u32 \<Rightarrow> (u32 \<Rightarrow> u32) \<Rightarrow> 'd \<Rightarrow> 'd" where
  "update_reg dev reg f d = (let (tmp, d) = RREG32 dev reg d in WREG32 dev reg (f tmp) d)"

definition hub_init_gart_aperture_regs ::
  "'d DeviceContext \<Rightarrow> GMCContext \<Rightarrow> HubContext \<Rightarrow> 'd \<Rightarrow> 'd"
where
  "hub_init_gart_aperture_regs dev gmc h d =
     (let pt = gfx12_vram_walker_address (gart_pt_bus gmc) (vram_start gmc) (vram_base_offset gmc) OR 1;
          d = WREG32 dev (hub_reg dev h (ctx0_pt_base_lo h)) (ucast pt) d;
          d = WREG32 dev (hub_reg dev h (ctx0_pt_base_hi h)) (ucast (drop_bit 32 pt)) d;
          d = WREG32 dev (hub_reg dev h (ctx0_pt_start_lo h)) (ucast (drop_bit 12 (gart_start gmc))) d;
          d = WREG32 dev (hub_reg dev h (ctx0_pt_start_hi h)) (ucast (drop_bit 44 (gart_start gmc))) d;
          d = WREG32 dev (hub_reg dev h (ctx0_pt_end_lo h)) (ucast (drop_bit 12 (gart_end gmc))) d
      in WREG32 dev (hub_reg dev h (ctx0_pt_end_hi h)) (ucast (drop_bit 44 (gart_end gmc))) d)"

definition hub_init_system_aperture_regs ::
  "'d DeviceContext \<Rightarrow> GMCContext \<Rightarrow> HubContext \<Rightarrow> 'd \<Rightarrow> 'd"
where
  "hub_init_system_aperture_regs dev gmc h d =
     (let d = WREG32 dev (hub_reg dev h (vm_agp_base h)) 0 d;
          d = WREG32 dev (hub_reg dev h (vm_agp_bot h)) (ucast (drop_bit 24 (agp_start gmc))) d;
          d = WREG32 dev (hub_reg dev h (vm_agp_top h)) (ucast (drop_bit 24 (agp_end gmc))) d;
          aperture_low = (if agp_start gmc < fb_start gmc then agp_start gmc else fb_start gmc);
          aperture_high = (if fb_end gmc < agp_end gmc then agp_end gmc else fb_end gmc);
          d = WREG32 dev (hub_reg dev h (vm_system_aperture_low_addr h)) (ucast (drop_bit 18 aperture_low)) d;
          d = WREG32 dev (hub_reg dev h (vm_system_aperture_high_addr h)) (ucast (drop_bit 18 aperture_high)) d;
          scratch = gfx12_vram_walker_address (mem_scratch_bus gmc) (vram_start gmc) (vram_base_offset gmc);
          d = WREG32 dev (hub_reg dev h (vm_system_aperture_default_addr_lo h)) (ucast (drop_bit 12 scratch)) d;
          d = WREG32 dev (hub_reg dev h (vm_system_aperture_default_addr_hi h)) (ucast (drop_bit 44 scratch)) d;
          d = WREG32 dev (hub_reg dev h (vm_l2_protection_fault_default_addr_lo32 h))
                (ucast (drop_bit 12 (dummy_page_bus gmc))) d;
          d = WREG32 dev (hub_reg dev h (vm_l2_protection_fault_default_addr_hi32 h))
                (ucast (drop_bit 44 (dummy_page_bus gmc))) d
      in update_reg dev (hub_reg dev h (vm_l2_protection_fault_cntl2 h))
           (\<lambda>pfc2. REG_SET_FIELD pfc2
              MMVM_L2_PROTECTION_FAULT_CNTL2__ACTIVE_PAGE_MIGRATION_PTE_READ_RETRY 1) d)"

definition hub_init_tlb_regs :: "'d DeviceContext \<Rightarrow> HubContext \<Rightarrow> 'd \<Rightarrow> 'd" where
  "hub_init_tlb_regs dev h =
     update_reg dev (hub_reg dev h (vm_l1_tlb_cntl h)) (\<lambda>tmp. set_fields tmp
       [(MMMC_VM_MX_L1_TLB_CNTL__ENABLE_L1_TLB, 1),
        (MMMC_VM_MX_L1_TLB_CNTL__SYSTEM_ACCESS_MODE, 3),
        (MMMC_VM_MX_L1_TLB_CNTL__ENABLE_ADVANCED_DRIVER_MODEL, 1),
        (MMMC_VM_MX_L1_TLB_CNTL__SYSTEM_APERTURE_UNMAPPED_ACCESS, 0),
        (MMMC_VM_MX_L1_TLB_CNTL__ECO_BITS, 0),
        (MMMC_VM_MX_L1_TLB_CNTL__MTYPE, MMHUB_MTYPE_UC)])"

definition hub_disable_identity_aperture :: "'d DeviceContext \<Rightarrow> HubContext \<Rightarrow> 'd \<Rightarrow> 'd" where
  "hub_disable_identity_aperture dev h d =
     (let d = WREG32 dev (hub_reg dev h (vm_l2_ctx1_identity_aperture_low_lo32 h)) 0xFFFFFFFF d;
          d = WREG32 dev (hub_reg dev h (vm_l2_ctx1_identity_aperture_low_hi32 h)) 0xF d;
          d = WREG32 dev (hub_reg dev h (vm_l2_ctx1_identity_aperture_high_lo32 h)) 0 d;
          d = WREG32 dev (hub_reg dev h (vm_l2_ctx1_identity_aperture_high_hi32 h)) 0 d;
          d = WREG32 dev (hub_reg dev h (vm_l2_ctx_identity_physical_offset_lo32 h)) 0 d
      in WREG32 dev (hub_reg dev h (vm_l2_ctx_identity_physical_offset_hi32 h)) 0 d)"

definition hub_init_cache_regs :: "'d DeviceContext \<Rightarrow> HubContext \<Rightarrow> 'd \<Rightarrow> 'd" where
  "hub_init_cache_regs dev h d =
     (let d = update_reg dev (hub_reg dev h (vm_l2_cntl h)) (\<lambda>tmp. set_fields tmp
       [(MMVM_L2_CNTL__ENABLE_L2_CACHE, 1),
        (MMVM_L2_CNTL__ENABLE_L2_FRAGMENT_PROCESSING, 0),
        (MMVM_L2_CNTL__ENABLE_DEFAULT_PAGE_OUT_TO_SYSTEM_MEMORY, 1),
        (MMVM_L2_CNTL__L2_PDE0_CACHE_TAG_GENERATION_MODE, 0),
        (MMVM_L2_CNTL__PDE_FAULT_CLASSIFICATION, 0),
        (MMVM_L2_CNTL__CONTEXT1_IDENTITY_ACCESS_MODE, 1),
        (MMVM_L2_CNTL__IDENTITY_MODE_FRAGMENT_SIZE, 0)]) d;
          d = update_reg dev (hub_reg dev h (vm_l2_cntl2 h)) (\<lambda>tmp. set_fields tmp
       [(MMVM_L2_CNTL2__INVALIDATE_ALL_L1_TLBS, 1),
        (MMVM_L2_CNTL2__INVALIDATE_L2_CACHE, 1)]) d;
          d = WREG32 dev (hub_reg dev h (vm_l2_cntl3 h))
                (set_fields (if hub_ip h = GC then 0x80120007 else 0x80100007)
       [(MMVM_L2_CNTL3__BANK_SELECT, 9),
        (MMVM_L2_CNTL3__L2_CACHE_BIGK_FRAGMENT_SIZE, 6)]) d;
          d = WREG32 dev (hub_reg dev h (vm_l2_cntl4 h)) (set_fields 0x000000c1
       [(MMVM_L2_CNTL4__VMC_TAP_PDE_REQUEST_PHYSICAL, 0),
        (MMVM_L2_CNTL4__VMC_TAP_PTE_REQUEST_PHYSICAL, 0)]) d
      in WREG32 dev (hub_reg dev h (vm_l2_cntl5 h)) (set_fields 0x00003fe0
       [(MMVM_L2_CNTL5__L2_CACHE_SMALLK_FRAGMENT_SIZE, 0)]) d)"

definition hub_enable_system_domain :: "'d DeviceContext \<Rightarrow> HubContext \<Rightarrow> 'd \<Rightarrow> 'd" where
  "hub_enable_system_domain dev h =
     update_reg dev (hub_reg dev h (ctx0_cntl h)) (\<lambda>tmp. set_fields tmp
       [(MMVM_CONTEXT0_CNTL__ENABLE_CONTEXT, 1),
        (MMVM_CONTEXT0_CNTL__PAGE_TABLE_DEPTH, 0),
        (MMVM_CONTEXT0_CNTL__RETRY_PERMISSION_OR_INVALID_PAGE_FAULT, 0)])"

text \<open>The CONTEXT1 fields have the layout of CONTEXT0.\<close>

definition vmid_cntl :: "GMCContext \<Rightarrow> u32 \<Rightarrow> u32" where
  "vmid_cntl gmc tmp = set_fields tmp
       [(MMVM_CONTEXT0_CNTL__ENABLE_CONTEXT, 1),
        (MMVM_CONTEXT0_CNTL__PAGE_TABLE_DEPTH, num_level gmc),
        (MMVM_CONTEXT0_CNTL__RANGE_PROTECTION_FAULT_ENABLE_DEFAULT, 1),
        (MMVM_CONTEXT0_CNTL__DUMMY_PAGE_PROTECTION_FAULT_ENABLE_DEFAULT, 1),
        (MMVM_CONTEXT0_CNTL__PDE0_PROTECTION_FAULT_ENABLE_DEFAULT, 1),
        (MMVM_CONTEXT0_CNTL__VALID_PROTECTION_FAULT_ENABLE_DEFAULT, 1),
        (MMVM_CONTEXT0_CNTL__READ_PROTECTION_FAULT_ENABLE_DEFAULT, 1),
        (MMVM_CONTEXT0_CNTL__WRITE_PROTECTION_FAULT_ENABLE_DEFAULT, 1),
        (MMVM_CONTEXT0_CNTL__EXECUTE_PROTECTION_FAULT_ENABLE_DEFAULT, 1),
        (MMVM_CONTEXT0_CNTL__PAGE_TABLE_BLOCK_SIZE, block_size gmc - 9),
        (MMVM_CONTEXT0_CNTL__RETRY_PERMISSION_OR_INVALID_PAGE_FAULT, 1)]"

definition setup_vmid :: "'d DeviceContext \<Rightarrow> GMCContext \<Rightarrow> HubContext \<Rightarrow> u32 \<Rightarrow> 'd \<Rightarrow> 'd" where
  "setup_vmid dev gmc h i d =
     (let end_pfn = (if 0 < max_pfn gmc then max_pfn gmc - 1 else 0);
          d = update_reg dev (hub_reg dev h (ctx1_cntl h) + i * ctx_distance h) (vmid_cntl gmc) d;
          d = WREG32 dev (hub_reg dev h (ctx1_pt_start_lo h) + i * ctx_addr_distance h) 0 d;
          d = WREG32 dev (hub_reg dev h (ctx1_pt_start_hi h) + i * ctx_addr_distance h) 0 d;
          d = WREG32 dev (hub_reg dev h (ctx1_pt_end_lo h) + i * ctx_addr_distance h) (ucast end_pfn) d
      in WREG32 dev (hub_reg dev h (ctx1_pt_end_hi h) + i * ctx_addr_distance h)
           (ucast (drop_bit 32 end_pfn)) d)"

definition hub_setup_vmid_config :: "'d DeviceContext \<Rightarrow> GMCContext \<Rightarrow> HubContext \<Rightarrow> 'd \<Rightarrow> 'd" where
  "hub_setup_vmid_config dev gmc h = fold (\<lambda>i. setup_vmid dev gmc h (word_of_nat i)) [0..<15]"

definition hub_program_invalidation :: "'d DeviceContext \<Rightarrow> HubContext \<Rightarrow> 'd \<Rightarrow> 'd" where
  "hub_program_invalidation dev h =
     fold (\<lambda>i d.
       let d = WREG32 dev (hub_reg dev h (vm_invalidate_eng0_addr_range_lo32 h) +
                 word_of_nat i * eng_addr_distance h) 0xFFFFFFFF d
       in WREG32 dev (hub_reg dev h (vm_invalidate_eng0_addr_range_hi32 h) +
            word_of_nat i * eng_addr_distance h) 0x1F d) [0..<18]"

definition hub_gart_enable :: "'d DeviceContext \<Rightarrow> GMCContext \<Rightarrow> HubContext \<Rightarrow> 'd \<Rightarrow> kern_return \<times> 'd" where
  "hub_gart_enable dev gmc h d =
     (if \<not> hub_inited h \<or> gart_pt_bus gmc = 0 \<or> \<not> ip_isResolved (dev_ip dev) (hub_ip h)
      then (kIOReturnNotReady, d)
      else let d = hub_init_gart_aperture_regs dev gmc h d;
               d = hub_init_system_aperture_regs dev gmc h d;
               d = hub_init_tlb_regs dev h d;
               d = hub_init_cache_regs dev h d;
               d = hub_enable_system_domain dev h d;
               d = hub_disable_identity_aperture dev h d;
               d = hub_setup_vmid_config dev gmc h d
           in (kIOReturnSuccess, hub_program_invalidation dev h d))"

definition gmc_mmhub_gart_enable :: "'d DeviceContext \<Rightarrow> GMCContext \<Rightarrow> 'd \<Rightarrow> kern_return \<times> 'd" where
  "gmc_mmhub_gart_enable dev gmc d = hub_gart_enable dev gmc (mmhub gmc) d"

definition gmc_gfxhub_gart_enable :: "'d DeviceContext \<Rightarrow> GMCContext \<Rightarrow> 'd \<Rightarrow> kern_return \<times> 'd" where
  "gmc_gfxhub_gart_enable dev gmc d = hub_gart_enable dev gmc (gfxhub gmc) d"

definition gmc_set_fault_enable_default ::
  "'d DeviceContext \<Rightarrow> HubContext \<Rightarrow> bool \<Rightarrow> 'd \<Rightarrow> kern_return \<times> 'd"
where
  "gmc_set_fault_enable_default dev hub value d =
     (if \<not> hub_inited hub \<or> \<not> ip_isResolved (dev_ip dev) (hub_ip hub) then (kIOReturnNotReady, d)
      else let v = of_bool value in
        (kIOReturnSuccess,
         update_reg dev (hub_reg dev hub (vm_l2_protection_fault_cntl hub)) (\<lambda>tmp.
           let tmp = set_fields tmp
       [(MMVM_L2_PROTECTION_FAULT_CNTL__RANGE_PROTECTION_FAULT_ENABLE_DEFAULT, v),
        (MMVM_L2_PROTECTION_FAULT_CNTL__PDE0_PROTECTION_FAULT_ENABLE_DEFAULT, v),
        (MMVM_L2_PROTECTION_FAULT_CNTL__PDE1_PROTECTION_FAULT_ENABLE_DEFAULT, v),
        (MMVM_L2_PROTECTION_FAULT_CNTL__PDE2_PROTECTION_FAULT_ENABLE_DEFAULT, v),
        (MMVM_L2_PROTECTION_FAULT_CNTL__TRANSLATE_FURTHER_PROTECTION_FAULT_ENABLE_DEFAULT, v),
        (MMVM_L2_PROTECTION_FAULT_CNTL__NACK_PROTECTION_FAULT_ENABLE_DEFAULT, v),
        (MMVM_L2_PROTECTION_FAULT_CNTL__DUMMY_PAGE_PROTECTION_FAULT_ENABLE_DEFAULT, v),
        (MMVM_L2_PROTECTION_FAULT_CNTL__VALID_PROTECTION_FAULT_ENABLE_DEFAULT, v),
        (MMVM_L2_PROTECTION_FAULT_CNTL__READ_PROTECTION_FAULT_ENABLE_DEFAULT, v),
        (MMVM_L2_PROTECTION_FAULT_CNTL__WRITE_PROTECTION_FAULT_ENABLE_DEFAULT, v),
        (MMVM_L2_PROTECTION_FAULT_CNTL__EXECUTE_PROTECTION_FAULT_ENABLE_DEFAULT, v)]
           in if value then tmp else set_fields tmp
       [(MMVM_L2_PROTECTION_FAULT_CNTL__CRASH_ON_NO_RETRY_FAULT, 1),
        (MMVM_L2_PROTECTION_FAULT_CNTL__CRASH_ON_RETRY_FAULT, 1)]) d))"

definition gmc_hdp_flush :: "'d DeviceContext \<Rightarrow> 'd \<Rightarrow> kern_return \<times> 'd" where
  "gmc_hdp_flush dev d = (kIOReturnSuccess, amdgpu_hdp_flush dev d)"

section \<open>The TLB flush\<close>

definition invalidate_req :: "u32 \<Rightarrow> u32 \<Rightarrow> u32" where
  "invalidate_req vmid flush_type = set_fields 0
       [(MMVM_INVALIDATE_ENG0_REQ__PER_VMID_INVALIDATE_REQ, push_bit (unat vmid) 1),
        (MMVM_INVALIDATE_ENG0_REQ__FLUSH_TYPE, flush_type AND 7),
        (MMVM_INVALIDATE_ENG0_REQ__INVALIDATE_L2_PTES, 1),
        (MMVM_INVALIDATE_ENG0_REQ__INVALIDATE_L2_PDE0, 1),
        (MMVM_INVALIDATE_ENG0_REQ__INVALIDATE_L2_PDE1, 1),
        (MMVM_INVALIDATE_ENG0_REQ__INVALIDATE_L2_PDE2, 1),
        (MMVM_INVALIDATE_ENG0_REQ__INVALIDATE_L1_PTES, 1),
        (MMVM_INVALIDATE_ENG0_REQ__CLEAR_PROTECTION_FAULT_STATUS_ADDR, 0)]"

text \<open>The private cache of MMHUB 4.1: \<open>None\<close> when the device is there, the error otherwise.\<close>

definition invalidate_cid2 :: "'d DeviceContext \<Rightarrow> HubContext \<Rightarrow> 'd \<Rightarrow> kern_return option \<times> 'd" where
  "invalidate_cid2 dev hub d =
     (if hub_ip hub = MMHUB \<and> vm_l2_bank_select_reserved_cid2 hub \<noteq> 0
      then let cid_reg = hub_reg dev hub (vm_l2_bank_select_reserved_cid2 hub);
               (cid, d) = RREG32 dev cid_reg d
        in if cid = 0xFFFFFFFF then (Some kIOReturnNotAttached, d)
        else let d = WREG32 dev cid_reg (cid OR push_bit 25 1) d;
                 (back, d) = RREG32 dev cid_reg d
          in (if back = 0xFFFFFFFF then Some kIOReturnNotAttached else None, d)
      else (None, d))"

text \<open>The request and everything after it, with the semaphore held.\<close>

definition flush_request ::
  "'d DeviceContext \<Rightarrow> HubContext \<Rightarrow> u32 \<Rightarrow> u32 \<Rightarrow> 'd \<Rightarrow> (kern_return \<times> 'd) option"
where
  "flush_request dev hub vmid flush_type d =
     (let req_reg = hub_reg dev hub (vm_invalidate_eng0_req hub) + 17 * eng_distance hub;
          ack_reg = hub_reg dev hub (vm_invalidate_eng0_ack hub) + 17 * eng_distance hub;
          sem_reg = hub_reg dev hub (vm_invalidate_eng0_sem hub) + 17 * eng_distance hub;
          expected = push_bit (unat vmid) 1;
          d = WREG32 dev req_reg (invalidate_req vmid flush_type) d
      in (case poll_reg dev ack_reg expected expected 100000 d of
            None \<Rightarrow> None
          | Some ((acknowledged, value), d) \<Rightarrow>
              if value = 0xFFFFFFFF then Some (kIOReturnNotAttached, d)
              else let d = (if hub_ip hub = MMHUB then WREG32 dev sem_reg 0 d else d)
                in (case invalidate_cid2 dev hub d of
                      (Some r, d) \<Rightarrow> Some (r, d)
                    | (None, d) \<Rightarrow>
                        Some (if acknowledged then kIOReturnSuccess else kIOReturnTimeout, d))))"

definition gmc_flush_gpu_tlb ::
  "'d DeviceContext \<Rightarrow> HubContext \<Rightarrow> u32 \<Rightarrow> u32 \<Rightarrow> 'd \<Rightarrow> (kern_return \<times> 'd) option"
where
  "gmc_flush_gpu_tlb dev hub vmid flush_type d =
     (if \<not> hub_inited hub \<or> \<not> ip_isResolved (dev_ip dev) (hub_ip hub) then Some (kIOReturnNotReady, d)
      else if 16 \<le> vmid \<or> 7 < flush_type then Some (kIOReturnBadArgument, d)
      else if hub_ip hub = MMHUB
      then (case poll_reg dev (hub_reg dev hub (vm_invalidate_eng0_sem hub) + 17 * eng_distance hub) 1 1 100000 d of
              None \<Rightarrow> None
            | Some ((held, value), d) \<Rightarrow>
                if \<not> held then Some (if value = 0xFFFFFFFF then kIOReturnNotAttached else kIOReturnTimeout, d)
                else flush_request dev hub vmid flush_type d)
      else flush_request dev hub vmid flush_type d)"

section \<open>The GART window\<close>

text \<open>The four readbacks after programming one hub, in order; the first difference ends them.\<close>

fun window_readback :: "'d DeviceContext \<Rightarrow> (u32 \<times> u32) list \<Rightarrow> 'd \<Rightarrow> bool \<times> 'd" where
  "window_readback dev [] d = (True, d)"
| "window_readback dev ((reg, expected) # rest) d =
     (let (v, d) = RREG32 dev reg d
      in if v \<noteq> expected then (False, d) else window_readback dev rest d)"

fun program_hubs ::
  "'d DeviceContext \<Rightarrow> GMCContext \<Rightarrow> HubContext list \<Rightarrow> 'd \<Rightarrow> (kern_return \<times> 'd) option"
where
  "program_hubs dev gmc [] d = Some (kIOReturnSuccess, d)"
| "program_hubs dev gmc (hub # hubs) d =
     (if \<not> hub_inited hub \<or> \<not> ip_isResolved (dev_ip dev) (hub_ip hub) then Some (kIOReturnNotReady, d)
      else let d = hub_init_gart_aperture_regs dev gmc hub d;
               (same, d) = window_readback dev
                 [(hub_reg dev hub (ctx0_pt_start_lo hub), ucast (drop_bit 12 (gart_start gmc))),
                  (hub_reg dev hub (ctx0_pt_start_hi hub), ucast (drop_bit 44 (gart_start gmc))),
                  (hub_reg dev hub (ctx0_pt_end_lo hub), ucast (drop_bit 12 (gart_end gmc))),
                  (hub_reg dev hub (ctx0_pt_end_hi hub), ucast (drop_bit 44 (gart_end gmc)))] d
        in if \<not> same then Some (kIOReturnIOError, d)
        else (case gmc_flush_gpu_tlb dev hub 0 0 d of
                None \<Rightarrow> None
              | Some (status, d) \<Rightarrow>
                  if status \<noteq> kIOReturnSuccess then Some (status, d) else program_hubs dev gmc hubs d))"

definition gmc_program_gart_window ::
  "'d DeviceContext \<Rightarrow> GMCContext \<Rightarrow> 'd \<Rightarrow> (kern_return \<times> 'd) option"
where
  "gmc_program_gart_window dev gmc d = program_hubs dev gmc [mmhub gmc, gfxhub gmc] d"

section \<open>The hub as a register file\<close>

definition latches :: "u32 set \<Rightarrow> 'd DeviceContext \<Rightarrow> ('d \<Rightarrow> u32 \<Rightarrow> u32) \<Rightarrow> bool" where
  "latches K dev regs \<longleftrightarrow> (\<forall>k \<in> K.
     (\<forall>d. fst (RREG32 dev k d) = regs d k) \<and> (\<forall>r d. regs (snd (RREG32 dev r d)) k = regs d k) \<and>
     (\<forall>r v d. regs (WREG32 dev r v d) k = (if r = k then v else regs d k)))"

text \<open>
  The registers of \<open>K\<close> by their offset in the hub's block; what is written outside \<open>K\<close> is not seen.
\<close>

definition hub_view ::
  "u32 set \<Rightarrow> 'd DeviceContext \<Rightarrow> ('d \<Rightarrow> u32 \<Rightarrow> u32) \<Rightarrow> HubContext \<Rightarrow> 'd \<Rightarrow> u32 \<Rightarrow> u32"
where
  "hub_view K dev regs h d k = (if k \<in> K then regs d (hub_reg dev h k) else 0)"

definition put_in :: "u32 set \<Rightarrow> u32 \<Rightarrow> u32 \<Rightarrow> (u32 \<Rightarrow> u32) \<Rightarrow> u32 \<Rightarrow> u32" where
  "put_in K a x v = (if a \<in> K then v(a := x) else v)"

lemma hub_reg_offset: "hub_reg dev h a + b = hub_reg dev h (a + b)"
  by (simp add: hub_reg_def SOC15_REG_OFFSET_def)

lemma hub_reg_eq: "hub_reg dev h a = hub_reg dev h b \<longleftrightarrow> a = b"
  by (simp add: hub_reg_def SOC15_REG_OFFSET_def)

lemma latchesD:
  assumes "latches (hub_reg dev h ` K) dev regs" "k \<in> K"
  shows "fst (RREG32 dev (hub_reg dev h k) d) = regs d (hub_reg dev h k)"
    "regs (snd (RREG32 dev r d)) (hub_reg dev h k) = regs d (hub_reg dev h k)"
    "regs (WREG32 dev r v d) (hub_reg dev h k) = (if r = hub_reg dev h k then v else regs d (hub_reg dev h k))"
  using assms unfolding latches_def by blast+

lemma view_write:
  assumes "latches (hub_reg dev h ` K) dev regs"
  shows "hub_view K dev regs h (WREG32 dev (hub_reg dev h a) v d) = put_in K a v (hub_view K dev regs h d)"
  using latchesD(3) [OF assms] by (auto simp: hub_view_def put_in_def hub_reg_eq)

lemma view_update:
  assumes "latches (hub_reg dev h ` K) dev regs"
  shows "hub_view K dev regs h (update_reg dev (hub_reg dev h a) f d) =
    put_in K a (f (hub_view K dev regs h d a)) (hub_view K dev regs h d)"
proof -
  obtain v d1 where r: "RREG32 dev (hub_reg dev h a) d = (v, d1)" by fastforce
  have v: "hub_view K dev regs h d1 = hub_view K dev regs h d"
    using latchesD(2) [OF assms, of _ "hub_reg dev h a" d] r by (auto simp: hub_view_def)
  have x: "put_in K a (f v) w = put_in K a (f (hub_view K dev regs h d a)) w" for w
    using latchesD(1) [OF assms, of a d] r by (auto simp: hub_view_def put_in_def)
  show ?thesis by (simp add: update_reg_def r view_write [OF assms] v x)
qed

section \<open>What the driver promises of a hub\<close>

text \<open>
  The specification: a table of register offsets, each with its new value as a function of the old
  one. Applied in any order it means the same when no offset occurs twice.
\<close>

type_synonym reg_table = "(u32 \<times> (u32 \<Rightarrow> u32)) list"

definition run_table :: "u32 set \<Rightarrow> reg_table \<Rightarrow> (u32 \<Rightarrow> u32) \<Rightarrow> u32 \<Rightarrow> u32" where
  "run_table K = fold (\<lambda>(a, f) v. put_in K a (f (v a)) v)"

lemma run_table_append [simp]: "run_table K (xs @ ys) v = run_table K ys (run_table K xs v)"
  by (simp add: run_table_def)

lemma run_table_simps [simp]:
  "run_table K [] v = v" "run_table K ((a, f) # xs) v = run_table K xs (put_in K a (f (v a)) v)"
  by (simp_all add: run_table_def)

lemma run_table_other: "k \<notin> fst ` set xs \<Longrightarrow> run_table K xs v k = v k"
  by (induction xs arbitrary: v) (auto simp: put_in_def)

lemma run_table_at:
  "distinct (map fst xs) \<Longrightarrow> (a, f) \<in> set xs \<Longrightarrow> a \<in> K \<Longrightarrow> run_table K xs v a = f (v a)"
proof (induction xs arbitrary: v)
  case (Cons x xs)
  obtain b g where x: "x = (b, g)" by (cases x)
  show ?case
  proof (cases "(a, f) = (b, g)")
    case True
    then have "a \<notin> fst ` set xs" using Cons.prems(1) x by auto
    then show ?thesis using True x Cons.prems(3) by (simp add: run_table_other put_in_def)
  next
    case False
    then have mem: "(a, f) \<in> set xs" using Cons.prems(2) x by auto
    then have "a \<noteq> b" using Cons.prems(1) x by force
    then show ?thesis using Cons.IH [OF _ mem Cons.prems(3)] Cons.prems(1) x by (simp add: put_in_def)
  qed
qed simp

definition window_table :: "GMCContext \<Rightarrow> HubContext \<Rightarrow> reg_table" where
  "window_table gmc h =
     (let pt = gfx12_vram_walker_address (gart_pt_bus gmc) (vram_start gmc) (vram_base_offset gmc) OR 1
      in [(ctx0_pt_base_lo h, \<lambda>_. ucast pt), (ctx0_pt_base_hi h, \<lambda>_. ucast (drop_bit 32 pt)),
          (ctx0_pt_start_lo h, \<lambda>_. ucast (drop_bit 12 (gart_start gmc))),
          (ctx0_pt_start_hi h, \<lambda>_. ucast (drop_bit 44 (gart_start gmc))),
          (ctx0_pt_end_lo h, \<lambda>_. ucast (drop_bit 12 (gart_end gmc))),
          (ctx0_pt_end_hi h, \<lambda>_. ucast (drop_bit 44 (gart_end gmc)))])"

definition aperture_table :: "GMCContext \<Rightarrow> HubContext \<Rightarrow> reg_table" where
  "aperture_table gmc h =
     (let scratch = gfx12_vram_walker_address (mem_scratch_bus gmc) (vram_start gmc) (vram_base_offset gmc)
      in [(vm_agp_base h, \<lambda>_. 0), (vm_agp_bot h, \<lambda>_. ucast (drop_bit 24 (agp_start gmc))),
          (vm_agp_top h, \<lambda>_. ucast (drop_bit 24 (agp_end gmc))),
          (vm_system_aperture_low_addr h, \<lambda>_. ucast (drop_bit 18 (min (fb_start gmc) (agp_start gmc)))),
          (vm_system_aperture_high_addr h, \<lambda>_. ucast (drop_bit 18 (max (fb_end gmc) (agp_end gmc)))),
          (vm_system_aperture_default_addr_lo h, \<lambda>_. ucast (drop_bit 12 scratch)),
          (vm_system_aperture_default_addr_hi h, \<lambda>_. ucast (drop_bit 44 scratch)),
          (vm_l2_protection_fault_default_addr_lo32 h, \<lambda>_. ucast (drop_bit 12 (dummy_page_bus gmc))),
          (vm_l2_protection_fault_default_addr_hi32 h, \<lambda>_. ucast (drop_bit 44 (dummy_page_bus gmc))),
          (vm_l2_protection_fault_cntl2 h, \<lambda>v. REG_SET_FIELD v
             MMVM_L2_PROTECTION_FAULT_CNTL2__ACTIVE_PAGE_MIGRATION_PTE_READ_RETRY 1)])"

definition cache_table :: "HubContext \<Rightarrow> reg_table" where
  "cache_table h = [
     (vm_l1_tlb_cntl h, \<lambda>v. set_fields v
       [(MMMC_VM_MX_L1_TLB_CNTL__ENABLE_L1_TLB, 1),
        (MMMC_VM_MX_L1_TLB_CNTL__SYSTEM_ACCESS_MODE, 3),
        (MMMC_VM_MX_L1_TLB_CNTL__ENABLE_ADVANCED_DRIVER_MODEL, 1),
        (MMMC_VM_MX_L1_TLB_CNTL__SYSTEM_APERTURE_UNMAPPED_ACCESS, 0),
        (MMMC_VM_MX_L1_TLB_CNTL__ECO_BITS, 0),
        (MMMC_VM_MX_L1_TLB_CNTL__MTYPE, MMHUB_MTYPE_UC)]),
     (vm_l2_cntl h, \<lambda>v. set_fields v
       [(MMVM_L2_CNTL__ENABLE_L2_CACHE, 1),
        (MMVM_L2_CNTL__ENABLE_L2_FRAGMENT_PROCESSING, 0),
        (MMVM_L2_CNTL__ENABLE_DEFAULT_PAGE_OUT_TO_SYSTEM_MEMORY, 1),
        (MMVM_L2_CNTL__L2_PDE0_CACHE_TAG_GENERATION_MODE, 0),
        (MMVM_L2_CNTL__PDE_FAULT_CLASSIFICATION, 0),
        (MMVM_L2_CNTL__CONTEXT1_IDENTITY_ACCESS_MODE, 1),
        (MMVM_L2_CNTL__IDENTITY_MODE_FRAGMENT_SIZE, 0)]),
     (vm_l2_cntl2 h, \<lambda>v. set_fields v
       [(MMVM_L2_CNTL2__INVALIDATE_ALL_L1_TLBS, 1),
        (MMVM_L2_CNTL2__INVALIDATE_L2_CACHE, 1)]),
     (vm_l2_cntl3 h, \<lambda>_. 0x80130009),
     (vm_l2_cntl4 h, \<lambda>_. 1), (vm_l2_cntl5 h, \<lambda>_. 0x3fe0),
     (ctx0_cntl h, \<lambda>v. set_fields v
       [(MMVM_CONTEXT0_CNTL__ENABLE_CONTEXT, 1),
        (MMVM_CONTEXT0_CNTL__PAGE_TABLE_DEPTH, 0),
        (MMVM_CONTEXT0_CNTL__RETRY_PERMISSION_OR_INVALID_PAGE_FAULT, 0)])]"

definition identity_table :: "HubContext \<Rightarrow> reg_table" where
  "identity_table h = [
     (vm_l2_ctx1_identity_aperture_low_lo32 h, \<lambda>_. 0xFFFFFFFF),
     (vm_l2_ctx1_identity_aperture_low_hi32 h, \<lambda>_. 0xF),
     (vm_l2_ctx1_identity_aperture_high_lo32 h, \<lambda>_. 0),
     (vm_l2_ctx1_identity_aperture_high_hi32 h, \<lambda>_. 0),
     (vm_l2_ctx_identity_physical_offset_lo32 h, \<lambda>_. 0),
     (vm_l2_ctx_identity_physical_offset_hi32 h, \<lambda>_. 0)]"

definition vmid_rows :: "GMCContext \<Rightarrow> HubContext \<Rightarrow> nat \<Rightarrow> reg_table" where
  "vmid_rows gmc h i =
     (let end_pfn = (if max_pfn gmc = 0 then 0 else max_pfn gmc - 1)
      in [(ctx1_cntl h + word_of_nat i * ctx_distance h, vmid_cntl gmc),
          (ctx1_pt_start_lo h + word_of_nat i * ctx_addr_distance h, \<lambda>_. 0),
          (ctx1_pt_start_hi h + word_of_nat i * ctx_addr_distance h, \<lambda>_. 0),
          (ctx1_pt_end_lo h + word_of_nat i * ctx_addr_distance h, \<lambda>_. ucast end_pfn),
          (ctx1_pt_end_hi h + word_of_nat i * ctx_addr_distance h, \<lambda>_. ucast (drop_bit 32 end_pfn))])"

definition invalidation_rows :: "HubContext \<Rightarrow> nat \<Rightarrow> reg_table" where
  "invalidation_rows h i =
     [(vm_invalidate_eng0_addr_range_lo32 h + word_of_nat i * eng_addr_distance h, \<lambda>_. 0xFFFFFFFF),
      (vm_invalidate_eng0_addr_range_hi32 h + word_of_nat i * eng_addr_distance h, \<lambda>_. 0x1F)]"

definition hub_table :: "GMCContext \<Rightarrow> HubContext \<Rightarrow> reg_table" where
  "hub_table gmc h = window_table gmc h @ aperture_table gmc h @ cache_table h @ identity_table h @
     concat (map (vmid_rows gmc h) [0..<15]) @ concat (map (invalidation_rows h) [0..<18])"

lemma window_view:
  "latches (hub_reg dev h ` K) dev regs \<Longrightarrow> hub_view K dev regs h (hub_init_gart_aperture_regs dev gmc h d) =
     run_table K (window_table gmc h) (hub_view K dev regs h d)"
  by (simp add: hub_init_gart_aperture_regs_def window_table_def Let_def view_write)

lemma aperture_view:
  "latches (hub_reg dev h ` K) dev regs \<Longrightarrow> hub_view K dev regs h (hub_init_system_aperture_regs dev gmc h d) =
     run_table K (aperture_table gmc h) (hub_view K dev regs h d)"
  by (simp add: hub_init_system_aperture_regs_def aperture_table_def Let_def view_write view_update
      min_def max_def not_less)

lemma cntl_defaults:
  "set_fields 0x80100007 [(MMVM_L2_CNTL3__BANK_SELECT, 9), (MMVM_L2_CNTL3__L2_CACHE_BIGK_FRAGMENT_SIZE, 6)] = 0x80130009"
  "set_fields 0x80120007 [(MMVM_L2_CNTL3__BANK_SELECT, 9), (MMVM_L2_CNTL3__L2_CACHE_BIGK_FRAGMENT_SIZE, 6)] = 0x80130009"
  "set_fields 0xc1 [(MMVM_L2_CNTL4__VMC_TAP_PDE_REQUEST_PHYSICAL, 0), (MMVM_L2_CNTL4__VMC_TAP_PTE_REQUEST_PHYSICAL, 0)] = 1"
  "set_fields 0x3fe0 [(MMVM_L2_CNTL5__L2_CACHE_SMALLK_FRAGMENT_SIZE, 0)] = 0x3fe0"
  by (simp_all add: set_fields_def REG_SET_FIELD_def field_defs)

lemma cache_view:
  "latches (hub_reg dev h ` K) dev regs \<Longrightarrow>
     hub_view K dev regs h (hub_enable_system_domain dev h (hub_init_cache_regs dev h (hub_init_tlb_regs dev h d))) =
     run_table K (cache_table h) (hub_view K dev regs h d)"
  by (simp add: hub_enable_system_domain_def hub_init_cache_regs_def hub_init_tlb_regs_def cache_table_def
      Let_def view_write view_update cntl_defaults)

lemma identity_view:
  "latches (hub_reg dev h ` K) dev regs \<Longrightarrow> hub_view K dev regs h (hub_disable_identity_aperture dev h d) =
     run_table K (identity_table h) (hub_view K dev regs h d)"
  by (simp add: hub_disable_identity_aperture_def identity_table_def Let_def view_write)

text \<open>A loop over rows is the concatenation of its rows.\<close>

lemma fold_view:
  assumes "\<And>i d. hub_view K dev regs h (step i d) = run_table K (rows i) (hub_view K dev regs h d)"
  shows "hub_view K dev regs h (fold step xs d) = run_table K (concat (map rows xs)) (hub_view K dev regs h d)"
  by (induction xs arbitrary: d) (simp_all add: assms)

lemma vmid_view:
  "latches (hub_reg dev h ` K) dev regs \<Longrightarrow> hub_view K dev regs h (hub_setup_vmid_config dev gmc h d) =
     run_table K (concat (map (vmid_rows gmc h) [0..<15])) (hub_view K dev regs h d)"
  unfolding hub_setup_vmid_config_def
  by (rule fold_view) (simp add: setup_vmid_def vmid_rows_def Let_def view_write view_update hub_reg_offset
      word_gt_0)

lemma invalidation_view:
  "latches (hub_reg dev h ` K) dev regs \<Longrightarrow> hub_view K dev regs h (hub_program_invalidation dev h d) =
     run_table K (concat (map (invalidation_rows h) [0..<18])) (hub_view K dev regs h d)"
  unfolding hub_program_invalidation_def
  by (rule fold_view) (simp add: invalidation_rows_def Let_def view_write hub_reg_offset)

lemma hub_gart_enable_view:
  assumes "latches (hub_reg dev h ` K) dev regs" "hub_gart_enable dev gmc h d = (kIOReturnSuccess, d')"
  shows "hub_view K dev regs h d' = run_table K (hub_table gmc h) (hub_view K dev regs h d)"
proof -
  have "d' = hub_program_invalidation dev h (hub_setup_vmid_config dev gmc h
      (hub_disable_identity_aperture dev h (hub_enable_system_domain dev h (hub_init_cache_regs dev h
        (hub_init_tlb_regs dev h (hub_init_system_aperture_regs dev gmc h
          (hub_init_gart_aperture_regs dev gmc h d)))))))"
    using assms(2) by (simp add: hub_gart_enable_def Let_def split: if_splits)
  then show ?thesis
    by (simp add: assms(1) window_view aperture_view cache_view identity_view vmid_view
        invalidation_view hub_table_def)
qed

section \<open>Neither hub's table names a register twice\<close>

definition hub_offsets :: "HubContext \<Rightarrow> u32 list" where
  "hub_offsets h =
     [ctx0_pt_base_lo h, ctx0_pt_base_hi h, ctx0_pt_start_lo h, ctx0_pt_start_hi h, ctx0_pt_end_lo h,
      ctx0_pt_end_hi h, vm_agp_base h, vm_agp_bot h, vm_agp_top h, vm_system_aperture_low_addr h,
      vm_system_aperture_high_addr h, vm_system_aperture_default_addr_lo h,
      vm_system_aperture_default_addr_hi h, vm_l2_protection_fault_default_addr_lo32 h,
      vm_l2_protection_fault_default_addr_hi32 h, vm_l2_protection_fault_cntl2 h, vm_l1_tlb_cntl h,
      vm_l2_cntl h, vm_l2_cntl2 h, vm_l2_cntl3 h, vm_l2_cntl4 h, vm_l2_cntl5 h, ctx0_cntl h,
      vm_l2_ctx1_identity_aperture_low_lo32 h, vm_l2_ctx1_identity_aperture_low_hi32 h,
      vm_l2_ctx1_identity_aperture_high_lo32 h, vm_l2_ctx1_identity_aperture_high_hi32 h,
      vm_l2_ctx_identity_physical_offset_lo32 h, vm_l2_ctx_identity_physical_offset_hi32 h] @
     concat (map (\<lambda>i. [ctx1_cntl h + word_of_nat i * ctx_distance h,
       ctx1_pt_start_lo h + word_of_nat i * ctx_addr_distance h,
       ctx1_pt_start_hi h + word_of_nat i * ctx_addr_distance h,
       ctx1_pt_end_lo h + word_of_nat i * ctx_addr_distance h,
       ctx1_pt_end_hi h + word_of_nat i * ctx_addr_distance h]) [0..<15]) @
     concat (map (\<lambda>i. [vm_invalidate_eng0_addr_range_lo32 h + word_of_nat i * eng_addr_distance h,
       vm_invalidate_eng0_addr_range_hi32 h + word_of_nat i * eng_addr_distance h]) [0..<18])"

lemma hub_table_offsets: "map fst (hub_table gmc h) = hub_offsets h"
  by (simp add: hub_table_def hub_offsets_def window_table_def aperture_table_def cache_table_def
      identity_table_def map_concat o_def vmid_rows_def invalidation_rows_def Let_def)

lemma distinct_uint: "distinct (map uint xs) \<Longrightarrow> distinct xs" for xs :: "u32 list"
  by (simp add: distinct_map)

lemma mmhub_offsets_int: "map uint (hub_offsets gmc_mmhub_offsets) =
     [1487, 1488, 1519, 1520, 1551, 1552, 1368, 1367, 1366, 1369, 1370, 1224,
      1225, 1268, 1269, 1261, 1371, 1252, 1253, 1254, 1277, 1283, 1380, 1271,
      1272, 1273, 1274, 1275, 1276, 1381, 1521, 1522, 1553, 1554, 1382, 1523,
      1524, 1555, 1556, 1383, 1525, 1526, 1557, 1558, 1384, 1527, 1528, 1559,
      1560, 1385, 1529, 1530, 1561, 1562, 1386, 1531, 1532, 1563, 1564, 1387,
      1533, 1534, 1565, 1566, 1388, 1535, 1536, 1567, 1568, 1389, 1537, 1538,
      1569, 1570, 1390, 1539, 1540, 1571, 1572, 1391, 1541, 1542, 1573, 1574,
      1392, 1543, 1544, 1575, 1576, 1393, 1545, 1546, 1577, 1578, 1394, 1547,
      1548, 1579, 1580, 1395, 1549, 1550, 1581, 1582, 1451, 1452, 1453, 1454,
      1455, 1456, 1457, 1458, 1459, 1460, 1461, 1462, 1463, 1464, 1465, 1466,
      1467, 1468, 1469, 1470, 1471, 1472, 1473, 1474, 1475, 1476, 1477, 1478,
      1479, 1480, 1481, 1482, 1483, 1484, 1485, 1486]"
  by code_simp

lemma mmhub_distinct: "distinct (hub_offsets gmc_mmhub_offsets)"
  by (rule distinct_uint, unfold mmhub_offsets_int) simp

lemma gfxhub_offsets_int: "map uint (hub_offsets (gmc_gfxhub_offsets h)) =
     [5775, 5776, 5807, 5808, 5839, 5840, 5656, 5655, 5654, 5657, 5658, 5544,
      5545, 5588, 5589, 5581, 5659, 5572, 5573, 5574, 5597, 5603, 5668, 5591,
      5592, 5593, 5594, 5595, 5596, 5669, 5809, 5810, 5841, 5842, 5670, 5811,
      5812, 5843, 5844, 5671, 5813, 5814, 5845, 5846, 5672, 5815, 5816, 5847,
      5848, 5673, 5817, 5818, 5849, 5850, 5674, 5819, 5820, 5851, 5852, 5675,
      5821, 5822, 5853, 5854, 5676, 5823, 5824, 5855, 5856, 5677, 5825, 5826,
      5857, 5858, 5678, 5827, 5828, 5859, 5860, 5679, 5829, 5830, 5861, 5862,
      5680, 5831, 5832, 5863, 5864, 5681, 5833, 5834, 5865, 5866, 5682, 5835,
      5836, 5867, 5868, 5683, 5837, 5838, 5869, 5870, 5739, 5740, 5741, 5742,
      5743, 5744, 5745, 5746, 5747, 5748, 5749, 5750, 5751, 5752, 5753, 5754,
      5755, 5756, 5757, 5758, 5759, 5760, 5761, 5762, 5763, 5764, 5765, 5766,
      5767, 5768, 5769, 5770, 5771, 5772, 5773, 5774]"
  by code_simp

lemma gfxhub_distinct: "distinct (hub_offsets (gmc_gfxhub_offsets h))"
  by (rule distinct_uint, unfold gfxhub_offsets_int) simp

lemma hub_distinct:
  "h = gmc_mmhub_offsets \<or> h = gmc_gfxhub_offsets h0 \<Longrightarrow> distinct (map fst (hub_table gmc h))"
  using mmhub_distinct gfxhub_distinct by (auto simp: hub_table_offsets)

lemma hub_table_exact:
  assumes "latches (hub_reg dev h ` K) dev regs" "h = gmc_mmhub_offsets \<or> h = gmc_gfxhub_offsets h0"
    "hub_gart_enable dev gmc h d = (kIOReturnSuccess, d')" "(a, f) \<in> set (hub_table gmc h)" "a \<in> K"
  shows "regs d' (hub_reg dev h a) = f (regs d (hub_reg dev h a))"
proof -
  have "hub_view K dev regs h d' a = f (hub_view K dev regs h d a)"
    unfolding hub_gart_enable_view [OF assms(1,3)] using hub_distinct [OF assms(2)] assms(4,5)
    by (rule run_table_at)
  then show ?thesis using assms(5) by (simp add: hub_view_def)
qed

section \<open>The window and the contexts\<close>

text \<open>The registers of the 16 translation contexts that enabling the GART writes.\<close>

definition context_offsets :: "HubContext \<Rightarrow> u32 set" where
  "context_offsets h =
     {ctx0_cntl h, ctx0_pt_base_lo h, ctx0_pt_base_hi h, ctx0_pt_start_lo h, ctx0_pt_start_hi h,
      ctx0_pt_end_lo h, ctx0_pt_end_hi h} \<union>
     (\<Union>i < 15. {ctx1_cntl h + word_of_nat i * ctx_distance h,
        ctx1_pt_start_lo h + word_of_nat i * ctx_addr_distance h,
        ctx1_pt_start_hi h + word_of_nat i * ctx_addr_distance h,
        ctx1_pt_end_lo h + word_of_nat i * ctx_addr_distance h,
        ctx1_pt_end_hi h + word_of_nat i * ctx_addr_distance h})"

definition ctx0_start :: "(u32 \<Rightarrow> u32) \<Rightarrow> HubContext \<Rightarrow> u64" where
  "ctx0_start v h = push_bit 12 (ucast (v (ctx0_pt_start_lo h))) OR push_bit 44 (ucast (v (ctx0_pt_start_hi h)))"

definition ctx0_end :: "(u32 \<Rightarrow> u32) \<Rightarrow> HubContext \<Rightarrow> u64" where
  "ctx0_end v h = push_bit 12 (ucast (v (ctx0_pt_end_lo h))) OR push_bit 44 (ucast (v (ctx0_pt_end_hi h)))"

definition ctx0_root :: "(u32 \<Rightarrow> u32) \<Rightarrow> HubContext \<Rightarrow> u64" where
  "ctx0_root v h = ucast (v (ctx0_pt_base_lo h)) OR push_bit 32 (ucast (v (ctx0_pt_base_hi h)))"

lemma page_split:
  "push_bit 12 (ucast (ucast (drop_bit 12 x) :: u32)) OR
     push_bit 44 (ucast (ucast (drop_bit 44 x) :: u32)) = x AND NOT (mask 12)" for x :: u64
proof (rule bit_word_eqI)
  fix n assume "n < LENGTH(64)"
  then show "bit (push_bit 12 (ucast (ucast (drop_bit 12 x) :: u32)) OR
      push_bit 44 (ucast (ucast (drop_bit 44 x) :: u32)) :: u64) n = bit (x AND NOT (mask 12)) n"
    by (cases "44 \<le> n") (auto simp: bit_simps dest: bit_imp_le_length)
qed

lemma word_split:
  "ucast (ucast x :: u32) OR push_bit 32 (ucast (ucast (drop_bit 32 x) :: u32)) = x" for x :: u64
  by (rule bit_word_eqI) (auto simp: bit_simps dest: bit_imp_le_length)

definition ctx1_end :: "(u32 \<Rightarrow> u32) \<Rightarrow> HubContext \<Rightarrow> nat \<Rightarrow> u64" where
  "ctx1_end v h i = ucast (v (ctx1_pt_end_lo h + word_of_nat i * ctx_addr_distance h)) OR
     push_bit 32 (ucast (v (ctx1_pt_end_hi h + word_of_nat i * ctx_addr_distance h)))"

lemma ctx0_fields:
  fixes x :: u32
  defines "w \<equiv> set_fields x
        [(MMVM_CONTEXT0_CNTL__ENABLE_CONTEXT, 1), (MMVM_CONTEXT0_CNTL__PAGE_TABLE_DEPTH, 0),
         (MMVM_CONTEXT0_CNTL__RETRY_PERMISSION_OR_INVALID_PAGE_FAULT, 0)]"
  shows "REG_GET_FIELD w MMVM_CONTEXT0_CNTL__ENABLE_CONTEXT = 1"
    "REG_GET_FIELD w MMVM_CONTEXT0_CNTL__PAGE_TABLE_DEPTH = 0"
    "REG_GET_FIELD w MMVM_CONTEXT0_CNTL__RETRY_PERMISSION_OR_INVALID_PAGE_FAULT = 0"
  by (simp_all add: w_def set_fields_def get_set_same get_set_other field_ok_def field_defs)

text \<open>The control word of a user context, by its fields.\<close>

definition user_context_word :: "GMCContext \<Rightarrow> u32 \<Rightarrow> bool" where
  "user_context_word gmc w \<longleftrightarrow>
     REG_GET_FIELD w MMVM_CONTEXT0_CNTL__ENABLE_CONTEXT = 1 \<and>
     REG_GET_FIELD w MMVM_CONTEXT0_CNTL__PAGE_TABLE_DEPTH = num_level gmc AND 3 \<and>
     REG_GET_FIELD w MMVM_CONTEXT0_CNTL__PAGE_TABLE_BLOCK_SIZE = (block_size gmc - 9) AND 15 \<and>
     REG_GET_FIELD w MMVM_CONTEXT0_CNTL__RETRY_PERMISSION_OR_INVALID_PAGE_FAULT = 1 \<and>
     list_all (\<lambda>f. REG_GET_FIELD w f = 1)
       [MMVM_CONTEXT0_CNTL__RANGE_PROTECTION_FAULT_ENABLE_DEFAULT,
        MMVM_CONTEXT0_CNTL__DUMMY_PAGE_PROTECTION_FAULT_ENABLE_DEFAULT,
        MMVM_CONTEXT0_CNTL__PDE0_PROTECTION_FAULT_ENABLE_DEFAULT,
        MMVM_CONTEXT0_CNTL__VALID_PROTECTION_FAULT_ENABLE_DEFAULT,
        MMVM_CONTEXT0_CNTL__READ_PROTECTION_FAULT_ENABLE_DEFAULT,
        MMVM_CONTEXT0_CNTL__WRITE_PROTECTION_FAULT_ENABLE_DEFAULT,
        MMVM_CONTEXT0_CNTL__EXECUTE_PROTECTION_FAULT_ENABLE_DEFAULT]"

lemma vmid_cntl_fields: "user_context_word gmc (vmid_cntl gmc x)"
  by (simp add: user_context_word_def vmid_cntl_def set_fields_def get_set_same get_set_other field_ok_def
      field_defs)

text \<open>
  C14. After the GART is enabled on either hub, context 0 translates exactly the pages of
  \<open>gart_start\<close> to \<open>gart_end\<close>, through the page table at \<open>gart_pt_bus\<close> moved from the MC space of the
  frame buffer to the walker's own, with its valid bit; it is switched on, flat, and without retry.
  Each of the 15 user contexts is switched on with the depth and block size of the GPU's page tables,
  with every protection fault sent to the default page and with retry, and covers the pages from 0 to
  the last one. Only the registers of these contexts are taken to keep what is written to them.
\<close>

theorem gart_enable_opens_window:
  assumes "h = gmc_mmhub_offsets \<or> h = gmc_gfxhub_offsets h0"
    "latches (hub_reg dev h ` context_offsets h) dev regs"
    "hub_gart_enable dev gmc h d = (kIOReturnSuccess, d')"
  shows "let v = \<lambda>k. regs d' (hub_reg dev h k) in
    ctx0_start v h = gart_start gmc AND NOT (mask 12) \<and> ctx0_end v h = gart_end gmc AND NOT (mask 12) \<and>
    ctx0_root v h = (gart_pt_bus gmc - vram_start gmc + vram_base_offset gmc) OR 1 \<and>
    REG_GET_FIELD (v (ctx0_cntl h)) MMVM_CONTEXT0_CNTL__ENABLE_CONTEXT = 1 \<and>
    REG_GET_FIELD (v (ctx0_cntl h)) MMVM_CONTEXT0_CNTL__PAGE_TABLE_DEPTH = 0 \<and>
    REG_GET_FIELD (v (ctx0_cntl h)) MMVM_CONTEXT0_CNTL__RETRY_PERMISSION_OR_INVALID_PAGE_FAULT = 0 \<and>
    (\<forall>i < 15. user_context_word gmc (v (ctx1_cntl h + word_of_nat i * ctx_distance h)) \<and>
       v (ctx1_pt_start_lo h + word_of_nat i * ctx_addr_distance h) = 0 \<and>
       v (ctx1_pt_start_hi h + word_of_nat i * ctx_addr_distance h) = 0 \<and>
       ctx1_end v h i = (if max_pfn gmc = 0 then 0 else max_pfn gmc - 1))"
proof -
  note exact = hub_table_exact [OF assms(2,1,3)]
  let ?pt = "(gart_pt_bus gmc - vram_start gmc + vram_base_offset gmc) OR 1"
  have win: "regs d' (hub_reg dev h a) = x"
    if "(a, \<lambda>_. x) \<in> set (window_table gmc h)" "a \<in> context_offsets h" for a x
    using that by (intro exact [where f = "\<lambda>_. x"]) (simp_all add: hub_table_def)
  note w = window_table_def [of gmc h, unfolded Let_def gfx12_vram_walker_address_def]
  have c0: "regs d' (hub_reg dev h (ctx0_cntl h)) = set_fields (regs d (hub_reg dev h (ctx0_cntl h)))
        [(MMVM_CONTEXT0_CNTL__ENABLE_CONTEXT, 1), (MMVM_CONTEXT0_CNTL__PAGE_TABLE_DEPTH, 0),
         (MMVM_CONTEXT0_CNTL__RETRY_PERMISSION_OR_INVALID_PAGE_FAULT, 0)]"
    by (rule exact) (simp_all add: hub_table_def cache_table_def context_offsets_def)
  have vm: "regs d' (hub_reg dev h a) = f (regs d (hub_reg dev h a))"
    if "(a, f) \<in> set (vmid_rows gmc h i)" "i < 15" "a \<in> context_offsets h" for a f i
    using that by (intro exact) (auto simp: hub_table_def)
  note rows = vmid_rows_def [of gmc h, unfolded Let_def]
  have user: "user_context_word gmc (regs d' (hub_reg dev h (ctx1_cntl h + word_of_nat i * ctx_distance h))) \<and>
      regs d' (hub_reg dev h (ctx1_pt_start_lo h + word_of_nat i * ctx_addr_distance h)) = 0 \<and>
      regs d' (hub_reg dev h (ctx1_pt_start_hi h + word_of_nat i * ctx_addr_distance h)) = 0 \<and>
      ctx1_end (\<lambda>k. regs d' (hub_reg dev h k)) h i = (if max_pfn gmc = 0 then 0 else max_pfn gmc - 1)"
    if i: "i < 15" for i
  proof -
    let ?e = "if max_pfn gmc = 0 then 0 else max_pfn gmc - 1" and ?k = "word_of_nat i * ctx_addr_distance h"
    have mem: "a \<in> context_offsets h" if "a \<in> fst ` set (vmid_rows gmc h i)" for a
      using that i by (auto simp: rows context_offsets_def)
    have r: "regs d' (hub_reg dev h (ctx1_cntl h + word_of_nat i * ctx_distance h)) =
        vmid_cntl gmc (regs d (hub_reg dev h (ctx1_cntl h + word_of_nat i * ctx_distance h)))"
      "regs d' (hub_reg dev h (ctx1_pt_start_lo h + ?k)) = 0" "regs d' (hub_reg dev h (ctx1_pt_start_hi h + ?k)) = 0"
      "regs d' (hub_reg dev h (ctx1_pt_end_lo h + ?k)) = ucast ?e"
      "regs d' (hub_reg dev h (ctx1_pt_end_hi h + ?k)) = ucast (drop_bit 32 ?e)"
      using vm [OF _ i mem, of "ctx1_cntl h + word_of_nat i * ctx_distance h" "vmid_cntl gmc"]
        vm [OF _ i mem, of "ctx1_pt_start_lo h + ?k" "\<lambda>_. 0"] vm [OF _ i mem, of "ctx1_pt_start_hi h + ?k" "\<lambda>_. 0"]
        vm [OF _ i mem, of "ctx1_pt_end_lo h + ?k" "\<lambda>_. ucast ?e"]
        vm [OF _ i mem, of "ctx1_pt_end_hi h + ?k" "\<lambda>_. ucast (drop_bit 32 ?e)"] by (simp_all add: rows)
    show ?thesis unfolding ctx1_end_def r word_split by (simp add: vmid_cntl_fields)
  qed
  show ?thesis
    unfolding Let_def ctx0_start_def ctx0_end_def ctx0_root_def
    using user by (simp add: win [of "ctx0_pt_start_lo h" "ucast (drop_bit 12 (gart_start gmc))"]
        win [of "ctx0_pt_start_hi h" "ucast (drop_bit 44 (gart_start gmc))"]
        win [of "ctx0_pt_end_lo h" "ucast (drop_bit 12 (gart_end gmc))"]
        win [of "ctx0_pt_end_hi h" "ucast (drop_bit 44 (gart_end gmc))"]
        win [of "ctx0_pt_base_lo h" "ucast ?pt"] win [of "ctx0_pt_base_hi h" "ucast (drop_bit 32 ?pt)"]
        w page_split word_split c0 ctx0_fields context_offsets_def del: drop_bit_or)
qed

section \<open>The flush\<close>

text \<open>
  A whole acknowledged flush, from the state \<open>d\<close> it starts in to the state \<open>d'\<close> it ends in: MMHUB
  grants its semaphore, the request is written, the poll of the acknowledge register that starts right
  after it sees the VMID's bit in a live value, the semaphore is given back, the private cache is there.
\<close>

definition hub_acknowledged :: "'d DeviceContext \<Rightarrow> HubContext \<Rightarrow> u32 \<Rightarrow> u32 \<Rightarrow> 'd \<Rightarrow> 'd \<Rightarrow> bool" where
  "hub_acknowledged dev hub vmid flush_type d d' \<longleftrightarrow>
     (\<exists>d1 v d2. (if hub_ip hub = MMHUB
        then \<exists>x. poll_reg dev (hub_reg dev hub (vm_invalidate_eng0_sem hub) + 17 * eng_distance hub) 1 1 100000 d =
               Some ((True, x), d1)
        else d1 = d) \<and>
       poll_reg dev (hub_reg dev hub (vm_invalidate_eng0_ack hub) + 17 * eng_distance hub)
         (push_bit (unat vmid) 1) (push_bit (unat vmid) 1) 100000
         (WREG32 dev (hub_reg dev hub (vm_invalidate_eng0_req hub) + 17 * eng_distance hub)
            (invalidate_req vmid flush_type) d1) = Some ((True, v), d2) \<and>
       v \<noteq> 0xFFFFFFFF \<and> bit v (unat vmid) \<and>
       invalidate_cid2 dev hub (if hub_ip hub = MMHUB
         then WREG32 dev (hub_reg dev hub (vm_invalidate_eng0_sem hub) + 17 * eng_distance hub) 0 d2
         else d2) = (None, d'))"

lemma and_bit: "v AND push_bit k 1 = push_bit k 1 \<Longrightarrow> k < 32 \<Longrightarrow> bit v k" for v :: u32
  by (drule arg_cong [where f = "\<lambda>w. bit w k"]) (simp add: bit_simps)

lemma ack_poll_returns:
  assumes "clock_runs dev T"
  shows "\<exists>ok v d'. poll_reg dev reg m e 100000 d = Some ((ok, v), d')"
  using poll_reg_returns [OF assms, of 100000] by fastforce

lemma flush_request_returns:
  assumes "clock_runs dev T"
  shows "\<exists>r d'. flush_request dev hub vmid flush_type d = Some (r, d')"
  using ack_poll_returns [OF assms]
  by (auto simp: flush_request_def Let_def split: prod.splits option.splits)

lemma flush_returns:
  assumes "clock_runs dev T"
  shows "\<exists>r d'. gmc_flush_gpu_tlb dev hub vmid flush_type d = Some (r, d')"
proof -
  obtain held v d1 where "poll_reg dev
      (hub_reg dev hub (vm_invalidate_eng0_sem hub) + 17 * eng_distance hub) 1 1 100000 d = Some ((held, v), d1)"
    using ack_poll_returns [OF assms] by blast
  then show ?thesis
    using flush_request_returns [OF assms]
    by (auto simp: gmc_flush_gpu_tlb_def split: prod.splits option.splits)
qed

lemma flush_request_success:
  assumes "flush_request dev hub vmid flush_type d = Some (kIOReturnSuccess, d')" "vmid < 16"
  shows "\<exists>v d2. poll_reg dev (hub_reg dev hub (vm_invalidate_eng0_ack hub) + 17 * eng_distance hub)
       (push_bit (unat vmid) 1) (push_bit (unat vmid) 1) 100000
       (WREG32 dev (hub_reg dev hub (vm_invalidate_eng0_req hub) + 17 * eng_distance hub)
          (invalidate_req vmid flush_type) d) = Some ((True, v), d2) \<and>
     v \<noteq> 0xFFFFFFFF \<and> bit v (unat vmid) \<and>
     invalidate_cid2 dev hub (if hub_ip hub = MMHUB
       then WREG32 dev (hub_reg dev hub (vm_invalidate_eng0_sem hub) + 17 * eng_distance hub) 0 d2
       else d2) = (None, d')"
proof -
  let ?e = "push_bit (unat vmid) 1 :: u32"
  let ?d = "WREG32 dev (hub_reg dev hub (vm_invalidate_eng0_req hub) + 17 * eng_distance hub)
    (invalidate_req vmid flush_type) d"
  obtain ok v d1 where p: "poll_reg dev (hub_reg dev hub (vm_invalidate_eng0_ack hub) + 17 * eng_distance hub)
      ?e ?e 100000 ?d = Some ((ok, v), d1)"
    using assms(1) by (auto simp: flush_request_def Let_def split: option.splits)
  have no_err: "invalidate_cid2 dev hub x \<noteq> (Some kIOReturnSuccess, y)" for x y
    by (auto simp: invalidate_cid2_def Let_def split: if_splits prod.splits)
  have ok: "ok" and cid: "invalidate_cid2 dev hub (if hub_ip hub = MMHUB
       then WREG32 dev (hub_reg dev hub (vm_invalidate_eng0_sem hub) + 17 * eng_distance hub) 0 d1
       else d1) = (None, d')"
    using assms(1) [unfolded flush_request_def Let_def p option.case prod.case] no_err
    by (auto split: option.splits if_splits prod.splits)
  have ans: "v \<noteq> 0xFFFFFFFF" "v AND ?e = ?e" using poll_reg_answer [OF p] ok by blast+
  have "unat vmid < 32" using assms(2) by (simp add: word_less_nat_alt)
  with ans(2) have "bit v (unat vmid)" by (rule and_bit)
  moreover have "ok = True" using ok by simp
  ultimately show ?thesis using ans(1) p cid by blast
qed

lemma flush_success:
  assumes "gmc_flush_gpu_tlb dev hub vmid flush_type d = Some (kIOReturnSuccess, d')"
  shows "hub_inited hub \<and> vmid < 16 \<and> flush_type \<le> 7 \<and> hub_acknowledged dev hub vmid flush_type d d'"
proof -
  have g: "hub_inited hub" "vmid < 16" "flush_type \<le> 7"
    using assms by (auto simp: gmc_flush_gpu_tlb_def not_le not_less split: if_splits)
  obtain d1 where "(if hub_ip hub = MMHUB
        then \<exists>x. poll_reg dev (hub_reg dev hub (vm_invalidate_eng0_sem hub) + 17 * eng_distance hub) 1 1 100000 d =
               Some ((True, x), d1)
        else d1 = d)" and "flush_request dev hub vmid flush_type d1 = Some (kIOReturnSuccess, d')"
    using assms by (auto simp: gmc_flush_gpu_tlb_def split: if_splits option.splits)
  with flush_request_success [OF this(2) g(2)] g show ?thesis unfolding hub_acknowledged_def by blast
qed

text \<open>
  C15. A TLB flush always returns while the clock runs, and it reports success only for a VMID and
  flush type in range when the state it returns is the end of a whole acknowledged flush that started
  in the caller's state: the request's acknowledge was read back, as a live register value.
\<close>

theorem flush_returns_acknowledged:
  assumes "clock_runs dev T"
  shows "\<exists>r d'. gmc_flush_gpu_tlb dev hub vmid flush_type d = Some (r, d') \<and>
    (r = kIOReturnSuccess \<longrightarrow>
       hub_inited hub \<and> vmid < 16 \<and> flush_type \<le> 7 \<and> hub_acknowledged dev hub vmid flush_type d d')"
  using flush_returns [OF assms] flush_success by metis

lemma flush_returns_acknowledged_witness:
  "\<exists>r d'. gmc_flush_gpu_tlb ram_dev gmc_mmhub_offsets 0 0 (\<lambda>_ _. 0, 0) = Some (r, d') \<and>
    (r = kIOReturnSuccess \<longrightarrow> hub_inited gmc_mmhub_offsets \<and> (0::u32) < 16 \<and> (0::u32) \<le> 7 \<and>
       hub_acknowledged ram_dev gmc_mmhub_offsets 0 0 (\<lambda>_ _. 0, 0) d')"
  by (rule flush_returns_acknowledged [OF ram_dev_ok(4)])

section \<open>Hubs do not touch VRAM\<close>

definition vram_apart :: "'d DeviceContext \<Rightarrow> bool" where
  "vram_apart dev \<longleftrightarrow> bar5MemIndex dev \<noteq> bar0MemIndex dev"

lemma WREG32_mem: "writes_local dev mem \<Longrightarrow> vram_apart dev \<Longrightarrow> mem (WREG32 dev r v d) = mem d"
  unfolding writes_local_def WREG32_def vram_apart_def by blast

lemma RREG32_mem: "reads_memory dev mem \<Longrightarrow> RREG32 dev r d = (v, d') \<Longrightarrow> mem d' = mem d"
  unfolding RREG32_def by (rule rd32_mem)

lemma hdp_flush_mem:
  assumes "reads_memory dev mem" "writes_local dev mem" "vram_apart dev"
  shows "mem (amdgpu_hdp_flush dev d) = mem d"
proof -
  have "mem (wr32 dev (bar5MemIndex dev) 0x44000 0 d) = mem d"
    using assms(2,3) unfolding writes_local_def vram_apart_def by blast
  then show ?thesis using assms(1) by (simp add: amdgpu_hdp_flush_def Let_def reads_memory_def)
qed

lemma cid2_mem:
  assumes "reads_memory dev mem" "writes_local dev mem" "vram_apart dev"
    "invalidate_cid2 dev hub d = (r, d')"
  shows "mem d' = mem d"
  using assms(4) RREG32_mem [OF assms(1)] WREG32_mem [OF assms(2,3)]
  by (auto simp: invalidate_cid2_def Let_def split: if_splits prod.splits)

lemma flush_request_mem:
  assumes mem: "reads_memory dev mem" "writes_local dev mem" "waits_keep_memory dev mem" "vram_apart dev"
    and run: "flush_request dev hub vmid flush_type d = Some (r, d')"
  shows "mem d' = mem d"
proof -
  note W = WREG32_mem [where mem = mem, OF mem(2,4)]
  let ?e = "push_bit (unat vmid) 1 :: u32"
  let ?d = "WREG32 dev (hub_reg dev hub (vm_invalidate_eng0_req hub) + 17 * eng_distance hub)
    (invalidate_req vmid flush_type) d"
  obtain ok v d1 where p: "poll_reg dev (hub_reg dev hub (vm_invalidate_eng0_ack hub) + 17 * eng_distance hub)
      ?e ?e 100000 ?d = Some ((ok, v), d1)"
    using run by (auto simp: flush_request_def Let_def split: option.splits)
  have "mem d1 = mem d" using poll_reg_mem [OF mem(1,3) p] W by simp
  then show ?thesis
    using run [unfolded flush_request_def Let_def p option.case prod.case] cid2_mem [OF mem(1,2,4)] W
    by (auto split: option.splits if_splits prod.splits)
qed

lemma flush_mem:
  assumes mem: "reads_memory dev mem" "writes_local dev mem" "waits_keep_memory dev mem" "vram_apart dev"
    and run: "gmc_flush_gpu_tlb dev hub vmid flush_type d = Some (r, d')"
  shows "mem d' = mem d"
proof -
  have poll: "mem d1 = mem d" if "poll_reg dev reg m e t d = Some (x, d1)" for reg m e t d x d1
    using poll_reg_mem [OF mem(1,3) that] by simp
  show ?thesis
    using run flush_request_mem [OF mem]
    by (auto simp: gmc_flush_gpu_tlb_def dest!: poll split: option.splits if_splits)
qed

section \<open>A device for the witnesses\<close>

definition ram_regs :: "ram \<Rightarrow> u32 \<Rightarrow> u32" where "ram_regs d r = fst d 2 (ucast r * 4)"

lemma reg_addr_inj: "(ucast r :: u64) * 4 = ucast s * 4 \<longleftrightarrow> r = s" for r s :: u32
proof
  assume "(ucast r :: u64) * 4 = ucast s * 4"
  then have "unat ((ucast r :: u64) * 4) = unat ((ucast s :: u64) * 4)" by simp
  moreover have "unat ((ucast x :: u64) * 4) = unat x * 4" for x :: u32
  proof -
    have "unat x * 4 < 18446744073709551616" "unat x < 18446744073709551616"
      using unat_lt_32 [of x] by linarith+
    then show ?thesis by (simp add: unat_word_ariths unsigned_ucast_eq take_bit_eq_mod)
  qed
  ultimately show "r = s" by (simp add: unat_eq_word)
qed simp

lemma ram_latches: "latches K ram_dev ram_regs"
  by (auto simp: latches_def RREG32_def WREG32_def access_defs ram_dev_def ram_pci_def ram_regs_def reg_addr_inj)

definition demo_gmc :: GMCContext where
  "demo_gmc = gmc_zero\<lparr>gart_pt_bus := 0x700000, gart_start := 0x100000000, gart_end := 0x10FFFFFFF\<rparr>"

lemma demo_enable: "\<exists>d'. hub_gart_enable ram_dev demo_gmc gmc_mmhub_offsets (\<lambda>_ _. 0, 0) = (kIOReturnSuccess, d')"
  by (simp add: hub_gart_enable_def Let_def demo_gmc_def gmc_zero_def gmc_mmhub_offsets_def
      ram_dev_def ip_isResolved_def)

lemma gart_enable_opens_window_witness:
  "\<exists>d'. let v = \<lambda>k. ram_regs d' (hub_reg ram_dev gmc_mmhub_offsets k) in
     ctx0_start v gmc_mmhub_offsets = 0x100000000 \<and> ctx0_end v gmc_mmhub_offsets = 0x10FFFF000 \<and>
     ctx0_root v gmc_mmhub_offsets = 0x700001 \<and>
     (\<forall>i < 15. user_context_word demo_gmc
        (v (ctx1_cntl gmc_mmhub_offsets + word_of_nat i * ctx_distance gmc_mmhub_offsets)))"
proof -
  obtain d' where d': "hub_gart_enable ram_dev demo_gmc gmc_mmhub_offsets (\<lambda>_ _. 0, 0) = (kIOReturnSuccess, d')"
    using demo_enable by blast
  have m: "0x100000000 AND NOT (mask 12 :: u64) = 0x100000000" "0x10FFFFFFF AND NOT (mask 12 :: u64) = 0x10FFFF000"
    by (simp_all add: mask_eq_exp_minus_1)
  have g: "gart_start demo_gmc = 0x100000000" "gart_end demo_gmc = 0x10FFFFFFF"
    "(gart_pt_bus demo_gmc - vram_start demo_gmc + vram_base_offset demo_gmc) OR 1 = 0x700001"
    by (simp_all add: demo_gmc_def gmc_zero_def)
  note w = gart_enable_opens_window [OF disjI1 ram_latches d', OF refl, unfolded Let_def g m]
  show ?thesis unfolding Let_def using w by blast
qed

end
