(* ===== verification/Gmc_Init.thy ===== *)
theory Gmc_Init
  imports Hub
begin

text \<open>
  The resources of the memory controller and the order of its initialisation (\<^verbatim>\<open>gmc_v12_0.cpp\<close>:
  \<open>alloc_dma_block\<close>, \<open>gmc_alloc_resources\<close>, \<open>gmc_release_resources\<close>, \<open>gmc_init\<close>, \<open>gmc_bind_existing\<close>).
  Buffers and DMA commands are DriverKit's: the functions of an \<open>os\<close> record over the device state.
\<close>

section \<open>DriverKit\<close>

text \<open>Buffers and DMA commands are named by handles; \<open>None\<close> is a null object.\<close>

record 'd os =
  buf_create :: "u64 \<Rightarrow> u64 \<Rightarrow> 'd \<Rightarrow> (kern_return \<times> u64 option) \<times> 'd" \<comment> \<open>length, alignment\<close>
  buf_set_length :: "u64 \<Rightarrow> u64 \<Rightarrow> 'd \<Rightarrow> kern_return \<times> 'd"
  buf_address :: "u64 \<Rightarrow> 'd \<Rightarrow> (kern_return \<times> u64 \<times> u64) \<times> 'd" \<comment> \<open>CPU address, length\<close>
  buf_release :: "u64 \<Rightarrow> 'd \<Rightarrow> 'd"
  dma_create :: "nat \<Rightarrow> 'd \<Rightarrow> (kern_return \<times> u64 option) \<times> 'd" \<comment> \<open>address bits\<close>
  dma_prepare :: "u64 \<Rightarrow> u64 \<Rightarrow> u64 \<Rightarrow> 'd \<Rightarrow> (kern_return \<times> u32 \<times> u64 \<times> u64) \<times> 'd"
    \<comment> \<open>command, buffer, length; segment count, address, length\<close>
  dma_complete :: "u64 \<Rightarrow> 'd \<Rightarrow> kern_return \<times> 'd"
  dma_release :: "u64 \<Rightarrow> 'd \<Rightarrow> 'd"
  cpu_zero :: "u64 \<Rightarrow> u64 \<Rightarrow> 'd \<Rightarrow> 'd" \<comment> \<open>\<^verbatim>\<open>memset(address, 0, length)\<close>\<close>

text \<open>\<^verbatim>\<open>r != kIOReturnSuccess ? r : other\<close>\<close>

definition or_else :: "kern_return \<Rightarrow> kern_return \<Rightarrow> kern_return" where
  "or_else r other = (if r \<noteq> kIOReturnSuccess then r else other)"

section \<open>A DMA block\<close>

record dma_block =
  blk_buf :: u64
  blk_dma :: u64
  blk_bus :: u64
  blk_cpu :: u64

definition alloc_dma_block :: "'d os \<Rightarrow> u64 \<Rightarrow> 'd \<Rightarrow> (kern_return \<times> dma_block option) \<times> 'd" where
  "alloc_dma_block os sz d =
     (case buf_create os sz kASPageSize d of
        ((r, None), d) \<Rightarrow> ((or_else r kIOReturnNoMemory, None), d)
      | ((r, Some b), d) \<Rightarrow>
          if r \<noteq> kIOReturnSuccess then ((r, None), d)
          else let (r, d) = buf_set_length os b sz d
            in if r \<noteq> kIOReturnSuccess then ((r, None), buf_release os b d)
            else (case dma_create os 64 d of
                    ((r, None), d) \<Rightarrow> ((or_else r kIOReturnNoMemory, None), buf_release os b d)
                  | ((r, Some m), d) \<Rightarrow>
                      if r \<noteq> kIOReturnSuccess then ((r, None), buf_release os b d)
                      else let ((r, count, address, len), d) = dma_prepare os m b sz d
                        in if r \<noteq> kIOReturnSuccess \<or> count \<noteq> 1 \<or> len < sz \<or> address AND 4095 \<noteq> 0
                        then let d = (if r = kIOReturnSuccess then snd (dma_complete os m d) else d)
                          in ((or_else r kIOReturnNotAligned, None), buf_release os b (dma_release os m d))
                        else let ((r, cpu, cpu_len), d) = buf_address os b d
                          in if r \<noteq> kIOReturnSuccess \<or> cpu = 0 \<or> cpu_len < sz
                          then ((or_else r kIOReturnNoMemory, None),
                                buf_release os b (dma_release os m (snd (dma_complete os m d))))
                          else ((kIOReturnSuccess,
                                 Some \<lparr>blk_buf = b, blk_dma = m, blk_bus = address, blk_cpu = cpu\<rparr>), d)))"

section \<open>Resources\<close>

definition kGMCGartPTVRAMOffset :: u64 where "kGMCGartPTVRAMOffset = 0x00700000"
definition kGMCScratchVRAMOffset :: u64 where "kGMCScratchVRAMOffset = 0x00780000"
definition kGMCGartPTBytes :: u64 where "kGMCGartPTBytes = 512 * 1024"

text \<open>Only the dummy page ever has a buffer: the page table and the scratch page are in VRAM.\<close>

definition gmc_release_resources :: "'d os \<Rightarrow> GMCContext \<Rightarrow> 'd \<Rightarrow> GMCContext \<times> 'd" where
  "gmc_release_resources os gmc d =
     (let d = (case dummy_page gmc of
                 None \<Rightarrow> d
               | Some (b, m) \<Rightarrow> buf_release os b (dma_release os m (snd (dma_complete os m d))))
      in (gmc\<lparr>dummy_page := None, gart_pt_bus := 0, gart_pt_size := 0, dummy_page_bus := 0,
              mem_scratch_bus := 0\<rparr>, d))"

definition gart_pt_bytes :: "GMCContext \<Rightarrow> u64" where
  "gart_pt_bytes gmc =
     (let pt_bytes = gart_size gmc div 4096 * 8;
          pt_bytes = (if pt_bytes < kASPageSize then kASPageSize else pt_bytes)
      in (pt_bytes + kASPageSize - 1) AND NOT (kASPageSize - 1))"

definition gmc_alloc_resources ::
  "'d DeviceContext \<Rightarrow> 'd os \<Rightarrow> GMCContext \<Rightarrow> 'd \<Rightarrow> (kern_return \<times> GMCContext) \<times> 'd"
where
  "gmc_alloc_resources dev os gmc d =
     (if gart_pt_size gmc \<noteq> 0 then ((kIOReturnSuccess, gmc), d)
      else if \<not> gmc_inited gmc then ((kIOReturnNotReady, gmc), d)
      else let pt_bytes = gart_pt_bytes gmc
        in if kGMCGartPTBytes < pt_bytes \<or> visible_vram_size gmc < kGMCScratchVRAMOffset + kASPageSize
        then ((kIOReturnNoSpace, gmc), d)
        else let gmc = gmc\<lparr>gart_pt_bus := vram_start gmc + kGMCGartPTVRAMOffset\<rparr>;
                 d = bar0_memset_vram dev kGMCGartPTVRAMOffset 0 (unat pt_bytes) d;
                 ((r, blk), d) = alloc_dma_block os kASPageSize d
          in (case blk of
                None \<Rightarrow> let (gmc, d) = gmc_release_resources os (gmc\<lparr>dummy_page := None, dummy_page_bus := 0\<rparr>) d
                  in ((r, gmc), d)
              | Some b \<Rightarrow>
                  let d = cpu_zero os (blk_cpu b) kASPageSize d;
                      d = bar0_memset_vram dev kGMCScratchVRAMOffset 0 (unat kASPageSize) d
                  in ((kIOReturnSuccess,
                       gmc\<lparr>dummy_page := Some (blk_buf b, blk_dma b), dummy_page_bus := blk_bus b,
                           mem_scratch_bus := vram_start gmc + kGMCScratchVRAMOffset,
                           gart_pt_size := pt_bytes\<rparr>), d)))"

section \<open>Initialisation\<close>

text \<open>The register readback that only feeds the log is left out. \<open>gmcReady\<close> is set on success.\<close>

definition gmc_init ::
  "'d DeviceContext \<Rightarrow> 'd os \<Rightarrow> GMCContext \<Rightarrow> 'd \<Rightarrow> ((kern_return \<times> GMCContext \<times> 'd DeviceContext) \<times> 'd) option"
where
  "gmc_init dev os gmc d =
     (let ((r, gmc), d) = gmc_mc_init dev gmc d
      in if r \<noteq> kIOReturnSuccess then Some ((r, gmc, dev), d)
      else let (r, gmc) = gmc_vram_alloc_init gmc
      in if r \<noteq> kIOReturnSuccess then Some ((r, gmc, dev), d)
      else let (r, gmc) = gmc_mmhub_offsets_init gmc
      in if r \<noteq> kIOReturnSuccess then Some ((r, gmc, dev), d)
      else let (r, gmc) = gmc_gfxhub_offsets_init gmc
      in if r \<noteq> kIOReturnSuccess then Some ((r, gmc, dev), d)
      else let ((r, gmc), d) = gmc_alloc_resources dev os gmc d
      in if r \<noteq> kIOReturnSuccess then Some ((r, gmc, dev), d)
      else let mm = ip_isResolved (dev_ip dev) (hub_ip (mmhub gmc));
               (r, d) = (if mm then gmc_mmhub_gart_enable dev gmc d else (kIOReturnSuccess, d))
      in if r \<noteq> kIOReturnSuccess then Some ((r, gmc, dev), d)
      else let d = (if ip_isResolved (dev_ip dev) HDP then snd (gmc_hdp_flush dev d) else d);
               d = (if mm then snd (gmc_set_fault_enable_default dev (mmhub gmc) True d) else d)
      in if mm
      then (case gmc_flush_gpu_tlb dev (mmhub gmc) 0 0 d of
              None \<Rightarrow> None
            | Some (r, d) \<Rightarrow>
                if r \<noteq> kIOReturnSuccess then Some ((r, gmc, dev), d)
                else Some ((kIOReturnSuccess, gmc, dev\<lparr>gmcReady := True\<rparr>), d))
      else Some ((kIOReturnSuccess, gmc, dev\<lparr>gmcReady := True\<rparr>), d))"

section \<open>The firmware bind\<close>

text \<open>\<open>PTEFlags::SYSMEM_RW\<close>: valid, system, snooped, executable, readable, writeable, leaf, uncached.\<close>

definition SYSMEM_RW :: u64 where
  "SYSMEM_RW = push_bit 0 1 OR push_bit 1 1 OR push_bit 2 1 OR push_bit 4 1 OR push_bit 5 1 OR
     push_bit 6 1 OR push_bit 63 1 OR push_bit 54 2"

fun put_ptes :: "'d DeviceContext \<Rightarrow> u64 \<Rightarrow> u64 \<Rightarrow> u64 \<Rightarrow> nat \<Rightarrow> 'd \<Rightarrow> 'd" where
  "put_ptes dev busAddr firstPTE i 0 d = d"
| "put_ptes dev busAddr firstPTE i (Suc n) d =
     (let pte = (busAddr + i * 4096) AND NOT 0xFFF OR SYSMEM_RW;
          d = bar0_memcpy_to_vram dev (kGMCGartPTVRAMOffset + (firstPTE + i) * 8) (bytes64 pte) d
      in put_ptes dev busAddr firstPTE (i + 1) n d)"

definition gmc_bind_existing ::
  "'d DeviceContext \<Rightarrow> GMCContext \<Rightarrow> u64 \<Rightarrow> u64 \<Rightarrow> 'd \<Rightarrow> (kern_return \<times> u64 option \<times> GMCContext) \<times> 'd"
where
  "gmc_bind_existing dev gmc busAddr sizeBytes d =
     (if \<not> gmc_inited gmc \<or> gart_pt_bus gmc = 0 then ((kIOReturnNotReady, None, gmc), d)
      else if busAddr = 0 \<or> sizeBytes = 0 then ((kIOReturnBadArgument, None, gmc), d)
      else if busAddr AND (kASPageSize - 1) \<noteq> 0 then ((kIOReturnNotAligned, None, gmc), d)
      else if 0xFFFFFFFFFFFFFFFF - (kASPageSize - 1) < sizeBytes then ((kIOReturnBadArgument, None, gmc), d)
      else let rounded = align_up sizeBytes kASPageSize; dmaLimit = push_bit 44 1
        in if dmaLimit \<le> busAddr \<or> dmaLimit - busAddr < rounded then ((kIOReturnBadArgument, None, gmc), d)
        else let (ok, al) = gart_alloc_init (gart_allocator gmc) (gart_start gmc) (gart_size gmc);
                 gmc = gmc\<lparr>gart_allocator := al\<rparr>
          in if \<not> ok then ((kIOReturnNotReady, None, gmc), d)
          else (case gart_reserve al (rounded, kASPageSize) of
                  None \<Rightarrow> ((kIOReturnNoSpace, None, gmc), d)
                | Some (res, al) \<Rightarrow>
                    let gmc = gmc\<lparr>gart_allocator := al\<rparr>;
                        off = gr_offset res;
                        numPTEs = unat (ucast (rounded div 4096) :: u32);
                        d = put_ptes dev busAddr (off div 4096) 0 numPTEs d;
                        d = amdgpu_hdp_flush dev d
                    in ((kIOReturnSuccess, Some (gart_start gmc + off), gmc), d)))"

text \<open>The entry point without a device is refused.\<close>

definition gmc_bind_existing_legacy :: kern_return where
  "gmc_bind_existing_legacy = kIOReturnUnsupported"

end
