(* ===== verification/Gmc_Properties.thy ===== *)
theory Gmc_Properties
  imports Gmc_Init Vram_Correct
begin

text \<open>
  The address map: the GART window clears the frame buffer, the two VRAM pools clear each other and the
  reserved ends of VRAM; a DMA block is allocated whole or not at all; initialisation ends in a
  usable state.
\<close>

section \<open>Placement of the GART window\<close>

lemma gart_location_spec:
  assumes "gfx12_gart_location_low fbStart fbEnd sz = Some gs"
  shows "4096 dvd unat sz" "4294967296 dvd unat gs" "unat gs + unat sz \<le> 2 ^ 47" "0 < unat sz"
    "unat gs + unat sz \<le> unat fbStart \<or> unat fbEnd < unat gs" "fbStart \<le> fbEnd"
proof -
  let ?c = "if sz \<le> fbStart then 0 else align_up (fbEnd + 1) 0x100000000"
  have g: "sz \<noteq> 0" "sz AND 4095 = 0" "fbStart \<le> fbEnd" "fbEnd < 0x800000000000"
      "gs < 0x800000000000" "sz \<le> 0x800000000000 - gs" and gs: "gs = ?c"
    using assms by (auto simp: gfx12_gart_location_low_def Let_def align_up_def split: if_splits)
  show "4096 dvd unat sz" "0 < unat sz" "fbStart \<le> fbEnd" using g by (simp_all add: and_4095_dvd unat_gt_0)
  have fe: "unat fbEnd < 0x800000000000" "unat gs < 0x800000000000"
    using g by (simp_all add: word_less_nat_alt)
  have "unat (0x800000000000 - gs) = 0x800000000000 - unat gs"
    using g(5) by (subst unat_sub64) simp_all
  then show "unat gs + unat sz \<le> 2 ^ 47" using g(6) fe(2) by (simp add: word_le_nat_alt)
  have up: "unat (align_up (fbEnd + 1) 0x100000000) = round_up (unat fbEnd + 1) 4294967296"
  proof -
    have f1: "unat (fbEnd + 1) = unat fbEnd + 1" using fe(1) by (simp add: word_nat)
    have "is_pow2 (0x100000000 :: u64)" by (simp add: is_pow2_def)
    then show ?thesis using fe(1) by (subst unat_align_up) (simp_all add: f1)
  qed
  show "4294967296 dvd unat gs" using up by (simp add: gs)
  show "unat gs + unat sz \<le> unat fbStart \<or> unat fbEnd < unat gs"
    using up round_up_ge [of 4294967296 "unat fbEnd + 1"] by (simp add: gs word_le_nat_alt)
qed

text \<open>
  The low placement of the GART window: whenever it finds a place, the window is page-granular, 4 GB
  aligned, ends below \<open>2 ^ 47\<close> and does not meet the frame buffer.
\<close>

theorem gart_window_clear:
  assumes "gfx12_gart_location_low fbStart fbEnd sz = Some gs"
  shows "4096 dvd unat sz \<and> 2 ^ 32 dvd unat gs \<and> unat gs + unat sz \<le> 2 ^ 47 \<and>
    {unat gs ..< unat gs + unat sz} \<inter> {unat fbStart .. unat fbEnd} = {}"
  using gart_location_spec [OF assms] by auto

lemma gart_window_clear_witness:
  "4096 dvd unat (0x10000000 :: u64) \<and> 2 ^ 32 dvd unat (0x8500000000 :: u64) \<and>
    unat (0x8500000000 :: u64) + unat (0x10000000 :: u64) \<le> 2 ^ 47 \<and>
    {unat (0x8500000000 :: u64) ..< unat (0x8500000000 :: u64) + unat (0x10000000 :: u64)} \<inter>
      {unat (0x1000 :: u64) .. unat (0x84FFFFFFFF :: u64)} = {}"
  by (rule gart_window_clear) (simp add: gfx12_gart_location_low_def)

section \<open>The VRAM pools\<close>

lemma vram_init_fields [simp]:
  "m_base (vram_init b n c) = b" "m_size (vram_init b n c) = n"
  "m_inited (vram_init b n c) \<longleftrightarrow> n \<noteq> 0 \<and> unat b + unat n < 18446744073709551616"
  using add_guard64_max [of b n] by (auto simp: vram_init_def Let_def pool_take_def set_node_def)

lemma device_pool_spec:
  assumes "buffer_device_pool base visible usable = Some (b, n)"
  shows "visible \<noteq> 0" "visible \<le> usable" "unat base + unat usable \<le> 2 ^ 48"
    "n = 0 \<or> unat base + unat visible \<le> unat b \<and> unat b + unat n + 0x100000 \<le> unat base + unat usable \<and>
       16384 dvd unat b \<and> 16384 dvd unat n"
proof -
  have g: "visible \<noteq> 0" "visible \<le> usable" "base < 0x1000000000000" "usable \<le> 0x1000000000000 - base"
      "base AND (16384 - 1) = 0"
    using assms by (auto simp: buffer_device_pool_def split: if_splits)
  show "visible \<noteq> 0" "visible \<le> usable" by fact+
  have b: "unat base < 0x1000000000000" using g(3) by (simp add: word_less_nat_alt)
  have "unat (0x1000000000000 - base) = 0x1000000000000 - unat base"
    using g(3) by (subst unat_sub64) simp_all
  then have u: "unat base + unat usable \<le> 0x1000000000000" using g(4) b by (simp add: word_le_nat_alt)
  then show "unat base + unat usable \<le> 2 ^ 48" by simp
  have v: "unat visible \<le> unat usable" using g(2) by (simp add: word_le_nat_alt)
  have p: "is_pow2 (16384 :: u64)" by (simp add: is_pow2_def)
  have bd: "16384 dvd unat base" using low_bits_zero_dvd [OF p] g(5) by simp
  show "n = 0 \<or> unat base + unat visible \<le> unat b \<and> unat b + unat n + 0x100000 \<le> unat base + unat usable \<and>
       16384 dvd unat b \<and> 16384 dvd unat n"
  proof (cases "n = 0")
    case False
    define start where "start = align_up visible 16384"
    define stop where "stop = (usable - 0x100000) AND NOT (16384 - 1)"
    have c: "\<not> usable \<le> 0x100000" "start < stop" and bn: "b = base + start" "n = stop - start"
      using assms False by (auto simp: buffer_device_pool_def Let_def start_def stop_def split: if_splits)
    have "0x100000 \<le> usable" using c(1) by simp
    from unat_sub64 [OF this] have us: "unat (usable - 0x100000) = unat usable - 0x100000" "0x100000 < unat usable"
      using c(1) by (simp_all add: not_le word_less_nat_alt)
    have st: "unat start = round_up (unat visible) 16384"
      unfolding start_def using u v p by (subst unat_align_up) simp_all
    have sp: "unat stop = (unat usable - 0x100000) div 16384 * 16384"
      unfolding stop_def using and_not_pred_pow2 [of "16384 :: u64" 14 "usable - 0x100000"] us by simp
    have "unat visible \<le> unat start" "16384 dvd unat start" "16384 dvd unat stop"
      using round_up_ge [of 16384] by (simp_all add: st sp)
    moreover have "unat stop \<le> unat usable - 0x100000" by (simp add: sp)
    moreover have lt: "unat start < unat stop" using c(2) by (simp add: word_less_nat_alt)
    ultimately have "unat b = unat base + unat start" "unat n = unat stop - unat start"
      using u us by (auto simp: bn word_nat word_le_nat_alt)
    with bd lt \<open>unat visible \<le> unat start\<close> \<open>16384 dvd unat start\<close> \<open>16384 dvd unat stop\<close>
      \<open>unat stop \<le> unat usable - 0x100000\<close> us(2) show ?thesis
      by (auto intro: dvd_diff_nat)
  qed simp
qed

text \<open>The CPU-visible pool, behind what is reserved at its start.\<close>

lemma visible_pool:
  assumes "buffer_device_pool start visible real = Some x" "kPspReservedTopBytes < visible"
  shows "vram_inv (vram_init (start + kPspReservedTopBytes) (visible - kPspReservedTopBytes) None) []"
    "unat (start + kPspReservedTopBytes) = unat start + 0x1800000"
    "unat (visible - kPspReservedTopBytes) = unat visible - 0x1800000"
    "0x1800000 < unat visible"
proof -
  obtain b n where pool: "buffer_device_pool start visible real = Some (b, n)" using assms(1) by (cases x) simp
  note P = device_pool_spec [OF pool]
  show v: "0x1800000 < unat visible" using assms(2) by (simp add: kPspReservedTopBytes_def word_less_nat_alt)
  have "unat visible \<le> unat real" using P(2) by (simp add: word_le_nat_alt)
  then have lim: "unat start + unat visible \<le> 0x1000000000000" using P(3) by simp
  show base: "unat (start + kPspReservedTopBytes) = unat start + 0x1800000"
    using lim v by (simp add: word_nat kPspReservedTopBytes_def)
  show sz: "unat (visible - kPspReservedTopBytes) = unat visible - 0x1800000"
    using assms(2) by (simp add: unat_sub64 kPspReservedTopBytes_def)
  show "vram_inv (vram_init (start + kPspReservedTopBytes) (visible - kPspReservedTopBytes) None) []"
  proof (rule vram_init_inv)
    show "0 < visible - kPspReservedTopBytes" using sz v by (simp add: word_less_nat_alt)
  qed (use base sz lim v in simp)
qed

text \<open>
  C16. A first successful \<open>gmc_vram_alloc_init\<close> leaves a CPU-visible pool that starts behind the 24 MB reserved
  for the PSP, the page table and the scratch page and ends with the visible window, and a device
  pool that is empty or lies between the visible window and the last megabyte of VRAM. Both
  are in the allocator's invariant with nothing allocated.
\<close>

theorem vram_pools_apart:
  assumes "gmc_vram_alloc_init gmc = (kIOReturnSuccess, gmc')" "\<not> m_inited (vram_alloc gmc)"
  shows "vram_inv (vram_alloc gmc') [] \<and>
    unat (m_base (vram_alloc gmc')) = unat (vram_start gmc) + 0x1800000 \<and>
    unat (m_base (vram_alloc gmc')) + unat (m_size (vram_alloc gmc')) =
      unat (vram_start gmc) + unat (visible_vram_size gmc) \<and>
    unat kGMCScratchVRAMOffset + unat kASPageSize \<le> 0x1800000 \<and>
    (m_size (device_vram_alloc gmc') = 0 \<and> \<not> m_inited (device_vram_alloc gmc') \<or>
     vram_inv (device_vram_alloc gmc') [] \<and>
     unat (vram_start gmc) + unat (visible_vram_size gmc) \<le> unat (m_base (device_vram_alloc gmc')) \<and>
     unat (m_base (device_vram_alloc gmc')) + unat (m_size (device_vram_alloc gmc')) + 0x100000 \<le>
       unat (vram_start gmc) + unat (real_vram_size gmc))"
proof -
  obtain b n where pool: "buffer_device_pool (vram_start gmc) (visible_vram_size gmc) (real_vram_size gmc) = Some (b, n)"
    and big: "kPspReservedTopBytes < visible_vram_size gmc"
    and gmc': "gmc' = gmc\<lparr>vram_alloc := vram_init (vram_start gmc + kPspReservedTopBytes)
                (visible_vram_size gmc - kPspReservedTopBytes) None,
              device_vram_alloc := vram_init b n None\<rparr>"
    using assms by (auto simp: gmc_vram_alloc_init_def split: if_splits option.splits)
  note P = device_pool_spec [OF pool]
  note first = visible_pool(1) [OF pool big] and base = visible_pool(2) [OF pool big] and sz = visible_pool(3) [OF pool big]
    and v = visible_pool(4) [OF pool big]
  have second: "n = 0 \<or> vram_inv (vram_init b n None) [] \<and>
      unat (vram_start gmc) + unat (visible_vram_size gmc) \<le> unat b \<and>
      unat b + unat n + 0x100000 \<le> unat (vram_start gmc) + unat (real_vram_size gmc)"
    using P(3,4) by (auto intro!: vram_init_inv simp: word_less_nat_alt unat_gt_0)
  show ?thesis
    using first second base sz v by (auto simp: gmc' kGMCScratchVRAMOffset_def kASPageSize_def)
qed

lemma vram_pools_apart_witness:
  "\<exists>gmc' :: GMCContext. vram_inv (vram_alloc gmc') [] \<and> unat (m_base (vram_alloc gmc')) = 0x8001800000 \<and>
     unat (m_base (vram_alloc gmc')) + unat (m_size (vram_alloc gmc')) = 0x8010000000"
proof -
  let ?g = "gmc_zero\<lparr>gmc_inited := True, vram_start := 0x8000000000,
    visible_vram_size := 0x10000000, real_vram_size := 0x400000000\<rparr>"
  have fresh: "\<not> m_inited (vram_alloc ?g)" by (simp add: gmc_zero_def vram_new_def)
  have "fst (gmc_vram_alloc_init ?g) = kIOReturnSuccess"
    by (simp add: gmc_vram_alloc_init_def gmc_zero_def vram_new_def buffer_device_pool_def align_up_def
        kPspReservedTopBytes_def Let_def)
  then obtain gmc' where "gmc_vram_alloc_init ?g = (kIOReturnSuccess, gmc')" by (metis prod.collapse)
  from vram_pools_apart [OF this fresh] show ?thesis by (intro exI [of _ gmc']) simp
qed

end
