(* ===== verification/Gart.thy ===== *)
theory Gart
  imports Gmc_Init Vram_Correct
begin

text \<open>
  \<^verbatim>\<open>amdgpu_gart.cpp\<close>: binding host memory into the GART. A binding reserves a range of the aperture, writes
  one verified PTE per 4 KB page into the table in VRAM and flushes both hubs; it is released in the
  opposite order. The driver's pointers \<open>gart.gmc\<close>, \<open>gart.allocator\<close> (into the same GMC context) are
  the explicit argument \<open>gmc\<close> and the flag \<open>gart_attached\<close>; a context is known by the number
  \<open>gart_self\<close> that stands for its address. Null out-pointers, which no caller passes, are not modelled.
\<close>

section \<open>State\<close>

record GARTBinding =
  sysmemBuffer :: "u64 option"
  dmaCommand :: "u64 option"
  busAddr :: u64
  cpuAddr :: u64
  sizeBytes :: u64
  reservationID :: u64
  gartOffset :: u64
  gartMCAddr :: u64
  numGPUPages :: u32
  binding_owner :: "nat option"
  binding_ready :: bool
  dmaPrepared :: bool

definition no_binding :: GARTBinding where
  "no_binding = \<lparr>sysmemBuffer = None, dmaCommand = None, busAddr = 0, cpuAddr = 0, sizeBytes = 0,
     reservationID = 0, gartOffset = 0, gartMCAddr = 0, numGPUPages = 0, binding_owner = None,
     binding_ready = False, dmaPrepared = False\<rparr>"

record GARTContext =
  gart_self :: nat
  gart_enabled :: bool
  pageTableVRAMOffset :: u64
  pageTableSize :: u64
  numPTEs :: u32
  gartStart :: u64
  gartEnd :: u64
  gartSize :: u64
  gart_attached :: bool
  reads_supported :: bool
  hostWindowConfigured :: bool

section \<open>Guards\<close>

definition gart_bus_range :: "u64 \<Rightarrow> u64 \<Rightarrow> bool" where
  "gart_bus_range address bytes \<longleftrightarrow> bytes \<noteq> 0 \<and> address AND 4095 = 0 \<and> bytes AND 4095 = 0 \<and>
     address < 0x100000000000 \<and> bytes \<le> 0x100000000000 - address"

definition gart_table_range :: "'d DeviceContext \<Rightarrow> GARTContext \<Rightarrow> u64 \<Rightarrow> u64 \<Rightarrow> bool" where
  "gart_table_range dev gart offset bytes \<longleftrightarrow>
     gart_enabled gart \<and> gart_attached gart \<and> bytes \<noteq> 0 \<and> offset AND 4095 = 0 \<and> bytes AND 4095 = 0 \<and>
     offset \<le> gartSize gart \<and> bytes \<le> gartSize gart - offset \<and>
     offset div 4096 \<le> pageTableSize gart div 8 \<and>
     bytes div 4096 \<le> pageTableSize gart div 8 - offset div 4096 \<and>
     vram_io_range dev (pageTableVRAMOffset gart) (pageTableSize gart)"

definition gart_invalidate ::
  "'d DeviceContext \<Rightarrow> GARTContext \<Rightarrow> GMCContext \<Rightarrow> 'd \<Rightarrow> (kern_return \<times> 'd) option"
where
  "gart_invalidate dev gart gmc d =
     (if \<not> gart_attached gart then Some (kIOReturnNotReady, d)
      else let d = amdgpu_hdp_flush dev d
        in (case gmc_flush_gpu_tlb dev (mmhub gmc) 0 0 d of
              None \<Rightarrow> None
            | Some (r, d) \<Rightarrow>
                if r \<noteq> kIOReturnSuccess then Some (r, d)
                else gmc_flush_gpu_tlb dev (gfxhub gmc) 0 0 d))"

section \<open>Initialisation\<close>

definition gart_init ::
  "'d DeviceContext \<Rightarrow> GMCContext \<Rightarrow> GARTContext \<Rightarrow> kern_return \<times> GMCContext \<times> GARTContext"
where
  "gart_init dev gmc gart =
     (let gart = gart\<lparr>gart_enabled := False\<rparr>
      in if \<not> gmc_inited gmc \<or> \<not> hub_inited (mmhub gmc) \<or> \<not> hub_inited (gfxhub gmc) \<or>
            gart_size gmc = 0 \<or> gart_size gmc AND 4095 \<noteq> 0 \<or> gart_start gmc AND 4095 \<noteq> 0 \<or>
            0xFFFFFFFF < gart_size gmc div 4096 \<or> gart_pt_bus gmc < vram_start gmc \<or>
            gart_pt_size gmc div 8 < gart_size gmc div 4096 \<or>
            0xFFFFFFFFFFFFFFFF - gart_size gmc < gart_start gmc \<or>
            \<not> vram_io_range dev (gart_pt_bus gmc - vram_start gmc) (gart_pt_size gmc)
         then (kIOReturnNotReady, gmc, gart)
         else let (ok, al) = gart_alloc_init (gart_allocator gmc) (gart_start gmc) (gart_size gmc)
           in if \<not> ok then (kIOReturnNotReady, gmc, gart)
           else (kIOReturnSuccess, gmc\<lparr>gart_allocator := al\<rparr>,
                 gart\<lparr>gart_enabled := True, pageTableVRAMOffset := gart_pt_bus gmc - vram_start gmc,
                      pageTableSize := gart_pt_size gmc, numPTEs := ucast (gart_size gmc div 4096),
                      gartStart := gart_start gmc, gartEnd := gart_start gmc + gart_size gmc - 1,
                      gartSize := gart_size gmc, gart_attached := True,
                      reads_supported := False, hostWindowConfigured := False\<rparr>))"

definition gart_configure_host_window ::
  "'d DeviceContext \<Rightarrow> GARTContext \<Rightarrow> GMCContext \<Rightarrow> u64 \<Rightarrow> 'd \<Rightarrow>
     ((kern_return \<times> GARTContext \<times> GMCContext) \<times> 'd) option"
where
  "gart_configure_host_window dev gart gmc base d =
     (if \<not> gart_enabled gart \<or> \<not> gart_attached gart then Some ((kIOReturnNotReady, gart, gmc), d)
      else if hostWindowConfigured gart then Some ((kIOReturnSuccess, gart, gmc), d)
      else if \<not> gfx12_host_window_valid base (gartSize gart) (fb_start gmc) (fb_end gmc)
      then Some ((kIOReturnBadArgument, gart, gmc), d)
      else if gart_bytes_used (gart_allocator gmc) \<noteq> 0 then Some ((kIOReturnBusy, gart, gmc), d)
      else let gart = gart\<lparr>hostWindowConfigured := True, reads_supported := False, gartStart := base,
                            gartEnd := base + gartSize gart - 1\<rparr>;
               gmc = gmc\<lparr>gart_start := base, gart_end := base + gartSize gart - 1,
                         gart_allocator := (gart_allocator gmc)\<lparr>ga_base := base\<rparr>\<rparr>
        in (case gmc_program_gart_window dev gmc d of
              None \<Rightarrow> None | Some (r, d) \<Rightarrow> Some ((r, gart, gmc), d)))"

section \<open>Binding\<close>

definition gart_pte :: "u64 \<Rightarrow> u64 \<Rightarrow> u64" where
  "gart_pte bus i = (bus + i * 4096) OR SYSMEM_RW"

fun gart_put_ptes ::
  "'d DeviceContext \<Rightarrow> GARTContext \<Rightarrow> u64 \<Rightarrow> u64 \<Rightarrow> nat \<Rightarrow> nat \<Rightarrow> 'd \<Rightarrow> kern_return \<times> 'd"
where
  "gart_put_ptes dev gart bus offset i 0 d = (kIOReturnSuccess, d)"
| "gart_put_ptes dev gart bus offset i (Suc n) d =
     (let (r, d) = vram_write_verified dev
            (pageTableVRAMOffset gart + (offset div 4096 + word_of_nat i) * 8)
            (Some (bytes64 (gart_pte bus (word_of_nat i)))) 8 d
      in if r \<noteq> kIOReturnSuccess then (r, d) else gart_put_ptes dev gart bus offset (Suc i) n d)"

definition gart_bind_range ::
  "'d DeviceContext \<Rightarrow> GARTContext \<Rightarrow> GMCContext \<Rightarrow> u64 \<Rightarrow> u64 \<Rightarrow> u64 \<Rightarrow> GARTBinding \<Rightarrow> 'd \<Rightarrow>
     ((kern_return \<times> GMCContext \<times> GARTBinding) \<times> 'd) option"
where
  "gart_bind_range dev gart gmc bus bytes alignment b d =
     (if sysmemBuffer b \<noteq> None \<or> dmaCommand b \<noteq> None then Some ((kIOReturnBadArgument, gmc, b), d)
      else if \<not> gart_enabled gart \<or> \<not> gart_attached gart then Some ((kIOReturnNotReady, gmc, b), d)
      else if \<not> gart_bus_range bus bytes \<or> alignment < 4096 \<or> alignment AND (alignment - 1) \<noteq> 0
      then Some ((kIOReturnBadArgument, gmc, b), d)
      else if binding_owner b \<noteq> None \<or> numGPUPages b \<noteq> 0
      then Some ((if binding_owner b \<noteq> Some (gart_self gart) \<or> \<not> binding_ready b \<or>
                     busAddr b \<noteq> bus \<or> sizeBytes b \<noteq> bytes \<or> gartMCAddr b AND (alignment - 1) \<noteq> 0 \<or>
                     \<not> gart_owns (gart_allocator gmc) (reservationID b) (gartOffset b) bytes
                  then kIOReturnBusy else kIOReturnSuccess, gmc, b), d)
      else (case gart_find (gart_allocator gmc) bytes alignment of
              None \<Rightarrow> Some ((kIOReturnNoSpace, gmc, b), d)
            | Some (offset, slot) \<Rightarrow>
                if \<not> gart_table_range dev gart offset bytes then Some ((kIOReturnNoSpace, gmc, b), d)
                else (case gart_reserve (gart_allocator gmc) (bytes, alignment) of
                        None \<Rightarrow> Some ((kIOReturnNoSpace, gmc, b), d)
                      | Some (reservation, al) \<Rightarrow>
                          let gmc = gmc\<lparr>gart_allocator := al\<rparr>;
                              b = b\<lparr>binding_owner := Some (gart_self gart),
                                    reservationID := gr_id reservation, busAddr := bus, sizeBytes := bytes,
                                    gartOffset := offset, gartMCAddr := gartStart gart + offset,
                                    numGPUPages := ucast (bytes div 4096), binding_ready := False\<rparr>;
                              (r, d) = gart_put_ptes dev gart bus offset 0 (unat (numGPUPages b)) d
                          in if r \<noteq> kIOReturnSuccess then Some ((r, gmc, b), d)
                          else (case gart_invalidate dev gart gmc d of
                                  None \<Rightarrow> None
                                | Some (r, d) \<Rightarrow>
                                    if r \<noteq> kIOReturnSuccess then Some ((r, gmc, b), d)
                                    else Some ((kIOReturnSuccess, gmc, b\<lparr>binding_ready := True\<rparr>), d)))))"

definition gart_bind_existing ::
  "'d DeviceContext \<Rightarrow> GARTContext \<Rightarrow> GMCContext \<Rightarrow> u64 \<Rightarrow> u64 \<Rightarrow> GARTBinding \<Rightarrow> 'd \<Rightarrow>
     ((kern_return \<times> GMCContext \<times> GARTBinding) \<times> 'd) option"
where
  "gart_bind_existing dev gart gmc bus bytes b d = gart_bind_range dev gart gmc bus bytes 4096 b d"

section \<open>Unbinding\<close>

text \<open>
  The last part of \<open>gart_unbind\<close>: complete the DMA, drop the objects, return the range, forget the
  binding. The PTEs are gone by then.
\<close>

definition gart_finish_unbind ::
  "'d os \<Rightarrow> GMCContext \<Rightarrow> GARTBinding \<Rightarrow> 'd \<Rightarrow> (kern_return \<times> GMCContext \<times> GARTBinding) \<times> 'd"
where
  "gart_finish_unbind os gmc b d =
     (let (r, d) = (case dmaCommand b of
            Some m \<Rightarrow> if dmaPrepared b then dma_complete os m d else (kIOReturnSuccess, d)
          | None \<Rightarrow> (kIOReturnSuccess, d))
      in if r \<noteq> kIOReturnSuccess then ((r, gmc, b), d)
      else let d = (case dmaCommand b of Some m \<Rightarrow> dma_release os m d | None \<Rightarrow> d);
               d = (case sysmemBuffer b of Some x \<Rightarrow> buf_release os x d | None \<Rightarrow> d);
               gmc = (if numGPUPages b \<noteq> 0
                      then gmc\<lparr>gart_allocator := snd (gart_release (gart_allocator gmc)
                             (reservationID b) (gartOffset b) (sizeBytes b))\<rparr>
                      else gmc)
        in ((kIOReturnSuccess, gmc, no_binding), d))"

definition gart_unbind ::
  "'d DeviceContext \<Rightarrow> 'd os \<Rightarrow> GARTContext \<Rightarrow> GMCContext \<Rightarrow> GARTBinding \<Rightarrow> 'd \<Rightarrow>
     ((kern_return \<times> GMCContext \<times> GARTBinding) \<times> 'd) option"
where
  "gart_unbind dev os gart gmc b d =
     (if numGPUPages b = 0 then Some (gart_finish_unbind os gmc b d)
      else if binding_owner b \<noteq> Some (gart_self gart) \<or> \<not> gart_attached gart \<or>
              \<not> gart_owns (gart_allocator gmc) (reservationID b) (gartOffset b) (sizeBytes b) \<or>
              sizeBytes b div 4096 \<noteq> ucast (numGPUPages b) \<or>
              \<not> gart_table_range dev gart (gartOffset b) (sizeBytes b)
      then Some ((kIOReturnBadArgument, gmc, b), d)
      else let b = b\<lparr>binding_ready := False\<rparr>;
               (r, d) = vram_clear_verified dev (pageTableVRAMOffset gart + gartOffset b div 4096 * 8)
                          (ucast (numGPUPages b) * 8) d
        in if r \<noteq> kIOReturnSuccess then Some ((r, gmc, b), d)
        else (case gart_invalidate dev gart gmc d of
                None \<Rightarrow> None
              | Some (flushed, d) \<Rightarrow>
                  if flushed \<noteq> kIOReturnSuccess then Some ((flushed, gmc, b), d)
                  else Some (gart_finish_unbind os gmc b d)))"

definition gart_release_after_reset :: "'d os \<Rightarrow> GARTBinding \<Rightarrow> 'd \<Rightarrow> GARTBinding \<times> 'd" where
  "gart_release_after_reset os b d =
     (let d = (case dmaCommand b of
                 None \<Rightarrow> d
               | Some m \<Rightarrow> dma_release os m (if dmaPrepared b then snd (dma_complete os m d) else d));
          d = (case sysmemBuffer b of Some x \<Rightarrow> buf_release os x d | None \<Rightarrow> d)
      in (no_binding, d))"

section \<open>Binding a new buffer\<close>

text \<open>The buffer and its prepared DMA, or the error after everything acquired was given back.\<close>

definition gart_alloc_sysmem ::
  "'d os \<Rightarrow> u64 \<Rightarrow> u64 \<Rightarrow> 'd \<Rightarrow> (kern_return \<times> (u64 \<times> u64 \<times> u64 \<times> u32 \<times> u64 \<times> u64) option) \<times> 'd"
where
  "gart_alloc_sysmem os rounded alignment d =
     (case buf_create os rounded alignment d of
        ((r, None), d) \<Rightarrow> ((or_else r kIOReturnNoMemory, None), d)
      | ((r, Some x), d) \<Rightarrow>
          if r \<noteq> kIOReturnSuccess then ((r, None), d)
          else let (r, d) = buf_set_length os x rounded d
            in if r \<noteq> kIOReturnSuccess then ((r, None), buf_release os x d)
            else let ((r, cpu, cpu_len), d) = buf_address os x d
              in if r \<noteq> kIOReturnSuccess \<or> cpu = 0 \<or> cpu_len < rounded
              then ((or_else r kIOReturnNoMemory, None), buf_release os x d)
              else (case dma_create os 44 d of
                      ((r, None), d) \<Rightarrow> ((or_else r kIOReturnNoMemory, None), buf_release os x d)
                    | ((r, Some m), d) \<Rightarrow>
                        if r \<noteq> kIOReturnSuccess then ((r, None), buf_release os x d)
                        else let ((r, segs, address, len), d) = dma_prepare os m x rounded d
                          in if r \<noteq> kIOReturnSuccess
                          then ((r, None), buf_release os x (dma_release os m d))
                          else ((kIOReturnSuccess, Some (x, cpu, m, segs, address, len)), d)))"

definition gart_bind_sysmem ::
  "'d DeviceContext \<Rightarrow> 'd os \<Rightarrow> GARTContext \<Rightarrow> GMCContext \<Rightarrow> u64 \<Rightarrow> u64 \<Rightarrow> GARTBinding \<Rightarrow> 'd \<Rightarrow>
     ((kern_return \<times> GMCContext \<times> GARTBinding) \<times> 'd) option"
where
  "gart_bind_sysmem dev os gart gmc bytes alignment b d =
     (if binding_owner b \<noteq> None \<or> numGPUPages b \<noteq> 0 \<or> sysmemBuffer b \<noteq> None \<or> dmaCommand b \<noteq> None
      then Some ((kIOReturnBadArgument, gmc, b), d)
      else if \<not> gart_enabled gart \<or> \<not> gart_attached gart then Some ((kIOReturnNotReady, gmc, b), d)
      else let alignment = (if alignment < kASPageSize then kASPageSize else alignment)
        in if alignment AND (alignment - 1) \<noteq> 0 \<or> bytes = 0 \<or> 0xFFFFFFFFFFFFFFFF - (alignment - 1) < bytes
        then Some ((kIOReturnBadArgument, gmc, b), d)
        else let rounded = align_up bytes alignment
          in (case gart_find (gart_allocator gmc) rounded alignment of
                None \<Rightarrow> Some ((kIOReturnNoSpace, gmc, b), d)
              | Some (offset, slot) \<Rightarrow>
                  if \<not> gart_table_range dev gart offset rounded then Some ((kIOReturnNoSpace, gmc, b), d)
                  else (case gart_alloc_sysmem os rounded alignment d of
                          ((r, None), d) \<Rightarrow> Some ((r, gmc, b), d)
                        | ((_, Some (x, cpu, m, segs, address, len)), d) \<Rightarrow>
                            if segs \<noteq> 1 \<or> len < rounded \<or> \<not> gart_bus_range address rounded
                            then (case gart_unbind dev os gart gmc
                                     (b\<lparr>sysmemBuffer := Some x, dmaCommand := Some m, dmaPrepared := True\<rparr>) d of
                                    None \<Rightarrow> None
                                  | Some ((cleanup, gmc, b), d) \<Rightarrow>
                                      Some ((or_else cleanup kIOReturnNotAligned, gmc, b), d))
                            else (case gart_bind_range dev gart gmc address rounded alignment b d of
                                    None \<Rightarrow> None
                                  | Some ((r, gmc, b), d) \<Rightarrow>
                                      let b = b\<lparr>sysmemBuffer := Some x, dmaCommand := Some m,
                                                dmaPrepared := True, cpuAddr := cpu\<rparr>
                                      in if r \<noteq> kIOReturnSuccess \<and> numGPUPages b = 0
                                      then (case gart_unbind dev os gart gmc b d of
                                              None \<Rightarrow> None
                                            | Some ((cleanup, gmc, b), d) \<Rightarrow>
                                                Some ((or_else cleanup r, gmc, b), d))
                                      else Some ((r, gmc, b), d)))))"

end
