(* ===== verification/Gart_Properties.thy ===== *)
theory Gart_Properties
  imports Gart Gmc_Properties
begin

text \<open>
  What a GART binding promises: a ready binding has its PTEs in VRAM and both hubs' acknowledgement, a
  released one has zeros there, and an error never gives a range back while the GPU may still use it. The
  sharing of one aperture by many bindings is a step relation with an invariant.
\<close>

section \<open>The page table in VRAM\<close>

definition pte_addr :: "GARTContext \<Rightarrow> u64 \<Rightarrow> nat \<Rightarrow> u64" where
  "pte_addr gart offset i = pageTableVRAMOffset gart + (offset div 4096 + word_of_nat i) * 8"

text \<open>The 64-bit entry the walker reads for page \<open>i\<close> of a range.\<close>

definition pte_at :: "('d \<Rightarrow> u64 \<Rightarrow> u32) \<Rightarrow> 'd \<Rightarrow> GARTContext \<Rightarrow> u64 \<Rightarrow> nat \<Rightarrow> u64" where
  "pte_at mem d gart offset i =
     ucast (mem d (pte_addr gart offset i)) OR push_bit 32 (ucast (mem d (pte_addr gart offset i + 4)))"

lemma unat_div4096: "unat (x div 4096) = unat x div 4096" for x :: u64
  by (simp add: unat_div)

lemma unat_pte_addr:
  assumes "unat (pageTableVRAMOffset gart) + (unat offset div 4096 + i) * 8 < 18446744073709551616"
  shows "unat (pte_addr gart offset i) = unat (pageTableVRAMOffset gart) + (unat offset div 4096 + i) * 8"
proof -
  have i: "unat (word_of_nat i :: u64) = i" using assms by (simp add: unat_of_nat)
  have s: "unat (offset div 4096 + word_of_nat i) = unat offset div 4096 + i"
    using assms i by (simp add: word_nat unat_div4096)
  then have "unat ((offset div 4096 + word_of_nat i) * 8) = (unat offset div 4096 + i) * 8"
    using assms unat_word_ariths(2) [of "offset div 4096 + word_of_nat i" 8] by simp
  then show ?thesis using assms by (simp add: pte_addr_def word_nat)
qed

lemma table_range_bounds:
  assumes "gart_table_range dev gart offset bytes"
  shows "unat (pageTableVRAMOffset gart) + (unat offset div 4096 + unat bytes div 4096) * 8 < 18446744073709551616"
    "unat offset + unat bytes \<le> unat (gartSize gart)" "4096 dvd unat offset" "4096 dvd unat bytes" "0 < unat bytes"
proof -
  have io: "vram_io_range dev (pageTableVRAMOffset gart) (pageTableSize gart)"
    and g: "offset AND 4095 = 0" "bytes AND 4095 = 0" "bytes \<noteq> 0" "offset \<le> gartSize gart"
      "bytes \<le> gartSize gart - offset" "offset div 4096 \<le> pageTableSize gart div 8"
      "bytes div 4096 \<le> pageTableSize gart div 8 - offset div 4096"
    using assms by (simp_all add: gart_table_range_def)
  show "4096 dvd unat offset" "4096 dvd unat bytes" "0 < unat bytes"
    using g by (simp_all add: and_4095_dvd unat_gt_0)
  show "unat offset + unat bytes \<le> unat (gartSize gart)"
    using g(4,5) by (simp add: word_le_nat_alt unat_sub64)
  have "unat offset div 4096 + unat bytes div 4096 \<le> unat (pageTableSize gart) div 8"
    using g(6,7) by (simp add: word_le_nat_alt unat_sub64 unat_div)
  then have "(unat offset div 4096 + unat bytes div 4096) * 8 \<le> unat (pageTableSize gart) div 8 * 8"
    by (rule mult_le_mono1)
  also have "\<dots> \<le> unat (pageTableSize gart)" by simp
  finally have "(unat offset div 4096 + unat bytes div 4096) * 8 \<le> unat (pageTableSize gart)" .
  with vram_io_range_bounds(5) [OF io] show "unat (pageTableVRAMOffset gart) +
      (unat offset div 4096 + unat bytes div 4096) * 8 < 18446744073709551616" by linarith
qed

lemma pte_write:
  assumes mem: "reads_memory dev mem"
    and run: "vram_write_verified dev (pte_addr gart offset i) (Some (bytes64 v)) 8 d = (kIOReturnSuccess, d')"
  shows "pte_at mem d' gart offset i = v"
proof -
  have h: "vram_holds dev mem d' (pte_addr gart offset i) (\<lambda>k. le32 (bytes64 v) (4 * k)) (unat (8 :: u64) div 4)"
    using vram_write_stores [OF mem run] by blast
  have "mem d' (pte_addr gart offset i + word_of_nat (4 * k)) = le32 (bytes64 v) (4 * k)" if "k < 2" for k
    using h that by (simp add: vram_holds_def)
  from this [of 0] this [of 1]
  have "mem d' (pte_addr gart offset i) = le32 (bytes64 v) 0" "mem d' (pte_addr gart offset i + 4) = le32 (bytes64 v) 4"
    by simp_all
  then have "pte_at mem d' gart offset i = le64 (bytes64 v) 0" by (simp add: pte_at_def le64_def)
  then show ?thesis using le64_bytes64 [of v "[]"] by simp
qed

lemma pte_frame:
  assumes "\<And>x. unat x < lo \<or> hi \<le> unat x \<Longrightarrow> mem d' x = mem d x"
    and "unat (pte_addr gart offset j) + 8 \<le> lo \<or> hi \<le> unat (pte_addr gart offset j)"
    and "unat (pte_addr gart offset j) + 8 < 18446744073709551616"
  shows "pte_at mem d' gart offset j = pte_at mem d gart offset j"
proof -
  have "unat (pte_addr gart offset j + 4) = unat (pte_addr gart offset j) + 4"
    using assms(3) by (simp add: word_nat)
  then show ?thesis using assms(2) by (auto simp: pte_at_def intro!: arg_cong2 [where f = "(OR)"] arg_cong [where f = ucast]
        arg_cong [where f = "push_bit 32"] assms(1))
qed

lemma put_ptes_spec:
  assumes mem: "reads_memory dev mem" "writes_local dev mem"
    and run: "gart_put_ptes dev gart bus offset i n d = (kIOReturnSuccess, d')"
    and fits: "unat (pageTableVRAMOffset gart) + (unat offset div 4096 + (i + n)) * 8 < 18446744073709551616"
  shows "(\<forall>j. i \<le> j \<and> j < i + n \<longrightarrow> pte_at mem d' gart offset j = gart_pte bus (word_of_nat j)) \<and>
    (\<forall>x. unat x < unat (pageTableVRAMOffset gart) + (unat offset div 4096 + i) * 8 \<or>
         unat (pageTableVRAMOffset gart) + (unat offset div 4096 + (i + n)) * 8 \<le> unat x \<longrightarrow> mem d' x = mem d x)"
  using run fits
proof (induction n arbitrary: i d)
  case (Suc n)
  let ?P = "unat (pageTableVRAMOffset gart)" and ?O = "unat offset div 4096"
  obtain r d1 where w: "vram_write_verified dev (pte_addr gart offset i)
      (Some (bytes64 (gart_pte bus (word_of_nat i)))) 8 d = (r, d1)" by fastforce
  have r: "r = kIOReturnSuccess" and rest: "gart_put_ptes dev gart bus offset (Suc i) n d1 = (kIOReturnSuccess, d')"
    using Suc.prems(1) w by (auto simp: pte_addr_def split: if_splits)
  have a: "unat (pte_addr gart offset i) = ?P + (?O + i) * 8" using Suc.prems(2) by (intro unat_pte_addr) simp
  have here: "pte_at mem d1 gart offset i = gart_pte bus (word_of_nat i)"
    using pte_write [OF mem(1)] w r by simp
  have frame: "mem d1 x = mem d x" if "unat x < ?P + (?O + i) * 8 \<or> ?P + (?O + (i + 1)) * 8 \<le> unat x" for x
    using that a by (intro vram_write_frame [OF mem w]) auto
  have IH: "pte_at mem d' gart offset j = gart_pte bus (word_of_nat j)" if "Suc i \<le> j" "j < Suc i + n" for j
    using Suc.IH [OF rest] Suc.prems(2) that by simp
  have IHf: "mem d' x = mem d1 x"
    if "unat x < ?P + (?O + Suc i) * 8 \<or> ?P + (?O + (Suc i + n)) * 8 \<le> unat x" for x
    using Suc.IH [OF rest] Suc.prems(2) that by auto
  have "pte_at mem d' gart offset i = pte_at mem d1 gart offset i"
    using IHf a Suc.prems(2)
    by (intro pte_frame [where lo = "?P + (?O + Suc i) * 8" and hi = "?P + (?O + (Suc i + n)) * 8"]) auto
  with here IH have "pte_at mem d' gart offset j = gart_pte bus (word_of_nat j)"
    if "i \<le> j" "j < i + Suc n" for j
    using that by (cases "j = i") auto
  moreover have "mem d' x = mem d x"
    if "unat x < ?P + (?O + i) * 8 \<or> ?P + (?O + (i + Suc n)) * 8 \<le> unat x" for x
    using IHf [of x] frame [of x] that by auto
  ultimately show ?case by blast
qed auto

section \<open>Binding, case by case\<close>

definition bound_to :: "GARTContext \<Rightarrow> u64 \<Rightarrow> u64 \<Rightarrow> GARTReservation \<Rightarrow> GARTBinding \<Rightarrow> GARTBinding" where
  "bound_to gart bus bytes res b =
     b\<lparr>binding_owner := Some (gart_self gart), reservationID := gr_id res, busAddr := bus,
       sizeBytes := bytes, gartOffset := gr_offset res, gartMCAddr := gartStart gart + gr_offset res,
       numGPUPages := ucast (bytes div 4096), binding_ready := False\<rparr>"

lemma bound_to_simps [simp]:
  "binding_owner (bound_to gart bus bytes res b) = Some (gart_self gart)"
  "reservationID (bound_to gart bus bytes res b) = gr_id res"
  "busAddr (bound_to gart bus bytes res b) = bus"
  "sizeBytes (bound_to gart bus bytes res b) = bytes"
  "gartOffset (bound_to gart bus bytes res b) = gr_offset res"
  "gartMCAddr (bound_to gart bus bytes res b) = gartStart gart + gr_offset res"
  "numGPUPages (bound_to gart bus bytes res b) = ucast (bytes div 4096)"
  "binding_ready (bound_to gart bus bytes res b) = False"
  "sysmemBuffer (bound_to gart bus bytes res b) = sysmemBuffer b"
  "dmaCommand (bound_to gart bus bytes res b) = dmaCommand b"
  by (simp_all add: bound_to_def)

text \<open>The part of \<open>gart_bind_range\<close> after the reservation.\<close>

definition bind_reserved ::
  "'d DeviceContext \<Rightarrow> GARTContext \<Rightarrow> GMCContext \<Rightarrow> GARTBinding \<Rightarrow> 'd \<Rightarrow> ((kern_return \<times> GMCContext \<times> GARTBinding) \<times> 'd) option"
where
  "bind_reserved dev gart gmc b d =
     (let (r, d) = gart_put_ptes dev gart (busAddr b) (gartOffset b) 0 (unat (numGPUPages b)) d
      in if r \<noteq> kIOReturnSuccess then Some ((r, gmc, b), d)
      else (case gart_invalidate dev gart gmc d of
              None \<Rightarrow> None
            | Some (r, d) \<Rightarrow>
                if r \<noteq> kIOReturnSuccess then Some ((r, gmc, b), d)
                else Some ((kIOReturnSuccess, gmc, b\<lparr>binding_ready := True\<rparr>), d)))"

definition bind_guard :: "GARTContext \<Rightarrow> u64 \<Rightarrow> u64 \<Rightarrow> u64 \<Rightarrow> GARTBinding \<Rightarrow> bool" where
  "bind_guard gart bus bytes al b \<longleftrightarrow> sysmemBuffer b = None \<and> dmaCommand b = None \<and>
     gart_enabled gart \<and> gart_attached gart \<and> gart_bus_range bus bytes \<and> \<not> al < 4096 \<and> al AND (al - 1) = 0"

lemma reserve_find:
  "gart_reserve a (bytes, al) = Some (res, a2) \<longleftrightarrow>
     (\<exists>slot. gart_find a bytes al = Some (gr_offset res, slot) \<and> gr_size res = bytes \<and>
        gr_id res = ga_lastID a + 1 \<and> a2 = a\<lparr>ga_records := (ga_records a)[slot := res], ga_lastID := ga_lastID a + 1\<rparr>)"
  by (cases res) (auto simp: gart_reserve_def Let_def split: option.splits)

lemma bind_fresh_eq:
  assumes "binding_owner b = None" "numGPUPages b = 0"
  shows "gart_bind_range dev gart gmc bus bytes al b d =
    (if bind_guard gart bus bytes al b then
       (case gart_reserve (gart_allocator gmc) (bytes, al) of
          None \<Rightarrow> Some ((kIOReturnNoSpace, gmc, b), d)
        | Some (res, a2) \<Rightarrow>
            if gart_table_range dev gart (gr_offset res) bytes
            then bind_reserved dev gart (gmc\<lparr>gart_allocator := a2\<rparr>) (bound_to gart bus bytes res b) d
            else Some ((kIOReturnNoSpace, gmc, b), d))
     else Some ((if sysmemBuffer b \<noteq> None \<or> dmaCommand b \<noteq> None then kIOReturnBadArgument
                 else if \<not> gart_enabled gart \<or> \<not> gart_attached gart then kIOReturnNotReady
                 else kIOReturnBadArgument, gmc, b), d))"
proof (cases "gart_find (gart_allocator gmc) bytes al")
  case None
  then have "gart_reserve (gart_allocator gmc) (bytes, al) = None" by (simp add: gart_reserve_def)
  with None show ?thesis by (simp add: gart_bind_range_def bind_guard_def assms)
next
  case (Some p)
  obtain offset slot where p: "p = (offset, slot)" by fastforce
  obtain r1 d1 where put: "gart_put_ptes dev gart bus offset 0 (unat (ucast (bytes div 4096) :: u32)) d = (r1, d1)"
    by fastforce
  show ?thesis
    using Some unfolding gart_bind_range_def bind_guard_def bind_reserved_def bound_to_def gart_reserve_def p
    by (cases "sysmemBuffer b"; cases "dmaCommand b"; cases "gart_enabled gart"; cases "gart_attached gart";
        cases "gart_table_range dev gart offset bytes"; simp add: assms Let_def put split: option.split)
qed

lemma bind_reserved_cases:
  assumes "bind_reserved dev gart gmc b d = Some ((r, gmc', b'), d')"
  shows "gmc' = gmc \<and> (if r = kIOReturnSuccess
    then b' = b\<lparr>binding_ready := True\<rparr> \<and>
      (\<exists>d1. gart_put_ptes dev gart (busAddr b) (gartOffset b) 0 (unat (numGPUPages b)) d = (kIOReturnSuccess, d1) \<and>
         gart_invalidate dev gart gmc d1 = Some (kIOReturnSuccess, d'))
    else b' = b)"
  using assms by (auto simp: bind_reserved_def Let_def split: prod.splits if_splits option.splits)

lemma bind_fresh:
  assumes run: "gart_bind_range dev gart gmc bus bytes al b d = Some ((r, gmc', b'), d')"
    and fresh: "binding_owner b = None" "numGPUPages b = 0"
  obtains (refused) "gmc' = gmc" "b' = b" "d' = d" "r \<noteq> kIOReturnSuccess"
  | (retained) res a2 where "gart_reserve (gart_allocator gmc) (bytes, al) = Some (res, a2)"
      "gart_table_range dev gart (gr_offset res) bytes" "gart_bus_range bus bytes"
      "gmc' = gmc\<lparr>gart_allocator := a2\<rparr>" "b' = bound_to gart bus bytes res b" "r \<noteq> kIOReturnSuccess"
      "bind_reserved dev gart gmc' (bound_to gart bus bytes res b) d = Some ((r, gmc', b'), d')"
  | (ready) res a2 d1 where "gart_reserve (gart_allocator gmc) (bytes, al) = Some (res, a2)"
      "gart_table_range dev gart (gr_offset res) bytes" "gart_bus_range bus bytes"
      "gmc' = gmc\<lparr>gart_allocator := a2\<rparr>" "b' = (bound_to gart bus bytes res b)\<lparr>binding_ready := True\<rparr>"
      "r = kIOReturnSuccess"
      "bind_reserved dev gart gmc' (bound_to gart bus bytes res b) d = Some ((r, gmc', b'), d')"
      "gart_put_ptes dev gart bus (gr_offset res) 0 (unat (ucast (bytes div 4096) :: u32)) d = (kIOReturnSuccess, d1)"
      "gart_invalidate dev gart gmc' d1 = Some (kIOReturnSuccess, d')"
proof -
  note run = run [unfolded bind_fresh_eq [OF fresh]]
  show thesis
  proof (cases "bind_guard gart bus bytes al b \<and> gart_reserve (gart_allocator gmc) (bytes, al) \<noteq> None \<and>
      gart_table_range dev gart (gr_offset (fst (the (gart_reserve (gart_allocator gmc) (bytes, al))))) bytes")
    case False
    with run show ?thesis by (intro refused) (auto split: if_splits option.splits prod.splits)
  next
    case True
    then obtain res a2 where res: "gart_reserve (gart_allocator gmc) (bytes, al) = Some (res, a2)"
      and tr: "gart_table_range dev gart (gr_offset res) bytes" and g: "bind_guard gart bus bytes al b"
      by fastforce
    have br: "gart_bus_range bus bytes" using g by (simp add: bind_guard_def)
    from run have br2: "bind_reserved dev gart (gmc\<lparr>gart_allocator := a2\<rparr>) (bound_to gart bus bytes res b) d =
        Some ((r, gmc', b'), d')"
      by (simp add: res tr g)
    note c = bind_reserved_cases [OF br2, simplified]
    have br2: "bind_reserved dev gart gmc' (bound_to gart bus bytes res b) d = Some ((r, gmc', b'), d')"
      using br2 c by simp
    show ?thesis
    proof (cases "r = kIOReturnSuccess")
      case True
      with c obtain d1 where "gart_put_ptes dev gart bus (gr_offset res) 0 (unat (ucast (bytes div 4096) :: u32)) d = (kIOReturnSuccess, d1)"
        "gart_invalidate dev gart gmc' d1 = Some (kIOReturnSuccess, d')" by auto
      with c True res tr br br2 show ?thesis by (intro ready [of res a2 d1]) simp_all
    next
      case False
      with c res tr br br2 show ?thesis by (intro retained [of res a2]) simp_all
    qed
  qed
qed

section \<open>Invalidation\<close>

text \<open>
  Both hubs have flushed, from the state \<open>d\<close> to the state \<open>d'\<close>: the write path of the host was
  flushed, then MMHUB acknowledged a whole flush, and from the state that left, GFXHUB did.
\<close>

definition hubs_flushed :: "'d DeviceContext \<Rightarrow> GMCContext \<Rightarrow> 'd \<Rightarrow> 'd \<Rightarrow> bool" where
  "hubs_flushed dev gmc d d' \<longleftrightarrow> (\<exists>d1. hub_acknowledged dev (mmhub gmc) 0 0 (amdgpu_hdp_flush dev d) d1 \<and>
     hub_acknowledged dev (gfxhub gmc) 0 0 d1 d')"

lemma invalidate_success:
  assumes "gart_invalidate dev gart gmc d = Some (kIOReturnSuccess, d')"
  shows "hubs_flushed dev gmc d d'"
  using assms unfolding hubs_flushed_def
  by (auto simp: gart_invalidate_def Let_def split: if_splits option.splits dest!: flush_success)

lemma invalidate_mem:
  assumes mem: "reads_memory dev mem" "writes_local dev mem" "waits_keep_memory dev mem" "vram_apart dev"
    and run: "gart_invalidate dev gart gmc d = Some (r, d')"
  shows "mem d' = mem d"
  using run hdp_flush_mem [OF mem(1,2,4)] flush_mem [OF mem]
  by (auto simp: gart_invalidate_def Let_def split: if_splits option.splits)

lemma invalidate_returns:
  assumes "clock_runs dev T"
  shows "\<exists>r d'. gart_invalidate dev gart gmc d = Some (r, d')"
proof -
  obtain r d1 where f: "gmc_flush_gpu_tlb dev (mmhub gmc) 0 0 (amdgpu_hdp_flush dev d) = Some (r, d1)"
    using flush_returns [OF assms] by blast
  obtain r2 d2 where "gmc_flush_gpu_tlb dev (gfxhub gmc) 0 0 d1 = Some (r2, d2)"
    using flush_returns [OF assms] by blast
  with f show ?thesis by (simp add: gart_invalidate_def)
qed

section \<open>What else stays in VRAM\<close>

lemma put_ptes_frame:
  assumes mem: "reads_memory dev mem" "writes_local dev mem"
    and run: "gart_put_ptes dev gart bus offset i n d = (r, d')"
    and fits: "unat (pageTableVRAMOffset gart) + (unat offset div 4096 + (i + n)) * 8 < 18446744073709551616"
    and x: "unat x < unat (pageTableVRAMOffset gart) + (unat offset div 4096 + i) * 8 \<or>
      unat (pageTableVRAMOffset gart) + (unat offset div 4096 + (i + n)) * 8 \<le> unat x"
  shows "mem d' x = mem d x"
  using run fits x
proof (induction n arbitrary: i d)
  case (Suc n)
  obtain r1 d1 where w: "vram_write_verified dev (pte_addr gart offset i)
      (Some (bytes64 (gart_pte bus (word_of_nat i)))) 8 d = (r1, d1)" by fastforce
  have a: "unat (pte_addr gart offset i) = unat (pageTableVRAMOffset gart) + (unat offset div 4096 + i) * 8"
    using Suc.prems(2) by (intro unat_pte_addr) simp
  have one: "mem d1 x = mem d x"
    using Suc.prems(3) a by (intro vram_write_frame [OF mem w]) auto
  show ?case
  proof (cases "r1 = kIOReturnSuccess")
    case True
    then have "gart_put_ptes dev gart bus offset (Suc i) n d1 = (r, d')"
      using Suc.prems(1) w by (simp add: pte_addr_def)
    from Suc.IH [OF this] Suc.prems(2,3) one show ?thesis by auto
  next
    case False
    then have "d' = d1" using Suc.prems(1) w by (simp add: pte_addr_def)
    with one show ?thesis by simp
  qed
qed simp

lemma clear_loop_frame:
  assumes "vram_clear_loop dev off bytes d = (r, d')" "reads_memory dev mem" "writes_local dev mem"
    "unat off + unat bytes < 18446744073709551616" "unat x < unat off \<or> unat off + unat bytes \<le> unat x"
  shows "mem d' x = mem d x"
  using assms
proof (induction dev off bytes d rule: vram_clear_loop.induct)
  case (1 dev off bytes d)
  show ?case
  proof (cases "bytes = 0")
    case True
    with 1(2) show ?thesis by (simp add: vram_clear_loop.simps)
  next
    case False
    define chunk where "chunk = (if bytes < 256 then bytes else (256 :: u64))"
    obtain r1 d1 where w: "vram_write_verified dev off (Some (replicate 256 0)) chunk d = (r1, d1)" by fastforce
    have c: "unat chunk \<le> unat bytes" "chunk \<le> bytes" by (auto simp: chunk_def word_less_nat_alt word_le_nat_alt)
    have addr: "unat (off + chunk) = unat off + unat chunk" using c 1(5) by (simp add: word_nat)
    have len: "unat (bytes - chunk) = unat bytes - unat chunk" using c(2) by (rule unat_sub64)
    have one: "mem d1 x = mem d x" using 1(6) c by (intro vram_write_frame [OF 1(3,4) w]) auto
    show ?thesis
    proof (cases "r1 = kIOReturnSuccess")
      case ok: True
      then have rest: "vram_clear_loop dev (off + chunk) (bytes - chunk) d1 = (r, d')"
        using 1(2) False w by (simp add: vram_clear_loop.simps [of dev off bytes] Let_def chunk_def)
      have "mem d' x = mem d1 x"
        using 1(5,6) addr len c by (intro 1(1) [OF False chunk_def refl w [symmetric] _ rest 1(3,4)]) (auto simp: ok)
      with one show ?thesis by simp
    next
      case bad: False
      then have "d' = d1"
        using 1(2) False w by (simp add: vram_clear_loop.simps [of dev off bytes] Let_def chunk_def)
      with one show ?thesis by simp
    qed
  qed
qed

lemma clear_frame:
  assumes "vram_clear_verified dev off bytes d = (r, d')" "reads_memory dev mem" "writes_local dev mem"
    "unat x < unat off \<or> unat off + unat bytes \<le> unat x"
  shows "mem d' x = mem d x"
proof (cases "pci dev = None \<or> \<not> vram_io_range dev off bytes")
  case True
  with assms(1) show ?thesis by (auto simp: vram_clear_verified_def split: if_splits)
next
  case False
  then have loop: "vram_clear_loop dev off bytes d = (r, d')" and io: "vram_io_range dev off bytes"
    using assms(1) by (auto simp: vram_clear_verified_def split: if_splits)
  show ?thesis by (rule clear_loop_frame [OF loop assms(2,3) vram_io_range_bounds(5) [OF io] assms(4)])
qed

text \<open>DriverKit's buffer and DMA calls do not write VRAM.\<close>

definition os_keeps_memory :: "'d os \<Rightarrow> ('d \<Rightarrow> u64 \<Rightarrow> u32) \<Rightarrow> bool" where
  "os_keeps_memory os mem \<longleftrightarrow> (\<forall>d.
     (\<forall>n al. mem (snd (buf_create os n al d)) = mem d) \<and> (\<forall>x n. mem (snd (buf_set_length os x n d)) = mem d) \<and>
     (\<forall>x. mem (snd (buf_address os x d)) = mem d) \<and> (\<forall>x. mem (buf_release os x d) = mem d) \<and>
     (\<forall>n. mem (snd (dma_create os n d)) = mem d) \<and> (\<forall>m x n. mem (snd (dma_prepare os m x n d)) = mem d) \<and>
     (\<forall>m. mem (snd (dma_complete os m d)) = mem d) \<and> (\<forall>m. mem (dma_release os m d) = mem d))"

lemma os_mem:
  assumes "os_keeps_memory os mem"
  shows "buf_create os n al d = (x, d') \<Longrightarrow> mem d' = mem d" "buf_set_length os b n d = (r, d') \<Longrightarrow> mem d' = mem d"
    "buf_address os b d = (y, d') \<Longrightarrow> mem d' = mem d" "mem (buf_release os b d) = mem d"
    "dma_create os k d = (x, d') \<Longrightarrow> mem d' = mem d" "dma_prepare os m b n d = (z, d') \<Longrightarrow> mem d' = mem d"
    "dma_complete os m d = (r, d') \<Longrightarrow> mem d' = mem d" "mem (dma_release os m d) = mem d"
  using assms unfolding os_keeps_memory_def by (metis snd_conv)+

lemma finish_mem:
  assumes "os_keeps_memory os mem" "gart_finish_unbind os gmc b d = (x, d')"
  shows "mem d' = mem d"
  using assms(2) os_mem [OF assms(1)]
  by (auto simp: gart_finish_unbind_def Let_def split: option.splits prod.splits if_splits)

section \<open>Unbinding, case by case\<close>

definition rec_of :: "GARTBinding \<Rightarrow> GARTReservation" where
  "rec_of b = \<lparr>gr_offset = gartOffset b, gr_size = sizeBytes b, gr_id = reservationID b\<rparr>"

definition unbind_guard :: "'d DeviceContext \<Rightarrow> GARTContext \<Rightarrow> GMCContext \<Rightarrow> GARTBinding \<Rightarrow> bool" where
  "unbind_guard dev gart gmc b \<longleftrightarrow> binding_owner b = Some (gart_self gart) \<and> gart_attached gart \<and>
     gart_owns (gart_allocator gmc) (reservationID b) (gartOffset b) (sizeBytes b) \<and>
     sizeBytes b div 4096 = ucast (numGPUPages b) \<and> gart_table_range dev gart (gartOffset b) (sizeBytes b)"

lemma finish_cases:
  assumes "gart_finish_unbind os gmc b d = ((r, gmc', b'), d')"
  shows "if r = kIOReturnSuccess
    then b' = no_binding \<and> gmc' = (if numGPUPages b \<noteq> 0
      then gmc\<lparr>gart_allocator := snd (gart_release (gart_allocator gmc) (reservationID b) (gartOffset b) (sizeBytes b))\<rparr>
      else gmc)
    else gmc' = gmc \<and> b' = b"
  using assms by (auto simp: gart_finish_unbind_def Let_def split: option.splits prod.splits if_splits)

lemma unbind_pages:
  assumes run: "gart_unbind dev os gart gmc b d = Some ((r, gmc', b'), d')" and pages: "numGPUPages b \<noteq> 0"
  obtains (refused) "gmc' = gmc" "b' = b" "d' = d" "r \<noteq> kIOReturnSuccess"
  | (cleared) d1 c where "unbind_guard dev gart gmc b"
      "vram_clear_verified dev (pageTableVRAMOffset gart + gartOffset b div 4096 * 8)
         (ucast (numGPUPages b) * 8) d = (c, d1)"
      "gmc' = gmc" "b' = b\<lparr>binding_ready := False\<rparr>" "r \<noteq> kIOReturnSuccess"
      "d' = d1 \<or> (\<exists>s d2. c = kIOReturnSuccess \<and> gart_invalidate dev gart gmc d1 = Some (s, d2) \<and>
         (d' = d2 \<or> (\<exists>y. gart_finish_unbind os gmc (b\<lparr>binding_ready := False\<rparr>) d2 = (y, d'))))"
  | (gone) d1 d2 where "unbind_guard dev gart gmc b"
      "vram_clear_verified dev (pageTableVRAMOffset gart + gartOffset b div 4096 * 8)
         (ucast (numGPUPages b) * 8) d = (kIOReturnSuccess, d1)"
      "gart_invalidate dev gart gmc d1 = Some (kIOReturnSuccess, d2)"
      "gart_finish_unbind os gmc (b\<lparr>binding_ready := False\<rparr>) d2 = ((r, gmc', b'), d')"
      "gmc' = gmc\<lparr>gart_allocator := snd (gart_release (gart_allocator gmc) (reservationID b) (gartOffset b) (sizeBytes b))\<rparr>"
      "b' = no_binding" "r = kIOReturnSuccess"
proof (cases "unbind_guard dev gart gmc b")
  case False
  with run pages show ?thesis by (intro refused) (auto simp: gart_unbind_def unbind_guard_def)
next
  case True
  let ?b = "b\<lparr>binding_ready := False\<rparr>"
  obtain c d1 where c: "vram_clear_verified dev (pageTableVRAMOffset gart + gartOffset b div 4096 * 8)
         (ucast (numGPUPages b) * 8) d = (c, d1)" by fastforce
  have run: "(if c \<noteq> kIOReturnSuccess then Some ((c, gmc, ?b), d1)
      else (case gart_invalidate dev gart gmc d1 of None \<Rightarrow> None
        | Some (f, d) \<Rightarrow> if f \<noteq> kIOReturnSuccess then Some ((f, gmc, ?b), d)
            else Some (gart_finish_unbind os gmc ?b d))) = Some ((r, gmc', b'), d')"
    using run True pages c by (simp add: gart_unbind_def unbind_guard_def Let_def split: option.splits)
  show ?thesis
  proof (cases "c = kIOReturnSuccess")
    case False
    with run True c show ?thesis by (intro cleared [of c d1]) auto
  next
    case ok: True
    then obtain f d2 where f: "gart_invalidate dev gart gmc d1 = Some (f, d2)" using run by (auto split: option.splits)
    show ?thesis
    proof (cases "f = kIOReturnSuccess")
      case False
      with run True c ok f show ?thesis by (intro cleared [of c d1]) auto
    next
      case fok: True
      then have fin: "gart_finish_unbind os gmc ?b d2 = ((r, gmc', b'), d')" using run ok f by simp
      show ?thesis
      proof (cases "r = kIOReturnSuccess")
        case rok: True
        with finish_cases [OF fin] pages True c ok f fok fin show ?thesis by (intro gone [of d1 d2]) auto
      next
        case False
        with finish_cases [OF fin] True c ok f fok fin show ?thesis by (intro cleared [of c d1]) auto
      qed
    qed
  qed
qed

section \<open>One aperture, many bindings\<close>

definition holds_ptes :: "('d \<Rightarrow> u64 \<Rightarrow> u32) \<Rightarrow> 'd \<Rightarrow> GARTContext \<Rightarrow> GARTBinding \<Rightarrow> bool" where
  "holds_ptes mem d gart b \<longleftrightarrow> (\<forall>i < unat (sizeBytes b) div 4096.
     pte_at mem d gart (gartOffset b) i = gart_pte (busAddr b) (word_of_nat i))"

definition binding_ok ::
  "'d DeviceContext \<Rightarrow> ('d \<Rightarrow> u64 \<Rightarrow> u32) \<Rightarrow> 'd \<Rightarrow> GARTContext \<Rightarrow> GARTReservation list \<Rightarrow> GARTBinding \<Rightarrow> bool"
where
  "binding_ok dev mem d gart live b \<longleftrightarrow> (numGPUPages b \<noteq> 0 \<longrightarrow>
     binding_owner b = Some (gart_self gart) \<and> rec_of b \<in> set live \<and>
     gart_table_range dev gart (gartOffset b) (sizeBytes b) \<and>
     unat (numGPUPages b) = unat (sizeBytes b) div 4096 \<and> (binding_ready b \<longrightarrow> holds_ptes mem d gart b))"

type_synonym 'd gart_state = "GMCContext \<times> (nat \<Rightarrow> GARTBinding) \<times> 'd"

fun gart_sys ::
  "'d DeviceContext \<Rightarrow> ('d \<Rightarrow> u64 \<Rightarrow> u32) \<Rightarrow> GARTContext \<Rightarrow> 'd gart_state \<Rightarrow> GARTReservation list \<Rightarrow> bool"
where
  "gart_sys dev mem gart (gmc, bs, d) live \<longleftrightarrow>
     gart_inv (gart_allocator gmc) live \<and> unat (gartSize gart) < 2 ^ 44 \<and>
     (\<forall>k. binding_ok dev mem d gart live (bs k)) \<and>
     (\<forall>k j. k \<noteq> j \<longrightarrow> numGPUPages (bs k) \<noteq> 0 \<longrightarrow> numGPUPages (bs j) \<noteq> 0 \<longrightarrow>
        reservationID (bs k) \<noteq> reservationID (bs j))"

lemma pages_exact:
  assumes "gart_table_range dev gart offset bytes" "unat (gartSize gart) < 2 ^ 44"
  shows "unat (ucast (bytes div 4096) :: u32) = unat bytes div 4096" "(ucast (bytes div 4096) :: u32) \<noteq> 0"
proof -
  note B = table_range_bounds [OF assms(1)]
  have lt: "unat bytes div 4096 < 4294967296" using B(2) assms(2) by simp
  then show eq: "unat (ucast (bytes div 4096) :: u32) = unat bytes div 4096"
    by (simp add: unsigned_ucast_eq take_bit_eq_mod unat_div)
  have "0 < unat bytes div 4096" using B(4,5) by (auto elim!: dvdE)
  with eq show "(ucast (bytes div 4096) :: u32) \<noteq> 0" by (metis unat_0 less_irrefl)
qed

text \<open>Disjoint page ranges have disjoint table entries.\<close>

lemma other_ptes_kept:
  assumes inv: "gart_inv a live" and b: "rec_of b \<in> set live" "gart_table_range dev gart (gartOffset b) (sizeBytes b)"
    and res: "res \<in> set live" "gr_id res \<noteq> reservationID b"
    and frame: "\<And>x. unat x < unat (pageTableVRAMOffset gart) + (unat (gr_offset res) div 4096) * 8 \<or>
      unat (pageTableVRAMOffset gart) + (unat (gr_offset res) div 4096 + unat (gr_size res) div 4096) * 8 \<le> unat x
      \<Longrightarrow> mem d' x = mem d x"
    and holds: "holds_ptes mem d gart b"
  shows "holds_ptes mem d' gart b"
  unfolding holds_ptes_def
proof (intro allI impI)
  fix i assume i: "i < unat (sizeBytes b) div 4096"
  let ?P = "unat (pageTableVRAMOffset gart)"
  note B = table_range_bounds [OF b(2)]
  have ok: "gr_ok a res" "gr_ok a (rec_of b)" using gart_invD(7) [OF inv] res b by blast+
  have ne: "res \<noteq> rec_of b" using res(2) by (auto simp: rec_of_def)
  have "gr_span res \<inter> gr_span (rec_of b) = {}"
  proof -
    obtain m n where "m < length live" "n < length live" "live ! m = res" "live ! n = rec_of b"
      using res(1) b(1) by (metis in_set_conv_nth)
    with ne gart_invD(8) [OF inv] show ?thesis using disjoint_spans_nth by metis
  qed
  then have apart: "unat (gr_offset res) + unat (gr_size res) \<le> unat (gartOffset b) \<or>
      unat (gartOffset b) + unat (sizeBytes b) \<le> unat (gr_offset res)"
    using ok by (auto simp: gr_span_def gr_ok_def rec_of_def disjoint_iff)
  have al: "4096 dvd unat (gr_offset res)" "4096 dvd unat (gr_size res)" "4096 dvd unat (gartOffset b)"
      "4096 dvd unat (sizeBytes b)"
    using ok by (simp_all add: gr_ok_def rec_of_def)
  have pages: "unat (gr_offset res) div 4096 + unat (gr_size res) div 4096 \<le> unat (gartOffset b) div 4096 \<or>
      unat (gartOffset b) div 4096 + unat (sizeBytes b) div 4096 \<le> unat (gr_offset res) div 4096"
    using apart al by (auto elim!: dvdE)
  have lim: "?P + (unat (gartOffset b) div 4096 + (i + 1)) * 8 < 18446744073709551616"
    by (rule le_less_trans [OF _ B(1)]) (use i in simp)
  have addr: "unat (pte_addr gart (gartOffset b) i) = ?P + (unat (gartOffset b) div 4096 + i) * 8"
    using lim by (intro unat_pte_addr) simp
  have "pte_at mem d' gart (gartOffset b) i = pte_at mem d gart (gartOffset b) i"
  proof (rule pte_frame [where lo = "?P + (unat (gr_offset res) div 4096) * 8" and
        hi = "?P + (unat (gr_offset res) div 4096 + unat (gr_size res) div 4096) * 8"])
    show "unat (pte_addr gart (gartOffset b) i) + 8 \<le> ?P + unat (gr_offset res) div 4096 * 8 \<or>
        ?P + (unat (gr_offset res) div 4096 + unat (gr_size res) div 4096) * 8 \<le> unat (pte_addr gart (gartOffset b) i)"
      unfolding addr using pages i by auto
    show "unat (pte_addr gart (gartOffset b) i) + 8 < 18446744073709551616"
      unfolding addr using lim by simp
  qed (rule frame)
  with holds i show "pte_at mem d' gart (gartOffset b) i = gart_pte (busAddr b) (word_of_nat i)"
    by (simp add: holds_ptes_def)
qed

lemma sys_same_mem:
  assumes "gart_sys dev mem gart (gmc, bs, d) live" "mem d' = mem d"
  shows "gart_sys dev mem gart (gmc, bs, d') live"
  using assms by (simp add: binding_ok_def holds_ptes_def pte_at_def)

lemma bind_reserved_frame:
  assumes mem: "reads_memory dev mem" "writes_local dev mem" "waits_keep_memory dev mem" "vram_apart dev"
    and run: "bind_reserved dev gart gmc b d = Some (y, d')"
    and tr: "gart_table_range dev gart (gartOffset b) (sizeBytes b)"
    and n: "unat (numGPUPages b) = unat (sizeBytes b) div 4096"
    and x: "unat x < unat (pageTableVRAMOffset gart) + (unat (gartOffset b) div 4096) * 8 \<or>
      unat (pageTableVRAMOffset gart) + (unat (gartOffset b) div 4096 + unat (sizeBytes b) div 4096) * 8 \<le> unat x"
  shows "mem d' x = mem d x"
proof -
  obtain r1 d1 where put: "gart_put_ptes dev gart (busAddr b) (gartOffset b) 0 (unat (numGPUPages b)) d = (r1, d1)"
    by fastforce
  have one: "mem d1 x = mem d x"
    using table_range_bounds(1) [OF tr] x by (intro put_ptes_frame [OF mem(1,2) put]) (simp_all add: n)
  have "d' = d1 \<or> (\<exists>s. gart_invalidate dev gart gmc d1 = Some (s, d'))"
    using run put by (auto simp: bind_reserved_def Let_def split: if_splits option.splits prod.splits)
  with invalidate_mem [OF mem] one show ?thesis by metis
qed

lemma binding_ok_mono:
  assumes "binding_ok dev mem d gart live b" "set live \<subseteq> set live'" "holds_ptes mem d gart b \<Longrightarrow> holds_ptes mem d' gart b"
  shows "binding_ok dev mem d' gart live' b"
  using assms by (auto simp: binding_ok_def)

lemma bind_keeps_sys:
  assumes mem: "reads_memory dev mem" "writes_local dev mem" "waits_keep_memory dev mem" "vram_apart dev"
    and sys: "gart_sys dev mem gart (gmc, bs, d) live"
    and run: "gart_bind_range dev gart gmc bus bytes al (bs k) d = Some ((r, gmc', b'), d')"
  shows "\<exists>live'. gart_sys dev mem gart (gmc', bs(k := b'), d') live'"
proof (cases "binding_owner (bs k) = None \<and> numGPUPages (bs k) = 0")
  case False
  then have "gmc' = gmc \<and> b' = bs k \<and> d' = d"
    using run by (auto simp: gart_bind_range_def split: if_splits)
  with sys show ?thesis by auto
next
  case True
  then have fresh: "binding_owner (bs k) = None" "numGPUPages (bs k) = 0" by blast+
  have inv: "gart_inv (gart_allocator gmc) live" and sz: "unat (gartSize gart) < 2 ^ 44"
    and oks: "\<And>j. binding_ok dev mem d gart live (bs j)"
    and ids: "\<And>i j. i \<noteq> j \<Longrightarrow> numGPUPages (bs i) \<noteq> 0 \<Longrightarrow> numGPUPages (bs j) \<noteq> 0 \<Longrightarrow>
        reservationID (bs i) \<noteq> reservationID (bs j)"
    using sys by auto
  have placed: "\<exists>live'. gart_sys dev mem gart (gmc', bs(k := b'), d') live'"
    if res: "gart_reserve (gart_allocator gmc) (bytes, al) = Some (res, a2)"
      and tr: "gart_table_range dev gart (gr_offset res) bytes"
      and gmc': "gmc' = gmc\<lparr>gart_allocator := a2\<rparr>"
      and b': "b' = (bound_to gart bus bytes res (bs k))\<lparr>binding_ready := rdy\<rparr>"
      and go: "bind_reserved dev gart gmc' (bound_to gart bus bytes res (bs k)) d = Some ((r, gmc', b'), d')"
      and ptes: "rdy \<Longrightarrow> holds_ptes mem d' gart b'" for res a2 rdy
  proof (intro exI)
    note R = gart_reserve_spec [OF inv res]
    have inv': "gart_inv a2 (res # live)" and rsz: "gr_size res = bytes" using R(1,4) by simp_all
    have pg: "unat (numGPUPages (bound_to gart bus bytes res (bs k))) = unat bytes div 4096"
      "numGPUPages b' \<noteq> 0" "unat (numGPUPages b') = unat bytes div 4096"
      using pages_exact [OF tr sz] by (simp_all add: b')
    have frame: "mem d' x = mem d x"
      if "unat x < unat (pageTableVRAMOffset gart) + (unat (gr_offset res) div 4096) * 8 \<or>
        unat (pageTableVRAMOffset gart) + (unat (gr_offset res) div 4096 + unat (gr_size res) div 4096) * 8 \<le> unat x" for x
      using that tr pg by (intro bind_reserved_frame [OF mem go]) (simp_all add: rsz)
    have new_id: "gr_id res \<noteq> reservationID (bs j)" if "numGPUPages (bs j) \<noteq> 0" for j
    proof -
      have "rec_of (bs j) \<in> set live" using oks [of j] that by (simp add: binding_ok_def)
      then have "gr_id (rec_of (bs j)) \<in> gr_id ` set live" by blast
      moreover have "gr_id res \<notin> gr_id ` set live" using gart_invD(9) [OF inv'] by simp
      ultimately show ?thesis by (auto simp: rec_of_def)
    qed
    have rec: "rec_of b' = res" using rsz by (simp add: rec_of_def b')
    have "binding_ok dev mem d' gart (res # live) ((bs(k := b')) j)" for j
    proof (cases "j = k")
      case True
      have "binding_ok dev mem d' gart (res # live) b'"
        using tr pg ptes rec unfolding binding_ok_def by (simp add: b')
      with True show ?thesis by simp
    next
      case False
      show ?thesis
      proof (cases "numGPUPages (bs j) = 0")
        case True
        with False show ?thesis by (simp add: binding_ok_def)
      next
        case pj: False
        have "holds_ptes mem d' gart (bs j)" if "holds_ptes mem d gart (bs j)"
          using oks [of j] pj that new_id [OF pj] frame
          by (intro other_ptes_kept [OF inv' _ _ _ _ _ that, where res = res]) (auto simp: binding_ok_def)
        with False show ?thesis using binding_ok_mono [OF oks [of j], of "res # live" d'] by auto
      qed
    qed
    moreover have "reservationID ((bs(k := b')) i) \<noteq> reservationID ((bs(k := b')) j)"
      if "i \<noteq> j" "numGPUPages ((bs(k := b')) i) \<noteq> 0" "numGPUPages ((bs(k := b')) j) \<noteq> 0" for i j
      using that new_id [of i] new_id [of j] ids [of i j] by (auto simp: b' split: if_splits)
    ultimately show "gart_sys dev mem gart (gmc', bs(k := b'), d') (res # live)"
      using inv' sz by (simp add: gmc')
  qed
  from run fresh show ?thesis
  proof (cases rule: bind_fresh)
    case refused
    with sys show ?thesis by auto
  next
    case (retained res a2)
    have "bound_to gart bus bytes res (bs k) = (bound_to gart bus bytes res (bs k))\<lparr>binding_ready := False\<rparr>"
      by (simp add: bound_to_def)
    with retained show ?thesis by (intro placed [of res a2 False]) simp_all
  next
    case (ready res a2 d1)
    let ?n = "unat bytes div 4096"
    note pg = pages_exact [OF ready(2) sz]
    have put: "gart_put_ptes dev gart bus (gr_offset res) 0 ?n d = (kIOReturnSuccess, d1)" using ready(8) pg by simp
    have "mem d' = mem d1" by (rule invalidate_mem [OF mem ready(9)])
    moreover have "pte_at mem d1 gart (gr_offset res) i = gart_pte bus (word_of_nat i)" if "i < ?n" for i
      using put_ptes_spec [OF mem(1,2) put] table_range_bounds(1) [OF ready(2)] that by simp
    ultimately have "holds_ptes mem d' gart b'"
      by (simp add: ready(5) holds_ptes_def pte_at_def)
    with ready show ?thesis by (intro placed [of res a2 True]) simp_all
  qed
qed

lemma clear_range:
  assumes tr: "gart_table_range dev gart offset bytes" and n: "unat n = unat bytes div 4096"
  shows "unat (pageTableVRAMOffset gart + offset div 4096 * 8) =
      unat (pageTableVRAMOffset gart) + unat offset div 4096 * 8"
    "unat (ucast (n :: u32) * 8 :: u64) = unat bytes div 4096 * 8"
proof -
  note B = table_range_bounds [OF tr]
  have "pte_addr gart offset 0 = pageTableVRAMOffset gart + offset div 4096 * 8" by (simp add: pte_addr_def)
  moreover have "unat (pte_addr gart offset 0) = unat (pageTableVRAMOffset gart) + (unat offset div 4096 + 0) * 8"
    by (rule unat_pte_addr, rule le_less_trans [OF _ B(1)]) simp
  ultimately show "unat (pageTableVRAMOffset gart + offset div 4096 * 8) =
      unat (pageTableVRAMOffset gart) + unat offset div 4096 * 8" by simp
  have "unat (ucast n :: u64) = unat n" by (rule unat_widen)
  moreover have "unat n * 8 < 18446744073709551616" using unat_lt_32 [of n] by linarith
  ultimately have "unat (ucast n * 8 :: u64) = unat n * 8" by (simp add: unat_word_ariths)
  then show "unat (ucast n * 8 :: u64) = unat bytes div 4096 * 8" by (simp add: n)
qed

lemma unbind_frame:
  assumes mem: "reads_memory dev mem" "writes_local dev mem" "waits_keep_memory dev mem" "vram_apart dev"
      "os_keeps_memory os mem"
    and tr: "gart_table_range dev gart (gartOffset b) (sizeBytes b)"
    and n: "unat (numGPUPages b) = unat (sizeBytes b) div 4096"
    and run: "gart_unbind dev os gart gmc b d = Some ((r, gmc', b'), d')" and pages: "numGPUPages b \<noteq> 0"
    and x: "unat x < unat (pageTableVRAMOffset gart) + (unat (gartOffset b) div 4096) * 8 \<or>
      unat (pageTableVRAMOffset gart) + (unat (gartOffset b) div 4096 + unat (sizeBytes b) div 4096) * 8 \<le> unat x"
  shows "mem d' x = mem d x"
proof -
  note C = clear_range [OF tr n]
  have clr: "mem d1 x = mem d x" if "vram_clear_verified dev (pageTableVRAMOffset gart + gartOffset b div 4096 * 8)
      (ucast (numGPUPages b) * 8) d = (c, d1)" for c d1
    using x C by (intro clear_frame [OF that mem(1,2)]) (auto simp: algebra_simps)
  from run pages show ?thesis
  proof (cases rule: unbind_pages)
    case (cleared d1 c)
    with clr [OF cleared(2)] invalidate_mem [OF mem(1-4)] finish_mem [OF mem(5)] show ?thesis by metis
  next
    case (gone d1 d2)
    with clr [OF gone(2)] invalidate_mem [OF mem(1-4)] finish_mem [OF mem(5)] show ?thesis by metis
  qed simp
qed

lemma clear_zeroes:
  assumes mem: "reads_memory dev mem" "writes_local dev mem"
    and tr: "gart_table_range dev gart (gartOffset b) (sizeBytes b)"
    and n: "unat (numGPUPages b) = unat (sizeBytes b) div 4096"
    and clr: "vram_clear_verified dev (pageTableVRAMOffset gart + gartOffset b div 4096 * 8)
         (ucast (numGPUPages b) * 8) d = (kIOReturnSuccess, d1)"
    and i: "i < unat (sizeBytes b) div 4096"
  shows "pte_at mem d1 gart (gartOffset b) i = 0"
proof -
  note C = clear_range [OF tr n]
  let ?base = "pageTableVRAMOffset gart + gartOffset b div 4096 * 8"
  have z: "mem d1 (?base + word_of_nat (4 * k)) = 0" if "k < unat (sizeBytes b) div 4096 * 2" for k
    using vram_clear_spec [OF mem clr] that C(2) by (simp add: vram_holds_def)
  have a: "pte_addr gart (gartOffset b) i = ?base + word_of_nat (4 * (2 * i))"
    "pte_addr gart (gartOffset b) i + 4 = ?base + word_of_nat (4 * (2 * i + 1))"
    by (simp_all add: pte_addr_def algebra_simps)
  have "mem d1 (pte_addr gart (gartOffset b) i) = 0" unfolding a(1) by (rule z, use i in simp)
  moreover have "mem d1 (pte_addr gart (gartOffset b) i + 4) = 0" unfolding a(2) by (rule z, use i in simp)
  ultimately show ?thesis by (simp add: pte_at_def)
qed

lemma unbind_keeps_sys:
  assumes mem: "reads_memory dev mem" "writes_local dev mem" "waits_keep_memory dev mem" "vram_apart dev"
      "os_keeps_memory os mem"
    and sys: "gart_sys dev mem gart (gmc, bs, d) live"
    and run: "gart_unbind dev os gart gmc (bs k) d = Some ((r, gmc', b'), d')"
  shows "\<exists>live'. gart_sys dev mem gart (gmc', bs(k := b'), d') live'"
proof -
  have inv: "gart_inv (gart_allocator gmc) live" and sz: "unat (gartSize gart) < 2 ^ 44"
    and oks: "\<And>j. binding_ok dev mem d gart live (bs j)"
    and ids: "\<And>i j. i \<noteq> j \<Longrightarrow> numGPUPages (bs i) \<noteq> 0 \<Longrightarrow> numGPUPages (bs j) \<noteq> 0 \<Longrightarrow>
        reservationID (bs i) \<noteq> reservationID (bs j)"
    using sys by auto
  show ?thesis
  proof (cases "numGPUPages (bs k) = 0")
  case True
  then have fin: "gart_finish_unbind os gmc (bs k) d = ((r, gmc', b'), d')" using run by (simp add: gart_unbind_def)
  have same: "mem d' = mem d" by (rule finish_mem [OF mem(5) fin])
  have gb: "gmc' = gmc" "numGPUPages b' = 0"
    using finish_cases [OF fin] True by (auto simp: no_binding_def split: if_splits)
  have "gart_sys dev mem gart (gmc, bs(k := x), d) live" if x: "numGPUPages x = 0" for x
  proof -
    have "binding_ok dev mem d gart live ((bs(k := x)) j)" for j
      using oks [of j] x by (cases "j = k") (simp_all add: binding_ok_def)
    moreover have "reservationID ((bs(k := x)) i) \<noteq> reservationID ((bs(k := x)) j)"
      if "i \<noteq> j" "numGPUPages ((bs(k := x)) i) \<noteq> 0" "numGPUPages ((bs(k := x)) j) \<noteq> 0" for i j
      using that x ids [of i j] by (cases "i = k"; cases "j = k") simp_all
    ultimately show ?thesis using inv sz by simp
  qed
  from sys_same_mem [OF this [OF gb(2)] same] show ?thesis by (simp only: gb(1)) (rule exI)
next
  case pages: False
  have K: "rec_of (bs k) \<in> set live" "gart_table_range dev gart (gartOffset (bs k)) (sizeBytes (bs k))"
      "unat (numGPUPages (bs k)) = unat (sizeBytes (bs k)) div 4096"
    using oks [of k] pages by (simp_all add: binding_ok_def)
  have frame: "mem d' x = mem d x" if "unat x < unat (pageTableVRAMOffset gart) + (unat (gr_offset (rec_of (bs k))) div 4096) * 8 \<or>
      unat (pageTableVRAMOffset gart) + (unat (gr_offset (rec_of (bs k))) div 4096 + unat (gr_size (rec_of (bs k))) div 4096) * 8 \<le> unat x" for x
    using that by (intro unbind_frame [OF mem K(2,3) run pages]) (simp add: rec_of_def)
  have kept: "holds_ptes mem d' gart (bs j)" if "j \<noteq> k" "numGPUPages (bs j) \<noteq> 0" "holds_ptes mem d gart (bs j)" for j
    using oks [of j] that ids [of k j] pages
    by (intro other_ptes_kept [OF inv _ _ K(1) _ frame that(3)]) (auto simp: binding_ok_def rec_of_def)
  have others: "binding_ok dev mem d' gart live (bs j)" if "j \<noteq> k" for j
    using oks [of j] kept [OF that] by (auto simp: binding_ok_def)
  from run pages show ?thesis
  proof (cases rule: unbind_pages)
    case refused
    with sys show ?thesis by auto
  next
    case (cleared d1 c)
    have "binding_ok dev mem d' gart live b'" using oks [of k] pages by (simp add: cleared(4) binding_ok_def rec_of_def)
    then have "binding_ok dev mem d' gart live ((bs(k := b')) j)" for j using others by (cases "j = k") auto
    moreover have "reservationID ((bs(k := b')) i) \<noteq> reservationID ((bs(k := b')) j)"
      if "i \<noteq> j" "numGPUPages ((bs(k := b')) i) \<noteq> 0" "numGPUPages ((bs(k := b')) j) \<noteq> 0" for i j
      using that ids [of i j] by (auto simp: cleared(4) split: if_splits)
    ultimately have "gart_sys dev mem gart (gmc', bs(k := b'), d') live" using inv sz by (simp add: cleared(3))
    then show ?thesis by blast
  next
    case (gone d1 d2)
    let ?l = "remove1 (rec_of (bs k)) live"
    have inv': "gart_inv (gart_allocator gmc') ?l"
      using gart_release_spec(3) [OF inv K(1)] by (simp add: gone(5) rec_of_def)
    have "rec_of (bs j) \<in> set ?l" if "j \<noteq> k" "numGPUPages (bs j) \<noteq> 0" for j
    proof -
      have "rec_of (bs j) \<in> set live" using oks [of j] that by (simp add: binding_ok_def)
      moreover have "rec_of (bs j) \<noteq> rec_of (bs k)" using ids [of j k] that pages by (auto simp: rec_of_def)
      ultimately show ?thesis by (simp add: in_set_remove1)
    qed
    then have "binding_ok dev mem d' gart ?l ((bs(k := b')) j)" for j
      using others [of j] by (cases "j = k") (auto simp: gone(6) no_binding_def binding_ok_def)
    moreover have "reservationID ((bs(k := b')) i) \<noteq> reservationID ((bs(k := b')) j)"
      if "i \<noteq> j" "numGPUPages ((bs(k := b')) i) \<noteq> 0" "numGPUPages ((bs(k := b')) j) \<noteq> 0" for i j
      using that ids [of i j] by (auto simp: gone(6) no_binding_def split: if_splits)
    ultimately have "gart_sys dev mem gart (gmc', bs(k := b'), d') ?l" using inv' sz by simp
    then show ?thesis by blast
  qed
qed
qed

lemma sys_relabel:
  assumes "gart_sys dev mem gart (gmc, bs, d) live"
    and same: "numGPUPages x = numGPUPages (bs k)" "binding_owner x = binding_owner (bs k)" "rec_of x = rec_of (bs k)"
      "busAddr x = busAddr (bs k)" "binding_ready x = binding_ready (bs k)"
  shows "gart_sys dev mem gart (gmc, bs(k := x), d) live"
proof -
  have inv: "gart_inv (gart_allocator gmc) live" and sz: "unat (gartSize gart) < 2 ^ 44"
    and oks: "\<And>j. binding_ok dev mem d gart live (bs j)"
    and ids: "\<And>i j. i \<noteq> j \<Longrightarrow> numGPUPages (bs i) \<noteq> 0 \<Longrightarrow> numGPUPages (bs j) \<noteq> 0 \<Longrightarrow>
        reservationID (bs i) \<noteq> reservationID (bs j)"
    using assms(1) by auto
  have rec: "gartOffset x = gartOffset (bs k)" "sizeBytes x = sizeBytes (bs k)" "reservationID x = reservationID (bs k)"
    using same(3) by (simp_all add: rec_of_def)
  have "binding_ok dev mem d gart live ((bs(k := x)) j)" for j
    using oks [of j] same rec by (cases "j = k") (simp_all add: binding_ok_def holds_ptes_def)
  moreover have "reservationID ((bs(k := x)) i) \<noteq> reservationID ((bs(k := x)) j)"
    if "i \<noteq> j" "numGPUPages ((bs(k := x)) i) \<noteq> 0" "numGPUPages ((bs(k := x)) j) \<noteq> 0" for i j
    using that same(1) rec(3) ids [of i j] by (cases "i = k"; cases "j = k") simp_all
  ultimately show ?thesis using inv sz by simp
qed

declare gart_sys.simps [simp del]

lemma alloc_sysmem_mem:
  assumes "os_keeps_memory os mem" "gart_alloc_sysmem os n al d = (x, d')"
  shows "mem d' = mem d"
  using assms(2) os_mem [OF assms(1)]
  by (auto simp: gart_alloc_sysmem_def Let_def split: prod.splits option.splits if_splits)

lemma bind_sysmem_keeps_sys:
  assumes mem: "reads_memory dev mem" "writes_local dev mem" "waits_keep_memory dev mem" "vram_apart dev"
      "os_keeps_memory os mem"
    and sys: "gart_sys dev mem gart (gmc, bs, d) live"
    and run: "gart_bind_sysmem dev os gart gmc bytes al (bs k) d = Some ((r, gmc', b'), d')"
  shows "\<exists>live'. gart_sys dev mem gart (gmc', bs(k := b'), d') live'"
proof -
  define al2 where "al2 = (if al < kASPageSize then kASPageSize else al)"
  define n where "n = align_up bytes al2"
  obtain r1 blk d1 where a: "gart_alloc_sysmem os n al2 d = ((r1, blk), d1)" by (metis prod.exhaust)
  have m1: "mem d1 = mem d" by (rule alloc_sysmem_mem [OF mem(5) a])
  have sys1: "gart_sys dev mem gart (gmc, bs, d1) live" using sys m1 by (rule sys_same_mem)
  note run = run [unfolded gart_bind_sysmem_def al2_def [symmetric] Let_def n_def [symmetric] a]
  let ?x = "\<lambda>b x m. b\<lparr>sysmemBuffer := Some x, dmaCommand := Some m, dmaPrepared := True\<rparr>"
  let ?y = "\<lambda>b x m cpu. b\<lparr>sysmemBuffer := Some x, dmaCommand := Some m, dmaPrepared := True, cpuAddr := cpu\<rparr>"
  consider (early) "gmc' = gmc" "b' = bs k" "d' = d \<or> d' = d1"
    | (bad) x m r2 where "gart_unbind dev os gart gmc (?x (bs k) x m) d1 = Some ((r2, gmc', b'), d')"
    | (bound) x cpu m address r2 gmc2 b2 d2 where
        "gart_bind_range dev gart gmc address n al2 (bs k) d1 = Some ((r2, gmc2, b2), d2)"
        "gmc' = gmc2 \<and> d' = d2 \<and> b' = ?y b2 x m cpu \<or>
         (\<exists>r3. gart_unbind dev os gart gmc2 (?y b2 x m cpu) d2 = Some ((r3, gmc', b'), d'))"
  proof (cases blk)
    case None
    with run have "gmc' = gmc \<and> b' = bs k \<and> (d' = d \<or> d' = d1)"
      by (auto split: if_splits option.splits prod.splits)
    with early show ?thesis by blast
  next
    case (Some t)
    obtain x cpu m c ad len where t: "t = (x, cpu, m, c, ad, len)" by (cases t)
    show ?thesis
    proof (cases "c \<noteq> 1 \<or> len < n \<or> \<not> gart_bus_range ad n")
      case True
      with run Some t have "gmc' = gmc \<and> b' = bs k \<and> (d' = d \<or> d' = d1) \<or>
          (\<exists>r2. gart_unbind dev os gart gmc (?x (bs k) x m) d1 = Some ((r2, gmc', b'), d'))"
        by (simp split: if_splits option.splits prod.splits)
      with early bad show ?thesis by blast
    next
      case False
      with run Some t have "gmc' = gmc \<and> b' = bs k \<and> (d' = d \<or> d' = d1) \<or>
          (\<exists>r2 gmc2 b2 d2. gart_bind_range dev gart gmc ad n al2 (bs k) d1 = Some ((r2, gmc2, b2), d2) \<and>
             (gmc' = gmc2 \<and> d' = d2 \<and> b' = ?y b2 x m cpu \<or>
              (\<exists>r3. gart_unbind dev os gart gmc2 (?y b2 x m cpu) d2 = Some ((r3, gmc', b'), d'))))"
        by (simp split: if_splits option.splits prod.splits)
      with early bound show ?thesis by blast
    qed
  qed
  then show ?thesis
  proof cases
    case early
    with sys sys1 show ?thesis by auto
  next
    case (bad x m r2)
    have "gart_sys dev mem gart (gmc, bs(k := ?x (bs k) x m), d1) live" by (rule sys_relabel [OF sys1]) (simp_all add: rec_of_def)
    from unbind_keeps_sys [OF mem this, of k] bad show ?thesis by simp
  next
    case (bound x cpu m address r2 gmc2 b2 d2)
    let ?z = "?y b2 x m cpu"
    obtain live2 where "gart_sys dev mem gart (gmc2, bs(k := b2), d2) live2"
      using bind_keeps_sys [OF mem(1-4) sys1 bound(1)] by blast
    from sys_relabel [OF this, of ?z k] have s2: "gart_sys dev mem gart (gmc2, bs(k := ?z), d2) live2"
      by (simp add: rec_of_def)
    from bound(2) show ?thesis
    proof
      assume "gmc' = gmc2 \<and> d' = d2 \<and> b' = ?z"
      with s2 show ?thesis by blast
    next
      assume "\<exists>r3. gart_unbind dev os gart gmc2 ?z d2 = Some ((r3, gmc', b'), d')"
      with unbind_keeps_sys [OF mem s2, of k] show ?thesis by auto
    qed
  qed
qed

section \<open>Sessions\<close>

text \<open>
  One aperture shared by the bindings \<open>bs k\<close>: any operation may come next, with any arguments and
  whatever the device answers. Operations that never return make no step.
\<close>

inductive gart_step ::
  "'d DeviceContext \<Rightarrow> 'd os \<Rightarrow> GARTContext \<Rightarrow> 'd gart_state \<Rightarrow> 'd gart_state \<Rightarrow> bool"
  for dev os gart
where
  Bind: "gart_bind_range dev gart gmc bus bytes al (bs k) d = Some ((r, gmc', b'), d') \<Longrightarrow>
    gart_step dev os gart (gmc, bs, d) (gmc', bs(k := b'), d')"
| BindNew: "gart_bind_sysmem dev os gart gmc bytes al (bs k) d = Some ((r, gmc', b'), d') \<Longrightarrow>
    gart_step dev os gart (gmc, bs, d) (gmc', bs(k := b'), d')"
| Unbind: "gart_unbind dev os gart gmc (bs k) d = Some ((r, gmc', b'), d') \<Longrightarrow>
    gart_step dev os gart (gmc, bs, d) (gmc', bs(k := b'), d')"

inductive_cases gart_stepE [elim!]: "gart_step dev os gart (gmc, bs, d) s'"

inductive gart_reaches ::
  "'d DeviceContext \<Rightarrow> 'd os \<Rightarrow> GARTContext \<Rightarrow> 'd gart_state \<Rightarrow> 'd gart_state \<Rightarrow> bool"
  for dev os gart s0
where
  Start: "gart_reaches dev os gart s0 s0"
| Step: "gart_reaches dev os gart s0 s \<Longrightarrow> gart_step dev os gart s s' \<Longrightarrow> gart_reaches dev os gart s0 s'"

lemmas keeps_sys = bind_keeps_sys bind_sysmem_keeps_sys unbind_keeps_sys

lemma step_keeps_sys:
  assumes mem: "reads_memory dev mem" "writes_local dev mem" "waits_keep_memory dev mem" "vram_apart dev"
      "os_keeps_memory os mem"
    and sys: "gart_sys dev mem gart s live" and step: "gart_step dev os gart s s'"
  shows "\<exists>live'. gart_sys dev mem gart s' live'"
  using step
proof cases
  case (Bind gmc bus bytes al bs k d r gmc' b' d')
  with bind_keeps_sys [OF mem(1-4)] sys show ?thesis by blast
next
  case (BindNew gmc bytes al bs k d r gmc' b' d')
  with bind_sysmem_keeps_sys [OF mem] sys show ?thesis by blast
next
  case (Unbind gmc bs k d r gmc' b' d')
  with unbind_keeps_sys [OF mem] sys show ?thesis by blast
qed

lemma reaches_sys:
  assumes mem: "reads_memory dev mem" "writes_local dev mem" "waits_keep_memory dev mem" "vram_apart dev"
      "os_keeps_memory os mem"
    and "gart_reaches dev os gart s0 s" "gart_sys dev mem gart s0 live"
  shows "\<exists>live'. gart_sys dev mem gart s live'"
  using assms(6,7)
proof (induction rule: gart_reaches.induct)
  case (Step s s')
  with step_keeps_sys [OF mem] show ?case by blast
qed blast

lemma init_sys:
  assumes init: "gart_init dev gmc0 gart0 = (kIOReturnSuccess, gmc, gart)" and new: "gart_allocator gmc0 = gart_new"
  shows "gart_sys dev mem gart (gmc, \<lambda>_. no_binding, d) []" "gartSize gart = ga_size (gart_allocator gmc)"
proof -
  obtain al where al: "gart_alloc_init gart_new (gart_start gmc0) (gart_size gmc0) = (True, al)"
    and gmc: "gmc = gmc0\<lparr>gart_allocator := al\<rparr>" and gs: "gartSize gart = gart_size gmc0"
    and sz: "\<not> 0xFFFFFFFF < gart_size gmc0 div 4096"
    using init new by (auto simp: gart_init_def Let_def split: if_splits prod.splits)
  note inv = gart_init_inv [OF al]
  have "unat (gart_size gmc0) div 4096 \<le> 0xFFFFFFFF" using sz by (simp add: not_less word_le_nat_alt unat_div)
  then have "unat (gart_size gmc0) < 2 ^ 44" by simp
  with inv show "gart_sys dev mem gart (gmc, \<lambda>_. no_binding, d) []"
    by (simp add: gart_sys.simps gmc gs binding_ok_def no_binding_def)
  show "gartSize gart = ga_size (gart_allocator gmc)" using inv by (simp add: gmc gs)
qed

text \<open>
  C17. In every state a driver session can reach from \<open>gart_init\<close>, whatever order of binds and
  unbinds and whatever errors on the way: every binding marked ready has exactly its PTEs in the
  page table in VRAM, every binding with pages owns a live reservation inside the aperture, and no
  two bindings share a page.
\<close>

theorem gart_sessions_sound:
  assumes "reads_memory dev mem" "writes_local dev mem" "waits_keep_memory dev mem" "vram_apart dev"
      "os_keeps_memory os mem"
    and "gart_init dev gmc0 gart0 = (kIOReturnSuccess, gmc1, gart)" "gart_allocator gmc0 = gart_new"
    and "gart_reaches dev os gart (gmc1, \<lambda>_. no_binding, d0) (gmc, bs, d)"
  shows "(\<forall>k. numGPUPages (bs k) \<noteq> 0 \<longrightarrow>
        gart_owns (gart_allocator gmc) (reservationID (bs k)) (gartOffset (bs k)) (sizeBytes (bs k)) \<and>
        gr_span (rec_of (bs k)) \<subseteq> {..< unat (gartSize gart)} \<and>
        (binding_ready (bs k) \<longrightarrow> (\<forall>i < unat (sizeBytes (bs k)) div 4096.
           pte_at mem d gart (gartOffset (bs k)) i = gart_pte (busAddr (bs k)) (word_of_nat i)))) \<and>
    (\<forall>k j. k \<noteq> j \<longrightarrow> numGPUPages (bs k) \<noteq> 0 \<longrightarrow> numGPUPages (bs j) \<noteq> 0 \<longrightarrow>
        gr_span (rec_of (bs k)) \<inter> gr_span (rec_of (bs j)) = {})"
proof -
  obtain live where sys: "gart_sys dev mem gart (gmc, bs, d) live"
    using reaches_sys [OF assms(1-5,8) init_sys(1) [OF assms(6,7)]] by blast
  then have inv: "gart_inv (gart_allocator gmc) live" and oks: "\<And>k. binding_ok dev mem d gart live (bs k)"
    and ids: "\<And>k j. k \<noteq> j \<Longrightarrow> numGPUPages (bs k) \<noteq> 0 \<Longrightarrow> numGPUPages (bs j) \<noteq> 0 \<Longrightarrow>
        reservationID (bs k) \<noteq> reservationID (bs j)"
    by (simp_all add: gart_sys.simps)
  have own: "rec_of (bs k) \<in> set live" if "numGPUPages (bs k) \<noteq> 0" for k
    using oks [of k] that by (simp add: binding_ok_def)
  have "gart_owns (gart_allocator gmc) (reservationID (bs k)) (gartOffset (bs k)) (sizeBytes (bs k))"
    if "numGPUPages (bs k) \<noteq> 0" for k
    using own [OF that] gart_release_spec(2) [OF inv] by (simp add: rec_of_def)
  moreover have "gr_span (rec_of (bs k)) \<subseteq> {..< unat (gartSize gart)}" if "numGPUPages (bs k) \<noteq> 0" for k
  proof -
    have "gart_table_range dev gart (gartOffset (bs k)) (sizeBytes (bs k))"
      using oks [of k] that by (simp add: binding_ok_def)
    from table_range_bounds(2) [OF this] show ?thesis by (auto simp: gr_span_def rec_of_def)
  qed
  moreover have "gr_span (rec_of (bs k)) \<inter> gr_span (rec_of (bs j)) = {}"
    if ne: "k \<noteq> j" and pk: "numGPUPages (bs k) \<noteq> 0" and pj: "numGPUPages (bs j) \<noteq> 0" for k j
  proof -
    have "rec_of (bs k) \<noteq> rec_of (bs j)" using ids [OF ne pk pj] by (auto simp: rec_of_def)
    moreover obtain m n where "m < length live" "n < length live" "live ! m = rec_of (bs k)" "live ! n = rec_of (bs j)"
      using own [OF pk] own [OF pj] by (metis in_set_conv_nth)
    ultimately show ?thesis using disjoint_spans_nth [OF gart_invD(8) [OF inv]] by metis
  qed
  ultimately show ?thesis using oks by (simp add: binding_ok_def holds_ptes_def)
qed

definition null_os :: "ram os" where
  "null_os = \<lparr>buf_create = (\<lambda>n al d. ((kIOReturnNoMemory, None), d)), buf_set_length = (\<lambda>b n d. (kIOReturnSuccess, d)),
     buf_address = (\<lambda>b d. ((kIOReturnSuccess, 0, 0), d)), buf_release = (\<lambda>b d. d),
     dma_create = (\<lambda>n d. ((kIOReturnNoMemory, None), d)),
     dma_prepare = (\<lambda>m b n d. ((kIOReturnSuccess, 0, 0, 0), d)), dma_complete = (\<lambda>m d. (kIOReturnSuccess, d)),
     dma_release = (\<lambda>m d. d), cpu_zero = (\<lambda>a n d. d)\<rparr>"

lemma null_os_ok: "os_keeps_memory null_os ram_mem"
  by (simp add: os_keeps_memory_def null_os_def)

lemma ram_apart: "vram_apart ram_dev"
  by (simp add: vram_apart_def ram_dev_def)

definition demo_gmc0 :: GMCContext where
  "demo_gmc0 = gmc_zero\<lparr>gmc_inited := True, mmhub := gmc_mmhub_offsets, gfxhub := gmc_gfxhub_offsets hub_zero,
     gart_size := 0x200000, gart_start := 0x100000000, gart_pt_bus := 0x700000, gart_pt_size := 0x1000\<rparr>"

definition demo_gart0 :: GARTContext where
  "demo_gart0 = \<lparr>gart_self = 1, gart_enabled = False, pageTableVRAMOffset = 0, pageTableSize = 0, numPTEs = 0,
     gartStart = 0, gartEnd = 0, gartSize = 0, gart_attached = False, reads_supported = False,
     hostWindowConfigured = False\<rparr>"

lemma demo_gart_run:
  obtains gmc gart where "gart_init ram_dev demo_gmc0 demo_gart0 = (kIOReturnSuccess, gmc, gart)"
proof -
  have "fst (gart_init ram_dev demo_gmc0 demo_gart0) = kIOReturnSuccess"
    by (simp add: gart_init_def demo_gmc0_def demo_gart0_def gmc_zero_def gmc_mmhub_offsets_def
        gmc_gfxhub_offsets_def vram_io_range_def ram_dev_def gart_alloc_init_def gart_new_def Let_def)
  then show ?thesis using that by (metis prod.collapse)
qed

lemma bind_returns:
  assumes "clock_runs dev T"
  shows "\<exists>r gmc' b' d'. gart_bind_range dev gart gmc bus bytes al b d = Some ((r, gmc', b'), d')"
proof (cases "binding_owner b = None \<and> numGPUPages b = 0")
  case True
  have "\<exists>r gmc' b' d'. bind_reserved dev gart g b2 d = Some ((r, gmc', b'), d')" for g b2
  proof -
    obtain r1 d1 where p: "gart_put_ptes dev gart (busAddr b2) (gartOffset b2) 0 (unat (numGPUPages b2)) d = (r1, d1)"
      by fastforce
    obtain r2 d2 where "gart_invalidate dev gart g d1 = Some (r2, d2)" using invalidate_returns [OF assms] by blast
    with p show ?thesis by (simp add: bind_reserved_def)
  qed
  with True show ?thesis by (simp add: bind_fresh_eq split: option.split prod.split)
next
  case False
  then show ?thesis by (auto simp: gart_bind_range_def)
qed

lemma gart_sessions_sound_witness:
  "\<exists>gart gmc0 gmc bs d. gart_reaches ram_dev null_os gart (gmc0, \<lambda>_. no_binding, (\<lambda>_ _. 1, 0)) (gmc, bs, d) \<and>
    (\<forall>k j. k \<noteq> j \<longrightarrow> numGPUPages (bs k) \<noteq> 0 \<longrightarrow> numGPUPages (bs j) \<noteq> 0 \<longrightarrow>
        gr_span (rec_of (bs k)) \<inter> gr_span (rec_of (bs j)) = {})"
proof -
  obtain gmc1 gart where init: "gart_init ram_dev demo_gmc0 demo_gart0 = (kIOReturnSuccess, gmc1, gart)"
    by (rule demo_gart_run)
  have new: "gart_allocator demo_gmc0 = gart_new" by (simp add: demo_gmc0_def gmc_zero_def)
  obtain r gmc b d where "gart_bind_range ram_dev gart gmc1 0x8000 0x4000 0x1000 ((\<lambda>_ :: nat. no_binding) 0) (\<lambda>_ _. 1, 0) =
      Some ((r, gmc, b), d)"
    using bind_returns [OF ram_dev_ok(4)] by blast
  from gart_reaches.Step [OF gart_reaches.Start gart_step.Bind [OF this]]
  have run: "gart_reaches ram_dev null_os gart (gmc1, \<lambda>_. no_binding, (\<lambda>_ _. 1, 0)) (gmc, (\<lambda>_. no_binding)(0 := b), d)" .
  from gart_sessions_sound [OF ram_dev_ok(1-3) ram_apart null_os_ok init new run] run show ?thesis by blast
qed

section \<open>Single operations\<close>

text \<open>
  C18. Binding to a fresh binding that reports success first wrote and verified every PTE of the range:
  in the state \<open>d1\<close> all of them are in VRAM. From that state on both hubs carried out and acknowledged
  a flush that ends in the state returned, where the PTEs still stand, and the binding holds the only
  reservation of that range. An error either leaves everything as it was, the device included, or keeps the range reserved
  under the binding, which is not ready.
\<close>

theorem gart_bind_outcome:
  assumes "reads_memory dev mem" "writes_local dev mem" "waits_keep_memory dev mem" "vram_apart dev"
    and "gart_inv (gart_allocator gmc) live" "unat (gartSize gart) < 2 ^ 44"
    and "binding_owner b = None" "numGPUPages b = 0"
    and "gart_bind_range dev gart gmc bus bytes al b d = Some ((r, gmc', b'), d')"
  shows "if r = kIOReturnSuccess
    then gart_inv (gart_allocator gmc') (rec_of b' # live) \<and> binding_ready b' \<and> sizeBytes b' = bytes \<and>
      (\<forall>i < unat bytes div 4096. pte_at mem d' gart (gartOffset b') i = gart_pte bus (word_of_nat i)) \<and>
      (\<exists>d1. (\<forall>i < unat bytes div 4096. pte_at mem d1 gart (gartOffset b') i = gart_pte bus (word_of_nat i)) \<and>
         hubs_flushed dev gmc d1 d')
    else gmc' = gmc \<and> b' = b \<and> d' = d \<or>
      gart_inv (gart_allocator gmc') (rec_of b' # live) \<and> numGPUPages b' \<noteq> 0 \<and> \<not> binding_ready b'"
  using assms(9,7,8)
proof (cases rule: bind_fresh)
  case (retained res a2)
  have "gr_size res = bytes" using retained(1) by (auto simp: reserve_find)
  then have "rec_of b' = res" by (cases res) (simp add: retained(5) rec_of_def)
  moreover have "gart_inv a2 (res # live)" by (rule gart_reserve_spec(1) [OF assms(5) retained(1)])
  ultimately show ?thesis
    using retained pages_exact(2) [OF retained(2) assms(6)] by simp
next
  case (ready res a2 d1)
  have "gr_size res = bytes" using ready(1) by (auto simp: reserve_find)
  then have rec: "rec_of b' = res" "gartOffset b' = gr_offset res" "sizeBytes b' = bytes" "binding_ready b'"
    by (cases res, simp add: ready(5) rec_of_def) (simp_all add: ready(5))
  have "gart_inv a2 (res # live)" by (rule gart_reserve_spec(1) [OF assms(5) ready(1)])
  moreover have put: "gart_put_ptes dev gart bus (gr_offset res) 0 (unat bytes div 4096) d = (kIOReturnSuccess, d1)"
    using ready(8) pages_exact(1) [OF ready(2) assms(6)] by simp
  have "mem d' = mem d1" by (rule invalidate_mem [OF assms(1-4) ready(9)])
  then have same: "pte_at mem d' gart (gr_offset res) i = pte_at mem d1 gart (gr_offset res) i" for i
    by (simp add: pte_at_def)
  have "pte_at mem d1 gart (gr_offset res) i = gart_pte bus (word_of_nat i)" if "i < unat bytes div 4096" for i
    using put_ptes_spec [OF assms(1,2) put] table_range_bounds(1) [OF ready(2)] that by simp
  moreover have "hubs_flushed dev gmc d1 d'"
    using invalidate_success [OF ready(9)] by (simp add: hubs_flushed_def ready(4))
  ultimately show ?thesis by (auto simp: ready(4,6) rec same)
qed simp

lemma demo_gart_fresh:
  assumes "gart_init ram_dev demo_gmc0 demo_gart0 = (kIOReturnSuccess, gmc, gart)"
  shows "gart_inv (gart_allocator gmc) []" "unat (gartSize gart) < 2 ^ 44"
  using init_sys(1) [OF assms, of ram_mem "(\<lambda>_ _. 1, 0)"]
  by (simp_all add: demo_gmc0_def gmc_zero_def gart_sys.simps)

lemma demo_init:
  assumes "gart_init ram_dev demo_gmc0 demo_gart0 = (kIOReturnSuccess, gmc, gart)"
  shows "gart_enabled gart" "gart_attached gart" "pageTableVRAMOffset gart = 0x700000"
    "pageTableSize gart = 0x1000" "gartSize gart = 0x200000" "gart_self gart = 1"
    "mmhub gmc = gmc_mmhub_offsets" "gfxhub gmc = gmc_gfxhub_offsets hub_zero" "gart_allocator gmc = demo_gart"
  using assms by (auto simp: gart_init_def demo_gmc0_def demo_gart0_def gmc_zero_def gmc_mmhub_offsets_def
        gmc_gfxhub_offsets_def vram_io_range_def ram_dev_def gart_alloc_init_def gart_new_def demo_gart_def Let_def)

definition demo_res :: GARTReservation where
  "demo_res = \<lparr>gr_offset = 0, gr_size = 0x1000, gr_id = 1\<rparr>"

lemma demo_reserve: "\<exists>a. gart_reserve demo_gart (0x1000, 0x1000) = Some (demo_res, a)"
proof -
  have "gart_find demo_gart 0x1000 0x1000 = Some (0, 0)" by code_simp
  moreover have "ga_lastID demo_gart = 0" by code_simp
  ultimately show ?thesis by (simp add: gart_reserve_def demo_res_def Let_def)
qed

lemma demo_table_range:
  assumes "gart_init ram_dev demo_gmc0 demo_gart0 = (kIOReturnSuccess, gmc, gart)"
  shows "gart_table_range ram_dev gart 0 0x1000"
proof -
  have "bar0Size ram_dev = 0x10000000" by (simp add: ram_dev_def)
  then show ?thesis by (simp add: gart_table_range_def demo_init [OF assms] vram_io_range_def)
qed

lemma ram_io:
  "pci ram_dev \<noteq> None" "bar0MemIndex ram_dev = 0" "rd32 ram_dev bar off d = (fst d bar off, d)"
  "WBAR0_32 ram_dev off v d = ((fst d)(0 := (fst d 0)(off := v)), snd d)" "vram_io_range ram_dev 0x700000 8"
  by (simp_all add: access_defs WBAR0_32_def vram_io_range_def ram_dev_def ram_pci_def)

lemma ram_put8:
  "\<exists>d'. vram_write_verified ram_dev 0x700000 (Some src) 8 d = (kIOReturnSuccess, d') \<and> fst d' 2 = fst d 2"
proof -
  have n: "unat (8 :: u64) div 4 = Suc (Suc 0)" by simp
  show ?thesis unfolding vram_write_verified_def n by (simp add: ram_io)
qed

lemma ram_clear8:
  "\<exists>d'. vram_clear_verified ram_dev 0x700000 8 d = (kIOReturnSuccess, d') \<and> fst d' 2 = fst d 2"
proof -
  obtain d' where w: "vram_write_verified ram_dev 0x700000 (Some (replicate 256 0)) 8 d = (kIOReturnSuccess, d')"
    "fst d' 2 = fst d 2" using ram_put8 by blast
  have "vram_clear_loop ram_dev 0x700000 8 d = (kIOReturnSuccess, d')"
    by (subst vram_clear_loop.simps) (simp add: Let_def w vram_clear_loop.simps)
  with w(2) show ?thesis by (simp add: vram_clear_verified_def ram_io)
qed

text \<open>
  A memory whose registers all read 1 acknowledges both flushes: the semaphore is granted and the
  acknowledge bit of VMID 0 is set.
\<close>

lemma ram_poll:
  assumes "fst d 2 (ucast reg * 4) = 1"
  shows "poll_reg ram_dev reg 1 1 100000 d = Some ((True, 1), d)"
  using assms
  by (cases d) (simp add: poll_reg_def poll_loop.simps RREG32_def access_defs ram_dev_def ram_pci_def)

lemma ram_registers:
  "RREG32 ram_dev reg d = (fst d 2 (ucast reg * 4), d)"
  "WREG32 ram_dev reg v d = ((fst d)(2 := (fst d 2)(ucast reg * 4 := v)), snd d)"
  "amdgpu_hdp_flush ram_dev d = ((fst d)(2 := (fst d 2)(0x44000 := 0)), snd d)"
  "ip_get (dev_ip ram_dev) blk = 0x1000" "ip_isResolved (dev_ip ram_dev) blk"
  by (simp_all add: RREG32_def WREG32_def amdgpu_hdp_flush_def access_defs ram_dev_def ram_pci_def ip_get_def
      ip_isResolved_def)

lemma ram_flush:
  assumes "fst d 2 = (\<lambda>_. 1)" "gart_attached gart" "mmhub gmc = gmc_mmhub_offsets"
    "gfxhub gmc = gmc_gfxhub_offsets hub_zero"
  shows "\<exists>d'. gart_invalidate ram_dev gart gmc d = Some (kIOReturnSuccess, d')"
  using assms(1)
  by (simp add: assms(2-4) gart_invalidate_def gmc_flush_gpu_tlb_def flush_request_def invalidate_cid2_def
      ram_poll ram_registers hub_reg_def SOC15_REG_OFFSET_def gmc_mmhub_offsets_def gmc_gfxhub_offsets_def Let_def)

lemma gart_bind_outcome_witness:
  "\<exists>gart gmc gmc' b' d1 d'.
    gart_bind_range ram_dev gart gmc 0x8000 0x1000 0x1000 no_binding (\<lambda>_ _. 1, 0) =
      Some ((kIOReturnSuccess, gmc', b'), d') \<and> binding_ready b' \<and>
    pte_at ram_mem d1 gart (gartOffset b') 0 = gart_pte 0x8000 0 \<and> hubs_flushed ram_dev gmc d1 d' \<and>
    pte_at ram_mem d' gart (gartOffset b') 0 = gart_pte 0x8000 0"
proof -
  obtain gmc gart where init: "gart_init ram_dev demo_gmc0 demo_gart0 = (kIOReturnSuccess, gmc, gart)"
    by (rule demo_gart_run)
  note D = demo_init [OF init]
  have fresh: "binding_owner no_binding = None" "numGPUPages no_binding = 0" by (simp_all add: no_binding_def)
  have off: "gr_offset demo_res = 0" by (simp add: demo_res_def)
  have g: "bind_guard gart 0x8000 0x1000 0x1000 no_binding"
    by (simp add: bind_guard_def D gart_bus_range_def no_binding_def)
  obtain a where a: "gart_reserve (gart_allocator gmc) (0x1000, 0x1000) = Some (demo_res, a)"
    using demo_reserve by (auto simp: D)
  obtain d1 where put: "vram_write_verified ram_dev 0x700000 (Some (bytes64 (gart_pte 0x8000 0))) 8 (\<lambda>_ _. 1, 0) =
      (kIOReturnSuccess, d1)" "fst d1 2 = (\<lambda>_. 1)"
    using ram_put8 [of "bytes64 (gart_pte 0x8000 0)" "(\<lambda>_ _. 1, 0)"] by auto
  obtain d' where "gart_invalidate ram_dev gart (gmc\<lparr>gart_allocator := a\<rparr>) d1 = Some (kIOReturnSuccess, d')"
    using ram_flush [OF put(2) D(2), of "gmc\<lparr>gart_allocator := a\<rparr>"] D(7,8) by auto
  with put have "bind_reserved ram_dev gart (gmc\<lparr>gart_allocator := a\<rparr>) (bound_to gart 0x8000 0x1000 demo_res no_binding)
      (\<lambda>_ _. 1, 0) = Some ((kIOReturnSuccess, gmc\<lparr>gart_allocator := a\<rparr>,
        (bound_to gart 0x8000 0x1000 demo_res no_binding)\<lparr>binding_ready := True\<rparr>), d')"
    by (simp add: bind_reserved_def demo_res_def D Let_def)
  then obtain gmc' b' where run: "gart_bind_range ram_dev gart gmc 0x8000 0x1000 0x1000 no_binding (\<lambda>_ _. 1, 0) =
      Some ((kIOReturnSuccess, gmc', b'), d')"
    unfolding bind_fresh_eq [OF fresh] using g a demo_table_range [OF init] off by simp
  from gart_bind_outcome [OF ram_dev_ok(1-3) ram_apart demo_gart_fresh [OF init] fresh run]
  obtain d1 where ok: "binding_ready b'" "hubs_flushed ram_dev gmc d1 d'"
    and p: "\<forall>i < unat (0x1000 :: u64) div 4096. pte_at ram_mem d1 gart (gartOffset b') i = gart_pte 0x8000 (word_of_nat i)"
    "\<forall>i < unat (0x1000 :: u64) div 4096. pte_at ram_mem d' gart (gartOffset b') i = gart_pte 0x8000 (word_of_nat i)"
    by auto
  from p have "pte_at ram_mem d1 gart (gartOffset b') 0 = gart_pte 0x8000 0"
    "pte_at ram_mem d' gart (gartOffset b') 0 = gart_pte 0x8000 0" by simp_all
  with run ok show ?thesis by blast
qed

text \<open>
  C19. Unbinding a binding with pages that reports success first zeroed every PTE of its range: in the
  state \<open>d1\<close> all of them read 0. From that state on both hubs carried out and acknowledged a flush,
  and only from the state \<open>d2\<close> the flush ended in were the buffer and the range given up: the allocator
  loses exactly that reservation, the binding is empty, and the PTEs are still zero. An error keeps the
  reservation, so a range that may still be translated is never handed out again.
\<close>

theorem gart_unbind_outcome:
  assumes "reads_memory dev mem" "writes_local dev mem" "waits_keep_memory dev mem" "vram_apart dev"
      "os_keeps_memory os mem"
    and "gart_inv (gart_allocator gmc) live" "unat (gartSize gart) < 2 ^ 44" "numGPUPages b \<noteq> 0"
    and "gart_unbind dev os gart gmc b d = Some ((r, gmc', b'), d')"
  shows "if r = kIOReturnSuccess
    then rec_of b \<in> set live \<and> b' = no_binding \<and>
      gart_inv (gart_allocator gmc') (remove1 (rec_of b) live) \<and>
      (\<exists>d1 d2. (\<forall>i < unat (sizeBytes b) div 4096. pte_at mem d1 gart (gartOffset b) i = 0) \<and>
         hubs_flushed dev gmc d1 d2 \<and>
         gart_finish_unbind os gmc (b\<lparr>binding_ready := False\<rparr>) d2 = ((kIOReturnSuccess, gmc', b'), d')) \<and>
      (\<forall>i < unat (sizeBytes b) div 4096. pte_at mem d' gart (gartOffset b) i = 0)
    else gmc' = gmc \<and> (b' = b \<or> b' = b\<lparr>binding_ready := False\<rparr>)"
  using assms(9,8)
proof (cases rule: unbind_pages)
  case (gone d1 d2)
  note g = gone(1) [unfolded unbind_guard_def]
  have tr: "gart_table_range dev gart (gartOffset b) (sizeBytes b)" using g by simp
  have "ucast (numGPUPages b) = sizeBytes b div 4096" using g by simp
  then have "unat (ucast (numGPUPages b) :: u64) = unat (sizeBytes b) div 4096" by (simp add: unat_div4096)
  moreover have "unat (ucast (numGPUPages b) :: u64) = unat (numGPUPages b)" by (rule unat_widen)
  ultimately have n: "unat (numGPUPages b) = unat (sizeBytes b) div 4096" by simp
  have own: "gart_owns (gart_allocator gmc) (reservationID b) (gartOffset b) (sizeBytes b)" using g by simp
  note rel = gart_release_spec [OF assms(6)]
  have live: "rec_of b \<in> set live" using own rel(2) by (simp add: rec_of_def)
  have inv: "gart_inv (gart_allocator gmc') (remove1 (rec_of b) live)"
    using rel(3) [OF live] by (simp add: gone(5) rec_of_def)
  have zero: "\<forall>i < unat (sizeBytes b) div 4096. pte_at mem d1 gart (gartOffset b) i = 0"
    using clear_zeroes [OF assms(1,2) tr n gone(2)] by blast
  have "mem d' = mem d1"
    using invalidate_mem [OF assms(1-4) gone(3)] finish_mem [OF assms(5) gone(4)] by simp
  then have kept: "pte_at mem d' gart (gartOffset b) i = pte_at mem d1 gart (gartOffset b) i" for i
    by (simp add: pte_at_def)
  have "hubs_flushed dev gmc d1 d2" by (rule invalidate_success [OF gone(3)])
  with zero gone(4,7) have "\<exists>d1 d2. (\<forall>i < unat (sizeBytes b) div 4096. pte_at mem d1 gart (gartOffset b) i = 0) \<and>
         hubs_flushed dev gmc d1 d2 \<and>
         gart_finish_unbind os gmc (b\<lparr>binding_ready := False\<rparr>) d2 = ((kIOReturnSuccess, gmc', b'), d')" by blast
  with live inv zero show ?thesis by (simp add: kept gone(6,7))
qed simp_all

lemma unbind_returns:
  assumes "clock_runs dev T"
  shows "\<exists>r gmc' b' d'. gart_unbind dev os gart gmc b d = Some ((r, gmc', b'), d')"
proof -
  obtain c d1 where c: "vram_clear_verified dev (pageTableVRAMOffset gart + gartOffset b div 4096 * 8)
      (ucast (numGPUPages b) * 8) d = (c, d1)" by fastforce
  obtain r d2 where "gart_invalidate dev gart gmc d1 = Some (r, d2)" using invalidate_returns [OF assms] by blast
  with c show ?thesis by (simp add: gart_unbind_def Let_def) (metis prod.collapse)
qed

text \<open>A binding made by hand over a reservation of the first page.\<close>

definition demo_binding :: GARTBinding where
  "demo_binding = no_binding\<lparr>binding_owner := Some 1, reservationID := 1, busAddr := 0x8000, sizeBytes := 0x1000,
     numGPUPages := 1, binding_ready := True\<rparr>"

lemma gart_unbind_outcome_witness:
  "\<exists>gart gmc gmc' d1 d2 d'. gart_unbind ram_dev null_os gart gmc demo_binding (\<lambda>_ _. 1, 0) =
      Some ((kIOReturnSuccess, gmc', no_binding), d') \<and> gart_inv (gart_allocator gmc') [] \<and>
    pte_at ram_mem d1 gart 0 0 = 0 \<and> hubs_flushed ram_dev gmc d1 d2 \<and> pte_at ram_mem d' gart 0 0 = 0"
proof -
  obtain gmc gart where init: "gart_init ram_dev demo_gmc0 demo_gart0 = (kIOReturnSuccess, gmc, gart)"
    by (rule demo_gart_run)
  note D = demo_init [OF init]
  obtain a where a: "gart_reserve (gart_allocator gmc) (0x1000, 0x1000) = Some (demo_res, a)"
    using demo_reserve by (auto simp: D)
  let ?gmc = "gmc\<lparr>gart_allocator := a\<rparr>"
  have inv: "gart_inv (gart_allocator ?gmc) [demo_res]"
    using gart_reserve_spec(1) [OF demo_gart_fresh(1) [OF init] a] by simp
  have b: "gartOffset demo_binding = 0" "sizeBytes demo_binding = 0x1000" "numGPUPages demo_binding = 1"
    "reservationID demo_binding = 1" "binding_owner demo_binding = Some 1" "dmaCommand demo_binding = None"
    "sysmemBuffer demo_binding = None" "numGPUPages demo_binding \<noteq> 0"
    by (simp_all add: demo_binding_def no_binding_def)
  have rec: "rec_of demo_binding = demo_res" by (simp add: rec_of_def b demo_res_def)
  have owns: "gart_owns a 1 0 0x1000"
    using gart_release_spec(2) [OF inv, of 1 0 "0x1000"] by (simp add: demo_res_def)
  obtain d1 where clr: "vram_clear_verified ram_dev 0x700000 8 (\<lambda>_ _. 1, 0) = (kIOReturnSuccess, d1)"
    "fst d1 2 = (\<lambda>_. 1)" using ram_clear8 [of "(\<lambda>_ _. 1, 0)"] by auto
  obtain d2 where "gart_invalidate ram_dev gart ?gmc d1 = Some (kIOReturnSuccess, d2)"
    using ram_flush [OF clr(2) D(2), of ?gmc] D(7,8) by auto
  then obtain gmc' b' d' where run: "gart_unbind ram_dev null_os gart ?gmc demo_binding (\<lambda>_ _. 1, 0) =
      Some ((kIOReturnSuccess, gmc', b'), d')"
    using clr owns demo_table_range [OF init]
    by (simp add: gart_unbind_def gart_finish_unbind_def b D Let_def)
  from gart_unbind_outcome [OF ram_dev_ok(1-3) ram_apart null_os_ok inv demo_gart_fresh(2) [OF init] b(8) run]
  obtain d1 d2 where ok: "b' = no_binding" "gart_inv (gart_allocator gmc') []" "hubs_flushed ram_dev ?gmc d1 d2"
    and p: "\<forall>i < unat (0x1000 :: u64) div 4096. pte_at ram_mem d1 gart 0 i = 0"
    "\<forall>i < unat (0x1000 :: u64) div 4096. pte_at ram_mem d' gart 0 i = 0"
    by (auto simp: rec b)
  from p have "pte_at ram_mem d1 gart 0 0 = 0" "pte_at ram_mem d' gart 0 0 = 0" by simp_all
  with run ok show ?thesis by blast
qed

end
