(* ===== verification/Client_Lifecycle.thy ===== *)
theory Client_Lifecycle
  imports Prelude
begin

text \<open>
  \<^verbatim>\<open>dext/amdgpu/amdgpu_client_lifecycle.h\<close>: which client may use the device
  (\<open>ClientSessions\<close>), the shape checks on client requests, and the one raw submission a client may
  have in flight (\<open>ClientSubmission\<close>). The header runs on the driver's serial queue, so each
  operation is one step; its atomic loads and stores are plain reads and writes here, and a fence
  slot is a word of a shared memory that the device may change between two steps.
\<close>

section \<open>Client sessions\<close>

text \<open>A client is the address of its object; \<open>0\<close> is \<^verbatim>\<open>nullptr\<close>.\<close>

type_synonym client = u64

record ClientSessions =
  initializationClient :: client
  exclusiveClient :: client
  participants :: u32

definition sessions_new :: ClientSessions where
  "sessions_new = \<lparr>initializationClient = 0, exclusiveClient = 0, participants = 0\<rparr>"

text \<open>The results are the answer, the caller's \<open>attached\<close> flag and the new state.\<close>

definition attach :: "ClientSessions \<Rightarrow> client \<Rightarrow> bool \<Rightarrow> bool \<Rightarrow> bool \<times> bool \<times> ClientSessions" where
  "attach s c attached ready =
     (if exclusiveClient s \<noteq> 0 \<and> exclusiveClient s \<noteq> c then (False, attached, s)
      else if \<not> ready \<and> initializationClient s \<noteq> 0 \<and> initializationClient s \<noteq> c then (False, attached, s)
      else let s = (if ready then s\<lparr>initializationClient := 0\<rparr> else s)
        in if attached then (True, attached, s)
        else if participants s = 0xFFFFFFFF then (False, attached, s)
        else let s = (if \<not> ready then s\<lparr>initializationClient := c\<rparr> else s)
          in (True, True, s\<lparr>participants := participants s + 1\<rparr>))"

definition claimExclusive :: "ClientSessions \<Rightarrow> client \<Rightarrow> bool \<Rightarrow> bool \<times> ClientSessions" where
  "claimExclusive s c attached =
     (if \<not> attached \<or> participants s \<noteq> 1 \<or> (exclusiveClient s \<noteq> 0 \<and> exclusiveClient s \<noteq> c) then (False, s)
      else (True, s\<lparr>exclusiveClient := c\<rparr>))"

definition canReset :: "ClientSessions \<Rightarrow> client \<Rightarrow> bool \<Rightarrow> bool" where
  "canReset s c attached \<longleftrightarrow>
     participants s = (if attached then 1 else 0) \<and> (exclusiveClient s = 0 \<or> exclusiveClient s = c)"

definition detach :: "ClientSessions \<Rightarrow> client \<Rightarrow> bool \<Rightarrow> bool \<times> ClientSessions" where
  "detach s c attached =
     (let s = (if attached \<and> participants s \<noteq> 0 then s\<lparr>participants := participants s - 1\<rparr> else s);
          s = (if initializationClient s = c then s\<lparr>initializationClient := 0\<rparr> else s);
          s = (if exclusiveClient s = c then s\<lparr>exclusiveClient := 0\<rparr> else s)
      in (False, s))"

subsection \<open>Histories of sessions\<close>

text \<open>
  The driver keeps one \<open>attached\<close> flag per client (\<^verbatim>\<open>ivars->claimed\<close>) and hands it to every
  operation. \<open>client_step\<close> is any of the operations, by any client, with any readiness.
\<close>

type_synonym session_state = "ClientSessions \<times> (client \<Rightarrow> bool)"

inductive client_step :: "session_state \<Rightarrow> session_state \<Rightarrow> bool" where
  Attach: "c \<noteq> 0 \<Longrightarrow> attach s c (att c) ready = (ok, a, s') \<Longrightarrow> client_step (s, att) (s', att(c := a))"
| Claim: "c \<noteq> 0 \<Longrightarrow> claimExclusive s c (att c) = (ok, s') \<Longrightarrow> client_step (s, att) (s', att)"
| Detach: "c \<noteq> 0 \<Longrightarrow> detach s c (att c) = (a, s') \<Longrightarrow> client_step (s, att) (s', att(c := a))"

inductive client_reaches :: "session_state \<Rightarrow> session_state \<Rightarrow> bool" for x where
  Start: "client_reaches x x"
| Step: "client_reaches x y \<Longrightarrow> client_step y z \<Longrightarrow> client_reaches x z"

definition attached_clients :: "(client \<Rightarrow> bool) \<Rightarrow> client set" where
  "attached_clients att = {c. att c}"

text \<open>The count is the number of attached clients; both leases belong to an attached client, and an
  exclusive client is alone.\<close>

fun sessions_ok :: "session_state \<Rightarrow> bool" where
  "sessions_ok (s, att) \<longleftrightarrow>
     card (attached_clients att) = unat (participants s) \<and>
     (initializationClient s \<noteq> 0 \<longrightarrow> att (initializationClient s)) \<and>
     (exclusiveClient s \<noteq> 0 \<longrightarrow> attached_clients att = {exclusiveClient s})"

lemma attached_fun_upd [simp]:
  "attached_clients (att(c := a)) = (if a then insert c (attached_clients att) else attached_clients att - {c})"
  by (auto simp: attached_clients_def)

lemma in_attached [simp]: "c \<in> attached_clients att \<longleftrightarrow> att c"
  by (simp add: attached_clients_def)

lemma finite_clients [simp]: "finite (X :: client set)"
  by (rule finite_subset [of X UNIV]) simp_all

lemma card_one_iff: "c \<in> X \<Longrightarrow> card X = 1 \<longleftrightarrow> X = {c}"
proof
  assume c: "c \<in> X" and "card X = 1"
  then obtain y where "X = {y}" by (auto simp: card_1_singleton_iff)
  with c show "X = {c}" by simp
qed simp

lemma attach_keeps_ok:
  assumes ok: "sessions_ok (s, att)" and c: "c \<noteq> 0" and run: "attach s c (att c) ready = (r, a, s')"
  shows "sessions_ok (s', att(c := a))"
proof (cases "a = att c")
  case True
  then have "att(c := a) = att" by auto
  moreover have "participants s' = participants s" "exclusiveClient s' = exclusiveClient s"
    "initializationClient s' = 0 \<or> initializationClient s' = initializationClient s"
    using run True by (auto simp: attach_def Let_def split: if_splits)
  ultimately show ?thesis using ok by auto
next
  case False
  then have new: "\<not> att c" "a" "participants s \<noteq> 0xFFFFFFFF" "participants s' = participants s + 1"
    "exclusiveClient s' = exclusiveClient s" "exclusiveClient s = 0 \<or> exclusiveClient s = c"
    "initializationClient s' = c \<or> initializationClient s' = 0"
    using run by (auto simp: attach_def Let_def split: if_splits)
  have "exclusiveClient s = 0"
  proof (rule ccontr)
    assume x: "exclusiveClient s \<noteq> 0"
    with ok have "attached_clients att = {exclusiveClient s}" by simp
    then have "exclusiveClient s \<in> attached_clients att" by simp
    with new x show False by simp
  qed
  moreover have "card (insert c (attached_clients att)) = unat (participants s + 1)"
    using ok new by (simp add: unat_inc32)
  ultimately show ?thesis using new by auto
qed

lemma detach_keeps_ok:
  assumes ok: "sessions_ok (s, att)" and c: "c \<noteq> 0" and run: "detach s c (att c) = (a, s')"
  shows "sessions_ok (s', att(c := a))"
proof -
  have a: "\<not> a" using run by (simp add: detach_def Let_def split: if_splits)
  have fields: "initializationClient s' = (if initializationClient s = c then 0 else initializationClient s)"
    "exclusiveClient s' = (if exclusiveClient s = c then 0 else exclusiveClient s)"
    "participants s' = (if att c \<and> participants s \<noteq> 0 then participants s - 1 else participants s)"
    using run by (auto simp: detach_def Let_def split: if_splits)
  have "card (attached_clients att - {c}) = unat (participants s')"
  proof (cases "att c")
    case True
    then have "card (attached_clients att) \<noteq> 0" by (auto simp: attached_clients_def)
    then have "participants s \<noteq> 0" using ok by auto
    then show ?thesis using ok True by (simp add: fields unat_dec32)
  next
    case False
    then have "attached_clients att - {c} = attached_clients att" by auto
    then show ?thesis using ok False by (simp add: fields)
  qed
  moreover have "attached_clients att - {c} = {exclusiveClient s'}" if "exclusiveClient s' \<noteq> 0"
  proof -
    have "attached_clients att = {exclusiveClient s}" "exclusiveClient s \<noteq> c" "exclusiveClient s' = exclusiveClient s"
      using ok that by (auto simp: fields split: if_splits)
    then show ?thesis by auto
  qed
  moreover have "initializationClient s' \<noteq> 0 \<longrightarrow> initializationClient s' \<noteq> c \<and> att (initializationClient s')"
    using ok by (auto simp: fields)
  ultimately show ?thesis using a by simp
qed

lemma claim_keeps_ok:
  assumes ok: "sessions_ok (s, att)" and run: "claimExclusive s c (att c) = (r, s')"
  shows "sessions_ok (s', att)"
proof (cases r)
  case True
  then have new: "att c" "participants s = 1" "s' = s\<lparr>exclusiveClient := c\<rparr>"
    using run by (auto simp: claimExclusive_def split: if_splits)
  then have "card (attached_clients att) = 1" using ok by simp
  then obtain x where "attached_clients att = {x}" by (auto simp: card_1_singleton_iff)
  moreover have "c \<in> attached_clients att" using new by simp
  ultimately have "attached_clients att = {c}" by auto
  then show ?thesis using ok new by simp
next
  case False
  then show ?thesis using run ok by (auto simp: claimExclusive_def split: if_splits)
qed

lemma step_keeps_ok: "client_step x y \<Longrightarrow> sessions_ok x \<Longrightarrow> sessions_ok y"
proof (induction rule: client_step.induct)
  case (Attach c s att ready ok a s')
  from attach_keeps_ok [OF this(3,1,2)] show ?case .
next
  case (Claim c s att ok s')
  from claim_keeps_ok [OF this(3,2)] show ?case .
next
  case (Detach c s att a s')
  from detach_keeps_ok [OF this(3,1,2)] show ?case .
qed

lemma reaches_ok: "client_reaches x y \<Longrightarrow> sessions_ok x \<Longrightarrow> sessions_ok y"
  by (induction rule: client_reaches.induct) (auto intro: step_keeps_ok)

lemma sessions_new_ok: "sessions_ok (sessions_new, \<lambda>_. False)"
  by (simp add: sessions_new_def attached_clients_def)

text \<open>
  C20. In every history of clients attaching, claiming and detaching: the participant count is exactly
  the number of attached clients, an exclusive client is the only one attached and no other client
  can attach or claim, and the device may be reset only by a client when no other client is attached.
\<close>

theorem client_sessions_sound:
  assumes "client_reaches (sessions_new, \<lambda>_. False) (s, att)"
  shows "unat (participants s) = card {c. att c} \<and>
    (exclusiveClient s \<noteq> 0 \<longrightarrow> {c. att c} = {exclusiveClient s} \<and>
       (\<forall>c ready. c \<noteq> exclusiveClient s \<longrightarrow>
          attach s c (att c) ready = (False, att c, s) \<and> claimExclusive s c (att c) = (False, s))) \<and>
    (initializationClient s \<noteq> 0 \<longrightarrow> att (initializationClient s)) \<and>
    (\<forall>c. c \<noteq> 0 \<longrightarrow> (canReset s c (att c) \<longleftrightarrow> {x. att x} \<subseteq> {c}))"
proof -
  have ok: "sessions_ok (s, att)" by (rule reaches_ok [OF assms sessions_new_ok])
  then have n: "unat (participants s) = card {c. att c}"
    and ex: "exclusiveClient s \<noteq> 0 \<Longrightarrow> {c. att c} = {exclusiveClient s}"
    by (simp_all add: attached_clients_def)
  have "canReset s c (att c) \<longleftrightarrow> {x. att x} \<subseteq> {c}" if "c \<noteq> 0" for c
  proof -
    have "participants s = (if att c then 1 else 0) \<longleftrightarrow> card {c. att c} = (if att c then 1 else 0)"
      by (simp add: n [symmetric] unat_eq_word [symmetric])
    also have "\<dots> \<longleftrightarrow> {x. att x} \<subseteq> {c}"
    proof (cases "att c")
      case True
      then have "{x. att x} \<subseteq> {c} \<longleftrightarrow> {x. att x} = {c}" by auto
      moreover have "card {x. att x} = 1 \<longleftrightarrow> {x. att x} = {c}"
        using True by (intro card_one_iff) simp
      ultimately show ?thesis using True by simp
    next
      case False
      have "card {x. att x} = 0 \<longleftrightarrow> {x. att x} = {}" by (rule card_0_eq) simp
      moreover have "{x. att x} \<subseteq> {c} \<longleftrightarrow> {x. att x} = {}" using False by blast
      ultimately show ?thesis using False by simp
    qed
    finally have P: "participants s = (if att c then 1 else 0) \<longleftrightarrow> {x. att x} \<subseteq> {c}" .
    have "exclusiveClient s = 0 \<or> exclusiveClient s = c" if "{x. att x} \<subseteq> {c}"
      using ex that by blast
    with P show ?thesis unfolding canReset_def by blast
  qed
  moreover have "attach s c (att c) ready = (False, att c, s) \<and> claimExclusive s c (att c) = (False, s)"
    if "exclusiveClient s \<noteq> 0" "c \<noteq> exclusiveClient s" for c ready
    using that by (auto simp: attach_def claimExclusive_def)
  ultimately show ?thesis using n ex ok by simp
qed

lemma client_sessions_sound_witness:
  "\<exists>s att. client_reaches (sessions_new, \<lambda>_. False) (s, att) \<and> exclusiveClient s = 7 \<and> {c. att c} = {7}"
proof -
  let ?s1 = "\<lparr>initializationClient = 7, exclusiveClient = 0, participants = 1\<rparr>"
  let ?s2 = "\<lparr>initializationClient = 7, exclusiveClient = 7, participants = 1\<rparr>"
  have "attach sessions_new 7 ((\<lambda>_. False) (7 :: client)) False = (True, True, ?s1)"
    by (simp add: attach_def sessions_new_def)
  from client_step.Attach [OF _ this]
  have 1: "client_step (sessions_new, \<lambda>_. False) (?s1, (\<lambda>_. False)(7 := True))" by simp
  have "claimExclusive ?s1 7 (((\<lambda>_. False)(7 := True)) (7 :: client)) = (True, ?s2)"
    by (simp add: claimExclusive_def)
  from client_step.Claim [of 7 ?s1 "(\<lambda>_. False)(7 := True)", OF _ this] have 2: "client_step (?s1, (\<lambda>_. False)(7 := True)) (?s2, (\<lambda>_. False)(7 := True))"
    by simp
  have run: "client_reaches (sessions_new, \<lambda>_. False) (?s2, (\<lambda>_. False)(7 := True))"
    by (rule client_reaches.Step [OF client_reaches.Step [OF client_reaches.Start 1] 2])
  from client_sessions_sound [OF run] have "{c. ((\<lambda>_. False)(7 := True)) c} = {7 :: client}" by simp
  with run show ?thesis by (intro exI [of _ ?s2] exI [of _ "(\<lambda>_. False)(7 := True)"]) simp
qed

section \<open>The shape of a request\<close>

text \<open>
  The rounding loop of \<open>client_allocation_shape\<close> doubles \<open>next\<close> until it reaches the alignment; from
  \<open>0\<close> it would never end, so it is a partial function.
\<close>

partial_function (option) pow2_at_least :: "u64 \<Rightarrow> u64 \<Rightarrow> u64 option" where
  "pow2_at_least nxt alignment =
     (if nxt < alignment then pow2_at_least (push_bit 1 nxt) alignment else Some nxt)"

text \<open>\<open>Some (Some (alignment, rounded))\<close> is \<^verbatim>\<open>true\<close> with both out parameters, \<open>Some None\<close> is \<^verbatim>\<open>false\<close>.\<close>

definition client_allocation_shape :: "u64 \<Rightarrow> u64 \<Rightarrow> u64 \<Rightarrow> (u64 \<times> u64) option option" where
  "client_allocation_shape sz requested minimum =
     (if sz = 0 \<or> minimum = 0 \<or> minimum AND (minimum - 1) \<noteq> 0 then Some None
      else let alignment = (if requested < minimum then minimum else requested)
        in if 0x8000000000000000 < alignment then Some None
        else (case (if alignment AND (alignment - 1) \<noteq> 0 then pow2_at_least minimum alignment
                    else Some alignment) of
                None \<Rightarrow> None
              | Some alignment \<Rightarrow>
                  if 0xFFFFFFFFFFFFFFFF - (alignment - 1) < sz then Some None
                  else let rounded = align_up sz alignment
                    in Some (if rounded \<noteq> 0 then Some (alignment, rounded) else None)))"

definition client_subrange :: "u64 \<Rightarrow> u64 \<Rightarrow> u64 \<Rightarrow> bool" where
  "client_subrange offset sz capacity \<longleftrightarrow> offset \<le> capacity \<and> sz \<le> capacity - offset"

definition client_wait_ns :: "u64 \<Rightarrow> bool \<Rightarrow> u64" where
  "client_wait_ns requested legacyMicroseconds =
     (let maximum = 1000000000
      in if requested = 0 then maximum
         else if legacyMicroseconds
         then (if maximum div 1000 \<le> requested then maximum else requested * 1000)
         else if maximum < requested then maximum else requested)"

lemma pow2_at_least_spec:
  assumes "j \<le> 63" "unat al \<le> 2 ^ 63"
  shows "\<exists>k. j \<le> k \<and> k \<le> 63 \<and> pow2_at_least (2 ^ j) al = Some (2 ^ k) \<and> unat al \<le> 2 ^ k \<and>
    (\<forall>i. j \<le> i \<longrightarrow> unat al \<le> 2 ^ i \<longrightarrow> k \<le> i)"
  using assms(1)
proof (induction "63 - j" arbitrary: j rule: less_induct)
  case less
  have u: "unat (2 ^ j :: u64) = 2 ^ j" using less.prems by (intro unat_two_power) simp
  show ?case
  proof (cases "(2 ^ j :: u64) < al")
    case False
    then have "pow2_at_least (2 ^ j) al = Some (2 ^ j)" by (subst pow2_at_least.simps) simp
    moreover have "unat al \<le> 2 ^ j" using False u by (simp add: word_less_nat_alt)
    ultimately show ?thesis using less.prems by blast
  next
    case True
    then have lt: "2 ^ j < unat al" using u by (simp add: word_less_nat_alt)
    from this assms(2) have "(2::nat) ^ j < 2 ^ 63" by (rule less_le_trans)
    then have j: "j < 63" by (rule power_less_imp_less_exp [rotated]) simp
    have "push_bit 1 (2 ^ j :: u64) = 2 ^ Suc j" by (simp add: push_bit_eq_mult mult.commute)
    then have step: "pow2_at_least (2 ^ j) al = pow2_at_least (2 ^ Suc j) al"
      using True by (subst pow2_at_least.simps) (simp only: if_True)
    have "63 - Suc j < 63 - j" "Suc j \<le> 63" using j by simp_all
    from less.hyps [OF this] obtain k where k: "Suc j \<le> k" "k \<le> 63" "pow2_at_least (2 ^ Suc j) al = Some (2 ^ k)"
      "unat al \<le> 2 ^ k" "\<forall>i. Suc j \<le> i \<longrightarrow> unat al \<le> 2 ^ i \<longrightarrow> k \<le> i" by blast
    have "k \<le> i" if "j \<le> i" "unat al \<le> 2 ^ i" for i
    proof -
      have "i \<noteq> j" using that lt by auto
      with that k(5) show ?thesis by simp
    qed
    with k step show ?thesis by (intro exI [of _ k]) simp
  qed
qed

text \<open>The alignment the function settles on: the least power of two at or above both.\<close>

lemma shape_alignment:
  assumes al: "al = (if requested < minimum then minimum else requested)"
    and p2: "is_pow2 minimum" and small: "\<not> 0x8000000000000000 < al"
  shows "\<exists>k < 64. (if al AND (al - 1) \<noteq> 0 then pow2_at_least minimum al else Some al) = Some (2 ^ k) \<and>
    unat requested \<le> 2 ^ k \<and> unat minimum \<le> 2 ^ k \<and>
    (\<forall>i. unat requested \<le> 2 ^ i \<longrightarrow> unat minimum \<le> 2 ^ i \<longrightarrow> k \<le> i)"
proof -
  obtain j where j: "j < 64" "unat minimum = 2 ^ j" using is_pow2D [OF p2] by auto
  have m: "minimum = 2 ^ j" using j by (simp add: word_unat_eq_iff unat_two_power)
  have top: "unat al \<le> 2 ^ 63" using small by (simp add: word_less_nat_alt not_less)
  have both: "unat al \<le> x \<longleftrightarrow> unat requested \<le> x \<and> unat minimum \<le> x" for x
    by (auto simp: al word_less_nat_alt)
  have "(0::nat) < 2 ^ j" by simp
  also have "\<dots> \<le> unat al" using both [of "unat al"] j(2) by simp
  finally have pos: "al \<noteq> 0" by (auto simp: unat_gt_0)
  show ?thesis
  proof (cases "al AND (al - 1) = 0")
    case True
    with pos have "is_pow2 al" by (simp add: is_pow2_def)
    from is_pow2D [OF this] obtain k where k: "k < 64" "unat al = 2 ^ k" by auto
    then have w: "al = 2 ^ k" by (simp add: word_unat_eq_iff unat_two_power)
    have "k \<le> i" if "unat requested \<le> 2 ^ i" "unat minimum \<le> 2 ^ i" for i
    proof -
      have "(2::nat) ^ k \<le> 2 ^ i" using both [of "2 ^ i"] that k(2) by simp
      then show ?thesis by simp
    qed
    then show ?thesis using k both [of "2 ^ k"] True w by (intro exI [of _ k]) simp
  next
    case False
    obtain k where k: "j \<le> k" "k \<le> 63" "pow2_at_least (2 ^ j) al = Some (2 ^ k)" "unat al \<le> 2 ^ k"
      "\<And>i. j \<le> i \<Longrightarrow> unat al \<le> 2 ^ i \<Longrightarrow> k \<le> i"
      using pow2_at_least_spec [OF _ top, of j] j(1) by auto
    have "k \<le> i" if "unat requested \<le> 2 ^ i" "unat minimum \<le> 2 ^ i" for i
    proof -
      have "(2::nat) ^ j \<le> 2 ^ i" using that(2) j(2) by simp
      then have "j \<le> i" by simp
      then show ?thesis using k(5) both [of "2 ^ i"] that by blast
    qed
    then show ?thesis using k both [of "2 ^ k"] False m by (intro exI [of _ k]) simp
  qed
qed

text \<open>
  C21. The shape check of an allocation request always returns. Its answer is the least power of two at
  or above the requested and the minimum alignment, and the size rounded up to it; it refuses exactly
  the empty request, a minimum that is not a power of two, and a request that no such alignment can
  round within 64 bits.
\<close>

theorem client_allocation_shape_exact:
  "\<exists>res. client_allocation_shape sz requested minimum = Some res \<and>
     (case res of
        Some (alignment, rounded) \<Rightarrow>
          (\<exists>k < 64. unat alignment = 2 ^ k \<and> requested \<le> alignment \<and> minimum \<le> alignment \<and>
             (\<forall>i. unat requested \<le> 2 ^ i \<and> unat minimum \<le> 2 ^ i \<longrightarrow> k \<le> i)) \<and>
          0 < sz \<and> unat rounded = round_up (unat sz) (unat alignment)
      | None \<Rightarrow> sz = 0 \<or> \<not> is_pow2 minimum \<or>
          (\<forall>i. unat requested \<le> 2 ^ i \<and> unat minimum \<le> 2 ^ i \<longrightarrow> 2 ^ 64 \<le> round_up (unat sz) (2 ^ i)))"
proof (cases "sz = 0 \<or> \<not> is_pow2 minimum")
  case True
  then have "client_allocation_shape sz requested minimum = Some None"
    by (auto simp: client_allocation_shape_def is_pow2_def)
  then show ?thesis using True by auto
next
  case False
  then have sz: "0 < unat sz" "sz \<noteq> 0" and p2: "is_pow2 minimum" by (simp_all add: unat_gt_0)
  have m: "minimum \<noteq> 0" "minimum AND (minimum - 1) = 0" using p2 by (simp_all add: is_pow2_def)
  define al where "al = (if requested < minimum then minimum else requested)"
  have shape: "client_allocation_shape sz requested minimum =
     (if 0x8000000000000000 < al then Some None
      else (case (if al AND (al - 1) \<noteq> 0 then pow2_at_least minimum al else Some al) of
              None \<Rightarrow> None
            | Some k \<Rightarrow> if 0xFFFFFFFFFFFFFFFF - (k - 1) < sz then Some None
                else Some (if align_up sz k \<noteq> 0 then Some (k, align_up sz k) else None)))"
    using m sz unfolding client_allocation_shape_def Let_def al_def by (simp split: option.split)
  show ?thesis
  proof (cases "0x8000000000000000 < al")
    case big: True
    then have none: "client_allocation_shape sz requested minimum = Some None"
      using shape by simp
    have "2 ^ 64 \<le> round_up (unat sz) (2 ^ i)" if "unat requested \<le> 2 ^ i" "unat minimum \<le> 2 ^ i" for i
    proof -
      have "(2::nat) ^ 63 < 2 ^ i" using big that by (auto simp: al_def word_less_nat_alt split: if_splits)
      then have "63 < i" by (rule power_less_imp_less_exp [rotated]) simp
      then have "(2::nat) ^ 64 \<le> 2 ^ i" by (intro power_increasing) simp_all
      also have "\<dots> \<le> round_up (unat sz) (2 ^ i)"
        using round_up_pos [of "2 ^ i" "unat sz"] sz by (intro dvd_imp_le) simp_all
      finally show ?thesis .
    qed
    with none show ?thesis by simp
  next
    case small: False
    obtain k where k: "k < 64" "(if al AND (al - 1) \<noteq> 0 then pow2_at_least minimum al else Some al) = Some (2 ^ k)"
      "unat requested \<le> 2 ^ k" "unat minimum \<le> 2 ^ k"
      "\<And>i. unat requested \<le> 2 ^ i \<Longrightarrow> unat minimum \<le> 2 ^ i \<Longrightarrow> k \<le> i"
      using shape_alignment [OF al_def p2 small] by blast
    let ?k = "2 ^ k :: u64"
    have run: "client_allocation_shape sz requested minimum =
       (if 0xFFFFFFFFFFFFFFFF - (?k - 1) < sz then Some None
        else Some (if align_up sz ?k \<noteq> 0 then Some (?k, align_up sz ?k) else None))"
      using small by (simp only: shape k(2)) simp
    have uk: "unat ?k = 2 ^ k" using k(1) by (simp add: unat_two_power)
    have pk: "is_pow2 ?k"
      using k(1) by (simp add: is_pow2_def mask_eq_exp_minus_1 [symmetric] take_bit_eq_mask [symmetric])
        (simp add: take_bit_eq_mod)
    have u1: "unat (?k - 1) = 2 ^ k - 1" using uk by (subst unat_pred) simp_all
    have guard: "0xFFFFFFFFFFFFFFFF - (?k - 1) < sz \<longleftrightarrow> 2 ^ 64 \<le> unat sz + (2 ^ k - 1)"
      using add_guard64_max [of sz "?k - 1"] by (simp add: not_le [symmetric] u1)
    show ?thesis
    proof (cases "2 ^ 64 \<le> unat sz + (2 ^ k - 1)")
      case True
      have "2 ^ 64 \<le> round_up (unat sz) (2 ^ i)" if "unat requested \<le> 2 ^ i" "unat minimum \<le> 2 ^ i" for i
      proof (rule aligned_top [OF refl k(1) True])
        show "unat sz \<le> round_up (unat sz) (2 ^ i)" by (simp add: round_up_ge)
        have "(2::nat) ^ k dvd 2 ^ i" by (rule le_imp_power_dvd [OF k(5) [OF that]])
        then show "2 ^ k dvd round_up (unat sz) (2 ^ i)" by (rule dvd_trans) simp
      qed
      then show ?thesis using run guard True by simp
    next
      case fits: False
      have r: "unat (align_up sz ?k) = round_up (unat sz) (2 ^ k)"
        using unat_align_up [OF pk, of sz] fits by (simp add: uk)
      moreover have "0 < round_up (unat sz) (2 ^ k)" by (rule round_up_pos) (simp_all add: sz)
      ultimately have "align_up sz ?k \<noteq> 0" by (metis unat_0 less_irrefl)
      then have "client_allocation_shape sz requested minimum = Some (Some (?k, align_up sz ?k))"
        using run guard fits by simp
      moreover have "requested \<le> ?k" "minimum \<le> ?k" using k(3,4) by (simp_all add: word_le_nat_alt uk)
      then have "\<exists>j < 64. unat ?k = 2 ^ j \<and> requested \<le> ?k \<and> minimum \<le> ?k \<and>
          (\<forall>i. unat requested \<le> 2 ^ i \<and> unat minimum \<le> 2 ^ i \<longrightarrow> j \<le> i)"
        using k(1,5) uk by (intro exI [of _ k] conjI allI impI) blast+
      moreover have "0 < sz" using sz(2) by (simp add: word_neq_0_conv [symmetric])
      ultimately show ?thesis using r uk by simp
    qed
  qed
qed

lemma client_allocation_shape_exact_witness:
  "\<exists>res. client_allocation_shape 5000 0 16384 = Some res \<and>
     (case res of Some (alignment, rounded) \<Rightarrow> unat rounded = round_up 5000 (unat alignment) | None \<Rightarrow> False)"
proof -
  have "client_allocation_shape 5000 0 16384 = Some (Some (16384, 16384))"
    by (simp add: client_allocation_shape_def align_up_def)
  with client_allocation_shape_exact [of 5000 0 16384] show ?thesis by simp
qed

text \<open>
  A wait is never longer than a second: it is the requested time in its unit, capped, and zero
  stands for the cap. The multiplication of microseconds never wraps.
\<close>

lemma client_wait_bounded:
  "unat (client_wait_ns requested legacy) =
     (if requested = 0 then 10 ^ 9 else min (10 ^ 9) (unat requested * (if legacy then 1000 else 1)))"
proof (cases "requested = 0 \<or> \<not> legacy \<or> 1000000 \<le> requested")
  case True
  then show ?thesis by (auto simp: client_wait_ns_def Let_def word_le_nat_alt word_less_nat_alt)
next
  case False
  then have lt: "unat requested < 1000000" by (simp add: word_le_nat_alt)
  then have "unat (requested * 1000) = unat requested * 1000" by (simp add: unat_word_ariths)
  then show ?thesis using False lt by (simp add: client_wait_ns_def Let_def)
qed

lemma client_subrange_nat:
  "client_subrange offset sz capacity \<longleftrightarrow> unat offset + unat sz \<le> unat capacity"
  by (auto simp: client_subrange_def word_le_nat_alt unat_sub)

section \<open>The raw submission\<close>

text \<open>
  The fence slots are words of a shared memory, the SDMA slot 32 bits and the CP slot 64 bits wide,
  named by their address. A reader is the driver's callback that reads the fence through the PCI
  device: \<open>None\<close> is its failure. \<open>'d\<close> is what the reader reads.
\<close>

record 'd ClientSubmission =
  cs_pending :: bool
  usesCP :: bool
  issued :: u32
  completed :: u32
  expected :: u64
  lastCPFence :: u64
  completedCPFence :: u64
  sdmaFence :: "u64 option"
  cpFence :: "u64 option"
  sdmaReader :: "('d \<Rightarrow> u32 option) option"
  cpReader :: "('d \<Rightarrow> u64 option) option"
  completionObserver :: "u64 option"

record fence_memory =
  fence32 :: "u64 \<Rightarrow> u32"
  fence64 :: "u64 \<Rightarrow> u64"

definition submission_new :: "'d ClientSubmission" where
  "submission_new = \<lparr>cs_pending = False, usesCP = False, issued = 0, completed = 0, expected = 0,
     lastCPFence = 0, completedCPFence = 0, sdmaFence = None, cpFence = None, sdmaReader = None,
     cpReader = None, completionObserver = None\<rparr>"

definition store32 :: "u64 option \<Rightarrow> u32 \<Rightarrow> fence_memory \<Rightarrow> fence_memory" where
  "store32 p v m = (case p of None \<Rightarrow> m | Some a \<Rightarrow> m\<lparr>fence32 := (fence32 m)(a := v)\<rparr>)"

definition store64 :: "u64 option \<Rightarrow> u64 \<Rightarrow> fence_memory \<Rightarrow> fence_memory" where
  "store64 p v m = (case p of None \<Rightarrow> m | Some a \<Rightarrow> m\<lparr>fence64 := (fence64 m)(a := v)\<rparr>)"

text \<open>The two reads through the device; \<open>None\<close> is the early \<^verbatim>\<open>return false\<close>.\<close>

definition poll_read :: "'d \<Rightarrow> 'd ClientSubmission \<Rightarrow> fence_memory \<Rightarrow> fence_memory option" where
  "poll_read d s m =
     (case (if cs_pending s \<and> usesCP s then cpReader s else None) of
        Some read \<Rightarrow>
          (case read d of
             None \<Rightarrow> None
           | Some v \<Rightarrow> if v = 0xFFFFFFFFFFFFFFFF then None else Some (store64 (cpFence s) v m))
      | None \<Rightarrow>
          (case (if cs_pending s \<and> \<not> usesCP s then sdmaReader s else None) of
             Some read \<Rightarrow>
               (case read d of
                  None \<Rightarrow> None
                | Some v \<Rightarrow> if v = 0xFFFFFFFF then None else Some (store32 (sdmaFence s) v m))
           | None \<Rightarrow> Some m))"

definition fence_reached :: "'d ClientSubmission \<Rightarrow> fence_memory \<Rightarrow> bool" where
  "fence_reached s m \<longleftrightarrow>
     (if usesCP s then (case cpFence s of None \<Rightarrow> False | Some a \<Rightarrow> fence64 m a = expected s)
      else (case sdmaFence s of None \<Rightarrow> False | Some a \<Rightarrow> ucast (fence32 m a) = expected s))"

text \<open>The last component of the result is the observer that was called.\<close>

definition submission_poll ::
  "'d \<Rightarrow> 'd ClientSubmission \<Rightarrow> fence_memory \<Rightarrow> (bool \<times> u64 option) \<times> 'd ClientSubmission \<times> fence_memory"
where
  "submission_poll d s m =
     (case poll_read d s m of
        None \<Rightarrow> ((False, None), s, m)
      | Some m \<Rightarrow>
          if cs_pending s \<and> expected s \<noteq> 0 \<and> fence_reached s m
          then let s = (if usesCP s then s\<lparr>completedCPFence := expected s\<rparr> else s\<lparr>completed := ucast (expected s)\<rparr>)
            in ((True, completionObserver s), s\<lparr>cs_pending := False, completionObserver := None\<rparr>, m)
          else ((\<not> cs_pending s, None), s, m))"

definition beginSDMA ::
  "'d \<Rightarrow> u64 option \<Rightarrow> ('d \<Rightarrow> u32 option) option \<Rightarrow> 'd ClientSubmission \<Rightarrow> fence_memory \<Rightarrow>
     u32 \<times> 'd ClientSubmission \<times> fence_memory"
where
  "beginSDMA d slot reader s m =
     (let ((idle, _), s, m) = submission_poll d s m
      in if \<not> idle \<or> 0xFFFFFFFE \<le> issued s \<or> slot = None then (0, s, m)
      else let n = issued s + 1
        in (n, s\<lparr>sdmaReader := reader, issued := n, expected := ucast n, sdmaFence := slot,
                 usesCP := False, cs_pending := True\<rparr>, store32 slot 0 m))"

definition beginCP ::
  "'d \<Rightarrow> u64 option \<Rightarrow> ('d \<Rightarrow> u64 option) option \<Rightarrow> 'd ClientSubmission \<Rightarrow> fence_memory \<Rightarrow>
     bool \<times> 'd ClientSubmission \<times> fence_memory"
where
  "beginCP d slot reader s m =
     (let ((idle, _), s, m) = submission_poll d s m
      in if \<not> idle \<or> slot = None then (False, s, m)
      else (True, s\<lparr>cpFence := slot, cpReader := reader, expected := 0, usesCP := True, cs_pending := True\<rparr>, m))"

end
