(* ===== verification/Client_Submission.thy ===== *)
theory Client_Submission
  imports Client_Lifecycle
begin

text \<open>
  Histories of the raw submission: polls, SDMA and CP submissions by the driver, and writes of the
  device to the fence memory, in any order. After \<open>beginCP\<close> the driver sets the fence it waits for
  (\<^verbatim>\<open>submission.expected = fence\<close> in \<^verbatim>\<open>MacAMDGPU.cpp\<close>); one of its two callers also records it as
  \<open>lastCPFence\<close>.
\<close>

section \<open>Histories\<close>

type_synonym 'd sub_state = "'d ClientSubmission \<times> fence_memory"

text \<open>The labels are the SDMA sequence numbers the driver was given.\<close>

inductive sub_step :: "'d sub_state \<Rightarrow> u32 list \<Rightarrow> 'd sub_state \<Rightarrow> bool" where
  Poll: "submission_poll d s m = (r, s', m') \<Longrightarrow> sub_step (s, m) [] (s', m')"
| SDMA: "beginSDMA d slot reader s m = (n, s', m') \<Longrightarrow> sub_step (s, m) (if n = 0 then [] else [n]) (s', m')"
| CP: "beginCP d slot reader s m = (r, s', m') \<Longrightarrow> sub_step (s, m) [] (s', m')"
| Fence: "cs_pending s \<and> usesCP s \<Longrightarrow> k = f \<or> k = lastCPFence s \<Longrightarrow>
    sub_step (s, m) [] (s\<lparr>expected := f, lastCPFence := k\<rparr>, m)"
| Observer: "sub_step (s, m) [] (s\<lparr>completionObserver := x\<rparr>, m)"
| Device: "sub_step (s, m) [] (s, m')"

inductive sub_runs :: "'d sub_state \<Rightarrow> u32 list \<Rightarrow> 'd sub_state \<Rightarrow> bool" where
  Start: "sub_runs x [] x"
| Step: "sub_runs x ns y \<Longrightarrow> sub_step y l z \<Longrightarrow> sub_runs x (ns @ l) z"

section \<open>The invariant\<close>

text \<open>Numbers are given out one by one, and all but the one in flight are complete.\<close>

definition numbered :: "u32 list \<Rightarrow> bool" where
  "numbered ns \<longleftrightarrow> ns = map word_of_nat [1..<Suc (length ns)]"

lemma numbered_snoc: "numbered ns \<Longrightarrow> numbered (ns @ [word_of_nat (Suc (length ns))])"
  by (simp add: numbered_def)

definition sub_ok :: "u32 list \<Rightarrow> 'd ClientSubmission \<Rightarrow> bool" where
  "sub_ok ns s \<longleftrightarrow> numbered ns \<and> unat (issued s) = length ns \<and>
     issued s \<le> 0xFFFFFFFE \<and>
     (if cs_pending s \<and> \<not> usesCP s
      then issued s \<noteq> 0 \<and> completed s = issued s - 1 \<and> expected s = ucast (issued s)
      else completed s = issued s)"

lemma poll_fields:
  assumes "submission_poll d s m = ((idle, ob), s', m')"
  shows "issued s' = issued s" "usesCP s' = usesCP s" "expected s' = expected s"
    "idle \<longleftrightarrow> \<not> cs_pending s' \<and> poll_read d s m \<noteq> None"
    "cs_pending s' \<Longrightarrow> cs_pending s \<and> completed s' = completed s"
    "\<not> cs_pending s \<Longrightarrow> s' = s"
    "cs_pending s \<Longrightarrow> \<not> cs_pending s' \<Longrightarrow>
       completed s' = (if usesCP s then completed s else ucast (expected s)) \<and>
       expected s \<noteq> 0 \<and> poll_read d s m = Some m' \<and> fence_reached s m'"
  using assms by (auto simp: submission_poll_def Let_def split: option.splits if_splits)

lemma poll_keeps_ok:
  assumes "sub_ok ns s" "submission_poll d s m = ((idle, ob), s', m')"
  shows "sub_ok ns s'"
proof -
  note P = poll_fields [OF assms(2)]
  consider "\<not> cs_pending s" | "cs_pending s" "cs_pending s'" | "cs_pending s" "\<not> cs_pending s'" by blast
  then show ?thesis
  proof cases
    case 1
    then show ?thesis using assms(1) P(6) by simp
  next
    case 2
    then show ?thesis using assms(1) P(5) by (simp add: sub_ok_def P(1-3))
  next
    case 3
    then have "completed s' = (if usesCP s then completed s else ucast (expected s))" using P(7) by blast
    then show ?thesis using assms(1) 3 by (auto simp: sub_ok_def P(1-3))
  qed
qed

lemma begin_keeps_ok:
  assumes ok: "sub_ok ns s" and run: "beginSDMA d slot reader s m = (n, s', m')"
  shows "sub_ok (ns @ (if n = 0 then [] else [n])) s'"
proof -
  obtain idle ob s1 m1 where p: "submission_poll d s m = ((idle, ob), s1, m1)" by (metis prod.collapse)
  note ok1 = poll_keeps_ok [OF ok p]
  show ?thesis
  proof (cases "\<not> idle \<or> 0xFFFFFFFE \<le> issued s1 \<or> slot = None")
    case True
    then show ?thesis using run p ok1 by (auto simp: beginSDMA_def)
  next
    case False
    then have n: "n = issued s1 + 1" and s': "issued s' = n" "completed s' = completed s1" "expected s' = ucast n"
      "cs_pending s'" "\<not> usesCP s'"
      using run p by (auto simp: beginSDMA_def Let_def)
    have lt: "issued s1 < 0xFFFFFFFE" using False by (simp add: not_le)
    then have u: "unat n = Suc (unat (issued s1))"
      unfolding n by (intro unat_inc32) auto
    have "\<not> cs_pending s1" using False poll_fields(4) [OF p] by simp
    then have c: "completed s1 = issued s1" using ok1 by (simp add: sub_ok_def)
    have num: "numbered ns" "unat (issued s1) = length ns" using ok1 by (simp_all add: sub_ok_def)
    have "n \<noteq> 0" using u by (metis unat_0 nat.distinct(1))
    moreover have "n \<le> 0xFFFFFFFE" using lt u by (simp add: word_le_nat_alt word_less_nat_alt)
    moreover have "n = word_of_nat (unat n)" by simp
    then have "n = word_of_nat (Suc (length ns))" by (simp only: u num)
    then have "numbered (ns @ [n])" using numbered_snoc [OF num(1)] by simp
    ultimately show ?thesis using u c s' num by (simp add: sub_ok_def n)
  qed
qed

lemma beginCP_keeps_ok:
  assumes ok: "sub_ok ns s" and run: "beginCP d slot reader s m = (r, s', m')"
  shows "sub_ok ns s'"
proof -
  obtain idle ob s1 m1 where p: "submission_poll d s m = ((idle, ob), s1, m1)" by (metis prod.collapse)
  note ok1 = poll_keeps_ok [OF ok p]
  show ?thesis using run p ok1 poll_fields(4) [OF p]
    by (auto simp: beginCP_def Let_def sub_ok_def split: if_splits)
qed

lemma step_keeps_sub_ok: "sub_step x l y \<Longrightarrow> sub_ok ns (fst x) \<Longrightarrow> sub_ok (ns @ l) (fst y)"
proof (induction rule: sub_step.induct)
  case (Poll d s m r s' m')
  then show ?case using poll_keeps_ok [of ns s d m "fst r" "snd r" s' m'] by simp
next
  case (SDMA d slot reader s m n s' m')
  then show ?case using begin_keeps_ok [of ns s d slot reader m n s' m'] by simp
next
  case (CP d slot reader s m r s' m')
  then show ?case using beginCP_keeps_ok [of ns s d slot reader m r s' m'] by simp
qed (auto simp: sub_ok_def)

lemma poll_completed_mono:
  assumes ok: "sub_ok ns s" and p: "submission_poll d s m = ((idle, ob), s', m')"
  shows "completed s \<le> completed s'"
proof -
  note P = poll_fields [OF p]
  consider "\<not> cs_pending s" | "cs_pending s" "cs_pending s'" | "cs_pending s" "\<not> cs_pending s'" by blast
  then show ?thesis
  proof cases
    case 1
    then show ?thesis using P(6) by simp
  next
    case 2
    then show ?thesis using P(5) by simp
  next
    case 3
    then have c: "completed s' = (if usesCP s then completed s else ucast (expected s))" using P(7) by blast
    show ?thesis
    proof (cases "usesCP s")
      case False
      then have "completed s' = issued s" "issued s \<noteq> 0" "completed s = issued s - 1"
        using ok 3 c by (auto simp: sub_ok_def)
      then show ?thesis by (simp add: word_le_nat_alt unat_dec32)
    qed (simp add: c)
  qed
qed

lemma step_completed_mono:
  assumes "sub_step x l y" "sub_ok ns (fst x)"
  shows "completed (fst x) \<le> completed (fst y)"
  using assms
proof (induction rule: sub_step.induct)
  case (Poll d s m r s' m')
  then show ?case using poll_completed_mono [of ns s d m "fst r" "snd r" s' m'] by simp
next
  case (SDMA d slot reader s m n s' m')
  obtain idle ob s1 m1 where p: "submission_poll d s m = ((idle, ob), s1, m1)" by (metis prod.collapse)
  then have "completed s' = completed s1" using SDMA(1) by (auto simp: beginSDMA_def Let_def split: if_splits)
  then show ?case using poll_completed_mono [OF _ p] SDMA(2) by simp
next
  case (CP d slot reader s m r s' m')
  obtain idle ob s1 m1 where p: "submission_poll d s m = ((idle, ob), s1, m1)" by (metis prod.collapse)
  then have "completed s' = completed s1" using CP(1) by (auto simp: beginCP_def Let_def split: if_splits)
  then show ?case using poll_completed_mono [OF _ p] CP(2) by simp
qed simp_all

lemma runs_sub_ok: "sub_runs x ns y \<Longrightarrow> sub_ok [] (fst x) \<Longrightarrow> sub_ok ns (fst y)"
  by (induction rule: sub_runs.induct) (auto intro: step_keeps_sub_ok)

text \<open>
  C22. Whatever the driver submits and polls and whatever the device writes, the SDMA sequence numbers
  given out are 1, 2, 3 and so on and never the all-ones value of a failed read. All but the last are
  complete, a number once complete stays complete, and while a submission is in flight no other one,
  neither for SDMA nor for CP, starts unless this very poll saw its fence.
\<close>

theorem submissions_sound:
  assumes "sub_runs (submission_new, m0) ns (s, m)"
  shows "ns = map word_of_nat [1..<Suc (length ns)] \<and> length ns \<le> 0xFFFFFFFE \<and>
    (\<forall>n \<in> set ns. n \<le> completed s \<or> cs_pending s \<and> \<not> usesCP s \<and> n = issued s) \<and>
    (\<forall>l s' m'. sub_step (s, m) l (s', m') \<longrightarrow> completed s \<le> completed s') \<and>
    (\<forall>d slot reader n s' m'. cs_pending s \<longrightarrow> beginSDMA d slot reader s m = (n, s', m') \<longrightarrow> n \<noteq> 0 \<longrightarrow>
       (\<exists>m1. poll_read d s m = Some m1 \<and> expected s \<noteq> 0 \<and> fence_reached s m1)) \<and>
    (\<forall>d slot reader s' m'. cs_pending s \<longrightarrow> beginCP d slot reader s m = (True, s', m') \<longrightarrow>
       (\<exists>m1. poll_read d s m = Some m1 \<and> expected s \<noteq> 0 \<and> fence_reached s m1))"
proof -
  have ok: "sub_ok ns s" using runs_sub_ok [OF assms] by (simp add: sub_ok_def submission_new_def numbered_def)
  then have ns: "ns = map word_of_nat [1..<Suc (length ns)]" and n: "unat (issued s) = length ns"
    and le: "issued s \<le> 0xFFFFFFFE" by (simp_all add: sub_ok_def numbered_def)
  have len: "length ns \<le> 0xFFFFFFFE" using le n by (simp add: word_le_nat_alt)
  have part: "completed s = (if cs_pending s \<and> \<not> usesCP s then issued s - 1 else issued s)"
    using ok by (simp add: sub_ok_def)
  have past: "k \<le> completed s \<or> cs_pending s \<and> \<not> usesCP s \<and> k = issued s" if k: "k \<in> set ns" for k
  proof -
    from k obtain i where i: "1 \<le> i" "i \<le> length ns" "k = word_of_nat i"
      by (subst (asm) ns) auto
    then have "i mod 4294967296 = i" using len by simp
    then have u: "unat k = i" using i(3) by (simp add: unat_of_nat)
    show ?thesis
    proof (cases "k = issued s")
      case False
      then have "unat k \<noteq> unat (issued s)" by (simp add: unat_eq_word)
      then have lt: "unat k < unat (issued s)" using u i n by simp
      then have "issued s \<noteq> 0" by auto
      then have "unat (issued s - 1) = unat (issued s) - 1" by (rule unat_dec32)
      then show ?thesis using lt part by (cases "cs_pending s \<and> \<not> usesCP s") (simp_all add: word_le_nat_alt, linarith)
    qed (simp add: part)
  qed
  have mono: "completed s \<le> completed s'" if "sub_step (s, m) l (s', m')" for l s' m'
    using step_completed_mono [OF that] ok by simp
  have "\<exists>m1. poll_read d s m = Some m1 \<and> expected s \<noteq> 0 \<and> fence_reached s m1"
    if "cs_pending s" "beginSDMA d slot reader s m = (k, s', m')" "k \<noteq> 0" for d slot reader k s' m'
  proof -
    obtain idle ob s1 m1 where p: "submission_poll d s m = ((idle, ob), s1, m1)" by (metis prod.collapse)
    then have idle using that by (auto simp: beginSDMA_def split: if_splits)
    with poll_fields [OF p] that show ?thesis by blast
  qed
  moreover have "\<exists>m1. poll_read d s m = Some m1 \<and> expected s \<noteq> 0 \<and> fence_reached s m1"
    if "cs_pending s" "beginCP d slot reader s m = (True, s', m')" for d slot reader s' m'
  proof -
    obtain idle ob s1 m1 where p: "submission_poll d s m = ((idle, ob), s1, m1)" by (metis prod.collapse)
    then have idle using that by (auto simp: beginCP_def split: if_splits)
    with poll_fields [OF p] that show ?thesis by blast
  qed
  ultimately show ?thesis using ns len past mono by blast
qed

lemma submissions_sound_witness:
  "\<exists>ns s m. sub_runs (submission_new :: unit ClientSubmission, \<lparr>fence32 = \<lambda>_. 0, fence64 = \<lambda>_. 0\<rparr>) ns (s, m) \<and>
     ns = [1] \<and> (\<forall>n \<in> set ns. n \<le> completed s \<or> cs_pending s \<and> \<not> usesCP s \<and> n = issued s)"
proof -
  let ?m = "\<lparr>fence32 = \<lambda>_. 0, fence64 = \<lambda>_. 0\<rparr>"
  obtain s m where b: "beginSDMA () (Some 64) None submission_new ?m = (1, s, m)"
    by (simp add: beginSDMA_def submission_poll_def poll_read_def submission_new_def Let_def)
  from sub_runs.Step [OF sub_runs.Start sub_step.SDMA [OF b]]
  have run: "sub_runs (submission_new, ?m) [1] (s, m)" by simp
  from submissions_sound [OF run] run show ?thesis by (intro exI [of _ "[1]"] exI [of _ s] exI [of _ m]) blast
qed

end
