(* ===== verification/Buffers.thy ===== *)
theory Buffers
  imports Client_Lifecycle "HOL-Library.Multiset"
begin

text \<open>
  \<^verbatim>\<open>dext/amdgpu/amdgpu_shared_buffers.h\<close>, the table of exported buffers with their reference
  counts, and the range checks of \<^verbatim>\<open>dext/amdgpu/amdgpu_buffer_io.h\<close>.
\<close>

section \<open>Shared buffers\<close>

record SharedEntry =
  token0 :: u64
  token1 :: u64
  sb_gpu :: u64
  sb_size :: u64
  sb_alignment :: u64
  references :: u32

type_synonym SharedBuffers = "SharedEntry list"

definition shared_capacity :: nat where "shared_capacity = 256"

definition shared_new :: SharedBuffers where
  "shared_new = replicate shared_capacity
     \<lparr>token0 = 0, token1 = 0, sb_gpu = 0, sb_size = 0, sb_alignment = 0, references = 0\<rparr>"

text \<open>The loops return the index plus one, and \<open>0\<close> when no entry matches.\<close>

primrec scan_entries :: "(SharedEntry \<Rightarrow> bool) \<Rightarrow> nat \<Rightarrow> SharedEntry list \<Rightarrow> nat" where
  "scan_entries P i [] = 0"
| "scan_entries P i (e # es) = (if P e then i + 1 else scan_entries P (i + 1) es)"

definition shared_find :: "SharedBuffers \<Rightarrow> u64 \<Rightarrow> u64 \<Rightarrow> nat" where
  "shared_find es first second =
     (if first = 0 \<and> second = 0 then 0
      else scan_entries (\<lambda>e. references e \<noteq> 0 \<and> token0 e = first \<and> token1 e = second) 0 es)"

definition publish ::
  "SharedBuffers \<Rightarrow> u64 \<Rightarrow> u64 \<Rightarrow> u64 \<Rightarrow> u64 \<Rightarrow> u64 \<Rightarrow> nat \<times> SharedBuffers"
where
  "publish es first second gpu sz al =
     (if (first = 0 \<and> second = 0) \<or> gpu = 0 \<or> sz = 0 \<or> shared_find es first second \<noteq> 0 then (0, es)
      else let i = scan_entries (\<lambda>e. references e = 0) 0 es
        in (i, if i = 0 then es
               else es[i - 1 := \<lparr>token0 = first, token1 = second, sb_gpu = gpu, sb_size = sz,
                                sb_alignment = al, references = 1\<rparr>]))"

definition retain :: "SharedBuffers \<Rightarrow> nat \<Rightarrow> bool \<times> SharedBuffers" where
  "retain es i =
     (if i = 0 \<or> shared_capacity < i \<or> references (es ! (i - 1)) = 0 \<or> references (es ! (i - 1)) = 0xFFFFFFFF
      then (False, es)
      else (True, es[i - 1 := (es ! (i - 1))\<lparr>references := references (es ! (i - 1)) + 1\<rparr>]))"

definition release :: "SharedBuffers \<Rightarrow> nat \<Rightarrow> bool \<times> SharedBuffers" where
  "release es i =
     (if i = 0 \<or> shared_capacity < i \<or> references (es ! (i - 1)) = 0 then (False, es)
      else let n = references (es ! (i - 1)) - 1
        in (n = 0, es[i - 1 := (es ! (i - 1))\<lparr>references := n\<rparr>]))"

subsection \<open>Histories of owners\<close>

text \<open>
  Each owning buffer slot holds the index it got from \<open>publish\<close> or retained; \<open>owners\<close> is the bag of
  the indices held. An owner releases an index it holds, and the index then leaves the bag.
\<close>

inductive shared_step :: "SharedBuffers \<times> nat multiset \<Rightarrow> SharedBuffers \<times> nat multiset \<Rightarrow> bool" where
  Publish: "publish es a b gpu sz al = (i, es') \<Longrightarrow>
     shared_step (es, owners) (es', if i = 0 then owners else add_mset i owners)"
| Retain: "retain es i = (ok, es') \<Longrightarrow> shared_step (es, owners) (es', if ok then add_mset i owners else owners)"
| Release: "i \<in># owners \<Longrightarrow> release es i = (freed, es') \<Longrightarrow> shared_step (es, owners) (es', owners - {#i#})"

definition shared_ok :: "SharedBuffers \<Rightarrow> nat multiset \<Rightarrow> bool" where
  "shared_ok es owners \<longleftrightarrow> length es = shared_capacity \<and>
     Multiset.count owners 0 = 0 \<and>
     (\<forall>k. Multiset.count owners (Suc k) = (if k < shared_capacity then unat (references (es ! k)) else 0)) \<and>
     (\<forall>i < shared_capacity. references (es ! i) \<noteq> 0 \<longrightarrow>
        (token0 (es ! i) \<noteq> 0 \<or> token1 (es ! i) \<noteq> 0) \<and> sb_gpu (es ! i) \<noteq> 0 \<and> sb_size (es ! i) \<noteq> 0) \<and>
     (\<forall>i < shared_capacity. \<forall>j < shared_capacity. i \<noteq> j \<longrightarrow> references (es ! i) \<noteq> 0 \<longrightarrow> references (es ! j) \<noteq> 0 \<longrightarrow>
        token0 (es ! i) \<noteq> token0 (es ! j) \<or> token1 (es ! i) \<noteq> token1 (es ! j))"

lemma shared_okD:
  assumes "shared_ok es owners"
  shows "length es = shared_capacity"
    "Multiset.count owners (Suc k) = (if k < shared_capacity then unat (references (es ! k)) else 0)"
    "i < shared_capacity \<Longrightarrow> references (es ! i) \<noteq> 0 \<Longrightarrow>
       (token0 (es ! i) \<noteq> 0 \<or> token1 (es ! i) \<noteq> 0) \<and> sb_gpu (es ! i) \<noteq> 0 \<and> sb_size (es ! i) \<noteq> 0"
    "i < shared_capacity \<Longrightarrow> j < shared_capacity \<Longrightarrow> i \<noteq> j \<Longrightarrow> references (es ! i) \<noteq> 0 \<Longrightarrow> references (es ! j) \<noteq> 0 \<Longrightarrow>
       token0 (es ! i) \<noteq> token0 (es ! j) \<or> token1 (es ! i) \<noteq> token1 (es ! j)"
    "Multiset.count owners 0 = 0"
  using assms unfolding shared_ok_def by blast+

lemma scan_entries_spec:
  "(scan_entries P k es = 0 \<and> (\<forall>e \<in> set es. \<not> P e)) \<or>
   (\<exists>i < length es. scan_entries P k es = k + i + 1 \<and> P (es ! i) \<and> (\<forall>j < i. \<not> P (es ! j)))"
proof (induction es arbitrary: k)
  case (Cons e es)
  show ?case
  proof (cases "P e")
    case True
    then show ?thesis by (intro disjI2 exI [of _ 0]) simp
  next
    case False
    from Cons [of "k + 1"] show ?thesis
    proof
      assume "scan_entries P (k + 1) es = 0 \<and> (\<forall>e\<in>set es. \<not> P e)"
      with False show ?thesis by simp
    next
      assume "\<exists>i<length es. scan_entries P (k + 1) es = k + 1 + i + 1 \<and> P (es ! i) \<and> (\<forall>j<i. \<not> P (es ! j))"
      then obtain i where "i < length es" "scan_entries P (k + 1) es = k + 1 + i + 1" "P (es ! i)"
        "\<forall>j<i. \<not> P (es ! j)" by blast
      with False show ?thesis
        by (intro disjI2 exI [of _ "Suc i"]) (auto simp: less_Suc_eq_0_disj)
    qed
  qed
qed simp

text \<open>Replacing one entry: its new token must be fresh unless it stays.\<close>

lemma shared_ok_update:
  assumes ok: "shared_ok es owners" and k: "k < shared_capacity"
    and n: "Multiset.count owners' = (Multiset.count owners)(Suc k := unat (references e))"
    and e: "references e \<noteq> 0 \<Longrightarrow> (token0 e \<noteq> 0 \<or> token1 e \<noteq> 0) \<and> sb_gpu e \<noteq> 0 \<and> sb_size e \<noteq> 0"
    and fresh: "\<And>j. references e \<noteq> 0 \<Longrightarrow> j < shared_capacity \<Longrightarrow> j \<noteq> k \<Longrightarrow> references (es ! j) \<noteq> 0 \<Longrightarrow>
      token0 (es ! j) \<noteq> token0 e \<or> token1 (es ! j) \<noteq> token1 e"
  shows "shared_ok (es[k := e]) owners'"
proof -
  note D = shared_okD [OF ok]
  have nth: "es[k := e] ! j = (if j = k then e else es ! j)" if "j < shared_capacity" for j
    using that k D(1) by (simp add: nth_list_update)
  have "Multiset.count owners' (Suc j) = (if j < shared_capacity then unat (references (es[k := e] ! j)) else 0)" for j
    using D(2) [of j] k by (simp add: n nth)
  moreover have "(token0 (es[k := e] ! j) \<noteq> 0 \<or> token1 (es[k := e] ! j) \<noteq> 0) \<and> sb_gpu (es[k := e] ! j) \<noteq> 0 \<and>
      sb_size (es[k := e] ! j) \<noteq> 0"
    if "j < shared_capacity" "references (es[k := e] ! j) \<noteq> 0" for j
    using D(3) [of j] e that by (cases "j = k") (simp_all add: nth)
  moreover have "token0 (es[k := e] ! i) \<noteq> token0 (es[k := e] ! j) \<or> token1 (es[k := e] ! i) \<noteq> token1 (es[k := e] ! j)"
    if "i < shared_capacity" "j < shared_capacity" "i \<noteq> j" "references (es[k := e] ! i) \<noteq> 0" "references (es[k := e] ! j) \<noteq> 0" for i j
    using D(4) [of i j] fresh [of i] fresh [of j] that by (cases "i = k"; cases "j = k") (auto simp: nth)
  ultimately show ?thesis using D(1,5) by (auto simp: shared_ok_def n)
qed

lemma shared_find_exact:
  assumes ok: "shared_ok es owners"
  shows "shared_find es a b = Suc k \<longleftrightarrow>
      k < shared_capacity \<and> references (es ! k) \<noteq> 0 \<and> token0 (es ! k) = a \<and> token1 (es ! k) = b"
    "shared_find es a b = 0 \<longleftrightarrow>
      \<not> (\<exists>k < shared_capacity. references (es ! k) \<noteq> 0 \<and> token0 (es ! k) = a \<and> token1 (es ! k) = b)"
proof -
  note D = shared_okD [OF ok]
  let ?P = "\<lambda>e. references e \<noteq> 0 \<and> token0 e = a \<and> token1 e = b"
  have uniq: "i = j" if "?P (es ! i)" "?P (es ! j)" "i < shared_capacity" "j < shared_capacity" for i j
    using D(4) [of i j] that by metis
  have zero: "\<not> ?P (es ! k)" if "a = 0" "b = 0" "k < shared_capacity" for k
    using D(3) [OF that(3)] that by auto
  have *: "shared_find es a b = Suc k \<longleftrightarrow> k < shared_capacity \<and> ?P (es ! k)" for k
  proof (cases "a = 0 \<and> b = 0")
    case True
    then show ?thesis using zero by (auto simp: shared_find_def)
  next
    case False
    then have f: "shared_find es a b = scan_entries ?P 0 es" by (auto simp: shared_find_def)
    from scan_entries_spec [of ?P 0 es] show ?thesis
    proof
      assume "scan_entries ?P 0 es = 0 \<and> (\<forall>e\<in>set es. \<not> ?P e)"
      then show ?thesis using f D(1) by (metis nat.distinct(1) nth_mem)
    next
      assume "\<exists>i<length es. scan_entries ?P 0 es = 0 + i + 1 \<and> ?P (es ! i) \<and> (\<forall>j<i. \<not> ?P (es ! j))"
      then obtain i where "i < shared_capacity" "shared_find es a b = Suc i" "?P (es ! i)" using f D(1) by auto
      then show ?thesis using uniq [of i k] by auto
    qed
  qed
  then show "shared_find es a b = Suc k \<longleftrightarrow> k < shared_capacity \<and> ?P (es ! k)" .
  show "shared_find es a b = 0 \<longleftrightarrow> \<not> (\<exists>k < shared_capacity. ?P (es ! k))"
    using * by (cases "shared_find es a b") auto
qed

lemma publish_keeps_ok:
  assumes ok: "shared_ok es owners" and run: "publish es a b gpu sz al = (i, es')"
  shows "shared_ok es' (if i = 0 then owners else add_mset i owners)"
proof (cases "i = 0")
  case True
  then show ?thesis using run ok by (auto simp: publish_def Let_def split: if_splits)
next
  case False
  let ?e = "\<lparr>token0 = a, token1 = b, sb_gpu = gpu, sb_size = sz, sb_alignment = al, references = 1\<rparr>"
  from run False have g: "\<not> (a = 0 \<and> b = 0)" "gpu \<noteq> 0" "sz \<noteq> 0" "shared_find es a b = 0"
    and i: "i = scan_entries (\<lambda>e. references e = 0) 0 es" and es': "es' = es[i - 1 := ?e]"
    by (auto simp: publish_def Let_def split: if_splits)
  obtain k where k: "k < shared_capacity" "i = Suc k" "references (es ! k) = 0"
    using scan_entries_spec [of "\<lambda>e. references e = 0" 0 es] False shared_okD(1) [OF ok] by (auto simp: i)
  have "shared_ok (es[k := ?e]) (add_mset i owners)"
  proof (rule shared_ok_update [OF ok k(1)])
    have "Multiset.count owners (Suc k) = 0" using shared_okD(2) [OF ok, of k] k by simp
    then show "Multiset.count (add_mset i owners) = (Multiset.count owners)(Suc k := unat (references ?e))"
      by (auto simp: k(2) fun_eq_iff)
    show "(token0 ?e \<noteq> 0 \<or> token1 ?e \<noteq> 0) \<and> sb_gpu ?e \<noteq> 0 \<and> sb_size ?e \<noteq> 0" using g by auto
    show "token0 (es ! j) \<noteq> token0 ?e \<or> token1 (es ! j) \<noteq> token1 ?e"
      if "j < shared_capacity" "references (es ! j) \<noteq> 0" for j
      using g(4) that by (auto simp: shared_find_exact(2) [OF ok])
  qed
  then show ?thesis using False es' k(2) by simp
qed

lemma retain_keeps_ok:
  assumes ok: "shared_ok es owners" and run: "retain es i = (r, es')"
  shows "shared_ok es' (if r then add_mset i owners else owners)"
proof (cases r)
  case False
  then show ?thesis using run ok by (auto simp: retain_def split: if_splits)
next
  case True
  then obtain k where k: "i = Suc k" "k < shared_capacity" "references (es ! k) \<noteq> 0" "references (es ! k) \<noteq> 0xFFFFFFFF"
    "es' = es[k := (es ! k)\<lparr>references := references (es ! k) + 1\<rparr>]"
    using run by (cases i) (auto simp: retain_def split: if_splits)
  note D = shared_okD [OF ok]
  have "shared_ok es' (add_mset i owners)" unfolding k(5)
  proof (rule shared_ok_update [OF ok k(2)])
    show "Multiset.count (add_mset i owners) =
        (Multiset.count owners)(Suc k := unat (references ((es ! k)\<lparr>references := references (es ! k) + 1\<rparr>)))"
      using D(2) [of k] k(2) unat_inc32 [OF k(4)] by (auto simp: k(1) fun_eq_iff)
  qed (use D(3) [OF k(2,3)] D(4) [of _ k] k in auto)
  then show ?thesis using True by simp
qed

lemma release_keeps_ok:
  assumes ok: "shared_ok es owners" and i: "i \<in># owners" and run: "release es i = (r, es')"
  shows "shared_ok es' (owners - {#i#})" "r \<longleftrightarrow> i \<notin># owners - {#i#}"
proof -
  note D = shared_okD [OF ok]
  have "i \<noteq> 0" using i D(5) by (metis not_in_iff)
  then obtain k where k: "i = Suc k" by (cases i) auto
  have c: "Multiset.count owners (Suc k) \<noteq> 0" using i k by simp
  then have kc: "k < shared_capacity" "references (es ! k) \<noteq> 0" "Multiset.count owners (Suc k) = unat (references (es ! k))"
    using D(2) [of k] by (auto split: if_splits)
  then have es': "es' = es[k := (es ! k)\<lparr>references := references (es ! k) - 1\<rparr>]" "r \<longleftrightarrow> references (es ! k) - 1 = 0"
    using run by (auto simp: release_def k Let_def)
  have u: "unat (references (es ! k) - 1) = unat (references (es ! k)) - 1" by (rule unat_dec32 [OF kc(2)])
  show "shared_ok es' (owners - {#i#})" unfolding es'
  proof (rule shared_ok_update [OF ok kc(1)])
    show "Multiset.count (owners - {#i#}) =
        (Multiset.count owners)(Suc k := unat (references ((es ! k)\<lparr>references := references (es ! k) - 1\<rparr>)))"
      using kc u by (auto simp: k fun_eq_iff)
  qed (use D(3) [OF kc(1,2)] D(4) [of _ k] kc in auto)
  have "r \<longleftrightarrow> unat (references (es ! k) - 1) = 0" by (simp add: es' unat_eq_zero)
  then show "r \<longleftrightarrow> i \<notin># owners - {#i#}" using u kc(3) by (simp add: not_in_iff k)
qed

inductive shared_reaches :: "SharedBuffers \<times> nat multiset \<Rightarrow> SharedBuffers \<times> nat multiset \<Rightarrow> bool" for x where
  Start: "shared_reaches x x"
| Step: "shared_reaches x y \<Longrightarrow> shared_step y z \<Longrightarrow> shared_reaches x z"

lemma shared_reaches_ok: "shared_reaches x y \<Longrightarrow> shared_ok (fst x) (snd x) \<Longrightarrow> shared_ok (fst y) (snd y)"
proof (induction rule: shared_reaches.induct)
  case (Step y z)
  note ok = Step.IH [OF Step.prems]
  from Step.hyps(2) show ?case
  proof cases
    case (Publish es a b gpu sz al i es' owners)
    then show ?thesis using publish_keeps_ok [of es owners a b gpu sz al i es'] ok by simp
  next
    case (Retain es i r es' owners)
    then show ?thesis using retain_keeps_ok [of es owners i r es'] ok by simp
  next
    case (Release i owners es freed es')
    then show ?thesis using release_keeps_ok(1) [of es owners i freed es'] ok by simp
  qed
qed

lemma shared_new_ok: "shared_ok shared_new {#}"
  by (simp add: shared_ok_def shared_new_def)

text \<open>
  C23. In every history of exports, imports and releases the reference count of an entry is the number
  of buffer slots that own it. A token finds its one live entry and nothing else, a new export never
  reuses a live token, and a release answers true exactly for the last owner, so the memory is freed
  once, and only when nobody owns it any more.
\<close>

theorem shared_buffers_sound:
  assumes "shared_reaches (shared_new, {#}) (es, owners)"
  shows "(\<forall>k < 256. Multiset.count owners (Suc k) = unat (references (es ! k))) \<and>
    (\<forall>a b k. shared_find es a b = Suc k \<longleftrightarrow>
       k < 256 \<and> Suc k \<in># owners \<and> token0 (es ! k) = a \<and> token1 (es ! k) = b) \<and>
    (\<forall>a b gpu sz al i es'. publish es a b gpu sz al = (i, es') \<and> i \<noteq> 0 \<longrightarrow>
       i \<notin># owners \<and> shared_find es a b = 0 \<and> shared_find es' a b = i) \<and>
    (\<forall>i es' freed. i \<in># owners \<and> release es i = (freed, es') \<longrightarrow> (freed \<longleftrightarrow> Multiset.count owners i = 1))"
proof -
  have ok: "shared_ok es owners" using shared_reaches_ok [OF assms] shared_new_ok by simp
  have live: "Suc k \<in># owners \<longleftrightarrow> k < 256 \<and> references (es ! k) \<noteq> 0" for k
  proof -
    have "Suc k \<in># owners \<longleftrightarrow> Multiset.count owners (Suc k) \<noteq> 0" by (metis not_in_iff)
    then show ?thesis using shared_okD(2) [OF ok, of k] by (simp only: shared_capacity_def unat_eq_zero split: if_split) simp
  qed
  have find: "shared_find es a b = Suc k \<longleftrightarrow> k < 256 \<and> Suc k \<in># owners \<and> token0 (es ! k) = a \<and> token1 (es ! k) = b"
    for a b k using shared_find_exact(1) [OF ok, of a b k] by (auto simp: live shared_capacity_def)
  have pub: "i \<notin># owners \<and> shared_find es a b = 0 \<and> shared_find es' a b = i"
    if run: "publish es a b gpu sz al = (i, es')" and i: "i \<noteq> 0" for a b gpu sz al i es'
  proof -
    let ?e = "\<lparr>token0 = a, token1 = b, sb_gpu = gpu, sb_size = sz, sb_alignment = al, references = 1\<rparr>"
    from run i have g: "shared_find es a b = 0" and
      sc: "i = scan_entries (\<lambda>e. references e = 0) 0 es" and es': "es' = es[i - 1 := ?e]"
      by (auto simp: publish_def Let_def split: if_splits)
    obtain k where k: "k < 256" "i = Suc k" "references (es ! k) = 0"
      using scan_entries_spec [of "\<lambda>e. references e = 0" 0 es] i shared_okD(1) [OF ok]
      by (auto simp: sc shared_capacity_def)
    have ok': "shared_ok es' (add_mset i owners)" using publish_keeps_ok [OF ok run] i by simp
    have "es' ! k = ?e" using k shared_okD(1) [OF ok] by (simp add: es' shared_capacity_def)
    then have "shared_find es' a b = Suc k" using k by (simp add: shared_find_exact(1) [OF ok'] shared_capacity_def)
    then show ?thesis using k g live by simp
  qed
  have "freed \<longleftrightarrow> Multiset.count owners i = 1" if "i \<in># owners" "release es i = (freed, es')" for i freed es'
  proof -
    have "0 < Multiset.count owners i" using that(1) by simp
    moreover have "freed \<longleftrightarrow> Multiset.count owners i \<le> 1"
      using release_keeps_ok(2) [OF ok that] by (simp add: not_in_iff)
    ultimately show ?thesis by linarith
  qed
  with find pub show ?thesis using shared_okD(2) [OF ok] by (auto simp: shared_capacity_def)
qed

lemma shared_buffers_sound_witness:
  "\<exists>es. shared_reaches (shared_new, {#}) (es, {#1#}) \<and> shared_find es 5 6 = 1"
proof -
  let ?es = "shared_new[0 := \<lparr>token0 = 5, token1 = 6, sb_gpu = 0x1000, sb_size = 0x4000, sb_alignment = 0x4000, references = 1\<rparr>]"
  have "\<not> (references e \<noteq> 0 \<and> token0 e = 5 \<and> token1 e = 6)" if "e \<in> set shared_new" for e
    using that by (simp add: shared_new_def)
  then have "shared_find shared_new 5 6 = 0"
    using shared_find_exact(2) [OF shared_new_ok, of 5 6] by (simp add: shared_new_def)
  moreover have "scan_entries (\<lambda>e. references e = 0) 0 shared_new = 1"
    by (simp add: shared_new_def shared_capacity_def numeral_eq_Suc)
  ultimately have p: "publish shared_new 5 6 0x1000 0x4000 0x4000 = (1, ?es)" by (simp add: publish_def)
  from shared_reaches.Step [OF shared_reaches.Start shared_step.Publish [OF p]]
  have run: "shared_reaches (shared_new, {#}) (?es, {#1#})" by simp
  have "?es ! 0 = \<lparr>token0 = 5, token1 = 6, sb_gpu = 0x1000, sb_size = 0x4000, sb_alignment = 0x4000, references = 1\<rparr>"
    by (simp add: shared_new_def shared_capacity_def numeral_eq_Suc)
  with shared_buffers_sound [OF run] have "shared_find ?es 5 6 = Suc 0" by simp
  with run show ?thesis by auto
qed

section \<open>Buffer ranges\<close>

definition buffer_copy_domain :: "u32 \<Rightarrow> bool" where
  "buffer_copy_domain domain \<longleftrightarrow> domain = 1 \<or> domain = 3 \<or> domain = 2"

definition buffer_vram_domain :: "u32 \<Rightarrow> bool" where
  "buffer_vram_domain domain \<longleftrightarrow> domain = 1 \<or> domain = 3"

definition kBufferCopyMaxBytes :: u64 where "kBufferCopyMaxBytes = 4 * 1024 * 1024"

definition buffer_gpu_range :: "u64 \<Rightarrow> u64 \<Rightarrow> u64 \<Rightarrow> u64 \<Rightarrow> u64 option" where
  "buffer_gpu_range base capacity offset bytes =
     (if bytes = 0 \<or> \<not> client_subrange offset bytes capacity \<or> 0x1000000000000 \<le> base \<or>
         0x1000000000000 - base < capacity then None
      else Some (base + offset))"

definition buffer_copy_ranges ::
  "u64 \<Rightarrow> u64 \<Rightarrow> u64 \<Rightarrow> u64 \<Rightarrow> u64 \<Rightarrow> u64 \<Rightarrow> u64 \<Rightarrow> (u64 \<times> u64) option"
where
  "buffer_copy_ranges source sourceSize sourceOffset destination destinationSize destinationOffset bytes =
     (if kBufferCopyMaxBytes < bytes then None
      else (case buffer_gpu_range source sourceSize sourceOffset bytes of
              None \<Rightarrow> None
            | Some sourceAddress \<Rightarrow>
                (case buffer_gpu_range destination destinationSize destinationOffset bytes of
                   None \<Rightarrow> None
                 | Some destinationAddress \<Rightarrow>
                     if destinationAddress + bytes \<le> sourceAddress \<or> sourceAddress + bytes \<le> destinationAddress
                     then Some (sourceAddress, destinationAddress) else None)))"

lemma gpu_range_nat:
  "buffer_gpu_range base capacity offset bytes =
     (if 0 < unat bytes \<and> unat offset + unat bytes \<le> unat capacity \<and> unat base < 2 ^ 48 \<and>
         unat base + unat capacity \<le> 2 ^ 48 then Some (base + offset) else None)"
proof (cases "(0x1000000000000 :: u64) \<le> base")
  case True
  then show ?thesis by (simp add: buffer_gpu_range_def word_le_nat_alt)
next
  case False
  then have "unat base < 2 ^ 48" "base \<le> 0x1000000000000" by (simp_all add: word_le_nat_alt)
  then have "unat (0x1000000000000 - base) = 2 ^ 48 - unat base" by (simp add: unat_sub)
  then have "0x1000000000000 - base < capacity \<longleftrightarrow> 2 ^ 48 < unat base + unat capacity"
    using \<open>unat base < 2 ^ 48\<close> by (simp add: word_less_nat_alt) linarith
  then show ?thesis using False \<open>unat base < 2 ^ 48\<close>
    by (auto simp: buffer_gpu_range_def client_subrange_nat unat_gt_0)
qed

text \<open>
  A copy request is accepted exactly when it is not empty and at most 4 MB, both ranges lie inside
  their buffers below the 48-bit limit, and they do not overlap; the two addresses handed to the copy
  engine are then the starts of those ranges. No sum wraps.
\<close>

theorem buffer_copy_ranges_exact:
  "buffer_copy_ranges source sourceSize so destination destinationSize dof bytes =
     (if 0 < unat bytes \<and> unat bytes \<le> 4194304 \<and>
         unat so + unat bytes \<le> unat sourceSize \<and> unat source < 2 ^ 48 \<and> unat source + unat sourceSize \<le> 2 ^ 48 \<and>
         unat dof + unat bytes \<le> unat destinationSize \<and> unat destination < 2 ^ 48 \<and>
         unat destination + unat destinationSize \<le> 2 ^ 48 \<and>
         {unat source + unat so ..< unat source + unat so + unat bytes} \<inter>
         {unat destination + unat dof ..< unat destination + unat dof + unat bytes} = {}
      then Some (word_of_nat (unat source + unat so), word_of_nat (unat destination + unat dof)) else None)"
proof (cases "0 < unat bytes \<and> unat bytes \<le> 4194304 \<and>
         unat so + unat bytes \<le> unat sourceSize \<and> unat source < 2 ^ 48 \<and> unat source + unat sourceSize \<le> 2 ^ 48 \<and>
         unat dof + unat bytes \<le> unat destinationSize \<and> unat destination < 2 ^ 48 \<and>
         unat destination + unat destinationSize \<le> 2 ^ 48")
  case False
  then show ?thesis
    by (auto simp: buffer_copy_ranges_def gpu_range_nat kBufferCopyMaxBytes_def word_less_nat_alt)
next
  case True
  have "unat so + unat bytes \<le> unat sourceSize" "unat source + unat sourceSize \<le> 281474976710656"
    "unat dof + unat bytes \<le> unat destinationSize" "unat destination + unat destinationSize \<le> 281474976710656"
    using True by simp_all
  then have "unat source + unat so + unat bytes < 18446744073709551616"
    "unat destination + unat dof + unat bytes < 18446744073709551616" by linarith+
  then have s: "unat source + unat so + unat bytes < 2 ^ 64" "unat destination + unat dof + unat bytes < 2 ^ 64"
    by simp_all
  have a: "unat (source + so) = unat source + unat so" "unat (destination + dof) = unat destination + unat dof"
    using s by (simp_all add: word_nat)
  have b: "unat (source + so + bytes) = unat source + unat so + unat bytes"
    "unat (destination + dof + bytes) = unat destination + unat dof + unat bytes"
    using s a by (simp_all add: word_nat)
  have "kBufferCopyMaxBytes < bytes \<longleftrightarrow> False" using True by (simp add: kBufferCopyMaxBytes_def word_less_nat_alt)
  then show ?thesis using True
    by (simp add: buffer_copy_ranges_def gpu_range_nat word_le_nat_alt a b)
qed

end
