(* ===== verification/Discovery.thy ===== *)
theory Discovery
  imports Device "HOL-Library.Monad_Syntax"
begin

text \<open>
  \<^verbatim>\<open>dext/amdgpu/amdgpu_discovery.h\<close> and \<^verbatim>\<open>amdgpu_discovery.cpp\<close>: the parser of the IP discovery binary
  and its reader. A read of the binary at a byte it does not have is \<open>None\<close>, a memory error of the C
  code; an error the parser reports is \<open>Inl\<close>. Offsets in the binary come from 16-bit fields and stay
  far below \<open>2 ^ 32\<close>, so the \<^verbatim>\<open>uint32_t\<close> sums of the code do not wrap and are \<open>nat\<close> here.
\<close>

section \<open>Reading the binary\<close>

type_synonym bytes = "u8 list"

definition rd8 :: "bytes \<Rightarrow> nat \<Rightarrow> u8 option" where
  "rd8 bin i = (if i < length bin then Some (bin ! i) else None)"

definition rd16 :: "bytes \<Rightarrow> nat \<Rightarrow> u16 option" where
  "rd16 bin i = do { a \<leftarrow> rd8 bin i; b \<leftarrow> rd8 bin (i + 1); Some (ucast a OR push_bit 8 (ucast b)) }"

definition rd32le :: "bytes \<Rightarrow> nat \<Rightarrow> u32 option" where
  "rd32le bin i = do { a \<leftarrow> rd16 bin i; b \<leftarrow> rd16 bin (i + 2); Some (ucast a OR push_bit 16 (ucast b)) }"

definition rd64le :: "bytes \<Rightarrow> nat \<Rightarrow> u64 option" where
  "rd64le bin i = do { a \<leftarrow> rd32le bin i; b \<leftarrow> rd32le bin (i + 4); Some (ucast a OR push_bit 32 (ucast b)) }"

primrec compute_checksum :: "bytes \<Rightarrow> nat \<Rightarrow> nat \<Rightarrow> u16 \<Rightarrow> u16 option" where
  "compute_checksum bin p 0 acc = Some acc"
| "compute_checksum bin p (Suc n) acc =
     do { b \<leftarrow> rd8 bin p; compute_checksum bin (p + 1) n (acc + ucast b) }"

section \<open>Constants and results\<close>

definition kDiscoverySignature :: u32 where "kDiscoverySignature = 0x28211407"
definition kDiscoveryIPDSSignature :: u32 where "kDiscoveryIPDSSignature = 0x53445049"

text \<open>The packed layout of the header (60 bytes), of the IPDS header (80), of a die header (4) and of an
  IP record without its bases (8).\<close>

definition header_bytes :: nat where "header_bytes = 60"
definition ipds_bytes :: nat where "ipds_bytes = 80"

lemmas layout_defs = header_bytes_def ipds_bytes_def

text \<open>One constructor per message the parser and the reader leave in \<open>err\<close>.\<close>

datatype disc_error =
    NoError | BinaryTooSmall | BadSignature | UnsupportedHeader | ChecksumMismatch | IPDSOffset
  | InvalidIPDS | IPDSChecksum | DieOffset | DieIdentifier | TruncatedIP | IPBasesExceed | InvalidGCInfo
  | IFWIUnavailable | GPUNotResponding | TMRInSysmem | NoTMR | BadDieSignature

record DiscoveryParseResult =
  disc_ok :: bool
  disc_err :: disc_error
  ip_version_major :: u8
  ip_version_minor :: u8
  ip_version_rev :: u8
  num_dies :: u16
  num_ips_total :: u32

definition disc_result0 :: DiscoveryParseResult where
  "disc_result0 = \<lparr>disc_ok = False, disc_err = NoError, ip_version_major = 0, ip_version_minor = 0,
     ip_version_rev = 0, num_dies = 0, num_ips_total = 0\<rparr>"

definition disc_fail :: "disc_error \<Rightarrow> DiscoveryParseResult \<Rightarrow> DiscoveryParseResult" where
  "disc_fail e r = r\<lparr>disc_ok := False, disc_err := e\<rparr>"

definition hwid_to_block :: "u16 \<Rightarrow> IPBlock option" where
  "hwid_to_block hwid =
     (if hwid = 255 then Some MP0 else if hwid = 1 then Some MP1 else if hwid = 11 then Some GC
      else if hwid = 34 then Some MMHUB else if hwid = 41 then Some HDP else if hwid = 40 then Some OSSSYS
      else if hwid = 42 then Some SDMA0 else if hwid = 43 then Some SDMA1 else if hwid = 108 then Some NBIO
      else if hwid = 4 then Some SMUIO else None)"

section \<open>GC geometry\<close>

definition gc_required :: "u32 \<Rightarrow> u32 \<Rightarrow> u32" where
  "gc_required major minor =
     (if major = 1 \<and> minor < 4 then [88, 100, 132, 164] ! unat minor
      else if major = 2 \<and> minor < 2 then [80, 108] ! unat minor else 0)"

definition gc_geometry_bad :: "GCDiscoveryInfo \<Rightarrow> bool" where
  "gc_geometry_bad r \<longleftrightarrow> max_shader_engines r = 0 \<or> 32 < max_shader_engines r \<or>
     max_sh_per_se r = 0 \<or> 4 < max_sh_per_se r \<or> max_backends_per_se r = 0 \<or> 32 < max_backends_per_se r \<or>
     (wave_front_size r \<noteq> 32 \<and> wave_front_size r \<noteq> 64) \<or>
     max_waves_per_simd r = 0 \<or> 64 < max_waves_per_simd r \<or>
     max_scratch_slots_per_cu r = 0 \<or> 256 < max_scratch_slots_per_cu r \<or>
     lds_size_kib r = 0 \<or> 1024 < lds_size_kib r"

text \<open>\<open>info\<close> is the table entry's offset and checksum; the inner \<open>None\<close> is \<^verbatim>\<open>false\<close>.\<close>

definition parse_gc_info :: "bytes \<Rightarrow> nat \<Rightarrow> u16 \<Rightarrow> u16 \<Rightarrow> GCDiscoveryInfo option option" where
  "parse_gc_info bin declared info_offset info_checksum =
     (let off = unat info_offset; word = (\<lambda>i. rd32le bin (off + 12 + i * 4))
      in if off = 0 then Some (Some gc_none)
      else if off < header_bytes \<or> declared < off \<or> declared - off < 12 then Some None
      else do {
        sig \<leftarrow> rd32le bin off;
        if sig \<noteq> 0x4347 then Some None
        else do {
          major \<leftarrow> rd16 bin (off + 4); minor \<leftarrow> rd16 bin (off + 6); sz \<leftarrow> rd32le bin (off + 8);
          let required = gc_required (ucast major) (ucast minor);
          if required = 0 \<or> sz < required \<or> declared - off < unat sz then Some None
          else do {
            sum \<leftarrow> compute_checksum bin off (unat sz) 0;
            if sum \<noteq> info_checksum then Some None
            else do {
              se \<leftarrow> word 0; w1 \<leftarrow> word 1; w2 \<leftarrow> word 2;
              let cu = ((if major = 1 then 2 * (ucast w1 + ucast w2) else ucast w1) :: u64);
              if cu = 0 \<or> 64 < cu then Some None
              else do {
                sh \<leftarrow> word (if major = 1 then 16 else 2);
                rb \<leftarrow> word 3; wsize \<leftarrow> word 11; wv \<leftarrow> word 12; sc \<leftarrow> word 13; lds \<leftarrow> word 14;
                let r = \<lparr>gc_valid = False, max_shader_engines = se, max_sh_per_se = sh,
                  max_cu_per_sh = ucast cu, max_backends_per_se = rb, wave_front_size = wsize,
                  max_waves_per_simd = wv, max_scratch_slots_per_cu = sc, lds_size_kib = lds\<rparr>;
                Some (if gc_geometry_bad r then None else Some (r\<lparr>gc_valid := True\<rparr>))
              }
            }
          }
        }
      })"

section \<open>IP records\<close>

text \<open>The bases of a record; of a 64-bit base the low 30 bits.\<close>

primrec read_bases :: "bytes \<Rightarrow> nat \<Rightarrow> bool \<Rightarrow> nat \<Rightarrow> u32 list option" where
  "read_bases bin p base64 0 = Some []"
| "read_bases bin p base64 (Suc n) = do {
     b \<leftarrow> (if base64 then do { v \<leftarrow> rd64le bin p; Some (ucast v AND 0x3FFFFFFF) } else rd32le bin p);
     bs \<leftarrow> read_bases bin (p + (if base64 then 8 else 4)) base64 n;
     Some (b # bs) }"

primrec set_bases :: "IPBaseTable \<Rightarrow> IPBlock \<Rightarrow> nat \<Rightarrow> u32 list \<Rightarrow> IPBaseTable" where
  "set_bases t blk i [] = t"
| "set_bases t blk i (b # bs) = set_bases (ip_setBase t blk (int i) b) blk (i + 1) bs"

text \<open>The state of the walk: the position, the table being built, the count of records and the result.\<close>

type_synonym disc_state = "nat \<times> IPBaseTable \<times> u32 \<times> DiscoveryParseResult"
type_synonym 'a disc = "((disc_error \<times> DiscoveryParseResult) + 'a) option"

definition publish_ip ::
  "u16 \<Rightarrow> u8 \<Rightarrow> u8 \<Rightarrow> u8 \<Rightarrow> u8 \<Rightarrow> u32 list \<Rightarrow> IPBaseTable \<times> DiscoveryParseResult \<Rightarrow> IPBaseTable \<times> DiscoveryParseResult"
where
  "publish_ip hw inst maj mi rv bases tr =
     (case (hwid_to_block hw, tr) of
        (Some blk, (t, r)) \<Rightarrow>
          if inst \<noteq> 0 then (t, r)
          else (ip_setVersion (set_bases t blk 0 bases) blk (IPVersion maj mi rv),
                if blk = GC
                then r\<lparr>ip_version_major := maj, ip_version_minor := mi, ip_version_rev := rv\<rparr> else r)
      | (None, tr) \<Rightarrow> tr)"

definition parse_ip :: "bytes \<Rightarrow> nat \<Rightarrow> bool \<Rightarrow> disc_state \<Rightarrow> disc_state disc" where
  "parse_ip bin tableEnd base64 = (\<lambda>(pos, t, ips, res).
     if tableEnd < pos + 8 then Some (Inl (TruncatedIP, res))
     else do {
       hw \<leftarrow> rd16 bin pos; inst \<leftarrow> rd8 bin (pos + 2); nb \<leftarrow> rd8 bin (pos + 3);
       maj \<leftarrow> rd8 bin (pos + 4); mi \<leftarrow> rd8 bin (pos + 5); rv \<leftarrow> rd8 bin (pos + 6);
       let this_size = 8 + unat nb * (if base64 then 8 else 4);
       if tableEnd < pos + this_size then Some (Inl (IPBasesExceed, res))
       else do {
         bases \<leftarrow> read_bases bin (pos + 8) base64 (min (unat nb) 8);
         let (t, res) = publish_ip hw inst maj mi rv bases (t, res);
         Some (Inr (pos + this_size, t, ips + 1, res))
       }
     })"

primrec parse_ips :: "bytes \<Rightarrow> nat \<Rightarrow> bool \<Rightarrow> nat \<Rightarrow> disc_state \<Rightarrow> disc_state disc" where
  "parse_ips bin tableEnd base64 0 st = Some (Inr st)"
| "parse_ips bin tableEnd base64 (Suc n) st = do {
     r \<leftarrow> parse_ip bin tableEnd base64 st;
     case r of Inl e \<Rightarrow> Some (Inl e) | Inr st \<Rightarrow> parse_ips bin tableEnd base64 n st }"

section \<open>Dies\<close>

text \<open>\<open>off\<close> is the offset of the IPDS table, its die array starts 14 bytes in.\<close>

definition parse_die :: "bytes \<Rightarrow> nat \<Rightarrow> nat \<Rightarrow> bool \<Rightarrow> nat \<Rightarrow> disc_state \<Rightarrow> disc_state disc" where
  "parse_die bin off tableEnd base64 d = (\<lambda>(_, t, ips, res). do {
     die_off \<leftarrow> rd16 bin (off + 14 + d * 4 + 2);
     let die_off = unat die_off;
     if die_off < off + ipds_bytes \<or> tableEnd < die_off + 4 then Some (Inl (DieOffset, res))
     else do {
       die_id \<leftarrow> rd16 bin die_off; expected_id \<leftarrow> rd16 bin (off + 14 + d * 4);
       if die_id \<noteq> expected_id then Some (Inl (DieIdentifier, res))
       else do {
         n \<leftarrow> rd16 bin (die_off + 2);
         parse_ips bin tableEnd base64 (unat n) (die_off + 4, t, ips, res)
       }
     }
   })"

primrec parse_dies :: "bytes \<Rightarrow> nat \<Rightarrow> nat \<Rightarrow> bool \<Rightarrow> nat \<Rightarrow> nat \<Rightarrow> disc_state \<Rightarrow> disc_state disc" where
  "parse_dies bin off tableEnd base64 d 0 st = Some (Inr st)"
| "parse_dies bin off tableEnd base64 d (Suc n) st = do {
     r \<leftarrow> parse_die bin off tableEnd base64 d st;
     case r of Inl e \<Rightarrow> Some (Inl e) | Inr st \<Rightarrow> parse_dies bin off tableEnd base64 (d + 1) n st }"

section \<open>The parser\<close>

text \<open>The header of the binary and of the IPDS table: the declared size, the offset and end of the table,
  the width of its bases and the number of dies.\<close>

definition parse_headers :: "bytes \<Rightarrow> (nat \<times> nat \<times> nat \<times> bool \<times> u16) disc" where
  "parse_headers bin = do {
     let bad = (\<lambda>e. Some (Inl (e, disc_result0)));
     sig \<leftarrow> rd32le bin 0;
     if sig \<noteq> kDiscoverySignature then bad BadSignature
     else do {
       major \<leftarrow> rd16 bin 4; declared16 \<leftarrow> rd16 bin 10;
       let declared = unat declared16;
       if major \<noteq> 1 \<or> declared < header_bytes \<or> length bin < declared then bad UnsupportedHeader
       else do {
         sum \<leftarrow> compute_checksum bin 10 (declared - 10) 0; expected_sum \<leftarrow> rd16 bin 8;
         if sum \<noteq> expected_sum then bad ChecksumMismatch
         else do {
           off16 \<leftarrow> rd16 bin 12; ipds_sum \<leftarrow> rd16 bin 14;
           let off = unat off16;
           if off < header_bytes \<or> declared < off + ipds_bytes then bad IPDSOffset
           else do {
             ipds_sig \<leftarrow> rd32le bin off; version \<leftarrow> rd16 bin (off + 4); sz \<leftarrow> rd16 bin (off + 6);
             dies \<leftarrow> rd16 bin (off + 12);
             let tableEnd = off + unat sz;
             if ipds_sig \<noteq> kDiscoveryIPDSSignature \<or> version < 1 \<or> 4 < version \<or> unat sz < ipds_bytes \<or>
                declared < tableEnd \<or> dies = 0 \<or> 16 < dies then bad InvalidIPDS
             else do {
               tsum \<leftarrow> compute_checksum bin off (unat sz) 0;
               if tsum \<noteq> ipds_sum then bad IPDSChecksum
               else do {
                 flags \<leftarrow> rd8 bin (off + 78);
                 Some (Inr (declared, off, tableEnd, version = 4 \<and> flags AND 1 \<noteq> 0, dies))
               }
             }
           }
         }
       }
     }
   }"

definition disc_code :: "disc_error \<Rightarrow> kern_return" where
  "disc_code e = (if e = BinaryTooSmall then kIOReturnBadArgument else kIOReturnInvalid)"

text \<open>The result carries \<open>dev.ip\<close>, which changes only at the very end.\<close>

definition discovery_parse ::
  "bytes \<Rightarrow> IPBaseTable \<Rightarrow> (kern_return \<times> IPBaseTable \<times> DiscoveryParseResult) option"
where
  "discovery_parse bin ip =
     (if length bin < header_bytes then Some (kIOReturnBadArgument, ip, disc_fail BinaryTooSmall disc_result0)
      else do {
        h \<leftarrow> parse_headers bin;
        case h of
          Inl (e, res) \<Rightarrow> Some (disc_code e, ip, disc_fail e res)
        | Inr (declared, off, tableEnd, base64, dies) \<Rightarrow> do {
            r \<leftarrow> parse_dies bin off tableEnd base64 0 (unat dies) (0, ip_new, 0, disc_result0);
            case r of
              Inl (e, res) \<Rightarrow> Some (disc_code e, ip, disc_fail e res)
            | Inr (_, t, ips, res) \<Rightarrow> do {
                gc_off \<leftarrow> rd16 bin 20; gc_sum \<leftarrow> rd16 bin 22;
                g \<leftarrow> parse_gc_info bin declared gc_off gc_sum;
                case g of
                  None \<Rightarrow> Some (kIOReturnInvalid, ip, disc_fail InvalidGCInfo res)
                | Some gfx \<Rightarrow>
                    Some (kIOReturnSuccess, t\<lparr>ip_gfx := gfx\<rparr>,
                          res\<lparr>disc_ok := True, num_dies := dies, num_ips_total := ips\<rparr>)
              }
          }
      })"

section \<open>Reading the binary from the device\<close>

definition kDiscoveryTMROffset :: u64 where "kDiscoveryTMROffset = 0x10000"
definition kDiscoveryTMRSize :: nat where "kDiscoveryTMRSize = 0x10000"

text \<open>The wait for the firmware: \<open>Some None\<close> is a register that reads all ones, \<open>Some (Some ready)\<close>
  goes on either way, and the outer \<open>None\<close> is a wait that never ends.\<close>

partial_function (option) ifwi_wait ::
  "'d DeviceContext \<Rightarrow> u64 \<Rightarrow> u64 \<Rightarrow> 'd \<Rightarrow> (bool option \<times> 'd) option"
where
  "ifwi_wait dev start waited_ms d =
     (if \<not> waited_ms < 2000 then Some (Some False, d)
      else let (msg, d) = RREG32_abs dev 0x16061 d
        in if msg = 0xFFFFFFFF then Some (None, d)
        else if msg AND 0x80000000 = 0x80000000 then Some (Some True, d)
        else let d = sleep_ms dev 1 d; (now, d) = now_ns dev d
          in ifwi_wait dev start ((now - start) div 1000000) d)"

primrec read_tmr :: "('d \<Rightarrow> u64 \<Rightarrow> u32 \<times> 'd) \<Rightarrow> u64 \<Rightarrow> nat \<Rightarrow> 'd \<Rightarrow> bytes \<times> 'd" where
  "read_tmr rd off 0 d = ([], d)"
| "read_tmr rd off (Suc n) d =
     (let (v, d) = rd d off; (bs, d) = read_tmr rd (off + 4) n d in (bytes32 v @ bs, d))"

definition discover_ips_on_die ::
  "'d DeviceContext \<Rightarrow> 'd \<Rightarrow> ((kern_return \<times> IPBaseTable \<times> DiscoveryParseResult) \<times> 'd) option"
where
  "discover_ips_on_die dev d =
     (let ip = dev_ip dev;
          failed = (\<lambda>k e d. Some ((k, ip, disc_fail e disc_result0), d));
          (start, d) = now_ns dev d
      in case ifwi_wait dev start 0 d of
           None \<Rightarrow> None
         | Some (None, d) \<Rightarrow> failed kIOReturnNotAttached IFWIUnavailable d
         | Some (Some _, d) \<Rightarrow>
             let (vram_mb, d) = RREG32_abs dev 0x0DE3 d
             in if vram_mb = 0xFFFFFFFF then failed kIOReturnNotReady GPUNotResponding d
             else let (scratch2, d) = RREG32_abs dev 0x0096 d
               in if scratch2 \<noteq> 0 \<and> scratch2 \<noteq> 0xFFFFFFFF
               then let d = snd (RREG32_abs dev 0x0094 d); d = snd (RREG32_abs dev 0x0095 d)
                 in failed kIOReturnUnsupported TMRInSysmem d
               else if vram_mb = 0 then failed kIOReturnUnsupported NoTMR d
               else let tmr = push_bit 20 (ucast vram_mb) - kDiscoveryTMROffset;
                        aperture = (tmr + word_of_nat kDiscoveryTMRSize \<le> bar0Size dev);
                        (bin, d) = read_tmr (if aperture then (\<lambda>d off. RBAR2_32 dev off d) else (\<lambda>d off. RVRAM32_via_mm dev off d))
                                     tmr (kDiscoveryTMRSize div 4) d
                 in if le32 bin 0 \<noteq> kDiscoverySignature then failed kIOReturnInvalid BadDieSignature d
                 else (case discovery_parse bin ip of None \<Rightarrow> None | Some y \<Rightarrow> Some (y, d)))"

end
