(* ===== verification/Discovery_Properties.thy ===== *)
theory Discovery_Properties
  imports Discovery
begin

text \<open>
  The parser of the discovery binary never reads outside the binary, whatever its contents; what it
  publishes is in range; the reader always returns while the clock runs.
\<close>

section \<open>Reads inside the binary\<close>

lemma rd8_in [simp]: "i < length bin \<Longrightarrow> rd8 bin i = Some (byte_at bin i)"
  by (simp add: rd8_def byte_at_def)

lemma rd16_in [simp]: "i + 1 < length bin \<Longrightarrow> rd16 bin i = Some (le16 bin i)"
  by (simp add: rd16_def le16_def)

lemma le32_le16: "le32 bin i = ucast (le16 bin i) OR push_bit 16 (ucast (le16 bin (i + 2)))"
proof (rule bit_word_eqI)
  fix n assume n: "n < LENGTH(32)"
  consider "n < 8" | "8 \<le> n" "n < 16" | "16 \<le> n" "n < 24" | "24 \<le> n" using n by linarith
  then show "bit (le32 bin i) n = bit (ucast (le16 bin i) OR push_bit 16 (ucast (le16 bin (i + 2))) :: u32) n"
    using n by cases (auto simp: le32_def le16_def bit_simps numeral_3_eq_3 dest: bit_imp_le_length)
qed

lemma rd32_in [simp]: "i + 3 < length bin \<Longrightarrow> rd32le bin i = Some (le32 bin i)"
  by (simp add: rd32le_def le32_le16)

lemma rd64_in [simp]: "i + 7 < length bin \<Longrightarrow> rd64le bin i = Some (le64 bin i)"
  by (simp add: rd64le_def le64_def)

primrec sum_from :: "bytes \<Rightarrow> nat \<Rightarrow> nat \<Rightarrow> u16 \<Rightarrow> u16" where
  "sum_from bin p 0 acc = acc"
| "sum_from bin p (Suc n) acc = sum_from bin (p + 1) n (acc + ucast (byte_at bin p))"

lemma checksum_in [simp]:
  "p + n \<le> length bin \<Longrightarrow> compute_checksum bin p n acc = Some (sum_from bin p n acc)"
  by (induction n arbitrary: p acc) simp_all

lemma read_bases_in:
  "p + n * (if base64 then 8 else 4) \<le> length bin \<Longrightarrow> \<exists>bs. read_bases bin p base64 n = Some bs \<and> length bs = n"
proof (induction n arbitrary: p)
  case (Suc n)
  from Suc.prems have "p + (if base64 then 8 else 4) + n * (if base64 then 8 else 4) \<le> length bin"
    by (cases base64) simp_all
  from Suc.IH [OF this] obtain bs where "read_bases bin (p + (if base64 then 8 else 4)) base64 n = Some bs" "length bs = n"
    by blast
  with Suc.prems show ?case by (cases base64) simp_all
qed simp

section \<open>The walk\<close>

lemma parse_ip_safe:
  assumes "tableEnd \<le> length bin"
  shows "parse_ip bin tableEnd base64 st \<noteq> None"
proof -
  obtain pos t ips res where st: "st = (pos, t, ips, res)" by (cases st) auto
  show ?thesis
  proof (cases "tableEnd < pos + 8")
    case False
    let ?w = "if base64 then 8 else 4 :: nat"
    let ?n = "unat (byte_at bin (pos + 3))"
    show ?thesis
    proof (cases "tableEnd < pos + (8 + ?n * ?w)")
      case True
      then show ?thesis using False assms by (simp add: st parse_ip_def)
    next
      case fits: False
      have "min ?n 8 * ?w \<le> ?n * ?w" by simp
      then have "pos + 8 + min ?n 8 * ?w \<le> length bin" using fits assms by linarith
      from read_bases_in [OF this] obtain bs where "read_bases bin (pos + 8) base64 (min ?n 8) = Some bs" by blast
      then show ?thesis using False fits assms by (simp add: st parse_ip_def split: prod.split)
    qed
  qed (simp add: st parse_ip_def)
qed

lemma parse_ips_safe: "tableEnd \<le> length bin \<Longrightarrow> parse_ips bin tableEnd base64 n st \<noteq> None"
proof (induction n arbitrary: st)
  case (Suc n)
  obtain r where "parse_ip bin tableEnd base64 st = Some r" using parse_ip_safe [OF Suc.prems] by blast
  with Suc show ?case by (cases r) simp_all
qed simp

lemma parse_dies_safe:
  assumes "tableEnd \<le> length bin" "off + ipds_bytes \<le> tableEnd" "d + n \<le> 16"
  shows "parse_dies bin off tableEnd base64 d n st \<noteq> None"
  using assms(3)
proof (induction n arbitrary: d st)
  case (Suc n)
  obtain pos t ips res where st: "st = (pos, t, ips, res)" by (cases st) auto
  have in1: "off + 14 + d * 4 + 3 < length bin" using assms(1,2) Suc.prems by (simp add: ipds_bytes_def)
  have "parse_die bin off tableEnd base64 d st \<noteq> None"
  proof (cases "unat (le16 bin (off + 14 + d * 4 + 2)) < off + ipds_bytes \<or>
      tableEnd < unat (le16 bin (off + 14 + d * 4 + 2)) + 4")
    case True
    then show ?thesis using in1 by (auto simp: st parse_die_def)
  next
    case False
    then have "unat (le16 bin (off + 14 + d * 4 + 2)) + 4 \<le> length bin" using assms(1) by linarith
    then show ?thesis using False in1 parse_ips_safe [OF assms(1)]
      by (auto simp: st parse_die_def Let_def)
  qed
  then obtain r where "parse_die bin off tableEnd base64 d st = Some r" by blast
  with Suc show ?case by (cases r) simp_all
qed simp

section \<open>The headers and the geometry\<close>

lemma parse_headers_safe:
  assumes "header_bytes \<le> length bin"
  shows "parse_headers bin \<noteq> None"
  using assms by (simp add: parse_headers_def Let_def layout_defs)

lemma parse_headers_ok:
  assumes "header_bytes \<le> length bin" "parse_headers bin = Some (Inr (declared, off, tableEnd, base64, dies))"
  shows "declared \<le> length bin" "off + ipds_bytes \<le> tableEnd" "tableEnd \<le> declared" "dies \<noteq> 0" "dies \<le> 16"
  using assms by (auto simp: parse_headers_def Let_def layout_defs split: if_splits)

lemma parse_headers_err:
  assumes "header_bytes \<le> length bin" "parse_headers bin = Some (Inl (e, res))"
  shows "e \<noteq> NoError \<and> e \<noteq> BinaryTooSmall"
  using assms by (auto simp: parse_headers_def Let_def layout_defs split: if_splits)

lemma gc_required_ge:
  assumes "gc_required major minor \<noteq> 0"
  shows "major = 1 \<and> 88 \<le> unat (gc_required major minor) \<or> major = 2 \<and> 80 \<le> unat (gc_required major minor)"
proof -
  consider "major = 1" "minor < 4" | "major = 2" "minor < 2" "\<not> (major = 1 \<and> minor < 4)"
    using assms by (auto simp: gc_required_def split: if_splits)
  then show ?thesis
  proof cases
    case 1
    then have "unat minor \<in> {0, 1, 2, 3}" by (auto simp: word_less_nat_alt)
    then show ?thesis using 1 by (auto simp: gc_required_def)
  next
    case 2
    then have "unat minor \<in> {0, 1}" by (auto simp: word_less_nat_alt)
    then show ?thesis using 2 by (auto simp: gc_required_def)
  qed
qed

definition gc_in_range :: "GCDiscoveryInfo \<Rightarrow> bool" where
  "gc_in_range g \<longleftrightarrow> g = gc_none \<or> gc_valid g \<and>
     max_shader_engines g \<in> {1..32} \<and> max_sh_per_se g \<in> {1..4} \<and> max_cu_per_sh g \<in> {1..64} \<and>
     max_backends_per_se g \<in> {1..32} \<and> wave_front_size g \<in> {32, 64} \<and> max_waves_per_simd g \<in> {1..64} \<and>
     max_scratch_slots_per_cu g \<in> {1..256} \<and> lds_size_kib g \<in> {1..1024}"

lemma word_ge_one: "x \<noteq> 0 \<longleftrightarrow> 1 \<le> (x :: 'a::len word)"
proof -
  have "1 \<le> x \<longleftrightarrow> 1 \<le> unat x" by (simp add: word_le_nat_alt)
  then show ?thesis by (auto simp: Suc_le_eq unat_gt_0)
qed

lemma geometry_in_range:
  assumes "\<not> gc_geometry_bad r" "max_cu_per_sh r = ucast (cu :: u64)" "cu \<noteq> 0" "\<not> 64 < cu"
  shows "gc_in_range (r\<lparr>gc_valid := True\<rparr>)"
proof -
  have "unat cu \<le> 64" using assms(4) by (simp add: not_less word_le_nat_alt)
  then have "unat (ucast cu :: u32) = unat cu" by (simp add: unsigned_ucast_eq take_bit_eq_mod)
  moreover have "unat cu \<noteq> 0" using assms(3) by (simp add: unat_eq_zero)
  ultimately have "max_cu_per_sh r \<in> {1..64}"
    using \<open>unat cu \<le> 64\<close> assms(2) by (simp add: word_le_nat_alt)
  with assms(1) show ?thesis by (simp add: gc_geometry_bad_def gc_in_range_def word_ge_one not_less)
qed

lemma parse_gc_safe:
  assumes "declared \<le> length bin"
  shows "\<exists>g. parse_gc_info bin declared info_offset csum = Some g \<and> (\<forall>r. g = Some r \<longrightarrow> gc_in_range r)"
proof -
  let ?off = "unat info_offset"
  let ?major = "ucast (le16 bin (?off + 4)) :: u32"
  let ?minor = "ucast (le16 bin (?off + 6)) :: u32"
  let ?sz = "le32 bin (?off + 8)"
  let ?req = "gc_required ?major ?minor"
  show ?thesis
  proof (cases "?off = 0 \<or> ?off < header_bytes \<or> declared < ?off \<or> declared - ?off < 12")
    case True
    then show ?thesis unfolding parse_gc_info_def Let_def by (auto simp: gc_in_range_def)
  next
    case False
    then have in0: "?off + 12 \<le> length bin" using assms by linarith
    show ?thesis
    proof (cases "le32 bin ?off \<noteq> 0x4347 \<or> ?req = 0 \<or> ?sz < ?req \<or> declared - ?off < unat ?sz")
      case True
      then show ?thesis using False in0 unfolding parse_gc_info_def Let_def by auto
    next
      case ok: False
      then have sz: "?off + unat ?sz \<le> length bin" "unat ?req \<le> unat ?sz" using assms False
        by (auto simp: word_less_nat_alt not_less)
      have req: "?major = 1 \<and> 88 \<le> unat ?req \<or> ?major = 2 \<and> 80 \<le> unat ?req" using ok by (intro gc_required_ge) simp
      have w: "rd32le bin (?off + 12 + i * 4) = Some (le32 bin (?off + 12 + i * 4))" if "i \<le> 15" for i
        using sz req that by (intro rd32_in) linarith
      have w16: "rd32le bin (?off + 12 + (if le16 bin (?off + 4) = 1 then 16 else 2) * 4) =
          Some (le32 bin (?off + 12 + (if le16 bin (?off + 4) = 1 then 16 else 2) * 4))"
      proof (cases "le16 bin (?off + 4) = 1")
        case True
        then have "88 \<le> unat ?req" using req by auto
        then show ?thesis using True sz by (intro rd32_in) simp
      qed (use w [of 2] in simp)
      note words = w [of 0] w [of 1] w [of 2] w [of 3] w [of 11] w [of 12] w [of 13] w [of 14] w16
      let ?w = "\<lambda>i. le32 bin (?off + 12 + i * 4)"
      let ?cu = "(if le16 bin (?off + 4) = 1 then 2 * (ucast (?w 1) + ucast (?w 2)) else ucast (?w 1)) :: u64"
      let ?r = "\<lparr>gc_valid = False, max_shader_engines = ?w 0,
         max_sh_per_se = ?w (if le16 bin (?off + 4) = 1 then 16 else 2), max_cu_per_sh = ucast ?cu,
         max_backends_per_se = ?w 3, wave_front_size = ?w 11, max_waves_per_simd = ?w 12,
         max_scratch_slots_per_cu = ?w 13, lds_size_kib = ?w 14\<rparr>"
      have run: "parse_gc_info bin declared info_offset csum =
        (if sum_from bin ?off (unat ?sz) 0 \<noteq> csum then Some None
         else if ?cu = 0 \<or> 64 < ?cu then Some None
         else Some (if gc_geometry_bad ?r then None else Some (?r\<lparr>gc_valid := True\<rparr>)))"
        using False ok in0 sz words unfolding parse_gc_info_def Let_def
        by (cases "le16 bin (?off + 4) = 1") simp_all
      have "gc_in_range (?r\<lparr>gc_valid := True\<rparr>)" if "\<not> gc_geometry_bad ?r" "\<not> (?cu = 0 \<or> 64 < ?cu)"
        using that by (intro geometry_in_range [of _ ?cu]) simp_all
      then show ?thesis unfolding run by auto
    qed
  qed
qed

section \<open>The parser as a whole\<close>

definition walk_error :: "disc_error \<Rightarrow> bool" where
  "walk_error e \<longleftrightarrow> e \<in> {DieOffset, DieIdentifier, TruncatedIP, IPBasesExceed}"

lemma parse_ips_error: "parse_ips bin tableEnd base64 n st = Some (Inl (e, res)) \<Longrightarrow> walk_error e"
proof (induction n arbitrary: st)
  case (Suc n)
  then obtain r where r: "parse_ip bin tableEnd base64 st = Some r"
    by (cases "parse_ip bin tableEnd base64 st") simp_all
  show ?case
  proof (cases r)
    case (Inl x)
    then have "x = (e, res)" using Suc.prems r by simp
    with Inl r show ?thesis
      by (cases st) (auto simp: parse_ip_def walk_error_def Let_def split: if_splits bind_splits prod.splits)
  qed (use Suc r in simp)
qed simp

lemma parse_dies_error: "parse_dies bin off tableEnd base64 d n st = Some (Inl (e, res)) \<Longrightarrow> walk_error e"
proof (induction n arbitrary: d st)
  case (Suc n)
  then obtain r where r: "parse_die bin off tableEnd base64 d st = Some r"
    by (cases "parse_die bin off tableEnd base64 d st") simp_all
  show ?case
  proof (cases r)
    case (Inl x)
    then have "x = (e, res)" using Suc.prems r by simp
    with Inl r show ?thesis
      by (cases st) (auto simp: parse_die_def Let_def walk_error_def split: if_splits bind_splits
          dest: parse_ips_error [unfolded walk_error_def])
  qed (use Suc r in simp)
qed simp

lemma discovery_parse_total:
  "\<exists>k ip' res. discovery_parse bin ip = Some (k, ip', res) \<and>
     (if k = kIOReturnSuccess
      then disc_ok res \<and> 1 \<le> num_dies res \<and> num_dies res \<le> 16 \<and> gc_in_range (ip_gfx ip')
      else ip' = ip \<and> \<not> disc_ok res \<and> disc_err res \<noteq> NoError)"
proof (cases "length bin < header_bytes")
  case True
  then show ?thesis by (simp add: discovery_parse_def disc_fail_def)
next
  case False
  then have len: "header_bytes \<le> length bin" by simp
  obtain h where h: "parse_headers bin = Some h" using parse_headers_safe [OF len] by blast
  show ?thesis
  proof (cases h)
    case (Inl x)
    obtain e res where x: "x = (e, res)" by fastforce
    then have "e \<noteq> NoError" using parse_headers_err [OF len] h Inl by blast
    then show ?thesis using False h by (simp add: discovery_parse_def Inl x disc_code_def disc_fail_def)
  next
    case (Inr y)
    obtain declared off tableEnd base64 dies where y: "y = (declared, off, tableEnd, base64, dies)"
      by (cases y) auto
    note H = parse_headers_ok [OF len h [unfolded Inr y]]
    have "unat dies \<le> 16" using H(5) by (simp add: word_le_nat_alt)
    moreover have "tableEnd \<le> length bin" using H(1,3) by simp
    ultimately obtain r where r: "parse_dies bin off tableEnd base64 0 (unat dies) (0, ip_new, 0, disc_result0) = Some r"
      using parse_dies_safe [OF _ H(2), of bin 0 "unat dies"] by fastforce
    show ?thesis
    proof (cases r)
      case r': (Inl x)
      obtain e res where x: "x = (e, res)" by fastforce
      then have "walk_error e" using r r' parse_dies_error by blast
      then have "e \<noteq> NoError" "e \<noteq> BinaryTooSmall" by (auto simp: walk_error_def)
      then show ?thesis using False h r
        by (simp add: discovery_parse_def Inr y r' x disc_code_def disc_fail_def)
    next
      case r': (Inr st)
      obtain pos t ips res where st: "st = (pos, t, ips, res)" by (cases st) auto
      obtain g where g: "parse_gc_info bin declared (le16 bin 20) (le16 bin 22) = Some g"
        "\<And>gfx. g = Some gfx \<Longrightarrow> gc_in_range gfx" using parse_gc_safe [OF H(1)] by blast
      have n: "1 \<le> dies" using H(4) by (simp add: word_ge_one [symmetric])
      have rd: "rd16 bin 20 = Some (le16 bin 20)" "rd16 bin 22 = Some (le16 bin 22)"
        using len by (simp_all add: header_bytes_def)
      show ?thesis using False h r g n H(5)
        by (cases g) (simp_all add: discovery_parse_def Inr y r' st rd disc_fail_def)
    qed
  qed
qed

text \<open>
  C25. Whatever the bytes of the binary, the parser returns and never reads a byte the binary does not
  have: every offset and length that comes from the binary is checked before it is used. If it fails,
  the register bases in use stay as they were and the result names the error; if it succeeds, there
  are one to sixteen dies and the published geometry is absent or within the limits of the hardware.
\<close>

theorem discovery_never_reads_outside:
  "\<exists>k ip' res. discovery_parse bin ip = Some (k, ip', res) \<and>
     (if k = kIOReturnSuccess
      then disc_ok res \<and> 1 \<le> num_dies res \<and> num_dies res \<le> 16 \<and> gc_in_range (ip_gfx ip')
      else ip' = ip \<and> \<not> disc_ok res \<and> disc_err res \<noteq> NoError)"
  by (rule discovery_parse_total)

section \<open>The reader\<close>

lemma rreg_clock:
  assumes "clock_runs dev T" "RREG32_abs dev reg d = (v, d1)"
  shows "T d \<le> T d1" "T d1 \<le> T d + 2 ^ 40"
  using assms by (auto simp: clock_runs_def RREG32_abs_def) (metis snd_conv)+

lemma ifwi_returns:
  assumes clk: "clock_runs dev T" and "S \<le> T d" "T d - S < 2 ^ 42" "unat w \<le> (T d - S) div 1000000"
  shows "\<exists>r. ifwi_wait dev (word_of_nat S) w d = Some r"
  using assms(2-)
proof (induction "S + 2 ^ 43 - T d" arbitrary: d w rule: less_induct)
  case less
  obtain v d1 where r1: "RREG32_abs dev 0x16061 d = (v, d1)" by fastforce
  let ?d2 = "sleep_ms dev 1 d1"
  obtain now d3 where r3: "now_ns dev ?d2 = (now, d3)" by fastforce
  note t1 = rreg_clock [OF clk r1]
  have t2: "T d1 < T ?d2" "T ?d2 \<le> T d1 + 2 ^ 40" using clk by (auto simp: clock_runs_def)
  have t3: "now = word_of_nat (T ?d2)" "T ?d2 \<le> T d3" "T d3 \<le> T ?d2 + 2 ^ 40"
    using clk r3 by (auto simp: clock_runs_def) (metis fst_conv snd_conv)+
  show ?case
  proof (cases "\<not> w < 2000 \<or> v = 0xFFFFFFFF \<or> v AND 0x80000000 = 0x80000000")
    case True
    then show ?thesis by (subst ifwi_wait.simps) (auto simp: r1)
  next
    case False
    let ?w = "(now - word_of_nat S) div 1000000 :: u64"
    have small: "T ?d2 - S < 2 ^ 43" using less.prems t1 t2 by simp
    then have el: "unat (now - word_of_nat S) = T ?d2 - S"
      using less.prems t1 t2 by (simp add: t3(1) elapsed_word)
    have w: "unat ?w = (T ?d2 - S) div 1000000" by (simp add: unat_div el)
    have "\<exists>r. ifwi_wait dev (word_of_nat S) ?w d3 = Some r"
    proof (cases "?w < 2000")
      case False
      then show ?thesis by (subst ifwi_wait.simps) simp
    next
      case True
      then have "(T ?d2 - S) div 1000000 < 2000" using w by (simp add: word_less_nat_alt)
      then have lt: "T ?d2 - S < 2000000000" by (simp add: div_less_iff_less_mult)
      show ?thesis
      proof (rule less.hyps)
        show "S + 2 ^ 43 - T d3 < S + 2 ^ 43 - T d" using less.prems t1 t2 t3 by simp
        show "S \<le> T d3" using less.prems t1 t2 t3 by simp
        show "T d3 - S < 2 ^ 42" using lt less.prems t1 t2 t3 by simp
        have "(T ?d2 - S) div 1000000 \<le> (T d3 - S) div 1000000" using t3 by (intro div_le_mono diff_le_mono)
        then show "unat ?w \<le> (T d3 - S) div 1000000" by (simp add: w)
      qed
    qed
    then show ?thesis using False by (subst ifwi_wait.simps) (simp add: r1 r3)
  qed
qed

lemma read_tmr_length [simp]: "length (fst (read_tmr rd off n d)) = 4 * n"
  by (induction n arbitrary: off d) (simp_all split: prod.split, metis fst_conv)

text \<open>The reader up to the parse, as a relation: it fails with the table it had, or parses 64 KB it read.\<close>

lemma discover_cases:
  assumes clk: "clock_runs dev T"
  shows "\<exists>d2. (\<exists>k e. k \<noteq> kIOReturnSuccess \<and> e \<noteq> NoError \<and>
        discover_ips_on_die dev d = Some ((k, dev_ip dev, disc_fail e disc_result0), d2)) \<or>
     (\<exists>bin d1 rd tmr y. bin = fst (read_tmr rd tmr 0x4000 d1) \<and> d2 = snd (read_tmr rd tmr 0x4000 d1) \<and>
        (tmr + 0x10000 \<le> bar0Size dev \<longrightarrow> rd = (\<lambda>d off. RBAR2_32 dev off d)) \<and>
        discovery_parse bin (dev_ip dev) = Some y \<and> discover_ips_on_die dev d = Some (y, d2))"
proof -
  obtain start d0 where n: "now_ns dev d = (start, d0)" by fastforce
  then have start: "start = word_of_nat (T d)" "T d \<le> T d0" "T d0 \<le> T d + 2 ^ 40"
    using clk by (auto simp: clock_runs_def) (metis fst_conv snd_conv)+
  have "\<exists>r. ifwi_wait dev start 0 d0 = Some r"
    unfolding start(1) by (rule ifwi_returns [OF clk]) (use start in simp_all)
  then obtain w d1 where w: "ifwi_wait dev start 0 d0 = Some (w, d1)" by (metis prod.collapse)
  show ?thesis
  proof (cases w)
    case None
    then show ?thesis using n w by (auto simp: discover_ips_on_die_def)
  next
    case (Some b)
    obtain mb d2 where mb: "RREG32_abs dev 0x0DE3 d1 = (mb, d2)" by fastforce
    obtain s2 d3 where s2: "RREG32_abs dev 0x0096 d2 = (s2, d3)" by fastforce
    let ?tmr = "push_bit 20 (ucast mb) - kDiscoveryTMROffset"
    let ?rd = "if ?tmr + word_of_nat kDiscoveryTMRSize \<le> bar0Size dev then (\<lambda>d off. RBAR2_32 dev off d)
      else (\<lambda>d off. RVRAM32_via_mm dev off d)"
    obtain bin d4 where bin: "read_tmr ?rd ?tmr (kDiscoveryTMRSize div 4) d3 = (bin, d4)" by fastforce
    obtain y where y: "discovery_parse bin (dev_ip dev) = Some y" using discovery_parse_total by fastforce
    note run = n w Some mb s2 bin y
    show ?thesis
    proof (cases "mb = 0xFFFFFFFF \<or> s2 \<noteq> 0 \<and> s2 \<noteq> 0xFFFFFFFF \<or> mb = 0 \<or> le32 bin 0 \<noteq> kDiscoverySignature")
      case True
      then show ?thesis using run by (auto simp: discover_ips_on_die_def Let_def)
    next
      case False
      then have "discover_ips_on_die dev d = Some (y, d4)"
        using run by (auto simp: discover_ips_on_die_def Let_def)
      moreover have "bin = fst (read_tmr ?rd ?tmr 0x4000 d3)" "d4 = snd (read_tmr ?rd ?tmr 0x4000 d3)"
        using bin by (simp_all add: kDiscoveryTMRSize_def)
      moreover have "?tmr + 0x10000 \<le> bar0Size dev \<longrightarrow> ?rd = (\<lambda>d off. RBAR2_32 dev off d)"
        by (simp add: kDiscoveryTMRSize_def)
      ultimately show ?thesis using y by blast
    qed
  qed
qed

text \<open>
  C26. While the clock runs, discovery on the die returns, even when the firmware never reports ready:
  it gives up the wait after two seconds, and the bounded reads and the parser do the rest. A failure
  leaves the table of register bases as it was and reports an error.
\<close>

theorem discovery_returns:
  assumes "clock_runs dev T"
  shows "\<exists>k ip' res d'. discover_ips_on_die dev d = Some ((k, ip', res), d') \<and>
    (if k = kIOReturnSuccess then disc_ok res \<and> gc_in_range (ip_gfx ip')
     else ip' = dev_ip dev \<and> \<not> disc_ok res \<and> disc_err res \<noteq> NoError)"
proof -
  from discover_cases [OF assms, of d] obtain d2 where "(\<exists>k e. k \<noteq> kIOReturnSuccess \<and> e \<noteq> NoError \<and>
        discover_ips_on_die dev d = Some ((k, dev_ip dev, disc_fail e disc_result0), d2)) \<or>
     (\<exists>bin y. discovery_parse bin (dev_ip dev) = Some y \<and> discover_ips_on_die dev d = Some (y, d2))" by blast
  then show ?thesis
  proof (elim disjE exE conjE)
    fix k e
    assume "k \<noteq> kIOReturnSuccess" "e \<noteq> NoError"
      "discover_ips_on_die dev d = Some ((k, dev_ip dev, disc_fail e disc_result0), d2)"
    then show ?thesis by (simp add: disc_fail_def)
  next
    fix bin y
    assume run: "discovery_parse bin (dev_ip dev) = Some y" "discover_ips_on_die dev d = Some (y, d2)"
    obtain k ip' res where "y = (k, ip', res)" by (cases y) auto
    with run discovery_parse_total [of bin "dev_ip dev"] show ?thesis
      by (intro exI [of _ k] exI [of _ ip'] exI [of _ res] exI [of _ d2]) (auto split: if_splits)
  qed
qed

lemma discovery_returns_witness:
  "\<exists>k ip' res d'. discover_ips_on_die ram_dev (\<lambda>_ _. 0, 0) = Some ((k, ip', res), d') \<and>
    (k \<noteq> kIOReturnSuccess \<longrightarrow> ip' = dev_ip ram_dev)"
  using discovery_returns [OF ram_dev_ok(4), of "(\<lambda>_ _. 0, 0)"] by (auto split: if_splits)

end
