(* ===== verification/Interrupts.thy ===== *)
theory Interrupts
  imports Gmc_Init
begin

text \<open>
  \<^verbatim>\<open>dext/amdgpu/amdgpu_ih.h\<close> and \<^verbatim>\<open>ih_v7_0.cpp\<close>: the interrupt ring. The device writes entries of 32
  bytes and its write pointer into host memory; \<open>ih_drain\<close> walks from the read pointer to the write
  pointer and hands every entry to a dispatcher. Host memory shared with the device is read and
  written through the two functions of a \<open>hostmem\<close> record, a parameter like the device itself.
\<close>

section \<open>State\<close>

record 'd hostmem =
  ld32 :: "u64 \<Rightarrow> 'd \<Rightarrow> u32 \<times> 'd"
  st32 :: "u64 \<Rightarrow> u32 \<Rightarrow> 'd \<Rightarrow> 'd"

record IHEntry =
  ie_client_id :: u8
  ie_src_id :: u8
  ie_ring_id :: u16
  ie_vmid :: u8
  ie_vmid_src :: u8
  ie_timestamp :: u64
  ie_pasid :: u16
  ie_node_id :: u8
  ie_src_data :: "u32 list"

text \<open>The four objects are handles, \<open>None\<close> for null; a CPU pointer that is null is \<open>0\<close>.\<close>

record IHContext =
  ih_inited :: bool
  ih_enabled :: bool
  ring_buf :: "u64 option"
  ring_dma :: "u64 option"
  wptr_shadow_buf :: "u64 option"
  wptr_shadow_dma :: "u64 option"
  ring_bus :: u64
  ring_cpu :: u64
  ring_size_bytes :: u32
  ring_size_dwords :: u32
  ptr_mask :: u32
  wptr_shadow_bus :: u64
  wptr_shadow_cpu :: u64
  ih_rptr :: u32
  entries_processed :: u64
  overflows_seen :: u64

definition kIHRingDefaultBytes :: u32 where "kIHRingDefaultBytes = 256 * 1024"
definition kIHEntryBytes :: u32 where "kIHEntryBytes = 32"

section \<open>Allocation\<close>

text \<open>
  One buffer of the ring and its DMA: the two halves of \<open>ih_init\<close> do this in turn. The length set and
  the address range are not checked by the code; a failed \<open>PrepareForDMA\<close> and one with several segments
  release both objects.
\<close>

definition ih_alloc_half ::
  "'d os \<Rightarrow> u64 \<Rightarrow> 'd \<Rightarrow> (kern_return \<times> dma_block option) \<times> 'd"
where
  "ih_alloc_half os sz d =
     (case buf_create os sz kASPageSize d of
        ((r, None), d) \<Rightarrow> ((or_else r kIOReturnNoMemory, None), d)
      | ((r, Some b), d) \<Rightarrow>
          if r \<noteq> kIOReturnSuccess then ((r, None), d)
          else let d = snd (buf_set_length os b sz d)
            in (case dma_create os 64 d of
                  ((r, None), d) \<Rightarrow> ((or_else r kIOReturnNoMemory, None), buf_release os b d)
                | ((r, Some m), d) \<Rightarrow>
                    if r \<noteq> kIOReturnSuccess then ((r, None), buf_release os b d)
                    else let ((r, count, address, _), d) = dma_prepare os m b sz d
                      in if r \<noteq> kIOReturnSuccess \<or> count \<noteq> 1
                      then ((or_else r kIOReturnNotAligned, None), buf_release os b (dma_release os m d))
                      else let ((_, cpu, _), d) = buf_address os b d
                        in ((kIOReturnSuccess,
                             Some \<lparr>blk_buf = b, blk_dma = m, blk_bus = address, blk_cpu = cpu\<rparr>), d)))"

definition ih_init :: "'d os \<Rightarrow> 'd hostmem \<Rightarrow> IHContext \<Rightarrow> 'd \<Rightarrow> (kern_return \<times> IHContext) \<times> 'd" where
  "ih_init os hm ih d =
     (if ring_buf ih \<noteq> None then ((kIOReturnSuccess, ih), d)
      else (case ih_alloc_half os (ucast kIHRingDefaultBytes) d of
              ((r, None), d) \<Rightarrow> ((r, ih), d)
            | ((_, Some ring), d) \<Rightarrow>
                (case ih_alloc_half os kASPageSize d of
                   ((r, None), d) \<Rightarrow> ((r, ih), buf_release os (blk_buf ring) (dma_release os (blk_dma ring) d))
                 | ((_, Some w), d) \<Rightarrow>
                     let d = cpu_zero os (blk_cpu ring) (ucast kIHRingDefaultBytes) d;
                         d = st32 hm (blk_cpu w) 0 d
                     in ((kIOReturnSuccess,
                          ih\<lparr>ring_buf := Some (blk_buf ring), ring_dma := Some (blk_dma ring),
                             ring_bus := blk_bus ring, ring_cpu := blk_cpu ring,
                             ring_size_bytes := kIHRingDefaultBytes, ring_size_dwords := kIHRingDefaultBytes div 4,
                             ptr_mask := kIHRingDefaultBytes - 1, wptr_shadow_buf := Some (blk_buf w),
                             wptr_shadow_dma := Some (blk_dma w), wptr_shadow_bus := blk_bus w,
                             wptr_shadow_cpu := blk_cpu w, ih_rptr := 0, entries_processed := 0,
                             overflows_seen := 0, ih_inited := True\<rparr>), d))))"

text \<open>\<open>drop_dma\<close> and \<open>drop_buf\<close> are the four guarded blocks of \<open>ih_release\<close>.\<close>

definition drop_dma :: "'d os \<Rightarrow> u64 option \<Rightarrow> 'd \<Rightarrow> 'd" where
  "drop_dma os m d = (case m of None \<Rightarrow> d | Some m \<Rightarrow> dma_release os m (snd (dma_complete os m d)))"

definition drop_buf :: "'d os \<Rightarrow> u64 option \<Rightarrow> 'd \<Rightarrow> 'd" where
  "drop_buf os b d = (case b of None \<Rightarrow> d | Some b \<Rightarrow> buf_release os b d)"

definition ih_release :: "'d os \<Rightarrow> IHContext \<Rightarrow> 'd \<Rightarrow> IHContext \<times> 'd" where
  "ih_release os ih d =
     (let d = drop_dma os (wptr_shadow_dma ih) d; d = drop_buf os (wptr_shadow_buf ih) d;
          d = drop_dma os (ring_dma ih) d; d = drop_buf os (ring_buf ih) d
      in (ih\<lparr>wptr_shadow_dma := None, wptr_shadow_buf := None, ring_dma := None, ring_buf := None,
             ring_bus := 0, ring_cpu := 0, wptr_shadow_bus := 0, wptr_shadow_cpu := 0,
             ih_inited := False, ih_enabled := False\<rparr>, d))"

section \<open>Programming\<close>

definition ih_reg :: "'d DeviceContext \<Rightarrow> u32 \<Rightarrow> u32" where
  "ih_reg dev reg = SOC15_REG_OFFSET dev OSSSYS reg"

text \<open>A read, a change of the value and the write back.\<close>

definition ih_modify :: "'d DeviceContext \<Rightarrow> u32 \<Rightarrow> (u32 \<Rightarrow> u32) \<Rightarrow> 'd \<Rightarrow> 'd" where
  "ih_modify dev reg f d = (let (v, d) = RREG32 dev (ih_reg dev reg) d in WREG32 dev (ih_reg dev reg) (f v) d)"

definition ih_toggle :: "'d DeviceContext \<Rightarrow> bool \<Rightarrow> 'd \<Rightarrow> kern_return \<times> 'd" where
  "ih_toggle dev enable d =
     (if \<not> ip_isResolved (dev_ip dev) OSSSYS then (kIOReturnNotReady, d)
      else (kIOReturnSuccess, ih_modify dev 0x0080 (\<lambda>v. if enable then v OR 1 else v AND NOT 1) d))"

function log2u32 :: "u32 \<Rightarrow> u32" where
  "log2u32 v = (if drop_bit 1 v = 0 then 0 else log2u32 (drop_bit 1 v) + 1)"
  by pat_completeness auto
termination
proof (relation "measure unat")
  fix v :: u32
  assume "drop_bit 1 v \<noteq> 0"
  then have "unat v \<noteq> 0" by (metis drop_bit_of_0 unat_eq_zero)
  moreover have "unat (drop_bit 1 v) = unat v div 2" by (simp add: drop_bit_eq_div unat_div)
  ultimately show "(drop_bit 1 v, v) \<in> measure unat" by simp
qed simp

declare log2u32.simps [simp del]

definition ih_rb_cntl :: "u32 \<Rightarrow> u32" where
  "ih_rb_cntl dwords =
     push_bit 1 (log2u32 dwords) OR push_bit 28 2 OR push_bit 31 1 OR push_bit 16 1 OR push_bit 8 1 OR
     push_bit 20 1 OR push_bit 21 1"

definition ih_enable_ring ::
  "'d DeviceContext \<Rightarrow> 'd hostmem \<Rightarrow> IHContext \<Rightarrow> 'd \<Rightarrow> (kern_return \<times> IHContext) \<times> 'd"
where
  "ih_enable_ring dev hm ih d =
     (if \<not> ih_inited ih \<or> \<not> ip_isResolved (dev_ip dev) OSSSYS then ((kIOReturnNotReady, ih), d)
      else let d = WREG32 dev (ih_reg dev 0x0083) (ucast (drop_bit 8 (ring_bus ih))) d;
               d = WREG32 dev (ih_reg dev 0x0084) (ucast (drop_bit 40 (ring_bus ih) AND 0xFF)) d;
               d = WREG32 dev (ih_reg dev 0x0080) (ih_rb_cntl (ring_size_dwords ih)) d;
               d = WREG32 dev (ih_reg dev 0x0086) (ucast (wptr_shadow_bus ih AND 0xFFFFFFFC)) d;
               d = WREG32 dev (ih_reg dev 0x0085) (ucast (drop_bit 32 (wptr_shadow_bus ih)) AND 0xFF) d;
               d = WREG32 dev (ih_reg dev 0x0081) 0 d;
               d = WREG32 dev (ih_reg dev 0x0082) 0 d;
               d = st32 hm (wptr_shadow_cpu ih) 0 d
        in ((kIOReturnSuccess, ih\<lparr>ih_rptr := 0\<rparr>), d))"

definition ih_program_msi_storm :: "'d DeviceContext \<Rightarrow> 'd \<Rightarrow> kern_return \<times> 'd" where
  "ih_program_msi_storm dev d =
     (if \<not> ip_isResolved (dev_ip dev) OSSSYS then (kIOReturnNotReady, d)
      else let d = ih_modify dev 0x00AA (\<lambda>v. v OR push_bit 18 1) d;
               d = ih_modify dev 0x00D5 (\<lambda>v. v OR push_bit 3 1) d;
               d = ih_modify dev 0x00F1 (\<lambda>v. (v AND NOT 3) OR 3) d
        in (kIOReturnSuccess, d))"

section \<open>The walk\<close>

definition decode_entry :: "(nat \<Rightarrow> u32) \<Rightarrow> IHEntry" where
  "decode_entry e = \<lparr>ie_client_id = ucast (e 0 AND 0xFF), ie_src_id = ucast (drop_bit 8 (e 0) AND 0xFF),
     ie_ring_id = ucast (drop_bit 16 (e 0) AND 0xFF), ie_vmid = ucast (drop_bit 24 (e 0) AND 0xF),
     ie_vmid_src = ucast (drop_bit 31 (e 0) AND 1),
     ie_timestamp = push_bit 32 (ucast (e 2 AND 0xFFFF)) OR ucast (e 1),
     ie_pasid = ucast (e 3 AND 0xFFFF), ie_node_id = ucast (drop_bit 16 (e 3) AND 0xFF),
     ie_src_data = [e 4, e 5, e 6, e 7]\<rparr>"

text \<open>The eight dwords of the entry at a byte offset of the ring, read in order.\<close>

primrec read_dwords :: "'d hostmem \<Rightarrow> u64 \<Rightarrow> nat \<Rightarrow> 'd \<Rightarrow> u32 list \<times> 'd" where
  "read_dwords hm a 0 d = ([], d)"
| "read_dwords hm a (Suc n) d =
     (let (v, d) = ld32 hm a d; (vs, d) = read_dwords hm (a + 4) n d in (v # vs, d))"

text \<open>
  Nothing in the loop but the pointers' alignment bounds it: \<open>None\<close> is a walk that never meets the
  write pointer. \<open>dispatch\<close> is the caller's function, which may be null.
\<close>

partial_function (option) ih_walk ::
  "'d hostmem \<Rightarrow> (IHEntry \<Rightarrow> 'd \<Rightarrow> 'd) option \<Rightarrow> u64 \<Rightarrow> u32 \<Rightarrow> u32 \<Rightarrow> u32 \<Rightarrow> u32 \<Rightarrow> 'd \<Rightarrow> ((u32 \<times> u32) \<times> 'd) option"
where
  "ih_walk hm dispatch cpu msk wptr rptr n d =
     (if rptr = wptr then Some ((rptr, n), d)
      else let (e, d) = read_dwords hm (cpu + ucast (rptr AND NOT 3)) 8 d;
               d = (case dispatch of None \<Rightarrow> d | Some f \<Rightarrow> f (decode_entry (\<lambda>i. e ! i)) d)
        in ih_walk hm dispatch cpu msk wptr ((rptr + kIHEntryBytes) AND msk) (n + 1) d)"

declare ih_walk.simps [code]

definition ih_ring_ok :: "IHContext \<Rightarrow> bool" where
  "ih_ring_ok ih \<longleftrightarrow> \<not> (\<not> ih_inited ih \<or> \<not> ih_enabled ih \<or> ring_cpu ih = 0 \<or>
     ring_size_bytes ih < kIHEntryBytes \<or> ring_size_bytes ih AND (ring_size_bytes ih - 1) \<noteq> 0 \<or>
     ptr_mask ih \<noteq> ring_size_bytes ih - 1 \<or> ptr_mask ih < ih_rptr ih \<or>
     ih_rptr ih AND (kIHEntryBytes - 1) \<noteq> 0)"

definition bad_wptr :: "u32 \<Rightarrow> bool" where
  "bad_wptr w \<longleftrightarrow> w = 0xFFFFFFFF \<or> w AND (kIHEntryBytes - 2) \<noteq> 0"

text \<open>
  The write pointer the walk goes to, after the recovery from an overflow; \<open>None\<close> is the early
  \<^verbatim>\<open>return 0\<close>.
\<close>

definition ih_get_wptr ::
  "'d DeviceContext \<Rightarrow> 'd hostmem \<Rightarrow> IHContext \<Rightarrow> 'd \<Rightarrow> (u32 option \<times> IHContext) \<times> 'd"
where
  "ih_get_wptr dev hm ih d =
     (let (w, d) = (if wptr_shadow_cpu ih \<noteq> 0 then ld32 hm (wptr_shadow_cpu ih) d
                    else RREG32 dev (ih_reg dev 0x0082) d)
      in if bad_wptr w then ((None, ih), d)
      else if w AND 1 \<noteq> 0
      then let ih = ih\<lparr>overflows_seen := overflows_seen ih + 1\<rparr>;
               (w, d) = RREG32 dev (ih_reg dev 0x0082) d
        in if bad_wptr w then ((None, ih), d)
        else let (c, d) = RREG32 dev (ih_reg dev 0x0080) d;
                 c = c OR push_bit 31 1;
                 d = WREG32 dev (ih_reg dev 0x0080) c d;
                 c = c AND NOT (push_bit 31 1);
                 d = WREG32 dev (ih_reg dev 0x0080) c d;
                 w = w AND NOT 1
          in ((Some (w AND ptr_mask ih), ih\<lparr>ih_rptr := (w + 32) AND ptr_mask ih\<rparr>), d)
      else ((Some (w AND ptr_mask ih), ih), d))"

definition ih_drain ::
  "'d DeviceContext \<Rightarrow> 'd hostmem \<Rightarrow> (IHEntry \<Rightarrow> 'd \<Rightarrow> 'd) option \<Rightarrow> IHContext \<Rightarrow> 'd \<Rightarrow>
     ((u32 \<times> IHContext) \<times> 'd) option"
where
  "ih_drain dev hm dispatch ih d =
     (if \<not> ih_ring_ok ih \<or> \<not> ip_isResolved (dev_ip dev) OSSSYS then Some ((0, ih), d)
      else (case ih_get_wptr dev hm ih d of
              ((None, ih), d) \<Rightarrow> Some ((0, ih), d)
            | ((Some w, ih), d) \<Rightarrow>
                (case ih_walk hm dispatch (ring_cpu ih) (ptr_mask ih) w (ih_rptr ih) 0 d of
                   None \<Rightarrow> None
                 | Some ((rptr, n), d) \<Rightarrow>
                     let ih = ih\<lparr>ih_rptr := rptr\<rparr>
                     in if 0 < n
                     then Some ((n, ih\<lparr>entries_processed := entries_processed ih + ucast n\<rparr>),
                                WREG32 dev (ih_reg dev 0x0081) rptr d)
                     else Some ((n, ih), d))))"

section \<open>Bring-up\<close>

definition ih_init_full ::
  "'d DeviceContext \<Rightarrow> 'd os \<Rightarrow> 'd hostmem \<Rightarrow> IHContext \<Rightarrow> 'd \<Rightarrow> (kern_return \<times> IHContext) \<times> 'd"
where
  "ih_init_full dev os hm ih d =
     (if \<not> ip_isResolved (dev_ip dev) OSSSYS then ((kIOReturnNotReady, ih), d)
      else let ((r, ih), d) = ih_init os hm ih d
        in if r \<noteq> kIOReturnSuccess then ((r, ih), d)
        else let (r, d) = ih_toggle dev False d
          in if r \<noteq> kIOReturnSuccess then ((r, ih), d)
          else let ((r, ih), d) = ih_enable_ring dev hm ih d
            in if r \<noteq> kIOReturnSuccess then ((r, ih), d)
            else let (r, d) = ih_program_msi_storm dev d
              in if r \<noteq> kIOReturnSuccess then ((r, ih), d)
              else let (r, d) = ih_toggle dev True d
                in if r \<noteq> kIOReturnSuccess then ((r, ih), d)
                else ((kIOReturnSuccess, ih\<lparr>ih_enabled := True\<rparr>), d))"

end
