(* ===== verification/Interrupts_Properties.thy ===== *)
theory Interrupts_Properties
  imports Interrupts
begin

text \<open>
  The interrupt ring is walked exactly once around at most: the walk ends, hands every entry between
  the pointers to the dispatcher in ring order, and leaves the read pointer at the write pointer.
\<close>

section \<open>One step of the walk\<close>

definition visit ::
  "'d hostmem \<Rightarrow> (IHEntry \<Rightarrow> 'd \<Rightarrow> 'd) option \<Rightarrow> u64 \<Rightarrow> u32 \<Rightarrow> 'd \<Rightarrow> 'd"
where
  "visit hm dispatch cpu rptr d =
     (let (e, d) = read_dwords hm (cpu + ucast (rptr AND NOT 3)) 8 d
      in case dispatch of None \<Rightarrow> d | Some f \<Rightarrow> f (decode_entry (\<lambda>i. e ! i)) d)"

lemma ih_walk_step:
  "ih_walk hm dispatch cpu msk wptr rptr n d =
     (if rptr = wptr then Some ((rptr, n), d)
      else ih_walk hm dispatch cpu msk wptr ((rptr + kIHEntryBytes) AND msk) (n + 1) (visit hm dispatch cpu rptr d))"
  by (subst ih_walk.simps) (simp add: visit_def split: prod.split)

lemma mod_step:
  assumes "unat a = 2 ^ k" "k < 32"
  shows "(word_of_nat (r mod 2 ^ k) + 32) AND (a - 1) = (word_of_nat ((r + 32) mod 2 ^ k) :: u32)"
proof -
  have M: "(2 :: nat) ^ k dvd 2 ^ 32" using assms(2) by (intro le_imp_power_dvd) simp
  have lt: "(x :: nat) mod 2 ^ k < 2 ^ 32" for x
  proof -
    have "x mod 2 ^ k < 2 ^ k" by simp
    also have "(2 :: nat) ^ k \<le> 2 ^ 32" using assms(2) by (intro power_increasing) simp_all
    finally show ?thesis .
  qed
  have "unat (word_of_nat (r mod 2 ^ k) + 32 :: u32) = (r mod 2 ^ k + 32) mod 2 ^ 32"
    by (simp add: unat_word_ariths unat_of_nat mod_simps)
  then have "unat ((word_of_nat (r mod 2 ^ k) + 32) AND (a - 1) :: u32) = (r mod 2 ^ k + 32) mod 2 ^ 32 mod 2 ^ k"
    using and_pred_pow2 [OF assms(1)] assms(2) by simp
  also have "\<dots> = (r + 32) mod 2 ^ k" using M by (simp add: mod_mod_cancel mod_simps)
  finally show ?thesis using lt [of "r + 32"] by (simp add: word_unat_eq_iff unat_of_nat)
qed

text \<open>From byte \<open>r\<close> to \<open>32 * c\<close> bytes further, around the ring of \<open>2 ^ k\<close> bytes.\<close>

lemma ih_walk_spec:
  assumes a: "unat a = 2 ^ k" "k < 32"
  shows "32 * c < 2 ^ k \<Longrightarrow>
    ih_walk hm dispatch cpu (a - 1) (word_of_nat ((r + 32 * c) mod 2 ^ k)) (word_of_nat (r mod 2 ^ k)) n d =
      Some ((word_of_nat ((r + 32 * c) mod 2 ^ k), n + word_of_nat c),
            fold (\<lambda>i. visit hm dispatch cpu (word_of_nat ((r + 32 * i) mod 2 ^ k))) [0..<c] d)"
proof (induction c arbitrary: r n d)
  case 0
  then show ?case by (subst ih_walk_step) simp
next
  case (Suc c)
  have lt: "(x :: nat) mod 2 ^ k < 2 ^ 32" for x
  proof -
    have "x mod 2 ^ k < 2 ^ k" by simp
    also have "(2 :: nat) ^ k \<le> 2 ^ 32" using a(2) by (intro power_increasing) simp_all
    finally show ?thesis .
  qed
  have "r mod 2 ^ k \<noteq> (r + 32 * Suc c) mod 2 ^ k"
  proof
    assume "r mod 2 ^ k = (r + 32 * Suc c) mod 2 ^ k"
    then have "2 ^ k dvd (r + 32 * Suc c) - r" by (metis mod_eq_dvd_iff_nat le_add1)
    then have "2 ^ k dvd 32 * Suc c" by simp
    then have "2 ^ k \<le> 32 * Suc c" by (rule dvd_imp_le) simp
    with Suc.prems show False by simp
  qed
  moreover have "unat (word_of_nat (x mod 2 ^ k) :: u32) = x mod 2 ^ k" for x
    using lt [of x] by (simp add: unat_of_nat)
  ultimately have ne: "(word_of_nat (r mod 2 ^ k) :: u32) \<noteq> word_of_nat ((r + 32 * Suc c) mod 2 ^ k)"
    by metis
  have e: "r + 32 * Suc c = (r + 32) + 32 * c" by simp
  have "32 * c < 2 ^ k" using Suc.prems by simp
  note IH = Suc.IH [OF this, of "r + 32" "n + 1" "visit hm dispatch cpu (word_of_nat (r mod 2 ^ k)) d"]
  have "[0..<Suc c] = 0 # map Suc [0..<c]" by (simp only: map_Suc_upt upt_conv_Cons [OF zero_less_Suc])
  then have f: "fold (\<lambda>i. visit hm dispatch cpu (word_of_nat ((r + 32 * i) mod 2 ^ k))) [0..<Suc c] d =
      fold (\<lambda>i. visit hm dispatch cpu (word_of_nat ((r + 32 + 32 * i) mod 2 ^ k))) [0..<c]
        (visit hm dispatch cpu (word_of_nat (r mod 2 ^ k)) d)"
    by (simp only: fold_simps fold_map o_def) (simp add: add.assoc)
  have n: "n + 1 + word_of_nat c = n + word_of_nat (Suc c)" by simp
  show ?case
    unfolding ih_walk_step [of hm dispatch cpu "a - 1" "word_of_nat ((r + 32 * Suc c) mod 2 ^ k)" "word_of_nat (r mod 2 ^ k)"]
    by (simp only: ne if_False kIHEntryBytes_def mod_step [OF a]) (simp only: e IH f n)
qed

section \<open>The ring of a context\<close>

lemma ring_okD:
  assumes "ih_ring_ok ih"
  obtains k where "5 \<le> k" "k < 32" "unat (ring_size_bytes ih) = 2 ^ k" "ptr_mask ih = ring_size_bytes ih - 1"
    "unat (ih_rptr ih) < 2 ^ k" "32 dvd unat (ih_rptr ih)"
proof -
  have sz: "\<not> ring_size_bytes ih < 32" "ring_size_bytes ih AND (ring_size_bytes ih - 1) = 0"
    and m: "ptr_mask ih = ring_size_bytes ih - 1" and r: "\<not> ptr_mask ih < ih_rptr ih" "ih_rptr ih AND 31 = 0"
    using assms by (simp_all add: ih_ring_ok_def kIHEntryBytes_def)
  have ge: "32 \<le> unat (ring_size_bytes ih)" using sz(1) by (simp add: word_less_nat_alt)
  then have "ring_size_bytes ih \<noteq> 0" by auto
  with sz(2) have "is_pow2 (ring_size_bytes ih)" by (simp add: is_pow2_def)
  from is_pow2D [OF this] obtain k where k: "k < 32" "unat (ring_size_bytes ih) = 2 ^ k" by auto
  have "(2::nat) ^ 5 \<le> 2 ^ k" using ge k(2) by simp
  then have "5 \<le> k" by (rule power_le_imp_le_exp [rotated]) simp
  moreover have "unat (ptr_mask ih) = 2 ^ k - 1" using m k(2) by (subst m, subst unat_pred) simp_all
  then have "unat (ih_rptr ih) < 2 ^ k"
    using r(1) by (simp add: word_less_nat_alt not_less) (metis One_nat_def Suc_pred' le_imp_less_Suc zero_less_numeral zero_less_power)
  moreover have "32 dvd unat (ih_rptr ih)"
  proof -
    have "is_pow2 (32 :: u32)" by (simp add: is_pow2_def)
    from low_bits_zero_dvd [OF this, of "ih_rptr ih"] r(2) show ?thesis by simp
  qed
  ultimately show thesis using that k m by blast
qed

text \<open>The number of entries from the read pointer up to \<open>w\<close>, around the ring.\<close>

definition ring_entries :: "IHContext \<Rightarrow> u32 \<Rightarrow> nat" where
  "ring_entries ih w =
     (unat w + unat (ring_size_bytes ih) - unat (ih_rptr ih)) mod unat (ring_size_bytes ih) div 32"

text \<open>The read pointer's \<open>i\<close>th successor.\<close>

definition ring_slot :: "IHContext \<Rightarrow> nat \<Rightarrow> u32" where
  "ring_slot ih i = word_of_nat ((unat (ih_rptr ih) + 32 * i) mod unat (ring_size_bytes ih))"

lemma walk_ring:
  assumes ok: "ih_ring_ok ih" and w: "unat w < unat (ring_size_bytes ih)" "32 dvd unat w"
  shows "ih_walk hm dispatch cpu (ptr_mask ih) w (ih_rptr ih) n d =
      Some ((w, n + word_of_nat (ring_entries ih w)),
            fold (\<lambda>i. visit hm dispatch cpu (ring_slot ih i)) [0..<ring_entries ih w] d)"
    "32 * ring_entries ih w < unat (ring_size_bytes ih)"
proof -
  obtain k where k: "5 \<le> k" "k < 32" "unat (ring_size_bytes ih) = 2 ^ k" "ptr_mask ih = ring_size_bytes ih - 1"
    "unat (ih_rptr ih) < 2 ^ k" "32 dvd unat (ih_rptr ih)" by (rule ring_okD [OF ok])
  let ?c = "ring_entries ih w" and ?M = "2 ^ k :: nat" and ?r = "unat (ih_rptr ih)"
  have "(2::nat) ^ 5 dvd ?M" by (rule le_imp_power_dvd [OF k(1)])
  then have M: "32 dvd ?M" by simp
  have "32 dvd (unat w + ?M - ?r)" using w(2) k(6) M by (intro dvd_diff_nat dvd_add) simp_all
  then have "32 dvd (unat w + ?M - ?r) mod ?M" using M by (simp add: dvd_mod)
  then have c: "32 * ?c = (unat w + ?M - ?r) mod ?M" by (simp add: ring_entries_def k(3))
  show lt: "32 * ?c < unat (ring_size_bytes ih)" by (simp add: c k(3))
  have "(?r + 32 * ?c) mod ?M = (?r + (unat w + ?M - ?r)) mod ?M" by (simp add: c mod_simps)
  also have "?r + (unat w + ?M - ?r) = unat w + ?M" using k(5) by simp
  also have "(unat w + ?M) mod ?M = unat w" using w(1) k(3) by simp
  finally have e: "(?r + 32 * ?c) mod ?M = unat w" .
  have m: "?r mod ?M = ?r" using k(5) by simp
  show "ih_walk hm dispatch cpu (ptr_mask ih) w (ih_rptr ih) n d =
      Some ((w, n + word_of_nat ?c), fold (\<lambda>i. visit hm dispatch cpu (ring_slot ih i)) [0..<?c] d)"
    using ih_walk_spec [OF k(3,2) lt [unfolded k(3)], of hm dispatch cpu ?r n d]
    by (simp add: e m k(4) ring_slot_def k(3) del: upt_Suc)
qed

section \<open>The write pointer\<close>

lemma good_wptr:
  assumes "\<not> bad_wptr w" "x = w AND NOT 1 \<or> (x = w \<and> w AND 1 = 0)"
  shows "x AND 31 = 0"
proof -
  have w: "w AND 30 = 0" using assms(1) by (simp add: bad_wptr_def kIHEntryBytes_def)
  have "(31 :: u32) = 30 OR 1" by simp
  then have "x AND 31 = (x AND 30) OR (x AND 1)" by (simp only: bit.conj_disj_distrib)
  also have "x AND 30 = 0"
  proof -
    have "(w AND NOT 1) AND 30 = (w AND 30) AND NOT 1" by (simp only: and.assoc and.commute and.left_commute)
    then show ?thesis using assms(2) w by auto
  qed
  also have "x AND 1 = 0" using assms(2) by (auto simp: and.assoc)
  finally show ?thesis by simp
qed

lemma masked_aligned:
  assumes ok: "ih_ring_ok ih" and x: "x AND 31 = 0"
  shows "unat (x AND ptr_mask ih) < unat (ring_size_bytes ih)" "32 dvd unat (x AND ptr_mask ih)"
proof -
  obtain k where k: "5 \<le> k" "k < 32" "unat (ring_size_bytes ih) = 2 ^ k" "ptr_mask ih = ring_size_bytes ih - 1"
    by (rule ring_okD [OF ok])
  have u: "unat (x AND ptr_mask ih) = unat x mod 2 ^ k" using and_pred_pow2 [OF k(3), of x] k(2,4) by simp
  then show "unat (x AND ptr_mask ih) < unat (ring_size_bytes ih)" by (simp add: k(3))
  have "is_pow2 (32 :: u32)" by (simp add: is_pow2_def)
  from low_bits_zero_dvd [OF this, of x] x have "32 dvd unat x" by simp
  moreover have "(2::nat) ^ 5 dvd 2 ^ k" by (rule le_imp_power_dvd [OF k(1)])
  ultimately show "32 dvd unat (x AND ptr_mask ih)" by (simp add: u dvd_mod)
qed

lemma plus32_aligned: "x AND 31 = 0 \<Longrightarrow> (x + 32) AND 31 = (0 :: u32)"
proof -
  assume x: "x AND 31 = 0"
  have p: "is_pow2 (32 :: u32)" by (simp add: is_pow2_def)
  from low_bits_zero_dvd [OF p, of x] x have "32 dvd unat x" by simp
  then have "32 dvd (unat x + 32) mod 2 ^ 32" by (simp add: dvd_mod)
  then have "32 dvd unat (x + 32)" by (simp add: unat_word_ariths)
  from dvd_low_bits_zero [OF p] this show ?thesis by simp
qed

lemma ring_ok_at:
  assumes ok: "ih_ring_ok ih" and w: "unat w < unat (ring_size_bytes ih)" "32 dvd unat w"
  shows "ih_ring_ok (ih\<lparr>ih_rptr := w\<rparr>)"
proof -
  have "is_pow2 (32 :: u32)" by (simp add: is_pow2_def)
  from dvd_low_bits_zero [OF this, of w] w(2) have "w AND 31 = 0" by simp
  moreover have "\<not> ptr_mask ih < w"
  proof -
    obtain k where k: "unat (ring_size_bytes ih) = 2 ^ k" "ptr_mask ih = ring_size_bytes ih - 1"
      by (rule ring_okD [OF ok])
    have "unat (ptr_mask ih) = unat (ring_size_bytes ih) - 1" unfolding k(2) using k(1) by (subst unat_pred) simp_all
    then show ?thesis using w(1) by (simp add: word_less_nat_alt)
  qed
  ultimately show ?thesis using ok by (simp add: ih_ring_ok_def kIHEntryBytes_def)
qed

lemma ring_ok_skip:
  assumes ok: "ih_ring_ok ih" and x: "x AND 31 = 0"
  shows "ih_ring_ok (ih\<lparr>overflows_seen := n, ih_rptr := x AND ptr_mask ih\<rparr>)"
  using ring_ok_at [OF ok masked_aligned [OF ok x]] by (simp add: ih_ring_ok_def)

text \<open>What the walk starts from: a good write pointer and a good context.\<close>

lemma get_wptr_cases:
  assumes "ih_get_wptr dev hm ih d = ((Some w, ih'), d')"
  obtains (plain) v where "ih' = ih" "w = v AND ptr_mask ih" "v AND 31 = 0"
  | (overflow) v where "ih' = ih\<lparr>overflows_seen := overflows_seen ih + 1, ih_rptr := (v + 32) AND ptr_mask ih\<rparr>"
      "w = v AND ptr_mask ih" "v AND 31 = 0"
proof -
  obtain w0 d0 where r0: "(if wptr_shadow_cpu ih \<noteq> 0 then ld32 hm (wptr_shadow_cpu ih) d
      else RREG32 dev (ih_reg dev 0x0082) d) = (w0, d0)" by fastforce
  obtain w1 d1 where r1: "RREG32 dev (ih_reg dev 0x0082) d0 = (w1, d1)" by fastforce
  obtain c d2 where r2: "RREG32 dev (ih_reg dev 0x0080) d1 = (c, d2)" by fastforce
  note run = assms [unfolded ih_get_wptr_def Let_def r0, simplified r1 r2 prod.case]
  have g0: "\<not> bad_wptr w0" using run by (auto split: if_splits)
  show thesis
  proof (cases "w0 AND 1 = 0")
    case True
    with run g0 have "ih' = ih" "w = w0 AND ptr_mask ih" by auto
    moreover have "w0 AND 31 = 0" using good_wptr [OF g0, of w0] True by simp
    ultimately show thesis by (rule plain)
  next
    case False
    with run g0 have g1: "\<not> bad_wptr w1" by (auto split: if_splits)
    with run g0 False r2 have "ih' = ih\<lparr>overflows_seen := overflows_seen ih + 1,
          ih_rptr := ((w1 AND NOT 1) + 32) AND ptr_mask ih\<rparr>" "w = w1 AND NOT 1 AND ptr_mask ih"
      by (auto simp: and.assoc)
    moreover have "(w1 AND NOT 1) AND 31 = 0" using good_wptr [OF g1, of "w1 AND NOT 1"] by simp
    ultimately show thesis by (intro overflow [of "w1 AND NOT 1"]) (simp_all add: and.assoc)
  qed
qed

lemma get_wptr_ok:
  assumes ok: "ih_ring_ok ih" and run: "ih_get_wptr dev hm ih d = ((Some w, ih'), d')"
  shows "ih_ring_ok ih'" "unat w < unat (ring_size_bytes ih')" "32 dvd unat w"
    "ring_size_bytes ih' = ring_size_bytes ih" "ring_cpu ih' = ring_cpu ih" "ptr_mask ih' = ptr_mask ih"
    "entries_processed ih' = entries_processed ih"
proof -
  from run have "ih_ring_ok ih' \<and> unat w < unat (ring_size_bytes ih') \<and> 32 dvd unat w \<and>
    ring_size_bytes ih' = ring_size_bytes ih \<and> ring_cpu ih' = ring_cpu ih \<and> ptr_mask ih' = ptr_mask ih \<and>
    entries_processed ih' = entries_processed ih"
  proof (cases rule: get_wptr_cases)
    case (plain v)
    then show ?thesis using ok masked_aligned [OF ok plain(3)] by simp
  next
    case (overflow v)
    then show ?thesis using ring_ok_skip [OF ok plus32_aligned [OF overflow(3)]] masked_aligned [OF ok overflow(3)] by simp
  qed
  then show "ih_ring_ok ih'" "unat w < unat (ring_size_bytes ih')" "32 dvd unat w"
    "ring_size_bytes ih' = ring_size_bytes ih" "ring_cpu ih' = ring_cpu ih" "ptr_mask ih' = ptr_mask ih"
    "entries_processed ih' = entries_processed ih" by blast+
qed

section \<open>The drain\<close>

lemma drain_run:
  assumes ok: "ih_ring_ok ih" "ip_isResolved (dev_ip dev) OSSSYS"
    and w: "ih_get_wptr dev hm ih d = ((Some w, ih1), d1)"
  shows "ih_drain dev hm dispatch ih d =
    (let c = ring_entries ih1 w; d2 = fold (\<lambda>i. visit hm dispatch (ring_cpu ih) (ring_slot ih1 i)) [0..<c] d1
     in if c = 0 then Some ((0, ih1\<lparr>ih_rptr := w\<rparr>), d2)
        else Some ((word_of_nat c, ih1\<lparr>ih_rptr := w, entries_processed := entries_processed ih + word_of_nat c\<rparr>),
                   WREG32 dev (ih_reg dev 0x0081) w d2))"
    "32 * ring_entries ih1 w < unat (ring_size_bytes ih)" "ih_ring_ok (ih1\<lparr>ih_rptr := w\<rparr>)"
proof -
  note G = get_wptr_ok [OF ok(1) w]
  note W = walk_ring [OF G(1-3)]
  let ?c = "ring_entries ih1 w"
  show lt: "32 * ?c < unat (ring_size_bytes ih)" using W(2) by (simp add: G)
  have cw: "unat (word_of_nat ?c :: u32) = ?c"
  proof -
    have "?c < 4294967296" using lt unat_lt_32 [of "ring_size_bytes ih"] by linarith
    then show ?thesis by (simp add: unat_of_nat)
  qed
  have pos: "(0 :: u32) < word_of_nat ?c \<longleftrightarrow> ?c \<noteq> 0" by (simp add: word_less_nat_alt cw)
  have wide: "ucast (word_of_nat ?c :: u32) = (word_of_nat ?c :: u64)" 
    by (metis cw of_nat_unat unat_widen)
  show "ih_drain dev hm dispatch ih d =
    (let c = ?c; d2 = fold (\<lambda>i. visit hm dispatch (ring_cpu ih) (ring_slot ih1 i)) [0..<c] d1
     in if c = 0 then Some ((0, ih1\<lparr>ih_rptr := w\<rparr>), d2)
        else Some ((word_of_nat c, ih1\<lparr>ih_rptr := w, entries_processed := entries_processed ih + word_of_nat c\<rparr>),
                   WREG32 dev (ih_reg dev 0x0081) w d2))"
    using ok w W(1) [of hm dispatch "ring_cpu ih" 0 d1] pos wide G(5-7)
    by (simp add: ih_drain_def Let_def)
  show "ih_ring_ok (ih1\<lparr>ih_rptr := w\<rparr>)" by (rule ring_ok_at [OF G(1-3)])
qed

lemma drain_idle:
  assumes "\<not> (ih_ring_ok ih \<and> ip_isResolved (dev_ip dev) OSSSYS) \<or> ih_get_wptr dev hm ih d = ((None, ih1), d1)"
  shows "\<exists>ih' d'. ih_drain dev hm dispatch ih d = Some ((0, ih'), d') \<and> (ih' = ih \<or> ih' = ih1)"
  using assms by (auto simp: ih_drain_def)

lemma get_wptr_none:
  assumes "ih_get_wptr dev hm ih d = ((None, ih'), d')"
  shows "ih' = ih \<or> ih' = ih\<lparr>overflows_seen := overflows_seen ih + 1\<rparr>"
  using assms by (auto simp: ih_get_wptr_def Let_def split: prod.splits if_splits)

text \<open>A small ring for the witnesses.\<close>

definition demo_ih :: IHContext where
  "demo_ih = \<lparr>ih_inited = True, ih_enabled = True, ring_buf = None, ring_dma = None, wptr_shadow_buf = None,
     wptr_shadow_dma = None, ring_bus = 0, ring_cpu = 0x1000, ring_size_bytes = 128, ring_size_dwords = 32,
     ptr_mask = 127, wptr_shadow_bus = 0, wptr_shadow_cpu = 0x2000, ih_rptr = 96, entries_processed = 0,
     overflows_seen = 0\<rparr>"

definition demo_hm :: "ram hostmem" where
  "demo_hm = \<lparr>ld32 = \<lambda>a d. (fst d 9 a, d), st32 = \<lambda>a v d. d\<rparr>"

text \<open>
  C27. The interrupt handler cannot be trapped in the ring: whatever the device has written there and
  into the write pointer, a drain returns after handling fewer entries than the ring has, and the
  context stays one the next drain accepts.
\<close>

theorem ih_drain_returns:
  "\<exists>n ih' d'. ih_drain dev hm dispatch ih d = Some ((n, ih'), d') \<and>
     (n \<noteq> 0 \<longrightarrow> unat n * 32 < unat (ring_size_bytes ih)) \<and> (ih_ring_ok ih \<longrightarrow> ih_ring_ok ih')"
proof (cases "ih_ring_ok ih \<and> ip_isResolved (dev_ip dev) OSSSYS")
  case False
  then show ?thesis by (auto simp: ih_drain_def)
next
  case ok: True
  obtain w ih1 d1 where w: "ih_get_wptr dev hm ih d = ((w, ih1), d1)" by (metis prod.collapse)
  show ?thesis
  proof (cases w)
    case None
    then show ?thesis using w ok get_wptr_none [of dev hm ih d ih1 d1]
      by (auto simp: ih_drain_def ih_ring_ok_def)
  next
    case (Some x)
    note R = drain_run [OF conjunct1 [OF ok] conjunct2 [OF ok] w [unfolded Some]]
    have "unat (word_of_nat (ring_entries ih1 x) :: u32) = ring_entries ih1 x"
    proof -
      have "ring_entries ih1 x < 4294967296" using R(2) unat_lt_32 [of "ring_size_bytes ih"] by linarith
      then show ?thesis by (simp add: unat_of_nat)
    qed
    then show ?thesis using R by (auto simp: Let_def ih_ring_ok_def mult.commute)
  qed
qed

lemma ih_drain_returns_witness:
  "\<exists>n ih' d'. ih_drain ram_dev demo_hm None demo_ih (\<lambda>_ _. 32, 0) = Some ((n, ih'), d') \<and>
     (n \<noteq> 0 \<longrightarrow> unat n * 32 < 128)"
  using ih_drain_returns [of ram_dev demo_hm None demo_ih "(\<lambda>_ _. 32, 0)"] by (auto simp: demo_ih_def)

text \<open>
  C28. From a good write pointer the drain hands exactly the entries between the pointers to the
  dispatcher, oldest first, each once; the read pointer and the device's copy of it end at the write
  pointer. After an overflow it starts behind the write pointer and takes every slot but one.
\<close>

theorem ih_drain_in_order:
  assumes "ih_ring_ok ih" "ip_isResolved (dev_ip dev) OSSSYS"
    and "ih_get_wptr dev hm ih d = ((Some w, ih1), d1)"
  shows "ih_drain dev hm dispatch ih d =
      (let c = ring_entries ih1 w; d2 = fold (\<lambda>i. visit hm dispatch (ring_cpu ih) (ring_slot ih1 i)) [0..<c] d1
       in if c = 0 then Some ((0, ih1\<lparr>ih_rptr := w\<rparr>), d2)
          else Some ((word_of_nat c, ih1\<lparr>ih_rptr := w, entries_processed := entries_processed ih + word_of_nat c\<rparr>),
                     WREG32 dev (ih_reg dev 0x0081) w d2)) \<and>
    (overflows_seen ih1 \<noteq> overflows_seen ih \<longrightarrow>
       ih_rptr ih1 = (w + 32) AND ptr_mask ih \<and> 32 * ring_entries ih1 w + 32 = unat (ring_size_bytes ih))"
proof -
  have "ih_rptr ih1 = (w + 32) AND ptr_mask ih \<and> 32 * ring_entries ih1 w + 32 = unat (ring_size_bytes ih)"
    if "overflows_seen ih1 \<noteq> overflows_seen ih"
    using assms(3)
  proof (cases rule: get_wptr_cases)
    case (overflow v)
    obtain k where k: "5 \<le> k" "k < 32" "unat (ring_size_bytes ih) = 2 ^ k" "ptr_mask ih = ring_size_bytes ih - 1"
      by (rule ring_okD [OF assms(1)])
    have mask: "unat (x AND ptr_mask ih) = unat x mod 2 ^ k" for x
      using and_pred_pow2 [OF k(3), of x] k(2,4) by simp
    have M: "(2::nat) ^ k dvd 2 ^ 32" using k(2) by (intro le_imp_power_dvd) simp
    have plus: "unat ((x + 32) AND ptr_mask ih) = (unat x + 32) mod 2 ^ k" for x
      unfolding mask using M by (simp add: unat_word_ariths mod_mod_cancel)
    have w: "unat w = unat v mod 2 ^ k" by (simp add: overflow(2) mask)
    have r: "unat (ih_rptr ih1) = (unat w + 32) mod 2 ^ k" by (simp add: overflow(1) plus w mod_simps)
    then have "ih_rptr ih1 = (w + 32) AND ptr_mask ih" by (simp add: word_unat_eq_iff plus)
    moreover have "32 * ring_entries ih1 w + 32 = 2 ^ k"
    proof -
      note A = masked_aligned [OF assms(1) overflow(3), folded overflow(2), unfolded k(3)]
      have "(2::nat) ^ 5 dvd 2 ^ k" by (rule le_imp_power_dvd [OF k(1)])
      then obtain m where m: "(2::nat) ^ k = 32 * m" by (auto elim!: dvdE)
      obtain j where j: "unat w = 32 * j" using A(2) by blast
      have "j < m" using A(1) j m by simp
      have e: "ring_entries ih1 w = (32 * j + 32 * m - (32 * j + 32) mod (32 * m)) mod (32 * m) div 32"
      proof -
        have "ring_size_bytes ih1 = ring_size_bytes ih" by (simp add: overflow(1))
        then show ?thesis unfolding ring_entries_def r k(3) j m by (simp add: k(3) m)
      qed
      show ?thesis
      proof (cases "Suc j = m")
        case True
        have "(32 * j + 32) mod (32 * m) = 0" unfolding True [symmetric] by (simp add: add.commute)
        moreover have "(32 * j + 32 * m) mod (32 * m) = 32 * j" using \<open>j < m\<close> by simp
        ultimately have "ring_entries ih1 w = j" by (simp add: e)
        then show ?thesis unfolding m True [symmetric] by simp
      next
        case False
        then have lt: "Suc j < m" using \<open>j < m\<close> by simp
        then have "32 * j + 32 * m - (32 * j + 32) mod (32 * m) = 32 * (m - 1)" by simp
        then show ?thesis using e m lt by simp
      qed
    qed
    ultimately show ?thesis by (simp add: k(3))
  qed (use that in simp)
  then show ?thesis using drain_run(1) [OF assms] by simp
qed

lemma ih_drain_in_order_witness:
  "\<exists>d2. ih_drain ram_dev demo_hm None demo_ih (\<lambda>_ _. 32, 0) =
    Some ((2, demo_ih\<lparr>ih_rptr := 32, entries_processed := 2\<rparr>), d2)"
proof -
  have ok: "ih_ring_ok demo_ih" by (simp add: ih_ring_ok_def demo_ih_def kIHEntryBytes_def)
  have res: "ip_isResolved (dev_ip ram_dev) OSSSYS" by (simp add: ip_isResolved_def ram_dev_def)
  have w: "ih_get_wptr ram_dev demo_hm demo_ih (\<lambda>_ _. 32, 0) = ((Some 32, demo_ih), (\<lambda>_ _. 32, 0))"
    by (simp add: ih_get_wptr_def demo_ih_def demo_hm_def bad_wptr_def kIHEntryBytes_def)
  have c: "ring_entries demo_ih 32 = 2" by (simp add: ring_entries_def demo_ih_def)
  from ih_drain_in_order [OF ok res w, of None] show ?thesis
    by (simp add: c Let_def) (simp add: demo_ih_def)
qed

end
