(* ===== verification/Mes_Packets.thy ===== *)
theory Mes_Packets
  imports Vram_IO
begin

text \<open>
  \<^verbatim>\<open>dext/amdgpu/amdgpu_mes_packets.h\<close>, the packets of \<^verbatim>\<open>amdgpu_mes.h\<close> and \<^verbatim>\<open>amdgpu_mes_resources.h\<close>:
  the messages to the MicroEngine Scheduler as records, and the 64 dwords each of them is on the
  ring. The natural alignment of the C++ structs is written out in the frames.
\<close>

section \<open>Headers and operations\<close>

definition kMES_API_FRAME_DWORDS :: u32 where "kMES_API_FRAME_DWORDS = 64"
definition kMES_API_TYPE_SCHEDULER :: u32 where "kMES_API_TYPE_SCHEDULER = 1"

datatype MESSchOp = SET_HW_RSRC | SET_SCHEDULING_CONFIG | ADD_QUEUE | REMOVE_QUEUE
  | QUERY_SCHEDULER_STATUS | SET_HW_RSRC_1

primrec opcode_of :: "MESSchOp \<Rightarrow> u32" where
  "opcode_of SET_HW_RSRC = 0"
| "opcode_of SET_SCHEDULING_CONFIG = 1"
| "opcode_of ADD_QUEUE = 2"
| "opcode_of REMOVE_QUEUE = 3"
| "opcode_of QUERY_SCHEDULER_STATUS = 11"
| "opcode_of SET_HW_RSRC_1 = 19"

definition mes_api_header :: "u32 \<Rightarrow> u32 \<Rightarrow> u32 \<Rightarrow> u32" where
  "mes_api_header type opcode dwsize =
     (type AND 0xF) OR push_bit 4 (opcode AND 0xFF) OR push_bit 12 (dwsize AND 0xFF)"

text \<open>The header every message of the driver carries.\<close>

definition scheduler_header :: "MESSchOp \<Rightarrow> u32" where
  "scheduler_header op = mes_api_header kMES_API_TYPE_SCHEDULER (opcode_of op) kMES_API_FRAME_DWORDS"

section \<open>Messages\<close>

record MES_API_Status =
  fence_addr :: u64
  fence_value :: u64

definition status_zero :: MES_API_Status where
  "status_zero = \<lparr>fence_addr = 0, fence_value = 0\<rparr>"

definition status_dwords :: "MES_API_Status \<Rightarrow> u32 list" where
  "status_dwords s = dw64 (fence_addr s) @ dw64 (fence_value s)"

record MES_QueryStatus =
  qs_header :: u32
  qs_api_status :: MES_API_Status

record MES_SetHwResources =
  hw_header :: u32
  vmid_mask_mmhub :: u32
  vmid_mask_gfxhub :: u32
  gds_size :: u32
  paging_vmid :: u32
  compute_hqd_mask :: "u32 list"
  gfx_hqd_mask :: "u32 list"
  sdma_hqd_mask :: "u32 list"
  aggregated_doorbells :: "u32 list"
  g_sch_ctx_gpu_mc_ptr :: u64
  query_status_fence_gpu_mc_ptr :: u64
  gc_base :: "u32 list"
  mmhub_base :: "u32 list"
  osssys_base :: "u32 list"
  hw_api_status :: MES_API_Status
  hw_flags :: u32
  oversubscription_timer :: u32

record MES_SetHwResources1 =
  hw1_header :: u32
  hw1_api_status :: MES_API_Status
  mes_kiq_unmap_timeout :: u32
  cleaner_shader_fence_mc_addr :: u64

record MES_AddQueue =
  aq_header :: u32
  aq_process_id :: u32
  aq_page_table_base_addr :: u64
  aq_process_va_start :: u64
  aq_process_va_end :: u64
  aq_process_quantum :: u64
  aq_process_context_addr :: u64
  aq_gang_quantum :: u64
  aq_gang_context_addr :: u64
  aq_inprocess_gang_priority :: u32
  aq_gang_global_priority_level :: u32
  aq_doorbell_offset :: u32
  aq_mqd_addr :: u64
  aq_wptr_addr :: u64
  aq_queue_type :: u32
  aq_flags :: u32
  aq_api_status :: MES_API_Status
  aq_pipe_id :: u32
  aq_queue_id :: u32

record MES_RemoveQueue =
  rq_header :: u32
  rq_doorbell_offset :: u32
  rq_flags :: u32
  rq_api_status :: MES_API_Status
  rq_pipe_id :: u32
  rq_queue_id :: u32
  rq_queue_type :: u32

text \<open>The zero-initialised messages; fields no operation sets are zero and have no record field.\<close>

definition query_zero :: MES_QueryStatus where
  "query_zero = \<lparr>qs_header = 0, qs_api_status = status_zero\<rparr>"

definition hw_resources_zero :: MES_SetHwResources where
  "hw_resources_zero = \<lparr>hw_header = 0, vmid_mask_mmhub = 0, vmid_mask_gfxhub = 0, gds_size = 0,
     paging_vmid = 0, compute_hqd_mask = replicate 8 0, gfx_hqd_mask = replicate 2 0,
     sdma_hqd_mask = replicate 2 0, aggregated_doorbells = replicate 5 0, g_sch_ctx_gpu_mc_ptr = 0,
     query_status_fence_gpu_mc_ptr = 0, gc_base = replicate 8 0, mmhub_base = replicate 8 0,
     osssys_base = replicate 8 0, hw_api_status = status_zero, hw_flags = 0, oversubscription_timer = 0\<rparr>"

definition hw_resources_1_zero :: MES_SetHwResources1 where
  "hw_resources_1_zero = \<lparr>hw1_header = 0, hw1_api_status = status_zero, mes_kiq_unmap_timeout = 0,
     cleaner_shader_fence_mc_addr = 0\<rparr>"

definition add_queue_zero :: MES_AddQueue where
  "add_queue_zero = \<lparr>aq_header = 0, aq_process_id = 0, aq_page_table_base_addr = 0,
     aq_process_va_start = 0, aq_process_va_end = 0, aq_process_quantum = 0,
     aq_process_context_addr = 0, aq_gang_quantum = 0, aq_gang_context_addr = 0,
     aq_inprocess_gang_priority = 0, aq_gang_global_priority_level = 0, aq_doorbell_offset = 0,
     aq_mqd_addr = 0, aq_wptr_addr = 0, aq_queue_type = 0, aq_flags = 0, aq_api_status = status_zero,
     aq_pipe_id = 0, aq_queue_id = 0\<rparr>"

definition remove_queue_zero :: MES_RemoveQueue where
  "remove_queue_zero = \<lparr>rq_header = 0, rq_doorbell_offset = 0, rq_flags = 0,
     rq_api_status = status_zero, rq_pipe_id = 0, rq_queue_id = 0, rq_queue_type = 0\<rparr>"

section \<open>Frames\<close>

text \<open>
  The struct in memory, dword by dword, and \<^verbatim>\<open>offsetof(..., api_status) / 4\<close>. A dword of padding is a
  zero: every message starts from a cleared struct.
\<close>

definition query_frame :: "MES_QueryStatus \<Rightarrow> u32 list" where
  "query_frame q = [qs_header q, 0] @ status_dwords (qs_api_status q) @ replicate 58 0"

definition query_status_dw :: u32 where "query_status_dw = 2"

definition hw_resources_frame :: "MES_SetHwResources \<Rightarrow> u32 list" where
  "hw_resources_frame p =
     [hw_header p, vmid_mask_mmhub p, vmid_mask_gfxhub p, gds_size p, paging_vmid p] @
     compute_hqd_mask p @ gfx_hqd_mask p @ sdma_hqd_mask p @ aggregated_doorbells p @
     dw64 (g_sch_ctx_gpu_mc_ptr p) @ dw64 (query_status_fence_gpu_mc_ptr p) @
     gc_base p @ mmhub_base p @ osssys_base p @ status_dwords (hw_api_status p) @
     [hw_flags p, oversubscription_timer p] @ replicate 8 0"

definition hw_resources_status_dw :: u32 where "hw_resources_status_dw = 50"

definition hw_resources_1_frame :: "MES_SetHwResources1 \<Rightarrow> u32 list" where
  "hw_resources_1_frame p =
     [hw1_header p, 0] @ status_dwords (hw1_api_status p) @ replicate 7 0 @
     [mes_kiq_unmap_timeout p] @ replicate 2 0 @ dw64 (cleaner_shader_fence_mc_addr p) @ replicate 46 0"

definition hw_resources_1_status_dw :: u32 where "hw_resources_1_status_dw = 2"

definition add_queue_frame :: "MES_AddQueue \<Rightarrow> u32 list" where
  "add_queue_frame p =
     [aq_header p, aq_process_id p] @ dw64 (aq_page_table_base_addr p) @ dw64 (aq_process_va_start p) @
     dw64 (aq_process_va_end p) @ dw64 (aq_process_quantum p) @ dw64 (aq_process_context_addr p) @
     dw64 (aq_gang_quantum p) @ dw64 (aq_gang_context_addr p) @
     [aq_inprocess_gang_priority p, aq_gang_global_priority_level p, aq_doorbell_offset p, 0] @
     dw64 (aq_mqd_addr p) @ dw64 (aq_wptr_addr p) @ replicate 4 0 @ [aq_queue_type p] @ replicate 8 0 @
     [aq_flags p] @ status_dwords (aq_api_status p) @ replicate 8 0 @
     [aq_pipe_id p, aq_queue_id p] @ replicate 12 0"

definition add_queue_status_dw :: u32 where "add_queue_status_dw = 38"

definition remove_queue_frame :: "MES_RemoveQueue \<Rightarrow> u32 list" where
  "remove_queue_frame p =
     [rq_header p, rq_doorbell_offset p, 0, 0, rq_flags p, 0] @ status_dwords (rq_api_status p) @
     [rq_pipe_id p, rq_queue_id p, 0, 0, 0, rq_queue_type p] @ replicate 48 0"

definition remove_queue_status_dw :: u32 where "remove_queue_status_dw = 6"

section \<open>Builders\<close>

text \<open>\<open>None\<close> is \<^verbatim>\<open>return false\<close>.\<close>

definition mes_build_legacy_unmap :: "u32 \<Rightarrow> u32 \<Rightarrow> u32 \<Rightarrow> u32 \<Rightarrow> MES_RemoveQueue option" where
  "mes_build_legacy_unmap queueType pipe queue doorbell =
     (if 2 < queueType \<or> 4 \<le> pipe \<or> 8 \<le> queue \<or> doorbell AND 1 \<noteq> 0 \<or> 0x03FFFFFE < doorbell then None
      else Some (remove_queue_zero\<lparr>rq_header := scheduler_header REMOVE_QUEUE,
        rq_doorbell_offset := doorbell, rq_flags := push_bit 3 1,
        rq_pipe_id := pipe, rq_queue_id := queue, rq_queue_type := queueType\<rparr>))"

text \<open>Unused segments stay zero: the driver's marker for an unresolved base is not exported.\<close>

definition exported_base :: "IPBaseTable \<Rightarrow> IPBlock \<Rightarrow> nat \<Rightarrow> u32" where
  "exported_base ip b i = (let value = ip_getBase ip b (int i) in if value = 0xFFFFFFFF then 0 else value)"

definition export_bases :: "IPBaseTable \<Rightarrow> IPBlock \<Rightarrow> u32 list \<Rightarrow> u32 list" where
  "export_bases ip b old = map (exported_base ip b) [0..<5] @ drop 5 old"

definition mes_set_register_bases :: "IPBaseTable \<Rightarrow> MES_SetHwResources \<Rightarrow> MES_SetHwResources option" where
  "mes_set_register_bases ip p =
     (if \<not> ip_isResolved ip GC \<or> \<not> ip_isResolvedIdx ip GC 1 \<or> \<not> ip_isResolved ip MMHUB \<or>
         \<not> ip_isResolved ip OSSSYS
      then None
      else Some (p\<lparr>gc_base := export_bases ip GC (gc_base p),
        mmhub_base := export_bases ip MMHUB (mmhub_base p),
        osssys_base := export_bases ip OSSSYS (osssys_base p)\<rparr>))"

section \<open>The layout of the frames\<close>

text \<open>The arrays of a \<open>MES_SetHwResources\<close> have their declared lengths.\<close>

definition hw_resources_typed :: "MES_SetHwResources \<Rightarrow> bool" where
  "hw_resources_typed p \<longleftrightarrow> length (compute_hqd_mask p) = 8 \<and> length (gfx_hqd_mask p) = 2 \<and>
     length (sdma_hqd_mask p) = 2 \<and> length (aggregated_doorbells p) = 5 \<and>
     length (gc_base p) = 8 \<and> length (mmhub_base p) = 8 \<and> length (osssys_base p) = 8"

lemmas frame_defs = query_frame_def hw_resources_frame_def hw_resources_1_frame_def
  add_queue_frame_def remove_queue_frame_def status_dwords_def

lemma length_frames [simp]:
  "length (query_frame q) = 64" "length (hw_resources_1_frame p1) = 64"
  "length (add_queue_frame a) = 64" "length (remove_queue_frame r) = 64"
  "hw_resources_typed p \<Longrightarrow> length (hw_resources_frame p) = 64"
  by (simp_all add: frame_defs hw_resources_typed_def)

text \<open>The status of a frame, read back at the offset the code passes.\<close>

definition status_at :: "u32 list \<Rightarrow> u32 \<Rightarrow> u32 list" where
  "status_at ws dw = take 4 (drop (unat dw) ws)"

lemma status_at_frames:
  "status_at (query_frame q) query_status_dw = status_dwords (qs_api_status q)"
  "status_at (hw_resources_1_frame p1) hw_resources_1_status_dw = status_dwords (hw1_api_status p1)"
  "status_at (add_queue_frame a) add_queue_status_dw = status_dwords (aq_api_status a)"
  "status_at (remove_queue_frame r) remove_queue_status_dw = status_dwords (rq_api_status r)"
  "hw_resources_typed p \<Longrightarrow>
     status_at (hw_resources_frame p) hw_resources_status_dw = status_dwords (hw_api_status p)"
  by (simp_all add: status_at_def frame_defs hw_resources_typed_def query_status_dw_def
      hw_resources_status_dw_def hw_resources_1_status_dw_def add_queue_status_dw_def
      remove_queue_status_dw_def dw64_def)

lemma set_bases_typed:
  "mes_set_register_bases ip p = Some p' \<Longrightarrow> hw_resources_typed p \<Longrightarrow> hw_resources_typed p'"
  by (auto simp: mes_set_register_bases_def hw_resources_typed_def export_bases_def split: if_splits)

lemma hw_resources_zero_typed: "hw_resources_typed hw_resources_zero"
  by (simp add: hw_resources_typed_def hw_resources_zero_def)

end
