(* ===== verification/Mes_Regs.thy ===== *)
theory Mes_Regs
  imports Mes_Packets Gmc_Init
begin

text \<open>
  \<^verbatim>\<open>dext/amdgpu/amdgpu_mes_registers.h\<close> and the register part of \<^verbatim>\<open>amdgpu_mes.h\<close>: the registers of the
  MicroEngine Scheduler and of the hardware queue descriptor (HQD), their fields and defaults, and
  the selection of an engine, pipe and queue for the registers that are banked.
\<close>

section \<open>Registers\<close>

datatype MESRegister =
    GRBM_GFX_CNTL | CP_MES_PRGRM_CNTR_START | CP_MES_INTR_ROUTINE_START | CP_MES_CNTL
  | CP_MES_PIPE0_PRIORITY | CP_MES_INSTR_PNTR | CP_MES_MSCRATCH_HI | CP_MES_MSCRATCH_LO
  | CP_MES_PRGRM_CNTR_START_HI | CP_MES_IC_BASE_LO | CP_MES_IC_BASE_HI | CP_MES_DC_BASE_LO
  | CP_MES_DC_BASE_HI | CP_MQD_BASE_ADDR | CP_MQD_BASE_ADDR_HI | CP_HQD_ACTIVE | CP_HQD_VMID
  | CP_HQD_PERSISTENT_STATE | CP_HQD_PQ_BASE | CP_HQD_PQ_BASE_HI | CP_HQD_PQ_RPTR
  | CP_HQD_PQ_RPTR_REPORT_ADDR | CP_HQD_PQ_RPTR_REPORT_ADDR_HI | CP_HQD_PQ_WPTR_POLL_ADDR
  | CP_HQD_PQ_WPTR_POLL_ADDR_HI | CP_HQD_PQ_DOORBELL_CONTROL | CP_HQD_PQ_CONTROL
  | CP_HQD_EOP_BASE_ADDR | CP_HQD_EOP_BASE_ADDR_HI | CP_HQD_EOP_CONTROL | CP_HQD_PQ_WPTR_LO
  | CP_HQD_PQ_WPTR_HI | CP_MQD_CONTROL | CP_HQD_GFX_CONTROL | CP_UNMAPPED_DOORBELL
  | CP_MES_DOORBELL_CONTROL1 | CP_MES_DOORBELL_CONTROL2 | CP_MES_DOORBELL_CONTROL3
  | CP_MES_DOORBELL_CONTROL4 | CP_MES_DOORBELL_CONTROL5 | RLC_CP_SCHEDULERS
  | CP_MES_MSCRATCH_LO_OFFSET | CP_MES_MSCRATCH_HI_OFFSET | CP_MES_GP3_LO
  | GCVM_L2_PROTECTION_FAULT_STATUS_LO32 | GCVM_L2_PROTECTION_FAULT_STATUS_HI32
  | GCVM_L2_PROTECTION_FAULT_ADDR_LO32 | GCVM_L2_PROTECTION_FAULT_ADDR_HI32

text \<open>Offset and segment index.\<close>

primrec mes_register :: "MESRegister \<Rightarrow> u32 \<times> int" where
  "mes_register GRBM_GFX_CNTL = (0x0900, 1)"
| "mes_register CP_MES_PRGRM_CNTR_START = (0x2800, 1)"
| "mes_register CP_MES_INTR_ROUTINE_START = (0x2801, 1)"
| "mes_register CP_MES_CNTL = (0x2807, 1)"
| "mes_register CP_MES_PIPE0_PRIORITY = (0x2809, 1)"
| "mes_register CP_MES_INSTR_PNTR = (0x2813, 1)"
| "mes_register CP_MES_MSCRATCH_HI = (0x2814, 1)"
| "mes_register CP_MES_MSCRATCH_LO = (0x2815, 1)"
| "mes_register CP_MES_PRGRM_CNTR_START_HI = (0x289D, 1)"
| "mes_register CP_MES_IC_BASE_LO = (0x5850, 1)"
| "mes_register CP_MES_IC_BASE_HI = (0x5851, 1)"
| "mes_register CP_MES_DC_BASE_LO = (0x5854, 1)"
| "mes_register CP_MES_DC_BASE_HI = (0x5855, 1)"
| "mes_register CP_MQD_BASE_ADDR = (0x1FA9, 0)"
| "mes_register CP_MQD_BASE_ADDR_HI = (0x1FAA, 0)"
| "mes_register CP_HQD_ACTIVE = (0x1FAB, 0)"
| "mes_register CP_HQD_VMID = (0x1FAC, 0)"
| "mes_register CP_HQD_PERSISTENT_STATE = (0x1FAD, 0)"
| "mes_register CP_HQD_PQ_BASE = (0x1FB1, 0)"
| "mes_register CP_HQD_PQ_BASE_HI = (0x1FB2, 0)"
| "mes_register CP_HQD_PQ_RPTR = (0x1FB3, 0)"
| "mes_register CP_HQD_PQ_RPTR_REPORT_ADDR = (0x1FB4, 0)"
| "mes_register CP_HQD_PQ_RPTR_REPORT_ADDR_HI = (0x1FB5, 0)"
| "mes_register CP_HQD_PQ_WPTR_POLL_ADDR = (0x1FB6, 0)"
| "mes_register CP_HQD_PQ_WPTR_POLL_ADDR_HI = (0x1FB7, 0)"
| "mes_register CP_HQD_PQ_DOORBELL_CONTROL = (0x1FB8, 0)"
| "mes_register CP_HQD_PQ_CONTROL = (0x1FBA, 0)"
| "mes_register CP_HQD_EOP_BASE_ADDR = (0x1FCE, 0)"
| "mes_register CP_HQD_EOP_BASE_ADDR_HI = (0x1FCF, 0)"
| "mes_register CP_HQD_EOP_CONTROL = (0x1FD0, 0)"
| "mes_register CP_HQD_PQ_WPTR_LO = (0x1FDF, 0)"
| "mes_register CP_HQD_PQ_WPTR_HI = (0x1FE0, 0)"
| "mes_register CP_MQD_CONTROL = (0x1FCB, 0)"
| "mes_register CP_HQD_GFX_CONTROL = (0x1E9F, 0)"
| "mes_register CP_UNMAPPED_DOORBELL = (0x0880, 1)"
| "mes_register CP_MES_DOORBELL_CONTROL1 = (0x283C, 1)"
| "mes_register CP_MES_DOORBELL_CONTROL2 = (0x283D, 1)"
| "mes_register CP_MES_DOORBELL_CONTROL3 = (0x283E, 1)"
| "mes_register CP_MES_DOORBELL_CONTROL4 = (0x283F, 1)"
| "mes_register CP_MES_DOORBELL_CONTROL5 = (0x2840, 1)"
| "mes_register RLC_CP_SCHEDULERS = (0x098A, 1)"
| "mes_register CP_MES_MSCRATCH_LO_OFFSET = (0x2815, 1)"
| "mes_register CP_MES_MSCRATCH_HI_OFFSET = (0x2814, 1)"
| "mes_register CP_MES_GP3_LO = (0x2849, 1)"
| "mes_register GCVM_L2_PROTECTION_FAULT_STATUS_LO32 = (0x15D0, 0)"
| "mes_register GCVM_L2_PROTECTION_FAULT_STATUS_HI32 = (0x15D1, 0)"
| "mes_register GCVM_L2_PROTECTION_FAULT_ADDR_LO32 = (0x15D2, 0)"
| "mes_register GCVM_L2_PROTECTION_FAULT_ADDR_HI32 = (0x15D3, 0)"

definition mes_reg :: "'d DeviceContext \<Rightarrow> MESRegister \<Rightarrow> u32" where
  "mes_reg dev r = SOC15_REG_OFFSET_BIDX dev GC (snd (mes_register r)) (fst (mes_register r))"

definition mes_rreg :: "'d DeviceContext \<Rightarrow> MESRegister \<Rightarrow> 'd \<Rightarrow> u32 \<times> 'd" where
  "mes_rreg dev r = RREG32 dev (mes_reg dev r)"

definition mes_wreg :: "'d DeviceContext \<Rightarrow> MESRegister \<Rightarrow> u32 \<Rightarrow> 'd \<Rightarrow> 'd" where
  "mes_wreg dev r = WREG32 dev (mes_reg dev r)"

text \<open>A read, a change and the write back; a run of writes.\<close>

definition mes_modify :: "'d DeviceContext \<Rightarrow> MESRegister \<Rightarrow> (u32 \<Rightarrow> u32) \<Rightarrow> 'd \<Rightarrow> 'd" where
  "mes_modify dev r f d = (let (v, d) = mes_rreg dev r d in mes_wreg dev r (f v) d)"

definition mes_writes :: "'d DeviceContext \<Rightarrow> (MESRegister \<times> u32) list \<Rightarrow> 'd \<Rightarrow> 'd" where
  "mes_writes dev rs d = foldl (\<lambda>d (r, v). mes_wreg dev r v d) d rs"

section \<open>Fields and defaults\<close>

definition CP_UNMAPPED_DOORBELL__ENABLE :: field where "CP_UNMAPPED_DOORBELL__ENABLE = (0x00000001, 0x0)"
definition CP_UNMAPPED_DOORBELL__PROC_LSB :: field where "CP_UNMAPPED_DOORBELL__PROC_LSB = (0x00001F00, 0x8)"
definition CP_MES_DOORBELL_CONTROL1__DOORBELL_OFFSET :: field where "CP_MES_DOORBELL_CONTROL1__DOORBELL_OFFSET = (0x0FFFFFFC, 0x2)"
definition CP_MES_DOORBELL_CONTROL1__DOORBELL_EN :: field where "CP_MES_DOORBELL_CONTROL1__DOORBELL_EN = (0x40000000, 0x1E)"
definition CP_MES_DOORBELL_CONTROL1__DOORBELL_HIT_MASK :: u32 where "CP_MES_DOORBELL_CONTROL1__DOORBELL_HIT_MASK = 0x80000000"
definition CP_HQD_GFX_CONTROL__DB_UPDATED_MSG_EN :: field where "CP_HQD_GFX_CONTROL__DB_UPDATED_MSG_EN = (0x00008000, 0xF)"
definition CP_HQD_PQ_CONTROL__QUEUE_SIZE :: field where "CP_HQD_PQ_CONTROL__QUEUE_SIZE = (0x0000003F, 0x0)"
definition CP_HQD_PQ_CONTROL__RPTR_BLOCK_SIZE :: field where "CP_HQD_PQ_CONTROL__RPTR_BLOCK_SIZE = (0x00003F00, 0x8)"
definition CP_HQD_PQ_CONTROL__NO_UPDATE_RPTR :: field where "CP_HQD_PQ_CONTROL__NO_UPDATE_RPTR = (0x08000000, 0x1B)"
definition CP_HQD_PQ_CONTROL__UNORD_DISPATCH :: field where "CP_HQD_PQ_CONTROL__UNORD_DISPATCH = (0x10000000, 0x1C)"
definition CP_HQD_PQ_CONTROL__TUNNEL_DISPATCH :: field where "CP_HQD_PQ_CONTROL__TUNNEL_DISPATCH = (0x20000000, 0x1D)"
definition CP_HQD_PQ_CONTROL__PRIV_STATE :: field where "CP_HQD_PQ_CONTROL__PRIV_STATE = (0x40000000, 0x1E)"
definition CP_HQD_PQ_CONTROL__KMD_QUEUE :: field where "CP_HQD_PQ_CONTROL__KMD_QUEUE = (0x80000000, 0x1F)"
definition CP_HQD_PQ_DOORBELL_CONTROL__DOORBELL_OFFSET :: field where "CP_HQD_PQ_DOORBELL_CONTROL__DOORBELL_OFFSET = (0x0FFFFFFC, 0x2)"
definition CP_HQD_PQ_DOORBELL_CONTROL__DOORBELL_EN :: field where "CP_HQD_PQ_DOORBELL_CONTROL__DOORBELL_EN = (0x40000000, 0x1E)"
definition CP_HQD_PERSISTENT_STATE__PRELOAD_SIZE :: field where "CP_HQD_PERSISTENT_STATE__PRELOAD_SIZE = (0x0003FF00, 0x8)"
definition CP_HQD_VMID__VMID :: field where "CP_HQD_VMID__VMID = (0x0000000F, 0x0)"
definition CP_MQD_CONTROL__VMID :: field where "CP_MQD_CONTROL__VMID = (0x0000000F, 0x0)"
definition kCP_HQD_PQ_CONTROL_DEFAULT :: u32 where "kCP_HQD_PQ_CONTROL_DEFAULT = 0x00308509"
definition kCP_HQD_PERSISTENT_STATE_DEFAULT :: u32 where "kCP_HQD_PERSISTENT_STATE_DEFAULT = 0x0BE05501"
definition kCP_MQD_CONTROL_DEFAULT :: u32 where "kCP_MQD_CONTROL_DEFAULT = 0x00000100"
definition kCP_HQD_EOP_CONTROL_DEFAULT :: u32 where "kCP_HQD_EOP_CONTROL_DEFAULT = 0x00000006"
definition CP_MES_CNTL__MES_INVALIDATE_ICACHE :: field where "CP_MES_CNTL__MES_INVALIDATE_ICACHE = (0x00000010, 0x4)"
definition CP_MES_CNTL__MES_PIPE0_RESET :: field where "CP_MES_CNTL__MES_PIPE0_RESET = (0x00010000, 0x10)"
definition CP_MES_CNTL__MES_PIPE1_RESET :: field where "CP_MES_CNTL__MES_PIPE1_RESET = (0x00020000, 0x11)"
definition CP_MES_CNTL__MES_PIPE0_ACTIVE :: field where "CP_MES_CNTL__MES_PIPE0_ACTIVE = (0x04000000, 0x1A)"
definition CP_MES_CNTL__MES_PIPE1_ACTIVE :: field where "CP_MES_CNTL__MES_PIPE1_ACTIVE = (0x08000000, 0x1B)"
definition CP_MES_CNTL__MES_HALT :: field where "CP_MES_CNTL__MES_HALT = (0x40000000, 0x1E)"
definition GRBM_GFX_CNTL__PIPEID :: field where "GRBM_GFX_CNTL__PIPEID = (0x00000003, 0x0)"
definition GRBM_GFX_CNTL__MEID :: field where "GRBM_GFX_CNTL__MEID = (0x0000000C, 0x2)"
definition GRBM_GFX_CNTL__VMID :: field where "GRBM_GFX_CNTL__VMID = (0x000000F0, 0x4)"
definition GRBM_GFX_CNTL__QUEUEID :: field where "GRBM_GFX_CNTL__QUEUEID = (0x00000700, 0x8)"

definition grbm_select :: "'d DeviceContext \<Rightarrow> u32 \<Rightarrow> u32 \<Rightarrow> u32 \<Rightarrow> u32 \<Rightarrow> 'd \<Rightarrow> 'd" where
  "grbm_select dev me p q vmid d =
     (if \<not> ip_isResolvedIdx (dev_ip dev) GC 1 then d
      else mes_wreg dev GRBM_GFX_CNTL
             (set_fields 0 [(GRBM_GFX_CNTL__PIPEID, p), (GRBM_GFX_CNTL__MEID, me),
                (GRBM_GFX_CNTL__QUEUEID, q), (GRBM_GFX_CNTL__VMID, vmid)]) d)"

text \<open>The guard of every operation that touches the registers.\<close>

definition gc_resolved :: "'d DeviceContext \<Rightarrow> bool" where
  "gc_resolved dev \<longleftrightarrow> ip_isResolved (dev_ip dev) GC \<and> ip_isResolvedIdx (dev_ip dev) GC 1"

end
