(* ===== verification/Mes.thy ===== *)
theory Mes
  imports Mes_Regs
begin

text \<open>
  \<^verbatim>\<open>dext/amdgpu/amdgpu_mes.h\<close> and the ring of \<^verbatim>\<open>mes_v12_1.cpp\<close>: a pipe of the MicroEngine Scheduler
  with its storage in VRAM, the CPU staging copy of its ring, and the submission of one message with
  the wait for its two completions. CPU staging memory belongs to the driver alone, so its contents
  are part of the state; \<open>None\<close> as an outcome is a call that does not return.
\<close>

section \<open>State\<close>

definition kMaxMESPipes :: u32 where "kMaxMESPipes = 2"
definition kMES_EOP_SIZE :: u64 where "kMES_EOP_SIZE = 2048"
definition kMES_MQD_SIZE :: u64 where "kMES_MQD_SIZE = 4096"
definition kMES_RING_SIZE :: u64 where "kMES_RING_SIZE = 64 * 1024"
definition kMES_CMD_BUF_SIZE :: u64 where "kMES_CMD_BUF_SIZE = 16 * 1024"
definition kEnableUniMES :: bool where "kEnableUniMES = True"
definition kMES_VERSION_MASK :: u32 where "kMES_VERSION_MASK = 0x0000FFFF"
definition kMES_Resource1Bytes :: u64 where "kMES_Resource1Bytes = 4096"
definition kMES_HwResources1MinSchedVersion :: u32 where "kMES_HwResources1MinSchedVersion = 0x4B"
definition kMES_SchCtxBytes :: u64 where "kMES_SchCtxBytes = 4096"
definition kMES_StatusFenceBytes :: u64 where "kMES_StatusFenceBytes = 4096"
definition kMES_AggregatedDoorbellsBase :: u32 where "kMES_AggregatedDoorbellsBase = 0x100"

text \<open>\<^verbatim>\<open>enum class MESPipe : uint32_t\<close>\<close>

definition Sched :: u32 where "Sched = 0"
definition KIQ :: u32 where "KIQ = 1"

text \<open>
  The DMA commands of the C++ struct stay null and the EOP and command staging copies are never
  read: they have no field. \<open>wb_cpu\<close> is the staging copy of the write-back page, its qwords by byte
  offset: the write pointer shadow at \<open>0x40\<close> and the software write pointer at \<open>0x80\<close>.
\<close>

record MESInstance =
  mi_inited :: bool
  mi_enabled :: bool
  submission_pending :: bool
  vram_base :: u64
  published_wptr :: u64
  eop_buf :: "u64 option"
  mqd_buf :: "u64 option"
  mes_ring_buf :: "u64 option"
  cmd_buf :: "u64 option"
  wb_buf :: "u64 option"
  eop_bus :: u64
  mqd_bus :: u64
  mes_ring_bus :: u64
  cmd_bus :: u64
  wb_bus :: u64
  mqd_cpu :: "u32 list option"
  mes_ring_cpu :: "u32 list option"
  wb_cpu :: "(nat \<Rightarrow> u64) option"
  uc_start_addr :: u64
  ring_rptr_gpu_addr :: u64
  ring_wptr_gpu_addr :: u64
  mes_ring_dwords :: u32 \<comment> \<open>\<open>ring_size_dwords\<close>\<close>
  doorbell_index :: u32
  resource_1_buf :: "u64 option"
  resource_1_bus :: u64
  sch_ctx_buf :: "u64 option"
  status_fence_buf :: "u64 option"
  sch_ctx_bus :: u64
  status_fence_bus :: u64

record MESContext =
  mes_pipe :: "u32 \<Rightarrow> MESInstance"
  sched_ucode_loaded :: bool
  kiq_ucode_loaded :: bool
  uni_mes_active :: bool
  sched_version :: u32
  kiq_version :: u32

definition mes_instance_zero :: MESInstance where
  "mes_instance_zero = \<lparr>mi_inited = False, mi_enabled = False, submission_pending = False,
     vram_base = 0, published_wptr = 0, eop_buf = None, mqd_buf = None, mes_ring_buf = None,
     cmd_buf = None, wb_buf = None, eop_bus = 0, mqd_bus = 0, mes_ring_bus = 0, cmd_bus = 0,
     wb_bus = 0, mqd_cpu = None, mes_ring_cpu = None, wb_cpu = None, uc_start_addr = 0,
     ring_rptr_gpu_addr = 0, ring_wptr_gpu_addr = 0, mes_ring_dwords = 0, doorbell_index = 0,
     resource_1_buf = None, resource_1_bus = 0, sch_ctx_buf = None, status_fence_buf = None,
     sch_ctx_bus = 0, status_fence_bus = 0\<rparr>"

definition mes_zero :: MESContext where
  "mes_zero = \<lparr>mes_pipe = (\<lambda>p. mes_instance_zero), sched_ucode_loaded = False, kiq_ucode_loaded = False,
     uni_mes_active = False, sched_version = 0, kiq_version = 0\<rparr>"

definition set_pipe :: "u32 \<Rightarrow> MESInstance \<Rightarrow> MESContext \<Rightarrow> MESContext" where
  "set_pipe p inst mes = mes\<lparr>mes_pipe := (mes_pipe mes)(p := inst)\<rparr>"

section \<open>Storage\<close>

text \<open>
  A block of visible VRAM with a staging buffer: the buffer's handle and the GPU address. A failure
  gives the block back. The results of \<open>SetLength\<close> and \<open>GetAddressRange\<close> are not looked at; the
  address and length are.
\<close>

definition give_back ::
  "GMCContext \<Rightarrow> VRAMAllocation \<Rightarrow> kern_return \<Rightarrow> 'd \<Rightarrow> ((u64 \<times> u64) option \<times> GMCContext, 'd) outcome"
where
  "give_back gmc a r d = (case free (vram_alloc gmc) a of
       None \<Rightarrow> None
     | Some va \<Rightarrow> Some ((r, None, gmc\<lparr>vram_alloc := va\<rparr>), d))"

definition mes_alloc_vram_block ::
  "'d DeviceContext \<Rightarrow> 'd os \<Rightarrow> GMCContext \<Rightarrow> u64 \<Rightarrow> 'd \<Rightarrow> ((u64 \<times> u64) option \<times> GMCContext, 'd) outcome"
where
  "mes_alloc_vram_block dev os gmc sz d =
     (if \<not> m_inited (vram_alloc gmc) then Some ((kIOReturnNotReady, None, gmc), d)
      else (case alloc (vram_alloc gmc) sz kASPageSize of
          None \<Rightarrow> None
        | Some (None, va) \<Rightarrow> Some ((kIOReturnNoMemory, None, gmc\<lparr>vram_alloc := va\<rparr>), d)
        | Some (Some a, va) \<Rightarrow>
            let gmc = gmc\<lparr>vram_alloc := va\<rparr>
            in (case buf_create os (va_size a) kASPageSize d of
                  ((r, None), d) \<Rightarrow> give_back gmc a (or_else r kIOReturnNoMemory) d
                | ((r, Some b), d) \<Rightarrow>
                    if r \<noteq> kIOReturnSuccess then give_back gmc a r d
                    else let d = snd (buf_set_length os b (va_size a) d);
                             ((_, cpu, cpu_len), d) = buf_address os b d
                      in if cpu = 0 \<or> cpu_len < va_size a
                      then give_back gmc a kIOReturnNoMemory (buf_release os b d)
                      else let d = cpu_zero os cpu (va_size a) d;
                               (r, d) = vram_write_verified dev (gpu_va a - vram_start gmc)
                                          (Some (replicate (unat (va_size a)) 0)) (va_size a) d
                        in if r \<noteq> kIOReturnSuccess then give_back gmc a r (buf_release os b d)
                        else Some ((kIOReturnSuccess, Some (b, gpu_va a), gmc), d))))"

text \<open>The call with its output arguments: a failure leaves a null buffer and address behind.\<close>

definition mes_alloc_into ::
  "'d DeviceContext \<Rightarrow> 'd os \<Rightarrow> u64 \<Rightarrow> (u64 option \<Rightarrow> u64 \<Rightarrow> MESInstance \<Rightarrow> MESInstance) \<Rightarrow>
     MESInstance \<times> GMCContext \<Rightarrow> 'd \<Rightarrow> (MESInstance \<times> GMCContext, 'd) outcome"
where
  "mes_alloc_into dev os sz put s d = (case mes_alloc_vram_block dev os (snd s) sz d of
       None \<Rightarrow> None
     | Some ((r, blk, gmc), d) \<Rightarrow>
         Some ((r, put (map_option fst blk) (case blk of None \<Rightarrow> 0 | Some (b, bus) \<Rightarrow> bus) (fst s), gmc), d))"

definition mes_alloc_storage ::
  "'d DeviceContext \<Rightarrow> 'd os \<Rightarrow> MESInstance \<times> GMCContext \<Rightarrow> u32 \<Rightarrow> 'd \<Rightarrow> (MESInstance \<times> GMCContext, 'd) outcome"
where
  "mes_alloc_storage dev os s p d =
     (if mi_inited (fst s) then Some ((kIOReturnSuccess, s), d)
      else let s = ((fst s)\<lparr>vram_base := vram_start (snd s)\<rparr>, snd s)
        in and_then (mes_alloc_into dev os kMES_EOP_SIZE (\<lambda>b bus i. i\<lparr>eop_buf := b, eop_bus := bus\<rparr>) s d) (\<lambda>s d.
           and_then (mes_alloc_into dev os kMES_MQD_SIZE (\<lambda>b bus i. i\<lparr>mqd_buf := b, mqd_bus := bus\<rparr>) s d) (\<lambda>s d.
           let s = ((fst s)\<lparr>mqd_cpu := Some (replicate (unat kMES_MQD_SIZE div 4) 0)\<rparr>, snd s) in
           and_then (mes_alloc_into dev os kMES_RING_SIZE (\<lambda>b bus i. i\<lparr>mes_ring_buf := b, mes_ring_bus := bus\<rparr>) s d) (\<lambda>s d.
           let s = ((fst s)\<lparr>mes_ring_cpu := Some (replicate (unat kMES_RING_SIZE div 4) 0)\<rparr>, snd s) in
           and_then (mes_alloc_into dev os kMES_CMD_BUF_SIZE (\<lambda>b bus i. i\<lparr>cmd_buf := b, cmd_bus := bus\<rparr>) s d) (\<lambda>s d.
           and_then (mes_alloc_into dev os kASPageSize (\<lambda>b bus i. i\<lparr>wb_buf := b, wb_bus := bus\<rparr>) s d) (\<lambda>s d.
           Some ((kIOReturnSuccess,
                  (fst s)\<lparr>wb_cpu := Some (\<lambda>_. 0), ring_rptr_gpu_addr := wb_bus (fst s) + 0x00,
                     ring_wptr_gpu_addr := wb_bus (fst s) + 0x40,
                     mes_ring_dwords := ucast (kMES_RING_SIZE div 4),
                     doorbell_index := push_bit 1 (db_mes_ring0 (db_index (dev_doorbell dev)) + p),
                     mi_inited := True\<rparr>, snd s), d)))))))"

definition mes_set_uc_start_addr :: "MESContext \<Rightarrow> u32 \<Rightarrow> u64 \<Rightarrow> kern_return \<times> MESContext" where
  "mes_set_uc_start_addr mes p addr =
     (if kMaxMESPipes \<le> p \<or> addr = 0 \<or> addr AND 3 \<noteq> 0 then (kIOReturnBadArgument, mes)
      else let mes = set_pipe p ((mes_pipe mes p)\<lparr>uc_start_addr := addr\<rparr>) mes;
               mes = (if p = Sched then mes\<lparr>sched_ucode_loaded := True\<rparr> else mes);
               mes = (if p = KIQ then mes\<lparr>kiq_ucode_loaded := True\<rparr> else mes)
        in (kIOReturnSuccess, mes))"

section \<open>The ring\<close>

text \<open>\<^verbatim>\<open>for (i...) ring[(wptr + i) & mask] = src[i]\<close>\<close>

primrec ring_put :: "u32 list \<Rightarrow> u64 \<Rightarrow> u32 \<Rightarrow> u32 list \<Rightarrow> u32 list" where
  "ring_put ring w msk [] = ring"
| "ring_put ring w msk (x # xs) = ring_put (ring[unat (w AND ucast msk) := x]) (w + 1) msk xs"

definition sw_wptr :: "MESInstance \<Rightarrow> u64" where
  "sw_wptr inst = (case wb_cpu inst of None \<Rightarrow> 0 | Some wb \<Rightarrow> wb 0x80)"

text \<open>The words of \<open>src\<close> are all written: \<open>n_dw\<close> is its length, and it is never null.\<close>

definition mes_ring_write :: "MESInstance \<Rightarrow> u32 list \<Rightarrow> u32 \<times> MESInstance" where
  "mes_ring_write inst src =
     (let n_dw = word_of_nat (length src); wptr = sw_wptr inst; sz = mes_ring_dwords inst
      in case (mes_ring_cpu inst, wb_cpu inst) of
           (Some ring, Some wb) \<Rightarrow>
             if \<not> mi_inited inst \<or> n_dw = 0 then (0, inst)
             else if sz = 0 \<or> sz AND (sz - 1) \<noteq> 0 then (0, inst)
             else if sz < n_dw then (0, inst)
             else if 0xFFFFFFFFFFFFFFFF - ucast n_dw < wptr \<or> wptr < published_wptr inst \<or>
                     ucast (sz - n_dw) < wptr - published_wptr inst
             then (0, inst)
             else (n_dw, inst\<lparr>mes_ring_cpu := Some (ring_put ring wptr (sz - 1) src),
                              wb_cpu := Some (wb(0x80 := wptr + ucast n_dw))\<rparr>)
         | _ \<Rightarrow> (0, inst))"

text \<open>
  The upload of the words appended since the last doorbell, in at most two pieces. Without a bound
  from the ring's size the loop need not end.
\<close>

definition ring_chunk :: "u32 \<Rightarrow> u64 \<Rightarrow> u64 \<Rightarrow> u32 \<times> u64" where
  "ring_chunk sz cursor wptr =
     (let index = ucast (cursor AND ucast (sz - 1)); n = ucast (sz - index) :: u64
      in (index, if wptr - cursor < n then wptr - cursor else n))"

partial_function (option) upload_ring ::
  "'d DeviceContext \<Rightarrow> MESInstance \<Rightarrow> u32 list \<Rightarrow> u64 \<Rightarrow> u64 \<Rightarrow> 'd \<Rightarrow> (kern_return \<times> 'd) option"
where
  "upload_ring dev inst ring cursor wptr d =
     (if \<not> cursor < wptr then Some (kIOReturnSuccess, d)
      else let (index, n) = ring_chunk (mes_ring_dwords inst) cursor wptr;
               (r, d) = vram_write_verified dev (mes_ring_bus inst - vram_base inst + ucast (index * 4))
                          (Some (dw_bytes (take (unat n) (drop (unat index) ring)))) (n * 4) d
        in if r \<noteq> kIOReturnSuccess then Some (r, d)
        else upload_ring dev inst ring (cursor + n) wptr d)"

declare upload_ring.simps [code]

definition mes_kick_doorbell ::
  "'d DeviceContext \<Rightarrow> MESInstance \<Rightarrow> 'd \<Rightarrow> (MESInstance, 'd) outcome"
where
  "mes_kick_doorbell dev inst d =
     (if \<not> mi_inited inst then Some ((kIOReturnNotReady, inst), d)
      else if pci dev = None then Some ((kIOReturnNotAttached, inst), d)
      else let off = ucast (doorbell_index inst) * 4
        in if bar2Size dev < off \<or> bar2Size dev - off < 8 then Some ((kIOReturnBadArgument, inst), d)
        else (case (mes_ring_cpu inst, wb_cpu inst) of
            (Some ring, Some wb) \<Rightarrow>
              let wptr = wb 0x80
              in if wptr < published_wptr inst \<or> ucast (mes_ring_dwords inst) < wptr - published_wptr inst
              then Some ((kIOReturnNoSpace, inst), d)
              else (case upload_ring dev inst ring (published_wptr inst) wptr d of
                  None \<Rightarrow> None
                | Some (r, d) \<Rightarrow>
                    if r \<noteq> kIOReturnSuccess then Some ((r, inst), d)
                    else let (r, d) = vram_write_verified dev (wb_bus inst - vram_base inst + 0x40)
                                        (Some (bytes64 wptr)) 8 d
                      in if r \<noteq> kIOReturnSuccess then Some ((r, inst), d)
                      else let d = amdgpu_hdp_flush dev d
                        in Some ((kIOReturnSuccess,
                              inst\<lparr>wb_cpu := Some (wb(0x40 := wptr)), published_wptr := wptr\<rparr>),
                              wr64 dev (bar2MemIndex dev) off wptr d))
          | _ \<Rightarrow> None))"

section \<open>Submission\<close>

definition mes_log_queue_state :: "'d DeviceContext \<Rightarrow> u32 \<Rightarrow> 'd \<Rightarrow> 'd" where
  "mes_log_queue_state dev p d =
     (let d = grbm_select dev 3 p 0 0 d;
          d = foldl (\<lambda>d r. snd (mes_rreg dev r d)) d
                [CP_HQD_ACTIVE, CP_HQD_PQ_RPTR, CP_HQD_PQ_WPTR_LO, CP_HQD_PQ_WPTR_HI,
                 CP_HQD_PQ_DOORBELL_CONTROL, CP_MES_CNTL, CP_MES_INSTR_PNTR];
          d = grbm_select dev 0 0 0 0 d
      in foldl (\<lambda>d r. snd (mes_rreg dev r d)) d
           [GCVM_L2_PROTECTION_FAULT_STATUS_HI32, GCVM_L2_PROTECTION_FAULT_STATUS_LO32,
            GCVM_L2_PROTECTION_FAULT_ADDR_HI32, GCVM_L2_PROTECTION_FAULT_ADDR_LO32])"

text \<open>The two completions: the status of the message and, behind it, the fence of the query.\<close>

definition api_slot :: "MESInstance \<Rightarrow> u64" where
  "api_slot inst = wb_bus inst - vram_base inst + 0xC0"

definition query_slot :: "MESInstance \<Rightarrow> u64" where
  "query_slot inst = wb_bus inst - vram_base inst + 0xD0"

partial_function (option) mes_wait ::
  "'d DeviceContext \<Rightarrow> u32 \<Rightarrow> MESInstance \<Rightarrow> u64 \<Rightarrow> u64 \<Rightarrow> 'd \<Rightarrow> (MESInstance, 'd) outcome"
where
  "mes_wait dev p inst start timeout_us d =
     (let (now, d) = now_ns dev d; elapsed_us = (now - start) div 1000;
          ((r, query_status), d) = vram_read_fence64 dev (query_slot inst) d
      in if r \<noteq> kIOReturnSuccess then Some ((r, inst), d)
      else if query_status = 1
      then let ((r, api_status), d) = vram_read_fence64 dev (api_slot inst) d
        in if r \<noteq> kIOReturnSuccess then Some ((r, inst), d)
        else Some ((if (ucast api_status :: u32) \<noteq> 0 then kIOReturnSuccess else kIOReturnInternalError,
                    inst\<lparr>submission_pending := False\<rparr>), d)
      else if timeout_us \<le> elapsed_us
      then let ((r, _), d) = vram_read_fence64 dev (api_slot inst) d
        in if r \<noteq> kIOReturnSuccess then Some ((r, inst), d)
        else Some ((kIOReturnTimeout, inst), mes_log_queue_state dev p d)
      else mes_wait dev p inst start timeout_us (sleep_ms dev 1 d))"

declare mes_wait.simps [code]

definition patch_status :: "u32 list \<Rightarrow> u32 \<Rightarrow> MES_API_Status \<Rightarrow> u32 list" where
  "patch_status pkt dw st = take (unat dw) pkt @ status_dwords st @ drop (unat dw + 4) pkt"

text \<open>What is refused before anything is touched; \<open>None\<close> is acceptance.\<close>

definition submit_refusal :: "MESInstance \<Rightarrow> u32 list option \<Rightarrow> u32 \<Rightarrow> kern_return option" where
  "submit_refusal inst pkt dw =
     (if \<not> mi_inited inst \<or> \<not> mi_enabled inst then Some kIOReturnNotReady
      else if submission_pending inst then Some kIOReturnBusy
      else if pkt = None \<or> kMES_API_FRAME_DWORDS - 4 < dw then Some kIOReturnBadArgument
      else if mes_ring_cpu inst = None \<or> wb_cpu inst = None \<or>
              mes_ring_dwords inst < 2 * kMES_API_FRAME_DWORDS \<or>
              mes_ring_dwords inst AND (mes_ring_dwords inst - 1) \<noteq> 0
      then Some kIOReturnBadArgument
      else if sw_wptr inst \<noteq> published_wptr inst then Some kIOReturnBusy
      else if 0xFFFFFFFFFFFFFFFF - 2 * ucast kMES_API_FRAME_DWORDS < sw_wptr inst then Some kIOReturnNoSpace
      else None)"

definition mes_submit ::
  "'d DeviceContext \<Rightarrow> u32 \<Rightarrow> MESInstance \<Rightarrow> u32 list \<Rightarrow> u32 \<Rightarrow> u64 \<Rightarrow> 'd \<Rightarrow> (MESInstance, 'd) outcome"
where
  "mes_submit dev p inst pkt dw timeout_us d =
     (let (r, d) = vram_write_verified dev (api_slot inst) (Some (bytes64 0)) 8 d
      in if r \<noteq> kIOReturnSuccess then Some ((r, inst), d)
      else let (r, d) = vram_write_verified dev (query_slot inst) (Some (bytes64 0)) 8 d
      in if r \<noteq> kIOReturnSuccess then Some ((r, inst), d)
      else let frame = patch_status pkt dw \<lparr>fence_addr = wb_bus inst + 0xC0, fence_value = 1\<rparr>;
               (n, inst) = mes_ring_write inst frame
      in if n \<noteq> kMES_API_FRAME_DWORDS then Some ((kIOReturnNoSpace, inst), d)
      else let q = query_zero\<lparr>qs_header := scheduler_header QUERY_SCHEDULER_STATUS,
                     qs_api_status := \<lparr>fence_addr = wb_bus inst + 0xD0, fence_value = 1\<rparr>\<rparr>;
               (n, inst) = mes_ring_write inst (query_frame q)
      in if n \<noteq> kMES_API_FRAME_DWORDS then Some ((kIOReturnNoSpace, inst), d)
      else and_then (mes_kick_doorbell dev (inst\<lparr>submission_pending := True\<rparr>) d) (\<lambda>inst d.
        let (start, d) = now_ns dev d in mes_wait dev p inst start timeout_us d))"

definition mes_submit_pkt ::
  "'d DeviceContext \<Rightarrow> MESContext \<Rightarrow> u32 \<Rightarrow> u32 list option \<Rightarrow> u32 \<Rightarrow> u64 \<Rightarrow> 'd \<Rightarrow> (MESContext, 'd) outcome"
where
  "mes_submit_pkt dev mes p pkt dw timeout_us d =
     (if kMaxMESPipes \<le> p then Some ((kIOReturnBadArgument, mes), d)
      else (case submit_refusal (mes_pipe mes p) pkt dw of
          Some r \<Rightarrow> Some ((r, mes), d)
        | None \<Rightarrow>
            (case mes_submit dev p (mes_pipe mes p) (the pkt) dw timeout_us d of
               None \<Rightarrow> None
             | Some ((r, inst), d) \<Rightarrow> Some ((r, set_pipe p inst mes), d))))"

end
