(* ===== verification/Mes_Init.thy ===== *)
theory Mes_Init
  imports Mes
begin

text \<open>
  The rest of \<^verbatim>\<open>mes_v12_1.cpp\<close>: the enabling of the two pipes, their queue descriptors, the messages that
  configure the scheduler and map queues, and the bring-up \<open>mes_init_full\<close> that composes them. The
  log lines are left out, the register reads that feed them are kept.
\<close>

section \<open>Pipes\<close>

text \<open>The enable sequence of one pipe; the register keeps the reset bit of its own pipe only.\<close>

definition mes_enable_pipe :: "'d DeviceContext \<Rightarrow> u32 \<Rightarrow> MESContext \<times> 'd \<Rightarrow> MESContext \<times> 'd" where
  "mes_enable_pipe dev p s =
     (let (mes, d) = s;
          d = grbm_select dev 3 p 0 0 d;
          d = mes_modify dev CP_MES_CNTL (\<lambda>v. if p = 0 then REG_SET_FIELD v CP_MES_CNTL__MES_PIPE0_RESET 1
                                             else REG_SET_FIELD v CP_MES_CNTL__MES_PIPE1_RESET 1) d;
          addr = drop_bit 2 (uc_start_addr (mes_pipe mes p));
          v = REG_SET_FIELD 0 CP_MES_CNTL__MES_PIPE0_ACTIVE 1;
          v = (if p \<noteq> 0 then REG_SET_FIELD v CP_MES_CNTL__MES_PIPE1_ACTIVE 1 else v);
          d = mes_writes dev [(CP_MES_PRGRM_CNTR_START, ucast addr),
                (CP_MES_PRGRM_CNTR_START_HI, ucast (drop_bit 32 addr)), (CP_MES_CNTL, v)] d
      in (set_pipe p ((mes_pipe mes p)\<lparr>mi_enabled := True\<rparr>) mes, d))"

definition mes_disable :: "'d DeviceContext \<Rightarrow> MESContext \<Rightarrow> 'd \<Rightarrow> MESContext \<times> 'd" where
  "mes_disable dev mes d =
     (let d = mes_modify dev CP_MES_CNTL (\<lambda>v. set_fields v
                [(CP_MES_CNTL__MES_PIPE0_ACTIVE, 0), (CP_MES_CNTL__MES_PIPE1_ACTIVE, 0),
                 (CP_MES_CNTL__MES_INVALIDATE_ICACHE, 1), (CP_MES_CNTL__MES_PIPE0_RESET, 1),
                 (CP_MES_CNTL__MES_PIPE1_RESET, 1), (CP_MES_CNTL__MES_HALT, 1)]) d
      in (set_pipe 1 ((mes_pipe mes 1)\<lparr>mi_enabled := False\<rparr>)
           (set_pipe 0 ((mes_pipe mes 0)\<lparr>mi_enabled := False\<rparr>) mes), d))"

definition pipe_bootable :: "MESInstance \<Rightarrow> bool" where
  "pipe_bootable inst \<longleftrightarrow> mi_inited inst \<and> uc_start_addr inst \<noteq> 0"

definition mes_enable :: "'d DeviceContext \<Rightarrow> MESContext \<Rightarrow> bool \<Rightarrow> 'd \<Rightarrow> (MESContext, 'd) outcome" where
  "mes_enable dev mes enable d =
     (if \<not> gc_resolved dev then Some ((kIOReturnNotReady, mes), d)
      else if \<not> enable then (let (mes, d) = mes_disable dev mes d in Some ((kIOReturnSuccess, mes), d))
      else if \<not> pipe_bootable (mes_pipe mes 0) \<or> \<not> pipe_bootable (mes_pipe mes 1)
      then Some ((kIOReturnNotReady, mes), d)
      else let (mes, d) = mes_enable_pipe dev 1 (mes_enable_pipe dev 0 (mes, d));
               d = grbm_select dev 0 0 0 0 d
        in Some ((kIOReturnSuccess, mes), sleep_ms dev 1 d))"

section \<open>Messages\<close>

definition mes_query_sched_status :: "'d DeviceContext \<Rightarrow> MESContext \<Rightarrow> u32 \<Rightarrow> 'd \<Rightarrow> (MESContext, 'd) outcome" where
  "mes_query_sched_status dev mes p =
     mes_submit_pkt dev mes p
       (Some (query_frame (query_zero\<lparr>qs_header := scheduler_header QUERY_SCHEDULER_STATUS\<rparr>)))
       query_status_dw 2000000"

text \<open>The KIQ is up and configured: the guard of both legacy queue operations.\<close>

definition kiq_ready :: "MESContext \<Rightarrow> bool" where
  "kiq_ready mes \<longleftrightarrow> uni_mes_active mes \<and> mi_enabled (mes_pipe mes 1) \<and> mi_inited (mes_pipe mes 1) \<and>
     sch_ctx_bus (mes_pipe mes 1) \<noteq> 0 \<and> resource_1_bus (mes_pipe mes 1) \<noteq> 0"

definition kMESQueueType_GFX :: u32 where "kMESQueueType_GFX = 0"
definition kMESQueueType_COMPUTE :: u32 where "kMESQueueType_COMPUTE = 1"
definition kMESQueueType_SDMA :: u32 where "kMESQueueType_SDMA = 2"
definition kMESQueueType_SCHQ :: u32 where "kMESQueueType_SCHQ = 3"
definition kAddQueueFlag_map_legacy_kq :: u32 where "kAddQueueFlag_map_legacy_kq = push_bit 13 1"

definition map_arguments_ok :: "u32 \<Rightarrow> u32 \<Rightarrow> u32 \<Rightarrow> u32 \<Rightarrow> u64 \<Rightarrow> u64 \<Rightarrow> bool" where
  "map_arguments_ok queueType p q db mqdAddress wptrAddress \<longleftrightarrow>
     \<not> (kMESQueueType_SCHQ < queueType \<or> 4 \<le> p \<or> 8 \<le> q \<or> db AND 1 \<noteq> 0 \<or> 0x03FFFFFE < db \<or>
        mqdAddress = 0 \<or> mqdAddress AND 255 \<noteq> 0 \<or> wptrAddress = 0 \<or> wptrAddress AND 7 \<noteq> 0)"

definition map_message :: "u32 \<Rightarrow> u32 \<Rightarrow> u32 \<Rightarrow> u32 \<Rightarrow> u64 \<Rightarrow> u64 \<Rightarrow> MES_AddQueue" where
  "map_message queueType p q db mqdAddress wptrAddress =
     add_queue_zero\<lparr>aq_header := scheduler_header ADD_QUEUE, aq_pipe_id := p, aq_queue_id := q,
       aq_doorbell_offset := db, aq_mqd_addr := mqdAddress, aq_wptr_addr := wptrAddress,
       aq_queue_type := queueType, aq_flags := kAddQueueFlag_map_legacy_kq\<rparr>"

definition mes_map_legacy_queue ::
  "'d DeviceContext \<Rightarrow> MESContext \<Rightarrow> u32 \<Rightarrow> u32 \<Rightarrow> u32 \<Rightarrow> u32 \<Rightarrow> u64 \<Rightarrow> u64 \<Rightarrow> 'd \<Rightarrow> (MESContext, 'd) outcome"
where
  "mes_map_legacy_queue dev mes queueType p q db mqdAddress wptrAddress d =
     (if \<not> map_arguments_ok queueType p q db mqdAddress wptrAddress
      then Some ((kIOReturnBadArgument, mes), d)
      else if \<not> kiq_ready mes then Some ((kIOReturnNotReady, mes), d)
      else mes_submit_pkt dev mes KIQ
             (Some (add_queue_frame (map_message queueType p q db mqdAddress wptrAddress)))
             add_queue_status_dw 2000000 d)"

definition mes_unmap_legacy_queue ::
  "'d DeviceContext \<Rightarrow> MESContext \<Rightarrow> u32 \<Rightarrow> u32 \<Rightarrow> u32 \<Rightarrow> u32 \<Rightarrow> 'd \<Rightarrow> (MESContext, 'd) outcome"
where
  "mes_unmap_legacy_queue dev mes queueType p q db d =
     (case mes_build_legacy_unmap queueType p q db of
        None \<Rightarrow> Some ((kIOReturnBadArgument, mes), d)
      | Some packet \<Rightarrow>
          if \<not> kiq_ready mes then Some ((kIOReturnNotReady, mes), d)
          else mes_submit_pkt dev mes KIQ (Some (remove_queue_frame packet)) remove_queue_status_dw 500000 d)"

record MESAddQueueInput =
  ai_process_id :: u32
  ai_mqd_addr :: u64
  ai_wptr_addr :: u64
  ai_doorbell_offset :: u32
  ai_queue_type :: u32
  ai_pipe_id :: u32
  ai_queue_id :: u32
  ai_inprocess_gang_priority :: u32
  ai_gang_global_priority_level :: u32
  ai_gang_context_addr :: u64
  ai_process_context_addr :: u64
  ai_page_table_base_addr :: u64
  ai_flags :: u32

definition mes_add_hw_queue :: "'d DeviceContext \<Rightarrow> MESContext \<Rightarrow> MESAddQueueInput \<Rightarrow> 'd \<Rightarrow> (MESContext, 'd) outcome" where
  "mes_add_hw_queue dev mes inp d =
     (if \<not> mi_inited (mes_pipe mes 0) \<or> \<not> mi_enabled (mes_pipe mes 0) then Some ((kIOReturnNotReady, mes), d)
      else if \<not> gc_resolved dev then Some ((kIOReturnNotReady, mes), d)
      else mes_submit_pkt dev mes Sched (Some (add_queue_frame (add_queue_zero\<lparr>
             aq_header := scheduler_header ADD_QUEUE,
             aq_process_id := ai_process_id inp, aq_page_table_base_addr := ai_page_table_base_addr inp,
             aq_process_va_start := 0, aq_process_va_end := 0, aq_process_quantum := 0,
             aq_process_context_addr := ai_process_context_addr inp, aq_gang_quantum := 0,
             aq_gang_context_addr := ai_gang_context_addr inp,
             aq_inprocess_gang_priority := ai_inprocess_gang_priority inp,
             aq_gang_global_priority_level := ai_gang_global_priority_level inp,
             aq_doorbell_offset := ai_doorbell_offset inp, aq_mqd_addr := ai_mqd_addr inp,
             aq_wptr_addr := ai_wptr_addr inp, aq_queue_type := ai_queue_type inp,
             aq_pipe_id := ai_pipe_id inp, aq_queue_id := ai_queue_id inp, aq_flags := ai_flags inp\<rparr>)))
             add_queue_status_dw 2000000 d)"

section \<open>Resources\<close>

record MESSetHwResourcesInput =
  hi_vmid_mask_mmhub :: u32
  hi_vmid_mask_gfxhub :: u32
  hi_compute_hqd_mask :: "u32 list"
  hi_gfx_hqd_mask :: "u32 list"
  hi_sdma_hqd_mask :: "u32 list"
  hi_aggregated_doorbells :: "u32 list"

definition set_hw_flags :: u32 where
  "set_hw_flags = push_bit 0 1 OR push_bit 2 1 OR push_bit 1 1 OR push_bit 10 1 OR push_bit 6 1 OR push_bit 19 1"

text \<open>
  A block that is allocated when its address is still zero. It comes zeroed; the second \<open>memset\<close> of its
  staging copy changes nothing.
\<close>

definition mes_lazy_block ::
  "'d DeviceContext \<Rightarrow> 'd os \<Rightarrow> u32 \<Rightarrow> u64 \<Rightarrow> (MESInstance \<Rightarrow> u64) \<Rightarrow>
     (u64 option \<Rightarrow> u64 \<Rightarrow> MESInstance \<Rightarrow> MESInstance) \<Rightarrow> MESContext \<times> GMCContext \<Rightarrow> 'd \<Rightarrow>
     (MESContext \<times> GMCContext, 'd) outcome"
where
  "mes_lazy_block dev os p sz bus_of put s d =
     (if bus_of (mes_pipe (fst s) p) \<noteq> 0 then Some ((kIOReturnSuccess, s), d)
      else (case mes_alloc_into dev os sz put (mes_pipe (fst s) p, snd s) d of
          None \<Rightarrow> None
        | Some ((r, inst, gmc), d) \<Rightarrow> Some ((r, set_pipe p inst (fst s), gmc), d)))"

definition hw_resources_message ::
  "MESContext \<Rightarrow> MESInstance \<Rightarrow> MESSetHwResourcesInput \<Rightarrow> u32 \<Rightarrow> MES_SetHwResources \<Rightarrow> MES_SetHwResources"
where
  "hw_resources_message mes inst inp p pkt =
     (let pkt = pkt\<lparr>hw_header := scheduler_header SET_HW_RSRC\<rparr>;
          pkt = (if p = Sched
                 then pkt\<lparr>vmid_mask_mmhub := hi_vmid_mask_mmhub inp, vmid_mask_gfxhub := hi_vmid_mask_gfxhub inp,
                     gds_size := 0, paging_vmid := 0, compute_hqd_mask := hi_compute_hqd_mask inp,
                     gfx_hqd_mask := hi_gfx_hqd_mask inp, sdma_hqd_mask := hi_sdma_hqd_mask inp,
                     aggregated_doorbells := hi_aggregated_doorbells inp\<rparr>
                 else pkt)
      in pkt\<lparr>g_sch_ctx_gpu_mc_ptr := sch_ctx_bus inst, query_status_fence_gpu_mc_ptr := status_fence_bus inst,
             hw_flags := set_hw_flags,
             oversubscription_timer :=
               (if 0x8B \<le> (if p = Sched then sched_version mes else kiq_version mes) AND kMES_VERSION_MASK
                then 50 else 0)\<rparr>)"

definition mes_set_hw_resources ::
  "'d DeviceContext \<Rightarrow> 'd os \<Rightarrow> MESSetHwResourcesInput \<Rightarrow> u32 \<Rightarrow> MESContext \<times> GMCContext \<Rightarrow> 'd \<Rightarrow>
     (MESContext \<times> GMCContext, 'd) outcome"
where
  "mes_set_hw_resources dev os inp p s d =
     (if kMaxMESPipes \<le> p then Some ((kIOReturnBadArgument, s), d)
      else if \<not> mi_inited (mes_pipe (fst s) p) \<or> \<not> mi_enabled (mes_pipe (fst s) p)
      then Some ((kIOReturnNotReady, s), d)
      else (case mes_set_register_bases (dev_ip dev) hw_resources_zero of
          None \<Rightarrow> Some ((kIOReturnNotReady, s), d)
        | Some pkt \<Rightarrow>
            and_then (mes_lazy_block dev os p kMES_SchCtxBytes sch_ctx_bus
                (\<lambda>b bus i. i\<lparr>sch_ctx_buf := b, sch_ctx_bus := bus\<rparr>) s d) (\<lambda>s d.
            and_then (mes_lazy_block dev os p kMES_StatusFenceBytes status_fence_bus
                (\<lambda>b bus i. i\<lparr>status_fence_buf := b, status_fence_bus := bus\<rparr>) s d) (\<lambda>s d.
            on_fst (mes_submit_pkt dev (fst s) p
                (Some (hw_resources_frame (hw_resources_message (fst s) (mes_pipe (fst s) p) inp p pkt)))
                hw_resources_status_dw 2000000 d) (snd s)))))"

definition mes_set_hw_resources_1 ::
  "'d DeviceContext \<Rightarrow> 'd os \<Rightarrow> u32 \<Rightarrow> MESContext \<times> GMCContext \<Rightarrow> 'd \<Rightarrow> (MESContext \<times> GMCContext, 'd) outcome"
where
  "mes_set_hw_resources_1 dev os p s d =
     (if kMaxMESPipes \<le> p then Some ((kIOReturnBadArgument, s), d)
      else if \<not> mi_inited (mes_pipe (fst s) p) \<or> \<not> mi_enabled (mes_pipe (fst s) p)
      then Some ((kIOReturnNotReady, s), d)
      else if \<not> gc_resolved dev then Some ((kIOReturnNotReady, s), d)
      else and_then (mes_lazy_block dev os p kMES_Resource1Bytes resource_1_bus
               (\<lambda>b bus i. i\<lparr>resource_1_buf := b, resource_1_bus := bus\<rparr>) s d) (\<lambda>s d.
           on_fst (mes_submit_pkt dev (fst s) p
               (Some (hw_resources_1_frame (hw_resources_1_zero\<lparr>
                  hw1_header := scheduler_header SET_HW_RSRC_1, mes_kiq_unmap_timeout := 0xA,
                  cleaner_shader_fence_mc_addr := resource_1_bus (mes_pipe (fst s) p)\<rparr>)))
               hw_resources_1_status_dw 2000000 d) (snd s)))"

end
