(* ===== verification/Mes_Bringup.thy ===== *)
theory Mes_Bringup
  imports Mes_Init
begin

text \<open>
  The end of \<^verbatim>\<open>mes_v12_1.cpp\<close>: the memory queue descriptor (MQD) and the registers of a pipe's queue, the
  settings around it and \<open>mes_init_full\<close>, which brings both pipes up in the order the firmware needs.
\<close>

section \<open>Queue descriptors\<close>

text \<open>A shift by 32 or more is undefined in C++; the search stops there.\<close>

function order_from :: "nat \<Rightarrow> u32 \<Rightarrow> nat" where
  "order_from r x = (if r < 32 \<and> push_bit r 1 < x then order_from (r + 1) x else r)"
  by pat_completeness auto
termination by (relation "measure (\<lambda>(r, x). 32 - r)") auto

declare order_from.simps [simp del]

definition order_base_2_u32 :: "u32 \<Rightarrow> u32" where
  "order_base_2_u32 x = word_of_nat (order_from 0 x)"

text \<open>Assignments to an array of dwords.\<close>

definition put_words :: "u32 list \<Rightarrow> (nat \<times> u32) list \<Rightarrow> u32 list" where
  "put_words = foldl (\<lambda>ws (i, v). ws[i := v])"

definition mes_pq_control :: "MESInstance \<Rightarrow> u32" where
  "mes_pq_control inst = set_fields kCP_HQD_PQ_CONTROL_DEFAULT
     [(CP_HQD_PQ_CONTROL__QUEUE_SIZE, order_base_2_u32 (mes_ring_dwords inst) - 1),
      (CP_HQD_PQ_CONTROL__RPTR_BLOCK_SIZE, order_base_2_u32 (4096 div 4) - 1),
      (CP_HQD_PQ_CONTROL__UNORD_DISPATCH, 1), (CP_HQD_PQ_CONTROL__TUNNEL_DISPATCH, 0),
      (CP_HQD_PQ_CONTROL__PRIV_STATE, 1), (CP_HQD_PQ_CONTROL__KMD_QUEUE, 1),
      (CP_HQD_PQ_CONTROL__NO_UPDATE_RPTR, 1)]"

definition mes_db_control :: "MESInstance \<Rightarrow> u32" where
  "mes_db_control inst = set_fields 0
     [(CP_HQD_PQ_DOORBELL_CONTROL__DOORBELL_OFFSET, doorbell_index inst),
      (CP_HQD_PQ_DOORBELL_CONTROL__DOORBELL_EN, 1)]"

definition mes_persistent :: u32 where
  "mes_persistent = REG_SET_FIELD kCP_HQD_PERSISTENT_STATE_DEFAULT CP_HQD_PERSISTENT_STATE__PRELOAD_SIZE 0x55"

definition mes_eop_control :: u32 where
  "mes_eop_control = (kCP_HQD_EOP_CONTROL_DEFAULT AND NOT 0x3F) OR
     ((order_base_2_u32 (ucast (kMES_EOP_SIZE div 4)) - 1) AND 0x3F)"

definition mqd_words :: "MESInstance \<Rightarrow> (nat \<times> u32) list" where
  "mqd_words inst =
     [(0, 0xC0310800), (11, 1), (23, 0xFFFFFFFF), (24, 0xFFFFFFFF), (26, 0xFFFFFFFF), (27, 0xFFFFFFFF),
      (32, 7), (149, 0x00300000), (150, 0), (135, 0),
      (128, ucast (mqd_bus inst) AND 0xFFFFFFFC), (129, ucast (drop_bit 32 (mqd_bus inst))),
      (130, 1), (131, 0), (132, mes_persistent),
      (136, ucast (drop_bit 8 (mes_ring_bus inst))), (137, ucast (drop_bit 32 (drop_bit 8 (mes_ring_bus inst)))),
      (139, ucast (ring_rptr_gpu_addr inst) AND 0xFFFFFFFC),
      (140, ucast (drop_bit 32 (ring_rptr_gpu_addr inst)) AND 0xFFFF),
      (141, ucast (ring_wptr_gpu_addr inst) AND 0xFFFFFFF8),
      (142, ucast (drop_bit 32 (ring_wptr_gpu_addr inst)) AND 0xFFFF),
      (143, mes_db_control inst), (145, mes_pq_control inst),
      (162, REG_SET_FIELD kCP_MQD_CONTROL_DEFAULT CP_MQD_CONTROL__VMID 0),
      (165, ucast (drop_bit 8 (eop_bus inst))), (166, ucast (drop_bit 32 (drop_bit 8 (eop_bus inst)))),
      (167, mes_eop_control), (182, 0), (183, 0), (184, push_bit 15 1)]"

text \<open>The same values written live, for the pipe that is started through its registers.\<close>

definition hqd_writes :: "MESInstance \<Rightarrow> (MESRegister \<times> u32) list" where
  "hqd_writes inst =
     [(CP_MQD_BASE_ADDR, ucast (mqd_bus inst) AND 0xFFFFFFFC),
      (CP_MQD_BASE_ADDR_HI, ucast (drop_bit 32 (mqd_bus inst))), (CP_MQD_CONTROL, 0),
      (CP_HQD_PQ_BASE, ucast (drop_bit 8 (mes_ring_bus inst))),
      (CP_HQD_PQ_BASE_HI, ucast (drop_bit 32 (drop_bit 8 (mes_ring_bus inst)))),
      (CP_HQD_PQ_RPTR_REPORT_ADDR, ucast (ring_rptr_gpu_addr inst) AND 0xFFFFFFFC),
      (CP_HQD_PQ_RPTR_REPORT_ADDR_HI, ucast (drop_bit 32 (ring_rptr_gpu_addr inst)) AND 0xFFFF),
      (CP_HQD_PQ_CONTROL, mes_pq_control inst),
      (CP_HQD_PQ_WPTR_POLL_ADDR, ucast (ring_wptr_gpu_addr inst) AND 0xFFFFFFF8),
      (CP_HQD_PQ_WPTR_POLL_ADDR_HI, ucast (drop_bit 32 (ring_wptr_gpu_addr inst)) AND 0xFFFF),
      (CP_HQD_PQ_DOORBELL_CONTROL, mes_db_control inst), (CP_HQD_PERSISTENT_STATE, mes_persistent),
      (CP_HQD_ACTIVE, 1)]"

definition mes_queue_init :: "'d DeviceContext \<Rightarrow> MESContext \<Rightarrow> u32 \<Rightarrow> 'd \<Rightarrow> (MESContext, 'd) outcome" where
  "mes_queue_init dev mes p d =
     (let inst = mes_pipe mes p
      in if kMaxMESPipes \<le> p then Some ((kIOReturnBadArgument, mes), d)
      else if \<not> mi_inited inst \<or> \<not> mi_enabled inst then Some ((kIOReturnNotReady, mes), d)
      else if \<not> gc_resolved dev then Some ((kIOReturnNotReady, mes), d)
      else if mqd_cpu inst = None then Some ((kIOReturnNotReady, mes), d)
      else let mqd = put_words (replicate (unat kMES_MQD_SIZE div 4) 0) (mqd_words inst);
               inst = inst\<lparr>mqd_cpu := Some mqd\<rparr>;
               mes = set_pipe p inst mes;
               (r, d) = vram_write_verified dev (mqd_bus inst - vram_base inst) (Some (dw_bytes mqd)) kMES_MQD_SIZE d
        in if r \<noteq> kIOReturnSuccess then Some ((r, mes), d)
        else let d = amdgpu_hdp_flush dev d
          in if p = Sched
          then mes_map_legacy_queue dev mes kMESQueueType_SCHQ p 0 (doorbell_index inst) (mqd_bus inst)
                 (ring_wptr_gpu_addr inst) d
          else let d = grbm_select dev 3 p 0 0 d;
                   d = mes_modify dev CP_HQD_PQ_DOORBELL_CONTROL
                         (\<lambda>v. REG_SET_FIELD v CP_HQD_PQ_DOORBELL_CONTROL__DOORBELL_EN 0) d;
                   d = mes_modify dev CP_HQD_VMID (\<lambda>v. REG_SET_FIELD v CP_HQD_VMID__VMID 0) d;
                   d = mes_writes dev (hqd_writes inst) d
            in Some ((kIOReturnSuccess, mes), grbm_select dev 0 0 0 0 d))"

section \<open>Settings\<close>

definition mes_kiq_setting :: "'d DeviceContext \<Rightarrow> u32 \<Rightarrow> u32 \<Rightarrow> u32 \<Rightarrow> 'd \<Rightarrow> kern_return \<times> 'd" where
  "mes_kiq_setting dev me p q d =
     (if \<not> gc_resolved dev then (kIOReturnNotReady, d)
      else (kIOReturnSuccess, mes_modify dev RLC_CP_SCHEDULERS (\<lambda>v.
        ((v AND 0xFFFFFF00) OR push_bit 5 (me AND 7) OR push_bit 3 (p AND 3) OR (q AND 7)) OR 0x80) d))"

definition mes_enable_unmapped_doorbell_handling :: "'d DeviceContext \<Rightarrow> bool \<Rightarrow> 'd \<Rightarrow> kern_return \<times> 'd" where
  "mes_enable_unmapped_doorbell_handling dev enable d =
     (if \<not> gc_resolved dev then (kIOReturnNotReady, d)
      else (kIOReturnSuccess, mes_modify dev CP_UNMAPPED_DOORBELL (\<lambda>v.
        let v = (v AND NOT (fst CP_UNMAPPED_DOORBELL__PROC_LSB)) OR
                push_bit (snd CP_UNMAPPED_DOORBELL__PROC_LSB) 0xD
        in if enable then v OR push_bit (snd CP_UNMAPPED_DOORBELL__ENABLE) 1
           else v AND NOT (push_bit (snd CP_UNMAPPED_DOORBELL__ENABLE) 1)) d))"

definition mes_read_sched_version :: "'d DeviceContext \<Rightarrow> MESContext \<Rightarrow> u32 \<Rightarrow> 'd \<Rightarrow> (kern_return \<times> MESContext) \<times> 'd" where
  "mes_read_sched_version dev mes p d =
     (if kMaxMESPipes \<le> p then ((kIOReturnBadArgument, mes), d)
      else if \<not> gc_resolved dev then ((kIOReturnNotReady, mes), d)
      else let d = grbm_select dev 3 p 0 0 d;
               (v, d) = mes_rreg dev CP_MES_GP3_LO d;
               d = grbm_select dev 0 0 0 0 d
        in ((kIOReturnSuccess, if p = Sched then mes\<lparr>sched_version := v\<rparr> else mes\<lparr>kiq_version := v\<rparr>), d))"

definition aggregated_registers :: "MESRegister list" where
  "aggregated_registers = [CP_MES_DOORBELL_CONTROL1, CP_MES_DOORBELL_CONTROL2, CP_MES_DOORBELL_CONTROL3,
     CP_MES_DOORBELL_CONTROL4, CP_MES_DOORBELL_CONTROL5]"

definition mes_init_aggregated_doorbell :: "'d DeviceContext \<Rightarrow> u32 list \<Rightarrow> 'd \<Rightarrow> kern_return \<times> 'd" where
  "mes_init_aggregated_doorbell dev doorbells d =
     (if \<not> gc_resolved dev then (kIOReturnNotReady, d)
      else let clear_mask = fst CP_MES_DOORBELL_CONTROL1__DOORBELL_OFFSET OR
                 fst CP_MES_DOORBELL_CONTROL1__DOORBELL_EN OR CP_MES_DOORBELL_CONTROL1__DOORBELL_HIT_MASK;
               d = foldl (\<lambda>d (r, x). mes_modify dev r (\<lambda>v. set_fields (v AND NOT clear_mask)
                     [(CP_MES_DOORBELL_CONTROL1__DOORBELL_OFFSET, x),
                      (CP_MES_DOORBELL_CONTROL1__DOORBELL_EN, 1)]) d) d (zip aggregated_registers doorbells)
        in (kIOReturnSuccess,
            mes_wreg dev CP_HQD_GFX_CONTROL (push_bit (snd CP_HQD_GFX_CONTROL__DB_UPDATED_MSG_EN) 1) d))"

section \<open>Bring-up\<close>

definition init_doorbells :: "u32 list" where
  "init_doorbells = map (\<lambda>i. kMES_AggregatedDoorbellsBase + word_of_nat i) [0..<5]"

definition kiq_resources :: MESSetHwResourcesInput where
  "kiq_resources = \<lparr>hi_vmid_mask_mmhub = 0, hi_vmid_mask_gfxhub = 0, hi_compute_hqd_mask = replicate 8 0,
     hi_gfx_hqd_mask = replicate 2 0, hi_sdma_hqd_mask = replicate 2 0,
     hi_aggregated_doorbells = replicate 5 0\<rparr>"

definition sched_resources :: MESSetHwResourcesInput where
  "sched_resources = \<lparr>hi_vmid_mask_mmhub = 0xFE, hi_vmid_mask_gfxhub = 0xFE,
     hi_compute_hqd_mask = replicate 8 0, hi_gfx_hqd_mask = [0xFE, 0], hi_sdma_hqd_mask = [0x0F, 0x0F],
     hi_aggregated_doorbells = init_doorbells\<rparr>"

text \<open>Steps that return at once and touch the device only, or the context as well, as outcomes.\<close>

definition device_step :: "'s \<Rightarrow> kern_return \<times> 'd \<Rightarrow> ('s, 'd) outcome" where
  "device_step s rd = Some ((fst rd, s), snd rd)"

definition log_step :: "'d DeviceContext \<Rightarrow> u32 \<Rightarrow> 's \<Rightarrow> 'd \<Rightarrow> ('s, 'd) outcome" where
  "log_step dev p s d = Some ((kIOReturnSuccess, s), mes_log_queue_state dev p d)"

definition mes_storage_step ::
  "'d DeviceContext \<Rightarrow> 'd os \<Rightarrow> u32 \<Rightarrow> MESContext \<times> GMCContext \<Rightarrow> 'd \<Rightarrow> (MESContext \<times> GMCContext, 'd) outcome"
where
  "mes_storage_step dev os p s d = (case mes_alloc_storage dev os (mes_pipe (fst s) p, snd s) p d of
       None \<Rightarrow> None
     | Some ((r, inst, gmc), d) \<Rightarrow> Some ((r, set_pipe p inst (fst s), gmc), d))"

definition mes_kiq_bringup ::
  "'d DeviceContext \<Rightarrow> 'd os \<Rightarrow> MESContext \<times> GMCContext \<Rightarrow> 'd \<Rightarrow> (MESContext \<times> GMCContext, 'd) outcome"
where
  "mes_kiq_bringup dev os s d =
     and_then (mes_storage_step dev os 0 s d) (\<lambda>s d.
     and_then (mes_storage_step dev os 1 s d) (\<lambda>s d.
     let s = ((fst s)\<lparr>uni_mes_active := True\<rparr>, snd s) in
     and_then (device_step s (mes_kiq_setting dev 3 1 0 d)) (\<lambda>s d.
     and_then (on_fst (mes_enable dev (fst s) True d) (snd s)) (\<lambda>s d.
     and_then (log_step dev 1 s d) (\<lambda>s d.
     and_then (on_fst (mes_queue_init dev (fst s) KIQ d) (snd s)) (\<lambda>s d.
     and_then (on_fst (Some (mes_read_sched_version dev (fst s) KIQ d)) (snd s)) (\<lambda>s d.
     and_then (mes_set_hw_resources dev os kiq_resources KIQ s d) (\<lambda>s d.
     and_then (mes_set_hw_resources_1 dev os KIQ s d) (\<lambda>s d.
     log_step dev 1 s d)))))))))"

definition mes_sched_bringup ::
  "'d DeviceContext \<Rightarrow> 'd os \<Rightarrow> MESContext \<times> GMCContext \<Rightarrow> 'd \<Rightarrow> (MESContext \<times> GMCContext, 'd) outcome"
where
  "mes_sched_bringup dev os s d =
     and_then (device_step s (mes_enable_unmapped_doorbell_handling dev True d)) (\<lambda>s d.
     and_then (on_fst (mes_queue_init dev (fst s) Sched d) (snd s)) (\<lambda>s d.
     and_then (on_fst (Some (mes_read_sched_version dev (fst s) Sched d)) (snd s)) (\<lambda>s d.
     and_then (log_step dev 0 s d) (\<lambda>s d.
     and_then (mes_set_hw_resources dev os sched_resources Sched s d) (\<lambda>s d.
     and_then (if kMES_HwResources1MinSchedVersion \<le> sched_version (fst s) AND kMES_VERSION_MASK
               then mes_set_hw_resources_1 dev os Sched s d
               else Some ((kIOReturnSuccess, s), d)) (\<lambda>s d.
     and_then (log_step dev 0 s d) (\<lambda>s d.
     and_then (device_step s (mes_init_aggregated_doorbell dev init_doorbells d)) (\<lambda>s d.
     on_fst (mes_query_sched_status dev (fst s) Sched d) (snd s)))))))))"

definition mes_init_full ::
  "'d DeviceContext \<Rightarrow> 'd os \<Rightarrow> MESContext \<times> GMCContext \<Rightarrow> 'd \<Rightarrow> (MESContext \<times> GMCContext, 'd) outcome"
where
  "mes_init_full dev os s d =
     (if \<not> gc_resolved dev then Some ((kIOReturnNotReady, s), d)
      else if \<not> kEnableUniMES \<or> \<not> sched_ucode_loaded (fst s) \<or> \<not> kiq_ucode_loaded (fst s)
      then Some ((kIOReturnNotReady, s), d)
      else and_then (mes_kiq_bringup dev os s d) (mes_sched_bringup dev os))"

end
