(* ===== verification/Mes_Ring.thy ===== *)
theory Mes_Ring
  imports Mes_Bringup Vram_Correct
begin

text \<open>
  The ring of a pipe: what is staged, what the upload stores in VRAM, and what holds at the moment
  the doorbell is written. Positions are the monotone 64-bit pointers; a word's place is its position
  modulo the size of the ring.
\<close>

section \<open>The invariant of the ring\<close>

definition ring_size :: "MESInstance \<Rightarrow> nat" where
  "ring_size inst = unat (mes_ring_dwords inst)"

definition ring_ok :: "MESInstance \<Rightarrow> bool" where
  "ring_ok inst \<longleftrightarrow> (\<exists>ring wb. mes_ring_cpu inst = Some ring \<and> wb_cpu inst = Some wb \<and>
     length ring = ring_size inst \<and> is_pow2 (mes_ring_dwords inst) \<and>
     128 \<le> ring_size inst \<and> ring_size inst \<le> 536870912 \<and>
     unat (published_wptr inst) \<le> unat (wb 0x80) \<and>
     unat (wb 0x80) \<le> unat (published_wptr inst) + ring_size inst \<and>
     (\<not> submission_pending inst \<longrightarrow> wb 0x80 = published_wptr inst))"

lemma ring_okE:
  assumes "ring_ok inst"
  obtains ring wb where "mes_ring_cpu inst = Some ring" "wb_cpu inst = Some wb"
    "length ring = ring_size inst" "is_pow2 (mes_ring_dwords inst)" "128 \<le> ring_size inst"
    "ring_size inst \<le> 536870912" "unat (published_wptr inst) \<le> unat (wb 0x80)"
    "unat (wb 0x80) \<le> unat (published_wptr inst) + ring_size inst" "sw_wptr inst = wb 0x80"
    "\<not> submission_pending inst \<Longrightarrow> wb 0x80 = published_wptr inst"
  using assms by (auto simp: ring_ok_def sw_wptr_def)

lemma ring_mask:
  fixes w :: u64 and sz :: u32
  assumes "is_pow2 sz"
  shows "unat (w AND ucast (sz - 1)) = unat w mod unat sz"
proof -
  obtain k where k: "k < 32" "unat sz = 2 ^ k" using is_pow2D [OF assms] by auto
  have "unat (sz - 1) = 2 ^ k - 1" using k by (simp add: unat_pred)
  moreover have "unat (mask k :: u64) = 2 ^ k - 1"
    using k unat_two_power [of k, where 'a = 64] by (simp add: mask_eq_exp_minus_1 unat_pred)
  ultimately have "(ucast (sz - 1) :: u64) = mask k" by (simp add: word_unat_eq_iff unat_widen)
  then have "w AND ucast (sz - 1) = take_bit k w" by (simp add: take_bit_eq_mask)
  then have "unat (w AND ucast (sz - 1)) = take_bit k (unat w)" by (simp add: unsigned_take_bit_eq)
  then show ?thesis by (simp add: take_bit_eq_mod k)
qed

section \<open>Staging\<close>

lemma length_ring_put [simp]: "length (ring_put ring w msk src) = length ring"
  by (induction src arbitrary: ring w) auto

lemma unat_next: "unat w + Suc n < 18446744073709551616 \<Longrightarrow> unat (w + 1 :: u64) = unat w + 1"
  by (simp add: unat_add64)

lemma mod_apart:
  fixes a b n :: nat
  assumes "a < b" "b < a + n"
  shows "a mod n \<noteq> b mod n"
proof
  assume "a mod n = b mod n"
  then have "n dvd b - a" using assms(1) by (metis mod_eq_dvd_iff_nat less_imp_le)
  moreover have "0 < b - a" "b - a < n" using assms by linarith+
  ultimately show False by (meson dvd_imp_le not_le)
qed

lemma ring_put_other:
  assumes "is_pow2 sz" "unat w + length src < 18446744073709551616"
    "\<And>i. i < length src \<Longrightarrow> (unat w + i) mod unat sz \<noteq> j"
  shows "ring_put ring w (sz - 1) src ! j = ring ! j"
  using assms(2,3)
proof (induction src arbitrary: ring w)
  case (Cons x src)
  have "unat w mod unat sz \<noteq> j" using Cons.prems(2) [of 0] by simp
  moreover have "ring_put r (w + 1) (sz - 1) src ! j = r ! j" for r
  proof (rule Cons.IH)
    note u = unat_next [of w "length src"]
    show "unat (w + 1) + length src < 18446744073709551616" using Cons.prems(1) u by simp
    show "(unat (w + 1) + i) mod unat sz \<noteq> j" if "i < length src" for i
      using Cons.prems(2) [of "Suc i"] Cons.prems(1) u that by simp
  qed
  ultimately show ?case by (simp add: ring_mask [OF assms(1)])
qed simp

lemma ring_put_new:
  assumes "is_pow2 sz" "length ring = unat sz" "length src \<le> unat sz"
    "unat w + length src < 18446744073709551616" "i < length src"
  shows "ring_put ring w (sz - 1) src ! ((unat w + i) mod unat sz) = src ! i"
  using assms(2-5)
proof (induction src arbitrary: ring w i)
  case (Cons x src)
  let ?r = "ring[unat w mod unat sz := x]"
  have u: "unat (w + 1) = unat w + 1" using unat_next [of w "length src"] Cons.prems(3) by simp
  have S: "0 < unat sz" using Cons.prems(2) by (cases "unat sz") auto
  have step: "ring_put ring w (sz - 1) (x # src) = ring_put ?r (w + 1) (sz - 1) src"
    by (simp add: ring_mask [OF assms(1)])
  show ?case
  proof (cases i)
    case 0
    have "ring_put ?r (w + 1) (sz - 1) src ! (unat w mod unat sz) = ?r ! (unat w mod unat sz)"
    proof (rule ring_put_other [OF assms(1)])
      show "unat (w + 1) + length src < 18446744073709551616" using Cons.prems(3) u by simp
      show "(unat (w + 1) + k) mod unat sz \<noteq> unat w mod unat sz" if "k < length src" for k
        using mod_apart [of "unat w" "unat w + 1 + k" "unat sz"] that Cons.prems(2) u by simp
    qed
    also have "\<dots> = x" using S Cons.prems(1) by simp
    finally show ?thesis using 0 step by simp
  next
    case (Suc k)
    then have "ring_put ?r (w + 1) (sz - 1) src ! ((unat (w + 1) + k) mod unat sz) = src ! k"
      using Cons.prems u by (intro Cons.IH) auto
    then show ?thesis using Suc step u by simp
  qed
qed simp

lemma widen_nat: "n < 4294967296 \<Longrightarrow> ucast (word_of_nat n :: u32) = (word_of_nat n :: u64)"
  by (simp add: word_unat_eq_iff unat_widen unat_of_nat)

lemma mes_ring_write_fits:
  assumes "mi_inited inst" and cpu: "mes_ring_cpu inst = Some ring" "wb_cpu inst = Some wb"
    and sz: "is_pow2 (mes_ring_dwords inst)"
    and len: "0 < length src" "length src \<le> ring_size inst"
    and room: "unat (wb 0x80) + length src < 18446744073709551616"
      "unat (published_wptr inst) \<le> unat (wb 0x80)"
      "unat (wb 0x80) + length src \<le> unat (published_wptr inst) + ring_size inst"
  shows "mes_ring_write inst src = (word_of_nat (length src),
    inst\<lparr>mes_ring_cpu := Some (ring_put ring (wb 0x80) (mes_ring_dwords inst - 1) src),
         wb_cpu := Some (wb(0x80 := wb 0x80 + word_of_nat (length src)))\<rparr>)"
proof -
  let ?n = "word_of_nat (length src) :: u32" and ?sz = "mes_ring_dwords inst"
  have small: "length src < 4294967296" using len(2) unat_lt_32 [of ?sz] unfolding ring_size_def by linarith
  then have n: "unat ?n = length src" by (simp add: unat_of_nat)
  have n0: "?n \<noteq> 0" using n len(1) by auto
  have le: "?n \<le> ?sz" using n len(2) by (simp add: word_le_nat_alt ring_size_def)
  have diff: "unat (?sz - ?n) = ring_size inst - length src"
    using le n by (simp add: unat_sub ring_size_def)
  have "wb 0x80 \<le> 0xFFFFFFFFFFFFFFFF - ucast ?n"
    using room(1) n by (simp add: add_guard64_max unat_widen)
  moreover have "published_wptr inst \<le> wb 0x80" using room(2) by (simp add: word_le_nat_alt)
  moreover have "wb 0x80 - published_wptr inst \<le> ucast (?sz - ?n)"
    using room(2,3) len(2) diff by (simp add: word_le_nat_alt unat_widen unat_sub)
  ultimately show ?thesis
    using assms(1) cpu sz n0 le small
    by (simp add: mes_ring_write_def sw_wptr_def is_pow2_def Let_def widen_nat not_less not_le)
qed

section \<open>The upload\<close>

lemma ring_chunk_spec:
  assumes "is_pow2 sz" "cursor < wptr" "ring_chunk sz cursor wptr = (index, n)"
  shows "unat index = unat cursor mod unat sz"
    "unat n = min (unat sz - unat cursor mod unat sz) (unat wptr - unat cursor)"
proof -
  have pos: "0 < unat sz" using is_pow2D [OF assms(1)] by (metis zero_less_numeral zero_less_power)
  have "unat (ucast (cursor AND ucast (sz - 1)) :: u32) = unat (cursor AND ucast (sz - 1)) mod 4294967296"
    by (simp only: unsigned_ucast_eq take_bit_eq_mod) simp
  also have "\<dots> = unat cursor mod unat sz"
    using ring_mask [OF assms(1)] unat_lt_32 [of sz] pos
    by (simp add: less_trans [OF mod_less_divisor])
  finally have i: "unat (ucast (cursor AND ucast (sz - 1)) :: u32) = unat cursor mod unat sz" .
  then show index: "unat index = unat cursor mod unat sz"
    using assms(3) by (auto simp: ring_chunk_def Let_def)
  have "index \<le> sz" using index pos by (simp add: word_le_nat_alt less_imp_le)
  then have room: "unat (ucast (sz - index) :: u64) = unat sz - unat cursor mod unat sz"
    using index by (simp add: unat_widen unat_sub)
  have left: "unat (wptr - cursor) = unat wptr - unat cursor"
    using assms(2) by (simp add: unat_sub less_imp_le)
  show "unat n = min (unat sz - unat cursor mod unat sz) (unat wptr - unat cursor)"
    using assms(3) room left by (auto simp: ring_chunk_def Let_def word_less_nat_alt)
qed

text \<open>The VRAM address of a ring position, and where the ring lies.\<close>

definition ring_home :: "MESInstance \<Rightarrow> u64" where
  "ring_home inst = mes_ring_bus inst - vram_base inst"

definition ring_addr :: "MESInstance \<Rightarrow> nat \<Rightarrow> u64" where
  "ring_addr inst k = ring_home inst + word_of_nat (4 * (k mod ring_size inst))"

definition ring_fits :: "MESInstance \<Rightarrow> bool" where
  "ring_fits inst \<longleftrightarrow> unat (ring_home inst) + 4 * ring_size inst \<le> 18446744073709551615"

lemma unat_nat64: "n < 18446744073709551616 \<Longrightarrow> unat (word_of_nat n :: u64) = n"
  by (simp add: unat_of_nat)

lemma unat_plus_nat:
  assumes "unat off + m < 18446744073709551616"
  shows "unat (off + word_of_nat m :: u64) = unat off + m"
proof -
  have u: "unat (word_of_nat m :: u64) = m" using assms by (intro unat_nat64) linarith
  have "unat off + unat (word_of_nat m :: u64) < 2 ^ 64" using assms unfolding u by simp
  from unat_add64 [OF this] show ?thesis unfolding u .
qed

lemma unat_home_plus:
  assumes "ring_fits inst" "j \<le> ring_size inst"
  shows "unat (ring_home inst + word_of_nat (4 * j)) = unat (ring_home inst) + 4 * j"
  using assms by (intro unat_plus_nat) (simp add: ring_fits_def)

lemma unat_ring_addr:
  assumes "ring_fits inst" "0 < ring_size inst"
  shows "unat (ring_addr inst k) = unat (ring_home inst) + 4 * (k mod ring_size inst)"
  unfolding ring_addr_def using assms by (intro unat_home_plus) (simp_all add: less_imp_le)

lemma upload_piece:
  assumes mem: "reads_memory dev mem" "writes_local dev mem"
    and fits: "ring_fits inst" and S: "is_pow2 (mes_ring_dwords inst)" "ring_size inst \<le> 536870912"
    and len: "length ring = ring_size inst"
    and cur: "cursor < wptr" and chunk: "ring_chunk (mes_ring_dwords inst) cursor wptr = (index, n)"
    and run: "vram_write_verified dev (mes_ring_bus inst - vram_base inst + ucast (index * 4))
      (Some (dw_bytes (take (unat n) (drop (unat index) ring)))) (n * 4) d = (kIOReturnSuccess, d1)"
  shows "k < unat n \<Longrightarrow> mem d1 (ring_addr inst (unat cursor + k)) = ring ! ((unat cursor + k) mod ring_size inst)"
    and "unat x < unat (ring_home inst) + 4 * (unat cursor mod ring_size inst) \<or>
      unat (ring_home inst) + 4 * (unat cursor mod ring_size inst + unat n) \<le> unat x \<Longrightarrow> mem d1 x = mem d x"
proof -
  let ?S = "ring_size inst" and ?C = "unat cursor"
  note c = ring_chunk_spec [OF S(1) cur chunk, folded ring_size_def]
  have pos: "0 < ?S" using is_pow2D [OF S(1)] by (metis zero_less_numeral zero_less_power ring_size_def)
  have bound: "?C mod ?S + unat n \<le> ?S" using c(2) pos by (simp add: less_imp_le min_def)
  have i4: "unat (ucast (index * 4) :: u64) = 4 * (?C mod ?S)"
  proof -
    have "?C mod ?S < ?S" using pos by simp
    then have "unat index * 4 < 4294967296" using c(1) S(2) by linarith
    then show ?thesis by (simp add: unat_widen unat_word_ariths c(1))
  qed
  have n4: "unat (n * 4) = 4 * unat n"
    using bound S(2) by (simp add: unat_word_ariths)
  have lt: "4 * (?C mod ?S) < 18446744073709551616" using c(1) unat_lt_32 [of index] by linarith
  have "ucast (index * 4) = (word_of_nat (4 * (?C mod ?S)) :: u64)"
    unfolding word_unat_eq_iff i4 unat_nat64 [OF lt] ..
  then have off: "mes_ring_bus inst - vram_base inst + ucast (index * 4) = ring_home inst + word_of_nat (4 * (?C mod ?S))"
    unfolding ring_home_def by simp
  let ?off = "ring_home inst + word_of_nat (4 * (?C mod ?S)) :: u64"
  have uoff: "unat ?off = unat (ring_home inst) + 4 * (?C mod ?S)"
    using fits pos by (intro unat_home_plus) (simp_all add: less_imp_le)
  note w = run [unfolded off]
  note st = vram_write_stores [OF mem(1) w]
  show "mem d1 (ring_addr inst (?C + k)) = ring ! ((?C + k) mod ?S)" if k: "k < unat n"
  proof -
    have m: "(?C + k) mod ?S = ?C mod ?S + k"
    proof -
      have "?C mod ?S + k < ?S" using k bound by linarith
      then have "(?C mod ?S + k) mod ?S = ?C mod ?S + k" by (rule mod_less)
      then show ?thesis by (simp only: mod_add_left_eq)
    qed
    have "mem d1 (?off + word_of_nat (4 * k)) = le32 (dw_bytes (take (unat n) (drop (unat index) ring))) (4 * k)"
      using st k n4 by (simp add: vram_holds_def)
    also have "\<dots> = ring ! (?C mod ?S + k)"
      using k bound len c(1) by (subst le32_dw_bytes) auto
    finally show ?thesis using m by (simp add: ring_addr_def add.assoc distrib_left)
  qed
  show "mem d1 x = mem d x"
    if "unat x < unat (ring_home inst) + 4 * (?C mod ?S) \<or>
      unat (ring_home inst) + 4 * (?C mod ?S + unat n) \<le> unat x"
    by (rule vram_write_frame [OF mem w]) (use that uoff n4 in auto)
qed

lemma chunk_bounds:
  assumes "is_pow2 sz" "cursor < wptr" "ring_chunk sz cursor wptr = (index, n)"
  shows "0 < unat n" "unat n \<le> unat wptr - unat cursor" "unat cursor mod unat sz + unat n \<le> unat sz"
    "unat (cursor + n) = unat cursor + unat n"
proof -
  note c = ring_chunk_spec [OF assms]
  have "unat cursor mod unat sz < unat sz" using is_pow2D [OF assms(1)]
    by (metis mod_less_divisor zero_less_numeral zero_less_power)
  then show n: "0 < unat n" "unat n \<le> unat wptr - unat cursor" "unat cursor mod unat sz + unat n \<le> unat sz"
    using c(2) assms(2) by (simp_all add: word_less_nat_alt)
  have "unat cursor + unat n < 18446744073709551616" using n(1,2) unat_lt_64 [of wptr] by linarith
  then have "unat cursor + unat n < 2 ^ 64" by simp
  then show "unat (cursor + n) = unat cursor + unat n" by (rule unat_add64)
qed

text \<open>What the driver relies on of the storage and the device it publishes through.\<close>

definition ring_setup :: "'d DeviceContext \<Rightarrow> ('d \<Rightarrow> u64 \<Rightarrow> u32) \<Rightarrow> MESInstance \<Rightarrow> u32 list \<Rightarrow> bool" where
  "ring_setup dev mem inst ring \<longleftrightarrow> reads_memory dev mem \<and> writes_local dev mem \<and> ring_fits inst \<and>
     is_pow2 (mes_ring_dwords inst) \<and> ring_size inst \<le> 536870912 \<and> length ring = ring_size inst"

lemma ring_size_pos: "is_pow2 (mes_ring_dwords inst) \<Longrightarrow> 0 < ring_size inst"
  using is_pow2D by (metis zero_less_numeral zero_less_power ring_size_def)

text \<open>A position in VRAM shows its word of the staging copy.\<close>

definition shows_word :: "('d \<Rightarrow> u64 \<Rightarrow> u32) \<Rightarrow> MESInstance \<Rightarrow> u32 list \<Rightarrow> 'd \<Rightarrow> nat \<Rightarrow> bool" where
  "shows_word mem inst ring d k \<longleftrightarrow> mem d (ring_addr inst k) = ring ! (k mod ring_size inst)"

lemma old_word_apart:
  fixes S :: nat
  assumes "k < C" "C + n \<le> k + S" "C mod S + n \<le> S"
  shows "k mod S < C mod S \<or> C mod S + n \<le> k mod S"
proof (rule ccontr)
  let ?S = S
  assume "\<not> ?thesis"
  then obtain j where j: "k mod ?S = C mod ?S + j" "j < n"
    by (metis add_diff_inverse_nat add_less_cancel_left not_le)
  have lt: "C mod ?S + j < ?S" using j(2) assms(3) by linarith
  have "(C + j) mod ?S = (C mod ?S + j) mod ?S" by (simp only: mod_add_left_eq)
  also have "\<dots> = k mod ?S" using lt j(1) by simp
  finally have "k mod ?S = (C + j) mod ?S" by simp
  moreover have "k < C + j" "C + j < k + ?S" using assms j(2) by linarith+
  ultimately show False using mod_apart by blast
qed

lemma upload_shows:
  assumes ready: "ring_setup dev mem inst ring"
    and "upload_ring dev inst ring cursor wptr d = Some (kIOReturnSuccess, d')"
    and "P \<le> unat cursor" "unat cursor \<le> unat wptr" "unat wptr \<le> P + ring_size inst"
    and "\<And>k. P \<le> k \<Longrightarrow> k < unat cursor \<Longrightarrow> shows_word mem inst ring d k"
  shows "(\<forall>k. P \<le> k \<and> k < unat wptr \<longrightarrow> shows_word mem inst ring d' k) \<and>
    (\<forall>x. unat x < unat (ring_home inst) \<or> unat (ring_home inst) + 4 * ring_size inst \<le> unat x \<longrightarrow>
       mem d' x = mem d x)"
  using assms(2-)
proof (induction "unat wptr - unat cursor" arbitrary: cursor d rule: less_induct)
  case less
  have mem: "reads_memory dev mem" "writes_local dev mem" and fits: "ring_fits inst"
    and pow2: "is_pow2 (mes_ring_dwords inst)" and small: "ring_size inst \<le> 536870912"
    and len: "length ring = ring_size inst"
    using ready by (simp_all add: ring_setup_def)
  note run = less.prems(1)
  show ?case
  proof (cases "cursor < wptr")
    case False
    then have "unat cursor = unat wptr" using less.prems(3) by (simp add: word_less_nat_alt)
    then show ?thesis using run False less.prems(5) by (subst (asm) upload_ring.simps) auto
  next
    case True
    obtain index n where chunk: "ring_chunk (mes_ring_dwords inst) cursor wptr = (index, n)" by fastforce
    note b = chunk_bounds [OF pow2 True chunk, folded ring_size_def]
    obtain r d1 where w: "vram_write_verified dev (mes_ring_bus inst - vram_base inst + ucast (index * 4))
        (Some (dw_bytes (take (unat n) (drop (unat index) ring)))) (n * 4) d = (r, d1)" by fastforce
    have r: "r = kIOReturnSuccess"
      and rest: "upload_ring dev inst ring (cursor + n) wptr d1 = Some (kIOReturnSuccess, d')"
      using run True chunk w by (subst (asm) upload_ring.simps, auto split: if_splits)+
    note p = upload_piece [OF mem fits pow2 small len True chunk w [unfolded r]]
    have "shows_word mem inst ring d1 k" if k: "P \<le> k" "k < unat (cursor + n)" for k
    proof (cases "k < unat cursor")
      case False
      then obtain j where "k = unat cursor + j" "j < unat n"
        using k(2) b(4) by (metis add_less_cancel_left le_add_diff_inverse not_le)
      then show ?thesis using p(1) by (simp add: shows_word_def)
    next
      case old: True
      have "unat cursor + unat n \<le> k + ring_size inst" using k(1) b(2) less.prems(3,4) by linarith
      from old_word_apart [OF old this b(3)] have "mem d1 (ring_addr inst k) = mem d (ring_addr inst k)"
        by (intro p(2)) (auto simp: unat_ring_addr [OF fits ring_size_pos [OF pow2]])
      then show ?thesis using less.prems(5) [OF k(1) old] by (simp add: shows_word_def)
    qed
    then have IH: "(\<forall>k. P \<le> k \<and> k < unat wptr \<longrightarrow> shows_word mem inst ring d' k) \<and>
        (\<forall>x. unat x < unat (ring_home inst) \<or> unat (ring_home inst) + 4 * ring_size inst \<le> unat x \<longrightarrow>
           mem d' x = mem d1 x)"
      using less.prems(2-4) b True by (intro less.hyps [OF _ rest]) (auto simp: word_less_nat_alt)
    moreover have "mem d1 x = mem d x"
      if "unat x < unat (ring_home inst) \<or> unat (ring_home inst) + 4 * ring_size inst \<le> unat x" for x
      using that b(3) by (intro p(2)) auto
    ultimately show ?thesis by simp
  qed
qed

lemma upload_returns:
  assumes pow2: "is_pow2 (mes_ring_dwords inst)"
  shows "\<exists>r. upload_ring dev inst ring cursor wptr d = Some r"
proof (induction "unat wptr - unat cursor" arbitrary: cursor d rule: less_induct)
  case less
  show ?case
  proof (cases "cursor < wptr")
    case True
    obtain index n where chunk: "ring_chunk (mes_ring_dwords inst) cursor wptr = (index, n)" by fastforce
    have "unat wptr - unat (cursor + n) < unat wptr - unat cursor"
      using chunk_bounds [OF pow2 True chunk] by linarith
    from less.hyps [OF this] show ?thesis using chunk by (subst upload_ring.simps) (auto split: prod.splits)
  qed (subst upload_ring.simps, simp)
qed

end
