(* ===== verification/Mes_Correct.thy ===== *)
theory Mes_Correct
  imports Mes_Ring
begin

text \<open>
  The correctness of a submission: what the doorbell publishes, how the wait ends, and what state a
  submission leaves behind on every path.
\<close>

section \<open>The doorbell\<close>

text \<open>The ring and the used part of the write-back page do not overlap and do not wrap.\<close>

definition wb_home :: "MESInstance \<Rightarrow> u64" where
  "wb_home inst = wb_bus inst - vram_base inst"

definition storage_apart :: "MESInstance \<Rightarrow> bool" where
  "storage_apart inst \<longleftrightarrow> ring_fits inst \<and> unat (wb_home inst) + 256 \<le> 18446744073709551615 \<and>
     (unat (ring_home inst) + 4 * ring_size inst \<le> unat (wb_home inst) \<or>
      unat (wb_home inst) + 256 \<le> unat (ring_home inst))"

text \<open>The registers are not reached through the window of VRAM.\<close>

definition bars_apart :: "'d DeviceContext \<Rightarrow> bool" where
  "bars_apart dev \<longleftrightarrow> bar5MemIndex dev \<noteq> bar0MemIndex dev"

lemma flush_mem_reads:
  assumes "reads_memory dev mem" "writes_local dev mem" "bars_apart dev"
  shows "mem (amdgpu_hdp_flush dev d) = mem d"
proof
  fix x
  have "mem (wr32 dev (bar5MemIndex dev) 0x44000 0 d) x = mem d x"
    using assms(2,3) unfolding writes_local_def bars_apart_def by blast
  then show "mem (amdgpu_hdp_flush dev d) x = mem d x"
    using assms(1) by (simp add: amdgpu_hdp_flush_def reads_memory_def)
qed

lemma le32_bytes64: "k < 2 \<Longrightarrow> le32 (bytes64 v) (4 * k) = dw64 v ! k"
  by (simp add: bytes64_dw64 le32_dw_bytes)

text \<open>What kick leaves of the instance, and what VRAM shows when the doorbell is written.\<close>

definition kicked :: "MESInstance \<Rightarrow> (nat \<Rightarrow> u64) \<Rightarrow> MESInstance" where
  "kicked inst wb = inst\<lparr>wb_cpu := Some (wb(0x40 := wb 0x80)), published_wptr := wb 0x80\<rparr>"

lemma kick_spec:
  assumes ready: "ring_setup dev mem inst ring" "storage_apart inst" "bars_apart dev"
    and cpu: "mes_ring_cpu inst = Some ring" "wb_cpu inst = Some wb"
    and w: "unat (published_wptr inst) \<le> unat (wb 0x80)"
      "unat (wb 0x80) \<le> unat (published_wptr inst) + ring_size inst"
    and run: "mes_kick_doorbell dev inst d = Some ((kIOReturnSuccess, inst'), d')"
  shows "inst' = kicked inst wb \<and> (\<exists>d1.
    d' = wr64 dev (bar2MemIndex dev) (ucast (doorbell_index inst) * 4) (wb 0x80) d1 \<and>
    (\<forall>k. unat (published_wptr inst) \<le> k \<and> k < unat (wb 0x80) \<longrightarrow> shows_word mem inst ring d1 k) \<and>
    vram_holds dev mem d1 (wb_home inst + 0x40) (\<lambda>k. dw64 (wb 0x80) ! k) 2 \<and>
    (\<forall>x. (unat x < unat (ring_home inst) \<or> unat (ring_home inst) + 4 * ring_size inst \<le> unat x) \<and>
         (unat x < unat (wb_home inst) + 64 \<or> unat (wb_home inst) + 72 \<le> unat x) \<longrightarrow> mem d1 x = mem d x))"
proof -
  have mem: "reads_memory dev mem" "writes_local dev mem" and fits: "ring_fits inst"
    and pow2: "is_pow2 (mes_ring_dwords inst)"
    using ready(1) by (simp_all add: ring_setup_def)
  obtain e1 e2 where up: "upload_ring dev inst ring (published_wptr inst) (wb 0x80) d = Some (kIOReturnSuccess, e1)"
    and sh: "vram_write_verified dev (wb_home inst + 0x40) (Some (bytes64 (wb 0x80))) 8 e1 = (kIOReturnSuccess, e2)"
    and res: "inst' = kicked inst wb"
      "d' = wr64 dev (bar2MemIndex dev) (ucast (doorbell_index inst) * 4) (wb 0x80) (amdgpu_hdp_flush dev e2)"
    using run cpu by (auto simp: mes_kick_doorbell_def Let_def wb_home_def kicked_def
        split: if_splits option.splits prod.splits)
  note up = upload_shows [OF ready(1) up le_refl w]
  have flush: "mem (amdgpu_hdp_flush dev e2) = mem e2" by (rule flush_mem_reads [OF mem ready(3)])
  have off: "unat (wb_home inst + 0x40) = unat (wb_home inst) + 64"
    using ready(2) by (subst unat_add64) (simp_all add: storage_apart_def)
  have "mem e2 (ring_addr inst k) = mem e1 (ring_addr inst k)" for k
  proof (rule vram_write_frame [OF mem sh])
    have "k mod ring_size inst < ring_size inst" using ring_size_pos [OF pow2] by simp
    then show "unat (ring_addr inst k) < unat (wb_home inst + 0x40) \<or>
        unat (wb_home inst + 0x40) + unat (8 :: u64) \<le> unat (ring_addr inst k)"
      using ready(2) unfolding off unat_ring_addr [OF fits ring_size_pos [OF pow2]] storage_apart_def by auto
  qed
  then have "shows_word mem inst ring (amdgpu_hdp_flush dev e2) k"
    if "unat (published_wptr inst) \<le> k" "k < unat (wb 0x80)" for k
    using up that flush by (auto simp: shows_word_def)
  moreover have "vram_holds dev mem (amdgpu_hdp_flush dev e2) (wb_home inst + 0x40) (\<lambda>k. dw64 (wb 0x80) ! k) 2"
    using vram_write_stores [OF mem(1) sh] flush by (simp add: vram_holds_def le32_bytes64)
  moreover have "mem (amdgpu_hdp_flush dev e2) x = mem d x"
    if x: "unat x < unat (ring_home inst) \<or> unat (ring_home inst) + 4 * ring_size inst \<le> unat x"
      "unat x < unat (wb_home inst) + 64 \<or> unat (wb_home inst) + 72 \<le> unat x" for x
  proof -
    have "mem e2 x = mem e1 x"
      using x(2) off by (intro vram_write_frame [OF mem sh]) auto
    then show ?thesis using up x(1) flush by simp
  qed
  ultimately show ?thesis using res by blast
qed

lemma kick_returns:
  assumes "mes_ring_cpu inst = Some ring" "wb_cpu inst = Some wb" "is_pow2 (mes_ring_dwords inst)"
  shows "\<exists>r. mes_kick_doorbell dev inst d = Some r"
  using assms upload_returns [OF assms(3), of dev ring "published_wptr inst" "wb 0x80" d]
  by (auto simp: mes_kick_doorbell_def Let_def split: option.splits prod.splits)

text \<open>The codes of the VRAM accesses.\<close>

lemma vram_write_code: "fst (vram_write_verified dev off src n d) \<noteq> kIOReturnInternalError"
  by (auto simp: vram_write_verified_def Let_def split: option.splits prod.splits)

lemma fence_code: "vram_read_fence64 dev off d = ((r, v), d') \<Longrightarrow> r \<noteq> kIOReturnInternalError"
  by (auto simp: vram_read_fence64_def Let_def split: if_splits prod.splits)

lemma upload_code:
  assumes "upload_ring dev inst ring c w d = Some y"
  shows "fst y \<noteq> kIOReturnInternalError"
proof (rule upload_ring.raw_induct [where P = "\<lambda>dev inst ring c w d y. fst y \<noteq> kIOReturnInternalError", OF _ assms])
  fix f dev inst ring c w d and y :: "kern_return \<times> 'a"
  assume IH: "\<And>dev inst ring c w d y. f dev inst ring c w d = Some y \<Longrightarrow> fst y \<noteq> kIOReturnInternalError"
    and run: "(if \<not> c < w then Some (kIOReturnSuccess, d)
      else let (index, n) = ring_chunk (mes_ring_dwords inst) c w;
               (r, d) = vram_write_verified dev (mes_ring_bus inst - vram_base inst + ucast (index * 4))
                          (Some (dw_bytes (take (unat n) (drop (unat index) ring)))) (n * 4) d
        in if r \<noteq> kIOReturnSuccess then Some (r, d) else f dev inst ring (c + n) w d) = Some y"
  show "fst y \<noteq> kIOReturnInternalError"
  proof (cases "c < w")
    case True
    obtain index n where i: "ring_chunk (mes_ring_dwords inst) c w = (index, n)" by fastforce
    obtain r e where w: "vram_write_verified dev (mes_ring_bus inst - vram_base inst + ucast (index * 4))
        (Some (dw_bytes (take (unat n) (drop (unat index) ring)))) (n * 4) d = (r, e)" by fastforce
    have "r \<noteq> kIOReturnInternalError" using vram_write_code w by (metis fst_conv)
    then show ?thesis
      using run True i w IH by (cases "r = kIOReturnSuccess") auto
  qed (use run in auto)
qed

lemma kick_failed:
  assumes "mes_kick_doorbell dev inst d = Some ((r, inst'), d')" "r \<noteq> kIOReturnSuccess"
  shows "inst' = inst \<and> r \<noteq> kIOReturnInternalError"
proof -
  have "r \<noteq> kIOReturnInternalError" if "vram_write_verified dev off src n e = (r, e')" for off src n e e'
    using vram_write_code [of dev off src n e] that by simp
  moreover have "r \<noteq> kIOReturnInternalError" if "upload_ring dev inst ring c w e = Some (r, e')" for ring c w e e'
    using upload_code [OF that] by simp
  ultimately show ?thesis
    using assms by (auto simp: mes_kick_doorbell_def Let_def split: if_splits option.splits prod.splits)
qed

section \<open>The wait\<close>

text \<open>
  How a wait ends: with both completions read and the pipe free again, or with an error and the pipe
  still latched.
\<close>

definition wait_end :: "'d DeviceContext \<Rightarrow> MESInstance \<Rightarrow> (kern_return \<times> MESInstance) \<times> 'd \<Rightarrow> bool" where
  "wait_end dev inst y \<longleftrightarrow> (case y of ((r, inst'), d') \<Rightarrow>
     (inst' = inst \<and> r \<noteq> kIOReturnSuccess \<and> r \<noteq> kIOReturnInternalError) \<or>
     (inst' = inst\<lparr>submission_pending := False\<rparr> \<and> (\<exists>d1 d2 api.
        vram_read_fence64 dev (query_slot inst) d1 = ((kIOReturnSuccess, 1), d2) \<and>
        vram_read_fence64 dev (api_slot inst) d2 = ((kIOReturnSuccess, api), d') \<and>
        r = (if (ucast api :: u32) \<noteq> 0 then kIOReturnSuccess else kIOReturnInternalError))))"

lemma mes_wait_ends:
  assumes "mes_wait dev p inst start timeout_us d = Some y"
  shows "wait_end dev inst y"
proof (rule mes_wait.raw_induct [where P = "\<lambda>dev p inst start timeout_us d y. wait_end dev inst y", OF _ assms])
  fix f dev p inst start timeout_us d and y :: "(kern_return \<times> MESInstance) \<times> 'a"
  assume IH: "\<And>dev p inst start timeout_us d y. f dev p inst start timeout_us d = Some y \<Longrightarrow> wait_end dev inst y"
    and run: "(let (now, d) = now_ns dev d; elapsed_us = (now - start) div 1000;
          ((r, query_status), d) = vram_read_fence64 dev (query_slot inst) d
      in if r \<noteq> kIOReturnSuccess then Some ((r, inst), d)
      else if query_status = 1
      then let ((r, api_status), d) = vram_read_fence64 dev (api_slot inst) d
        in if r \<noteq> kIOReturnSuccess then Some ((r, inst), d)
        else Some ((if (ucast api_status :: u32) \<noteq> 0 then kIOReturnSuccess else kIOReturnInternalError,
                    inst\<lparr>submission_pending := False\<rparr>), d)
      else if timeout_us \<le> elapsed_us
      then let ((r, _), d) = vram_read_fence64 dev (api_slot inst) d
        in if r \<noteq> kIOReturnSuccess then Some ((r, inst), d)
        else Some ((kIOReturnTimeout, inst), mes_log_queue_state dev p d)
      else f dev p inst start timeout_us (sleep_ms dev 1 d)) = Some y"
  obtain now e where n: "now_ns dev d = (now, e)" by fastforce
  obtain r q e2 where q: "vram_read_fence64 dev (query_slot inst) e = ((r, q), e2)" by (metis surj_pair)
  obtain r' a e3 where a: "vram_read_fence64 dev (api_slot inst) e2 = ((r', a), e3)" by (metis surj_pair)
  note codes = fence_code [OF q] fence_code [OF a]
  consider "r \<noteq> kIOReturnSuccess" | "r = kIOReturnSuccess" "q = 1" | "r = kIOReturnSuccess" "q \<noteq> 1"
    by blast
  then show "wait_end dev inst y"
  proof cases
    case 1
    then show ?thesis using run n q codes by (auto simp: wait_end_def)
  next
    case 2
    then show ?thesis using run n q a codes
      by (cases "r' = kIOReturnSuccess") (auto simp: wait_end_def split: if_splits)
  next
    case 3
    show ?thesis
    proof (cases "timeout_us \<le> (now - start) div 1000")
      case True
      then show ?thesis using 3 run n q a codes
        by (cases "r' = kIOReturnSuccess") (auto simp: wait_end_def)
    next
      case False
      then have "f dev p inst start timeout_us (sleep_ms dev 1 e2) = Some y" using 3 run n q by simp
      then show ?thesis by (rule IH)
    qed
  qed
qed

lemma fence_time:
  assumes "clock_runs dev T" "vram_read_fence64 dev off d = (x, d')"
  shows "T d \<le> T d'" "T d' \<le> T d + 2 ^ 40"
proof -
  have "d' = d \<or> d' = snd (rd64 dev (bar0MemIndex dev) off d)"
    using assms(2) by (auto simp: vram_read_fence64_def split: if_splits prod.splits)
  then show "T d \<le> T d'" "T d' \<le> T d + 2 ^ 40"
    using assms(1) unfolding clock_runs_def by auto
qed

lemma mes_wait_returns:
  assumes clk: "clock_runs dev T" and small: "unat timeout_us * 1000 + 2 ^ 43 < (2::nat) ^ 64"
    and "S \<le> T d" "T d - S < unat timeout_us * 1000 + 2 ^ 42"
  shows "\<exists>r. mes_wait dev p inst (word_of_nat S) timeout_us d = Some r"
  using assms(3,4)
proof (induction "S + unat timeout_us * 1000 + 2 ^ 43 - T d" arbitrary: d rule: less_induct)
  case less
  obtain now d1 where n: "now_ns dev d = (now, d1)" by fastforce
  have t1: "now = word_of_nat (T d)" "T d \<le> T d1" "T d1 \<le> T d + 2 ^ 40"
    using clk n by (auto simp: clock_runs_def) (metis fst_conv snd_conv)+
  obtain r q d2 where q: "vram_read_fence64 dev (query_slot inst) d1 = ((r, q), d2)" by (metis surj_pair)
  note t2 = fence_time [OF clk q]
  let ?d3 = "sleep_ms dev 1 d2"
  have t3: "T d2 < T ?d3" "T ?d3 \<le> T d2 + 2 ^ 40" using clk by (auto simp: clock_runs_def)
  show ?case
  proof (cases "r \<noteq> kIOReturnSuccess \<or> q = 1 \<or> timeout_us \<le> (now - word_of_nat S) div 1000")
    case True
    then show ?thesis by (subst mes_wait.simps) (auto simp: n q split: prod.splits)
  next
    case False
    have el: "unat (now - word_of_nat S) = T d - S"
      using less.prems small by (simp add: t1(1) elapsed_word)
    have "unat ((now - word_of_nat S) div 1000) = (T d - S) div 1000" by (simp add: unat_div el)
    then have "(T d - S) div 1000 < unat timeout_us" using False by (simp add: word_le_nat_alt)
    then have lt: "T d - S < unat timeout_us * 1000" by (simp add: div_less_iff_less_mult)
    have "\<exists>r. mes_wait dev p inst (word_of_nat S) timeout_us ?d3 = Some r"
    proof (rule less.hyps)
      show "S + unat timeout_us * 1000 + 2 ^ 43 - T ?d3 < S + unat timeout_us * 1000 + 2 ^ 43 - T d"
        using less.prems t1 t2 t3 by simp
      show "S \<le> T ?d3" using less.prems t1 t2 t3 by simp
      show "T ?d3 - S < unat timeout_us * 1000 + 2 ^ 42" using lt less.prems t1 t2 t3 by simp
    qed
    then show ?thesis using False by (subst mes_wait.simps) (simp add: n q)
  qed
qed

section \<open>The submission\<close>

lemma ring_put_append:
  "ring_put ring w msk (xs @ ys) = ring_put (ring_put ring w msk xs) (w + word_of_nat (length xs)) msk ys"
  by (induction xs arbitrary: ring w) (simp_all add: add.assoc add.commute)

text \<open>What a submission stages behind the write pointer: the message with its status and the query.\<close>

definition own_query :: "MESInstance \<Rightarrow> u32 list" where
  "own_query inst = query_frame (query_zero\<lparr>qs_header := scheduler_header QUERY_SCHEDULER_STATUS,
     qs_api_status := \<lparr>fence_addr = wb_bus inst + 0xD0, fence_value = 1\<rparr>\<rparr>)"

definition submission_words :: "MESInstance \<Rightarrow> u32 list \<Rightarrow> u32 \<Rightarrow> u32 list" where
  "submission_words inst pkt dw =
     patch_status pkt dw \<lparr>fence_addr = wb_bus inst + 0xC0, fence_value = 1\<rparr> @ own_query inst"

definition staged :: "MESInstance \<Rightarrow> u32 list \<Rightarrow> u32 \<Rightarrow> MESInstance" where
  "staged inst pkt dw = inst\<lparr>
     mes_ring_cpu := map_option (\<lambda>ring. ring_put ring (sw_wptr inst) (mes_ring_dwords inst - 1)
       (submission_words inst pkt dw)) (mes_ring_cpu inst),
     wb_cpu := map_option (\<lambda>wb. wb(0x80 := sw_wptr inst + 128)) (wb_cpu inst),
     submission_pending := True\<rparr>"

lemma length_patch_status: "length pkt = 64 \<Longrightarrow> unat dw \<le> 60 \<Longrightarrow> length (patch_status pkt dw st) = 64"
  by (simp add: patch_status_def status_dwords_def)

lemma length_submission: "length pkt = 64 \<Longrightarrow> unat dw \<le> 60 \<Longrightarrow> length (submission_words inst pkt dw) = 128"
  by (simp add: submission_words_def length_patch_status own_query_def)

lemma accepted:
  assumes "ring_ok inst" "submit_refusal inst (Some pkt) dw = None"
  shows "mi_inited inst" "\<not> submission_pending inst" "unat dw \<le> 60"
    "unat (sw_wptr inst) + 128 < 18446744073709551616" "sw_wptr inst = published_wptr inst"
proof -
  show "mi_inited inst" "\<not> submission_pending inst" "sw_wptr inst = published_wptr inst"
    using assms(2) by (auto simp: submit_refusal_def split: if_splits)
  show "unat dw \<le> 60"
    using assms(2) by (auto simp: submit_refusal_def kMES_API_FRAME_DWORDS_def word_less_nat_alt not_less split: if_splits)
  have "sw_wptr inst \<le> 0xFFFFFFFFFFFFFFFF - 128"
    using assms(2) by (auto simp: submit_refusal_def kMES_API_FRAME_DWORDS_def not_less split: if_splits)
  then show "unat (sw_wptr inst) + 128 < 18446744073709551616"
    by (simp add: word_le_nat_alt)
qed

lemma two_ring_writes:
  assumes ok: "ring_ok inst" and acc: "submit_refusal inst (Some pkt) dw = None" and len: "length pkt = 64"
  obtains inst1 where
    "mes_ring_write inst (patch_status pkt dw \<lparr>fence_addr = wb_bus inst + 0xC0, fence_value = 1\<rparr>) =
       (kMES_API_FRAME_DWORDS, inst1)"
    "wb_bus inst1 = wb_bus inst"
    "mes_ring_write inst1 (own_query inst) = (kMES_API_FRAME_DWORDS, (staged inst pkt dw)\<lparr>submission_pending := False\<rparr>)"
proof -
  note a = accepted [OF ok acc]
  obtain ring wb where r: "mes_ring_cpu inst = Some ring" "wb_cpu inst = Some wb"
    "length ring = ring_size inst" "is_pow2 (mes_ring_dwords inst)" "128 \<le> ring_size inst"
    "ring_size inst \<le> 536870912" "sw_wptr inst = wb 0x80"
    using ok by (rule ring_okE)
  let ?f = "patch_status pkt dw \<lparr>fence_addr = wb_bus inst + 0xC0, fence_value = 1\<rparr>"
  have f: "length ?f = 64" by (rule length_patch_status [OF len a(3)])
  define ring1 where "ring1 = ring_put ring (wb 0x80) (mes_ring_dwords inst - 1) ?f"
  define wb1 where "wb1 = wb(0x80 := wb 0x80 + word_of_nat 64)"
  define inst1 where "inst1 = inst\<lparr>mes_ring_cpu := Some ring1, wb_cpu := Some wb1\<rparr>"
  have 1: "mes_ring_write inst ?f = (word_of_nat 64, inst1)"
    using mes_ring_write_fits [OF a(1) r(1,2,4), of ?f] f a(4,5) r(5,7) by (simp add: inst1_def ring1_def wb1_def)
  have q: "length (own_query inst) = 64" by (simp add: own_query_def)
  have u: "unat (wb1 0x80) = unat (wb 0x80) + 64"
    using a(4) r(7) by (simp add: wb1_def unat_add64)
  have i1: "mi_inited inst1" "mes_ring_cpu inst1 = Some ring1" "wb_cpu inst1 = Some wb1"
    "is_pow2 (mes_ring_dwords inst1)" "ring_size inst1 = ring_size inst" "published_wptr inst1 = published_wptr inst"
    using a(1) r(4) by (simp_all add: inst1_def ring_size_def)
  have 2: "mes_ring_write inst1 (own_query inst) = (word_of_nat 64,
      inst1\<lparr>mes_ring_cpu := Some (ring_put ring1 (wb1 0x80) (mes_ring_dwords inst1 - 1) (own_query inst)),
            wb_cpu := Some (wb1(0x80 := wb1 0x80 + word_of_nat 64))\<rparr>)"
    using mes_ring_write_fits [OF i1(1-4), of "own_query inst"] q u a(4,5) r(5,7) i1(5,6) by simp
  have "ring_put ring1 (wb1 0x80) (mes_ring_dwords inst - 1) (own_query inst) =
      ring_put ring (wb 0x80) (mes_ring_dwords inst - 1) (submission_words inst pkt dw)"
    using f by (simp add: submission_words_def ring_put_append ring1_def wb1_def)
  then have "inst1\<lparr>mes_ring_cpu := Some (ring_put ring1 (wb1 0x80) (mes_ring_dwords inst1 - 1) (own_query inst)),
            wb_cpu := Some (wb1(0x80 := wb1 0x80 + word_of_nat 64))\<rparr> =
      (staged inst pkt dw)\<lparr>submission_pending := False\<rparr>"
    using a(2) r(1,2,7) by (cases inst) (simp add: staged_def inst1_def wb1_def add.commute)
  with 1 2 show thesis by (intro that [of inst1]) (simp_all add: kMES_API_FRAME_DWORDS_def inst1_def)
qed

text \<open>The whole submission, once it is accepted, is the clearing of the two slots, the doorbell and the wait.\<close>

lemma mes_submit_run:
  assumes ok: "ring_ok inst" and acc: "submit_refusal inst (Some pkt) dw = None" and len: "length pkt = 64"
  shows "mes_submit dev p inst pkt dw timeout_us d =
    (let (r, d) = vram_write_verified dev (api_slot inst) (Some (bytes64 0)) 8 d
     in if r \<noteq> kIOReturnSuccess then Some ((r, inst), d)
     else let (r, d) = vram_write_verified dev (query_slot inst) (Some (bytes64 0)) 8 d
     in if r \<noteq> kIOReturnSuccess then Some ((r, inst), d)
     else and_then (mes_kick_doorbell dev (staged inst pkt dw) d) (\<lambda>inst d.
       let (start, d) = now_ns dev d in mes_wait dev p inst start timeout_us d))"
proof -
  obtain inst1 where w:
    "mes_ring_write inst (patch_status pkt dw \<lparr>fence_addr = wb_bus inst + 0xC0, fence_value = 1\<rparr>) =
       (kMES_API_FRAME_DWORDS, inst1)"
    "wb_bus inst1 = wb_bus inst"
    "mes_ring_write inst1 (own_query inst) = (kMES_API_FRAME_DWORDS, (staged inst pkt dw)\<lparr>submission_pending := False\<rparr>)"
    using two_ring_writes [OF ok acc len] .
  have "(staged inst pkt dw)\<lparr>submission_pending := False, submission_pending := True\<rparr> = staged inst pkt dw"
    by (simp add: staged_def)
  moreover obtain r1 d1 where "vram_write_verified dev (api_slot inst) (Some (bytes64 0)) 8 d = (r1, d1)" by fastforce
  moreover obtain r2 d2 where "vram_write_verified dev (query_slot inst) (Some (bytes64 0)) 8 d1 = (r2, d2)" by fastforce
  ultimately show ?thesis
    using w by (simp add: mes_submit_def Let_def own_query_def)
qed

lemma mes_submit_ok:
  assumes ok: "ring_ok inst" and acc: "submit_refusal inst (Some pkt) dw = None" and len: "length pkt = 64"
    and run: "mes_submit dev p inst pkt dw timeout_us d = Some ((kIOReturnSuccess, inst'), d')"
  obtains d1 e0 inst1 e where
    "vram_write_verified dev (api_slot inst) (Some (bytes64 0)) 8 d = (kIOReturnSuccess, d1)"
    "vram_write_verified dev (query_slot inst) (Some (bytes64 0)) 8 d1 = (kIOReturnSuccess, e0)"
    "mes_kick_doorbell dev (staged inst pkt dw) e0 = Some ((kIOReturnSuccess, inst1), e)"
    "mes_wait dev p inst1 (fst (now_ns dev e)) timeout_us (snd (now_ns dev e)) = Some ((kIOReturnSuccess, inst'), d')"
proof -
  obtain r1 d1 where w1: "vram_write_verified dev (api_slot inst) (Some (bytes64 0)) 8 d = (r1, d1)" by fastforce
  obtain r2 d2 where w2: "vram_write_verified dev (query_slot inst) (Some (bytes64 0)) 8 d1 = (r2, d2)" by fastforce
  have r: "r1 = kIOReturnSuccess" "r2 = kIOReturnSuccess"
    and "and_then (mes_kick_doorbell dev (staged inst pkt dw) d2) (\<lambda>inst d.
      let (start, d) = now_ns dev d in mes_wait dev p inst start timeout_us d) = Some ((kIOReturnSuccess, inst'), d')"
    using run w1 w2 by (auto simp: mes_submit_run [OF ok acc len] split: if_splits)
  from this(3) show thesis
    by (rule and_then_ok) (use w1 w2 r in \<open>auto simp: split_beta Let_def intro: that\<close>)
qed

lemma staged_parts:
  assumes ok: "ring_ok inst" and acc: "submit_refusal inst (Some pkt) dw = None" and len: "length pkt = 64"
  obtains ring wb where "mes_ring_cpu (staged inst pkt dw) = Some ring" "wb_cpu (staged inst pkt dw) = Some wb"
    "wb 0x80 = published_wptr inst + 128" "unat (wb 0x80) = unat (published_wptr inst) + 128"
    "length ring = ring_size inst"
    "\<forall>i < 128. ring ! ((unat (published_wptr inst) + i) mod ring_size inst) = submission_words inst pkt dw ! i"
    "is_pow2 (mes_ring_dwords inst)" "128 \<le> ring_size inst" "ring_size inst \<le> 536870912"
proof -
  note a = accepted [OF ok acc]
  obtain ring wb where r: "mes_ring_cpu inst = Some ring" "wb_cpu inst = Some wb"
    "length ring = ring_size inst" "is_pow2 (mes_ring_dwords inst)" "128 \<le> ring_size inst"
    "ring_size inst \<le> 536870912" "sw_wptr inst = wb 0x80"
    using ok by (rule ring_okE)
  let ?r = "ring_put ring (published_wptr inst) (mes_ring_dwords inst - 1) (submission_words inst pkt dw)"
  have l: "length (submission_words inst pkt dw) = 128" by (rule length_submission [OF len a(3)])
  show thesis
  proof (rule that [of ?r "wb(0x80 := published_wptr inst + 128)"])
    show "unat ((wb(0x80 := published_wptr inst + 128)) 0x80) = unat (published_wptr inst) + 128"
      using a(4,5) by (simp add: unat_add64)
    show "\<forall>i < 128. ?r ! ((unat (published_wptr inst) + i) mod ring_size inst) = submission_words inst pkt dw ! i"
      unfolding ring_size_def using r(3-5) l a(4,5)
      by (intro allI impI ring_put_new) (simp_all add: ring_size_def)
  qed (use r a(5) in \<open>simp_all add: staged_def\<close>)
qed

text \<open>Every path of a submission: the invariant holds afterwards, and the latch is as the code means it.\<close>

lemma mes_submit_ends:
  assumes ok: "ring_ok inst" and acc: "submit_refusal inst (Some pkt) dw = None" and len: "length pkt = 64"
    and run: "mes_submit dev p inst pkt dw timeout_us d = Some ((r, inst'), d')"
  shows "ring_ok inst' \<and>
    (inst' = inst \<and> r \<noteq> kIOReturnSuccess \<and> r \<noteq> kIOReturnInternalError \<or>
     submission_pending inst' \<and> r \<noteq> kIOReturnSuccess \<and> r \<noteq> kIOReturnInternalError \<or>
     \<not> submission_pending inst' \<and> (r = kIOReturnSuccess \<or> r = kIOReturnInternalError) \<and>
       published_wptr inst' = published_wptr inst + 128 \<and>
       (\<exists>d1 d2 api. vram_read_fence64 dev (query_slot inst) d1 = ((kIOReturnSuccess, 1), d2) \<and>
          vram_read_fence64 dev (api_slot inst) d2 = ((kIOReturnSuccess, api), d') \<and>
          r = (if (ucast api :: u32) \<noteq> 0 then kIOReturnSuccess else kIOReturnInternalError)))"
proof -
  obtain ring wb where st: "mes_ring_cpu (staged inst pkt dw) = Some ring" "wb_cpu (staged inst pkt dw) = Some wb"
    "wb 0x80 = published_wptr inst + 128" "unat (wb 0x80) = unat (published_wptr inst) + 128"
    "length ring = ring_size inst" "is_pow2 (mes_ring_dwords inst)" "128 \<le> ring_size inst" "ring_size inst \<le> 536870912"
    using staged_parts [OF ok acc len] .
  have same: "mes_ring_dwords (staged inst pkt dw) = mes_ring_dwords inst"
    "published_wptr (staged inst pkt dw) = published_wptr inst" "submission_pending (staged inst pkt dw)"
    by (simp_all add: staged_def)
  have st_ok: "ring_ok (staged inst pkt dw)"
    unfolding ring_ok_def using st same by (simp add: ring_size_def)
  obtain r1 d1 where w1: "vram_write_verified dev (api_slot inst) (Some (bytes64 0)) 8 d = (r1, d1)" by fastforce
  obtain r2 d2 where w2: "vram_write_verified dev (query_slot inst) (Some (bytes64 0)) 8 d1 = (r2, d2)" by fastforce
  have codes: "r1 \<noteq> kIOReturnInternalError" "r2 \<noteq> kIOReturnInternalError"
    using vram_write_code w1 w2 by (metis fst_conv)+
  show ?thesis
  proof (cases "r1 = kIOReturnSuccess \<and> r2 = kIOReturnSuccess")
    case False
    then show ?thesis
      using run ok codes w1 w2 by (auto simp: mes_submit_run [OF ok acc len] split: if_splits)
  next
    case True
    then have "and_then (mes_kick_doorbell dev (staged inst pkt dw) d2) (\<lambda>inst d.
        let (start, d) = now_ns dev d in mes_wait dev p inst start timeout_us d) = Some ((r, inst'), d')"
      using run w1 w2 by (simp add: mes_submit_run [OF ok acc len])
    then show ?thesis
    proof (cases rule: and_then_cases)
      case stop
      then show ?thesis using kick_failed [OF stop] st_ok same(3) by blast
    next
      case (go inst1 e)
      have k: "inst1 = kicked (staged inst pkt dw) wb"
        using go(1) st(1,2) by (auto simp: mes_kick_doorbell_def Let_def kicked_def split: if_splits option.splits prod.splits)
      have k_ok: "ring_ok inst1" "submission_pending inst1" "published_wptr inst1 = published_wptr inst + 128"
        unfolding ring_ok_def using k st same by (simp_all add: kicked_def ring_size_def)
      obtain start e1 where n: "now_ns dev e = (start, e1)" by fastforce
      then have "wait_end dev inst1 ((r, inst'), d')" using go(2) by (intro mes_wait_ends) simp
      moreover have "query_slot inst1 = query_slot inst" "api_slot inst1 = api_slot inst"
        by (simp_all add: k kicked_def staged_def query_slot_def api_slot_def)
      ultimately show ?thesis
        using k_ok by (auto simp: wait_end_def ring_ok_def ring_size_def k kicked_def split: if_splits)
    qed
  qed
qed

lemma submission_pointer:
  assumes ok: "ring_ok inst" and acc: "submit_refusal inst (Some pkt) dw = None" and len: "length pkt = 64"
    and run: "mes_submit dev p inst pkt dw timeout_us d = Some ((r, inst'), d')"
  shows "published_wptr inst' = published_wptr inst \<or> published_wptr inst' = published_wptr inst + 128"
proof -
  obtain ring wb where st: "mes_ring_cpu (staged inst pkt dw) = Some ring" "wb_cpu (staged inst pkt dw) = Some wb"
    "wb 0x80 = published_wptr inst + 128"
    using staged_parts [OF ok acc len] .
  obtain r1 d1 where w1: "vram_write_verified dev (api_slot inst) (Some (bytes64 0)) 8 d = (r1, d1)" by fastforce
  obtain r2 d2 where w2: "vram_write_verified dev (query_slot inst) (Some (bytes64 0)) 8 d1 = (r2, d2)" by fastforce
  show ?thesis
  proof (cases "r1 = kIOReturnSuccess \<and> r2 = kIOReturnSuccess")
    case False
    then show ?thesis using run w1 w2 by (auto simp: mes_submit_run [OF ok acc len] split: if_splits)
  next
    case True
    then have "and_then (mes_kick_doorbell dev (staged inst pkt dw) d2) (\<lambda>inst d.
        let (start, d) = now_ns dev d in mes_wait dev p inst start timeout_us d) = Some ((r, inst'), d')"
      using run w1 w2 by (simp add: mes_submit_run [OF ok acc len])
    then show ?thesis
    proof (cases rule: and_then_cases)
      case stop
      then show ?thesis using kick_failed [OF stop] by (simp add: staged_def)
    next
      case (go inst1 e)
      have k: "published_wptr inst1 = published_wptr inst + 128"
        using go(1) st by (auto simp: mes_kick_doorbell_def Let_def split: if_splits option.splits prod.splits)
      obtain start e1 where n: "now_ns dev e = (start, e1)" by fastforce
      then have "wait_end dev inst1 ((r, inst'), d')" using go(2) by (intro mes_wait_ends) simp
      then show ?thesis using k by (auto simp: wait_end_def)
    qed
  qed
qed

end
