(* ===== verification/Mes_Properties.thy ===== *)
theory Mes_Properties
  imports Mes_Correct
begin

text \<open>The properties of the MicroEngine Scheduler's messages and of their submission.\<close>

section \<open>Frames\<close>

definition input_typed :: "MESSetHwResourcesInput \<Rightarrow> bool" where
  "input_typed inp \<longleftrightarrow> length (hi_compute_hqd_mask inp) = 8 \<and> length (hi_gfx_hqd_mask inp) = 2 \<and>
     length (hi_sdma_hqd_mask inp) = 2 \<and> length (hi_aggregated_doorbells inp) = 5"

lemma hw_message_typed:
  assumes "mes_set_register_bases ip hw_resources_zero = Some pkt" "input_typed inp"
  shows "hw_resources_typed (hw_resources_message mes inst inp p pkt)"
  using set_bases_typed [OF assms(1) hw_resources_zero_typed] assms(2)
  by (simp add: hw_resources_message_def hw_resources_typed_def input_typed_def Let_def)

text \<open>
  The specification: a C++ struct as its members in declaration order, and the image the natural
  alignment gives it. A member starts at the next multiple of its alignment, what lies between is zero,
  and the tail is padded to the 64 dwords of a frame.
\<close>

datatype cmember = M32 u32 | M64 u64 | Marr "u32 list" | Mstatus MES_API_Status

fun member_dwords :: "cmember \<Rightarrow> u32 list" where
  "member_dwords (M32 x) = [x]"
| "member_dwords (M64 x) = [ucast x, ucast (drop_bit 32 x)]"
| "member_dwords (Marr xs) = xs"
| "member_dwords (Mstatus st) = [ucast (fence_addr st), ucast (drop_bit 32 (fence_addr st)),
     ucast (fence_value st), ucast (drop_bit 32 (fence_value st))]"

fun member_align :: "cmember \<Rightarrow> nat" where
  "member_align (M32 x) = 1"
| "member_align (M64 x) = 2"
| "member_align (Marr xs) = 1"
| "member_align (Mstatus st) = 2"

fun struct_image :: "nat \<Rightarrow> cmember list \<Rightarrow> u32 list" where
  "struct_image pos [] = replicate (64 - pos) 0"
| "struct_image pos (m # ms) =
     (let start = round_up pos (member_align m); ws = member_dwords m
      in replicate (start - pos) 0 @ ws @ struct_image (start + length ws) ms)"

text \<open>Where the status of a struct starts, in dwords: \<^verbatim>\<open>offsetof(..., api_status) / 4\<close>.\<close>

fun status_offset :: "nat \<Rightarrow> cmember list \<Rightarrow> nat option" where
  "status_offset pos [] = None"
| "status_offset pos (m # ms) =
     (let start = round_up pos (member_align m)
      in case m of Mstatus st \<Rightarrow> Some start | _ \<Rightarrow> status_offset (start + length (member_dwords m)) ms)"

text \<open>
  The structs of the driver, member by member in the order of their declarations. The members the driver
  never sets are zero.
\<close>

definition query_members :: "MES_QueryStatus \<Rightarrow> cmember list" where
  "query_members q =
     [M32 (qs_header q), M32 0, Mstatus (qs_api_status q), M64 0, Marr (replicate 20 0), Marr (replicate 36 0)]"

definition hw_resources_members :: "MES_SetHwResources \<Rightarrow> cmember list" where
  "hw_resources_members p =
     [M32 (hw_header p), M32 (vmid_mask_mmhub p), M32 (vmid_mask_gfxhub p), M32 (gds_size p),
      M32 (paging_vmid p), Marr (compute_hqd_mask p), Marr (gfx_hqd_mask p), Marr (sdma_hqd_mask p),
      Marr (aggregated_doorbells p), M64 (g_sch_ctx_gpu_mc_ptr p), M64 (query_status_fence_gpu_mc_ptr p),
      Marr (gc_base p), Marr (mmhub_base p), Marr (osssys_base p), Mstatus (hw_api_status p),
      M32 (hw_flags p), M32 (oversubscription_timer p), M64 0, M64 0, M64 0, M32 0, Marr [0]]"

definition hw_resources_1_members :: "MES_SetHwResources1 \<Rightarrow> cmember list" where
  "hw_resources_1_members p =
     [M32 (hw1_header p), Mstatus (hw1_api_status p), M64 0, M32 0, M64 0, M32 0,
      M32 (mes_kiq_unmap_timeout p), M64 0, M64 (cleaner_shader_fence_mc_addr p), Marr (replicate 46 0)]"

definition add_queue_members :: "MES_AddQueue \<Rightarrow> cmember list" where
  "add_queue_members p =
     [M32 (aq_header p), M32 (aq_process_id p), M64 (aq_page_table_base_addr p), M64 (aq_process_va_start p),
      M64 (aq_process_va_end p), M64 (aq_process_quantum p), M64 (aq_process_context_addr p),
      M64 (aq_gang_quantum p), M64 (aq_gang_context_addr p), M32 (aq_inprocess_gang_priority p),
      M32 (aq_gang_global_priority_level p), M32 (aq_doorbell_offset p), M32 0, M64 (aq_mqd_addr p),
      M64 (aq_wptr_addr p), M64 0, M64 0, M32 (aq_queue_type p), M32 0, M32 0, M32 0, M32 0, M32 0,
      M64 0, M32 0, M32 (aq_flags p), Mstatus (aq_api_status p), M64 0, M32 0, M32 0, M64 0, M32 0, M32 0,
      M32 (aq_pipe_id p), M32 (aq_queue_id p), M32 0, M32 0, Marr (replicate 10 0)]"

definition remove_queue_members :: "MES_RemoveQueue \<Rightarrow> cmember list" where
  "remove_queue_members p =
     [M32 (rq_header p), M32 (rq_doorbell_offset p), M64 0, M32 (rq_flags p), M32 0,
      Mstatus (rq_api_status p), M32 (rq_pipe_id p), M32 (rq_queue_id p), M64 0, M32 0,
      M32 (rq_queue_type p), M64 0, M32 0, Marr (replicate 45 0)]"

text \<open>A frame is the struct of 64 dwords, and the offset passed with it is that of the status.\<close>

definition frame_of :: "u32 list \<Rightarrow> u32 \<Rightarrow> cmember list \<Rightarrow> bool" where
  "frame_of ws dw ms \<longleftrightarrow> ws = struct_image 0 ms \<and> length ws = 64 \<and> status_offset 0 ms = Some (unat dw)"

lemmas member_defs = query_members_def hw_resources_members_def hw_resources_1_members_def
  add_queue_members_def remove_queue_members_def

lemmas status_dws = query_status_dw_def hw_resources_status_dw_def hw_resources_1_status_dw_def
  add_queue_status_dw_def remove_queue_status_dw_def

lemma replicate_numeral: "replicate (numeral k) x = x # replicate (pred_numeral k) x"
  by (simp add: numeral_eq_Suc)

lemma frames_of_members:
  "frame_of (query_frame q) query_status_dw (query_members q)"
  "frame_of (hw_resources_1_frame r1) hw_resources_1_status_dw (hw_resources_1_members r1)"
  "frame_of (add_queue_frame a) add_queue_status_dw (add_queue_members a)"
  "frame_of (remove_queue_frame r) remove_queue_status_dw (remove_queue_members r)"
  by (simp_all add: frame_of_def frame_defs member_defs status_dws round_up_def dw64_def replicate_numeral)

lemma hw_frame_of_members:
  "hw_resources_typed p \<Longrightarrow> frame_of (hw_resources_frame p) hw_resources_status_dw (hw_resources_members p)"
  by (simp add: frame_of_def frame_defs member_defs status_dws round_up_def dw64_def replicate_numeral
      hw_resources_typed_def)

text \<open>Putting a status into a frame at that offset is putting it into the message.\<close>

lemma patched_frames:
  "patch_status (query_frame q) query_status_dw st = query_frame (q\<lparr>qs_api_status := st\<rparr>)"
  "patch_status (hw_resources_1_frame r1) hw_resources_1_status_dw st = hw_resources_1_frame (r1\<lparr>hw1_api_status := st\<rparr>)"
  "patch_status (add_queue_frame a) add_queue_status_dw st = add_queue_frame (a\<lparr>aq_api_status := st\<rparr>)"
  "patch_status (remove_queue_frame r) remove_queue_status_dw st = remove_queue_frame (r\<lparr>rq_api_status := st\<rparr>)"
  "hw_resources_typed p \<Longrightarrow>
     patch_status (hw_resources_frame p) hw_resources_status_dw st = hw_resources_frame (p\<lparr>hw_api_status := st\<rparr>)"
  by (simp_all add: patch_status_def frame_defs status_dws dw64_def hw_resources_typed_def)

text \<open>
  C29. Every message of the driver goes out as the image of its C++ struct: the members in the order of
  their declaration, each at its natural alignment, in exactly 64 dwords; and the status offset passed
  with it is the offset that layout gives \<open>api_status\<close>. So the status the submission puts there, the
  address and the value of its fence, becomes the status of the message and every other field stays.
\<close>

theorem mes_frames_exact:
  assumes "mes_set_register_bases ip hw_resources_zero = Some pkt" "input_typed inp"
  shows "frame_of (query_frame q) query_status_dw (query_members q) \<and>
    frame_of (hw_resources_frame (hw_resources_message mes inst inp p pkt)) hw_resources_status_dw
      (hw_resources_members (hw_resources_message mes inst inp p pkt)) \<and>
    frame_of (hw_resources_1_frame r1) hw_resources_1_status_dw (hw_resources_1_members r1) \<and>
    frame_of (add_queue_frame a) add_queue_status_dw (add_queue_members a) \<and>
    frame_of (remove_queue_frame r) remove_queue_status_dw (remove_queue_members r) \<and>
    patch_status (query_frame q) query_status_dw st = query_frame (q\<lparr>qs_api_status := st\<rparr>) \<and>
    patch_status (hw_resources_frame (hw_resources_message mes inst inp p pkt)) hw_resources_status_dw st =
      hw_resources_frame ((hw_resources_message mes inst inp p pkt)\<lparr>hw_api_status := st\<rparr>) \<and>
    patch_status (hw_resources_1_frame r1) hw_resources_1_status_dw st = hw_resources_1_frame (r1\<lparr>hw1_api_status := st\<rparr>) \<and>
    patch_status (add_queue_frame a) add_queue_status_dw st = add_queue_frame (a\<lparr>aq_api_status := st\<rparr>) \<and>
    patch_status (remove_queue_frame r) remove_queue_status_dw st = remove_queue_frame (r\<lparr>rq_api_status := st\<rparr>)"
  using hw_message_typed [OF assms] frames_of_members hw_frame_of_members patched_frames by blast

lemma mes_frames_exact_witness:
  "frame_of (hw_resources_frame (hw_resources_message (mes_zero\<lparr>kiq_version := 0x90\<rparr>) mes_instance_zero
     kiq_resources KIQ (the (mes_set_register_bases (dev_ip ram_dev) hw_resources_zero)))) hw_resources_status_dw
     (hw_resources_members (hw_resources_message (mes_zero\<lparr>kiq_version := 0x90\<rparr>) mes_instance_zero
     kiq_resources KIQ (the (mes_set_register_bases (dev_ip ram_dev) hw_resources_zero))))"
proof -
  have "mes_set_register_bases (dev_ip ram_dev) hw_resources_zero =
      Some (the (mes_set_register_bases (dev_ip ram_dev) hw_resources_zero))"
    by (simp add: mes_set_register_bases_def ram_dev_def ip_isResolved_def ip_isResolvedIdx_def kMaxBaseSegments_def)
  moreover have "input_typed kiq_resources" by (simp add: input_typed_def kiq_resources_def)
  ultimately show ?thesis using mes_frames_exact by blast
qed

section \<open>A device that answers\<close>

text \<open>For the witnesses: VRAM that keeps what is written, and firmware that completes every message.\<close>

definition fw_pci :: "ram pci" where
  "fw_pci = ram_pci\<lparr>MemoryRead64 := (\<lambda>bar off d. (1, d))\<rparr>"

definition fw_dev :: "ram DeviceContext" where
  "fw_dev = ram_dev\<lparr>pci := Some fw_pci\<rparr>"

lemma fw_dev_simps [simp]:
  "pci fw_dev = Some fw_pci" "bar0MemIndex fw_dev = 0" "bar2MemIndex fw_dev = 1" "bar5MemIndex fw_dev = 2"
  "bar0Size fw_dev = 0x10000000" "bar2Size fw_dev = 0x200000"
  by (simp_all add: fw_dev_def ram_dev_def)

lemma fw_dev_ok:
  "reads_memory fw_dev ram_mem" "writes_local fw_dev ram_mem" "clock_runs fw_dev snd" "bars_apart fw_dev"
  by (auto simp: reads_memory_def writes_local_def clock_runs_def access_defs bars_apart_def
      fw_dev_def ram_dev_def fw_pci_def ram_pci_def ram_mem_def)

lemma fw_wr32: "fst (wr32 fw_dev 0 off v d) 0 = (fst d 0)(off := v)"
  by (simp add: wr32_def fw_pci_def ram_pci_def)

lemma fw_rd32: "rd32 fw_dev 0 off d = (fst d 0 off, d)"
  by (simp add: rd32_def fw_pci_def ram_pci_def)

text \<open>On this device a verified write in range succeeds.\<close>

lemma fw_put_frame:
  assumes "\<And>k. k < n \<Longrightarrow> x \<noteq> off + word_of_nat (i + 4 * k)"
  shows "fst (vram_put fw_dev off src i n d) 0 x = fst d 0 x"
  using vram_put_frame [OF fw_dev_ok(2), of n x off i src d] assms by (simp add: ram_mem_def)

lemma fw_put_stores:
  assumes "k < n" "unat off + (i + 4 * n) < 18446744073709551616"
  shows "fst (vram_put fw_dev off src i n d) 0 (off + word_of_nat (i + 4 * k)) = le32 src (i + 4 * k)"
  using assms
proof (induction n arbitrary: i d k)
  case (Suc n)
  let ?d = "WBAR0_32 fw_dev (off + word_of_nat i) (le32 src i) d"
  show ?case
  proof (cases k)
    case 0
    have "fst (vram_put fw_dev off src (i + 4) n ?d) 0 (off + word_of_nat i) = fst ?d 0 (off + word_of_nat i)"
    proof (rule fw_put_frame)
      fix j assume "j < n"
      then have b: "unat off + (i + 4 + 4 * j) < 18446744073709551616" using Suc.prems(2) by simp
      then have "unat (off + word_of_nat i) = unat off + i" by (intro unat_plus_nat) linarith
      moreover have "unat off + i \<noteq> unat off + (i + 4 + 4 * j)" by linarith
      ultimately show "off + word_of_nat i \<noteq> off + word_of_nat (i + 4 + 4 * j)"
        using unat_plus_nat [OF b] by metis
    qed
    then show ?thesis using 0 by (simp add: WBAR0_32_def fw_wr32)
  next
    case (Suc j)
    then show ?thesis using Suc.IH [of j "i + 4" ?d] Suc.prems by (simp add: add.assoc)
  qed
qed simp

lemma fw_verify:
  "(\<And>k. k < n \<Longrightarrow> fst d 0 (off + word_of_nat (i + 4 * k)) = le32 src (i + 4 * k)) \<Longrightarrow>
   vram_verify fw_dev off src i n d = (True, d)"
proof (induction n arbitrary: i)
  case (Suc n)
  from Suc.prems [of 0] have "fst d 0 (off + word_of_nat i) = le32 src i" by simp
  moreover have "vram_verify fw_dev off src (i + 4) n d = (True, d)"
    using Suc.prems [of "Suc _"] by (intro Suc.IH) (simp add: add.assoc)
  ultimately show ?case by (simp add: fw_rd32)
qed simp

lemma fw_write:
  assumes "vram_io_range fw_dev off n"
  shows "\<exists>d'. vram_write_verified fw_dev off (Some src) n d = (kIOReturnSuccess, d')"
proof -
  have "unat off + 4 * (unat n div 4) < 18446744073709551616"
    using vram_io_range_bounds(5) [OF assms] by linarith
  then have "vram_verify fw_dev off src 0 (unat n div 4) (vram_put fw_dev off src 0 (unat n div 4) d) =
      (True, vram_put fw_dev off src 0 (unat n div 4) d)"
    using fw_put_stores [of _ "unat n div 4" off 0 src d] by (intro fw_verify) simp
  then show ?thesis using assms by (simp add: vram_write_verified_def)
qed

lemma fw_fence: "off AND 7 = 0 \<Longrightarrow> vram_io_range fw_dev off 8 \<Longrightarrow> vram_read_fence64 fw_dev off d = ((kIOReturnSuccess, 1), d)"
  by (simp add: vram_read_fence64_def rd64_def fw_pci_def)

definition demo_pipe :: MESInstance where
  "demo_pipe = mes_instance_zero\<lparr>mi_inited := True, mi_enabled := True, mes_ring_dwords := 128,
     mes_ring_cpu := Some (replicate 128 0), wb_cpu := Some (\<lambda>_. 0), wb_bus := 0x1000, doorbell_index := 0x42\<rparr>"

definition demo_mes :: MESContext where
  "demo_mes = mes_zero\<lparr>mes_pipe := (\<lambda>p. demo_pipe)\<rparr>"

definition demo_query :: "u32 list" where
  "demo_query = query_frame (query_zero\<lparr>qs_header := scheduler_header QUERY_SCHEDULER_STATUS\<rparr>)"

lemma demo_pipe_simps [simp]:
  "mi_inited demo_pipe" "mi_enabled demo_pipe" "mes_ring_dwords demo_pipe = 128" "\<not> submission_pending demo_pipe"
  "mes_ring_cpu demo_pipe = Some (replicate 128 0)" "wb_cpu demo_pipe = Some (\<lambda>_. 0)" "wb_bus demo_pipe = 0x1000"
  "doorbell_index demo_pipe = 0x42" "published_wptr demo_pipe = 0" "vram_base demo_pipe = 0" "mes_ring_bus demo_pipe = 0"
  by (simp_all add: demo_pipe_def mes_instance_zero_def)

lemma demo_ok:
  "ring_ok demo_pipe" "storage_apart demo_pipe" "ring_size demo_pipe = 128" "length demo_query = 64"
  "mes_pipe demo_mes p = demo_pipe" "submit_refusal demo_pipe (Some pkt) 2 = None"
  by (auto simp: ring_ok_def storage_apart_def ring_fits_def ring_size_def is_pow2_def ring_home_def wb_home_def
      demo_query_def demo_mes_def submit_refusal_def kMES_API_FRAME_DWORDS_def sw_wptr_def)

lemma demo_upload:
  assumes "length ring = 128"
  shows "\<exists>d'. upload_ring fw_dev (staged demo_pipe pkt dw) ring 0 128 d = Some (kIOReturnSuccess, d')"
proof -
  have c: "ring_chunk 128 0 128 = (0, 128)" by (simp add: ring_chunk_def)
  have "vram_io_range fw_dev 0 512" by (simp add: vram_io_range_def)
  from fw_write [OF this] obtain d' where
    "vram_write_verified fw_dev 0 (Some (dw_bytes ring)) 512 d = (kIOReturnSuccess, d')" by blast
  then have "upload_ring fw_dev (staged demo_pipe pkt dw) ring 0 128 d =
      upload_ring fw_dev (staged demo_pipe pkt dw) ring 128 128 d'"
    using c assms by (subst upload_ring.simps) (simp add: staged_def)
  also have "\<dots> = Some (kIOReturnSuccess, d')" by (subst upload_ring.simps) simp
  finally show ?thesis by blast
qed

lemma demo_submission:
  "\<exists>mes' d'. mes_submit_pkt fw_dev demo_mes 1 (Some demo_query) 2 1000 d = Some ((kIOReturnSuccess, mes'), d')"
proof -
  have io: "vram_io_range fw_dev 0x10C0 8" "vram_io_range fw_dev 0x10D0 8" "vram_io_range fw_dev 0x1040 8"
    by (simp_all add: vram_io_range_def)
  obtain d1 where w1: "vram_write_verified fw_dev 0x10C0 (Some (bytes64 0)) 8 d = (kIOReturnSuccess, d1)"
    using fw_write [OF io(1)] by blast
  obtain d2 where w2: "vram_write_verified fw_dev 0x10D0 (Some (bytes64 0)) 8 d1 = (kIOReturnSuccess, d2)"
    using fw_write [OF io(2)] by blast
  obtain ring wb where st: "mes_ring_cpu (staged demo_pipe demo_query 2) = Some ring"
    "wb_cpu (staged demo_pipe demo_query 2) = Some wb" "wb 0x80 = published_wptr demo_pipe + 128"
    "length ring = ring_size demo_pipe"
    using staged_parts [OF demo_ok(1,6,4)] .
  obtain d3 where up: "upload_ring fw_dev (staged demo_pipe demo_query 2) ring 0 128 d2 = Some (kIOReturnSuccess, d3)"
    using demo_upload st(4) demo_ok(3) by metis
  obtain d4 where w4: "vram_write_verified fw_dev 0x1040 (Some (bytes64 128)) 8 d3 = (kIOReturnSuccess, d4)"
    using fw_write [OF io(3)] by blast
  have same: "mi_inited (staged demo_pipe demo_query 2)" "doorbell_index (staged demo_pipe demo_query 2) = 0x42"
    "published_wptr (staged demo_pipe demo_query 2) = 0" "mes_ring_dwords (staged demo_pipe demo_query 2) = 128"
    "wb_bus (staged demo_pipe demo_query 2) = 0x1000" "vram_base (staged demo_pipe demo_query 2) = 0"
    by (simp_all add: staged_def)
  obtain inst d5 where k: "mes_kick_doorbell fw_dev (staged demo_pipe demo_query 2) d2 = Some ((kIOReturnSuccess, inst), d5)"
      "inst = kicked (staged demo_pipe demo_query 2) wb"
    using st up w4 same by (simp add: mes_kick_doorbell_def kicked_def)
  obtain start d6 where n: "now_ns fw_dev d5 = (start, d6)" by (metis surj_pair)
  obtain now d7 where n': "now_ns fw_dev d6 = (now, d7)" by (metis surj_pair)
  have slots: "query_slot inst = 0x10D0" "api_slot inst = 0x10C0"
    using k(2) same by (simp_all add: query_slot_def api_slot_def kicked_def)
  have "mes_wait fw_dev 1 inst start 1000 d6 = Some ((kIOReturnSuccess, inst\<lparr>submission_pending := False\<rparr>), d7)"
    using n' fw_fence [OF _ io(2)] fw_fence [OF _ io(1)] by (subst mes_wait.simps) (simp add: slots)
  then have "mes_submit fw_dev 1 demo_pipe demo_query 2 1000 d =
      Some ((kIOReturnSuccess, inst\<lparr>submission_pending := False\<rparr>), d7)"
    using w1 w2 k(1) n by (simp add: mes_submit_run [OF demo_ok(1,6,4)] api_slot_def query_slot_def)
  then show ?thesis
    by (simp add: mes_submit_pkt_def demo_ok kMaxMESPipes_def word_le_nat_alt)
qed

section \<open>Submissions\<close>

lemma submit_pkt_run:
  assumes "mes_submit_pkt dev mes p pkt dw t d = Some ((r, mes'), d')"
  obtains (refused) "mes' = mes" "d' = d" "r \<noteq> kIOReturnSuccess" "r \<noteq> kIOReturnInternalError"
      "\<not> kMaxMESPipes \<le> p \<Longrightarrow> submit_refusal (mes_pipe mes p) pkt dw = Some r"
  | (run) inst ws where "pkt = Some ws" "submit_refusal (mes_pipe mes p) (Some ws) dw = None" "\<not> kMaxMESPipes \<le> p"
      "mes_submit dev p (mes_pipe mes p) ws dw t d = Some ((r, inst), d')" "mes' = set_pipe p inst mes"
proof (cases "kMaxMESPipes \<le> p")
  case True
  then show thesis using assms by (intro refused) (auto simp: mes_submit_pkt_def)
next
  case False
  show thesis
  proof (cases "submit_refusal (mes_pipe mes p) pkt dw")
    case None
    then obtain ws where "pkt = Some ws" by (auto simp: submit_refusal_def split: if_splits)
    then show thesis using assms None False run by (auto simp: mes_submit_pkt_def split: option.splits)
  next
    case (Some c)
    moreover have "c \<noteq> kIOReturnSuccess \<and> c \<noteq> kIOReturnInternalError"
      using Some by (auto simp: submit_refusal_def split: if_splits)
    ultimately show thesis using assms False by (intro refused) (auto simp: mes_submit_pkt_def)
  qed
qed

text \<open>
  The wait of a submission, from the state \<open>e\<close> of the device: it reads the clock and starts polling.
\<close>

definition wait_from :: "'d DeviceContext \<Rightarrow> u32 \<Rightarrow> MESInstance \<Rightarrow> u64 \<Rightarrow> 'd \<Rightarrow> (MESInstance, 'd) outcome" where
  "wait_from dev p inst timeout_us e =
     mes_wait dev p inst (fst (now_ns dev e)) timeout_us (snd (now_ns dev e))"

text \<open>
  What VRAM shows when the doorbell is written: the message and the query behind it at the ring positions
  the pointer announces, the new pointer in its shadow, both completion slots cleared, and nothing
  changed outside the ring and the write-back page.
\<close>

definition submission_shown :: "'d DeviceContext \<Rightarrow> ('d \<Rightarrow> u64 \<Rightarrow> u32) \<Rightarrow> MESInstance \<Rightarrow> u32 list \<Rightarrow> u32 \<Rightarrow> 'd \<Rightarrow> 'd \<Rightarrow> bool" where
  "submission_shown dev mem inst pkt dw d d1 \<longleftrightarrow>
     (\<forall>i < 128. mem d1 (ring_addr inst (unat (published_wptr inst) + i)) = submission_words inst pkt dw ! i) \<and>
     vram_holds dev mem d1 (wb_home inst + 0x40) (\<lambda>k. dw64 (published_wptr inst + 128) ! k) 2 \<and>
     vram_holds dev mem d1 (query_slot inst) (\<lambda>k. 0) 2 \<and> vram_holds dev mem d1 (api_slot inst) (\<lambda>k. 0) 2 \<and>
     (\<forall>x. (unat x < unat (ring_home inst) \<or> unat (ring_home inst) + 4 * ring_size inst \<le> unat x) \<longrightarrow>
        (unat x < unat (wb_home inst) \<or> unat (wb_home inst) + 256 \<le> unat x) \<longrightarrow> mem d1 x = mem d x)"

lemma cleared_slots:
  assumes mem: "reads_memory dev mem" "writes_local dev mem" and apart: "storage_apart inst"
    and w: "vram_write_verified dev (api_slot inst) (Some (bytes64 0)) 8 d = (kIOReturnSuccess, d0)"
      "vram_write_verified dev (query_slot inst) (Some (bytes64 0)) 8 d0 = (kIOReturnSuccess, e0)"
    and frame: "\<And>x. unat x < unat (ring_home inst) \<or> unat (ring_home inst) + 4 * ring_size inst \<le> unat x \<Longrightarrow>
      unat x < unat (wb_home inst) + 64 \<or> unat (wb_home inst) + 72 \<le> unat x \<Longrightarrow> mem d1 x = mem e0 x"
  shows "vram_holds dev mem d1 (query_slot inst) (\<lambda>k. 0) 2" "vram_holds dev mem d1 (api_slot inst) (\<lambda>k. 0) 2"
    "unat x < unat (ring_home inst) \<or> unat (ring_home inst) + 4 * ring_size inst \<le> unat x \<Longrightarrow>
      unat x < unat (wb_home inst) \<or> unat (wb_home inst) + 256 \<le> unat x \<Longrightarrow> mem d1 x = mem d x"
proof -
  have page: "unat (wb_home inst) + 256 \<le> 18446744073709551615"
    "unat (ring_home inst) + 4 * ring_size inst \<le> unat (wb_home inst) \<or>
      unat (wb_home inst) + 256 \<le> unat (ring_home inst)"
    using apart by (simp_all add: storage_apart_def)
  have slots: "query_slot inst = wb_home inst + 0xD0" "api_slot inst = wb_home inst + 0xC0"
    by (simp_all add: query_slot_def api_slot_def wb_home_def)
  have u: "unat (wb_home inst + word_of_nat n) = unat (wb_home inst) + n" if "n < 256" for n
    using page(1) that by (intro unat_plus_nat) simp
  have uq: "unat (query_slot inst) = unat (wb_home inst) + 0xD0" "unat (api_slot inst) = unat (wb_home inst) + 0xC0"
    using u [of "0xD0"] u [of "0xC0"] by (simp_all add: slots)
  have w1: "mem d0 x = mem d x" if "unat x < unat (wb_home inst) + 0xC0 \<or> unat (wb_home inst) + 0xC8 \<le> unat x" for x
    using that uq by (intro vram_write_frame [OF mem w(1)]) auto
  have w2: "mem e0 x = mem d0 x" if "unat x < unat (wb_home inst) + 0xD0 \<or> unat (wb_home inst) + 0xD8 \<le> unat x" for x
    using that uq by (intro vram_write_frame [OF mem w(2)]) auto
  have z: "vram_holds dev mem d0 (api_slot inst) (\<lambda>k. 0) 2" "vram_holds dev mem e0 (query_slot inst) (\<lambda>k. 0) 2"
    using vram_write_stores [OF mem(1) w(1)] vram_write_stores [OF mem(1) w(2)]
    by (auto simp: vram_holds_def le32_bytes64 dw64_def less_2_cases_iff)
  have q: "query_slot inst + word_of_nat (4 * k) = wb_home inst + word_of_nat (0xD0 + 4 * k)"
    "api_slot inst + word_of_nat (4 * k) = wb_home inst + word_of_nat (0xC0 + 4 * k)" for k
    by (simp_all add: slots)
  have kept: "mem d1 (wb_home inst + word_of_nat n) = mem e0 (wb_home inst + word_of_nat n)"
    if "72 \<le> n" "n < 256" for n
    using page(2) u [OF that(2)] that by (intro frame) auto
  have read: "mem e0 (wb_home inst + word_of_nat (0xD0 + 4 * k)) = 0"
    "mem d0 (wb_home inst + word_of_nat (0xC0 + 4 * k)) = 0" if "k < 2" for k
    using z that unfolding vram_holds_def q by blast+
  show "vram_holds dev mem d1 (query_slot inst) (\<lambda>k. 0) 2"
    unfolding vram_holds_def q
  proof (intro allI impI)
    fix k :: nat assume k: "k < 2"
    then show "mem d1 (wb_home inst + word_of_nat (0xD0 + 4 * k)) = 0"
      using read(1) [OF k] kept [of "0xD0 + 4 * k"] by simp
  qed
  show "vram_holds dev mem d1 (api_slot inst) (\<lambda>k. 0) 2"
    unfolding vram_holds_def q
  proof (intro allI impI)
    fix k :: nat assume k: "k < 2"
    have "mem e0 (wb_home inst + word_of_nat (0xC0 + 4 * k)) = mem d0 (wb_home inst + word_of_nat (0xC0 + 4 * k))"
      using u [of "0xC0 + 4 * k"] k by (intro w2) simp
    then show "mem d1 (wb_home inst + word_of_nat (0xC0 + 4 * k)) = 0"
      using read(2) [OF k] kept [of "0xC0 + 4 * k"] k by simp
  qed
  assume x: "unat x < unat (ring_home inst) \<or> unat (ring_home inst) + 4 * ring_size inst \<le> unat x"
    "unat x < unat (wb_home inst) \<or> unat (wb_home inst) + 256 \<le> unat x"
  then show "mem d1 x = mem d x" using frame [of x] w2 [of x] w1 [of x] by auto
qed

text \<open>
  C30. When a submission succeeds, its events happened in this order. In the state \<open>d1\<close> VRAM holds the
  message and the query behind it at the ring positions announced, the new write pointer in its shadow,
  and zeros in both completion slots. From that very state the doorbell was written with the new
  pointer, and from the state this left the wait ran to the state the submission returns. It ended
  with the fence of the query read first, then a status of the message that is not zero. The pipe is
  free again, its pointer moved by both frames, and the other pipe is untouched.
\<close>

theorem mes_submit_publishes:
  assumes "reads_memory dev mem" "writes_local dev mem" "bars_apart dev"
    and "ring_ok (mes_pipe mes p)" "storage_apart (mes_pipe mes p)" "length pkt = 64"
    and "mes_submit_pkt dev mes p (Some pkt) dw timeout_us d = Some ((kIOReturnSuccess, mes'), d')"
  shows "\<exists>d1 e latched d3 d4 api. let inst = mes_pipe mes p; w = published_wptr inst in
    submission_shown dev mem inst pkt dw d d1 \<and>
    e = wr64 dev (bar2MemIndex dev) (ucast (doorbell_index inst) * 4) (w + 128) d1 \<and>
    submission_pending latched \<and> published_wptr latched = w + 128 \<and>
    query_slot latched = query_slot inst \<and> api_slot latched = api_slot inst \<and>
    wait_from dev p latched timeout_us e = Some ((kIOReturnSuccess, mes_pipe mes' p), d') \<and>
    vram_read_fence64 dev (query_slot inst) d3 = ((kIOReturnSuccess, 1), d4) \<and>
    vram_read_fence64 dev (api_slot inst) d4 = ((kIOReturnSuccess, api), d') \<and> (ucast api :: u32) \<noteq> 0 \<and>
    published_wptr (mes_pipe mes' p) = w + 128 \<and> \<not> submission_pending (mes_pipe mes' p) \<and>
    (\<forall>q. q \<noteq> p \<longrightarrow> mes_pipe mes' q = mes_pipe mes q)"
  using assms(7)
proof (cases rule: submit_pkt_run)
  case (run inst' ws)
  let ?inst = "mes_pipe mes p"
  have acc: "submit_refusal ?inst (Some pkt) dw = None" using run(1,2) by simp
  note ends = mes_submit_ends [OF assms(4) acc assms(6), of dev p timeout_us d kIOReturnSuccess inst' d']
  obtain ring wb where st: "mes_ring_cpu (staged ?inst pkt dw) = Some ring" "wb_cpu (staged ?inst pkt dw) = Some wb"
    "wb 0x80 = published_wptr ?inst + 128" "unat (wb 0x80) = unat (published_wptr ?inst) + 128"
    "length ring = ring_size ?inst"
    "\<forall>i < 128. ring ! ((unat (published_wptr ?inst) + i) mod ring_size ?inst) = submission_words ?inst pkt dw ! i"
    "is_pow2 (mes_ring_dwords ?inst)" "128 \<le> ring_size ?inst" "ring_size ?inst \<le> 536870912"
    using staged_parts [OF assms(4) acc assms(6)] .
  let ?st = "staged ?inst pkt dw"
  have same: "ring_size ?st = ring_size ?inst" "ring_home ?st = ring_home ?inst" "wb_home ?st = wb_home ?inst"
    "published_wptr ?st = published_wptr ?inst" "doorbell_index ?st = doorbell_index ?inst"
    "mes_ring_dwords ?st = mes_ring_dwords ?inst"
    by (simp_all add: staged_def ring_size_def ring_home_def wb_home_def)
  have addr: "ring_addr ?st = ring_addr ?inst" by (simp add: ring_addr_def same fun_eq_iff)
  have ready: "ring_setup dev mem ?st ring" "storage_apart ?st"
    using assms(1,2,5) st by (simp_all add: ring_setup_def storage_apart_def ring_fits_def same)
  obtain d0 e0 inst1 e where
    w12: "vram_write_verified dev (api_slot ?inst) (Some (bytes64 0)) 8 d = (kIOReturnSuccess, d0)"
      "vram_write_verified dev (query_slot ?inst) (Some (bytes64 0)) 8 d0 = (kIOReturnSuccess, e0)"
    and k: "mes_kick_doorbell dev ?st e0 = Some ((kIOReturnSuccess, inst1), e)"
    and w: "mes_wait dev p inst1 (fst (now_ns dev e)) timeout_us (snd (now_ns dev e)) = Some ((kIOReturnSuccess, inst'), d')"
    by (rule mes_submit_ok [OF assms(4) acc assms(6)]) (use run(1,4) in simp)
  have le: "unat (published_wptr ?st) \<le> unat (wb 0x80)" "unat (wb 0x80) \<le> unat (published_wptr ?st) + ring_size ?st"
    using st same by simp_all
  from kick_spec [OF ready assms(3) st(1,2) le k] obtain d1 where k1: "inst1 = kicked ?st wb"
    "e = wr64 dev (bar2MemIndex dev) (ucast (doorbell_index ?inst) * 4) (published_wptr ?inst + 128) d1"
    "\<And>k. unat (published_wptr ?inst) \<le> k \<Longrightarrow> k < unat (published_wptr ?inst) + 128 \<Longrightarrow>
       mem d1 (ring_addr ?inst k) = ring ! (k mod ring_size ?inst)"
    "vram_holds dev mem d1 (wb_home ?inst + 0x40) (\<lambda>k. dw64 (published_wptr ?inst + 128) ! k) 2"
    "\<And>x. unat x < unat (ring_home ?inst) \<or> unat (ring_home ?inst) + 4 * ring_size ?inst \<le> unat x \<Longrightarrow>
      unat x < unat (wb_home ?inst) + 64 \<or> unat (wb_home ?inst) + 72 \<le> unat x \<Longrightarrow> mem d1 x = mem e0 x"
    using st(3,4) same by (auto simp: shows_word_def addr)
  have "mem d1 (ring_addr ?inst (unat (published_wptr ?inst) + i)) = submission_words ?inst pkt dw ! i"
    if "i < 128" for i
    using k1(3) [of "unat (published_wptr ?inst) + i"] st(6) that by simp
  then have shown: "submission_shown dev mem ?inst pkt dw d d1"
    unfolding submission_shown_def
    using k1(4) cleared_slots [OF assms(1,2,5) w12 k1(5)] by blast
  have l: "query_slot inst1 = query_slot ?inst" "api_slot inst1 = api_slot ?inst" "submission_pending inst1"
    "published_wptr inst1 = published_wptr ?inst + 128"
    by (simp_all add: k1(1) kicked_def staged_def query_slot_def api_slot_def st(3))
  obtain d3 d4 api where f: "vram_read_fence64 dev (query_slot ?inst) d3 = ((kIOReturnSuccess, 1), d4)"
    "vram_read_fence64 dev (api_slot ?inst) d4 = ((kIOReturnSuccess, api), d')" "(ucast api :: u32) \<noteq> 0"
    using mes_wait_ends [OF w] by (auto simp: wait_end_def l(1,2) split: if_splits)
  have last: "published_wptr (mes_pipe mes' p) = published_wptr ?inst + 128" "\<not> submission_pending (mes_pipe mes' p)"
    "\<forall>q. q \<noteq> p \<longrightarrow> mes_pipe mes' q = mes_pipe mes q" "mes_pipe mes' p = inst'"
    using ends run(1,4,5) by (auto simp: set_pipe_def)
  have "wait_from dev p inst1 timeout_us e = Some ((kIOReturnSuccess, mes_pipe mes' p), d')"
    using w last(4) by (simp add: wait_from_def)
  then show ?thesis unfolding Let_def using shown k1(2) l f last(1-3) by blast
qed simp

lemma mes_submit_publishes_witness:
  "\<exists>mes' d' d1. mes_submit_pkt fw_dev demo_mes 1 (Some demo_query) 2 1000 ((\<lambda>_ _. 0), 0) =
      Some ((kIOReturnSuccess, mes'), d') \<and>
    (\<forall>i < 128. ram_mem d1 (ring_addr demo_pipe i) = submission_words demo_pipe demo_query 2 ! i)"
proof -
  obtain mes' d' where run: "mes_submit_pkt fw_dev demo_mes 1 (Some demo_query) 2 1000 ((\<lambda>_ _. 0), 0) =
      Some ((kIOReturnSuccess, mes'), d')"
    using demo_submission by blast
  have ok: "ring_ok (mes_pipe demo_mes 1)" "storage_apart (mes_pipe demo_mes 1)" by (simp_all add: demo_ok)
  from mes_submit_publishes [OF fw_dev_ok(1,2,4) ok demo_ok(4) run]
  obtain d1 where "submission_shown fw_dev ram_mem demo_pipe demo_query 2 ((\<lambda>_ _. 0), 0) d1"
    by (auto simp: demo_ok Let_def)
  then have "\<forall>i < 128. ram_mem d1 (ring_addr demo_pipe i) = submission_words demo_pipe demo_query 2 ! i"
    by (simp add: submission_shown_def)
  with run show ?thesis by blast
qed

lemma submission_returns:
  assumes "clock_runs dev T" "unat timeout_us * 1000 + 2 ^ 43 < (2::nat) ^ 64"
    and "ring_ok (mes_pipe mes p)" "length pkt = 64"
  shows "\<exists>y. mes_submit_pkt dev mes p (Some pkt) dw timeout_us d = Some y"
proof (cases "\<not> kMaxMESPipes \<le> p \<and> submit_refusal (mes_pipe mes p) (Some pkt) dw = None")
  case True
  let ?inst = "mes_pipe mes p"
  note acc = True [THEN conjunct2]
  obtain ring wb where st: "mes_ring_cpu (staged ?inst pkt dw) = Some ring" "wb_cpu (staged ?inst pkt dw) = Some wb"
    "is_pow2 (mes_ring_dwords ?inst)"
    using staged_parts [OF assms(3) acc assms(4)] .
  have pow2: "is_pow2 (mes_ring_dwords (staged ?inst pkt dw))" using st(3) by (simp add: staged_def)
  have wait: "(let (start, d) = now_ns dev e in mes_wait dev p i start timeout_us d) \<noteq> None" for i e
  proof -
    obtain start e1 where n: "now_ns dev e = (start, e1)" by fastforce
    then have "start = word_of_nat (T e)" "T e \<le> T e1" "T e1 \<le> T e + 2 ^ 40"
      using assms(1) by (auto simp: clock_runs_def) (metis fst_conv snd_conv)+
    then show ?thesis
      using mes_wait_returns [OF assms(1,2), of "T e" e1 p i] by (auto simp: n)
  qed
  have kick: "and_then (mes_kick_doorbell dev (staged ?inst pkt dw) e) (\<lambda>inst d.
      let (start, d) = now_ns dev d in mes_wait dev p inst start timeout_us d) \<noteq> None" for e
    using kick_returns [OF st(1,2) pow2, of dev e] wait by (intro and_then_returns) auto
  have "mes_submit dev p ?inst pkt dw timeout_us d \<noteq> None"
    using kick unfolding mes_submit_run [OF assms(3) acc assms(4)]
    by (auto simp: Let_def split: prod.splits)
  then show ?thesis using True by (auto simp: mes_submit_pkt_def split: option.splits)
next
  case False
  then show ?thesis by (auto simp: mes_submit_pkt_def split: option.splits)
qed

text \<open>
  C31. While the clock runs, every submission returns: the upload of the ring ends and the wait gives up at
  its timeout, whatever the firmware does.
\<close>

theorem mes_submit_returns:
  assumes "clock_runs dev T" "unat timeout_us * 1000 + 2 ^ 43 < (2::nat) ^ 64"
    and "ring_ok (mes_pipe mes p)" "length pkt = 64"
  shows "\<exists>y. mes_submit_pkt dev mes p (Some pkt) dw timeout_us d = Some y"
  using assms by (rule submission_returns)

lemma mes_submit_returns_witness:
  "\<exists>y. mes_submit_pkt ram_dev demo_mes 0 (Some demo_query) 2 2000000 ((\<lambda>_ _. 0), 0) = Some y"
  by (rule mes_submit_returns [OF ram_dev_ok(4)]) (simp_all add: demo_ok)

text \<open>Histories of submissions: any message, on any pipe, after whatever the earlier ones did.\<close>

inductive mes_history :: "'d DeviceContext \<Rightarrow> MESContext \<times> 'd \<Rightarrow> MESContext \<times> 'd \<Rightarrow> bool" for dev where
  Here: "mes_history dev x x"
| Submit: "mes_history dev x (mes, d) \<Longrightarrow> length pkt = 64 \<Longrightarrow>
    mes_submit_pkt dev mes p (Some pkt) dw t d = Some ((r, mes'), d') \<Longrightarrow> mes_history dev x (mes', d')"

definition mes_ok :: "MESContext \<Rightarrow> bool" where
  "mes_ok mes \<longleftrightarrow> (\<forall>p. p < kMaxMESPipes \<longrightarrow> ring_ok (mes_pipe mes p))"

lemma submission_step:
  assumes ok: "mes_ok mes" and len: "length pkt = 64"
    and run: "mes_submit_pkt dev mes p (Some pkt) dw t d = Some ((r, mes'), d')"
  shows "mes_ok mes'"
    and "submission_pending (mes_pipe mes q) \<Longrightarrow> mes_pipe mes' q = mes_pipe mes q"
    and "published_wptr (mes_pipe mes' q) = published_wptr (mes_pipe mes q) \<or>
      published_wptr (mes_pipe mes' q) = published_wptr (mes_pipe mes q) + 128"
proof -
  have "mes_ok mes' \<and> (submission_pending (mes_pipe mes q) \<longrightarrow> mes_pipe mes' q = mes_pipe mes q) \<and>
    (published_wptr (mes_pipe mes' q) = published_wptr (mes_pipe mes q) \<or>
      published_wptr (mes_pipe mes' q) = published_wptr (mes_pipe mes q) + 128)"
    using run
  proof (cases rule: submit_pkt_run)
    case refused
    then show ?thesis using ok by simp
  next
    case (run inst ws)
    have p: "ring_ok (mes_pipe mes p)" using ok run(3) by (simp add: mes_ok_def not_le)
    have acc: "submit_refusal (mes_pipe mes p) (Some pkt) dw = None" using run(1,2) by simp
    have sub: "mes_submit dev p (mes_pipe mes p) pkt dw t d = Some ((r, inst), d')" using run(1,4) by simp
    have "ring_ok inst" using mes_submit_ends [OF p acc len sub] by blast
    then have "mes_ok mes'" using ok run(5) by (simp add: mes_ok_def set_pipe_def)
    moreover have "published_wptr inst = published_wptr (mes_pipe mes p) \<or>
        published_wptr inst = published_wptr (mes_pipe mes p) + 128"
      by (rule submission_pointer [OF p acc len sub])
    ultimately show ?thesis using accepted(2) [OF p acc] run(5) by (simp add: set_pipe_def)
  qed
  then show "mes_ok mes'" "submission_pending (mes_pipe mes q) \<Longrightarrow> mes_pipe mes' q = mes_pipe mes q"
    "published_wptr (mes_pipe mes' q) = published_wptr (mes_pipe mes q) \<or>
      published_wptr (mes_pipe mes' q) = published_wptr (mes_pipe mes q) + 128"
    by blast+
qed

lemma mes_history_sound:
  assumes "mes_history dev x y" "mes_ok (fst x)"
  shows "mes_ok (fst y) \<and>
    (\<forall>p. submission_pending (mes_pipe (fst x) p) \<longrightarrow> mes_pipe (fst y) p = mes_pipe (fst x) p) \<and>
    (\<forall>p. \<exists>n. published_wptr (mes_pipe (fst y) p) = published_wptr (mes_pipe (fst x) p) + 128 * word_of_nat n)"
  using assms
proof (induction rule: mes_history.induct)
  case (Here x)
  then show ?case by (auto intro: exI [of _ 0])
next
  case (Submit x mes d pkt p dw t r mes' d')
  note step = submission_step [OF _ Submit.hyps(2,3)]
  have IH: "mes_ok mes" "\<And>p. submission_pending (mes_pipe (fst x) p) \<Longrightarrow> mes_pipe mes p = mes_pipe (fst x) p"
    "\<And>p. \<exists>n. published_wptr (mes_pipe mes p) = published_wptr (mes_pipe (fst x) p) + 128 * word_of_nat n"
    using Submit by auto
  have "\<exists>n. published_wptr (mes_pipe mes' q) = published_wptr (mes_pipe (fst x) q) + 128 * word_of_nat n" for q
  proof -
    obtain n where n: "published_wptr (mes_pipe mes q) = published_wptr (mes_pipe (fst x) q) + 128 * word_of_nat n"
      using IH(3) by blast
    consider "published_wptr (mes_pipe mes' q) = published_wptr (mes_pipe mes q)"
      | "published_wptr (mes_pipe mes' q) = published_wptr (mes_pipe mes q) + 128"
      using step(3) [OF IH(1)] by blast
    then show ?thesis
    proof cases
      case 2
      then show ?thesis using n by (intro exI [of _ "Suc n"]) (simp add: algebra_simps)
    qed (use n in auto)
  qed
  moreover have "mes_pipe mes' q = mes_pipe (fst x) q" if "submission_pending (mes_pipe (fst x) q)" for q
    using step(2) [OF IH(1), of q] IH(2) [OF that] that by simp
  ultimately show ?case using step(1) [OF IH(1)] by simp
qed

text \<open>How one more submission leaves its pipe.\<close>

definition submission_latches :: "'d DeviceContext \<Rightarrow> MESContext \<Rightarrow> u32 \<Rightarrow> kern_return \<Rightarrow> MESContext \<Rightarrow> 'd \<Rightarrow> bool" where
  "submission_latches dev mes p r mes' d' \<longleftrightarrow>
     (if r = kIOReturnSuccess \<or> r = kIOReturnInternalError
      then \<not> submission_pending (mes_pipe mes' p) \<and>
        published_wptr (mes_pipe mes' p) = published_wptr (mes_pipe mes p) + 128 \<and>
        (\<exists>d1 d2 api. vram_read_fence64 dev (query_slot (mes_pipe mes p)) d1 = ((kIOReturnSuccess, 1), d2) \<and>
           vram_read_fence64 dev (api_slot (mes_pipe mes p)) d2 = ((kIOReturnSuccess, api), d') \<and>
           r = (if (ucast api :: u32) \<noteq> 0 then kIOReturnSuccess else kIOReturnInternalError))
      else mes' = mes \<or> submission_pending (mes_pipe mes' p))"

lemma submission_step_latches:
  assumes ok: "mes_ok mes" and len: "length pkt = 64"
    and run: "mes_submit_pkt dev mes p (Some pkt) dw t d = Some ((r, mes'), d')"
  shows "submission_latches dev mes p r mes' d'"
  using run
proof (cases rule: submit_pkt_run)
  case refused
  then show ?thesis by (simp add: submission_latches_def)
next
  case (run inst ws)
  have p: "ring_ok (mes_pipe mes p)" using ok run(3) by (simp add: mes_ok_def not_le)
  have acc: "submit_refusal (mes_pipe mes p) (Some pkt) dw = None" using run(1,2) by simp
  have sub: "mes_submit dev p (mes_pipe mes p) pkt dw t d = Some ((r, inst), d')" using run(1,4) by simp
  have same: "set_pipe p (mes_pipe mes p) mes = mes" by (simp add: set_pipe_def)
  have at: "mes_pipe mes' p = inst" using run(5) by (simp add: set_pipe_def)
  from mes_submit_ends [OF p acc len sub] show ?thesis
    unfolding submission_latches_def at using run(5) same by (elim conjE disjE) simp_all
qed

lemma pending_refused:
  assumes "submission_pending (mes_pipe mes p)"
  shows "mes_submit_pkt dev mes p pkt dw t d =
    Some ((if kMaxMESPipes \<le> p then kIOReturnBadArgument
           else if \<not> mi_inited (mes_pipe mes p) \<or> \<not> mi_enabled (mes_pipe mes p) then kIOReturnNotReady
           else kIOReturnBusy, mes), d)"
  using assms by (simp add: mes_submit_pkt_def submit_refusal_def)

text \<open>
  C32. In every history of submissions, on both pipes and with any messages and any answers of the
  firmware, the ring invariant holds: never more is staged than the ring holds behind the published
  pointer, a free pipe has published all it staged, and the published pointer moves by whole pairs of
  frames. From any state of such a history, a submission leaves its pipe free with the pointer moved only
  after both completions were read; with any other result (a failed access, a failed doorbell, the
  timeout) it has either changed nothing in the driver's state or leaves the pipe latched. A latched
  pipe refuses every further submission without touching the device, and stays as it is in every
  history.
\<close>

theorem mes_submissions_sound:
  assumes "mes_history dev (mes0, d0) (mes, d)" "mes_ok mes0"
  shows "mes_ok mes \<and>
    (\<forall>p. submission_pending (mes_pipe mes0 p) \<longrightarrow> mes_pipe mes p = mes_pipe mes0 p) \<and>
    (\<forall>p. \<exists>n. published_wptr (mes_pipe mes p) = published_wptr (mes_pipe mes0 p) + 128 * word_of_nat n) \<and>
    (\<forall>p pkt dw t r mes' d'. length pkt = 64 \<longrightarrow>
       mes_submit_pkt dev mes p (Some pkt) dw t d = Some ((r, mes'), d') \<longrightarrow>
       submission_latches dev mes p r mes' d') \<and>
    (\<forall>p pkt dw t. submission_pending (mes_pipe mes p) \<longrightarrow>
       mes_submit_pkt dev mes p pkt dw t d =
         Some ((if kMaxMESPipes \<le> p then kIOReturnBadArgument
                else if \<not> mi_inited (mes_pipe mes p) \<or> \<not> mi_enabled (mes_pipe mes p) then kIOReturnNotReady
                else kIOReturnBusy, mes), d))"
proof (intro conjI allI impI)
  have h: "mes_ok mes" "\<And>p. submission_pending (mes_pipe mes0 p) \<Longrightarrow> mes_pipe mes p = mes_pipe mes0 p"
    "\<And>p. \<exists>n. published_wptr (mes_pipe mes p) = published_wptr (mes_pipe mes0 p) + 128 * word_of_nat n"
    using mes_history_sound [OF assms(1)] assms(2) by simp_all
  then show "mes_ok mes" "\<And>p. submission_pending (mes_pipe mes0 p) \<Longrightarrow> mes_pipe mes p = mes_pipe mes0 p"
    "\<And>p. \<exists>n. published_wptr (mes_pipe mes p) = published_wptr (mes_pipe mes0 p) + 128 * word_of_nat n" by blast+
  show "submission_latches dev mes p r mes' d'"
    if "length pkt = 64" "mes_submit_pkt dev mes p (Some pkt) dw t d = Some ((r, mes'), d')"
    for p and pkt :: "u32 list" and dw t r mes' d'
    by (rule submission_step_latches [OF h(1) that])
qed (rule pending_refused)

lemma mes_submissions_sound_witness:
  "\<exists>mes d. mes_history fw_dev (demo_mes, ((\<lambda>_ _. 0), 0)) (mes, d) \<and> mes \<noteq> demo_mes \<and> mes_ok mes"
proof -
  obtain mes d where run: "mes_submit_pkt fw_dev demo_mes 1 (Some demo_query) 2 1000 ((\<lambda>_ _. 0), 0) =
      Some ((kIOReturnSuccess, mes), d)"
    using demo_submission by blast
  have h: "mes_history fw_dev (demo_mes, ((\<lambda>_ _. 0), 0)) (mes, d)"
    by (rule mes_history.Submit [OF mes_history.Here demo_ok(4) run])
  have ok: "mes_ok demo_mes" by (simp add: mes_ok_def demo_ok)
  have "published_wptr (mes_pipe mes 1) = 128"
    using run
  proof (cases rule: submit_pkt_run)
    case (run inst ws)
    then have sub: "mes_submit fw_dev 1 demo_pipe demo_query 2 1000 ((\<lambda>_ _. 0), 0) = Some ((kIOReturnSuccess, inst), d)"
      by (simp add: demo_ok)
    show ?thesis using mes_submit_ends [OF demo_ok(1,6,4) sub] run(5) by (auto simp: set_pipe_def)
  qed simp
  then have "mes \<noteq> demo_mes" using demo_ok(5) [of 1] by auto
  with h mes_submissions_sound [OF h ok] show ?thesis by blast
qed

end
