(* ===== verification/Mes_Bringup_Properties.thy ===== *)
theory Mes_Bringup_Properties
  imports Mes_Properties Gmc_Properties Gart_Properties
begin

text \<open>
  The bring-up of the scheduler returns and leaves what the later queue operations rely on. Every step
  is shown to return, to keep the invariant of the pipes and of the VRAM allocator, and never to take
  back what an earlier step established.
\<close>

section \<open>What the steps keep\<close>

datatype mes_flag = Inited u32 | Enabled u32 | Ctx u32 | Res u32 | Uni

primrec flag :: "mes_flag \<Rightarrow> MESContext \<Rightarrow> bool" where
  "flag (Inited p) mes = mi_inited (mes_pipe mes p)"
| "flag (Enabled p) mes = mi_enabled (mes_pipe mes p)"
| "flag (Ctx p) mes = (sch_ctx_bus (mes_pipe mes p) \<noteq> 0)"
| "flag (Res p) mes = (resource_1_bus (mes_pipe mes p) \<noteq> 0)"
| "flag Uni mes = uni_mes_active mes"

text \<open>A pipe without storage has never published; the allocator's arena does not hold address 0.\<close>

definition pipe_inv :: "MESInstance \<Rightarrow> bool" where
  "pipe_inv inst \<longleftrightarrow> (if mi_inited inst then ring_ok inst else published_wptr inst = 0 \<and> \<not> submission_pending inst)"

definition vram_ok :: "GMCContext \<Rightarrow> bool" where
  "vram_ok gmc \<longleftrightarrow> (\<exists>live. vram_inv (vram_alloc gmc) live) \<and> 0 \<notin> vram_arena (vram_alloc gmc)"

definition bring_inv :: "MESContext \<times> GMCContext \<Rightarrow> bool" where
  "bring_inv s \<longleftrightarrow> (\<forall>p. pipe_inv (mes_pipe (fst s) p)) \<and> vram_ok (snd s)"

definition kept :: "MESContext \<Rightarrow> MESContext \<Rightarrow> bool" where
  "kept mes mes' \<longleftrightarrow> (\<forall>x. flag x mes \<longrightarrow> flag x mes')"

text \<open>A step from \<open>s\<close> that returns, keeps all that and establishes the flags \<open>N\<close> when it succeeds.\<close>

definition good :: "MESContext \<times> GMCContext \<Rightarrow> mes_flag set \<Rightarrow> (MESContext \<times> GMCContext, 'd) outcome \<Rightarrow> bool" where
  "good s N m \<longleftrightarrow> (\<exists>r s' d'. m = Some ((r, s'), d') \<and> bring_inv s' \<and> kept (fst s) (fst s') \<and>
     (r = kIOReturnSuccess \<longrightarrow> (\<forall>x \<in> N. flag x (fst s'))))"

lemma kept_refl [simp]: "kept mes mes"
  by (simp add: kept_def)

lemma kept_trans: "kept a b \<Longrightarrow> kept b c \<Longrightarrow> kept a c"
  by (simp add: kept_def)

lemma good_here: "bring_inv s \<Longrightarrow> N = {} \<or> r \<noteq> kIOReturnSuccess \<Longrightarrow> good s N (Some ((r, s), d))"
  by (auto simp: good_def)

lemma good_then:
  assumes "good s N m" "\<And>s' d. bring_inv s' \<Longrightarrow> kept (fst s) (fst s') \<Longrightarrow> \<forall>x \<in> N. flag x (fst s') \<Longrightarrow> good s' M (k s' d)"
  shows "good s (N \<union> M) (and_then m k)"
proof -
  obtain r s1 d1 where 1: "m = Some ((r, s1), d1)" "bring_inv s1" "kept (fst s) (fst s1)"
    "r = kIOReturnSuccess \<longrightarrow> (\<forall>x \<in> N. flag x (fst s1))"
    using assms(1) by (auto simp: good_def)
  show ?thesis
  proof (cases "r = kIOReturnSuccess")
    case False
    with 1 show ?thesis by (auto simp: good_def)
  next
    case True
    have "good s1 M (k s1 d1)" using assms(2) 1 True by blast
    then obtain r2 s2 d2 where 2: "k s1 d1 = Some ((r2, s2), d2)" "bring_inv s2" "kept (fst s1) (fst s2)"
      "r2 = kIOReturnSuccess \<longrightarrow> (\<forall>x \<in> M. flag x (fst s2))"
      by (auto simp: good_def)
    have "kept (fst s) (fst s2)" using kept_trans 1(3) 2(3) by blast
    moreover have "flag x (fst s2)" if "x \<in> N" for x using 1(4) True 2(3) that by (simp add: kept_def)
    ultimately show ?thesis using 1(1) 2 True by (auto simp: good_def)
  qed
qed

lemma good_weaken: "good s N m \<Longrightarrow> M \<subseteq> N \<Longrightarrow> good s M m"
  unfolding good_def by blast

section \<open>Blocks of VRAM\<close>

lemma alloc_outcome:
  assumes "vram_inv s live"
  shows "alloc s bytes al = Some (None, s) \<or> (\<exists>a s'. alloc s bytes al = Some (Some a, s'))"
proof (cases "alloc_guard s bytes al")
  case True
  show ?thesis
    using alloc_spec [OF assms True]
    by (cases "fl_alloc (unat (eff_alignment al)) (unat (align_up bytes (eff_alignment al))) (free_ranges s)") auto
qed (simp add: alloc_refused)

lemma give_back_ok:
  assumes "vram_inv (vram_alloc gmc) (a # live)" "0 \<notin> vram_arena (vram_alloc gmc)"
  shows "\<exists>gmc'. give_back gmc a r d = Some ((r, None, gmc'), d) \<and> vram_ok gmc'"
proof -
  obtain va where va: "free (vram_alloc gmc) a = Some va" "vram_inv va (remove1 a (a # live))"
    "vram_arena va = vram_arena (vram_alloc gmc)"
    using free_spec [OF assms(1), of a] by auto
  then have "vram_ok (gmc\<lparr>vram_alloc := va\<rparr>)" using assms(2) by (auto simp: vram_ok_def)
  then show ?thesis using va(1) by (simp add: give_back_def)
qed

lemma alloc_block_ok:
  assumes "vram_ok gmc"
  shows "\<exists>r blk gmc' d'. mes_alloc_vram_block dev os gmc sz d = Some ((r, blk, gmc'), d') \<and> vram_ok gmc' \<and>
    (r = kIOReturnSuccess \<longrightarrow> (\<exists>b bus. blk = Some (b, bus) \<and> bus \<noteq> 0)) \<and> (r \<noteq> kIOReturnSuccess \<longrightarrow> blk = None)"
proof -
  let ?va = "vram_alloc gmc"
  obtain live where inv: "vram_inv ?va live" and z: "0 \<notin> vram_arena ?va" using assms by (auto simp: vram_ok_def)
  have ready: "m_inited ?va" using vram_invD(1) [OF inv] .
  obtain res va where al: "alloc ?va sz kASPageSize = Some (res, va)"
    and none: "res = None \<Longrightarrow> va = ?va"
    using alloc_outcome [OF inv, of sz kASPageSize] by auto
  show ?thesis
  proof (cases res)
    case None
    then have "vram_ok (gmc\<lparr>vram_alloc := va\<rparr>)" using none assms by (simp add: vram_ok_def)
    then show ?thesis using ready al None by (simp add: mes_alloc_vram_block_def)
  next
    case (Some a)
    have res: "vram_reserve ?va (sz, kASPageSize) = Some (a, va)" using al Some by (simp add: vram_reserve_def)
    note v = vram_reserve_spec [OF inv res]
    let ?g = "gmc\<lparr>vram_alloc := va\<rparr>"
    have g: "vram_inv (vram_alloc ?g) (a # live)" "0 \<notin> vram_arena (vram_alloc ?g)" using v z by simp_all
    note giv = give_back_ok [OF g]
    have "0 < unat (va_size a)" using vram_invD(5) [OF v(1), of a] by simp
    then have "unat (gpu_va a) \<in> live_span a" by (simp add: live_span_def)
    then have "unat (gpu_va a) \<in> vram_arena va" using vram_inv_live_arena [OF v(1), of a] by auto
    then have nz: "gpu_va a \<noteq> 0" using z v(2) by (metis unat_0)
    have ok: "vram_ok ?g" using g by (auto simp: vram_ok_def)
    obtain r1 b d1 where b: "buf_create os (va_size a) kASPageSize d = ((r1, b), d1)" by (metis surj_pair)
    show ?thesis
    proof (cases "b = None \<or> r1 \<noteq> kIOReturnSuccess")
      case True
      then obtain rr where "rr \<noteq> kIOReturnSuccess"
        "mes_alloc_vram_block dev os gmc sz d = give_back ?g a rr d1"
        using ready al Some b by (cases b; cases "r1 = kIOReturnSuccess")
          (auto simp: mes_alloc_vram_block_def or_else_def Let_def)
      then show ?thesis using giv [of rr d1] by auto
    next
      case False
      then obtain h where h: "b = Some h" "r1 = kIOReturnSuccess" by auto
      obtain rl d2 where l: "buf_set_length os h (va_size a) d1 = (rl, d2)" by fastforce
      obtain ra cpu len d3 where ad: "buf_address os h d2 = ((ra, cpu, len), d3)" by (metis surj_pair)
      show ?thesis
      proof (cases "cpu = 0 \<or> len < va_size a")
        case True
        then have "mes_alloc_vram_block dev os gmc sz d = give_back ?g a kIOReturnNoMemory (buf_release os h d3)"
          using ready al Some b h l ad by (auto simp: mes_alloc_vram_block_def Let_def)
        then show ?thesis using giv [of kIOReturnNoMemory "buf_release os h d3"] by auto
      next
        case False
        obtain rw d4 where w: "vram_write_verified dev (gpu_va a - vram_start gmc)
            (Some (replicate (unat (va_size a)) 0)) (va_size a) (cpu_zero os cpu (va_size a) d3) = (rw, d4)" by fastforce
        have run: "mes_alloc_vram_block dev os gmc sz d =
            (if rw \<noteq> kIOReturnSuccess then give_back ?g a rw (buf_release os h d4)
             else Some ((kIOReturnSuccess, Some (h, gpu_va a), ?g), d4))"
          using ready al Some b h l ad w False by (simp add: mes_alloc_vram_block_def Let_def)
        then show ?thesis using giv [of rw "buf_release os h d4"] nz ok by (cases "rw = kIOReturnSuccess") auto
      qed
    qed
  qed
qed

section \<open>Storage\<close>

text \<open>What a pipe shows the bring-up: its switches and the blocks whose presence is tested.\<close>

definition core :: "MESInstance \<Rightarrow> bool \<times> bool \<times> u64 \<times> u64 \<times> u64 \<times> bool" where
  "core inst = (mi_inited inst, mi_enabled inst, sch_ctx_bus inst, resource_1_bus inst, published_wptr inst,
     submission_pending inst)"

text \<open>How the storage of a pipe ends: the core as it was, or a fresh ring behind it.\<close>

definition storage_end :: "MESInstance \<Rightarrow> (MESInstance \<times> GMCContext, 'd) outcome \<Rightarrow> bool" where
  "storage_end inst0 m \<longleftrightarrow> (\<exists>r inst gmc d. m = Some ((r, inst, gmc), d) \<and> vram_ok gmc \<and>
     (if r = kIOReturnSuccess then core (inst\<lparr>mi_inited := mi_inited inst0\<rparr>) = core inst0 \<and> mi_inited inst \<and> ring_ok inst
      else core inst = core inst0))"

lemma alloc_then:
  assumes "vram_ok (snd s)" "P (fst s)" "\<And>b bus i. P i \<Longrightarrow> P (put b bus i)" "\<And>i. P i \<Longrightarrow> core i = core inst0"
    and "\<And>s d. vram_ok (snd s) \<Longrightarrow> P (fst s) \<Longrightarrow> storage_end inst0 (k s d)"
  shows "storage_end inst0 (and_then (mes_alloc_into dev os sz put s d) k)"
proof -
  obtain r blk gmc d1 where "mes_alloc_vram_block dev os (snd s) sz d = Some ((r, blk, gmc), d1)" "vram_ok gmc"
    using alloc_block_ok [OF assms(1), of dev os sz d] by blast
  moreover define inst where "inst = put (map_option fst blk) (case blk of None \<Rightarrow> 0 | Some (b, bus) \<Rightarrow> bus) (fst s)"
  ultimately have run: "mes_alloc_into dev os sz put s d = Some ((r, inst, gmc), d1)" "vram_ok gmc"
    by (simp_all add: mes_alloc_into_def)
  have P: "P inst" using assms(2,3) by (simp add: inst_def)
  show ?thesis
  proof (cases "r = kIOReturnSuccess")
    case True
    then show ?thesis using assms(5) [of "(inst, gmc)" d1] run P by simp
  next
    case False
    then show ?thesis using assms(4) [OF P] run by (simp add: storage_end_def)
  qed
qed

lemma storage_ends:
  assumes "vram_ok (snd s)" "pipe_inv (fst s)"
  shows "storage_end (fst s) (mes_alloc_storage dev os s p d)"
proof (cases "mi_inited (fst s)")
  case True
  then show ?thesis using assms by (cases s) (simp add: mes_alloc_storage_def storage_end_def pipe_inv_def core_def)
next
  case False
  let ?i = "fst s"
  let ?P = "\<lambda>i. core i = core ?i"
  let ?R = "\<lambda>i. core i = core ?i \<and> mes_ring_cpu i = Some (replicate 16384 0)"
  have fresh: "published_wptr ?i = 0" "\<not> submission_pending ?i" using assms(2) False by (simp_all add: pipe_inv_def)
  show ?thesis
    unfolding mes_alloc_storage_def Let_def if_not_P [OF False]
    apply (rule alloc_then [where P = ?P]; (simp add: assms core_def; fail)?)
    apply (rule alloc_then [where P = ?P]; (simp add: core_def; fail)?)
    apply (rule alloc_then [where P = ?P]; (simp add: core_def; fail)?)
    apply (rule alloc_then [where P = ?R]; (simp add: core_def kMES_RING_SIZE_def; fail)?)
    apply (rule alloc_then [where P = ?R]; (simp add: core_def; fail)?)
    using fresh by (auto simp: storage_end_def core_def ring_ok_def ring_size_def kMES_RING_SIZE_def is_pow2_def)
qed

section \<open>Steps\<close>

definition keeps :: "MESInstance \<Rightarrow> MESInstance \<Rightarrow> bool" where
  "keeps i i' \<longleftrightarrow> (mi_inited i \<longrightarrow> mi_inited i') \<and> (mi_enabled i \<longrightarrow> mi_enabled i') \<and>
     (sch_ctx_bus i \<noteq> 0 \<longrightarrow> sch_ctx_bus i' \<noteq> 0) \<and> (resource_1_bus i \<noteq> 0 \<longrightarrow> resource_1_bus i' \<noteq> 0)"

lemma set_pipe_simps [simp]:
  "mes_pipe (set_pipe p inst mes) q = (if q = p then inst else mes_pipe mes q)"
  "uni_mes_active (set_pipe p inst mes) = uni_mes_active mes"
  by (simp_all add: set_pipe_def)

lemma kept_pipe: "keeps (mes_pipe mes p) inst \<Longrightarrow> kept mes (set_pipe p inst mes)"
  unfolding kept_def
proof (intro allI impI)
  fix x assume "keeps (mes_pipe mes p) inst" "flag x mes"
  then show "flag x (set_pipe p inst mes)" by (cases x) (auto simp: keeps_def)
qed

lemma inv_pipe: "bring_inv (mes, gmc) \<Longrightarrow> pipe_inv inst \<Longrightarrow> vram_ok gmc' \<Longrightarrow> bring_inv (set_pipe p inst mes, gmc')"
  by (simp add: bring_inv_def)

lemma good_pipe:
  assumes "bring_inv (mes, gmc)" "keeps (mes_pipe mes p) inst" "pipe_inv inst" "vram_ok gmc'"
    and "r = kIOReturnSuccess \<Longrightarrow> \<forall>x \<in> N. flag x (set_pipe p inst mes)"
  shows "good (mes, gmc) N (Some ((r, set_pipe p inst mes, gmc'), d))"
  using inv_pipe [OF assms(1,3,4)] kept_pipe [OF assms(2)] assms(5) by (auto simp: good_def)

lemma good_from:
  assumes "good s' N m" "kept (fst s) (fst s')"
  shows "good s N m"
  using assms kept_trans unfolding good_def by blast

lemma good_add:
  assumes "good s N m" "flag x (fst s)"
  shows "good s (insert x N) m"
  using assms by (auto simp: good_def kept_def)

lemma storage_step_good:
  assumes "bring_inv s"
  shows "good s {Inited p} (mes_storage_step dev os p s d)"
proof -
  obtain mes gmc where s: "s = (mes, gmc)" by fastforce
  let ?i = "mes_pipe mes p"
  have inv: "vram_ok gmc" "pipe_inv ?i" using assms s by (simp_all add: bring_inv_def)
  obtain r inst gmc' d' where run: "mes_alloc_storage dev os (?i, gmc) p d = Some ((r, inst, gmc'), d')" "vram_ok gmc'"
    and ends: "if r = kIOReturnSuccess then core (inst\<lparr>mi_inited := mi_inited ?i\<rparr>) = core ?i \<and> mi_inited inst \<and> ring_ok inst
      else core inst = core ?i \<and> (mi_inited ?i \<longrightarrow> ring_ok inst)"
  proof -
    obtain r inst gmc' d' where 1: "mes_alloc_storage dev os (?i, gmc) p d = Some ((r, inst, gmc'), d')" "vram_ok gmc'"
      "if r = kIOReturnSuccess then core (inst\<lparr>mi_inited := mi_inited ?i\<rparr>) = core ?i \<and> mi_inited inst \<and> ring_ok inst
      else core inst = core ?i"
      using storage_ends [of "(?i, gmc)" dev os p d] inv by (auto simp: storage_end_def)
    moreover have "mi_inited ?i \<longrightarrow> r = kIOReturnSuccess" using 1(1) by (auto simp: mes_alloc_storage_def)
    ultimately show thesis by (intro that [of r inst gmc' d']) auto
  qed
  have "keeps ?i inst" "pipe_inv inst"
    using ends inv(2) by (auto simp: keeps_def core_def pipe_inv_def split: if_splits)
  moreover have "mes_storage_step dev os p s d = Some ((r, set_pipe p inst mes, gmc'), d')"
    using run(1) s by (simp add: mes_storage_step_def)
  ultimately show ?thesis
    using ends run(2) assms s by (auto intro!: good_pipe)
qed

section \<open>Submissions\<close>

lemma ring_write_core: "core (snd (mes_ring_write inst src)) = core inst"
  by (auto simp: mes_ring_write_def Let_def core_def split: option.splits)

definition switches :: "MESInstance \<Rightarrow> bool \<times> bool \<times> u64 \<times> u64" where
  "switches inst = (mi_inited inst, mi_enabled inst, sch_ctx_bus inst, resource_1_bus inst)"

lemma staged_switches: "switches (staged inst pkt dw) = switches inst"
  by (simp add: switches_def staged_def)

lemma kick_switches:
  "mes_kick_doorbell dev inst d = Some ((r, inst'), d') \<Longrightarrow> switches inst' = switches inst"
  by (auto simp: mes_kick_doorbell_def Let_def switches_def split: if_splits option.splits prod.splits)

lemma wait_switches:
  assumes "mes_wait dev p inst start t d = Some ((r, inst'), d')"
  shows "switches inst' = switches inst"
  using mes_wait_ends [OF assms] by (auto simp: wait_end_def switches_def)

lemma submit_switches:
  assumes "ring_ok inst" "submit_refusal inst (Some pkt) dw = None" "length pkt = 64"
    and run: "mes_submit dev p inst pkt dw t d = Some ((r, inst'), d')"
  shows "switches inst' = switches inst"
proof -
  have "switches i = switches inst"
    if "and_then (mes_kick_doorbell dev (staged inst pkt dw) e) (\<lambda>inst d.
      let (start, d) = now_ns dev d in mes_wait dev p inst start t d) = Some ((c, i), e')" for e c i e'
    using that
  proof (cases rule: and_then_cases)
    case stop
    then show ?thesis using kick_switches staged_switches by metis
  next
    case (go i1 e1)
    then show ?thesis using kick_switches [OF go(1)] staged_switches by (auto dest: wait_switches split: prod.splits)
  qed
  then show ?thesis
    using run unfolding mes_submit_run [OF assms(1-3)]
    by (auto simp: Let_def split: prod.splits if_splits)
qed

lemma submit_good:
  assumes clk: "clock_runs dev T" and inv: "bring_inv s" and len: "length pkt = 64"
  shows "good s {} (on_fst (mes_submit_pkt dev (fst s) p (Some pkt) dw 2000000 d) (snd s))"
proof -
  obtain mes gmc where s: "s = (mes, gmc)" by fastforce
  let ?i = "mes_pipe mes p"
  show ?thesis
  proof (cases "mi_inited ?i")
    case False
    then have "\<exists>r. mes_submit_pkt dev mes p (Some pkt) dw 2000000 d = Some ((r, mes), d)"
      by (simp add: mes_submit_pkt_def submit_refusal_def)
    then show ?thesis using inv s by (auto simp: good_def on_fst_def)
  next
    case True
    then have ok: "ring_ok ?i" using inv s by (auto simp: bring_inv_def pipe_inv_def)
    obtain r mes' d' where run: "mes_submit_pkt dev mes p (Some pkt) dw 2000000 d = Some ((r, mes'), d')"
      using submission_returns [OF clk _ ok len, of 2000000 dw d] by auto
    show ?thesis
      using run
    proof (cases rule: submit_pkt_run)
      case refused
      then show ?thesis using run inv s by (auto simp: good_def on_fst_def)
    next
      case (run inst ws)
      have acc: "submit_refusal ?i (Some pkt) dw = None" and ws: "ws = pkt" using run(1,2) by simp_all
      have sub: "mes_submit dev p ?i pkt dw 2000000 d = Some ((r, inst), d')" using run(4) ws by simp
      have "switches inst = switches ?i" by (rule submit_switches [OF ok acc len sub])
      then have "keeps ?i inst" "mi_inited inst" using True by (simp_all add: keeps_def switches_def)
      moreover have "ring_ok inst" using mes_submit_ends [OF ok acc len sub] by blast
      ultimately have "good (mes, gmc) {} (Some ((r, set_pipe p inst mes, gmc), d'))"
        using inv s by (intro good_pipe) (auto simp: pipe_inv_def bring_inv_def)
      then show ?thesis using run(5) \<open>mes_submit_pkt dev mes p (Some pkt) dw 2000000 d = Some ((r, mes'), d')\<close> s
        by (simp add: on_fst_def)
    qed
  qed
qed

section \<open>The steps of the bring-up\<close>

lemma here_good: "bring_inv s \<Longrightarrow> r \<noteq> kIOReturnSuccess \<Longrightarrow> good s N (Some ((r, s), d))"
  by (simp add: good_here)

lemma device_step_good: "bring_inv s \<Longrightarrow> good s {} (device_step s rd)"
  by (simp add: device_step_def good_here)

lemma log_step_good: "bring_inv s \<Longrightarrow> good s {} (log_step dev p s d)"
  by (simp add: log_step_def good_here)

lemma on_fst_some: "on_fst (Some ((r, m), d)) t = Some ((r, m, t), d)"
  by (simp add: on_fst_def)

lemma enable_good:
  assumes "bring_inv s"
  shows "good s {Enabled 0, Enabled 1} (on_fst (mes_enable dev (fst s) True d) (snd s))"
proof -
  obtain mes gmc where s: "s = (mes, gmc)" by fastforce
  have inv: "pipe_inv (mes_pipe mes q)" "vram_ok gmc" for q using assms s by (simp_all add: bring_inv_def)
  define m1 where "m1 = set_pipe 0 ((mes_pipe mes 0)\<lparr>mi_enabled := True\<rparr>) mes"
  define m2 where "m2 = set_pipe 1 ((mes_pipe m1 1)\<lparr>mi_enabled := True\<rparr>) m1"
  have enabled: "pipe_inv (i\<lparr>mi_enabled := True\<rparr>) = pipe_inv i" "keeps i (i\<lparr>mi_enabled := True\<rparr>)" for i
    by (simp_all add: pipe_inv_def ring_ok_def ring_size_def keeps_def)
  have 1: "bring_inv (m1, gmc)" "kept mes m1"
    using assms inv enabled s unfolding m1_def by (auto intro!: inv_pipe kept_pipe)
  then have 2: "bring_inv (m2, gmc)" "kept m1 m2"
    using enabled unfolding m2_def by (auto intro!: inv_pipe kept_pipe simp: bring_inv_def)
  have "flag (Enabled 0) m2" "flag (Enabled 1) m2" by (simp_all add: m1_def m2_def)
  moreover have "(\<exists>d'. mes_enable dev mes True d = Some ((kIOReturnSuccess, m2), d')) \<or>
      mes_enable dev mes True d = Some ((kIOReturnNotReady, mes), d)"
  proof (cases "gc_resolved dev \<and> pipe_bootable (mes_pipe mes 0) \<and> pipe_bootable (mes_pipe mes 1)")
    case True
    then show ?thesis by (simp add: mes_enable_def mes_enable_pipe_def Let_def m1_def m2_def)
  qed (auto simp: mes_enable_def)
  ultimately show ?thesis
    using assms s 1 2 kept_trans by (auto simp: on_fst_some good_def)
qed

lemma map_good:
  assumes "clock_runs dev T" "bring_inv s"
  shows "good s {} (on_fst (mes_map_legacy_queue dev (fst s) ty p q db mqd w d) (snd s))"
proof -
  have "length (add_queue_frame (map_message ty p q db mqd w)) = 64" by simp
  note submit_good [OF assms this]
  then show ?thesis using assms(2) by (simp add: mes_map_legacy_queue_def on_fst_some good_here)
qed

lemma mqd_good:
  assumes "bring_inv (mes, gmc)"
  shows "bring_inv (set_pipe p ((mes_pipe mes p)\<lparr>mqd_cpu := x\<rparr>) mes, gmc)"
    "kept mes (set_pipe p ((mes_pipe mes p)\<lparr>mqd_cpu := x\<rparr>) mes)"
proof -
  have "pipe_inv (i\<lparr>mqd_cpu := x\<rparr>) = pipe_inv i" "keeps i (i\<lparr>mqd_cpu := x\<rparr>)" for i
    by (simp_all add: pipe_inv_def ring_ok_def ring_size_def keeps_def)
  then show "bring_inv (set_pipe p ((mes_pipe mes p)\<lparr>mqd_cpu := x\<rparr>) mes, gmc)"
    "kept mes (set_pipe p ((mes_pipe mes p)\<lparr>mqd_cpu := x\<rparr>) mes)"
    using assms by (auto intro!: inv_pipe kept_pipe simp: bring_inv_def)
qed

lemma queue_init_good:
  assumes clk: "clock_runs dev T" and inv: "bring_inv s"
  shows "good s {} (on_fst (mes_queue_init dev (fst s) p d) (snd s))"
proof -
  obtain mes gmc where s: "s = (mes, gmc)" by fastforce
  let ?i = "mes_pipe mes p"
  let ?mqd = "put_words (replicate (unat kMES_MQD_SIZE div 4) 0) (mqd_words ?i)"
  let ?j = "?i\<lparr>mqd_cpu := Some ?mqd\<rparr>"
  let ?m = "set_pipe p ?j mes"
  note q = mqd_good [OF inv [unfolded s], of p "Some ?mqd"]
  consider r where "r \<noteq> kIOReturnSuccess" "mes_queue_init dev mes p d = Some ((r, mes), d)"
    | r d' where "mes_queue_init dev mes p d = Some ((r, ?m), d')"
    | d' where "mes_queue_init dev mes p d = mes_map_legacy_queue dev ?m kMESQueueType_SCHQ p 0 (doorbell_index ?j)
        (mqd_bus ?j) (ring_wptr_gpu_addr ?j) d'"
  proof (cases "kMaxMESPipes \<le> p \<or> \<not> mi_inited ?i \<or> \<not> mi_enabled ?i \<or> \<not> gc_resolved dev \<or> mqd_cpu ?i = None")
    case True
    then show thesis
      by (intro that(1) [of "if kMaxMESPipes \<le> p then kIOReturnBadArgument else kIOReturnNotReady"])
        (auto simp: mes_queue_init_def Let_def)
  next
    case False
    obtain r e where w: "vram_write_verified dev (mqd_bus ?j - vram_base ?j) (Some (dw_bytes ?mqd)) kMES_MQD_SIZE d = (r, e)"
      by fastforce
    show thesis
    proof (cases "r = kIOReturnSuccess \<and> p = Sched")
      case True
      then show thesis using False w
        by (intro that(3) [of "amdgpu_hdp_flush dev e"]) (auto simp: mes_queue_init_def Let_def)
    next
      case other: False
      then show thesis using False w
        by (cases "r = kIOReturnSuccess") (auto intro: that(2) simp: mes_queue_init_def Let_def)
    qed
  qed
  then show ?thesis
  proof cases
    case 1
    then show ?thesis using inv s by (simp add: on_fst_some good_here)
  next
    case 2
    then show ?thesis using q s by (auto simp: on_fst_some good_def)
  next
    case 3
    have "good (?m, gmc) {} (on_fst (mes_queue_init dev mes p d) gmc)"
      unfolding 3 using map_good [OF clk q(1)] by simp
    then show ?thesis using q(2) s by (auto intro: good_from)
  qed
qed

lemma version_good:
  assumes "bring_inv s"
  shows "good s {} (on_fst (Some (mes_read_sched_version dev (fst s) p d)) (snd s))"
proof -
  have "bring_inv (m\<lparr>sched_version := v\<rparr>, g) = bring_inv (m, g)" "bring_inv (m\<lparr>kiq_version := v\<rparr>, g) = bring_inv (m, g)"
    for m :: MESContext and g v by (simp_all add: bring_inv_def)
  moreover have "kept m (m\<lparr>sched_version := v\<rparr>)" "kept m (m\<lparr>kiq_version := v\<rparr>)" for m :: MESContext and v
    unfolding kept_def by (intro allI; rename_tac x; case_tac x; simp)+
  ultimately show ?thesis
    using assms by (cases s) (auto simp: mes_read_sched_version_def on_fst_some good_def Let_def split: prod.splits)
qed

lemma lazy_good:
  assumes inv: "bring_inv s"
    and put: "\<And>b bus i. pipe_inv (put b bus i) = pipe_inv i" "\<And>b bus i. bus_of i = 0 \<Longrightarrow> keeps i (put b bus i)"
    and flag: "\<And>mes. bus_of (mes_pipe mes p) \<noteq> 0 \<Longrightarrow> \<forall>x \<in> N. flag x mes" "\<And>b bus i. bus_of (put b bus i) = bus"
  shows "good s N (mes_lazy_block dev os p sz bus_of put s d)"
proof (cases "bus_of (mes_pipe (fst s) p) \<noteq> 0")
  case True
  then show ?thesis using inv flag(1) by (auto simp: mes_lazy_block_def good_def)
next
  case False
  obtain mes gmc where s: "s = (mes, gmc)" by fastforce
  have "vram_ok gmc" using inv s by (simp add: bring_inv_def)
  from alloc_block_ok [OF this, of dev os sz d] obtain r blk gmc' d' where run: "mes_alloc_vram_block dev os gmc sz d = Some ((r, blk, gmc'), d')" "vram_ok gmc'"
    "r = kIOReturnSuccess \<longrightarrow> (\<exists>b bus. blk = Some (b, bus) \<and> bus \<noteq> 0)"
    by blast
  define bus where "bus = (case blk of None \<Rightarrow> 0 | Some (b, bus) \<Rightarrow> bus)"
  define inst where "inst = put (map_option fst blk) bus (mes_pipe mes p)"
  have "mes_lazy_block dev os p sz bus_of put s d = Some ((r, set_pipe p inst mes, gmc'), d')"
    using False run(1) s by (simp add: mes_lazy_block_def mes_alloc_into_def inst_def bus_def)
  moreover have "pipe_inv inst" "keeps (mes_pipe mes p) inst"
    using inv s put False by (simp_all add: inst_def bring_inv_def)
  moreover have "\<forall>x \<in> N. flag x (set_pipe p inst mes)" if "r = kIOReturnSuccess"
    using run(3) that flag(2) by (intro flag(1)) (auto simp: inst_def bus_def)
  ultimately show ?thesis using inv s run(2) by (simp add: good_pipe)
qed

lemma blocks_good:
  assumes "bring_inv s"
  shows "good s {Ctx p} (mes_lazy_block dev os p n sch_ctx_bus
      (\<lambda>b bus i. i\<lparr>sch_ctx_buf := b, sch_ctx_bus := bus\<rparr>) s d)"
    "good s {} (mes_lazy_block dev os p n status_fence_bus
      (\<lambda>b bus i. i\<lparr>status_fence_buf := b, status_fence_bus := bus\<rparr>) s d)"
    "good s {Res p} (mes_lazy_block dev os p n resource_1_bus
      (\<lambda>b bus i. i\<lparr>resource_1_buf := b, resource_1_bus := bus\<rparr>) s d)"
  by (rule lazy_good [OF assms]; simp add: pipe_inv_def ring_ok_def ring_size_def keeps_def)+

lemma resources_good:
  assumes clk: "clock_runs dev T" and inv: "bring_inv s" and inp: "input_typed inp"
  shows "good s {Ctx p} (mes_set_hw_resources dev os inp p s d)"
proof (cases "mes_set_register_bases (dev_ip dev) hw_resources_zero")
  case None
  then show ?thesis using inv by (auto simp: mes_set_hw_resources_def intro!: here_good)
next
  case (Some pkt)
  have len: "length (hw_resources_frame (hw_resources_message m i inp p pkt)) = 64" for m i
    by (simp add: hw_message_typed [OF Some inp])
  have "good s ({Ctx p} \<union> ({} \<union> {}))
     (and_then (mes_lazy_block dev os p kMES_SchCtxBytes sch_ctx_bus
         (\<lambda>b bus i. i\<lparr>sch_ctx_buf := b, sch_ctx_bus := bus\<rparr>) s d) (\<lambda>s d.
      and_then (mes_lazy_block dev os p kMES_StatusFenceBytes status_fence_bus
         (\<lambda>b bus i. i\<lparr>status_fence_buf := b, status_fence_bus := bus\<rparr>) s d) (\<lambda>s d.
      on_fst (mes_submit_pkt dev (fst s) p
         (Some (hw_resources_frame (hw_resources_message (fst s) (mes_pipe (fst s) p) inp p pkt)))
         hw_resources_status_dw 2000000 d) (snd s))))"
    by (intro good_then blocks_good submit_good [OF clk] inv len)
  then have "good s {Ctx p} (and_then (mes_lazy_block dev os p kMES_SchCtxBytes sch_ctx_bus
         (\<lambda>b bus i. i\<lparr>sch_ctx_buf := b, sch_ctx_bus := bus\<rparr>) s d) (\<lambda>s d.
      and_then (mes_lazy_block dev os p kMES_StatusFenceBytes status_fence_bus
         (\<lambda>b bus i. i\<lparr>status_fence_buf := b, status_fence_bus := bus\<rparr>) s d) (\<lambda>s d.
      on_fst (mes_submit_pkt dev (fst s) p
         (Some (hw_resources_frame (hw_resources_message (fst s) (mes_pipe (fst s) p) inp p pkt)))
         hw_resources_status_dw 2000000 d) (snd s))))"
    by (simp only: Un_empty_right)
  then show ?thesis
    using good_here [OF inv, of "{Ctx p}" kIOReturnBadArgument d] good_here [OF inv, of "{Ctx p}" kIOReturnNotReady d]
    unfolding mes_set_hw_resources_def Some by simp
qed

lemma resources_1_good:
  assumes clk: "clock_runs dev T" and inv: "bring_inv s"
  shows "good s {Res p} (mes_set_hw_resources_1 dev os p s d)"
proof -
  have len: "length (hw_resources_1_frame q) = 64" for q by simp
  have "good s ({Res p} \<union> {})
     (and_then (mes_lazy_block dev os p kMES_Resource1Bytes resource_1_bus
         (\<lambda>b bus i. i\<lparr>resource_1_buf := b, resource_1_bus := bus\<rparr>) s d) (\<lambda>s d.
      on_fst (mes_submit_pkt dev (fst s) p
         (Some (hw_resources_1_frame (hw_resources_1_zero\<lparr>
            hw1_header := scheduler_header SET_HW_RSRC_1, mes_kiq_unmap_timeout := 0xA,
            cleaner_shader_fence_mc_addr := resource_1_bus (mes_pipe (fst s) p)\<rparr>)))
         hw_resources_1_status_dw 2000000 d) (snd s)))"
    by (intro good_then blocks_good submit_good [OF clk] inv len)
  then have "good s {Res p}
     (and_then (mes_lazy_block dev os p kMES_Resource1Bytes resource_1_bus
         (\<lambda>b bus i. i\<lparr>resource_1_buf := b, resource_1_bus := bus\<rparr>) s d) (\<lambda>s d.
      on_fst (mes_submit_pkt dev (fst s) p
         (Some (hw_resources_1_frame (hw_resources_1_zero\<lparr>
            hw1_header := scheduler_header SET_HW_RSRC_1, mes_kiq_unmap_timeout := 0xA,
            cleaner_shader_fence_mc_addr := resource_1_bus (mes_pipe (fst s) p)\<rparr>)))
         hw_resources_1_status_dw 2000000 d) (snd s)))"
    by (simp only: Un_empty_right)
  then show ?thesis
    using good_here [OF inv, of "{Res p}" kIOReturnBadArgument d] good_here [OF inv, of "{Res p}" kIOReturnNotReady d]
    unfolding mes_set_hw_resources_1_def by simp
qed

section \<open>The whole bring-up\<close>

lemma pipe_cases: "p < kMaxMESPipes \<Longrightarrow> p = 0 \<or> p = 1"
proof -
  assume "p < kMaxMESPipes"
  then have "unat p < 2" by (simp add: kMaxMESPipes_def word_less_nat_alt)
  then have "unat p = unat (0 :: u32) \<or> unat p = unat (1 :: u32)" by auto
  then show "p = 0 \<or> p = 1" by (simp only: word_unat_eq_iff)
qed

lemma kiq_bringup_good:
  assumes clk: "clock_runs dev T" and inv: "bring_inv s"
  shows "good s {Inited 0, Inited 1, Enabled 0, Enabled 1, Uni, Ctx 1, Res 1} (mes_kiq_bringup dev os s d)"
proof -
  define tail where "tail = (\<lambda>s d.
     and_then (device_step s (mes_kiq_setting dev 3 1 0 d)) (\<lambda>s d.
     and_then (on_fst (mes_enable dev (fst s) True d) (snd s)) (\<lambda>s d.
     and_then (log_step dev 1 s d) (\<lambda>s d.
     and_then (on_fst (mes_queue_init dev (fst s) KIQ d) (snd s)) (\<lambda>s d.
     and_then (on_fst (Some (mes_read_sched_version dev (fst s) KIQ d)) (snd s)) (\<lambda>s d.
     and_then (mes_set_hw_resources dev os kiq_resources KIQ s d) (\<lambda>s d.
     and_then (mes_set_hw_resources_1 dev os KIQ s d) (\<lambda>s d.
     log_step dev 1 s d))))))))"
  have typed: "input_typed kiq_resources" by (simp add: input_typed_def kiq_resources_def)
  have "good s ({} \<union> ({Enabled 0, Enabled 1} \<union> ({} \<union> ({} \<union> ({} \<union> ({Ctx KIQ} \<union> ({Res KIQ} \<union> {}))))))) (tail s d)"
    if "bring_inv s" for s d
    unfolding tail_def
    by (intro good_then device_step_good log_step_good enable_good queue_init_good [OF clk] version_good
        resources_good [OF clk _ typed] resources_1_good [OF clk] that)
  then have tail: "good s {Enabled 0, Enabled 1, Ctx 1, Res 1} (tail s d)" if "bring_inv s" for s d
    using good_weaken [OF \<open>\<And>s d. bring_inv s \<Longrightarrow> good s _ (tail s d)\<close> [OF that], of "{Enabled 0, Enabled 1, Ctx 1, Res 1}" d]
    by (simp add: KIQ_def)
  have uni: "good s {Uni, Enabled 0, Enabled 1, Ctx 1, Res 1} (tail ((fst s)\<lparr>uni_mes_active := True\<rparr>, snd s) d)"
    if "bring_inv s" for s d
  proof -
    let ?s = "((fst s)\<lparr>uni_mes_active := True\<rparr>, snd s)"
    have "bring_inv ?s" using that by (simp add: bring_inv_def)
    then have "good ?s {Uni, Enabled 0, Enabled 1, Ctx 1, Res 1} (tail ?s d)" by (intro good_add tail) simp_all
    moreover have "kept (fst s) (fst ?s)"
      unfolding kept_def by (intro allI, rename_tac x, case_tac x) simp_all
    ultimately show ?thesis by (rule good_from)
  qed
  have "mes_kiq_bringup dev os s d = and_then (mes_storage_step dev os 0 s d) (\<lambda>s d.
      and_then (mes_storage_step dev os 1 s d) (\<lambda>s d. tail ((fst s)\<lparr>uni_mes_active := True\<rparr>, snd s) d))"
    by (simp add: mes_kiq_bringup_def tail_def)
  moreover have "good s ({Inited 0} \<union> ({Inited 1} \<union> {Uni, Enabled 0, Enabled 1, Ctx 1, Res 1})) \<dots>"
    by (intro good_then storage_step_good uni inv)
  ultimately have "good s ({Inited 0} \<union> ({Inited 1} \<union> {Uni, Enabled 0, Enabled 1, Ctx 1, Res 1})) (mes_kiq_bringup dev os s d)"
    by simp
  then show ?thesis by (rule good_weaken) auto
qed

lemma sched_bringup_good:
  assumes clk: "clock_runs dev T" and inv: "bring_inv s"
  shows "good s {Ctx 0} (mes_sched_bringup dev os s d)"
proof -
  have typed: "input_typed sched_resources" by (simp add: input_typed_def sched_resources_def init_doorbells_def)
  have one: "good s {} (if c then mes_set_hw_resources_1 dev os Sched s d else Some ((kIOReturnSuccess, s), d))"
    if "bring_inv s" for c s d
    using resources_1_good [OF clk that, THEN good_weaken, of "{}"] that by (simp add: good_here)
  have query: "good s {} (on_fst (mes_query_sched_status dev (fst s) p d) (snd s))" if "bring_inv s" for s p d
    unfolding mes_query_sched_status_def by (rule submit_good [OF clk that]) simp
  have "good s ({} \<union> ({} \<union> ({} \<union> ({} \<union> ({Ctx Sched} \<union> ({} \<union> ({} \<union> ({} \<union> {})))))))) (mes_sched_bringup dev os s d)"
    unfolding mes_sched_bringup_def
    by (intro good_then device_step_good log_step_good queue_init_good [OF clk] version_good one query
        resources_good [OF clk _ typed] inv)
  then show ?thesis by (simp add: Sched_def)
qed

lemma mes_init_full_good:
  assumes "clock_runs dev T" "bring_inv s"
  shows "good s ({Inited 0, Inited 1, Enabled 0, Enabled 1, Uni, Ctx 1, Res 1} \<union> {Ctx 0}) (mes_init_full dev os s d)"
proof -
  have "good s ({Inited 0, Inited 1, Enabled 0, Enabled 1, Uni, Ctx 1, Res 1} \<union> {Ctx 0})
      (and_then (mes_kiq_bringup dev os s d) (mes_sched_bringup dev os))"
    by (intro good_then kiq_bringup_good [OF assms(1)] sched_bringup_good [OF assms(1)] assms(2))
  then show ?thesis using assms(2) by (simp add: mes_init_full_def here_good del: Un_insert_right)
qed

text \<open>
  C33. While the clock runs, the bring-up of the scheduler returns, whatever the device and DriverKit
  answer; every failure keeps the invariants of the rings and of the VRAM allocator, and success leaves
  both pipes with valid rings, enabled and configured, so that queues can be mapped through the KIQ.
\<close>

theorem mes_init_full_outcome:
  assumes "clock_runs dev T" "\<forall>p. pipe_inv (mes_pipe mes p)" "vram_ok gmc"
  shows "\<exists>r mes' gmc' d'. mes_init_full dev os (mes, gmc) d = Some ((r, mes', gmc'), d') \<and>
    (\<forall>p. pipe_inv (mes_pipe mes' p)) \<and> vram_ok gmc' \<and>
    (r = kIOReturnSuccess \<longrightarrow> mes_ok mes' \<and> kiq_ready mes' \<and> mi_enabled (mes_pipe mes' 0) \<and> sch_ctx_bus (mes_pipe mes' 0) \<noteq> 0)"
proof -
  have inv: "bring_inv (mes, gmc)" using assms(2,3) by (simp add: bring_inv_def)
  let ?N = "{Inited 0, Inited 1, Enabled 0, Enabled 1, Uni, Ctx 1, Res 1} \<union> {Ctx 0}"
  have "good (mes, gmc) ?N (mes_init_full dev os (mes, gmc) d)" by (rule mes_init_full_good [OF assms(1) inv])
  then obtain r mes' gmc' d' where run: "mes_init_full dev os (mes, gmc) d = Some ((r, mes', gmc'), d')"
    "bring_inv (mes', gmc')" and ok: "r = kIOReturnSuccess \<Longrightarrow> \<forall>x \<in> ?N. flag x mes'"
    by (auto simp: good_def)
  have "ring_ok (mes_pipe mes' p)" if "r = kIOReturnSuccess" "p < kMaxMESPipes" for p
  proof -
    have "p = 0 \<or> p = 1" using that(2) by (rule pipe_cases)
    then have "mi_inited (mes_pipe mes' p)" using ok [OF that(1)] by auto
    then show ?thesis using run(2) by (auto simp: bring_inv_def pipe_inv_def)
  qed
  then show ?thesis
    using run ok by (auto simp: bring_inv_def mes_ok_def kiq_ready_def)
qed

lemma mes_init_full_outcome_witness:
  "\<exists>r mes gmc d. mes_init_full fw_dev null_os (mes_zero\<lparr>sched_ucode_loaded := True, kiq_ucode_loaded := True\<rparr>,
      gmc_zero\<lparr>vram_alloc := vram_init 0x100000 0x800000 None\<rparr>) ((\<lambda>_ _. 0), 0) = Some ((r, mes, gmc), d) \<and>
    (\<forall>p. pipe_inv (mes_pipe mes p)) \<and> vram_ok gmc"
proof -
  let ?mes = "mes_zero\<lparr>sched_ucode_loaded := True, kiq_ucode_loaded := True\<rparr>"
  let ?va = "vram_init 0x100000 0x800000 None"
  have inv: "vram_inv ?va []" by (rule vram_init_inv) simp_all
  have "vram_ok (gmc_zero\<lparr>vram_alloc := ?va\<rparr>)"
    unfolding vram_ok_def using inv by (auto simp: vram_arena_def vram_init_fields)
  moreover have "\<forall>p. pipe_inv (mes_pipe ?mes p)"
    by (simp add: mes_zero_def mes_instance_zero_def pipe_inv_def)
  ultimately show ?thesis using mes_init_full_outcome [OF fw_dev_ok(3)] by blast
qed

end
