(* ===== verification/Gfx_Regs.thy ===== *)
theory Gfx_Regs
  imports Mes_Bringup
begin

text \<open>
  \<^verbatim>\<open>dext/amdgpu/amdgpu_gfx_registers.h\<close> and the register part of \<^verbatim>\<open>amdgpu_gfx.h\<close>: the registers of the
  graphics configuration, their fields, the access to them, and the configuration they are decoded into.
\<close>

section \<open>Registers\<close>

datatype GFXRegister =
    GRBM_CNTL | GFX_GRBM_GFX_CNTL | GRBM_GFX_INDEX | SH_MEM_BASES
  | SH_MEM_CONFIG | SPI_GDBG_PER_VMID_CNTL | CC_RB_BACKEND_DISABLE | CC_GC_SHADER_ARRAY_CONFIG
  | GRBM_CC_GC_SA_UNIT_DISABLE | GC_USER_SHADER_ARRAY_CONFIG | GRBM_GC_USER_SA_UNIT_DISABLE | GC_USER_RB_BACKEND_DISABLE
  | GB_ADDR_CONFIG | SQ_PERFCOUNTER0_SELECT | SQ_PERFCOUNTER1_SELECT | SQ_PERFCOUNTER0_LO
  | SQ_PERFCOUNTER1_LO

text \<open>Offset and segment index.\<close>


primrec gfx_register :: "GFXRegister \<Rightarrow> u32 \<times> int" where
  "gfx_register GRBM_CNTL = (0x0DA0, 0)"
| "gfx_register GFX_GRBM_GFX_CNTL = (0x0900, 1)"
| "gfx_register GRBM_GFX_INDEX = (0x2200, 1)"
| "gfx_register SH_MEM_BASES = (0x09E3, 1)"
| "gfx_register SH_MEM_CONFIG = (0x09E4, 1)"
| "gfx_register SPI_GDBG_PER_VMID_CNTL = (0x1F72, 0)"
| "gfx_register CC_RB_BACKEND_DISABLE = (0x13DD, 0)"
| "gfx_register CC_GC_SHADER_ARRAY_CONFIG = (0x100F, 0)"
| "gfx_register GRBM_CC_GC_SA_UNIT_DISABLE = (0x0FE9, 0)"
| "gfx_register GC_USER_SHADER_ARRAY_CONFIG = (0x5B90, 1)"
| "gfx_register GRBM_GC_USER_SA_UNIT_DISABLE = (0x5B92, 1)"
| "gfx_register GC_USER_RB_BACKEND_DISABLE = (0x5B94, 1)"
| "gfx_register GB_ADDR_CONFIG = (0x13DE, 0)"
| "gfx_register SQ_PERFCOUNTER0_SELECT = (0x39C0, 1)"
| "gfx_register SQ_PERFCOUNTER1_SELECT = (0x39C1, 1)"
| "gfx_register SQ_PERFCOUNTER0_LO = (0x31C0, 1)"
| "gfx_register SQ_PERFCOUNTER1_LO = (0x31C2, 1)"

definition gfx_reg :: "'d DeviceContext \<Rightarrow> GFXRegister \<Rightarrow> u32" where
  "gfx_reg dev r = SOC15_REG_OFFSET_BIDX dev GC (snd (gfx_register r)) (fst (gfx_register r))"

definition gfx_rreg :: "'d DeviceContext \<Rightarrow> GFXRegister \<Rightarrow> 'd \<Rightarrow> u32 \<times> 'd" where
  "gfx_rreg dev r = RREG32 dev (gfx_reg dev r)"

definition gfx_wreg :: "'d DeviceContext \<Rightarrow> GFXRegister \<Rightarrow> u32 \<Rightarrow> 'd \<Rightarrow> 'd" where
  "gfx_wreg dev r = WREG32 dev (gfx_reg dev r)"

section \<open>Fields and defaults\<close>

definition GRBM_GFX_INDEX__INSTANCE_INDEX :: field where "GRBM_GFX_INDEX__INSTANCE_INDEX = (0x0000007F, 0x0)"
definition GRBM_GFX_INDEX__SA_INDEX :: field where "GRBM_GFX_INDEX__SA_INDEX = (0x00000300, 0x8)"
definition GRBM_GFX_INDEX__SE_INDEX :: field where "GRBM_GFX_INDEX__SE_INDEX = (0x000F0000, 0x10)"
definition GRBM_GFX_INDEX__SA_BROADCAST_WRITES :: field where "GRBM_GFX_INDEX__SA_BROADCAST_WRITES = (0x20000000, 0x1d)"
definition GRBM_GFX_INDEX__INSTANCE_BROADCAST_WRITES :: field where "GRBM_GFX_INDEX__INSTANCE_BROADCAST_WRITES = (0x40000000, 0x1e)"
definition GRBM_GFX_INDEX__SE_BROADCAST_WRITES :: field where "GRBM_GFX_INDEX__SE_BROADCAST_WRITES = (0x80000000, 0x1f)"
definition SH_MEM_BASES__PRIVATE_BASE :: field where "SH_MEM_BASES__PRIVATE_BASE = (0x0000FFFF, 0x0)"
definition SH_MEM_BASES__SHARED_BASE :: field where "SH_MEM_BASES__SHARED_BASE = (0xFFFF0000, 0x10)"
definition SPI_GDBG_PER_VMID_CNTL__STALL_VMID :: field where "SPI_GDBG_PER_VMID_CNTL__STALL_VMID = (0x00000001, 0x0)"
definition SPI_GDBG_PER_VMID_CNTL__TRAP_EN :: field where "SPI_GDBG_PER_VMID_CNTL__TRAP_EN = (0x00000008, 0x3)"
definition GB_ADDR_CONFIG__NUM_PIPES :: field where "GB_ADDR_CONFIG__NUM_PIPES = (0x00000007, 0x0)"
definition GB_ADDR_CONFIG__PIPE_INTERLEAVE_SIZE :: field where "GB_ADDR_CONFIG__PIPE_INTERLEAVE_SIZE = (0x00000038, 0x3)"
definition GB_ADDR_CONFIG__MAX_COMPRESSED_FRAGS :: field where "GB_ADDR_CONFIG__MAX_COMPRESSED_FRAGS = (0x000000C0, 0x6)"
definition GB_ADDR_CONFIG__NUM_PKRS :: field where "GB_ADDR_CONFIG__NUM_PKRS = (0x00000700, 0x8)"
definition GB_ADDR_CONFIG__NUM_SHADER_ENGINES :: field where "GB_ADDR_CONFIG__NUM_SHADER_ENGINES = (0x00780000, 0x13)"
definition GB_ADDR_CONFIG__NUM_RB_PER_SE :: field where "GB_ADDR_CONFIG__NUM_RB_PER_SE = (0x0C000000, 0x1a)"
definition CC_GC_SHADER_ARRAY_CONFIG__INACTIVE_WGPS :: field where "CC_GC_SHADER_ARRAY_CONFIG__INACTIVE_WGPS = (0xFFFF0000, 0x10)"
definition GRBM_CC_GC_SA_UNIT_DISABLE__SA_DISABLE :: field where "GRBM_CC_GC_SA_UNIT_DISABLE__SA_DISABLE = (0x00FFFF00, 0x8)"
definition CC_RB_BACKEND_DISABLE__BACKEND_DISABLE :: field where "CC_RB_BACKEND_DISABLE__BACKEND_DISABLE = (0x000000F0, 0x4)"
definition GC_USER_RB_BACKEND_DISABLE__BACKEND_DISABLE :: field where "GC_USER_RB_BACKEND_DISABLE__BACKEND_DISABLE = (0x000000F0, 0x4)"
definition GRBM_GC_USER_SA_UNIT_DISABLE__SA_DISABLE :: field where "GRBM_GC_USER_SA_UNIT_DISABLE__SA_DISABLE = (0x00FFFF00, 0x8)"
definition GC_USER_SHADER_ARRAY_CONFIG__INACTIVE_WGPS :: field where "GC_USER_SHADER_ARRAY_CONFIG__INACTIVE_WGPS = (0xFFFF0000, 0x10)"
definition CP_GFX_HQD_CNTL__RB_BUFSZ :: field where "CP_GFX_HQD_CNTL__RB_BUFSZ = (0x0000003F, 0x0)"
definition CP_GFX_HQD_CNTL__RB_BLKSZ :: field where "CP_GFX_HQD_CNTL__RB_BLKSZ = (0x00003F00, 0x8)"
definition CP_GFX_HQD_CNTL__TMZ_MATCH :: field where "CP_GFX_HQD_CNTL__TMZ_MATCH = (0x00000080, 0x7)"
definition CP_GFX_HQD_CNTL__RB_NON_PRIV :: field where "CP_GFX_HQD_CNTL__RB_NON_PRIV = (0x00008000, 0xf)"
definition CP_GFX_MQD_CONTROL__VMID :: field where "CP_GFX_MQD_CONTROL__VMID = (0x0000000F, 0x0)"
definition CP_GFX_MQD_CONTROL__PRIV_STATE :: field where "CP_GFX_MQD_CONTROL__PRIV_STATE = (0x00000100, 0x8)"
definition CP_GFX_MQD_CONTROL__CACHE_POLICY :: field where "CP_GFX_MQD_CONTROL__CACHE_POLICY = (0x03000000, 0x18)"
definition CP_GFX_HQD_VMID__VMID :: field where "CP_GFX_HQD_VMID__VMID = (0x0000000F, 0x0)"
definition CP_GFX_HQD_QUEUE_PRIORITY__PRIORITY_LEVEL :: field where "CP_GFX_HQD_QUEUE_PRIORITY__PRIORITY_LEVEL = (0x0000000F, 0x0)"
definition CP_GFX_HQD_QUANTUM__QUANTUM_EN :: field where "CP_GFX_HQD_QUANTUM__QUANTUM_EN = (0x00000001, 0x0)"
definition CP_HQD_PQ_DOORBELL_CONTROL__DOORBELL_SOURCE :: field where "CP_HQD_PQ_DOORBELL_CONTROL__DOORBELL_SOURCE = (0x10000000, 0x1c)"
definition CP_HQD_PQ_DOORBELL_CONTROL__DOORBELL_HIT :: field where "CP_HQD_PQ_DOORBELL_CONTROL__DOORBELL_HIT = (0x80000000, 0x1f)"
definition CP_HQD_IB_CONTROL__MIN_IB_AVAIL_SIZE :: field where "CP_HQD_IB_CONTROL__MIN_IB_AVAIL_SIZE = (0x00300000, 0x14)"
definition CP_HQD_PQ_CONTROL__TMZ :: field where "CP_HQD_PQ_CONTROL__TMZ = (0x00400000, 0x16)"
definition CP_HQD_EOP_CONTROL__EOP_SIZE :: field where "CP_HQD_EOP_CONTROL__EOP_SIZE = (0x0000003F, 0x0)"

definition kGRBM_CNTL_READ_TIMEOUT_MASK :: u32 where "kGRBM_CNTL_READ_TIMEOUT_MASK = 0x00000FFF"
definition kGRBM_CNTL_READ_TIMEOUT_VALUE :: u32 where "kGRBM_CNTL_READ_TIMEOUT_VALUE = 0x000000FF"

definition kDefaultSHMemConfig :: u32 where
  "kDefaultSHMemConfig = push_bit 0x0 0x0 OR push_bit 0x2 0x3 OR push_bit 0xE 0x3"

definition kGFX_MQDPageBytes :: u32 where "kGFX_MQDPageBytes = 4096"

definition kRegCP_GFX_HQD_CNTL_DEFAULT :: u32 where "kRegCP_GFX_HQD_CNTL_DEFAULT = 0x00A00000"
definition kRegCP_GFX_MQD_CONTROL_DEFAULT :: u32 where "kRegCP_GFX_MQD_CONTROL_DEFAULT = 0x00000100"
definition kRegCP_GFX_HQD_QUANTUM_DEFAULT :: u32 where "kRegCP_GFX_HQD_QUANTUM_DEFAULT = 0x00000A01"
definition kRegCP_GFX_HQD_QUEUE_PRIORITY_DEFAULT :: u32 where "kRegCP_GFX_HQD_QUEUE_PRIORITY_DEFAULT = 0"
definition kRegCP_GFX_HQD_RPTR_DEFAULT :: u32 where "kRegCP_GFX_HQD_RPTR_DEFAULT = 0"
definition kRegCP_HQD_PQ_DOORBELL_CONTROL_DEFAULT :: u32 where "kRegCP_HQD_PQ_DOORBELL_CONTROL_DEFAULT = 0"
definition kRegCP_HQD_IB_CONTROL_DEFAULT :: u32 where "kRegCP_HQD_IB_CONTROL_DEFAULT = 0x00300000"
definition kRegCP_HQD_PQ_RPTR_DEFAULT :: u32 where "kRegCP_HQD_PQ_RPTR_DEFAULT = 0"

section \<open>The configuration\<close>

text \<open>
  Fields that discovery's \<open>GCDiscoveryInfo\<close> has under the same name carry the prefix \<open>cfg_\<close>. The array
  \<open>active_cu_bitmap[4][2]\<close> is a function of its two indices, shader engine and shader array.
\<close>

record GFXConfig =
  cfg_inited :: bool
  gb_addr_config_raw :: u32
  num_pipes :: u32
  num_shader_engines :: u32
  num_rb_per_se :: u32
  num_pkrs :: u32
  pipe_interleave_size :: u32
  max_compressed_frags :: u32
  cfg_max_shader_engines :: u32
  cfg_max_sh_per_se :: u32
  cfg_max_backends_per_se :: u32
  cfg_max_cu_per_sh :: u32
  max_hw_contexts :: u32
  cfg_wave_front_size :: u32
  cfg_max_waves_per_simd :: u32
  cfg_max_scratch_slots_per_cu :: u32
  max_scratch_waves_per_cu :: u32
  lds_size_bytes :: u32
  active_rb_bitmap :: u32
  num_rbs :: u32
  active_cu_bitmap :: "nat \<Rightarrow> nat \<Rightarrow> u32"
  num_active_cus :: u32

definition gfx_config_zero :: GFXConfig where
  "gfx_config_zero = \<lparr>cfg_inited = False, gb_addr_config_raw = 0, num_pipes = 0, num_shader_engines = 0,
     num_rb_per_se = 0, num_pkrs = 0, pipe_interleave_size = 0, max_compressed_frags = 0,
     cfg_max_shader_engines = 0, cfg_max_sh_per_se = 0, cfg_max_backends_per_se = 0, cfg_max_cu_per_sh = 0,
     max_hw_contexts = 0, cfg_wave_front_size = 0, cfg_max_waves_per_simd = 0, cfg_max_scratch_slots_per_cu = 0,
     max_scratch_waves_per_cu = 0, lds_size_bytes = 0, active_rb_bitmap = 0, num_rbs = 0,
     active_cu_bitmap = (\<lambda>_ _. 0), num_active_cus = 0\<rparr>"

text \<open>What the observer reads; \<open>spec_active_cu_bitmap\<close> is the array of eight words.\<close>

record GFXSpecSnapshot =
  spec_header :: u32
  spec_max_shader_engines :: u32
  spec_max_sh_per_se :: u32
  spec_max_backends_per_se :: u32
  spec_max_cu_per_sh :: u32
  spec_wave_front_size :: u32
  spec_max_waves_per_simd :: u32
  spec_max_scratch_slots_per_cu :: u32
  spec_lds_size_bytes :: u32
  spec_num_active_cus :: u32
  spec_active_cu_bitmap :: "u32 list"
  sa_active_bitmap :: u32
  sa_disable_cc :: u32
  sa_disable_user :: u32
  rb_active_bitmap :: u32
  spec_num_rbs :: u32
  spec_sh_mem_config :: u32
  spec_sh_mem_bases :: u32
  cc_shader_array_config :: u32
  gc_user_shader_array_config :: u32
  spec_grbm_gfx_cntl :: u32

definition gfx_spec_zero :: GFXSpecSnapshot where
  "gfx_spec_zero = \<lparr>spec_header = 0, spec_max_shader_engines = 0, spec_max_sh_per_se = 0,
     spec_max_backends_per_se = 0, spec_max_cu_per_sh = 0, spec_wave_front_size = 0, spec_max_waves_per_simd = 0,
     spec_max_scratch_slots_per_cu = 0, spec_lds_size_bytes = 0, spec_num_active_cus = 0,
     spec_active_cu_bitmap = replicate 8 0, sa_active_bitmap = 0, sa_disable_cc = 0, sa_disable_user = 0,
     rb_active_bitmap = 0, spec_num_rbs = 0, spec_sh_mem_config = 0, spec_sh_mem_bases = 0,
     cc_shader_array_config = 0, gc_user_shader_array_config = 0, spec_grbm_gfx_cntl = 0\<rparr>"

text \<open>\<^verbatim>\<open>struct GFXMqdProps\<close>\<close>

record GFXMqdProps =
  mp_mqd_gpu_addr :: u64
  mp_hqd_base_gpu_addr :: u64
  mp_rptr_gpu_addr :: u64
  mp_wptr_gpu_addr :: u64
  mp_eop_gpu_addr :: u64
  mp_queue_size_bytes :: u32
  mp_eop_size_bytes :: u32
  mp_doorbell_index :: u32
  mp_use_doorbell :: bool
  mp_kernel_queue :: bool

end
