(* ===== verification/Gfx.thy ===== *)
theory Gfx
  imports Gfx_Regs
begin

text \<open>
  \<^verbatim>\<open>dext/amdgpu/gfx_v12_0.cpp\<close> and \<^verbatim>\<open>amdgpu_gfx_mqd.h\<close>: which render backends and compute units the
  harvest registers leave active, the per-VMID settings, the observer's view of them, and the descriptors
  of graphics and compute queues. Log lines are left out. A shift by 32 or more, undefined in C++, gives 0.
\<close>

section \<open>Bits\<close>

definition gfx_create_bitmask :: "u32 \<Rightarrow> u32" where
  "gfx_create_bitmask bit_width = (if 32 \<le> bit_width then 0xFFFFFFFF else push_bit (unat bit_width) 1 - 1)"

definition gfx_hweight32 :: "u32 \<Rightarrow> u32" where
  "gfx_hweight32 v =
     (let v = v - (drop_bit 1 v AND 0x55555555);
          v = (v AND 0x33333333) + (drop_bit 2 v AND 0x33333333);
          v = (v + drop_bit 4 v) AND 0x0F0F0F0F
      in drop_bit 24 (v * 0x01010101))"

section \<open>Selection\<close>

definition gfx_select_se_sh :: "'d DeviceContext \<Rightarrow> u32 \<Rightarrow> u32 \<Rightarrow> u32 \<Rightarrow> 'd \<Rightarrow> 'd" where
  "gfx_select_se_sh dev se_num sh_num inst d =
     (let v = (if inst = 0xFFFFFFFF then REG_SET_FIELD 0 GRBM_GFX_INDEX__INSTANCE_BROADCAST_WRITES 1
               else REG_SET_FIELD 0 GRBM_GFX_INDEX__INSTANCE_INDEX inst);
          v = (if se_num = 0xFFFFFFFF then REG_SET_FIELD v GRBM_GFX_INDEX__SE_BROADCAST_WRITES 1
               else REG_SET_FIELD v GRBM_GFX_INDEX__SE_INDEX se_num);
          v = (if sh_num = 0xFFFFFFFF then REG_SET_FIELD v GRBM_GFX_INDEX__SA_BROADCAST_WRITES 1
               else REG_SET_FIELD v GRBM_GFX_INDEX__SA_INDEX sh_num)
      in gfx_wreg dev GRBM_GFX_INDEX v d)"

section \<open>Harvest masks\<close>

definition gfx_get_sa_active_bitmap :: "'d DeviceContext \<Rightarrow> GFXConfig \<Rightarrow> 'd \<Rightarrow> u32 \<times> 'd" where
  "gfx_get_sa_active_bitmap dev cfg d =
     (let (v, d) = gfx_rreg dev GRBM_CC_GC_SA_UNIT_DISABLE d;
          cc_dis = REG_GET_FIELD v GRBM_CC_GC_SA_UNIT_DISABLE__SA_DISABLE;
          (v, d) = gfx_rreg dev GRBM_GC_USER_SA_UNIT_DISABLE d;
          user_dis = REG_GET_FIELD v GRBM_GC_USER_SA_UNIT_DISABLE__SA_DISABLE;
          sa_mask = gfx_create_bitmask (cfg_max_sh_per_se cfg * cfg_max_shader_engines cfg)
      in (sa_mask AND NOT (cc_dis OR user_dis), d))"

definition gfx_get_rb_active_bitmap :: "'d DeviceContext \<Rightarrow> GFXConfig \<Rightarrow> 'd \<Rightarrow> u32 \<times> 'd" where
  "gfx_get_rb_active_bitmap dev cfg d =
     (let (v, d) = gfx_rreg dev CC_RB_BACKEND_DISABLE d;
          cc_dis = REG_GET_FIELD v CC_RB_BACKEND_DISABLE__BACKEND_DISABLE;
          (v, d) = gfx_rreg dev GC_USER_RB_BACKEND_DISABLE d;
          user_dis = REG_GET_FIELD v GC_USER_RB_BACKEND_DISABLE__BACKEND_DISABLE;
          rb_mask = gfx_create_bitmask (cfg_max_backends_per_se cfg * cfg_max_shader_engines cfg)
      in (rb_mask AND NOT (cc_dis OR user_dis), d))"

definition gfx_get_wgp_active_bitmap_per_sh :: "'d DeviceContext \<Rightarrow> GFXConfig \<Rightarrow> 'd \<Rightarrow> u32 \<times> 'd" where
  "gfx_get_wgp_active_bitmap_per_sh dev cfg d =
     (let (v, d) = gfx_rreg dev CC_GC_SHADER_ARRAY_CONFIG d;
          (w, d) = gfx_rreg dev GC_USER_SHADER_ARRAY_CONFIG d;
          dat = REG_GET_FIELD (v OR w) CC_GC_SHADER_ARRAY_CONFIG__INACTIVE_WGPS;
          wgp_bitmask = gfx_create_bitmask (drop_bit 1 (cfg_max_cu_per_sh cfg))
      in (NOT dat AND wgp_bitmask, d))"

text \<open>Every bit of the 16 workgroup processors stands for two adjacent compute units.\<close>

definition expand_wgps :: "u32 \<Rightarrow> u32" where
  "expand_wgps wgp_bitmap =
     foldl (\<lambda>cu i. if wgp_bitmap AND push_bit i 1 \<noteq> 0 then cu OR push_bit (2 * i) 3 else cu) 0 [0..<16]"

definition gfx_get_cu_active_bitmap_per_sh :: "'d DeviceContext \<Rightarrow> GFXConfig \<Rightarrow> 'd \<Rightarrow> u32 \<times> 'd" where
  "gfx_get_cu_active_bitmap_per_sh dev cfg d =
     (let (wgp_bitmap, d) = gfx_get_wgp_active_bitmap_per_sh dev cfg d in (expand_wgps wgp_bitmap, d))"

section \<open>Configuration\<close>

definition gfx_get_gb_addr_config :: "'d DeviceContext \<Rightarrow> GFXConfig \<Rightarrow> 'd \<Rightarrow> (kern_return \<times> GFXConfig) \<times> 'd" where
  "gfx_get_gb_addr_config dev cfg d =
     (if \<not> ip_isResolved (dev_ip dev) GC then ((kIOReturnNotReady, cfg), d)
      else let (gb, d) = gfx_rreg dev GB_ADDR_CONFIG d
        in if gb = 0 \<or> gb = 0xFFFFFFFF then ((kIOReturnNotReady, cfg), d)
        else ((kIOReturnSuccess, cfg\<lparr>gb_addr_config_raw := gb,
               num_pipes := push_bit (unat (REG_GET_FIELD gb GB_ADDR_CONFIG__NUM_PIPES)) 1,
               num_shader_engines := push_bit (unat (REG_GET_FIELD gb GB_ADDR_CONFIG__NUM_SHADER_ENGINES)) 1,
               num_rb_per_se := push_bit (unat (REG_GET_FIELD gb GB_ADDR_CONFIG__NUM_RB_PER_SE)) 1,
               num_pkrs := push_bit (unat (REG_GET_FIELD gb GB_ADDR_CONFIG__NUM_PKRS)) 1,
               pipe_interleave_size := push_bit (8 + unat (REG_GET_FIELD gb GB_ADDR_CONFIG__PIPE_INTERLEAVE_SIZE)) 1,
               max_compressed_frags := push_bit (unat (REG_GET_FIELD gb GB_ADDR_CONFIG__MAX_COMPRESSED_FRAGS)) 1\<rparr>), d))"

definition rb_bitmap :: "u32 \<Rightarrow> u32 \<Rightarrow> u32 \<Rightarrow> u32 \<Rightarrow> u32" where
  "rb_bitmap active_sa max_sa width per_sa =
     foldl (\<lambda>b i. if active_sa AND push_bit i 1 \<noteq> 0 then b OR push_bit (i * unat width) per_sa else b)
       0 [0..<unat max_sa]"

definition gfx_setup_rb :: "'d DeviceContext \<Rightarrow> GFXConfig \<Rightarrow> 'd \<Rightarrow> (kern_return \<times> GFXConfig) \<times> 'd" where
  "gfx_setup_rb dev cfg d =
     (if \<not> ip_isResolved (dev_ip dev) GC then ((kIOReturnNotReady, cfg), d)
      else if cfg_max_shader_engines cfg = 0 \<or> cfg_max_sh_per_se cfg = 0 \<or> cfg_max_backends_per_se cfg = 0
      then ((kIOReturnNotReady, cfg), d)
      else let d = gfx_select_se_sh dev 0xFFFFFFFF 0xFFFFFFFF 0xFFFFFFFF d;
               (active_sa, d) = gfx_get_sa_active_bitmap dev cfg d;
               (global_active_rb, d) = gfx_get_rb_active_bitmap dev cfg d;
               max_sa = cfg_max_shader_engines cfg * cfg_max_sh_per_se cfg;
               width = cfg_max_backends_per_se cfg div cfg_max_sh_per_se cfg;
               active = rb_bitmap active_sa max_sa width (gfx_create_bitmask width) AND global_active_rb
        in ((kIOReturnSuccess, cfg\<lparr>active_rb_bitmap := active, num_rbs := gfx_hweight32 active\<rparr>), d))"

text \<open>\<^verbatim>\<open>for (k...) { if (bitmap & mask) num_active_cus++; mask <<= 1; }\<close>\<close>

primrec count_cus :: "nat \<Rightarrow> u32 \<Rightarrow> u32 \<Rightarrow> u32 \<Rightarrow> u32" where
  "count_cus 0 bitmap msk n = n"
| "count_cus (Suc k) bitmap msk n =
     count_cus k bitmap (push_bit 1 msk) (if bitmap AND msk \<noteq> 0 then n + 1 else n)"

definition gfx_cu_step :: "'d DeviceContext \<Rightarrow> nat \<times> nat \<Rightarrow> GFXConfig \<times> 'd \<Rightarrow> GFXConfig \<times> 'd" where
  "gfx_cu_step dev ij s =
     (let (i, j) = ij; (cfg, d) = s; sa_idx = i * unat (cfg_max_sh_per_se cfg) + j;
          (sa, d) = gfx_get_sa_active_bitmap dev cfg d
      in if drop_bit sa_idx sa AND 1 = 0 then (cfg, d)
         else let d = gfx_select_se_sh dev (word_of_nat i) (word_of_nat j) 0xFFFFFFFF d;
                  (bitmap, d) = gfx_get_cu_active_bitmap_per_sh dev cfg d;
                  cfg = (if i < 4 \<and> j < 2
                         then cfg\<lparr>active_cu_bitmap := (active_cu_bitmap cfg)(i mod 4 :=
                                (active_cu_bitmap cfg (i mod 4))(j + i div 4 * 2 := bitmap))\<rparr>
                         else cfg)
           in (cfg\<lparr>num_active_cus := count_cus (unat (cfg_max_cu_per_sh cfg)) bitmap 1 (num_active_cus cfg)\<rparr>, d))"

definition gfx_get_cu_info :: "'d DeviceContext \<Rightarrow> GFXConfig \<Rightarrow> 'd \<Rightarrow> (kern_return \<times> GFXConfig) \<times> 'd" where
  "gfx_get_cu_info dev cfg d =
     (if \<not> ip_isResolved (dev_ip dev) GC then ((kIOReturnNotReady, cfg), d)
      else let cfg = cfg\<lparr>num_active_cus := 0, active_cu_bitmap := (\<lambda>_ _. 0)\<rparr>;
               (cfg, d) = fold (gfx_cu_step dev)
                 (List.product [0..<unat (cfg_max_shader_engines cfg)] [0..<unat (cfg_max_sh_per_se cfg)]) (cfg, d)
        in ((kIOReturnSuccess, cfg), gfx_select_se_sh dev 0xFFFFFFFF 0xFFFFFFFF 0xFFFFFFFF d))"

definition gfx_init_compute_vmid :: "'d DeviceContext \<Rightarrow> 'd \<Rightarrow> kern_return \<times> 'd" where
  "gfx_init_compute_vmid dev d =
     (if \<not> ip_isResolved (dev_ip dev) GC then (kIOReturnNotReady, d)
      else let sh_mem_bases = push_bit (snd SH_MEM_BASES__SHARED_BASE) 0x1 OR 0x2;
               d = fold (\<lambda>i d.
                 let d = gfx_wreg dev GFX_GRBM_GFX_CNTL (REG_SET_FIELD 0 GRBM_GFX_CNTL__VMID (word_of_nat i)) d;
                     d = gfx_wreg dev SH_MEM_CONFIG kDefaultSHMemConfig d;
                     d = gfx_wreg dev SH_MEM_BASES sh_mem_bases d;
                     (v, d) = gfx_rreg dev SPI_GDBG_PER_VMID_CNTL d
                 in gfx_wreg dev SPI_GDBG_PER_VMID_CNTL (REG_SET_FIELD v SPI_GDBG_PER_VMID_CNTL__TRAP_EN 1) d)
                 [8..<16] d
        in (kIOReturnSuccess, gfx_wreg dev GFX_GRBM_GFX_CNTL 0 d))"

text \<open>The geometry of discovery that the code supports, and what it takes from it.\<close>

definition gfx_geometry_ok :: "GCDiscoveryInfo \<Rightarrow> bool" where
  "gfx_geometry_ok physical \<longleftrightarrow>
     \<not> (\<not> gc_valid physical \<or> 4 < max_shader_engines physical \<or> 2 < max_sh_per_se physical \<or>
        32 < max_cu_per_sh physical \<or> max_cu_per_sh physical mod 2 \<noteq> 0 \<or>
        32 < max_shader_engines physical * max_backends_per_se physical)"

definition gfx_take_geometry :: "GCDiscoveryInfo \<Rightarrow> GFXConfig \<Rightarrow> GFXConfig" where
  "gfx_take_geometry physical cfg =
     (let waveLimit = max_waves_per_simd physical * 2
      in cfg\<lparr>cfg_max_shader_engines := max_shader_engines physical, cfg_max_sh_per_se := max_sh_per_se physical,
           cfg_max_backends_per_se := max_backends_per_se physical, cfg_max_cu_per_sh := max_cu_per_sh physical,
           max_hw_contexts := 8, cfg_wave_front_size := wave_front_size physical,
           cfg_max_waves_per_simd := max_waves_per_simd physical,
           cfg_max_scratch_slots_per_cu := max_scratch_slots_per_cu physical,
           max_scratch_waves_per_cu := (if max_scratch_slots_per_cu physical < waveLimit
             then max_scratch_slots_per_cu physical else waveLimit),
           lds_size_bytes := lds_size_kib physical * 1024\<rparr>)"

definition gfx_program_vmids :: "'d DeviceContext \<Rightarrow> 'd \<Rightarrow> 'd" where
  "gfx_program_vmids dev d =
     (let d = fold (\<lambda>i d.
            let d = gfx_wreg dev GFX_GRBM_GFX_CNTL (REG_SET_FIELD 0 GRBM_GFX_CNTL__VMID (word_of_nat i)) d;
                d = gfx_wreg dev SH_MEM_CONFIG kDefaultSHMemConfig d
            in gfx_wreg dev SH_MEM_BASES
                 (set_fields 0 [(SH_MEM_BASES__PRIVATE_BASE, 0x2), (SH_MEM_BASES__SHARED_BASE, 0x1)]) d) [0..<8] d
      in gfx_wreg dev GFX_GRBM_GFX_CNTL 0 d)"

definition gfx_constants_init :: "'d DeviceContext \<Rightarrow> GFXConfig \<Rightarrow> 'd \<Rightarrow> (kern_return \<times> GFXConfig) \<times> 'd" where
  "gfx_constants_init dev cfg d =
     (let physical = ip_gfx (dev_ip dev)
      in if \<not> ip_isResolved (dev_ip dev) GC then ((kIOReturnNotReady, cfg), d)
      else if \<not> gfx_geometry_ok physical then ((kIOReturnUnsupported, cfg), d)
      else let cfg = gfx_take_geometry physical cfg;
               (v, d) = gfx_rreg dev GRBM_CNTL d;
               d = gfx_wreg dev GRBM_CNTL ((v AND NOT kGRBM_CNTL_READ_TIMEOUT_MASK) OR kGRBM_CNTL_READ_TIMEOUT_VALUE) d;
               ((_, cfg), d) = gfx_get_gb_addr_config dev cfg d;
               ((_, cfg), d) = gfx_setup_rb dev cfg d;
               ((_, cfg), d) = gfx_get_cu_info dev cfg d;
               d = gfx_program_vmids dev d;
               (_, d) = gfx_init_compute_vmid dev d
        in ((kIOReturnSuccess, cfg\<lparr>cfg_inited := True\<rparr>), d))"

section \<open>The observer\<close>

definition gfx_get_spec :: "'d DeviceContext \<Rightarrow> GFXConfig \<Rightarrow> 'd \<Rightarrow> (kern_return \<times> GFXSpecSnapshot) \<times> 'd" where
  "gfx_get_spec dev cfg d =
     (if \<not> ip_isResolved (dev_ip dev) GC then ((kIOReturnNotReady, gfx_spec_zero), d)
      else let physical = ip_gfx (dev_ip dev);
               (v, d) = gfx_rreg dev GRBM_CC_GC_SA_UNIT_DISABLE d;
               cc_dis = REG_GET_FIELD v GRBM_CC_GC_SA_UNIT_DISABLE__SA_DISABLE;
               (v, d) = gfx_rreg dev GRBM_GC_USER_SA_UNIT_DISABLE d;
               user_dis = REG_GET_FIELD v GRBM_GC_USER_SA_UNIT_DISABLE__SA_DISABLE;
               sa_mask = cfg_max_sh_per_se cfg * cfg_max_shader_engines cfg;
               (cc, d) = gfx_rreg dev CC_GC_SHADER_ARRAY_CONFIG d;
               (user, d) = gfx_rreg dev GC_USER_SHADER_ARRAY_CONFIG d;
               (mem_config, d) = gfx_rreg dev SH_MEM_CONFIG d;
               (mem_bases, d) = gfx_rreg dev SH_MEM_BASES d;
               (cntl, d) = gfx_rreg dev GFX_GRBM_GFX_CNTL d
        in ((kIOReturnSuccess, gfx_spec_zero\<lparr>spec_header := 1,
               spec_max_shader_engines := max_shader_engines physical, spec_max_sh_per_se := max_sh_per_se physical,
               spec_max_backends_per_se := max_backends_per_se physical, spec_max_cu_per_sh := max_cu_per_sh physical,
               spec_wave_front_size := wave_front_size physical,
               spec_max_waves_per_simd := max_waves_per_simd physical,
               spec_max_scratch_slots_per_cu := max_scratch_slots_per_cu physical,
               spec_lds_size_bytes := lds_size_kib physical * 1024, spec_num_active_cus := num_active_cus cfg,
               spec_active_cu_bitmap := map (\<lambda>(i, j). active_cu_bitmap cfg i j) (List.product [0..<4] [0..<2]),
               sa_disable_cc := cc_dis, sa_disable_user := user_dis,
               sa_active_bitmap := gfx_create_bitmask sa_mask AND NOT (cc_dis OR user_dis),
               rb_active_bitmap := active_rb_bitmap cfg, spec_num_rbs := num_rbs cfg,
               cc_shader_array_config := cc, gc_user_shader_array_config := user,
               spec_sh_mem_config := mem_config, spec_sh_mem_bases := mem_bases, spec_grbm_gfx_cntl := cntl\<rparr>), d))"

text \<open>The busy counter of this chip cannot be read: both results are zero.\<close>

definition gfx_read_sq_busy :: "u64 \<times> u64" where
  "gfx_read_sq_busy = (0, 0)"

section \<open>Queue descriptors\<close>

definition order_base_2_local :: "u32 \<Rightarrow> u32" where
  "order_base_2_local x = word_of_nat (order_from 0 x)"

definition lo32 :: "u64 \<Rightarrow> u32" where "lo32 a = ucast a"
definition hi32 :: "u64 \<Rightarrow> u32" where "hi32 a = ucast (drop_bit 32 a)"

definition compute_eop_control :: "GFXMqdProps \<Rightarrow> u32" where
  "compute_eop_control p =
     (if 0 < mp_eop_size_bytes p
      then REG_SET_FIELD kCP_HQD_EOP_CONTROL_DEFAULT CP_HQD_EOP_CONTROL__EOP_SIZE
             (order_base_2_local (mp_eop_size_bytes p div 4) - 1)
      else kCP_HQD_EOP_CONTROL_DEFAULT)"

definition compute_db_control :: "GFXMqdProps \<Rightarrow> u32" where
  "compute_db_control p =
     set_fields kRegCP_HQD_PQ_DOORBELL_CONTROL_DEFAULT
       (if mp_use_doorbell p
        then [(CP_HQD_PQ_DOORBELL_CONTROL__DOORBELL_OFFSET, mp_doorbell_index p),
              (CP_HQD_PQ_DOORBELL_CONTROL__DOORBELL_EN, 1), (CP_HQD_PQ_DOORBELL_CONTROL__DOORBELL_SOURCE, 0),
              (CP_HQD_PQ_DOORBELL_CONTROL__DOORBELL_HIT, 0)]
        else [(CP_HQD_PQ_DOORBELL_CONTROL__DOORBELL_EN, 0)])"

definition compute_pq_control :: "GFXMqdProps \<Rightarrow> u32" where
  "compute_pq_control p =
     (let v = set_fields kCP_HQD_PQ_CONTROL_DEFAULT
            [(CP_HQD_PQ_CONTROL__QUEUE_SIZE, order_base_2_local (mp_queue_size_bytes p div 4) - 1),
             (CP_HQD_PQ_CONTROL__RPTR_BLOCK_SIZE, order_base_2_local (4096 div 4) - 1),
             (CP_HQD_PQ_CONTROL__UNORD_DISPATCH, 1), (CP_HQD_PQ_CONTROL__TUNNEL_DISPATCH, 0)]
      in if mp_kernel_queue p
         then set_fields v [(CP_HQD_PQ_CONTROL__PRIV_STATE, 1), (CP_HQD_PQ_CONTROL__KMD_QUEUE, 1)] else v)"

text \<open>The writes in the order of the source; \<^verbatim>\<open>namespace ComputeMqdOff\<close> gives the places.\<close>

definition compute_mqd_words :: "GFXMqdProps \<Rightarrow> (nat \<times> u32) list" where
  "compute_mqd_words p =
     (let eop = drop_bit 8 (mp_eop_gpu_addr p); hqd = drop_bit 8 (mp_hqd_base_gpu_addr p)
      in [(80, 0xC0310800), (81, 1), (82, 0xFFFFFFFF), (83, 0xFFFFFFFF), (84, 0xFFFFFFFF), (85, 0xFFFFFFFF), (86, 7),
          (165, lo32 eop), (166, hi32 eop), (167, compute_eop_control p), (143, compute_db_control p),
          (172, 0), (138, 0), (182, 0), (183, 0),
          (128, lo32 (mp_mqd_gpu_addr p AND 0xFFFFFFFC)), (129, hi32 (mp_mqd_gpu_addr p)),
          (162, REG_SET_FIELD kCP_MQD_CONTROL_DEFAULT CP_MQD_CONTROL__VMID 0),
          (136, lo32 hqd), (137, hi32 hqd), (145, compute_pq_control p),
          (139, lo32 (mp_rptr_gpu_addr p AND 0xFFFFFFFC)), (140, hi32 (mp_rptr_gpu_addr p) AND 0xFFFF),
          (141, lo32 (mp_wptr_gpu_addr p AND 0xFFFFFFFC)), (142, hi32 (mp_wptr_gpu_addr p) AND 0xFFFF),
          (138, kRegCP_HQD_PQ_RPTR_DEFAULT), (131, 0),
          (132, REG_SET_FIELD kCP_HQD_PERSISTENT_STATE_DEFAULT CP_HQD_PERSISTENT_STATE__PRELOAD_SIZE 0x55),
          (168, REG_SET_FIELD kRegCP_HQD_IB_CONTROL_DEFAULT CP_HQD_IB_CONTROL__MIN_IB_AVAIL_SIZE 3),
          (169, 0), (170, 0), (130, 1)])"

text \<open>\<open>None\<close> is the null pointer; the page is cleared first.\<close>

definition gfx_build_compute_mqd :: "u32 list option \<Rightarrow> GFXMqdProps \<Rightarrow> kern_return \<times> u32 list option" where
  "gfx_build_compute_mqd mqd p = (case mqd of
       None \<Rightarrow> (kIOReturnBadArgument, None)
     | Some _ \<Rightarrow> (kIOReturnSuccess,
         Some (put_words (replicate (unat kGFX_MQDPageBytes div 4) 0) (compute_mqd_words p))))"

definition gfx_hqd_cntl :: "GFXMqdProps \<Rightarrow> u32" where
  "gfx_hqd_cntl p =
     (let rb_bufsz = order_base_2_local (mp_queue_size_bytes p div 4) - 1;
          v = set_fields kRegCP_GFX_HQD_CNTL_DEFAULT
            [(CP_GFX_HQD_CNTL__RB_BUFSZ, rb_bufsz), (CP_GFX_HQD_CNTL__RB_BLKSZ, if 2 \<le> rb_bufsz then rb_bufsz - 2 else 0)]
      in if \<not> mp_kernel_queue p then REG_SET_FIELD v CP_GFX_HQD_CNTL__RB_NON_PRIV 1 else v)"

definition gfx_db_control :: "GFXMqdProps \<Rightarrow> u32" where
  "gfx_db_control p =
     set_fields kRegCP_HQD_PQ_DOORBELL_CONTROL_DEFAULT
       (if mp_use_doorbell p
        then [(CP_HQD_PQ_DOORBELL_CONTROL__DOORBELL_OFFSET, mp_doorbell_index p),
              (CP_HQD_PQ_DOORBELL_CONTROL__DOORBELL_EN, 1)]
        else [(CP_HQD_PQ_DOORBELL_CONTROL__DOORBELL_EN, 0)])"

definition gfx_mqd_words :: "GFXMqdProps \<Rightarrow> (nat \<times> u32) list" where
  "gfx_mqd_words p =
     (let hqd = drop_bit 8 (mp_hqd_base_gpu_addr p)
      in [(149, 0), (150, 0), (128, lo32 (mp_mqd_gpu_addr p AND 0xFFFFFFFC)), (129, hi32 (mp_mqd_gpu_addr p)),
          (162, set_fields kRegCP_GFX_MQD_CONTROL_DEFAULT [(CP_GFX_MQD_CONTROL__VMID, 0),
             (CP_GFX_MQD_CONTROL__PRIV_STATE, 1), (CP_GFX_MQD_CONTROL__CACHE_POLICY, 0)]),
          (131, 0),
          (134, REG_SET_FIELD kRegCP_GFX_HQD_QUEUE_PRIORITY_DEFAULT CP_GFX_HQD_QUEUE_PRIORITY__PRIORITY_LEVEL 0),
          (135, REG_SET_FIELD kRegCP_GFX_HQD_QUANTUM_DEFAULT CP_GFX_HQD_QUANTUM__QUANTUM_EN 1),
          (136, lo32 hqd), (137, hi32 hqd),
          (139, lo32 (mp_rptr_gpu_addr p AND 0xFFFFFFFC)), (140, hi32 (mp_rptr_gpu_addr p) AND 0xFFFF),
          (141, lo32 (mp_wptr_gpu_addr p AND 0xFFFFFFFC)), (142, hi32 (mp_wptr_gpu_addr p) AND 0xFFFF),
          (145, gfx_hqd_cntl p), (143, gfx_db_control p), (138, kRegCP_GFX_HQD_RPTR_DEFAULT), (130, 1)])"

definition gfx_build_gfx_mqd :: "u32 list option \<Rightarrow> GFXMqdProps \<Rightarrow> kern_return \<times> u32 list option" where
  "gfx_build_gfx_mqd mqd p = (case mqd of
       None \<Rightarrow> (kIOReturnBadArgument, None)
     | Some _ \<Rightarrow> (kIOReturnSuccess,
         Some (put_words (replicate (unat kGFX_MQDPageBytes div 4) 0) (gfx_mqd_words p))))"

text \<open>\<^verbatim>\<open>for (n = ringBytes / 4; n > 1; n >>= 1) ++log2\<close>\<close>

function floor_log :: "u32 \<Rightarrow> u32" where
  "floor_log n = (if 1 < n then 1 + floor_log (drop_bit 1 n) else 0)"
  by pat_completeness auto
termination
  by (relation "measure unat") (auto simp: drop_bit_eq_div unat_div word_less_nat_alt)

declare floor_log.simps [simp del]

text \<open>The descriptor the command processor is really started with; \<open>None\<close> is \<^verbatim>\<open>return false\<close>.\<close>

definition gfx_build_kernel_mqd :: "u64 \<Rightarrow> u64 \<Rightarrow> u64 \<Rightarrow> u64 \<Rightarrow> u32 \<Rightarrow> u32 \<Rightarrow> u32 list option" where
  "gfx_build_kernel_mqd mqdAddress ringAddress rptrAddress wptrAddress ringBytes doorbell =
     (if mqdAddress = 0 \<or> mqdAddress AND 255 \<noteq> 0 \<or> ringAddress = 0 \<or> ringAddress AND 255 \<noteq> 0 \<or>
         rptrAddress = 0 \<or> rptrAddress AND 3 \<noteq> 0 \<or> wptrAddress = 0 \<or> wptrAddress AND 7 \<noteq> 0 \<or>
         ringBytes < 1024 \<or> ringBytes AND (ringBytes - 1) \<noteq> 0 \<or> doorbell AND 1 \<noteq> 0 \<or> 0x03FFFFFE < doorbell
      then None
      else let bufsz = floor_log (ringBytes div 4) - 1
        in Some (put_words (replicate 512 0)
          [(128, lo32 mqdAddress), (129, hi32 mqdAddress), (162, 0x100), (135, 0xA01),
           (136, ucast (drop_bit 8 ringAddress)), (137, ucast (drop_bit 40 ringAddress)),
           (139, lo32 rptrAddress), (140, hi32 rptrAddress AND 0xFFFF),
           (141, lo32 wptrAddress), (142, hi32 wptrAddress AND 0xFFFF),
           (145, 0x00F00000 OR bufsz OR push_bit 8 (bufsz - 2)),
           (143, 0x40000000 OR push_bit 2 doorbell), (130, 1)]))"

end
