(* ===== verification/Aql_Packets.thy ===== *)
theory Aql_Packets
  imports Gfx
begin

text \<open>
  The pure part of the AQL queues: \<^verbatim>\<open>amdgpu_queue_topology.h\<close>, \<^verbatim>\<open>amdgpu_arch_capabilities.h\<close>,
  \<^verbatim>\<open>amdgpu_aql_abi.h\<close>, \<^verbatim>\<open>amdgpu_aql_packets.h\<close> and \<^verbatim>\<open>amdgpu_aql_resources.h\<close> of \<^verbatim>\<open>dext/amdgpu\<close>. A \<open>bool\<close> result
  with outputs is an option. The layouts of \<^verbatim>\<open>amd_queue_t\<close>, \<^verbatim>\<open>amd_signal_t\<close> and of the dispatch packet appear
  as dword and byte offsets.
\<close>

section \<open>Topology\<close>

definition kGFX1201ComputePipes :: u32 where "kGFX1201ComputePipes = 2"
definition kGFX1201QueuesPerPipe :: u32 where "kGFX1201QueuesPerPipe = 4"
definition kPersistentAQLQueues :: u32 where
  "kPersistentAQLQueues = kGFX1201ComputePipes * kGFX1201QueuesPerPipe - 1"

definition gfx1201_compute_pipe :: "u32 \<Rightarrow> u32" where "gfx1201_compute_pipe slot = slot div kGFX1201QueuesPerPipe"
definition gfx1201_compute_queue :: "u32 \<Rightarrow> u32" where "gfx1201_compute_queue slot = slot mod kGFX1201QueuesPerPipe"

text \<open>\<^verbatim>\<open>__builtin_popcount\<close> counts the set bits.\<close>

definition popcount :: "u32 \<Rightarrow> nat" where
  "popcount x = length (filter (\<lambda>i. bit x i) [0..<32])"

definition mask_step :: "(nat \<Rightarrow> nat \<Rightarrow> u32) \<Rightarrow> nat \<times> nat \<Rightarrow> (u32 list \<times> u32) option \<Rightarrow> (u32 list \<times> u32) option" where
  "mask_step bitmap ij st = (case st of
       None \<Rightarrow> None
     | Some (result, n) \<Rightarrow>
         let (se, sh) = ij; k = popcount (bitmap se sh)
         in if 16 < k \<or> k mod 2 \<noteq> 0 then None
         else Some (result[se := result ! se OR push_bit (sh * 16) (push_bit k 1 - 1)], n + word_of_nat k))"

definition gfx12_compute_masks :: "u32 \<Rightarrow> u32 \<Rightarrow> u32 \<Rightarrow> (nat \<Rightarrow> nat \<Rightarrow> u32) \<Rightarrow> u32 list option" where
  "gfx12_compute_masks engines arrays cuCount bitmap =
     (if engines \<noteq> 4 \<or> arrays = 0 \<or> 2 < arrays \<or> cuCount = 0 then None
      else (case fold (mask_step bitmap) (List.product [0..<4] [0..<unat arrays]) (Some (replicate 4 0, 0)) of
          None \<Rightarrow> None
        | Some (result, n) \<Rightarrow> if n \<noteq> cuCount then None else Some result))"

section \<open>Scratch architectures\<close>

datatype ScratchSRDLayout = SRD_Gfx9 | SRD_Gfx10 | SRD_Gfx11 | SRD_Gfx12

record ScratchArchitectureCapabilities =
  sa_gfxMajor :: u8
  waveSizeUnitBytes :: u16
  wavesBits :: nat
  waveSizeBits :: nat
  srdAddressBits :: nat
  srdRecordBits :: nat
  wavesPerEngine :: bool
  srdLayout :: ScratchSRDLayout

definition kScratchArchitectures :: "ScratchArchitectureCapabilities list" where
  "kScratchArchitectures =
     [\<lparr>sa_gfxMajor = 9, waveSizeUnitBytes = 1024, wavesBits = 12, waveSizeBits = 13, srdAddressBits = 48,
       srdRecordBits = 32, wavesPerEngine = False, srdLayout = SRD_Gfx9\<rparr>,
      \<lparr>sa_gfxMajor = 10, waveSizeUnitBytes = 1024, wavesBits = 12, waveSizeBits = 13, srdAddressBits = 48,
       srdRecordBits = 32, wavesPerEngine = False, srdLayout = SRD_Gfx10\<rparr>,
      \<lparr>sa_gfxMajor = 11, waveSizeUnitBytes = 256, wavesBits = 12, waveSizeBits = 15, srdAddressBits = 48,
       srdRecordBits = 32, wavesPerEngine = True, srdLayout = SRD_Gfx11\<rparr>,
      \<lparr>sa_gfxMajor = 12, waveSizeUnitBytes = 256, wavesBits = 12, waveSizeBits = 18, srdAddressBits = 48,
       srdRecordBits = 32, wavesPerEngine = True, srdLayout = SRD_Gfx12\<rparr>]"

definition scratch_architecture :: "IPVersion \<Rightarrow> ScratchArchitectureCapabilities option" where
  "scratch_architecture ip = List.find (\<lambda>c. sa_gfxMajor c = ip_major ip) kScratchArchitectures"

definition aql_scratch_layout_supported :: "IPVersion \<Rightarrow> bool" where
  "aql_scratch_layout_supported ip \<longleftrightarrow> ip_major ip = 12 \<and> ip_minor ip = 0 \<and> ip_rev ip = 1"

section \<open>The dispatch request\<close>

record AQLDispatchRequest =
  rq_version :: u32
  aq_rq_flags :: u32
  codeHandle :: u64
  descriptorOffset :: u64
  kernargHandle :: u64
  kernargOffset :: u64
  kernargBytes :: u64
  rq_groups :: "u32 list"
  rq_threads :: "u32 list"
  timeoutUS :: u32
  aq_rq_reserved :: u32
  rq_buffers :: "u64 list"

primrec shape_threads :: "(u32 \<times> u32) list \<Rightarrow> u64 \<Rightarrow> u64 option" where
  "shape_threads [] threads = Some threads"
| "shape_threads (gt # rest) threads =
     (let (g, t) = gt
      in if g = 0 \<or> t = 0 \<or> 1024 < t \<or> 0xFFFFFFFF < (ucast g * ucast t :: u64) then None
         else shape_threads rest (threads * ucast t))"

definition aql_dispatch_shape :: "AQLDispatchRequest \<Rightarrow> bool" where
  "aql_dispatch_shape r \<longleftrightarrow>
     \<not> (rq_version r \<noteq> 1 \<or> aq_rq_flags r \<noteq> 0 \<or> aq_rq_reserved r \<noteq> 0 \<or> codeHandle r = 0 \<or>
        descriptorOffset r AND 63 \<noteq> 0 \<or> kernargHandle r = 0 \<or> kernargOffset r AND 15 \<noteq> 0 \<or>
        4 * 1024 * 1024 < kernargBytes r \<or> timeoutUS r = 0 \<or> 1000000 < timeoutUS r) \<and>
     (case shape_threads (zip (rq_groups r) (rq_threads r)) 1 of None \<Rightarrow> False | Some threads \<Rightarrow> threads \<le> 1024)"

section \<open>Scratch memory\<close>

definition kAQLMaxPrivateBytes :: u32 where "kAQLMaxPrivateBytes = 262128"
definition kAQLScratchMinimumWavesPerEngine :: u32 where "kAQLScratchMinimumWavesPerEngine = 32"
definition kAQLGroupApertureHi :: u32 where "kAQLGroupApertureHi = 0x10000"
definition kAQLPrivateApertureHi :: u32 where "kAQLPrivateApertureHi = 0x20000"

text \<open>The bytes of a lane count as 64 lanes; the results are the aligned lane bytes, the waves per engine and the total.\<close>

definition aql_scratch_bytes :: "u32 \<Rightarrow> u32 \<Rightarrow> u32 \<Rightarrow> u64" where
  "aql_scratch_bytes aligned waves engines = ucast aligned * 64 * ucast waves * ucast engines"

definition aql_scratch_geometry :: "IPVersion \<Rightarrow> u32 \<Rightarrow> u32 \<Rightarrow> u32 \<Rightarrow> u32 \<Rightarrow> (u32 \<times> u32 \<times> u64) option" where
  "aql_scratch_geometry ip laneBytes cuCount engines wavesPerCU =
     (case scratch_architecture ip of
        None \<Rightarrow> None
      | Some capability \<Rightarrow>
          if \<not> aql_scratch_layout_supported ip \<or> laneBytes = 0 \<or> kAQLMaxPrivateBytes < laneBytes \<or> cuCount = 0 \<or>
             engines = 0 \<or> 4 < engines \<or> 512 < cuCount \<or> wavesPerCU = 0 \<or> 64 < wavesPerCU
          then None
          else let aligned = (laneBytes + 15) AND NOT 15
            in if kAQLMaxPrivateBytes < aligned \<or>
                  push_bit (waveSizeBits capability) 1 \<le>
                    (ucast aligned * 64 div ucast (waveSizeUnitBytes capability) :: u64)
            then None
            else let waves = ((cuCount + engines - 1) div engines) * wavesPerCU;
                     waves = (waves + 31) AND NOT 31
              in if push_bit (wavesBits capability) 1 \<le> waves then None
                 else Some (aligned, waves, aql_scratch_bytes aligned waves engines))"

text \<open>The fields of \<^verbatim>\<open>amd_queue_t\<close> the scratch memory is described by.\<close>

record ScratchMetadata =
  scratch_resource_descriptor :: "u32 list"
  scratch_backing_memory_location :: u64
  scratch_wave64_lane_byte_size :: u32
  compute_tmpring_size :: u32

definition aql_scratch_metadata ::
  "IPVersion \<Rightarrow> u64 \<Rightarrow> u64 \<Rightarrow> u32 \<Rightarrow> u32 \<Rightarrow> u32 \<Rightarrow> ScratchMetadata option"
where
  "aql_scratch_metadata ip base bytes laneBytes engines waves =
     (case scratch_architecture ip of
        None \<Rightarrow> None
      | Some capability \<Rightarrow>
          if \<not> aql_scratch_layout_supported ip \<or> srdLayout capability \<noteq> SRD_Gfx12 \<or> \<not> wavesPerEngine capability
          then None
          else let waveBytes = ucast laneBytes * 64 :: u64;
                   waveSize = waveBytes div ucast (waveSizeUnitBytes capability)
            in if base = 0 \<or> base AND 16383 \<noteq> 0 \<or> push_bit (srdAddressBits capability) 1 \<le> base \<or>
                  bytes = 0 \<or> push_bit (srdRecordBits capability) 1 \<le> bytes \<or>
                  push_bit (srdAddressBits capability) 1 - base < bytes \<or> laneBytes = 0 \<or> laneBytes AND 15 \<noteq> 0 \<or>
                  waveBytes mod ucast (waveSizeUnitBytes capability) \<noteq> 0 \<or>
                  push_bit (waveSizeBits capability) 1 \<le> waveSize \<or> kAQLMaxPrivateBytes < laneBytes \<or>
                  engines = 0 \<or> 4 < engines \<or> waves < kAQLScratchMinimumWavesPerEngine \<or>
                  push_bit (wavesBits capability) 1 \<le> waves \<or>
                  bytes < ucast laneBytes * 64 * ucast engines * ucast waves
            then None
            else Some \<lparr>scratch_resource_descriptor =
                [ucast base, ucast (drop_bit 32 base) OR push_bit 30 1, ucast bytes,
                 4 OR push_bit 3 5 OR push_bit 6 6 OR push_bit 9 7 OR push_bit 12 0x14 OR push_bit 23 1 OR push_bit 28 2],
              scratch_backing_memory_location = base, scratch_wave64_lane_byte_size = laneBytes,
              compute_tmpring_size = waves OR push_bit (wavesBits capability) (ucast waveSize)\<rparr>)"

section \<open>Descriptors and storage\<close>

definition kAQLDoorbell :: u32 where "kAQLDoorbell = 0x80"
definition kAQLStorageBytes :: u64 where "kAQLStorageBytes = 16384"
definition kAQLEOPOffset :: u64 where "kAQLEOPOffset = 4096"
definition kAQLRingOffset :: u64 where "kAQLRingOffset = 8192"
definition kAQLRingBytes :: u32 where "kAQLRingBytes = 4096"
definition kAQLCompletionOffset :: u64 where "kAQLCompletionOffset = 12288"
definition kAQLInactiveOffset :: u64 where "kAQLInactiveOffset = 12352"
definition kAQLMetadataOffset :: u64 where "kAQLMetadataOffset = 12416"

text \<open>Byte offsets in \<^verbatim>\<open>amd_queue_t\<close>, whose size is 256.\<close>

definition write_dispatch_id :: u64 where "write_dispatch_id = 56"
definition read_dispatch_id :: u64 where "read_dispatch_id = 128"
definition amd_queue_bytes :: u64 where "amd_queue_bytes = 256"

text \<open>\<^verbatim>\<open>for (dw = packets * 16; dw > 2; dw >>= 1) ++queueSize\<close>\<close>

function aql_queue_size :: "u32 \<Rightarrow> u32" where
  "aql_queue_size dw = (if 2 < dw then 1 + aql_queue_size (drop_bit 1 dw) else 0)"
  by pat_completeness auto
termination
  by (relation "measure unat") (auto simp: drop_bit_eq_div unat_div word_less_nat_alt)

declare aql_queue_size.simps [simp del]

definition aql_mqd_refused :: "u64 \<Rightarrow> u64 \<Rightarrow> u64 \<Rightarrow> u32 \<Rightarrow> u32 \<Rightarrow> bool" where
  "aql_mqd_refused base ring metadata packets doorbell \<longleftrightarrow>
     base = 0 \<or> base AND 16383 \<noteq> 0 \<or> push_bit 48 1 - kAQLStorageBytes < base \<or>
     ring = 0 \<or> ring AND 255 \<noteq> 0 \<or> push_bit 48 1 \<le> ring \<or> metadata = 0 \<or> metadata AND 63 \<noteq> 0 \<or>
     push_bit 48 1 - amd_queue_bytes < metadata \<or> packets < 64 \<or> 4096 < packets \<or>
     packets AND (packets - 1) \<noteq> 0 \<or> doorbell AND 1 \<noteq> 0 \<or> 0x3FFFFFE < doorbell"

text \<open>The places of \<^verbatim>\<open>namespace AQLMQDOff\<close> and what goes there; \<open>masks\<close> is never null.\<close>

definition aql_mqd_words :: "u64 \<Rightarrow> u64 \<Rightarrow> u64 \<Rightarrow> u32 \<Rightarrow> u32 \<Rightarrow> u32 list \<Rightarrow> (nat \<times> u32) list" where
  "aql_mqd_words base ring metadata packets doorbell masks =
     [(0, 0xC0310800), (11, 1), (23, masks ! 0), (24, masks ! 1), (26, masks ! 2), (27, masks ! 3),
      (128, lo32 base), (129, hi32 base), (162, 0x100), (130, 1), (132, 0x5501), (135, 0x111),
      (136, lo32 (drop_bit 8 ring)), (137, hi32 (drop_bit 8 ring)),
      (139, lo32 (metadata + read_dispatch_id)), (140, hi32 (metadata + read_dispatch_id)),
      (141, lo32 (metadata + write_dispatch_id)), (142, hi32 (metadata + write_dispatch_id)),
      (143, 0x40000002 OR push_bit 2 doorbell),
      (145, aql_queue_size (packets * 16) OR push_bit 8 5 OR push_bit 28 1 OR push_bit 27 1 OR push_bit 18 2 OR
         push_bit 14 1),
      (149, push_bit 20 3), (160, push_bit 14 1),
      (165, lo32 (drop_bit 8 (base + kAQLEOPOffset))), (166, hi32 (drop_bit 8 (base + kAQLEOPOffset))),
      (167, 9), (181, 1)]"

definition aql_build_mqd :: "u64 \<Rightarrow> u64 \<Rightarrow> u64 \<Rightarrow> u32 \<Rightarrow> u32 \<Rightarrow> u32 list \<Rightarrow> u32 list option" where
  "aql_build_mqd base ring metadata packets doorbell masks =
     (if aql_mqd_refused base ring metadata packets doorbell then None
      else Some (put_words (replicate 512 0) (aql_mqd_words base ring metadata packets doorbell masks)))"

text \<open>Dword places in the storage: a field of the metadata, of a signal, of a packet of the ring.\<close>

definition meta_dw :: "nat \<Rightarrow> nat" where "meta_dw b = (unat kAQLMetadataOffset + b) div 4"
definition signal_dw :: "u64 \<Rightarrow> nat \<Rightarrow> nat" where "signal_dw sig b = (unat sig + b) div 4"
definition packet_dw :: "nat \<Rightarrow> nat \<Rightarrow> nat" where "packet_dw i b = (unat kAQLRingOffset + i * 64 + b) div 4"

definition half_words :: "u32 \<Rightarrow> u32 \<Rightarrow> u32" where
  "half_words low high = (low AND 0xFFFF) OR push_bit 16 (high AND 0xFFFF)"

definition storage_words :: "u64 \<Rightarrow> u64 \<Rightarrow> u64 \<Rightarrow> AQLDispatchRequest \<Rightarrow> u32 \<Rightarrow> u32 \<Rightarrow> (nat \<times> u32) list" where
  "storage_words base descriptor kernarg r cuCount wavesPerCU =
     [(meta_dw 0, 1), (meta_dw 4, 1), (meta_dw 8, lo32 (base + kAQLRingOffset)),
      (meta_dw 12, hi32 (base + kAQLRingOffset)), (meta_dw 24, kAQLRingBytes div 64), (meta_dw 136, 128),
      (meta_dw 72, cuCount - 1), (meta_dw 64, kAQLGroupApertureHi), (meta_dw 68, kAQLPrivateApertureHi),
      (meta_dw 76, wavesPerCU - 1), (meta_dw 180, 2),
      (meta_dw 192, lo32 (base + kAQLInactiveOffset)), (meta_dw 196, hi32 (base + kAQLInactiveOffset)),
      (signal_dw kAQLCompletionOffset 0, 1), (signal_dw kAQLCompletionOffset 8, 1),
      (signal_dw kAQLInactiveOffset 0, 1)] @
     map (\<lambda>i. (packet_dw i 0, 1)) [0..<unat kAQLRingBytes div 64] @
     [(packet_dw 0 0, half_words (2 OR push_bit 9 2 OR push_bit 11 2) 3),
      (packet_dw 0 4, half_words (rq_threads r ! 0) (rq_threads r ! 1)),
      (packet_dw 0 8, half_words (rq_threads r ! 2) 0),
      (packet_dw 0 12, rq_groups r ! 0 * rq_threads r ! 0), (packet_dw 0 16, rq_groups r ! 1 * rq_threads r ! 1),
      (packet_dw 0 20, rq_groups r ! 2 * rq_threads r ! 2),
      (packet_dw 0 32, lo32 descriptor), (packet_dw 0 36, hi32 descriptor),
      (packet_dw 0 40, lo32 kernarg), (packet_dw 0 44, hi32 kernarg),
      (packet_dw 0 56, lo32 (base + kAQLCompletionOffset)), (packet_dw 0 60, hi32 (base + kAQLCompletionOffset))]"

definition aql_build_storage ::
  "u64 \<Rightarrow> u64 \<Rightarrow> u64 \<Rightarrow> AQLDispatchRequest \<Rightarrow> u32 list \<Rightarrow> u32 \<Rightarrow> u32 \<Rightarrow> u32 list option"
where
  "aql_build_storage base descriptor kernarg r masks cuCount wavesPerCU =
     (if \<not> aql_dispatch_shape r \<or> base = 0 \<or> base AND 16383 \<noteq> 0 \<or> push_bit 48 1 - kAQLStorageBytes < base \<or>
         descriptor = 0 \<or> descriptor AND 63 \<noteq> 0 \<or> push_bit 48 1 \<le> descriptor \<or> kernarg = 0 \<or>
         kernarg AND 15 \<noteq> 0 \<or> push_bit 48 1 \<le> kernarg \<or> cuCount = 0 \<or> wavesPerCU = 0 \<or> 64 < wavesPerCU
      then None
      else (case aql_build_mqd base (base + kAQLRingOffset) (base + kAQLMetadataOffset) (kAQLRingBytes div 64)
               kAQLDoorbell masks of
          None \<Rightarrow> None
        | Some mqd \<Rightarrow> Some (put_words (mqd @ replicate (unat kAQLStorageBytes div 4 - 512) 0)
            (storage_words base descriptor kernarg r cuCount wavesPerCU))))"

end
