(* ===== verification/Software_Stats.thy ===== *)
theory Software_Stats
  imports Prelude
begin

text \<open>
  \<^verbatim>\<open>dext/amdgpu/amdgpu_software_stats.h\<close>: the counters of published and completed work. Nothing here touches
  the device; the clock is an argument, as in the source. The enumerators \<open>EngineCount\<close> and
  \<open>DirectionCount\<close> are kept, since the operations refuse them.
\<close>

section \<open>Data\<close>

definition stats_kVersion :: u32 where "stats_kVersion = 1"

datatype StatsEngine = SDMA0 | SDMA1 | GFX | AQL | EngineCount

datatype StatsDirection = HostToDevice | DeviceToHost | DeviceToDevice | HostToHost | UnknownDirection | DirectionCount

definition stats_Available :: u32 where "stats_Available = 1"
definition stats_RuntimeReady :: u32 where "stats_RuntimeReady = 2"
definition stats_Saturated :: u32 where "stats_Saturated = 4"
definition stats_QueueSampleIncomplete :: u32 where "stats_QueueSampleIncomplete = 8"

record EngineSnapshot =
  es_submitted :: u64
  es_completed :: u64
  es_failed :: u64
  es_pending :: u64
  es_retired :: u64
  es_pendingNs :: u64
  es_bytes :: "StatsDirection \<Rightarrow> u64"

record StatsSnapshot =
  ss_version :: u32
  ss_size :: u32
  ss_flags :: u32
  ss_reserved :: u32
  ss_generation :: u64
  ss_sampledAtNs :: u64
  ss_sessionStartNs :: u64
  ss_participants :: u64
  ss_activeQueues :: u64
  ss_queuedPackets :: u64
  ss_publishedPackets :: u64
  ss_consumedPackets :: u64
  ss_retiredPackets :: u64
  ss_cpuUploadBytes :: u64
  ss_cpuReadbackBytes :: u64
  ss_engines :: "StatsEngine \<Rightarrow> EngineSnapshot"

text \<open>\<^verbatim>\<open>sizeof(Snapshot)\<close>, as the source asserts it.\<close>

definition stats_snapshot_size :: u32 where "stats_snapshot_size = 456"

definition stats_engines :: "StatsEngine list" where
  "stats_engines = [SDMA0, SDMA1, GFX, AQL]"

definition engine_zero :: EngineSnapshot where
  "engine_zero = \<lparr>es_submitted = 0, es_completed = 0, es_failed = 0, es_pending = 0, es_retired = 0,
     es_pendingNs = 0, es_bytes = (\<lambda>_. 0)\<rparr>"

definition stats_snapshot_zero :: StatsSnapshot where
  "stats_snapshot_zero = \<lparr>ss_version = 0, ss_size = 0, ss_flags = 0, ss_reserved = 0, ss_generation = 0,
     ss_sampledAtNs = 0, ss_sessionStartNs = 0, ss_participants = 0, ss_activeQueues = 0, ss_queuedPackets = 0,
     ss_publishedPackets = 0, ss_consumedPackets = 0, ss_retiredPackets = 0, ss_cpuUploadBytes = 0,
     ss_cpuReadbackBytes = 0, ss_engines = (\<lambda>_. engine_zero)\<rparr>"

definition engine_snapshot_valid :: "StatsSnapshot \<Rightarrow> EngineSnapshot \<Rightarrow> bool" where
  "engine_snapshot_valid s e \<longleftrightarrow>
     \<not> (es_submitted e < es_completed e \<or> es_submitted e < es_failed e \<or>
        es_submitted e - es_completed e < es_retired e \<or>
        es_submitted e - es_completed e - es_retired e < es_pending e \<or>
        ss_sampledAtNs s - ss_sessionStartNs s < es_pendingNs e)"

definition stats_valid :: "StatsSnapshot \<Rightarrow> bool" where
  "stats_valid s \<longleftrightarrow>
     \<not> (ss_version s \<noteq> stats_kVersion \<or> ss_size s \<noteq> stats_snapshot_size \<or> ss_reserved s \<noteq> 0 \<or>
        ss_flags s AND NOT (stats_Available OR stats_RuntimeReady OR stats_Saturated OR stats_QueueSampleIncomplete) \<noteq> 0 \<or>
        ss_flags s AND stats_Available = 0 \<or> ss_generation s = 0 \<or> ss_sampledAtNs s < ss_sessionStartNs s \<or>
        ss_publishedPackets s < ss_consumedPackets s \<or>
        ss_publishedPackets s - ss_consumedPackets s < ss_retiredPackets s \<or>
        ss_publishedPackets s - ss_consumedPackets s - ss_retiredPackets s < ss_queuedPackets s) \<and>
     list_all (\<lambda>i. engine_snapshot_valid s (ss_engines s i)) stats_engines"

section \<open>Counters\<close>

record Counters =
  stats_data :: StatsSnapshot
  pendingSince :: "StatsEngine \<Rightarrow> u64"
  stats_vramBase :: u64
  stats_vramBytes :: u64
  stats_gartBase :: u64
  stats_gartBytes :: u64

definition counters_zero :: Counters where
  "counters_zero = \<lparr>stats_data = stats_snapshot_zero, pendingSince = (\<lambda>_. 0), stats_vramBase = 0, stats_vramBytes = 0,
     stats_gartBase = 0, stats_gartBytes = 0\<rparr>"

text \<open>
  The C++ \<open>add\<close> writes the field it is given and the flags; here it gives the sum, and whether to set the flag.
\<close>

definition stats_add :: "u64 \<Rightarrow> u64 \<Rightarrow> u64 \<times> bool" where
  "stats_add to amount = (if 0xFFFFFFFFFFFFFFFF - to < amount then (0xFFFFFFFFFFFFFFFF, True) else (to + amount, False))"

definition mark_saturated :: "bool \<Rightarrow> StatsSnapshot \<Rightarrow> StatsSnapshot" where
  "mark_saturated b s = (if b then s\<lparr>ss_flags := ss_flags s OR stats_Saturated\<rparr> else s)"

definition set_engine :: "StatsEngine \<Rightarrow> EngineSnapshot \<Rightarrow> StatsSnapshot \<Rightarrow> StatsSnapshot" where
  "set_engine i e s = s\<lparr>ss_engines := (ss_engines s)(i := e)\<rparr>"

definition counters_reset :: "Counters \<Rightarrow> u64 \<Rightarrow> Counters" where
  "counters_reset c now =
     (let generation = (if ss_generation (stats_data c) = 0xFFFFFFFFFFFFFFFF then 1 else ss_generation (stats_data c) + 1)
      in counters_zero\<lparr>stats_data := stats_snapshot_zero\<lparr>ss_version := stats_kVersion, ss_size := stats_snapshot_size,
           ss_flags := stats_Available, ss_generation := generation, ss_sessionStartNs := now,
           ss_sampledAtNs := now\<rparr>\<rparr>)"

definition counters_begin :: "Counters \<Rightarrow> StatsEngine \<Rightarrow> u64 \<Rightarrow> u64 \<Rightarrow> bool \<times> Counters" where
  "counters_begin c i now n =
     (if i = EngineCount \<or> n = 0 \<or> ss_generation (stats_data c) = 0 \<or> now < ss_sessionStartNs (stats_data c)
      then (False, c)
      else let e = ss_engines (stats_data c) i
        in if 0xFFFFFFFFFFFFFFFF - es_submitted e < n \<or> 0xFFFFFFFFFFFFFFFF - es_pending e < n
        then (False, c\<lparr>stats_data := mark_saturated True (stats_data c)\<rparr>)
        else let c = (if es_pending e = 0 then c\<lparr>pendingSince := (pendingSince c)(i := now)\<rparr> else c)
          in (True, c\<lparr>stats_data := set_engine i
                (e\<lparr>es_submitted := es_submitted e + n, es_pending := es_pending e + n\<rparr>) (stats_data c)\<rparr>))"

definition counters_complete ::
  "Counters \<Rightarrow> StatsEngine \<Rightarrow> u64 \<Rightarrow> u64 \<Rightarrow> StatsDirection \<Rightarrow> u64 \<Rightarrow> Counters"
where
  "counters_complete c i now bytes dir n =
     (if i = EngineCount \<or> dir = DirectionCount \<or> n = 0 then c
      else let e = ss_engines (stats_data c) i
        in if es_pending e < n \<or> now < pendingSince c i then c
        else let e = e\<lparr>es_completed := es_completed e + n, es_pending := es_pending e - n\<rparr>;
                 (ns, b1) = (if es_pending e = 0 then stats_add (es_pendingNs e) (now - pendingSince c i)
                             else (es_pendingNs e, False));
                 (total_bytes, b2) = stats_add (es_bytes e dir) bytes;
                 e = e\<lparr>es_pendingNs := ns, es_bytes := (es_bytes e)(dir := total_bytes)\<rparr>
          in c\<lparr>stats_data := mark_saturated (b1 \<or> b2) (set_engine i e (stats_data c))\<rparr>)"

definition counters_fail :: "Counters \<Rightarrow> StatsEngine \<Rightarrow> Counters" where
  "counters_fail c i =
     (if i = EngineCount then c
      else let e = ss_engines (stats_data c) i
        in if es_failed e < es_submitted e
           then c\<lparr>stats_data := set_engine i (e\<lparr>es_failed := es_failed e + 1\<rparr>) (stats_data c)\<rparr> else c)"

definition retire_engine :: "u64 \<Rightarrow> Counters \<Rightarrow> StatsEngine \<Rightarrow> Counters" where
  "retire_engine now c i =
     (let e = ss_engines (stats_data c) i
      in if es_pending e = 0 then c
      else let (ns, b1) = (if pendingSince c i \<le> now then stats_add (es_pendingNs e) (now - pendingSince c i)
                           else (es_pendingNs e, False));
               (gone, b2) = stats_add (es_retired e) (es_pending e);
               e = e\<lparr>es_pendingNs := ns, es_retired := gone, es_pending := 0\<rparr>
        in c\<lparr>stats_data := mark_saturated (b1 \<or> b2) (set_engine i e (stats_data c))\<rparr>)"

definition counters_retireWork :: "Counters \<Rightarrow> u64 \<Rightarrow> Counters" where
  "counters_retireWork c now =
     (let c = foldl (retire_engine now) c stats_engines
      in c\<lparr>stats_data := (stats_data c)\<lparr>ss_activeQueues := 0, ss_queuedPackets := 0\<rparr>,
           stats_vramBase := 0, stats_vramBytes := 0, stats_gartBase := 0, stats_gartBytes := 0\<rparr>)"

text \<open>The time still running is shown in the copy, not added to the counters.\<close>

definition snapshot_engine :: "(StatsEngine \<Rightarrow> u64) \<Rightarrow> StatsSnapshot \<Rightarrow> StatsEngine \<Rightarrow> StatsSnapshot" where
  "snapshot_engine since s i =
     (let e = ss_engines s i
      in if es_pending e \<noteq> 0 \<and> since i \<le> ss_sampledAtNs s
         then let (ns, b) = stats_add (es_pendingNs e) (ss_sampledAtNs s - since i)
           in if b then mark_saturated True s else set_engine i (e\<lparr>es_pendingNs := ns\<rparr>) s
         else s)"

definition counters_snapshot :: "Counters \<Rightarrow> u64 \<Rightarrow> bool \<Rightarrow> StatsSnapshot" where
  "counters_snapshot c now ready =
     (let s = (stats_data c)\<lparr>ss_sampledAtNs :=
                 (if now < ss_sessionStartNs (stats_data c) then ss_sessionStartNs (stats_data c) else now)\<rparr>;
          s = (if ready then s\<lparr>ss_flags := ss_flags s OR stats_RuntimeReady\<rparr> else s)
      in foldl (snapshot_engine (pendingSince c)) s stats_engines)"

definition stats_within :: "u64 \<Rightarrow> u64 \<Rightarrow> u64 \<Rightarrow> u64 \<Rightarrow> bool" where
  "stats_within address bytes base sz \<longleftrightarrow>
     bytes \<noteq> 0 \<and> sz \<noteq> 0 \<and> base \<le> address \<and> address - base \<le> sz \<and> bytes \<le> sz - (address - base)"

definition counters_direction :: "Counters \<Rightarrow> u64 \<Rightarrow> u64 \<Rightarrow> u64 \<Rightarrow> StatsDirection" where
  "counters_direction c src dst bytes =
     (let sv = stats_within src bytes (stats_vramBase c) (stats_vramBytes c);
          dv = stats_within dst bytes (stats_vramBase c) (stats_vramBytes c);
          sh = stats_within src bytes (stats_gartBase c) (stats_gartBytes c);
          dh = stats_within dst bytes (stats_gartBase c) (stats_gartBytes c)
      in if sv \<and> dv then DeviceToDevice else if sh \<and> dv then HostToDevice
         else if sv \<and> dh then DeviceToHost else if sh \<and> dh then HostToHost else UnknownDirection)"

section \<open>Published work\<close>

text \<open>
  A \<open>PublishedWork\<close> lives over a wait: its constructor is \<open>work_begin\<close>, its destructor \<open>work_end\<close>. The
  counters are behind a pointer, which may be null: \<open>None\<close>.
\<close>

definition work_begin :: "Counters option \<Rightarrow> StatsEngine \<Rightarrow> u64 \<Rightarrow> bool \<times> Counters option" where
  "work_begin cs i start = (case cs of
       None \<Rightarrow> (False, None)
     | Some c \<Rightarrow> let (tracked, c) = counters_begin c i start 1 in (tracked, Some c))"

definition work_end :: "bool \<Rightarrow> StatsEngine \<Rightarrow> Counters option \<Rightarrow> Counters option" where
  "work_end tracked i cs = (if tracked then map_option (\<lambda>c. counters_fail c i) cs else cs)"

definition work_complete ::
  "bool \<Rightarrow> StatsEngine \<Rightarrow> u64 \<Rightarrow> u64 \<Rightarrow> StatsDirection \<Rightarrow> Counters option \<Rightarrow> bool \<times> Counters option"
where
  "work_complete tracked i now bytes dir cs =
     (False, if tracked then map_option (\<lambda>c. counters_complete c i now bytes dir 1) cs else cs)"

section \<open>Queues\<close>

record QueueProgress =
  qp_handle :: u64
  qp_published :: u64
  qp_consumed :: u64

definition progress_zero :: QueueProgress where
  "progress_zero = \<lparr>qp_handle = 0, qp_published = 0, qp_consumed = 0\<rparr>"

definition progress_retire :: "QueueProgress \<Rightarrow> Counters \<Rightarrow> QueueProgress \<times> Counters" where
  "progress_retire q c =
     (let (gone, b) = stats_add (ss_retiredPackets (stats_data c)) (qp_published q - qp_consumed q)
      in (progress_zero, c\<lparr>stats_data := mark_saturated b ((stats_data c)\<lparr>ss_retiredPackets := gone\<rparr>)\<rparr>))"

definition progress_observe ::
  "QueueProgress \<Rightarrow> Counters \<Rightarrow> u64 \<Rightarrow> u64 \<Rightarrow> u64 \<Rightarrow> bool \<times> QueueProgress \<times> Counters"
where
  "progress_observe q c i pub rd =
     (if i = 0 \<or> pub < rd then (False, q, c)
      else let (q, c) = (if i \<noteq> qp_handle q
                         then (let (q, c) = progress_retire q c in (q\<lparr>qp_handle := i\<rparr>, c)) else (q, c))
        in if pub < qp_published q \<or> rd < qp_consumed q then (False, q, c)
        else let (p, b1) = stats_add (ss_publishedPackets (stats_data c)) (pub - qp_published q);
                 (n, b2) = stats_add (ss_consumedPackets (stats_data c)) (rd - qp_consumed q)
          in (True, q\<lparr>qp_published := pub, qp_consumed := rd\<rparr>,
              c\<lparr>stats_data := mark_saturated (b1 \<or> b2)
                  ((stats_data c)\<lparr>ss_publishedPackets := p, ss_consumedPackets := n\<rparr>)\<rparr>))"

end
