(* ===== verification/Aql.thy ===== *)
theory Aql
  imports Aql_Packets Interrupts Software_Stats
begin

text \<open>
  \<^verbatim>\<open>dext/amdgpu/amdgpu_aql.h\<close> and \<^verbatim>\<open>amdgpu_aql.cpp\<close>: one bounded dispatch, and the persistent queues a
  client owns. The queue metadata and the packet ring are host memory shared with the client and the
  GPU: every access to them is a load or store of the \<open>sharedmem\<close> parameter, in the order of the source.
  \<open>None\<close> as an outcome is a call that does not return. Fences of the CPU have no effect in the model.
\<close>

section \<open>Host memory\<close>

record 'd sharedmem = "'d hostmem" +
  ld16 :: "u64 \<Rightarrow> 'd \<Rightarrow> u16 \<times> 'd"
  ld64 :: "u64 \<Rightarrow> 'd \<Rightarrow> u64 \<times> 'd"
  st64 :: "u64 \<Rightarrow> u64 \<Rightarrow> 'd \<Rightarrow> 'd"

definition ld32_wide :: "'d sharedmem \<Rightarrow> u64 \<Rightarrow> 'd \<Rightarrow> u64 \<times> 'd" where
  "ld32_wide hm a d = (let (v, d) = ld32 hm a d in (ucast v, d))"

text \<open>A chain of comparisons with \<^verbatim>\<open>||\<close>: a field is loaded only when the ones before it agreed.\<close>

primrec fields_hold :: "(('d \<Rightarrow> u64 \<times> 'd) \<times> u64) list \<Rightarrow> 'd \<Rightarrow> bool \<times> 'd" where
  "fields_hold [] d = (True, d)"
| "fields_hold (f # fs) d = (let (v, d) = fst f d in if v \<noteq> snd f then (False, d) else fields_hold fs d)"

section \<open>State\<close>

definition allocation_zero :: VRAMAllocation where
  "allocation_zero = \<lparr>gpu_va = 0, cpu_ptr = None, va_size = 0, va_alignment = 0\<rparr>"

record AQLLaunch =
  al_storage :: VRAMAllocation
  al_retained :: bool

definition launch_zero :: AQLLaunch where
  "launch_zero = \<lparr>al_storage = allocation_zero, al_retained = False\<rparr>"

record AQLLaunchResult =
  ar_completion :: u64
  ar_inactive :: u64
  ar_readIndex :: u64
  ar_stage :: u32

record PersistentAQLQueue =
  q_storage :: VRAMAllocation
  q_scratch :: VRAMAllocation
  q_owner :: u64
  q_metadataCPU :: u64
  q_handle :: u64
  q_ringHandle :: u64
  q_metadataHandle :: u64
  q_metadataVA :: u64
  q_lastDoorbell :: u64
  q_packets :: u32
  q_slot :: u32
  q_mapped :: bool
  q_retained :: bool
  q_published :: bool

definition queue_zero :: PersistentAQLQueue where
  "queue_zero = \<lparr>q_storage = allocation_zero, q_scratch = allocation_zero, q_owner = 0, q_metadataCPU = 0,
     q_handle = 0, q_ringHandle = 0, q_metadataHandle = 0, q_metadataVA = 0, q_lastDoorbell = 0, q_packets = 0,
     q_slot = 0, q_mapped = False, q_retained = False, q_published = False\<rparr>"

text \<open>The two pools; \<open>None\<close> is a walk of a free list that does not end.\<close>

definition free_low :: "GMCContext \<Rightarrow> VRAMAllocation \<Rightarrow> GMCContext option" where
  "free_low gmc a = map_option (\<lambda>va. gmc\<lparr>vram_alloc := va\<rparr>) (free (vram_alloc gmc) a)"

definition free_device :: "GMCContext \<Rightarrow> VRAMAllocation \<Rightarrow> GMCContext option" where
  "free_device gmc a = map_option (\<lambda>va. gmc\<lparr>device_vram_alloc := va\<rparr>) (free (device_vram_alloc gmc) a)"

definition free_device_if :: "GMCContext \<Rightarrow> VRAMAllocation \<Rightarrow> GMCContext option" where
  "free_device_if gmc a = (if va_size a \<noteq> 0 then free_device gmc a else Some gmc)"

definition kiq_answers :: "'d DeviceContext \<Rightarrow> MESContext \<Rightarrow> bool" where
  "kiq_answers dev mes \<longleftrightarrow> pci dev \<noteq> None \<and> uni_mes_active mes \<and> mi_enabled (mes_pipe mes 1) \<and>
     mi_inited (mes_pipe mes 1) \<and> \<not> submission_pending (mes_pipe mes 1)"

definition gc_version_ok :: "'d DeviceContext \<Rightarrow> bool" where
  "gc_version_ok dev \<longleftrightarrow> aql_scratch_layout_supported (ip_version (dev_ip dev) GC)"

definition gfx_masks :: "GFXConfig \<Rightarrow> u32 list option" where
  "gfx_masks gfx = gfx12_compute_masks (cfg_max_shader_engines gfx) (cfg_max_sh_per_se gfx) (num_active_cus gfx)
     (active_cu_bitmap gfx)"

section \<open>One bounded dispatch\<close>

text \<open>What \<^verbatim>\<open>vram_read_fence64\<close> leaves in its output: a refused read leaves it alone.\<close>

definition fence_into :: "'d DeviceContext \<Rightarrow> u64 \<Rightarrow> u64 \<Rightarrow> 'd \<Rightarrow> (kern_return \<times> u64) \<times> 'd" where
  "fence_into dev off old d =
     (let ((r, v), d') = vram_read_fence64 dev off d
      in if pci dev = None \<or> off AND 7 \<noteq> 0 \<or> \<not> vram_io_range dev off 8 then ((r, old), d') else ((r, v), d'))"

text \<open>
  The wait: \<open>kIOReturnSuccess\<close> is leaving the loop with the completion at zero. \<open>off\<close> is the storage's
  offset in VRAM.
\<close>

partial_function (option) aql_wait ::
  "'d DeviceContext \<Rightarrow> u64 \<Rightarrow> u64 \<Rightarrow> AQLLaunchResult \<Rightarrow> 'd \<Rightarrow> (AQLLaunchResult, 'd) outcome"
where
  "aql_wait dev off deadline res d =
     (let ((r, c), d) = fence_into dev (off + kAQLCompletionOffset + 8) (ar_completion res) d;
          res = res\<lparr>ar_completion := c\<rparr>
      in if r \<noteq> kIOReturnSuccess then Some ((r, res), d)
      else let ((r, i), d) = fence_into dev (off + kAQLInactiveOffset + 8) (ar_inactive res) d;
               res = res\<lparr>ar_inactive := i\<rparr>
      in if r \<noteq> kIOReturnSuccess then Some ((r, res), d)
      else if i \<noteq> 0 then Some ((kIOReturnIOError, res), d)
      else if c = 0 then Some ((kIOReturnSuccess, res), d)
      else if c \<noteq> 1 then Some ((kIOReturnIOError, res), d)
      else let d = sleep_ms dev 1 d; (now, d) = now_ns dev d
        in if now < deadline then aql_wait dev off deadline res d
           else Some ((kIOReturnTimeout, res), d))"

declare aql_wait.simps [code]

text \<open>The contexts the dispatch works on.\<close>

record aql_state =
  ls_gmc :: GMCContext
  ls_mes :: MESContext
  ls_launch :: AQLLaunch
  ls_stats :: "Counters option"
  ls_result :: AQLLaunchResult

definition set_stage :: "u32 \<Rightarrow> aql_state \<Rightarrow> aql_state" where
  "set_stage n s = s\<lparr>ls_result := (ls_result s)\<lparr>ar_stage := n\<rparr>\<rparr>"

text \<open>Before anything is allocated: the error, or the masks of the compute units.\<close>

definition launch_masks ::
  "'d DeviceContext \<Rightarrow> GFXConfig \<Rightarrow> AQLDispatchRequest \<Rightarrow> aql_state \<Rightarrow> kern_return + u32 list"
where
  "launch_masks dev gfx request s =
     (if al_retained (ls_launch s) then Inl kIOReturnBusy
      else if \<not> aql_dispatch_shape request then Inl kIOReturnBadArgument
      else if \<not> gc_version_ok dev then Inl kIOReturnUnsupported
      else if \<not> kiq_answers dev (ls_mes s) \<or> \<not> m_inited (vram_alloc (ls_gmc s)) \<or>
              max_scratch_waves_per_cu gfx = 0 \<or> bar2Size dev < ucast kAQLDoorbell * 4 + 8
      then Inl kIOReturnNotReady
      else (case gfx_masks gfx of None \<Rightarrow> Inl kIOReturnNotReady | Some masks \<Rightarrow> Inr masks))"

text \<open>From the doorbell on: publication, wait, statistics.\<close>

definition launch_publish ::
  "'d DeviceContext \<Rightarrow> AQLDispatchRequest \<Rightarrow> u64 \<Rightarrow> aql_state \<Rightarrow> 'd \<Rightarrow> (aql_state, 'd) outcome"
where
  "launch_publish dev request off s d =
     (let s = set_stage 3 s;
          (r, d) = vram_write_verified dev (off + kAQLMetadataOffset + write_dispatch_id) (Some (bytes64 1)) 8 d
      in if r \<noteq> kIOReturnSuccess then Some ((r, s), d)
      else let d = amdgpu_hdp_flush dev d;
               d = wr64 dev (bar2MemIndex dev) (ucast kAQLDoorbell * 4) 0 d;
               (start, d) = now_ns dev d;
               (tracked, cs) = work_begin (ls_stats s) AQL start;
               (now, d) = now_ns dev d
        in (case aql_wait dev off (now + ucast (timeoutUS request) * 1000) (ls_result s) d of
              None \<Rightarrow> None
            | Some ((r, res), d) \<Rightarrow>
                if r \<noteq> kIOReturnSuccess
                then Some ((r, s\<lparr>ls_result := res, ls_stats := work_end tracked AQL cs\<rparr>), d)
                else let (now, d) = now_ns dev d
                  in Some ((kIOReturnSuccess, s\<lparr>ls_result := res,
                       ls_stats := snd (work_complete tracked AQL now 0 UnknownDirection cs)\<rparr>), d)))"

text \<open>After the completion: unmapping, the check of the read index, and the release of the storage.\<close>

definition launch_finish ::
  "'d DeviceContext \<Rightarrow> u64 \<Rightarrow> aql_state \<Rightarrow> 'd \<Rightarrow> (aql_state, 'd) outcome"
where
  "launch_finish dev off s d =
     (let s = set_stage 4 s
      in (case mes_unmap_legacy_queue dev (ls_mes s) 1 0 0 kAQLDoorbell d of
            None \<Rightarrow> None
          | Some ((r, mes), d) \<Rightarrow>
              let s = s\<lparr>ls_mes := mes\<rparr>
              in if r \<noteq> kIOReturnSuccess then Some ((r, s), d)
              else let d = amdgpu_hdp_flush dev d;
                       ((r, i), d) = fence_into dev (off + kAQLMetadataOffset + read_dispatch_id)
                                       (ar_readIndex (ls_result s)) d;
                       s = s\<lparr>ls_result := (ls_result s)\<lparr>ar_readIndex := i\<rparr>\<rparr>
              in if r \<noteq> kIOReturnSuccess then Some ((r, s), d)
              else if i \<noteq> 1 then Some ((kIOReturnIOError, s), d)
              else (case free_low (ls_gmc s) (al_storage (ls_launch s)) of
                  None \<Rightarrow> None
                | Some gmc \<Rightarrow> Some ((kIOReturnSuccess, set_stage 5 (s\<lparr>ls_gmc := gmc, ls_launch := launch_zero\<rparr>)), d))))"

text \<open>Storage uploaded, the dispatch is mapped: from here only a complete dispatch gives the storage back.\<close>

definition launch_mapped ::
  "'d DeviceContext \<Rightarrow> AQLDispatchRequest \<Rightarrow> u64 \<Rightarrow> aql_state \<Rightarrow> 'd \<Rightarrow> (aql_state, 'd) outcome"
where
  "launch_mapped dev request base s d =
     (let d = amdgpu_hdp_flush dev d;
          s = set_stage 2 (s\<lparr>ls_launch := (ls_launch s)\<lparr>al_retained := True\<rparr>\<rparr>);
          off = base - vram_start (ls_gmc s)
      in (case mes_map_legacy_queue dev (ls_mes s) 1 0 0 kAQLDoorbell base
                 (base + kAQLMetadataOffset + write_dispatch_id) d of
            None \<Rightarrow> None
          | Some ((r, mes), d) \<Rightarrow>
              let s = s\<lparr>ls_mes := mes\<rparr>
              in if r \<noteq> kIOReturnSuccess then Some ((r, s), d)
              else and_then (launch_publish dev request off s d) (launch_finish dev off)))"

definition aql_launch ::
  "'d DeviceContext \<Rightarrow> GFXConfig \<Rightarrow> u64 \<Rightarrow> u64 \<Rightarrow> AQLDispatchRequest \<Rightarrow> aql_state \<Rightarrow> 'd \<Rightarrow> (aql_state, 'd) outcome"
where
  "aql_launch dev gfx descriptorVA kernargVA request s d =
     (let s = s\<lparr>ls_result := \<lparr>ar_completion = 0xFFFFFFFFFFFFFFFF, ar_inactive = 0, ar_readIndex = 0, ar_stage = 0\<rparr>\<rparr>
      in case launch_masks dev gfx request s of
           Inl r \<Rightarrow> Some ((r, s), d)
         | Inr masks \<Rightarrow>
             (case alloc (vram_alloc (ls_gmc s)) kAQLStorageBytes kAQLStorageBytes of
                None \<Rightarrow> None
              | Some (None, va) \<Rightarrow> Some ((kIOReturnNoMemory, s\<lparr>ls_gmc := (ls_gmc s)\<lparr>vram_alloc := va\<rparr>\<rparr>), d)
              | Some (Some a, va) \<Rightarrow>
                  let gmc = (ls_gmc s)\<lparr>vram_alloc := va\<rparr>;
                      base = gpu_va a;
                      s = s\<lparr>ls_gmc := gmc, ls_launch := (ls_launch s)\<lparr>al_storage := a\<rparr>\<rparr>;
                      staging = (if base < vram_start gmc then None
                                 else aql_build_storage base descriptorVA kernargVA request masks (num_active_cus gfx)
                                        (max_scratch_waves_per_cu gfx));
                      ((r, s), d) = (case staging of
                          None \<Rightarrow> ((kIOReturnBadArgument, s), d)
                        | Some ws \<Rightarrow>
                            let (r, d) = vram_write_verified dev (base - vram_start gmc) (Some (dw_bytes ws)) kAQLStorageBytes d
                            in ((r, set_stage 1 s), d))
                  in if r \<noteq> kIOReturnSuccess
                  then (case free_low (ls_gmc s) a of
                      None \<Rightarrow> None
                    | Some gmc \<Rightarrow> Some ((r, s\<lparr>ls_gmc := gmc, ls_launch := launch_zero\<rparr>), d))
                  else launch_mapped dev request base s d))"

section \<open>Scratch memory of a queue\<close>

text \<open>The largest occupancy, in steps of 32 waves, that the device pool can give.\<close>

function scratch_alloc ::
  "VRAMBumpAllocator \<Rightarrow> u32 \<Rightarrow> u32 \<Rightarrow> u32 \<Rightarrow> ((VRAMAllocation \<times> u64 \<times> u32) option \<times> VRAMBumpAllocator) option"
where
  "scratch_alloc va aligned engines waves =
     (if waves < kAQLScratchMinimumWavesPerEngine then Some (None, va)
      else let bytes = aql_scratch_bytes aligned waves engines
        in if 0xFFFFFFFF < bytes then scratch_alloc va aligned engines (waves - kAQLScratchMinimumWavesPerEngine)
        else (case alloc va bytes 16384 of
            None \<Rightarrow> None
          | Some (Some a, va) \<Rightarrow> Some (Some (a, bytes, waves), va)
          | Some (None, va) \<Rightarrow> scratch_alloc va aligned engines (waves - kAQLScratchMinimumWavesPerEngine)))"
  by pat_completeness auto
termination
  by (relation "measure (\<lambda>(va, aligned, engines, waves). unat waves)")
    (auto simp: kAQLScratchMinimumWavesPerEngine_def unat_sub word_le_nat_alt word_less_nat_alt not_less)

declare scratch_alloc.simps [simp del]

definition store_scratch :: "'d sharedmem \<Rightarrow> u64 \<Rightarrow> ScratchMetadata \<Rightarrow> 'd \<Rightarrow> 'd" where
  "store_scratch hm m sm d =
     (let d = foldl (\<lambda>d i. st32 hm (m + 144 + 4 * word_of_nat i) (scratch_resource_descriptor sm ! i) d) d [0..<4];
          d = st64 hm (m + 160) (scratch_backing_memory_location sm) d;
          d = st32 hm (m + 176) (scratch_wave64_lane_byte_size sm) d
      in st32 hm (m + 140) (compute_tmpring_size sm) d)"

text \<open>\<open>m\<close> is the CPU address of the metadata.\<close>

definition aql_queue_allocate_scratch ::
  "'d DeviceContext \<Rightarrow> 'd sharedmem \<Rightarrow> GFXConfig \<Rightarrow> u64 \<Rightarrow> u32 \<Rightarrow> PersistentAQLQueue \<times> GMCContext \<Rightarrow> 'd \<Rightarrow>
     (PersistentAQLQueue \<times> GMCContext, 'd) outcome"
where
  "aql_queue_allocate_scratch dev hm gfx m laneBytes s d =
     (let (q, gmc) = s; ip = ip_version (dev_ip dev) GC; engines = cfg_max_shader_engines gfx
      in case aql_scratch_geometry ip laneBytes (num_active_cus gfx) engines (max_scratch_waves_per_cu gfx) of
           None \<Rightarrow> Some ((kIOReturnBadArgument, s), d)
         | Some (aligned, waves, _) \<Rightarrow>
             (case scratch_alloc (device_vram_alloc gmc) aligned engines waves of
                None \<Rightarrow> None
              | Some (None, va) \<Rightarrow> Some ((kIOReturnNoMemory, q, gmc\<lparr>device_vram_alloc := va\<rparr>), d)
              | Some (Some (a, bytes, waves), va) \<Rightarrow>
                  let gmc = gmc\<lparr>device_vram_alloc := va\<rparr>
                  in (case aql_scratch_metadata ip (gpu_va a) bytes aligned engines waves of
                        None \<Rightarrow> map_option (\<lambda>gmc. ((kIOReturnBadArgument, q, gmc), d)) (free_device gmc a)
                      | Some sm \<Rightarrow> map_option (\<lambda>gmc. ((kIOReturnSuccess, q\<lparr>q_scratch := a\<rparr>, gmc), store_scratch hm m sm d))
                          (free_device_if gmc (q_scratch q)))))"

section \<open>Persistent queues\<close>

record queue_state =
  qs_gmc :: GMCContext
  qs_mes :: MESContext
  qs_queue :: PersistentAQLQueue

definition queue_doorbell :: "u32 \<Rightarrow> u32" where "queue_doorbell slot = kAQLDoorbell + slot * 2"

text \<open>The client's metadata must describe a fresh queue of this ring.\<close>

definition metadata_fresh :: "'d sharedmem \<Rightarrow> u64 \<Rightarrow> u64 \<Rightarrow> u32 \<Rightarrow> 'd \<Rightarrow> bool \<times> 'd" where
  "metadata_fresh hm m ringVA packets =
     fields_hold [(ld64 hm (m + write_dispatch_id), 0), (ld64 hm (m + read_dispatch_id), 0),
       (ld32_wide hm (m + 24), ucast packets), (ld64 hm (m + 8), ringVA), (ld32_wide hm (m + 136), read_dispatch_id),
       (ld32_wide hm (m + 40), 0), (ld32_wide hm (m + 180), 2)]"

definition open_refusal :: "'d DeviceContext \<Rightarrow> GFXConfig \<Rightarrow> u64 \<Rightarrow> u32 \<Rightarrow> queue_state \<Rightarrow> kern_return + u32 list" where
  "open_refusal dev gfx m slot s =
     (let q = qs_queue s
      in if q_mapped q \<or> q_retained q \<or> va_size (q_storage q) \<noteq> 0 then Inl kIOReturnBusy
      else if m = 0 \<or> m AND 63 \<noteq> 0 \<or> slot < 1 \<or> kPersistentAQLQueues < slot then Inl kIOReturnBadArgument
      else if \<not> gc_version_ok dev then Inl kIOReturnUnsupported
      else if \<not> kiq_answers dev (qs_mes s) \<or> max_scratch_waves_per_cu gfx = 0 \<or>
              bar2Size dev < ucast (queue_doorbell slot) * 4 + 8
      then Inl kIOReturnNotReady
      else (case gfx_masks gfx of None \<Rightarrow> Inl kIOReturnNotReady | Some masks \<Rightarrow> Inr masks))"

text \<open>The client's scratch addresses are never trusted: they are cleared before the queue has its own.\<close>

definition clear_scratch :: "'d sharedmem \<Rightarrow> u64 \<Rightarrow> 'd \<Rightarrow> 'd" where
  "clear_scratch hm m d =
     (let d = st32 hm (m + 140) 0 d;
          d = foldl (\<lambda>d i. st32 hm (m + 144 + 4 * word_of_nat i) 0 d) d [0..<4];
          d = st64 hm (m + 160) 0 d; d = st32 hm (m + 176) 0 d;
          d = st32 hm (m + 64) kAQLGroupApertureHi d
      in st32 hm (m + 68) kAQLPrivateApertureHi d)"

definition queue_staging :: "u32 list \<Rightarrow> u32 list" where
  "queue_staging mqd = put_words (mqd @ replicate (unat kAQLStorageBytes div 4 - 512) 0)
     [(signal_dw kAQLInactiveOffset 0, 1)]"

text \<open>A failure before the mapping gives both blocks back; the scratch block may not be there.\<close>

definition open_undo :: "kern_return \<Rightarrow> queue_state \<Rightarrow> 'd \<Rightarrow> (queue_state, 'd) outcome" where
  "open_undo r s d =
     (case free_low (qs_gmc s) (q_storage (qs_queue s)) of
        None \<Rightarrow> None
      | Some gmc \<Rightarrow> Some ((r, s\<lparr>qs_gmc := gmc, qs_queue := (qs_queue s)\<lparr>q_storage := allocation_zero\<rparr>\<rparr>), d))"

definition open_upload ::
  "'d DeviceContext \<Rightarrow> 'd sharedmem \<Rightarrow> GFXConfig \<Rightarrow> u64 \<Rightarrow> u64 \<Rightarrow> u32 \<Rightarrow> u32 \<Rightarrow> u32 list \<Rightarrow> queue_state \<Rightarrow> 'd \<Rightarrow>
     (queue_state, 'd) outcome"
where
  "open_upload dev hm gfx m metadataVA packets slot mqd s d =
     (let base = gpu_va (q_storage (qs_queue s));
          d = st32 hm (m + 72) (num_active_cus gfx - 1) d;
          d = st32 hm (m + 76) (max_scratch_waves_per_cu gfx - 1) d;
          d = st64 hm (m + 192) (base + kAQLInactiveOffset) d;
          (r, d) = vram_write_verified dev (base - vram_start (qs_gmc s)) (Some (dw_bytes (queue_staging mqd)))
                     kAQLStorageBytes d
      in if r \<noteq> kIOReturnSuccess
      then (case free_device_if (qs_gmc s) (q_scratch (qs_queue s)) of
          None \<Rightarrow> None
        | Some gmc \<Rightarrow> open_undo r (s\<lparr>qs_gmc := gmc, qs_queue := (qs_queue s)\<lparr>q_scratch := allocation_zero\<rparr>\<rparr>) d)
      else let s = s\<lparr>qs_queue := (qs_queue s)\<lparr>q_metadataVA := metadataVA, q_metadataCPU := m, q_packets := packets,
                     q_slot := slot, q_retained := True\<rparr>\<rparr>;
               d = amdgpu_hdp_flush dev d
        in (case mes_map_legacy_queue dev (qs_mes s) 1 (gfx1201_compute_pipe slot) (gfx1201_compute_queue slot)
                   (queue_doorbell slot) base (metadataVA + write_dispatch_id) d of
              None \<Rightarrow> None
            | Some ((r, mes), d) \<Rightarrow>
                let s = s\<lparr>qs_mes := mes\<rparr>
                in Some ((r, if r = kIOReturnSuccess
                              then s\<lparr>qs_queue := (qs_queue s)\<lparr>q_mapped := True, q_retained := False\<rparr>\<rparr> else s), d)))"

definition aql_queue_open ::
  "'d DeviceContext \<Rightarrow> 'd sharedmem \<Rightarrow> GFXConfig \<Rightarrow> u64 \<Rightarrow> u64 \<Rightarrow> u64 \<Rightarrow> u32 \<Rightarrow> u32 \<Rightarrow> queue_state \<Rightarrow> 'd \<Rightarrow>
     (queue_state, 'd) outcome"
where
  "aql_queue_open dev hm gfx ringVA metadataVA m packets slot s d =
     (case open_refusal dev gfx m slot s of
        Inl r \<Rightarrow> Some ((r, s), d)
      | Inr masks \<Rightarrow>
          let (fresh, d) = metadata_fresh hm m ringVA packets d
          in if \<not> fresh then Some ((kIOReturnBadArgument, s), d)
          else let (lane, d) = ld32 hm (m + 176) d
          in if kAQLMaxPrivateBytes < lane then Some ((kIOReturnBadArgument, s), d)
          else (case alloc (vram_alloc (qs_gmc s)) kAQLStorageBytes kAQLStorageBytes of
              None \<Rightarrow> None
            | Some (None, va) \<Rightarrow> Some ((kIOReturnNoMemory, s\<lparr>qs_gmc := (qs_gmc s)\<lparr>vram_alloc := va\<rparr>\<rparr>), d)
            | Some (Some a, va) \<Rightarrow>
                let s = s\<lparr>qs_gmc := (qs_gmc s)\<lparr>vram_alloc := va\<rparr>, qs_queue := (qs_queue s)\<lparr>q_storage := a\<rparr>\<rparr>
                in (case (if gpu_va a < vram_start (qs_gmc s) then None
                          else aql_build_mqd (gpu_va a) ringVA metadataVA packets (queue_doorbell slot) masks) of
                      None \<Rightarrow> open_undo kIOReturnBadArgument s d
                    | Some mqd \<Rightarrow>
                        let (requested, d) = ld32 hm (m + 176) d;
                            d = clear_scratch hm m d
                        in if requested = 0 then open_upload dev hm gfx m metadataVA packets slot mqd s d
                        else (case aql_queue_allocate_scratch dev hm gfx m requested (qs_queue s, qs_gmc s) d of
                            None \<Rightarrow> None
                          | Some ((r, q, gmc), d) \<Rightarrow>
                              let s = s\<lparr>qs_gmc := gmc, qs_queue := q\<rparr>
                              in if r \<noteq> kIOReturnSuccess then open_undo r s d
                              else open_upload dev hm gfx m metadataVA packets slot mqd s d))))"

text \<open>\<open>None\<close> is \<^verbatim>\<open>return false\<close>.\<close>

definition aql_queue_cpu_read_index :: "'d sharedmem \<Rightarrow> PersistentAQLQueue \<Rightarrow> 'd \<Rightarrow> u64 option \<times> 'd" where
  "aql_queue_cpu_read_index hm q d =
     (if \<not> q_mapped q \<or> q_metadataCPU q = 0 then (None, d)
      else let (v, d) = ld64 hm (q_metadataCPU q + read_dispatch_id) d in (Some v, d))"

definition aql_queue_kick ::
  "'d DeviceContext \<Rightarrow> 'd sharedmem \<Rightarrow> u64 \<Rightarrow> PersistentAQLQueue \<Rightarrow> 'd \<Rightarrow> (kern_return \<times> PersistentAQLQueue) \<times> 'd"
where
  "aql_queue_kick dev hm lastPacket q d =
     (if \<not> q_mapped q \<or> q_retained q \<or> q_metadataCPU q = 0 \<or> pci dev = None then ((kIOReturnNotReady, q), d)
      else if lastPacket = 0xFFFFFFFFFFFFFFFF then ((kIOReturnBadArgument, q), d)
      else let (reserved, d) = ld64 hm (q_metadataCPU q + write_dispatch_id) d
        in if reserved \<le> lastPacket then ((kIOReturnBadArgument, q), d)
        else if q_published q \<and> lastPacket \<le> q_lastDoorbell q then ((kIOReturnSuccess, q), d)
        else let d = amdgpu_hdp_flush dev d;
                 d = wr64 dev (bar2MemIndex dev) (ucast (queue_doorbell (q_slot q)) * 4) lastPacket d
          in ((kIOReturnSuccess, q\<lparr>q_lastDoorbell := lastPacket, q_published := True\<rparr>), d))"

text \<open>
  The scratch size of the first packet that asks for some, zero when there is none; a slot that is
  reserved but not yet published ends the search.
\<close>

primrec scratch_request :: "'d sharedmem \<Rightarrow> u64 \<Rightarrow> u32 \<Rightarrow> nat \<Rightarrow> u64 \<Rightarrow> 'd \<Rightarrow> u32 \<times> 'd" where
  "scratch_request hm ring packets 0 cursor d = (0, d)"
| "scratch_request hm ring packets (Suc n) cursor d =
     (let p = ring + 64 * (cursor AND ucast (packets - 1));
          (header, d) = ld16 hm p d
      in if header AND 255 = 1 then (0, d)
      else if header AND 255 \<noteq> 2 then scratch_request hm ring packets n (cursor + 1) d
      else let (v, d) = ld32 hm (p + 24) d
        in if v = 0 then scratch_request hm ring packets n (cursor + 1) d
        else ld32 hm (p + 24) d)"

definition aql_queue_service ::
  "'d DeviceContext \<Rightarrow> 'd sharedmem \<Rightarrow> GFXConfig \<Rightarrow> u64 \<Rightarrow> PersistentAQLQueue \<times> GMCContext \<Rightarrow> 'd \<Rightarrow>
     (u64 \<times> PersistentAQLQueue \<times> GMCContext, 'd) outcome"
where
  "aql_queue_service dev hm gfx ring s d =
     (let (q, gmc) = s; m = q_metadataCPU q
      in if \<not> q_mapped q \<or> q_retained q \<or> m = 0 \<or> ring = 0 \<or> gpu_va (q_storage q) < vram_start gmc
      then Some ((kIOReturnNotReady, 0, s), d)
      else let signal = gpu_va (q_storage q) - vram_start gmc + kAQLInactiveOffset + 8;
               ((r, inactive), d) = fence_into dev signal 0 d
      in if r \<noteq> kIOReturnSuccess \<or> inactive = 0 then Some ((r, inactive, s), d)
      else if inactive AND 0x401 = 0 \<or> inactive AND NOT 0x401 \<noteq> 0 then Some ((kIOReturnIOError, inactive, s), d)
      else let (rd, d) = ld64 hm (m + read_dispatch_id) d; (wr, d) = ld64 hm (m + write_dispatch_id) d
      in if wr \<le> rd then Some ((kIOReturnIOError, inactive, s), d)
      else let available = (if wr - rd < ucast (q_packets q) then wr - rd else ucast (q_packets q));
               (required, d) = scratch_request hm ring (q_packets q) (unat available) rd d
      in if required = 0 \<or> kAQLMaxPrivateBytes < required then Some ((kIOReturnBadArgument, inactive, s), d)
      else (case aql_queue_allocate_scratch dev hm gfx m required s d of
          None \<Rightarrow> None
        | Some ((r, s), d) \<Rightarrow>
            if r \<noteq> kIOReturnSuccess then Some ((r, inactive, s), d)
            else let d = amdgpu_hdp_flush dev d;
                     (r, d) = vram_write_verified dev signal (Some (bytes64 0)) 8 d;
                     d = amdgpu_hdp_flush dev d
              in Some ((r, if r = kIOReturnSuccess then 0 else inactive, s), d)))"

definition aql_queue_close :: "'d DeviceContext \<Rightarrow> queue_state \<Rightarrow> 'd \<Rightarrow> (queue_state, 'd) outcome" where
  "aql_queue_close dev s d =
     (let q = qs_queue s
      in if q_retained q then Some ((kIOReturnNotReady, s), d)
      else if \<not> q_mapped q then Some ((kIOReturnBadArgument, s), d)
      else let s = s\<lparr>qs_queue := q\<lparr>q_retained := True\<rparr>\<rparr>
        in (case mes_unmap_legacy_queue dev (qs_mes s) 1 (gfx1201_compute_pipe (q_slot q))
                   (gfx1201_compute_queue (q_slot q)) (queue_doorbell (q_slot q)) d of
              None \<Rightarrow> None
            | Some ((r, mes), d) \<Rightarrow>
                let s = s\<lparr>qs_mes := mes\<rparr>
                in if r \<noteq> kIOReturnSuccess then Some ((r, s), d)
                else (case free_device_if (qs_gmc s) (q_scratch q) of
                    None \<Rightarrow> None
                  | Some gmc \<Rightarrow>
                      (case free_low gmc (q_storage q) of
                         None \<Rightarrow> None
                       | Some gmc \<Rightarrow> Some ((kIOReturnSuccess, s\<lparr>qs_gmc := gmc, qs_queue := queue_zero\<rparr>), d)))))"

end
