(* ===== verification/Software_Monitor.thy ===== *)
theory Software_Monitor
  imports Aql
begin

text \<open>
  The observer of published and completed work: \<^verbatim>\<open>mac_amdgpu_observe_software_queues\<close> of
  \<^verbatim>\<open>dext/MacAMDGPU.cpp\<close> over the counters of \<^verbatim>\<open>Software_Stats\<close>, what a verified reset retires, and the
  callbacks of the raw submissions. Then the balance they keep: every submitted unit is completed, retired
  or pending, and a snapshot taken before any counter saturates passes the check of its readers.
\<close>

section \<open>Operations\<close>

text \<open>One slot of the loop: the queue is read, its progress and the counters are updated.\<close>

definition observe_queue ::
  "'d sharedmem \<Rightarrow> PersistentAQLQueue \<Rightarrow> QueueProgress \<Rightarrow> Counters \<Rightarrow> 'd \<Rightarrow> (QueueProgress \<times> Counters) \<times> 'd"
where
  "observe_queue hm q p c d =
     (if q_handle q = 0 \<or> \<not> q_mapped q then (progress_retire p c, d)
      else let c = c\<lparr>stats_data := (stats_data c)\<lparr>ss_activeQueues := ss_activeQueues (stats_data c) + 1\<rparr>\<rparr>;
               published = (if q_published q then q_lastDoorbell q + 1 else 0);
               (r, d) = aql_queue_cpu_read_index hm q d;
               (ok, p, c) = (case r of
                   None \<Rightarrow> (False, p, c)
                 | Some rd \<Rightarrow> progress_observe p c (q_handle q) published rd)
        in if \<not> ok
           then ((p, c\<lparr>stats_data := (stats_data c)\<lparr>ss_flags := ss_flags (stats_data c) OR stats_QueueSampleIncomplete\<rparr>\<rparr>), d)
           else let (queued, b) = stats_add (ss_queuedPackets (stats_data c)) (published - (case r of None \<Rightarrow> 0 | Some rd \<Rightarrow> rd))
             in ((p, c\<lparr>stats_data := mark_saturated b ((stats_data c)\<lparr>ss_queuedPackets := queued\<rparr>)\<rparr>), d))"

primrec observe_slots ::
  "'d sharedmem \<Rightarrow> (PersistentAQLQueue \<times> QueueProgress) list \<Rightarrow> Counters \<Rightarrow> 'd \<Rightarrow> (QueueProgress list \<times> Counters) \<times> 'd"
where
  "observe_slots hm [] c d = (([], c), d)"
| "observe_slots hm (x # xs) c d =
     (let ((p, c), d) = observe_queue hm (fst x) (snd x) c d;
          ((ps, c), d) = observe_slots hm xs c d
      in ((p # ps, c), d))"

text \<open>\<open>qs\<close> and \<open>ps\<close> are the two arrays of the device, of the same length.\<close>

definition observe_software_queues ::
  "'d sharedmem \<Rightarrow> PersistentAQLQueue list \<Rightarrow> QueueProgress list \<Rightarrow> Counters \<Rightarrow> 'd \<Rightarrow> (QueueProgress list \<times> Counters) \<times> 'd"
where
  "observe_software_queues hm qs ps c d =
     observe_slots hm (zip qs ps)
       (c\<lparr>stats_data := (stats_data c)\<lparr>ss_activeQueues := 0, ss_queuedPackets := 0,
            ss_flags := ss_flags (stats_data c) AND NOT stats_QueueSampleIncomplete\<rparr>\<rparr>) d"

primrec retire_progress :: "QueueProgress list \<Rightarrow> Counters \<Rightarrow> QueueProgress list \<times> Counters" where
  "retire_progress [] c = ([], c)"
| "retire_progress (p # ps) c =
     (let (p, c) = progress_retire p c; (ps, c) = retire_progress ps c in (p # ps, c))"

text \<open>After a verified reset of the device.\<close>

definition retire_software :: "QueueProgress list \<Rightarrow> Counters \<Rightarrow> u64 \<Rightarrow> QueueProgress list \<times> Counters" where
  "retire_software ps c now = retire_progress ps (counters_retireWork c now)"

text \<open>The range table the classification of copies uses, refreshed at every external method.\<close>

definition set_stats_ranges :: "u64 \<Rightarrow> u64 \<Rightarrow> u64 \<Rightarrow> u64 \<Rightarrow> Counters \<Rightarrow> Counters" where
  "set_stats_ranges vb vn gb gn c =
     c\<lparr>stats_vramBase := vb, stats_vramBytes := vn, stats_gartBase := gb, stats_gartBytes := gn\<rparr>"

section \<open>Raw submissions\<close>

text \<open>
  The observer of the one raw submission: \<open>raw_observed\<close> is \<^verbatim>\<open>submission.completionObserver\<close> being set. Its
  clock readings are arguments.
\<close>

record raw_stats =
  raw_counters :: Counters
  raw_engine :: StatsEngine
  raw_failed :: bool
  raw_observed :: bool

definition raw_work_completed :: "u64 \<Rightarrow> raw_stats \<Rightarrow> raw_stats" where
  "raw_work_completed now s =
     s\<lparr>raw_counters := counters_complete (raw_counters s) (raw_engine s) now 0 UnknownDirection 1\<rparr>"

definition raw_work_published :: "StatsEngine \<Rightarrow> u64 \<Rightarrow> raw_stats \<Rightarrow> raw_stats" where
  "raw_work_published i now s =
     (let (ok, c) = counters_begin (raw_counters s) i now 1
      in if \<not> ok then s\<lparr>raw_counters := c\<rparr>
         else \<lparr>raw_counters = c, raw_engine = i, raw_failed = False, raw_observed = True\<rparr>)"

text \<open>\<open>expected\<close> and \<open>usesCP\<close> of the submission the client still waits for are the last two arguments.\<close>

definition raw_wait_failed :: "u64 \<Rightarrow> bool \<Rightarrow> u64 \<Rightarrow> bool \<Rightarrow> raw_stats \<Rightarrow> raw_stats" where
  "raw_wait_failed expected usesCP sub_expected sub_usesCP s =
     (if \<not> raw_observed s \<or> raw_failed s \<or> expected \<noteq> sub_expected \<or> usesCP \<noteq> sub_usesCP then s
      else s\<lparr>raw_counters := counters_fail (raw_counters s) (raw_engine s), raw_failed := True\<rparr>)"

section \<open>Histories\<close>

text \<open>
  Every operation on the counters takes its own reading of one clock that does not run backwards; the
  queues and the host memory an observation meets are arbitrary.
\<close>

inductive stats_step ::
  "'d sharedmem \<Rightarrow> u64 \<times> QueueProgress list \<times> Counters \<Rightarrow> u64 \<times> QueueProgress list \<times> Counters \<Rightarrow> bool"
  for hm where
  step_begin: "now \<le> t \<Longrightarrow> stats_step hm (now, ps, c) (t, ps, snd (counters_begin c i t n))"
| step_complete: "now \<le> t \<Longrightarrow> stats_step hm (now, ps, c) (t, ps, counters_complete c i t bytes dir n)"
| step_fail: "stats_step hm (now, ps, c) (now, ps, counters_fail c i)"
| step_ranges: "stats_step hm (now, ps, c) (now, ps, set_stats_ranges vb vn gb gn c)"
| step_participants: "stats_step hm (now, ps, c) (now, ps, c\<lparr>stats_data := (stats_data c)\<lparr>ss_participants := n\<rparr>\<rparr>)"
| step_observe: "length qs = length ps \<Longrightarrow> observe_software_queues hm qs ps c d = ((ps', c'), d') \<Longrightarrow>
     stats_step hm (now, ps, c) (now, ps', c')"
| step_retire: "now \<le> t \<Longrightarrow> retire_software ps c t = (ps', c') \<Longrightarrow> stats_step hm (now, ps, c) (t, ps', c')"

inductive stats_reaches ::
  "'d sharedmem \<Rightarrow> u64 \<times> QueueProgress list \<times> Counters \<Rightarrow> u64 \<times> QueueProgress list \<times> Counters \<Rightarrow> bool"
  for hm where
  stats_here: "stats_reaches hm s s"
| stats_more: "stats_reaches hm s t \<Longrightarrow> stats_step hm t u \<Longrightarrow> stats_reaches hm s u"

section \<open>The balance\<close>

text \<open>One engine at the time of the last operation: units are neither lost nor invented, time is bounded.\<close>

definition engine_ok :: "u64 \<Rightarrow> u64 \<Rightarrow> u64 \<Rightarrow> EngineSnapshot \<Rightarrow> bool" where
  "engine_ok start now since e \<longleftrightarrow>
     unat (es_submitted e) = unat (es_completed e) + unat (es_retired e) + unat (es_pending e) \<and>
     es_failed e \<le> es_submitted e \<and>
     unat start + unat (es_pendingNs e) \<le> (if es_pending e = 0 then unat now else unat since) \<and>
     (es_pending e \<noteq> 0 \<longrightarrow> since \<le> now)"

definition flags_ok :: "u32 \<Rightarrow> bool" where
  "flags_ok f \<longleftrightarrow> f \<in> {1, 5, 9, 13}"

definition counters_ok :: "u64 \<Rightarrow> Counters \<Rightarrow> bool" where
  "counters_ok now c \<longleftrightarrow>
     (let s = stats_data c
      in ss_version s = stats_kVersion \<and> ss_size s = stats_snapshot_size \<and> ss_reserved s = 0 \<and>
         flags_ok (ss_flags s) \<and> ss_generation s \<noteq> 0 \<and> ss_sessionStartNs s \<le> now \<and>
         (\<forall>i \<in> set stats_engines. engine_ok (ss_sessionStartNs s) now (pendingSince c i) (ss_engines s i)))"

definition saturated :: "Counters \<Rightarrow> bool" where
  "saturated c \<longleftrightarrow> ss_flags (stats_data c) AND stats_Saturated \<noteq> 0"

text \<open>Packets seen published and not yet consumed, by the counters and by the progress of the queues.\<close>

definition packets_open :: "Counters \<Rightarrow> int" where
  "packets_open c = uint (ss_publishedPackets (stats_data c)) - uint (ss_consumedPackets (stats_data c))
     - uint (ss_retiredPackets (stats_data c))"

definition progress_ok :: "QueueProgress \<Rightarrow> bool" where
  "progress_ok p \<longleftrightarrow> qp_consumed p \<le> qp_published p"

definition progress_open :: "QueueProgress \<Rightarrow> int" where
  "progress_open p = uint (qp_published p) - uint (qp_consumed p)"

definition packets_ok :: "QueueProgress list \<Rightarrow> Counters \<Rightarrow> bool" where
  "packets_ok ps c \<longleftrightarrow> (\<forall>p \<in> set ps. progress_ok p) \<and>
     (\<not> saturated c \<longrightarrow> packets_open c = (\<Sum>p \<leftarrow> ps. progress_open p) \<and>
        uint (ss_queuedPackets (stats_data c)) \<le> (\<Sum>p \<leftarrow> ps. progress_open p))"

end
