(* ===== verification/Software_Monitor_Properties.thy ===== *)
theory Software_Monitor_Properties
  imports Software_Monitor
begin

text \<open>
  The balance of \<^verbatim>\<open>Software_Monitor\<close> is kept by every operation on the counters, and it is what the readers of a
  snapshot check.
\<close>

section \<open>Additions and flags\<close>

lemma room_nat: "unat (0xFFFFFFFFFFFFFFFF - a :: u64) = 18446744073709551615 - unat a"
proof -
  have "unat a < 18446744073709551616" using unat_lt_64 [of a] by simp
  then have "unat a \<le> 18446744073709551615" by linarith
  then have "a \<le> 0xFFFFFFFFFFFFFFFF" by (simp add: word_le_nat_alt)
  then show ?thesis by (simp add: unat_sub64)
qed

lemma room_iff: "0xFFFFFFFFFFFFFFFF - a < (b :: u64) \<longleftrightarrow> \<not> unat a + unat b < 2 ^ 64"
proof -
  have "unat a < 18446744073709551616" using unat_lt_64 [of a] by simp
  then show ?thesis unfolding word_less_nat_alt room_nat by (simp, linarith)
qed

lemma stats_add_fits: "unat a + unat b < 2 ^ 64 \<Longrightarrow> stats_add a b = (a + b, False)"
  by (simp add: stats_add_def room_iff)

lemma stats_add_exact:
  assumes "stats_add a b = (r, False)"
  shows "unat r = unat a + unat b"
proof -
  have "unat a + unat b < 2 ^ 64" "r = a + b" using assms by (auto simp: stats_add_def room_iff split: if_splits)
  then show ?thesis by (simp add: unat_add64)
qed

lemma stats_add_int:
  assumes "stats_add a b = (r, False)"
  shows "uint r = uint a + uint b"
  unfolding uint_nat by (simp only: stats_add_exact [OF assms] of_nat_add)

lemma mark_saturated_fields [simp]:
  "ss_version (mark_saturated b s) = ss_version s" "ss_size (mark_saturated b s) = ss_size s"
  "ss_reserved (mark_saturated b s) = ss_reserved s" "ss_generation (mark_saturated b s) = ss_generation s"
  "ss_sampledAtNs (mark_saturated b s) = ss_sampledAtNs s" "ss_sessionStartNs (mark_saturated b s) = ss_sessionStartNs s"
  "ss_publishedPackets (mark_saturated b s) = ss_publishedPackets s"
  "ss_consumedPackets (mark_saturated b s) = ss_consumedPackets s"
  "ss_retiredPackets (mark_saturated b s) = ss_retiredPackets s"
  "ss_queuedPackets (mark_saturated b s) = ss_queuedPackets s" "ss_engines (mark_saturated b s) = ss_engines s"
  "ss_flags (mark_saturated False s) = ss_flags s" "ss_flags (mark_saturated True s) = ss_flags s OR stats_Saturated"
  by (simp_all add: mark_saturated_def)

lemma set_engine_fields [simp]:
  "ss_version (set_engine i e s) = ss_version s" "ss_size (set_engine i e s) = ss_size s"
  "ss_reserved (set_engine i e s) = ss_reserved s" "ss_generation (set_engine i e s) = ss_generation s"
  "ss_sampledAtNs (set_engine i e s) = ss_sampledAtNs s" "ss_sessionStartNs (set_engine i e s) = ss_sessionStartNs s"
  "ss_publishedPackets (set_engine i e s) = ss_publishedPackets s"
  "ss_consumedPackets (set_engine i e s) = ss_consumedPackets s"
  "ss_retiredPackets (set_engine i e s) = ss_retiredPackets s"
  "ss_queuedPackets (set_engine i e s) = ss_queuedPackets s" "ss_flags (set_engine i e s) = ss_flags s"
  "ss_engines (set_engine i e s) = (ss_engines s)(i := e)"
  by (simp_all add: set_engine_def)

lemma flags_ok_changes:
  assumes "flags_ok f"
  shows "flags_ok (f OR stats_Saturated)" "flags_ok (f OR stats_QueueSampleIncomplete)"
    "flags_ok (f AND NOT stats_QueueSampleIncomplete)" "(f OR stats_Saturated) AND stats_Saturated \<noteq> 0"
    "(f OR stats_QueueSampleIncomplete) AND stats_Saturated = f AND stats_Saturated"
    "(f AND NOT stats_QueueSampleIncomplete) AND stats_Saturated = f AND stats_Saturated"
  using assms by (auto simp: flags_ok_def stats_Saturated_def stats_QueueSampleIncomplete_def)

lemma mark_flags: "flags_ok (ss_flags s) \<Longrightarrow> flags_ok (ss_flags (mark_saturated b s))"
  using flags_ok_changes(1) [of "ss_flags s"] by (cases b) simp_all

lemma mark_sat:
  "flags_ok (ss_flags s) \<Longrightarrow>
     ss_flags (mark_saturated b s) AND stats_Saturated = 0 \<longleftrightarrow> \<not> b \<and> ss_flags s AND stats_Saturated = 0"
  using flags_ok_changes(4) [of "ss_flags s"] by (cases b) simp_all

section \<open>Engines\<close>

text \<open>One operation on one engine, by naturals: the sums never wrap.\<close>

lemma engine_okD:
  assumes "engine_ok s now u e"
  shows "unat (es_submitted e) = unat (es_completed e) + unat (es_retired e) + unat (es_pending e)"
    "unat (es_failed e) \<le> unat (es_submitted e)"
    "es_pending e = 0 \<Longrightarrow> unat s + unat (es_pendingNs e) \<le> unat now"
    "es_pending e \<noteq> 0 \<Longrightarrow> unat s + unat (es_pendingNs e) \<le> unat u \<and> unat u \<le> unat now"
  using assms by (auto simp: engine_ok_def word_le_nat_alt)

lemma engine_ok_later: "engine_ok s now u e \<Longrightarrow> now \<le> t \<Longrightarrow> engine_ok s t u e"
  by (auto simp: engine_ok_def word_le_nat_alt split: if_splits)

lemma engine_begin:
  assumes ok: "engine_ok s now u e" and t: "now \<le> t" and n: "n \<noteq> 0"
    and fit: "unat (es_submitted e) + unat n < 2 ^ 64" "unat (es_pending e) + unat n < 2 ^ 64"
  shows "engine_ok s t (if es_pending e = 0 then t else u)
    (e\<lparr>es_submitted := es_submitted e + n, es_pending := es_pending e + n\<rparr>)"
proof -
  have "unat n \<noteq> 0" using n by (simp add: unat_eq_zero)
  then have "es_pending e + n \<noteq> 0" using unat_add64 [OF fit(2)] by (metis add_is_0 unat_0)
  then show ?thesis
    using engine_okD [OF ok] t unat_add64 [OF fit(1)] unat_add64 [OF fit(2)]
    by (auto simp: engine_ok_def word_le_nat_alt)
qed

lemma since_room:
  assumes "engine_ok s now u e" "es_pending e \<noteq> 0" "u \<le> t"
  shows "stats_add (es_pendingNs e) (t - u) = (es_pendingNs e + (t - u), False)"
    "unat s + unat (es_pendingNs e + (t - u)) \<le> unat t"
proof -
  have u: "unat s + unat (es_pendingNs e) \<le> unat u" "unat (t - u) = unat t - unat u" "unat u \<le> unat t"
    using engine_okD(4) [OF assms(1,2)] assms(3) by (simp_all add: unat_sub64 word_le_nat_alt)
  then have "unat (es_pendingNs e) + unat (t - u) < 18446744073709551616" using unat_lt_64 [of t] by linarith
  then have fit: "unat (es_pendingNs e) + unat (t - u) < 2 ^ 64" by simp
  show "stats_add (es_pendingNs e) (t - u) = (es_pendingNs e + (t - u), False)" by (rule stats_add_fits [OF fit])
  show "unat s + unat (es_pendingNs e + (t - u)) \<le> unat t" unfolding unat_add64 [OF fit] using u by linarith
qed

lemma engine_complete:
  assumes ok: "engine_ok s now u e" and t: "now \<le> t" and n: "n \<noteq> 0" "n \<le> es_pending e" "u \<le> t"
    and ns: "(if es_pending e - n = 0 then stats_add (es_pendingNs e) (t - u) else (es_pendingNs e, False)) = (ns, b)"
  shows "engine_ok s t u (e\<lparr>es_completed := es_completed e + n, es_pending := es_pending e - n,
    es_pendingNs := ns, es_bytes := bs\<rparr>)"
proof -
  have p: "es_pending e \<noteq> 0" using n by auto
  have n': "unat n \<le> unat (es_pending e)" "unat (es_pending e - n) = unat (es_pending e) - unat n"
    using n(2) by (simp_all add: word_le_nat_alt unat_sub64)
  have "unat (es_completed e) + unat n < 18446744073709551616"
    using engine_okD(1) [OF ok] n'(1) unat_lt_64 [of "es_submitted e"] by linarith
  then have "unat (es_completed e) + unat n < 2 ^ 64" by simp
  note finished = unat_add64 [OF this]
  note D = engine_okD(1,2) [OF ok] engine_okD(4) [OF ok p]
  show ?thesis
  proof (cases "es_pending e - n = 0")
    case True
    then have "ns = es_pendingNs e + (t - u)" using ns since_room(1) [OF ok p n(3)] by simp
    then show ?thesis using True since_room(2) [OF ok p n(3)] D n' finished n(3)
      by (simp add: engine_ok_def word_le_nat_alt)
  next
    case False
    then show ?thesis using ns D n' finished n(3) t by (simp add: engine_ok_def word_le_nat_alt)
  qed
qed

lemma engine_retire:
  assumes ok: "engine_ok s now u e" and t: "now \<le> t" and p: "es_pending e \<noteq> 0"
  shows "u \<le> t" "stats_add (es_pendingNs e) (t - u) = (es_pendingNs e + (t - u), False)"
    "stats_add (es_retired e) (es_pending e) = (es_retired e + es_pending e, False)"
    "engine_ok s t u (e\<lparr>es_pendingNs := es_pendingNs e + (t - u), es_retired := es_retired e + es_pending e,
       es_pending := 0\<rparr>)"
proof -
  note D = engine_okD(1,2) [OF ok] engine_okD(4) [OF ok p]
  show u: "u \<le> t" using D t by (simp add: word_le_nat_alt)
  show "stats_add (es_pendingNs e) (t - u) = (es_pendingNs e + (t - u), False)" by (rule since_room(1) [OF ok p u])
  have "unat (es_retired e) + unat (es_pending e) < 18446744073709551616"
    using D unat_lt_64 [of "es_submitted e"] by linarith
  then have fit: "unat (es_retired e) + unat (es_pending e) < 2 ^ 64" by simp
  show "stats_add (es_retired e) (es_pending e) = (es_retired e + es_pending e, False)" by (rule stats_add_fits [OF fit])
  show "engine_ok s t u (e\<lparr>es_pendingNs := es_pendingNs e + (t - u), es_retired := es_retired e + es_pending e,
       es_pending := 0\<rparr>)"
    using D since_room(2) [OF ok p u] unat_add64 [OF fit] by (simp add: engine_ok_def word_le_nat_alt)
qed

section \<open>Counters\<close>

lemma counters_okD:
  assumes "counters_ok now c"
  shows "flags_ok (ss_flags (stats_data c))" "ss_sessionStartNs (stats_data c) \<le> now"
    "i \<in> set stats_engines \<Longrightarrow>
       engine_ok (ss_sessionStartNs (stats_data c)) now (pendingSince c i) (ss_engines (stats_data c) i)"
  using assms by (simp_all add: counters_ok_def Let_def)

lemma counters_ok_later: "counters_ok now c \<Longrightarrow> now \<le> t \<Longrightarrow> counters_ok t c"
  by (auto simp: counters_ok_def Let_def intro: engine_ok_later order_trans)

lemma counters_okI:
  assumes "counters_ok now c" "now \<le> t" "engine_ok (ss_sessionStartNs (stats_data c)) t since e"
    "stats_data c' = mark_saturated b (set_engine i e (stats_data c))"
    "pendingSince c' = (pendingSince c)(i := since)"
  shows "counters_ok t c'"
  using counters_ok_later [OF assms(1,2)] assms(3) unfolding counters_ok_def Let_def assms(4,5)
  by (simp add: mark_flags)

lemma real_engine: "i \<noteq> EngineCount \<Longrightarrow> i \<in> set stats_engines"
  by (cases i) (simp_all add: stats_engines_def)

lemma stats_begin_keeps_ok:
  assumes ok: "counters_ok now c" and t: "now \<le> t"
  shows "counters_ok t (snd (counters_begin c i t n))"
proof (cases "i = EngineCount \<or> n = 0 \<or> ss_generation (stats_data c) = 0 \<or> t < ss_sessionStartNs (stats_data c)")
  case True
  then show ?thesis using counters_ok_later [OF ok t] by (simp add: counters_begin_def)
next
  case False
  then have i: "i \<in> set stats_engines" "n \<noteq> 0" using real_engine by auto
  let ?e = "ss_engines (stats_data c) i"
  note e = counters_okD(3) [OF ok i(1)]
  show ?thesis
  proof (cases "0xFFFFFFFFFFFFFFFF - es_submitted ?e < n \<or> 0xFFFFFFFFFFFFFFFF - es_pending ?e < n")
    case True
    have "counters_ok t (c\<lparr>stats_data := mark_saturated True (stats_data c)\<rparr>)"
      by (rule counters_okI [OF ok t, where since = "pendingSince c i" and b = True and i = i and e = ?e])
        (auto simp: engine_ok_later [OF e t] set_engine_def)
    then show ?thesis using False True by (simp add: counters_begin_def Let_def)
  next
    case room: False
    then have fit: "unat (es_submitted ?e) + unat n < 2 ^ 64" "unat (es_pending ?e) + unat n < 2 ^ 64"
      by (simp_all only: room_iff de_Morgan_disj not_not)
    show ?thesis using False room
      by (intro counters_okI [OF ok t engine_begin [OF e t i(2) fit], where b = False and i = i])
        (auto simp: counters_begin_def Let_def mark_saturated_def)
  qed
qed

lemma complete_keeps_ok:
  assumes ok: "counters_ok now c" and t: "now \<le> t"
  shows "counters_ok t (counters_complete c i t bytes dir n)"
proof (cases "i = EngineCount \<or> dir = DirectionCount \<or> n = 0 \<or> es_pending (ss_engines (stats_data c) i) < n \<or>
    t < pendingSince c i")
  case True
  then show ?thesis using counters_ok_later [OF ok t] by (auto simp: counters_complete_def Let_def)
next
  case False
  then have i: "i \<in> set stats_engines" and n: "n \<noteq> 0" "n \<le> es_pending (ss_engines (stats_data c) i)" "pendingSince c i \<le> t"
    using real_engine by auto
  let ?e = "ss_engines (stats_data c) i"
  obtain ns b1 where ns: "(if es_pending ?e - n = 0 then stats_add (es_pendingNs ?e) (t - pendingSince c i)
      else (es_pendingNs ?e, False)) = (ns, b1)" by fastforce
  obtain tb b2 where tb: "stats_add (es_bytes ?e dir) bytes = (tb, b2)" by fastforce
  note e = engine_complete [OF counters_okD(3) [OF ok i] t n ns, of "(es_bytes ?e)(dir := tb)"]
  show ?thesis using False ns tb
    by (intro counters_okI [OF ok t e, where b = "b1 \<or> b2" and i = i]) (auto simp: counters_complete_def Let_def)
qed

lemma fail_keeps_ok:
  assumes ok: "counters_ok now c"
  shows "counters_ok now (counters_fail c i)"
proof (cases "i \<noteq> EngineCount \<and> es_failed (ss_engines (stats_data c) i) < es_submitted (ss_engines (stats_data c) i)")
  case True
  then have i: "i \<in> set stats_engines" using real_engine by blast
  let ?e = "ss_engines (stats_data c) i"
  have "es_failed ?e + 1 \<le> es_submitted ?e" using True by (simp add: inc_le)
  then have "engine_ok (ss_sessionStartNs (stats_data c)) now (pendingSince c i) (?e\<lparr>es_failed := es_failed ?e + 1\<rparr>)"
    using counters_okD(3) [OF ok i] by (simp add: engine_ok_def)
  then show ?thesis using True
    by (intro counters_okI [OF ok order_refl, where since = "pendingSince c i" and b = False and i = i])
      (auto simp: counters_fail_def Let_def mark_saturated_def)
qed (use ok in \<open>auto simp: counters_fail_def Let_def\<close>)

lemma retire_engine_ok:
  assumes ok: "counters_ok now c" and t: "now \<le> t" and i: "i \<in> set stats_engines"
  shows "counters_ok t (retire_engine t c i)"
proof (cases "es_pending (ss_engines (stats_data c) i) = 0")
  case True
  then show ?thesis using counters_ok_later [OF ok t] by (simp add: retire_engine_def)
next
  case False
  note e = engine_retire [OF counters_okD(3) [OF ok i] t False]
  show ?thesis using False e(1-3)
    by (intro counters_okI [OF ok t e(4), where b = False and i = i]) (auto simp: retire_engine_def Let_def)
qed

lemma retire_work_ok:
  assumes ok: "counters_ok now c" and t: "now \<le> t"
  shows "counters_ok t (counters_retireWork c t)"
proof -
  have "counters_ok t (foldl (retire_engine t) c js)" if "set js \<subseteq> set stats_engines" "counters_ok t c" for js c
    using that by (induction js arbitrary: c) (auto intro: retire_engine_ok [OF _ order_refl])
  then have "counters_ok t (foldl (retire_engine t) c stats_engines)"
    using counters_ok_later [OF ok t] by blast
  then show ?thesis by (simp add: counters_retireWork_def Let_def counters_ok_def)
qed

text \<open>What the queues change, the engines do not see.\<close>

lemma counters_ok_packets:
  assumes "counters_ok now c" "flags_ok (ss_flags s)" "ss_version s = ss_version (stats_data c)"
    "ss_size s = ss_size (stats_data c)" "ss_reserved s = ss_reserved (stats_data c)"
    "ss_generation s = ss_generation (stats_data c)" "ss_sessionStartNs s = ss_sessionStartNs (stats_data c)"
    "ss_engines s = ss_engines (stats_data c)"
  shows "counters_ok now (c\<lparr>stats_data := s\<rparr>)"
  using assms by (simp add: counters_ok_def Let_def)

section \<open>Packets\<close>

abbreviation stats_flags :: "Counters \<Rightarrow> u32" where
  "stats_flags c \<equiv> ss_flags (stats_data c)"

text \<open>
  What one step on the queues does: the counters and the progress of the queue move together, and the
  saturation flag is never taken back.
\<close>

definition queue_balanced :: "QueueProgress \<Rightarrow> Counters \<Rightarrow> QueueProgress \<Rightarrow> Counters \<Rightarrow> bool" where
  "queue_balanced p c p' c' \<longleftrightarrow> progress_ok p' \<and>
     (\<not> saturated c' \<longrightarrow> \<not> saturated c \<and>
        packets_open c' - progress_open p' = packets_open c - progress_open p \<and>
        uint (ss_queuedPackets (stats_data c')) \<le> uint (ss_queuedPackets (stats_data c)) + progress_open p')"

definition same_work :: "Counters \<Rightarrow> Counters \<Rightarrow> bool" where
  "same_work c c' \<longleftrightarrow> (\<forall>now. counters_ok now c \<longrightarrow> counters_ok now c')"

lemma progress_open_pos: "progress_ok p \<Longrightarrow> 0 \<le> progress_open p"
  by (simp add: progress_ok_def progress_open_def word_le_def)

lemma uint_difference: "b \<le> a \<Longrightarrow> uint (a - b) = uint a - uint (b :: u64)"
  by (simp add: uint_sub_if' word_le_def)

lemma retire_balanced:
  assumes ok: "progress_ok p" "flags_ok (stats_flags c)" and r: "progress_retire p c = (p', c')"
  shows "p' = progress_zero" "queue_balanced p c p' c'" "flags_ok (stats_flags c')" "same_work c c'"
    "ss_queuedPackets (stats_data c') = ss_queuedPackets (stats_data c)"
    "uint (ss_queuedPackets (stats_data c')) \<le> uint (ss_queuedPackets (stats_data c))"
proof -
  obtain gone b where add: "stats_add (ss_retiredPackets (stats_data c)) (qp_published p - qp_consumed p) = (gone, b)"
    by fastforce
  with r have eq: "p' = progress_zero"
    "c' = c\<lparr>stats_data := mark_saturated b ((stats_data c)\<lparr>ss_retiredPackets := gone\<rparr>)\<rparr>"
    by (simp_all add: progress_retire_def)
  show "p' = progress_zero" by (rule eq(1))
  show "flags_ok (stats_flags c')" using ok(2) by (simp add: eq mark_flags)
  show "ss_queuedPackets (stats_data c') = ss_queuedPackets (stats_data c)" by (simp add: eq)
  then show "uint (ss_queuedPackets (stats_data c')) \<le> uint (ss_queuedPackets (stats_data c))" by simp
  show "same_work c c'"
    unfolding same_work_def eq by (auto intro!: counters_ok_packets simp: mark_flags counters_okD(1))
  have "\<not> saturated c' \<longleftrightarrow> \<not> b \<and> \<not> saturated c" using ok(2) by (simp add: saturated_def eq mark_sat)
  moreover have "\<not> b \<Longrightarrow> uint gone = uint (ss_retiredPackets (stats_data c)) + progress_open p"
    using stats_add_int [of _ _ gone] add ok(1) by (simp add: uint_difference progress_ok_def progress_open_def)
  ultimately show "queue_balanced p c p' c'"
    by (auto simp: queue_balanced_def eq packets_open_def progress_ok_def progress_open_def progress_zero_def)
qed

lemma balanced_refl: "progress_ok p \<Longrightarrow> queue_balanced p c p c"
  using progress_open_pos [of p] by (simp add: queue_balanced_def)

lemma same_work_refl: "same_work c c"
  by (simp add: same_work_def)

lemma balanced_then:
  assumes "queue_balanced p c p1 c1" "ss_queuedPackets (stats_data c1) = ss_queuedPackets (stats_data c)"
    "queue_balanced p1 c1 p' c'"
  shows "queue_balanced p c p' c'"
  using assms by (auto simp: queue_balanced_def)

text \<open>The second half of \<open>progress_observe\<close>: the same queue has gone on.\<close>

lemma advance_balanced:
  assumes ok: "flags_ok (stats_flags c)" "rd \<le> pub" "qp_published p \<le> pub" "qp_consumed p \<le> rd"
    and add: "stats_add (ss_publishedPackets (stats_data c)) (pub - qp_published p) = (P, b1)"
      "stats_add (ss_consumedPackets (stats_data c)) (rd - qp_consumed p) = (C, b2)"
    and eq: "p' = p\<lparr>qp_published := pub, qp_consumed := rd\<rparr>"
      "c' = c\<lparr>stats_data := mark_saturated (b1 \<or> b2)
         ((stats_data c)\<lparr>ss_publishedPackets := P, ss_consumedPackets := C\<rparr>)\<rparr>"
  shows "queue_balanced p c p' c'" "flags_ok (stats_flags c')" "same_work c c'"
proof -
  show "flags_ok (stats_flags c')" using ok(1) by (simp add: eq mark_flags)
  show "same_work c c'"
    unfolding same_work_def eq by (auto intro!: counters_ok_packets simp: mark_flags counters_okD(1))
  have sat: "\<not> saturated c' \<longleftrightarrow> \<not> b1 \<and> \<not> b2 \<and> \<not> saturated c" using ok(1) by (simp add: saturated_def eq mark_sat)
  have P: "uint P = uint (ss_publishedPackets (stats_data c)) + (uint pub - uint (qp_published p))" if "\<not> b1"
    using that stats_add_int [of _ _ P] add(1) ok(3) by (simp add: uint_difference)
  have C: "uint C = uint (ss_consumedPackets (stats_data c)) + (uint rd - uint (qp_consumed p))" if "\<not> b2"
    using that stats_add_int [of _ _ C] add(2) ok(4) by (simp add: uint_difference)
  have "0 \<le> uint pub - uint rd" using ok(2) by (simp add: word_le_def)
  then show "queue_balanced p c p' c'"
    using ok(2) sat P C by (auto simp: queue_balanced_def eq packets_open_def progress_ok_def progress_open_def)
qed

lemma observe_balanced:
  assumes ok: "progress_ok p" "flags_ok (stats_flags c)"
    and r: "progress_observe p c i pub rd = (done', p', c')"
  shows "queue_balanced p c p' c' \<and> flags_ok (stats_flags c') \<and> same_work c c' \<and>
    ss_queuedPackets (stats_data c') = ss_queuedPackets (stats_data c) \<and>
    (done' \<longrightarrow> rd \<le> pub \<and> qp_published p' = pub \<and> qp_consumed p' = rd)"
proof (cases "i = 0 \<or> pub < rd")
  case True
  then show ?thesis using r ok balanced_refl same_work_refl by (auto simp: progress_observe_def)
next
  case False
  obtain p1 c1 where one: "(if i \<noteq> qp_handle p then (let (q, c) = progress_retire p c in (q\<lparr>qp_handle := i\<rparr>, c)) else (p, c)) = (p1, c1)"
    by fastforce
  have first: "queue_balanced p c p1 c1 \<and> flags_ok (stats_flags c1) \<and> same_work c c1 \<and> progress_ok p1 \<and>
      ss_queuedPackets (stats_data c1) = ss_queuedPackets (stats_data c)"
  proof (cases "i = qp_handle p")
    case True
    then show ?thesis using one ok balanced_refl same_work_refl by auto
  next
    case False
    obtain q c2 where r2: "progress_retire p c = (q, c2)" by fastforce
    then have "p1 = q\<lparr>qp_handle := i\<rparr>" "c1 = c2" using one False by simp_all
    then show ?thesis using retire_balanced [OF ok r2]
      by (auto simp: queue_balanced_def progress_open_def progress_ok_def)
  qed
  show ?thesis
  proof (cases "pub < qp_published p1 \<or> rd < qp_consumed p1")
    case True
    then show ?thesis using r False one first by (auto simp: progress_observe_def)
  next
    case go: False
    obtain P b1 where P: "stats_add (ss_publishedPackets (stats_data c1)) (pub - qp_published p1) = (P, b1)" by fastforce
    obtain C b2 where C: "stats_add (ss_consumedPackets (stats_data c1)) (rd - qp_consumed p1) = (C, b2)" by fastforce
    have eq: "p' = p1\<lparr>qp_published := pub, qp_consumed := rd\<rparr>"
      "c' = c1\<lparr>stats_data := mark_saturated (b1 \<or> b2)
         ((stats_data c1)\<lparr>ss_publishedPackets := P, ss_consumedPackets := C\<rparr>)\<rparr>" "done'"
      using r False go one P C by (auto simp: progress_observe_def)
    have "queue_balanced p1 c1 p' c'" "flags_ok (stats_flags c')" "same_work c1 c'"
      using first False go by (auto intro!: advance_balanced [OF _ _ _ _ P C eq(1,2)])
    then show ?thesis using first False eq balanced_then by (auto simp: same_work_def)
  qed
qed

section \<open>One observation\<close>

lemma slot_balanced:
  assumes ok: "progress_ok p" "flags_ok (stats_flags c)"
    and r: "observe_queue hm q p c d = ((p', c'), d')"
  shows "queue_balanced p c p' c' \<and> flags_ok (stats_flags c') \<and> same_work c c'"
proof (cases "q_handle q = 0 \<or> \<not> q_mapped q")
  case True
  then show ?thesis using r ok retire_balanced(2-4) [OF ok] by (auto simp: observe_queue_def)
next
  case False
  let ?c = "c\<lparr>stats_data := (stats_data c)\<lparr>ss_activeQueues := ss_activeQueues (stats_data c) + 1\<rparr>\<rparr>"
  let ?pub = "if q_published q then q_lastDoorbell q + 1 else 0"
  obtain ri d1 where ri: "aql_queue_cpu_read_index hm q d = (ri, d1)" by fastforce
  obtain fine p1 c1 where one: "(case ri of None \<Rightarrow> (False, p, ?c) | Some rd \<Rightarrow> progress_observe p ?c (q_handle q) ?pub rd) = (fine, p1, c1)"
    by (metis prod_cases3)
  have count: "same_work c ?c" "flags_ok (stats_flags ?c)"
    using ok by (auto simp: same_work_def counters_okD(1) intro!: counters_ok_packets)
  have "queue_balanced p ?c p1 c1 \<and> flags_ok (stats_flags c1) \<and> same_work ?c c1 \<and>
      ss_queuedPackets (stats_data c1) = ss_queuedPackets (stats_data ?c) \<and>
      (fine \<longrightarrow> (\<exists>rd. ri = Some rd \<and> progress_open p1 = uint (?pub - rd)))"
  proof (cases ri)
    case None
    then show ?thesis using one count balanced_refl [OF ok(1)] same_work_refl by auto
  next
    case (Some rd)
    then show ?thesis using one observe_balanced [OF ok(1) count(2), of "q_handle q" ?pub rd fine p1 c1]
      by (auto simp: progress_open_def uint_difference)
  qed
  then have first: "queue_balanced p c p1 c1" "flags_ok (stats_flags c1)" "same_work c c1"
      "ss_queuedPackets (stats_data c1) = ss_queuedPackets (stats_data c)"
      "fine \<Longrightarrow> \<exists>rd. ri = Some rd \<and> progress_open p1 = uint (?pub - rd)"
    using count(1) by (auto simp: queue_balanced_def saturated_def packets_open_def same_work_def)
  show ?thesis
  proof (cases fine)
    case False
    then have eq: "p' = p1" "c' = c1\<lparr>stats_data := (stats_data c1)\<lparr>ss_flags := stats_flags c1 OR stats_QueueSampleIncomplete\<rparr>\<rparr>"
      using r ri one \<open>\<not> (q_handle q = 0 \<or> \<not> q_mapped q)\<close> by (auto simp: observe_queue_def Let_def split: prod.splits)
    have "same_work c1 c'" using eq first(2)
      by (auto simp: same_work_def flags_ok_changes intro!: counters_ok_packets)
    then show ?thesis using first eq flags_ok_changes [OF first(2)]
      by (auto simp: queue_balanced_def saturated_def packets_open_def same_work_def)
  next
    case True
    then obtain rd where rd: "ri = Some rd" "progress_open p1 = uint (?pub - rd)" using first(5) by blast
    obtain Q b where add: "stats_add (ss_queuedPackets (stats_data c1)) (?pub - rd) = (Q, b)" by fastforce
    have eq: "p' = p1" "c' = c1\<lparr>stats_data := mark_saturated b ((stats_data c1)\<lparr>ss_queuedPackets := Q\<rparr>)\<rparr>"
      using r ri one rd add True \<open>\<not> (q_handle q = 0 \<or> \<not> q_mapped q)\<close> by (auto simp: observe_queue_def Let_def split: prod.splits)
    have "same_work c1 c'" using eq first(2) by (auto simp: same_work_def mark_flags intro!: counters_ok_packets)
    moreover have "\<not> saturated c' \<longleftrightarrow> \<not> b \<and> \<not> saturated c1" using first(2) by (simp add: saturated_def eq mark_sat)
    moreover have "\<not> b \<Longrightarrow> uint Q = uint (ss_queuedPackets (stats_data c1)) + progress_open p1"
      using stats_add_int [of _ _ Q] add rd(2) by simp
    ultimately show ?thesis using first eq
      by (auto simp: queue_balanced_def packets_open_def same_work_def mark_flags)
  qed
qed

text \<open>The loop over the queues: the balance of the slots adds up.\<close>

lemma slots_balanced:
  assumes "\<forall>x \<in> set xs. progress_ok (snd x)" "flags_ok (stats_flags c)" "observe_slots hm xs c d = ((ps', c'), d')"
  shows "(\<forall>p \<in> set ps'. progress_ok p) \<and> flags_ok (stats_flags c') \<and> same_work c c' \<and>
    (\<not> saturated c' \<longrightarrow> \<not> saturated c \<and>
       packets_open c' - (\<Sum>p \<leftarrow> ps'. progress_open p) = packets_open c - (\<Sum>x \<leftarrow> xs. progress_open (snd x)) \<and>
       uint (ss_queuedPackets (stats_data c')) \<le> uint (ss_queuedPackets (stats_data c)) + (\<Sum>p \<leftarrow> ps'. progress_open p))"
  using assms
proof (induction xs arbitrary: c d ps' c' d')
  case Nil
  then show ?case by (simp add: same_work_refl)
next
  case (Cons x xs)
  obtain p1 c1 d1 where one: "observe_queue hm (fst x) (snd x) c d = ((p1, c1), d1)" by (metis prod.exhaust)
  obtain ps2 c2 d2 where two: "observe_slots hm xs c1 d1 = ((ps2, c2), d2)" by (metis prod.exhaust)
  have eq: "ps' = p1 # ps2" "c' = c2" using Cons.prems(3) one two by simp_all
  have ok: "progress_ok (snd x)" using Cons.prems(1) by simp
  note first = slot_balanced [OF ok Cons.prems(2) one]
  have rest: "\<forall>x \<in> set xs. progress_ok (snd x)" "flags_ok (stats_flags c1)" using Cons.prems(1) first by auto
  from Cons.IH [OF rest two] first show ?case
    by (auto simp: eq queue_balanced_def same_work_def)
qed

lemma retire_progress_balanced:
  assumes "\<forall>p \<in> set ps. progress_ok p" "flags_ok (stats_flags c)" "retire_progress ps c = (ps', c')"
  shows "(\<forall>p \<in> set ps'. p = progress_zero) \<and> flags_ok (stats_flags c') \<and> same_work c c' \<and>
    ss_queuedPackets (stats_data c') = ss_queuedPackets (stats_data c) \<and>
    (\<not> saturated c' \<longrightarrow> \<not> saturated c \<and> packets_open c' = packets_open c - (\<Sum>p \<leftarrow> ps. progress_open p))"
  using assms
proof (induction ps arbitrary: c ps' c')
  case Nil
  then show ?case by (simp add: same_work_refl)
next
  case (Cons p ps)
  obtain p1 c1 where one: "progress_retire p c = (p1, c1)" by fastforce
  obtain ps2 c2 where two: "retire_progress ps c1 = (ps2, c2)" by fastforce
  have eq: "ps' = p1 # ps2" "c' = c2" using Cons.prems(3) one two by simp_all
  have ok: "progress_ok p" using Cons.prems(1) by simp
  note first = retire_balanced [OF ok Cons.prems(2) one]
  have rest: "\<forall>p \<in> set ps. progress_ok p" using Cons.prems(1) by simp
  from Cons.IH [OF rest first(3) two] first show ?case
    by (auto simp: eq queue_balanced_def same_work_def progress_zero_def progress_open_def)
qed

lemma zeros_open: "\<forall>p \<in> set ps. p = progress_zero \<Longrightarrow> (\<Sum>p \<leftarrow> ps. progress_open p) = 0 \<and> (\<forall>p \<in> set ps. progress_ok p)"
  by (induction ps) (auto simp: progress_open_def progress_ok_def progress_zero_def)

section \<open>Every operation keeps the balance\<close>

text \<open>An operation on the engines leaves the packets alone and never takes the flag back.\<close>

definition same_packets :: "Counters \<Rightarrow> Counters \<Rightarrow> bool" where
  "same_packets c c' \<longleftrightarrow> packets_open c' = packets_open c \<and>
     ss_queuedPackets (stats_data c') = ss_queuedPackets (stats_data c) \<and> (saturated c \<longrightarrow> saturated c')"

lemma same_packets_keeps: "packets_ok ps c \<Longrightarrow> same_packets c c' \<Longrightarrow> packets_ok ps c'"
  by (auto simp: packets_ok_def same_packets_def)

lemma same_packets_mark:
  "flags_ok (stats_flags c) \<Longrightarrow> stats_data c' = mark_saturated b (set_engine i e (stats_data c)) \<Longrightarrow> same_packets c c'"
  using mark_sat [of "set_engine i e (stats_data c)" b]
  by (simp add: same_packets_def saturated_def packets_open_def)

lemma same_packets_trans: "same_packets a b \<Longrightarrow> same_packets b c \<Longrightarrow> same_packets a c"
  by (simp add: same_packets_def)

lemma same_packets_refl: "stats_data c' = stats_data c \<Longrightarrow> same_packets c c'"
  by (simp add: same_packets_def packets_open_def saturated_def)

lemma set_engine_same: "set_engine i (ss_engines s i) s = s"
  by (simp add: set_engine_def)

lemma engine_ops_packets:
  assumes f: "flags_ok (stats_flags c)"
  shows "same_packets c (snd (counters_begin c i t n))" "same_packets c (counters_complete c i t bytes dir n)"
    "same_packets c (counters_fail c i)" "same_packets c (retire_engine t c i)"
    "flags_ok (stats_flags (retire_engine t c i))"
proof -
  note mark = same_packets_mark [OF f]
  have plain: "same_packets c c'" if "stats_data c' = set_engine i e (stats_data c)" for c' e
    using that by (intro mark [where b = False and i = i and e = e]) (simp add: mark_saturated_def)
  show "same_packets c (snd (counters_begin c i t n))"
    using plain mark [where b = True and i = i and e = "ss_engines (stats_data c) i"] same_packets_refl
    by (auto simp: counters_begin_def Let_def set_engine_same)
  show "same_packets c (counters_complete c i t bytes dir n)"
    using mark same_packets_refl by (auto simp: counters_complete_def Let_def split: prod.splits)
  show "same_packets c (counters_fail c i)"
    using plain same_packets_refl by (auto simp: counters_fail_def Let_def)
  show "same_packets c (retire_engine t c i)"
    using mark same_packets_refl by (auto simp: retire_engine_def Let_def split: prod.splits)
  show "flags_ok (stats_flags (retire_engine t c i))"
    using f by (auto simp: retire_engine_def Let_def mark_flags split: prod.splits)
qed

lemma retire_work_packets:
  assumes "flags_ok (stats_flags c)" "packets_ok ps c"
  shows "flags_ok (stats_flags (counters_retireWork c t))" "packets_ok ps (counters_retireWork c t)"
    "ss_queuedPackets (stats_data (counters_retireWork c t)) = 0"
proof -
  have "same_packets c (foldl (retire_engine t) c js) \<and> flags_ok (stats_flags (foldl (retire_engine t) c js))"
    if "flags_ok (stats_flags c)" for js c
    using that
  proof (induction js arbitrary: c)
    case (Cons j js)
    note one = engine_ops_packets(4,5) [OF Cons.prems, of t j]
    from Cons.IH [OF one(2)] show ?case using same_packets_trans [OF one(1)] by simp
  qed (simp add: same_packets_refl)
  note loop = this [OF assms(1), of stats_engines]
  then show "flags_ok (stats_flags (counters_retireWork c t))" by (simp add: counters_retireWork_def Let_def)
  show "ss_queuedPackets (stats_data (counters_retireWork c t)) = 0" by (simp add: counters_retireWork_def Let_def)
  have "0 \<le> (\<Sum>p \<leftarrow> ps. progress_open p)"
    using assms(2) by (intro sum_list_nonneg) (auto simp: packets_ok_def progress_open_pos)
  then show "packets_ok ps (counters_retireWork c t)"
    using loop assms(2)
    by (auto simp: counters_retireWork_def Let_def packets_ok_def same_packets_def packets_open_def saturated_def)
qed

definition balanced :: "u64 \<times> QueueProgress list \<times> Counters \<Rightarrow> bool" where
  "balanced s \<longleftrightarrow> (case s of (now, ps, c) \<Rightarrow> counters_ok now c \<and> packets_ok ps c)"

lemma observe_keeps_balance:
  assumes ok: "counters_ok now c" "packets_ok ps c" and n: "length qs = length ps"
    and r: "observe_software_queues hm qs ps c d = ((ps', c'), d')"
  shows "counters_ok now c' \<and> packets_ok ps' c'"
proof -
  let ?c = "c\<lparr>stats_data := (stats_data c)\<lparr>ss_activeQueues := 0, ss_queuedPackets := 0,
            ss_flags := stats_flags c AND NOT stats_QueueSampleIncomplete\<rparr>\<rparr>"
  note f = flags_ok_changes [OF counters_okD(1) [OF ok(1)]]
  have all: "\<forall>x \<in> set (zip qs ps). progress_ok (snd x)" "flags_ok (stats_flags ?c)"
    using ok(2) f by (auto simp: packets_ok_def dest: set_zip_rightD)
  have work: "counters_ok now ?c" using ok(1) f(3) by (intro counters_ok_packets) simp_all
  have "map (\<lambda>x. progress_open (snd x)) (zip qs ps) = map progress_open (map snd (zip qs ps))" by simp
  also have "map snd (zip qs ps) = ps" using n by (rule map_snd_zip)
  finally have "map (\<lambda>x. progress_open (snd x)) (zip qs ps) = map progress_open ps" .
  then have sum: "(\<Sum>x \<leftarrow> zip qs ps. progress_open (snd x)) = (\<Sum>p \<leftarrow> ps. progress_open p)" by simp
  have same: "saturated ?c = saturated c" "packets_open ?c = packets_open c" "uint (ss_queuedPackets (stats_data ?c)) = 0"
    using f(6) by (simp_all add: saturated_def packets_open_def)
  note r = slots_balanced [OF all r [unfolded observe_software_queues_def]]
  show ?thesis
  proof
    show "counters_ok now c'" using r work by (simp add: same_work_def)
    show "packets_ok ps' c'" using r ok(2) unfolding same sum by (auto simp: packets_ok_def)
  qed
qed

lemma retire_keeps_balance:
  assumes ok: "counters_ok now c" "packets_ok ps c" and t: "now \<le> t" and r: "retire_software ps c t = (ps', c')"
  shows "counters_ok t c' \<and> packets_ok ps' c'"
proof -
  note w = retire_work_packets [OF counters_okD(1) [OF ok(1)] ok(2), of t]
  have all: "\<forall>p \<in> set ps. progress_ok p" using ok(2) by (simp add: packets_ok_def)
  note r = retire_progress_balanced [OF all w(1) r [unfolded retire_software_def]]
  show ?thesis
  proof
    show "counters_ok t c'" using r retire_work_ok [OF ok(1) t] by (simp add: same_work_def)
    have "uint (ss_queuedPackets (stats_data c')) = 0" using r w(3) by simp
    then show "packets_ok ps' c'" using r w(2) zeros_open [of ps'] by (auto simp: packets_ok_def)
  qed
qed

lemma step_keeps_balance:
  assumes "stats_step hm s s'" "balanced s"
  shows "balanced s'"
  using assms
proof (induction rule: stats_step.induct)
  case (step_begin now t ps c i n)
  then have ok: "counters_ok now c" "packets_ok ps c" by (simp_all add: balanced_def)
  from stats_begin_keeps_ok [OF ok(1) step_begin(1), of i n]
    same_packets_keeps [OF ok(2) engine_ops_packets(1) [OF counters_okD(1) [OF ok(1)], of i t n]]
  show ?case by (simp add: balanced_def)
next
  case (step_complete now t ps c i bytes dir n)
  then have ok: "counters_ok now c" "packets_ok ps c" by (simp_all add: balanced_def)
  from complete_keeps_ok [OF ok(1) step_complete(1), of i bytes dir n]
    same_packets_keeps [OF ok(2) engine_ops_packets(2) [OF counters_okD(1) [OF ok(1)], of i t bytes dir n]]
  show ?case by (simp add: balanced_def)
next
  case (step_fail now ps c i)
  then have ok: "counters_ok now c" "packets_ok ps c" by (simp_all add: balanced_def)
  from fail_keeps_ok [OF ok(1), of i]
    same_packets_keeps [OF ok(2) engine_ops_packets(3) [OF counters_okD(1) [OF ok(1)], of i]]
  show ?case by (simp add: balanced_def)
next
  case (step_ranges now ps c vb vn gb gn)
  then show ?case
    using same_packets_keeps [OF _ same_packets_refl, of ps c "set_stats_ranges vb vn gb gn c"]
    by (simp add: balanced_def set_stats_ranges_def counters_ok_def)
next
  case (step_participants now ps c n)
  then show ?case
    using counters_ok_packets [of now c "(stats_data c)\<lparr>ss_participants := n\<rparr>"] counters_okD(1) [of now c]
    by (simp add: balanced_def packets_ok_def packets_open_def saturated_def)
next
  case (step_observe qs ps c d ps' c' d' now)
  then have ok: "counters_ok now c" "packets_ok ps c" by (simp_all add: balanced_def)
  from observe_keeps_balance [OF ok step_observe(1,2)] show ?case by (simp add: balanced_def)
next
  case (step_retire now t ps c ps' c')
  then have ok: "counters_ok now c" "packets_ok ps c" by (simp_all add: balanced_def)
  from retire_keeps_balance [OF ok step_retire(1,2)] show ?case by (simp add: balanced_def)
qed

lemma reaches_balanced: "stats_reaches hm s s' \<Longrightarrow> balanced s \<Longrightarrow> balanced s'"
  by (induction rule: stats_reaches.induct) (auto intro: step_keeps_balance)

lemma reset_balanced: "balanced (t0, replicate n progress_zero, counters_reset c0 t0)"
proof -
  have "x + 1 \<noteq> 0" if "x \<noteq> 0xFFFFFFFFFFFFFFFF" for x :: u64
  proof
    assume "x + 1 = 0"
    then have "x = - 1" by (simp add: add_eq_0_iff2)
    then show False using that by simp
  qed
  then have gen: "ss_generation (stats_data (counters_reset c0 t0)) \<noteq> 0"
    by (simp add: counters_reset_def counters_zero_def Let_def)
  have zeros: "\<forall>p \<in> set (replicate n progress_zero). p = progress_zero" by simp
  have "engine_ok t0 t0 0 engine_zero" by (simp add: engine_ok_def engine_zero_def)
  then have "counters_ok t0 (counters_reset c0 t0)"
    using gen by (simp add: counters_ok_def Let_def counters_reset_def counters_zero_def stats_snapshot_zero_def
      flags_ok_def stats_Available_def)
  moreover have "packets_ok (replicate n progress_zero) (counters_reset c0 t0)"
    using zeros_open [OF zeros]
    by (simp add: packets_ok_def packets_open_def counters_reset_def counters_zero_def stats_snapshot_zero_def Let_def)
  ultimately show ?thesis by (simp add: balanced_def)
qed

section \<open>Snapshots\<close>

lemma snapshot_engine_fields:
  "ss_version (snapshot_engine u s i) = ss_version s" "ss_size (snapshot_engine u s i) = ss_size s"
  "ss_reserved (snapshot_engine u s i) = ss_reserved s" "ss_generation (snapshot_engine u s i) = ss_generation s"
  "ss_sampledAtNs (snapshot_engine u s i) = ss_sampledAtNs s"
  "ss_sessionStartNs (snapshot_engine u s i) = ss_sessionStartNs s"
  "ss_publishedPackets (snapshot_engine u s i) = ss_publishedPackets s"
  "ss_consumedPackets (snapshot_engine u s i) = ss_consumedPackets s"
  "ss_retiredPackets (snapshot_engine u s i) = ss_retiredPackets s"
  "ss_queuedPackets (snapshot_engine u s i) = ss_queuedPackets s"
  "j \<noteq> i \<Longrightarrow> ss_engines (snapshot_engine u s i) j = ss_engines s j"
  by (simp_all add: snapshot_engine_def Let_def split: prod.splits)

lemma engine_valid:
  assumes "unat (es_submitted e) = unat (es_completed e) + unat (es_retired e) + unat (es_pending e)"
    "es_failed e \<le> es_submitted e" "unat (ss_sessionStartNs s) + unat (es_pendingNs e) \<le> unat (ss_sampledAtNs s)"
  shows "engine_snapshot_valid s e"
proof -
  have c: "es_completed e \<le> es_submitted e" "ss_sessionStartNs s \<le> ss_sampledAtNs s"
    using assms(1,3) by (simp_all add: word_le_nat_alt)
  then have d: "unat (es_submitted e - es_completed e) = unat (es_retired e) + unat (es_pending e)"
    "unat (ss_sampledAtNs s - ss_sessionStartNs s) = unat (ss_sampledAtNs s) - unat (ss_sessionStartNs s)"
    using assms(1) by (simp_all add: unat_sub64)
  then have r: "es_retired e \<le> es_submitted e - es_completed e" by (simp add: word_le_nat_alt)
  then have "unat (es_submitted e - es_completed e - es_retired e) = unat (es_pending e)" using d(1) by (simp add: unat_sub64)
  then have "\<not> es_submitted e - es_completed e - es_retired e < es_pending e" by (simp add: word_less_nat_alt)
  moreover have "\<not> ss_sampledAtNs s - ss_sessionStartNs s < es_pendingNs e"
    using d(2) assms(3) by (simp add: word_less_nat_alt)
  ultimately show ?thesis using c r assms(2) by (simp add: engine_snapshot_valid_def not_less)
qed

text \<open>What a snapshot shows of an engine: the counters, and the time with what still runs.\<close>

definition shown_ok :: "StatsSnapshot \<Rightarrow> EngineSnapshot \<Rightarrow> bool" where
  "shown_ok s e \<longleftrightarrow>
     unat (es_submitted e) = unat (es_completed e) + unat (es_retired e) + unat (es_pending e) \<and> engine_snapshot_valid s e"

lemma snapshot_engine_exact:
  assumes ok: "engine_ok (ss_sessionStartNs s) now (u i) (ss_engines s i)" and t: "now \<le> ss_sampledAtNs s"
  shows "ss_flags (snapshot_engine u s i) = ss_flags s" "shown_ok s (ss_engines (snapshot_engine u s i) i)"
proof -
  let ?e = "ss_engines s i"
  note D = engine_okD [OF ok]
  have t': "unat now \<le> unat (ss_sampledAtNs s)" using t by (simp add: word_le_nat_alt)
  have f: "es_failed ?e \<le> es_submitted ?e" using D(2) by (simp add: word_le_nat_alt)
  have "ss_flags (snapshot_engine u s i) = ss_flags s \<and> shown_ok s (ss_engines (snapshot_engine u s i) i)"
  proof (cases "es_pending ?e = 0")
    case True
    then show ?thesis using engine_valid [OF D(1) f] D(1) D(3) [OF True] t'
      by (simp add: snapshot_engine_def shown_ok_def)
  next
    case False
    then have u: "u i \<le> ss_sampledAtNs s" using D(4) t' by (simp add: word_le_nat_alt)
    note room = since_room [OF ok False u]
    let ?e' = "?e\<lparr>es_pendingNs := es_pendingNs ?e + (ss_sampledAtNs s - u i)\<rparr>"
    have "engine_snapshot_valid s ?e'" using D(1) f room(2) by (intro engine_valid) simp_all
    then show ?thesis using False u room(1) D(1)
      by (simp add: snapshot_engine_def shown_ok_def set_engine_def Let_def)
  qed
  then show "ss_flags (snapshot_engine u s i) = ss_flags s" "shown_ok s (ss_engines (snapshot_engine u s i) i)" by blast+
qed

lemma shown_ok_cong:
  "ss_sampledAtNs s' = ss_sampledAtNs s \<Longrightarrow> ss_sessionStartNs s' = ss_sessionStartNs s \<Longrightarrow> shown_ok s' e = shown_ok s e"
  by (simp add: shown_ok_def engine_snapshot_valid_def)

text \<open>The loop over the engines shows each of them once.\<close>

lemma snapshot_loop:
  assumes "distinct js" "\<forall>i \<in> set js. engine_ok (ss_sessionStartNs s) now (u i) (ss_engines s i)" "now \<le> ss_sampledAtNs s"
  defines "s' \<equiv> foldl (snapshot_engine u) s js"
  shows "ss_flags s' = ss_flags s \<and> ss_version s' = ss_version s \<and> ss_size s' = ss_size s \<and>
    ss_reserved s' = ss_reserved s \<and> ss_generation s' = ss_generation s \<and> ss_sampledAtNs s' = ss_sampledAtNs s \<and>
    ss_sessionStartNs s' = ss_sessionStartNs s \<and> ss_publishedPackets s' = ss_publishedPackets s \<and>
    ss_consumedPackets s' = ss_consumedPackets s \<and> ss_retiredPackets s' = ss_retiredPackets s \<and>
    ss_queuedPackets s' = ss_queuedPackets s \<and> (\<forall>i. i \<notin> set js \<longrightarrow> ss_engines s' i = ss_engines s i) \<and>
    (\<forall>i \<in> set js. shown_ok s (ss_engines s' i))"
  unfolding s'_def using assms(1-3)
proof (induction js arbitrary: s)
  case (Cons j js)
  let ?s = "snapshot_engine u s j"
  have j: "engine_ok (ss_sessionStartNs s) now (u j) (ss_engines s j)" using Cons.prems(2) by simp
  note one = snapshot_engine_exact [where u = u, OF j Cons.prems(3)]
  have rest: "\<forall>i \<in> set js. engine_ok (ss_sessionStartNs ?s) now (u i) (ss_engines ?s i)"
  proof
    fix i assume i: "i \<in> set js"
    then have "i \<noteq> j" using Cons.prems(1) by auto
    then show "engine_ok (ss_sessionStartNs ?s) now (u i) (ss_engines ?s i)"
      using Cons.prems(2) i by (simp add: snapshot_engine_fields)
  qed
  have "distinct js" "now \<le> ss_sampledAtNs ?s" using Cons.prems(1,3) by (simp_all add: snapshot_engine_fields)
  note IH = Cons.IH [OF this(1) rest this(2)]
  have eq: "shown_ok ?s e = shown_ok s e" for e by (rule shown_ok_cong) (simp_all add: snapshot_engine_fields)
  show ?case using IH one Cons.prems(1)
    by (auto simp: snapshot_engine_fields eq)
qed simp

lemma flags_readable:
  assumes "flags_ok f" "g = f \<or> g = f OR stats_RuntimeReady"
  shows "g AND NOT (stats_Available OR stats_RuntimeReady OR stats_Saturated OR stats_QueueSampleIncomplete) = 0"
    "g AND stats_Available \<noteq> 0"
  using assms by (auto simp: flags_ok_def stats_Available_def stats_RuntimeReady_def stats_Saturated_def
    stats_QueueSampleIncomplete_def)

lemma packets_valid:
  fixes P C R Q :: u64
  assumes "uint P - uint C - uint R = open'" "uint Q \<le> open'"
  shows "\<not> P < C" "\<not> P - C < R" "\<not> P - C - R < Q"
proof -
  have q: "0 \<le> uint Q" "0 \<le> uint R" by simp_all
  have "uint C \<le> uint P" using assms q by linarith
  then have 1: "C \<le> P" by (simp add: word_le_def)
  then show "\<not> P < C" by simp
  have d: "uint (P - C) = uint P - uint C" using 1 by (rule uint_difference)
  then have "uint R \<le> uint (P - C)" using assms q by linarith
  then have 2: "R \<le> P - C" by (simp add: word_le_def)
  then show "\<not> P - C < R" by simp
  have "uint (P - C - R) = uint P - uint C - uint R" using uint_difference [OF 2] d by simp
  then show "\<not> P - C - R < Q" using assms by (simp add: word_less_def)
qed

lemma snapshot_sound:
  assumes b: "balanced (now, ps, c)" and t: "now \<le> t" and s: "s = counters_snapshot c t ready"
  shows "(\<forall>i \<in> set stats_engines. shown_ok s (ss_engines s i)) \<and>
    (\<not> saturated c \<longrightarrow> stats_valid s \<and> uint (ss_publishedPackets s) =
       uint (ss_consumedPackets s) + uint (ss_retiredPackets s) + (\<Sum>p \<leftarrow> ps. progress_open p))"
proof -
  have ok: "counters_ok now c" "packets_ok ps c" using b by (simp_all add: balanced_def)
  define s0 where "s0 = (let s = (stats_data c)\<lparr>ss_sampledAtNs := t\<rparr>
    in if ready then s\<lparr>ss_flags := ss_flags s OR stats_RuntimeReady\<rparr> else s)"
  have start: "ss_sessionStartNs (stats_data c) \<le> t" using counters_okD(2) [OF ok(1)] t by (rule order_trans)
  then have s': "s = foldl (snapshot_engine (pendingSince c)) s0 stats_engines"
    unfolding s counters_snapshot_def s0_def Let_def by (simp add: not_less)
  have f0: "ss_sampledAtNs s0 = t" "ss_sessionStartNs s0 = ss_sessionStartNs (stats_data c)"
    "ss_engines s0 = ss_engines (stats_data c)" "ss_publishedPackets s0 = ss_publishedPackets (stats_data c)"
    "ss_consumedPackets s0 = ss_consumedPackets (stats_data c)" "ss_retiredPackets s0 = ss_retiredPackets (stats_data c)"
    "ss_queuedPackets s0 = ss_queuedPackets (stats_data c)" "ss_version s0 = stats_kVersion"
    "ss_size s0 = stats_snapshot_size" "ss_reserved s0 = 0" "ss_generation s0 \<noteq> 0"
    "ss_flags s0 = stats_flags c \<or> ss_flags s0 = stats_flags c OR stats_RuntimeReady"
    using ok(1) by (auto simp: s0_def Let_def counters_ok_def)
  have d: "distinct stats_engines" by (simp add: stats_engines_def)
  have e: "\<forall>i \<in> set stats_engines. engine_ok (ss_sessionStartNs s0) now (pendingSince c i) (ss_engines s0 i)"
    using counters_okD(3) [OF ok(1)] by (simp add: f0)
  have t0: "now \<le> ss_sampledAtNs s0" using t by (simp add: f0)
  note L = snapshot_loop [OF d e t0, folded s']
  have shown: "\<forall>i \<in> set stats_engines. shown_ok s (ss_engines s i)"
    using L shown_ok_cong [of s s0] by simp
  have "stats_valid s \<and> uint (ss_publishedPackets s) =
       uint (ss_consumedPackets s) + uint (ss_retiredPackets s) + (\<Sum>p \<leftarrow> ps. progress_open p)" if "\<not> saturated c"
  proof -
    have p: "uint (ss_publishedPackets s) - uint (ss_consumedPackets s) - uint (ss_retiredPackets s)
        = (\<Sum>p \<leftarrow> ps. progress_open p)" "uint (ss_queuedPackets s) \<le> (\<Sum>p \<leftarrow> ps. progress_open p)"
      using ok(2) that L by (simp_all add: packets_ok_def packets_open_def f0)
    have fl: "ss_flags s = ss_flags s0" using L by simp
    note g = flags_readable [OF counters_okD(1) [OF ok(1)] f0(12)]
    have "list_all (\<lambda>i. engine_snapshot_valid s (ss_engines s i)) stats_engines"
      using shown by (simp add: list_all_iff shown_ok_def)
    then have "stats_valid s"
      using L f0 g packets_valid [OF p] start unfolding stats_valid_def fl by (simp add: not_less)
    then show ?thesis using p by simp
  qed
  with shown show ?thesis by blast
qed

text \<open>
  C34. However engines, queues and resets interleave, a snapshot of the software counters is balanced: on
  every engine the submitted units are exactly the completed, the retired and the pending ones, and the times
  fit the session; and while no counter has saturated, the snapshot passes the readers' check and the
  published packets are exactly the consumed ones, the retired ones and those open in the queues.
\<close>
theorem software_snapshots_sound:
  assumes "stats_reaches hm (t0, replicate n progress_zero, counters_reset c0 t0) (now, ps, c)" and "now \<le> t"
    and "s = counters_snapshot c t ready"
  shows "(\<forall>i \<in> set stats_engines. shown_ok s (ss_engines s i)) \<and>
    (\<not> saturated c \<longrightarrow> stats_valid s \<and> uint (ss_publishedPackets s) =
       uint (ss_consumedPackets s) + uint (ss_retiredPackets s) + (\<Sum>p \<leftarrow> ps. progress_open p))"
  by (rule snapshot_sound [OF reaches_balanced [OF assms(1) reset_balanced] assms(2,3)])

text \<open>Host memory that only ever reads as three, and a queue with five packets published.\<close>

definition three_mem :: "unit sharedmem" where
  "three_mem = \<lparr>ld32 = (\<lambda>a d. (3, d)), st32 = (\<lambda>a v d. d), ld16 = (\<lambda>a d. (3, d)), ld64 = (\<lambda>a d. (3, d)),
     st64 = (\<lambda>a v d. d)\<rparr>"

definition demo_queue :: PersistentAQLQueue where
  "demo_queue = queue_zero\<lparr>q_handle := 7, q_mapped := True, q_metadataCPU := 64, q_published := True, q_lastDoorbell := 4\<rparr>"

lemma software_snapshots_sound_witness:
  "\<exists>ps c. stats_reaches three_mem (100, replicate 1 progress_zero, counters_reset counters_zero 100) (120, ps, c) \<and>
     \<not> saturated c \<and> stats_valid (counters_snapshot c 160 True) \<and> ss_queuedPackets (stats_data c) = 2"
proof -
  let ?c0 = "counters_reset counters_zero 100"
  let ?c1 = "snd (counters_begin ?c0 AQL 120 1)"
  have b: "stats_step three_mem (100, replicate 1 progress_zero, ?c0) (120, replicate 1 progress_zero, ?c1)"
    by (rule step_begin) simp
  obtain ps c d where o: "observe_software_queues three_mem [demo_queue] (replicate 1 progress_zero) ?c1 () = ((ps, c), d)"
    by (metis prod.exhaust)
  have c: "c = snd (fst (observe_software_queues three_mem [demo_queue] (replicate 1 progress_zero) ?c1 ()))" using o by simp
  have q: "ss_queuedPackets (stats_data c) = 2 \<and> stats_flags c = 1" unfolding c by code_simp
  then have "\<not> saturated c" by (simp add: saturated_def stats_Saturated_def)
  moreover have r: "stats_reaches three_mem (100, replicate 1 progress_zero, ?c0) (120, ps, c)"
    by (rule stats_more [OF stats_more [OF stats_here b] step_observe [OF _ o]]) simp
  moreover have "(120 :: u64) \<le> 160" by simp
  ultimately show ?thesis using software_snapshots_sound [OF r _ refl, of 160 True] q by blast
qed

text \<open>
  The saturation flag does not save a snapshot. Two queues of one client suffice: the first publishes packet
  \<open>2 ^ 64 - 2\<close> (the bound of a kick is a word of the client's own memory), nothing is consumed, and it is closed;
  the second publishes and consumes one. The published total saturates, the consumed one does not, and the
  readers' check refuses the snapshot although \<open>stats_Saturated\<close> is set.
\<close>

definition far_queue :: PersistentAQLQueue where
  "far_queue = queue_zero\<lparr>q_handle := 1, q_mapped := True, q_metadataCPU := 64, q_published := True,
     q_lastDoorbell := 0xFFFFFFFFFFFFFFFE\<rparr>"

definition step_mem :: "u64 sharedmem" where
  "step_mem = \<lparr>ld32 = (\<lambda>a d. (0, d)), st32 = (\<lambda>a v d. d), ld16 = (\<lambda>a d. (0, d)), ld64 = (\<lambda>a d. (d, d)),
     st64 = (\<lambda>a v d. d)\<rparr>"

definition saturating_run :: Counters where
  "saturating_run =
     (let c = counters_reset counters_zero 100;
          ((ps, c), _) = observe_software_queues step_mem [far_queue] [progress_zero] c 0;
          ((ps, c), _) = observe_software_queues step_mem [queue_zero] ps c 0;
          ((ps, c), _) = observe_software_queues step_mem
             [far_queue\<lparr>q_handle := 2, q_lastDoorbell := 0\<rparr>] ps c 1
      in c)"

lemma saturated_snapshot_refused:
  "ss_flags (counters_snapshot saturating_run 200 True) AND stats_Saturated \<noteq> 0 \<and>
   \<not> stats_valid (counters_snapshot saturating_run 200 True)"
  by code_simp

end
