(* ===== verification/Gfx_Properties.thy ===== *)
theory Gfx_Properties
  imports Gfx Aql_Packets
begin

text \<open>
  The two counts of set bits the driver uses agree: \<open>gfx_hweight32\<close> of \<^verbatim>\<open>gfx_v12_0.cpp\<close>, the parallel sum
  that counts render backends, and \<open>popcount\<close>, the compiler builtin behind the masks of the compute units. The
  proof follows the eight hexadecimal digits of a number through the three folding steps. Then the masks of
  compute units: their bits, and that they enable as many units as discovery reported.
\<close>

unbundle bit_operations_syntax

section \<open>Hexadecimal digits\<close>

lemma and_digit:
  fixes x y m k :: nat
  assumes "x < 16" "m < 16"
  shows "(x + 16 * y) AND (m + 16 * k) = (x AND m) + 16 * (y AND k)"
proof -
  let ?a = "x + 16 * y" and ?b = "m + 16 * k"
  have lo: "(?a AND ?b) mod 16 = x AND m"
    using take_bit_and [of 4 ?a ?b] assms by (simp add: take_bit_eq_mod)
  have hi: "(?a AND ?b) div 16 = y AND k"
    using drop_bit_and [of 4 ?a ?b] assms by (simp add: drop_bit_eq_div)
  show ?thesis using mod_mult_div_eq [of "?a AND ?b" 16] by (simp add: lo hi)
qed

lemma and_digit_shift:
  fixes x y m k :: nat
  assumes "x < 16" "m < 16" "s dvd 16" "s > 0" "\<And>z. z AND m = (z mod (16 div s)) AND m"
  shows "((x + 16 * y) div s) AND (m + 16 * k) = ((x div s) AND m) + 16 * ((y div s) AND k)"
proof -
  let ?a = "(x + 16 * y) div s" and ?b = "m + 16 * k"
  obtain t where t: "16 = s * t" using assms(3) by (blast elim: dvdE)
  have a: "?a = x div s + t * y" using assms(4) by (simp add: t mult.assoc)
  have q: "16 div s = t" using assms(4) by (simp add: t)
  have xs: "x div s < t" using assms(1,4) t by (simp add: div_less_iff_less_mult mult.commute)
  have lo: "(?a AND ?b) mod 16 = (x div s) AND m"
  proof -
    have "(?a AND ?b) mod 16 = (?a mod 16) AND m"
      using take_bit_and [of 4 ?a ?b] assms(2) by (simp add: take_bit_eq_mod)
    also have "\<dots> = (?a mod 16 mod t) AND m" using assms(5) [of "?a mod 16"] q by simp
    also have "?a mod 16 mod t = ?a mod t" by (rule mod_mod_cancel) (simp add: t)
    also have "\<dots> = x div s" unfolding a using xs by simp
    finally show ?thesis .
  qed
  have hi: "(?a AND ?b) div 16 = (y div s) AND k"
  proof -
    have "?a div 16 = y div s"
      using assms(1) by (simp add: div_mult2_eq [symmetric] mult.commute [of s]) (simp add: div_mult2_eq)
    then show ?thesis using drop_bit_and [of 4 ?a ?b] assms(2) by (simp add: drop_bit_eq_div)
  qed
  show ?thesis using mod_mult_div_eq [of "?a AND ?b" 16] by (simp add: lo hi)
qed


fun hex :: "nat list \<Rightarrow> nat" where
  "hex [] = 0"
| "hex (x # xs) = x + 16 * hex xs"

lemma hex_digits:
  assumes "v < 16 ^ n"
  obtains ds where "length ds = n" "\<forall>x\<in>set ds. x < 16" "hex ds = v"
  using assms
proof (induction n arbitrary: v thesis)
  case 0
  then show ?case by (auto intro: 0(1) [of "[]"])
next
  case (Suc n)
  have "v div 16 < 16 ^ n" using Suc.prems(2) by (simp add: less_mult_imp_div_less mult.commute)
  then obtain ds where ds: "length ds = n" "\<forall>x\<in>set ds. x < 16" "hex ds = v div 16" using Suc.IH by blast
  show ?case by (rule Suc.prems(1) [of "v mod 16 # ds"]) (use ds in auto)
qed

lemma hex_and_pairs:
  assumes "list_all2 (\<lambda>x m. x < 16 \<and> m < 16) ds ms"
  shows "hex ds AND hex ms = hex (map2 (AND) ds ms)"
  using assms by (induction ds ms rule: list_all2_induct) (auto simp: and_digit)

lemma hex_and:
  assumes "\<forall>x\<in>set ds. x < 16" "m < 16"
  shows "hex ds AND hex (replicate (length ds) m) = hex (map (\<lambda>x. x AND m) ds)"
  using assms by (induction ds) (auto simp: and_digit)

lemma hex_shift_and:
  assumes "\<forall>x\<in>set ds. x < 16" "m < 16" "s dvd 16" "s > 0" "\<And>z. z AND m = (z mod (16 div s)) AND m"
  shows "(hex ds div s) AND hex (replicate (length ds) m) = hex (map (\<lambda>x. (x div s) AND m) ds)"
  using assms(1)
proof (induction ds)
  case Nil
  then show ?case by simp
next
  case (Cons x ds)
  then show ?case using and_digit_shift [OF _ assms(2-5), of x "hex ds" "hex (replicate (length ds) m)"] by simp
qed

lemma hex_add: "hex (map f ds) + hex (map g ds) = hex (map (\<lambda>x. f x + g x) ds)"
  by (induction ds) auto

lemma hex_le:
  assumes "\<forall>x\<in>set ds. f x \<le> x"
  shows "hex (map f ds) \<le> hex ds"
  using assms by (induction ds) (auto intro: add_mono)

lemma hex_diff:
  assumes "\<forall>x\<in>set ds. f x \<le> x"
  shows "hex ds - hex (map f ds) = hex (map (\<lambda>x. x - f x) ds)"
  using assms
proof (induction ds)
  case Nil
  then show ?case by simp
next
  case (Cons x ds)
  then show ?case using hex_le [of ds f] by (simp add: diff_mult_distrib2 [symmetric])
qed

section \<open>The count of a digit\<close>

definition nibble_count :: "nat \<Rightarrow> nat" where
  "nibble_count x = x mod 2 + x div 2 mod 2 + x div 4 mod 2 + x div 8 mod 2"

definition bit_count :: "nat \<Rightarrow> nat \<Rightarrow> nat" where "bit_count n v = length (filter (bit v) [0..<n])"

lemma below_16_cases:
  assumes "(x::nat) < 16" "P 0" "P 1" "P 2" "P 3" "P 4" "P 5" "P 6" "P 7" "P 8" "P 9" "P 10" "P 11" "P 12" "P 13" "P 14" "P 15"
  shows "P x"
proof -
  have "x \<in> {0..<16}" using assms(1) by simp
  also have "{0..<16} = {0, 1, 2, 3, 4, 5, 6, 7, 8, 9, 10, 11, 12, 13, 14, 15 :: nat}" by (auto simp: atLeastLessThan_nat_numeral)
  finally show ?thesis using assms by auto
qed


lemma bit_digit:
  fixes x y :: nat
  assumes "x < 16"
  shows "bit (x + 16 * y) i = (if i < 4 then bit x i else bit y (i - 4))"
proof (cases "i < 4")
  case True
  have "take_bit 4 (x + 16 * y) = x" using assms by (simp add: take_bit_eq_mod)
  then show ?thesis using True bit_take_bit_iff [of 4 "x + 16 * y" i] by simp
next
  case False
  have "drop_bit 4 (x + 16 * y) = y" using assms by (simp add: drop_bit_eq_div)
  then show ?thesis using False bit_drop_bit_eq [of 4 "x + 16 * y"] by (simp add: fun_eq_iff)
qed

lemma bit_count_4:
  assumes "x < 16"
  shows "bit_count 4 x = nibble_count x"
proof -
  have "[0..<4] = [0, 1, 2, 3]" by (simp add: upt_rec)
  then show ?thesis by (simp add: bit_count_def nibble_count_def bit_iff_odd odd_iff_mod_2_eq_one)
qed

lemma bit_count_digit:
  assumes "x < 16"
  shows "bit_count (n + 4) (x + 16 * y) = nibble_count x + bit_count n y"
proof -
  have u: "[0..<n + 4] = [0..<4] @ map (\<lambda>i. i + 4) [0..<n]"
    using upt_add_eq_append [of 0 4 n] by (simp add: map_add_upt add.commute)
  have "filter (bit (x + 16 * y)) [0..<4] = filter (bit x) [0..<4]"
    by (rule filter_cong) (auto simp: bit_digit [OF assms])
  moreover have "length (filter (bit (x + 16 * y)) (map (\<lambda>i. i + 4) [0..<n])) = bit_count n y"
    by (simp add: filter_map comp_def bit_digit [OF assms] bit_count_def)
  ultimately show ?thesis using bit_count_4 [OF assms] by (simp add: bit_count_def u)
qed

lemma bit_count_hex:
  assumes "\<forall>x\<in>set ds. x < 16"
  shows "bit_count (4 * length ds) (hex ds) = sum_list (map nibble_count ds)"
  using assms
proof (induction ds)
  case Nil
  then show ?case by (simp add: bit_count_def)
next
  case (Cons x ds)
  then show ?case using bit_count_digit [of x "4 * length ds" "hex ds"] by (simp add: add.commute)
qed

section \<open>One digit through the folding steps\<close>

definition fold_digit :: "nat \<Rightarrow> nat" where "fold_digit x = x - (x div 2 AND 5)"

lemma fold_digit_facts:
  assumes "x < 16"
  shows "x div 2 AND 5 \<le> x" "fold_digit x < 16" "(fold_digit x AND 3) + (fold_digit x div 4 AND 3) = nibble_count x"
    "nibble_count x \<le> 4"
  by (rule below_16_cases [OF assms]; simp add: nibble_count_def fold_digit_def)+


section \<open>The folding steps\<close>

lemma and_le_nat: "z AND m \<le> (m :: nat)"
proof -
  have "int (z AND m) \<le> int m" using AND_upper2 [of "int m" "int z"] by (simp add: of_nat_and_eq)
  then show ?thesis by simp
qed

lemma mask_mod:
  fixes z :: nat
  shows "z AND 5 = z mod 8 AND 5" "z AND 3 = z mod 4 AND 3"
  using take_bit_and [of 3 z 5] take_bit_and [of 2 z 3] and_le_nat [of z 5] and_le_nat [of z 3]
  by (simp_all add: take_bit_eq_mod)

lemma replicate_8: "replicate 8 m = [m, m, m, m, m, m, m, m]"
  by (simp add: numeral_eq_Suc)

lemma step_one:
  assumes "\<forall>x\<in>set ds. x < 16" "length ds = 8"
  shows "hex ds div 2 AND 0x55555555 \<le> hex ds"
    "hex ds - (hex ds div 2 AND 0x55555555) = hex (map fold_digit ds)"
proof -
  have m: "hex (replicate (length ds) 5) = 0x55555555" by (simp add: assms(2) replicate_8)
  have "hex ds div 2 AND 0x55555555 = hex (map (\<lambda>x. x div 2 AND 5) ds)"
    using hex_shift_and [OF assms(1), of 5 2] mask_mod(1) by (simp add: m)
  then show "hex ds div 2 AND 0x55555555 \<le> hex ds"
    "hex ds - (hex ds div 2 AND 0x55555555) = hex (map fold_digit ds)"
    using hex_le [of ds "\<lambda>x. x div 2 AND 5"] hex_diff [of ds "\<lambda>x. x div 2 AND 5"] assms(1) fold_digit_facts(1)
    by (simp_all add: fold_digit_def [abs_def])
qed

lemma step_two:
  assumes "\<forall>x\<in>set ds. x < 16" "length ds = 8"
  shows "(hex (map fold_digit ds) AND 0x33333333) + (hex (map fold_digit ds) div 4 AND 0x33333333) =
     hex (map nibble_count ds)"
proof -
  let ?cs = "map fold_digit ds"
  have c: "\<forall>x\<in>set ?cs. x < 16" using assms(1) fold_digit_facts(2) by auto
  have m: "hex (replicate (length ?cs) 3) = 0x33333333" by (simp add: assms(2) replicate_8)
  have "hex ?cs AND 0x33333333 = hex (map (\<lambda>x. x AND 3) ?cs)" using hex_and [OF c, of 3] unfolding m by simp
  moreover have "hex ?cs div 4 AND 0x33333333 = hex (map (\<lambda>x. x div 4 AND 3) ?cs)"
    using hex_shift_and [OF c, of 3 4] mask_mod(2) unfolding m by simp
  ultimately have "(hex ?cs AND 0x33333333) + (hex ?cs div 4 AND 0x33333333) =
      hex (map (\<lambda>x. (x AND 3) + (x div 4 AND 3)) ?cs)" by (simp only: hex_add)
  also have "\<dots> = hex (map nibble_count ds)"
    using assms(1) fold_digit_facts(3) by (auto intro!: arg_cong [of _ _ hex])
  finally show ?thesis .
qed

lemma hex_div: "a < 16 \<Longrightarrow> hex (a # xs) div 16 = hex xs" by simp

lemma step_three:
  assumes "\<forall>x\<in>set [a, b, c, d, e, f, g, h]. x \<le> 4"
  shows "(hex [a, b, c, d, e, f, g, h] + hex [a, b, c, d, e, f, g, h] div 16) AND 0x0F0F0F0F =
     hex [a + b, 0, c + d, 0, e + f, 0, g + h, 0]"
proof -
  have "hex [a, b, c, d, e, f, g, h] div 16 = hex [b, c, d, e, f, g, h, 0]"
    using assms hex_div [of a "[b, c, d, e, f, g, h]"] by simp
  then have s: "hex [a, b, c, d, e, f, g, h] + hex [a, b, c, d, e, f, g, h] div 16 =
      hex [a + b, b + c, c + d, d + e, e + f, f + g, g + h, h]" by simp
  have m: "0x0F0F0F0F = hex [15, 0, 15, 0, 15, 0, 15, 0]" by simp
  have low: "x AND 15 = x" if "x \<le> 8" for x :: nat
    using that take_bit_nat_eq_self [of x 4] by (simp add: take_bit_eq_mask mask_eq_exp_minus_1)
  have "hex [a + b, b + c, c + d, d + e, e + f, f + g, g + h, h] AND hex [15, 0, 15, 0, 15, 0, 15, 0] =
      hex (map2 (AND) [a + b, b + c, c + d, d + e, e + f, f + g, g + h, h] [15, 0, 15, 0, 15, 0, 15, 0])"
    by (rule hex_and_pairs) (use assms in simp)
  also have "map2 (AND) [a + b, b + c, c + d, d + e, e + f, f + g, g + h, h] [15, 0, 15, 0, 15, 0, 15, 0] =
      [a + b, 0, c + d, 0, e + f, 0, g + h, 0]" using assms by (simp add: low)
  finally show ?thesis unfolding s m .
qed


lemma top_byte:
  "low < 16777216 \<Longrightarrow> low + 16777216 * s < 4294967296 \<Longrightarrow>
     (low + 16777216 * s + h * 4294967296) mod 2 ^ 32 div 2 ^ 24 = (s :: nat)"
  by simp

lemma step_four:
  assumes "a \<le> 8" "b \<le> 8" "c \<le> 8" "d \<le> (8 :: nat)"
  shows "hex [a, 0, b, 0, c, 0, d, 0] * 0x01010101 mod 2 ^ 32 div 2 ^ 24 = a + b + c + d"
proof -
  let ?low = "a + 256 * (a + b) + 65536 * (a + b + c)" and ?high = "b + c + d + 256 * (c + d) + 65536 * d"
  have "hex [a, 0, b, 0, c, 0, d, 0] * 0x01010101 = (?low + 16777216 * (a + b + c + d)) + ?high * 4294967296"
    by simp
  moreover have "a + b + c + d \<le> 32" "a + b + c \<le> 24" "a + b \<le> 16" using assms by auto
  then have "?low < 16777216" "?low + 16777216 * (a + b + c + d) < 4294967296" using assms(1) by auto
  ultimately show ?thesis using top_byte by (simp only:)
qed

section \<open>The equivalence\<close>

lemma popcount_unat: "popcount v = bit_count 32 (unat v)"
proof -
  have "bit (unat v) i = bit v i" for i by (simp add: bit_unsigned_iff)
  then show ?thesis by (simp add: popcount_def bit_count_def cong: filter_cong)
qed

lemma unat_add_small: "unat a + unat b < 2 ^ 32 \<Longrightarrow> unat (a + b :: u32) = unat a + unat b"
  by (simp add: unat_word_ariths)

lemma unat_fold_add:
  fixes y :: u32
  shows "unat ((y AND 0x33333333) + (drop_bit 2 y AND 0x33333333)) =
      (unat y AND 0x33333333) + (unat y div 4 AND 0x33333333)"
proof -
  have e: "unat (y AND 0x33333333) = unat y AND 0x33333333"
    "unat (drop_bit 2 y AND 0x33333333) = unat y div 4 AND 0x33333333"
    by (simp_all add: unsigned_and_eq unsigned_drop_bit_eq drop_bit_eq_div unat_div_distrib)
  have "unat y AND 0x33333333 \<le> 0x33333333" "unat y div 4 AND 0x33333333 \<le> 0x33333333" by (rule and_le_nat)+
  then show ?thesis using unat_add_small [of "y AND 0x33333333" "drop_bit 2 y AND 0x33333333"] unfolding e by simp
qed

lemma unat_top_byte:
  fixes w :: u32
  shows "unat (drop_bit 24 ((w AND 0x0F0F0F0F) * 0x01010101)) =
     (unat w AND 0x0F0F0F0F) * 0x01010101 mod 2 ^ 32 div 2 ^ 24"
  by (simp add: unat_drop_bit_eq drop_bit_eq_div unat_word_ariths unsigned_and_eq)

lemma unat_hweight:
  assumes "unat v div 2 AND 0x55555555 \<le> unat v"
    "y = unat v - (unat v div 2 AND 0x55555555)"
    "z = (y AND 0x33333333) + (y div 4 AND 0x33333333)"
  shows "unat (gfx_hweight32 v) = ((z + z div 16) AND 0x0F0F0F0F) * 0x01010101 mod 2 ^ 32 div 2 ^ 24"
proof -
  let ?y = "v - (drop_bit 1 v AND 0x55555555)"
  let ?z = "(?y AND 0x33333333) + (drop_bit 2 ?y AND 0x33333333)"
  have m: "unat (drop_bit 1 v AND 0x55555555) = unat v div 2 AND 0x55555555"
    by (simp add: unsigned_and_eq unsigned_drop_bit_eq drop_bit_eq_div unat_div_distrib)
  have y: "unat ?y = y" using assms(1,2) m unat_sub [of "drop_bit 1 v AND 0x55555555" v] by (simp add: word_le_nat_alt)
  have z: "unat ?z = z" unfolding unat_fold_add y assms(3) ..
  have "z \<le> 0x33333333 + 0x33333333" unfolding assms(3) by (intro add_mono and_le_nat)
  moreover have q: "unat (drop_bit 4 ?z) = z div 16" unfolding unat_drop_bit_eq z by (simp add: drop_bit_eq_div)
  ultimately have s: "unat (?z + drop_bit 4 ?z) = z + z div 16"
    using unat_add_small [of ?z "drop_bit 4 ?z"] unfolding z q by simp
  have "unat (drop_bit 24 (((?z + drop_bit 4 ?z) AND 0x0F0F0F0F) * 0x01010101)) =
      (unat (?z + drop_bit 4 ?z) AND 0x0F0F0F0F) * 0x01010101 mod 2 ^ 32 div 2 ^ 24"
    by (rule unat_top_byte)
  then show ?thesis unfolding s by (simp add: gfx_hweight32_def Let_def)
qed

lemma length_8:
  assumes "length xs = 8"
  obtains a b c d e f g h where "xs = [a, b, c, d, e, f, g, h]"
  using assms by (auto simp: numeral_eq_Suc length_Suc_conv)

text \<open>
  C35. The count of render backends is the count of set bits that the driver uses everywhere else.
\<close>

theorem hweight_counts_bits: "gfx_hweight32 v = word_of_nat (popcount v)"
proof -
  have "unat v < 16 ^ 8" using unsigned_less [of v, where ?'a = nat] by simp
  then obtain ds where d: "length ds = 8" "\<forall>x\<in>set ds. x < 16" "hex ds = unat v" by (rule hex_digits)
  have "length (map nibble_count ds) = 8" by (simp add: d(1))
  then obtain a b c d' e f g h where l: "map nibble_count ds = [a, b, c, d', e, f, g, h]" by (rule length_8)
  have le: "\<forall>x\<in>set [a, b, c, d', e, f, g, h]. x \<le> 4" unfolding l [symmetric] using d(2) fold_digit_facts(4) by auto
  have p: "a + b \<le> 8" "c + d' \<le> 8" "e + f \<le> 8" "g + h \<le> 8" using le by auto
  have "unat (gfx_hweight32 v) = (a + b) + (c + d') + (e + f) + (g + h)"
    unfolding unat_hweight [OF step_one(1) [OF d(2,1), unfolded d(3)] refl refl] d(3) [symmetric]
      step_one(2) [OF d(2,1)] step_two [OF d(2,1)] l step_three [OF le] by (rule step_four [OF p])
  also have "\<dots> = popcount v" using bit_count_hex [OF d(2)] by (simp add: popcount_unat d l)
  finally have e: "unat (gfx_hweight32 v) = popcount v" .
  have "word_of_nat (unat (gfx_hweight32 v)) = gfx_hweight32 v" by simp
  then show ?thesis unfolding e ..
qed

section \<open>The masks of the compute units\<close>

lemma bit_mask_half:
  assumes "k \<le> 16" "sh < 2" "b < 32"
  shows "bit (push_bit (sh * 16) (push_bit k 1 - 1) :: u32) b \<longleftrightarrow> b div 16 = sh \<and> b mod 16 < k"
proof -
  have m: "push_bit k 1 - 1 = (mask k :: u32)" by (simp add: mask_eq_exp_minus_1 push_bit_eq_mult)
  have "bit (push_bit (sh * 16) (mask k) :: u32) b \<longleftrightarrow> sh * 16 \<le> b \<and> b - sh * 16 < k"
    using assms(3) by (auto simp: bit_push_bit_iff bit_mask_iff)
  also have "\<dots> \<longleftrightarrow> b div 16 = sh \<and> b mod 16 < k"
  proof (cases "b < 16")
    case True
    then show ?thesis using assms(1,2) by (cases sh) auto
  next
    case False
    then have "b div 16 = 1" "b mod 16 = b - 16" using assms(3) by (auto simp: div_nat_eqI mod_nat_eqI le_mod_geq)
    then show ?thesis using False assms(1,2) by auto
  qed
  finally show ?thesis unfolding m .
qed

text \<open>What the masks hold after the pairs of \<open>ps\<close>.\<close>

definition unit_bit :: "(nat \<Rightarrow> nat \<Rightarrow> u32) \<Rightarrow> (nat \<times> nat) list \<Rightarrow> nat \<Rightarrow> nat \<Rightarrow> bool" where
  "unit_bit bitmap ps se b \<longleftrightarrow> (se, b div 16) \<in> set ps \<and> b mod 16 < popcount (bitmap se (b div 16))"

lemma mask_fold_none: "fold (mask_step bitmap) ps None = None"
  by (induction ps) (simp_all add: mask_step_def)

lemma mask_step_Some:
  "mask_step bitmap (se, sh) (Some (res, n)) = (let k = popcount (bitmap se sh)
     in if 16 < k \<or> k mod 2 \<noteq> 0 then None
        else Some (res[se := res ! se OR push_bit (sh * 16) (push_bit k 1 - 1)], n + word_of_nat k))"
  by (simp add: mask_step_def)

lemma mask_fold:
  assumes "fold (mask_step bitmap) ps (Some (res, n)) = Some (res', n')" "\<forall>(se, sh)\<in>set ps. se < length res \<and> sh < 2"
  shows "length res' = length res \<and> n' = n + word_of_nat (\<Sum>(se, sh)\<leftarrow>ps. popcount (bitmap se sh)) \<and>
    (\<forall>(se, sh)\<in>set ps. popcount (bitmap se sh) \<le> 16) \<and>
    (\<forall>se<length res. \<forall>b<32. bit (res' ! se) b \<longleftrightarrow> bit (res ! se) b \<or> unit_bit bitmap ps se b)"
  using assms
proof (induction ps arbitrary: res n)
  case Nil
  then show ?case by (simp add: unit_bit_def)
next
  case (Cons p ps)
  obtain se sh where p: "p = (se, sh)" by fastforce
  let ?k = "popcount (bitmap se sh)"
  have lt: "se < length res" "sh < 2" using Cons.prems(2) p by auto
  have k: "?k \<le> 16" using Cons.prems(1) p
    by (auto simp: mask_step_Some Let_def mask_fold_none split: if_splits)
  let ?res = "res[se := res ! se OR push_bit (sh * 16) (push_bit ?k 1 - 1)]"
  have run: "fold (mask_step bitmap) ps (Some (?res, n + word_of_nat ?k)) = Some (res', n')"
    using Cons.prems(1) p by (auto simp: mask_step_Some Let_def mask_fold_none split: if_splits)
  have IH: "length res' = length res \<and> n' = n + word_of_nat ?k + word_of_nat (\<Sum>(se, sh)\<leftarrow>ps. popcount (bitmap se sh)) \<and>
    (\<forall>(se, sh)\<in>set ps. popcount (bitmap se sh) \<le> 16) \<and>
    (\<forall>i<length res. \<forall>b<32. bit (res' ! i) b \<longleftrightarrow> bit (?res ! i) b \<or> unit_bit bitmap ps i b)"
    using Cons.IH [OF run] Cons.prems(2) by simp
  have "bit (?res ! i) b \<or> unit_bit bitmap ps i b \<longleftrightarrow> bit (res ! i) b \<or> unit_bit bitmap (p # ps) i b"
    if "i < length res" "b < 32" for i b
    using that lt(1) bit_mask_half [OF k lt(2) that(2)]
    by (cases "i = se") (auto simp: p unit_bit_def bit_or_iff)
  then show ?case using IH k by (simp add: p add.assoc)
qed


lemma popcount_halves:
  assumes "\<And>b. b < 32 \<Longrightarrow> bit w b \<longleftrightarrow> b mod 16 < f (b div 16)" "f 0 \<le> 16" "f 1 \<le> 16"
  shows "popcount w = f 0 + f 1"
proof -
  have u: "[0..<32] = [0..<16] @ map (\<lambda>i. i + 16) [0..<16]"
    using upt_add_eq_append [of 0 16 16] by (simp add: map_add_upt)
  have lo: "filter (bit w) [0..<16] = filter (\<lambda>i. i < f 0) [0..<16]"
    by (rule filter_cong) (auto simp: assms(1))
  have d: "(x + 16) div 16 = Suc 0" if "x < 16" for x :: nat using that by simp
  have hi: "filter (\<lambda>i. bit w (i + 16)) [0..<16] = filter (\<lambda>i. i < f 1) [0..<16]"
    by (rule filter_cong) (auto simp: assms(1) d)
  have len: "length (filter (\<lambda>i. i < k) [0..<16]) = k" if "k \<le> 16" for k :: nat
  proof -
    have "[0..<16] = [0..<k] @ [k..<16]" using upt_add_eq_append [of 0 k "16 - k"] that by simp
    then show ?thesis by simp
  qed
  show ?thesis using len [OF assms(2)] len [OF assms(3)] by (simp add: popcount_def u filter_map comp_def lo hi)
qed

lemma sum_product: "(\<Sum>(x, y)\<leftarrow>List.product xs ys. g x y) = (\<Sum>x\<leftarrow>xs. \<Sum>y\<leftarrow>ys. g x y)" for g :: "'a \<Rightarrow> 'b \<Rightarrow> nat"
  by (induction xs) (simp_all add: comp_def)

lemma mask_pairs_sum:
  "(\<Sum>(se, sh)\<leftarrow>List.product [0..<m] [0..<n]. g se sh) = (\<Sum>se<m. \<Sum>sh<n. g se sh)" for g :: "nat \<Rightarrow> nat \<Rightarrow> nat"
  by (simp add: sum_product interv_sum_list_conv_sum_set_nat lessThan_atLeast0)

text \<open>
  The masks for the compute units, when there are any: the half of a mask for shader array \<open>sh\<close> has its
  lowest bits set, as many as the array has active units, and all masks together have exactly as many bits
  set as discovery counted units.
\<close>

theorem compute_masks_enable_active_units:
  assumes "gfx12_compute_masks engines arrays cuCount bitmap = Some masks"
  shows "length masks = 4 \<and> (\<Sum>se<4. popcount (masks ! se)) = unat cuCount \<and>
    (\<forall>se<4. \<forall>b<32. bit (masks ! se) b \<longleftrightarrow> b div 16 < unat arrays \<and> b mod 16 < popcount (bitmap se (b div 16)))"
proof -
  let ?ps = "List.product [0..<4] [0..<unat arrays]"
  let ?n = "\<Sum>(se, sh)\<leftarrow>?ps. popcount (bitmap se sh)"
  have a: "arrays \<noteq> 0" "arrays \<le> 2" and run: "fold (mask_step bitmap) ?ps (Some (replicate 4 0, 0)) = Some (masks, cuCount)"
    using assms by (auto simp: gfx12_compute_masks_def split: if_splits option.splits)
  have u: "unat arrays \<le> 2" using a(2) by (simp add: word_le_nat_alt)
  have F: "length masks = 4" "cuCount = word_of_nat ?n" "\<forall>(se, sh)\<in>set ?ps. popcount (bitmap se sh) \<le> 16"
    "\<forall>se<4. \<forall>b<32. bit (masks ! se) b \<longleftrightarrow> unit_bit bitmap ?ps se b"
    using mask_fold [OF run] u by auto
  have bits: "bit (masks ! se) b \<longleftrightarrow> b div 16 < unat arrays \<and> b mod 16 < popcount (bitmap se (b div 16))"
    if "se < 4" "b < 32" for se b using F(4) that by (auto simp: unit_bit_def)
  let ?f = "\<lambda>se sh. if sh < unat arrays then popcount (bitmap se sh) else 0"
  have f: "?f se sh \<le> 16" if "se < 4" for se sh using F(3) that by auto
  have "popcount (masks ! se) = (\<Sum>sh<unat arrays. popcount (bitmap se sh))" if se: "se < 4" for se
  proof -
    have "bit (masks ! se) b \<longleftrightarrow> b mod 16 < ?f se (b div 16)" if "b < 32" for b using bits [OF se that] by simp
    then have "popcount (masks ! se) = ?f se 0 + ?f se 1" 
      by (rule popcount_halves [where f = "?f se"]) (assumption, (rule f [OF se])+)
    moreover have "unat arrays = 1 \<or> unat arrays = 2" using u a(1) by (auto simp: le_Suc_eq numeral_2_eq_2 unat_eq_zero)
    ultimately show ?thesis by (auto simp: numeral_2_eq_2)
  qed
  then have total: "(\<Sum>se<4. popcount (masks ! se)) = ?n" by (simp add: mask_pairs_sum)
  have "?n \<le> (\<Sum>se<(4::nat). \<Sum>sh<unat arrays. 16)" unfolding mask_pairs_sum by (intro sum_mono) (use F(3) in auto)
  also have "\<dots> \<le> 128" using u by simp
  finally have "unat cuCount = ?n" unfolding F(2) by (simp add: unat_of_nat)
  then show ?thesis using F(1) total bits by simp
qed

definition demo_units :: "nat \<Rightarrow> nat \<Rightarrow> u32" where
  "demo_units se sh = (if se = 1 then (if sh = 0 then 0xF0 else 0) else if se = 3 then 0x41 else if sh = 0 then 0xC else 0)"

lemma compute_masks_enable_active_units_witness:
  "gfx12_compute_masks 4 2 12 demo_units = Some [3, 15, 3, 0x00030003] \<and>
   (\<Sum>se<4. popcount ([3, 15, 3, 0x00030003] ! se)) = unat (12 :: u32)"
proof -
  have "gfx12_compute_masks 4 2 12 demo_units = Some [3, 15, 3, 0x00030003]" by code_simp
  then show ?thesis using compute_masks_enable_active_units [of 4 2 12 demo_units "[3, 15, 3, 0x00030003]"] by blast
qed

end
