(* ===== verification/Cp_Regs.thy ===== *)
theory Cp_Regs
  imports Mes_Bringup
begin

text \<open>
  \<^verbatim>\<open>dext/amdgpu/amdgpu_cp_registers.h\<close> and the register fields of \<^verbatim>\<open>amdgpu_cp.h\<close>: the registers of the command
  processor with the segment of the base address each is relative to. The prefix \<open>CPR_\<close> stands for the
  namespace \<^verbatim>\<open>CPRegs\<close>.
\<close>

definition CPR_CP_RB_WPTR_DELAY :: "u32 \<times> int" where "CPR_CP_RB_WPTR_DELAY = (0x0F61, 0)"
definition CPR_CP_RB0_BASE :: "u32 \<times> int" where "CPR_CP_RB0_BASE = (0x1DE0, 0)"
definition CPR_CP_RB0_CNTL :: "u32 \<times> int" where "CPR_CP_RB0_CNTL = (0x1DE1, 0)"
definition CPR_CP_RB0_RPTR_ADDR :: "u32 \<times> int" where "CPR_CP_RB0_RPTR_ADDR = (0x1DE3, 0)"
definition CPR_CP_RB0_RPTR_ADDR_HI :: "u32 \<times> int" where "CPR_CP_RB0_RPTR_ADDR_HI = (0x1DE4, 0)"
definition CPR_CP_DEVICE_ID :: "u32 \<times> int" where "CPR_CP_DEVICE_ID = (0x1DEB, 0)"
definition CPR_CP_RB_VMID :: "u32 \<times> int" where "CPR_CP_RB_VMID = (0x1DF1, 0)"
definition CPR_CP_RB0_WPTR :: "u32 \<times> int" where "CPR_CP_RB0_WPTR = (0x1DF4, 0)"
definition CPR_CP_RB0_WPTR_HI :: "u32 \<times> int" where "CPR_CP_RB0_WPTR_HI = (0x1DF5, 0)"
definition CPR_CP_RB_DOORBELL_RANGE_LOWER :: "u32 \<times> int" where "CPR_CP_RB_DOORBELL_RANGE_LOWER = (0x1DFA, 0)"
definition CPR_CP_RB_DOORBELL_RANGE_UPPER :: "u32 \<times> int" where "CPR_CP_RB_DOORBELL_RANGE_UPPER = (0x1DFB, 0)"
definition CPR_CP_MEC_DOORBELL_RANGE_LOWER :: "u32 \<times> int" where "CPR_CP_MEC_DOORBELL_RANGE_LOWER = (0x1DFC, 0)"
definition CPR_CP_MEC_DOORBELL_RANGE_UPPER :: "u32 \<times> int" where "CPR_CP_MEC_DOORBELL_RANGE_UPPER = (0x1DFD, 0)"
definition CPR_CP_MAX_CONTEXT :: "u32 \<times> int" where "CPR_CP_MAX_CONTEXT = (0x1E4E, 0)"
definition CPR_CP_RB0_BASE_HI :: "u32 \<times> int" where "CPR_CP_RB0_BASE_HI = (0x1E51, 0)"
definition CPR_CP_RB_WPTR_POLL_ADDR_LO :: "u32 \<times> int" where "CPR_CP_RB_WPTR_POLL_ADDR_LO = (0x1E8B, 0)"
definition CPR_CP_RB_WPTR_POLL_ADDR_HI :: "u32 \<times> int" where "CPR_CP_RB_WPTR_POLL_ADDR_HI = (0x1E8C, 0)"
definition CPR_CP_RB_DOORBELL_CONTROL :: "u32 \<times> int" where "CPR_CP_RB_DOORBELL_CONTROL = (0x1E8D, 0)"
definition CPR_CP_RB_ACTIVE :: "u32 \<times> int" where "CPR_CP_RB_ACTIVE = (0x1F40, 0)"
definition CPR_CP_ME_CNTL :: "u32 \<times> int" where "CPR_CP_ME_CNTL = (0x0803, 1)"
definition CPR_CP_MEC_RS64_CNTL :: "u32 \<times> int" where "CPR_CP_MEC_RS64_CNTL = (0x2904, 1)"
definition CPR_GRBM_GFX_CNTL :: "u32 \<times> int" where "CPR_GRBM_GFX_CNTL = (0x0900, 1)"
definition CPR_CP_STAT :: "u32 \<times> int" where "CPR_CP_STAT = (0x0F40, 0)"
definition CPR_CP_RB0_RPTR :: "u32 \<times> int" where "CPR_CP_RB0_RPTR = (0x0F60, 0)"
definition CPR_CP_PFP_PRGRM_CNTR_START :: "u32 \<times> int" where "CPR_CP_PFP_PRGRM_CNTR_START = (0x1E44, 0)"
definition CPR_CP_PFP_PRGRM_CNTR_START_HI :: "u32 \<times> int" where "CPR_CP_PFP_PRGRM_CNTR_START_HI = (0x1E59, 0)"
definition CPR_CP_ME_PRGRM_CNTR_START :: "u32 \<times> int" where "CPR_CP_ME_PRGRM_CNTR_START = (0x1E45, 0)"
definition CPR_CP_ME_PRGRM_CNTR_START_HI :: "u32 \<times> int" where "CPR_CP_ME_PRGRM_CNTR_START_HI = (0x1E79, 0)"
definition CPR_CP_MEC_RS64_PRGRM_CNTR_START :: "u32 \<times> int" where "CPR_CP_MEC_RS64_PRGRM_CNTR_START = (0x2900, 1)"
definition CPR_CP_MEC_RS64_PRGRM_CNTR_START_HI :: "u32 \<times> int" where "CPR_CP_MEC_RS64_PRGRM_CNTR_START_HI = (0x2938, 1)"
definition CPR_GCVM_L2_PROTECTION_FAULT_STATUS_LO32 :: "u32 \<times> int" where "CPR_GCVM_L2_PROTECTION_FAULT_STATUS_LO32 = (0x15D0, 0)"
definition CPR_GCVM_L2_PROTECTION_FAULT_STATUS_HI32 :: "u32 \<times> int" where "CPR_GCVM_L2_PROTECTION_FAULT_STATUS_HI32 = (0x15D1, 0)"
definition CPR_GCVM_L2_PROTECTION_FAULT_ADDR_LO32 :: "u32 \<times> int" where "CPR_GCVM_L2_PROTECTION_FAULT_ADDR_LO32 = (0x15D2, 0)"
definition CPR_GCVM_L2_PROTECTION_FAULT_ADDR_HI32 :: "u32 \<times> int" where "CPR_GCVM_L2_PROTECTION_FAULT_ADDR_HI32 = (0x15D3, 0)"
definition CPR_SCRATCH_REG0 :: "u32 \<times> int" where "CPR_SCRATCH_REG0 = (0x2040, 1)"
definition CPR_CP_CPC_STATUS :: "u32 \<times> int" where "CPR_CP_CPC_STATUS = (0x0E24, 0)"
definition CPR_CP_PFP_INSTR_PNTR :: "u32 \<times> int" where "CPR_CP_PFP_INSTR_PNTR = (0x0F45, 0)"
definition CPR_CP_ME_INSTR_PNTR :: "u32 \<times> int" where "CPR_CP_ME_INSTR_PNTR = (0x0F46, 0)"
definition CPR_CP_GFX_HQD_ACTIVE :: "u32 \<times> int" where "CPR_CP_GFX_HQD_ACTIVE = (0x1E80, 0)"
definition CPR_CP_GFX_HQD_VMID :: "u32 \<times> int" where "CPR_CP_GFX_HQD_VMID = (0x1E81, 0)"
definition CPR_CP_GFX_HQD_BASE :: "u32 \<times> int" where "CPR_CP_GFX_HQD_BASE = (0x1E86, 0)"
definition CPR_CP_GFX_HQD_BASE_HI :: "u32 \<times> int" where "CPR_CP_GFX_HQD_BASE_HI = (0x1E87, 0)"
definition CPR_CP_GFX_HQD_RPTR :: "u32 \<times> int" where "CPR_CP_GFX_HQD_RPTR = (0x1E88, 0)"
definition CPR_CP_GFX_HQD_WPTR :: "u32 \<times> int" where "CPR_CP_GFX_HQD_WPTR = (0x1E91, 0)"
definition CPR_CP_GFX_HQD_WPTR_HI :: "u32 \<times> int" where "CPR_CP_GFX_HQD_WPTR_HI = (0x1E92, 0)"
definition CPR_CP_GFX_HQD_MAPPED :: "u32 \<times> int" where "CPR_CP_GFX_HQD_MAPPED = (0x1E94, 0)"
definition CPR_CP_GFX_RS64_INSTR_PNTR0 :: "u32 \<times> int" where "CPR_CP_GFX_RS64_INSTR_PNTR0 = (0x2A44, 1)"
definition CPR_CP_GFX_RS64_INSTR_PNTR1 :: "u32 \<times> int" where "CPR_CP_GFX_RS64_INSTR_PNTR1 = (0x2A45, 1)"

section \<open>Fields\<close>

definition CP_ME_CNTL__PFP_HALT :: field where "CP_ME_CNTL__PFP_HALT = (0x04000000, 0x1a)"
definition CP_ME_CNTL__ME_HALT :: field where "CP_ME_CNTL__ME_HALT = (0x10000000, 0x1c)"
definition CP_MEC_RS64_CNTL__MEC_INVALIDATE_ICACHE :: field where "CP_MEC_RS64_CNTL__MEC_INVALIDATE_ICACHE = (0x00000010, 0x4)"
definition CP_MEC_RS64_CNTL__MEC_PIPE0_RESET :: field where "CP_MEC_RS64_CNTL__MEC_PIPE0_RESET = (0x00010000, 0x10)"
definition CP_MEC_RS64_CNTL__MEC_PIPE1_RESET :: field where "CP_MEC_RS64_CNTL__MEC_PIPE1_RESET = (0x00020000, 0x11)"
definition CP_MEC_RS64_CNTL__MEC_PIPE2_RESET :: field where "CP_MEC_RS64_CNTL__MEC_PIPE2_RESET = (0x00040000, 0x12)"
definition CP_MEC_RS64_CNTL__MEC_PIPE3_RESET :: field where "CP_MEC_RS64_CNTL__MEC_PIPE3_RESET = (0x00080000, 0x13)"
definition CP_MEC_RS64_CNTL__MEC_PIPE0_ACTIVE :: field where "CP_MEC_RS64_CNTL__MEC_PIPE0_ACTIVE = (0x04000000, 0x1a)"
definition CP_MEC_RS64_CNTL__MEC_PIPE1_ACTIVE :: field where "CP_MEC_RS64_CNTL__MEC_PIPE1_ACTIVE = (0x08000000, 0x1b)"
definition CP_MEC_RS64_CNTL__MEC_PIPE2_ACTIVE :: field where "CP_MEC_RS64_CNTL__MEC_PIPE2_ACTIVE = (0x10000000, 0x1c)"
definition CP_MEC_RS64_CNTL__MEC_PIPE3_ACTIVE :: field where "CP_MEC_RS64_CNTL__MEC_PIPE3_ACTIVE = (0x20000000, 0x1d)"
definition CP_MEC_RS64_CNTL__MEC_HALT :: field where "CP_MEC_RS64_CNTL__MEC_HALT = (0x40000000, 0x1e)"
definition CP_RB0_CNTL__RB_BUFSZ :: field where "CP_RB0_CNTL__RB_BUFSZ = (0x0000003F, 0x0)"
definition CP_RB0_CNTL__RB_BLKSZ :: field where "CP_RB0_CNTL__RB_BLKSZ = (0x00003F00, 0x8)"
definition CP_RB_DOORBELL_CONTROL__DOORBELL_OFFSET :: field where "CP_RB_DOORBELL_CONTROL__DOORBELL_OFFSET = (0x0FFFFFFC, 0x2)"
definition CP_RB_DOORBELL_CONTROL__DOORBELL_EN :: field where "CP_RB_DOORBELL_CONTROL__DOORBELL_EN = (0x40000000, 0x1e)"
definition CP_RB_DOORBELL_RANGE_LOWER__DOORBELL_RANGE_LOWER :: field where "CP_RB_DOORBELL_RANGE_LOWER__DOORBELL_RANGE_LOWER = (0x0FFFFFFC, 0x2)"

section \<open>Access\<close>

definition cp_reg :: "'d DeviceContext \<Rightarrow> u32 \<times> int \<Rightarrow> u32" where
  "cp_reg dev r = SOC15_REG_OFFSET_BIDX dev GC (snd r) (fst r)"

definition cp_rreg :: "'d DeviceContext \<Rightarrow> u32 \<times> int \<Rightarrow> 'd \<Rightarrow> u32 \<times> 'd" where
  "cp_rreg dev r = RREG32 dev (cp_reg dev r)"

definition cp_wreg :: "'d DeviceContext \<Rightarrow> u32 \<times> int \<Rightarrow> u32 \<Rightarrow> 'd \<Rightarrow> 'd" where
  "cp_wreg dev r v = WREG32 dev (cp_reg dev r) v"

end
