(* ===== verification/Compute_Packets.thy ===== *)
theory Compute_Packets
  imports Prelude
begin

text \<open>
  \<^verbatim>\<open>dext/amdgpu/amdgpu_pm4.h\<close>, \<^verbatim>\<open>amdgpu_dispatch_abi.h\<close> and \<^verbatim>\<open>amdgpu_compute_packets.h\<close>: the packets of the
  command processor, and the program that dispatches one compute kernel. A packet buffer is the list of the
  dwords written to it; \<open>None\<close> stands for the returned length zero.
\<close>

unbundle bit_operations_syntax

section \<open>PM4\<close>

definition kPM4Type3 :: u32 where "kPM4Type3 = 3"
definition kPM4OpNop :: u32 where "kPM4OpNop = 0x10"
definition kPM4OpWriteData :: u32 where "kPM4OpWriteData = 0x37"
definition kPM4OpReleaseMem :: u32 where "kPM4OpReleaseMem = 0x49"
definition kPM4OpIndirectBuffer :: u32 where "kPM4OpIndirectBuffer = 0x3F"
definition kPM4OpSetUconfigReg :: u32 where "kPM4OpSetUconfigReg = 0x79"
definition kPM4UconfigStart :: u32 where "kPM4UconfigStart = 0xC000"
definition kPM4UconfigEnd :: u32 where "kPM4UconfigEnd = 0xC400"

definition pm4_header :: "u32 \<Rightarrow> u32 \<Rightarrow> u32" where
  "pm4_header op count_minus_1 =
     push_bit 30 kPM4Type3 OR push_bit 8 (op AND 0xFF) OR push_bit 16 (count_minus_1 AND 0x3FFF)"

definition pm4_nop :: u32 where "pm4_nop = pm4_header kPM4OpNop 0"

definition pm4_gfx_ib :: "u64 \<Rightarrow> u32 \<Rightarrow> u32 \<Rightarrow> u32 list option" where
  "pm4_gfx_ib address dwords vmid =
     (if address AND 31 \<noteq> 0 \<or> drop_bit 48 address \<noteq> 0 \<or> dwords = 0 \<or> dwords AND 7 \<noteq> 0 \<or> 0xFFFFF < dwords \<or>
         15 < vmid \<or> push_bit 48 1 - ucast dwords * 4 < address
      then None
      else Some [pm4_header kPM4OpIndirectBuffer 2, ucast address, ucast (drop_bit 32 address),
             dwords OR push_bit 24 vmid])"

definition kPM4WriteDataDstSelMemory :: u32 where "kPM4WriteDataDstSelMemory = 5"
definition kPM4WriteDataEngineME :: u32 where "kPM4WriteDataEngineME = 0"

definition pm4_write_data_control :: "u32 \<Rightarrow> u32 \<Rightarrow> bool \<Rightarrow> u32" where
  "pm4_write_data_control engine_sel dst_sel wr_confirm =
     (let c = push_bit 24 (engine_sel AND 0xF) OR push_bit 20 (dst_sel AND 0x7)
      in if wr_confirm then c OR push_bit 16 1 else c)"

definition kPM4RMEventCacheFlushAndInvTS :: u32 where "kPM4RMEventCacheFlushAndInvTS = 0x14"
definition kPM4RMEventIndexFence :: u32 where "kPM4RMEventIndexFence = 0x05"
definition kPM4RMCachePolicyBypass :: u32 where "kPM4RMCachePolicyBypass = 0x3"
definition kPM4RMGCRGL2WB :: u32 where "kPM4RMGCRGL2WB = push_bit 21 1"
definition kPM4RMGCRSeq :: u32 where "kPM4RMGCRSeq = push_bit 22 1"
definition kPM4RMDataSel32 :: u32 where "kPM4RMDataSel32 = 1"
definition kPM4RMDataSel64 :: u32 where "kPM4RMDataSel64 = 2"
definition kPM4RMIntSelNone :: u32 where "kPM4RMIntSelNone = 0"
definition kPM4RMIntSelSendInt :: u32 where "kPM4RMIntSelSendInt = 2"

definition pm4_release_mem_dw1 :: u32 where
  "pm4_release_mem_dw1 = kPM4RMEventCacheFlushAndInvTS AND 0x3F OR push_bit 8 (kPM4RMEventIndexFence AND 0xF) OR
     kPM4RMGCRGL2WB OR kPM4RMGCRSeq OR push_bit 25 (kPM4RMCachePolicyBypass AND 0x3)"

definition pm4_release_mem_dw2 :: "u32 \<Rightarrow> u32 \<Rightarrow> u32" where
  "pm4_release_mem_dw2 data_sel int_sel = push_bit 29 (data_sel AND 0x7) OR push_bit 24 (int_sel AND 0x3)"

definition pm4_build_fence :: "u64 \<Rightarrow> u64 \<Rightarrow> bool \<Rightarrow> bool \<Rightarrow> u32 list" where
  "pm4_build_fence address v write64 interrupt =
     [pm4_nop, 0, pm4_header kPM4OpReleaseMem 6, pm4_release_mem_dw1,
      pm4_release_mem_dw2 (if write64 then kPM4RMDataSel64 else kPM4RMDataSel32)
        (if interrupt then kPM4RMIntSelSendInt else kPM4RMIntSelNone),
      ucast address, ucast (drop_bit 32 address), ucast v, ucast (drop_bit 32 v), 0]"

section \<open>The request\<close>

record ComputeDispatchRequest =
  cd_version :: u32
  cd_flags :: u32
  cd_codeHandle :: u64
  cd_codeOffset :: u64
  cd_codeBytes :: u64
  cd_groups :: "u32 list" \<comment> \<open>3\<close>
  cd_threads :: "u32 list" \<comment> \<open>3\<close>
  cd_rsrc1 :: u32
  cd_rsrc2 :: u32
  cd_userSGPRCount :: u32
  cd_timeoutUS :: u32
  cd_userSGPR :: "u32 list" \<comment> \<open>16\<close>
  cd_buffers :: "u64 list" \<comment> \<open>16\<close>
  cd_rsrc3 :: u32
  cd_reserved :: u32

definition compute_request_zero :: ComputeDispatchRequest where
  "compute_request_zero = \<lparr>cd_version = 0, cd_flags = 0, cd_codeHandle = 0, cd_codeOffset = 0, cd_codeBytes = 0,
     cd_groups = [0, 0, 0], cd_threads = [0, 0, 0], cd_rsrc1 = 0, cd_rsrc2 = 0, cd_userSGPRCount = 0,
     cd_timeoutUS = 0, cd_userSGPR = replicate 16 0, cd_buffers = replicate 16 0, cd_rsrc3 = 0, cd_reserved = 0\<rparr>"

definition kComputeDispatchV1Bytes :: u32 where "kComputeDispatchV1Bytes = 264"

text \<open>The loop over the three dimensions; the argument is the product so far.\<close>

primrec dispatch_dimensions_ok :: "(u32 \<times> u32) list \<Rightarrow> u32 \<Rightarrow> bool" where
  "dispatch_dimensions_ok [] threads = True"
| "dispatch_dimensions_ok (gt # rest) threads =
     (let (g, t) = gt
      in if g = 0 \<or> 0x7FFFFFFF < g \<or> t = 0 \<or> 1024 < t then False
         else if 1024 < threads * t then False else dispatch_dimensions_ok rest (threads * t))"

definition compute_dispatch_shape :: "ComputeDispatchRequest \<Rightarrow> bool" where
  "compute_dispatch_shape r =
     (if cd_version r \<noteq> 1 \<and> cd_version r \<noteq> 2 \<or> cd_flags r \<noteq> 0 \<or> cd_reserved r \<noteq> 0 \<or> cd_codeHandle r = 0 \<or>
         cd_codeBytes r = 0 \<or> cd_codeBytes r AND 3 \<noteq> 0 \<or> cd_codeOffset r AND 255 \<noteq> 0 \<or> cd_timeoutUS r = 0 \<or>
         1000000 < cd_timeoutUS r \<or> 16 < cd_userSGPRCount r
      then False
      else if \<not> dispatch_dimensions_ok (zip (cd_groups r) (cd_threads r)) 1 then False
      else let rsrc1Mask = (if cd_version r = 2 then 0xE40FF03F else 0x040FF03F)
        in if cd_rsrc1 r AND NOT rsrc1Mask \<noteq> 0 \<or> cd_rsrc3 r AND NOT 0x00000FF0 \<noteq> 0 \<or>
              cd_version r = 1 \<and> cd_rsrc3 r \<noteq> 0
        then False
        else let rsrc2Mask = 0x00FF8000 OR 0x00001800 OR 0x00000780 OR 0x3E
        in if cd_rsrc2 r AND NOT rsrc2Mask \<noteq> 0 \<or> drop_bit 1 (cd_rsrc2 r) AND 31 \<noteq> cd_userSGPRCount r \<or>
              drop_bit 11 (cd_rsrc2 r) AND 3 = 3 \<or> 128 < drop_bit 15 (cd_rsrc2 r) AND 511
        then False
        else list_all (\<lambda>v. v = 0) (drop (unat (cd_userSGPRCount r)) (cd_userSGPR r)))"

section \<open>The dispatch\<close>

definition kComputeSmokeCode :: "u32 list" where
  "kComputeSmokeCode = [0x30020082, 0xEE050000, 0x00000002, 0x00000001, 0xBFC00000, 0x4A040402, 0xEE068000,
     0x01000000, 0x00010001, 0xBFC10000, 0xBFB00000]"

definition kComputeSmokeLanes :: u32 where "kComputeSmokeLanes = 32"
definition kComputeSmokeOutputOffset :: u32 where "kComputeSmokeOutputOffset = 256"
definition kComputeSmokeDataBytes :: u32 where "kComputeSmokeDataBytes = 4096"
definition kComputeSmokePacketCapacity :: u32 where "kComputeSmokePacketCapacity = 256"
definition kComputeSmokeAcquireDwords :: u32 where "kComputeSmokeAcquireDwords = 8"

text \<open>A write of a compute register by its byte address, and the synchronisation with the caches.\<close>

definition sh_packet :: "u32 \<times> u32 \<Rightarrow> u32 list" where
  "sh_packet rv = [pm4_header 0x76 1 OR 2, (fst rv - 0xB000) div 4, snd rv]"

definition sync_packet :: "u32 list" where
  "sync_packet = [pm4_header 0x58 6, 0, 0xFFFFFFFF, 0xFFFFFF, 0, 0, 10, 0xC3B1]"

definition dispatch_initiator :: "ComputeDispatchRequest \<Rightarrow> u32" where
  "dispatch_initiator r =
     (let waves = (cd_threads r ! 0 * cd_threads r ! 1 * cd_threads r ! 2 + 31) div 32;
          wgpMode = cd_rsrc1 r AND push_bit 29 1 \<noteq> 0
      in (if waves = 1 \<and> \<not> wgpMode then push_bit 24 1 else 0) OR (if waves mod 4 = 0 then push_bit 22 1 else 0))"

text \<open>The registers in the order of the writes.\<close>

definition dispatch_registers :: "u64 \<Rightarrow> ComputeDispatchRequest \<Rightarrow> u32 list \<Rightarrow> (u32 \<times> u32) list" where
  "dispatch_registers codeVA r cuMask =
     [(0xB82C, 0), (0xB830, ucast (drop_bit 8 codeVA)), (0xB834, ucast (drop_bit 40 codeVA)),
      (0xB838, 0), (0xB83C, 0), (0xB840, 0), (0xB844, 0),
      (0xB848, cd_rsrc1 r), (0xB84C, cd_rsrc2 r), (0xB8A0, cd_rsrc3 r), (0xB860, 0), (0xB854, dispatch_initiator r),
      (0xB858, cuMask ! 0), (0xB85C, cuMask ! 1), (0xB864, cuMask ! 2), (0xB868, cuMask ! 3), (0xB88C, 0)] @
     concat (map (\<lambda>i. [(0xB890 + word_of_nat i * 4, 0), (0xB8AC + word_of_nat i * 4, 0)]) [0..<4]) @
     [(0xB8BC, 0), (0xB9F4, 0), (0xB810, 0), (0xB814, 0), (0xB818, 0),
      (0xB81C, cd_threads r ! 0), (0xB820, cd_threads r ! 1), (0xB824, cd_threads r ! 2)] @
     map (\<lambda>i. (0xB900 + word_of_nat i * 4, cd_userSGPR r ! i)) [0..<16]"

text \<open>The program, and the place of the dispatch in it.\<close>

definition compute_dispatch_packets :: "u64 \<Rightarrow> ComputeDispatchRequest \<Rightarrow> u32 list \<Rightarrow> (u32 list \<times> u32) option" where
  "compute_dispatch_packets codeVA r cuMask =
     (if \<not> compute_dispatch_shape r \<or> codeVA AND 255 \<noteq> 0 \<or> drop_bit 48 codeVA \<noteq> 0 \<or>
         push_bit 48 1 - codeVA < cd_codeBytes r \<or>
         cuMask ! 0 OR cuMask ! 1 OR cuMask ! 2 OR cuMask ! 3 = 0
      then None
      else let before = sync_packet @ concat (map sh_packet (dispatch_registers codeVA r cuMask))
        in Some (before @ [pm4_header 0x15 3 OR 2, cd_groups r ! 0, cd_groups r ! 1, cd_groups r ! 2, 0x8045,
                 pm4_header 0x46 0, 0x407] @ sync_packet, word_of_nat (length before)))"

definition smoke_request :: "u64 \<Rightarrow> u32 \<Rightarrow> ComputeDispatchRequest" where
  "smoke_request dataVA seed = compute_request_zero\<lparr>cd_version := 1, cd_codeHandle := 1,
     cd_codeBytes := word_of_nat (4 * length kComputeSmokeCode), cd_timeoutUS := 100000, cd_groups := [1, 1, 1],
     cd_threads := [kComputeSmokeLanes, 1, 1], cd_rsrc1 := 0xC0000, cd_rsrc2 := push_bit 1 3, cd_userSGPRCount := 3,
     cd_userSGPR := [ucast dataVA, ucast (drop_bit 32 dataVA), seed] @ replicate 13 0\<rparr>"

definition compute_smoke_packets :: "u64 \<Rightarrow> u64 \<Rightarrow> u32 \<Rightarrow> u32 list \<Rightarrow> (u32 list \<times> u32) option" where
  "compute_smoke_packets codeVA dataVA seed cuMask =
     (if dataVA AND 3 \<noteq> 0 \<or> push_bit 48 1 - ucast kComputeSmokeDataBytes < dataVA then None
      else compute_dispatch_packets codeVA (smoke_request dataVA seed) cuMask)"

section \<open>Padding\<close>

text \<open>
  An indirect buffer is a multiple of eight dwords; the rest is one NOP packet, which needs two. The arrays the
  driver copies into are zeroed.
\<close>

definition ib_padded :: "u32 \<Rightarrow> u32" where
  "ib_padded count = (let padded = (count + 7) AND NOT 7 in if padded - count = 1 then padded + 8 else padded)"

definition ib_pad :: "u32 list \<Rightarrow> u32 list" where
  "ib_pad ws =
     (let count = word_of_nat (length ws); padded = ib_padded count
      in if padded = count then ws
         else ws @ pm4_header kPM4OpNop (padded - count - 2) # replicate (unat (padded - count) - 1) 0)"


end
