(* ===== verification/Cp.thy ===== *)
theory Cp
  imports Cp_Regs Compute_Packets Software_Stats Gfx
begin

text \<open>
  \<^verbatim>\<open>dext/amdgpu/cp_v12_0.cpp\<close>, \<^verbatim>\<open>amdgpu_cp.h\<close> and \<^verbatim>\<open>amdgpu_cp_firmware.h\<close>: the command processor. Its ring
  is staged in memory only the CPU sees and copied to VRAM before the doorbell; both write pointers count
  dwords and never wrap. Log lines are left out, but not the register reads of \<^verbatim>\<open>cp_log_control\<close>. \<open>None\<close>
  as an outcome is a call that does not return.
\<close>

section \<open>State\<close>

definition kCPRingDefaultBytes :: u32 where "kCPRingDefaultBytes = 16 * 1024"
definition kCPWBPageBytes :: u32 where "kCPWBPageBytes = 16 * 1024"
definition kCPWBOffsetRptr :: u64 where "kCPWBOffsetRptr = 0"
definition kCPWBOffsetWptr :: u64 where "kCPWBOffsetWptr = 0x40"
definition kCPWBOffsetFence :: u64 where "kCPWBOffsetFence = 0x80"

record CPFirmwareStart =
  fw_address :: u64
  fw_loaded :: bool

text \<open>\<open>cp_wb_device\<close> is the pointer \<^verbatim>\<open>wb_device\<close> being set; it is only ever set to the device itself.\<close>

record CPContext =
  cp_inited :: bool
  cp_firmware :: "nat \<Rightarrow> CPFirmwareStart" \<comment> \<open>PFP, ME, MEC\<close>
  firmwarePrepared :: bool
  enginesStarted :: bool
  cp_mqd_bus :: u64
  ringReady :: bool
  cp_ring_buf :: "u64 option"
  cp_ring_bus :: u64
  cp_ring_vram_off :: u64
  cp_ring_cpu :: "u32 list option"
  cp_ring_size_dwords :: u32
  cp_ring_ptr_mask :: u32
  cp_published_wptr :: u64
  cp_wb_bus :: u64
  cp_wb_vram_off :: u64
  cp_wb_device :: bool
  cp_fence_shadow :: u64
  cp_rptr_gpu_addr :: u64
  cp_wptr_gpu_addr :: u64
  cp_fence_gpu_addr :: u64
  cp_wptr :: u64
  fence_counter :: u32
  cp_doorbell_index :: u32

definition cp_zero :: CPContext where
  "cp_zero = \<lparr>cp_inited = False, cp_firmware = (\<lambda>_. \<lparr>fw_address = 0, fw_loaded = False\<rparr>), firmwarePrepared = False,
     enginesStarted = False, cp_mqd_bus = 0, ringReady = False, cp_ring_buf = None, cp_ring_bus = 0,
     cp_ring_vram_off = 0, cp_ring_cpu = None, cp_ring_size_dwords = 0, cp_ring_ptr_mask = 0, cp_published_wptr = 0,
     cp_wb_bus = 0, cp_wb_vram_off = 0, cp_wb_device = False, cp_fence_shadow = 0, cp_rptr_gpu_addr = 0,
     cp_wptr_gpu_addr = 0, cp_fence_gpu_addr = 0, cp_wptr = 0, fence_counter = 0, cp_doorbell_index = 0\<rparr>"

section \<open>The entry point of a firmware file\<close>

text \<open>Byte offsets in \<^verbatim>\<open>gfx_firmware_header_v2_0\<close>, a packed structure of 60 bytes; \<open>None\<close> is \<^verbatim>\<open>return false\<close>.\<close>

definition payload_fits :: "u32 \<Rightarrow> u32 \<Rightarrow> u32 \<Rightarrow> u32 \<Rightarrow> bool" where
  "payload_fits header_bytes size_bytes offset bytes \<longleftrightarrow>
     bytes \<noteq> 0 \<and> header_bytes \<le> offset \<and> (ucast offset + ucast bytes :: u64) \<le> ucast size_bytes"

definition cp_parse_firmware_start :: "u8 list option \<Rightarrow> u64 option" where
  "cp_parse_firmware_start bin = (case bin of
       None \<Rightarrow> None
     | Some bs \<Rightarrow>
         if length bs < 60 then None
         else let size_bytes = le32 bs 0; header_size_bytes = le32 bs 4;
                  fits = payload_fits header_size_bytes size_bytes
           in if le16 bs 8 \<noteq> 2 \<or> le16 bs 10 \<noteq> 0 \<or> header_size_bytes < 60 \<or> size_bytes < header_size_bytes \<or>
                 length bs < unat size_bytes then None
           else if \<not> fits (le32 bs 24) (le32 bs 36) \<or> \<not> fits (le32 bs 48) (le32 bs 44) then None
           else let entry = ucast (le32 bs 52) OR push_bit 32 (ucast (le32 bs 56)) :: u64
             in if entry = 0 \<or> entry AND 3 \<noteq> 0 then None else Some entry)"

section \<open>Storage\<close>

definition cp_free :: "GMCContext \<Rightarrow> VRAMAllocation \<Rightarrow> GMCContext option" where
  "cp_free gmc a = map_option (\<lambda>va. gmc\<lparr>vram_alloc := va\<rparr>) (free (vram_alloc gmc) a)"

text \<open>The staging buffer: the result, the buffer if there is one, and its CPU address.\<close>

definition cp_staging :: "'d os \<Rightarrow> u64 \<Rightarrow> 'd \<Rightarrow> (kern_return \<times> u64 option \<times> u64) \<times> 'd" where
  "cp_staging os bytes d =
     (let ((r, staging), d) = buf_create os bytes kASPageSize d
      in case staging of
           None \<Rightarrow> ((if r = kIOReturnSuccess then kIOReturnNoMemory else r, None, 0), d)
         | Some b \<Rightarrow>
             if r \<noteq> kIOReturnSuccess then ((r, Some b, 0), d)
             else let (_, d) = buf_set_length os b bytes d;
                      ((_, cpu, cpu_len), d) = buf_address os b d
               in ((if cpu = 0 \<or> cpu_len < bytes then kIOReturnNoMemory else kIOReturnSuccess, Some b, cpu), d))"

definition cp_storage_fields :: "VRAMAllocation \<Rightarrow> VRAMAllocation \<Rightarrow> u64 \<Rightarrow> u64 option \<Rightarrow> CPContext \<Rightarrow> CPContext" where
  "cp_storage_fields ring wb start staging cp =
     cp\<lparr>cp_ring_buf := staging, cp_ring_cpu := Some (replicate (unat (va_size ring) div 4) 0),
        cp_ring_bus := gpu_va ring, cp_ring_vram_off := gpu_va ring - start,
        cp_ring_size_dwords := kCPRingDefaultBytes div 4, cp_ring_ptr_mask := kCPRingDefaultBytes div 4 - 1,
        cp_wb_bus := gpu_va wb, cp_wb_vram_off := gpu_va wb - start, cp_wb_device := True, cp_fence_shadow := 0,
        cp_rptr_gpu_addr := gpu_va wb + kCPWBOffsetRptr, cp_wptr_gpu_addr := gpu_va wb + kCPWBOffsetWptr,
        cp_fence_gpu_addr := gpu_va wb + kCPWBOffsetFence, cp_wptr := 0, cp_published_wptr := 0,
        fence_counter := 0, cp_inited := True\<rparr>"

definition cp_storage_ready ::
  "'d DeviceContext \<Rightarrow> 'd os \<Rightarrow> VRAMAllocation \<Rightarrow> VRAMAllocation \<Rightarrow> CPContext \<times> GMCContext \<Rightarrow> 'd \<Rightarrow>
     (CPContext \<times> GMCContext, 'd) outcome"
where
  "cp_storage_ready dev os ring wb s d =
     (let (cp, gmc) = s;
          ((r, staging, cpu), d) = cp_staging os (va_size ring) d;
          (r, d) = (if r = kIOReturnSuccess
                    then vram_clear_verified dev (gpu_va ring - vram_start gmc) (va_size ring) d else (r, d));
          (r, d) = (if r = kIOReturnSuccess
                    then vram_clear_verified dev (gpu_va wb - vram_start gmc) (va_size wb) d else (r, d))
      in if r \<noteq> kIOReturnSuccess
      then let d = (case staging of None \<Rightarrow> d | Some b \<Rightarrow> buf_release os b d)
        in (case cp_free gmc wb of
              None \<Rightarrow> None
            | Some gmc \<Rightarrow> map_option (\<lambda>gmc. ((r, cp, gmc), d)) (cp_free gmc ring))
      else Some ((kIOReturnSuccess, cp_storage_fields ring wb (vram_start gmc) staging cp, gmc),
             cpu_zero os cpu (va_size ring) d))"

definition cp_alloc_storage ::
  "'d DeviceContext \<Rightarrow> 'd os \<Rightarrow> CPContext \<times> GMCContext \<Rightarrow> 'd \<Rightarrow> (CPContext \<times> GMCContext, 'd) outcome"
where
  "cp_alloc_storage dev os s d =
     (let (cp, gmc) = s
      in if cp_inited cp then Some ((kIOReturnSuccess, s), d)
      else if \<not> m_inited (vram_alloc gmc) then Some ((kIOReturnNotReady, s), d)
      else (case alloc (vram_alloc gmc) (ucast kCPRingDefaultBytes) kASPageSize of
          None \<Rightarrow> None
        | Some (None, va) \<Rightarrow> Some ((kIOReturnNoMemory, cp, gmc\<lparr>vram_alloc := va\<rparr>), d)
        | Some (Some ring, va) \<Rightarrow>
            (case alloc va (ucast kCPWBPageBytes) kASPageSize of
               None \<Rightarrow> None
             | Some (None, va) \<Rightarrow>
                 map_option (\<lambda>gmc. ((kIOReturnNoMemory, cp, gmc), d)) (cp_free (gmc\<lparr>vram_alloc := va\<rparr>) ring)
             | Some (Some wb, va) \<Rightarrow> cp_storage_ready dev os ring wb (cp, gmc\<lparr>vram_alloc := va\<rparr>) d)))"

definition cp_release_storage :: "'d os \<Rightarrow> CPContext \<Rightarrow> 'd \<Rightarrow> CPContext \<times> 'd" where
  "cp_release_storage os cp d = (cp_zero, case cp_ring_buf cp of None \<Rightarrow> d | Some b \<Rightarrow> buf_release os b d)"

section \<open>The ring\<close>

definition cp_read_fence :: "'d DeviceContext \<Rightarrow> CPContext \<Rightarrow> 'd \<Rightarrow> (kern_return \<times> u64) \<times> 'd" where
  "cp_read_fence dev cp d =
     (if \<not> cp_inited cp \<or> \<not> cp_wb_device cp then ((kIOReturnNotReady, 0), d)
      else vram_read_fence64 dev (cp_wb_vram_off cp + kCPWBOffsetFence) d)"

text \<open>\<open>None\<close> as the context is the null pointer, as the result \<^verbatim>\<open>return false\<close>.\<close>

definition cp_read_cs_fence :: "'d DeviceContext \<Rightarrow> CPContext option \<Rightarrow> 'd \<Rightarrow> u64 option \<times> 'd" where
  "cp_read_cs_fence dev context d = (case context of
       None \<Rightarrow> (None, d)
     | Some cp \<Rightarrow> let ((r, v), d) = cp_read_fence dev cp d in (if r = kIOReturnSuccess then Some v else None, d))"

definition cp_read_rptr :: "'d DeviceContext \<Rightarrow> CPContext \<Rightarrow> 'd \<Rightarrow> (kern_return \<times> u32) \<times> 'd" where
  "cp_read_rptr dev cp d =
     (if \<not> cp_inited cp \<or> \<not> cp_wb_device cp then ((kIOReturnNotReady, 0), d)
      else vram_read_fence32 dev (cp_wb_vram_off cp + kCPWBOffsetRptr) d)"

definition cp_ring_shape :: "CPContext \<Rightarrow> bool" where
  "cp_ring_shape cp \<longleftrightarrow> 256 \<le> cp_ring_size_dwords cp \<and>
     cp_ring_size_dwords cp AND (cp_ring_size_dwords cp - 1) = 0 \<and>
     cp_ring_ptr_mask cp = cp_ring_size_dwords cp - 1"

text \<open>The dwords up to the next multiple of 256, and those the engine has not fetched.\<close>

definition cp_padding :: "u64 \<Rightarrow> u32" where "cp_padding wptr = ucast (- wptr) AND 0xFF"

definition cp_pending_dwords :: "CPContext \<Rightarrow> u32 \<Rightarrow> u32" where
  "cp_pending_dwords cp rptr = (ucast (cp_wptr cp) - rptr) AND cp_ring_ptr_mask cp"

text \<open>The dwords accepted: all of them or none.\<close>

definition cp_ring_write :: "'d DeviceContext \<Rightarrow> u32 list \<Rightarrow> CPContext \<Rightarrow> 'd \<Rightarrow> (u32 \<times> CPContext) \<times> 'd" where
  "cp_ring_write dev src cp d =
     (let dwords = word_of_nat (length src); sz = ucast (cp_ring_size_dwords cp) :: u64
      in case cp_ring_cpu cp of
           None \<Rightarrow> ((0, cp), d)
         | Some ring \<Rightarrow>
             if \<not> ringReady cp \<or> dwords = 0 \<or> \<not> cp_ring_shape cp \<or>
                0xFFFFFFFFFFFFFFFF - ucast dwords - 255 < cp_wptr cp
             then ((0, cp), d)
             else let ((r, rptr), d) = cp_read_rptr dev cp d
               in if r \<noteq> kIOReturnSuccess then ((0, cp), d)
               else let pending = cp_pending_dwords cp rptr; padding = cp_padding (cp_wptr cp + ucast dwords)
               in if cp_wptr cp < cp_published_wptr cp \<or>
                     sz \<le> cp_wptr cp - cp_published_wptr cp + ucast dwords + ucast padding \<or>
                     sz \<le> ucast pending + ucast dwords + ucast padding
               then ((0, cp), d)
               else if cp_ring_size_dwords cp div 2 < dwords then ((0, cp), d)
               else ((dwords, cp\<lparr>cp_ring_cpu := Some (ring_put ring (cp_wptr cp) (cp_ring_ptr_mask cp) src),
                                cp_wptr := cp_wptr cp + ucast dwords\<rparr>), d))"

definition cp_emit_eop_fence :: "'d DeviceContext \<Rightarrow> CPContext \<Rightarrow> 'd \<Rightarrow> (u32 \<times> CPContext) \<times> 'd" where
  "cp_emit_eop_fence dev cp d =
     (if \<not> cp_inited cp \<or> fence_counter cp = 0xFFFFFFFF then ((0, cp), d)
      else let fence = fence_counter cp + 1;
               ((n, cp), d) = cp_ring_write dev (pm4_build_fence (cp_fence_gpu_addr cp) (ucast fence) True True)
                 (cp\<lparr>fence_counter := fence\<rparr>) d
        in ((if n \<noteq> 10 then 0 else fence, cp), d))"

text \<open>The copy of the staged dwords to VRAM, in at most two pieces.\<close>

partial_function (option) cp_upload ::
  "'d DeviceContext \<Rightarrow> CPContext \<Rightarrow> u32 list \<Rightarrow> u64 \<Rightarrow> 'd \<Rightarrow> (kern_return \<times> 'd) option"
where
  "cp_upload dev cp ring cursor d =
     (if \<not> cursor < cp_wptr cp then Some (kIOReturnSuccess, d)
      else let index = ucast cursor AND cp_ring_ptr_mask cp;
               remaining = cp_wptr cp - cursor;
               contiguous = ucast (cp_ring_size_dwords cp - index) :: u64;
               count = (if remaining < contiguous then remaining else contiguous);
               (r, d) = vram_write_verified dev (cp_ring_vram_off cp + ucast index * 4)
                          (Some (dw_bytes (take (unat count) (drop (unat index) ring)))) (count * 4) d
        in if r \<noteq> kIOReturnSuccess then Some (r, d) else cp_upload dev cp ring (cursor + count) d)"

declare cp_upload.simps [code]

definition cp_kick_refused :: "'d DeviceContext \<Rightarrow> CPContext \<Rightarrow> kern_return option" where
  "cp_kick_refused dev cp =
     (if \<not> cp_inited cp then Some kIOReturnNotReady
      else if pci dev = None then Some kIOReturnNotAttached
      else if \<not> ip_isResolved (dev_ip dev) GC then Some kIOReturnNotReady
      else if \<not> ringReady cp \<or> cp_ring_cpu cp = None \<or> \<not> cp_wb_device cp then Some kIOReturnNotReady
      else if \<not> cp_ring_shape cp \<or> cp_wptr cp < cp_published_wptr cp \<or> 0xFFFFFFFFFFFFFFFF - 255 < cp_wptr cp
      then Some kIOReturnBadArgument
      else if bar2Size dev < ucast (cp_doorbell_index cp) * 4 \<or> bar2Size dev - ucast (cp_doorbell_index cp) * 4 < 8
      then Some kIOReturnBadArgument else None)"

text \<open>Padded and uploaded: the write pointer goes to VRAM and to the doorbell.\<close>

definition cp_kick_publish :: "'d DeviceContext \<Rightarrow> u32 list \<Rightarrow> CPContext \<Rightarrow> 'd \<Rightarrow> (CPContext, 'd) outcome" where
  "cp_kick_publish dev ring cp d =
     (case cp_upload dev cp ring (cp_published_wptr cp) d of
        None \<Rightarrow> None
      | Some (r, d) \<Rightarrow>
          if r \<noteq> kIOReturnSuccess then Some ((r, cp), d)
          else let v = cp_wptr cp;
                   (r, d) = vram_write_verified dev (cp_wb_vram_off cp + kCPWBOffsetWptr) (Some (bytes64 v)) 8 d
            in if r \<noteq> kIOReturnSuccess then Some ((r, cp), d)
            else let d = amdgpu_hdp_flush dev d
              in Some ((kIOReturnSuccess, cp\<lparr>cp_published_wptr := v\<rparr>),
                       wr64 dev (bar2MemIndex dev) (ucast (cp_doorbell_index cp) * 4) v d))"

definition cp_kick_doorbell :: "'d DeviceContext \<Rightarrow> CPContext \<Rightarrow> 'd \<Rightarrow> (CPContext, 'd) outcome" where
  "cp_kick_doorbell dev cp d =
     (case cp_kick_refused dev cp of
        Some r \<Rightarrow> Some ((r, cp), d)
      | None \<Rightarrow>
          let ((r, rptr), d) = cp_read_rptr dev cp d
          in if r \<noteq> kIOReturnSuccess then Some ((r, cp), d)
          else let padding = cp_padding (cp_wptr cp); pending = cp_pending_dwords cp rptr;
                   sz = ucast (cp_ring_size_dwords cp) :: u64
          in if sz \<le> ucast pending + ucast padding \<or> sz \<le> cp_wptr cp - cp_published_wptr cp + ucast padding
          then Some ((kIOReturnNoSpace, cp), d)
          else (case cp_ring_cpu cp of
              None \<Rightarrow> None
            | Some ring \<Rightarrow>
                let ring = ring_put ring (cp_wptr cp) (cp_ring_ptr_mask cp)
                             (replicate (unat padding) (pm4_header kPM4OpNop 0x3FFF))
                in cp_kick_publish dev ring
                     (cp\<lparr>cp_ring_cpu := Some ring, cp_wptr := cp_wptr cp + ucast padding\<rparr>) d))"

section \<open>Submissions\<close>

text \<open>The wait for the fence: the flag is whether the fence came.\<close>

partial_function (option) cp_wait_fence ::
  "'d DeviceContext \<Rightarrow> CPContext \<Rightarrow> u32 \<Rightarrow> u64 \<Rightarrow> u64 \<Rightarrow> u64 \<Rightarrow> 'd \<Rightarrow> (kern_return \<times> 'd) option"
where
  "cp_wait_fence dev cp fence start elapsed timeout_us d =
     (if \<not> elapsed < timeout_us then Some (kIOReturnTimeout, d)
      else let ((r, observed), d) = cp_read_fence dev cp d
        in if r \<noteq> kIOReturnSuccess then Some (r, d)
        else if observed AND 0xFFFFFFFF = ucast fence then Some (kIOReturnSuccess, d)
        else let d = sleep_ms dev 1 d; (now, d) = now_ns dev d
          in cp_wait_fence dev cp fence start ((now - start) div 1000) timeout_us d)"

declare cp_wait_fence.simps [code]

text \<open>The third part of the result is the fence the caller is told, zero on any failure.\<close>

definition cp_submit_eop_test ::
  "'d DeviceContext \<Rightarrow> u64 \<Rightarrow> CPContext \<times> Counters option \<Rightarrow> 'd \<Rightarrow> (u32 \<times> CPContext \<times> Counters option, 'd) outcome"
where
  "cp_submit_eop_test dev timeout_us s d =
     (let (cp, cs) = s
      in if \<not> cp_inited cp then Some ((kIOReturnNotReady, 0, s), d)
      else let ((fence, cp), d) = cp_emit_eop_fence dev cp d
      in if fence = 0 then Some ((kIOReturnInternalError, 0, cp, cs), d)
      else (case cp_kick_doorbell dev cp d of
          None \<Rightarrow> None
        | Some ((r, cp), d) \<Rightarrow>
            if r \<noteq> kIOReturnSuccess then Some ((r, 0, cp, cs), d)
            else let (start, d) = now_ns dev d; (tracked, cs) = work_begin cs GFX start
              in (case cp_wait_fence dev cp fence start 0 timeout_us d of
                    None \<Rightarrow> None
                  | Some (r, d) \<Rightarrow>
                      if r \<noteq> kIOReturnSuccess then Some ((r, 0, cp, work_end tracked GFX cs), d)
                      else let (now, d) = now_ns dev d
                        in Some ((kIOReturnSuccess, fence, cp,
                             snd (work_complete tracked GFX now 0 UnknownDirection cs)), d))))"

definition cp_log_registers :: "(u32 \<times> int) list" where
  "cp_log_registers =
     [CPR_CP_ME_CNTL, CPR_CP_MEC_RS64_CNTL, CPR_CP_STAT, CPR_GCVM_L2_PROTECTION_FAULT_STATUS_LO32,
      CPR_GCVM_L2_PROTECTION_FAULT_STATUS_HI32, CPR_GCVM_L2_PROTECTION_FAULT_ADDR_HI32,
      CPR_GCVM_L2_PROTECTION_FAULT_ADDR_LO32, CPR_CP_RB0_BASE_HI, CPR_CP_RB0_BASE, CPR_CP_RB0_RPTR,
      CPR_CP_RB0_WPTR_HI, CPR_CP_RB0_WPTR, CPR_CP_RB_VMID, CPR_CP_PFP_INSTR_PNTR, CPR_CP_ME_INSTR_PNTR,
      CPR_CP_CPC_STATUS, CPR_CP_GFX_HQD_BASE_HI, CPR_CP_GFX_HQD_BASE, CPR_CP_GFX_HQD_ACTIVE,
      CPR_CP_GFX_HQD_MAPPED, CPR_CP_GFX_HQD_VMID, CPR_CP_GFX_HQD_RPTR, CPR_CP_GFX_HQD_WPTR_HI,
      CPR_CP_GFX_HQD_WPTR, CPR_CP_GFX_RS64_INSTR_PNTR0, CPR_CP_GFX_RS64_INSTR_PNTR1]"

definition cp_read_all :: "'d DeviceContext \<Rightarrow> (u32 \<times> int) list \<Rightarrow> 'd \<Rightarrow> 'd" where
  "cp_read_all dev rs d = foldl (\<lambda>d r. snd (cp_rreg dev r d)) d rs"

definition cp_log_control :: "'d DeviceContext \<Rightarrow> 'd \<Rightarrow> 'd" where
  "cp_log_control dev d = (if \<not> ip_isResolved (dev_ip dev) GC then d else cp_read_all dev cp_log_registers d)"

text \<open>What the two smoke tests report.\<close>

record cp_smoke =
  sm_elapsed :: u64
  sm_fence_gpu_va :: u64
  sm_observed :: u32

definition smoke_zero :: cp_smoke where
  "smoke_zero = \<lparr>sm_elapsed = 0, sm_fence_gpu_va = 0, sm_observed = 0\<rparr>"

partial_function (option) cp_scratch_wait ::
  "'d DeviceContext \<Rightarrow> u64 \<Rightarrow> u64 \<Rightarrow> 'd \<Rightarrow> ((kern_return \<times> u64 \<times> u32) \<times> 'd) option"
where
  "cp_scratch_wait dev started timeout_us d =
     (let (observed, d) = cp_rreg dev CPR_SCRATCH_REG0 d;
          (now, d) = now_ns dev d;
          elapsed = (now - started) div 1000
      in if observed = 0xFFFFFFFF then Some ((kIOReturnNotAttached, elapsed, observed), d)
      else if observed = 0xDEADBEEF then Some ((kIOReturnSuccess, elapsed, observed), cp_log_control dev d)
      else if timeout_us \<le> elapsed then Some ((kIOReturnTimeout, elapsed, observed), cp_log_control dev d)
      else cp_scratch_wait dev started timeout_us (sleep_ms dev 1 d))"

declare cp_scratch_wait.simps [code]

definition cp_scratch_test ::
  "'d DeviceContext \<Rightarrow> u64 \<Rightarrow> CPContext \<Rightarrow> 'd \<Rightarrow> ((u64 \<times> u32) \<times> CPContext, 'd) outcome"
where
  "cp_scratch_test dev timeout_us cp d =
     (let none = (0, 0); scratch = cp_reg dev CPR_SCRATCH_REG0
      in if \<not> ringReady cp \<or> \<not> ip_isResolved (dev_ip dev) GC then Some ((kIOReturnNotReady, none, cp), d)
      else if scratch < kPM4UconfigStart \<or> kPM4UconfigEnd \<le> scratch then Some ((kIOReturnBadArgument, none, cp), d)
      else let d = cp_wreg dev CPR_SCRATCH_REG0 0xCAFEDEAD d;
               (initial, d) = cp_rreg dev CPR_SCRATCH_REG0 d
      in if initial = 0xFFFFFFFF then Some ((kIOReturnNotAttached, none, cp), d)
      else if initial \<noteq> 0xCAFEDEAD then Some ((kIOReturnIOError, none, cp), d)
      else let d = cp_log_control dev d;
               ((n, cp), d) = cp_ring_write dev
                 [pm4_header kPM4OpSetUconfigReg 1, scratch - kPM4UconfigStart, 0xDEADBEEF] cp d
      in if n \<noteq> 3 then Some ((kIOReturnNoSpace, none, cp), d)
      else let (started, d) = now_ns dev d
        in (case cp_kick_doorbell dev cp d of
              None \<Rightarrow> None
            | Some ((r, cp), d) \<Rightarrow>
                if r \<noteq> kIOReturnSuccess then Some ((r, none, cp), d)
                else map_option (\<lambda>((r, res), d). ((r, res, cp), d)) (cp_scratch_wait dev started timeout_us d)))"

text \<open>The last wait reads the fence before the clock.\<close>

partial_function (option) cp_smoke_wait ::
  "'d DeviceContext \<Rightarrow> u64 \<Rightarrow> u32 \<Rightarrow> u64 \<Rightarrow> u64 \<Rightarrow> 'd \<Rightarrow> ((kern_return \<times> u64 \<times> u32) \<times> 'd) option"
where
  "cp_smoke_wait dev off expected start timeout_us d =
     (let ((r, observed), d) = vram_read_fence32 dev off d
      in if r \<noteq> kIOReturnSuccess then Some ((r, 0, observed), d)
      else let (now, d) = now_ns dev d; elapsed = (now - start) div 1000
      in if observed = expected then Some ((kIOReturnSuccess, elapsed, observed), d)
      else if timeout_us \<le> elapsed then Some ((kIOReturnTimeout, elapsed, observed), d)
      else cp_smoke_wait dev off expected start timeout_us (sleep_ms dev 1 d))"

declare cp_smoke_wait.simps [code]

definition cp_timeout_registers :: "(u32 \<times> int) list" where
  "cp_timeout_registers =
     [CPR_CP_GFX_HQD_RPTR, CPR_CP_GFX_HQD_WPTR_HI, CPR_CP_GFX_HQD_WPTR, CPR_CP_STAT, CPR_CP_ME_CNTL,
      CPR_GCVM_L2_PROTECTION_FAULT_STATUS_HI32, CPR_GCVM_L2_PROTECTION_FAULT_STATUS_LO32,
      CPR_GCVM_L2_PROTECTION_FAULT_ADDR_HI32, CPR_GCVM_L2_PROTECTION_FAULT_ADDR_LO32]"

record cp_state =
  cs_cp :: CPContext
  cs_gmc :: GMCContext
  cs_stats :: "Counters option"
  cs_smoke :: cp_smoke

definition smoke_give_back :: "VRAMAllocation \<Rightarrow> kern_return \<Rightarrow> cp_state \<Rightarrow> 'd \<Rightarrow> (cp_state, 'd) outcome" where
  "smoke_give_back a r s d = map_option (\<lambda>gmc. ((r, s\<lparr>cs_gmc := gmc\<rparr>), d)) (cp_free (cs_gmc s) a)"

text \<open>The doorbell has been rung: only a fence that comes gives its block back.\<close>

definition cp_smoke_finish ::
  "'d DeviceContext \<Rightarrow> VRAMAllocation \<Rightarrow> u32 \<Rightarrow> u64 \<Rightarrow> u64 \<Rightarrow> cp_state \<Rightarrow> 'd \<Rightarrow> (cp_state, 'd) outcome"
where
  "cp_smoke_finish dev a expected timeout_us start s d =
     (let (now, d) = now_ns dev d; (tracked, cs) = work_begin (cs_stats s) GFX now
      in case cp_smoke_wait dev (gpu_va a - vram_start (cs_gmc s)) expected start timeout_us d of
           None \<Rightarrow> None
         | Some ((r, elapsed, observed), d) \<Rightarrow>
             let told = s\<lparr>cs_smoke := (cs_smoke s)\<lparr>sm_observed := observed, sm_elapsed := elapsed\<rparr>\<rparr>
             in if r = kIOReturnSuccess
             then let (now, d) = now_ns dev d
               in smoke_give_back a kIOReturnSuccess
                    (told\<lparr>cs_stats := snd (work_complete tracked GFX now 0 UnknownDirection cs)\<rparr>) d
             else if r = kIOReturnTimeout
             then let (_, d) = cp_read_rptr dev (cs_cp s) d
               in Some ((r, told\<lparr>cs_stats := work_end tracked GFX cs\<rparr>), cp_read_all dev cp_timeout_registers d)
             else Some ((r, s\<lparr>cs_stats := work_end tracked GFX cs\<rparr>), d))"

definition cp_kiq_smoke_test ::
  "'d DeviceContext \<Rightarrow> u32 \<Rightarrow> u32 \<Rightarrow> cp_state \<Rightarrow> 'd \<Rightarrow> (cp_state, 'd) outcome"
where
  "cp_kiq_smoke_test dev expected timeout_us s d =
     (let s = s\<lparr>cs_smoke := smoke_zero\<rparr>
      in if \<not> ringReady (cs_cp s) then Some ((kIOReturnNotReady, s), d)
      else if \<not> ip_isResolved (dev_ip dev) GC then Some ((kIOReturnNotReady, s), d)
      else if expected = 0xCAFEBABE \<or> expected = 0xFFFFFFFF then Some ((kIOReturnBadArgument, s), d)
      else (case cp_scratch_test dev (ucast timeout_us) (cs_cp s) d of
          None \<Rightarrow> None
        | Some ((r, (elapsed, observed), cp), d) \<Rightarrow>
            let s = s\<lparr>cs_cp := cp, cs_smoke := smoke_zero\<lparr>sm_elapsed := elapsed, sm_observed := observed\<rparr>\<rparr>
            in if r \<noteq> kIOReturnSuccess then Some ((r, s), d)
            else let d = cp_log_control dev d
            in (case alloc (vram_alloc (cs_gmc s)) 64 kASPageSize of
                None \<Rightarrow> None
              | Some (None, va) \<Rightarrow> Some ((kIOReturnNoMemory, s\<lparr>cs_gmc := (cs_gmc s)\<lparr>vram_alloc := va\<rparr>\<rparr>), d)
              | Some (Some a, va) \<Rightarrow>
                  let s = s\<lparr>cs_gmc := (cs_gmc s)\<lparr>vram_alloc := va\<rparr>,
                            cs_smoke := (cs_smoke s)\<lparr>sm_fence_gpu_va := gpu_va a\<rparr>\<rparr>;
                      (r, d) = vram_write_verified dev (gpu_va a - vram_start (cs_gmc s)) (Some (bytes32 0xCAFEBABE)) 4 d
                  in if r \<noteq> kIOReturnSuccess then smoke_give_back a r s d
                  else let d = amdgpu_hdp_flush dev d;
                           ((n, cp), d) = cp_ring_write dev (pm4_build_fence (gpu_va a) (ucast expected) False False) (cs_cp s) d;
                           s = s\<lparr>cs_cp := cp\<rparr>
                  in if n \<noteq> 10 then smoke_give_back a kIOReturnNoSpace s d
                  else let (start, d) = now_ns dev d
                    in (case cp_kick_doorbell dev (cs_cp s) d of
                          None \<Rightarrow> None
                        | Some ((r, cp), d) \<Rightarrow>
                            let s = s\<lparr>cs_cp := cp\<rparr>
                            in if r \<noteq> kIOReturnSuccess then Some ((r, s), d)
                            else cp_smoke_finish dev a expected (ucast timeout_us) start s d))))"

section \<open>Engines\<close>

definition cp_compute_enable :: "'d DeviceContext \<Rightarrow> bool \<Rightarrow> 'd \<Rightarrow> kern_return \<times> 'd" where
  "cp_compute_enable dev enable d =
     (let on = (if enable then 1 else 0); off = (if enable then 0 else 1)
      in if \<not> ip_isResolved (dev_ip dev) GC then (kIOReturnNotReady, d)
      else let (v, d) = cp_rreg dev CPR_CP_MEC_RS64_CNTL d
      in if v = 0xFFFFFFFF then (kIOReturnNotAttached, d)
      else let v = set_fields v [(CP_MEC_RS64_CNTL__MEC_INVALIDATE_ICACHE, off), (CP_MEC_RS64_CNTL__MEC_PIPE0_RESET, off),
                 (CP_MEC_RS64_CNTL__MEC_PIPE1_RESET, off), (CP_MEC_RS64_CNTL__MEC_PIPE2_RESET, off),
                 (CP_MEC_RS64_CNTL__MEC_PIPE3_RESET, off), (CP_MEC_RS64_CNTL__MEC_PIPE0_ACTIVE, on),
                 (CP_MEC_RS64_CNTL__MEC_PIPE1_ACTIVE, on), (CP_MEC_RS64_CNTL__MEC_PIPE2_ACTIVE, on),
                 (CP_MEC_RS64_CNTL__MEC_PIPE3_ACTIVE, on), (CP_MEC_RS64_CNTL__MEC_HALT, off)];
               d = cp_wreg dev CPR_CP_MEC_RS64_CNTL v d;
               (check, d) = cp_rreg dev CPR_CP_MEC_RS64_CNTL d
      in if check = 0xFFFFFFFF then (kIOReturnNotAttached, d)
      else if check AND fst CP_MEC_RS64_CNTL__MEC_HALT \<noteq> v AND fst CP_MEC_RS64_CNTL__MEC_HALT then (kIOReturnIOError, d)
      else (kIOReturnSuccess, sleep_ms dev 1 d))"

definition cp_set_doorbell_range :: "'d DeviceContext \<Rightarrow> CPContext \<Rightarrow> u32 \<Rightarrow> u32 \<Rightarrow> 'd \<Rightarrow> kern_return \<times> 'd" where
  "cp_set_doorbell_range dev cp mec_first mec_last d =
     (if \<not> ip_isResolved (dev_ip dev) GC then (kIOReturnNotReady, d)
      else let d = cp_wreg dev CPR_CP_RB_DOORBELL_RANGE_LOWER (push_bit 2 (cp_doorbell_index cp)) d;
               d = cp_wreg dev CPR_CP_RB_DOORBELL_RANGE_UPPER (push_bit 2 (cp_doorbell_index cp + 2)) d;
               d = cp_wreg dev CPR_CP_MEC_DOORBELL_RANGE_LOWER (push_bit 2 (mec_first * 2)) d;
               d = cp_wreg dev CPR_CP_MEC_DOORBELL_RANGE_UPPER (push_bit 2 (mec_last * 2)) d
        in (kIOReturnSuccess, d))"

partial_function (option) cp_idle_wait :: "'d DeviceContext \<Rightarrow> u64 \<Rightarrow> 'd \<Rightarrow> (kern_return \<times> 'd) option" where
  "cp_idle_wait dev start d =
     (let (stat, d) = cp_rreg dev CPR_CP_STAT d
      in if stat = 0 then Some (kIOReturnSuccess, d)
      else if stat = 0xFFFFFFFF then Some (kIOReturnNotAttached, d)
      else let (now, d) = now_ns dev d
        in if 1000000000 \<le> now - start then Some (kIOReturnTimeout, d)
           else cp_idle_wait dev start (sleep_ms dev 1 d))"

declare cp_idle_wait.simps [code]

definition cp_enable :: "'d DeviceContext \<Rightarrow> bool \<Rightarrow> 'd \<Rightarrow> (kern_return \<times> 'd) option" where
  "cp_enable dev enable d =
     (let off = (if enable then 0 else 1); haltMask = fst CP_ME_CNTL__ME_HALT OR fst CP_ME_CNTL__PFP_HALT
      in if \<not> ip_isResolved (dev_ip dev) GC then Some (kIOReturnNotReady, d)
      else let (v, d) = cp_rreg dev CPR_CP_ME_CNTL d
      in if v = 0xFFFFFFFF then Some (kIOReturnNotAttached, d)
      else let v = set_fields v [(CP_ME_CNTL__ME_HALT, off), (CP_ME_CNTL__PFP_HALT, off)];
               d = cp_wreg dev CPR_CP_ME_CNTL v d;
               (check, d) = cp_rreg dev CPR_CP_ME_CNTL d
      in if check = 0xFFFFFFFF then Some (kIOReturnNotAttached, d)
      else if check AND haltMask \<noteq> v AND haltMask then Some (kIOReturnIOError, d)
      else let (start, d) = now_ns dev d in cp_idle_wait dev start d)"

text \<open>One pipe of an engine: its program counter is written, and read back where it can be.\<close>

definition rs64_pc :: "nat \<Rightarrow> (u32 \<times> int) \<times> (u32 \<times> int)" where
  "rs64_pc engine =
     (if engine = 0 then (CPR_CP_PFP_PRGRM_CNTR_START, CPR_CP_PFP_PRGRM_CNTR_START_HI)
      else if engine = 1 then (CPR_CP_ME_PRGRM_CNTR_START, CPR_CP_ME_PRGRM_CNTR_START_HI)
      else (CPR_CP_MEC_RS64_PRGRM_CNTR_START, CPR_CP_MEC_RS64_PRGRM_CNTR_START_HI))"

definition rs64_pipe :: "'d DeviceContext \<Rightarrow> nat \<Rightarrow> u64 \<Rightarrow> nat \<Rightarrow> 'd \<Rightarrow> kern_return \<times> 'd" where
  "rs64_pipe dev engine entry pipe d =
     (let lo = ucast (drop_bit 2 entry); hi = ucast (drop_bit 34 entry); (pcLo, pcHi) = rs64_pc engine;
          d = cp_wreg dev CPR_GRBM_GFX_CNTL (set_fields 0 [(GRBM_GFX_CNTL__MEID, if engine = 2 then 1 else 0),
                (GRBM_GFX_CNTL__PIPEID, word_of_nat pipe)]) d;
          d = cp_wreg dev pcLo lo d;
          d = cp_wreg dev pcHi hi d
      in if (if engine = 2 then 2 else 1) \<le> pipe then (kIOReturnSuccess, d)
      else let (readLo, d) = cp_rreg dev pcLo d; (readHi, d) = cp_rreg dev pcHi d
      in if readLo = 0xFFFFFFFF \<and> readHi = 0xFFFFFFFF then (kIOReturnNotAttached, d)
      else if readLo \<noteq> lo \<or> readHi \<noteq> hi then (kIOReturnIOError, cp_wreg dev CPR_GRBM_GFX_CNTL 0 d)
      else (kIOReturnSuccess, d))"

primrec until_error :: "('a \<Rightarrow> 'd \<Rightarrow> kern_return \<times> 'd) \<Rightarrow> 'a list \<Rightarrow> 'd \<Rightarrow> kern_return \<times> 'd" where
  "until_error f [] d = (kIOReturnSuccess, d)"
| "until_error f (x # xs) d =
     (let (r, d) = f x d in if r \<noteq> kIOReturnSuccess then (r, d) else until_error f xs d)"

definition rs64_reset_mask :: "nat \<Rightarrow> u32" where
  "rs64_reset_mask engine = [0x000C0000, 0x00300000, 0x000F0000] ! engine"

definition rs64_engine :: "'d DeviceContext \<Rightarrow> CPContext \<Rightarrow> nat \<Rightarrow> 'd \<Rightarrow> kern_return \<times> 'd" where
  "rs64_engine dev cp engine d =
     (let (r, d) = until_error (rs64_pipe dev engine (fw_address (cp_firmware cp engine)))
                     [0..<(if engine = 2 then 4 else 2)] d
      in if r \<noteq> kIOReturnSuccess then (r, d)
      else let d = cp_wreg dev CPR_GRBM_GFX_CNTL 0 d;
               control = (if engine = 2 then CPR_CP_MEC_RS64_CNTL else CPR_CP_ME_CNTL);
               (before, d) = cp_rreg dev control d
      in if before = 0xFFFFFFFF then (kIOReturnNotAttached, d)
      else let d = cp_wreg dev control (before OR rs64_reset_mask engine) d;
               d = cp_wreg dev control (before AND NOT (rs64_reset_mask engine)) d;
               (v, d) = cp_rreg dev control d
      in if v = 0xFFFFFFFF then (kIOReturnNotAttached, d)
      else if v AND rs64_reset_mask engine \<noteq> 0 then (kIOReturnIOError, d)
      else (kIOReturnSuccess, d))"

definition cp_configure_rs64 :: "'d DeviceContext \<Rightarrow> CPContext \<Rightarrow> 'd \<Rightarrow> kern_return \<times> 'd" where
  "cp_configure_rs64 dev cp d =
     (if \<not> ip_isResolved (dev_ip dev) GC then (kIOReturnNotReady, d)
      else if list_ex (\<lambda>i. \<not> fw_loaded (cp_firmware cp i) \<or> fw_address (cp_firmware cp i) = 0 \<or>
                           fw_address (cp_firmware cp i) AND 3 \<noteq> 0) [0..<3]
      then (kIOReturnNotReady, d)
      else until_error (rs64_engine dev cp) [0..<3] d)"

section \<open>Bring-up\<close>

text \<open>The descriptor is handed to the firmware: a failure after the allocation keeps its address.\<close>

definition cp_map_gfx_queue ::
  "'d DeviceContext \<Rightarrow> CPContext \<times> GMCContext \<times> MESContext \<Rightarrow> 'd \<Rightarrow> (CPContext \<times> GMCContext \<times> MESContext, 'd) outcome"
where
  "cp_map_gfx_queue dev s d =
     (let (cp, gmc, mes) = s
      in if \<not> cp_inited cp \<or> \<not> enginesStarted cp \<or> \<not> uni_mes_active mes then Some ((kIOReturnNotReady, s), d)
      else if cp_mqd_bus cp \<noteq> 0 then Some ((kIOReturnNotReady, s), d)
      else (case alloc (vram_alloc gmc) 2048 kASPageSize of
          None \<Rightarrow> None
        | Some (None, va) \<Rightarrow> Some ((kIOReturnNoMemory, cp, gmc\<lparr>vram_alloc := va\<rparr>, mes), d)
        | Some (Some a, va) \<Rightarrow>
            let gmc = gmc\<lparr>vram_alloc := va\<rparr>; cp = cp\<lparr>cp_mqd_bus := gpu_va a\<rparr>
            in (case gfx_build_kernel_mqd (cp_mqd_bus cp) (cp_ring_bus cp) (cp_rptr_gpu_addr cp) (cp_wptr_gpu_addr cp)
                       (cp_ring_size_dwords cp * 4) (cp_doorbell_index cp) of
                  None \<Rightarrow> Some ((kIOReturnBadArgument, cp, gmc, mes), d)
                | Some mqd \<Rightarrow>
                    let (r, d) = vram_clear_verified dev (cp_wb_vram_off cp) (ucast kCPWBPageBytes) d
                    in if r \<noteq> kIOReturnSuccess then Some ((r, cp, gmc, mes), d)
                    else let cp = cp\<lparr>cp_wptr := 0, cp_published_wptr := 0, cp_fence_shadow := 0\<rparr>;
                             (r, d) = vram_write_verified dev (cp_mqd_bus cp - vram_start gmc) (Some (dw_bytes mqd)) 2048 d
                    in if r \<noteq> kIOReturnSuccess then Some ((r, cp, gmc, mes), d)
                    else (case mes_map_legacy_queue dev mes kMESQueueType_GFX 0 0 (cp_doorbell_index cp) (cp_mqd_bus cp)
                               (cp_wptr_gpu_addr cp) (amdgpu_hdp_flush dev d) of
                          None \<Rightarrow> None
                        | Some ((r, mes), d) \<Rightarrow>
                            if r \<noteq> kIOReturnSuccess then Some ((r, cp, gmc, mes), d)
                            else Some ((kIOReturnSuccess, cp, gmc, mes),
                                   cp_wreg dev CPR_CP_DEVICE_ID 1 (cp_wreg dev CPR_CP_MAX_CONTEXT 7 d))))))"

definition cp_prepare_firmware ::
  "'d DeviceContext \<Rightarrow> 'd os \<Rightarrow> CPContext \<times> GMCContext \<Rightarrow> 'd \<Rightarrow> (CPContext \<times> GMCContext, 'd) outcome"
where
  "cp_prepare_firmware dev os s d =
     (if firmwarePrepared (fst s) then Some ((kIOReturnSuccess, s), d)
      else and_then (cp_alloc_storage dev os s d) (\<lambda>s d.
        let (cp, gmc) = s; cp = cp\<lparr>cp_doorbell_index := push_bit 1 (db_gfx_ring0 (db_index (dev_doorbell dev)))\<rparr>
        in if \<not> ip_isResolved (dev_ip dev) GC then Some ((kIOReturnNotReady, cp, gmc), d)
        else (case cp_enable dev False d of
            None \<Rightarrow> None
          | Some (r, d) \<Rightarrow>
              if r \<noteq> kIOReturnSuccess then Some ((r, cp, gmc), d)
              else let (r, d) = cp_compute_enable dev False d
              in if r \<noteq> kIOReturnSuccess then Some ((r, cp, gmc), d)
              else let (r, d) = cp_configure_rs64 dev cp d
              in if r \<noteq> kIOReturnSuccess then Some ((r, cp, gmc), d)
              else let (r, d) = cp_set_doorbell_range dev cp 0x10 0x100 d
              in if r \<noteq> kIOReturnSuccess then Some ((r, cp, gmc), d)
              else Some ((kIOReturnSuccess, cp\<lparr>firmwarePrepared := True\<rparr>, gmc), cp_log_control dev d))))"

definition cp_start_engines :: "'d DeviceContext \<Rightarrow> CPContext \<Rightarrow> 'd \<Rightarrow> (CPContext, 'd) outcome" where
  "cp_start_engines dev cp d =
     (if \<not> firmwarePrepared cp then Some ((kIOReturnNotReady, cp), d)
      else if enginesStarted cp then Some ((kIOReturnSuccess, cp), d)
      else let (r, d) = cp_compute_enable dev True d
      in if r \<noteq> kIOReturnSuccess then Some ((r, cp), d)
      else (case cp_enable dev True d of
          None \<Rightarrow> None
        | Some (r, d) \<Rightarrow>
            if r \<noteq> kIOReturnSuccess then Some ((r, cp), d)
            else Some ((kIOReturnSuccess, cp\<lparr>enginesStarted := True\<rparr>), cp_log_control dev d)))"

definition cp_init_full ::
  "'d DeviceContext \<Rightarrow> CPContext \<times> GMCContext \<times> MESContext \<Rightarrow> 'd \<Rightarrow> (CPContext \<times> GMCContext \<times> MESContext, 'd) outcome"
where
  "cp_init_full dev s d =
     (if ringReady (fst s) then Some ((kIOReturnSuccess, s), d)
      else if \<not> firmwarePrepared (fst s) \<or> \<not> enginesStarted (fst s) then Some ((kIOReturnNotReady, s), d)
      else (case cp_map_gfx_queue dev s (cp_log_control dev d) of
          None \<Rightarrow> None
        | Some ((r, cp, rest), d) \<Rightarrow>
            Some ((r, if r = kIOReturnSuccess then cp\<lparr>ringReady := True\<rparr> else cp, rest), cp_log_control dev d)))"

end
