(* ===== verification/Compute_Launch.thy ===== *)
theory Compute_Launch
  imports Cp Aql
begin

text \<open>
  \<^verbatim>\<open>dext/amdgpu/amdgpu_dispatch.h\<close>, \<^verbatim>\<open>amdgpu_dispatch.cpp\<close>, \<^verbatim>\<open>amdgpu_compute_test.h\<close> and
  \<^verbatim>\<open>amdgpu_compute_test.cpp\<close>: a dispatch through an indirect buffer of the graphics queue, and the shader test
  built from the same packets. The arrays of dwords on the stack are lists; the unused tail of
  an array is zero and never copied beyond the padding. \<open>None\<close> as an outcome is a call that does not return.
\<close>

section \<open>One dispatch\<close>

record ComputeLaunch =
  cl_ib :: VRAMAllocation
  cl_retained :: bool

definition compute_launch_zero :: ComputeLaunch where
  "compute_launch_zero = \<lparr>cl_ib = allocation_zero, cl_retained = False\<rparr>"

text \<open>The contexts the call changes, and what it reports: the fence and the stage.\<close>

record compute_state =
  co_gmc :: GMCContext
  co_cp :: CPContext
  co_stats :: "Counters option"
  co_launch :: ComputeLaunch
  co_fence :: u32
  co_stage :: u32

definition compute_ready :: "'d DeviceContext \<Rightarrow> compute_state \<Rightarrow> bool" where
  "compute_ready dev s \<longleftrightarrow> pci dev \<noteq> None \<and> cp_inited (co_cp s) \<and> ringReady (co_cp s) \<and> m_inited (vram_alloc (co_gmc s))"

text \<open>Everything that is decided before a block is taken: the error, or the padded program.\<close>

definition compute_program ::
  "'d DeviceContext \<Rightarrow> GFXConfig \<Rightarrow> u64 \<Rightarrow> ComputeDispatchRequest \<Rightarrow> compute_state \<Rightarrow> kern_return + u32 list"
where
  "compute_program dev gfx codeVA request s =
     (if cl_retained (co_launch s) then Inl kIOReturnBusy
      else if \<not> compute_ready dev s then Inl kIOReturnNotReady
      else if \<not> gc_version_ok dev then Inl kIOReturnUnsupported
      else (case gfx_masks gfx of
          None \<Rightarrow> Inl kIOReturnNotReady
        | Some masks \<Rightarrow>
            (case compute_dispatch_packets codeVA request masks of
               None \<Rightarrow> Inl kIOReturnBadArgument
             | Some (packets, _) \<Rightarrow>
                 if kComputeSmokePacketCapacity < ib_padded (word_of_nat (length packets)) then Inl kIOReturnNoSpace
                 else Inr (ib_pad packets))))"

text \<open>The block goes back and the record is cleared.\<close>

definition compute_finish :: "kern_return \<Rightarrow> compute_state \<Rightarrow> 'd \<Rightarrow> (compute_state, 'd) outcome" where
  "compute_finish status s d =
     map_option (\<lambda>gmc. ((status, s\<lparr>co_gmc := gmc, co_launch := compute_launch_zero,
                                  co_stage := if status = kIOReturnSuccess then 3 else co_stage s\<rparr>), d))
       (cp_free (co_gmc s) (cl_ib (co_launch s)))"

text \<open>
  The program is in VRAM: its four dwords go into the ring and are submitted. Once the write pointer of
  the ring moved, a failure keeps the block.
\<close>

definition compute_submit ::
  "'d DeviceContext \<Rightarrow> ComputeDispatchRequest \<Rightarrow> u32 list \<Rightarrow> compute_state \<Rightarrow> 'd \<Rightarrow> (compute_state, 'd) outcome"
where
  "compute_submit dev request ib s d =
     (let d = amdgpu_hdp_flush dev d; s = s\<lparr>co_stage := 2\<rparr>; previousWptr = cp_wptr (co_cp s);
          ((n, cp), d) = cp_ring_write dev ib (co_cp s) d
      in case (if n \<noteq> 4 then Some ((kIOReturnNoSpace, 0, cp, co_stats s), d)
               else cp_submit_eop_test dev (ucast (cd_timeoutUS request)) (cp, co_stats s) d) of
           None \<Rightarrow> None
         | Some ((status, fence, cp, cs), d) \<Rightarrow>
             let s = s\<lparr>co_cp := cp, co_stats := cs, co_fence := fence\<rparr>
             in if status \<noteq> kIOReturnSuccess \<and> cp_wptr cp \<noteq> previousWptr
             then Some ((status, s\<lparr>co_launch := (co_launch s)\<lparr>cl_retained := True\<rparr>\<rparr>), d)
             else compute_finish status s d)"

definition compute_launch ::
  "'d DeviceContext \<Rightarrow> GFXConfig \<Rightarrow> u64 \<Rightarrow> ComputeDispatchRequest \<Rightarrow> compute_state \<Rightarrow> 'd \<Rightarrow> (compute_state, 'd) outcome"
where
  "compute_launch dev gfx codeVA request s d =
     (let s = s\<lparr>co_fence := 0, co_stage := 0\<rparr>
      in case compute_program dev gfx codeVA request s of
           Inl r \<Rightarrow> Some ((r, s), d)
         | Inr packets \<Rightarrow>
             (case alloc (vram_alloc (co_gmc s)) kASPageSize kASPageSize of
                None \<Rightarrow> None
              | Some (None, va) \<Rightarrow> Some ((kIOReturnNoMemory, s\<lparr>co_gmc := (co_gmc s)\<lparr>vram_alloc := va\<rparr>\<rparr>), d)
              | Some (Some a, va) \<Rightarrow>
                  let s = s\<lparr>co_gmc := (co_gmc s)\<lparr>vram_alloc := va\<rparr>, co_launch := (co_launch s)\<lparr>cl_ib := a\<rparr>, co_stage := 1\<rparr>;
                      padded = word_of_nat (length packets);
                      (status, d) = (if vram_start (co_gmc s) \<le> gpu_va a
                        then vram_write_verified dev (gpu_va a - vram_start (co_gmc s)) (Some (dw_bytes packets))
                               (ucast (padded * 4)) d
                        else (kIOReturnBadArgument, d))
                  in if status \<noteq> kIOReturnSuccess then compute_finish status s d
                  else (case pm4_gfx_ib (gpu_va a) padded 0 of
                          None \<Rightarrow> compute_finish kIOReturnBadArgument s d
                        | Some ib \<Rightarrow> compute_submit dev request ib s d)))"

section \<open>The shader test\<close>

definition compute_input :: "u32 \<Rightarrow> u32 \<Rightarrow> u32" where
  "compute_input lane seed = lane * 0x9E3779B9 XOR seed XOR 0x7B19D35A"

definition compute_guard :: "u32 \<Rightarrow> u32" where
  "compute_guard w = 0xD39C8A71 XOR w * 0x01010101"

record ComputeTest =
  ct_active :: bool
  ct_storage :: VRAMAllocation

record ComputeTestResult =
  cr_stage :: u32
  cr_mismatches :: u32
  cr_firstMismatch :: u32
  cr_fence :: u32
  cr_gpuAddress :: u64

definition compute_result_zero :: ComputeTestResult where
  "compute_result_zero = \<lparr>cr_stage = 0, cr_mismatches = 0, cr_firstMismatch = 0xFFFFFFFF, cr_fence = 0, cr_gpuAddress = 0\<rparr>"

record test_state =
  te_gmc :: GMCContext
  te_cp :: CPContext
  te_stats :: "Counters option"
  te_test :: ComputeTest
  te_result :: ComputeTestResult

definition te_set_stage :: "u32 \<Rightarrow> test_state \<Rightarrow> test_state" where
  "te_set_stage n s = s\<lparr>te_result := (te_result s)\<lparr>cr_stage := n\<rparr>\<rparr>"

text \<open>The data page: guards, with the input of every lane and the complement of its expected output.\<close>

definition test_page :: "u32 \<Rightarrow> (nat \<Rightarrow> u32) \<Rightarrow> u32 list" where
  "test_page seed out =
     map (\<lambda>i. if i < 32 then compute_input (word_of_nat i) seed
              else if 64 \<le> i \<and> i < 96 then out (i - 64)
              else compute_guard (word_of_nat i)) [0..<1024]"

definition test_words :: "u32 \<Rightarrow> u32 list" where
  "test_words seed = test_page seed (\<lambda>i. NOT (compute_input (word_of_nat i) seed + seed))"

definition test_expected :: "u32 \<Rightarrow> u32 list" where
  "test_expected seed = test_page seed (\<lambda>i. compute_input (word_of_nat i) seed + seed)"

text \<open>The comparison: the number of words that differ, and the byte offset of the first.\<close>

primrec verify_words :: "'d DeviceContext \<Rightarrow> u64 \<Rightarrow> u32 \<Rightarrow> u32 list \<Rightarrow> u32 \<times> u32 \<Rightarrow> 'd \<Rightarrow> (u32 \<times> u32) \<times> 'd" where
  "verify_words dev off i [] found d = (found, d)"
| "verify_words dev off i (w # ws) found d =
     (let (observed, d) = rd32 dev (bar0MemIndex dev) (off + ucast (i * 4)) d
      in verify_words dev off (i + 1) ws
           (if observed \<noteq> w then (fst found + 1, if fst found = 0 then i * 4 else snd found) else found) d)"

text \<open>The lambda \<^verbatim>\<open>submit\<close>; \<open>slot\<close> is the value of \<^verbatim>\<open>ibSlot\<close> before its increment.\<close>

definition test_submit ::
  "'d DeviceContext \<Rightarrow> u64 \<Rightarrow> u64 \<Rightarrow> u64 \<Rightarrow> u32 list \<Rightarrow> test_state \<Rightarrow> 'd \<Rightarrow> (test_state, 'd) outcome"
where
  "test_submit dev codeVA off slot packets s d =
     (let ib = ib_pad packets; padded = word_of_nat (length ib) :: u32; ibOffset = 8192 + slot * 1024;
          (r, d) = vram_write_verified dev (off + ibOffset) (Some (dw_bytes ib)) (ucast (padded * 4)) d
      in if r \<noteq> kIOReturnSuccess then Some ((r, s), d)
      else let d = amdgpu_hdp_flush dev d
      in (case pm4_gfx_ib (codeVA + ibOffset) padded 0 of
            None \<Rightarrow> Some ((kIOReturnBadArgument, s), d)
          | Some launch \<Rightarrow>
              let ((n, cp), d) = cp_ring_write dev launch (te_cp s) d; s = s\<lparr>te_cp := cp\<rparr>
              in if n \<noteq> 4 then Some ((kIOReturnNoSpace, s), d)
              else map_option (\<lambda>((r, fence, cp, cs), d). ((r, s\<lparr>te_cp := cp, te_stats := cs,
                                  te_result := (te_result s)\<lparr>cr_fence := fence\<rparr>\<rparr>), d))
                     (cp_submit_eop_test dev 100000 (te_cp s, te_stats s) d)))"

text \<open>Before anything is taken.\<close>

definition test_masks :: "'d DeviceContext \<Rightarrow> GFXConfig \<Rightarrow> test_state \<Rightarrow> kern_return + u32 list" where
  "test_masks dev gfx s =
     (if ct_active (te_test s) then Inl kIOReturnBusy
      else if pci dev = None \<or> \<not> cp_inited (te_cp s) \<or> \<not> ringReady (te_cp s) \<or> \<not> m_inited (vram_alloc (te_gmc s))
      then Inl kIOReturnNotReady
      else if \<not> gc_version_ok dev then Inl kIOReturnUnsupported
      else (case gfx_masks gfx of None \<Rightarrow> Inl kIOReturnNotReady | Some masks \<Rightarrow> Inr masks))"

text \<open>The page is cleared, then the code and the data are put into it.\<close>

definition test_upload :: "'d DeviceContext \<Rightarrow> u64 \<Rightarrow> u64 \<Rightarrow> u32 \<Rightarrow> 'd \<Rightarrow> kern_return \<times> 'd" where
  "test_upload dev off bytes seed d =
     (let (r, d) = vram_clear_verified dev off bytes d
      in if r \<noteq> kIOReturnSuccess then (r, d)
      else let (r, d) = vram_write_verified dev off (Some (dw_bytes kComputeSmokeCode))
                          (of_nat (4 * length kComputeSmokeCode)) d
      in if r \<noteq> kIOReturnSuccess then (r, d)
      else vram_write_verified dev (off + 4096) (Some (dw_bytes (test_words seed))) (ucast kComputeSmokeDataBytes) d)"

text \<open>The last part: the output is compared, and only a test that passed gives its block back.\<close>

definition test_verify :: "'d DeviceContext \<Rightarrow> u64 \<Rightarrow> u32 \<Rightarrow> test_state \<Rightarrow> 'd \<Rightarrow> (test_state, 'd) outcome" where
  "test_verify dev off seed s d =
     (let s = te_set_stage 6 s;
          ((n, first), d) = verify_words dev (off + 4096) 0 (test_expected seed) (0, 0xFFFFFFFF) d;
          s = s\<lparr>te_result := (te_result s)\<lparr>cr_mismatches := n, cr_firstMismatch := first\<rparr>\<rparr>
      in if n \<noteq> 0 then Some ((kIOReturnIOError, s), d)
      else map_option (\<lambda>gmc. ((kIOReturnSuccess,
               te_set_stage 7 (s\<lparr>te_gmc := gmc, te_test := \<lparr>ct_active = False, ct_storage = allocation_zero\<rparr>\<rparr>)), d))
             (cp_free (te_gmc s) (ct_storage (te_test s))))"

definition compute_test ::
  "'d DeviceContext \<Rightarrow> GFXConfig \<Rightarrow> u32 \<Rightarrow> test_state \<Rightarrow> 'd \<Rightarrow> (test_state, 'd) outcome"
where
  "compute_test dev gfx seed s d =
     (let s = s\<lparr>te_result := compute_result_zero\<rparr>
      in case test_masks dev gfx s of
           Inl r \<Rightarrow> Some ((r, s), d)
         | Inr masks \<Rightarrow>
             let s = te_set_stage 1 (s\<lparr>te_test := (te_test s)\<lparr>ct_active := True\<rparr>\<rparr>)
             in (case alloc (vram_alloc (te_gmc s)) kASPageSize kASPageSize of
                None \<Rightarrow> None
              | Some (None, va) \<Rightarrow> Some ((kIOReturnNoMemory, s\<lparr>te_gmc := (te_gmc s)\<lparr>vram_alloc := va\<rparr>\<rparr>), d)
              | Some (Some a, va) \<Rightarrow>
                  let codeVA = gpu_va a; dataVA = codeVA + 4096; off = codeVA - vram_start (te_gmc s);
                      s = s\<lparr>te_gmc := (te_gmc s)\<lparr>vram_alloc := va\<rparr>, te_test := (te_test s)\<lparr>ct_storage := a\<rparr>,
                            te_result := (te_result s)\<lparr>cr_gpuAddress := dataVA\<rparr>\<rparr>
                  in (case compute_smoke_packets codeVA dataVA seed masks of
                        None \<Rightarrow> Some ((kIOReturnBadArgument, s), d)
                      | Some (packets, dispatchOffset) \<Rightarrow>
                          if codeVA < vram_start (te_gmc s) \<or> \<not> vram_io_range dev off (va_size a)
                          then Some ((kIOReturnBadArgument, s), d)
                          else let s = te_set_stage 2 s; (r, d) = test_upload dev off (va_size a) seed d
                          in if r \<noteq> kIOReturnSuccess then Some ((r, s), d)
                          else let d = amdgpu_hdp_flush dev d; at = unat dispatchOffset;
                                   acquire = unat kComputeSmokeAcquireDwords
                          in and_then (test_submit dev codeVA off 0 (take acquire packets) (te_set_stage 3 s) d) (\<lambda>s d.
                             and_then (test_submit dev codeVA off 1 (drop acquire (take at packets)) (te_set_stage 4 s) d) (\<lambda>s d.
                             and_then (test_submit dev codeVA off 2 (drop at packets) (te_set_stage 5 s) d) (\<lambda>s d.
                             test_verify dev off seed s d))))))"

end
