(* ===== verification/Compute_Properties.thy ===== *)
theory Compute_Properties
  imports Compute_Launch Vram_Properties Mes_Bringup_Properties
begin

text \<open>
  A dispatch on the graphics queue returns while the clock runs, and it keeps the block of its indirect
  buffer exactly when the ring may still refer to it.
\<close>

section \<open>Submissions return\<close>

lemma cp_upload_returns:
  assumes "cp_ring_shape cp"
  shows "cp_upload dev cp ring cursor d \<noteq> None"
proof (induction "unat (cp_wptr cp) - unat cursor" arbitrary: cursor d rule: less_induct)
  case less
  show ?case
  proof (cases "cursor < cp_wptr cp")
    case False
    then show ?thesis by (subst cp_upload.simps) simp
  next
    case True
    let ?i = "ucast cursor AND cp_ring_ptr_mask cp" and ?rem = "cp_wptr cp - cursor"
    let ?con = "ucast (cp_ring_size_dwords cp - ?i) :: u64"
    define count where "count = (if ?rem < ?con then ?rem else ?con)"
    have "?i \<le> cp_ring_size_dwords cp - 1" using assms word_and_le1 by (auto simp: cp_ring_shape_def)
    moreover have "cp_ring_size_dwords cp - 1 < cp_ring_size_dwords cp" using assms
      by (auto simp: cp_ring_shape_def word_less_nat_alt word_le_nat_alt unat_sub)
    ultimately have "cp_ring_size_dwords cp - ?i \<noteq> 0" by (metis eq_iff_diff_eq_0 leD)
    then have "0 < unat ?con" by (simp add: unat_widen unat_gt_0)
    moreover have rem: "unat ?rem = unat (cp_wptr cp) - unat cursor" "0 < unat ?rem"
      using True by (auto simp: unat_sub word_less_nat_alt word_le_nat_alt)
    ultimately have c: "0 < unat count" "unat count \<le> unat (cp_wptr cp) - unat cursor"
      by (auto simp: word_less_nat_alt count_def)
    have "unat (cp_wptr cp) < 18446744073709551616" using unsigned_less [of "cp_wptr cp", where ?'a = nat] by simp
    moreover have "unat cursor < unat (cp_wptr cp)" using True by (simp add: word_less_nat_alt)
    ultimately have "unat cursor + unat count < 18446744073709551616" using c(2) by linarith
    then have nw: "unat (cursor + count) = unat cursor + unat count" by (intro unat_add64) simp
    have again: "cp_upload dev cp ring (cursor + count) d' \<noteq> None" for d'
      by (rule less.hyps) (use c nw True in \<open>simp add: word_less_nat_alt\<close>)
    obtain r d1 where w: "vram_write_verified dev (cp_ring_vram_off cp + ucast ?i * 4)
        (Some (dw_bytes (take (unat count) (drop (unat ?i) ring)))) (count * 4) d = (r, d1)" by fastforce
    have "cp_upload dev cp ring cursor d =
        (if r \<noteq> kIOReturnSuccess then Some (r, d1) else cp_upload dev cp ring (cursor + count) d1)"
      by (subst cp_upload.simps) (simp only: Let_def count_def [symmetric] w True not_True_eq_False if_False prod.case)
    then show ?thesis using again by simp
  qed
qed


lemma cp_kick_returns: "cp_kick_doorbell dev cp d \<noteq> None"
proof (cases "cp_kick_refused dev cp")
  case None
  then have shape: "cp_ring_shape cp" and ring: "cp_ring_cpu cp \<noteq> None" by (auto simp: cp_kick_refused_def split: if_splits)
  have pub: "cp_kick_publish dev ring (cp\<lparr>cp_ring_cpu := r, cp_wptr := w\<rparr>) e \<noteq> None" for ring r w e
    using cp_upload_returns [of "cp\<lparr>cp_ring_cpu := r, cp_wptr := w\<rparr>"] shape
    by (auto simp: cp_kick_publish_def cp_ring_shape_def Let_def split: option.splits prod.splits)
  show ?thesis using None ring pub by (auto simp: cp_kick_doorbell_def Let_def split: option.splits prod.splits)
qed (simp add: cp_kick_doorbell_def)

lemma fence64_clock:
  assumes "clock_runs dev T" "vram_read_fence64 dev off d = (x, d')"
  shows "T d \<le> T d'" "T d' \<le> T d + 2 ^ 40"
proof -
  have "d' = d \<or> d' = snd (rd64 dev (bar0MemIndex dev) off d)"
    using assms(2) by (auto simp: vram_read_fence64_def Let_def split: if_splits prod.splits)
  then show "T d \<le> T d'" "T d' \<le> T d + 2 ^ 40" using assms(1) by (auto simp: clock_runs_def)
qed

lemma cp_wait_returns:
  assumes clk: "clock_runs dev T" and small: "unat timeout_us * 1000 + 2 ^ 43 < (2::nat) ^ 64"
    and "S \<le> T d" "T d - S < unat timeout_us * 1000 + 2 ^ 42"
  shows "cp_wait_fence dev cp fence (word_of_nat S) elapsed timeout_us d \<noteq> None"
  using assms(3,4)
proof (induction "S + unat timeout_us * 1000 + 2 ^ 43 - T d" arbitrary: d elapsed rule: less_induct)
  case less
  obtain r observed d1 where f: "cp_read_fence dev cp d = ((r, observed), d1)" by (metis surj_pair)
  have t1: "T d \<le> T d1" "T d1 \<le> T d + 2 ^ 40"
    using f fence64_clock [OF clk] by (auto simp: cp_read_fence_def split: if_splits)
  let ?d2 = "sleep_ms dev 1 d1"
  have t2: "T d1 < T ?d2" "T ?d2 \<le> T d1 + 2 ^ 40" using clk by (auto simp: clock_runs_def)
  obtain now d3 where n: "now_ns dev ?d2 = (now, d3)" by fastforce
  have t3: "now = word_of_nat (T ?d2)" "T ?d2 \<le> T d3" "T d3 \<le> T ?d2 + 2 ^ 40"
    using clk n by (auto simp: clock_runs_def) (metis fst_conv snd_conv)+
  let ?el = "(now - word_of_nat S) div 1000"
  have el: "unat (now - word_of_nat S) = T ?d2 - S"
    using less.prems t1 t2 small by (simp add: t3(1) elapsed_word)
  have again: "cp_wait_fence dev cp fence (word_of_nat S) ?el timeout_us d3 \<noteq> None"
  proof (cases "?el < timeout_us")
    case False
    then show ?thesis by (subst cp_wait_fence.simps) simp
  next
    case True
    have "unat ?el = (T ?d2 - S) div 1000" by (simp add: unat_div el)
    then have "(T ?d2 - S) div 1000 < unat timeout_us" using True by (simp add: word_less_nat_alt)
    then have lt: "T ?d2 - S < unat timeout_us * 1000" by (simp add: div_less_iff_less_mult)
    show ?thesis
    proof (rule less.hyps)
      show "S + unat timeout_us * 1000 + 2 ^ 43 - T d3 < S + unat timeout_us * 1000 + 2 ^ 43 - T d"
        using less.prems t1 t2 t3 by simp
      show "S \<le> T d3" using less.prems t1 t2 t3 by simp
      show "T d3 - S < unat timeout_us * 1000 + 2 ^ 42" using lt less.prems t1 t2 t3 by simp
    qed
  qed
  then show ?case by (subst cp_wait_fence.simps) (simp add: f n)
qed

lemma eop_test_returns:
  assumes clk: "clock_runs dev T" and small: "unat timeout_us * 1000 + 2 ^ 43 < (2::nat) ^ 64"
  shows "cp_submit_eop_test dev timeout_us s d \<noteq> None"
proof -
  have wait: False if "now_ns dev e = (start, e1)" "cp_wait_fence dev cp fence start 0 timeout_us e1 = None" for cp fence e start e1
  proof -
    have "start = word_of_nat (T e)" "T e \<le> T e1" "T e1 \<le> T e + 2 ^ 40"
      using clk that(1) by (auto simp: clock_runs_def) (metis fst_conv snd_conv)+
    moreover from this have "T e1 - T e < unat timeout_us * 1000 + 2 ^ 42" by simp
    ultimately show ?thesis using cp_wait_returns [OF clk small, of "T e" e1 cp fence 0] that(2) by simp
  qed
  show ?thesis
  proof (cases "cp_submit_eop_test dev timeout_us s d")
    case None
    then show ?thesis using cp_kick_returns [of dev]
      by (auto simp: cp_submit_eop_test_def Let_def simp del: not_None_eq split: prod.splits if_splits option.splits dest: wait)
  qed simp
qed


section \<open>The block of a dispatch\<close>

text \<open>The blocks others hold are \<open>live\<close>; a retained launch holds its own.\<close>

definition launch_blocks :: "VRAMAllocation list \<Rightarrow> compute_state \<Rightarrow> VRAMAllocation list" where
  "launch_blocks live s = (if cl_retained (co_launch s) then cl_ib (co_launch s) # live else live)"

definition launch_inv :: "VRAMAllocation list \<Rightarrow> compute_state \<Rightarrow> bool" where
  "launch_inv live s \<longleftrightarrow> vram_inv (vram_alloc (co_gmc s)) (launch_blocks live s)"

text \<open>What a dispatch promises from \<open>s\<close> on.\<close>

definition launch_safe :: "VRAMAllocation list \<Rightarrow> compute_state \<Rightarrow> (compute_state, 'd) outcome \<Rightarrow> bool" where
  "launch_safe live s m \<longleftrightarrow> (\<exists>r s' d'. m = Some ((r, s'), d') \<and> launch_inv live s' \<and>
     (cl_retained (co_launch s') \<longleftrightarrow> r \<noteq> kIOReturnSuccess \<and> cp_wptr (co_cp s') \<noteq> cp_wptr (co_cp s)) \<and>
     (r = kIOReturnSuccess \<longrightarrow> co_stage s' = 3))"

lemma compute_finish_safe:
  assumes "vram_inv (vram_alloc (co_gmc t)) (cl_ib (co_launch t) # live)"
    "status \<noteq> kIOReturnSuccess \<longrightarrow> cp_wptr (co_cp t) = cp_wptr (co_cp s)"
  shows "launch_safe live s (compute_finish status t d)"
proof -
  obtain va where "free (vram_alloc (co_gmc t)) (cl_ib (co_launch t)) = Some va" "vram_inv va live"
    using free_spec [OF assms(1), of "cl_ib (co_launch t)"] by auto
  then show ?thesis using assms(2)
    by (auto simp: compute_finish_def cp_free_def launch_safe_def launch_inv_def launch_blocks_def compute_launch_zero_def)
qed

lemma compute_submit_safe:
  assumes "clock_runs dev T" "vram_inv (vram_alloc (co_gmc t)) (cl_ib (co_launch t) # live)" "co_cp t = co_cp s"
  shows "launch_safe live s (compute_submit dev request ib t d)"
proof -
  obtain n cp d1 where w: "cp_ring_write dev ib (co_cp t) (amdgpu_hdp_flush dev d) = ((n, cp), d1)" by (metis surj_pair)
  let ?m = "if n \<noteq> 4 then Some ((kIOReturnNoSpace, 0, cp, co_stats t), d1)
            else cp_submit_eop_test dev (ucast (cd_timeoutUS request)) (cp, co_stats t) d1"
  have "unat (cd_timeoutUS request) < 4294967296" using unsigned_less [of "cd_timeoutUS request", where ?'a = nat] by simp
  then have "unat (ucast (cd_timeoutUS request) :: u64) * 1000 + 8796093022208 < 18446744073709551616"
    unfolding unat_widen by linarith
  then have "unat (ucast (cd_timeoutUS request) :: u64) * 1000 + 2 ^ 43 < (2::nat) ^ 64" by simp
  then have "?m \<noteq> None" using eop_test_returns [OF assms(1)] by auto
  then obtain status fence cp' cs d2 where m: "?m = Some ((status, fence, cp', cs), d2)" by (metis not_None_eq surj_pair)
  let ?t = "t\<lparr>co_stage := 2, co_cp := cp', co_stats := cs, co_fence := fence\<rparr>"
  have run: "compute_submit dev request ib t d =
      (if status \<noteq> kIOReturnSuccess \<and> cp_wptr cp' \<noteq> cp_wptr (co_cp t)
       then Some ((status, ?t\<lparr>co_launch := (co_launch ?t)\<lparr>cl_retained := True\<rparr>\<rparr>), d2)
       else compute_finish status ?t d2)"
    using m by (simp add: compute_submit_def Let_def w split del: if_split cong: if_cong)
  show ?thesis
  proof (cases "status \<noteq> kIOReturnSuccess \<and> cp_wptr cp' \<noteq> cp_wptr (co_cp t)")
    case True
    then show ?thesis using assms(2,3) by (auto simp: run launch_safe_def launch_inv_def launch_blocks_def)
  next
    case False
    then have "launch_safe live s (compute_finish status ?t d2)"
      using assms(2,3) by (intro compute_finish_safe) auto
    then show ?thesis by (simp only: run if_not_P [OF False])
  qed
qed

text \<open>
  C36. While the clock runs, a dispatch returns. It keeps the block of its indirect buffer exactly when it failed
  after the write pointer of the ring moved, since the ring may then still refer to it; in every other case the block
  is given back, and the allocator holds the blocks it held before. A launch that was retained refuses
  the next one and changes nothing.
\<close>

theorem dispatch_keeps_referenced_block:
  assumes "clock_runs dev T" "launch_inv live s"
  shows "if cl_retained (co_launch s)
    then compute_launch dev gfx codeVA request s d = Some ((kIOReturnBusy, s\<lparr>co_fence := 0, co_stage := 0\<rparr>), d)
    else launch_safe live s (compute_launch dev gfx codeVA request s d)"
proof (cases "cl_retained (co_launch s)")
  case True
  then show ?thesis by (simp add: compute_launch_def compute_program_def)
next
  case False
  let ?s = "s\<lparr>co_fence := 0, co_stage := 0\<rparr>" and ?va = "vram_alloc (co_gmc s)"
  have inv: "vram_inv ?va live" using assms(2) False by (simp add: launch_inv_def launch_blocks_def)
  have "launch_safe live s (compute_launch dev gfx codeVA request s d)"
  proof (cases "compute_program dev gfx codeVA request ?s")
    case (Inl r)
    then have "r \<noteq> kIOReturnSuccess" by (auto simp: compute_program_def split: if_splits option.splits prod.splits)
    then show ?thesis using Inl inv False by (simp add: compute_launch_def launch_safe_def launch_inv_def launch_blocks_def)
  next
    case (Inr packets)
    obtain res va where al: "alloc ?va kASPageSize kASPageSize = Some (res, va)" and none: "res = None \<Longrightarrow> va = ?va"
      using alloc_outcome [OF inv, of kASPageSize kASPageSize] by auto
    show ?thesis
    proof (cases res)
      case None
      then show ?thesis using Inr al none inv False
        by (simp add: compute_launch_def launch_safe_def launch_inv_def launch_blocks_def)
    next
      case (Some a)
      have "vram_reserve ?va (kASPageSize, kASPageSize) = Some (a, va)" using al Some by (simp add: vram_reserve_def)
      note inv' = vram_reserve_spec(1) [OF inv this]
      let ?t = "?s\<lparr>co_gmc := (co_gmc s)\<lparr>vram_alloc := va\<rparr>, co_launch := (co_launch s)\<lparr>cl_ib := a\<rparr>, co_stage := 1\<rparr>"
      have fin: "launch_safe live s (compute_finish status ?t e)" if "status \<noteq> kIOReturnSuccess" for status e
        using inv' by (intro compute_finish_safe) auto
      have sub: "launch_safe live s (compute_submit dev request ib ?t e)" for ib e
        using inv' by (intro compute_submit_safe [OF assms(1)]) auto
      obtain status e where up: "(if vram_start (co_gmc s) \<le> gpu_va a
          then vram_write_verified dev (gpu_va a - vram_start (co_gmc s)) (Some (dw_bytes packets))
            (ucast (word_of_nat (length packets) * 4 :: u32)) d
          else (kIOReturnBadArgument, d)) = (status, e)" by fastforce
      have run: "compute_launch dev gfx codeVA request s d =
          (if status \<noteq> kIOReturnSuccess then compute_finish status ?t e
           else case pm4_gfx_ib (gpu_va a) (word_of_nat (length packets)) 0 of
                  None \<Rightarrow> compute_finish kIOReturnBadArgument ?t e
                | Some ib \<Rightarrow> compute_submit dev request ib ?t e)"
        using Inr al Some up by (simp add: compute_launch_def Let_def split del: if_split cong: if_cong option.case_cong)
      show ?thesis unfolding run using fin [of status e] fin [of kIOReturnBadArgument e] sub by (auto split: option.splits)
    qed
  qed
  then show ?thesis using False by simp
qed

text \<open>A ring of 4096 dwords, empty, with its storage at the start of VRAM.\<close>

definition demo_compute :: compute_state where
  "demo_compute = \<lparr>co_gmc = gmc_zero\<lparr>vram_start := 0x8000000000, vram_alloc := demo1\<rparr>,
     co_cp = cp_zero\<lparr>cp_inited := True, ringReady := True, cp_ring_cpu := Some (replicate 4096 0),
       cp_ring_size_dwords := 4096, cp_ring_ptr_mask := 4095, cp_wb_device := True, cp_wb_vram_off := 0x4000\<rparr>,
     co_stats = None, co_launch = compute_launch_zero, co_fence = 0, co_stage = 0\<rparr>"

lemma dispatch_keeps_referenced_block_witness:
  "compute_ready ram_dev demo_compute \<and>
   launch_safe [demo_block] demo_compute
     (compute_launch ram_dev gfx_config_zero 0x8000004000 (smoke_request 0x8000005000 7) demo_compute ((\<lambda>_ _. 0), 0))"
proof -
  have inv: "launch_inv [demo_block] demo_compute"
    using demo1_inv by (simp add: launch_inv_def launch_blocks_def demo_compute_def compute_launch_zero_def)
  have free: "\<not> cl_retained (co_launch demo_compute)" by (simp add: demo_compute_def compute_launch_zero_def)
  have "m_inited demo1" using vram_invD(1) [OF demo1_inv] .
  then have "compute_ready ram_dev demo_compute" by (simp add: compute_ready_def demo_compute_def ram_dev_def)
  then show ?thesis
    using dispatch_keeps_referenced_block [OF ram_dev_ok(4) inv, where gfx = gfx_config_zero
        and codeVA = "0x8000004000" and request = "smoke_request 0x8000005000 7" and d = "((\<lambda>_ _. 0), 0)"] free by simp
qed

end
