(* ===== verification/Sdma.thy ===== *)
theory Sdma
  imports Mes_Bringup Software_Stats
begin

text \<open>
  \<^verbatim>\<open>dext/amdgpu/sdma_v7_0.cpp\<close>, \<^verbatim>\<open>amdgpu_sdma.h\<close> and \<^verbatim>\<open>amdgpu_sdma_packets.h\<close>: the two copy engines, their
  rings in VRAM, their registers, the doorbell, and the two submissions the driver makes itself. Log lines
  are left out, but not the register reads of \<^verbatim>\<open>sdma_log_status\<close>. \<open>None\<close> as an outcome is a call that does
  not return. A ring pointer counts dwords and never wraps; only its place in the ring does.
\<close>

section \<open>Packets\<close>

definition SDMA_OP_NOP :: u32 where "SDMA_OP_NOP = 0"
definition SDMA_OP_COPY :: u32 where "SDMA_OP_COPY = 1"
definition SDMA_OP_FENCE :: u32 where "SDMA_OP_FENCE = 5"
definition SDMA_OP_TRAP :: u32 where "SDMA_OP_TRAP = 6"
definition SDMA_OP_TIMESTAMP :: u32 where "SDMA_OP_TIMESTAMP = 13"
definition SDMA_SUBOP_COPY_LINEAR :: u32 where "SDMA_SUBOP_COPY_LINEAR = 0"

definition SDMA_PKT_HEADER_OP :: "u32 \<Rightarrow> u32" where "SDMA_PKT_HEADER_OP op = op AND 0xFF"
definition SDMA_PKT_HEADER_SUB_OP :: "u32 \<Rightarrow> u32" where "SDMA_PKT_HEADER_SUB_OP sub_op = push_bit 8 (sub_op AND 0xFF)"
definition SDMA_PKT_HEADER_CPV :: "u32 \<Rightarrow> u32" where "SDMA_PKT_HEADER_CPV v = push_bit 19 (v AND 1)"

definition kSDMACopyLinearMaxBytes :: u32 where "kSDMACopyLinearMaxBytes = 0x00400000"

definition sdma_fence_header :: u32 where "sdma_fence_header = 5 OR push_bit 16 3"

definition sdma_doorbell_byte_offset :: "u32 \<Rightarrow> u64" where "sdma_doorbell_byte_offset dword_index = ucast dword_index * 4"

text \<open>The packets of \<^verbatim>\<open>sdma_ring_test\<close> and \<^verbatim>\<open>sdma_copy_linear_test\<close>.\<close>

definition sdma_fence_packet :: "u64 \<Rightarrow> u32 \<Rightarrow> u32 list" where
  "sdma_fence_packet fence_gpu v = [sdma_fence_header, ucast fence_gpu, ucast (drop_bit 32 fence_gpu), v]"

definition sdma_copy_packet :: "u64 \<Rightarrow> u64 \<Rightarrow> u32 \<Rightarrow> u32 list" where
  "sdma_copy_packet src_bus dst_bus byte_count =
     [SDMA_PKT_HEADER_OP SDMA_OP_COPY OR SDMA_PKT_HEADER_SUB_OP SDMA_SUBOP_COPY_LINEAR OR SDMA_PKT_HEADER_CPV 1,
      byte_count - 1, 0, ucast src_bus, ucast (drop_bit 32 src_bus), ucast dst_bus, ucast (drop_bit 32 dst_bus), 0]"

section \<open>Registers\<close>

definition kSDMAInstanceCount :: nat where "kSDMAInstanceCount = 2"
definition kSDMARingDefaultBytes :: u32 where "kSDMARingDefaultBytes = 16 * 1024"
definition kSDMAWBPageBytes :: u32 where "kSDMAWBPageBytes = 16 * 1024"
definition kSDMA1_REG_OFFSET :: u32 where "kSDMA1_REG_OFFSET = 0x600"
definition kSDMA1_HYP_DEC_REG_OFFSET :: u32 where "kSDMA1_HYP_DEC_REG_OFFSET = 0x30"
definition kSDMA0_HYP_DEC_REG_START :: u32 where "kSDMA0_HYP_DEC_REG_START = 0x5880"
definition kSDMA0_HYP_DEC_REG_END :: u32 where "kSDMA0_HYP_DEC_REG_END = 0x589A"

text \<open>The fields of \<^verbatim>\<open>SDMARegOffsets\<close>; the names that other engines use too have a prefix.\<close>

datatype SDMARegister =
    SDMA_STATUS_REG | SDMA_WATCHDOG_CNTL | SDMA_UTCL1_CNTL | SDMA_UTCL1_PAGE | QUEUE0_RB_CNTL | QUEUE0_RB_BASE
  | QUEUE0_RB_BASE_HI | QUEUE0_RB_RPTR | QUEUE0_RB_RPTR_HI | QUEUE0_RB_WPTR | QUEUE0_RB_WPTR_HI
  | QUEUE0_RB_RPTR_ADDR_LO | QUEUE0_RB_RPTR_ADDR_HI | QUEUE0_IB_CNTL | QUEUE0_DOORBELL | QUEUE0_DOORBELL_OFFSET
  | QUEUE0_RB_WPTR_POLL_ADDR_LO | QUEUE0_RB_WPTR_POLL_ADDR_HI | QUEUE0_MINOR_PTR_UPDATE | SDMA_MCU_CNTL

primrec kSDMARegOffsets_gc_12_0_0 :: "SDMARegister \<Rightarrow> u32" where
  "kSDMARegOffsets_gc_12_0_0 SDMA_STATUS_REG = 0x0024"
| "kSDMARegOffsets_gc_12_0_0 SDMA_WATCHDOG_CNTL = 0x002B"
| "kSDMARegOffsets_gc_12_0_0 SDMA_UTCL1_CNTL = 0x0035"
| "kSDMARegOffsets_gc_12_0_0 SDMA_UTCL1_PAGE = 0x0038"
| "kSDMARegOffsets_gc_12_0_0 QUEUE0_RB_CNTL = 0x0080"
| "kSDMARegOffsets_gc_12_0_0 QUEUE0_RB_BASE = 0x0081"
| "kSDMARegOffsets_gc_12_0_0 QUEUE0_RB_BASE_HI = 0x0082"
| "kSDMARegOffsets_gc_12_0_0 QUEUE0_RB_RPTR = 0x0083"
| "kSDMARegOffsets_gc_12_0_0 QUEUE0_RB_RPTR_HI = 0x0084"
| "kSDMARegOffsets_gc_12_0_0 QUEUE0_RB_WPTR = 0x0085"
| "kSDMARegOffsets_gc_12_0_0 QUEUE0_RB_WPTR_HI = 0x0086"
| "kSDMARegOffsets_gc_12_0_0 QUEUE0_RB_RPTR_ADDR_LO = 0x0087"
| "kSDMARegOffsets_gc_12_0_0 QUEUE0_RB_RPTR_ADDR_HI = 0x0088"
| "kSDMARegOffsets_gc_12_0_0 QUEUE0_IB_CNTL = 0x0089"
| "kSDMARegOffsets_gc_12_0_0 QUEUE0_DOORBELL = 0x008F"
| "kSDMARegOffsets_gc_12_0_0 QUEUE0_DOORBELL_OFFSET = 0x0091"
| "kSDMARegOffsets_gc_12_0_0 QUEUE0_RB_WPTR_POLL_ADDR_LO = 0x0098"
| "kSDMARegOffsets_gc_12_0_0 QUEUE0_RB_WPTR_POLL_ADDR_HI = 0x0099"
| "kSDMARegOffsets_gc_12_0_0 QUEUE0_MINOR_PTR_UPDATE = 0x009B"
| "kSDMARegOffsets_gc_12_0_0 SDMA_MCU_CNTL = 0x588E"

primrec kSDMARegOffsets_gc_12_1_0 :: "SDMARegister \<Rightarrow> u32" where
  "kSDMARegOffsets_gc_12_1_0 SDMA_STATUS_REG = 0x0024"
| "kSDMARegOffsets_gc_12_1_0 SDMA_WATCHDOG_CNTL = 0x002B"
| "kSDMARegOffsets_gc_12_1_0 SDMA_UTCL1_CNTL = 0x0037"
| "kSDMARegOffsets_gc_12_1_0 SDMA_UTCL1_PAGE = 0x003A"
| "kSDMARegOffsets_gc_12_1_0 QUEUE0_RB_CNTL = 0x0200"
| "kSDMARegOffsets_gc_12_1_0 QUEUE0_RB_BASE = 0x0201"
| "kSDMARegOffsets_gc_12_1_0 QUEUE0_RB_BASE_HI = 0x0202"
| "kSDMARegOffsets_gc_12_1_0 QUEUE0_RB_RPTR = 0x0203"
| "kSDMARegOffsets_gc_12_1_0 QUEUE0_RB_RPTR_HI = 0x0204"
| "kSDMARegOffsets_gc_12_1_0 QUEUE0_RB_WPTR = 0x0205"
| "kSDMARegOffsets_gc_12_1_0 QUEUE0_RB_WPTR_HI = 0x0206"
| "kSDMARegOffsets_gc_12_1_0 QUEUE0_RB_RPTR_ADDR_LO = 0x0207"
| "kSDMARegOffsets_gc_12_1_0 QUEUE0_RB_RPTR_ADDR_HI = 0x0208"
| "kSDMARegOffsets_gc_12_1_0 QUEUE0_IB_CNTL = 0x0209"
| "kSDMARegOffsets_gc_12_1_0 QUEUE0_DOORBELL = 0x020F"
| "kSDMARegOffsets_gc_12_1_0 QUEUE0_DOORBELL_OFFSET = 0x0211"
| "kSDMARegOffsets_gc_12_1_0 QUEUE0_RB_WPTR_POLL_ADDR_LO = 0x0218"
| "kSDMARegOffsets_gc_12_1_0 QUEUE0_RB_WPTR_POLL_ADDR_HI = 0x0219"
| "kSDMARegOffsets_gc_12_1_0 QUEUE0_MINOR_PTR_UPDATE = 0x021B"
| "kSDMARegOffsets_gc_12_1_0 SDMA_MCU_CNTL = 0x588E"

definition sdma_pick_reg_table :: "'d DeviceContext \<Rightarrow> SDMARegister \<Rightarrow> u32" where
  "sdma_pick_reg_table dev =
     (let gc = ip_version (dev_ip dev) GC
      in if ip_major gc = 12 \<and> ip_minor gc = 1 then kSDMARegOffsets_gc_12_1_0 else kSDMARegOffsets_gc_12_0_0)"

definition RB_CNTL__RB_ENABLE :: field where "RB_CNTL__RB_ENABLE = (0x00000001, 0)"
definition RB_CNTL__RB_SIZE :: field where "RB_CNTL__RB_SIZE = (0x0000003E, 1)"
definition RB_CNTL__WPTR_POLL_ENABLE :: field where "RB_CNTL__WPTR_POLL_ENABLE = (0x00000100, 8)"
definition RB_CNTL__MCU_WPTR_POLL_ENABLE :: field where "RB_CNTL__MCU_WPTR_POLL_ENABLE = (0x00000800, 0xb)"
definition RB_CNTL__RPTR_WRITEBACK_ENABLE :: field where "RB_CNTL__RPTR_WRITEBACK_ENABLE = (0x00001000, 0xc)"
definition RB_CNTL__RB_PRIV :: field where "RB_CNTL__RB_PRIV = (0x00800000, 0x17)"
definition IB_CNTL__IB_ENABLE :: field where "IB_CNTL__IB_ENABLE = (0x00000001, 0)"
definition SDMA_DOORBELL__ENABLE :: field where "SDMA_DOORBELL__ENABLE = (0x10000000, 0x1c)"
definition SDMA_DOORBELL_OFFSET__OFFSET :: field where "SDMA_DOORBELL_OFFSET__OFFSET = (0x0FFFFFFC, 2)"
definition MCU_CNTL__HALT :: field where "MCU_CNTL__HALT = (0x00000001, 0)"
definition MCU_CNTL__RESET :: field where "MCU_CNTL__RESET = (0x00000002, 1)"
definition UTCL1_CNTL__REDO_DELAY :: field where "UTCL1_CNTL__REDO_DELAY = (0x0000001F, 0)"
definition UTCL1_CNTL__RESP_MODE :: field where "UTCL1_CNTL__RESP_MODE = (0x00000600, 9)"
definition WATCHDOG_CNTL__QUEUE_HANG_COUNT :: field where "WATCHDOG_CNTL__QUEUE_HANG_COUNT = (0x000000FF, 0)"

definition sdma_reg_offset :: "'d DeviceContext \<Rightarrow> u32 \<Rightarrow> u32 \<Rightarrow> u32" where
  "sdma_reg_offset dev inst reg =
     (if kSDMA0_HYP_DEC_REG_START \<le> reg \<and> reg \<le> kSDMA0_HYP_DEC_REG_END
      then ip_getBase (dev_ip dev) GC 1 + reg + (if inst \<noteq> 0 then kSDMA1_HYP_DEC_REG_OFFSET * inst else 0)
      else ip_get (dev_ip dev) GC + reg + (if inst = 1 then kSDMA1_REG_OFFSET else 0))"

definition sdma_reg :: "'d DeviceContext \<Rightarrow> u32 \<Rightarrow> SDMARegister \<Rightarrow> u32" where
  "sdma_reg dev inst r = sdma_reg_offset dev inst (sdma_pick_reg_table dev r)"

definition sdma_rreg :: "'d DeviceContext \<Rightarrow> u32 \<Rightarrow> SDMARegister \<Rightarrow> 'd \<Rightarrow> u32 \<times> 'd" where
  "sdma_rreg dev inst r = RREG32 dev (sdma_reg dev inst r)"

definition sdma_wreg :: "'d DeviceContext \<Rightarrow> u32 \<Rightarrow> SDMARegister \<Rightarrow> u32 \<Rightarrow> 'd \<Rightarrow> 'd" where
  "sdma_wreg dev inst r v = WREG32 dev (sdma_reg dev inst r) v"

text \<open>A read, a change of fields and the write back.\<close>

definition sdma_modify :: "'d DeviceContext \<Rightarrow> u32 \<Rightarrow> SDMARegister \<Rightarrow> (field \<times> u32) list \<Rightarrow> 'd \<Rightarrow> 'd" where
  "sdma_modify dev inst r fs d = (let (v, d) = sdma_rreg dev inst r d in sdma_wreg dev inst r (set_fields v fs) d)"

section \<open>State\<close>

text \<open>\<open>sd_wb_device\<close> is the pointer \<^verbatim>\<open>wb_device\<close> being set; it is only ever set to the device itself.\<close>

record SDMAInstance =
  sd_instance :: u32
  sd_inited :: bool
  sd_enabled :: bool
  sd_ring_gpu_va :: u64
  sd_ring_vram_off :: u64
  sd_ring_size_dwords :: u32
  sd_ring_ptr_mask :: u32
  sd_wb_bus :: u64
  sd_wb_vram_off :: u64
  sd_wb_device :: bool
  sd_cs_fence_shadow :: u32
  sd_rptr_gpu_addr :: u64
  sd_wptr_poll_gpu_addr :: u64
  sd_wptr :: u64
  sd_doorbell_index :: u32

definition sdma_instance_zero :: SDMAInstance where
  "sdma_instance_zero = \<lparr>sd_instance = 0, sd_inited = False, sd_enabled = False, sd_ring_gpu_va = 0,
     sd_ring_vram_off = 0, sd_ring_size_dwords = 0, sd_ring_ptr_mask = 0, sd_wb_bus = 0, sd_wb_vram_off = 0,
     sd_wb_device = False, sd_cs_fence_shadow = 0, sd_rptr_gpu_addr = 0, sd_wptr_poll_gpu_addr = 0, sd_wptr = 0,
     sd_doorbell_index = 0\<rparr>"

record SDMAContext =
  sdma_instance :: "u32 \<Rightarrow> SDMAInstance"
  microcode_loaded :: bool

definition set_instance :: "u32 \<Rightarrow> SDMAInstance \<Rightarrow> SDMAContext \<Rightarrow> SDMAContext" where
  "set_instance i inst sdma = sdma\<lparr>sdma_instance := (sdma_instance sdma)(i := inst)\<rparr>"

section \<open>Storage\<close>

definition sdma_free :: "GMCContext \<Rightarrow> VRAMAllocation \<Rightarrow> GMCContext option" where
  "sdma_free gmc a = map_option (\<lambda>va. gmc\<lparr>vram_alloc := va\<rparr>) (free (vram_alloc gmc) a)"

text \<open>Both blocks are there: they are cleared, or given back.\<close>

definition sdma_storage_ready ::
  "'d DeviceContext \<Rightarrow> VRAMAllocation \<Rightarrow> VRAMAllocation \<Rightarrow> SDMAInstance \<times> GMCContext \<Rightarrow> 'd \<Rightarrow>
     (SDMAInstance \<times> GMCContext, 'd) outcome"
where
  "sdma_storage_ready dev ring wb s d =
     (let (inst, gmc) = s;
          (r, d) = vram_clear_verified dev (sd_ring_vram_off inst) (va_size ring) d;
          (r, d) = (if r = kIOReturnSuccess then vram_clear_verified dev (sd_wb_vram_off inst) (va_size wb) d else (r, d))
      in if r \<noteq> kIOReturnSuccess
      then (case sdma_free gmc wb of
          None \<Rightarrow> None
        | Some gmc \<Rightarrow> map_option (\<lambda>gmc. ((r, inst, gmc), d)) (sdma_free gmc ring))
      else Some ((kIOReturnSuccess, inst\<lparr>sd_wb_device := True, sd_cs_fence_shadow := 0,
             sd_rptr_gpu_addr := sd_wb_bus inst, sd_wptr_poll_gpu_addr := sd_wb_bus inst + 0x40, sd_wptr := 0,
             sd_doorbell_index := push_bit 1 (db_sdma_engine (db_index (dev_doorbell dev)) (unat (sd_instance inst))),
             sd_inited := True\<rparr>, gmc), d))"

definition sdma_alloc_storage ::
  "'d DeviceContext \<Rightarrow> SDMAInstance \<Rightarrow> GMCContext \<Rightarrow> 'd \<Rightarrow> (SDMAInstance \<times> GMCContext, 'd) outcome"
where
  "sdma_alloc_storage dev inst gmc d =
     (if sd_inited inst then Some ((kIOReturnSuccess, inst, gmc), d)
      else if \<not> m_inited (vram_alloc gmc) then Some ((kIOReturnNotReady, inst, gmc), d)
      else (case alloc (vram_alloc gmc) (ucast kSDMARingDefaultBytes) kASPageSize of
          None \<Rightarrow> None
        | Some (None, va) \<Rightarrow> Some ((kIOReturnNoMemory, inst, gmc\<lparr>vram_alloc := va\<rparr>), d)
        | Some (Some ring, va) \<Rightarrow>
            let gmc = gmc\<lparr>vram_alloc := va\<rparr>;
                inst = inst\<lparr>sd_ring_gpu_va := gpu_va ring, sd_ring_vram_off := gpu_va ring - vram_start gmc,
                  sd_ring_size_dwords := kSDMARingDefaultBytes div 4,
                  sd_ring_ptr_mask := kSDMARingDefaultBytes div 4 - 1\<rparr>
            in (case alloc va (ucast kSDMAWBPageBytes) kASPageSize of
                None \<Rightarrow> None
              | Some (None, va) \<Rightarrow>
                  map_option (\<lambda>gmc. ((kIOReturnNoMemory, inst, gmc), d)) (sdma_free (gmc\<lparr>vram_alloc := va\<rparr>) ring)
              | Some (Some wb, va) \<Rightarrow>
                  let gmc = gmc\<lparr>vram_alloc := va\<rparr>
                  in sdma_storage_ready dev ring wb
                       (inst\<lparr>sd_wb_bus := gpu_va wb, sd_wb_vram_off := gpu_va wb - vram_start gmc\<rparr>, gmc) d)))"

section \<open>The engine\<close>

definition sdma_engine_halt :: "'d DeviceContext \<Rightarrow> u32 \<Rightarrow> bool \<Rightarrow> 'd \<Rightarrow> kern_return \<times> 'd" where
  "sdma_engine_halt dev inst halt d =
     (if \<not> ip_isResolved (dev_ip dev) GC then (kIOReturnNotReady, d)
      else (kIOReturnSuccess, sdma_modify dev inst SDMA_MCU_CNTL
             [(MCU_CNTL__HALT, if halt then 1 else 0), (MCU_CNTL__RESET, 0)] d))"

definition sdma_gfx_stop_instance :: "'d DeviceContext \<Rightarrow> u32 \<Rightarrow> 'd \<Rightarrow> kern_return \<times> 'd" where
  "sdma_gfx_stop_instance dev inst d =
     (if \<not> ip_isResolved (dev_ip dev) GC then (kIOReturnNotReady, d)
      else let d = sdma_modify dev inst QUEUE0_RB_CNTL [(RB_CNTL__RB_ENABLE, 0)] d
        in (kIOReturnSuccess, sdma_modify dev inst QUEUE0_IB_CNTL [(IB_CNTL__IB_ENABLE, 0)] d))"

text \<open>The register writes between the first and the second value of \<^verbatim>\<open>RB_CNTL\<close>, in order.\<close>

definition sdma_ring_writes :: "SDMAInstance \<Rightarrow> (SDMARegister \<times> u32) list" where
  "sdma_ring_writes inst =
     [(QUEUE0_RB_RPTR, 0), (QUEUE0_RB_RPTR_HI, 0), (QUEUE0_RB_WPTR, 0), (QUEUE0_RB_WPTR_HI, 0),
      (QUEUE0_RB_WPTR_POLL_ADDR_LO, ucast (sd_wptr_poll_gpu_addr inst)),
      (QUEUE0_RB_WPTR_POLL_ADDR_HI, ucast (drop_bit 32 (sd_wptr_poll_gpu_addr inst))),
      (QUEUE0_RB_RPTR_ADDR_HI, ucast (drop_bit 32 (sd_rptr_gpu_addr inst))),
      (QUEUE0_RB_RPTR_ADDR_LO, ucast (sd_rptr_gpu_addr inst AND 0xFFFFFFFC)),
      (QUEUE0_RB_BASE, ucast (drop_bit 8 (sd_ring_gpu_va inst))),
      (QUEUE0_RB_BASE_HI, ucast (drop_bit 40 (sd_ring_gpu_va inst))),
      (QUEUE0_MINOR_PTR_UPDATE, 1), (QUEUE0_RB_WPTR, 0), (QUEUE0_RB_WPTR_HI, 0)]"

definition sdma_run_writes :: "'d DeviceContext \<Rightarrow> u32 \<Rightarrow> (SDMARegister \<times> u32) list \<Rightarrow> 'd \<Rightarrow> 'd" where
  "sdma_run_writes dev i = fold (\<lambda>(r, v). sdma_wreg dev i r v)"

definition sdma_gfx_resume_instance ::
  "'d DeviceContext \<Rightarrow> SDMAInstance \<Rightarrow> 'd \<Rightarrow> (kern_return \<times> SDMAInstance) \<times> 'd"
where
  "sdma_gfx_resume_instance dev inst d =
     (if \<not> sd_inited inst then ((kIOReturnNotReady, inst), d)
      else if \<not> ip_isResolved (dev_ip dev) GC then ((kIOReturnNotReady, inst), d)
      else let i = sd_instance inst;
               rb_bufsz = order_base_2_u32 (sd_ring_size_dwords inst);
               (v, d) = sdma_rreg dev i QUEUE0_RB_CNTL d;
               rb_cntl = set_fields v [(RB_CNTL__RB_SIZE, rb_bufsz), (RB_CNTL__RB_PRIV, 1)];
               d = sdma_wreg dev i QUEUE0_RB_CNTL rb_cntl d;
               d = sdma_run_writes dev i (sdma_ring_writes inst) d;
               rb_cntl = set_fields rb_cntl [(RB_CNTL__RPTR_WRITEBACK_ENABLE, 1), (RB_CNTL__WPTR_POLL_ENABLE, 0),
                 (RB_CNTL__MCU_WPTR_POLL_ENABLE, 1)];
               (doorbell, d) = sdma_rreg dev i QUEUE0_DOORBELL d;
               (doorbell_offset, d) = sdma_rreg dev i QUEUE0_DOORBELL_OFFSET d;
               d = sdma_wreg dev i QUEUE0_DOORBELL (REG_SET_FIELD doorbell SDMA_DOORBELL__ENABLE 1) d;
               d = sdma_wreg dev i QUEUE0_DOORBELL_OFFSET
                     (REG_SET_FIELD doorbell_offset SDMA_DOORBELL_OFFSET__OFFSET (sd_doorbell_index inst)) d;
               d = sdma_wreg dev i QUEUE0_MINOR_PTR_UPDATE 0 d;
               d = sdma_modify dev i SDMA_WATCHDOG_CNTL [(WATCHDOG_CNTL__QUEUE_HANG_COUNT, 1)] d;
               d = sdma_modify dev i SDMA_UTCL1_CNTL [(UTCL1_CNTL__RESP_MODE, 3), (UTCL1_CNTL__REDO_DELAY, 9)] d;
               (v, d) = sdma_rreg dev i SDMA_UTCL1_PAGE d;
               d = sdma_wreg dev i SDMA_UTCL1_PAGE (v AND 0xFF0FFF) d;
               (_, d) = sdma_engine_halt dev i False d;
               d = sdma_wreg dev i QUEUE0_RB_CNTL (REG_SET_FIELD rb_cntl RB_CNTL__RB_ENABLE 1) d;
               d = sdma_modify dev i QUEUE0_IB_CNTL [(IB_CNTL__IB_ENABLE, 1)] d
        in ((kIOReturnSuccess, inst\<lparr>sd_wptr := 0, sd_enabled := True\<rparr>), d))"

section \<open>The ring\<close>

primrec sdma_ring_put :: "'d DeviceContext \<Rightarrow> SDMAInstance \<Rightarrow> nat \<Rightarrow> u32 list \<Rightarrow> 'd \<Rightarrow> 'd" where
  "sdma_ring_put dev inst i [] d = d"
| "sdma_ring_put dev inst i (x # xs) d =
     (let slot = ucast ((sd_wptr inst + word_of_nat i) AND ucast (sd_ring_ptr_mask inst)) :: u32
      in sdma_ring_put dev inst (i + 1) xs (WBAR0_32 dev (sd_ring_vram_off inst + ucast (slot * 4)) x d))"

definition sdma_ring_refuses :: "SDMAInstance \<Rightarrow> u32 \<Rightarrow> bool" where
  "sdma_ring_refuses inst dwords \<longleftrightarrow>
     \<not> sd_inited inst \<or> dwords = 0 \<or> sd_ring_size_dwords inst = 0 \<or>
     sd_ring_size_dwords inst AND (sd_ring_size_dwords inst - 1) \<noteq> 0 \<or>
     sd_ring_ptr_mask inst \<noteq> sd_ring_size_dwords inst - 1 \<or> sd_ring_size_dwords inst < dwords \<or>
     drop_bit 2 0xFFFFFFFFFFFFFFFF - ucast dwords < sd_wptr inst"

text \<open>The dwords accepted: all of them or none.\<close>

definition sdma_ring_write :: "'d DeviceContext \<Rightarrow> SDMAInstance \<Rightarrow> u32 list \<Rightarrow> 'd \<Rightarrow> (u32 \<times> SDMAInstance) \<times> 'd" where
  "sdma_ring_write dev inst src d =
     (let dwords = word_of_nat (length src)
      in if sdma_ring_refuses inst dwords then ((0, inst), d)
         else ((dwords, inst\<lparr>sd_wptr := sd_wptr inst + ucast dwords\<rparr>),
               amdgpu_hdp_flush dev (sdma_ring_put dev inst 0 src d)))"

definition sdma_fence_slot :: "u32 \<Rightarrow> bool" where
  "sdma_fence_slot offset \<longleftrightarrow> offset = 0x80 \<or> offset = 0xC0"

definition sdma_clear_fence :: "'d DeviceContext \<Rightarrow> SDMAInstance \<Rightarrow> u32 \<Rightarrow> 'd \<Rightarrow> kern_return \<times> 'd" where
  "sdma_clear_fence dev inst offset d =
     (if \<not> sd_inited inst then (kIOReturnNotReady, d)
      else if \<not> sdma_fence_slot offset then (kIOReturnBadArgument, d)
      else vram_write_verified dev (sd_wb_vram_off inst + ucast offset) (Some (bytes32 0)) 4 d)"

definition sdma_read_fence :: "'d DeviceContext \<Rightarrow> SDMAInstance \<Rightarrow> u32 \<Rightarrow> 'd \<Rightarrow> (kern_return \<times> u32) \<times> 'd" where
  "sdma_read_fence dev inst offset d =
     (if \<not> sd_inited inst then ((kIOReturnNotReady, 0), d)
      else if \<not> sdma_fence_slot offset then ((kIOReturnBadArgument, 0), d)
      else vram_read_fence32 dev (sd_wb_vram_off inst + ucast offset) d)"

text \<open>The reader a raw submission is given: \<open>None\<close> is \<^verbatim>\<open>return false\<close>.\<close>

definition sdma_read_cs_fence :: "'d DeviceContext \<Rightarrow> SDMAInstance option \<Rightarrow> 'd \<Rightarrow> u32 option \<times> 'd" where
  "sdma_read_cs_fence dev context d =
     (case context of
        None \<Rightarrow> (None, d)
      | Some inst \<Rightarrow>
          if \<not> sd_wb_device inst then (None, d)
          else let ((r, v), d) = sdma_read_fence dev inst 0xC0 d in (if r = kIOReturnSuccess then Some v else None, d))"

definition sdma_kick_doorbell :: "'d DeviceContext \<Rightarrow> SDMAInstance \<Rightarrow> 'd \<Rightarrow> kern_return \<times> 'd" where
  "sdma_kick_doorbell dev inst d =
     (if \<not> sd_inited inst then (kIOReturnNotReady, d)
      else if \<not> ip_isResolved (dev_ip dev) GC then (kIOReturnNotReady, d)
      else if drop_bit 2 0xFFFFFFFFFFFFFFFF < sd_wptr inst then (kIOReturnBadArgument, d)
      else if pci dev = None then (kIOReturnNotAttached, d)
      else let v = push_bit 2 (sd_wptr inst);
               offs = sdma_doorbell_byte_offset (sd_doorbell_index inst)
        in if bar2Size dev < offs \<or> bar2Size dev - offs < 8 then (kIOReturnBadArgument, d)
        else let (upload, d) = vram_write_verified dev (sd_wb_vram_off inst + 0x40) (Some (bytes64 v)) 8 d
        in if upload \<noteq> kIOReturnSuccess then (upload, d)
        else let d = amdgpu_hdp_flush dev d;
                 d = wr64 dev (bar2MemIndex dev) offs v d
          in (kIOReturnSuccess,
              if doorbell_works dev then d
              else sdma_wreg dev (sd_instance inst) QUEUE0_RB_WPTR_HI (ucast (drop_bit 32 v))
                     (sdma_wreg dev (sd_instance inst) QUEUE0_RB_WPTR (ucast v) d)))"

section \<open>Submissions\<close>

text \<open>
  The wait for a fence of the ring test: the clock is read after the fence. \<open>elapsed\<close> is in microseconds.
\<close>

definition elapsed_us :: "u64 \<Rightarrow> u64 \<Rightarrow> u64" where
  "elapsed_us now start = (now - start) div 1000"

partial_function (option) sdma_wait ::
  "'d DeviceContext \<Rightarrow> SDMAInstance \<Rightarrow> u32 \<Rightarrow> u64 \<Rightarrow> u64 \<Rightarrow> 'd \<Rightarrow> (kern_return \<times> 'd) option"
where
  "sdma_wait dev inst wanted start timeout_us d =
     (let ((r, observed), d) = sdma_read_fence dev inst 0x80 d
      in if r \<noteq> kIOReturnSuccess then Some (r, d)
      else if observed = wanted then Some (kIOReturnSuccess, d)
      else let (now, d) = now_ns dev d
        in if timeout_us \<le> elapsed_us now start then Some (kIOReturnTimeout, d)
           else sdma_wait dev inst wanted start timeout_us (sleep_ms dev 1 d))"

declare sdma_wait.simps [code]

definition sdma_ring_test :: "'d DeviceContext \<Rightarrow> SDMAInstance \<Rightarrow> u64 \<Rightarrow> 'd \<Rightarrow> (SDMAInstance, 'd) outcome" where
  "sdma_ring_test dev inst timeout_us d =
     (if \<not> sd_inited inst \<or> \<not> sd_enabled inst then Some ((kIOReturnNotReady, inst), d)
      else let (r, d) = sdma_clear_fence dev inst 0x80 d
        in if r \<noteq> kIOReturnSuccess then Some ((r, inst), d)
        else let ((n, inst), d) = sdma_ring_write dev inst (sdma_fence_packet (sd_wb_bus inst + 0x80) 0xCAFEC0DE) d
        in if n \<noteq> 4 then Some ((kIOReturnNoSpace, inst), d)
        else let (r, d) = sdma_kick_doorbell dev inst d
        in if r \<noteq> kIOReturnSuccess then Some ((r, inst), d)
        else let (start, d) = now_ns dev d
          in map_option (\<lambda>(r, d). ((r, inst), d)) (sdma_wait dev inst 0xCAFEC0DE start timeout_us d))"

text \<open>The wait of a copy: here the clock is read before the fence.\<close>

partial_function (option) sdma_copy_wait ::
  "'d DeviceContext \<Rightarrow> SDMAInstance \<Rightarrow> u64 \<Rightarrow> u64 \<Rightarrow> 'd \<Rightarrow> (kern_return \<times> 'd) option"
where
  "sdma_copy_wait dev inst start timeout_us d =
     (let (now, d) = now_ns dev d;
          ((r, observed), d) = sdma_read_fence dev inst 0x80 d
      in if r \<noteq> kIOReturnSuccess then Some (r, d)
      else if observed = 0xDEC0FFEE then Some (kIOReturnSuccess, d)
      else if timeout_us \<le> elapsed_us now start then Some (kIOReturnTimeout, d)
      else sdma_copy_wait dev inst start timeout_us (sleep_ms dev 1 d))"

declare sdma_copy_wait.simps [code]

definition sdma_engine :: "SDMAInstance \<Rightarrow> StatsEngine" where
  "sdma_engine inst = (if sd_instance inst = 0 then SDMA0 else SDMA1)"

definition sdma_copy_linear_test ::
  "'d DeviceContext \<Rightarrow> u64 \<Rightarrow> u64 \<Rightarrow> u32 \<Rightarrow> u64 \<Rightarrow> SDMAInstance \<times> Counters option \<Rightarrow> 'd \<Rightarrow>
     (SDMAInstance \<times> Counters option, 'd) outcome"
where
  "sdma_copy_linear_test dev src_bus dst_bus byte_count timeout_us s d =
     (let (inst, cs) = s
      in if \<not> sd_inited inst \<or> \<not> sd_enabled inst then Some ((kIOReturnNotReady, s), d)
      else if byte_count = 0 \<or> kSDMACopyLinearMaxBytes < byte_count then Some ((kIOReturnBadArgument, s), d)
      else let (r, d) = sdma_clear_fence dev inst 0x80 d
        in if r \<noteq> kIOReturnSuccess then Some ((r, s), d)
        else let ((n, inst), d) = sdma_ring_write dev inst
                (sdma_copy_packet src_bus dst_bus byte_count @ sdma_fence_packet (sd_wb_bus inst + 0x80) 0xDEC0FFEE) d
        in if n \<noteq> 12 then Some ((kIOReturnNoSpace, inst, cs), d)
        else let (r, d) = sdma_kick_doorbell dev inst d
        in if r \<noteq> kIOReturnSuccess then Some ((r, inst, cs), d)
        else let (start, d) = now_ns dev d;
                 (tracked, cs) = work_begin cs (sdma_engine inst) start
          in (case sdma_copy_wait dev inst start timeout_us d of
                None \<Rightarrow> None
              | Some (r, d) \<Rightarrow>
                  if r \<noteq> kIOReturnSuccess then Some ((r, inst, work_end tracked (sdma_engine inst) cs), d)
                  else let (now, d) = now_ns dev d;
                           dir = (case cs of None \<Rightarrow> UnknownDirection
                                  | Some c \<Rightarrow> counters_direction c src_bus dst_bus (ucast byte_count))
                    in Some ((kIOReturnSuccess, inst,
                         snd (work_complete tracked (sdma_engine inst) now (ucast byte_count) dir cs)), d)))"

section \<open>Bring-up\<close>

text \<open>What \<^verbatim>\<open>sdma_log_status\<close> reads; the values are only logged.\<close>

definition sdma_log_status :: "'d DeviceContext \<Rightarrow> u32 \<Rightarrow> 'd \<Rightarrow> 'd" where
  "sdma_log_status dev inst d =
     (if \<not> ip_isResolved (dev_ip dev) GC then d
      else foldl (\<lambda>d r. snd (sdma_rreg dev inst r d)) d
             [SDMA_STATUS_REG, QUEUE0_RB_RPTR, QUEUE0_RB_WPTR, QUEUE0_RB_CNTL])"

definition sdma_instances :: "u32 list" where
  "sdma_instances = map word_of_nat [0..<kSDMAInstanceCount]"

text \<open>One step on each instance in turn; the first failure ends the loop.\<close>

primrec for_instances ::
  "(u32 \<Rightarrow> SDMAContext \<times> GMCContext \<Rightarrow> 'd \<Rightarrow> (SDMAContext \<times> GMCContext, 'd) outcome) \<Rightarrow> u32 list \<Rightarrow>
     SDMAContext \<times> GMCContext \<Rightarrow> 'd \<Rightarrow> (SDMAContext \<times> GMCContext, 'd) outcome"
where
  "for_instances f [] s d = Some ((kIOReturnSuccess, s), d)"
| "for_instances f (i # is) s d = and_then (f i s d) (for_instances f is)"

definition sdma_stop_step :: "'d DeviceContext \<Rightarrow> u32 \<Rightarrow> 'd \<Rightarrow> 'd" where
  "sdma_stop_step dev i d =
     (let (_, d) = sdma_gfx_stop_instance dev i d; (_, d) = sdma_engine_halt dev i False d in sdma_log_status dev i d)"

definition sdma_storage_step ::
  "'d DeviceContext \<Rightarrow> u32 \<Rightarrow> SDMAContext \<times> GMCContext \<Rightarrow> 'd \<Rightarrow> (SDMAContext \<times> GMCContext, 'd) outcome"
where
  "sdma_storage_step dev i s d =
     (let (sdma, gmc) = s
      in map_option (\<lambda>((r, inst, gmc), d). ((r, set_instance i inst sdma, gmc), d))
           (sdma_alloc_storage dev ((sdma_instance sdma i)\<lparr>sd_instance := i\<rparr>) gmc d))"

definition sdma_resume_step ::
  "'d DeviceContext \<Rightarrow> u32 \<Rightarrow> SDMAContext \<times> GMCContext \<Rightarrow> 'd \<Rightarrow> (SDMAContext \<times> GMCContext, 'd) outcome"
where
  "sdma_resume_step dev i s d =
     (let (sdma, gmc) = s;
          ((r, inst), d) = sdma_gfx_resume_instance dev (sdma_instance sdma i) d
      in Some ((r, set_instance i inst sdma, gmc), sdma_log_status dev i d))"

definition sdma_test_step ::
  "'d DeviceContext \<Rightarrow> u32 \<Rightarrow> SDMAContext \<times> GMCContext \<Rightarrow> 'd \<Rightarrow> (SDMAContext \<times> GMCContext, 'd) outcome"
where
  "sdma_test_step dev i s d =
     (let (sdma, gmc) = s
      in map_option (\<lambda>((r, inst), d). ((r, set_instance i inst sdma, gmc),
             if r \<noteq> kIOReturnSuccess then sdma_log_status dev i d else d))
           (sdma_ring_test dev (sdma_instance sdma i) 100000 d))"

definition sdma_init_full ::
  "'d DeviceContext \<Rightarrow> SDMAContext \<times> GMCContext \<Rightarrow> 'd \<Rightarrow> (SDMAContext \<times> GMCContext, 'd) outcome"
where
  "sdma_init_full dev s d =
     (if \<not> ip_isResolved (dev_ip dev) GC then Some ((kIOReturnNotReady, s), d)
      else and_then (for_instances (sdma_storage_step dev) sdma_instances s
             (fold (sdma_stop_step dev) sdma_instances d))
        (\<lambda>s d. if \<not> microcode_loaded (fst s) then Some ((kIOReturnNotReady, s), d)
           else and_then (for_instances (sdma_resume_step dev) sdma_instances s d)
             (\<lambda>s d. and_then (for_instances (sdma_test_step dev) sdma_instances s d)
               (\<lambda>s d. Some ((kIOReturnSuccess, s), fold (sdma_log_status dev) sdma_instances d)))))"

end
