(* ===== verification/Memory_Test.thy ===== *)
theory Memory_Test
  imports Sdma Aql Gart
begin

text \<open>
  \<^verbatim>\<open>dext/amdgpu/amdgpu_memory_test.h\<close> and \<^verbatim>\<open>amdgpu_memory_test.cpp\<close>: the copy test between a bound host buffer
  and VRAM, in both directions and by both ways the CPU has to reach the host buffer. The buffers the CPU
  maps are reached by loads and stores of \<open>sharedmem\<close>; the operations of a DMA command are the parameter
  \<open>dma_io\<close>. Fences of the CPU have no effect in the model.
\<close>

section \<open>State\<close>

record 'd dma_io =
  perform_write :: "u64 \<Rightarrow> u64 \<Rightarrow> u64 \<Rightarrow> u64 \<Rightarrow> 'd \<Rightarrow> kern_return \<times> 'd" \<comment> \<open>command, offset, length, source buffer\<close>
  perform_zero :: "u64 \<Rightarrow> u64 \<Rightarrow> u64 \<Rightarrow> 'd \<Rightarrow> kern_return \<times> 'd" \<comment> \<open>command, offset, length\<close>
  perform_read :: "u64 \<Rightarrow> u64 \<Rightarrow> u64 \<Rightarrow> u64 \<Rightarrow> 'd \<Rightarrow> kern_return \<times> 'd" \<comment> \<open>command, offset, length, destination buffer\<close>

definition kTransferBytes :: u32 where "kTransferBytes = 16384"

definition memory_test_word :: "u32 \<Rightarrow> u32 \<Rightarrow> u32" where
  "memory_test_word index seed = index * 0x9E3779B9 XOR seed XOR 0xA53CC35A"

record MemoryTransferTest =
  mt_active :: bool
  mt_host :: GARTBinding
  mt_vram :: VRAMAllocation
  mt_staging :: "u64 option"

definition transfer_test_zero :: MemoryTransferTest where
  "transfer_test_zero = \<lparr>mt_active = False, mt_host = no_binding, mt_vram = allocation_zero, mt_staging = None\<rparr>"

record MemoryTransferResult =
  mr_stage :: u32
  mr_mismatches :: u32
  mr_firstMismatch :: u32
  mr_hostGPUAddress :: u64
  mr_vramGPUAddress :: u64

definition transfer_result_zero :: MemoryTransferResult where
  "transfer_result_zero = \<lparr>mr_stage = 0, mr_mismatches = 0, mr_firstMismatch = 0xFFFFFFFF, mr_hostGPUAddress = 0,
     mr_vramGPUAddress = 0\<rparr>"

text \<open>The contexts the test changes.\<close>

record transfer_state =
  tr_gmc :: GMCContext
  tr_gart :: GARTContext
  tr_sdma :: SDMAInstance
  tr_stats :: "Counters option"
  tr_test :: MemoryTransferTest
  tr_result :: MemoryTransferResult

definition tr_set_stage :: "u32 \<Rightarrow> transfer_state \<Rightarrow> transfer_state" where
  "tr_set_stage n s = s\<lparr>tr_result := (tr_result s)\<lparr>mr_stage := n\<rparr>\<rparr>"

definition memory_transfer_release_after_reset :: "'d os \<Rightarrow> MemoryTransferTest \<Rightarrow> 'd \<Rightarrow> MemoryTransferTest \<times> 'd" where
  "memory_transfer_release_after_reset os t d =
     (let (_, d) = gart_release_after_reset os (mt_host t) d
      in (transfer_test_zero, case mt_staging t of None \<Rightarrow> d | Some b \<Rightarrow> buf_release os b d))"

section \<open>Patterns\<close>

definition transfer_words :: "u32 list" where
  "transfer_words = map word_of_nat [0..<unat kTransferBytes div 4]"

text \<open>Stores to consecutive dwords of host memory.\<close>

definition put_pattern :: "'d sharedmem \<Rightarrow> u64 \<Rightarrow> (u32 \<Rightarrow> u32) \<Rightarrow> 'd \<Rightarrow> 'd" where
  "put_pattern hm base f d = fold (\<lambda>i d. st32 hm (base + ucast i * 4) (f i) d) transfer_words d"

text \<open>
  Dwords of host memory or of VRAM against a pattern: how many differ, and the byte offset of the first. The
  load of dword \<open>i\<close> is \<open>load i\<close>.
\<close>

definition compare_pattern ::
  "(u32 \<Rightarrow> 'd \<Rightarrow> u32 \<times> 'd) \<Rightarrow> (u32 \<Rightarrow> u32) \<Rightarrow> u32 \<times> u32 \<Rightarrow> 'd \<Rightarrow> (u32 \<times> u32) \<times> 'd"
where
  "compare_pattern load f found d =
     fold (\<lambda>i (found, d). let (observed, d) = load i d
             in (if observed \<noteq> f i then (fst found + 1, if fst found = 0 then i * 4 else snd found) else found, d))
       transfer_words (found, d)"

text \<open>The comparison of a stage: it fails on any difference.\<close>

definition transfer_check ::
  "(u32 \<Rightarrow> 'd \<Rightarrow> u32 \<times> 'd) \<Rightarrow> u32 \<Rightarrow> transfer_state \<Rightarrow> 'd \<Rightarrow> (transfer_state, 'd) outcome"
where
  "transfer_check load seed s d =
     (let res = tr_result s;
          ((n, first), d) = compare_pattern load (\<lambda>i. memory_test_word i seed) (mr_mismatches res, mr_firstMismatch res) d
      in Some ((if n \<noteq> 0 then kIOReturnIOError else kIOReturnSuccess,
                s\<lparr>tr_result := res\<lparr>mr_mismatches := n, mr_firstMismatch := first\<rparr>\<rparr>), d))"

definition load_vram :: "'d DeviceContext \<Rightarrow> u64 \<Rightarrow> u32 \<Rightarrow> 'd \<Rightarrow> u32 \<times> 'd" where
  "load_vram dev off i d = rd32 dev (bar0MemIndex dev) (off + ucast (i * 4)) d"

definition load_host :: "'d sharedmem \<Rightarrow> u64 \<Rightarrow> u32 \<Rightarrow> 'd \<Rightarrow> u32 \<times> 'd" where
  "load_host hm base i d = ld32 hm (base + ucast i * 4) d"

text \<open>What the upload to VRAM reads from the staging buffer.\<close>

primrec load_words :: "'d sharedmem \<Rightarrow> u64 \<Rightarrow> u32 list \<Rightarrow> 'd \<Rightarrow> u32 list \<times> 'd" where
  "load_words hm base [] d = ([], d)"
| "load_words hm base (i # is) d =
     (let (v, d) = load_host hm base i d; (vs, d) = load_words hm base is d in (v # vs, d))"

text \<open>A call that only returns a status, and one that keeps the engine and the counters.\<close>

definition status_only :: "(kern_return \<times> 'd) \<Rightarrow> transfer_state \<Rightarrow> (transfer_state, 'd) outcome" where
  "status_only rd s = Some ((fst rd, s), snd rd)"

definition transfer_copy ::
  "'d DeviceContext \<Rightarrow> u32 \<Rightarrow> u64 \<Rightarrow> u64 \<Rightarrow> transfer_state \<Rightarrow> 'd \<Rightarrow> (transfer_state, 'd) outcome"
where
  "transfer_copy dev stage src dst s d =
     (let s = tr_set_stage stage s; d = amdgpu_hdp_flush dev d
      in map_option (\<lambda>((r, inst, cs), d). ((r, s\<lparr>tr_sdma := inst, tr_stats := cs\<rparr>), d))
           (sdma_copy_linear_test dev src dst kTransferBytes 100000 (tr_sdma s, tr_stats s) d))"

section \<open>The test\<close>

text \<open>The host buffer, the block of VRAM and the staging buffer; the result is the CPU address of the last.\<close>

definition transfer_staging ::
  "'d os \<Rightarrow> transfer_state \<Rightarrow> 'd \<Rightarrow> (kern_return \<times> u64 \<times> transfer_state) \<times> 'd"
where
  "transfer_staging os s d =
     (let ((r, staging), d) = buf_create os (ucast kTransferBytes) kASPageSize d;
          s = s\<lparr>tr_test := (tr_test s)\<lparr>mt_staging := staging\<rparr>\<rparr>
      in case staging of
           None \<Rightarrow> ((or_else r kIOReturnNoMemory, 0, s), d)
         | Some b \<Rightarrow>
             if r \<noteq> kIOReturnSuccess then ((r, 0, s), d)
             else let (r, d) = buf_set_length os b (ucast kTransferBytes) d
             in if r \<noteq> kIOReturnSuccess then ((r, 0, s), d)
             else let ((r, cpu, len), d) = buf_address os b d
             in if r \<noteq> kIOReturnSuccess \<or> cpu = 0 \<or> len < ucast kTransferBytes
             then ((or_else r kIOReturnNoMemory, 0, s), d)
             else ((kIOReturnSuccess, cpu, s), d))"

definition transfer_allocate ::
  "'d DeviceContext \<Rightarrow> 'd os \<Rightarrow> transfer_state \<Rightarrow> 'd \<Rightarrow> (u64 \<times> transfer_state, 'd) outcome"
where
  "transfer_allocate dev os s d =
     (case gart_bind_sysmem dev os (tr_gart s) (tr_gmc s) (ucast (2 * kTransferBytes)) kASPageSize (mt_host (tr_test s)) d of
        None \<Rightarrow> None
      | Some ((r, gmc, b), d) \<Rightarrow>
          let s = s\<lparr>tr_gmc := gmc, tr_test := (tr_test s)\<lparr>mt_host := b\<rparr>\<rparr>
          in if r \<noteq> kIOReturnSuccess then Some ((r, 0, s), d)
          else let s = s\<lparr>tr_result := (tr_result s)\<lparr>mr_hostGPUAddress := gartMCAddr b\<rparr>\<rparr>
          in (case alloc (vram_alloc (tr_gmc s)) (ucast kTransferBytes) kASPageSize of
                None \<Rightarrow> None
              | Some (None, va) \<Rightarrow> Some ((kIOReturnNoMemory, 0, s\<lparr>tr_gmc := (tr_gmc s)\<lparr>vram_alloc := va\<rparr>\<rparr>), d)
              | Some (Some a, va) \<Rightarrow>
                  Some (transfer_staging os (s\<lparr>tr_gmc := (tr_gmc s)\<lparr>vram_alloc := va\<rparr>, tr_test := (tr_test s)\<lparr>mt_vram := a\<rparr>,
                          tr_result := (tr_result s)\<lparr>mr_vramGPUAddress := gpu_va a\<rparr>\<rparr>) d)))"

text \<open>The three buffers of a test, once they are there.\<close>

definition tr_offset :: "transfer_state \<Rightarrow> u64" where
  "tr_offset s = gpu_va (mt_vram (tr_test s)) - vram_start (tr_gmc s)"

definition tr_command :: "transfer_state \<Rightarrow> u64" where
  "tr_command s = (case dmaCommand (mt_host (tr_test s)) of None \<Rightarrow> 0 | Some c \<Rightarrow> c)"

definition tr_staging :: "transfer_state \<Rightarrow> u64" where
  "tr_staging s = (case mt_staging (tr_test s) of None \<Rightarrow> 0 | Some b \<Rightarrow> b)"

definition tr_host_va :: "transfer_state \<Rightarrow> u64" where "tr_host_va s = gartMCAddr (mt_host (tr_test s))"
definition tr_vram_va :: "transfer_state \<Rightarrow> u64" where "tr_vram_va s = gpu_va (mt_vram (tr_test s))"

text \<open>The two legs by the operations of the DMA command.\<close>

definition transfer_leg_out ::
  "'d DeviceContext \<Rightarrow> 'd sharedmem \<Rightarrow> 'd dma_io \<Rightarrow> u64 \<Rightarrow> u32 \<Rightarrow> transfer_state \<Rightarrow> 'd \<Rightarrow> (transfer_state, 'd) outcome"
where
  "transfer_leg_out dev hm io cpu seed s d =
     (let bytes = ucast kTransferBytes :: u64; d = put_pattern hm cpu (\<lambda>i. memory_test_word i seed) d
      in and_then (status_only (perform_write io (tr_command s) 0 bytes (tr_staging s) d) (tr_set_stage 2 s)) (\<lambda>s d.
         and_then (status_only (perform_zero io (tr_command s) bytes bytes d) s) (\<lambda>s d.
         and_then (status_only (vram_clear_verified dev (tr_offset s) bytes d) s) (\<lambda>s d.
         and_then (transfer_copy dev 3 (tr_host_va s) (tr_vram_va s) s d) (\<lambda>s d.
         transfer_check (load_vram dev (tr_offset s)) seed (tr_set_stage 4 s) d)))))"

definition transfer_leg_back ::
  "'d DeviceContext \<Rightarrow> 'd os \<Rightarrow> 'd sharedmem \<Rightarrow> 'd dma_io \<Rightarrow> u64 \<Rightarrow> u32 \<Rightarrow> transfer_state \<Rightarrow> 'd \<Rightarrow>
     (transfer_state, 'd) outcome"
where
  "transfer_leg_back dev os hm io cpu seed s d =
     (let bytes = ucast kTransferBytes :: u64; d = put_pattern hm cpu (\<lambda>i. memory_test_word i seed) d;
          (ws, d) = load_words hm cpu transfer_words d
      in and_then (status_only (vram_write_verified dev (tr_offset s) (Some (dw_bytes ws)) bytes d) s) (\<lambda>s d.
         and_then (transfer_copy dev 5 (tr_vram_va s) (tr_host_va s + bytes) s d) (\<lambda>s d.
         let s = tr_set_stage 6 s; d = cpu_zero os cpu bytes d
         in and_then (status_only (perform_read io (tr_command s) bytes bytes (tr_staging s) d) s) (\<lambda>s d.
            transfer_check (load_host hm cpu) seed s d))))"

text \<open>The two legs by the CPU mapping of the host buffer.\<close>

definition direct_leg_out ::
  "'d DeviceContext \<Rightarrow> 'd sharedmem \<Rightarrow> u64 \<Rightarrow> u32 \<Rightarrow> transfer_state \<Rightarrow> 'd \<Rightarrow> (transfer_state, 'd) outcome"
where
  "direct_leg_out dev hm direct seed s d =
     (let s = tr_set_stage 9 s; d = put_pattern hm direct (\<lambda>i. memory_test_word i seed) d
      in and_then (status_only (vram_clear_verified dev (tr_offset s) (ucast kTransferBytes) d) s) (\<lambda>s d.
         and_then (transfer_copy dev 9 (tr_host_va s) (tr_vram_va s) s d) (\<lambda>s d.
         transfer_check (load_vram dev (tr_offset s)) seed (tr_set_stage 10 s) d)))"

definition direct_fill :: "'d sharedmem \<Rightarrow> u64 \<Rightarrow> u64 \<Rightarrow> u32 \<Rightarrow> 'd \<Rightarrow> 'd" where
  "direct_fill hm cpu direct seed d =
     fold (\<lambda>i d. st32 hm (direct + ucast kTransferBytes + ucast i * 4) (NOT (memory_test_word i seed))
                   (st32 hm (cpu + ucast i * 4) (memory_test_word i seed) d)) transfer_words d"

definition direct_leg_back ::
  "'d DeviceContext \<Rightarrow> 'd sharedmem \<Rightarrow> u64 \<Rightarrow> u64 \<Rightarrow> u32 \<Rightarrow> transfer_state \<Rightarrow> 'd \<Rightarrow> (transfer_state, 'd) outcome"
where
  "direct_leg_back dev hm cpu direct seed s d =
     (let bytes = ucast kTransferBytes :: u64; d = direct_fill hm cpu direct seed d;
          (ws, d) = load_words hm cpu transfer_words d
      in and_then (status_only (vram_write_verified dev (tr_offset s) (Some (dw_bytes ws)) bytes d) s) (\<lambda>s d.
         and_then (transfer_copy dev 11 (tr_vram_va s) (tr_host_va s + bytes) s d) (\<lambda>s d.
         transfer_check (load_host hm (direct + bytes)) seed (tr_set_stage 12 s) d)))"

text \<open>Only a test that passed gives its buffers back and lets the driver rely on reads of host memory.\<close>

definition transfer_release ::
  "'d DeviceContext \<Rightarrow> 'd os \<Rightarrow> transfer_state \<Rightarrow> 'd \<Rightarrow> (transfer_state, 'd) outcome"
where
  "transfer_release dev os s d =
     (let s = tr_set_stage 7 s
      in case gart_unbind dev os (tr_gart s) (tr_gmc s) (mt_host (tr_test s)) d of
           None \<Rightarrow> None
         | Some ((r, gmc, b), d) \<Rightarrow>
             let s = s\<lparr>tr_gmc := gmc, tr_test := (tr_test s)\<lparr>mt_host := b\<rparr>\<rparr>
             in if r \<noteq> kIOReturnSuccess then Some ((r, s), d)
             else let d = (case mt_staging (tr_test s) of None \<Rightarrow> d | Some x \<Rightarrow> buf_release os x d)
             in map_option (\<lambda>va. ((kIOReturnSuccess, tr_set_stage 8 (s\<lparr>tr_gmc := gmc\<lparr>vram_alloc := va\<rparr>,
                     tr_test := transfer_test_zero, tr_gart := (tr_gart s)\<lparr>reads_supported := True\<rparr>\<rparr>)), d))
                  (free (vram_alloc gmc) (mt_vram (tr_test s))))"

definition memory_transfer_test ::
  "'d DeviceContext \<Rightarrow> 'd os \<Rightarrow> 'd sharedmem \<Rightarrow> 'd dma_io \<Rightarrow> u32 \<Rightarrow> transfer_state \<Rightarrow> 'd \<Rightarrow> (transfer_state, 'd) outcome"
where
  "memory_transfer_test dev os hm io seed s d =
     (let s = s\<lparr>tr_result := transfer_result_zero\<rparr>
      in if mt_active (tr_test s) then Some ((kIOReturnBusy, s), d)
      else if \<not> gart_enabled (tr_gart s) \<or> \<not> sd_inited (tr_sdma s) \<or> \<not> sd_enabled (tr_sdma s)
      then Some ((kIOReturnNotReady, s), d)
      else let s = tr_set_stage 1 (s\<lparr>tr_gart := (tr_gart s)\<lparr>reads_supported := False\<rparr>,
                                     tr_test := (tr_test s)\<lparr>mt_active := True\<rparr>\<rparr>)
      in (case transfer_allocate dev os s d of
            None \<Rightarrow> None
          | Some ((r, cpu, s), d) \<Rightarrow>
              let seed2 = seed XOR 0x5A96E1C3; seed3 = seed2 XOR 0xC36A5987; seed4 = seed3 XOR 0x1E79AC63;
                  direct = cpuAddr (mt_host (tr_test s))
              in if r \<noteq> kIOReturnSuccess then Some ((r, s), d)
              else and_then (transfer_leg_out dev hm io cpu seed s d) (\<lambda>s d.
                   and_then (transfer_leg_back dev os hm io cpu seed2 s d) (\<lambda>s d.
                   if direct = 0 then Some ((kIOReturnNotReady, s), d)
                   else and_then (direct_leg_out dev hm direct seed3 s d) (\<lambda>s d.
                        and_then (direct_leg_back dev hm cpu direct seed4 s d) (\<lambda>s d.
                        transfer_release dev os s d))))))"

end
