(* ===== verification/Clock.thy ===== *)
theory Clock
  imports Device
begin

text \<open>
  \<^verbatim>\<open>dext/amdgpu/amdgpu_clock.h\<close> and \<^verbatim>\<open>amdgpu_clock.cpp\<close>: the frequency of the timestamp counter, read from the
  tables of the video BIOS one dword at a time. \<open>None\<close> as a result is \<^verbatim>\<open>return false\<close>, which leaves the
  frequency zero. The callback \<^verbatim>\<open>ReadDword\<close> gets the value of its output argument, since it may leave it alone.
\<close>

section \<open>Diagnostics\<close>

datatype TimestampClockStage =
    Stage_IPVersion | Stage_RegisterBase | Stage_ROMOffset | Stage_ROMIndex | Stage_ROMHeader
  | Stage_VendorSignature | Stage_ATOMHeader | Stage_MasterTable | Stage_GFXTable | Stage_GFXVersion
  | Stage_ReferenceClock | Stage_Complete

record TimestampClockDiagnostics =
  cd_stage :: TimestampClockStage
  cd_romOffset :: u32
  cd_readOffset :: u32
  cd_readValue :: u32
  cd_atomOffset :: u32
  cd_masterOffset :: u32
  cd_gfxOffset :: u32
  cd_gfxVersion :: u32

definition clock_diag_zero :: TimestampClockDiagnostics where
  "clock_diag_zero = \<lparr>cd_stage = Stage_IPVersion, cd_romOffset = 0, cd_readOffset = 0, cd_readValue = 0,
     cd_atomOffset = 0, cd_masterOffset = 0, cd_gfxOffset = 0, cd_gfxVersion = 0\<rparr>"

definition kNBIFROMOffsetControl :: u32 where "kNBIFROMOffsetControl = 0xCC23"
definition kNBIFROMOffsetBase :: int where "kNBIFROMOffsetBase = 5"
definition kNBIFROMOffsetMask :: u32 where "kNBIFROMOffsetMask = 0x7F"
definition kROMIndex :: u32 where "kROMIndex = 0xE4"
definition kROMData :: u32 where "kROMData = 0xE5"
definition kATOMHeaderPointer :: u32 where "kATOMHeaderPointer = 0x48"
definition kATOMMasterDataPointer :: u32 where "kATOMMasterDataPointer = 0x20"
definition kATOMGFXInfoPointer :: u32 where "kATOMGFXInfoPointer = 4 + 14 * 2"
definition kATOMGoldenTSCReference :: u32 where "kATOMGoldenTSCReference = 40"

section \<open>The reader\<close>

type_synonym 'd read_dword = "u32 \<Rightarrow> u32 \<Rightarrow> 'd \<Rightarrow> (bool \<times> u32) \<times> 'd"

record ROMReader =
  rom_limit :: u32
  rom_cachedOffset :: u32
  rom_cachedValue :: u32
  rom_diag :: TimestampClockDiagnostics

definition rom_reader :: "TimestampClockDiagnostics \<Rightarrow> ROMReader" where
  "rom_reader diag = \<lparr>rom_limit = 4, rom_cachedOffset = 0xFFFFFFFF, rom_cachedValue = 0, rom_diag = diag\<rparr>"

text \<open>The dword with a byte is in the cache, or the callback failed.\<close>

definition rom_fetch :: "'d read_dword \<Rightarrow> u32 \<Rightarrow> ROMReader \<Rightarrow> 'd \<Rightarrow> (bool \<times> ROMReader) \<times> 'd" where
  "rom_fetch read aligned st d =
     (if rom_cachedOffset st = aligned then ((True, st), d)
      else let ((ok, v), d) = read aligned (rom_cachedValue st) d;
               st = st\<lparr>rom_cachedValue := v, rom_diag := (rom_diag st)\<lparr>cd_readOffset := aligned, cd_readValue := v\<rparr>\<rparr>
        in ((ok, if ok then st\<lparr>rom_cachedOffset := aligned\<rparr> else st), d))"

primrec rom_bytes ::
  "'d read_dword \<Rightarrow> u32 \<Rightarrow> nat \<Rightarrow> nat \<Rightarrow> u32 \<Rightarrow> ROMReader \<Rightarrow> 'd \<Rightarrow> (u32 option \<times> ROMReader) \<times> 'd"
where
  "rom_bytes read offset 0 i out st d = ((Some out, st), d)"
| "rom_bytes read offset (Suc n) i out st d =
     (let at = offset + word_of_nat i;
          ((ok, st), d) = rom_fetch read (at AND NOT 3) st d
      in if \<not> ok then ((None, st), d)
      else rom_bytes read offset n (i + 1)
             (out OR push_bit (8 * i) (drop_bit (8 * unat (at AND 3)) (rom_cachedValue st) AND 255)) st d)"

definition rom_read :: "'d read_dword \<Rightarrow> u32 \<Rightarrow> u32 \<Rightarrow> ROMReader \<Rightarrow> 'd \<Rightarrow> (u32 option \<times> ROMReader) \<times> 'd" where
  "rom_read read offset count st d =
     (if count = 0 \<or> 4 < count \<or> rom_limit st < offset \<or> rom_limit st - offset < count then ((None, st), d)
      else rom_bytes read offset (unat count) 0 0 st d)"

text \<open>\<^verbatim>\<open>a && b\<close> for reads: what follows runs only when the read succeeded.\<close>

definition rom_then ::
  "(u32 option \<times> ROMReader) \<times> 'd \<Rightarrow> (u32 \<Rightarrow> ROMReader \<Rightarrow> 'd \<Rightarrow> ('a option \<times> ROMReader) \<times> 'd) \<Rightarrow> ('a option \<times> ROMReader) \<times> 'd"
where
  "rom_then m k = (case m of ((None, st), d) \<Rightarrow> ((None, st), d) | ((Some v, st), d) \<Rightarrow> k v st d)"

text \<open>The version of a table that is inside the ROM.\<close>

definition rom_table :: "'d read_dword \<Rightarrow> u32 \<Rightarrow> u32 \<Rightarrow> ROMReader \<Rightarrow> 'd \<Rightarrow> (u32 option \<times> ROMReader) \<times> 'd" where
  "rom_table read offset required st d =
     (if offset = 0 then ((None, st), d)
      else rom_then (rom_read read offset 2 st d) (\<lambda>sz st d.
        if sz < required \<or> rom_limit st < offset \<or> rom_limit st - offset < sz then ((None, st), d)
        else rom_read read (offset + 2) 2 st d))"

section \<open>The frequency\<close>

definition atom_vendor :: "u32 list" where
  "atom_vendor = [0x20, 0x37, 0x36, 0x31, 0x32, 0x39, 0x35, 0x35, 0x32, 0x30]"

primrec rom_match :: "'d read_dword \<Rightarrow> u32 \<Rightarrow> u32 list \<Rightarrow> ROMReader \<Rightarrow> 'd \<Rightarrow> (u32 option \<times> ROMReader) \<times> 'd" where
  "rom_match read offset [] st d = ((Some 0, st), d)"
| "rom_match read offset (c # cs) st d =
     rom_then (rom_read read offset 1 st d) (\<lambda>b st d.
       if b \<noteq> c then ((None, st), d) else rom_match read (offset + 1) cs st d)"

definition clock_stage :: "TimestampClockStage \<Rightarrow> ROMReader \<Rightarrow> ROMReader" where
  "clock_stage stage st = st\<lparr>rom_diag := (rom_diag st)\<lparr>cd_stage := stage\<rparr>\<rparr>"

text \<open>From the table of the graphics engine on.\<close>

definition atom_gfx_reference ::
  "'d read_dword \<Rightarrow> u32 \<Rightarrow> ROMReader \<Rightarrow> 'd \<Rightarrow> (u64 option \<times> ROMReader) \<times> 'd"
where
  "atom_gfx_reference read gfx st d =
     rom_then (rom_table read gfx (kATOMGoldenTSCReference + 4) st d) (\<lambda>version st d.
       let st = clock_stage Stage_GFXVersion (st\<lparr>rom_diag := (rom_diag st)\<lparr>cd_gfxVersion := version\<rparr>\<rparr>);
           major = version AND 255; minor = drop_bit 8 version
       in if major \<noteq> 3 \<and> \<not> (major = 2 \<and> minor = 6) then ((None, st), d)
       else rom_then (rom_read read (gfx + kATOMGoldenTSCReference) 4 (clock_stage Stage_ReferenceClock st) d)
         (\<lambda>reference st d.
            if reference = 0 \<or> reference = 0xFFFFFFFF then ((None, st), d)
            else ((Some (ucast reference * 10000), clock_stage Stage_Complete st), d)))"

text \<open>From the header of the ATOM tables on.\<close>

definition atom_tables ::
  "'d read_dword \<Rightarrow> ROMReader \<Rightarrow> 'd \<Rightarrow> (u64 option \<times> ROMReader) \<times> 'd"
where
  "atom_tables read st d =
     rom_then (rom_read read kATOMHeaderPointer 2 (clock_stage Stage_ATOMHeader st) d) (\<lambda>header st d.
       let st = st\<lparr>rom_diag := (rom_diag st)\<lparr>cd_atomOffset := header\<rparr>\<rparr>
       in rom_then (rom_table read header (kATOMMasterDataPointer + 2) st d) (\<lambda>_ st d.
          rom_then (rom_read read (header + 4) 4 st d) (\<lambda>signature st d.
            if signature \<noteq> 0x4D4F5441 \<and> signature \<noteq> 0x41544F4D then ((None, st), d)
            else rom_then (rom_read read (header + kATOMMasterDataPointer) 2 (clock_stage Stage_MasterTable st) d)
              (\<lambda>master st d.
                 let st = st\<lparr>rom_diag := (rom_diag st)\<lparr>cd_masterOffset := master\<rparr>\<rparr>
                 in rom_then (rom_table read master (kATOMGFXInfoPointer + 2) st d) (\<lambda>_ st d.
                    rom_then (rom_read read (master + kATOMGFXInfoPointer) 2 (clock_stage Stage_GFXTable st) d)
                      (\<lambda>gfx st d.
                         atom_gfx_reference read gfx (st\<lparr>rom_diag := (rom_diag st)\<lparr>cd_gfxOffset := gfx\<rparr>\<rparr>) d))))))"

definition atom_gfx_timestamp_frequency_hz ::
  "'d read_dword \<Rightarrow> TimestampClockDiagnostics \<Rightarrow> 'd \<Rightarrow> (u64 option \<times> TimestampClockDiagnostics) \<times> 'd"
where
  "atom_gfx_timestamp_frequency_hz read diag d =
     (let ((hz, st), d) =
        rom_then (rom_read read 0 2 (clock_stage Stage_ROMHeader (rom_reader diag)) d) (\<lambda>signature st d.
          if signature \<noteq> 0xAA55 then ((None, st), d)
          else rom_then (rom_read read 2 1 st d) (\<lambda>units st d.
            if units = 0 then ((None, st), d)
            else rom_then (rom_match read 0x30 atom_vendor
                   (clock_stage Stage_VendorSignature (st\<lparr>rom_limit := units * 512\<rparr>)) d) (\<lambda>_ st d.
              atom_tables read st d)))
      in ((hz, rom_diag st), d))"

section \<open>The device\<close>

text \<open>The lambda \<^verbatim>\<open>read\<close>.\<close>

definition rom_dword :: "'d DeviceContext \<Rightarrow> u32 \<Rightarrow> u32 \<Rightarrow> u32 \<Rightarrow> 'd read_dword" where
  "rom_dword dev romOffset index data offset old d =
     (if 0xFFFFFFFF - romOffset < offset then ((False, old), d)
      else let d = WREG32 dev index (romOffset + offset) d; (v, d) = RREG32 dev data d
        in ((v \<noteq> 0xFFFFFFFF, v), d))"

definition nbio_has_nbif :: "IPVersion \<Rightarrow> bool" where
  "nbio_has_nbif v \<longleftrightarrow> ip_major v = 6 \<and> ip_minor v = 3 \<and> ip_rev v = 1 \<or>
                       ip_major v = 7 \<and> ip_minor v = 11 \<and> ip_rev v = 4"

definition nbio_zero_offset :: "IPVersion \<Rightarrow> bool" where
  "nbio_zero_offset v \<longleftrightarrow> ip_major v = 7 \<and> ip_minor v = 11 \<and> ip_rev v \<le> 3"

text \<open>Where the ROM starts, or \<open>None\<close>.\<close>

definition clock_rom_offset ::
  "'d DeviceContext \<Rightarrow> TimestampClockDiagnostics \<Rightarrow> 'd \<Rightarrow> (bool \<times> TimestampClockDiagnostics) \<times> 'd"
where
  "clock_rom_offset dev diag d =
     (if \<not> nbio_has_nbif (ip_version (dev_ip dev) NBIO) then ((True, diag), d)
      else if \<not> ip_isResolvedIdx (dev_ip dev) NBIO kNBIFROMOffsetBase then ((False, diag), d)
      else let nbioBase = ip_getBase (dev_ip dev) NBIO kNBIFROMOffsetBase
      in if drop_bit 2 0xFFFFFFFF - kNBIFROMOffsetControl < nbioBase then ((False, diag), d)
      else let at = nbioBase + kNBIFROMOffsetControl; (v, d) = SMN_RREG32 dev at d;
               diag = diag\<lparr>cd_stage := Stage_ROMOffset, cd_readOffset := at, cd_readValue := v\<rparr>
      in if v = 0xFFFFFFFF then ((False, diag), d)
      else ((True, diag\<lparr>cd_romOffset := push_bit 17 (v AND kNBIFROMOffsetMask)\<rparr>), d))"

definition gfx1201_timestamp_frequency_hz ::
  "'d DeviceContext \<Rightarrow> 'd \<Rightarrow> (u64 option \<times> TimestampClockDiagnostics) \<times> 'd"
where
  "gfx1201_timestamp_frequency_hz dev d =
     (let nbio = ip_version (dev_ip dev) NBIO
      in if \<not> ip_isVersion (dev_ip dev) GC 12 0 1 \<or> \<not> ip_isVersion (dev_ip dev) SMUIO 14 0 2 \<or>
            \<not> nbio_has_nbif nbio \<and> \<not> nbio_zero_offset nbio
      then ((None, clock_diag_zero), d)
      else let diag = clock_diag_zero\<lparr>cd_stage := Stage_RegisterBase\<rparr>; base = ip_get (dev_ip dev) SMUIO
      in if \<not> ip_isResolved (dev_ip dev) SMUIO \<or> 0xFFFFFFFF - kROMData < base then ((None, diag), d)
      else let ((ok, diag), d) = clock_rom_offset dev diag d
      in if \<not> ok then ((None, diag), d)
      else let diag = diag\<lparr>cd_stage := Stage_ROMIndex\<rparr>; (previous, d) = RREG32 dev (base + kROMIndex) d
      in if previous = 0xFFFFFFFF then ((None, diag), d)
      else let (res, d) = atom_gfx_timestamp_frequency_hz
                  (rom_dword dev (cd_romOffset diag) (base + kROMIndex) (base + kROMData)) diag d
        in (res, WREG32 dev (base + kROMIndex) previous d))"

end
