(* ===== verification/Pci_Config.thy ===== *)
theory Pci_Config
  imports Gmc_Init
begin

text \<open>
  What the driver reads and writes in PCI configuration space: \<^verbatim>\<open>dext/amdgpu/amdgpu_pci_rebar.h\<close>,
  \<^verbatim>\<open>amdgpu_atomic_requester.h\<close> and the snapshot of \<^verbatim>\<open>amdgpu_atomic_diagnostics.h\<close>.
\<close>

section \<open>Resizable BAR\<close>

record ReBARInfo =
  rb_capability :: u32
  rb_control :: u32
  rb_supportedSizes :: u32
  rb_selectedBytes :: u64

datatype ReBARResult = ReBAR_Found | ReBAR_NotFound | ReBAR_UnsupportedVersion | ReBAR_Malformed | ReBAR_ReadError

definition rebar_zero :: ReBARInfo where
  "rebar_zero = \<lparr>rb_capability = 0, rb_control = 0, rb_supportedSizes = 0, rb_selectedBytes = 0\<rparr>"

text \<open>The callback \<^verbatim>\<open>Read32\<close> fails with \<open>None\<close>; the two reads of a condition stop at the first failure.\<close>

type_synonym 'd config_read = "u64 \<Rightarrow> 'd \<Rightarrow> u32 option \<times> 'd"

definition config_pair :: "'d config_read \<Rightarrow> u64 \<Rightarrow> u64 \<Rightarrow> 'd \<Rightarrow> (u32 \<times> u32) option \<times> 'd" where
  "config_pair read a b d =
     (let (x, d) = read a d
      in case x of None \<Rightarrow> (None, d)
         | Some x \<Rightarrow> let (y, d) = read b d in (map_option (Pair x) y, d))"

text \<open>One entry: \<open>seen\<close> is a set of BAR numbers as bits.\<close>

definition rebar_entry_bad :: "u32 \<Rightarrow> u32 \<Rightarrow> u32 \<Rightarrow> bool" where
  "rebar_entry_bad seen cap control \<longleftrightarrow>
     (let index = control AND 7; sizes = drop_bit 4 cap; selected = drop_bit 8 control AND 0x1F
      in cap = 0xFFFFFFFF \<or> control = 0xFFFFFFFF \<or> 6 \<le> index \<or> seen AND push_bit (unat index) 1 \<noteq> 0 \<or>
         28 \<le> selected \<or> sizes AND push_bit (unat selected) 1 = 0)"

definition rebar_info :: "u32 \<Rightarrow> u32 \<Rightarrow> ReBARInfo" where
  "rebar_info cap control = \<lparr>rb_capability = cap, rb_control = control, rb_supportedSizes = drop_bit 4 cap,
     rb_selectedBytes = push_bit (20 + unat (drop_bit 8 control AND 0x1F)) 1\<rparr>"

primrec rebar_entries ::
  "'d config_read \<Rightarrow> u64 \<Rightarrow> u32 \<Rightarrow> u64 list \<Rightarrow> u32 \<Rightarrow> bool \<times> ReBARInfo \<Rightarrow> 'd \<Rightarrow> (ReBARResult \<times> ReBARInfo) \<times> 'd"
where
  "rebar_entries read offset bar [] seen found d =
     ((if fst found then ReBAR_Found else ReBAR_NotFound, snd found), d)"
| "rebar_entries read offset bar (i # is) seen found d =
     (let (p, d) = config_pair read (offset + 4 + i * 8) (offset + 8 + i * 8) d
      in case p of
           None \<Rightarrow> ((ReBAR_ReadError, snd found), d)
         | Some (cap, control) \<Rightarrow>
             if rebar_entry_bad seen cap control then ((ReBAR_Malformed, snd found), d)
             else rebar_entries read offset bar is (seen OR push_bit (unat (control AND 7)) 1)
                    (if control AND 7 = bar then (True, rebar_info cap control) else found) d)"

definition read_rebar :: "u64 \<Rightarrow> u32 \<Rightarrow> 'd config_read \<Rightarrow> 'd \<Rightarrow> (ReBARResult \<times> ReBARInfo) \<times> 'd" where
  "read_rebar offset bar read d =
     (if 6 \<le> bar \<or> offset < 0x100 \<or> 0xFF4 < offset \<or> offset AND 3 \<noteq> 0 then ((ReBAR_Malformed, rebar_zero), d)
      else let (p, d) = config_pair read offset (offset + 8) d
      in case p of
           None \<Rightarrow> ((ReBAR_ReadError, rebar_zero), d)
         | Some (header, firstControl) \<Rightarrow>
             if header = 0xFFFFFFFF \<or> header AND 0xFFFF \<noteq> 0x15 then ((ReBAR_Malformed, rebar_zero), d)
             else if drop_bit 16 header AND 0xF \<noteq> 1 then ((ReBAR_UnsupportedVersion, rebar_zero), d)
             else let count = drop_bit 5 firstControl AND 7;
                      last_byte = offset + 4 + ucast (count * 8);
                      nxt = drop_bit 20 header
             in if count = 0 \<or> 6 < count \<or> 0x1000 < last_byte \<or>
                   nxt \<noteq> 0 \<and> (nxt AND 3 \<noteq> 0 \<or> nxt < 0x100 \<or> offset \<le> ucast nxt \<and> ucast nxt < last_byte)
             then ((ReBAR_Malformed, rebar_zero), d)
             else rebar_entries read offset bar (map word_of_nat [0..<unat count]) 0 (False, rebar_zero) d)"

section \<open>The atomic requester experiment\<close>

definition kAtomicRequesterBit :: u16 where "kAtomicRequesterBit = 0x40"

record RequesterSnapshot =
  rs_Version :: u64
  rs_Before :: u64
  rs_Requested :: u64
  rs_Observed :: u64
  rs_Original :: u64
  rs_Active :: u64
  rs_RestorePending :: u64
  rs_Status :: u64

definition requester_valid :: "RequesterSnapshot \<Rightarrow> bool" where
  "requester_valid s \<longleftrightarrow> \<not> (rs_Version s \<noteq> 1 \<or> 1 < rs_Active s \<or> 1 < rs_RestorePending s \<or> 0xFFFFFFFF < rs_Status s \<or>
       rs_RestorePending s \<noteq> 0 \<and> rs_Active s = 0) \<and>
     list_all (\<lambda>v. v \<le> 0xFFFF \<or> v = 0xFFFFFFFFFFFFFFFF) [rs_Before s, rs_Requested s, rs_Observed s, rs_Original s]"

text \<open>The owner is the client's address; \<open>None\<close> is the null pointer.\<close>

record Experiment =
  ex_owner :: "u64 option"
  ex_capability :: u64
  ex_original :: u16
  ex_pending :: bool
  ex_acquiredExclusive :: bool

definition experiment_zero :: Experiment where
  "experiment_zero = \<lparr>ex_owner = None, ex_capability = 0, ex_original = 0, ex_pending = False, ex_acquiredExclusive = False\<rparr>"

definition requester_snapshot :: "Experiment \<Rightarrow> RequesterSnapshot" where
  "requester_snapshot e = \<lparr>rs_Version = 1, rs_Before = 0xFFFFFFFFFFFFFFFF, rs_Requested = 0xFFFFFFFFFFFFFFFF,
     rs_Observed = 0xFFFFFFFFFFFFFFFF,
     rs_Original = (if ex_owner e \<noteq> None then ucast (ex_original e) else 0xFFFFFFFFFFFFFFFF),
     rs_Active = of_bool (ex_owner e \<noteq> None), rs_RestorePending = of_bool (ex_pending e), rs_Status = 0\<rparr>"

text \<open>Configuration space: a read that fails leaves all ones, as the callers initialise their variables.\<close>

record 'd config_space =
  cfg_read16 :: "u64 \<Rightarrow> 'd \<Rightarrow> u16 \<times> 'd"
  cfg_read32 :: "u64 \<Rightarrow> 'd \<Rightarrow> u32 \<times> 'd"
  cfg_write16 :: "u64 \<Rightarrow> u16 \<Rightarrow> 'd \<Rightarrow> 'd"
  cfg_find_capability :: "u32 \<Rightarrow> 'd \<Rightarrow> (bool \<times> u64) \<times> 'd" \<comment> \<open>whether the call succeeded, and what it stored\<close>

definition requester_locate :: "'d config_space \<Rightarrow> 'd \<Rightarrow> u64 option \<times> 'd" where
  "requester_locate cs d =
     (let (identity, d) = cfg_read32 cs 0 d
      in if identity \<noteq> 0x75511002 then (None, d)
      else let ((ok, cap), d) = cfg_find_capability cs 0x10 d
      in if \<not> ok \<or> cap < 0x40 \<or> 0xD4 < cap \<or> cap AND 3 \<noteq> 0 then (None, d)
      else let (header, d) = cfg_read16 cs cap d; (flags, d) = cfg_read16 cs (cap + 2) d; type = drop_bit 4 flags AND 15
      in if header AND 255 \<noteq> 0x10 \<or> flags = 0xFFFF then (None, d)
      else if flags AND 15 \<noteq> 2 then (None, d)
      else if type \<noteq> 0 \<and> type \<noteq> 1 then (None, d)
      else (Some cap, d))"

text \<open>Each operation returns whether it succeeded, what it reports, and the experiment.\<close>

definition requester_begin ::
  "'d config_space \<Rightarrow> u64 option \<Rightarrow> Experiment \<Rightarrow> 'd \<Rightarrow> (bool \<times> RequesterSnapshot \<times> Experiment) \<times> 'd"
where
  "requester_begin cs client e d =
     (let out = requester_snapshot e
      in if ex_owner e \<noteq> None \<or> client = None then ((False, out, e), d)
      else let (cap, d) = requester_locate cs d
      in case cap of
           None \<Rightarrow> ((False, out, e), d)
         | Some cap \<Rightarrow>
             let (before, d) = cfg_read16 cs (cap + 0x28) d
             in if before = 0xFFFF then ((False, out, e), d)
             else let e = e\<lparr>ex_owner := client, ex_capability := cap, ex_original := before, ex_pending := True\<rparr>;
                      requested = before OR kAtomicRequesterBit;
                      out = (requester_snapshot e)\<lparr>rs_Before := ucast before, rs_Requested := ucast requested\<rparr>;
                      d = cfg_write16 cs (cap + 0x28) requested d;
                      (observed, d) = cfg_read16 cs (cap + 0x28) d
               in ((observed = requested, out\<lparr>rs_Observed := ucast observed\<rparr>, e), d))"

definition requester_restore ::
  "'d config_space \<Rightarrow> Experiment \<Rightarrow> 'd \<Rightarrow> (bool \<times> RequesterSnapshot \<times> Experiment) \<times> 'd"
where
  "requester_restore cs e d =
     (let out = requester_snapshot e
      in if ex_owner e = None then ((False, out, e), d)
      else let (cap, d) = requester_locate cs d
      in case cap of
           None \<Rightarrow> ((False, out, e), d)
         | Some cap \<Rightarrow>
             if cap \<noteq> ex_capability e then ((False, out, e), d)
             else let (before, d) = cfg_read16 cs (cap + 0x28) d
             in if before = 0xFFFF then ((False, out, e), d)
             else let requested = before AND NOT kAtomicRequesterBit OR (ex_original e AND kAtomicRequesterBit);
                      e = e\<lparr>ex_pending := True\<rparr>;
                      d = cfg_write16 cs (cap + 0x28) requested d;
                      (observed, d) = cfg_read16 cs (cap + 0x28) d;
                      out = out\<lparr>rs_Before := ucast before, rs_Requested := ucast requested, rs_RestorePending := 1,
                                rs_Observed := ucast observed\<rparr>
               in if observed \<noteq> requested then ((False, out, e), d)
                  else ((True, out\<lparr>rs_RestorePending := 0\<rparr>, e\<lparr>ex_pending := False\<rparr>), d))"

definition requester_verify_after_reset :: "'d config_space \<Rightarrow> Experiment \<Rightarrow> 'd \<Rightarrow> (bool \<times> Experiment) \<times> 'd" where
  "requester_verify_after_reset cs e d =
     (if ex_owner e = None then ((True, e), d)
      else let (cap, d) = requester_locate cs d;
               (observed, d) = (if cap = Some (ex_capability e) then cfg_read16 cs (ex_capability e + 0x28) d else (0xFFFF, d));
               pending = (observed = 0xFFFF \<or> (observed XOR ex_original e) AND kAtomicRequesterBit \<noteq> 0)
        in ((\<not> pending, e\<lparr>ex_pending := pending\<rparr>), d))"

section \<open>The diagnostic snapshot\<close>

definition kDiagVersion :: u64 where "kDiagVersion = 1"
definition kPTEValid :: u64 where "kPTEValid = 1"
definition kMQDValid :: u64 where "kMQDValid = 2"
definition kPCIeValid :: u64 where "kPCIeValid = 4"
definition kGFXHUBValid :: u64 where "kGFXHUBValid = 8"
definition kKnownFields :: u64 where "kKnownFields = 15"
definition kUnknown :: u64 where "kUnknown = 0xFFFFFFFFFFFFFFFF"
definition kDMALimit :: u64 where "kDMALimit = push_bit 44 1"

record DiagSnapshot =
  dg_Version :: u64
  dg_ValidFields :: u64
  dg_GPUAddress :: u64
  dg_DMAAddress :: u64
  dg_PTEVRAMOffset :: u64
  dg_PTEActual :: u64
  dg_PTEExpected :: u64
  dg_MQDGPUAddress :: u64
  dg_MQDBackingHQStatus0 :: u64
  dg_PCIeCapabilityOffset :: u64
  dg_PCIeDeviceCapabilities2 :: u64
  dg_PCIeDeviceControl2 :: u64
  dg_GFXHUBPageTableBase :: u64
  dg_GFXHUBContext0Control :: u64
  dg_CPUMapOptions :: u64
  dg_CPUCacheAttributes :: u64

definition mapping_shape :: "u64 \<Rightarrow> u64 \<Rightarrow> u64 \<Rightarrow> u64 \<Rightarrow> u64 \<Rightarrow> u64 \<Rightarrow> u64 \<Rightarrow> bool" where
  "mapping_shape gpuBase dmaBase bytes gartOffset tableVRAMOffset tableBytes offset \<longleftrightarrow>
     \<not> (bytes = 0 \<or> bytes AND 4095 \<noteq> 0 \<or> gpuBase AND 4095 \<noteq> 0 \<or> dmaBase AND 4095 \<noteq> 0 \<or> gartOffset AND 4095 \<noteq> 0 \<or>
        tableVRAMOffset AND 7 \<noteq> 0 \<or> tableBytes AND 7 \<noteq> 0 \<or> offset AND 7 \<noteq> 0 \<or> bytes < offset \<or> bytes - offset < 8 \<or>
        kDMALimit \<le> dmaBase \<or> kDMALimit - dmaBase < bytes \<or> push_bit 47 1 \<le> gpuBase \<or> push_bit 47 1 - gpuBase < bytes \<or>
        0xFFFFFFFFFFFFFFFF - offset div 4096 < gartOffset div 4096)"

definition mapping_addresses ::
  "u64 \<Rightarrow> u64 \<Rightarrow> u64 \<Rightarrow> u64 \<Rightarrow> u64 \<Rightarrow> u64 \<Rightarrow> u64 \<Rightarrow> DiagSnapshot option"
where
  "mapping_addresses gpuBase dmaBase bytes gartOffset tableVRAMOffset tableBytes offset =
     (if \<not> mapping_shape gpuBase dmaBase bytes gartOffset tableVRAMOffset tableBytes offset then None
      else let page = gartOffset div 4096 + offset div 4096
      in if tableBytes div 8 \<le> page \<or> (0xFFFFFFFFFFFFFFFF - tableVRAMOffset) div 8 < page then None
      else Some \<lparr>dg_Version = kDiagVersion, dg_ValidFields = 0, dg_GPUAddress = gpuBase + offset,
             dg_DMAAddress = dmaBase + offset, dg_PTEVRAMOffset = tableVRAMOffset + page * 8, dg_PTEActual = 0,
             dg_PTEExpected = (dmaBase + offset) AND NOT 4095 OR SYSMEM_RW, dg_MQDGPUAddress = 0,
             dg_MQDBackingHQStatus0 = 0, dg_PCIeCapabilityOffset = kUnknown, dg_PCIeDeviceCapabilities2 = kUnknown,
             dg_PCIeDeviceControl2 = kUnknown, dg_GFXHUBPageTableBase = kUnknown, dg_GFXHUBContext0Control = kUnknown,
             dg_CPUMapOptions = 0, dg_CPUCacheAttributes = kUnknown\<rparr>)"

definition diag_core_bad :: "DiagSnapshot \<Rightarrow> u64 \<Rightarrow> bool" where
  "diag_core_bad s expectedGPU \<longleftrightarrow>
     dg_Version s \<noteq> kDiagVersion \<or> dg_ValidFields s AND NOT kKnownFields \<noteq> 0 \<or>
     dg_ValidFields s AND (kPTEValid OR kMQDValid) \<noteq> kPTEValid OR kMQDValid \<or>
     dg_GPUAddress s \<noteq> expectedGPU \<or> expectedGPU AND 7 \<noteq> 0 \<or> push_bit 47 1 \<le> expectedGPU \<or>
     kDMALimit \<le> dg_DMAAddress s \<or> dg_DMAAddress s AND 4095 \<noteq> expectedGPU AND 4095 \<or>
     dg_PTEVRAMOffset s AND 7 \<noteq> 0 \<or> dg_PTEExpected s \<noteq> (dg_DMAAddress s AND NOT 4095 OR SYSMEM_RW) \<or>
     dg_MQDGPUAddress s = 0 \<or> dg_MQDGPUAddress s AND 16383 \<noteq> 0 \<or> push_bit 48 1 \<le> dg_MQDGPUAddress s \<or>
     0xFFFFFFFF < dg_MQDBackingHQStatus0 s \<or> dg_CPUMapOptions s \<noteq> 0 \<or> dg_CPUCacheAttributes s \<noteq> kUnknown"

definition diag_snapshot_valid :: "DiagSnapshot \<Rightarrow> u64 \<Rightarrow> bool" where
  "diag_snapshot_valid s expectedGPU \<longleftrightarrow> \<not> diag_core_bad s expectedGPU \<and>
     (if dg_ValidFields s AND kPCIeValid \<noteq> 0
      then \<not> (dg_PCIeCapabilityOffset s < 0x40 \<or> 0xD4 < dg_PCIeCapabilityOffset s \<or>
              dg_PCIeCapabilityOffset s AND 3 \<noteq> 0 \<or> 0xFFFFFFFF < dg_PCIeDeviceCapabilities2 s \<or>
              0xFFFF < dg_PCIeDeviceControl2 s)
      else dg_PCIeCapabilityOffset s = kUnknown \<and> dg_PCIeDeviceCapabilities2 s = kUnknown \<and>
           dg_PCIeDeviceControl2 s = kUnknown) \<and>
     (if dg_ValidFields s AND kGFXHUBValid \<noteq> 0 then dg_GFXHUBContext0Control s \<le> 0xFFFFFFFF
      else dg_GFXHUBPageTableBase s = kUnknown \<and> dg_GFXHUBContext0Control s = kUnknown)"

end
