(* ===== verification/Smu.thy ===== *)
theory Smu
  imports Device
begin

text \<open>
  \<^verbatim>\<open>dext/amdgpu/amdgpu_smu.h\<close> and the mailbox of \<^verbatim>\<open>smu_v14_0.cpp\<close>. The only field of the device the mailbox
  changes is \<open>smuMessagePending\<close>, which is mutable in the source: every operation returns the device. A message
  that is not answered keeps the mailbox, and \<open>None\<close> as an outcome is a wait that never returns.
\<close>

section \<open>Registers and messages\<close>

definition MP1_C2PMSG_66 :: u32 where "MP1_C2PMSG_66 = 0x82"
definition MP1_C2PMSG_82 :: u32 where "MP1_C2PMSG_82 = 0x92"
definition MP1_C2PMSG_90 :: u32 where "MP1_C2PMSG_90 = 0x9A"

definition PPSMC_TestMessage :: u32 where "PPSMC_TestMessage = 0x01"
definition PPSMC_GetSmuVersion :: u32 where "PPSMC_GetSmuVersion = 0x02"
definition PPSMC_GetDriverIfVersion :: u32 where "PPSMC_GetDriverIfVersion = 0x03"
definition PPSMC_SetAllowedFeaturesMaskLow :: u32 where "PPSMC_SetAllowedFeaturesMaskLow = 0x04"
definition PPSMC_SetAllowedFeaturesMaskHigh :: u32 where "PPSMC_SetAllowedFeaturesMaskHigh = 0x05"
definition PPSMC_EnableAllSmuFeatures :: u32 where "PPSMC_EnableAllSmuFeatures = 0x06"
definition PPSMC_GetRunningSmuFeaturesLow :: u32 where "PPSMC_GetRunningSmuFeaturesLow = 0x0C"
definition PPSMC_GetRunningSmuFeaturesHigh :: u32 where "PPSMC_GetRunningSmuFeaturesHigh = 0x0D"
definition PPSMC_SetDriverDramAddrHigh :: u32 where "PPSMC_SetDriverDramAddrHigh = 0x0E"
definition PPSMC_SetDriverDramAddrLow :: u32 where "PPSMC_SetDriverDramAddrLow = 0x0F"
definition PPSMC_UseDefaultPPTable :: u32 where "PPSMC_UseDefaultPPTable = 0x14"
definition PPSMC_NotifyPowerSource :: u32 where "PPSMC_NotifyPowerSource = 0x35"
definition PPSMC_RunDcBtc :: u32 where "PPSMC_RunDcBtc = 0x36"

definition PPSMCTable_SetDriverDramAddrHigh :: u32 where "PPSMCTable_SetDriverDramAddrHigh = 0x0E"
definition PPSMCTable_SetDriverDramAddrLow :: u32 where "PPSMCTable_SetDriverDramAddrLow = 0x0F"
definition PPSMCTable_SetToolsDramAddrHigh :: u32 where "PPSMCTable_SetToolsDramAddrHigh = 0x10"
definition PPSMCTable_SetToolsDramAddrLow :: u32 where "PPSMCTable_SetToolsDramAddrLow = 0x11"
definition PPSMCTable_TransferTableSmu2Dram :: u32 where "PPSMCTable_TransferTableSmu2Dram = 0x12"
definition PPSMCTable_TransferTableDram2Smu :: u32 where "PPSMCTable_TransferTableDram2Smu = 0x13"

definition SMUResp_OK :: u32 where "SMUResp_OK = 0x01"
definition SMUResp_Failed :: u32 where "SMUResp_Failed = 0xFF"
definition SMUResp_UnknownCmd :: u32 where "SMUResp_UnknownCmd = 0xFE"
definition SMUResp_CmdRejectedPrereq :: u32 where "SMUResp_CmdRejectedPrereq = 0xFD"
definition SMUResp_CmdRejectedBusy :: u32 where "SMUResp_CmdRejectedBusy = 0xFC"

definition kSMUBudgetUs :: u64 where "kSMUBudgetUs = 2 * 1000000"

definition mp1_reg :: "'d DeviceContext \<Rightarrow> u32 \<Rightarrow> u32" where
  "mp1_reg dev r = SOC15_REG_OFFSET_BIDX dev MP1 1 r"

section \<open>The mailbox\<close>

text \<open>The answer, and whether there was one.\<close>

partial_function (option) smu_wait_loop :: "'d DeviceContext \<Rightarrow> u64 \<Rightarrow> 'd \<Rightarrow> ((bool \<times> u32) \<times> 'd) option" where
  "smu_wait_loop dev start d =
     (let (cur, d) = RREG32 dev (mp1_reg dev MP1_C2PMSG_90) d
      in if cur = 0xFFFFFFFF then Some ((False, cur), d)
      else if cur \<noteq> 0 then Some ((True, cur), d)
      else let (now, d) = now_ns dev d
        in if kSMUBudgetUs \<le> (now - start) div 1000 then Some ((False, cur), d)
           else smu_wait_loop dev start (sleep_ms dev 1 d))"

declare smu_wait_loop.simps [code]

definition smu_wait_for_response :: "'d DeviceContext \<Rightarrow> 'd \<Rightarrow> ((bool \<times> u32) \<times> 'd) option" where
  "smu_wait_for_response dev d =
     (if \<not> ip_isResolvedIdx (dev_ip dev) MP1 1 then Some ((False, 0), d)
      else let (start, d) = now_ns dev d in smu_wait_loop dev start d)"

definition smu_no_answer :: "u32 \<Rightarrow> kern_return" where
  "smu_no_answer v = (if v = 0xFFFFFFFF then kIOReturnNotAttached else kIOReturnTimeout)"

definition smu_decode :: "u32 \<Rightarrow> kern_return" where
  "smu_decode resp =
     (if resp = SMUResp_OK then kIOReturnSuccess
      else if resp = SMUResp_Failed then kIOReturnError
      else if resp = SMUResp_UnknownCmd then kIOReturnUnsupported
      else if resp = SMUResp_CmdRejectedPrereq then kIOReturnNotReady
      else if resp = SMUResp_CmdRejectedBusy then kIOReturnBusy
      else kIOReturnInternalError)"

definition pending_message :: "bool \<Rightarrow> 'd DeviceContext \<Rightarrow> 'd DeviceContext" where
  "pending_message p dev = dev\<lparr>smuMessagePending := p\<rparr>"

text \<open>The mailbox is free: the message is written and answered. The reply is read only after an OK, and is
  otherwise left at the value \<open>old\<close> of the caller's variable. \<open>read\<close> is whether the caller wants it at all.\<close>

definition smu_exchange ::
  "bool \<Rightarrow> 'd DeviceContext \<Rightarrow> u32 \<Rightarrow> u32 \<Rightarrow> u32 \<Rightarrow> 'd \<Rightarrow> (u32 \<times> 'd DeviceContext, 'd) outcome"
where
  "smu_exchange read dev msgId param old d =
     (let dev = pending_message True dev;
          d = WREG32 dev (mp1_reg dev MP1_C2PMSG_90) 0 d;
          d = WREG32 dev (mp1_reg dev MP1_C2PMSG_82) param d;
          d = WREG32 dev (mp1_reg dev MP1_C2PMSG_66) msgId d
      in case smu_wait_for_response dev d of
           None \<Rightarrow> None
         | Some ((ok, resp), d) \<Rightarrow>
             if \<not> ok then Some ((smu_no_answer resp, old, dev), d)
             else let dev = pending_message False dev
             in if resp \<noteq> SMUResp_OK then Some ((smu_decode resp, old, dev), d)
             else if \<not> read then Some ((kIOReturnSuccess, old, dev), d)
             else let (v, d) = RREG32 dev (mp1_reg dev MP1_C2PMSG_82) d in Some ((kIOReturnSuccess, v, dev), d))"

definition smu_send_msg_with_param ::
  "bool \<Rightarrow> 'd DeviceContext \<Rightarrow> u32 \<Rightarrow> u32 \<Rightarrow> u32 \<Rightarrow> 'd \<Rightarrow> (u32 \<times> 'd DeviceContext, 'd) outcome"
where
  "smu_send_msg_with_param read dev msgId param old d =
     (if \<not> ip_isResolvedIdx (dev_ip dev) MP1 1 then Some ((kIOReturnNotReady, old, dev), d)
      else if \<not> smuMessagePending dev then smu_exchange read dev msgId param old d
      else (case smu_wait_for_response dev d of
          None \<Rightarrow> None
        | Some ((ok, previous), d) \<Rightarrow>
            if \<not> ok then Some ((smu_no_answer previous, old, dev), d) else smu_exchange read dev msgId param old d))"

text \<open>A message whose reply nobody reads.\<close>

definition smu_post :: "u32 \<Rightarrow> u32 \<Rightarrow> 'd DeviceContext \<Rightarrow> 'd \<Rightarrow> ('d DeviceContext, 'd) outcome" where
  "smu_post msgId param dev d =
     map_option (\<lambda>((r, _, dev), d). ((r, dev), d)) (smu_send_msg_with_param False dev msgId param 0 d)"

definition smu_send_msg :: "'d DeviceContext \<Rightarrow> u32 \<Rightarrow> 'd \<Rightarrow> ('d DeviceContext, 'd) outcome" where
  "smu_send_msg dev msgId d = smu_post msgId 0 dev d"

definition smu_test_message :: "'d DeviceContext \<Rightarrow> 'd \<Rightarrow> (u32 \<times> 'd DeviceContext, 'd) outcome" where
  "smu_test_message dev d =
     map_option (\<lambda>((r, echoed, dev), d).
         ((if r \<noteq> kIOReturnSuccess then r else if echoed \<noteq> 0xABCD0001 + 1 then kIOReturnInternalError
           else kIOReturnSuccess, echoed, dev), d))
       (smu_send_msg_with_param True dev PPSMC_TestMessage 0xABCD0001 0 d)"

definition smu_set_driver_dram_addr :: "u64 \<Rightarrow> 'd DeviceContext \<Rightarrow> 'd \<Rightarrow> ('d DeviceContext, 'd) outcome" where
  "smu_set_driver_dram_addr bus_addr dev d =
     and_then (smu_post PPSMCTable_SetDriverDramAddrHigh (ucast (drop_bit 32 bus_addr)) dev d)
       (smu_post PPSMCTable_SetDriverDramAddrLow (ucast (bus_addr AND 0xFFFFFFFF)))"

definition smu_set_tools_dram_addr :: "u64 \<Rightarrow> 'd DeviceContext \<Rightarrow> 'd \<Rightarrow> ('d DeviceContext, 'd) outcome" where
  "smu_set_tools_dram_addr bus_addr dev d =
     and_then (smu_post PPSMCTable_SetToolsDramAddrHigh (ucast (drop_bit 32 bus_addr)) dev d)
       (smu_post PPSMCTable_SetToolsDramAddrLow (ucast (bus_addr AND 0xFFFFFFFF)))"

definition smu_transfer_table_dram_to_smu :: "u32 \<Rightarrow> 'd DeviceContext \<Rightarrow> 'd \<Rightarrow> ('d DeviceContext, 'd) outcome" where
  "smu_transfer_table_dram_to_smu table_id = smu_post PPSMCTable_TransferTableDram2Smu table_id"

definition smu_transfer_table_smu_to_dram :: "u32 \<Rightarrow> 'd DeviceContext \<Rightarrow> 'd \<Rightarrow> ('d DeviceContext, 'd) outcome" where
  "smu_transfer_table_smu_to_dram table_id = smu_post PPSMCTable_TransferTableSmu2Dram table_id"

definition smu_get_version :: "'d DeviceContext \<Rightarrow> 'd \<Rightarrow> (u32 \<times> 'd DeviceContext, 'd) outcome" where
  "smu_get_version dev d = smu_send_msg_with_param True dev PPSMC_GetSmuVersion 0 0 d"

end
