(* ===== verification/Metrics.thy ===== *)
theory Metrics
  imports Smu Vram_IO
begin

text \<open>
  \<^verbatim>\<open>dext/amdgpu/amdgpu_metrics.h\<close>, \<^verbatim>\<open>amdgpu_metrics_state.h\<close>, \<^verbatim>\<open>amdgpu_metrics_collection.inc\<close> and
  \<^verbatim>\<open>smu_smc_hw_setup\<close> of \<^verbatim>\<open>smu_v14_0.cpp\<close>: the decoding of the firmware's table of measurements, its collection
  through the mailbox and the cached snapshot that observers read. The status word of a snapshot is the
  result it stands for.
\<close>

section \<open>Decoding\<close>

definition kMetricsDriverInterface :: u32 where "kMetricsDriverInterface = 0x2E"
definition kCompatibleInterface :: u32 where "kCompatibleInterface = 0x33"
definition kCompatibleFirmware :: u32 where "kCompatibleFirmware = 0x00684C00"
definition kFirmwareTable :: u32 where "kFirmwareTable = 5"
definition kTableBytes :: nat where "kTableBytes = 412"

definition linux_compatible :: "u32 \<Rightarrow> u32 \<Rightarrow> bool" where
  "linux_compatible interface firmware \<longleftrightarrow> interface = kCompatibleInterface \<and> firmware = kCompatibleFirmware"

definition verified_interface :: "u32 \<Rightarrow> bool" where
  "verified_interface version \<longleftrightarrow> version = kMetricsDriverInterface"

text \<open>The places of \<^verbatim>\<open>enum Field\<close>.\<close>

definition GfxActivityPercent :: nat where "GfxActivityPercent = 0"
definition UmcActivityPercent :: nat where "UmcActivityPercent = 1"
definition MediaActivityPercent :: nat where "MediaActivityPercent = 2"
definition GfxClockMHz :: nat where "GfxClockMHz = 3"
definition MemoryClockMHz :: nat where "MemoryClockMHz = 4"
definition SocClockMHz :: nat where "SocClockMHz = 5"
definition FabricClockMHz :: nat where "FabricClockMHz = 6"
definition SocketPowerMilliwatts :: nat where "SocketPowerMilliwatts = 7"
definition BoardPowerMilliwatts :: nat where "BoardPowerMilliwatts = 8"
definition EdgeTemperatureMillicelsius :: nat where "EdgeTemperatureMillicelsius = 9"
definition HotspotTemperatureMillicelsius :: nat where "HotspotTemperatureMillicelsius = 10"
definition MemoryTemperatureMillicelsius :: nat where "MemoryTemperatureMillicelsius = 11"
definition FanRPM :: nat where "FanRPM = 12"
definition FanPWMPercent :: nat where "FanPWMPercent = 13"
definition GfxVoltageMillivolts :: nat where "GfxVoltageMillivolts = 14"
definition SocVoltageMillivolts :: nat where "SocVoltageMillivolts = 15"
definition kMetricsCount :: nat where "kMetricsCount = 16"

record Sample =
  sp_valid :: u64
  sp_firmwareCounter :: u32
  sp_value :: "nat \<Rightarrow> u64"

definition sample_zero :: Sample where
  "sample_zero = \<lparr>sp_valid = 0, sp_firmwareCounter = 0, sp_value = (\<lambda>_. 0)\<rparr>"

definition sample_has :: "Sample \<Rightarrow> nat \<Rightarrow> bool" where
  "sample_has s field \<longleftrightarrow> sp_valid s AND push_bit field 1 \<noteq> 0"

definition sample_set :: "nat \<Rightarrow> u32 \<Rightarrow> u32 \<Rightarrow> u32 \<Rightarrow> Sample \<Rightarrow> Sample" where
  "sample_set field raw maximum scale s =
     (if maximum < raw then s
      else s\<lparr>sp_value := (sp_value s)(field := ucast raw * ucast scale), sp_valid := sp_valid s OR push_bit field 1\<rparr>)"

definition table16 :: "u8 list \<Rightarrow> nat \<Rightarrow> u32" where "table16 p i = ucast (le16 p i)"
definition table32 :: "u8 list \<Rightarrow> nat \<Rightarrow> u32" where "table32 p i = le32 p i"

text \<open>The activities, and the clocks that depend on them.\<close>

definition sample_activity :: "u8 list \<Rightarrow> Sample \<Rightarrow> Sample" where
  "sample_activity p s =
     (let gfx = table16 p 124; umc = table16 p 126; media0 = table16 p 128; media1 = table16 p 130;
          s = sample_set GfxActivityPercent gfx 100 1 s;
          s = sample_set UmcActivityPercent umc 100 1 s;
          s = (if media0 \<le> 100 \<and> media1 \<le> 100
               then sample_set MediaActivityPercent (if media1 < media0 then media0 else media1) 100 1 s else s);
          s = (if sample_has s GfxActivityPercent
               then sample_set GfxClockMHz (table16 p (if gfx \<le> 5 then 48 else 46)) 0xFFFE 1 s else s)
      in if sample_has s UmcActivityPercent
         then sample_set FabricClockMHz (table16 p (if umc \<le> 5 then 52 else 50)) 0xFFFE 1
                (sample_set MemoryClockMHz (table16 p (if umc \<le> 5 then 56 else 54)) 0xFFFE 1 s)
         else s)"

definition sample_sensors :: "u8 list \<Rightarrow> (nat \<times> u32 \<times> u32 \<times> u32) list" where
  "sample_sensors p =
     [(SocClockMHz, table32 p 4, 0xFFFE, 1), (SocketPowerMilliwatts, table16 p 136, 0xFFFE, 1000),
      (BoardPowerMilliwatts, table16 p 138, 0xFFFE, 1000), (EdgeTemperatureMillicelsius, table16 p 140, 0xFFFE, 1000),
      (HotspotTemperatureMillicelsius, table16 p 142, 0xFFFE, 1000),
      (MemoryTemperatureMillicelsius, table16 p 148, 0xFFFE, 1000), (FanRPM, table16 p 170, 0xFFFE, 1),
      (FanPWMPercent, ucast (byte_at p 168), 100, 1), (GfxVoltageMillivolts, table16 p 108, 0xFFFE, 1),
      (SocVoltageMillivolts, table16 p 110, 0xFFFE, 1)]"

text \<open>What the compatible profile takes for plausible.\<close>

definition field_limit :: "nat \<Rightarrow> u64" where
  "field_limit i =
     (if GfxClockMHz \<le> i \<and> i \<le> FabricClockMHz then 10000
      else if i = SocketPowerMilliwatts \<or> i = BoardPowerMilliwatts then 2000000
      else if EdgeTemperatureMillicelsius \<le> i \<and> i \<le> MemoryTemperatureMillicelsius then 150000
      else if i = FanRPM then 30000
      else if i = GfxVoltageMillivolts \<or> i = SocVoltageMillivolts then 2500
      else 0xFFFFFFFFFFFFFFFF)"

definition sample_limit :: "nat \<Rightarrow> Sample \<Rightarrow> Sample" where
  "sample_limit i s =
     (if field_limit i < sp_value s i
      then s\<lparr>sp_valid := sp_valid s AND NOT (push_bit i 1), sp_value := (sp_value s)(i := 0)\<rparr> else s)"

definition sample_anchored :: "Sample \<Rightarrow> bool" where
  "sample_anchored s \<longleftrightarrow> sample_has s GfxActivityPercent \<and> sample_has s GfxClockMHz \<and>
     sample_has s EdgeTemperatureMillicelsius \<and> sample_has s SocketPowerMilliwatts"

text \<open>\<open>None\<close> is \<^verbatim>\<open>return false\<close>, which leaves an empty sample.\<close>

definition metrics_decode :: "u8 list option \<Rightarrow> u32 \<Rightarrow> u32 \<Rightarrow> u32 \<Rightarrow> u32 \<Rightarrow> u32 \<Rightarrow> Sample option" where
  "metrics_decode bytes smuMajor smuMinor smuRevision driverInterface firmwareVersion = (case bytes of
       None \<Rightarrow> None
     | Some p \<Rightarrow>
         if length p \<noteq> kTableBytes \<or> smuMajor \<noteq> 14 \<or> smuMinor \<noteq> 0 \<or> smuRevision \<noteq> 3 \<or>
            \<not> verified_interface driverInterface \<and> \<not> linux_compatible driverInterface firmwareVersion
         then None
         else if list_all (\<lambda>b. b = 0) p \<or> list_all (\<lambda>b. b = 0xFF) p then None
         else let s = fold (\<lambda>(f, raw, mx, sc). sample_set f raw mx sc) (sample_sensors p) (sample_activity p sample_zero)
         in if linux_compatible driverInterface firmwareVersion
         then let s = fold sample_limit [0..<kMetricsCount] s
           in if \<not> sample_anchored s then None else Some (s\<lparr>sp_firmwareCounter := table32 p 104\<rparr>)
         else Some (s\<lparr>sp_firmwareCounter := table32 p 104\<rparr>))"

section \<open>State\<close>

definition kSMUMetricsValid :: u32 where "kSMUMetricsValid = push_bit 0 1"
definition kSMUMetricsFaulted :: u32 where "kSMUMetricsFaulted = push_bit 1 1"
definition kSMUMetricsStale :: u32 where "kSMUMetricsStale = push_bit 2 1"
definition kSMUMetricsLinuxCompatible :: u32 where "kSMUMetricsLinuxCompatible = push_bit 3 1"
definition kSMUMetricsSnapshotVersion :: u32 where "kSMUMetricsSnapshotVersion = 1"
definition kSMUMetricsSnapshotBytes :: u32 where "kSMUMetricsSnapshotBytes = 192"
definition kSMUClockSnapshotBytes :: u32 where "kSMUClockSnapshotBytes = 96"
definition kSMUMetricsMinIntervalNs :: u64 where "kSMUMetricsMinIntervalNs = 1000000000"
definition kSMUMetricsStaleAfterNs :: u64 where "kSMUMetricsStaleAfterNs = 2500000000"

record SMUMetricsSnapshot =
  ms_version :: u32
  ms_size :: u32
  ms_status :: kern_return
  ms_flags :: u32
  ms_generation :: u64
  ms_sequence :: u64
  ms_collectedAtNs :: u64
  ms_attemptedAtNs :: u64
  ms_driverInterface :: u32
  ms_firmwareCounter :: u32
  ms_validFields :: u64
  ms_values :: "nat \<Rightarrow> u64"

record SMUClockSnapshot =
  ck_version :: u32
  ck_size :: u32
  ck_status :: kern_return
  ck_flags :: u32
  ck_generation :: u64
  ck_collectedAtNs :: u64
  ck_driverInterface :: u32
  ck_firmwareVersion :: u32
  ck_currentValid :: u32
  ck_limitsValid :: u32
  ck_currentMHz :: "nat \<Rightarrow> u32"
  ck_minimumMHz :: "nat \<Rightarrow> u32"
  ck_maximumACMHz :: "nat \<Rightarrow> u32"

record SMUMetricsContext =
  mx_rawProbe :: "u32 list"
  mx_tableMC :: u64
  mx_tableVRAMOffset :: u64
  mx_tableBytes :: u64
  mx_driverInterface :: u32
  mx_firmwareVersion :: u32
  mx_firmwareVersionRead :: bool
  mx_clockLimitsAttempted :: bool
  mx_clocks :: SMUClockSnapshot
  mx_reserved :: bool
  mx_vramBacked :: bool
  mx_addressProgrammed :: bool
  mx_setupComplete :: bool
  mx_collecting :: bool
  mx_faulted :: bool
  mx_snapshot :: SMUMetricsSnapshot

definition smu_metrics_profile_supported :: "SMUMetricsSnapshot \<Rightarrow> bool" where
  "smu_metrics_profile_supported s \<longleftrightarrow> verified_interface (ms_driverInterface s) \<or>
     ms_driverInterface s = kCompatibleInterface \<and> ms_flags s AND kSMUMetricsLinuxCompatible \<noteq> 0"

text \<open>\<open>None\<close> is \<^verbatim>\<open>return false\<close>, which changes nothing.\<close>

definition smu_metrics_reserve ::
  "SMUMetricsContext \<Rightarrow> u64 \<Rightarrow> u64 \<Rightarrow> u64 \<Rightarrow> u64 \<Rightarrow> u64 \<Rightarrow> bool \<Rightarrow> u64 \<Rightarrow> SMUMetricsContext option"
where
  "smu_metrics_reserve ctx arenaMC arenaVRAM arenaBytes slot bytes vramBacked generation =
     (if mx_reserved ctx \<or> bytes = 0 \<or> slot AND 4095 \<noteq> 0 \<or> bytes AND 4095 \<noteq> 0 \<or> arenaBytes < slot \<or>
         arenaBytes - slot < bytes \<or> 0xFFFFFFFFFFFFFFFF - arenaMC < slot \<or>
         0xFFFFFFFFFFFFFFFF - (arenaMC + slot) < bytes \<or> 0xFFFFFFFFFFFFFFFF - arenaVRAM < slot \<or>
         0xFFFFFFFFFFFFFFFF - (arenaVRAM + slot) < bytes
      then None
      else Some (ctx\<lparr>mx_tableMC := arenaMC + slot, mx_tableVRAMOffset := arenaVRAM + slot, mx_tableBytes := bytes,
             mx_reserved := True, mx_vramBacked := vramBacked,
             mx_snapshot := (mx_snapshot ctx)\<lparr>ms_version := kSMUMetricsSnapshotVersion,
               ms_size := kSMUMetricsSnapshotBytes, ms_generation := generation,
               ms_driverInterface := mx_driverInterface ctx\<rparr>\<rparr>))"

section \<open>Errors and snapshots\<close>

definition smu_metrics_error :: "kern_return \<Rightarrow> bool \<Rightarrow> SMUMetricsContext \<Rightarrow> SMUMetricsContext" where
  "smu_metrics_error status faulted ctx =
     (let f = (mx_faulted ctx \<or> faulted)
      in ctx\<lparr>mx_faulted := f, mx_snapshot := (mx_snapshot ctx)\<lparr>ms_version := kSMUMetricsSnapshotVersion,
           ms_size := kSMUMetricsSnapshotBytes, ms_driverInterface := mx_driverInterface ctx, ms_status := status,
           ms_flags := if f then kSMUMetricsFaulted else 0, ms_validFields := 0, ms_values := (\<lambda>_. 0)\<rparr>\<rparr>)"

definition smu_metrics_invalidate :: "kern_return \<Rightarrow> SMUMetricsContext \<Rightarrow> SMUMetricsContext" where
  "smu_metrics_invalidate status ctx = smu_metrics_error status False (ctx\<lparr>mx_setupComplete := False\<rparr>)"

definition smu_metrics_snapshot ::
  "'d DeviceContext \<Rightarrow> SMUMetricsContext \<Rightarrow> bool \<Rightarrow> 'd \<Rightarrow> SMUMetricsSnapshot \<times> 'd"
where
  "smu_metrics_snapshot dev ctx runtimeReady d =
     (let out = (mx_snapshot ctx)\<lparr>ms_version := kSMUMetricsSnapshotVersion, ms_size := kSMUMetricsSnapshotBytes,
                  ms_driverInterface := mx_driverInterface ctx\<rparr>;
          (now, d) = now_ns dev d; valid = (ms_flags out AND kSMUMetricsValid \<noteq> 0);
          stale = (valid \<and> (now < ms_collectedAtNs out \<or> kSMUMetricsStaleAfterNs < now - ms_collectedAtNs out))
      in (if \<not> runtimeReady \<or> \<not> mx_setupComplete ctx \<or> stale \<or> \<not> valid
          then out\<lparr>ms_flags := (ms_flags out AND NOT kSMUMetricsValid) OR (if stale then kSMUMetricsStale else 0),
                   ms_validFields := 0, ms_values := (\<lambda>_. 0),
                   ms_status := if ms_status out = kIOReturnSuccess then kIOReturnNotReady else ms_status out\<rparr>
          else out, d))"

definition smu_clock_snapshot ::
  "'d DeviceContext \<Rightarrow> SMUMetricsContext \<Rightarrow> bool \<Rightarrow> 'd \<Rightarrow> SMUClockSnapshot \<times> 'd"
where
  "smu_clock_snapshot dev ctx runtimeReady d =
     (let (metrics, d) = smu_metrics_snapshot dev ctx runtimeReady d;
          out = (mx_clocks ctx)\<lparr>ck_version := 1, ck_size := kSMUClockSnapshotBytes,
                  ck_generation := ms_generation (mx_snapshot ctx), ck_driverInterface := mx_driverInterface ctx,
                  ck_firmwareVersion := mx_firmwareVersion ctx, ck_flags := ms_flags metrics\<rparr>;
          out = (if ms_flags metrics AND kSMUMetricsValid = 0
                 then out\<lparr>ck_currentValid := 0, ck_currentMHz := (\<lambda>_. 0)\<rparr> else out)
      in (if \<not> runtimeReady \<or> \<not> mx_setupComplete ctx then out\<lparr>ck_limitsValid := 0\<rparr> else out, d))"

section \<open>Collection\<close>

type_synonym 'd metrics_state = "SMUMetricsContext \<times> 'd DeviceContext"

definition metrics_fail :: "kern_return \<Rightarrow> bool \<Rightarrow> 'd metrics_state \<Rightarrow> 'd \<Rightarrow> ('d metrics_state, 'd) outcome" where
  "metrics_fail status faulted s d =
     Some ((status, smu_metrics_error status faulted (fst s\<lparr>mx_collecting := False\<rparr>), snd s), d)"

text \<open>The refusals before the clock is read: the result and whether it faults the context.\<close>

definition collect_refused :: "'d metrics_state \<Rightarrow> bool \<Rightarrow> (kern_return \<times> bool) option" where
  "collect_refused s runtimeReady =
     (let (ctx, dev) = s
      in if \<not> runtimeReady \<or> \<not> mx_setupComplete ctx \<or> \<not> mx_reserved ctx \<or> \<not> mx_addressProgrammed ctx \<or>
            \<not> smuOnline dev \<or> \<not> gmcReady dev then Some (kIOReturnNotReady, False)
      else if pci dev = None then Some (kIOReturnNotAttached, True)
      else if \<not> mx_vramBacked ctx \<or> \<not> verified_interface (mx_driverInterface ctx) \<and>
              mx_driverInterface ctx \<noteq> kCompatibleInterface then Some (kIOReturnUnsupported, False)
      else if mx_tableBytes ctx < of_nat kTableBytes \<or> \<not> vram_io_range dev (mx_tableVRAMOffset ctx) (mx_tableBytes ctx)
      then Some (kIOReturnBadArgument, True)
      else if smuMessagePending dev then Some (kIOReturnTimeout, True) else None)"

text \<open>The dwords of the table, or \<open>None\<close> when the reads took too long.\<close>

primrec read_table :: "'d DeviceContext \<Rightarrow> u64 \<Rightarrow> u64 \<Rightarrow> nat list \<Rightarrow> u32 list \<Rightarrow> 'd \<Rightarrow> u32 list option \<times> 'd" where
  "read_table dev off start [] ws d = (Some ws, d)"
| "read_table dev off start (i # is) ws d =
     (let (w, d) = rd32 dev (bar0MemIndex dev) (off + of_nat (4 * i)) d; (now, d) = now_ns dev d
      in if 100000000 < now - start then (None, d) else read_table dev off start is (ws @ [w]) d)"

definition raw_probe :: "u8 list \<Rightarrow> u32 list" where
  "raw_probe raw = map (table32 raw) [0, 4, 8, 12] @ map (table16 raw) [46, 48, 50, 52, 54, 56] @
     [table32 raw 104, table16 raw 124, table16 raw 126, table32 raw 132] @
     map (table16 raw) [136, 138, 140, 142, 148] @ [ucast (byte_at raw 168), table16 raw 170]"

definition current_clocks :: "u8 list \<Rightarrow> SMUClockSnapshot \<Rightarrow> SMUClockSnapshot" where
  "current_clocks raw ck =
     fold (\<lambda>i ck. let v = table32 raw (4 * i)
             in ck\<lparr>ck_currentMHz := (ck_currentMHz ck)(i := if v \<le> 10000 then v else 0),
                   ck_currentValid := if v \<le> 10000 then ck_currentValid ck OR push_bit i 1 else ck_currentValid ck\<rparr>)
       [0..<4] (ck\<lparr>ck_currentValid := 0\<rparr>)"

text \<open>The range of one clock, and the loop; \<open>False\<close> is a message that was never answered.\<close>

definition clock_range :: "'d DeviceContext \<Rightarrow> nat \<Rightarrow> 'd \<Rightarrow> (u32 \<times> u32 \<times> 'd DeviceContext, 'd) outcome" where
  "clock_range dev i d =
     (case smu_send_msg_with_param True dev 0x1D (push_bit 16 (word_of_nat i)) 0 d of
        None \<Rightarrow> None
      | Some ((r, lo, dev), d) \<Rightarrow>
          if r \<noteq> kIOReturnSuccess then Some ((r, lo, 0, dev), d)
          else map_option (\<lambda>((r, hi, dev), d). ((r, lo, hi, dev), d))
                 (smu_send_msg_with_param True dev 0x1E (push_bit 16 (word_of_nat i)) 0 d))"

primrec clock_ranges ::
  "nat list \<Rightarrow> SMUClockSnapshot \<Rightarrow> 'd DeviceContext \<Rightarrow> 'd \<Rightarrow> ((bool \<times> SMUClockSnapshot \<times> 'd DeviceContext) \<times> 'd) option"
where
  "clock_ranges [] ck dev d = Some ((True, ck, dev), d)"
| "clock_ranges (i # is) ck dev d =
     (case clock_range dev i d of
        None \<Rightarrow> None
      | Some ((r, lo, hi, dev), d) \<Rightarrow>
          let ck = ck\<lparr>ck_status := r\<rparr>
          in if r = kIOReturnTimeout \<or> smuMessagePending dev then Some ((False, ck, dev), d)
          else if r \<noteq> kIOReturnSuccess then Some ((True, ck, dev), d)
          else clock_ranges is
                 (if lo \<noteq> 0 \<and> lo \<le> hi \<and> hi \<le> 10000
                  then ck\<lparr>ck_minimumMHz := (ck_minimumMHz ck)(i := lo), ck_maximumACMHz := (ck_maximumACMHz ck)(i := hi),
                          ck_limitsValid := ck_limitsValid ck OR push_bit i 1\<rparr> else ck) dev d)"

text \<open>The last part: everything was read, the snapshot is published.\<close>

definition collect_publish :: "Sample \<Rightarrow> SMUMetricsContext \<Rightarrow> 'd DeviceContext \<Rightarrow> 'd \<Rightarrow> ('d metrics_state, 'd) outcome" where
  "collect_publish sample ctx dev d =
     (let (t1, d) = now_ns dev d; (t2, d) = now_ns dev d; snap = mx_snapshot ctx
      in Some ((kIOReturnSuccess,
           ctx\<lparr>mx_collecting := False, mx_clocks := (mx_clocks ctx)\<lparr>ck_collectedAtNs := t1\<rparr>,
               mx_snapshot := snap\<lparr>ms_version := kSMUMetricsSnapshotVersion, ms_size := kSMUMetricsSnapshotBytes,
                 ms_status := kIOReturnSuccess,
                 ms_flags := kSMUMetricsValid OR
                   (if linux_compatible (mx_driverInterface ctx) (mx_firmwareVersion ctx)
                    then kSMUMetricsLinuxCompatible else 0),
                 ms_sequence := ms_sequence snap + 1, ms_collectedAtNs := t2,
                 ms_driverInterface := mx_driverInterface ctx, ms_firmwareCounter := sp_firmwareCounter sample,
                 ms_validFields := sp_valid sample, ms_values := sp_value sample\<rparr>\<rparr>, dev), d))"

text \<open>The transfer is acknowledged: the table is copied and decoded. The ranges of the clocks are asked for once.\<close>

definition collect_table :: "'d metrics_state \<Rightarrow> 'd \<Rightarrow> ('d metrics_state, 'd) outcome" where
  "collect_table s d =
     (let (ctx, dev) = s; (start, d) = now_ns dev d;
          (ws, d) = read_table dev (mx_tableVRAMOffset ctx) start [0..<kTableBytes div 4] [] d
      in case ws of
           None \<Rightarrow> metrics_fail kIOReturnTimeout True s d
         | Some ws \<Rightarrow>
             let raw = dw_bytes ws
             in (case metrics_decode (Some raw) 14 0 3 (mx_driverInterface ctx) (mx_firmwareVersion ctx) of
                   None \<Rightarrow> metrics_fail kIOReturnIOError True s d
                 | Some sample \<Rightarrow>
                     if sp_valid sample = 0 then metrics_fail kIOReturnIOError True s d
                     else let ctx = ctx\<lparr>mx_rawProbe := raw_probe raw, mx_clocks := current_clocks raw (mx_clocks ctx)\<rparr>
                     in if mx_clockLimitsAttempted ctx then collect_publish sample ctx dev d
                     else (case clock_ranges [0..<4] (mx_clocks ctx) dev d of
                         None \<Rightarrow> None
                       | Some ((ok, ck, dev), d) \<Rightarrow>
                           let ctx = ctx\<lparr>mx_clockLimitsAttempted := True, mx_clocks := ck\<rparr>
                           in if ok then collect_publish sample ctx dev d
                              else metrics_fail kIOReturnTimeout True (ctx, dev) d)))"

text \<open>The version of the firmware is read once; then the table is transferred.\<close>

definition collect_transfer :: "'d metrics_state \<Rightarrow> 'd \<Rightarrow> ('d metrics_state, 'd) outcome" where
  "collect_transfer s d =
     (let (ctx, dev) = s
      in if \<not> verified_interface (mx_driverInterface ctx) \<and>
            \<not> linux_compatible (mx_driverInterface ctx) (mx_firmwareVersion ctx)
      then metrics_fail kIOReturnUnsupported False s d
      else (case smu_transfer_table_smu_to_dram kFirmwareTable dev d of
          None \<Rightarrow> None
        | Some ((r, dev), d) \<Rightarrow>
            if r \<noteq> kIOReturnSuccess then metrics_fail r True (ctx, dev) d else collect_table (ctx, dev) d))"

definition collect_firmware :: "'d metrics_state \<Rightarrow> 'd \<Rightarrow> ('d metrics_state, 'd) outcome" where
  "collect_firmware s d =
     (let (ctx, dev) = s
      in if mx_firmwareVersionRead ctx then collect_transfer s d
      else (case smu_get_version dev d of
          None \<Rightarrow> None
        | Some ((r, version, dev), d) \<Rightarrow>
            if r \<noteq> kIOReturnSuccess then metrics_fail r True (ctx, dev) d
            else collect_transfer (ctx\<lparr>mx_firmwareVersion := version, mx_firmwareVersionRead := True\<rparr>, dev) d))"

definition smu_collect_metrics :: "'d metrics_state \<Rightarrow> bool \<Rightarrow> 'd \<Rightarrow> ('d metrics_state, 'd) outcome" where
  "smu_collect_metrics s runtimeReady d =
     (let (ctx, dev) = s; snap = mx_snapshot ctx
      in if mx_collecting ctx then Some ((kIOReturnBusy, s), d)
      else if mx_faulted ctx then Some ((ms_status snap, s), d)
      else (case collect_refused s runtimeReady of
          Some (r, faulted) \<Rightarrow> metrics_fail r faulted s d
        | None \<Rightarrow>
            let (start, d) = now_ns dev d
            in if ms_flags snap AND kSMUMetricsValid \<noteq> 0 \<and> ms_attemptedAtNs snap \<le> start \<and>
                  start - ms_attemptedAtNs snap < kSMUMetricsMinIntervalNs
            then Some ((kIOReturnSuccess, s), d)
            else collect_firmware (ctx\<lparr>mx_snapshot := snap\<lparr>ms_attemptedAtNs := start\<rparr>, mx_collecting := True\<rparr>, dev) d))"

section \<open>The handshake\<close>

text \<open>The part of \<^verbatim>\<open>PSPContext\<close> that describes the firmware arena.\<close>

record firmware_arena =
  fwBufSize :: u64
  fwBufBaseMC :: u64
  fwBufVRAMOffset :: u64
  fwBufBumpOffset :: u64
  fwBufSysmemBuffer :: "u64 option"

definition kDriverTableSize :: u64 where "kDriverTableSize = 0x10000"

text \<open>The slot of the driver table, reserved before its address is sent. \<open>ctx\<close> is \<^verbatim>\<open>metrics\<close>, which may be null.\<close>

definition setup_reserve ::
  "'d DeviceContext \<Rightarrow> firmware_arena \<Rightarrow> SMUMetricsContext option \<Rightarrow> 'd \<Rightarrow>
     (kern_return \<times> u64 \<times> firmware_arena \<times> SMUMetricsContext option) \<times> 'd"
where
  "setup_reserve dev psp ctx d =
     (let slot = fwBufBumpOffset psp; bytes = (kDriverTableSize + 0x1000 - 1) AND NOT (0x1000 - 1)
      in if fwBufSize psp = 0 then ((kIOReturnNotReady, 0, psp, ctx), d)
      else if fwBufSize psp < slot \<or> fwBufSize psp - slot < bytes \<or> 0xFFFFFFFFFFFFFFFF - fwBufBaseMC psp < slot \<or>
              0xFFFFFFFFFFFFFFFF - (fwBufBaseMC psp + slot) < bytes
      then ((kIOReturnNoSpace, 0, psp, ctx), d)
      else (case ctx of
          None \<Rightarrow> ((kIOReturnSuccess, fwBufBaseMC psp + slot, psp\<lparr>fwBufBumpOffset := slot + bytes\<rparr>, None), d)
        | Some c \<Rightarrow>
            let (now, d) = now_ns dev d
            in case smu_metrics_reserve c (fwBufBaseMC psp) (fwBufVRAMOffset psp) (fwBufSize psp) slot bytes
                      (fwBufSysmemBuffer psp = None) now of
                 None \<Rightarrow> ((kIOReturnNoSpace, 0, psp, Some c), d)
               | Some c \<Rightarrow> ((kIOReturnSuccess, fwBufBaseMC psp + slot, psp\<lparr>fwBufBumpOffset := slot + bytes\<rparr>, Some c), d)))"

text \<open>A message whose failure is only logged.\<close>

definition smu_try :: "u32 \<Rightarrow> u32 \<Rightarrow> 'd DeviceContext \<Rightarrow> 'd \<Rightarrow> ('d DeviceContext, 'd) outcome" where
  "smu_try msgId param dev d = map_option (\<lambda>((_, dev), d). ((kIOReturnSuccess, dev), d)) (smu_post msgId param dev d)"

text \<open>A message whose reply is read for the log.\<close>

definition smu_query :: "u32 \<Rightarrow> 'd DeviceContext \<Rightarrow> 'd \<Rightarrow> ('d DeviceContext, 'd) outcome" where
  "smu_query msgId dev d = map_option (\<lambda>((_, _, dev), d). ((kIOReturnSuccess, dev), d)) (smu_send_msg_with_param True dev msgId 0 0 d)"

text \<open>The messages after the address of the table is set.\<close>

definition smc_features :: "'d DeviceContext \<Rightarrow> 'd \<Rightarrow> ('d DeviceContext, 'd) outcome" where
  "smc_features dev d =
     and_then (smu_try PPSMC_UseDefaultPPTable 0 dev d) (\<lambda>dev d.
     and_then (smu_send_msg dev PPSMC_RunDcBtc d) (\<lambda>dev d.
     and_then (smu_try PPSMC_NotifyPowerSource 0 dev d) (\<lambda>dev d.
     and_then (smu_try PPSMC_SetAllowedFeaturesMaskLow 0xFFFFFFFF dev d) (\<lambda>dev d.
     and_then (smu_try PPSMC_SetAllowedFeaturesMaskHigh 0xFFFFFFFF dev d) (\<lambda>dev d.
     and_then (smu_send_msg dev PPSMC_EnableAllSmuFeatures d) (\<lambda>dev d.
     and_then (smu_query PPSMC_GetRunningSmuFeaturesLow dev d) (\<lambda>dev d.
     smu_query PPSMC_GetRunningSmuFeaturesHigh dev d)))))))"

definition smu_smc_hw_setup ::
  "'d DeviceContext \<times> firmware_arena \<times> SMUMetricsContext option \<Rightarrow> 'd \<Rightarrow>
     ('d DeviceContext \<times> firmware_arena \<times> SMUMetricsContext option, 'd) outcome"
where
  "smu_smc_hw_setup s d =
     (let (dev, psp, ctx) = s
      in if (case ctx of None \<Rightarrow> False | Some c \<Rightarrow> mx_reserved c) then Some ((kIOReturnBusy, s), d)
      else (case smu_send_msg_with_param True dev PPSMC_GetDriverIfVersion 0 0 d of
          None \<Rightarrow> None
        | Some ((r, if_ver, dev), d) \<Rightarrow>
            if r \<noteq> kIOReturnSuccess then Some ((r, dev, psp, ctx), d)
            else let ctx = map_option (\<lambda>c. c\<lparr>mx_driverInterface := if_ver\<rparr>) ctx;
                     ((r, mc, psp, ctx), d) = setup_reserve dev psp ctx d
            in if r \<noteq> kIOReturnSuccess then Some ((r, dev, psp, ctx), d)
            else (case and_then (smu_post PPSMC_SetDriverDramAddrHigh (ucast (drop_bit 32 mc)) dev d)
                       (smu_post PPSMC_SetDriverDramAddrLow (ucast (mc AND 0xFFFFFFFF))) of
                None \<Rightarrow> None
              | Some ((r, dev), d) \<Rightarrow>
                  if r \<noteq> kIOReturnSuccess then Some ((r, dev, psp, ctx), d)
                  else let ctx = map_option (\<lambda>c. c\<lparr>mx_addressProgrammed := True\<rparr>) ctx
                  in (case smc_features dev d of
                        None \<Rightarrow> None
                      | Some ((r, dev), d) \<Rightarrow>
                          if r \<noteq> kIOReturnSuccess then Some ((r, dev, psp, ctx), d)
                          else Some ((kIOReturnSuccess, dev, psp,
                                 map_option (\<lambda>c. c\<lparr>mx_setupComplete := \<not> smuMessagePending dev\<rparr>) ctx), d)))))"

end
