(* ===== verification/Rlc.thy ===== *)
theory Rlc
  imports Gmc_Init
begin

text \<open>
  \<^verbatim>\<open>dext/amdgpu/amdgpu_rlc.h\<close>, \<^verbatim>\<open>rlc_v12_0.cpp\<close>, \<^verbatim>\<open>amdgpu_imu.h\<close> and \<^verbatim>\<open>imu_v12_0.cpp\<close>: the run list controller, which
  reports the end of the firmware's own loading, and its clear state buffer; the image management unit has
  only a flag to check. A section or extent ends at a null pointer in the source: here the lists end.
  The registers that are only read for a log line are read here too. \<open>None\<close> as an outcome is a wait that
  never returns.
\<close>

section \<open>Registers and state\<close>

definition GCRegs_CP_STAT :: u32 where "GCRegs_CP_STAT = 0x0F40"
definition RLC_RLCS_BOOTLOAD_STATUS :: u32 where "RLC_RLCS_BOOTLOAD_STATUS = 0x4E7C"
definition RLC_CSIB_ADDR_LO :: u32 where "RLC_CSIB_ADDR_LO = 0x0987"
definition RLC_CSIB_ADDR_HI :: u32 where "RLC_CSIB_ADDR_HI = 0x0988"
definition RLC_CSIB_LENGTH :: u32 where "RLC_CSIB_LENGTH = 0x0989"
definition RLC_SRM_CNTL :: u32 where "RLC_SRM_CNTL = 0x4C80"
definition BOOTLOAD_COMPLETE_MASK :: u32 where "BOOTLOAD_COMPLETE_MASK = 0x80000000"
definition RLC_SRM_CNTL__SRM_ENABLE_MASK :: u32 where "RLC_SRM_CNTL__SRM_ENABLE_MASK = 0x00000001"
definition RLC_SRM_CNTL__AUTO_INCR_ADDR_MASK :: u32 where "RLC_SRM_CNTL__AUTO_INCR_ADDR_MASK = 0x00000002"
definition kRLCClearStateDefaultBytes :: u64 where "kRLCClearStateDefaultBytes = 16 * 1024"
definition kMaxCsbDwords :: u32 where "kMaxCsbDwords = 1024"

record CSExtentDef =
  ce_extent :: "u32 list"
  ce_reg_index :: u32
  ce_reg_count :: u32

record CSSectionDef =
  cse_section :: "CSExtentDef list"
  cse_id :: u32

definition kCSSection_CONTEXT :: u32 where "kCSSection_CONTEXT = 1"
definition kCSSection_NONE :: u32 where "kCSSection_NONE = 0"

record RLCContext =
  rlc_inited :: bool
  bootload_complete :: bool
  csb_populated :: bool
  csib_programmed :: bool
  srm_enabled :: bool
  rlc_microcode_loaded :: bool
  clear_state :: VRAMAllocation
  clear_state_dwords :: u32
  csb_vram_byte_offset :: u64

section \<open>The clear state buffer\<close>

definition cs_extent :: "u32 \<Rightarrow> u32 \<Rightarrow> CSExtentDef" where
  "cs_extent reg_index reg_count = \<lparr>ce_extent = replicate (unat reg_count) 0, ce_reg_index = reg_index, ce_reg_count = reg_count\<rparr>"

definition kGfx12_SECT_CONTEXT_defs :: "CSExtentDef list" where
  "kGfx12_SECT_CONTEXT_defs = [cs_extent 0xA03E 34, cs_extent 0xA0CC 2, cs_extent 0xA0D8 1, cs_extent 0xA0DB 6,
     cs_extent 0xA2E5 11, cs_extent 0xA3C0 8]"

definition kGfx12_cs_data :: "CSSectionDef list" where
  "kGfx12_cs_data = [\<lparr>cse_section = kGfx12_SECT_CONTEXT_defs, cse_id = kCSSection_CONTEXT\<rparr>]"

fun csb_size_sections :: "CSSectionDef list \<Rightarrow> u32 \<Rightarrow> u32" where
  "csb_size_sections [] n = n"
| "csb_size_sections (sect # rest) n =
     (if cse_id sect = kCSSection_CONTEXT
      then csb_size_sections rest (fold (\<lambda>ext k. k + (2 + ce_reg_count ext)) (cse_section sect) n)
      else 0)"

definition rlc_get_csb_size :: "CSSectionDef list \<Rightarrow> u32" where
  "rlc_get_csb_size cs_data = csb_size_sections cs_data 1"

definition csb_extent :: "CSExtentDef \<Rightarrow> u32 list" where
  "csb_extent ext = ce_reg_count ext # ce_reg_index ext # take (unat (ce_reg_count ext)) (ce_extent ext)"

text \<open>The dwords after the first, and the number of clusters, or \<open>None\<close> when a section is of another kind.\<close>

fun csb_sections :: "CSSectionDef list \<Rightarrow> u32 list \<times> u32 \<Rightarrow> u32 list \<times> u32 option" where
  "csb_sections [] (ws, n) = (ws, Some n)"
| "csb_sections (sect # rest) (ws, n) =
     (if cse_id sect = kCSSection_CONTEXT
      then csb_sections rest (ws @ concat (map csb_extent (cse_section sect)), n + word_of_nat (length (cse_section sect)))
      else (ws, None))"

text \<open>What is written over a buffer of zeros: an unknown section leaves the count of clusters zero.\<close>

definition rlc_get_csb_buffer :: "CSSectionDef list \<Rightarrow> u32 list" where
  "rlc_get_csb_buffer cs_data =
     (let (ws, n) = csb_sections cs_data ([], 0) in (case n of None \<Rightarrow> 0 | Some n \<Rightarrow> n) # ws)"

text \<open>The dwords that go to VRAM: the staging array beyond the buffer is zero.\<close>

definition csb_staging :: "u32 \<Rightarrow> u32 list" where
  "csb_staging dwords = take (unat dwords) (rlc_get_csb_buffer kGfx12_cs_data @ replicate (unat kMaxCsbDwords) 0)"

definition rlc_alloc_csb :: "GMCContext \<times> RLCContext \<Rightarrow> ((kern_return \<times> GMCContext \<times> RLCContext)) option" where
  "rlc_alloc_csb s =
     (let (gmc, rlc) = s
      in if rlc_inited rlc \<and> gpu_va (clear_state rlc) \<noteq> 0 then Some (kIOReturnSuccess, s)
      else if \<not> m_inited (vram_alloc gmc) then Some (kIOReturnNotReady, s)
      else let dwords = rlc_get_csb_size kGfx12_cs_data; rlc = rlc\<lparr>clear_state_dwords := dwords\<rparr>;
               needed = ucast dwords * 4 :: u64;
               bytes = (if needed < kRLCClearStateDefaultBytes then kRLCClearStateDefaultBytes
                        else (needed + kASPageSize - 1) AND NOT (kASPageSize - 1))
      in (case alloc (vram_alloc gmc) bytes kASPageSize of
            None \<Rightarrow> None
          | Some (None, va) \<Rightarrow> Some (kIOReturnNoMemory, gmc\<lparr>vram_alloc := va\<rparr>, rlc)
          | Some (Some a, va) \<Rightarrow>
              Some (kIOReturnSuccess, gmc\<lparr>vram_alloc := va\<rparr>,
                rlc\<lparr>clear_state := a, rlc_inited := True,
                    csb_vram_byte_offset := if vram_start gmc \<le> gpu_va a then gpu_va a - vram_start gmc else 0\<rparr>)))"

section \<open>Waiting for the autoload\<close>

definition kRLCBudgetUs :: u64 where "kRLCBudgetUs = 10 * 1000000"

definition gc_reg :: "'d DeviceContext \<Rightarrow> int \<Rightarrow> u32 \<Rightarrow> u32" where
  "gc_reg dev seg r = SOC15_REG_OFFSET_BIDX dev GC seg r"

partial_function (option) autoload_wait :: "'d DeviceContext \<Rightarrow> u64 \<Rightarrow> u64 \<Rightarrow> 'd \<Rightarrow> (kern_return \<times> 'd) option" where
  "autoload_wait dev start elapsed d =
     (if \<not> elapsed < kRLCBudgetUs then Some (kIOReturnTimeout, d)
      else let (cp_stat, d) = RREG32 dev (gc_reg dev 0 GCRegs_CP_STAT) d;
               (bs, d) = RREG32 dev (gc_reg dev 1 RLC_RLCS_BOOTLOAD_STATUS) d
        in if cp_stat = 0xFFFFFFFF \<or> bs = 0xFFFFFFFF then Some (kIOReturnNotAttached, d)
        else let (_, d) = now_ns dev d
        in if cp_stat = 0 \<and> bs AND BOOTLOAD_COMPLETE_MASK \<noteq> 0 then Some (kIOReturnSuccess, d)
        else let d = sleep_ms dev 1 d; (now, d) = now_ns dev d
          in autoload_wait dev start ((now - start) div 1000) d)"

declare autoload_wait.simps [code]

definition autoload_log :: "'d DeviceContext \<Rightarrow> 'd \<Rightarrow> 'd" where
  "autoload_log dev d = foldl (\<lambda>d r. snd (RREG32 dev r d)) d
     [gc_reg dev 0 GCRegs_CP_STAT, gc_reg dev 1 RLC_RLCS_BOOTLOAD_STATUS, gc_reg dev 0 0x0DA4, gc_reg dev 1 0x4C49,
      gc_reg dev 0 RLC_RLCS_BOOTLOAD_STATUS]"

definition rlc_wait_for_autoload_complete :: "'d DeviceContext \<Rightarrow> RLCContext \<Rightarrow> 'd \<Rightarrow> (RLCContext, 'd) outcome" where
  "rlc_wait_for_autoload_complete dev rlc d =
     (if \<not> ip_isResolvedIdx (dev_ip dev) GC 0 \<or> \<not> ip_isResolvedIdx (dev_ip dev) GC 1
      then Some ((kIOReturnNotReady, rlc), d)
      else let d = autoload_log dev d; (start, d) = now_ns dev d
        in map_option (\<lambda>(r, d). ((r, if r = kIOReturnSuccess then rlc\<lparr>bootload_complete := True\<rparr> else rlc), d))
             (autoload_wait dev start 0 d))"

section \<open>Set up\<close>

definition csb_program :: "'d DeviceContext \<Rightarrow> RLCContext \<Rightarrow> 'd \<Rightarrow> 'd" where
  "csb_program dev rlc d =
     WREG32 dev (gc_reg dev 1 RLC_CSIB_LENGTH) (clear_state_dwords rlc)
       (WREG32 dev (gc_reg dev 1 RLC_CSIB_ADDR_LO) (ucast (gpu_va (clear_state rlc) AND 0xFFFFFFFC))
          (WREG32 dev (gc_reg dev 1 RLC_CSIB_ADDR_HI) (ucast (drop_bit 32 (gpu_va (clear_state rlc)))) d))"

definition rlc_setup_csb_buffer :: "'d DeviceContext \<Rightarrow> RLCContext \<Rightarrow> 'd \<Rightarrow> (kern_return \<times> RLCContext) \<times> 'd" where
  "rlc_setup_csb_buffer dev rlc d =
     (if \<not> rlc_inited rlc \<or> gpu_va (clear_state rlc) = 0 then ((kIOReturnNotReady, rlc), d)
      else if \<not> ip_isResolved (dev_ip dev) GC then ((kIOReturnNotReady, rlc), d)
      else if \<not> csb_populated rlc \<and> kMaxCsbDwords < clear_state_dwords rlc then ((kIOReturnNoMemory, rlc), d)
      else let d = (if csb_populated rlc then d
                    else amdgpu_hdp_flush dev (bar0_memcpy_to_vram dev (csb_vram_byte_offset rlc)
                           (dw_bytes (csb_staging (clear_state_dwords rlc))) d))
        in ((kIOReturnSuccess, rlc\<lparr>csb_populated := True, csib_programmed := True\<rparr>), csb_program dev rlc d))"

definition rlc_enable_srm :: "'d DeviceContext \<Rightarrow> RLCContext \<Rightarrow> 'd \<Rightarrow> (kern_return \<times> RLCContext) \<times> 'd" where
  "rlc_enable_srm dev rlc d =
     (if \<not> ip_isResolved (dev_ip dev) GC then ((kIOReturnNotReady, rlc), d)
      else let (tmp, d) = RREG32 dev (gc_reg dev 1 RLC_SRM_CNTL) d
        in ((kIOReturnSuccess, rlc\<lparr>srm_enabled := True\<rparr>),
            WREG32 dev (gc_reg dev 1 RLC_SRM_CNTL)
              (tmp OR RLC_SRM_CNTL__AUTO_INCR_ADDR_MASK OR RLC_SRM_CNTL__SRM_ENABLE_MASK) d))"

definition rlc_init_full ::
  "'d DeviceContext \<Rightarrow> GMCContext \<times> RLCContext \<Rightarrow> 'd \<Rightarrow> (GMCContext \<times> RLCContext, 'd) outcome"
where
  "rlc_init_full dev s d =
     (let (gmc, rlc) = s
      in if \<not> rlc_microcode_loaded rlc then Some ((kIOReturnNotReady, s), d)
      else (case (if bootload_complete rlc then Some ((kIOReturnSuccess, rlc), d)
                  else rlc_wait_for_autoload_complete dev rlc d) of
          None \<Rightarrow> None
        | Some ((r, rlc), d) \<Rightarrow>
            if r \<noteq> kIOReturnSuccess then Some ((r, gmc, rlc), d)
            else (case rlc_alloc_csb (gmc, rlc) of
                None \<Rightarrow> None
              | Some (r, gmc, rlc) \<Rightarrow>
                  if r \<noteq> kIOReturnSuccess then Some ((r, gmc, rlc), d)
                  else let ((r, rlc), d) = rlc_setup_csb_buffer dev rlc d
                  in if r \<noteq> kIOReturnSuccess then Some ((r, gmc, rlc), d)
                  else let ((r, rlc), d) = rlc_enable_srm dev rlc d in Some ((r, gmc, rlc), d))))"

section \<open>The image management unit\<close>

record IMUContext =
  imu_inited :: bool
  imu_microcode_loaded :: bool
  imu_fw_version :: u32

definition imu_init_full :: "IMUContext \<Rightarrow> kern_return \<times> IMUContext" where
  "imu_init_full imu =
     (if \<not> imu_microcode_loaded imu then (kIOReturnNotReady, imu) else (kIOReturnSuccess, imu\<lparr>imu_inited := True\<rparr>))"

end
