(* ===== verification/Ucode.thy ===== *)
theory Ucode
  imports Discovery
begin

text \<open>
  \<^verbatim>\<open>dext/amdgpu/amdgpu_ucode_psp.h\<close>, \<^verbatim>\<open>amdgpu_ucode_extract.h\<close> and \<^verbatim>\<open>amdgpu_ucode_extract.cpp\<close>: the headers of
  firmware files and the slices of a file the secure processor loads. A packed structure is the list of its
  fields with their widths, so that an embedded structure is a list in front; a field is read at the sum of
  the widths before it. A read outside the file is \<open>None\<close>. The array of payloads is a list, and its length the
  count; the unused slots, which no caller reads, have no counterpart.
\<close>

section \<open>Packed structures\<close>

type_synonym layout = "(string \<times> nat) list"

definition u32_fields :: "string list \<Rightarrow> layout" where "u32_fields = map (\<lambda>n. (n, 4))"
definition u16_fields :: "string list \<Rightarrow> layout" where "u16_fields = map (\<lambda>n. (n, 2))"
definition embed :: "string \<Rightarrow> layout \<Rightarrow> layout" where "embed p = map (\<lambda>(n, w). (p @ n, w))"
definition layout_size :: "layout \<Rightarrow> nat" where "layout_size L = sum_list (map snd L)"

fun offset_of :: "layout \<Rightarrow> string \<Rightarrow> nat" where
  "offset_of [] f = 0"
| "offset_of ((g, w) # L) f = (if f = g then 0 else w + offset_of L f)"

definition rdf16 :: "bytes \<Rightarrow> layout \<Rightarrow> string \<Rightarrow> u16 option" where
  "rdf16 bin L f = rd16 bin (offset_of L f)"
definition rdf32 :: "bytes \<Rightarrow> layout \<Rightarrow> string \<Rightarrow> u32 option" where
  "rdf32 bin L f = rd32le bin (offset_of L f)"

section \<open>The headers\<close>

definition common_firmware_header :: layout where
  "common_firmware_header =
     u32_fields [''size_bytes'', ''header_size_bytes''] @
     u16_fields [''header_version_major'', ''header_version_minor'', ''ip_version_major'', ''ip_version_minor''] @
     u32_fields [''ucode_version'', ''ucode_size_bytes'', ''ucode_array_offset_bytes'', ''crc32'']"

definition in_header :: layout where "in_header = embed ''header.'' common_firmware_header"

definition psp_fw_legacy_bin_desc :: layout where
  "psp_fw_legacy_bin_desc = u32_fields [''fw_version'', ''offset_bytes'', ''size_bytes'']"

definition psp_firmware_header_v1_0 :: layout where
  "psp_firmware_header_v1_0 = in_header @ embed ''sos.'' psp_fw_legacy_bin_desc"

definition psp_firmware_header_v1_1 :: layout where
  "psp_firmware_header_v1_1 = psp_firmware_header_v1_0 @ embed ''toc.'' psp_fw_legacy_bin_desc @
     embed ''kdb.'' psp_fw_legacy_bin_desc"

definition psp_firmware_header_v1_2 :: layout where
  "psp_firmware_header_v1_2 = psp_firmware_header_v1_0 @ embed ''res.'' psp_fw_legacy_bin_desc @
     embed ''kdb.'' psp_fw_legacy_bin_desc"

definition psp_firmware_header_v1_3 :: layout where
  "psp_firmware_header_v1_3 = psp_firmware_header_v1_1 @ embed ''spl.'' psp_fw_legacy_bin_desc @
     embed ''rl.'' psp_fw_legacy_bin_desc @ embed ''sys_drv_aux.'' psp_fw_legacy_bin_desc @
     embed ''sos_aux.'' psp_fw_legacy_bin_desc"

definition psp_fw_bin_desc :: layout where
  "psp_fw_bin_desc = u32_fields [''fw_type'', ''fw_version'', ''offset_bytes'', ''size_bytes'']"

definition psp_firmware_header_v2_0 :: layout where
  "psp_firmware_header_v2_0 = in_header @ u32_fields [''psp_fw_bin_count'']"

definition psp_firmware_header_v2_1 :: layout where
  "psp_firmware_header_v2_1 = in_header @ u32_fields [''psp_fw_bin_count'', ''psp_aux_fw_bin_index'']"

definition ta_firmware_header_v2_0 :: layout where
  "ta_firmware_header_v2_0 = in_header @ u32_fields [''ta_fw_bin_count'']"

definition gfx_firmware_header_v1_0 :: layout where
  "gfx_firmware_header_v1_0 = in_header @ u32_fields [''ucode_feature_version'', ''jt_offset'', ''jt_size'']"

definition gfx_firmware_header_v2_0 :: layout where
  "gfx_firmware_header_v2_0 = in_header @ u32_fields [''ucode_feature_version'', ''ucode_size_bytes'',
     ''ucode_offset_bytes'', ''data_size_bytes'', ''data_offset_bytes'', ''ucode_start_addr_lo'',
     ''ucode_start_addr_hi'']"

definition mes_firmware_header_v1_0 :: layout where
  "mes_firmware_header_v1_0 = in_header @ u32_fields [''mes_ucode_version'', ''mes_ucode_size_bytes'',
     ''mes_ucode_offset_bytes'', ''mes_ucode_data_version'', ''mes_ucode_data_size_bytes'',
     ''mes_ucode_data_offset_bytes'', ''mes_uc_start_addr_lo'', ''mes_uc_start_addr_hi'',
     ''mes_data_start_addr_lo'', ''mes_data_start_addr_hi'']"

definition rlc_firmware_header_v2_0 :: layout where
  "rlc_firmware_header_v2_0 = in_header @ u32_fields [''ucode_feature_version'', ''jt_offset'', ''jt_size'',
     ''save_and_restore_offset'', ''clear_state_descriptor_offset'', ''avail_scratch_ram_locations'',
     ''reg_restore_list_size'', ''reg_list_format_start'', ''reg_list_format_separate_start'',
     ''starting_offsets_start'', ''reg_list_format_size_bytes'', ''reg_list_format_array_offset_bytes'',
     ''reg_list_size_bytes'', ''reg_list_array_offset_bytes'', ''reg_list_format_separate_size_bytes'',
     ''reg_list_format_separate_array_offset_bytes'', ''reg_list_separate_size_bytes'',
     ''reg_list_separate_array_offset_bytes'']"

definition rlc_firmware_header_v2_1 :: layout where
  "rlc_firmware_header_v2_1 = rlc_firmware_header_v2_0 @ u32_fields [''reg_list_format_direct_reg_list_length'',
     ''save_restore_list_cntl_ucode_ver'', ''save_restore_list_cntl_feature_ver'',
     ''save_restore_list_cntl_size_bytes'', ''save_restore_list_cntl_offset_bytes'',
     ''save_restore_list_gpm_ucode_ver'', ''save_restore_list_gpm_feature_ver'',
     ''save_restore_list_gpm_size_bytes'', ''save_restore_list_gpm_offset_bytes'',
     ''save_restore_list_srm_ucode_ver'', ''save_restore_list_srm_feature_ver'',
     ''save_restore_list_srm_size_bytes'', ''save_restore_list_srm_offset_bytes'']"

definition rlc_firmware_header_v2_2 :: layout where
  "rlc_firmware_header_v2_2 = rlc_firmware_header_v2_1 @ u32_fields [''rlc_iram_ucode_size_bytes'',
     ''rlc_iram_ucode_offset_bytes'', ''rlc_dram_ucode_size_bytes'', ''rlc_dram_ucode_offset_bytes'']"

definition rlc_firmware_header_v2_3 :: layout where
  "rlc_firmware_header_v2_3 = rlc_firmware_header_v2_2 @ u32_fields [''rlcp_ucode_version'',
     ''rlcp_ucode_feature_version'', ''rlcp_ucode_size_bytes'', ''rlcp_ucode_offset_bytes'',
     ''rlcv_ucode_version'', ''rlcv_ucode_feature_version'', ''rlcv_ucode_size_bytes'',
     ''rlcv_ucode_offset_bytes'']"

definition rlc_firmware_header_v2_4 :: layout where
  "rlc_firmware_header_v2_4 = rlc_firmware_header_v2_3 @ u32_fields [''global_tap_delays_ucode_size_bytes'',
     ''global_tap_delays_ucode_offset_bytes'', ''se0_tap_delays_ucode_size_bytes'',
     ''se0_tap_delays_ucode_offset_bytes'', ''se1_tap_delays_ucode_size_bytes'',
     ''se1_tap_delays_ucode_offset_bytes'', ''se2_tap_delays_ucode_size_bytes'',
     ''se2_tap_delays_ucode_offset_bytes'', ''se3_tap_delays_ucode_size_bytes'',
     ''se3_tap_delays_ucode_offset_bytes'']"

definition sdma_firmware_header_v3_0 :: layout where
  "sdma_firmware_header_v3_0 = in_header @ u32_fields [''ucode_feature_version'', ''ucode_offset_bytes'',
     ''ucode_size_bytes'']"

definition imu_firmware_header_v1_0 :: layout where
  "imu_firmware_header_v1_0 = in_header @ u32_fields [''imu_iram_ucode_size_bytes'',
     ''imu_iram_ucode_offset_bytes'', ''imu_dram_ucode_size_bytes'', ''imu_dram_ucode_offset_bytes'']"

lemmas header_defs = common_firmware_header_def in_header_def psp_fw_legacy_bin_desc_def
  psp_firmware_header_v1_0_def psp_firmware_header_v1_1_def psp_firmware_header_v1_2_def
  psp_firmware_header_v1_3_def psp_fw_bin_desc_def psp_firmware_header_v2_0_def psp_firmware_header_v2_1_def
  ta_firmware_header_v2_0_def gfx_firmware_header_v1_0_def gfx_firmware_header_v2_0_def
  mes_firmware_header_v1_0_def rlc_firmware_header_v2_0_def rlc_firmware_header_v2_1_def
  rlc_firmware_header_v2_2_def rlc_firmware_header_v2_3_def rlc_firmware_header_v2_4_def
  sdma_firmware_header_v3_0_def imu_firmware_header_v1_0_def u32_fields_def u16_fields_def embed_def

text \<open>The static assertions of the source.\<close>

lemma layout_sizes [simp]:
  "layout_size common_firmware_header = 32" "layout_size psp_fw_legacy_bin_desc = 12"
  "layout_size psp_fw_bin_desc = 16" "layout_size gfx_firmware_header_v1_0 = 44"
  "layout_size gfx_firmware_header_v2_0 = 60" "layout_size mes_firmware_header_v1_0 = 72"
  "layout_size rlc_firmware_header_v2_0 = 104" "layout_size rlc_firmware_header_v2_1 = 156"
  "layout_size rlc_firmware_header_v2_2 = 172" "layout_size rlc_firmware_header_v2_3 = 204"
  "layout_size rlc_firmware_header_v2_4 = 244" "layout_size sdma_firmware_header_v3_0 = 44"
  "layout_size imu_firmware_header_v1_0 = 48" "layout_size psp_firmware_header_v1_0 = 44"
  "layout_size psp_firmware_header_v1_1 = 68" "layout_size psp_firmware_header_v1_2 = 68"
  "layout_size psp_firmware_header_v1_3 = 116" "layout_size psp_firmware_header_v2_0 = 36"
  "layout_size psp_firmware_header_v2_1 = 40" "layout_size ta_firmware_header_v2_0 = 36"
  by (simp_all add: layout_size_def header_defs)

section \<open>Firmware types\<close>

definition PSPGfxFwType_SMU :: u32 where "PSPGfxFwType_SMU = 18"
definition PSPGfxFwType_SDMA_UCODE_TH0 :: u32 where "PSPGfxFwType_SDMA_UCODE_TH0 = 71"
definition PSPGfxFwType_RLC_G :: u32 where "PSPGfxFwType_RLC_G = 8"
definition PSPGfxFwType_RS64_PFP :: u32 where "PSPGfxFwType_RS64_PFP = 87"
definition PSPGfxFwType_RS64_ME :: u32 where "PSPGfxFwType_RS64_ME = 88"
definition PSPGfxFwType_RS64_MEC :: u32 where "PSPGfxFwType_RS64_MEC = 89"
definition PSPGfxFwType_RS64_PFP_P0 :: u32 where "PSPGfxFwType_RS64_PFP_P0 = 90"
definition PSPGfxFwType_RS64_PFP_P1 :: u32 where "PSPGfxFwType_RS64_PFP_P1 = 91"
definition PSPGfxFwType_RS64_ME_P0 :: u32 where "PSPGfxFwType_RS64_ME_P0 = 92"
definition PSPGfxFwType_RS64_ME_P1 :: u32 where "PSPGfxFwType_RS64_ME_P1 = 93"
definition PSPGfxFwType_RS64_MEC_P0 :: u32 where "PSPGfxFwType_RS64_MEC_P0 = 94"
definition PSPGfxFwType_RS64_MEC_P1 :: u32 where "PSPGfxFwType_RS64_MEC_P1 = 95"
definition PSPGfxFwType_RS64_MEC_P2 :: u32 where "PSPGfxFwType_RS64_MEC_P2 = 96"
definition PSPGfxFwType_RS64_MEC_P3 :: u32 where "PSPGfxFwType_RS64_MEC_P3 = 97"
definition PSPGfxFwType_IMU_I :: u32 where "PSPGfxFwType_IMU_I = 68"
definition PSPGfxFwType_IMU_D :: u32 where "PSPGfxFwType_IMU_D = 69"
definition PSPGfxFwType_REG_LIST :: u32 where "PSPGfxFwType_REG_LIST = 67"
definition PSPGfxFwType_CP_MES :: u32 where "PSPGfxFwType_CP_MES = 33"
definition PSPGfxFwType_CP_MES_DATA :: u32 where "PSPGfxFwType_CP_MES_DATA = 34"
definition PSPGfxFwType_CP_MES_KIQ :: u32 where "PSPGfxFwType_CP_MES_KIQ = 81"
definition PSPGfxFwType_MES_KIQ_STACK :: u32 where "PSPGfxFwType_MES_KIQ_STACK = 82"
definition PSPGfxFwType_RLC_RESTORE_LIST_GPM_MEM :: u32 where "PSPGfxFwType_RLC_RESTORE_LIST_GPM_MEM = 20"
definition PSPGfxFwType_RLC_RESTORE_LIST_SRM_MEM :: u32 where "PSPGfxFwType_RLC_RESTORE_LIST_SRM_MEM = 21"
definition PSPGfxFwType_RLC_RESTORE_LIST_SRM_CNTL :: u32 where "PSPGfxFwType_RLC_RESTORE_LIST_SRM_CNTL = 22"
definition PSPGfxFwType_RLC_V :: u32 where "PSPGfxFwType_RLC_V = 7"
definition PSPGfxFwType_RLC_P :: u32 where "PSPGfxFwType_RLC_P = 25"
definition PSPGfxFwType_RLC_IRAM :: u32 where "PSPGfxFwType_RLC_IRAM = 26"
definition PSPGfxFwType_RLC_DRAM_BOOT :: u32 where "PSPGfxFwType_RLC_DRAM_BOOT = 48"
definition PSPGfxFwType_GLOBAL_TAP_DELAYS :: u32 where "PSPGfxFwType_GLOBAL_TAP_DELAYS = 27"
definition PSPGfxFwType_SE0_TAP_DELAYS :: u32 where "PSPGfxFwType_SE0_TAP_DELAYS = 28"
definition PSPGfxFwType_SE1_TAP_DELAYS :: u32 where "PSPGfxFwType_SE1_TAP_DELAYS = 29"
definition PSPGfxFwType_SE2_TAP_DELAYS :: u32 where "PSPGfxFwType_SE2_TAP_DELAYS = 65"
definition PSPGfxFwType_SE3_TAP_DELAYS :: u32 where "PSPGfxFwType_SE3_TAP_DELAYS = 66"

section \<open>Payloads\<close>

definition kMaxUcodePayloadsPerFile :: nat where "kMaxUcodePayloadsPerFile = 16"

record UcodePayload =
  up_fw_type :: u32
  up_offset :: u32
  up_size :: u32

definition within :: "u64 \<Rightarrow> u64 \<Rightarrow> u64 \<Rightarrow> bool" where
  "within off sz file_size \<longleftrightarrow> sz \<noteq> 0 \<and> off < file_size \<and> off + sz \<le> file_size"

definition push :: "UcodePayload list \<Rightarrow> u32 \<Rightarrow> u64 \<Rightarrow> u64 \<Rightarrow> u64 \<Rightarrow> UcodePayload list" where
  "push out fw_type offset sz file_size =
     (if kMaxUcodePayloadsPerFile \<le> length out then out
      else if \<not> within offset sz file_size then out
      else out @ [\<lparr>up_fw_type = fw_type, up_offset = ucast offset, up_size = ucast sz\<rparr>])"

text \<open>A payload whose offset and size are two fields of the header.\<close>

definition push_fields ::
  "bytes \<Rightarrow> u64 \<Rightarrow> layout \<Rightarrow> UcodePayload list \<Rightarrow> u32 \<Rightarrow> string \<Rightarrow> string \<Rightarrow> UcodePayload list option"
where
  "push_fields bin sz L out fw_type off_field size_field =
     do { off \<leftarrow> rdf32 bin L off_field; n \<leftarrow> rdf32 bin L size_field; Some (push out fw_type (ucast off) (ucast n) sz) }"

text \<open>Payloads whose fields are \<^verbatim>\<open><name>_offset_bytes\<close> and \<^verbatim>\<open><name>_size_bytes\<close>.\<close>

fun push_named ::
  "bytes \<Rightarrow> u64 \<Rightarrow> layout \<Rightarrow> (u32 \<times> string) list \<Rightarrow> UcodePayload list \<Rightarrow> UcodePayload list option"
where
  "push_named bin sz L [] out = Some out"
| "push_named bin sz L ((fw, name) # rest) out =
     do { out \<leftarrow> push_fields bin sz L out fw (name @ ''_offset_bytes'') (name @ ''_size_bytes'');
          push_named bin sz L rest out }"

definition smaller :: "u64 \<Rightarrow> layout \<Rightarrow> bool" where
  "smaller sz L \<longleftrightarrow> sz < word_of_nat (layout_size L)"

definition extract_sdma :: "bytes \<Rightarrow> u64 \<Rightarrow> UcodePayload list option" where
  "extract_sdma bin sz =
     (if smaller sz sdma_firmware_header_v3_0 then Some []
      else do {
        major \<leftarrow> rdf16 bin sdma_firmware_header_v3_0 ''header.header_version_major'';
        if major \<noteq> 3 then Some []
        else push_fields bin sz sdma_firmware_header_v3_0 [] PSPGfxFwType_SDMA_UCODE_TH0
               ''header.ucode_array_offset_bytes'' ''ucode_size_bytes'' })"

text \<open>The parts of an RLC file, each present from one minor version on; RLC-G is emitted last.\<close>

definition rlc_tap_delays :: "(u32 \<times> string) list" where
  "rlc_tap_delays = [(PSPGfxFwType_GLOBAL_TAP_DELAYS, ''global_tap_delays_ucode''),
     (PSPGfxFwType_SE0_TAP_DELAYS, ''se0_tap_delays_ucode''), (PSPGfxFwType_SE1_TAP_DELAYS, ''se1_tap_delays_ucode''),
     (PSPGfxFwType_SE2_TAP_DELAYS, ''se2_tap_delays_ucode''), (PSPGfxFwType_SE3_TAP_DELAYS, ''se3_tap_delays_ucode'')]"

definition rlc_restore_lists :: "(u32 \<times> string) list" where
  "rlc_restore_lists = [(PSPGfxFwType_RLC_RESTORE_LIST_SRM_CNTL, ''save_restore_list_cntl''),
     (PSPGfxFwType_RLC_RESTORE_LIST_GPM_MEM, ''save_restore_list_gpm''),
     (PSPGfxFwType_RLC_RESTORE_LIST_SRM_MEM, ''save_restore_list_srm'')]"

definition rlc_rams :: "(u32 \<times> string) list" where
  "rlc_rams = [(PSPGfxFwType_RLC_IRAM, ''rlc_iram_ucode''), (PSPGfxFwType_RLC_DRAM_BOOT, ''rlc_dram_ucode'')]"

definition rlc_p_and_v :: "(u32 \<times> string) list" where
  "rlc_p_and_v = [(PSPGfxFwType_RLC_P, ''rlcp_ucode''), (PSPGfxFwType_RLC_V, ''rlcv_ucode'')]"

definition push_when ::
  "bool \<Rightarrow> bytes \<Rightarrow> u64 \<Rightarrow> layout \<Rightarrow> (u32 \<times> string) list \<Rightarrow> UcodePayload list \<Rightarrow> UcodePayload list option"
where
  "push_when c bin sz L parts out = (if c \<and> \<not> smaller sz L then push_named bin sz L parts out else Some out)"

definition extract_rlc :: "bytes \<Rightarrow> u64 \<Rightarrow> UcodePayload list option" where
  "extract_rlc bin sz =
     (if smaller sz rlc_firmware_header_v2_0 then Some []
      else do {
        maj \<leftarrow> rdf16 bin rlc_firmware_header_v2_0 ''header.header_version_major'';
        mnr \<leftarrow> rdf16 bin rlc_firmware_header_v2_0 ''header.header_version_minor'';
        if maj \<noteq> 2 then Some []
        else do {
          out \<leftarrow> push_when (mnr = 4) bin sz rlc_firmware_header_v2_4 rlc_tap_delays [];
          out \<leftarrow> push_when (1 \<le> mnr) bin sz rlc_firmware_header_v2_1 rlc_restore_lists out;
          out \<leftarrow> push_when (2 \<le> mnr) bin sz rlc_firmware_header_v2_2 rlc_rams out;
          out \<leftarrow> push_when (mnr = 3) bin sz rlc_firmware_header_v2_3 rlc_p_and_v out;
          push_fields bin sz rlc_firmware_header_v2_0 out PSPGfxFwType_RLC_G
            ''header.ucode_array_offset_bytes'' ''header.ucode_size_bytes'' } })"

definition extract_imu :: "bytes \<Rightarrow> u64 \<Rightarrow> UcodePayload list option" where
  "extract_imu bin sz =
     (if smaller sz imu_firmware_header_v1_0 then Some []
      else do {
        major \<leftarrow> rdf16 bin imu_firmware_header_v1_0 ''header.header_version_major'';
        if major \<noteq> 1 then Some []
        else do {
          off \<leftarrow> rdf32 bin imu_firmware_header_v1_0 ''header.ucode_array_offset_bytes'';
          iram \<leftarrow> rdf32 bin imu_firmware_header_v1_0 ''imu_iram_ucode_size_bytes'';
          dram \<leftarrow> rdf32 bin imu_firmware_header_v1_0 ''imu_dram_ucode_size_bytes'';
          let out = push [] PSPGfxFwType_IMU_I (ucast off) (ucast iram) sz;
          Some (push out PSPGfxFwType_IMU_D (ucast off + ucast iram) (ucast dram) sz) } })"

datatype RS64Family = RS64Family_PFP | RS64Family_ME | RS64Family_MEC

text \<open>The type of the code and of the stack of each pipe.\<close>

fun rs64_types :: "RS64Family \<Rightarrow> u32 \<times> u32 list" where
  "rs64_types RS64Family_PFP = (PSPGfxFwType_RS64_PFP, [PSPGfxFwType_RS64_PFP_P0])"
| "rs64_types RS64Family_ME = (PSPGfxFwType_RS64_ME, [PSPGfxFwType_RS64_ME_P0])"
| "rs64_types RS64Family_MEC = (PSPGfxFwType_RS64_MEC, [PSPGfxFwType_RS64_MEC_P0, PSPGfxFwType_RS64_MEC_P1])"

definition extract_cp_rs64 :: "bytes \<Rightarrow> u64 \<Rightarrow> RS64Family \<Rightarrow> UcodePayload list option" where
  "extract_cp_rs64 bin sz family =
     (if smaller sz gfx_firmware_header_v2_0 then Some []
      else do {
        major \<leftarrow> rdf16 bin gfx_firmware_header_v2_0 ''header.header_version_major'';
        if major \<noteq> 2 then Some []
        else do {
          let (ucode, stacks) = rs64_types family;
          out \<leftarrow> push_fields bin sz gfx_firmware_header_v2_0 [] ucode
                   ''header.ucode_array_offset_bytes'' ''ucode_size_bytes'';
          push_named bin sz gfx_firmware_header_v2_0 (map (\<lambda>fw. (fw, ''data'')) stacks) out } })"

definition extract_mes :: "bytes \<Rightarrow> u64 \<Rightarrow> UcodePayload list option" where
  "extract_mes bin sz =
     (if smaller sz mes_firmware_header_v1_0 then Some []
      else do {
        major \<leftarrow> rdf16 bin mes_firmware_header_v1_0 ''header.header_version_major'';
        if major \<noteq> 1 then Some []
        else push_named bin sz mes_firmware_header_v1_0
               [(PSPGfxFwType_CP_MES, ''mes_ucode''), (PSPGfxFwType_CP_MES_DATA, ''mes_ucode_data''),
                (PSPGfxFwType_CP_MES_KIQ, ''mes_ucode''), (PSPGfxFwType_MES_KIQ_STACK, ''mes_ucode_data'')] [] })"

definition extract_common_header :: "u32 \<Rightarrow> bytes \<Rightarrow> u64 \<Rightarrow> UcodePayload list option" where
  "extract_common_header fw_type bin sz =
     (if smaller sz common_firmware_header then Some []
      else push_fields bin sz common_firmware_header [] fw_type ''ucode_array_offset_bytes'' ''ucode_size_bytes'')"

section \<open>The entry point\<close>

definition kHostFwFile_SDMA :: u64 where "kHostFwFile_SDMA = 0x200 + 0"
definition kHostFwFile_RLC :: u64 where "kHostFwFile_RLC = 0x200 + 1"
definition kHostFwFile_IMU :: u64 where "kHostFwFile_IMU = 0x200 + 2"
definition kHostFwFile_MES_UNI :: u64 where "kHostFwFile_MES_UNI = 0x200 + 3"
definition kHostFwFile_CP_PFP :: u64 where "kHostFwFile_CP_PFP = 0x200 + 4"
definition kHostFwFile_CP_ME :: u64 where "kHostFwFile_CP_ME = 0x200 + 5"
definition kHostFwFile_CP_MEC :: u64 where "kHostFwFile_CP_MEC = 0x200 + 6"

lemmas host_fw_defs = kHostFwFile_SDMA_def kHostFwFile_RLC_def kHostFwFile_IMU_def kHostFwFile_MES_UNI_def
  kHostFwFile_CP_PFP_def kHostFwFile_CP_ME_def kHostFwFile_CP_MEC_def

definition rs64_family_of :: "u32 \<Rightarrow> RS64Family" where
  "rs64_family_of fw =
     (if fw = PSPGfxFwType_RS64_PFP \<or> fw = PSPGfxFwType_RS64_PFP_P0 \<or> fw = PSPGfxFwType_RS64_PFP_P1
      then RS64Family_PFP
      else if fw = PSPGfxFwType_RS64_ME \<or> fw = PSPGfxFwType_RS64_ME_P0 \<or> fw = PSPGfxFwType_RS64_ME_P1
      then RS64Family_ME
      else RS64Family_MEC)"

text \<open>The payloads of one type, for a caller that asks for one part of a file.\<close>

definition only_type :: "u32 \<Rightarrow> UcodePayload list \<Rightarrow> UcodePayload list" where
  "only_type fw = filter (\<lambda>p. up_fw_type p = fw)"

definition extract_single :: "u32 \<Rightarrow> bytes \<Rightarrow> u64 \<Rightarrow> UcodePayload list option" where
  "extract_single fw bin sz =
     (if fw = PSPGfxFwType_SDMA_UCODE_TH0 then extract_sdma bin sz
      else if fw = PSPGfxFwType_CP_MES \<or> fw = PSPGfxFwType_CP_MES_DATA
      then map_option (only_type fw) (extract_mes bin sz)
      else if PSPGfxFwType_RS64_PFP \<le> fw \<and> fw \<le> PSPGfxFwType_RS64_MEC_P3
      then map_option (only_type fw) (extract_cp_rs64 bin sz (rs64_family_of fw))
      else if fw = PSPGfxFwType_IMU_I \<or> fw = PSPGfxFwType_IMU_D
      then map_option (only_type fw) (extract_imu bin sz)
      else extract_common_header fw bin sz)"

definition amdgpu_ucode_extract :: "u64 \<Rightarrow> bytes option \<Rightarrow> u64 \<Rightarrow> UcodePayload list option" where
  "amdgpu_ucode_extract hostFwType source sz =
     (case source of
        None \<Rightarrow> Some []
      | Some bin \<Rightarrow>
          if sz = 0 then Some []
          else if hostFwType = kHostFwFile_SDMA then extract_sdma bin sz
          else if hostFwType = kHostFwFile_RLC then extract_rlc bin sz
          else if hostFwType = kHostFwFile_IMU then extract_imu bin sz
          else if hostFwType = kHostFwFile_MES_UNI then extract_mes bin sz
          else if hostFwType = kHostFwFile_CP_PFP then extract_cp_rs64 bin sz RS64Family_PFP
          else if hostFwType = kHostFwFile_CP_ME then extract_cp_rs64 bin sz RS64Family_ME
          else if hostFwType = kHostFwFile_CP_MEC then extract_cp_rs64 bin sz RS64Family_MEC
          else if 0x100 \<le> hostFwType \<and> hostFwType < 0x200
          then extract_single (ucast (hostFwType - 0x100)) bin sz
          else Some [])"

end
