(* ===== verification/Psp.thy ===== *)
theory Psp
  imports Metrics Ucode Gart Interrupts
begin

text \<open>
  \<^verbatim>\<open>dext/amdgpu/amdgpu_psp.h\<close> and \<^verbatim>\<open>psp_v14_0.cpp\<close>: the secure processor, which loads every other firmware.
  The first firmware goes through the bootloader's registers, the rest through a ring of commands in VRAM.
  A pointer into the retained package is an offset; \<^verbatim>\<open>memcpy\<close> to host memory is a parameter. CPU pointers that
  are null throughout have no field. \<open>None\<close> as an outcome is a wait that never returns, or a read outside the
  bytes of a firmware file.
\<close>

section \<open>Registers and constants\<close>

definition MP0_C2PMSG_35 :: u32 where "MP0_C2PMSG_35 = 0x0063"
definition MP0_C2PMSG_36 :: u32 where "MP0_C2PMSG_36 = 0x0064"
definition MP0_C2PMSG_64 :: u32 where "MP0_C2PMSG_64 = 0x0080"
definition MP0_C2PMSG_67 :: u32 where "MP0_C2PMSG_67 = 0x0083"
definition MP0_C2PMSG_69 :: u32 where "MP0_C2PMSG_69 = 0x0085"
definition MP0_C2PMSG_70 :: u32 where "MP0_C2PMSG_70 = 0x0086"
definition MP0_C2PMSG_71 :: u32 where "MP0_C2PMSG_71 = 0x0087"
definition MP0_C2PMSG_81 :: u32 where "MP0_C2PMSG_81 = 0x0091"
definition kPSPBootloaderReadyBit :: u32 where "kPSPBootloaderReadyBit = 0x80000000"
definition kPSPFwPriBufSize :: u64 where "kPSPFwPriBufSize = 1024 * 1024"
definition kPSPMboxRespFlag :: u32 where "kPSPMboxRespFlag = 0x80000000"
definition kPSPMboxRespMask :: u32 where "kPSPMboxRespMask = 0x80000000 OR 0x0000FFFF"
definition kPSPRingTypeKM :: u32 where "kPSPRingTypeKM = 2"
definition kPSPKMRingSize :: u64 where "kPSPKMRingSize = 0x1000"
definition kPSPKMRingBufSize :: nat where "kPSPKMRingBufSize = 16384"
definition kFwPriVRAMOffset :: u64 where "kFwPriVRAMOffset = 0"
definition kRingVRAMOffset :: u64 where "kRingVRAMOffset = 0x100000"
definition kCmdBufVRAMOffset :: u64 where "kCmdBufVRAMOffset = 0x104000"
definition kFenceVRAMOffset :: u64 where "kFenceVRAMOffset = 0x108000"
definition kTMRVRAMOffset :: u64 where "kTMRVRAMOffset = 0x200000"
definition kFwBufVRAMOffset :: u64 where "kFwBufVRAMOffset = 0x01000000"
definition kFwBufSize :: u64 where "kFwBufSize = 0x00800000"
definition kPSPGfxCmdRespSize :: nat where "kPSPGfxCmdRespSize = 1024"
definition kPSPFenceBufSize :: nat where "kPSPFenceBufSize = 16384"
definition kPSPCmdBufSize :: nat where "kPSPCmdBufSize = 16384"
definition kPSPTMRDefaultSize :: u64 where "kPSPTMRDefaultSize = 4 * 1024 * 1024"
definition kIP_PSP_major :: nat where "kIP_PSP_major = 14"

definition LoadKeyDatabase :: u32 where "LoadKeyDatabase = 0x80000"
definition LoadTosSPLTable :: u32 where "LoadTosSPLTable = 0x10000000"
definition LoadSysDrv :: u32 where "LoadSysDrv = 0x10000"
definition LoadSocDrv :: u32 where "LoadSocDrv = 0xB0000"
definition LoadIntfDrv :: u32 where "LoadIntfDrv = 0xD0000"
definition LoadHADDrv :: u32 where "LoadHADDrv = 0xC0000"
definition LoadRASDrv :: u32 where "LoadRASDrv = 0xE0000"
definition LoadIPKeyMgrDrv :: u32 where "LoadIPKeyMgrDrv = 0x0F0000"
definition LoadSOSDrv :: u32 where "LoadSOSDrv = 0x20000"

definition GFX_CMD_LOAD_ASD :: u32 where "GFX_CMD_LOAD_ASD = 4"
definition GFX_CMD_SETUP_TMR :: u32 where "GFX_CMD_SETUP_TMR = 5"
definition GFX_CMD_LOAD_IP_FW :: u32 where "GFX_CMD_LOAD_IP_FW = 6"
definition GFX_CMD_LOAD_TOC :: u32 where "GFX_CMD_LOAD_TOC = 0x20"
definition GFX_CMD_AUTOLOAD_RLC :: u32 where "GFX_CMD_AUTOLOAD_RLC = 0x21"
definition GFX_CMD_FB_FW_RESERV_ADDR :: u32 where "GFX_CMD_FB_FW_RESERV_ADDR = 0x50"
definition GFX_CMD_FB_FW_RESERV_EXT_ADDR :: u32 where "GFX_CMD_FB_FW_RESERV_EXT_ADDR = 0x51"

definition mp0_reg :: "'d DeviceContext \<Rightarrow> u32 \<Rightarrow> u32" where
  "mp0_reg dev r = SOC15_REG_OFFSET dev MP0 r"

section \<open>State\<close>

record PSPSubBin =
  sb_start :: "nat option"
  sb_size :: u64
  sb_version :: u32

definition no_sub_bin :: PSPSubBin where
  "no_sub_bin = \<lparr>sb_start = None, sb_size = 0, sb_version = 0\<rparr>"

text \<open>The parts of a package.\<close>

datatype sub_bin =
    SB_sos | SB_sys | SB_kdb | SB_toc | SB_spl | SB_rl | SB_soc_drv | SB_intf_drv | SB_dbg_drv | SB_ras_drv
  | SB_ipkeymgr_drv | SB_spdm_drv | SB_sys_drv_aux | SB_sos_aux

record ASDContext =
  asd_parsed :: bool
  asd_size :: u32
  asd_version :: u32
  asd_mc_addr :: u64
  asd_vram_off :: u64
  asd_session :: u32
  asd_resp :: u32

definition asd_zero :: ASDContext where
  "asd_zero = \<lparr>asd_parsed = False, asd_size = 0, asd_version = 0, asd_mc_addr = 0, asd_vram_off = 0,
     asd_session = 0, asd_resp = 0\<rparr>"

record PSPContext = firmware_arena +
  fwPriBuffer :: "u64 option"
  fwPriDMACommand :: "u64 option"
  fwPriBusAddr :: u64
  fwPriSize :: u64
  psp_bins :: "sub_bin \<Rightarrow> PSPSubBin"
  psp_asd :: ASDContext
  sosPackageBuffer :: "u64 option"
  sos_fw_blob :: bytes
  sos_fw_blob_size :: u64
  firmwareLoadComplete :: bool
  sosFirmware :: "bytes option"
  sosFirmwareSize :: u64
  sosAlive :: bool
  runtimeDbRead :: bool
  runtimeDbCookie :: u16
  runtimeDbVersion :: u16
  bootCfgBitmask :: u32
  scpmStatus :: u32
  scpmEnabled :: bool
  ringBinding :: GARTBinding
  cmdBinding :: GARTBinding
  fenceBinding :: GARTBinding
  ringBusAddr :: u64
  psp_ringSize :: u64
  ringCreated :: bool
  psp_ringBuffer :: "u64 option"
  psp_ringDMACommand :: "u64 option"
  cmdBusAddr :: u64
  fenceBusAddr :: u64
  fenceCounter :: u32
  psp_cmdBuffer :: "u64 option"
  psp_cmdDMACommand :: "u64 option"
  psp_fenceBuffer :: "u64 option"
  psp_fenceDMACommand :: "u64 option"
  tmrBuffer :: "u64 option"
  tmrDMACommand :: "u64 option"
  tmrBusAddr :: u64
  tmrSize :: u64
  tmrSetUp :: bool
  fwBufSysmemDMA :: "u64 option"
  fwBufSysmemCPU :: u64 \<comment> \<open>zero for a null pointer\<close>
  fwBufSysmemBusAddr :: u64

record 'd psp_os = "'d os" +
  buf_map_uncached :: "u64 \<Rightarrow> u64 \<Rightarrow> 'd \<Rightarrow> (kern_return \<times> u64 option) \<times> 'd" \<comment> \<open>buffer, length; the address of the mapping\<close>
  cpu_copy :: "u64 \<Rightarrow> bytes \<Rightarrow> 'd \<Rightarrow> 'd" \<comment> \<open>\<^verbatim>\<open>memcpy(address, bytes)\<close>\<close>

definition psp_read_vram_start :: "'d DeviceContext \<Rightarrow> 'd \<Rightarrow> u64 \<times> 'd" where
  "psp_read_vram_start dev d =
     (if \<not> ip_isResolved (dev_ip dev) MMHUB then (0, d)
      else let (raw, d) = RREG32 dev (ip_get (dev_ip dev) MMHUB + 0x0554) d
        in (push_bit 24 (ucast (raw AND 0x00FFFFFF)), d))"

section \<open>Set up\<close>

definition psp_init_fields :: "u64 \<Rightarrow> PSPContext \<Rightarrow> PSPContext" where
  "psp_init_fields fb psp =
     psp\<lparr>fwPriBuffer := None, fwPriDMACommand := None, fwPriBusAddr := fb + kFwPriVRAMOffset,
         fwPriSize := kPSPFwPriBufSize, sosAlive := False, fwBufVRAMOffset := kFwBufVRAMOffset,
         fwBufBaseMC := fb + kFwBufVRAMOffset, fwBufSize := kFwBufSize, fwBufBumpOffset := 0,
         fwBufSysmemBuffer := None, fwBufSysmemDMA := None, fwBufSysmemCPU := 0, fwBufSysmemBusAddr := 0\<rparr>"

definition psp_init :: "'d DeviceContext \<Rightarrow> PSPContext \<Rightarrow> 'd \<Rightarrow> (kern_return \<times> PSPContext) \<times> 'd" where
  "psp_init dev psp d =
     (if fwPriSize psp \<noteq> 0 then ((kIOReturnSuccess, psp), d)
      else if \<not> ip_isResolved (dev_ip dev) MP0 then ((kIOReturnNotReady, psp), d)
      else if \<not> ip_isResolved (dev_ip dev) MMHUB then ((kIOReturnNotReady, psp), d)
      else let (fb, d) = psp_read_vram_start dev d
        in if fb = 0 then ((kIOReturnNotReady, psp), d)
           else ((kIOReturnSuccess, psp_init_fields fb psp), d))"

text \<open>The entries of the runtime database: two types matter.\<close>

definition runtime_entry :: "'d DeviceContext \<Rightarrow> u64 \<Rightarrow> u64 \<Rightarrow> PSPContext \<Rightarrow> 'd \<Rightarrow> PSPContext \<times> 'd" where
  "runtime_entry dev db_pos e_pos psp d =
     (let (e_type, d) = RVRAM32_via_mm dev e_pos d;
          (e_offsz, d) = RVRAM32_via_mm dev (e_pos + 4) d;
          e_offset = ucast (e_offsz AND 0xFFFF) :: u16;
          e_size = ucast (drop_bit 16 e_offsz) :: u16
      in if e_type = 0x5 \<and> 4 \<le> e_size
         then let (v, d) = RVRAM32_via_mm dev (db_pos + ucast e_offset) d in (psp\<lparr>bootCfgBitmask := v\<rparr>, d)
         else if e_type = 0x6 \<and> 4 \<le> e_size
         then let (v, d) = RVRAM32_via_mm dev (db_pos + ucast e_offset) d
           in (psp\<lparr>scpmStatus := v, scpmEnabled := (v \<noteq> 0)\<rparr>, d)
         else (psp, d))"

fun runtime_entries :: "'d DeviceContext \<Rightarrow> u64 \<Rightarrow> u64 \<Rightarrow> nat \<Rightarrow> PSPContext \<Rightarrow> 'd \<Rightarrow> PSPContext \<times> 'd" where
  "runtime_entries dev db_pos e_pos 0 psp d = (psp, d)"
| "runtime_entries dev db_pos e_pos (Suc n) psp d =
     (let (psp, d) = runtime_entry dev db_pos e_pos psp d in runtime_entries dev db_pos (e_pos + 8) n psp d)"

definition psp_read_runtime_db ::
  "'d DeviceContext \<Rightarrow> PSPContext \<Rightarrow> u64 \<Rightarrow> 'd \<Rightarrow> (kern_return \<times> PSPContext) \<times> 'd"
where
  "psp_read_runtime_db dev psp vram_size d =
     (if runtimeDbRead psp then ((kIOReturnSuccess, psp), d)
      else if vram_size \<le> 0x100000 then ((kIOReturnNotReady, psp), d)
      else let db_pos = vram_size - 0x100000;
               (hdr, d) = RVRAM32_via_mm dev db_pos d;
               cookie = ucast (hdr AND 0xFFFF) :: u16;
               psp = psp\<lparr>runtimeDbCookie := cookie, runtimeDbVersion := ucast (drop_bit 16 hdr), runtimeDbRead := True\<rparr>
        in if cookie \<noteq> 0x0ed5 then ((kIOReturnSuccess, psp), d)
        else let (first, d) = RVRAM32_via_mm dev (db_pos + 4) d; entry_count = ucast (first AND 0xFFFF) :: u16
        in if 0x40 \<le> entry_count then ((kIOReturnInvalid, psp), d)
        else let (psp, d) = runtime_entries dev db_pos (db_pos + 8) (unat entry_count) psp d
          in ((kIOReturnSuccess, psp), d))"

text \<open>The buffer and its prepared DMA in host memory, or the error after everything acquired was given back.\<close>

definition fw_buf_storage ::
  "'d psp_os \<Rightarrow> u64 \<Rightarrow> 'd \<Rightarrow> (kern_return \<times> (u64 \<times> u64 \<times> u64 \<times> u64) option) \<times> 'd"
where
  "fw_buf_storage pos bytes d =
     (let os = os.truncate pos
      in case buf_create os bytes kASPageSize d of
           ((r, None), d) \<Rightarrow> ((or_else r kIOReturnNoMemory, None), d)
         | ((r, Some b), d) \<Rightarrow>
             if r \<noteq> kIOReturnSuccess then ((r, None), d)
             else let d = snd (buf_set_length os b bytes d)
             in (case dma_create os 32 d of
                   ((r, None), d) \<Rightarrow> ((or_else r kIOReturnNoMemory, None), buf_release os b d)
                 | ((r, Some m), d) \<Rightarrow>
                     if r \<noteq> kIOReturnSuccess then ((r, None), buf_release os b d)
                     else let ((r, segs, address, len), d) = dma_prepare os m b bytes d
                       in if r \<noteq> kIOReturnSuccess \<or> segs \<noteq> 1
                       then ((or_else r kIOReturnNotAligned, None), buf_release os b (dma_release os m d))
                       else (case buf_map_uncached pos b bytes d of
                               ((r, None), d) \<Rightarrow> ((or_else r kIOReturnNoMemory, None),
                                  buf_release os b (dma_release os m (snd (dma_complete os m d))))
                             | ((r, Some cpu), d) \<Rightarrow>
                                 if r \<noteq> kIOReturnSuccess
                                 then ((r, None), buf_release os b (dma_release os m (snd (dma_complete os m d))))
                                 else ((kIOReturnSuccess, Some (b, m, address, cpu)), d))))"

text \<open>The sentinels are read back for the log; host memory itself is read without effect.\<close>

definition psp_setup_fw_buf_sysmem ::
  "'d DeviceContext \<Rightarrow> 'd psp_os \<Rightarrow> PSPContext \<times> GMCContext \<Rightarrow> 'd \<Rightarrow> (kern_return \<times> PSPContext \<times> GMCContext) \<times> 'd"
where
  "psp_setup_fw_buf_sysmem dev pos s d =
     (let (psp, gmc) = s
      in if fwBufSysmemBuffer psp \<noteq> None then ((kIOReturnSuccess, s), d)
      else if fwBufSize psp = 0 then ((kIOReturnNotReady, s), d)
      else if gart_start gmc = 0 then ((kIOReturnNotReady, s), d)
      else (case fw_buf_storage pos (fwBufSize psp) d of
              ((r, None), d) \<Rightarrow> ((r, s), d)
            | ((_, Some (b, m, bus, cpu)), d) \<Rightarrow>
                (case gmc_bind_existing dev gmc bus (fwBufSize psp) d of
                   ((r, None, gmc), d) \<Rightarrow>
                     ((r, psp, gmc), buf_release (os.truncate pos) b (dma_release (os.truncate pos) m
                                       (snd (dma_complete (os.truncate pos) m d))))
                 | ((_, Some mc, gmc), d) \<Rightarrow>
                     let psp = psp\<lparr>fwBufSysmemBuffer := Some b, fwBufSysmemDMA := Some m, fwBufSysmemCPU := cpu,
                                   fwBufSysmemBusAddr := bus, fwBufBaseMC := mc, fwBufBumpOffset := 0\<rparr>;
                         d = cpu_copy pos cpu (dw_bytes [0xDEADBEEF, 0xCAFEBABE]) d;
                         d = snd (RVRAM32_via_mm dev mc d);
                         d = snd (RVRAM32_via_mm dev (mc + 4) d)
                     in ((kIOReturnSuccess, psp, gmc), d))))"

section \<open>Release\<close>

definition psp_release :: "'d os \<Rightarrow> PSPContext \<Rightarrow> 'd \<Rightarrow> PSPContext \<times> 'd" where
  "psp_release os psp d =
     (let d = drop_buf os (sosPackageBuffer psp) d;
          d = drop_dma os (tmrDMACommand psp) d; d = drop_buf os (tmrBuffer psp) d;
          d = drop_dma os (psp_fenceDMACommand psp) d; d = drop_buf os (psp_fenceBuffer psp) d;
          d = drop_dma os (psp_cmdDMACommand psp) d; d = drop_buf os (psp_cmdBuffer psp) d;
          d = drop_dma os (fwPriDMACommand psp) d; d = drop_buf os (fwPriBuffer psp) d;
          d = drop_dma os (fwBufSysmemDMA psp) d; d = drop_buf os (fwBufSysmemBuffer psp) d
      in (psp\<lparr>sosPackageBuffer := None, sos_fw_blob := [], sos_fw_blob_size := 0, psp_bins := (\<lambda>_. no_sub_bin),
              sosFirmware := None, sosFirmwareSize := 0, firmwareLoadComplete := False,
              tmrDMACommand := None, tmrBuffer := None, tmrBusAddr := 0, tmrSize := 0, tmrSetUp := False,
              psp_fenceDMACommand := None, psp_fenceBuffer := None, fenceBusAddr := 0,
              psp_cmdDMACommand := None, psp_cmdBuffer := None, cmdBusAddr := 0,
              ringBusAddr := 0, psp_ringSize := 0, ringCreated := False,
              fwPriDMACommand := None, fwPriBuffer := None, fwPriBusAddr := 0, fwPriSize := 0, sosAlive := False,
              fwBufSysmemDMA := None, fwBufSysmemBuffer := None, fwBufSysmemCPU := 0, fwBufSysmemBusAddr := 0,
              fwBufBaseMC := 0, fwBufBumpOffset := 0\<rparr>, d))"

section \<open>The bootloader\<close>

definition psp_is_sos_alive :: "'d DeviceContext \<Rightarrow> 'd \<Rightarrow> bool \<times> 'd" where
  "psp_is_sos_alive dev d =
     (if \<not> ip_isResolved (dev_ip dev) MP0 then (False, d)
      else let (sol, d) = RREG32 dev (mp0_reg dev MP0_C2PMSG_81) d in (sol \<noteq> 0 \<and> sol \<noteq> 0xFFFFFFFF, d))"

definition psp_wait_for_bootloader :: "'d DeviceContext \<Rightarrow> 'd \<Rightarrow> (bool \<times> 'd) option" where
  "psp_wait_for_bootloader dev d =
     (if \<not> ip_isResolved (dev_ip dev) MP0 then Some (False, d)
      else map_option (\<lambda>((ok, _), d). (ok, d))
             (poll_reg dev (mp0_reg dev MP0_C2PMSG_35) kPSPBootloaderReadyBit kPSPBootloaderReadyBit
                (10 * 1000000) d))"

text \<open>The primary buffer is cleared before a firmware is put at its start.\<close>

definition stage_fw_pri :: "'d DeviceContext \<Rightarrow> PSPContext \<Rightarrow> bytes \<Rightarrow> 'd \<Rightarrow> 'd" where
  "stage_fw_pri dev psp src d =
     bar0_memcpy_to_vram dev kFwPriVRAMOffset src
       (bar0_memset_vram dev kFwPriVRAMOffset 0 (unat (fwPriSize psp)) d)"

definition kick_bootloader :: "'d DeviceContext \<Rightarrow> PSPContext \<Rightarrow> u32 \<Rightarrow> 'd \<Rightarrow> 'd" where
  "kick_bootloader dev psp cmd d =
     WREG32 dev (mp0_reg dev MP0_C2PMSG_35) cmd
       (WREG32 dev (mp0_reg dev MP0_C2PMSG_36) (ucast (drop_bit 20 (fwPriBusAddr psp))) d)"

definition kSOSBudgetUs :: u64 where "kSOSBudgetUs = 5 * 1000000"

partial_function (option) sos_wait :: "'d DeviceContext \<Rightarrow> u32 \<Rightarrow> u64 \<Rightarrow> u64 \<Rightarrow> 'd \<Rightarrow> (kern_return \<times> 'd) option" where
  "sos_wait dev before start elapsed d =
     (if \<not> elapsed < kSOSBudgetUs then Some (kIOReturnTimeout, d)
      else let (v, d) = RREG32 dev (mp0_reg dev MP0_C2PMSG_81) d
        in if v = 0xFFFFFFFF then Some (kIOReturnNotAttached, d)
        else let d = snd (now_ns dev d)
        in if v \<noteq> before \<and> v \<noteq> 0 then Some (kIOReturnSuccess, d)
        else let (now, d) = now_ns dev (sleep_ms dev 1 d)
          in sos_wait dev before start ((now - start) div 1000) d)"

declare sos_wait.simps [code]

definition psp_load_sos :: "'d DeviceContext \<Rightarrow> PSPContext \<Rightarrow> 'd \<Rightarrow> (PSPContext, 'd) outcome" where
  "psp_load_sos dev psp d =
     (if fwPriSize psp = 0 then Some ((kIOReturnNotReady, psp), d)
      else case sosFirmware psp of
        None \<Rightarrow> Some ((kIOReturnBadArgument, psp), d)
      | Some src \<Rightarrow>
          if sosFirmwareSize psp = 0 then Some ((kIOReturnBadArgument, psp), d)
          else if fwPriSize psp < sosFirmwareSize psp then Some ((kIOReturnNoSpace, psp), d)
          else if \<not> ip_isResolved (dev_ip dev) MP0 then Some ((kIOReturnNotReady, psp), d)
          else let (alive, d) = psp_is_sos_alive dev d
            in if alive then Some ((kIOReturnSuccess, psp\<lparr>sosAlive := True\<rparr>), d)
            else (case psp_wait_for_bootloader dev d of
                None \<Rightarrow> None
              | Some (ok, d) \<Rightarrow>
                  if \<not> ok then Some ((kIOReturnTimeout, psp), d)
                  else let d = stage_fw_pri dev psp (take (unat (sosFirmwareSize psp)) src) d;
                           (before, d) = RREG32 dev (mp0_reg dev MP0_C2PMSG_81) d;
                           d = sleep_ms dev 20 (kick_bootloader dev psp LoadSOSDrv d);
                           (start, d) = now_ns dev d
                    in map_option (\<lambda>(r, d). ((r, if r = kIOReturnSuccess then psp\<lparr>sosAlive := True\<rparr> else psp), d))
                         (sos_wait dev before start 0 d)))"

definition psp_bootloader_load_component ::
  "'d DeviceContext \<Rightarrow> PSPContext \<Rightarrow> bytes option \<Rightarrow> u64 \<Rightarrow> u32 \<Rightarrow> 'd \<Rightarrow> (kern_return \<times> 'd) option"
where
  "psp_bootloader_load_component dev psp source binSize bl_cmd d =
     (if fwPriSize psp = 0 then Some (kIOReturnNotReady, d)
      else case source of
        None \<Rightarrow> Some (kIOReturnBadArgument, d)
      | Some src \<Rightarrow>
          if binSize = 0 \<or> fwPriSize psp < binSize then Some (kIOReturnBadArgument, d)
          else if \<not> ip_isResolved (dev_ip dev) MP0 then Some (kIOReturnNotReady, d)
          else let (alive, d) = psp_is_sos_alive dev d
            in if alive then Some (kIOReturnSuccess, d)
            else (case psp_wait_for_bootloader dev d of
                None \<Rightarrow> None
              | Some (ok, d) \<Rightarrow>
                  if \<not> ok then Some (kIOReturnTimeout, d)
                  else map_option (\<lambda>(ok, d). (if ok then kIOReturnSuccess else kIOReturnTimeout, d))
                         (psp_wait_for_bootloader dev
                            (kick_bootloader dev psp bl_cmd
                               (stage_fw_pri dev psp (take (unat binSize) src) d)))))"

end
