(* ===== verification/Psp_Ring.thy ===== *)
theory Psp_Ring
  imports Psp
begin

text \<open>
  The command ring of the secure processor, in \<^verbatim>\<open>dext/amdgpu/psp_v14_0.cpp\<close>: its creation, the submission of a
  command, and the commands. A command is a buffer of 1024 bytes whose identifier and arguments are the only
  words set; its answer is read from the same buffer. The status a caller did not receive is zero, the value every
  caller gave its variable.
\<close>

section \<open>Creation\<close>

definition ring_program :: "'d DeviceContext \<Rightarrow> PSPContext \<Rightarrow> 'd \<Rightarrow> 'd" where
  "ring_program dev psp d =
     (let d = WREG32 dev (mp0_reg dev MP0_C2PMSG_69) (ucast (ringBusAddr psp AND 0xFFFFFFFF)) d;
          d = WREG32 dev (mp0_reg dev MP0_C2PMSG_70) (ucast (drop_bit 32 (ringBusAddr psp))) d;
          d = WREG32 dev (mp0_reg dev MP0_C2PMSG_71) (ucast (psp_ringSize psp)) d
      in WREG32 dev (mp0_reg dev MP0_C2PMSG_64) (push_bit 16 kPSPRingTypeKM) d)"

definition ring_buffers :: "'d DeviceContext \<Rightarrow> u64 \<Rightarrow> PSPContext \<Rightarrow> 'd \<Rightarrow> PSPContext \<times> 'd" where
  "ring_buffers dev fb psp d =
     (psp\<lparr>ringCreated := True, cmdBusAddr := fb + kCmdBufVRAMOffset, fenceBusAddr := fb + kFenceVRAMOffset,
          fenceCounter := 0\<rparr>,
      bar0_memset_vram dev kFenceVRAMOffset 0 kPSPFenceBufSize
        (bar0_memset_vram dev kCmdBufVRAMOffset 0 kPSPCmdBufSize d))"

definition psp_ring_create :: "'d DeviceContext \<Rightarrow> PSPContext \<Rightarrow> 'd \<Rightarrow> (PSPContext, 'd) outcome" where
  "psp_ring_create dev psp d =
     (if ringCreated psp then Some ((kIOReturnSuccess, psp), d)
      else if \<not> sosAlive psp then Some ((kIOReturnNotReady, psp), d)
      else if \<not> ip_isResolved (dev_ip dev) MP0 then Some ((kIOReturnNotReady, psp), d)
      else let (fb, d) = psp_read_vram_start dev d
        in if fb = 0 then Some ((kIOReturnNotReady, psp), d)
        else let psp = psp\<lparr>ringBusAddr := fb + kRingVRAMOffset, psp_ringSize := kPSPKMRingSize\<rparr>;
                 d = bar0_memset_vram dev kRingVRAMOffset 0 kPSPKMRingBufSize d;
                 d = snd (RREG32 dev (mp0_reg dev MP0_C2PMSG_64) d);
                 d = snd (RREG32 dev (mp0_reg dev MP0_C2PMSG_81) d)
        in (case poll_reg dev (mp0_reg dev MP0_C2PMSG_64) kPSPMboxRespMask kPSPMboxRespFlag (5 * 1000000) d of
              None \<Rightarrow> None
            | Some ((ok, _), d) \<Rightarrow>
                if \<not> ok then Some ((kIOReturnTimeout, psp), d)
                else (case poll_psp_response dev (mp0_reg dev MP0_C2PMSG_64) kPSPMboxRespMask kPSPMboxRespFlag
                             (5 * 1000000) (sleep_ms dev 20 (ring_program dev psp d)) of
                        None \<Rightarrow> None
                      | Some ((r, _), d) \<Rightarrow>
                          if r \<noteq> kIOReturnSuccess
                          then Some ((r, psp), snd (RREG32 dev (mp0_reg dev MP0_C2PMSG_81) d))
                          else let (psp, d) = ring_buffers dev fb psp d in Some ((kIOReturnSuccess, psp), d))))"

section \<open>Submission\<close>

text \<open>The frame in the ring: only the addresses and the fence value are set.\<close>

definition psp_gfx_rb_frame :: "PSPContext \<Rightarrow> u32 \<Rightarrow> u32 list" where
  "psp_gfx_rb_frame psp fence =
     [ucast (cmdBusAddr psp AND 0xFFFFFFFF), ucast (drop_bit 32 (cmdBusAddr psp)), 0,
      ucast (fenceBusAddr psp AND 0xFFFFFFFF), ucast (drop_bit 32 (fenceBusAddr psp)), fence] @ replicate 10 0"

definition kFrameSizeDw :: u32 where "kFrameSizeDw = 16"

definition frame_slot :: "u32 \<Rightarrow> u32 \<Rightarrow> u32" where
  "frame_slot ringSizeDw wptr = (if wptr mod ringSizeDw = 0 then 0 else wptr div kFrameSizeDw)"

partial_function (option) fence_wait :: "'d DeviceContext \<Rightarrow> u32 \<Rightarrow> u64 \<Rightarrow> u64 \<Rightarrow> u32 \<Rightarrow> 'd \<Rightarrow> (kern_return \<times> 'd) option" where
  "fence_wait dev fence start elapsed observed d =
     (if \<not> elapsed < 1 * 1000000
      then Some (if observed \<noteq> fence then kIOReturnTimeout else kIOReturnSuccess, d)
      else let (observed, d) = RBAR2_32 dev kFenceVRAMOffset d
        in if observed = 0xFFFFFFFF then Some (kIOReturnNotAttached, d)
        else if observed = fence then Some (kIOReturnSuccess, d)
        else let (now, d) = now_ns dev (sleep_ms dev 1 d)
          in fence_wait dev fence start ((now - start) div 1000) observed d)"

declare fence_wait.simps [code]

text \<open>The command, the fence and the frame are written, then the write pointer moves.\<close>

definition ring_publish :: "'d DeviceContext \<Rightarrow> PSPContext \<Rightarrow> bytes \<Rightarrow> u32 \<Rightarrow> u32 \<Rightarrow> u32 \<Rightarrow> 'd \<Rightarrow> 'd" where
  "ring_publish dev psp cmd slot next_wptr fence d =
     (let d = bar0_memcpy_to_vram dev kCmdBufVRAMOffset cmd d;
          d = WBAR0_32 dev kFenceVRAMOffset 0 d;
          d = bar0_memcpy_to_vram dev (kRingVRAMOffset + ucast slot * 64) (dw_bytes (psp_gfx_rb_frame psp fence)) d;
          d = amdgpu_hdp_flush dev d
      in WREG32 dev (mp0_reg dev MP0_C2PMSG_67) next_wptr d)"

definition kRespStatusOffset :: u64 where "kRespStatusOffset = 864"

definition ring_answer :: "'d DeviceContext \<Rightarrow> PSPContext \<Rightarrow> u32 \<Rightarrow> 'd \<Rightarrow> (u32 \<times> PSPContext, 'd) outcome" where
  "ring_answer dev psp fence d =
     (let (start, d) = now_ns dev d
      in case fence_wait dev fence start 0 0 d of
           None \<Rightarrow> None
         | Some (r, d) \<Rightarrow>
             if r \<noteq> kIOReturnSuccess then Some ((r, 0, psp), d)
             else let (status, d) = RBAR2_32 dev (kCmdBufVRAMOffset + kRespStatusOffset) d
               in Some ((if status \<noteq> 0 then kIOReturnError else kIOReturnSuccess, status, psp), d))"

definition psp_ring_cmd_submit ::
  "'d DeviceContext \<Rightarrow> PSPContext \<Rightarrow> bytes \<Rightarrow> 'd \<Rightarrow> (u32 \<times> PSPContext, 'd) outcome"
where
  "psp_ring_cmd_submit dev psp cmd d =
     (if \<not> ringCreated psp then Some ((kIOReturnNotReady, 0, psp), d)
      else if length cmd \<noteq> kPSPGfxCmdRespSize then Some ((kIOReturnBadArgument, 0, psp), d)
      else if \<not> ip_isResolved (dev_ip dev) MP0 then Some ((kIOReturnNotReady, 0, psp), d)
      else let ringSizeBytes = ucast (psp_ringSize psp) :: u32; ringSizeDw = ringSizeBytes div 4;
               (wptr, d) = RREG32 dev (mp0_reg dev MP0_C2PMSG_67) d;
               slot = frame_slot ringSizeDw wptr
        in if ringSizeBytes div 64 \<le> slot then Some ((kIOReturnInternalError, 0, psp), d)
        else let fence = fenceCounter psp + 1; psp = psp\<lparr>fenceCounter := fence\<rparr>
          in ring_answer dev psp fence
               (ring_publish dev psp cmd slot ((wptr + kFrameSizeDw) mod ringSizeDw) fence d))"

section \<open>Commands\<close>

text \<open>The header has seven words, of which the third is the identifier; the arguments follow.\<close>

definition gfx_command :: "u32 \<Rightarrow> u32 list \<Rightarrow> bytes" where
  "gfx_command cmd_id args = dw_bytes ([0, 0, cmd_id, 0, 0, 0, 0] @ args @ replicate (249 - length args) 0)"

definition addr_args :: "u64 \<Rightarrow> u32 list" where
  "addr_args a = [ucast (a AND 0xFFFFFFFF), ucast (drop_bit 32 a)]"

definition psp_load_ip_fw ::
  "'d DeviceContext \<Rightarrow> PSPContext \<Rightarrow> u64 \<Rightarrow> u32 \<Rightarrow> u32 \<Rightarrow> 'd \<Rightarrow> (PSPContext, 'd) outcome"
where
  "psp_load_ip_fw dev psp fwBusAddr fwSize fwType d =
     (if \<not> tmrSetUp psp then Some ((kIOReturnNotReady, psp), d)
      else if fwBusAddr = 0 \<or> fwSize = 0 then Some ((kIOReturnBadArgument, psp), d)
      else if fwBusAddr AND 3 \<noteq> 0 then Some ((kIOReturnNotAligned, psp), d)
      else map_option (\<lambda>((r, _, psp), d). ((r, psp), d))
             (psp_ring_cmd_submit dev psp (gfx_command GFX_CMD_LOAD_IP_FW (addr_args fwBusAddr @ [fwSize, fwType])) d))"

definition reservation_query ::
  "u32 \<Rightarrow> 'd DeviceContext \<Rightarrow> PSPContext \<Rightarrow> 'd \<Rightarrow> (PSPContext, 'd) outcome"
where
  "reservation_query cmd_id dev psp d =
     (case psp_ring_cmd_submit dev psp (gfx_command cmd_id []) d of
        None \<Rightarrow> None
      | Some ((r, resp, psp), d) \<Rightarrow>
          if r = kIOReturnSuccess
          then let d = snd (RBAR2_32 dev (kCmdBufVRAMOffset + (864 + 64) + 0) d);
                   d = snd (RBAR2_32 dev (kCmdBufVRAMOffset + (864 + 64) + 4) d);
                   d = snd (RBAR2_32 dev (kCmdBufVRAMOffset + (864 + 64) + 8) d)
            in Some ((kIOReturnSuccess, psp), d)
          else if r = kIOReturnError \<and> resp AND 0xFFFF = 0x100 then Some ((kIOReturnSuccess, psp), d)
          else Some ((r, psp), d))"

definition psp_query_fw_reservation :: "'d DeviceContext \<Rightarrow> PSPContext \<Rightarrow> 'd \<Rightarrow> (PSPContext, 'd) outcome" where
  "psp_query_fw_reservation dev psp d =
     (if \<not> ringCreated psp then Some ((kIOReturnNotReady, psp), d)
      else and_then (reservation_query GFX_CMD_FB_FW_RESERV_ADDR dev psp d)
             (reservation_query GFX_CMD_FB_FW_RESERV_EXT_ADDR dev))"

text \<open>A table of contents that is already staged; the size of the trusted region is read from the answer.\<close>

definition submit_toc ::
  "'d DeviceContext \<Rightarrow> PSPContext \<Rightarrow> bytes \<Rightarrow> 'd \<Rightarrow> (u32 \<times> u32 \<times> PSPContext, 'd) outcome"
where
  "submit_toc dev psp payload d =
     (let d = amdgpu_hdp_flush dev (stage_fw_pri dev psp payload d)
      in case psp_ring_cmd_submit dev psp
                (gfx_command GFX_CMD_LOAD_TOC (addr_args (fwPriBusAddr psp) @ [word_of_nat (length payload)])) d of
           None \<Rightarrow> None
         | Some ((r, resp, psp), d) \<Rightarrow>
             if r \<noteq> kIOReturnSuccess then Some ((r, 0, resp, psp), d)
             else let (tmr, d) = RBAR2_32 dev (kCmdBufVRAMOffset + 16) d
               in Some ((kIOReturnSuccess, tmr, resp, psp), d))"

definition psp_load_toc ::
  "'d DeviceContext \<Rightarrow> PSPContext \<Rightarrow> bytes option \<Rightarrow> u32 \<Rightarrow> 'd \<Rightarrow> (u32 \<times> u32 \<times> PSPContext, 'd) outcome"
where
  "psp_load_toc dev psp source tocSize d =
     (if \<not> ringCreated psp then Some ((kIOReturnNotReady, 0, 0, psp), d)
      else case source of
        None \<Rightarrow> Some ((kIOReturnBadArgument, 0, 0, psp), d)
      | Some bin \<Rightarrow>
          if tocSize < 32 then Some ((kIOReturnBadArgument, 0, 0, psp), d)
          else do {
            off \<leftarrow> rdf32 bin common_firmware_header ''ucode_array_offset_bytes'';
            sz \<leftarrow> rdf32 bin common_firmware_header ''ucode_size_bytes'';
            if off = 0 \<or> ucast tocSize < (ucast off + ucast sz :: u64)
            then Some ((kIOReturnBadArgument, 0, 0, psp), d)
            else if fwPriSize psp < ucast sz then Some ((kIOReturnNoSpace, 0, 0, psp), d)
            else submit_toc dev psp (take (unat sz) (drop (unat off) bin)) d })"

definition psp_load_toc_subbin ::
  "'d DeviceContext \<Rightarrow> PSPContext \<Rightarrow> bytes option \<Rightarrow> u32 \<Rightarrow> 'd \<Rightarrow> (u32 \<times> u32 \<times> PSPContext, 'd) outcome"
where
  "psp_load_toc_subbin dev psp source subSize d =
     (if \<not> ringCreated psp then Some ((kIOReturnNotReady, 0, 0, psp), d)
      else case source of
        None \<Rightarrow> Some ((kIOReturnBadArgument, 0, 0, psp), d)
      | Some bin \<Rightarrow>
          if subSize = 0 then Some ((kIOReturnBadArgument, 0, 0, psp), d)
          else if fwPriSize psp < ucast subSize then Some ((kIOReturnNoSpace, 0, 0, psp), d)
          else submit_toc dev psp (take (unat subSize) bin) d)"

text \<open>The bytes a part of the package points to.\<close>

definition bin_bytes :: "PSPContext \<Rightarrow> sub_bin \<Rightarrow> bytes option" where
  "bin_bytes psp b = map_option (\<lambda>start. take (unat (sb_size (psp_bins psp b))) (drop start (sos_fw_blob psp)))
     (sb_start (psp_bins psp b))"

definition psp_setup_tmr :: "'d DeviceContext \<Rightarrow> PSPContext \<Rightarrow> 'd \<Rightarrow> (PSPContext, 'd) outcome" where
  "psp_setup_tmr dev psp d =
     (if tmrSetUp psp then Some ((kIOReturnSuccess, psp), d)
      else if \<not> ringCreated psp then Some ((kIOReturnNotReady, psp), d)
      else if kIP_PSP_major = 14
      then let psp = psp\<lparr>tmrBusAddr := 0, tmrSize := 0\<rparr>
        in if bin_bytes psp SB_toc \<noteq> None \<and> 0 < sb_size (psp_bins psp SB_toc)
        then map_option (\<lambda>((r, _, _, psp), d). ((r, if r = kIOReturnSuccess then psp\<lparr>tmrSetUp := True\<rparr> else psp), d))
               (psp_load_toc_subbin dev psp (bin_bytes psp SB_toc) (ucast (sb_size (psp_bins psp SB_toc))) d)
        else Some ((kIOReturnSuccess, psp\<lparr>tmrSetUp := True\<rparr>), d)
      else let (fb, d) = psp_read_vram_start dev d
        in if fb = 0 then Some ((kIOReturnNotReady, psp), d)
        else let tmr = fb + kTMRVRAMOffset;
                 psp = psp\<lparr>tmrBuffer := None, tmrDMACommand := None, tmrBusAddr := tmr, tmrSize := kPSPTMRDefaultSize\<rparr>
        in map_option (\<lambda>((r, _, psp), d). ((r, if r = kIOReturnSuccess then psp\<lparr>tmrSetUp := True\<rparr> else psp), d))
             (psp_ring_cmd_submit dev psp
                (gfx_command GFX_CMD_SETUP_TMR (addr_args tmr @ [ucast kPSPTMRDefaultSize, 2] @ addr_args tmr)) d))"

definition psp_rlc_autoload_start :: "'d DeviceContext \<Rightarrow> PSPContext \<Rightarrow> 'd \<Rightarrow> (PSPContext, 'd) outcome" where
  "psp_rlc_autoload_start dev psp d =
     (if \<not> ringCreated psp then Some ((kIOReturnNotReady, psp), d)
      else map_option (\<lambda>((r, _, psp), d). ((r, psp), d))
             (psp_ring_cmd_submit dev psp (gfx_command GFX_CMD_AUTOLOAD_RLC []) d))"

section \<open>The register list\<close>

text \<open>Every dword is read back through the index registers; the last may be partial.\<close>

function rl_verify :: "'d DeviceContext \<Rightarrow> bytes \<Rightarrow> nat \<Rightarrow> 'd \<Rightarrow> bool \<times> 'd" where
  "rl_verify dev src off d =
     (if off < length src
      then let (observed, d) = RVRAM32_via_mm dev (kFwPriVRAMOffset + word_of_nat off) d;
               n = min 4 (length src - off)
        in if take n (bytes32 observed) \<noteq> take n (drop off src) then (False, d) else rl_verify dev src (off + 4) d
      else (True, d))"
  by pat_completeness auto
termination by (relation "measure (\<lambda>(dev, src, off, d). length src - off)") auto

declare rl_verify.simps [simp del]

definition psp_rl_load :: "'d DeviceContext \<Rightarrow> PSPContext \<Rightarrow> 'd \<Rightarrow> (PSPContext, 'd) outcome" where
  "psp_rl_load dev psp d =
     (if \<not> ringCreated psp then Some ((kIOReturnNotReady, psp), d)
      else case bin_bytes psp SB_rl of
        None \<Rightarrow> Some ((kIOReturnSuccess, psp), d)
      | Some src \<Rightarrow>
          let sz = sb_size (psp_bins psp SB_rl)
          in if sz = 0 then Some ((kIOReturnSuccess, psp), d)
          else if fwPriSize psp = 0 then Some ((kIOReturnNotReady, psp), d)
          else if fwPriSize psp < sz then Some ((kIOReturnNoMemory, psp), d)
          else let (ok, d) = rl_verify dev src 0 (amdgpu_hdp_flush dev (stage_fw_pri dev psp src d))
            in if \<not> ok then Some ((kIOReturnIOError, psp), d)
               else psp_load_ip_fw dev psp (fwPriBusAddr psp) (ucast sz) PSPGfxFwType_REG_LIST d)"

section \<open>The trusted application\<close>

definition TA_FW_TYPE_PSP_ASD :: u32 where "TA_FW_TYPE_PSP_ASD = 1"

text \<open>A slice is put in the next free slot of the firmware buffer, in host memory when that backs it, else in VRAM.\<close>

definition fw_slot_size :: "u32 \<Rightarrow> u64" where
  "fw_slot_size n = (ucast n + 0x1000 - 1) AND NOT (0x1000 - 1)"

definition stage_fw_slot :: "'d DeviceContext \<Rightarrow> 'd psp_os \<Rightarrow> PSPContext \<Rightarrow> u64 \<Rightarrow> bytes \<Rightarrow> 'd \<Rightarrow> 'd" where
  "stage_fw_slot dev pos psp slot_off src d =
     (if fwBufSysmemCPU psp \<noteq> 0 then cpu_copy pos (fwBufSysmemCPU psp + slot_off) src d
      else amdgpu_hdp_flush dev (bar0_memcpy_to_vram dev (fwBufVRAMOffset psp + slot_off) src d))"

definition stage_asd ::
  "'d DeviceContext \<Rightarrow> 'd psp_os \<Rightarrow> PSPContext \<Rightarrow> bytes \<Rightarrow> u32 \<Rightarrow> u32 \<Rightarrow> 'd \<Rightarrow> (kern_return \<times> PSPContext) \<times> 'd"
where
  "stage_asd dev pos psp src n version d =
     (let slot_off = fwBufBumpOffset psp; slot_sz = fw_slot_size n
      in if fwBufSize psp < slot_off + slot_sz then ((kIOReturnNoSpace, psp), d)
      else let d = stage_fw_slot dev pos psp slot_off src d
        in ((kIOReturnSuccess, psp\<lparr>fwBufBumpOffset := slot_off + slot_sz,
              psp_asd := \<lparr>asd_parsed = True, asd_size = n, asd_version = version,
                asd_mc_addr = fwBufBaseMC psp + slot_off, asd_vram_off = fwBufVRAMOffset psp + slot_off,
                asd_session = 0, asd_resp = 0\<rparr>\<rparr>), d))"

text \<open>The descriptor \<open>i\<close> of a package whose array of descriptors starts at \<open>start\<close>: its type, version, offset, size.\<close>

definition rd_desc :: "bytes \<Rightarrow> nat \<Rightarrow> nat \<Rightarrow> (u32 \<times> u32 \<times> u32 \<times> u32) option" where
  "rd_desc bin start i = (let p = start + i * layout_size psp_fw_bin_desc in
     do { t \<leftarrow> rd32le bin p; v \<leftarrow> rd32le bin (p + 4); off \<leftarrow> rd32le bin (p + 8); sz \<leftarrow> rd32le bin (p + 12);
          Some (t, v, off, sz) })"

text \<open>The number of descriptors left comes last.\<close>

fun ta_walk ::
  "'d DeviceContext \<Rightarrow> 'd psp_os \<Rightarrow> PSPContext \<Rightarrow> bytes \<Rightarrow> u64 \<Rightarrow> u32 \<Rightarrow> nat \<Rightarrow> nat \<Rightarrow> 'd \<Rightarrow> (PSPContext, 'd) outcome"
where
  "ta_walk dev pos psp bin ta_size ucode_off i 0 d = Some ((kIOReturnSuccess, psp), d)"
| "ta_walk dev pos psp bin ta_size ucode_off i (Suc n) d = do {
     (t, v, off, sz) \<leftarrow> rd_desc bin (layout_size ta_firmware_header_v2_0) i;
     if t \<noteq> TA_FW_TYPE_PSP_ASD \<or> sz = 0 then ta_walk dev pos psp bin ta_size ucode_off (i + 1) n d
     else if ta_size < ucast ucode_off + ucast off + ucast sz then Some ((kIOReturnBadArgument, psp), d)
     else Some (stage_asd dev pos psp (take (unat sz) (drop (unat ucode_off + unat off) bin)) sz v d) }"

definition psp_parse_ta_microcode ::
  "'d DeviceContext \<Rightarrow> 'd psp_os \<Rightarrow> PSPContext \<Rightarrow> bytes option \<Rightarrow> u64 \<Rightarrow> 'd \<Rightarrow> (PSPContext, 'd) outcome"
where
  "psp_parse_ta_microcode dev pos psp source ta_size d =
     (let psp = psp\<lparr>psp_asd := asd_zero\<rparr>
      in case source of
        None \<Rightarrow> Some ((kIOReturnBadArgument, psp), d)
      | Some bin \<Rightarrow>
          if ta_size < 32 then Some ((kIOReturnBadArgument, psp), d)
          else do {
            ucode_off \<leftarrow> rdf32 bin common_firmware_header ''ucode_array_offset_bytes'';
            major \<leftarrow> rdf16 bin common_firmware_header ''header_version_major'';
            if ta_size < ucast ucode_off then Some ((kIOReturnBadArgument, psp), d)
            else if major \<noteq> 2 then Some ((kIOReturnUnsupported, psp), d)
            else do {
              count \<leftarrow> rdf32 bin ta_firmware_header_v2_0 ''ta_fw_bin_count'';
              if count = 0 \<or> 64 < count then Some ((kIOReturnBadArgument, psp), d)
              else if ta_size < 36 + ucast count * 16 then Some ((kIOReturnBadArgument, psp), d)
              else ta_walk dev pos psp bin ta_size ucode_off 0 (unat count) d } })"

definition psp_asd_initialize :: "'d DeviceContext \<Rightarrow> PSPContext \<Rightarrow> 'd \<Rightarrow> (PSPContext, 'd) outcome" where
  "psp_asd_initialize dev psp d =
     (if \<not> ringCreated psp then Some ((kIOReturnNotReady, psp), d)
      else if \<not> asd_parsed (psp_asd psp) \<or> asd_size (psp_asd psp) = 0 then Some ((kIOReturnSuccess, psp), d)
      else (case psp_ring_cmd_submit dev psp
                   (gfx_command GFX_CMD_LOAD_ASD (addr_args (asd_mc_addr (psp_asd psp)) @ [asd_size (psp_asd psp), 0, 0, 0])) d of
              None \<Rightarrow> None
            | Some ((r, resp, psp), d) \<Rightarrow>
                let psp = psp\<lparr>psp_asd := (psp_asd psp)\<lparr>asd_resp := resp\<rparr>\<rparr>
                in if r \<noteq> kIOReturnSuccess then Some ((r, psp), d)
                else let (session, d) = RBAR2_32 dev (kCmdBufVRAMOffset + (864 + 4)) d
                  in Some ((kIOReturnSuccess, psp\<lparr>psp_asd := (psp_asd psp)\<lparr>asd_session := session\<rparr>\<rparr>), d)))"

end
