(* ===== verification/Psp_Package.thy ===== *)
theory Psp_Package
  imports Psp_Ring
begin

text \<open>
  The package of the secure processor's own firmware, in \<^verbatim>\<open>dext/amdgpu/psp_v14_0.cpp\<close>: its parser, the private
  copy the driver keeps of it, the order in which the bootloader gets its parts, and the order of the firmware
  the ring gets afterwards.
\<close>

section \<open>Parts of a package\<close>

definition set_sub_bin :: "sub_bin \<Rightarrow> u32 \<Rightarrow> u32 \<Rightarrow> u32 \<Rightarrow> u32 \<Rightarrow> PSPContext \<Rightarrow> PSPContext" where
  "set_sub_bin b ucode_off off sz version psp =
     psp\<lparr>psp_bins := (psp_bins psp)(b :=
       \<lparr>sb_start = (if sz = 0 then None else Some (unat ucode_off + unat off)), sb_size = ucast sz, sb_version = version\<rparr>)\<rparr>"

text \<open>The part a descriptor's type names; the others are ignored.\<close>

definition sub_bin_of :: "u32 \<Rightarrow> sub_bin option" where
  "sub_bin_of fw_type =
     map_of [(1, SB_sos), (2, SB_sys), (3, SB_kdb), (4, SB_toc), (5, SB_spl), (6, SB_rl), (7, SB_soc_drv),
       (8, SB_intf_drv), (9, SB_dbg_drv), (10, SB_ras_drv), (11, SB_ipkeymgr_drv), (12, SB_spdm_drv)] fw_type"

definition desc_inside :: "u64 \<Rightarrow> u32 \<Rightarrow> u32 \<Rightarrow> bool" where
  "desc_inside payload off sz \<longleftrightarrow> ucast off \<le> payload \<and> ucast sz \<le> payload - ucast off"

text \<open>A descriptor of a version 1 package: version, offset, size, each a field with the same prefix.\<close>

definition rd_legacy :: "bytes \<Rightarrow> layout \<Rightarrow> string \<Rightarrow> (u32 \<times> u32 \<times> u32) option" where
  "rd_legacy bin L name =
     do { v \<leftarrow> rdf32 bin L (name @ ''.fw_version''); off \<leftarrow> rdf32 bin L (name @ ''.offset_bytes'');
          sz \<leftarrow> rdf32 bin L (name @ ''.size_bytes''); Some (v, off, sz) }"

definition set_legacy ::
  "bytes \<Rightarrow> u32 \<Rightarrow> layout \<Rightarrow> string \<Rightarrow> sub_bin \<Rightarrow> PSPContext \<Rightarrow> PSPContext option"
where
  "set_legacy bin ucode_off L name b psp =
     do { (v, off, sz) \<leftarrow> rd_legacy bin L name; Some (set_sub_bin b ucode_off off sz v psp) }"

definition v1_header :: "u16 \<Rightarrow> layout option" where
  "v1_header mnr =
     (if mnr = 0 then Some psp_firmware_header_v1_0 else if mnr = 1 then Some psp_firmware_header_v1_1
      else if mnr = 2 then Some psp_firmware_header_v1_2 else if mnr = 3 then Some psp_firmware_header_v1_3 else None)"

text \<open>The array of descriptors behind the common header, checked before any part is set.\<close>

fun v1_descs_inside :: "bytes \<Rightarrow> u64 \<Rightarrow> nat \<Rightarrow> nat \<Rightarrow> bool option" where
  "v1_descs_inside bin payload i 0 = Some True"
| "v1_descs_inside bin payload i (Suc n) = do {
     off \<leftarrow> rd32le bin (32 + i * 12 + 4); sz \<leftarrow> rd32le bin (32 + i * 12 + 8);
     if \<not> desc_inside payload off sz then Some False else v1_descs_inside bin payload (i + 1) n }"

text \<open>The parts of a version 1 package. A minor version of two also sets \<open>toc\<close>, from the field version 1.1 has
  at that place.\<close>

definition v1_parts :: "bytes \<Rightarrow> u32 \<Rightarrow> u16 \<Rightarrow> u32 \<Rightarrow> PSPContext \<Rightarrow> PSPContext option" where
  "v1_parts bin ucode_off mnr ucode_version psp = do {
     (v, off, sz) \<leftarrow> rd_legacy bin psp_firmware_header_v1_0 ''sos'';
     let psp = set_sub_bin SB_sys ucode_off 0 off ucode_version psp;
     let psp = set_sub_bin SB_sos ucode_off off sz v psp;
     psp \<leftarrow> (if 1 \<le> mnr
       then do { psp \<leftarrow> set_legacy bin ucode_off psp_firmware_header_v1_1 ''toc'' SB_toc psp;
                 set_legacy bin ucode_off psp_firmware_header_v1_1 ''kdb'' SB_kdb psp }
       else Some psp);
     psp \<leftarrow> (if mnr = 2 then set_legacy bin ucode_off psp_firmware_header_v1_2 ''kdb'' SB_kdb psp else Some psp);
     if mnr = 3
     then do { psp \<leftarrow> set_legacy bin ucode_off psp_firmware_header_v1_3 ''spl'' SB_spl psp;
               psp \<leftarrow> set_legacy bin ucode_off psp_firmware_header_v1_3 ''rl'' SB_rl psp;
               psp \<leftarrow> set_legacy bin ucode_off psp_firmware_header_v1_3 ''sys_drv_aux'' SB_sys_drv_aux psp;
               set_legacy bin ucode_off psp_firmware_header_v1_3 ''sos_aux'' SB_sos_aux psp }
     else Some psp }"

definition parse_v1 :: "bytes \<Rightarrow> u64 \<Rightarrow> u32 \<Rightarrow> u16 \<Rightarrow> PSPContext \<Rightarrow> (kern_return \<times> PSPContext) option" where
  "parse_v1 bin fw_size ucode_off mnr psp =
     (case v1_header mnr of
        None \<Rightarrow> Some (kIOReturnUnsupported, psp)
      | Some L \<Rightarrow>
          if fw_size < word_of_nat (layout_size L) \<or> ucode_off < word_of_nat (layout_size L)
          then Some (kIOReturnBadArgument, psp)
          else do {
            ok \<leftarrow> v1_descs_inside bin (fw_size - ucast ucode_off) 0 ((layout_size L - 32) div 12);
            if \<not> ok then Some (kIOReturnBadArgument, psp)
            else do {
              v \<leftarrow> rdf32 bin common_firmware_header ''ucode_version'';
              psp \<leftarrow> v1_parts bin ucode_off mnr v psp;
              Some (kIOReturnSuccess, psp) } })"

text \<open>The descriptors of a version 2 package, routed by type; the number left comes before the context.\<close>

fun v2_walk ::
  "bytes \<Rightarrow> u64 \<Rightarrow> u32 \<Rightarrow> nat \<Rightarrow> nat \<Rightarrow> nat \<Rightarrow> PSPContext \<Rightarrow> (kern_return \<times> PSPContext) option"
where
  "v2_walk bin payload ucode_off start i 0 psp = Some (kIOReturnSuccess, psp)"
| "v2_walk bin payload ucode_off start i (Suc n) psp = do {
     (t, v, off, sz) \<leftarrow> rd_desc bin start i;
     if \<not> desc_inside payload off sz then Some (kIOReturnBadArgument, psp)
     else v2_walk bin payload ucode_off start (i + 1) n
            (case sub_bin_of t of None \<Rightarrow> psp | Some b \<Rightarrow> set_sub_bin b ucode_off off sz v psp) }"

definition parse_v2 :: "bytes \<Rightarrow> u64 \<Rightarrow> u32 \<Rightarrow> u16 \<Rightarrow> PSPContext \<Rightarrow> (kern_return \<times> PSPContext) option" where
  "parse_v2 bin fw_size ucode_off mnr psp =
     (let header_bytes = (if mnr = 0 then 36 else 40 :: nat)
      in if 1 < mnr then Some (kIOReturnUnsupported, psp)
      else if fw_size < word_of_nat header_bytes \<or> ucode_off < word_of_nat header_bytes
      then Some (kIOReturnBadArgument, psp)
      else do {
        count \<leftarrow> rdf32 bin psp_firmware_header_v2_0 ''psp_fw_bin_count'';
        if 64 < count then Some (kIOReturnBadArgument, psp)
        else if (ucast ucode_off - word_of_nat header_bytes) div 16 < (ucast count :: u64)
        then Some (kIOReturnBadArgument, psp)
        else v2_walk bin (fw_size - ucast ucode_off) ucode_off header_bytes 0 (unat count) psp })"

definition psp_parse_sos_views ::
  "PSPContext \<Rightarrow> bytes option \<Rightarrow> u64 \<Rightarrow> (kern_return \<times> PSPContext) option"
where
  "psp_parse_sos_views psp source fw_size =
     (let psp = psp\<lparr>psp_bins := (\<lambda>_. no_sub_bin)\<rparr>
      in case source of
        None \<Rightarrow> Some (kIOReturnBadArgument, psp)
      | Some bin \<Rightarrow>
          if fw_size < 32 then Some (kIOReturnBadArgument, psp)
          else do {
            ucode_off \<leftarrow> rdf32 bin common_firmware_header ''ucode_array_offset_bytes'';
            total \<leftarrow> rdf32 bin common_firmware_header ''size_bytes'';
            ucode_size \<leftarrow> rdf32 bin common_firmware_header ''ucode_size_bytes'';
            major \<leftarrow> rdf16 bin common_firmware_header ''header_version_major'';
            mnr \<leftarrow> rdf16 bin common_firmware_header ''header_version_minor'';
            if fw_size < ucast ucode_off then Some (kIOReturnBadArgument, psp)
            else if ucast total \<noteq> fw_size \<or> fw_size - ucast ucode_off < ucast ucode_size
            then Some (kIOReturnBadArgument, psp)
            else let psp = psp\<lparr>sos_fw_blob := bin, sos_fw_blob_size := fw_size\<rparr>
            in if major = 1 then parse_v1 bin fw_size ucode_off mnr psp
            else if major = 2 then parse_v2 bin fw_size ucode_off mnr psp
            else Some (kIOReturnUnsupported, psp) })"

section \<open>The private copy\<close>

definition kMaxPackageBytes :: u64 where "kMaxPackageBytes = 16 * 1024 * 1024"

definition psp_parse_sos_microcode ::
  "'d psp_os \<Rightarrow> PSPContext \<Rightarrow> bytes option \<Rightarrow> u64 \<Rightarrow> 'd \<Rightarrow> (PSPContext, 'd) outcome"
where
  "psp_parse_sos_microcode pos psp source fw_size d =
     (let os = os.truncate pos
      in case source of
        None \<Rightarrow> Some ((kIOReturnBadArgument, psp), d)
      | Some bin \<Rightarrow>
          if fw_size < 32 \<or> kMaxPackageBytes < fw_size then Some ((kIOReturnBadArgument, psp), d)
          else (case buf_create os fw_size kASPageSize d of
              ((r, None), d) \<Rightarrow> Some ((or_else r kIOReturnNoMemory, psp), d)
            | ((r, Some b), d) \<Rightarrow>
                if r \<noteq> kIOReturnSuccess then Some ((r, psp), d)
                else let ((r, address, len), d) = buf_address os b d
                in if r \<noteq> kIOReturnSuccess \<or> address = 0 \<or> len < fw_size
                then Some ((or_else r kIOReturnNoMemory, psp), buf_release os b d)
                else let owned = take (unat fw_size) bin; d = cpu_copy pos address owned d
                in (case psp_parse_sos_views psp (Some owned) fw_size of
                      None \<Rightarrow> None
                    | Some (r, parsed) \<Rightarrow>
                        if r \<noteq> kIOReturnSuccess then Some ((r, psp), buf_release os b d)
                        else Some ((kIOReturnSuccess,
                               parsed\<lparr>sosPackageBuffer := Some b, firmwareLoadComplete := False\<rparr>),
                             drop_buf os (sosPackageBuffer psp) d))))"

section \<open>Loading the package\<close>

text \<open>The bootloader's parts, in order; an absent part is skipped.\<close>

definition package_steps :: "(sub_bin \<times> u32) list" where
  "package_steps = [(SB_kdb, LoadKeyDatabase), (SB_spl, LoadTosSPLTable), (SB_sys, LoadSysDrv),
     (SB_soc_drv, LoadSocDrv), (SB_intf_drv, LoadIntfDrv), (SB_dbg_drv, LoadHADDrv), (SB_ras_drv, LoadRASDrv),
     (SB_ipkeymgr_drv, LoadIPKeyMgrDrv)]"

fun load_parts :: "'d DeviceContext \<Rightarrow> PSPContext \<Rightarrow> (sub_bin \<times> u32) list \<Rightarrow> 'd \<Rightarrow> (kern_return \<times> 'd) option" where
  "load_parts dev psp [] d = Some (kIOReturnSuccess, d)"
| "load_parts dev psp ((b, cmd) # rest) d =
     (if sb_size (psp_bins psp b) = 0 \<or> bin_bytes psp b = None then load_parts dev psp rest d
      else case psp_bootloader_load_component dev psp (bin_bytes psp b) (sb_size (psp_bins psp b)) cmd d of
             None \<Rightarrow> None
           | Some (r, d) \<Rightarrow> if r \<noteq> kIOReturnSuccess then Some (r, d) else load_parts dev psp rest d)"

definition psp_load_sos_package :: "'d DeviceContext \<Rightarrow> PSPContext \<Rightarrow> 'd \<Rightarrow> (PSPContext, 'd) outcome" where
  "psp_load_sos_package dev psp d =
     (let (alive, d) = psp_is_sos_alive dev d
      in if alive then Some ((kIOReturnSuccess, psp\<lparr>sosAlive := True\<rparr>), d)
      else (case load_parts dev psp package_steps d of
          None \<Rightarrow> None
        | Some (r, d) \<Rightarrow>
            if r \<noteq> kIOReturnSuccess then Some ((r, psp), d)
            else if sb_size (psp_bins psp SB_sos) = 0 \<or> bin_bytes psp SB_sos = None
            then Some ((kIOReturnBadArgument, psp), d)
            else map_option (\<lambda>((r, psp), d). ((r, psp\<lparr>sosFirmware := None, sosFirmwareSize := 0\<rparr>), d))
                   (psp_load_sos dev (psp\<lparr>sosFirmware := bin_bytes psp SB_sos,
                                          sosFirmwareSize := sb_size (psp_bins psp SB_sos)\<rparr>) d)))"

section \<open>The other firmware\<close>

text \<open>\<open>FirmwareLoader\<close>: the address and size of the payload of a type, or a result other than success.\<close>

type_synonym 'd firmware_loader = "u32 \<Rightarrow> 'd \<Rightarrow> (kern_return \<times> u64 \<times> u32) \<times> 'd"

definition load_payload ::
  "'d DeviceContext \<Rightarrow> 'd firmware_loader \<Rightarrow> (kern_return \<Rightarrow> kern_return option) \<Rightarrow> u32 \<Rightarrow> PSPContext \<Rightarrow> 'd \<Rightarrow>
     (bool \<times> PSPContext, 'd) outcome"
where
  "load_payload dev loader absent fw psp d =
     (let ((r, bus, sz), d) = loader fw d
      in if r \<noteq> kIOReturnSuccess
      then Some ((case absent r of None \<Rightarrow> kIOReturnSuccess | Some e \<Rightarrow> e, False, psp), d)
      else map_option (\<lambda>((r, psp), d). ((r, True, psp), d)) (psp_load_ip_fw dev psp bus sz fw d))"

text \<open>What a payload the loader does not have means: an error, nothing, or nothing when it says it is unsupported.\<close>

definition required :: "kern_return \<Rightarrow> kern_return option" where "required r = Some r"
definition optional :: "kern_return \<Rightarrow> kern_return option" where "optional r = None"
definition versioned :: "kern_return \<Rightarrow> kern_return option" where
  "versioned r = (if r = kIOReturnUnsupported then None else Some r)"

text \<open>The types in their order. The autoload starts as soon as RLC-G is loaded.\<close>

definition load_order :: "((kern_return \<Rightarrow> kern_return option) \<times> u32) list" where
  "load_order =
     [(required, PSPGfxFwType_SMU), (optional, PSPGfxFwType_IMU_I), (optional, PSPGfxFwType_IMU_D)] @
     map (Pair versioned)
       [PSPGfxFwType_GLOBAL_TAP_DELAYS, PSPGfxFwType_SE0_TAP_DELAYS, PSPGfxFwType_SE1_TAP_DELAYS,
        PSPGfxFwType_SE2_TAP_DELAYS, PSPGfxFwType_SE3_TAP_DELAYS, PSPGfxFwType_RLC_RESTORE_LIST_SRM_CNTL,
        PSPGfxFwType_RLC_RESTORE_LIST_GPM_MEM, PSPGfxFwType_RLC_RESTORE_LIST_SRM_MEM, PSPGfxFwType_RLC_IRAM,
        PSPGfxFwType_RLC_DRAM_BOOT, PSPGfxFwType_RLC_P, PSPGfxFwType_RLC_V, PSPGfxFwType_RLC_G,
        PSPGfxFwType_RS64_PFP, PSPGfxFwType_RS64_PFP_P0, PSPGfxFwType_RS64_PFP_P1, PSPGfxFwType_RS64_ME,
        PSPGfxFwType_RS64_ME_P0, PSPGfxFwType_RS64_ME_P1, PSPGfxFwType_RS64_MEC, PSPGfxFwType_RS64_MEC_P0,
        PSPGfxFwType_RS64_MEC_P1, PSPGfxFwType_RS64_MEC_P2, PSPGfxFwType_RS64_MEC_P3,
        PSPGfxFwType_SDMA_UCODE_TH0, PSPGfxFwType_CP_MES, PSPGfxFwType_CP_MES_DATA]"

fun load_payloads ::
  "'d DeviceContext \<Rightarrow> 'd firmware_loader \<Rightarrow> ((kern_return \<Rightarrow> kern_return option) \<times> u32) list \<Rightarrow> PSPContext \<Rightarrow> 'd \<Rightarrow>
     (PSPContext, 'd) outcome"
where
  "load_payloads dev loader [] psp d = Some ((kIOReturnSuccess, psp), d)"
| "load_payloads dev loader ((absent, fw) # rest) psp d =
     (case load_payload dev loader absent fw psp d of
        None \<Rightarrow> None
      | Some ((r, loaded, psp), d) \<Rightarrow>
          if r \<noteq> kIOReturnSuccess then Some ((r, psp), d)
          else if loaded \<and> fw = PSPGfxFwType_RLC_G
          then and_then (psp_rlc_autoload_start dev psp d) (load_payloads dev loader rest)
          else load_payloads dev loader rest psp d)"

definition psp_load_non_psp_fw ::
  "'d DeviceContext \<Rightarrow> 'd firmware_loader \<Rightarrow> PSPContext \<Rightarrow> 'd \<Rightarrow> (PSPContext, 'd) outcome"
where
  "psp_load_non_psp_fw dev loader = load_payloads dev loader load_order"

end
