(* ===== verification/Nbio.thy ===== *)
theory Nbio
  imports Device
begin

text \<open>
  The bus interface and the doorbells, in \<^verbatim>\<open>dext/amdgpu/amdgpu_init.cpp\<close>, with the registers of
  \<^verbatim>\<open>amdgpu_ip.h\<close>. Two families of the block differ in where the doorbell entries are: in the register window,
  or behind the port's index registers. Reads that are only for a log line are kept.
\<close>

section \<open>Registers\<close>

definition BIF_BX0_REMAP_HDP_MEM_FLUSH_CNTL :: u32 where "BIF_BX0_REMAP_HDP_MEM_FLUSH_CNTL = 0x012D"
definition BIF_BX0_REMAP_HDP_REG_FLUSH_CNTL :: u32 where "BIF_BX0_REMAP_HDP_REG_FLUSH_CNTL = 0x012E"
definition RCC_DEV0_EPF2_STRAP2 :: u32 where "RCC_DEV0_EPF2_STRAP2 = 0x009A"
definition kSTRAP_NO_SOFT_RESET_DEV0_F2_MASK :: u32 where "kSTRAP_NO_SOFT_RESET_DEV0_F2_MASK = 0x00000002"
definition INTERRUPT_CNTL :: u32 where "INTERRUPT_CNTL = 0x00F1"
definition INTERRUPT_CNTL2 :: u32 where "INTERRUPT_CNTL2 = 0x00F2"
definition kINTERRUPT_CNTL_DUMMY_RD_OVERRIDE_MASK :: u32 where "kINTERRUPT_CNTL_DUMMY_RD_OVERRIDE_MASK = 0x00000001"
definition kINTERRUPT_CNTL_REQ_NONSNOOP_EN_MASK :: u32 where "kINTERRUPT_CNTL_REQ_NONSNOOP_EN_MASK = 0x00000008"
definition RCC_DOORBELL_APER_EN :: u32 where "RCC_DOORBELL_APER_EN = 0x00C0"
definition kRCC_DOORBELL_APER_EN_BIT :: u32 where "kRCC_DOORBELL_APER_EN_BIT = 0x00000001"
definition SELFRING_GPA_APER_BASE_HIGH :: u32 where "SELFRING_GPA_APER_BASE_HIGH = 0x00F3"
definition SELFRING_GPA_APER_BASE_LOW :: u32 where "SELFRING_GPA_APER_BASE_LOW = 0x00F4"
definition SELFRING_GPA_APER_CNTL :: u32 where "SELFRING_GPA_APER_CNTL = 0x00F5"

definition s2a_base_offsets :: "u32 list" where
  "s2a_base_offsets = [0x01CB, 0x01CC, 0x01CD, 0x01CE, 0x01CF, 0x01D0]"

definition s2a_nbif_4_10_offsets :: "u32 list" where
  "s2a_nbif_4_10_offsets = [0x4F0AEB, 0x4F0AED, 0x4F0AEF, 0x4F0AF1, 0x4F0AF3, 0x4F0AF5]"

text \<open>A field of a doorbell entry: its mask and shift.\<close>

definition S2A_ENABLE :: field where "S2A_ENABLE = (0x00000001, 0x0)"
definition S2A_AWID :: field where "S2A_AWID = (0x0000003E, 0x1)"
definition S2A_RANGE_OFFSET :: field where "S2A_RANGE_OFFSET = (0x0001FF80, 0x7)"
definition S2A_RANGE_SIZE :: field where "S2A_RANGE_SIZE = (0x01FE0000, 0x11)"
definition S2A_AWADDR_31_28 :: field where "S2A_AWADDR_31_28 = (0xF0000000, 0x1C)"

lemmas s2a_fields = S2A_ENABLE_def S2A_AWID_def S2A_RANGE_OFFSET_def S2A_RANGE_SIZE_def S2A_AWADDR_31_28_def

definition nbio2 :: "'d DeviceContext \<Rightarrow> u32 \<Rightarrow> u32" where
  "nbio2 dev r = SOC15_REG_OFFSET_BIDX dev NBIO 2 r"

definition nbif_is_ip_7_11_4 :: "'d DeviceContext \<Rightarrow> bool" where
  "nbif_is_ip_7_11_4 dev = ip_isVersion (dev_ip dev) NBIO 7 11 4"

section \<open>Set up\<close>

definition nbif_v6_3_1_remap_hdp_registers :: "'d DeviceContext \<Rightarrow> 'd \<Rightarrow> kern_return \<times> 'd" where
  "nbif_v6_3_1_remap_hdp_registers dev d =
     (if \<not> ip_isResolvedIdx (dev_ip dev) NBIO 2 then (kIOReturnNotReady, d)
      else (kIOReturnSuccess,
            WREG32 dev (nbio2 dev BIF_BX0_REMAP_HDP_REG_FLUSH_CNTL) (0x44000 + 0x4)
              (WREG32 dev (nbio2 dev BIF_BX0_REMAP_HDP_MEM_FLUSH_CNTL) (0x44000 + 0x0) d)))"

definition nbif_v6_3_1_init_registers :: "'d DeviceContext \<Rightarrow> 'd \<Rightarrow> kern_return \<times> 'd" where
  "nbif_v6_3_1_init_registers dev d =
     (if \<not> ip_isResolvedIdx (dev_ip dev) NBIO 2 then (kIOReturnNotReady, d)
      else let reg = nbio2 dev RCC_DEV0_EPF2_STRAP2; (old, d) = RREG32 dev reg d;
               new = old AND NOT kSTRAP_NO_SOFT_RESET_DEV0_F2_MASK
        in (kIOReturnSuccess, if old \<noteq> new then WREG32 dev reg new d else d))"

definition nbif_v6_3_1_ih_control :: "'d DeviceContext \<Rightarrow> 'd \<Rightarrow> kern_return \<times> 'd" where
  "nbif_v6_3_1_ih_control dev d =
     (if \<not> ip_isResolvedIdx (dev_ip dev) NBIO 2 then (kIOReturnNotReady, d)
      else let d = WREG32 dev (nbio2 dev INTERRUPT_CNTL2) 0 d; (old, d) = RREG32 dev (nbio2 dev INTERRUPT_CNTL) d
        in (kIOReturnSuccess,
            WREG32 dev (nbio2 dev INTERRUPT_CNTL)
              (old AND NOT kINTERRUPT_CNTL_DUMMY_RD_OVERRIDE_MASK AND NOT kINTERRUPT_CNTL_REQ_NONSNOOP_EN_MASK) d))"

definition nbif_v6_3_1_enable_doorbell_aperture :: "'d DeviceContext \<Rightarrow> bool \<Rightarrow> 'd \<Rightarrow> kern_return \<times> 'd" where
  "nbif_v6_3_1_enable_doorbell_aperture dev enable d =
     (if \<not> ip_isResolvedIdx (dev_ip dev) NBIO 2 then (kIOReturnNotReady, d)
      else let reg = nbio2 dev RCC_DOORBELL_APER_EN; (v, d) = RREG32 dev reg d
        in (kIOReturnSuccess,
            WREG32 dev reg (if enable then v OR kRCC_DOORBELL_APER_EN_BIT else v AND NOT kRCC_DOORBELL_APER_EN_BIT) d))"

definition selfring_enable_bits :: u32 where
  "selfring_enable_bits = (push_bit 0 1 AND 0x00000001) OR (push_bit 1 1 AND 0x00000002) OR (push_bit 8 0 AND 0x000FFF00)"

definition nbif_v6_3_1_enable_doorbell_selfring_aperture ::
  "'d DeviceContext \<Rightarrow> bool \<Rightarrow> 'd \<Rightarrow> kern_return \<times> 'd"
where
  "nbif_v6_3_1_enable_doorbell_selfring_aperture dev enable d =
     (if \<not> ip_isResolvedIdx (dev_ip dev) NBIO 2 then (kIOReturnNotReady, d)
      else let base = db_base (dev_doorbell dev);
               d = (if enable
                    then WREG32 dev (nbio2 dev SELFRING_GPA_APER_BASE_HIGH) (ucast (drop_bit 32 base AND 0xFFFFFFFF))
                           (WREG32 dev (nbio2 dev SELFRING_GPA_APER_BASE_LOW) (ucast (base AND 0xFFFFFFFF)) d)
                    else d)
        in (kIOReturnSuccess,
            WREG32 dev (nbio2 dev SELFRING_GPA_APER_CNTL) (if enable then selfring_enable_bits else 0) d))"

section \<open>Doorbell entries\<close>

definition nbif_read_s2a_entry :: "'d DeviceContext \<Rightarrow> int \<Rightarrow> 'd \<Rightarrow> u32 \<times> 'd" where
  "nbif_read_s2a_entry dev entry d =
     (if entry < 0 \<or> 6 \<le> entry then (0, d)
      else if nbif_is_ip_7_11_4 dev
      then PCIE_PORT_RREG32 dev (SOC15_REG_OFFSET_BIDX dev NBIO 3 (s2a_nbif_4_10_offsets ! nat entry)) d
      else RREG32 dev (nbio2 dev (s2a_base_offsets ! nat entry)) d)"

definition nbif_write_s2a_entry :: "'d DeviceContext \<Rightarrow> int \<Rightarrow> u32 \<Rightarrow> 'd \<Rightarrow> 'd" where
  "nbif_write_s2a_entry dev entry v d =
     (if entry < 0 \<or> 6 \<le> entry then d
      else if nbif_is_ip_7_11_4 dev
      then PCIE_PORT_WREG32 dev (SOC15_REG_OFFSET_BIDX dev NBIO 3 (s2a_nbif_4_10_offsets ! nat entry)) v d
      else WREG32 dev (nbio2 dev (s2a_base_offsets ! nat entry)) v d)"

definition nbif_build_s2a :: "u32 \<Rightarrow> bool \<Rightarrow> u32 \<Rightarrow> u32 \<Rightarrow> u32 \<Rightarrow> u32 \<Rightarrow> u32" where
  "nbif_build_s2a cur enable awid range_offset range_size awaddr_31_28 =
     (let v = (cur AND NOT (fst S2A_ENABLE)) OR push_bit (snd S2A_ENABLE) (if enable then 1 else 0);
          v = REG_SET_FIELD v S2A_AWID awid;
          v = REG_SET_FIELD v S2A_RANGE_OFFSET range_offset;
          v = REG_SET_FIELD v S2A_RANGE_SIZE range_size
      in REG_SET_FIELD v S2A_AWADDR_31_28 awaddr_31_28)"

definition nbif_v6_3_1_sdma_doorbell_range ::
  "'d DeviceContext \<Rightarrow> int \<Rightarrow> bool \<Rightarrow> u32 \<Rightarrow> u32 \<Rightarrow> 'd \<Rightarrow> kern_return \<times> 'd"
where
  "nbif_v6_3_1_sdma_doorbell_range dev inst use_doorbell db_first db_count d =
     (if inst \<noteq> 0 then (kIOReturnSuccess, d)
      else let (v, d) = nbif_read_s2a_entry dev 2 d
        in (kIOReturnSuccess, nbif_write_s2a_entry dev 2
              (if use_doorbell then nbif_build_s2a v True 0xe db_first db_count 0x3 else v AND NOT (fst S2A_RANGE_SIZE)) d))"

definition nbif_v6_3_1_ih_doorbell_range :: "'d DeviceContext \<Rightarrow> bool \<Rightarrow> u32 \<Rightarrow> 'd \<Rightarrow> kern_return \<times> 'd" where
  "nbif_v6_3_1_ih_doorbell_range dev use_doorbell db_first d =
     (let (v, d) = nbif_read_s2a_entry dev 1 d
      in (kIOReturnSuccess, nbif_write_s2a_entry dev 1
            (if use_doorbell then nbif_build_s2a v True 0x0 db_first 2 0x0 else v AND NOT (fst S2A_RANGE_SIZE)) d))"

definition nbif_v6_3_1_gc_doorbell_init :: "'d DeviceContext \<Rightarrow> 'd \<Rightarrow> kern_return \<times> 'd" where
  "nbif_v6_3_1_gc_doorbell_init dev d =
     (kIOReturnSuccess, nbif_write_s2a_entry dev 3 0x3000000D (nbif_write_s2a_entry dev 0 0x30000007 d))"

section \<open>The doorbell map\<close>

definition rdna4_doorbell_index :: DoorbellIndex where
  "rdna4_doorbell_index = \<lparr>db_gfx_ring0 = 0, db_gfx_ring1 = 1,
     db_sdma_engine = (\<lambda>i. 0x100 + word_of_nat i * 0xA), db_ih = 6, db_mes_ring0 = 0x20, db_compute = 0x200,
     db_max_assignment = 0x200\<rparr>"

definition doorbell_init :: "'d DeviceContext \<Rightarrow> DoorbellState \<Rightarrow> kern_return \<times> DoorbellState" where
  "doorbell_init dev db =
     (if bar2MemIndex dev = 0xFF then (kIOReturnNotReady, db)
      else let db = db\<lparr>db_size := 2 * 1024 * 1024, db_index := rdna4_doorbell_index\<rparr>;
               by_size = ucast (db_size db div 4) :: u32; by_idx = db_max_assignment (db_index db) + 1
        in (kIOReturnSuccess, db\<lparr>num_kernel_doorbells := (if by_size < by_idx then by_size else by_idx) + 0x400\<rparr>))"

section \<open>The last step of discovery\<close>

definition PCIE_MST_CTRL_3 :: u32 where "PCIE_MST_CTRL_3 = 0x4201C6"
definition kSWUS_MAX_READ_REQUEST_SIZE_MODE_MASK :: u32 where "kSWUS_MAX_READ_REQUEST_SIZE_MODE_MASK = 0x08000000"
definition kSWUS_MAX_READ_REQUEST_SIZE_PRIV_MASK :: u32 where "kSWUS_MAX_READ_REQUEST_SIZE_PRIV_MASK = 0x30000000"
definition RCC_DEV0_EPF5_STRAP4 :: u32 where "RCC_DEV0_EPF5_STRAP4 = 0xD284"
definition kRCC_DEV0_EPF5_STRAP4_BIT23 :: u32 where "kRCC_DEV0_EPF5_STRAP4_BIT23 = 0x00800000"

text \<open>The largest read request, written only when it changes, and a strap, which is read back.\<close>

definition mst_ctrl_value :: "u32 \<Rightarrow> u32" where
  "mst_ctrl_value v =
     ((((v AND NOT kSWUS_MAX_READ_REQUEST_SIZE_MODE_MASK) OR push_bit 27 1)
         AND NOT kSWUS_MAX_READ_REQUEST_SIZE_PRIV_MASK) OR push_bit 28 1)"

definition nbio_legacy_init :: "'d DeviceContext \<Rightarrow> 'd \<Rightarrow> 'd" where
  "nbio_legacy_init dev d =
     (if \<not> ip_isResolvedIdx (dev_ip dev) NBIO 5 then d
      else let mst = SOC15_REG_OFFSET_BIDX dev NBIO 5 PCIE_MST_CTRL_3;
               strap = SOC15_REG_OFFSET_BIDX dev NBIO 5 RCC_DEV0_EPF5_STRAP4;
               (old, d) = SMN_RREG32 dev mst d;
               d = (if old \<noteq> mst_ctrl_value old then SMN_WREG32 dev mst (mst_ctrl_value old) d else d);
               (strap_old, d) = SMN_RREG32 dev strap d;
               d = SMN_WREG32 dev strap (strap_old AND NOT kRCC_DEV0_EPF5_STRAP4_BIT23) d
        in snd (SMN_RREG32 dev strap d))"

text \<open>The direct and the indirect path to one register are compared for the log.\<close>

definition smn_check :: "'d DeviceContext \<Rightarrow> 'd \<Rightarrow> 'd" where
  "smn_check dev d =
     (if \<not> ip_isResolved (dev_ip dev) MP0 then d
      else let reg = SOC15_REG_OFFSET dev MP0 0x0061 in snd (SMN_RREG32 dev reg (snd (RREG32 dev reg d))))"

definition bringup_ip_discovery :: "'d DeviceContext \<Rightarrow> 'd \<Rightarrow> (kern_return \<times> 'd DeviceContext) \<times> 'd" where
  "bringup_ip_discovery dev d =
     (let dev = dev\<lparr>dev_doorbell := snd (doorbell_init dev (dev_doorbell dev))\<rparr>;
          d = smn_check dev d;
          d = snd (nbif_v6_3_1_init_registers dev d);
          d = snd (nbif_v6_3_1_remap_hdp_registers dev d);
          d = snd (nbif_v6_3_1_enable_doorbell_aperture dev True d);
          d = snd (nbif_v6_3_1_ih_control dev d);
          d = snd (nbif_v6_3_1_gc_doorbell_init dev d);
          d = snd (nbif_v6_3_1_sdma_doorbell_range dev 0 True
                     (push_bit 1 (db_sdma_engine (db_index (dev_doorbell dev)) 0)) (20 * 2) d);
          d = snd (nbif_v6_3_1_enable_doorbell_selfring_aperture dev True d)
      in ((kIOReturnSuccess, dev), nbio_legacy_init dev d))"

section \<open>What a doorbell entry holds\<close>

lemma s2a_fields_ok:
  "field_ok S2A_ENABLE" "field_ok S2A_AWID" "field_ok S2A_RANGE_OFFSET" "field_ok S2A_RANGE_SIZE" "field_ok S2A_AWADDR_31_28"
  "disjoint_fields [S2A_ENABLE, S2A_AWID, S2A_RANGE_OFFSET, S2A_RANGE_SIZE, S2A_AWADDR_31_28]"
  by code_simp+

text \<open>Each field of an entry reads back the value it was given, cut to its width.\<close>

lemma s2a_mask_disjoint [simp]:
  "fst S2A_AWID AND fst S2A_ENABLE = 0" "fst S2A_RANGE_OFFSET AND fst S2A_ENABLE = 0"
  "fst S2A_RANGE_SIZE AND fst S2A_ENABLE = 0" "fst S2A_AWADDR_31_28 AND fst S2A_ENABLE = 0"
  "fst S2A_RANGE_OFFSET AND fst S2A_AWID = 0" "fst S2A_RANGE_SIZE AND fst S2A_AWID = 0"
  "fst S2A_AWADDR_31_28 AND fst S2A_AWID = 0" "fst S2A_RANGE_SIZE AND fst S2A_RANGE_OFFSET = 0"
  "fst S2A_AWADDR_31_28 AND fst S2A_RANGE_OFFSET = 0" "fst S2A_AWADDR_31_28 AND fst S2A_RANGE_SIZE = 0"
  by (simp_all add: s2a_fields)

lemma s2a_enable_as_set_field:
  "(cur AND NOT (fst S2A_ENABLE)) OR push_bit (snd S2A_ENABLE) (if enable then 1 else 0)
     = REG_SET_FIELD cur S2A_ENABLE (if enable then 1 else 0)"
  by (simp add: REG_SET_FIELD_def s2a_fields)

lemma nbif_build_s2a_fields:
  "REG_GET_FIELD (nbif_build_s2a cur enable awid off sz hi) S2A_ENABLE = (if enable then 1 else 0) \<and>
   REG_GET_FIELD (nbif_build_s2a cur enable awid off sz hi) S2A_AWID
     = awid AND drop_bit (snd S2A_AWID) (fst S2A_AWID) \<and>
   REG_GET_FIELD (nbif_build_s2a cur enable awid off sz hi) S2A_RANGE_OFFSET
     = off AND drop_bit (snd S2A_RANGE_OFFSET) (fst S2A_RANGE_OFFSET) \<and>
   REG_GET_FIELD (nbif_build_s2a cur enable awid off sz hi) S2A_RANGE_SIZE
     = sz AND drop_bit (snd S2A_RANGE_SIZE) (fst S2A_RANGE_SIZE) \<and>
   REG_GET_FIELD (nbif_build_s2a cur enable awid off sz hi) S2A_AWADDR_31_28
     = hi AND drop_bit (snd S2A_AWADDR_31_28) (fst S2A_AWADDR_31_28)"
proof -
  have "(if enable then 1 else 0) AND drop_bit (snd S2A_ENABLE) (fst S2A_ENABLE) = (if enable then 1 else (0 :: u32))"
    by (simp add: s2a_fields)
  then show ?thesis
    by (simp add: nbif_build_s2a_def Let_def s2a_enable_as_set_field get_set_same get_set_other s2a_fields_ok)
qed

end
