(* ===== verification/Bringup.thy ===== *)
theory Bringup
  imports Psp_Package Nbio Rlc Gfx Memory_Test Compute_Launch Aql Discovery Mes_Bringup
begin

text \<open>
  The order of initialisation, in \<^verbatim>\<open>dext/amdgpu/amdgpu_init.h\<close> and \<^verbatim>\<open>amdgpu_init.cpp\<close>: the context that all
  parts share, the stages, the loop that runs them, and the release of everything. \<^verbatim>\<open>BringupStage\<close> is an
  enumeration with a fixed underlying type and callers cast to it, so a stage is any 32-bit value.
\<close>

section \<open>The shared context\<close>

record 'd BringupContext =
  b_device :: "'d DeviceContext"
  b_psp :: PSPContext
  b_metrics :: SMUMetricsContext
  b_gmc :: GMCContext
  b_ih :: IHContext
  b_rlc :: RLCContext
  b_cp :: CPContext
  b_sdma :: SDMAContext
  b_mes :: MESContext
  b_gart :: GARTContext
  b_memoryTest :: MemoryTransferTest
  b_computeTest :: ComputeTest
  b_aqlQueues :: "nat \<Rightarrow> PersistentAQLQueue"
  b_aqlLaunch :: AQLLaunch
  b_computeLaunch :: ComputeLaunch
  b_imu :: IMUContext
  b_gfx :: GFXConfig
  b_reached :: u32

section \<open>Stages\<close>

definition BringupStage_None :: u32 where "BringupStage_None = 0"
definition BringupStage_IPDiscovery :: u32 where "BringupStage_IPDiscovery = 1"
definition BringupStage_IHInit :: u32 where "BringupStage_IHInit = 2"
definition BringupStage_GMCInit :: u32 where "BringupStage_GMCInit = 3"
definition BringupStage_PSPInit :: u32 where "BringupStage_PSPInit = 4"
definition BringupStage_PSPLoadSOS :: u32 where "BringupStage_PSPLoadSOS = 5"
definition BringupStage_PSPRingCreate :: u32 where "BringupStage_PSPRingCreate = 6"
definition BringupStage_TMRSetup :: u32 where "BringupStage_TMRSetup = 7"
definition BringupStage_PSPFwLoad :: u32 where "BringupStage_PSPFwLoad = 8"
definition BringupStage_SMUInit :: u32 where "BringupStage_SMUInit = 9"
definition BringupStage_IMUInit :: u32 where "BringupStage_IMUInit = 10"
definition BringupStage_RLCInit :: u32 where "BringupStage_RLCInit = 11"
definition BringupStage_CPInit :: u32 where "BringupStage_CPInit = 12"
definition BringupStage_MESInit :: u32 where "BringupStage_MESInit = 13"
definition BringupStage_GFXInit :: u32 where "BringupStage_GFXInit = 14"
definition BringupStage_SDMAInit :: u32 where "BringupStage_SDMAInit = 15"

lemmas stage_defs = BringupStage_None_def BringupStage_IPDiscovery_def BringupStage_IHInit_def BringupStage_GMCInit_def
  BringupStage_PSPInit_def BringupStage_PSPLoadSOS_def BringupStage_PSPRingCreate_def BringupStage_TMRSetup_def
  BringupStage_PSPFwLoad_def BringupStage_SMUInit_def BringupStage_IMUInit_def BringupStage_RLCInit_def
  BringupStage_CPInit_def BringupStage_MESInit_def BringupStage_GFXInit_def BringupStage_SDMAInit_def

text \<open>The result of an operation on one part goes back into the context.\<close>

definition put_back :: "('p \<Rightarrow> 'd BringupContext \<Rightarrow> 'd BringupContext) \<Rightarrow> 'd BringupContext \<Rightarrow> ('p, 'd) outcome \<Rightarrow>
  ('d BringupContext, 'd) outcome" where
  "put_back put b m = map_option (\<lambda>((r, p), d). ((r, put p b), d)) m"

definition put_psp :: "PSPContext \<Rightarrow> 'd BringupContext \<Rightarrow> 'd BringupContext" where
  "put_psp p b = b\<lparr>b_psp := p\<rparr>"

definition put_rlc :: "RLCContext \<Rightarrow> 'd BringupContext \<Rightarrow> 'd BringupContext" where
  "put_rlc p b = b\<lparr>b_rlc := p\<rparr>"

definition put_cp :: "CPContext \<Rightarrow> 'd BringupContext \<Rightarrow> 'd BringupContext" where
  "put_cp p b = b\<lparr>b_cp := p\<rparr>"

definition put_cp_gmc :: "CPContext \<times> GMCContext \<Rightarrow> 'd BringupContext \<Rightarrow> 'd BringupContext" where
  "put_cp_gmc p b = b\<lparr>b_cp := fst p, b_gmc := snd p\<rparr>"

definition put_mes_gmc :: "MESContext \<times> GMCContext \<Rightarrow> 'd BringupContext \<Rightarrow> 'd BringupContext" where
  "put_mes_gmc p b = b\<lparr>b_mes := fst p, b_gmc := snd p\<rparr>"

definition put_sdma_gmc :: "SDMAContext \<times> GMCContext \<Rightarrow> 'd BringupContext \<Rightarrow> 'd BringupContext" where
  "put_sdma_gmc p b = b\<lparr>b_sdma := fst p, b_gmc := snd p\<rparr>"

definition put_gmc_rlc :: "GMCContext \<times> RLCContext \<Rightarrow> 'd BringupContext \<Rightarrow> 'd BringupContext" where
  "put_gmc_rlc p b = b\<lparr>b_gmc := fst p, b_rlc := snd p\<rparr>"

definition put_cp_gmc_mes :: "CPContext \<times> GMCContext \<times> MESContext \<Rightarrow> 'd BringupContext \<Rightarrow> 'd BringupContext" where
  "put_cp_gmc_mes p b = b\<lparr>b_cp := fst p, b_gmc := fst (snd p), b_mes := snd (snd p)\<rparr>"

lemmas put_defs = put_psp_def put_rlc_def put_cp_def put_cp_gmc_def put_mes_gmc_def put_sdma_gmc_def
  put_gmc_rlc_def put_cp_gmc_mes_def

text \<open>Discovery may fail when an earlier file already gave the two bases that matter.\<close>

definition stage_ip_discovery :: "'d BringupContext \<Rightarrow> 'd \<Rightarrow> ('d BringupContext, 'd) outcome" where
  "stage_ip_discovery b d =
     (case discover_ips_on_die (b_device b) d of
        None \<Rightarrow> None
      | Some ((r, ip, _), d) \<Rightarrow>
          let dev = (b_device b)\<lparr>dev_ip := ip\<rparr>
          in if r = kIOReturnSuccess \<or> ip_isResolved ip MP0 \<and> ip_isResolved ip GC
          then let ((r, dev), d) = bringup_ip_discovery dev d in Some ((r, b\<lparr>b_device := dev\<rparr>), d)
          else Some ((r, b\<lparr>b_device := dev\<rparr>), d))"

definition stage_psp_init :: "'d BringupContext \<Rightarrow> 'd \<Rightarrow> ('d BringupContext, 'd) outcome" where
  "stage_psp_init b d =
     (let ((r, psp), d) = psp_init (b_device b) (b_psp b) d
      in if r \<noteq> kIOReturnSuccess then Some ((r, put_psp psp b), d)
      else let ((_, psp), d) = psp_read_runtime_db (b_device b) psp (real_vram_size (b_gmc b)) d
        in Some ((kIOReturnSuccess, put_psp psp b), d))"

definition stage_psp_ring_create :: "'d BringupContext \<Rightarrow> 'd \<Rightarrow> ('d BringupContext, 'd) outcome" where
  "stage_psp_ring_create b d =
     put_back put_psp b (and_then (psp_ring_create (b_device b) (b_psp b) d) (psp_query_fw_reservation (b_device b)))"

definition stage_psp_fw_load :: "'d BringupContext \<Rightarrow> kern_return" where
  "stage_psp_fw_load b =
     (if \<not> sosAlive (b_psp b) then kIOReturnNotReady
      else if \<not> firmwareLoadComplete (b_psp b) \<or> \<not> rlc_microcode_loaded (b_rlc b) \<or> \<not> imu_microcode_loaded (b_imu b) \<or>
              \<not> microcode_loaded (b_sdma b)
      then kIOReturnNotReady else kIOReturnSuccess)"

text \<open>The set up of the SMU sees only the part of the PSP context that it changes, its firmware arena.\<close>

definition put_arena :: "firmware_arena \<Rightarrow> PSPContext \<Rightarrow> PSPContext" where
  "put_arena a psp = psp\<lparr>fwBufSize := fwBufSize a, fwBufBaseMC := fwBufBaseMC a, fwBufVRAMOffset := fwBufVRAMOffset a,
     fwBufBumpOffset := fwBufBumpOffset a, fwBufSysmemBuffer := fwBufSysmemBuffer a\<rparr>"

definition put_smu ::
  "'d DeviceContext \<times> firmware_arena \<times> SMUMetricsContext option \<Rightarrow> 'd BringupContext \<Rightarrow> 'd BringupContext"
where
  "put_smu p b = (let (dev, a, m) = p in
     b\<lparr>b_device := dev, b_psp := put_arena a (b_psp b),
       b_metrics := (case m of None \<Rightarrow> b_metrics b | Some m \<Rightarrow> m)\<rparr>)"

definition stage_smu_init :: "'d BringupContext \<Rightarrow> 'd \<Rightarrow> ('d BringupContext, 'd) outcome" where
  "stage_smu_init b d =
     (case smu_test_message (b_device b) d of
        None \<Rightarrow> None
      | Some ((r, _, dev), d) \<Rightarrow>
          if r \<noteq> kIOReturnSuccess then Some ((r, b\<lparr>b_device := dev\<rparr>), d)
          else (case smu_get_version dev d of
              None \<Rightarrow> None
            | Some ((_, _, dev), d) \<Rightarrow>
                put_back put_smu b (smu_smc_hw_setup
                  (dev\<lparr>smuOnline := True\<rparr>, firmware_arena.truncate (b_psp b), Some (b_metrics b)) d)))"

definition stage_gmc_init :: "'d os \<Rightarrow> 'd BringupContext \<Rightarrow> 'd \<Rightarrow> ('d BringupContext, 'd) outcome" where
  "stage_gmc_init os b d =
     put_back (\<lambda>(gmc, dev) b. b\<lparr>b_gmc := gmc, b_device := dev\<rparr>) b (gmc_init (b_device b) os (b_gmc b) d)"

definition stage_ih_init :: "'d os \<Rightarrow> 'd hostmem \<Rightarrow> 'd BringupContext \<Rightarrow> 'd \<Rightarrow> ('d BringupContext, 'd) outcome" where
  "stage_ih_init os hm b d =
     (let ((r, ih), d) = ih_init_full (b_device b) os hm (b_ih b) d in Some ((r, b\<lparr>b_ih := ih\<rparr>), d))"

definition stage_rlc_init :: "'d BringupContext \<Rightarrow> 'd \<Rightarrow> ('d BringupContext, 'd) outcome" where
  "stage_rlc_init b d =
     (if \<not> rlc_microcode_loaded (b_rlc b) then Some ((kIOReturnNotReady, b), d)
      else put_back put_rlc b (rlc_wait_for_autoload_complete (b_device b) (b_rlc b) d))"

definition stage_mes_init :: "'d os \<Rightarrow> 'd BringupContext \<Rightarrow> 'd \<Rightarrow> ('d BringupContext, 'd) outcome" where
  "stage_mes_init os b d =
     and_then (put_back put_cp b (cp_start_engines (b_device b) (b_cp b) d)) (\<lambda>b d.
       map_option (\<lambda>(res, d). (res, cp_log_control (b_device b) d))
         (put_back put_mes_gmc b (mes_init_full (b_device b) os (b_mes b, b_gmc b) (cp_log_control (b_device b) d))))"

text \<open>The hub's page tables, then the table allocator, which may fail without consequence here.\<close>

definition stage_gfxhub :: "'d BringupContext \<Rightarrow> 'd \<Rightarrow> ('d BringupContext, 'd) outcome" where
  "stage_gfxhub b d =
     (let dev = b_device b
      in if \<not> ip_isResolved (dev_ip dev) GC then Some ((kIOReturnNotReady, b), d)
      else if \<not> ip_isResolved (dev_ip dev) (hub_ip (gfxhub (b_gmc b))) then Some ((kIOReturnNotReady, b), d)
      else let (r, d) = gmc_gfxhub_gart_enable dev (b_gmc b) d
        in if r \<noteq> kIOReturnSuccess then Some ((r, b), d)
      else let (r, d) = gmc_hdp_flush dev d
        in if r \<noteq> kIOReturnSuccess then Some ((r, b), d)
      else (case gmc_flush_gpu_tlb dev (gfxhub (b_gmc b)) 0 0 d of
          None \<Rightarrow> None
        | Some (r, d) \<Rightarrow>
            if r \<noteq> kIOReturnSuccess then Some ((r, b), d)
            else let (_, gmc, gart) = gart_init dev (b_gmc b) (b_gart b)
              in Some ((kIOReturnSuccess, b\<lparr>b_gmc := gmc, b_gart := gart\<rparr>), d)))"

definition stage_cp_init :: "'d os \<Rightarrow> 'd BringupContext \<Rightarrow> 'd \<Rightarrow> ('d BringupContext, 'd) outcome" where
  "stage_cp_init os b d =
     and_then (and_then (put_back put_cp_gmc b (cp_prepare_firmware (b_device b) os (b_cp b, b_gmc b) d)) stage_gfxhub)
       (\<lambda>b d. let ((r, gfx), d) = gfx_constants_init (b_device b) (b_gfx b) d; b = b\<lparr>b_gfx := gfx\<rparr>
        in if r \<noteq> kIOReturnSuccess then Some ((r, b), d)
        else put_back put_gmc_rlc b (rlc_init_full (b_device b) (b_gmc b, b_rlc b) d))"

section \<open>The loop\<close>

definition run_stage ::
  "'d os \<Rightarrow> 'd hostmem \<Rightarrow> u32 \<Rightarrow> 'd BringupContext \<Rightarrow> 'd \<Rightarrow> ('d BringupContext, 'd) outcome"
where
  "run_stage os hm s b d =
     (if s = BringupStage_None then Some ((kIOReturnSuccess, b), d)
      else if s = BringupStage_IPDiscovery then stage_ip_discovery b d
      else if s = BringupStage_PSPInit then stage_psp_init b d
      else if s = BringupStage_PSPLoadSOS then put_back put_psp b (psp_load_sos (b_device b) (b_psp b) d)
      else if s = BringupStage_PSPRingCreate then stage_psp_ring_create b d
      else if s = BringupStage_TMRSetup then put_back put_psp b (psp_setup_tmr (b_device b) (b_psp b) d)
      else if s = BringupStage_PSPFwLoad then Some ((stage_psp_fw_load b, b), d)
      else if s = BringupStage_SMUInit then stage_smu_init b d
      else if s = BringupStage_GMCInit then stage_gmc_init os b d
      else if s = BringupStage_IHInit then stage_ih_init os hm b d
      else if s = BringupStage_RLCInit then stage_rlc_init b d
      else if s = BringupStage_SDMAInit
      then put_back put_sdma_gmc b (sdma_init_full (b_device b) (b_sdma b, b_gmc b) d)
      else if s = BringupStage_MESInit then stage_mes_init os b d
      else if s = BringupStage_GFXInit
      then put_back put_cp_gmc_mes b (cp_init_full (b_device b) (b_cp b, b_gmc b, b_mes b) d)
      else if s = BringupStage_IMUInit
      then (let (r, imu) = imu_init_full (b_imu b) in Some ((r, b\<lparr>b_imu := imu\<rparr>), d))
      else if s = BringupStage_CPInit then stage_cp_init os b d
      else Some ((kIOReturnUnsupported, b), d))"

partial_function (option) bringup_from ::
  "'d os \<Rightarrow> 'd hostmem \<Rightarrow> u32 \<Rightarrow> u32 \<Rightarrow> 'd BringupContext \<Rightarrow> 'd \<Rightarrow> ('d BringupContext, 'd) outcome"
where
  "bringup_from os hm target s b d =
     (if target < s then Some ((kIOReturnSuccess, b), d)
      else case run_stage os hm s b d of
        None \<Rightarrow> None
      | Some ((r, b), d) \<Rightarrow>
          if r \<noteq> kIOReturnSuccess then Some ((r, b), d) else bringup_from os hm target (s + 1) (b\<lparr>b_reached := s\<rparr>) d)"

definition bringup_to ::
  "'d os \<Rightarrow> 'd hostmem \<Rightarrow> 'd BringupContext \<Rightarrow> u32 \<Rightarrow> 'd \<Rightarrow> ('d BringupContext, 'd) outcome"
where
  "bringup_to os hm b target d = bringup_from os hm target (b_reached b + 1) b d"

section \<open>Release\<close>

text \<open>
  A buffer of the MES never has a DMA command: \<open>mes_alloc_vram\<close> clears that pointer and nothing sets it. What is
  left after the releases is a fresh context; \<open>gart_self\<close> stands for the address of its part and stays.
\<close>

definition mes_pipe_release :: "'d os \<Rightarrow> MESInstance \<Rightarrow> 'd \<Rightarrow> 'd" where
  "mes_pipe_release os inst d =
     fold (\<lambda>buf d. drop_buf os (buf inst) d)
       [eop_buf, mqd_buf, mes_ring_buf, cmd_buf, wb_buf, resource_1_buf, sch_ctx_buf, status_fence_buf] d"

definition binding_release :: "'d os \<Rightarrow> GARTBinding \<Rightarrow> 'd \<Rightarrow> 'd" where
  "binding_release os b d = drop_buf os (sysmemBuffer b) (drop_dma os (dmaCommand b) d)"

definition device_zero :: "'d DeviceContext" where
  "device_zero = \<lparr>pci = None, bar0MemIndex = 0, bar2MemIndex = 0, bar5MemIndex = 0, bar0Size = 0, bar2Size = 0,
     dev_ip = ip_new, psoCAlive = False, smuOnline = False, smuMessagePending = False, gmcReady = False,
     dev_doorbell = doorbell_zero, doorbell_works = False\<rparr>"

definition psp_zero :: PSPContext where
  "psp_zero = \<lparr>fwBufSize = 0, fwBufBaseMC = 0, fwBufVRAMOffset = 0, fwBufBumpOffset = 0, fwBufSysmemBuffer = None,
     fwPriBuffer = None, fwPriDMACommand = None, fwPriBusAddr = 0, fwPriSize = 0, psp_bins = (\<lambda>_. no_sub_bin),
     psp_asd = asd_zero, sosPackageBuffer = None, sos_fw_blob = [], sos_fw_blob_size = 0, firmwareLoadComplete = False,
     sosFirmware = None, sosFirmwareSize = 0, sosAlive = False, runtimeDbRead = False, runtimeDbCookie = 0,
     runtimeDbVersion = 0, bootCfgBitmask = 0, scpmStatus = 0, scpmEnabled = False, ringBinding = no_binding,
     cmdBinding = no_binding, fenceBinding = no_binding, ringBusAddr = 0, psp_ringSize = 0, ringCreated = False,
     psp_ringBuffer = None, psp_ringDMACommand = None, cmdBusAddr = 0, fenceBusAddr = 0, fenceCounter = 0,
     psp_cmdBuffer = None, psp_cmdDMACommand = None, psp_fenceBuffer = None, psp_fenceDMACommand = None,
     tmrBuffer = None, tmrDMACommand = None, tmrBusAddr = 0, tmrSize = 0, tmrSetUp = False,
     fwBufSysmemDMA = None, fwBufSysmemCPU = 0, fwBufSysmemBusAddr = 0\<rparr>"

definition metrics_zero :: SMUMetricsContext where
  "metrics_zero = \<lparr>mx_rawProbe = replicate 21 0, mx_tableMC = 0, mx_tableVRAMOffset = 0, mx_tableBytes = 0,
     mx_driverInterface = 0, mx_firmwareVersion = 0, mx_firmwareVersionRead = False, mx_clockLimitsAttempted = False,
     mx_clocks = \<lparr>ck_version = 0, ck_size = 0, ck_status = kIOReturnSuccess, ck_flags = 0, ck_generation = 0, ck_collectedAtNs = 0,
       ck_driverInterface = 0, ck_firmwareVersion = 0, ck_currentValid = 0, ck_limitsValid = 0, ck_currentMHz = (\<lambda>_. 0),
       ck_minimumMHz = (\<lambda>_. 0), ck_maximumACMHz = (\<lambda>_. 0)\<rparr>,
     mx_reserved = False, mx_vramBacked = False, mx_addressProgrammed = False, mx_setupComplete = False,
     mx_collecting = False, mx_faulted = False,
     mx_snapshot = \<lparr>ms_version = 0, ms_size = 0, ms_status = kIOReturnSuccess, ms_flags = 0, ms_generation = 0, ms_sequence = 0,
       ms_collectedAtNs = 0, ms_attemptedAtNs = 0, ms_driverInterface = 0, ms_firmwareCounter = 0, ms_validFields = 0,
       ms_values = (\<lambda>_. 0)\<rparr>\<rparr>"

definition ih_zero :: IHContext where
  "ih_zero = \<lparr>ih_inited = False, ih_enabled = False, ring_buf = None, ring_dma = None, wptr_shadow_buf = None,
     wptr_shadow_dma = None, ring_bus = 0, ring_cpu = 0, ring_size_bytes = 0, ring_size_dwords = 0, ptr_mask = 0,
     wptr_shadow_bus = 0, wptr_shadow_cpu = 0, ih_rptr = 0, entries_processed = 0, overflows_seen = 0\<rparr>"

definition rlc_zero :: RLCContext where
  "rlc_zero = \<lparr>rlc_inited = False, bootload_complete = False, csb_populated = False, csib_programmed = False,
     srm_enabled = False, rlc_microcode_loaded = False, clear_state = allocation_zero, clear_state_dwords = 0,
     csb_vram_byte_offset = 0\<rparr>"

definition sdma_zero :: SDMAContext where
  "sdma_zero = \<lparr>sdma_instance = (\<lambda>_. sdma_instance_zero), microcode_loaded = False\<rparr>"

definition gart_context_zero :: "nat \<Rightarrow> GARTContext" where
  "gart_context_zero self = \<lparr>gart_self = self, gart_enabled = False, pageTableVRAMOffset = 0, pageTableSize = 0,
     numPTEs = 0, gartStart = 0, gartEnd = 0, gartSize = 0, gart_attached = False, reads_supported = False,
     hostWindowConfigured = False\<rparr>"

definition imu_zero :: IMUContext where
  "imu_zero = \<lparr>imu_inited = False, imu_microcode_loaded = False, imu_fw_version = 0\<rparr>"

definition bringup_zero :: "nat \<Rightarrow> 'd BringupContext" where
  "bringup_zero self = \<lparr>b_device = device_zero, b_psp = psp_zero, b_metrics = metrics_zero, b_gmc = gmc_zero,
     b_ih = ih_zero, b_rlc = rlc_zero, b_cp = cp_zero, b_sdma = sdma_zero, b_mes = mes_zero,
     b_gart = gart_context_zero self, b_memoryTest = transfer_test_zero,
     b_computeTest = \<lparr>ct_active = False, ct_storage = allocation_zero\<rparr>, b_aqlQueues = (\<lambda>_. queue_zero),
     b_aqlLaunch = launch_zero, b_computeLaunch = compute_launch_zero, b_imu = imu_zero, b_gfx = gfx_config_zero,
     b_reached = BringupStage_None\<rparr>"

definition bringup_release_resources :: "'d os \<Rightarrow> 'd BringupContext \<Rightarrow> 'd \<Rightarrow> 'd BringupContext \<times> 'd" where
  "bringup_release_resources os b d =
     (let d = mes_pipe_release os (mes_pipe (b_mes b) 0) d; d = mes_pipe_release os (mes_pipe (b_mes b) 1) d;
          d = snd (cp_release_storage os (b_cp b) d);
          d = snd (memory_transfer_release_after_reset os (b_memoryTest b) d);
          d = snd (ih_release os (b_ih b) d);
          d = snd (psp_release os (b_psp b) d);
          d = drop_buf os (psp_ringBuffer (b_psp b)) (drop_dma os (psp_ringDMACommand (b_psp b)) d);
          d = binding_release os (ringBinding (b_psp b)) d;
          d = binding_release os (cmdBinding (b_psp b)) d;
          d = binding_release os (fenceBinding (b_psp b)) d
      in (bringup_zero (gart_self (b_gart b)), snd (gmc_release_resources os (b_gmc b) d)))"

end
