(* ===== verification/Bringup_Properties.thy ===== *)
theory Bringup_Properties
  imports Bringup Gart_Properties Interrupts_Properties
begin

text \<open>
  The loop of the stages as a step relation: what a successful call went through, what a failed one leaves, and what
  must have happened before the stages that rely on loaded firmware.
\<close>

section \<open>One stage\<close>

lemma run_stage_unknown:
  assumes "15 < s"
  shows "run_stage os hm s b d = Some ((kIOReturnUnsupported, b), d)"
proof -
  have "s \<notin> {0, 1, 2, 3, 4, 5, 6, 7, 8, 9, 10, 11, 12, 13, 14, 15}" using assms by auto
  then show ?thesis by (simp add: run_stage_def stage_defs)
qed

lemma run_stage_known: "run_stage os hm s b d = Some ((kIOReturnSuccess, b'), d') \<Longrightarrow> s \<le> 15"
  using run_stage_unknown [of s os hm b d] by (cases "15 < s") auto

text \<open>A condition on the context an operation ends in, if it ends.\<close>

definition ends :: "('d BringupContext \<Rightarrow> bool) \<Rightarrow> ('d BringupContext, 'd) outcome \<Rightarrow> bool" where
  "ends P m \<longleftrightarrow> (case m of None \<Rightarrow> True | Some ((_, b), _) \<Rightarrow> P b)"

named_theorems ends_intro

lemma ends_None [ends_intro]: "ends P None" by (simp add: ends_def)

lemma ends_Some [ends_intro]: "P b \<Longrightarrow> ends P (Some ((r, b), d))" by (simp add: ends_def)

lemma ends_put_back [ends_intro]: "(\<And>p. P (put p b)) \<Longrightarrow> ends P (put_back put b m)"
  by (auto simp: ends_def put_back_def split: option.splits)

lemma ends_and_then [ends_intro]:
  "ends P m \<Longrightarrow> (\<And>b d. P b \<Longrightarrow> ends P (k b d)) \<Longrightarrow> ends P (and_then m k)"
  by (cases m) (auto simp: ends_def and_then_def)

lemma ends_map [ends_intro]: "ends P m \<Longrightarrow> ends P (map_option (\<lambda>(res, d). (res, g d)) m)"
  by (auto simp: ends_def split: option.splits)

lemma ends_if [ends_intro]: "(c \<Longrightarrow> ends P m) \<Longrightarrow> (\<not> c \<Longrightarrow> ends P n) \<Longrightarrow> ends P (if c then m else n)"
  by simp

lemma ends_case [ends_intro]: "(\<And>x. m = Some x \<Longrightarrow> ends P (k x)) \<Longrightarrow> ends P (case m of None \<Rightarrow> None | Some x \<Rightarrow> k x)"
  by (cases m) (simp_all add: ends_None)

lemma ends_prod [ends_intro]: "(\<And>x y. z = (x, y) \<Longrightarrow> ends P (k x y)) \<Longrightarrow> ends P (case z of (x, y) \<Rightarrow> k x y)"
  by (cases z) simp

text \<open>No stage changes the number of the last completed one: only the loop does.\<close>

lemma run_stage_reached: "ends (\<lambda>b'. b_reached b' = b_reached b) (run_stage os hm s b d)"
  unfolding run_stage_def stage_ip_discovery_def stage_psp_init_def stage_psp_ring_create_def stage_smu_init_def
    stage_gmc_init_def stage_ih_init_def stage_rlc_init_def stage_mes_init_def stage_gfxhub_def stage_cp_init_def
    Let_def
  by (intro ends_intro) (auto intro!: ends_Some ends_put_back simp: put_defs put_smu_def split: prod.splits)

text \<open>After the firmware has been loaded no stage changes what the PSP context says about it.\<close>

definition firmware_flags :: "'d BringupContext \<Rightarrow> bool \<times> bool" where
  "firmware_flags b = (sosAlive (b_psp b), firmwareLoadComplete (b_psp b))"

lemma run_stage_flags:
  assumes "8 \<le> s"
  shows "ends (\<lambda>b'. firmware_flags b' = firmware_flags b) (run_stage os hm s b d)"
proof -
  have "s \<notin> {1, 4, 5, 6, 7}" using assms by (auto simp: word_le_nat_alt)
  then show ?thesis
    unfolding run_stage_def stage_smu_init_def
      stage_gmc_init_def stage_ih_init_def stage_rlc_init_def stage_mes_init_def stage_gfxhub_def stage_cp_init_def
      Let_def
    by (intro ends_intro) (auto intro!: ends_Some ends_put_back simp: stage_defs firmware_flags_def put_defs put_smu_def put_arena_def split: prod.splits)
qed

section \<open>The loop\<close>

inductive bringup_step ::
  "'d os \<Rightarrow> 'd hostmem \<Rightarrow> 'd BringupContext \<times> 'd \<Rightarrow> 'd BringupContext \<times> 'd \<Rightarrow> bool"
for os hm where
  step: "run_stage os hm (b_reached b + 1) b d = Some ((kIOReturnSuccess, b'), d') \<Longrightarrow>
    bringup_step os hm (b, d) (b'\<lparr>b_reached := b_reached b + 1\<rparr>, d')"

inductive_cases bringup_stepE: "bringup_step os hm (b, d) s'"

text \<open>How a call ends: at the target, or with the error of the stage after the last completed one.\<close>

definition bringup_end ::
  "'d os \<Rightarrow> 'd hostmem \<Rightarrow> u32 \<Rightarrow> 'd BringupContext \<times> 'd \<Rightarrow> kern_return \<Rightarrow> 'd BringupContext \<times> 'd \<Rightarrow> bool"
where
  "bringup_end os hm target s r s' \<longleftrightarrow>
     (\<exists>b1 d1. (bringup_step os hm)\<^sup>*\<^sup>* s (b1, d1) \<and>
        (if r = kIOReturnSuccess then (b1, d1) = s' \<and> b_reached b1 = max (b_reached (fst s)) target
         else run_stage os hm (b_reached b1 + 1) b1 d1 = Some ((r, fst s'), snd s') \<and> b_reached b1 < target))"

lemma unat_stage_next:
  assumes "(x :: u32) \<le> 15"
  shows "unat (x + 1) = Suc (unat x)"
proof -
  have "unat x \<le> 15" using assms by (simp add: word_le_nat_alt)
  then show ?thesis by (simp add: unat_word_ariths)
qed

lemma reached_after:
  assumes "run_stage os hm (b_reached b + 1) b d = Some ((kIOReturnSuccess, b'), d')" "b_reached b \<le> 15"
  shows "b_reached b' = b_reached b" "b_reached b + 1 \<le> 15" "unat (b_reached b + 1) = Suc (unat (b_reached b))"
proof -
  show "b_reached b' = b_reached b" using run_stage_reached [of b os hm "b_reached b + 1" d] assms by (simp add: ends_def)
  show "b_reached b + 1 \<le> 15" using run_stage_known [OF assms(1)] .
  show "unat (b_reached b + 1) = Suc (unat (b_reached b))" using unat_stage_next [OF assms(2)] .
qed

lemma bringup_end_cons:
  assumes "bringup_end os hm target s1 r s'" "bringup_step os hm s s1"
    "max (b_reached (fst s1)) target = max (b_reached (fst s)) target"
  shows "bringup_end os hm target s r s'"
proof -
  obtain b2 d2 where "(bringup_step os hm)\<^sup>*\<^sup>* s1 (b2, d2)"
    and fin: "if r = kIOReturnSuccess then (b2, d2) = s' \<and> b_reached b2 = max (b_reached (fst s1)) target
      else run_stage os hm (b_reached b2 + 1) b2 d2 = Some ((r, fst s'), snd s') \<and> b_reached b2 < target"
    using assms(1) by (auto simp: bringup_end_def)
  then have "(bringup_step os hm)\<^sup>*\<^sup>* s (b2, d2)" using assms(2) by (auto intro: converse_rtranclp_into_rtranclp)
  then show ?thesis using fin assms(3) unfolding bringup_end_def by metis
qed

lemma bringup_from_sound:
  assumes "bringup_from os hm target (b_reached b + 1) b d = Some ((r, b'), d')" "b_reached b \<le> 15"
  shows "bringup_end os hm target (b, d) r (b', d')"
  using assms
proof (induction "15 - unat (b_reached b)" arbitrary: b d rule: less_induct)
  case less
  let ?s = "b_reached b + 1"
  show ?case
  proof (cases "target < ?s")
    case True
    then have "target \<le> b_reached b" using unat_stage_next [OF less.prems(2)] by (simp add: word_le_nat_alt word_less_nat_alt)
    moreover have "r = kIOReturnSuccess \<and> b' = b \<and> d' = d"
      using less.prems(1) True by (subst (asm) bringup_from.simps) simp
    ultimately show ?thesis unfolding bringup_end_def by (auto simp: max_def)
  next
    case False
    then have below: "b_reached b < target"
      using unat_stage_next [OF less.prems(2)] by (simp add: word_le_nat_alt word_less_nat_alt)
    obtain r1 b1 d1 where run: "run_stage os hm ?s b d = Some ((r1, b1), d1)"
      using less.prems(1) False by (subst (asm) bringup_from.simps) (auto split: option.splits)
    show ?thesis
    proof (cases "r1 = kIOReturnSuccess")
      case True
      note after = reached_after [OF run [unfolded True] less.prems(2)]
      let ?b1 = "b1\<lparr>b_reached := ?s\<rparr>"
      have rest: "bringup_from os hm target (b_reached ?b1 + 1) ?b1 d1 = Some ((r, b'), d')"
        using less.prems(1) False run True by (subst (asm) bringup_from.simps) simp
      have "bringup_end os hm target (?b1, d1) r (b', d')"
        by (rule less.hyps [OF _ rest]) (use after in \<open>auto simp: word_le_nat_alt\<close>)
      moreover have "bringup_step os hm (b, d) (?b1, d1)"
        using bringup_step.step [OF run [unfolded True]] .
      moreover have "max (b_reached b + 1) target = max (b_reached b) target"
        using below False by (auto simp: max_def not_less)
      ultimately show ?thesis by (auto intro: bringup_end_cons)
    next
      case failed: False
      then have "(r, b', d') = (r1, b1, d1)"
        using less.prems(1) False run by (subst (asm) bringup_from.simps) simp
      then show ?thesis using failed run below unfolding bringup_end_def by auto
    qed
  qed
qed

text \<open>What the steps keep: the stages go up by one, and firmware stays loaded from its stage on.\<close>

definition stage_inv :: "'d BringupContext \<Rightarrow> bool" where
  "stage_inv b \<longleftrightarrow> b_reached b \<le> 15 \<and> (8 \<le> b_reached b \<longrightarrow> firmware_flags b = (True, True))"

lemma bringup_step_inv:
  assumes "bringup_step os hm s s'" "stage_inv (fst s)"
  shows "stage_inv (fst s') \<and> b_reached (fst s') = b_reached (fst s) + 1"
  using assms
proof (cases rule: bringup_step.cases)
  case (step b d b' d')
  have low: "b_reached b \<le> 15" using assms(2) step(1) by (simp add: stage_inv_def)
  note after = reached_after [OF step(3) low]
  have "firmware_flags b' = (True, True)" if at: "8 \<le> b_reached b + 1"
  proof (cases "8 \<le> b_reached b")
    case True
    then show ?thesis using assms(2) step run_stage_flags [OF at, of b os hm d] by (simp add: stage_inv_def ends_def)
  next
    case False
    then have "b_reached b + 1 = BringupStage_PSPFwLoad" using at unat_stage_next [OF low]
      by (simp add: stage_defs word_unat_eq_iff word_le_nat_alt)
    then show ?thesis
      using step(3) by (simp add: run_stage_def stage_defs stage_psp_fw_load_def firmware_flags_def split: if_splits)
  qed
  then show ?thesis using step after by (simp add: stage_inv_def firmware_flags_def)
qed

lemma bringup_steps_inv:
  assumes "(bringup_step os hm)\<^sup>*\<^sup>* s s'" "stage_inv (fst s)"
  shows "stage_inv (fst s') \<and> b_reached (fst s) \<le> b_reached (fst s')"
  using assms
proof (induction rule: rtranclp_induct)
  case (step y z)
  then have inv: "stage_inv (fst y)" "b_reached (fst s) \<le> b_reached (fst y)" by auto
  note next_step = bringup_step_inv [OF step(2) inv(1)]
  have "b_reached (fst y) \<le> b_reached (fst y) + 1" using unat_stage_next inv(1) by (simp add: stage_inv_def word_le_nat_alt)
  then show ?case using next_step inv(2) by (metis order.trans)
qed simp

section \<open>A call\<close>

lemma failed_stage_inv:
  assumes "run_stage os hm (b_reached b + 1) b d = Some ((r, b'), d')" "stage_inv b"
  shows "stage_inv b' \<and> b_reached b' = b_reached b"
proof -
  have same: "b_reached b' = b_reached b"
    using run_stage_reached [of b os hm "b_reached b + 1" d] assms(1) by (simp add: ends_def)
  have "firmware_flags b' = firmware_flags b" if "8 \<le> b_reached b"
    using run_stage_flags [of "b_reached b + 1" b os hm d] that assms unat_stage_next [of "b_reached b"]
    by (simp add: ends_def stage_inv_def word_le_nat_alt)
  then show ?thesis using same assms(2) by (simp add: stage_inv_def)
qed

text \<open>
  C37. Initialisation runs the stages one after another. A call that ends with success has run, in order and each with
  success, exactly the stages after the last completed one up to its target, and no stage that was already done; one
  that fails stopped at the first stage that did not succeed, returns that stage's error, and keeps the number of the
  last completed one, below the target. No call goes past the sixteen stages, and once the firmware stage is completed
  the security processor runs and its firmware is completely loaded, through all the later ones.
\<close>

theorem bringup_in_order:
  assumes "bringup_to os hm b target d = Some ((r, b'), d')" "stage_inv b"
  shows "bringup_end os hm target (b, d) r (b', d') \<and> stage_inv b' \<and> b_reached b \<le> b_reached b' \<and>
    (if r = kIOReturnSuccess then b_reached b' = max (b_reached b) target \<and> b_reached b' \<le> BringupStage_SDMAInit
     else b_reached b' < target)"
proof -
  have low: "b_reached b \<le> 15" using assms(2) by (simp add: stage_inv_def)
  note finished = bringup_from_sound [OF assms(1) [unfolded bringup_to_def] low]
  then obtain b1 d1 where steps: "(bringup_step os hm)\<^sup>*\<^sup>* (b, d) (b1, d1)"
    and fin: "if r = kIOReturnSuccess then (b1, d1) = (b', d') \<and> b_reached b1 = max (b_reached b) target
      else run_stage os hm (b_reached b1 + 1) b1 d1 = Some ((r, b'), d') \<and> b_reached b1 < target"
    by (auto simp: bringup_end_def)
  have inv: "stage_inv b1" "b_reached b \<le> b_reached b1" using bringup_steps_inv [OF steps] assms(2) by auto
  show ?thesis
  proof (cases "r = kIOReturnSuccess")
    case True
    then show ?thesis using finished fin inv by (auto simp: stage_inv_def stage_defs)
  next
    case False
    then have "stage_inv b' \<and> b_reached b' = b_reached b1" using fin failed_stage_inv [OF _ inv(1)] by (metis (full_types))
    then show ?thesis using finished fin inv False by auto
  qed
qed

text \<open>A context at the SMU stage whose image management firmware is loaded: the next stage only checks that.\<close>

definition demo_bringup :: "'d BringupContext" where
  "demo_bringup = (bringup_zero 1)\<lparr>b_reached := 9, b_imu := imu_zero\<lparr>imu_microcode_loaded := True\<rparr>,
     b_psp := psp_zero\<lparr>sosAlive := True, firmwareLoadComplete := True\<rparr>\<rparr>"

lemma demo_run:
  "bringup_to os hm demo_bringup 11 d
     = Some ((kIOReturnNotReady, demo_bringup\<lparr>b_imu := imu_zero\<lparr>imu_microcode_loaded := True, imu_inited := True\<rparr>,
         b_reached := 10\<rparr>), d)"
  by (subst bringup_to_def, subst bringup_from.simps, subst bringup_from.simps)
     (simp add: demo_bringup_def bringup_zero_def run_stage_def stage_defs imu_init_full_def imu_zero_def
        stage_rlc_init_def rlc_zero_def)

lemma bringup_in_order_witness:
  "\<exists>b'. bringup_to null_os demo_hm demo_bringup 11 (\<lambda>_ _. 0, 0) = Some ((kIOReturnNotReady, b'), (\<lambda>_ _. 0, 0)) \<and>
     stage_inv b' \<and> b_reached b' < 11 \<and>
     bringup_end null_os demo_hm 11 (demo_bringup, (\<lambda>_ _. 0, 0)) kIOReturnNotReady (b', (\<lambda>_ _. 0, 0))"
proof -
  have "stage_inv (demo_bringup :: ram BringupContext)"
    by (simp add: stage_inv_def demo_bringup_def firmware_flags_def bringup_zero_def psp_zero_def)
  from bringup_in_order [OF demo_run [of null_os demo_hm "(\<lambda>_ _. 0, 0)"] this] demo_run [of null_os demo_hm "(\<lambda>_ _. 0, 0)"]
  show ?thesis by auto
qed

end
