(* ===== verification/Returns.thy ===== *)
theory Returns
  imports Psp_Package Rlc Cp Sdma Metrics Mes_Bringup_Properties
begin

text \<open>
  Which operations of the bring-up return while the clock runs, and what they leave. \<open>returns\<close> is the weakest
  precondition of an operation that may wait: it returns, with a result that satisfies the condition. Its rules
  follow the shape of the definitions; the waits at the bottom are by induction on the time left.
\<close>

section \<open>Operations that return\<close>

definition returns :: "('x \<Rightarrow> bool) \<Rightarrow> 'x option \<Rightarrow> bool" where
  "returns Q m \<longleftrightarrow> (\<exists>x. m = Some x \<and> Q x)"

named_theorems returns_intro

lemma returns_Some [simp]: "returns Q (Some x) \<longleftrightarrow> Q x"
  by (simp add: returns_def)

lemma returns_weaken: "returns P m \<Longrightarrow> (\<And>x. P x \<Longrightarrow> Q x) \<Longrightarrow> returns Q m"
  by (auto simp: returns_def)

lemma returns_if [returns_intro]:
  "(c \<Longrightarrow> returns Q m) \<Longrightarrow> (\<not> c \<Longrightarrow> returns Q n) \<Longrightarrow> returns Q (if c then m else n)"
  by simp

lemma returns_prod [returns_intro]:
  "(\<And>x y. z = (x, y) \<Longrightarrow> returns Q (k x y)) \<Longrightarrow> returns Q (case z of (x, y) \<Rightarrow> k x y)"
  by (cases z) simp

lemma returns_prod_app [returns_intro]:
  "(\<And>x y. z = (x, y) \<Longrightarrow> returns Q (k x y d)) \<Longrightarrow> returns Q ((case z of (x, y) \<Rightarrow> k x y) d)"
  by (cases z) simp

lemma returns_let [returns_intro]: "(\<And>x. x = v \<Longrightarrow> returns Q (k x)) \<Longrightarrow> returns Q (Let v k)"
  by simp

lemma returns_map [returns_intro]: "returns (\<lambda>x. Q (f x)) m \<Longrightarrow> returns Q (map_option f m)"
  by (auto simp: returns_def)

text \<open>A call and what is done with its result.\<close>

lemma returns_bind: "returns P m \<Longrightarrow> (\<And>x. P x \<Longrightarrow> returns Q (k x)) \<Longrightarrow> returns Q (case m of None \<Rightarrow> None | Some x \<Rightarrow> k x)"
  by (auto simp: returns_def)

lemma returns_outcome:
  assumes "returns P m" "\<And>r s d. P ((r, s), d) \<Longrightarrow> returns Q (k r s d)"
  shows "returns Q (case m of None \<Rightarrow> None | Some ((r, s), d) \<Rightarrow> k r s d)"
  using assms by (auto simp: returns_def)

lemma returns_option [returns_intro]:
  "(m = None \<Longrightarrow> returns Q n) \<Longrightarrow> (\<And>x. m = Some x \<Longrightarrow> returns Q (k x)) \<Longrightarrow> returns Q (case m of None \<Rightarrow> n | Some x \<Rightarrow> k x)"
  by (cases m) simp_all

lemma returns_and_then:
  assumes "returns P m" "\<And>r s d. P ((r, s), d) \<Longrightarrow> r \<noteq> kIOReturnSuccess \<Longrightarrow> Q ((r, s), d)"
    "\<And>s d. P ((kIOReturnSuccess, s), d) \<Longrightarrow> returns Q (k s d)"
  shows "returns Q (and_then m k)"
  using assms by (auto simp: returns_def and_then_def split: prod.splits)

abbreviation finishes :: "'x option \<Rightarrow> bool" where
  "finishes m \<equiv> returns (\<lambda>_. True) m"

lemma finishes_iff: "finishes m \<longleftrightarrow> m \<noteq> None"
  by (auto simp: returns_def)

lemma finishes_bind: "finishes m \<Longrightarrow> (\<And>x. finishes (k x)) \<Longrightarrow> finishes (case m of None \<Rightarrow> None | Some x \<Rightarrow> k x)"
  by (rule returns_bind)

lemma finishes_and_then: "finishes m \<Longrightarrow> (\<And>s d. finishes (k s d)) \<Longrightarrow> finishes (and_then m k)"
  by (rule returns_and_then) auto

section \<open>The clock\<close>

lemma clock_same: "clock_runs dev T \<Longrightarrow> pci dev' = pci dev \<Longrightarrow> clock_runs dev' T"
  unfolding clock_runs_def access_defs by simp

lemma clock_read:
  assumes "clock_runs dev T" "rd32 dev bar off d = (v, d')"
  shows "T d \<le> T d' \<and> T d' \<le> T d + 2 ^ 40"
  using assms by (auto simp: clock_runs_def) (metis snd_conv)+

lemma clock_now:
  assumes "clock_runs dev T" "now_ns dev d = (now, d')"
  shows "now = word_of_nat (T d) \<and> T d \<le> T d' \<and> T d' \<le> T d + 2 ^ 40"
  using assms by (auto simp: clock_runs_def) (metis fst_conv snd_conv)+

lemma clock_sleep: "clock_runs dev T \<Longrightarrow> T d < T (sleep_ms dev 1 d) \<and> T (sleep_ms dev 1 d) \<le> T d + 2 ^ 40"
  by (auto simp: clock_runs_def)

text \<open>Induction on the time left until \<open>D\<close>.\<close>

lemma time_left_induct [consumes 1, case_names step]:
  assumes "T d < (D :: nat)" "\<And>d. T d < D \<Longrightarrow> (\<And>d'. T d < T d' \<Longrightarrow> T d' < D \<Longrightarrow> P d') \<Longrightarrow> P d"
  shows "P d"
  using assms(1)
proof (induction "D - T d" arbitrary: d rule: less_induct)
  case less
  then show ?case using assms(2) [OF less.prems] by (metis diff_less_mono2)
qed

text \<open>A budget that is not used up bounds the time.\<close>

lemma within_budget:
  assumes "S \<le> t" "t < S + 2 ^ 50" "(word_of_nat t - word_of_nat S :: u64) div 1000 < b"
  shows "t < S + unat b * 1000"
proof -
  have "unat (word_of_nat t - word_of_nat S :: u64) = t - S" using assms(1,2) by (intro elapsed_word) auto
  then have "unat ((word_of_nat t - word_of_nat S :: u64) div 1000) = (t - S) div 1000" by (simp add: unat_div)
  then have "(t - S) div 1000 < unat b" using assms(3) by (simp add: word_less_nat_alt)
  then show ?thesis by (simp add: div_less_iff_less_mult)
qed

section \<open>The waits\<close>

lemma psp_poll_returns:
  assumes clk: "clock_runs dev T" and b: "unat b * 1000 < 2 ^ 48" and "T d < S + 2 ^ 49" "S \<le> T d"
  shows "finishes (psp_poll_loop dev reg msk expected b (word_of_nat S) d)"
  using assms(3,4)
proof (induction rule: time_left_induct [where T = T])
  case (step d)
  obtain v d1 where 1: "RREG32 dev reg d = (v, d1)" by fastforce
  obtain now d2 where 2: "now_ns dev d1 = (now, d2)" by fastforce
  note t = clock_read [OF clk 1 [unfolded RREG32_def]] clock_now [OF clk 2] clock_sleep [OF clk, of d2]
  show ?case
  proof (cases "b \<le> (now - word_of_nat S) div 1000")
    case True
    then show ?thesis by (subst psp_poll_loop.simps) (simp add: 1 2)
  next
    case False
    then have "T d1 < S + unat b * 1000" using t step by (intro within_budget) auto
    then have "finishes (psp_poll_loop dev reg msk expected b (word_of_nat S) (sleep_ms dev 1 d2))"
      using t step.prems b by (intro step.IH) auto
    then show ?thesis by (subst psp_poll_loop.simps) (simp add: 1 2)
  qed
qed

text \<open>A wait with a fixed budget, below a day: what its step needs is one shape.\<close>

lemma smu_wait_returns:
  assumes clk: "clock_runs dev T" and "T d < S + 2 ^ 49" "S \<le> T d"
  shows "finishes (smu_wait_loop dev (word_of_nat S) d)"
  using assms(2,3)
proof (induction rule: time_left_induct [where T = T])
  case (step d)
  obtain v d1 where 1: "RREG32 dev (mp1_reg dev MP1_C2PMSG_90) d = (v, d1)" by fastforce
  obtain now d2 where 2: "now_ns dev d1 = (now, d2)" by fastforce
  note t = clock_read [OF clk 1 [unfolded RREG32_def]] clock_now [OF clk 2] clock_sleep [OF clk, of d2]
  show ?case
  proof (cases "kSMUBudgetUs \<le> (now - word_of_nat S) div 1000")
    case True
    then show ?thesis by (subst smu_wait_loop.simps) (simp add: 1 2)
  next
    case False
    then have "T d1 < S + unat kSMUBudgetUs * 1000" using t step by (intro within_budget) auto
    then have "finishes (smu_wait_loop dev (word_of_nat S) (sleep_ms dev 1 d2))"
      using t step.prems by (intro step.IH) (auto simp: kSMUBudgetUs_def)
    then show ?thesis by (subst smu_wait_loop.simps) (simp add: 1 2)
  qed
qed

lemma cp_idle_returns:
  assumes clk: "clock_runs dev T" and "T d < S + 2 ^ 49" "S \<le> T d"
  shows "finishes (cp_idle_wait dev (word_of_nat S) d)"
  using assms(2,3)
proof (induction rule: time_left_induct [where T = T])
  case (step d)
  obtain v d1 where 1: "cp_rreg dev CPR_CP_STAT d = (v, d1)" by fastforce
  obtain now d2 where 2: "now_ns dev d1 = (now, d2)" by fastforce
  note t = clock_read [OF clk 1 [unfolded cp_rreg_def RREG32_def]] clock_now [OF clk 2] clock_sleep [OF clk, of d2]
  have el: "unat (now - word_of_nat S) = T d1 - S" using t step by (auto intro!: elapsed_word)
  show ?case
  proof (cases "1000000000 \<le> now - word_of_nat S")
    case True
    then show ?thesis by (subst cp_idle_wait.simps) (simp add: 1 2)
  next
    case False
    then have "T d1 < S + 1000000000" using el by (simp add: word_le_nat_alt)
    then have "finishes (cp_idle_wait dev (word_of_nat S) (sleep_ms dev 1 d2))"
      using t step.prems by (intro step.IH) auto
    then show ?thesis by (subst cp_idle_wait.simps) (simp add: 1 2)
  qed
qed

text \<open>These take the time elapsed as an argument: it is compared at the start of the next turn.\<close>

lemma sos_wait_returns:
  assumes clk: "clock_runs dev T" and "T d < S + 2 ^ 49" "S \<le> T d"
  shows "finishes (sos_wait dev before (word_of_nat S) elapsed d)"
  using assms(2,3)
proof (induction arbitrary: elapsed rule: time_left_induct [where T = T])
  case (step d)
  obtain v d1 where 1: "RREG32 dev (mp0_reg dev MP0_C2PMSG_81) d = (v, d1)" by fastforce
  obtain x d2 where 2: "now_ns dev d1 = (x, d2)" by fastforce
  let ?d3 = "sleep_ms dev 1 d2"
  obtain now d4 where 4: "now_ns dev ?d3 = (now, d4)" by fastforce
  note t = clock_read [OF clk 1 [unfolded RREG32_def]] clock_now [OF clk 2] clock_sleep [OF clk, of d2] clock_now [OF clk 4]
  let ?el = "(now - word_of_nat S) div 1000"
  have "finishes (sos_wait dev before (word_of_nat S) ?el d4)"
  proof (cases "?el < kSOSBudgetUs")
    case False
    then show ?thesis by (subst sos_wait.simps) simp
  next
    case True
    then have "T ?d3 < S + unat kSOSBudgetUs * 1000" using t step by (intro within_budget) auto
    then show ?thesis using t step.prems by (intro step.IH) (auto simp: kSOSBudgetUs_def)
  qed
  then show ?case by (subst sos_wait.simps) (simp add: 1 2 4)
qed

lemma fence_wait_returns:
  assumes clk: "clock_runs dev T" and "T d < S + 2 ^ 49" "S \<le> T d"
  shows "finishes (fence_wait dev fence (word_of_nat S) elapsed observed d)"
  using assms(2,3)
proof (induction arbitrary: elapsed observed rule: time_left_induct [where T = T])
  case (step d)
  obtain v d1 where 1: "RBAR2_32 dev kFenceVRAMOffset d = (v, d1)" by fastforce
  let ?d2 = "sleep_ms dev 1 d1"
  obtain now d3 where 3: "now_ns dev ?d2 = (now, d3)" by fastforce
  note t = clock_read [OF clk 1 [unfolded RBAR2_32_def]] clock_sleep [OF clk, of d1] clock_now [OF clk 3]
  let ?el = "(now - word_of_nat S) div 1000"
  have "finishes (fence_wait dev fence (word_of_nat S) ?el v d3)"
  proof (cases "?el < 1000000")
    case False
    then show ?thesis by (subst fence_wait.simps) simp
  next
    case True
    then have "T ?d2 < S + unat (1000000 :: u64) * 1000" using t step by (intro within_budget) auto
    then show ?thesis using t step.prems by (intro step.IH) auto
  qed
  then show ?case by (subst fence_wait.simps) (simp add: 1 3)
qed

lemma autoload_wait_returns:
  assumes clk: "clock_runs dev T" and "T d < S + 2 ^ 49" "S \<le> T d"
  shows "finishes (autoload_wait dev (word_of_nat S) elapsed d)"
  using assms(2,3)
proof (induction arbitrary: elapsed rule: time_left_induct [where T = T])
  case (step d)
  obtain v d1 where 1: "RREG32 dev (gc_reg dev 0 GCRegs_CP_STAT) d = (v, d1)" by fastforce
  obtain w d2 where 2: "RREG32 dev (gc_reg dev 1 RLC_RLCS_BOOTLOAD_STATUS) d1 = (w, d2)" by fastforce
  obtain x d3 where 3: "now_ns dev d2 = (x, d3)" by fastforce
  let ?d4 = "sleep_ms dev 1 d3"
  obtain now d5 where 5: "now_ns dev ?d4 = (now, d5)" by fastforce
  note t = clock_read [OF clk 1 [unfolded RREG32_def]] clock_read [OF clk 2 [unfolded RREG32_def]] clock_now [OF clk 3]
    clock_sleep [OF clk, of d3] clock_now [OF clk 5]
  let ?el = "(now - word_of_nat S) div 1000"
  have "finishes (autoload_wait dev (word_of_nat S) ?el d5)"
  proof (cases "?el < kRLCBudgetUs")
    case False
    then show ?thesis by (subst autoload_wait.simps) simp
  next
    case True
    then have "T ?d4 < S + unat kRLCBudgetUs * 1000" using t step by (intro within_budget) auto
    then show ?thesis using t step.prems by (intro step.IH) (auto simp: kRLCBudgetUs_def)
  qed
  then show ?case by (subst autoload_wait.simps) (simp add: 1 2 3 5)
qed

lemma fence32_clock:
  assumes "clock_runs dev T" "sdma_read_fence dev inst off d = (x, d')"
  shows "T d \<le> T d' \<and> T d' \<le> T d + 2 ^ 40"
proof -
  have "d' = d \<or> d' = snd (rd32 dev (bar0MemIndex dev) (sd_wb_vram_off inst + ucast off) d)"
    using assms(2) by (auto simp: sdma_read_fence_def vram_read_fence32_def Let_def split: if_splits prod.splits)
  then show ?thesis using assms(1) by (auto simp: clock_runs_def)
qed

lemma sdma_wait_returns:
  assumes clk: "clock_runs dev T" and b: "unat b * 1000 < 2 ^ 48" and "T d < S + 2 ^ 49" "S \<le> T d"
  shows "finishes (sdma_wait dev inst wanted (word_of_nat S) b d)"
  using assms(3,4)
proof (induction rule: time_left_induct [where T = T])
  case (step d)
  obtain r v d1 where 1: "sdma_read_fence dev inst 0x80 d = ((r, v), d1)" by (metis surj_pair)
  obtain now d2 where 2: "now_ns dev d1 = (now, d2)" by fastforce
  note t = fence32_clock [OF clk 1] clock_now [OF clk 2] clock_sleep [OF clk, of d2]
  show ?case
  proof (cases "b \<le> elapsed_us now (word_of_nat S)")
    case True
    then show ?thesis by (subst sdma_wait.simps) (simp add: 1 2)
  next
    case False
    then have "T d1 < S + unat b * 1000" using t step by (intro within_budget) (auto simp: elapsed_us_def)
    then have "finishes (sdma_wait dev inst wanted (word_of_nat S) b (sleep_ms dev 1 d2))"
      using t step.prems b by (intro step.IH) auto
    then show ?thesis by (subst sdma_wait.simps) (simp add: 1 2)
  qed
qed

section \<open>The secure processor\<close>

text \<open>A wait that starts now.\<close>

lemma from_now:
  assumes "clock_runs dev T" "now_ns dev d = (start, d1)"
  obtains S where "start = word_of_nat S" "S \<le> T d1" "T d1 < S + 2 ^ 49"
  using clock_now [OF assms] by (intro that [of "T d"]) auto

lemma poll_finishes:
  "clock_runs dev T \<Longrightarrow> unat t * 1000 + 2 ^ 42 < (2 :: nat) ^ 64 \<Longrightarrow> poll_reg dev reg m e t d \<noteq> None"
  using poll_reg_returns [of dev T t reg m e d] by auto

lemma wait_for_bootloader_returns: "clock_runs dev T \<Longrightarrow> psp_wait_for_bootloader dev d \<noteq> None"
  by (simp add: psp_wait_for_bootloader_def poll_finishes del: not_None_eq)

lemma load_sos_returns:
  assumes clk: "clock_runs dev T"
  shows "psp_load_sos dev psp d \<noteq> None"
proof -
  have "sos_wait dev before start 0 e1 \<noteq> None" if now: "now_ns dev e = (start, e1)" for before e start e1
    using from_now [OF clk now] sos_wait_returns [OF clk] by (metis finishes_iff)
  then show ?thesis using wait_for_bootloader_returns [OF clk]
    by (auto simp: psp_load_sos_def Let_def simp del: not_None_eq split: option.splits prod.splits)
qed

lemma ring_create_returns:
  assumes clk: "clock_runs dev T"
  shows "psp_ring_create dev psp d \<noteq> None"
proof -
  have small: "unat (5000000 :: u64) * 1000 < 2 ^ 48" by simp
  have "psp_poll_loop dev reg m e 5000000 start e1 \<noteq> None" if now: "now_ns dev e0 = (start, e1)" for reg m e e0 start e1
    using from_now [OF clk now] psp_poll_returns [OF clk small] by (metis finishes_iff)
  then have "poll_psp_response dev reg m e 5000000 e0 \<noteq> None" for reg m e e0
    by (simp add: poll_psp_response_def split: prod.splits)
  moreover have "poll_reg dev reg m e 5000000 e0 \<noteq> None" for reg m e e0 by (rule poll_finishes [OF clk]) simp
  ultimately show ?thesis
    by (auto simp: psp_ring_create_def Let_def simp del: not_None_eq split: option.splits prod.splits)
qed

lemma cmd_submit_returns:
  assumes clk: "clock_runs dev T"
  shows "psp_ring_cmd_submit dev psp cmd d \<noteq> None"
proof -
  have "fence_wait dev fence start 0 0 e1 \<noteq> None" if now: "now_ns dev e = (start, e1)" for fence e start e1
    using from_now [OF clk now] fence_wait_returns [OF clk] by (metis finishes_iff)
  then have "ring_answer dev p fence e \<noteq> None" for p fence e
    by (auto simp: ring_answer_def simp del: not_None_eq split: option.splits prod.splits)
  then show ?thesis by (simp add: psp_ring_cmd_submit_def Let_def del: not_None_eq split: prod.splits)
qed

lemma query_reservation_returns:
  assumes "clock_runs dev T"
  shows "psp_query_fw_reservation dev psp d \<noteq> None"
proof -
  have "reservation_query c dev p e \<noteq> None" for c p e
    using cmd_submit_returns [OF assms] by (auto simp: reservation_query_def Let_def simp del: not_None_eq split: option.splits)
  then show ?thesis by (simp add: psp_query_fw_reservation_def and_then_returns del: not_None_eq)
qed

lemma setup_tmr_returns:
  assumes clk: "clock_runs dev T"
  shows "psp_setup_tmr dev psp d \<noteq> None"
proof -
  have "submit_toc dev p bs e \<noteq> None" for p bs e
    using cmd_submit_returns [OF clk] by (auto simp: submit_toc_def Let_def simp del: not_None_eq split: option.splits prod.splits)
  then have "psp_load_toc_subbin dev p src n e \<noteq> None" for p src n e
    by (simp add: psp_load_toc_subbin_def del: not_None_eq split: option.splits)
  then show ?thesis using cmd_submit_returns [OF clk]
    by (auto simp: psp_setup_tmr_def Let_def simp del: not_None_eq split: prod.splits)
qed

section \<open>The mailbox\<close>

text \<open>A message leaves a device with the same clock.\<close>

abbreviation same_clock :: "('d \<Rightarrow> nat) \<Rightarrow> (kern_return \<times> 'd DeviceContext) \<times> 'd \<Rightarrow> bool" where
  "same_clock T x \<equiv> clock_runs (snd (fst x)) T"

lemma smu_answer_returns:
  assumes clk: "clock_runs dev T"
  shows "smu_wait_for_response dev d \<noteq> None"
proof -
  have "smu_wait_loop dev start e1 \<noteq> None" if now: "now_ns dev e = (start, e1)" for e start e1
    using from_now [OF clk now] smu_wait_returns [OF clk] by (metis finishes_iff)
  then show ?thesis by (simp add: smu_wait_for_response_def del: not_None_eq split: prod.splits)
qed

lemma smu_message_returns:
  assumes clk: "clock_runs dev T"
  shows "returns (\<lambda>((r, v, dev'), d'). clock_runs dev' T) (smu_send_msg_with_param read dev msgId param old d)"
proof -
  have pend: "clock_runs (pending_message p dev) T" for p
    using clk by (rule clock_same) (simp add: pending_message_def)
  have twice: "clock_runs (pending_message False (pending_message True dev)) T"
    using clk by (rule clock_same) (simp add: pending_message_def)
  have "returns (\<lambda>((r, v, dev'), d'). clock_runs dev' T) (smu_exchange read dev msgId param old e)" for e
    unfolding smu_exchange_def Let_def
    using smu_answer_returns [OF pend [of True]]
    by (intro returns_intro) (auto simp: pend twice simp del: not_None_eq split: prod.splits)
  then show ?thesis
    unfolding smu_send_msg_with_param_def using smu_answer_returns [OF clk] clk
    by (intro returns_intro) (auto simp del: not_None_eq split: prod.splits)
qed

lemma smu_post_returns:
  assumes "clock_runs dev T"
  shows "returns (same_clock T) (smu_post msgId param dev d)"
  unfolding smu_post_def
  by (intro returns_map returns_weaken [OF smu_message_returns [OF assms]]) auto

lemma smu_log_returns:
  assumes "clock_runs dev T"
  shows "returns (same_clock T) (smu_try msgId param dev d)" "returns (same_clock T) (smu_query msgId dev d)"
    "returns (same_clock T) (smu_send_msg dev msgId d)"
  unfolding smu_try_def smu_query_def smu_send_msg_def
  by (intro returns_map returns_weaken [OF smu_message_returns [OF assms]]
      returns_weaken [OF smu_post_returns [OF assms]]; auto)+

lemma smc_features_returns:
  assumes "clock_runs dev T"
  shows "returns (same_clock T) (smc_features dev d)"
  unfolding smc_features_def
  by (intro returns_and_then [where P = "same_clock T"] smu_log_returns; simp add: assms)

lemma smc_setup_returns:
  assumes clk: "clock_runs dev T"
  shows "returns (\<lambda>((r, dev', _), _). clock_runs dev' T) (smu_smc_hw_setup (dev, psp, ctx) d)"
proof -
  have address: "returns (same_clock T) (and_then (smu_post m p dev d) (smu_post m' p'))" if "clock_runs dev T" for m p dev d m' p'
    by (rule returns_and_then [where P = "same_clock T"]) (simp_all add: smu_post_returns that)
  show ?thesis
    unfolding smu_smc_hw_setup_def Let_def prod.case
    by (intro returns_if returns_prod returns_prod_app returns_outcome [OF smu_message_returns [where T = T]]
        returns_outcome [OF address] returns_outcome [OF smc_features_returns [where T = T]]) (auto simp: clk)
qed

section \<open>Blocks of VRAM\<close>

text \<open>The blocks an operation holds while it runs, beside those of others.\<close>

definition vram_held :: "VRAMAllocation list \<Rightarrow> VRAMBumpAllocator \<Rightarrow> bool" where
  "vram_held xs va \<longleftrightarrow> (\<exists>live. vram_inv va (xs @ live)) \<and> 0 \<notin> vram_arena va"

lemma vram_held_ok: "vram_held xs (vram_alloc gmc) \<Longrightarrow> vram_ok gmc"
  by (auto simp: vram_held_def vram_ok_def)

lemma vram_ok_held: "vram_ok gmc \<longleftrightarrow> vram_held [] (vram_alloc gmc)"
  by (simp add: vram_held_def vram_ok_def)

lemma vram_held_none: "vram_held xs va \<Longrightarrow> vram_held [] va"
  by (auto simp: vram_held_def)

lemma vram_held_free:
  assumes "vram_held (a # xs) va"
  shows "returns (vram_held xs) (free va a)"
proof -
  obtain live where inv: "vram_inv va (a # xs @ live)" and z: "0 \<notin> vram_arena va"
    using assms by (auto simp: vram_held_def)
  show ?thesis using free_spec [OF inv, of a] z by (auto simp: vram_held_def)
qed

lemma returns_alloc:
  assumes "vram_held xs va" "returns Q (f va)" "\<And>a va. vram_held (a # xs) va \<Longrightarrow> returns Q (k a va)"
  shows "returns Q (case alloc va n al of None \<Rightarrow> None | Some (None, va) \<Rightarrow> f va | Some (Some a, va) \<Rightarrow> k a va)"
proof -
  obtain live where inv: "vram_inv va (xs @ live)" and z: "0 \<notin> vram_arena va"
    using assms(1) by (auto simp: vram_held_def)
  show ?thesis
  proof (cases "alloc va n al = Some (None, va)")
    case False
    then obtain a va' where al: "alloc va n al = Some (Some a, va')" using alloc_outcome [OF inv] by blast
    then have "vram_reserve va (n, al) = Some (a, va')" by (simp add: vram_reserve_def)
    note v = vram_reserve_spec [OF inv this]
    then have "vram_held (a # xs) va'" using z by (auto simp: vram_held_def)
    then show ?thesis using al assms(3) by simp
  qed (simp add: assms(2))
qed

text \<open>One block given back, or two.\<close>

lemma returns_free:
  assumes "vram_held (a # xs) (vram_alloc gmc)" "\<And>gmc. vram_held xs (vram_alloc gmc) \<Longrightarrow> Q (f gmc)"
  shows "returns Q (map_option f (cp_free gmc a))" "returns Q (map_option f (sdma_free gmc a))"
  unfolding cp_free_def sdma_free_def
  by (intro returns_map returns_weaken [OF vram_held_free [OF assms(1)]]; simp add: assms(2))+

lemma returns_free_both:
  assumes "vram_held [a, b] (vram_alloc gmc)" "\<And>gmc. vram_held [] (vram_alloc gmc) \<Longrightarrow> Q (f gmc)"
  shows "returns Q (case cp_free gmc a of None \<Rightarrow> None | Some gmc \<Rightarrow> map_option f (cp_free gmc b))"
    "returns Q (case sdma_free gmc a of None \<Rightarrow> None | Some gmc \<Rightarrow> map_option f (sdma_free gmc b))"
proof -
  have first: "returns (\<lambda>g. vram_held [b] (vram_alloc g)) (cp_free gmc a)"
    "returns (\<lambda>g. vram_held [b] (vram_alloc g)) (sdma_free gmc a)"
    unfolding cp_free_def sdma_free_def
    by (intro returns_map returns_weaken [OF vram_held_free [OF assms(1)]]; simp)+
  show "returns Q (case cp_free gmc a of None \<Rightarrow> None | Some gmc \<Rightarrow> map_option f (cp_free gmc b))"
    by (rule returns_bind [OF first(1)], rule returns_free) (assumption, erule assms(2))
  show "returns Q (case sdma_free gmc a of None \<Rightarrow> None | Some gmc \<Rightarrow> map_option f (sdma_free gmc b))"
    by (rule returns_bind [OF first(2)], rule returns_free) (assumption, erule assms(2))
qed

section \<open>The engines\<close>

text \<open>What the operations that take blocks leave: the allocator of the GMC context they return is sound.\<close>

abbreviation vram_left :: "(kern_return \<times> 'p \<times> GMCContext) \<times> 'd \<Rightarrow> bool" where
  "vram_left x \<equiv> vram_ok (snd (snd (fst x)))"

lemma cp_enable_returns:
  assumes clk: "clock_runs dev T"
  shows "cp_enable dev enable d \<noteq> None"
proof -
  have "cp_idle_wait dev start e1 \<noteq> None" if now: "now_ns dev e = (start, e1)" for e start e1
    using from_now [OF clk now] cp_idle_returns [OF clk] by (metis finishes_iff)
  then show ?thesis by (simp add: cp_enable_def Let_def del: not_None_eq split: prod.splits)
qed

lemma start_engines_returns: "clock_runs dev T \<Longrightarrow> cp_start_engines dev cp d \<noteq> None"
  using cp_enable_returns [of dev T]
  by (auto simp: cp_start_engines_def Let_def simp del: not_None_eq split: option.splits prod.splits)

lemma cp_storage_returns:
  assumes "vram_ok (snd s)"
  shows "returns vram_left (cp_alloc_storage dev os s d)"
proof -
  obtain cp gmc where s: "s = (cp, gmc)" by fastforce
  have ok: "vram_held [] (vram_alloc gmc)" using assms by (simp add: s vram_ok_held)
  have ready: "returns vram_left (cp_storage_ready dev os ring wb (cp, g) d)"
    if "vram_held [wb, ring] (vram_alloc g)" for ring wb g d
    unfolding cp_storage_ready_def Let_def
    by (intro returns_if returns_prod returns_prod_app returns_free_both) (auto simp: that vram_ok_held vram_held_none [OF that])
  show ?thesis
    unfolding cp_alloc_storage_def s Let_def prod.case
    by (intro returns_if returns_prod returns_alloc [OF ok] returns_alloc returns_free ready) (auto simp: vram_ok_held ok)
qed

lemma prepare_firmware_returns:
  assumes clk: "clock_runs dev T" and ok: "vram_ok (snd s)"
  shows "returns vram_left (cp_prepare_firmware dev os s d)"
  unfolding cp_prepare_firmware_def Let_def
  using cp_enable_returns [OF clk]
  by (intro returns_if returns_and_then [OF cp_storage_returns [OF ok]] returns_prod returns_option)
    (auto simp: ok simp del: not_None_eq split: prod.splits)

lemma sdma_storage_returns:
  assumes "vram_ok gmc"
  shows "returns vram_left (sdma_alloc_storage dev inst gmc d)"
proof -
  have ok: "vram_held [] (vram_alloc gmc)" using assms by (simp add: vram_ok_held)
  have ready: "returns vram_left (sdma_storage_ready dev ring wb (inst, g) d)"
    if "vram_held [wb, ring] (vram_alloc g)" for ring wb g inst d
    unfolding sdma_storage_ready_def Let_def prod.case
    by (intro returns_if returns_prod returns_prod_app returns_free_both) (auto simp: that vram_ok_held vram_held_none [OF that])
  show ?thesis
    unfolding sdma_alloc_storage_def Let_def
    by (intro returns_if returns_prod returns_alloc [OF ok] returns_alloc returns_free ready) (auto simp: vram_ok_held ok)
qed

lemma sdma_test_returns:
  assumes clk: "clock_runs dev T"
  shows "sdma_ring_test dev inst 100000 d \<noteq> None"
proof -
  have small: "unat (100000 :: u64) * 1000 < 2 ^ 48" by simp
  have "sdma_wait dev i w start 100000 e1 \<noteq> None" if now: "now_ns dev e = (start, e1)" for i w e start e1
    using from_now [OF clk now] sdma_wait_returns [OF clk small] by (metis finishes_iff)
  then show ?thesis by (simp add: sdma_ring_test_def Let_def del: not_None_eq split: prod.splits)
qed

text \<open>The loop over the instances keeps what each step keeps.\<close>

lemma instances_return:
  assumes "\<And>i s d. vram_ok (snd s) \<Longrightarrow> returns vram_left (f i s d)" "vram_ok (snd s)"
  shows "returns vram_left (for_instances f is s d)"
  using assms(2)
proof (induction "is" arbitrary: s d)
  case (Cons i "is")
  show ?case
    unfolding for_instances.simps by (rule returns_and_then [OF assms(1) [OF Cons.prems]]) (simp_all add: Cons.IH)
qed simp

lemma sdma_init_returns:
  assumes clk: "clock_runs dev T" and ok: "vram_ok (snd s)"
  shows "returns vram_left (sdma_init_full dev s d)"
proof -
  have storage: "returns vram_left (sdma_storage_step dev i s d)" if "vram_ok (snd s)" for i s d
    unfolding sdma_storage_step_def using that
    by (cases s) (auto intro!: returns_map returns_weaken [OF sdma_storage_returns])
  have resume: "returns vram_left (sdma_resume_step dev i s d)" if "vram_ok (snd s)" for i s d
    using that by (cases s) (simp add: sdma_resume_step_def split: prod.splits)
  have test: "returns vram_left (sdma_test_step dev i s d)" if "vram_ok (snd s)" for i s d
    using that
    by (cases s) (auto simp: sdma_test_step_def intro!: returns_map returns_weaken [OF sdma_test_returns [OF clk, THEN finishes_iff [THEN iffD2]]])
  show ?thesis
    unfolding sdma_init_full_def
    by (intro returns_if returns_and_then [OF instances_return [OF storage]] returns_and_then [OF instances_return [OF resume]]
        returns_and_then [OF instances_return [OF test]]) (auto simp: ok)
qed

section \<open>The run list controller\<close>

abbreviation vram_left_fst :: "(kern_return \<times> GMCContext \<times> 'p) \<times> 'd \<Rightarrow> bool" where
  "vram_left_fst x \<equiv> vram_ok (fst (snd (fst x)))"

lemma autoload_returns:
  assumes clk: "clock_runs dev T"
  shows "rlc_wait_for_autoload_complete dev rlc d \<noteq> None"
proof -
  have "autoload_wait dev start 0 e1 \<noteq> None" if now: "now_ns dev e = (start, e1)" for e start e1
    using from_now [OF clk now] autoload_wait_returns [OF clk] by (metis finishes_iff)
  then show ?thesis by (simp add: rlc_wait_for_autoload_complete_def Let_def del: not_None_eq split: prod.splits)
qed

lemma csb_returns:
  assumes "vram_ok (fst s)"
  shows "returns (\<lambda>x. vram_ok (fst (snd x))) (rlc_alloc_csb s)"
proof -
  obtain gmc rlc where s: "s = (gmc, rlc)" by fastforce
  have ok: "vram_held [] (vram_alloc gmc)" using assms by (simp add: s vram_ok_held)
  show ?thesis
    unfolding rlc_alloc_csb_def s Let_def prod.case
    by (intro returns_if returns_alloc [OF ok]) (auto simp: vram_ok_held ok dest: vram_held_none)
qed

lemma rlc_init_returns:
  assumes clk: "clock_runs dev T" and ok: "vram_ok (fst s)"
  shows "returns vram_left_fst (rlc_init_full dev s d)"
proof -
  obtain gmc rlc where s: "s = (gmc, rlc)" by fastforce
  have wait: "finishes (if c then Some ((kIOReturnSuccess, rlc), d) else rlc_wait_for_autoload_complete dev rlc d)" for c
    using autoload_returns [OF clk] by (simp add: finishes_iff del: not_None_eq)
  have csb: "returns (\<lambda>x. vram_ok (fst (snd x))) (rlc_alloc_csb (gmc, r))" for r
    by (rule csb_returns) (use ok in \<open>simp add: s\<close>)
  show ?thesis
    unfolding rlc_init_full_def s Let_def prod.case
    by (intro returns_if returns_outcome [OF wait] returns_bind [OF csb] returns_prod returns_prod_app)
      (use ok in \<open>auto simp: s\<close>)
qed

section \<open>The scheduler\<close>

lemma good_returns: "good s N m \<Longrightarrow> returns (\<lambda>((r, s'), _). bring_inv s') m"
  by (auto simp: good_def returns_def)

lemma mes_init_returns:
  assumes "clock_runs dev T" "bring_inv s"
  shows "returns (\<lambda>((r, s'), _). bring_inv s') (mes_init_full dev os s d)"
  by (rule good_returns) (rule mes_init_full_good [OF assms])

lemma map_gfx_returns:
  assumes clk: "clock_runs dev T" and inv: "bring_inv (mes, gmc)"
  shows "returns (\<lambda>((r, cp, gmc, mes), _). bring_inv (mes, gmc)) (cp_map_gfx_queue dev (cp, gmc, mes) d)"
proof -
  have ok: "vram_held [] (vram_alloc gmc)" and pipes: "\<forall>p. pipe_inv (mes_pipe mes p)"
    using inv by (simp_all add: bring_inv_def vram_ok_held)
  have map: "returns (\<lambda>((r, mes'), _). \<forall>p. pipe_inv (mes_pipe mes' p)) (mes_map_legacy_queue dev mes ty p q db mqd w e)"
    for ty p q db mqd w e
    using good_returns [OF map_good [OF clk inv, of ty p q db mqd w e]]
    by (auto simp: on_fst_def returns_def bring_inv_def)
  show ?thesis
    unfolding cp_map_gfx_queue_def Let_def prod.case
    by (intro returns_if returns_alloc [OF ok] returns_prod returns_prod_app returns_outcome [OF map] returns_option)
      (auto simp: bring_inv_def vram_ok_held ok pipes dest: vram_held_none)
qed

lemma cp_init_returns:
  assumes clk: "clock_runs dev T" and inv: "bring_inv (mes, gmc)"
  shows "returns (\<lambda>((r, cp, gmc, mes), _). bring_inv (mes, gmc)) (cp_init_full dev (cp, gmc, mes) d)"
  unfolding cp_init_full_def fst_conv
  by (intro returns_if returns_outcome [OF map_gfx_returns [OF clk inv]] returns_prod returns_prod_app) (auto simp: inv)

end
