(* ===== verification/Bringup_Returns.thy ===== *)
theory Bringup_Returns
  imports Bringup_Properties Discovery_Properties Returns
begin

text \<open>
  Initialisation returns while the clock runs: every stage does, and leaves a context from which every stage does.
  What the stages rely on is the invariant of the scheduler's pipes and, once the memory controller is initialised,
  of the VRAM allocator.
\<close>

section \<open>The memory controller\<close>

text \<open>An allocator that is initialised is sound.\<close>

definition vram_sound :: "GMCContext \<Rightarrow> bool" where
  "vram_sound gmc \<longleftrightarrow> (m_inited (vram_alloc gmc) \<longrightarrow> vram_ok gmc)"

lemma vram_sound_same:
  "vram_alloc gmc' = vram_alloc gmc \<Longrightarrow> vram_sound gmc' = vram_sound gmc"
  "vram_alloc gmc' = vram_alloc gmc \<Longrightarrow> vram_ok gmc' = vram_ok gmc"
  by (simp_all add: vram_sound_def vram_ok_def)

lemma mc_init_vram: "gmc_mc_init dev gmc d = ((r, gmc'), d') \<Longrightarrow> vram_alloc gmc' = vram_alloc gmc"
  by (auto simp: gmc_mc_init_def Let_def split: if_splits prod.splits option.splits)

lemma hub_init_vram:
  "gmc_mmhub_offsets_init gmc = (r, gmc') \<Longrightarrow> vram_alloc gmc' = vram_alloc gmc"
  "gmc_gfxhub_offsets_init gmc = (r, gmc') \<Longrightarrow> vram_alloc gmc' = vram_alloc gmc"
  by (auto simp: gmc_mmhub_offsets_init_def gmc_gfxhub_offsets_init_def split: if_splits)

lemma alloc_resources_vram: "gmc_alloc_resources dev os gmc d = ((r, gmc'), d') \<Longrightarrow> vram_alloc gmc' = vram_alloc gmc"
  by (auto simp: gmc_alloc_resources_def gmc_release_resources_def Let_def split: if_splits prod.splits option.splits)

lemma vram_init_sound:
  assumes "gmc_vram_alloc_init gmc = (r, gmc')" "vram_sound gmc"
  shows "vram_sound gmc' \<and> (r = kIOReturnSuccess \<longrightarrow> vram_ok gmc')"
proof (cases "r = kIOReturnSuccess \<and> \<not> m_inited (vram_alloc gmc)")
  case True
  then obtain x where pool: "buffer_device_pool (vram_start gmc) (visible_vram_size gmc) (real_vram_size gmc) = Some x"
    "kPspReservedTopBytes < visible_vram_size gmc"
    and va: "vram_alloc gmc' = vram_init (vram_start gmc + kPspReservedTopBytes)
      (visible_vram_size gmc - kPspReservedTopBytes) None"
    using assms(1) by (auto simp: gmc_vram_alloc_init_def split: if_splits option.splits)
  note v = visible_pool [OF pool]
  have "0 \<notin> vram_arena (vram_alloc gmc')" using v(2) by (simp add: va vram_arena_def vram_init_fields)
  then have "vram_ok gmc'" using v(1) by (auto simp: vram_ok_def va)
  then show ?thesis by (simp add: vram_sound_def)
next
  case False
  then have "gmc' = gmc" "r = kIOReturnSuccess \<longrightarrow> m_inited (vram_alloc gmc)"
    using assms(1) by (auto simp: gmc_vram_alloc_init_def split: if_splits option.splits)
  then show ?thesis using assms(2) by (auto simp: vram_sound_def)
qed

abbreviation gmc_left :: "('d \<Rightarrow> nat) \<Rightarrow> (kern_return \<times> GMCContext \<times> 'd DeviceContext) \<times> 'd \<Rightarrow> bool" where
  "gmc_left T x \<equiv> (case x of ((r, gmc, dev), _) \<Rightarrow>
     clock_runs dev T \<and> vram_sound gmc \<and> (r = kIOReturnSuccess \<longrightarrow> vram_ok gmc))"

lemma gmc_init_returns:
  assumes clk: "clock_runs dev T" and sound: "vram_sound gmc"
  shows "returns (gmc_left T) (gmc_init dev os gmc d)"
proof -
  have ready: "clock_runs (dev\<lparr>gmcReady := True\<rparr>) T" using clk by (rule clock_same) simp
  have flush: "finishes (gmc_flush_gpu_tlb dev h 0 0 e)" for h e
    using flush_returns [OF clk, of h 0 0 e] by (auto simp: finishes_iff)
  obtain r1 g1 d1 where 1: "gmc_mc_init dev gmc d = ((r1, g1), d1)" by (metis surj_pair)
  obtain r2 g2 where 2: "gmc_vram_alloc_init g1 = (r2, g2)" by fastforce
  obtain r3 g3 where 3: "gmc_mmhub_offsets_init g2 = (r3, g3)" by fastforce
  obtain r4 g4 where 4: "gmc_gfxhub_offsets_init g3 = (r4, g4)" by fastforce
  obtain r5 g5 d5 where 5: "gmc_alloc_resources dev os g4 d1 = ((r5, g5), d5)" by (metis surj_pair)
  have s1: "vram_sound g1" using sound vram_sound_same(1) [OF mc_init_vram [OF 1]] by simp
  note s2 = vram_init_sound [OF 2 s1]
  have same: "vram_sound g3 = vram_sound g2" "vram_ok g3 = vram_ok g2" "vram_sound g4 = vram_sound g2" "vram_ok g4 = vram_ok g2"
    "vram_sound g5 = vram_sound g2" "vram_ok g5 = vram_ok g2"
    using vram_sound_same [OF hub_init_vram(1) [OF 3]] vram_sound_same [OF hub_init_vram(2) [OF 4]]
      vram_sound_same [OF alloc_resources_vram [OF 5]] by simp_all
  show ?thesis
    unfolding gmc_init_def Let_def 1 2 3 4 5 prod.case
    by (intro returns_if returns_prod returns_bind [OF flush]) (use s1 s2 same in \<open>auto simp: clk ready\<close>)
qed

section \<open>The stages\<close>

text \<open>What the stages rely on; \<open>ready\<close> is whether the memory controller has been initialised.\<close>

definition bring_ready :: "('d \<Rightarrow> nat) \<Rightarrow> bool \<Rightarrow> 'd BringupContext \<Rightarrow> bool" where
  "bring_ready T ready b \<longleftrightarrow> clock_runs (b_device b) T \<and> (\<forall>p. pipe_inv (mes_pipe (b_mes b) p)) \<and>
     vram_sound (b_gmc b) \<and> (ready \<longrightarrow> vram_ok (b_gmc b))"

abbreviation stage_left :: "('d \<Rightarrow> nat) \<Rightarrow> bool \<Rightarrow> (kern_return \<times> 'd BringupContext) \<times> 'd \<Rightarrow> bool" where
  "stage_left T ready x \<equiv> bring_ready T ready (snd (fst x))"

lemma ok_sound: "vram_ok gmc \<Longrightarrow> vram_sound gmc"
  by (simp add: vram_sound_def)

lemma discover_returns:
  assumes "clock_runs dev T"
  shows "discover_ips_on_die dev d \<noteq> None"
  using discover_cases [OF assms, of d] by auto

lemma ip_discovery_returns:
  assumes "bring_ready T ready b"
  shows "returns (stage_left T ready) (stage_ip_discovery b d)"
proof -
  have clk: "clock_runs (b_device b) T" using assms by (simp add: bring_ready_def)
  have dev: "bring_ready T ready (b\<lparr>b_device := dev\<rparr>)" if "pci dev = pci (b_device b)" for dev
    using assms clock_same [OF clk that] by (simp add: bring_ready_def)
  show ?thesis
    unfolding stage_ip_discovery_def
    using discover_returns [OF clk, of d]
    by (auto simp: bringup_ip_discovery_def Let_def dev split: option.splits prod.splits)
qed

text \<open>A stage that works on one part of the context only.\<close>

lemma part_returns:
  assumes "returns P m" "\<And>r p d. P ((r, p), d) \<Longrightarrow> bring_ready T ready (put p b)"
  shows "returns (stage_left T ready) (put_back put b m)"
  unfolding put_back_def by (rule returns_map, rule returns_weaken [OF assms(1)]) (use assms(2) in auto)

lemma part_finishes:
  assumes "m \<noteq> None" "\<And>p. bring_ready T ready (put p b)"
  shows "returns (stage_left T ready) (put_back put b m)"
  by (rule part_returns [where P = "\<lambda>_. True"]) (simp_all add: finishes_iff assms del: not_None_eq)

lemma put_ready [simp]:
  "bring_ready T ready (put_psp p b) = bring_ready T ready b"
  "bring_ready T ready (put_rlc q b) = bring_ready T ready b"
  "bring_ready T ready (put_cp c b) = bring_ready T ready b"
  by (simp_all add: put_defs bring_ready_def)

lemma ring_stage_returns:
  assumes "bring_ready T ready b"
  shows "returns (stage_left T ready) (stage_psp_ring_create b d)"
proof -
  have clk: "clock_runs (b_device b) T" using assms by (simp add: bring_ready_def)
  have "and_then (psp_ring_create (b_device b) (b_psp b) d) (psp_query_fw_reservation (b_device b)) \<noteq> None"
    by (intro and_then_returns ring_create_returns [OF clk] query_reservation_returns [OF clk])
  then show ?thesis unfolding stage_psp_ring_create_def using assms by (intro part_finishes) simp_all
qed

lemma smu_stage_returns:
  assumes "bring_ready T ready b"
  shows "returns (stage_left T ready) (stage_smu_init b d)"
proof -
  have clk: "clock_runs (b_device b) T" using assms by (simp add: bring_ready_def)
  have test: "returns (\<lambda>((r, v, dev'), d'). clock_runs dev' T) (smu_test_message (b_device b) d)"
    unfolding smu_test_message_def
    by (intro returns_map returns_weaken [OF smu_message_returns [OF clk]]) auto
  have ver: "returns (\<lambda>((r, v, dev'), d'). clock_runs dev' T) (smu_get_version dev e)" if "clock_runs dev T" for dev e
    unfolding smu_get_version_def by (rule smu_message_returns [OF that])
  have up: "clock_runs (dev\<lparr>smuOnline := True\<rparr>) T" if "clock_runs dev T" for dev
    by (rule clock_same [OF that]) simp
  have dev: "bring_ready T ready (b\<lparr>b_device := dev\<rparr>)" if "clock_runs dev T" for dev
    using assms that by (simp add: bring_ready_def)
  have put: "bring_ready T ready (put_smu (dev, a, m) b)" if "clock_runs dev T" for dev a m
    using assms that by (simp add: bring_ready_def put_smu_def)
  show ?thesis
    unfolding stage_smu_init_def
    by (intro returns_if returns_prod returns_prod_app returns_outcome [OF test] returns_outcome [OF ver]
        part_returns [OF smc_setup_returns [OF up]]) (auto simp: dev put)
qed

lemma gmc_stage_returns:
  assumes "bring_ready T ready b"
  shows "returns (\<lambda>((r, b'), _). bring_ready T (r = kIOReturnSuccess) b') (stage_gmc_init os b d)"
proof -
  have "returns (gmc_left T) (gmc_init (b_device b) os (b_gmc b) d)"
    using assms by (intro gmc_init_returns) (simp_all add: bring_ready_def)
  then show ?thesis
    unfolding stage_gmc_init_def put_back_def
    by (intro returns_map, elim returns_weaken) (use assms in \<open>auto simp: bring_ready_def\<close>)
qed

lemma mes_stage_returns:
  assumes "bring_ready T True b"
  shows "returns (stage_left T True) (stage_mes_init os b d)"
proof -
  have clk: "clock_runs (b_device b) T" using assms by (simp add: bring_ready_def)
  have engines: "returns (\<lambda>x. bring_ready T True (snd (fst x))) (put_back put_cp b (cp_start_engines (b_device b) (b_cp b) d))"
    by (intro part_finishes start_engines_returns [OF clk]) (simp add: assms)
  have mes: "returns (stage_left T True) (put_back put_mes_gmc b (mes_init_full (b_device b) os (b_mes b, b_gmc b) e))"
    if "bring_ready T True b" for b e
    by (rule part_returns [OF mes_init_returns [where T = T]])
      (use that in \<open>auto simp: bring_ready_def bring_inv_def put_defs ok_sound\<close>)
  show ?thesis
    unfolding stage_mes_init_def
    by (rule returns_and_then [OF engines]) (auto intro!: returns_map returns_weaken [OF mes])
qed

lemma gfxhub_returns:
  assumes "bring_ready T True b"
  shows "returns (stage_left T True) (stage_gfxhub b d)"
proof -
  have clk: "clock_runs (b_device b) T" using assms by (simp add: bring_ready_def)
  have flush: "finishes (gmc_flush_gpu_tlb (b_device b) h 0 0 e)" for h e
    using flush_returns [OF clk, of h 0 0 e] by (auto simp: finishes_iff)
  have gart: "bring_ready T True (b\<lparr>b_gmc := gmc, b_gart := gart\<rparr>)"
    if "gart_init (b_device b) (b_gmc b) g = (r, gmc, gart)" for r gmc gart g
  proof -
    have "vram_alloc gmc = vram_alloc (b_gmc b)"
      using that by (auto simp: gart_init_def Let_def split: if_splits prod.splits)
    from vram_sound_same [OF this] show ?thesis using assms by (simp add: bring_ready_def)
  qed
  show ?thesis
    unfolding stage_gfxhub_def Let_def
    by (intro returns_if returns_prod returns_prod_app returns_bind [OF flush]) (auto simp: assms dest: gart)
qed

lemma cp_stage_returns:
  assumes "bring_ready T True b"
  shows "returns (stage_left T True) (stage_cp_init os b d)"
proof -
  have parts: "returns (stage_left T True) (put_back put_cp_gmc b (cp_prepare_firmware (b_device b) os (b_cp b, b_gmc b) e))"
    "returns (stage_left T True) (put_back put_gmc_rlc b (rlc_init_full (b_device b) (b_gmc b, b_rlc b) e))"
    if "bring_ready T True b" for b e
    by (rule part_returns [OF prepare_firmware_returns [where T = T]] part_returns [OF rlc_init_returns [where T = T]];
        use that in \<open>auto simp: bring_ready_def put_defs ok_sound\<close>)+
  have gfx: "bring_ready T True (b\<lparr>b_gfx := g\<rparr>) = bring_ready T True b" for b :: "'a BringupContext" and g
    by (simp add: bring_ready_def)
  show ?thesis
    unfolding stage_cp_init_def Let_def
    by (intro returns_and_then [OF returns_and_then [where P = "stage_left T True" and Q = "stage_left T True"]] parts(1) assms)
      (auto intro!: gfxhub_returns returns_prod returns_if parts(2) simp: gfx)
qed

lemma sdma_stage_returns:
  assumes "bring_ready T True b"
  shows "returns (stage_left T True) (put_back put_sdma_gmc b (sdma_init_full (b_device b) (b_sdma b, b_gmc b) d))"
  by (rule part_returns [OF sdma_init_returns [where T = T]])
    (use assms in \<open>auto simp: bring_ready_def put_defs ok_sound\<close>)

lemma gfx_stage_returns:
  assumes "bring_ready T True b"
  shows "returns (stage_left T True) (put_back put_cp_gmc_mes b (cp_init_full (b_device b) (b_cp b, b_gmc b, b_mes b) d))"
  by (rule part_returns [OF cp_init_returns [where T = T]])
    (use assms in \<open>auto simp: bring_ready_def bring_inv_def put_defs ok_sound\<close>)

lemma rlc_stage_returns:
  assumes "bring_ready T ready b"
  shows "returns (stage_left T ready) (stage_rlc_init b d)"
proof -
  have clk: "clock_runs (b_device b) T" using assms by (simp add: bring_ready_def)
  show ?thesis
    unfolding stage_rlc_init_def using assms
    by (intro returns_if part_finishes autoload_returns [OF clk]) simp_all
qed

section \<open>The loop\<close>

lemma run_stage_returns:
  assumes "bring_ready T (4 \<le> s) b"
  shows "returns (\<lambda>((r, b'), _). bring_ready T (4 \<le> s \<or> s = 3 \<and> r = kIOReturnSuccess) b') (run_stage os hm s b d)"
proof -
  have weaken: "returns (\<lambda>((r, b'), _). bring_ready T (4 \<le> s \<or> s = 3 \<and> r = kIOReturnSuccess) b') m"
    if "returns (stage_left T (4 \<le> s)) m" "s \<noteq> 3" for m :: "('a BringupContext, 'a) outcome"
    using that(1) by (rule returns_weaken) (use that(2) in auto)
  have clk: "clock_runs (b_device b) T" using assms by (simp add: bring_ready_def)
  note stages = ip_discovery_returns [OF assms] ring_stage_returns [OF assms] smu_stage_returns [OF assms] rlc_stage_returns [OF assms]
  have parts: "returns (stage_left T (4 \<le> s)) (put_back put_psp b (psp_load_sos (b_device b) (b_psp b) d))"
    "returns (stage_left T (4 \<le> s)) (put_back put_psp b (psp_setup_tmr (b_device b) (b_psp b) d))"
    by (intro part_finishes load_sos_returns [OF clk] setup_tmr_returns [OF clk]; simp add: assms)+
  have plain: "returns (stage_left T (4 \<le> s)) (stage_psp_init b d)" "returns (stage_left T (4 \<le> s)) (stage_ih_init os hm b d)"
    using assms by (simp_all add: stage_psp_init_def stage_ih_init_def bring_ready_def put_defs split: prod.splits)
  have imu: "returns (stage_left T (4 \<le> s)) (let (r, imu) = imu_init_full (b_imu b) in Some ((r, b\<lparr>b_imu := imu\<rparr>), d))"
    using assms by (simp add: bring_ready_def split: prod.splits)
  have late: "bring_ready T True b" if "4 \<le> s" using assms that by simp
  consider "s = 3" | "s \<in> {12, 13, 14, 15}" | "s \<notin> {3, 12, 13, 14, 15}" by blast
  then show ?thesis
  proof cases
    case 1
    then show ?thesis
      using gmc_stage_returns [OF assms, of os d] by (simp add: run_stage_def stage_defs)
  next
    case 2
    then have s: "4 \<le> s" "s \<noteq> 3" by (auto simp: word_le_nat_alt)
    have "returns (stage_left T True) (run_stage os hm s b d)"
      using 2 cp_stage_returns [OF late [OF s(1)]] mes_stage_returns [OF late [OF s(1)]] gfx_stage_returns [OF late [OF s(1)]]
        sdma_stage_returns [OF late [OF s(1)]]
      by (auto simp: run_stage_def stage_defs)
    then show ?thesis using s by (intro weaken) simp_all
  next
    case 3
    have "returns (stage_left T (4 \<le> s)) (run_stage os hm s b d)"
      unfolding run_stage_def stage_defs using 3 assms
      by (intro returns_if stages parts plain imu) auto
    then show ?thesis using 3 by (intro weaken) simp_all
  qed
qed

text \<open>The invariant of a call: the stages up to the last completed one have left what the next ones need.\<close>

definition bringup_ready :: "('d \<Rightarrow> nat) \<Rightarrow> 'd BringupContext \<Rightarrow> bool" where
  "bringup_ready T b \<longleftrightarrow> b_reached b \<le> 15 \<and> bring_ready T (3 \<le> b_reached b) b"

lemma bringup_from_returns:
  assumes "bringup_ready T b"
  shows "returns (\<lambda>((r, b'), _). bringup_ready T b') (bringup_from os hm target (b_reached b + 1) b d)"
  using assms
proof (induction "15 - unat (b_reached b)" arbitrary: b d rule: less_induct)
  case less
  let ?s = "b_reached b + 1"
  have low: "b_reached b \<le> 15" and ready: "bring_ready T (3 \<le> b_reached b) b" using less.prems by (simp_all add: bringup_ready_def)
  note next_stage = unat_stage_next [OF low]
  have same: "4 \<le> ?s \<longleftrightarrow> 3 \<le> b_reached b" using next_stage by (simp add: word_le_nat_alt)
  obtain r b1 d1 where run: "run_stage os hm ?s b d = Some ((r, b1), d1)"
    and left: "bring_ready T (4 \<le> ?s \<or> ?s = 3 \<and> r = kIOReturnSuccess) b1"
    using run_stage_returns [of T ?s b os hm d] ready same by (auto simp: returns_def)
  have reached: "b_reached b1 = b_reached b" using run_stage_reached [of b os hm ?s d] run by (simp add: ends_def)
  show ?case
  proof (cases "target < ?s \<or> r \<noteq> kIOReturnSuccess")
    case True
    have "bring_ready T (3 \<le> b_reached b) b1" using left same by (auto simp: bring_ready_def)
    then have "bringup_ready T b1" using low reached by (simp add: bringup_ready_def)
    then show ?thesis using True run less.prems by (subst bringup_from.simps) auto
  next
    case False
    let ?b1 = "b1\<lparr>b_reached := ?s\<rparr>"
    have ok: "r = kIOReturnSuccess" using False by simp
    note after = reached_after [OF run [unfolded ok] low]
    have "3 \<le> ?s \<Longrightarrow> 4 \<le> ?s \<or> ?s = 3" by (auto simp: word_le_nat_alt word_unat_eq_iff)
    then have "bringup_ready T ?b1" using left False after by (auto simp: bringup_ready_def bring_ready_def)
    then have "returns (\<lambda>((r, b'), _). bringup_ready T b') (bringup_from os hm target (b_reached ?b1 + 1) ?b1 d1)"
      using after by (intro less.hyps) (auto simp: word_le_nat_alt)
    then show ?thesis using False run by (subst bringup_from.simps) simp
  qed
qed

text \<open>
  C38. While the clock runs, a call for initialisation up to any stage returns: whatever the device, DriverKit and
  host memory answer, no wait of any stage goes on for ever and no stage meets a broken structure. The context it
  leaves, after success or failure, is again one from which every call returns.
\<close>

theorem bringup_returns:
  assumes "bringup_ready T b"
  shows "\<exists>r b' d'. bringup_to os hm b target d = Some ((r, b'), d') \<and> bringup_ready T b'"
  using bringup_from_returns [OF assms, of os hm target d] by (auto simp: bringup_to_def returns_def)

text \<open>A fresh context, on a device that has only a memory and a clock.\<close>

lemma bringup_returns_witness:
  "\<exists>r b' d'. bringup_to null_os demo_hm ((bringup_zero 1)\<lparr>b_device := ram_dev\<rparr>) 15 (\<lambda>_ _. 0, 0) = Some ((r, b'), d') \<and>
     bringup_ready snd b'"
proof -
  have "bringup_ready snd ((bringup_zero 1)\<lparr>b_device := ram_dev\<rparr>)"
    using ram_dev_ok(4)
    by (simp add: bringup_ready_def bring_ready_def bringup_zero_def vram_sound_def gmc_zero_def vram_new_def
        mes_zero_def mes_instance_zero_def pipe_inv_def
        BringupStage_None_def)
  then show ?thesis by (rule bringup_returns)
qed

end
