(* ===== verification/Ucode_Properties.thy ===== *)
theory Ucode_Properties
  imports Ucode
begin

text \<open>
  What the extraction of a firmware file promises, whatever the bytes: it reads inside the file, and every
  slice it hands to the secure processor is inside the file.
\<close>

definition payload_inside :: "u64 \<Rightarrow> UcodePayload \<Rightarrow> bool" where
  "payload_inside sz p \<longleftrightarrow> 0 < unat (up_size p) \<and> unat (up_offset p) + unat (up_size p) \<le> unat sz"

definition payloads_ok :: "u64 \<Rightarrow> u32 set \<Rightarrow> UcodePayload list \<Rightarrow> bool" where
  "payloads_ok sz T ps \<longleftrightarrow> length ps \<le> kMaxUcodePayloadsPerFile \<and> (\<forall>p \<in> set ps. payload_inside sz p) \<and>
     up_fw_type ` set ps \<subseteq> T"

text \<open>An extraction that stays inside the file and emits only types of \<open>T\<close>.\<close>

definition extracts :: "u64 \<Rightarrow> u32 set \<Rightarrow> UcodePayload list option \<Rightarrow> bool" where
  "extracts sz T r \<longleftrightarrow> (\<exists>ps. r = Some ps \<and> payloads_ok sz T ps)"

lemma payloads_ok_Nil [simp]: "payloads_ok sz T []"
  by (simp add: payloads_ok_def)

lemma extracts_Some [simp]: "extracts sz T (Some ps) \<longleftrightarrow> payloads_ok sz T ps"
  by (simp add: extracts_def)

lemma payloads_ok_mono: "payloads_ok sz T ps \<Longrightarrow> T \<subseteq> U \<Longrightarrow> payloads_ok sz U ps"
  by (auto simp: payloads_ok_def)

lemma extracts_mono: "extracts sz T r \<Longrightarrow> T \<subseteq> U \<Longrightarrow> extracts sz U r"
  by (auto simp: extracts_def intro: payloads_ok_mono)

lemma payloads_ok_filter: "payloads_ok sz T ps \<Longrightarrow> payloads_ok sz (T \<inter> {fw}) (only_type fw ps)"
  using order_trans [OF length_filter_le [of "\<lambda>p. up_fw_type p = fw" ps], of kMaxUcodePayloadsPerFile]
  by (auto simp: payloads_ok_def only_type_def)

lemma extracts_filter:
  assumes "extracts sz T r" shows "extracts sz {fw} (map_option (only_type fw) r)"
  using assms by (auto simp: extracts_def intro: payloads_ok_mono [OF payloads_ok_filter])

lemma extracts_bind:
  assumes "extracts sz T r" "\<And>ps. payloads_ok sz T ps \<Longrightarrow> extracts sz U (k ps)"
  shows "extracts sz U (r \<bind> k)"
  using assms by (auto simp: extracts_def)

section \<open>Reading\<close>

lemma rd8_some: "i < length bin \<Longrightarrow> rd8 bin i = Some (bin ! i)"
  by (simp add: rd8_def)

lemma rdf16_some: "offset_of L f + 2 \<le> length bin \<Longrightarrow> \<exists>v. rdf16 bin L f = Some v"
  by (simp add: rdf16_def rd16_def rd8_some)

lemma rdf32_some: "offset_of L f + 4 \<le> length bin \<Longrightarrow> \<exists>v. rdf32 bin L f = Some v"
  by (simp add: rdf32_def rd32le_def rd16_def rd8_some)

text \<open>The sizes of the headers as words.\<close>

definition layout_fits :: "layout \<Rightarrow> bool" where "layout_fits L \<longleftrightarrow> layout_size L < 4096"

lemma not_smaller: "layout_fits L \<Longrightarrow> \<not> smaller sz L \<Longrightarrow> layout_size L \<le> unat sz"
  by (simp add: smaller_def layout_fits_def word_less_nat_alt unat_of_nat)

section \<open>Emitting payloads\<close>

lemma push_ok:
  assumes "payloads_ok sz T out" "fw \<in> T" "unat sz < 4294967296"
    "unat off < 8589934592" "unat n < 4294967296"
  shows "payloads_ok sz T (push out fw off n sz)"
proof (cases "kMaxUcodePayloadsPerFile \<le> length out \<or> \<not> within off n sz")
  case True
  with assms(1) show ?thesis by (auto simp: push_def)
next
  case False
  then have w: "n \<noteq> 0" "off < sz" "off + n \<le> sz" by (auto simp: within_def)
  have sum: "unat (off + n) = unat off + unat n" using assms(4,5) by (simp add: word_nat)
  have "unat off < 4294967296" using w(2) assms(3) by (simp add: word_less_nat_alt)
  then have u: "unat (ucast off :: u32) = unat off" "unat (ucast n :: u32) = unat n"
    using assms(5) by (simp_all add: unsigned_ucast_eq take_bit_eq_mod)
  have "0 < unat n" using w(1) by (simp add: unat_gt_0)
  moreover have "unat off + unat n \<le> unat sz" using w(3) sum by (simp add: word_le_nat_alt)
  ultimately show ?thesis
    using False assms(1,2) u by (auto simp: push_def payloads_ok_def payload_inside_def)
qed

text \<open>The bounds of a file and its header.\<close>

definition file_ok :: "bytes \<Rightarrow> u64 \<Rightarrow> layout \<Rightarrow> bool" where
  "file_ok bin sz L \<longleftrightarrow> unat sz \<le> length bin \<and> unat sz < 4294967296 \<and> layout_size L \<le> unat sz"

lemma push_fields_ok:
  assumes "file_ok bin sz L" "payloads_ok sz T out" "fw \<in> T"
    "offset_of L a + 4 \<le> layout_size L" "offset_of L b + 4 \<le> layout_size L"
  shows "extracts sz T (push_fields bin sz L out fw a b)"
proof -
  have "offset_of L a + 4 \<le> length bin" "offset_of L b + 4 \<le> length bin"
    using assms(1,4,5) unfolding file_ok_def by linarith+
  then obtain o1 n1 where r: "rdf32 bin L a = Some o1" "rdf32 bin L b = Some n1"
    using rdf32_some by meson
  have u: "unat (ucast o1 :: u64) < 8589934592" "unat (ucast n1 :: u64) < 4294967296"
    using unat_lt_32 [of o1] unat_lt_32 [of n1] by (simp_all only: unat_widen)
  show ?thesis
    using push_ok [OF assms(2,3) _ u] assms(1) by (simp add: push_fields_def r file_ok_def)
qed

definition name_inside :: "layout \<Rightarrow> string \<Rightarrow> bool" where
  "name_inside L name \<longleftrightarrow> offset_of L (name @ ''_offset_bytes'') + 4 \<le> layout_size L \<and>
     offset_of L (name @ ''_size_bytes'') + 4 \<le> layout_size L"

definition parts_inside :: "layout \<Rightarrow> (u32 \<times> string) list \<Rightarrow> bool" where
  "parts_inside L parts \<longleftrightarrow> (\<forall>(fw, name) \<in> set parts. name_inside L name)"

lemma push_named_ok:
  assumes "file_ok bin sz L" "payloads_ok sz T out" "parts_inside L parts" "fst ` set parts \<subseteq> T"
  shows "extracts sz T (push_named bin sz L parts out)"
  using assms(2-)
proof (induction parts arbitrary: out)
  case (Cons p parts)
  obtain fw name where p: "p = (fw, name)" by fastforce
  show ?case
    unfolding p push_named.simps
    using Cons.prems by (intro extracts_bind [OF push_fields_ok [OF assms(1)]] Cons.IH)
      (auto simp: p parts_inside_def name_inside_def)
qed simp

lemma push_when_ok:
  assumes "unat sz \<le> length bin" "unat sz < 4294967296" "layout_fits L"
    "payloads_ok sz T out" "parts_inside L parts" "fst ` set parts \<subseteq> T"
  shows "extracts sz T (push_when c bin sz L parts out)"
  using push_named_ok [of bin sz L T out parts] not_smaller [of L sz] assms
  by (auto simp: push_when_def file_ok_def)

section \<open>The extractors\<close>

lemma headers_fit:
  "layout_fits common_firmware_header" "layout_fits sdma_firmware_header_v3_0"
  "layout_fits rlc_firmware_header_v2_0" "layout_fits rlc_firmware_header_v2_1"
  "layout_fits rlc_firmware_header_v2_2" "layout_fits rlc_firmware_header_v2_3"
  "layout_fits rlc_firmware_header_v2_4" "layout_fits imu_firmware_header_v1_0"
  "layout_fits gfx_firmware_header_v2_0" "layout_fits mes_firmware_header_v1_0"
  by (simp_all add: layout_fits_def)

lemma header_fields:
  "offset_of sdma_firmware_header_v3_0 ''header.header_version_major'' = 8"
  "offset_of sdma_firmware_header_v3_0 ''header.ucode_array_offset_bytes'' = 24"
  "offset_of sdma_firmware_header_v3_0 ''ucode_size_bytes'' = 40"
  "offset_of rlc_firmware_header_v2_0 ''header.header_version_major'' = 8"
  "offset_of rlc_firmware_header_v2_0 ''header.header_version_minor'' = 10"
  "offset_of rlc_firmware_header_v2_0 ''header.ucode_array_offset_bytes'' = 24"
  "offset_of rlc_firmware_header_v2_0 ''header.ucode_size_bytes'' = 20"
  "offset_of imu_firmware_header_v1_0 ''header.header_version_major'' = 8"
  "offset_of imu_firmware_header_v1_0 ''header.ucode_array_offset_bytes'' = 24"
  "offset_of imu_firmware_header_v1_0 ''imu_iram_ucode_size_bytes'' = 32"
  "offset_of imu_firmware_header_v1_0 ''imu_dram_ucode_size_bytes'' = 40"
  "offset_of gfx_firmware_header_v2_0 ''header.header_version_major'' = 8"
  "offset_of gfx_firmware_header_v2_0 ''header.ucode_array_offset_bytes'' = 24"
  "offset_of gfx_firmware_header_v2_0 ''ucode_size_bytes'' = 36"
  "offset_of mes_firmware_header_v1_0 ''header.header_version_major'' = 8"
  "offset_of common_firmware_header ''ucode_array_offset_bytes'' = 24"
  "offset_of common_firmware_header ''ucode_size_bytes'' = 20"
  by (simp_all add: header_defs)

lemma names_inside:
  "name_inside rlc_firmware_header_v2_4 ''global_tap_delays_ucode''"
  "name_inside rlc_firmware_header_v2_4 ''se0_tap_delays_ucode''"
  "name_inside rlc_firmware_header_v2_4 ''se1_tap_delays_ucode''"
  "name_inside rlc_firmware_header_v2_4 ''se2_tap_delays_ucode''"
  "name_inside rlc_firmware_header_v2_4 ''se3_tap_delays_ucode''"
  "name_inside rlc_firmware_header_v2_1 ''save_restore_list_cntl''"
  "name_inside rlc_firmware_header_v2_1 ''save_restore_list_gpm''"
  "name_inside rlc_firmware_header_v2_1 ''save_restore_list_srm''"
  "name_inside rlc_firmware_header_v2_2 ''rlc_iram_ucode''"
  "name_inside rlc_firmware_header_v2_2 ''rlc_dram_ucode''"
  "name_inside rlc_firmware_header_v2_3 ''rlcp_ucode''"
  "name_inside rlc_firmware_header_v2_3 ''rlcv_ucode''"
  "name_inside gfx_firmware_header_v2_0 ''data''"
  "name_inside mes_firmware_header_v1_0 ''mes_ucode''"
  "name_inside mes_firmware_header_v1_0 ''mes_ucode_data''"
  by code_simp+

lemma rlc_parts_inside:
  "parts_inside rlc_firmware_header_v2_4 rlc_tap_delays"
  "parts_inside rlc_firmware_header_v2_1 rlc_restore_lists"
  "parts_inside rlc_firmware_header_v2_2 rlc_rams"
  "parts_inside rlc_firmware_header_v2_3 rlc_p_and_v"
  by (simp_all add: parts_inside_def rlc_tap_delays_def rlc_restore_lists_def rlc_rams_def rlc_p_and_v_def
      names_inside)

lemma cp_and_mes_parts_inside:
  "parts_inside gfx_firmware_header_v2_0 (map (\<lambda>fw. (fw, ''data'')) stacks)"
  "parts_inside mes_firmware_header_v1_0 [(a, ''mes_ucode''), (b, ''mes_ucode_data''), (c, ''mes_ucode''), (e, ''mes_ucode_data'')]"
  by (auto simp: parts_inside_def names_inside)

lemma file_okI:
  assumes "unat sz \<le> length bin" "unat sz < 4294967296" "layout_fits L" "\<not> smaller sz L"
  shows "file_ok bin sz L"
  using assms not_smaller [of L sz] by (simp add: file_ok_def)

lemma file_read16:
  "file_ok bin sz L \<Longrightarrow> offset_of L f + 2 \<le> layout_size L \<Longrightarrow> \<exists>v. rdf16 bin L f = Some v"
  by (rule rdf16_some) (simp add: file_ok_def)

lemma file_read32:
  "file_ok bin sz L \<Longrightarrow> offset_of L f + 4 \<le> layout_size L \<Longrightarrow> \<exists>v. rdf32 bin L f = Some v"
  by (rule rdf32_some) (simp add: file_ok_def)

lemma extract_sdma_ok:
  assumes whole: "unat sz \<le> length bin" and small: "unat sz < 4294967296"
  shows "extracts sz {PSPGfxFwType_SDMA_UCODE_TH0} (extract_sdma bin sz)"
proof (cases "smaller sz sdma_firmware_header_v3_0")
  case False
  then have f: "file_ok bin sz sdma_firmware_header_v3_0" by (intro file_okI whole small headers_fit)
  obtain v where "rdf16 bin sdma_firmware_header_v3_0 ''header.header_version_major'' = Some v"
    using file_read16 [OF f] header_fields by fastforce
  then show ?thesis
    using False by (auto simp: extract_sdma_def header_fields intro!: push_fields_ok [OF f])
qed (simp add: extract_sdma_def)

lemma extract_common_ok:
  assumes whole: "unat sz \<le> length bin" and small: "unat sz < 4294967296"
  shows "extracts sz {fw} (extract_common_header fw bin sz)"
proof (cases "smaller sz common_firmware_header")
  case False
  then have f: "file_ok bin sz common_firmware_header" by (intro file_okI whole small headers_fit)
  then show ?thesis
    using False by (auto simp: extract_common_header_def header_fields intro!: push_fields_ok [OF f])
qed (simp add: extract_common_header_def)

lemma extract_mes_ok:
  assumes whole: "unat sz \<le> length bin" and small: "unat sz < 4294967296"
  shows "extracts sz {PSPGfxFwType_CP_MES, PSPGfxFwType_CP_MES_DATA, PSPGfxFwType_CP_MES_KIQ, PSPGfxFwType_MES_KIQ_STACK}
     (extract_mes bin sz)"
proof (cases "smaller sz mes_firmware_header_v1_0")
  case False
  then have f: "file_ok bin sz mes_firmware_header_v1_0" by (intro file_okI whole small headers_fit)
  obtain v where "rdf16 bin mes_firmware_header_v1_0 ''header.header_version_major'' = Some v"
    using file_read16 [OF f] header_fields by fastforce
  then show ?thesis
    using False by (auto simp: extract_mes_def cp_and_mes_parts_inside simp del: push_named.simps
        intro!: push_named_ok [OF f])
qed (simp add: extract_mes_def)

lemma extract_cp_ok:
  assumes whole: "unat sz \<le> length bin" and small: "unat sz < 4294967296"
  shows "extracts sz UNIV (extract_cp_rs64 bin sz family)"
proof (cases "smaller sz gfx_firmware_header_v2_0")
  case False
  then have f: "file_ok bin sz gfx_firmware_header_v2_0" by (intro file_okI whole small headers_fit)
  obtain v where "rdf16 bin gfx_firmware_header_v2_0 ''header.header_version_major'' = Some v"
    using file_read16 [OF f] header_fields by fastforce
  then show ?thesis
    using False by (auto simp: extract_cp_rs64_def header_fields cp_and_mes_parts_inside split: prod.split
        intro!: extracts_bind [OF push_fields_ok [OF f, where T = UNIV]] push_named_ok [OF f])
qed (simp add: extract_cp_rs64_def)

lemma extract_imu_ok:
  assumes whole: "unat sz \<le> length bin" and small: "unat sz < 4294967296"
  shows "extracts sz {PSPGfxFwType_IMU_I, PSPGfxFwType_IMU_D} (extract_imu bin sz)"
proof (cases "smaller sz imu_firmware_header_v1_0")
  case False
  then have f: "file_ok bin sz imu_firmware_header_v1_0" by (intro file_okI whole small headers_fit)
  obtain v where v: "rdf16 bin imu_firmware_header_v1_0 ''header.header_version_major'' = Some v"
    using file_read16 [OF f] header_fields by fastforce
  obtain off iram dram where r:
    "rdf32 bin imu_firmware_header_v1_0 ''header.ucode_array_offset_bytes'' = Some off"
    "rdf32 bin imu_firmware_header_v1_0 ''imu_iram_ucode_size_bytes'' = Some iram"
    "rdf32 bin imu_firmware_header_v1_0 ''imu_dram_ucode_size_bytes'' = Some dram"
    using file_read32 [OF f] header_fields by fastforce
  have u: "unat (ucast x :: u64) < 4294967296" "unat (ucast x :: u64) < 8589934592" for x :: u32
    using unat_lt_32 [of x] by (simp_all only: unat_widen)
  have s: "unat (ucast off + ucast iram :: u64) < 8589934592"
    using u(1) [of off] u(1) [of iram] by (simp add: word_nat)
  show ?thesis
    using False v by (auto simp: extract_imu_def r Let_def u s small intro!: push_ok)
qed (simp add: extract_imu_def)

lemma extract_rlc_ok:
  assumes whole: "unat sz \<le> length bin" and small: "unat sz < 4294967296"
  shows "\<exists>ps. extract_rlc bin sz = Some ps \<and> payloads_ok sz UNIV ps \<and>
     (\<forall>p \<in> set (butlast ps). up_fw_type p \<noteq> PSPGfxFwType_RLC_G)"
proof (cases "smaller sz rlc_firmware_header_v2_0")
  case False
  let ?T = "- {PSPGfxFwType_RLC_G}" and ?L = rlc_firmware_header_v2_0
  have f: "file_ok bin sz ?L" using False by (intro file_okI whole small headers_fit)
  obtain maj mnr where v: "rdf16 bin ?L ''header.header_version_major'' = Some maj"
    "rdf16 bin ?L ''header.header_version_minor'' = Some mnr"
    using file_read16 [OF f] header_fields by fastforce
  have T: "fst ` set rlc_tap_delays \<subseteq> ?T" "fst ` set rlc_restore_lists \<subseteq> ?T"
    "fst ` set rlc_rams \<subseteq> ?T" "fst ` set rlc_p_and_v \<subseteq> ?T"
    by (simp_all add: rlc_tap_delays_def rlc_restore_lists_def rlc_rams_def rlc_p_and_v_def
        PSPGfxFwType_RLC_G_def PSPGfxFwType_GLOBAL_TAP_DELAYS_def PSPGfxFwType_SE0_TAP_DELAYS_def
        PSPGfxFwType_SE1_TAP_DELAYS_def PSPGfxFwType_SE2_TAP_DELAYS_def PSPGfxFwType_SE3_TAP_DELAYS_def
        PSPGfxFwType_RLC_RESTORE_LIST_SRM_CNTL_def PSPGfxFwType_RLC_RESTORE_LIST_GPM_MEM_def
        PSPGfxFwType_RLC_RESTORE_LIST_SRM_MEM_def PSPGfxFwType_RLC_IRAM_def PSPGfxFwType_RLC_DRAM_BOOT_def
        PSPGfxFwType_RLC_P_def PSPGfxFwType_RLC_V_def)
  note step = push_when_ok [OF whole small]
  obtain o1 where o1: "push_when (mnr = 4) bin sz rlc_firmware_header_v2_4 rlc_tap_delays [] = Some o1" "payloads_ok sz ?T o1"
    using step [OF headers_fit(7) payloads_ok_Nil rlc_parts_inside(1) T(1)] unfolding extracts_def by blast
  obtain o2 where o2: "push_when (1 \<le> mnr) bin sz rlc_firmware_header_v2_1 rlc_restore_lists o1 = Some o2" "payloads_ok sz ?T o2"
    using step [OF headers_fit(4) o1(2) rlc_parts_inside(2) T(2)] unfolding extracts_def by blast
  obtain o3 where o3: "push_when (2 \<le> mnr) bin sz rlc_firmware_header_v2_2 rlc_rams o2 = Some o3" "payloads_ok sz ?T o3"
    using step [OF headers_fit(5) o2(2) rlc_parts_inside(3) T(3)] unfolding extracts_def by blast
  obtain o4 where o4: "push_when (mnr = 3) bin sz rlc_firmware_header_v2_3 rlc_p_and_v o3 = Some o4" "payloads_ok sz ?T o4"
    using step [OF headers_fit(6) o3(2) rlc_parts_inside(4) T(4)] unfolding extracts_def by blast
  obtain off n where r: "rdf32 bin ?L ''header.ucode_array_offset_bytes'' = Some off"
    "rdf32 bin ?L ''header.ucode_size_bytes'' = Some n"
    using file_read32 [OF f] header_fields by fastforce
  define ps where "ps = push o4 PSPGfxFwType_RLC_G (ucast off) (ucast n) sz"
  have run: "extract_rlc bin sz = Some (if maj \<noteq> 2 then [] else ps)"
    using False by (simp add: extract_rlc_def v o1(1) o2(1) o3(1) o4(1) push_fields_def r ps_def)
  have "unat (ucast off :: u64) < 8589934592" "unat (ucast n :: u64) < 4294967296"
    using unat_lt_32 [of off] unat_lt_32 [of n] by (simp_all only: unat_widen)
  then have "payloads_ok sz UNIV ps"
    unfolding ps_def by (intro push_ok payloads_ok_mono [OF o4(2)] small) simp_all
  moreover have "\<forall>p \<in> set (butlast ps). up_fw_type p \<noteq> PSPGfxFwType_RLC_G"
    using o4(2) by (auto simp: ps_def push_def payloads_ok_def image_iff subset_Compl_singleton dest!: in_set_butlastD)
  ultimately show ?thesis using run by auto
qed (simp add: extract_rlc_def)

lemma extract_single_ok:
  assumes whole: "unat sz \<le> length bin" and small: "unat sz < 4294967296"
  shows "extracts sz {fw} (extract_single fw bin sz)"
  using extract_sdma_ok [OF assms] extracts_filter [OF extract_mes_ok [OF assms]]
    extracts_filter [OF extract_cp_ok [OF assms]] extracts_filter [OF extract_imu_ok [OF assms]]
    extract_common_ok [OF assms]
  by (simp add: extract_single_def)

text \<open>
  C40. Whatever the bytes of a firmware file, the extraction of its payloads never reads outside the file and
  returns at most sixteen payloads, each a non-empty slice inside the file. Of an RLC file only the last payload is
  RLC-G, which starts the autoload; a request for one type emits only payloads of that type.
\<close>

theorem ucode_payloads_sound:
  assumes "unat sz \<le> length bin" "unat sz < 4294967296"
  shows "\<exists>ps. amdgpu_ucode_extract fw (Some bin) sz = Some ps \<and> length ps \<le> 16 \<and>
    (\<forall>p \<in> set ps. 0 < unat (up_size p) \<and> unat (up_offset p) + unat (up_size p) \<le> unat sz) \<and>
    (fw = kHostFwFile_RLC \<longrightarrow> (\<forall>p \<in> set (butlast ps). up_fw_type p \<noteq> PSPGfxFwType_RLC_G)) \<and>
    (0x100 \<le> fw \<and> fw < 0x200 \<longrightarrow> (\<forall>p \<in> set ps. up_fw_type p = ucast (fw - 0x100)))"
proof -
  note ok = extract_sdma_ok [OF assms] extract_imu_ok [OF assms] extract_mes_ok [OF assms] extract_cp_ok [OF assms]
  have any: "\<exists>ps. r = Some ps \<and> payloads_ok sz UNIV ps" if "extracts sz T r" for T r
    using that by (auto simp: extracts_def intro: payloads_ok_mono)
  have "\<exists>ps. amdgpu_ucode_extract fw (Some bin) sz = Some ps \<and> payloads_ok sz UNIV ps \<and>
    (fw = kHostFwFile_RLC \<longrightarrow> (\<forall>p \<in> set (butlast ps). up_fw_type p \<noteq> PSPGfxFwType_RLC_G)) \<and>
    (0x100 \<le> fw \<and> fw < 0x200 \<longrightarrow> payloads_ok sz {ucast (fw - 0x100)} ps)"
  proof (cases "sz = 0")
    case True
    then show ?thesis by (simp add: amdgpu_ucode_extract_def)
  next
    case nz: False
    show ?thesis
    proof (cases "0x100 \<le> fw \<and> fw < 0x200")
      case True
      then have "amdgpu_ucode_extract fw (Some bin) sz = extract_single (ucast (fw - 0x100)) bin sz" "fw \<noteq> kHostFwFile_RLC"
        using nz by (auto simp: amdgpu_ucode_extract_def host_fw_defs)
      then show ?thesis
        using extract_single_ok [OF assms, of "ucast (fw - 0x100)"] by (auto simp: extracts_def intro: payloads_ok_mono)
    next
      case False
      then show ?thesis
        using nz extract_rlc_ok [OF assms] any [OF ok(1)] any [OF ok(2)] any [OF ok(3)]
          any [OF ok(4), of RS64Family_PFP] any [OF ok(4), of RS64Family_ME] any [OF ok(4), of RS64Family_MEC]
        by (auto simp: amdgpu_ucode_extract_def host_fw_defs)
    qed
  qed
  then obtain ps where ps: "amdgpu_ucode_extract fw (Some bin) sz = Some ps" "payloads_ok sz UNIV ps"
    "fw = kHostFwFile_RLC \<longrightarrow> (\<forall>p \<in> set (butlast ps). up_fw_type p \<noteq> PSPGfxFwType_RLC_G)"
    "0x100 \<le> fw \<and> fw < 0x200 \<longrightarrow> payloads_ok sz {ucast (fw - 0x100)} ps" by blast
  moreover have "payloads_ok sz {x} ps \<Longrightarrow> p \<in> set ps \<Longrightarrow> up_fw_type p = x" for x p
    by (auto simp: payloads_ok_def)
  ultimately show ?thesis by (auto simp: payloads_ok_def payload_inside_def kMaxUcodePayloadsPerFile_def)
qed

text \<open>An image-management file of one dword of code and one of data.\<close>

definition imu_file :: bytes where
  "imu_file = replicate 8 0 @ [1, 0] @ replicate 14 0 @ [48] @ replicate 7 0 @ [4] @ replicate 7 0 @ [4] @ replicate 15 0"

lemma ucode_payloads_sound_witness:
  "amdgpu_ucode_extract kHostFwFile_IMU (Some imu_file) 56 = Some
     [\<lparr>up_fw_type = 68, up_offset = 48, up_size = 4\<rparr>, \<lparr>up_fw_type = 69, up_offset = 52, up_size = 4\<rparr>] \<and>
   (\<exists>ps. amdgpu_ucode_extract kHostFwFile_IMU (Some imu_file) 56 = Some ps \<and> length ps \<le> 16 \<and>
      (\<forall>p \<in> set ps. 0 < unat (up_size p) \<and> unat (up_offset p) + unat (up_size p) \<le> 56))"
proof
  have "length imu_file = 56" by (simp add: imu_file_def)
  then have "\<exists>ps. amdgpu_ucode_extract kHostFwFile_IMU (Some imu_file) 56 = Some ps \<and> length ps \<le> 16 \<and>
      (\<forall>p \<in> set ps. 0 < unat (up_size p) \<and> unat (up_offset p) + unat (up_size p) \<le> unat (56 :: u64))"
    using ucode_payloads_sound [of 56 imu_file kHostFwFile_IMU] by auto
  then show "\<exists>ps. amdgpu_ucode_extract kHostFwFile_IMU (Some imu_file) 56 = Some ps \<and> length ps \<le> 16 \<and>
      (\<forall>p \<in> set ps. 0 < unat (up_size p) \<and> unat (up_offset p) + unat (up_size p) \<le> 56)" by simp
  show "amdgpu_ucode_extract kHostFwFile_IMU (Some imu_file) 56 = Some
     [\<lparr>up_fw_type = 68, up_offset = 48, up_size = 4\<rparr>, \<lparr>up_fw_type = 69, up_offset = 52, up_size = 4\<rparr>]"
    by code_simp
qed

end
