(* ===== verification/Psp_Properties.thy ===== *)
theory Psp_Properties
  imports Bringup Ucode_Properties Gart_Properties
begin

text \<open>
  The package of the security processor's own firmware: whatever its bytes, the parser stays inside it and publishes
  only parts that lie in it; a package that is refused changes nothing.
\<close>

section \<open>Parts\<close>

definition part_inside :: "nat \<Rightarrow> PSPSubBin \<Rightarrow> bool" where
  "part_inside n p \<longleftrightarrow> (case sb_start p of None \<Rightarrow> sb_size p = 0 | Some s \<Rightarrow> 0 < unat (sb_size p) \<and> s + unat (sb_size p) \<le> n)"

definition bins_inside :: "nat \<Rightarrow> PSPContext \<Rightarrow> bool" where
  "bins_inside n psp \<longleftrightarrow> (\<forall>b. part_inside n (psp_bins psp b))"

text \<open>The contexts that differ from \<open>psp\<close> only in the parts.\<close>

definition only_bins :: "PSPContext \<Rightarrow> PSPContext \<Rightarrow> bool" where
  "only_bins psp psp' \<longleftrightarrow> (\<exists>bs. psp' = psp\<lparr>psp_bins := bs\<rparr>)"

definition parses :: "nat \<Rightarrow> PSPContext \<Rightarrow> (kern_return \<times> PSPContext) option \<Rightarrow> bool" where
  "parses n psp m \<longleftrightarrow> (\<exists>r psp'. m = Some (r, psp') \<and> only_bins psp psp' \<and> (r = kIOReturnSuccess \<longrightarrow> bins_inside n psp'))"

lemma only_bins_refl [simp]: "only_bins psp psp"
  unfolding only_bins_def by (rule exI [of _ "psp_bins psp"]) simp

lemma only_bins_set [simp]: "only_bins psp psp' \<Longrightarrow> only_bins psp (set_sub_bin b u off sz v psp')"
  unfolding only_bins_def set_sub_bin_def by (elim exE) (rule exI, simp)

lemma parses_error [simp]: "r \<noteq> kIOReturnSuccess \<Longrightarrow> parses n psp (Some (r, psp))" by (simp add: parses_def)

lemma parses_if: "(c \<Longrightarrow> parses n psp m) \<Longrightarrow> (\<not> c \<Longrightarrow> parses n psp k) \<Longrightarrow> parses n psp (if c then m else k)"
  by simp

lemma set_sub_bin_inside:
  assumes "bins_inside n psp" "unat u + unat off + unat sz \<le> n"
  shows "bins_inside n (set_sub_bin b u off sz v psp)"
  using assms by (auto simp: bins_inside_def part_inside_def set_sub_bin_def unat_widen unat_eq_0 word_neq_0_conv
      unat_gt_0)

text \<open>The check of one descriptor, as natural numbers.\<close>

lemma desc_inside_nat:
  fixes u :: u32
  assumes "desc_inside (fw_size - ucast u) off sz" "ucast u \<le> fw_size"
  shows "unat u + unat off + unat sz \<le> unat fw_size"
proof -
  have sub: "unat (fw_size - ucast u) = unat fw_size - unat u"
    using assms(2) by (simp add: unat_sub unat_widen)
  have "unat (ucast u :: u64) \<le> unat fw_size" using assms(2) by (simp add: word_le_nat_alt)
  then have u: "unat u \<le> unat fw_size" by (simp add: unat_widen)
  have off: "unat off \<le> unat fw_size - unat u"
    using assms(1) unfolding desc_inside_def by (simp add: word_le_nat_alt sub unat_widen)
  have "unat sz \<le> unat (fw_size - ucast u - ucast off)"
    using assms(1) unfolding desc_inside_def by (simp add: word_le_nat_alt unat_widen)
  also have "\<dots> = unat fw_size - unat u - unat off"
    using assms(1) unfolding desc_inside_def by (simp add: unat_sub sub unat_widen)
  finally show ?thesis using u off by linarith
qed

section \<open>Version 2\<close>

lemma rd32le_some: "p + 4 \<le> length bin \<Longrightarrow> \<exists>v. rd32le bin p = Some v"
  by (simp add: rd32le_def rd16_def rd8_some)

lemma psp_layout_sizes:
  "layout_size psp_fw_bin_desc = 16" "layout_size psp_firmware_header_v1_0 = 44"
  "layout_size psp_firmware_header_v1_1 = 68" "layout_size psp_firmware_header_v1_2 = 68"
  "layout_size psp_firmware_header_v1_3 = 116"
  by code_simp+

lemma rd_desc_some:
  assumes "start + i * 16 + 16 \<le> length bin"
  shows "\<exists>d. rd_desc bin start i = Some d"
proof -
  let ?p = "start + i * 16"
  obtain t v off sz where "rd32le bin ?p = Some t" "rd32le bin (?p + 4) = Some v" "rd32le bin (?p + 8) = Some off"
    "rd32le bin (?p + 12) = Some sz"
    using rd32le_some [of ?p bin] rd32le_some [of "?p + 4" bin] rd32le_some [of "?p + 8" bin]
      rd32le_some [of "?p + 12" bin] assms by auto
  then show ?thesis by (simp add: rd_desc_def psp_layout_sizes Let_def)
qed

lemma v2_walk_parses:
  assumes "start + (i + k) * 16 \<le> length bin" "bins_inside (unat fw_size) psp'" "only_bins psp psp'" "ucast u \<le> fw_size"
  shows "parses (unat fw_size) psp (v2_walk bin (fw_size - ucast u) u start i k psp')"
  using assms
proof (induction k arbitrary: i psp')
  case 0
  then show ?case by (simp add: parses_def)
next
  case (Suc k)
  obtain t v off sz where d: "rd_desc bin start i = Some (t, v, off, sz)"
    using rd_desc_some [of start i bin] Suc.prems(1) by (auto simp: algebra_simps)
  show ?case
  proof (cases "desc_inside (fw_size - ucast u) off sz")
    case True
    let ?next = "case sub_bin_of t of None \<Rightarrow> psp' | Some b \<Rightarrow> set_sub_bin b u off sz v psp'"
    have "bins_inside (unat fw_size) ?next" "only_bins psp ?next"
      using Suc.prems set_sub_bin_inside desc_inside_nat [OF True] by (auto split: option.splits)
    then show ?thesis using Suc.IH [of "i + 1" ?next] Suc.prems d True by (simp add: algebra_simps)
  next
    case False
    then show ?thesis using Suc.prems d by (simp add: parses_def)
  qed
qed

lemma parse_v2_parses:
  assumes len: "unat fw_size \<le> length bin" and empty: "psp_bins psp = (\<lambda>_. no_sub_bin)" and u: "ucast u \<le> fw_size"
  shows "parses (unat fw_size) psp (parse_v2 bin fw_size u mnr psp)"
proof -
  let ?h = "if mnr = 0 then 36 else 40 :: nat"
  have inside: "bins_inside (unat fw_size) psp" using empty by (simp add: bins_inside_def part_inside_def no_sub_bin_def)
  show ?thesis
  proof (cases "1 < mnr \<or> fw_size < word_of_nat ?h \<or> u < word_of_nat ?h")
    case True
    then show ?thesis by (auto simp: parse_v2_def Let_def)
  next
    case False
    then have h: "?h \<le> unat fw_size" "?h \<le> unat u" by (auto simp: word_le_nat_alt word_less_nat_alt split: if_splits)
    have "offset_of psp_firmware_header_v2_0 ''psp_fw_bin_count'' = 32" by code_simp
    then obtain count where c: "rdf32 bin psp_firmware_header_v2_0 ''psp_fw_bin_count'' = Some count"
      using rdf32_some [of psp_firmware_header_v2_0 "''psp_fw_bin_count''" bin] h len by (auto split: if_splits)
    show ?thesis
    proof (cases "64 < count \<or> (ucast u - word_of_nat ?h) div 16 < (ucast count :: u64)")
      case True
      then show ?thesis using False c by (auto simp: parse_v2_def Let_def)
    next
      case small: False
      have "unat (ucast u - word_of_nat ?h :: u64) = unat u - ?h"
        using h(2) by (subst unat_sub) (auto simp: word_le_nat_alt unat_widen split: if_splits)
      then have "unat count \<le> (unat u - ?h) div 16"
        using small by (simp add: word_le_nat_alt not_less unat_div unat_widen)
      then have "?h + unat count * 16 \<le> unat u" using h(2) by linarith
      also have "unat u \<le> length bin" using u len by (simp add: word_le_nat_alt unat_widen)
      finally show ?thesis
        using v2_walk_parses [of ?h 0 "unat count" bin fw_size psp psp u] inside u False small c
        by (simp add: parse_v2_def Let_def)
    qed
  qed
qed

section \<open>Version 1\<close>

text \<open>The descriptor \<open>j\<close> of the array can be read and lies in the payload.\<close>

definition slot_ok :: "bytes \<Rightarrow> u64 \<Rightarrow> nat \<Rightarrow> bool" where
  "slot_ok bin payload j \<longleftrightarrow> (\<exists>v off sz. rd32le bin (32 + j * 12) = Some v \<and> rd32le bin (32 + j * 12 + 4) = Some off \<and>
     rd32le bin (32 + j * 12 + 8) = Some sz \<and> desc_inside payload off sz)"

lemma v1_descs_inside_some:
  assumes "32 + (i + k) * 12 \<le> length bin"
  shows "\<exists>ok. v1_descs_inside bin payload i k = Some ok \<and> (ok \<longrightarrow> (\<forall>j. i \<le> j \<and> j < i + k \<longrightarrow> slot_ok bin payload j))"
  using assms
proof (induction k arbitrary: i)
  case 0
  then show ?case by (intro exI [of _ True]) auto
next
  case (Suc k)
  let ?p = "32 + i * 12"
  obtain v off sz where r: "rd32le bin ?p = Some v" "rd32le bin (?p + 4) = Some off" "rd32le bin (?p + 8) = Some sz"
    using rd32le_some [of ?p bin] rd32le_some [of "?p + 4" bin] rd32le_some [of "?p + 8" bin] Suc.prems by auto
  show ?case
  proof (cases "desc_inside payload off sz")
    case True
    have "slot_ok bin payload i" using r True by (auto simp: slot_ok_def)
    then have "\<forall>j. i \<le> j \<and> j < i + Suc k \<longrightarrow> slot_ok bin payload j"
      if "\<forall>j. i + 1 \<le> j \<and> j < i + 1 + k \<longrightarrow> slot_ok bin payload j"
      using that by (metis Suc_eq_plus1 add_Suc_right add_Suc_shift le_eq_less_or_eq less_eq_Suc_le)
    then show ?thesis using Suc.IH [of "i + 1"] Suc.prems r True by auto
  next
    case False
    then show ?thesis using r by (intro exI [of _ False]) simp
  qed
qed

text \<open>The descriptor a name has in a layout.\<close>

definition names_slot :: "layout \<Rightarrow> string \<Rightarrow> nat \<Rightarrow> bool" where
  "names_slot L name j \<longleftrightarrow> offset_of L (name @ ''.fw_version'') = 32 + j * 12 \<and>
     offset_of L (name @ ''.offset_bytes'') = 32 + j * 12 + 4 \<and> offset_of L (name @ ''.size_bytes'') = 32 + j * 12 + 8"

lemma legacy_names:
  "names_slot psp_firmware_header_v1_0 ''sos'' 0" "names_slot psp_firmware_header_v1_1 ''toc'' 1"
  "names_slot psp_firmware_header_v1_1 ''kdb'' 2" "names_slot psp_firmware_header_v1_2 ''kdb'' 2"
  "names_slot psp_firmware_header_v1_3 ''spl'' 3" "names_slot psp_firmware_header_v1_3 ''rl'' 4"
  "names_slot psp_firmware_header_v1_3 ''sys_drv_aux'' 5" "names_slot psp_firmware_header_v1_3 ''sos_aux'' 6"
  by code_simp+

lemma rd_legacy_ok:
  assumes "names_slot L name j" "slot_ok bin payload j"
  shows "\<exists>v off sz. rd_legacy bin L name = Some (v, off, sz) \<and> desc_inside payload off sz"
  using assms by (auto simp: names_slot_def slot_ok_def rd_legacy_def rdf32_def)

definition parts_good :: "nat \<Rightarrow> PSPContext \<Rightarrow> PSPContext \<Rightarrow> bool" where
  "parts_good n psp psp' \<longleftrightarrow> only_bins psp psp' \<and> bins_inside n psp'"

definition parts_goods :: "nat \<Rightarrow> PSPContext \<Rightarrow> PSPContext option \<Rightarrow> bool" where
  "parts_goods n psp m \<longleftrightarrow> (\<exists>psp'. m = Some psp' \<and> parts_good n psp psp')"

lemma parts_goods_Some: "parts_good n psp psp' \<Longrightarrow> parts_goods n psp (Some psp')" by (simp add: parts_goods_def)

lemma set_legacy_goods:
  fixes u :: u32
  assumes "names_slot L name j" "slot_ok bin (fw_size - ucast u) j" "ucast u \<le> fw_size" "parts_good (unat fw_size) psp psp'"
  shows "parts_goods (unat fw_size) psp (set_legacy bin u L name b psp')"
proof -
  obtain v off sz where "rd_legacy bin L name = Some (v, off, sz)" "desc_inside (fw_size - ucast u) off sz"
    using rd_legacy_ok [OF assms(1,2)] by auto
  then show ?thesis
    using assms(3,4) set_sub_bin_inside [of "unat fw_size" psp' u off sz] desc_inside_nat [of fw_size u off sz]
    by (simp add: set_legacy_def parts_good_def parts_goods_def)
qed

lemma parts_goods_bind: "parts_goods n psp m \<Longrightarrow> (\<And>psp'. parts_good n psp psp' \<Longrightarrow> parts_goods n psp (k psp')) \<Longrightarrow> parts_goods n psp (m \<bind> k)"
  by (auto simp: parts_goods_def)

lemma v1_parts_ok:
  fixes u :: u32
  assumes slots: "\<And>j. j < (if mnr = 0 then 1 else if mnr = 3 then 7 else 3) \<Longrightarrow> slot_ok bin (fw_size - ucast u) j"
    and u: "ucast u \<le> fw_size" and g: "parts_good (unat fw_size) psp psp" and m: "mnr \<le> 3"
  shows "parts_goods (unat fw_size) psp (v1_parts bin u mnr v psp)"
proof -
  have "slot_ok bin (fw_size - ucast u) 0" using slots by simp
  from rd_legacy_ok [OF legacy_names(1) this] obtain w off sz
    where sos: "rd_legacy bin psp_firmware_header_v1_0 ''sos'' = Some (w, off, sz)"
    and inside: "desc_inside (fw_size - ucast u) off sz" by auto
  have p0: "parts_good (unat fw_size) psp (set_sub_bin SB_sos u off sz w (set_sub_bin SB_sys u 0 off v psp))"
    using g desc_inside_nat [OF inside u] by (auto simp: parts_good_def intro!: set_sub_bin_inside)
  note last = set_legacy_goods [OF _ _ u] and step = parts_goods_bind [OF set_legacy_goods [OF _ _ u]]
  have "mnr = 0 \<or> mnr = 1 \<or> mnr = 2 \<or> mnr = 3" using m by (auto simp: word_le_nat_alt word_unat_eq_iff)
  then consider "mnr = 0" | "mnr = 1" | "mnr = 2" | "mnr = 3" by blast
  then show ?thesis
  proof cases
    case 1
    then show ?thesis using sos p0 by (simp add: v1_parts_def Let_def parts_goods_Some)
  next
    case 2
    then show ?thesis
      by (simp add: v1_parts_def Let_def sos)
        (intro step [OF legacy_names(2)] last [OF legacy_names(3)] parts_goods_Some slots p0; simp)
  next
    case 3
    then show ?thesis
      by (simp add: v1_parts_def Let_def sos)
        (intro step [OF legacy_names(2)] step [OF legacy_names(3)] last [OF legacy_names(4)] parts_goods_Some slots p0; simp)
  next
    case 4
    then show ?thesis
      by (simp add: v1_parts_def Let_def sos)
        (intro step [OF legacy_names(2)] step [OF legacy_names(3)] step [OF legacy_names(5)] step [OF legacy_names(6)]
          step [OF legacy_names(7)] last [OF legacy_names(8)] parts_goods_Some slots p0; simp)
  qed
qed

lemma parses_goods: "parts_goods n psp m \<Longrightarrow> parses n psp (m \<bind> (\<lambda>p. Some (kIOReturnSuccess, p)))"
  by (auto simp: parts_goods_def parts_good_def parses_def)

lemma v1_header_size:
  assumes "v1_header mnr = Some L"
  shows "mnr \<le> 3" "layout_size L = 32 + (if mnr = 0 then 1 else if mnr = 3 then 7 else 3) * 12"
proof -
  have "mnr = 0 \<or> mnr = 1 \<or> mnr = 2 \<or> mnr = 3" using assms by (auto simp: v1_header_def split: if_splits)
  then show "mnr \<le> 3" "layout_size L = 32 + (if mnr = 0 then 1 else if mnr = 3 then 7 else 3) * 12"
    using assms by (auto simp: v1_header_def psp_layout_sizes)
qed

lemma parse_v1_parses:
  fixes u :: u32
  assumes len: "unat fw_size \<le> length bin" and empty: "psp_bins psp = (\<lambda>_. no_sub_bin)" and u: "ucast u \<le> fw_size"
  shows "parses (unat fw_size) psp (parse_v1 bin fw_size u mnr psp)"
proof (cases "v1_header mnr")
  case None
  then show ?thesis by (simp add: parse_v1_def)
next
  case (Some L)
  note size = v1_header_size [OF Some]
  let ?n = "if mnr = 0 then 1 else if mnr = 3 then 7 else 3 :: nat"
  show ?thesis
  proof (cases "fw_size < word_of_nat (layout_size L)")
    case True
    then show ?thesis using Some by (simp add: parse_v1_def)
  next
    case False
    then have fits: "layout_size L \<le> unat fw_size"
      using size(2) by (auto simp: word_less_nat_alt unat_of_nat split: if_splits)
    have count: "(layout_size L - 32) div 12 = ?n" using size(2) by simp
    have "32 + (0 + ?n) * 12 \<le> length bin" using size(2) fits len by simp
    from v1_descs_inside_some [OF this, of "fw_size - ucast u"] obtain ok
      where ok: "v1_descs_inside bin (fw_size - ucast u) 0 ?n = Some ok"
        "ok \<Longrightarrow> j < ?n \<Longrightarrow> slot_ok bin (fw_size - ucast u) j" for j by auto
    have "offset_of common_firmware_header ''ucode_version'' = 16" by code_simp
    then obtain v where v: "rdf32 bin common_firmware_header ''ucode_version'' = Some v"
      using rdf32_some [of common_firmware_header "''ucode_version''" bin] fits size(2) len by auto
    have "parts_good (unat fw_size) psp psp"
      using empty by (simp add: parts_good_def bins_inside_def part_inside_def no_sub_bin_def)
    from v1_parts_ok [OF ok(2) u this size(1)] have "parts_goods (unat fw_size) psp (v1_parts bin u mnr v psp)" if ok
      using that by blast
    then show ?thesis using Some False ok(1) count v by (auto simp: parse_v1_def intro!: parses_goods)
  qed
qed

section \<open>The parser\<close>

text \<open>What the parser may change when it refuses: the parts, which the caller then drops, and the view of the bytes.\<close>

lemma views_sound:
  assumes "unat fw_size = length bin"
  shows "\<exists>r psp'. psp_parse_sos_views psp (Some bin) fw_size = Some (r, psp') \<and>
    (r = kIOReturnSuccess \<longrightarrow> bins_inside (length bin) psp' \<and>
       (\<exists>bs. psp' = psp\<lparr>psp_bins := bs, sos_fw_blob := bin, sos_fw_blob_size := fw_size\<rparr>))"
proof (cases "fw_size < 32")
  case True
  then show ?thesis by (simp add: psp_parse_sos_views_def Let_def)
next
  case False
  then have long: "32 \<le> length bin" using assms by (simp add: word_less_nat_alt)
  have offs: "offset_of common_firmware_header ''ucode_array_offset_bytes'' = 24"
    "offset_of common_firmware_header ''size_bytes'' = 0" "offset_of common_firmware_header ''ucode_size_bytes'' = 20"
    "offset_of common_firmware_header ''header_version_major'' = 8"
    "offset_of common_firmware_header ''header_version_minor'' = 10" by code_simp+
  obtain u total n major mnr where r: "rdf32 bin common_firmware_header ''ucode_array_offset_bytes'' = Some u"
    "rdf32 bin common_firmware_header ''size_bytes'' = Some total"
    "rdf32 bin common_firmware_header ''ucode_size_bytes'' = Some n"
    "rdf16 bin common_firmware_header ''header_version_major'' = Some major"
    "rdf16 bin common_firmware_header ''header_version_minor'' = Some mnr"
    using rdf32_some [of common_firmware_header "''ucode_array_offset_bytes''" bin]
      rdf32_some [of common_firmware_header "''size_bytes''" bin]
      rdf32_some [of common_firmware_header "''ucode_size_bytes''" bin]
      rdf16_some [of common_firmware_header "''header_version_major''" bin]
      rdf16_some [of common_firmware_header "''header_version_minor''" bin] offs long by auto
  let ?psp = "psp\<lparr>psp_bins := (\<lambda>_. no_sub_bin), sos_fw_blob := bin, sos_fw_blob_size := fw_size\<rparr>"
  show ?thesis
  proof (cases "fw_size < ucast u \<or> ucast total \<noteq> fw_size \<or> fw_size - ucast u < ucast n")
    case True
    then show ?thesis using r False by (auto simp: psp_parse_sos_views_def Let_def)
  next
    case ok: False
    then have u: "ucast u \<le> fw_size" by (simp add: not_less)
    let ?run = "if major = 1 then parse_v1 bin fw_size u mnr ?psp
      else if major = 2 then parse_v2 bin fw_size u mnr ?psp else Some (kIOReturnUnsupported, ?psp)"
    have empty: "psp_bins ?psp = (\<lambda>_. no_sub_bin)" and len: "unat fw_size \<le> length bin" using assms by simp_all
    have "parses (unat fw_size) ?psp ?run"
      by (intro parses_if parse_v1_parses [OF len empty u] parse_v2_parses [OF len empty u] parses_error) simp
    then obtain r psp' bs where "?run = Some (r, psp')" "psp' = ?psp\<lparr>psp_bins := bs\<rparr>"
      "r = kIOReturnSuccess \<longrightarrow> bins_inside (unat fw_size) psp'"
      unfolding parses_def only_bins_def by blast
    then have run: "?run = Some (r, psp')" and bins: "r = kIOReturnSuccess \<longrightarrow> bins_inside (length bin) psp'"
      and same: "psp' = psp\<lparr>psp_bins := bs, sos_fw_blob := bin, sos_fw_blob_size := fw_size\<rparr>" using assms by simp_all
    have "psp_parse_sos_views psp (Some bin) fw_size = ?run"
      unfolding psp_parse_sos_views_def Let_def option.case bind.bind_lunit r using False ok by simp
    with run have "psp_parse_sos_views psp (Some bin) fw_size = Some (r, psp')" by (rule trans [rotated])
    then show ?thesis using bins same by blast
  qed
qed

lemma bin_bytes_length:
  assumes "bins_inside (length (sos_fw_blob psp)) psp" "bin_bytes psp b = Some src"
  shows "length src = unat (sb_size (psp_bins psp b))"
  using assms by (auto simp: bin_bytes_def bins_inside_def part_inside_def split: option.splits dest!: spec [of _ b])

text \<open>Either the call fails and changes no context, or it publishes what the parser found in the copy.\<close>

lemma parse_sos_outcome:
  assumes "psp_parse_sos_views psp (Some (take (unat fw_size) bin)) fw_size = Some (r, psp')"
  shows "(\<exists>e d'. psp_parse_sos_microcode pos psp (Some bin) fw_size d = Some ((e, psp), d') \<and> e \<noteq> kIOReturnSuccess) \<or>
    (\<exists>b d'. psp_parse_sos_microcode pos psp (Some bin) fw_size d
       = Some ((kIOReturnSuccess, psp'\<lparr>sosPackageBuffer := Some b, firmwareLoadComplete := False\<rparr>), d') \<and>
       r = kIOReturnSuccess \<and> fw_size \<le> kMaxPackageBytes)"
  using assms unfolding psp_parse_sos_microcode_def Let_def or_else_def
  by (auto split: option.split prod.split simp: not_less)

text \<open>
  C39. The package of the security processor's firmware is untrusted bytes. Whatever they are, the parser returns: it never
  reads past the package. A refused package leaves the driver's context as it was, the previous package included. An
  accepted one is a private copy of at most 16 MB in which every part that is present lies whole, so that the bytes a
  later load takes from it are all there, and the firmware counts as not yet loaded.
\<close>

theorem sos_package_sound:
  assumes "unat fw_size \<le> length bin"
  shows "\<exists>r psp' d'. psp_parse_sos_microcode pos psp (Some bin) fw_size d = Some ((r, psp'), d') \<and>
    (if r = kIOReturnSuccess
     then sos_fw_blob psp' = take (unat fw_size) bin \<and> fw_size \<le> 0x1000000 \<and> bins_inside (unat fw_size) psp' \<and>
       (\<forall>b src. bin_bytes psp' b = Some src \<longrightarrow> length src = unat (sb_size (psp_bins psp' b))) \<and>
       sosPackageBuffer psp' \<noteq> None \<and> \<not> firmwareLoadComplete psp'
     else psp' = psp)"
proof -
  let ?own = "take (unat fw_size) bin"
  have len: "unat fw_size = length ?own" using assms by simp
  obtain r psp' where parse: "psp_parse_sos_views psp (Some ?own) fw_size = Some (r, psp')"
    and inside: "r = kIOReturnSuccess \<Longrightarrow> bins_inside (length ?own) psp'"
    and same: "r = kIOReturnSuccess \<Longrightarrow> \<exists>bs. psp' = psp\<lparr>psp_bins := bs, sos_fw_blob := ?own, sos_fw_blob_size := fw_size\<rparr>"
    using views_sound [OF len, of psp] by blast
  from parse_sos_outcome [OF parse, of pos d] show ?thesis
  proof (elim disjE exE conjE)
    fix e d' assume "psp_parse_sos_microcode pos psp (Some bin) fw_size d = Some ((e, psp), d')" "e \<noteq> kIOReturnSuccess"
    then show ?thesis by auto
  next
    fix b d'
    let ?p = "psp'\<lparr>sosPackageBuffer := Some b, firmwareLoadComplete := False\<rparr>"
    assume run: "psp_parse_sos_microcode pos psp (Some bin) fw_size d = Some ((kIOReturnSuccess, ?p), d')"
      and ok: "r = kIOReturnSuccess" "fw_size \<le> kMaxPackageBytes"
    have blob: "sos_fw_blob ?p = ?own" using same [OF ok(1)] by auto
    have parts: "bins_inside (unat fw_size) ?p" using inside [OF ok(1)] len by (simp add: bins_inside_def)
    have lens: "\<forall>b src. bin_bytes ?p b = Some src \<longrightarrow> length src = unat (sb_size (psp_bins ?p b))"
      using bin_bytes_length [of ?p] blob parts len by metis
    show ?thesis
      by (rule exI, rule exI, rule exI, rule conjI, rule run)
        (use blob parts lens ok(2) in \<open>simp add: kMaxPackageBytes_def\<close>)
  qed
qed

text \<open>A package of one part, the SOS, of four bytes, and services that have one buffer.\<close>

definition sos_file :: bytes where
  "sos_file = [56, 0, 0, 0] @ replicate 4 0 @ [2, 0, 0, 0] @ replicate 8 0 @ [4, 0, 0, 0] @ [52, 0, 0, 0] @ replicate 4 0 @
     [1, 0, 0, 0] @ [1, 0, 0, 0] @ replicate 8 0 @ [4, 0, 0, 0] @ [0xA1, 0xA2, 0xA3, 0xA4]"

definition one_buffer :: "ram psp_os" where
  "one_buffer = os.extend (null_os\<lparr>buf_create := (\<lambda>n al d. ((kIOReturnSuccess, Some 7), d)),
       buf_address := (\<lambda>b d. ((kIOReturnSuccess, 0x1000, 0x1000), d))\<rparr>)
     (psp_os.fields (\<lambda>b n d. ((kIOReturnNoMemory, None), d)) (\<lambda>a bs d. d))"

lemma sos_file_length: "length sos_file = 56" by (simp add: sos_file_def)

lemma sos_file_views:
  "map_option (\<lambda>(r, psp). (r, bin_bytes psp SB_sos)) (psp_parse_sos_views psp_zero (Some sos_file) 56)
     = Some (kIOReturnSuccess, Some [0xA1, 0xA2, 0xA3, 0xA4])"
  by code_simp

lemma sos_package_sound_witness:
  "\<exists>psp' d'. psp_parse_sos_microcode one_buffer psp_zero (Some sos_file) 56 (\<lambda>_ _. 0, 0) = Some ((kIOReturnSuccess, psp'), d') \<and>
     bin_bytes psp' SB_sos = Some [0xA1, 0xA2, 0xA3, 0xA4] \<and> bins_inside 56 psp' \<and> sosPackageBuffer psp' = Some 7"
proof -
  obtain q where q: "psp_parse_sos_views psp_zero (Some sos_file) 56 = Some (kIOReturnSuccess, q)"
    "bin_bytes q SB_sos = Some [0xA1, 0xA2, 0xA3, 0xA4]" using sos_file_views by auto
  have os: "buf_create (os.truncate one_buffer) n al d = ((kIOReturnSuccess, Some 7), d)"
    "buf_address (os.truncate one_buffer) b d = ((kIOReturnSuccess, 0x1000, 0x1000), d)"
    "cpu_copy one_buffer a bs d = d" for n al b a bs d
    by (simp_all add: one_buffer_def os.defs psp_os.defs)
  let ?q = "q\<lparr>sosPackageBuffer := Some 7, firmwareLoadComplete := False\<rparr>"
  have run: "psp_parse_sos_microcode one_buffer psp_zero (Some sos_file) 56 (\<lambda>_ _. 0, 0) = Some ((kIOReturnSuccess, ?q), (\<lambda>_ _. 0, 0))"
    using q sos_file_length
    by (simp add: psp_parse_sos_microcode_def Let_def os kMaxPackageBytes_def psp_zero_def drop_buf_def)
  have "bin_bytes ?q SB_sos = bin_bytes q SB_sos" by (simp add: bin_bytes_def)
  moreover have "bins_inside 56 ?q"
    using sos_package_sound [of 56 sos_file one_buffer psp_zero "(\<lambda>_ _. 0, 0)"] sos_file_length run by auto
  ultimately show ?thesis using run q by auto
qed

end
