(* ===== verification/Driver_Open.thy ===== *)
theory Driver_Open
  imports Bringup Pci_Config Client_Lifecycle
begin

text \<open>
  The opening of the PCI device in \<^verbatim>\<open>dext/MacAMDGPU.cpp\<close>: which clients may take part, the identity check, the
  base address registers and the power state. The services of \<^verbatim>\<open>IOPCIDevice\<close> are parameters; a read is the value
  it stored. Log lines are left out, but for the reads they make, from the left to the right.
\<close>

section \<open>State\<close>

record 'd pci_services = "'d config_space" +
  pci_open :: "'d \<Rightarrow> kern_return \<times> 'd"
  pci_close :: "'d \<Rightarrow> 'd"
  cfg_read8 :: "u64 \<Rightarrow> 'd \<Rightarrow> u8 \<times> 'd"
  bar_info :: "nat \<Rightarrow> 'd \<Rightarrow> (kern_return \<times> u8 \<times> u64) \<times> 'd" \<comment> \<open>memory index, size\<close>
  pci_memory :: "'d pci"

text \<open>The part of the driver's state that these operations use.\<close>

record 'd Driver =
  dr_pciOpen :: bool
  dr_shutdownBlocked :: bool
  dr_sessions :: ClientSessions
  dr_deviceID :: u16
  dr_revision :: u8
  dr_bringup :: "'d BringupContext"

section \<open>The list of capabilities\<close>

text \<open>At most 48 steps; the set of visited offsets is a bit mask.\<close>

fun pm_walk :: "'d pci_services \<Rightarrow> u8 \<Rightarrow> u64 \<Rightarrow> nat \<Rightarrow> 'd \<Rightarrow> u8 \<times> 'd" where
  "pm_walk ps pointer visited 0 d = (0, d)"
| "pm_walk ps pointer visited (Suc n) d =
     (if pointer = 0 then (0, d)
      else if pointer < 0x40 \<or> 0xFC < pointer \<or> pointer AND 3 \<noteq> 0 then (0, d)
      else let bit = push_bit (unat (pointer - 0x40) div 4) 1
        in if visited AND bit \<noteq> 0 then (0, d)
        else let (header, d) = cfg_read16 ps (ucast pointer) d
          in if header = 0xFFFF then (0, d)
          else if header AND 0xFF = 1 then (if pointer \<le> 0xF8 then pointer else 0, d)
          else pm_walk ps (ucast (drop_bit 8 header)) (visited OR bit) n d)"

definition mac_amdgpu_find_pm_capability :: "'d pci_services \<Rightarrow> 'd \<Rightarrow> u8 \<times> 'd" where
  "mac_amdgpu_find_pm_capability ps d = (let (pointer, d) = cfg_read8 ps 0x34 d in pm_walk ps pointer 0 48 d)"

section \<open>Opening\<close>

definition open_bars :: "'d pci_services \<Rightarrow> 'd DeviceContext \<Rightarrow> 'd \<Rightarrow> 'd DeviceContext \<times> 'd" where
  "open_bars ps = foldl (\<lambda>k bar dev d. let (dev, d) = k dev d; ((r, mi, sz), d) = bar_info ps bar d
     in if r \<noteq> kIOReturnSuccess then (dev, d)
     else if bar = 0 then (dev\<lparr>bar0MemIndex := mi, bar0Size := sz\<rparr>, d)
     else if bar = 2 then (dev\<lparr>bar2MemIndex := mi, bar2Size := sz\<rparr>, d)
     else if bar = 5 then (dev\<lparr>bar5MemIndex := mi\<rparr>, d) else (dev, d)) Pair [0..<6]"

definition doorbell_bus :: "u32 \<Rightarrow> u32 \<Rightarrow> u64" where
  "doorbell_bus lo hi = push_bit 32 (ucast hi) OR ucast (lo AND 0xFFFFFFF0)"

definition wake_device :: "'d pci_services \<Rightarrow> 'd \<Rightarrow> 'd" where
  "wake_device ps d =
     (let (cap, d) = mac_amdgpu_find_pm_capability ps d
      in if cap = 0 then d
      else let (pmcsr, d) = cfg_read16 ps (ucast cap + 4) d
        in if pmcsr AND 3 = 0 then d
        else let d = cfg_write16 ps (ucast cap + 4) (pmcsr AND NOT 3) d;
                 d = IOSleep (pci_memory ps) 10 d
          in snd (cfg_read16 ps (ucast cap + 4) d))"

definition probe_reads :: "'d pci_services \<Rightarrow> u8 \<Rightarrow> 'd \<Rightarrow> 'd" where
  "probe_reads ps bar d =
     fold (\<lambda>dw d. snd (MemoryRead32 (pci_memory ps) bar (dw * 4) d)) [0x0000, 0x0001, 0x0DE3, 0x16A00, 0x16061] d"

text \<open>What is done once the identity has been checked.\<close>

definition open_device :: "'d pci_services \<Rightarrow> 'd DeviceContext \<Rightarrow> 'd \<Rightarrow> 'd DeviceContext \<times> 'd" where
  "open_device ps dev d =
     (let (cmd, d) = cfg_read16 ps 0x04 d; wanted = cmd OR 0x0006;
          d = (if wanted \<noteq> cmd then snd (cfg_read16 ps 0x04 (cfg_write16 ps 0x04 wanted d)) else d);
          dev = dev\<lparr>pci := Some (pci_memory ps), psoCAlive := False, smuOnline := False, gmcReady := False\<rparr>;
          (dev, d) = open_bars ps dev d;
          d = snd (cfg_read32 ps 0x10 d);
          (bar2, d) = cfg_read32 ps 0x18 d; (bar2_hi, d) = cfg_read32 ps 0x1C d;
          d = snd (cfg_read32 ps 0x24 d);
          d = snd (cfg_read16 ps 0x06 d);
          dev = dev\<lparr>dev_doorbell := (dev_doorbell dev)\<lparr>db_base := doorbell_bus bar2 bar2_hi\<rparr>\<rparr>;
          d = wake_device ps d
      in (dev, probe_reads ps (bar0MemIndex dev) d))"

text \<open>A client that this call attached is detached again when the opening fails.\<close>

definition undo_attach :: "u64 \<Rightarrow> bool \<Rightarrow> bool \<Rightarrow> ClientSessions \<Rightarrow> bool \<times> ClientSessions" where
  "undo_attach c already claimed s = (if \<not> already then detach s c claimed else (claimed, s))"

definition live_identity :: "u32 \<Rightarrow> u32 \<Rightarrow> bool" where
  "live_identity identity classRev \<longleftrightarrow>
     (let vendor = ucast identity :: u16; device = ucast (drop_bit 16 identity) :: u16
      in vendor = 0x1002 \<and> device \<noteq> 0 \<and> device \<noteq> 0xFFFF \<and> classRev \<noteq> 0xFFFFFFFF)"

definition identity_error :: "u32 \<Rightarrow> u32 \<Rightarrow> kern_return" where
  "identity_error identity classRev =
     (if (ucast identity :: u16) = 0xFFFF \<or> (ucast (drop_bit 16 identity) :: u16) = 0xFFFF \<or> classRev = 0xFFFFFFFF
      then kIOReturnNotAttached else kIOReturnUnsupported)"

definition mac_amdgpu_ensure_open ::
  "'d pci_services \<Rightarrow> u64 \<Rightarrow> bool \<times> 'd Driver \<Rightarrow> 'd \<Rightarrow> (kern_return \<times> bool \<times> 'd Driver) \<times> 'd"
where
  "mac_amdgpu_ensure_open ps c s d =
     (let (claimed, dr) = s; ready = (b_reached (dr_bringup dr) = BringupStage_SDMAInit)
      in if dr_shutdownBlocked dr then ((kIOReturnNotReady, s), d)
      else if \<not> dr_pciOpen dr \<and> b_reached (dr_bringup dr) \<noteq> BringupStage_None then ((kIOReturnNotReady, s), d)
      else let already = claimed; (ok, claimed, sess) = attach (dr_sessions dr) c claimed ready;
               dr = dr\<lparr>dr_sessions := sess\<rparr>
      in if \<not> ok then ((kIOReturnBusy, claimed, dr), d)
      else if dr_pciOpen dr then ((kIOReturnSuccess, claimed, dr), d)
      else let (r, d) = pci_open ps d
      in if r \<noteq> kIOReturnSuccess
      then let (claimed, sess) = undo_attach c already claimed (dr_sessions dr)
        in ((r, claimed, dr\<lparr>dr_sessions := sess\<rparr>), d)
      else let dr = dr\<lparr>dr_pciOpen := True\<rparr>; (identity, d) = cfg_read32 ps 0x00 d; (classRev, d) = cfg_read32 ps 0x08 d
      in if \<not> live_identity identity classRev
      then let d = pci_close ps d; (claimed, sess) = undo_attach c already claimed (dr_sessions dr)
        in ((identity_error identity classRev, claimed,
              dr\<lparr>dr_pciOpen := False, dr_deviceID := 0, dr_revision := 0, dr_sessions := sess\<rparr>), d)
      else let (dev, d) = open_device ps (b_device (dr_bringup dr)) d
        in ((kIOReturnSuccess, claimed,
              dr\<lparr>dr_deviceID := ucast (drop_bit 16 identity), dr_revision := ucast classRev,
                 dr_bringup := (dr_bringup dr)\<lparr>b_device := dev\<rparr>\<rparr>), d))"

section \<open>Initialisation on request\<close>

text \<open>Whether a command may have been sent: a counter or a write pointer moved.\<close>

definition may_have_submitted :: "'d BringupContext \<Rightarrow> 'd BringupContext \<Rightarrow> bool" where
  "may_have_submitted b b' \<longleftrightarrow>
     fenceCounter (b_psp b') \<noteq> fenceCounter (b_psp b) \<or> cp_wptr (b_cp b') \<noteq> cp_wptr (b_cp b) \<or>
     (\<exists>i\<in>{0..<kSDMAInstanceCount}.
        sd_wptr (sdma_instance (b_sdma b') (word_of_nat i)) \<noteq> sd_wptr (sdma_instance (b_sdma b) (word_of_nat i)))"

text \<open>\<^verbatim>\<open>kMacAMDGPUMethodInitDevice\<close>, with the target the client asked for; the result has the stage reached.\<close>

definition init_device ::
  "'d pci_services \<Rightarrow> 'd os \<Rightarrow> 'd hostmem \<Rightarrow> u64 \<Rightarrow> u64 \<Rightarrow> bool \<times> 'd Driver \<Rightarrow> 'd \<Rightarrow>
     (u64 option \<times> bool \<times> 'd Driver, 'd) outcome"
where
  "init_device ps os hm c target s d =
     (let ((r, claimed, dr), d) = mac_amdgpu_ensure_open ps c s d
      in if r \<noteq> kIOReturnSuccess then Some ((r, None, claimed, dr), d)
      else map_option (\<lambda>((r, b), d).
             let sent = may_have_submitted (dr_bringup dr) b;
                 dr = dr\<lparr>dr_bringup := b\<rparr>;
                 dr = (if r \<noteq> kIOReturnSuccess \<and> (r = kIOReturnTimeout \<or> sent) then dr\<lparr>dr_shutdownBlocked := True\<rparr> else dr);
                 dr = (if r = kIOReturnSuccess \<and> b_reached b = BringupStage_SDMAInit
                       then dr\<lparr>dr_sessions := (dr_sessions dr)\<lparr>initializationClient := 0\<rparr>\<rparr> else dr)
             in ((r, Some (ucast (b_reached b)), claimed, dr), d))
           (bringup_to os hm (dr_bringup dr) (ucast target) d))"

end
