(* ===== verification/Firmware_Load.thy ===== *)
theory Firmware_Load
  imports Driver_Open
begin

text \<open>
  \<^verbatim>\<open>kMacAMDGPUMethodLoadFirmware\<close> in \<^verbatim>\<open>dext/MacAMDGPU.cpp\<close>: one firmware file from the client's buffer. The
  buffer is mapped by the client, who must leave it alone during the call: it is read once here. \<open>bin\<close> is the whole
  buffer, of which the client says how many bytes are the file. A null \<open>None\<close> as an outcome is a wait that never
  returns, or a read past the buffer.
\<close>

section \<open>The client's buffer\<close>

record firmware_client =
  fc_dmaBuffer :: "u64 option"
  fc_dmaBufferSize :: u64
  fc_dmaSegmentsCount :: u32

type_synonym 'd host_bytes = "u64 \<Rightarrow> nat \<Rightarrow> 'd \<Rightarrow> bytes"

section \<open>Types of files\<close>

text \<open>The numbers of the bootloader's parts, with the command of each.\<close>

definition bootloader_types :: "(u64 \<times> u32) list" where
  "bootloader_types = [(1, LoadKeyDatabase), (2, LoadTosSPLTable), (3, LoadSysDrv), (4, LoadSocDrv),
     (5, LoadIntfDrv), (6, LoadHADDrv), (7, LoadRASDrv), (8, LoadIPKeyMgrDrv)]"

definition PSPGfxFwType_SDMA0 :: u32 where "PSPGfxFwType_SDMA0 = 9"
definition PSPGfxFwType_SDMA1 :: u32 where "PSPGfxFwType_SDMA1 = 10"

definition kMacAMDGPUFwTypeSOS :: u64 where "kMacAMDGPUFwTypeSOS = 0"
definition kMacAMDGPUFwTypeTA :: u64 where "kMacAMDGPUFwTypeTA = 9"
definition kMacAMDGPUFwTypeFile_TOC :: u64 where "kMacAMDGPUFwTypeFile_TOC = 0x200 + 7"

definition cp_firmware_index :: "u64 \<Rightarrow> nat option" where
  "cp_firmware_index t =
     (if t = kHostFwFile_CP_PFP then Some 0 else if t = kHostFwFile_CP_ME then Some 1
      else if t = kHostFwFile_CP_MEC then Some 2 else None)"

definition is_mes_package :: "u64 \<Rightarrow> bool" where
  "is_mes_package t \<longleftrightarrow> t = kHostFwFile_MES_UNI \<or> t = 0x100 + ucast PSPGfxFwType_CP_MES"

definition mes_mask :: "u32 \<Rightarrow> u32" where
  "mes_mask t =
     (if t = PSPGfxFwType_CP_MES then 1 else if t = PSPGfxFwType_CP_MES_DATA then 2
      else if t = PSPGfxFwType_CP_MES_KIQ then 4 else if t = PSPGfxFwType_MES_KIQ_STACK then 8 else 0)"

section \<open>One payload\<close>

text \<open>What the security processor must acknowledge after the last part of the run list controller.\<close>

definition rlc_sequence :: "'d BringupContext \<Rightarrow> 'd \<Rightarrow> ('d BringupContext, 'd) outcome" where
  "rlc_sequence b d =
     and_then (put_back put_psp b (psp_rlc_autoload_start (b_device b) (b_psp b) d)) (\<lambda>b d.
       let b = b\<lparr>b_rlc := (b_rlc b)\<lparr>rlc_microcode_loaded := False\<rparr>\<rparr>
       in and_then (put_back put_psp b (psp_asd_initialize (b_device b) (b_psp b) d)) (\<lambda>b d.
          and_then (put_back put_psp b (psp_rl_load (b_device b) (b_psp b) d)) (\<lambda>b d.
            Some ((kIOReturnSuccess,
              b\<lparr>b_rlc := (b_rlc b)\<lparr>rlc_microcode_loaded := True\<rparr>, b_psp := (b_psp b)\<lparr>firmwareLoadComplete := True\<rparr>\<rparr>), d))))"

text \<open>The place of a payload in the firmware buffer, or the error.\<close>

definition payload_slot :: "PSPContext \<Rightarrow> u64 \<Rightarrow> UcodePayload \<Rightarrow> kern_return + u64 \<times> u64" where
  "payload_slot psp fwSize p =
     (if fwSize < ucast (up_offset p) + ucast (up_size p) then Inl kIOReturnBadArgument
      else let slot_off = fwBufBumpOffset psp; slot_sz = fw_slot_size (up_size p)
        in if fwBufSize psp < slot_off + slot_sz then Inl kIOReturnNoSpace else Inr (slot_off, slot_sz))"

definition payload_bytes :: "bytes \<Rightarrow> UcodePayload \<Rightarrow> bytes" where
  "payload_bytes bin p = take (unat (up_size p)) (drop (unat (up_offset p)) bin)"

text \<open>The first payload of a file is read back through the index registers, for the log.\<close>

definition readback :: "'d DeviceContext \<Rightarrow> u64 \<Rightarrow> 'd \<Rightarrow> 'd" where
  "readback dev off d = fold (\<lambda>i d. snd (RVRAM32_via_mm dev (off + i) d)) [0, 4, 8, 12] d"

definition send_payload ::
  "'d psp_os \<Rightarrow> bytes \<Rightarrow> u64 \<Rightarrow> bool \<Rightarrow> UcodePayload \<Rightarrow> 'd BringupContext \<Rightarrow> 'd \<Rightarrow> ('d BringupContext, 'd) outcome"
where
  "send_payload pos bin fwSize first p b d =
     (case payload_slot (b_psp b) fwSize p of
        Inl e \<Rightarrow> Some ((e, b), d)
      | Inr (slot_off, slot_sz) \<Rightarrow>
          let dev = b_device b; psp = b_psp b;
              d = stage_fw_slot dev pos psp slot_off (payload_bytes bin p) d;
              psp = psp\<lparr>fwBufBumpOffset := slot_off + slot_sz\<rparr>; b = b\<lparr>b_psp := psp\<rparr>;
              d = (if first then readback dev (fwBufVRAMOffset psp + slot_off) d else d)
          in put_back put_psp b (psp_load_ip_fw dev psp (fwBufBaseMC psp + slot_off) (up_size p) (up_fw_type p) d))"

text \<open>What an acknowledged payload means for the other parts. The mask and the flag belong to the call.\<close>

definition after_payload ::
  "UcodePayload \<Rightarrow> bool \<Rightarrow> u32 \<times> bool \<Rightarrow> 'd BringupContext \<Rightarrow> 'd \<Rightarrow> (u32 \<times> bool) \<times> ('d BringupContext, 'd) outcome"
where
  "after_payload p isMES acc b d =
     (let t = up_fw_type p; (mask, sdma) = acc;
          mask = (if isMES then mask OR mes_mask t else mask);
          sdma = (if t = PSPGfxFwType_SDMA0 \<or> t = PSPGfxFwType_SDMA1 \<or> t = PSPGfxFwType_SDMA_UCODE_TH0 then True else sdma);
          b = (if t = PSPGfxFwType_IMU_D then b\<lparr>b_imu := (b_imu b)\<lparr>imu_microcode_loaded := True\<rparr>\<rparr> else b)
      in ((mask, sdma), if t = PSPGfxFwType_RLC_G then rlc_sequence b d else Some ((kIOReturnSuccess, b), d)))"

fun send_payloads ::
  "'d psp_os \<Rightarrow> bytes \<Rightarrow> u64 \<Rightarrow> bool \<Rightarrow> bool \<Rightarrow> UcodePayload list \<Rightarrow> u32 \<times> bool \<Rightarrow> 'd BringupContext \<Rightarrow> 'd \<Rightarrow>
     ((u32 \<times> bool) \<times> 'd BringupContext, 'd) outcome"
where
  "send_payloads pos bin fwSize isMES first [] acc b d = Some ((kIOReturnSuccess, acc, b), d)"
| "send_payloads pos bin fwSize isMES first (p # ps) acc b d =
     (case send_payload pos bin fwSize first p b d of
        None \<Rightarrow> None
      | Some ((r, b), d) \<Rightarrow>
          if r \<noteq> kIOReturnSuccess then Some ((r, acc, b), d)
          else (case after_payload p isMES acc b d of
              (acc, None) \<Rightarrow> None
            | (acc, Some ((r, b), d)) \<Rightarrow>
                if r \<noteq> kIOReturnSuccess then Some ((r, acc, b), d)
                else send_payloads pos bin fwSize isMES False ps acc b d))"

section \<open>A file of several payloads\<close>

text \<open>The entry address of a MES file; \<open>Inl\<close> is the error, \<open>None\<close> a read past the buffer.\<close>

definition mes_entry :: "bytes \<Rightarrow> u64 \<Rightarrow> (kern_return + u64) option" where
  "mes_entry bin fwSize =
     (if fwSize < word_of_nat (layout_size mes_firmware_header_v1_0) then Some (Inl kIOReturnBadArgument)
      else do {
        lo \<leftarrow> rdf32 bin mes_firmware_header_v1_0 ''mes_uc_start_addr_lo'';
        hi \<leftarrow> rdf32 bin mes_firmware_header_v1_0 ''mes_uc_start_addr_hi'';
        let entry = ucast lo OR push_bit 32 (ucast hi);
        Some (if entry = 0 \<or> entry AND 3 \<noteq> 0 then Inl kIOReturnBadArgument else Inr entry) })"

definition mes_loaded :: "u64 \<Rightarrow> 'd BringupContext \<Rightarrow> 'd BringupContext" where
  "mes_loaded entry b = b\<lparr>b_mes := snd (mes_set_uc_start_addr (snd (mes_set_uc_start_addr (b_mes b) Sched entry)) KIQ entry)\<rparr>"

definition file_done ::
  "bool \<Rightarrow> u64 \<Rightarrow> (nat \<times> u64) option \<Rightarrow> u32 \<times> bool \<Rightarrow> 'd BringupContext \<Rightarrow> 'd \<Rightarrow> ('d BringupContext, 'd) outcome"
where
  "file_done isMES mesEntry cpEntry acc b d =
     (if isMES \<and> fst acc \<noteq> 0xF then Some ((kIOReturnNotReady, b), d)
      else let b = (if isMES then mes_loaded mesEntry b else b);
               b = (case cpEntry of None \<Rightarrow> b
                    | Some (i, entry) \<Rightarrow> b\<lparr>b_cp := (b_cp b)\<lparr>cp_firmware := (cp_firmware (b_cp b))(i := \<lparr>fw_address = entry, fw_loaded = True\<rparr>)\<rparr>\<rparr>);
               b = (if snd acc then b\<lparr>b_sdma := (b_sdma b)\<lparr>microcode_loaded := True\<rparr>\<rparr> else b)
        in Some ((kIOReturnSuccess, b), d))"

definition send_file ::
  "'d psp_os \<Rightarrow> bytes \<Rightarrow> u64 \<Rightarrow> bool \<Rightarrow> u64 \<Rightarrow> (nat \<times> u64) option \<Rightarrow> UcodePayload list \<Rightarrow> 'd BringupContext \<Rightarrow> 'd \<Rightarrow>
     ('d BringupContext, 'd) outcome"
where
  "send_file pos bin fwSize isMES mesEntry cpEntry payloads b d =
     (case send_payloads pos bin fwSize isMES True payloads (0, False) b d of
        None \<Rightarrow> None
      | Some ((r, acc, b), d) \<Rightarrow>
          if r \<noteq> kIOReturnSuccess then Some ((r, b), d) else file_done isMES mesEntry cpEntry acc b d)"

text \<open>The command processor's part of a file: the old entry is dropped before the new one is read.\<close>

definition cp_entry ::
  "u64 \<Rightarrow> bytes \<Rightarrow> u64 \<Rightarrow> 'd BringupContext \<Rightarrow> (kern_return + (nat \<times> u64) option) \<times> 'd BringupContext"
where
  "cp_entry t bin fwSize b =
     (case cp_firmware_index t of
        None \<Rightarrow> (Inr None, b)
      | Some i \<Rightarrow>
          if firmwarePrepared (b_cp b) \<or> ringReady (b_cp b) then (Inl kIOReturnBusy, b)
          else let b = b\<lparr>b_cp := (b_cp b)\<lparr>cp_firmware := (cp_firmware (b_cp b))(i := \<lparr>fw_address = 0, fw_loaded = False\<rparr>)\<rparr>\<rparr>
            in case cp_parse_firmware_start (Some (take (unat fwSize) bin)) of
                 None \<Rightarrow> (Inl kIOReturnBadArgument, b)
               | Some entry \<Rightarrow> (Inr (Some (i, entry)), b))"

definition load_ip_file ::
  "'d psp_os \<Rightarrow> firmware_client \<Rightarrow> u64 \<Rightarrow> bytes \<Rightarrow> u64 \<Rightarrow> 'd BringupContext \<Rightarrow> 'd \<Rightarrow> ('d BringupContext, 'd) outcome"
where
  "load_ip_file pos fc t bin fwSize b d =
     (if fc_dmaSegmentsCount fc < 1 then Some ((kIOReturnNotReady, b), d)
      else if fwPriBusAddr (b_psp b) = 0 \<or> fwPriSize (b_psp b) = 0 then Some ((kIOReturnNotReady, b), d)
      else case cp_entry t bin fwSize b of
        (Inl e, b) \<Rightarrow> Some ((e, b), d)
      | (Inr cpEntry, b) \<Rightarrow>
          (case amdgpu_ucode_extract t (Some bin) fwSize of
             None \<Rightarrow> None
           | Some payloads \<Rightarrow>
               if payloads = [] then Some ((kIOReturnUnsupported, b), d)
               else if \<not> is_mes_package t then send_file pos bin fwSize False 0 cpEntry payloads b d
               else let b = b\<lparr>b_mes := (b_mes b)\<lparr>sched_ucode_loaded := False, kiq_ucode_loaded := False\<rparr>\<rparr>
                 in (case mes_entry bin fwSize of
                       None \<Rightarrow> None
                     | Some (Inl e) \<Rightarrow> Some ((e, b), d)
                     | Some (Inr entry) \<Rightarrow> send_file pos bin fwSize True entry cpEntry payloads b d)))"

section \<open>The other files\<close>

text \<open>The stages up to the security processor are run first when they have not been.\<close>

definition ensure_psp ::
  "'d psp_os \<Rightarrow> 'd hostmem \<Rightarrow> 'd BringupContext \<Rightarrow> 'd \<Rightarrow> ('d BringupContext, 'd) outcome"
where
  "ensure_psp pos hm b d =
     (if b_reached b < BringupStage_PSPInit then bringup_to (os.truncate pos) hm b BringupStage_PSPInit d
      else Some ((kIOReturnSuccess, b), d))"

definition load_sos_file ::
  "'d psp_os \<Rightarrow> bytes \<Rightarrow> u64 \<Rightarrow> 'd BringupContext \<Rightarrow> 'd \<Rightarrow> ('d BringupContext, 'd) outcome"
where
  "load_sos_file pos bin fwSize b d =
     and_then (put_back put_psp b (psp_parse_sos_microcode pos (b_psp b) (Some bin) fwSize d)) (\<lambda>b d.
     and_then (put_back put_psp b (psp_load_sos_package (b_device b) (b_psp b) d)) (\<lambda>b d.
       Some ((kIOReturnSuccess, if b_reached b < BringupStage_PSPLoadSOS then b\<lparr>b_reached := BringupStage_PSPLoadSOS\<rparr> else b), d)))"

definition load_ta_file ::
  "'d psp_os \<Rightarrow> bytes \<Rightarrow> u64 \<Rightarrow> 'd BringupContext \<Rightarrow> 'd \<Rightarrow> ('d BringupContext, 'd) outcome"
where
  "load_ta_file pos bin fwSize b d =
     (if fwBufSize (b_psp b) = 0 then Some ((kIOReturnNotReady, b), d)
      else put_back put_psp b (psp_parse_ta_microcode (b_device b) pos (b_psp b) (Some bin) fwSize d))"

definition load_toc_file :: "bytes \<Rightarrow> u64 \<Rightarrow> 'd BringupContext \<Rightarrow> 'd \<Rightarrow> ('d BringupContext, 'd) outcome" where
  "load_toc_file bin fwSize b d =
     put_back put_psp b (map_option (\<lambda>((r, _, _, psp), d). ((r, psp), d))
       (psp_load_toc (b_device b) (b_psp b) (Some bin) (ucast fwSize) d))"

section \<open>The call\<close>

definition load_firmware_file ::
  "'d psp_os \<Rightarrow> 'd hostmem \<Rightarrow> firmware_client \<Rightarrow> u64 \<Rightarrow> bytes \<Rightarrow> u64 \<Rightarrow> 'd BringupContext \<Rightarrow> 'd \<Rightarrow>
     ('d BringupContext, 'd) outcome"
where
  "load_firmware_file pos hm fc t bin fwSize b d =
     (if t = kMacAMDGPUFwTypeSOS then and_then (ensure_psp pos hm b d) (load_sos_file pos bin fwSize)
      else case map_of bootloader_types t of
        Some cmd \<Rightarrow>
          map_option (\<lambda>(r, d). ((r, b), d)) (psp_bootloader_load_component (b_device b) (b_psp b) (Some bin) fwSize cmd d)
      | None \<Rightarrow>
          if t = kMacAMDGPUFwTypeTA then and_then (ensure_psp pos hm b d) (load_ta_file pos bin fwSize)
          else if t = kMacAMDGPUFwTypeFile_TOC then load_toc_file bin fwSize b d
          else if 0x100 \<le> t \<and> t < 0x200 \<or> 0x200 \<le> t \<and> t < 0x300 then load_ip_file pos fc t bin fwSize b d
          else Some ((kIOReturnUnsupported, b), d))"

definition load_firmware_checked ::
  "'d psp_os \<Rightarrow> 'd hostmem \<Rightarrow> 'd host_bytes \<Rightarrow> firmware_client \<Rightarrow> u64 \<Rightarrow> u64 \<Rightarrow> 'd BringupContext \<Rightarrow> 'd \<Rightarrow>
     ('d BringupContext, 'd) outcome"
where
  "load_firmware_checked pos hm hb fc t fwSize b d =
     (case fc_dmaBuffer fc of
        None \<Rightarrow> Some ((kIOReturnNotReady, b), d)
      | Some buf \<Rightarrow>
          if fwSize = 0 \<or> fc_dmaBufferSize fc < fwSize then Some ((kIOReturnBadArgument, b), d)
          else let ((r, address, _), d) = buf_address (os.truncate pos) buf d
            in if r \<noteq> kIOReturnSuccess then Some ((kIOReturnInternalError, b), d)
            else load_firmware_file pos hm fc t (hb address (unat (fc_dmaBufferSize fc)) d) fwSize
                   (b\<lparr>b_psp := (b_psp b)\<lparr>firmwareLoadComplete := False\<rparr>\<rparr>) d)"

definition load_firmware ::
  "'d psp_os \<Rightarrow> 'd hostmem \<Rightarrow> 'd host_bytes \<Rightarrow> firmware_client \<Rightarrow> u64 \<Rightarrow> u64 \<Rightarrow> 'd Driver \<Rightarrow> 'd \<Rightarrow> ('d Driver, 'd) outcome"
where
  "load_firmware pos hm hb fc t fwSize dr d =
     map_option (\<lambda>((r, b), d).
         ((r, dr\<lparr>dr_bringup := b,
                 dr_shutdownBlocked := (dr_shutdownBlocked dr \<or>
                   r \<noteq> kIOReturnSuccess \<and>
                   (r = kIOReturnTimeout \<or> fenceCounter (b_psp b) \<noteq> fenceCounter (b_psp (dr_bringup dr))))\<rparr>), d))
       (load_firmware_checked pos hm hb fc t fwSize (dr_bringup dr) d)"

end
