(* ===== verification/Spec2Isabelle.thy ===== *)
theory Spec2Isabelle
  imports Vram_Properties Vram_Accounting Gart_Aperture Gmc_Properties Gart_Properties Client_Submission Buffers Discovery_Properties Interrupts_Properties Mes_Bringup_Properties Software_Monitor_Properties Gfx_Properties Compute_Properties Memory_Test Clock Pci_Config Metrics Rlc Bringup_Returns Psp_Properties Firmware_Load
begin

text \<open>
  Verification of the mac-amdgpu driver: the DriverKit extension under \<^verbatim>\<open>src/dext/\<close> that brings up an RDNA4
  graphics card on macOS. The development models the driver's own logic, from the bit fields of registers up to
  the order of initialisation and the loading of firmware, and proves what each part promises the others.

  \<^bold>\<open>The program.\<close> A client opens the device (\<^verbatim>\<open>mac_amdgpu_ensure_open\<close>), loads firmware files
  (\<^verbatim>\<open>kMacAMDGPUMethodLoadFirmware\<close>) and asks for initialisation up to a stage (\<^verbatim>\<open>kMacAMDGPUMethodInitDevice\<close>).
  \<^verbatim>\<open>bringup_to\<close> runs the stages in order over one shared \<^verbatim>\<open>BringupContext\<close>: IP discovery fills the table of register
  bases, the memory controller splits VRAM into pools and enables the page table of the GART, the security processor
  takes the firmware through its ring, the SMU, the run list controller, the command processor, the MicroEngine
  Scheduler and the copy engines follow. Afterwards clients submit work through queues, whose progress the software
  counters record. Shared state is the context; the parts call each other directly, on one serial queue.

  \<^bold>\<open>Theories, from the bottom up.\<close>
  \<^item> \<open>Prelude\<close>: result codes, integer types, bit and list lemmas. \<open>Range_Contract\<close>: the locale \<open>range_allocator\<close>
    both allocators of ranges interpret, with its session lemmas. \<open>Free_List\<close>: the abstract first-fit allocator.
  \<^item> \<open>Field_Defs\<close>, \<open>Device\<close> (\<^verbatim>\<open>amdgpu_field_defs.h\<close>, \<^verbatim>\<open>amdgpu_ip.h\<close>, \<^verbatim>\<open>amdgpu_regs.h\<close>): fields, the table of IP
    blocks, register access, polls. The PCI device, sleep and clock are the parameter \<open>pci\<close> on a state \<open>'d\<close>.
  \<^item> \<open>Vram\<close>, \<open>Vram_Pool\<close>, \<open>Vram_Correct\<close>, \<open>Vram_Properties\<close>, \<open>Vram_Accounting\<close> (\<^verbatim>\<open>amdgpu_vram.h\<close>,
    \<^verbatim>\<open>amdgpu_vram_accounting.h\<close>): the allocator on its node pool, refinement of the first-fit specification,
    coalescing, disjointness over whole sessions, its accounting.
  \<^item> \<open>Gart_Aperture\<close> (\<^verbatim>\<open>amdgpu_gart_allocator.h\<close>), \<open>Gart\<close>, \<open>Gart_Properties\<close> (\<^verbatim>\<open>amdgpu_gart.cpp\<close>): ranges of the
    aperture and the binding of host memory, down to the page table entries in VRAM.
  \<^item> \<open>Vram_IO\<close> (\<^verbatim>\<open>amdgpu_vram_io.h\<close>), \<open>Gmc\<close>, \<open>Hub\<close>, \<open>Gmc_Init\<close>, \<open>Gmc_Properties\<close> (\<^verbatim>\<open>gmc_v12_0.cpp\<close>,
    \<^verbatim>\<open>amdgpu_gmc_address.h\<close>): verified writes, the address map, the two hubs, the flush of their TLBs.
  \<^item> \<open>Discovery\<close>, \<open>Discovery_Properties\<close> (\<^verbatim>\<open>amdgpu_discovery.cpp\<close>): the parser of untrusted discovery bytes.
  \<^item> \<open>Interrupts\<close>, \<open>Interrupts_Properties\<close> (\<^verbatim>\<open>ih_v7_0.cpp\<close>): the interrupt ring and its drain.
  \<^item> \<open>Mes_Packets\<close>, \<open>Mes_Regs\<close>, \<open>Mes\<close>, \<open>Mes_Init\<close>, \<open>Mes_Bringup\<close> with \<open>Mes_Ring\<close>, \<open>Mes_Correct\<close>, \<open>Mes_Properties\<close>,
    \<open>Mes_Bringup_Properties\<close> (\<^verbatim>\<open>mes_v12_1.cpp\<close>, \<^verbatim>\<open>amdgpu_mes*.h\<close>): messages, submission on a ring, bring-up.
  \<^item> \<open>Cp_Regs\<close>, \<open>Cp\<close>, \<open>Gfx_Regs\<close>, \<open>Gfx\<close>, \<open>Gfx_Properties\<close>, \<open>Sdma\<close>, \<open>Rlc\<close>, \<open>Smu\<close>, \<open>Metrics\<close>, \<open>Clock\<close>, \<open>Nbio\<close>,
    \<open>Pci_Config\<close>: the engines, the mailbox with its measurements, the bus interface, configuration space
    (\<^verbatim>\<open>cp_v12_0.cpp\<close>, \<^verbatim>\<open>gfx_v12_0.cpp\<close>, \<^verbatim>\<open>sdma_v7_0.cpp\<close>, \<^verbatim>\<open>rlc_v12_0.cpp\<close>, \<^verbatim>\<open>imu_v12_0.cpp\<close>, \<^verbatim>\<open>smu_v14_0.cpp\<close>,
    \<^verbatim>\<open>amdgpu_metrics*\<close>, \<^verbatim>\<open>amdgpu_clock.cpp\<close>, the first part of \<^verbatim>\<open>amdgpu_init.cpp\<close>, \<^verbatim>\<open>amdgpu_pci_rebar.h\<close>).
  \<^item> \<open>Aql_Packets\<close>, \<open>Aql\<close>, \<open>Compute_Packets\<close>, \<open>Compute_Launch\<close>, \<open>Compute_Properties\<close>, \<open>Memory_Test\<close>
    (\<^verbatim>\<open>amdgpu_aql.cpp\<close>, \<^verbatim>\<open>amdgpu_dispatch.cpp\<close>, \<^verbatim>\<open>amdgpu_compute_test.cpp\<close>, \<^verbatim>\<open>amdgpu_memory_test.cpp\<close>): queues,
    dispatches, the tests.
  \<^item> \<open>Client_Lifecycle\<close>, \<open>Client_Submission\<close>, \<open>Buffers\<close>, \<open>Software_Stats\<close>, \<open>Software_Monitor\<close> and
    \<open>Software_Monitor_Properties\<close> (\<^verbatim>\<open>amdgpu_client_lifecycle.h\<close>, \<^verbatim>\<open>amdgpu_shared_buffers.h\<close>,
    \<^verbatim>\<open>amdgpu_buffer_io.h\<close>, \<^verbatim>\<open>amdgpu_software_stats.h\<close>, parts of \<^verbatim>\<open>MacAMDGPU.cpp\<close>): who may use the device, raw
    submissions, exported buffers, the counters.
  \<^item> \<open>Ucode\<close>, \<open>Ucode_Properties\<close> (\<^verbatim>\<open>amdgpu_ucode_psp.h\<close>, \<^verbatim>\<open>amdgpu_ucode_extract.cpp\<close>), \<open>Psp\<close>, \<open>Psp_Ring\<close>, \<open>Psp_Package\<close>,
    \<open>Psp_Properties\<close> (\<^verbatim>\<open>psp_v14_0.cpp\<close>): firmware files, the security processor, its ring and its package.
  \<^item> \<open>Bringup\<close>, \<open>Bringup_Properties\<close>, \<open>Returns\<close>, \<open>Bringup_Returns\<close> (\<^verbatim>\<open>amdgpu_init.cpp\<close>), \<open>Driver_Open\<close>,
    \<open>Firmware_Load\<close> (\<^verbatim>\<open>MacAMDGPU.cpp\<close>): the stages and their loop, which run in order and return while the clock
    runs, the release, the opening of the device, the two calls that drive it all.

  \<^bold>\<open>How the code is modelled.\<close> A class or struct is a record, an in-out reference a value returned updated, a machine
  integer a word of its width. The device, DriverKit's buffers and DMA commands, configuration space, memory shared
  with the device and host memory are parameters (\<open>pci\<close>, \<open>os\<close>, \<open>psp_os\<close>, \<open>hostmem\<close>, \<open>config_space\<close>, \<open>pci_services\<close>,
  \<open>host_bytes\<close>) that act on an abstract state \<open>'d\<close>; the laws some properties need of them (reads see the last write,
  waiting leaves memory alone, the registers of a hub's translation contexts keep what is written) are named hypotheses, shown to hold of the device \<open>ram_dev\<close>, memory with a clock. An
  operation that waits has type \<open>outcome\<close>: \<open>None\<close> is a wait that never ends or a read outside the bytes of a buffer,
  \<open>Some\<close> carries the result code and the new state. Loops with a deadline are \<open>partial_function (option)\<close>; \<open>clock_runs\<close>,
  a clock that advances with every sleep and never by more than about eighteen minutes in one step, makes them return.
  Other loops are structural or have a measure. The only fuel are the source's own bounds: 128 reservations, 64
  descriptors, 48 capabilities, one turn of a ring.

  \<^bold>\<open>What is shown.\<close> The allocators refine their specifications and never hand out overlapping ranges; a ready GART
  binding was in the page table before both hubs flushed and acknowledged it, and an error never gives a range back that the GPU may
  still use; whatever the bytes of the discovery binary, a firmware file or the security processor's package, the
  parsers stay inside them and what they publish is inside; a message to the scheduler is the image of its C++ struct,
  submissions are published only when their words are in memory, an unseen completion latches the queue, waits return, and a block the hardware may still refer to is kept; the stages run in order, a failure
  stops them, and a call for initialisation returns; client attachment, shared buffers and counters keep their invariants over any history.

  \<^bold>\<open>What is not modelled.\<close> Log lines, but for the register reads they make; the remaining selectors of the user client,
  with the object table, memory mapping and interrupt delivery of DriverKit, which are glue; the HSA runtime under
  \<^verbatim>\<open>src/hsa/\<close>, the monitor and the other tools, which are user processes; the Swift host application, tests and
  scripts. The steps of different clients are serialised by the driver's queue, so that operations are atomic here; a
  client that changes its buffer during a call that reads it is not modelled.
\<close>

end
